(* ===== verification/Go_Prelude.thy ===== *)
theory Go_Prelude
  imports Main "HOL-Library.AList" "HOL-Library.List_Lexorder" "HOL-Library.Char_ord"
begin

text \<open>
  What the Go sources use of the language and of the packages \<open>strings\<close>, \<open>sort\<close> and
  \<open>k8s.io/apimachinery/pkg/util/sets\<close>, shared by every component.

  \<^item> A Go string is a byte sequence, here a \<^typ>\<open>string\<close> (list of bytes). Comparison is
    byte-wise lexicographic, as Go's \<open><\<close> on strings.
  \<^item> A Go map with string keys is an association list with distinct keys (\<open>wf_gomap\<close>). Its
    order stands for one iteration order of the map, which Go leaves unspecified; where the
    code sorts the keys first the model sorts too, so the result does not depend on it.
  \<^item> A run-time panic (index out of range, nil dereference) is \<^term>\<open>None\<close> of a result of
    option type.
\<close>

named_theorems gomap_simps "rewriting rules for Go maps"
named_theorems wf_intros "introduction rules for the well-formedness of Go maps"

section \<open>Go maps with string keys\<close>

type_synonym 'v gomap = "(string \<times> 'v) list"

abbreviation gget :: "'v gomap \<Rightarrow> string \<Rightarrow> 'v option" where
  "gget m k \<equiv> map_of m k"

definition gput :: "string \<Rightarrow> 'v \<Rightarrow> 'v gomap \<Rightarrow> 'v gomap" where
  "gput k v m = AList.update k v m"

definition gdel :: "string \<Rightarrow> 'v gomap \<Rightarrow> 'v gomap" where
  "gdel k m = AList.delete k m"

definition ghas :: "'v gomap \<Rightarrow> string \<Rightarrow> bool" where
  "ghas m k = (map_of m k \<noteq> None)"

definition gkeys :: "'v gomap \<Rightarrow> string set" where
  "gkeys m = fst ` set m"

definition wf_gomap :: "'v gomap \<Rightarrow> bool" where
  "wf_gomap m = distinct (map fst m)"

text \<open>A slice that may be nil, ranged over: a nil slice has no elements.\<close>

definition sliceOf :: "'a list option \<Rightarrow> 'a list" where
  "sliceOf s = (case s of None \<Rightarrow> [] | Some xs \<Rightarrow> xs)"

lemma sliceOf_simps [simp]: "sliceOf None = []" "sliceOf (Some xs) = xs"
  by (simp_all add: sliceOf_def)

text \<open>Every \<open>getSorted...Keys\<close> helper of the code: collect the keys, then \<open>sort.Strings\<close>.\<close>

definition sortedKeys :: "'v gomap \<Rightarrow> string list" where
  "sortedKeys m = sort (map fst m)"

lemma gget_gput [simp, gomap_simps]: "gget (gput k v m) k' = (if k' = k then Some v else gget m k')"
  by (simp add: gput_def update_conv')

lemma gget_gdel [simp, gomap_simps]: "gget (gdel k m) k' = (if k' = k then None else gget m k')"
  by (simp add: gdel_def delete_conv')

lemma gkeys_gput [simp, gomap_simps]: "gkeys (gput k v m) = insert k (gkeys m)"
  by (simp add: gkeys_def gput_def dom_map_of_conv_image_fst [symmetric] update_conv')

lemma gkeys_gdel [simp, gomap_simps]: "gkeys (gdel k m) = gkeys m - {k}"
  by (auto simp: gkeys_def gdel_def dom_map_of_conv_image_fst [symmetric] delete_conv' split: if_splits)

lemma ghas_iff [gomap_simps]: "ghas m k \<longleftrightarrow> k \<in> gkeys m"
  by (auto simp: ghas_def gkeys_def map_of_eq_None_iff)

lemma gget_None_iff [gomap_simps]: "gget m k = None \<longleftrightarrow> k \<notin> gkeys m"
  by (simp add: gkeys_def map_of_eq_None_iff)

lemma gget_in_keys: "gget m k = Some v \<Longrightarrow> k \<in> gkeys m"
  by (metis gget_None_iff option.distinct(1))

lemma in_keys_gget: "k \<in> gkeys m \<Longrightarrow> \<exists>v. gget m k = Some v"
  by (metis gget_None_iff option.exhaust)

lemma gkeys_Nil [simp]: "gkeys [] = {}"
  by (simp add: gkeys_def)

lemma gkeys_Cons [simp]: "gkeys (p # m) = insert (fst p) (gkeys m)"
  by (simp add: gkeys_def)

lemma gkeys_append [simp]: "gkeys (xs @ ys) = gkeys xs \<union> gkeys ys"
  by (auto simp: gkeys_def)

lemma wf_gomap_Nil [simp, wf_intros]: "wf_gomap []"
  by (simp add: wf_gomap_def)

lemma wf_gomap_gput [simp, wf_intros]: "wf_gomap m \<Longrightarrow> wf_gomap (gput k v m)"
  by (simp add: wf_gomap_def gput_def distinct_update)

lemma wf_gomap_gdel [simp, wf_intros]: "wf_gomap m \<Longrightarrow> wf_gomap (gdel k m)"
  by (simp add: wf_gomap_def gdel_def distinct_delete)

lemma wf_gomap_in_set: "wf_gomap m \<Longrightarrow> (k, v) \<in> set m \<longleftrightarrow> gget m k = Some v"
  by (simp add: wf_gomap_def)

lemma set_sortedKeys [simp]: "set (sortedKeys m) = gkeys m"
  by (simp add: sortedKeys_def gkeys_def)

lemma distinct_sortedKeys [simp]: "wf_gomap m \<Longrightarrow> distinct (sortedKeys m)"
  by (simp add: sortedKeys_def wf_gomap_def)

lemma sorted_sortedKeys [simp]: "sorted (sortedKeys m)"
  by (simp add: sortedKeys_def)

text \<open>The sorted keys of two maps with the same key set agree: iteration order is irrelevant.\<close>

lemma sortedKeys_cong: "wf_gomap m \<Longrightarrow> wf_gomap m' \<Longrightarrow> gkeys m = gkeys m' \<Longrightarrow> sortedKeys m = sortedKeys m'"
  by (rule sorted_distinct_set_unique) simp_all

section \<open>Package strings\<close>

definition hasPrefix :: "string \<Rightarrow> string \<Rightarrow> bool" where
  "hasPrefix s p = (take (length p) s = p)"

definition hasSuffix :: "string \<Rightarrow> string \<Rightarrow> bool" where
  "hasSuffix s p = (length p \<le> length s \<and> drop (length s - length p) s = p)"

fun containsStr :: "string \<Rightarrow> string \<Rightarrow> bool" where
  "containsStr [] p = (p = [])"
| "containsStr (c # s) p = (hasPrefix (c # s) p \<or> containsStr s p)"

definition trimPrefix :: "string \<Rightarrow> string \<Rightarrow> string" where
  "trimPrefix s p = (if hasPrefix s p then drop (length p) s else s)"

text \<open>\<open>strings.Split\<close> with a one-byte separator: always at least one part.\<close>

fun splitOn :: "char \<Rightarrow> string \<Rightarrow> string list" where
  "splitOn c [] = [[]]"
| "splitOn c (x # xs) =
     (if x = c then [] # splitOn c xs
      else (case splitOn c xs of [] \<Rightarrow> [[x]] | p # ps \<Rightarrow> (x # p) # ps))"

text \<open>\<open>strings.SplitN(s, c, n)\<close> for positive \<open>n\<close>: at most \<open>n\<close> parts, the last unsplit.\<close>

fun splitOnN :: "char \<Rightarrow> nat \<Rightarrow> string \<Rightarrow> string list" where
  "splitOnN c n [] = (if n = 0 then [] else [[]])"
| "splitOnN c n (x # xs) =
     (if n = 0 then []
      else if n = 1 then [x # xs]
      else if x = c then [] # splitOnN c (n - 1) xs
      else (case splitOnN c n xs of [] \<Rightarrow> [[x]] | p # ps \<Rightarrow> (x # p) # ps))"

fun joinStr :: "string \<Rightarrow> string list \<Rightarrow> string" where
  "joinStr sep [] = []"
| "joinStr sep [x] = x"
| "joinStr sep (x # y # xs) = x @ sep @ joinStr sep (y # xs)"

definition replaceChar :: "char \<Rightarrow> char \<Rightarrow> string \<Rightarrow> string" where
  "replaceChar a b s = map (\<lambda>c. if c = a then b else c) s"

lemma splitOn_not_Nil [simp]: "splitOn c s \<noteq> []"
  by (induction s) (auto split: list.splits)

lemma length_splitOn_pos [simp]: "0 < length (splitOn c s)"
  using splitOn_not_Nil [of c s] by simp

text \<open>Splitting and joining with the same separator is the identity.\<close>

lemma joinStr_Cons: "xs \<noteq> [] \<Longrightarrow> joinStr sep (x # xs) = x @ sep @ joinStr sep xs"
  by (cases xs) auto

lemma joinStr_head: "joinStr sep ((c # p) # ps) = c # joinStr sep (p # ps)"
  by (cases ps) auto

lemma join_splitOn: "joinStr [c] (splitOn c s) = s"
proof (induction s)
  case Nil
  then show ?case by simp
next
  case (Cons x xs)
  obtain p ps where ps: "splitOn c xs = p # ps"
    by (meson splitOn_not_Nil neq_Nil_conv)
  show ?case
  proof (cases "x = c")
    case True
    then show ?thesis using Cons.IH by (simp add: joinStr_Cons)
  next
    case False
    then show ?thesis using Cons.IH ps by (simp add: joinStr_head)
  qed
qed

lemma splitOn_no_sep: "p \<in> set (splitOn c s) \<Longrightarrow> c \<notin> set p"
proof (induction s arbitrary: p)
  case Nil
  then show ?case by simp
next
  case (Cons x xs)
  obtain q qs where qs: "splitOn c xs = q # qs"
    by (meson splitOn_not_Nil neq_Nil_conv)
  with Cons show ?case by (auto split: if_splits)
qed

lemma splitOn_id: "c \<notin> set s \<Longrightarrow> splitOn c s = [s]"
  by (induction s) auto

lemma splitOn_append: "c \<notin> set a \<Longrightarrow> splitOn c (a @ c # b) = a # splitOn c b"
  by (induction a) auto

lemma splitOn_single_iff: "splitOn c s = [p] \<longleftrightarrow> p = s \<and> c \<notin> set s"
  by (metis join_splitOn joinStr.simps(2) list.set_intros(1) splitOn_id splitOn_no_sep)

lemma length_splitOn: "length (splitOn c s) = Suc (count_list s c)"
proof (induction s)
  case Nil
  then show ?case by simp
next
  case (Cons x xs)
  obtain q qs where qs: "splitOn c xs = q # qs"
    by (meson splitOn_not_Nil neq_Nil_conv)
  with Cons show ?case by auto
qed

subsection \<open>White space\<close>

text \<open>
  The white-space runes of \<open>unicode.IsSpace\<close>, as their UTF-8 byte sequences: the ASCII ones
  and U+0085, U+00A0, U+1680, U+2000..U+200A, U+2028, U+2029, U+202F, U+205F, U+3000.
\<close>

definition asciiSpace :: "char \<Rightarrow> bool" where
  "asciiSpace c = (c \<in> {CHR 0x09, CHR 0x0A, CHR 0x0B, CHR 0x0C, CHR 0x0D, CHR 0x20})"

definition multiByteSpaces :: "string list" where
  "multiByteSpaces =
     [[CHR 0xC2, CHR 0x85], [CHR 0xC2, CHR 0xA0], [CHR 0xE1, CHR 0x9A, CHR 0x80],
      [CHR 0xE2, CHR 0x80, CHR 0x80], [CHR 0xE2, CHR 0x80, CHR 0x81], [CHR 0xE2, CHR 0x80, CHR 0x82],
      [CHR 0xE2, CHR 0x80, CHR 0x83], [CHR 0xE2, CHR 0x80, CHR 0x84], [CHR 0xE2, CHR 0x80, CHR 0x85],
      [CHR 0xE2, CHR 0x80, CHR 0x86], [CHR 0xE2, CHR 0x80, CHR 0x87], [CHR 0xE2, CHR 0x80, CHR 0x88],
      [CHR 0xE2, CHR 0x80, CHR 0x89], [CHR 0xE2, CHR 0x80, CHR 0x8A], [CHR 0xE2, CHR 0x80, CHR 0xA8],
      [CHR 0xE2, CHR 0x80, CHR 0xA9], [CHR 0xE2, CHR 0x80, CHR 0xAF], [CHR 0xE2, CHR 0x81, CHR 0x9F],
      [CHR 0xE3, CHR 0x80, CHR 0x80]]"

text \<open>The number of bytes of the white-space rune a string starts with (0 if it does not).\<close>

definition spaceLen :: "string list \<Rightarrow> string \<Rightarrow> nat" where
  "spaceLen multi s =
     (case s of
        [] \<Rightarrow> 0
      | c # _ \<Rightarrow>
          (if asciiSpace c then 1
           else case find (hasPrefix s) multi of None \<Rightarrow> 0 | Some w \<Rightarrow> length w))"

function trimLeftWith :: "string list \<Rightarrow> string \<Rightarrow> string" where
  "trimLeftWith multi s = (if spaceLen multi s = 0 then s else trimLeftWith multi (drop (spaceLen multi s) s))"
  by pat_completeness auto
termination
proof (relation "measure (\<lambda>(multi, s). length s)")
  fix multi s
  assume "spaceLen multi s \<noteq> 0"
  then have "s \<noteq> []" by (auto simp: spaceLen_def)
  with \<open>spaceLen multi s \<noteq> 0\<close> show "((multi, drop (spaceLen multi s) s), multi, s) \<in> measure (\<lambda>(multi, s). length s)"
    by (cases s) auto
qed simp

declare trimLeftWith.simps [simp del]

definition trimSpace :: "string \<Rightarrow> string" where
  "trimSpace s =
     rev (trimLeftWith (map rev multiByteSpaces) (rev (trimLeftWith multiByteSpaces s)))"

lemma trimLeftWith_suffix: "\<exists>p. s = p @ trimLeftWith multi s"
proof (induction multi s rule: trimLeftWith.induct)
  case (1 multi s)
  show ?case
  proof (cases "spaceLen multi s = 0")
    case True
    then show ?thesis by (simp add: trimLeftWith.simps [of multi s])
  next
    case False
    with "1.IH" obtain p where "drop (spaceLen multi s) s = p @ trimLeftWith multi (drop (spaceLen multi s) s)"
      by blast
    then have "s = (take (spaceLen multi s) s @ p) @ trimLeftWith multi (drop (spaceLen multi s) s)"
      by (metis append.assoc append_take_drop_id)
    with False show ?thesis by (metis trimLeftWith.simps)
  qed
qed

text \<open>The trimmed string is a factor of the string it comes from.\<close>

lemma trimSpace_factor: "\<exists>p q. s = p @ trimSpace s @ q"
proof -
  obtain p where p: "s = p @ trimLeftWith multiByteSpaces s"
    using trimLeftWith_suffix by blast
  obtain q where q: "rev (trimLeftWith multiByteSpaces s)
      = q @ trimLeftWith (map rev multiByteSpaces) (rev (trimLeftWith multiByteSpaces s))"
    using trimLeftWith_suffix by blast
  then have "trimLeftWith multiByteSpaces s = trimSpace s @ rev q"
    unfolding trimSpace_def by (metis rev_append rev_rev_ident)
  with p have "s = p @ trimSpace s @ rev q" by metis
  then show ?thesis by blast
qed

lemma set_trimSpace: "set (trimSpace s) \<subseteq> set s"
  by (metis trimSpace_factor le_sup_iff set_append sup.cobounded1 sup_ge2 order_refl)

text \<open>\<open>strings.Fields\<close>: the maximal runs of bytes that start no white-space rune.\<close>

function fieldsAcc :: "string \<Rightarrow> string \<Rightarrow> string list" where
  "fieldsAcc acc s =
     (case s of
        [] \<Rightarrow> (if acc = [] then [] else [rev acc])
      | c # cs \<Rightarrow>
          (if spaceLen multiByteSpaces s = 0 then fieldsAcc (c # acc) cs
           else (if acc = [] then [] else [rev acc]) @ fieldsAcc [] (drop (spaceLen multiByteSpaces s) s)))"
  by pat_completeness auto
termination
  by (relation "measure (\<lambda>(acc, s). length s)") auto

declare fieldsAcc.simps [simp del]

definition fieldsStr :: "string \<Rightarrow> string list" where
  "fieldsStr s = fieldsAcc [] s"

section \<open>Lists and options\<close>

text \<open>A Go slice index: out of range is a panic.\<close>

definition nthOpt :: "'a list \<Rightarrow> nat \<Rightarrow> 'a option" where
  "nthOpt xs i = (if i < length xs then Some (xs ! i) else None)"

lemma nthOpt_0 [simp]: "nthOpt (x # xs) 0 = Some x" "nthOpt [] i = None"
  by (simp_all add: nthOpt_def)

lemma nthOpt_Some_iff: "nthOpt xs i = Some x \<longleftrightarrow> i < length xs \<and> xs ! i = x"
  by (auto simp: nthOpt_def)

text \<open>Monadic map: the first panic ends the loop.\<close>

fun mapOpt :: "('a \<Rightarrow> 'b option) \<Rightarrow> 'a list \<Rightarrow> 'b list option" where
  "mapOpt f [] = Some []"
| "mapOpt f (x # xs) =
     (case f x of None \<Rightarrow> None
      | Some y \<Rightarrow> (case mapOpt f xs of None \<Rightarrow> None | Some ys \<Rightarrow> Some (y # ys)))"

fun foldOpt :: "('a \<Rightarrow> 's \<Rightarrow> 's option) \<Rightarrow> 'a list \<Rightarrow> 's \<Rightarrow> 's option" where
  "foldOpt f [] s = Some s"
| "foldOpt f (x # xs) s = (case f x s of None \<Rightarrow> None | Some s' \<Rightarrow> foldOpt f xs s')"

lemma foldOpt_append: "foldOpt f (xs @ ys) s = (case foldOpt f xs s of None \<Rightarrow> None | Some s' \<Rightarrow> foldOpt f ys s')"
  by (induction xs arbitrary: s) (auto split: option.splits)

text \<open>An invariant that every step keeps, and under which no step panics, makes the loop total.\<close>

lemma foldOpt_total:
  assumes step: "\<And>x s. x \<in> set xs \<Longrightarrow> P s \<Longrightarrow> \<exists>s'. f x s = Some s' \<and> P s'"
    and init: "P s"
  shows "\<exists>s'. foldOpt f xs s = Some s' \<and> P s'"
  using assms
proof (induction xs arbitrary: s)
  case Nil
  then show ?case by simp
next
  case (Cons x xs)
  obtain s1 where s1: "f x s = Some s1" "P s1"
    using Cons.prems by (meson list.set_intros(1))
  have "\<exists>s'. foldOpt f xs s1 = Some s' \<and> P s'"
    by (rule Cons.IH) (auto intro: Cons.prems(1) s1(2))
  with s1 show ?case by simp
qed

lemma foldOpt_invariant:
  assumes step: "\<And>x s s'. x \<in> set xs \<Longrightarrow> P s \<Longrightarrow> f x s = Some s' \<Longrightarrow> P s'"
    and init: "P s" and res: "foldOpt f xs s = Some s'"
  shows "P s'"
  using assms
proof (induction xs arbitrary: s)
  case Nil
  then show ?case by simp
next
  case (Cons x xs)
  then obtain s1 where s1: "f x s = Some s1" "foldOpt f xs s1 = Some s'"
    by (auto split: option.splits)
  have "P s1"
    using Cons.prems(1) [of x s s1] Cons.prems(2) s1(1) by simp
  moreover have "\<And>y t t'. y \<in> set xs \<Longrightarrow> P t \<Longrightarrow> f y t = Some t' \<Longrightarrow> P t'"
    using Cons.prems(1) by (meson list.set_intros(2))
  ultimately show ?case
    using Cons.IH [of s1] s1(2) by blast
qed

lemma fold_invariant_set:
  assumes "\<And>x s. x \<in> set xs \<Longrightarrow> P s \<Longrightarrow> P (f x s)" and "P s"
  shows "P (fold f xs s)"
  using assms by (induction xs arbitrary: s) auto

text \<open>
  A loop over entries with distinct keys: the invariant may speak of the keys seen so far and of
  what the entries have contributed.
\<close>

lemma foldOpt_collect:
  assumes step: "\<And>x s P C. x \<in> set xs \<Longrightarrow> kf x \<notin> P \<Longrightarrow> I P C s
      \<Longrightarrow> \<exists>s'. f x s = Some s' \<and> I (insert (kf x) P) (C \<union> K x) s'"
    and "distinct (map kf xs)" and "kf ` set xs \<inter> P = {}" and "I P C s"
  shows "\<exists>s'. foldOpt f xs s = Some s' \<and> I (P \<union> kf ` set xs) (C \<union> (\<Union>x\<in>set xs. K x)) s'"
  using assms
proof (induction xs arbitrary: P C s)
  case Nil
  then show ?case by simp
next
  case (Cons x xs)
  obtain s1 where s1: "f x s = Some s1" "I (insert (kf x) P) (C \<union> K x) s1"
    using Cons.prems(1) [of x P C s] Cons.prems(3,4) by auto
  have "\<exists>s'. foldOpt f xs s1 = Some s'
      \<and> I (insert (kf x) P \<union> kf ` set xs) ((C \<union> K x) \<union> (\<Union>x\<in>set xs. K x)) s'"
    by (rule Cons.IH) (use Cons.prems s1(2) in auto)
  with s1(1) show ?case by (simp add: Un_assoc)
qed

text \<open>Mapping the values of a map, when the function may panic.\<close>

lemma mapOpt_values:
  assumes "mapOpt (\<lambda>(k, v). map_option (Pair k) (f v)) m = Some m'"
  shows "map fst m' = map fst m \<and> (\<forall>k. gget m' k = (case gget m k of None \<Rightarrow> None | Some v \<Rightarrow> f v))"
  using assms
proof (induction m arbitrary: m')
  case Nil
  then show ?case by simp
next
  case (Cons p m)
  obtain k0 v0 where p: "p = (k0, v0)" by (cases p)
  with Cons.prems obtain w ms where "f v0 = Some w" "m' = (k0, w) # ms"
      "mapOpt (\<lambda>(k, v). map_option (Pair k) (f v)) m = Some ms"
    by (auto split: option.splits)
  with Cons.IH [of ms] p show ?case by auto
qed

lemma mapOpt_values_total:
  assumes "\<And>k v. (k, v) \<in> set m \<Longrightarrow> f v \<noteq> None"
  shows "\<exists>m'. mapOpt (\<lambda>(k, v). map_option (Pair k) (f v)) m = Some m'"
  using assms
proof (induction m)
  case Nil
  then show ?case by simp
next
  case (Cons p m)
  obtain k0 v0 where p: "p = (k0, v0)" by (cases p)
  then obtain w where "f v0 = Some w" using Cons.prems by force
  moreover obtain ms where "mapOpt (\<lambda>(k, v). map_option (Pair k) (f v)) m = Some ms"
    using Cons by (meson list.set_intros(2))
  ultimately show ?case using p by simp
qed

text \<open>A loop that records at most one entry per element.\<close>

lemma gkeys_record:
  "gkeys (if Q x then gput (K x) v m else m) = gkeys m \<union> K ` {y \<in> {x}. Q y}"
  by auto

lemma foldOpt_gput:
  assumes "\<And>x m. x \<in> set xs \<Longrightarrow> f x m = Some (if Q x then gput (K x) (V x) m else m)"
  shows "\<exists>m'. foldOpt f xs m = Some m' \<and> gkeys m' = gkeys m \<union> K ` {x \<in> set xs. Q x} \<and> (wf_gomap m \<longrightarrow> wf_gomap m')"
  using assms
proof (induction xs arbitrary: m)
  case Nil
  then show ?case by simp
next
  case (Cons x xs)
  let ?m = "if Q x then gput (K x) (V x) m else m"
  have "\<exists>m'. foldOpt f xs ?m = Some m' \<and> gkeys m' = gkeys ?m \<union> K ` {x \<in> set xs. Q x} \<and> (wf_gomap ?m \<longrightarrow> wf_gomap m')"
    by (rule Cons.IH) (simp add: Cons.prems)
  then obtain m' where m': "foldOpt f xs ?m = Some m'" "gkeys m' = gkeys ?m \<union> K ` {x \<in> set xs. Q x}"
      "wf_gomap ?m \<longrightarrow> wf_gomap m'" by blast
  have "gkeys m' = gkeys m \<union> K ` {y \<in> set (x # xs). Q y}"
    unfolding m'(2) gkeys_record by auto
  moreover have "f x m = Some ?m" by (rule Cons.prems) simp
  moreover have "wf_gomap m \<longrightarrow> wf_gomap m'" using m'(3) by simp
  ultimately show ?case using m'(1) by simp
qed

lemma fold_gput:
  assumes "\<And>x m. x \<in> set xs \<Longrightarrow> f x m = (if Q x then gput (K x) (V x) m else m)"
  shows "gkeys (fold f xs m) = gkeys m \<union> K ` {x \<in> set xs. Q x} \<and> (wf_gomap m \<longrightarrow> wf_gomap (fold f xs m))"
proof -
  have "foldOpt (\<lambda>x m. Some (f x m)) ys m = Some (fold f ys m)" for ys
    by (induction ys arbitrary: m) auto
  then show ?thesis
    using foldOpt_gput [of xs "\<lambda>x m. Some (f x m)" Q K V m] assms by auto
qed

end
