(* ===== verification/Go_Regex.thy ===== *)
theory Go_Regex
  imports Go_Prelude
begin

text \<open>
  The fragment of Go's package \<open>regexp\<close> that the sources use, as regular expressions over
  bytes. The matcher enumerates the ways to match in priority order, which is how Go's
  leftmost-first semantics chooses submatches: for an expression anchored at both ends the
  match is the first of the list that uses up the input. The repeated expressions of the
  sources never match the empty string; an iteration that consumes nothing is dropped here.

  \<open>lang\<close> is the language an expression denotes; \<open>match_lang\<close> shows that the matcher decides
  it, so the validators can be reasoned about without looking at the matcher.
\<close>

datatype re =
    Eps
  | Cls "char \<Rightarrow> bool"     \<comment> \<open>one byte of a class\<close>
  | Seq re re
  | Alt re re
  | Star re                \<comment> \<open>greedy\<close>
  | Opt re                 \<comment> \<open>greedy, one optional occurrence\<close>
  | OptLazy re             \<comment> \<open>the lazy variant, which first tries no occurrence\<close>
  | Grp nat re             \<comment> \<open>a capturing group\<close>

definition Plus :: "re \<Rightarrow> re" where
  "Plus r = Seq r (Star r)"

fun Lit :: "string \<Rightarrow> re" where
  "Lit [] = Eps"
| "Lit (c # cs) = Seq (Cls (\<lambda>x. x = c)) (Lit cs)"

fun Seqs :: "re list \<Rightarrow> re" where
  "Seqs [] = Eps"
| "Seqs (r # rs) = Seq r (Seqs rs)"

section \<open>Byte classes\<close>

definition inRange :: "char \<Rightarrow> char \<Rightarrow> char \<Rightarrow> bool" where
  "inRange lo hi c = (of_char lo \<le> (of_char c :: nat) \<and> (of_char c :: nat) \<le> of_char hi)"

definition isDigit :: "char \<Rightarrow> bool" where
  "isDigit c = inRange (CHR ''0'') (CHR ''9'') c"

definition isLower :: "char \<Rightarrow> bool" where
  "isLower c = inRange (CHR ''a'') (CHR ''z'') c"

definition isUpper :: "char \<Rightarrow> bool" where
  "isUpper c = inRange (CHR ''A'') (CHR ''Z'') c"

definition isAlnum :: "char \<Rightarrow> bool" where
  "isAlnum c = (isDigit c \<or> isLower c \<or> isUpper c)"

text \<open>The class \<open>\s\<close> (without the vertical tab), the class \<open>.\<close>, and the word bytes of \<open>\b\<close>.\<close>

definition reSpace :: "char \<Rightarrow> bool" where
  "reSpace c = (c \<in> {CHR 0x09, CHR 0x0A, CHR 0x0C, CHR 0x0D, CHR 0x20})"

definition reAny :: "char \<Rightarrow> bool" where
  "reAny c = (c \<noteq> CHR 0x0A)"

definition isWord :: "char \<Rightarrow> bool" where
  "isWord c = (isAlnum c \<or> c = CHR ''_'')"

lemmas byte_classes = inRange_def isDigit_def isLower_def isUpper_def isAlnum_def reSpace_def reAny_def isWord_def

section \<open>The matcher\<close>

text \<open>A state: what is left of the input and the submatches captured so far.\<close>

type_synonym mstate = "string \<times> (nat \<times> string) list"

fun iterate :: "(mstate \<Rightarrow> mstate list) \<Rightarrow> nat \<Rightarrow> mstate \<Rightarrow> mstate list" where
  "iterate f 0 st = [st]"
| "iterate f (Suc n) st =
     concat (map (iterate f n) (filter (\<lambda>st'. length (fst st') < length (fst st)) (f st))) @ [st]"

fun matches :: "re \<Rightarrow> mstate \<Rightarrow> mstate list" where
  "matches Eps st = [st]"
| "matches (Cls p) st =
     (case fst st of [] \<Rightarrow> [] | c # cs \<Rightarrow> if p c then [(cs, snd st)] else [])"
| "matches (Seq a b) st = concat (map (matches b) (matches a st))"
| "matches (Alt a b) st = matches a st @ matches b st"
| "matches (Star a) st = iterate (matches a) (length (fst st)) st"
| "matches (Opt a) st = matches a st @ [st]"
| "matches (OptLazy a) st = st # matches a st"
| "matches (Grp i a) st =
     map (\<lambda>st'. (fst st', (i, take (length (fst st) - length (fst st')) (fst st)) # snd st')) (matches a st)"

text \<open>\<open>^r$\<close>: \<open>MatchString\<close> and \<open>FindStringSubmatch\<close> (the missing groups are empty).\<close>

definition matchString :: "re \<Rightarrow> string \<Rightarrow> bool" where
  "matchString r s = list_ex (\<lambda>st. fst st = []) (matches r (s, []))"

definition findSubmatch :: "re \<Rightarrow> string \<Rightarrow> (nat \<times> string) list option" where
  "findSubmatch r s = map_option snd (find (\<lambda>st. fst st = []) (matches r (s, [])))"

definition group :: "(nat \<times> string) list \<Rightarrow> nat \<Rightarrow> string" where
  "group caps i = (case map_of caps i of None \<Rightarrow> [] | Some w \<Rightarrow> w)"

text \<open>An unanchored search \<open>r\b\<close>: some suffix starts with a match that ends at a word boundary.\<close>

fun lastByte :: "char option \<Rightarrow> string \<Rightarrow> char option" where
  "lastByte p [] = p"
| "lastByte p (c # cs) = lastByte (Some c) cs"

definition atBoundary :: "char option \<Rightarrow> string \<Rightarrow> bool" where
  "atBoundary prev rest =
     ((case prev of None \<Rightarrow> False | Some c \<Rightarrow> isWord c) \<noteq> (case rest of [] \<Rightarrow> False | c # _ \<Rightarrow> isWord c))"

fun searchWordEnd :: "re \<Rightarrow> char option \<Rightarrow> string \<Rightarrow> bool" where
  "searchWordEnd r prev s =
     (list_ex (\<lambda>st. atBoundary (lastByte prev (take (length s - length (fst st)) s)) (fst st)) (matches r (s, []))
      \<or> (case s of [] \<Rightarrow> False | c # cs \<Rightarrow> searchWordEnd r (Some c) cs))"

section \<open>The language of an expression\<close>

inductive_set starLang :: "string set \<Rightarrow> string set" for A where
  Nil: "[] \<in> starLang A"
| Cons: "u \<in> A \<Longrightarrow> v \<in> starLang A \<Longrightarrow> u @ v \<in> starLang A"

fun lang :: "re \<Rightarrow> string set" where
  "lang Eps = {[]}"
| "lang (Cls p) = {[c] | c. p c}"
| "lang (Seq a b) = {u @ v | u v. u \<in> lang a \<and> v \<in> lang b}"
| "lang (Alt a b) = lang a \<union> lang b"
| "lang (Star a) = starLang (lang a)"
| "lang (Opt a) = lang a \<union> {[]}"
| "lang (OptLazy a) = lang a \<union> {[]}"
| "lang (Grp i a) = lang a"

text \<open>Soundness: what the matcher consumes is in the language.\<close>

lemma iterate_sound:
  assumes f: "\<And>st st'. st' \<in> set (f st) \<Longrightarrow> \<exists>u. fst st = u @ fst st' \<and> u \<in> A"
  shows "st' \<in> set (iterate f n st) \<Longrightarrow> \<exists>u. fst st = u @ fst st' \<and> u \<in> starLang A"
proof (induction n arbitrary: st)
  case 0
  then show ?case by (auto intro: starLang.Nil)
next
  case (Suc n)
  from Suc.prems consider (stop) "st' = st"
    | (more) st1 where "st1 \<in> set (f st)" "st' \<in> set (iterate f n st1)"
    by auto
  then show ?case
  proof cases
    case stop
    then show ?thesis by (auto intro: starLang.Nil)
  next
    case more
    obtain u where u: "fst st = u @ fst st1" "u \<in> A" using f [OF more(1)] by blast
    obtain v where v: "fst st1 = v @ fst st'" "v \<in> starLang A" using Suc.IH [OF more(2)] by blast
    have "fst st = (u @ v) @ fst st'" using u v by simp
    moreover have "u @ v \<in> starLang A" using u(2) v(2) by (rule starLang.Cons)
    ultimately show ?thesis by blast
  qed
qed

lemma matches_sound: "st' \<in> set (matches r st) \<Longrightarrow> \<exists>u. fst st = u @ fst st' \<and> u \<in> lang r"
proof (induction r arbitrary: st st')
  case (Cls p)
  then show ?case by (cases st) (auto split: list.splits if_splits)
next
  case (Seq a b)
  then obtain st1 where st1: "st1 \<in> set (matches a st)" "st' \<in> set (matches b st1)" by auto
  obtain u where "fst st = u @ fst st1" "u \<in> lang a" using Seq.IH(1) [OF st1(1)] by blast
  moreover obtain v where "fst st1 = v @ fst st'" "v \<in> lang b" using Seq.IH(2) [OF st1(2)] by blast
  ultimately have "fst st = (u @ v) @ fst st' \<and> u @ v \<in> lang (Seq a b)" by auto
  then show ?case by blast
next
  case (Star a)
  then show ?case using iterate_sound [of "matches a" "lang a"] by simp
qed fastforce+

text \<open>Completeness: every word of the language that the input starts with is consumed by some match.\<close>

lemma iterate_step:
  "st1 \<in> set (f st) \<Longrightarrow> length (fst st1) < length (fst st) \<Longrightarrow> r \<in> set (iterate f m st1) \<Longrightarrow>
    r \<in> set (iterate f (Suc m) st)"
  by (simp del: split_paired_Ex) blast

lemma iterate_complete:
  assumes f: "\<And>u s caps. u \<in> A \<Longrightarrow> \<exists>caps'. (s, caps') \<in> set (f (u @ s, caps))"
  shows "u \<in> starLang A \<Longrightarrow> length (u @ s) \<le> n \<Longrightarrow> \<exists>caps'. (s, caps') \<in> set (iterate f n (u @ s, caps))"
proof (induction u arbitrary: n caps rule: starLang.induct)
  case Nil
  then show ?case by (cases n) auto
next
  case (Cons u v)
  show ?case
  proof (cases "u = []")
    case True
    then show ?thesis using Cons.IH Cons.prems by simp
  next
    case False
    then obtain m where n: "n = Suc m" using Cons.prems by (cases n) auto
    obtain c1 where c1: "(v @ s, c1) \<in> set (f (u @ v @ s, caps))" using f [OF Cons.hyps(1)] by blast
    have "length (v @ s) \<le> m" using Cons.prems False n by (cases u) auto
    then obtain c2 where "(s, c2) \<in> set (iterate f m (v @ s, c1))" using Cons.IH by blast
    then have "(s, c2) \<in> set (iterate f n (u @ v @ s, caps))"
      unfolding n using c1 False by (intro iterate_step [of "(v @ s, c1)"]) auto
    then show ?thesis by auto
  qed
qed

lemma matches_complete: "u \<in> lang r \<Longrightarrow> \<exists>caps'. (s, caps') \<in> set (matches r (u @ s, caps))"
proof (induction r arbitrary: u s caps)
  case (Seq a b)
  then obtain v w where u: "u = v @ w" "v \<in> lang a" "w \<in> lang b" by auto
  obtain c1 where c1: "(w @ s, c1) \<in> set (matches a (v @ w @ s, caps))" using Seq.IH(1) [OF u(2)] by blast
  obtain c2 where "(s, c2) \<in> set (matches b (w @ s, c1))" using Seq.IH(2) [OF u(3)] by blast
  with c1 u(1) have "(s, c2) \<in> set (matches (Seq a b) (u @ s, caps))" by auto
  then show ?case by blast
next
  case (Star a)
  then have "u \<in> starLang (lang a)" by simp
  then show ?case using iterate_complete [of "lang a" "matches a" u s "length (u @ s)" caps] Star.IH by simp
next
  case (Grp i a)
  then obtain c where "(s, c) \<in> set (matches a (u @ s, caps))" by fastforce
  then show ?case by force
next
  case (Alt a b)
  then show ?case by (metis Un_iff lang.simps(4) matches.simps(4) set_append)
next
  case (Opt a)
  then show ?case by (metis append_Nil Un_iff empty_iff insert_iff lang.simps(6) list.set(1) list.set(2) matches.simps(6) set_append)
next
  case (OptLazy a)
  then show ?case by (metis append_Nil Un_iff empty_iff insert_iff lang.simps(7) list.set_intros(1) list.set_intros(2) matches.simps(7))
qed auto

theorem match_lang: "matchString r s \<longleftrightarrow> s \<in> lang r"
proof
  assume "matchString r s"
  then obtain st where "st \<in> set (matches r (s, []))" "fst st = []"
    by (auto simp: matchString_def list_ex_iff)
  then show "s \<in> lang r" using matches_sound by fastforce
next
  assume "s \<in> lang r"
  then obtain c where "([], c) \<in> set (matches r (s @ [], []))" using matches_complete by blast
  then show "matchString r s" by (force simp: matchString_def list_ex_iff)
qed

text \<open>A submatch lookup succeeds exactly on the words of the language.\<close>

lemma findSubmatch_Some_iff: "(\<exists>caps. findSubmatch r s = Some caps) \<longleftrightarrow> s \<in> lang r"
proof -
  have "(\<exists>caps. findSubmatch r s = Some caps) \<longleftrightarrow> find (\<lambda>st. fst st = []) (matches r (s, [])) \<noteq> None"
    unfolding findSubmatch_def by (metis map_option_is_None option.exhaust option.distinct(1))
  also have "\<dots> \<longleftrightarrow> matchString r s"
    by (simp only: find_None_iff matchString_def list_ex_iff) blast
  finally show ?thesis by (simp add: match_lang)
qed

section \<open>Which bytes a match may contain\<close>

fun reBytes :: "re \<Rightarrow> char \<Rightarrow> bool" where
  "reBytes Eps c = False"
| "reBytes (Cls p) c = p c"
| "reBytes (Seq a b) c = (reBytes a c \<or> reBytes b c)"
| "reBytes (Alt a b) c = (reBytes a c \<or> reBytes b c)"
| "reBytes (Star a) c = reBytes a c"
| "reBytes (Opt a) c = reBytes a c"
| "reBytes (OptLazy a) c = reBytes a c"
| "reBytes (Grp i a) c = reBytes a c"

lemma starLang_set: "w \<in> starLang A \<Longrightarrow> c \<in> set w \<Longrightarrow> \<exists>u\<in>A. c \<in> set u"
  by (induction w rule: starLang.induct) auto

lemma lang_bytes: "s \<in> lang r \<Longrightarrow> c \<in> set s \<Longrightarrow> reBytes r c"
proof (induction r arbitrary: s)
  case (Star a)
  then show ?case using starLang_set by fastforce
next
  case (Seq a b)
  then obtain u v where "s = u @ v" "u \<in> lang a" "v \<in> lang b" by auto
  with Seq.IH(1) [of u] Seq.IH(2) [of v] Seq.prems(2) show ?case by auto
qed auto

lemma starLang_Cls: "starLang {[c] | c. p c} = {s. list_all p s}"
proof (intro set_eqI iffI)
  fix s
  show "s \<in> starLang {[c] |c. p c} \<Longrightarrow> s \<in> {s. list_all p s}"
    by (induction s rule: starLang.induct) auto
  show "s \<in> {s. list_all p s} \<Longrightarrow> s \<in> starLang {[c] |c. p c}"
  proof (induction s)
    case Nil
    then show ?case by (simp add: starLang.Nil)
  next
    case (Cons c cs)
    then show ?case using starLang.Cons [of "[c]" _ cs] by auto
  qed
qed

lemma lang_Star_Cls [simp]: "lang (Star (Cls p)) = {s. list_all p s}"
  by (simp add: starLang_Cls)

lemma lang_Plus_Cls [simp]: "lang (Plus (Cls p)) = {s. s \<noteq> [] \<and> list_all p s}"
proof (intro set_eqI iffI)
  fix s
  assume "s \<in> {s. s \<noteq> [] \<and> list_all p s}"
  then obtain c cs where "s = [c] @ cs" "p c" "list_all p cs" by (cases s) auto
  then show "s \<in> lang (Plus (Cls p))"
    unfolding Plus_def lang.simps starLang_Cls by blast
qed (auto simp: Plus_def starLang_Cls)

lemma lang_Lit [simp]: "lang (Lit w) = {w}"
  by (induction w) auto

lemma reBytes_Plus [simp]: "reBytes (Plus r) c = reBytes r c"
  by (simp add: Plus_def)

lemma reBytes_Lit [simp]: "reBytes (Lit w) c = (c \<in> set w)"
  by (induction w) auto

declare lang.simps(5) [simp del]

end
