(* ===== verification/Go_Strconv.thy ===== *)
theory Go_Strconv
  imports Go_Regex
begin

text \<open>
  What the sources use of Go's package \<open>strconv\<close> (\<open>ParseUint\<close>, \<open>ParseInt\<close>, \<open>Atoi\<close>, \<open>ParseBool\<close>,
  \<open>Itoa\<close>, \<open>Quote\<close>), always in base 10. \<open>ParseUint\<close>'s overflow tests on the 64-bit accumulator are
  the single test that the mathematical value exceeds the largest value of the requested width,
  made digit by digit in the order of the loop. Lemmas: the parsers accept exactly the decimal
  numerals within their bounds, and parsing inverts printing.
\<close>

datatype num_error = ErrSyntax | ErrRange

definition digitVal :: "char \<Rightarrow> nat" where
  "digitVal c = of_char c - 48"

fun parseUintLoop :: "nat \<Rightarrow> nat \<Rightarrow> string \<Rightarrow> num_error + nat" where
  "parseUintLoop maxVal n [] = Inr n"
| "parseUintLoop maxVal n (c # cs) =
     (if \<not> isDigit c then Inl ErrSyntax
      else if maxVal < 10 * n + digitVal c then Inl ErrRange
      else parseUintLoop maxVal (10 * n + digitVal c) cs)"

definition goParseUint :: "nat \<Rightarrow> string \<Rightarrow> num_error + nat" where
  "goParseUint bits s = (if s = [] then Inl ErrSyntax else parseUintLoop (2 ^ bits - 1) 0 s)"

definition goParseInt :: "nat \<Rightarrow> string \<Rightarrow> num_error + int" where
  "goParseInt bits s =
     (if s = [] then Inl ErrSyntax
      else
        let neg = (hd s = CHR ''-'');
            body = (if hd s = CHR ''+'' \<or> hd s = CHR ''-'' then tl s else s)
        in case goParseUint bits body of
             Inl ErrSyntax \<Rightarrow> Inl ErrSyntax
           | Inl ErrRange \<Rightarrow> Inl ErrRange
           | Inr un \<Rightarrow>
               (if \<not> neg \<and> 2 ^ (bits - 1) \<le> un then Inl ErrRange
                else if neg \<and> 2 ^ (bits - 1) < un then Inl ErrRange
                else Inr (if neg then - int un else int un)))"

definition goAtoi :: "string \<Rightarrow> num_error + int" where
  "goAtoi s = goParseInt 64 s"

definition goParseBool :: "string \<Rightarrow> bool option" where
  "goParseBool s =
     (if s \<in> set [''1'', ''t'', ''T'', ''true'', ''TRUE'', ''True''] then Some True
      else if s \<in> set [''0'', ''f'', ''F'', ''false'', ''FALSE'', ''False''] then Some False
      else None)"

section \<open>Printing\<close>

fun natDigits :: "nat \<Rightarrow> string" where
  "natDigits n =
     (if n < 10 then [char_of (48 + n)] else natDigits (n div 10) @ [char_of (48 + n mod 10)])"

declare natDigits.simps [simp del]

definition itoa :: "int \<Rightarrow> string" where
  "itoa i = (if i < 0 then CHR ''-'' # natDigits (nat (- i)) else natDigits (nat i))"

text \<open>
  \<open>%q\<close>: the quoted string with Go's escapes for the control bytes, the quote and the backslash.
  Bytes from 0x80 on are kept, as Go does for the bytes of printable runes.
\<close>

definition hexDigit :: "nat \<Rightarrow> char" where
  "hexDigit n = (if n < 10 then char_of (48 + n) else char_of (87 + n))"

definition quoteByte :: "char \<Rightarrow> string" where
  "quoteByte c =
     (if c = CHR 0x22 then [CHR 0x5C, CHR 0x22]
      else if c = CHR 0x5C then [CHR 0x5C, CHR 0x5C]
      else if c = CHR 0x07 then [CHR 0x5C, CHR ''a'']
      else if c = CHR 0x08 then [CHR 0x5C, CHR ''b'']
      else if c = CHR 0x0C then [CHR 0x5C, CHR ''f'']
      else if c = CHR 0x0A then [CHR 0x5C, CHR ''n'']
      else if c = CHR 0x0D then [CHR 0x5C, CHR ''r'']
      else if c = CHR 0x09 then [CHR 0x5C, CHR ''t'']
      else if c = CHR 0x0B then [CHR 0x5C, CHR ''v'']
      else if of_char c < (32::nat) \<or> of_char c = (127::nat)
           then [CHR 0x5C, CHR ''x'', hexDigit (of_char c div 16), hexDigit (of_char c mod 16)]
      else [c])"

definition quoteStr :: "string \<Rightarrow> string" where
  "quoteStr s = CHR 0x22 # concat (map quoteByte s) @ [CHR 0x22]"

text \<open>The messages of \<open>*strconv.NumError\<close>.\<close>

fun numErrText :: "num_error \<Rightarrow> string" where
  "numErrText ErrSyntax = ''invalid syntax''"
| "numErrText ErrRange = ''value out of range''"

definition numErrorMsg :: "string \<Rightarrow> string \<Rightarrow> num_error \<Rightarrow> string" where
  "numErrorMsg fn num e = ''strconv.'' @ fn @ '': parsing '' @ quoteStr num @ '': '' @ numErrText e"

section \<open>Which strings are numbers\<close>

text \<open>The value of a numeral, most significant digit first.\<close>

definition numVal :: "nat \<Rightarrow> string \<Rightarrow> nat" where
  "numVal n s = foldl (\<lambda>a c. 10 * a + digitVal c) n s"

lemma numVal_simps [simp]: "numVal n [] = n" "numVal n (c # cs) = numVal (10 * n + digitVal c) cs"
  by (simp_all add: numVal_def)

lemma numVal_ge: "n \<le> numVal n s"
proof (induction s arbitrary: n)
  case (Cons c cs)
  have "n \<le> 10 * n + digitVal c" by simp
  also have "\<dots> \<le> numVal (10 * n + digitVal c) cs" by (rule Cons.IH)
  finally show ?case by simp
qed simp

lemma numVal_append: "numVal n (s @ t) = numVal (numVal n s) t"
  by (simp add: numVal_def)

lemma parseUintLoop_Inr_iff:
  "n \<le> maxVal \<Longrightarrow> parseUintLoop maxVal n s = Inr m \<longleftrightarrow> list_all isDigit s \<and> m = numVal n s \<and> m \<le> maxVal"
proof (induction s arbitrary: n)
  case (Cons c cs)
  show ?case
  proof (cases "10 * n + digitVal c \<le> maxVal")
    case True
    then show ?thesis using Cons.IH [OF True] by auto
  next
    case False
    moreover have "10 * n + digitVal c \<le> numVal (10 * n + digitVal c) cs" by (rule numVal_ge)
    ultimately show ?thesis by auto
  qed
qed auto

lemma goParseUint_Inr_iff:
  "goParseUint bits s = Inr m \<longleftrightarrow> s \<noteq> [] \<and> list_all isDigit s \<and> m = numVal 0 s \<and> m < 2 ^ bits"
proof -
  have "0 < (2::nat) ^ bits" by simp
  then have "n \<le> 2 ^ bits - 1 \<longleftrightarrow> n < 2 ^ bits" for n :: nat by linarith
  then show ?thesis by (auto simp: goParseUint_def parseUintLoop_Inr_iff simp del: One_nat_def)
qed

lemma goParseInt_Inr_bounds:
  assumes "goParseInt bits s = Inr i"
  shows "- (2 ^ (bits - 1)) \<le> i \<and> i < 2 ^ (bits - 1)"
proof -
  let ?k = "2 ^ (bits - 1) :: nat"
  from assms obtain un where "i = int un \<and> un < ?k \<or> i = - int un \<and> un \<le> ?k"
    unfolding goParseInt_def Let_def
    by (fastforce simp: not_le not_less split: if_splits sum.splits num_error.splits)
  moreover have "0 < ?k" by simp
  moreover have "int ?k = 2 ^ (bits - 1)" by simp
  ultimately show ?thesis by linarith
qed

lemma goParseInt_no_sign:
  assumes "list_all isDigit s" "s \<noteq> []" "numVal 0 s < 2 ^ (bits - 1)" "0 < bits"
  shows "goParseInt bits s = Inr (int (numVal 0 s))"
proof -
  obtain c cs where s: "s = c # cs" using assms(2) by (cases s) auto
  have "isDigit c" using assms(1) s by simp
  then have "c \<noteq> CHR ''-''" "c \<noteq> CHR ''+''" by (auto simp: isDigit_def inRange_def)
  moreover have "goParseUint bits s = Inr (numVal 0 s)"
    using assms by (simp add: goParseUint_Inr_iff) (meson diff_le_self less_le_trans one_le_numeral power_increasing)
  ultimately show ?thesis using assms(3) s by (simp add: goParseInt_def Let_def)
qed

section \<open>Printing and parsing\<close>

lemma isDigit_char_of: "(d::nat) < 10 \<Longrightarrow> isDigit (char_of (48 + d))"
  by (simp add: isDigit_def inRange_def)

lemma digitVal_char_of: "(d::nat) < 10 \<Longrightarrow> digitVal (char_of (48 + d)) = d"
  by (simp add: digitVal_def)

lemma natDigits_digits: "list_all isDigit (natDigits n)"
proof (induction n rule: natDigits.induct)
  case (1 n)
  then show ?case by (subst natDigits.simps) (simp add: isDigit_char_of)
qed

lemma natDigits_not_Nil: "natDigits n \<noteq> []"
  by (subst natDigits.simps) simp

lemma numVal_natDigits: "numVal 0 (natDigits n) = n"
proof (induction n rule: natDigits.induct)
  case (1 n)
  show ?case
  proof (cases "n < 10")
    case True
    then show ?thesis by (subst natDigits.simps) (simp add: digitVal_char_of)
  next
    case False
    with 1 show ?thesis by (subst natDigits.simps) (simp add: numVal_append digitVal_char_of)
  qed
qed

lemma parse_natDigits: "n < 2 ^ bits \<Longrightarrow> goParseUint bits (natDigits n) = Inr n"
  by (simp add: goParseUint_Inr_iff natDigits_digits natDigits_not_Nil numVal_natDigits)

lemma natDigits_inject: "natDigits m = natDigits n \<longleftrightarrow> m = n"
  by (metis numVal_natDigits)

lemma natDigits_hd_digit: "isDigit (hd (natDigits n))"
  by (metis list.pred_set list.set_sel(1) natDigits_digits natDigits_not_Nil)

lemma itoa_inject: "itoa i = itoa j \<longleftrightarrow> i = j"
proof -
  have sign: "natDigits n \<noteq> CHR ''-'' # s" for n s
    using natDigits_hd_digit [of n] by (auto simp: isDigit_def inRange_def)
  have "CHR ''-'' # s \<noteq> natDigits n" for n s
    using sign [of n s] by metis
  then show ?thesis using sign by (auto simp: itoa_def natDigits_inject split: if_splits)
qed

end
