(* ===== verification/Field_Errors.thy ===== *)
theory Field_Errors
  imports Go_Strconv
begin

text \<open>
  The vendored Kubernetes packages \<open>apimachinery/pkg/util/validation/field\<close> (field paths, errors
  and error lists), \<open>util/errors\<close> (aggregates) and the name validators of
  \<open>apimachinery/pkg/util/validation\<close> that the repository's validators call. A field path is the
  string it renders to. Lemmas: an error list aggregates to no error exactly when it is empty,
  and an accepted DNS name consists of harmless bytes only.
\<close>

section \<open>Field paths\<close>

type_synonym path = string

definition newPath :: "string \<Rightarrow> path" where
  "newPath n = n"

definition child :: "path \<Rightarrow> string \<Rightarrow> path" where
  "child p n = (if n = [] then p @ ''[]'' else p @ ''.'' @ n)"

definition pathIndex :: "path \<Rightarrow> nat \<Rightarrow> path" where
  "pathIndex p i = p @ ''['' @ itoa (int i) @ '']''"

section \<open>Errors\<close>

datatype error_type =
    ErrorTypeNotFound | ErrorTypeRequired | ErrorTypeDuplicate | ErrorTypeInvalid | ErrorTypeNotSupported
  | ErrorTypeForbidden | ErrorTypeTooLong | ErrorTypeTooMany

text \<open>The Go types of the bad values the sources pass: a string, an \<open>int\<close>, a \<open>uint16\<close>.\<close>

datatype bad_value = BadStr string | BadInt int | BadUint16 nat

record field_error =
  feType :: error_type
  feField :: string
  feBadValue :: bad_value
  feDetail :: string

type_synonym error_list = "field_error list"

fun errorTypeString :: "error_type \<Rightarrow> string" where
  "errorTypeString ErrorTypeNotFound = ''Not found''"
| "errorTypeString ErrorTypeRequired = ''Required value''"
| "errorTypeString ErrorTypeDuplicate = ''Duplicate value''"
| "errorTypeString ErrorTypeInvalid = ''Invalid value''"
| "errorTypeString ErrorTypeNotSupported = ''Unsupported value''"
| "errorTypeString ErrorTypeForbidden = ''Forbidden''"
| "errorTypeString ErrorTypeTooLong = ''Too long''"
| "errorTypeString ErrorTypeTooMany = ''Too many''"

definition NotFound :: "path \<Rightarrow> bad_value \<Rightarrow> field_error" where
  "NotFound p v = \<lparr>feType = ErrorTypeNotFound, feField = p, feBadValue = v, feDetail = ''''\<rparr>"

definition Required :: "path \<Rightarrow> string \<Rightarrow> field_error" where
  "Required p d = \<lparr>feType = ErrorTypeRequired, feField = p, feBadValue = BadStr '''', feDetail = d\<rparr>"

definition Duplicate :: "path \<Rightarrow> bad_value \<Rightarrow> field_error" where
  "Duplicate p v = \<lparr>feType = ErrorTypeDuplicate, feField = p, feBadValue = v, feDetail = ''''\<rparr>"

definition Invalid :: "path \<Rightarrow> bad_value \<Rightarrow> string \<Rightarrow> field_error" where
  "Invalid p v d = \<lparr>feType = ErrorTypeInvalid, feField = p, feBadValue = v, feDetail = d\<rparr>"

definition NotSupported :: "path \<Rightarrow> bad_value \<Rightarrow> string list \<Rightarrow> field_error" where
  "NotSupported p v valid =
     \<lparr>feType = ErrorTypeNotSupported, feField = p, feBadValue = v,
      feDetail = (if valid = [] then '''' else ''supported values: '' @ joinStr '', '' (map quoteStr valid))\<rparr>"

definition Forbidden :: "path \<Rightarrow> string \<Rightarrow> field_error" where
  "Forbidden p d = \<lparr>feType = ErrorTypeForbidden, feField = p, feBadValue = BadStr '''', feDetail = d\<rparr>"

definition TooMany :: "path \<Rightarrow> nat \<Rightarrow> nat \<Rightarrow> field_error" where
  "TooMany p actual maxq =
     \<lparr>feType = ErrorTypeTooMany, feField = p, feBadValue = BadInt (int actual),
      feDetail = ''must have at most '' @ itoa (int maxq) @ '' items''\<rparr>"

text \<open>\<open>%#v\<close> prints an \<open>int\<close> in decimal and a \<open>uint16\<close> in hexadecimal.\<close>

fun hexDigits :: "nat \<Rightarrow> string" where
  "hexDigits n = (if n < 16 then [hexDigit n] else hexDigits (n div 16) @ [hexDigit (n mod 16)])"

declare hexDigits.simps [simp del]

fun badValueString :: "bad_value \<Rightarrow> string" where
  "badValueString (BadStr s) = quoteStr s"
| "badValueString (BadInt i) = itoa i"
| "badValueString (BadUint16 n) = ''0x'' @ hexDigits n"

definition ErrorBody :: "field_error \<Rightarrow> string" where
  "ErrorBody e =
     (let s = (if feType e \<in> {ErrorTypeRequired, ErrorTypeForbidden, ErrorTypeTooLong}
               then errorTypeString (feType e)
               else errorTypeString (feType e) @ '': '' @ badValueString (feBadValue e))
      in if feDetail e = '''' then s else s @ '': '' @ feDetail e)"

definition ErrorText :: "field_error \<Rightarrow> string" where
  "ErrorText e = feField e @ '': '' @ ErrorBody e"

text \<open>
  \<open>ToAggregate().Error()\<close>: \<^term>\<open>None\<close> is the nil error. Errors with a message already seen are
  dropped; one message stands alone, several are bracketed.
\<close>

definition ToAggregate :: "error_list \<Rightarrow> string option" where
  "ToAggregate errs =
     (case rev (remdups (rev (map ErrorText errs))) of
        [] \<Rightarrow> None
      | [m] \<Rightarrow> Some m
      | ms \<Rightarrow> Some (''['' @ joinStr '', '' ms @ '']''))"

lemma ToAggregate_None_iff [simp]: "ToAggregate errs = None \<longleftrightarrow> errs = []"
  by (auto simp: ToAggregate_def split: list.splits)

section \<open>Name validators\<close>

definition RegexError :: "string \<Rightarrow> string \<Rightarrow> string list \<Rightarrow> string" where
  "RegexError msg fmt examples =
     (if examples = [] then msg @ '' (regex used for validation is '' @ [CHR 0x27] @ fmt @ [CHR 0x27] @ '')''
      else msg @ '' (e.g. ''
        @ joinStr '' or '' (map (\<lambda>e. [CHR 0x27] @ e @ [CHR 0x27] @ '', '') examples)
        @ ''regex used for validation is '' @ [CHR 0x27] @ fmt @ [CHR 0x27] @ '')'')"

definition MaxLenError :: "nat \<Rightarrow> string" where
  "MaxLenError n = ''must be no more than '' @ itoa (int n) @ '' characters''"

definition EmptyError :: string where
  "EmptyError = ''must be non-empty''"

definition InclusiveRangeError :: "int \<Rightarrow> int \<Rightarrow> string" where
  "InclusiveRangeError lo hi = ''must be between '' @ itoa lo @ '' and '' @ itoa hi @ '', inclusive''"

text \<open>\<open>[a-z0-9]\<close>, \<open>[-a-z0-9]\<close>, \<open>[A-Za-z0-9]\<close> and \<open>[-A-Za-z0-9_.]\<close>.\<close>

definition lowerAlnum :: "char \<Rightarrow> bool" where
  "lowerAlnum c = (isLower c \<or> isDigit c)"

definition lowerAlnumDash :: "char \<Rightarrow> bool" where
  "lowerAlnumDash c = (c = CHR ''-'' \<or> lowerAlnum c)"

definition qnameExtChar :: "char \<Rightarrow> bool" where
  "qnameExtChar c = (c = CHR ''-'' \<or> isAlnum c \<or> c = CHR ''_'' \<or> c = CHR ''.'')"

definition dns1123LabelRe :: re where
  "dns1123LabelRe = Seq (Cls lowerAlnum) (Opt (Seq (Star (Cls lowerAlnumDash)) (Cls lowerAlnum)))"

definition dns1123SubdomainRe :: re where
  "dns1123SubdomainRe = Seq dns1123LabelRe (Star (Seq (Lit ''.'') dns1123LabelRe))"

definition dns1035LabelRe :: re where
  "dns1035LabelRe = Seq (Cls isLower) (Opt (Seq (Star (Cls lowerAlnumDash)) (Cls lowerAlnum)))"

definition qualifiedNameRe :: re where
  "qualifiedNameRe = Seq (Opt (Seq (Cls isAlnum) (Star (Cls qnameExtChar)))) (Cls isAlnum)"

definition labelValueRe :: re where
  "labelValueRe = Opt qualifiedNameRe"

definition httpHeaderNameRe :: re where
  "httpHeaderNameRe = Plus (Cls (\<lambda>c. c = CHR ''-'' \<or> isAlnum c))"

definition dns1123LabelFmt :: string where
  "dns1123LabelFmt = ''[a-z0-9]([-a-z0-9]*[a-z0-9])?''"

definition dns1123SubdomainFmt :: string where
  "dns1123SubdomainFmt = dns1123LabelFmt @ ''('' @ [CHR 0x5C] @ ''.'' @ dns1123LabelFmt @ '')*''"

definition dns1035LabelFmt :: string where
  "dns1035LabelFmt = ''[a-z]([-a-z0-9]*[a-z0-9])?''"

definition qualifiedNameFmt :: string where
  "qualifiedNameFmt = ''([A-Za-z0-9][-A-Za-z0-9_.]*)?[A-Za-z0-9]''"

definition qualifiedNameErrMsg :: string where
  "qualifiedNameErrMsg = ''must consist of alphanumeric characters, '' @ [CHR 0x27] @ ''-'' @ [CHR 0x27] @ '', ''
     @ [CHR 0x27] @ ''_'' @ [CHR 0x27] @ '' or '' @ [CHR 0x27] @ ''.'' @ [CHR 0x27]
     @ '', and must start and end with an alphanumeric character''"

definition IsDNS1123Label :: "string \<Rightarrow> string list" where
  "IsDNS1123Label v =
     (if 63 < length v then [MaxLenError 63] else [])
     @ (if \<not> matchString dns1123LabelRe v
        then [RegexError (''a lowercase RFC 1123 label must consist of lower case alphanumeric characters or ''
                @ [CHR 0x27] @ ''-'' @ [CHR 0x27] @ '', and must start and end with an alphanumeric character'')
              dns1123LabelFmt [''my-name'', ''123-abc'']]
        else [])"

definition IsDNS1123Subdomain :: "string \<Rightarrow> string list" where
  "IsDNS1123Subdomain v =
     (if 253 < length v then [MaxLenError 253] else [])
     @ (if \<not> matchString dns1123SubdomainRe v
        then [RegexError (''a lowercase RFC 1123 subdomain must consist of lower case alphanumeric characters, ''
                @ [CHR 0x27] @ ''-'' @ [CHR 0x27] @ '' or '' @ [CHR 0x27] @ ''.'' @ [CHR 0x27]
                @ '', and must start and end with an alphanumeric character'')
              dns1123SubdomainFmt [''example.com'']]
        else [])"

definition IsDNS1035Label :: "string \<Rightarrow> string list" where
  "IsDNS1035Label v =
     (if 63 < length v then [MaxLenError 63] else [])
     @ (if \<not> matchString dns1035LabelRe v
        then [RegexError (''a DNS-1035 label must consist of lower case alphanumeric characters or ''
                @ [CHR 0x27] @ ''-'' @ [CHR 0x27]
                @ '', start with an alphabetic character, and end with an alphanumeric character'')
              dns1035LabelFmt [''my-name'', ''abc-123'']]
        else [])"

definition IsQualifiedName :: "string \<Rightarrow> string list" where
  "IsQualifiedName v =
     (let nameErrs = (\<lambda>name.
            (if name = [] then [''name part '' @ EmptyError]
             else if 63 < length name then [''name part '' @ MaxLenError 63] else [])
            @ (if \<not> matchString qualifiedNameRe name
               then [''name part '' @ RegexError qualifiedNameErrMsg qualifiedNameFmt [''MyName'', ''my.name'', ''123-abc'']]
               else []))
      in case splitOn (CHR ''/'') v of
           [name] \<Rightarrow> nameErrs name
         | [prefix, name] \<Rightarrow>
             (if prefix = [] then [''prefix part '' @ EmptyError]
              else map (\<lambda>m. ''prefix part '' @ m) (IsDNS1123Subdomain prefix))
             @ nameErrs name
         | _ \<Rightarrow> [''a qualified name '' @ RegexError qualifiedNameErrMsg qualifiedNameFmt [''MyName'', ''my.name'', ''123-abc'']
                  @ '' with an optional DNS subdomain prefix and '' @ [CHR 0x27] @ ''/'' @ [CHR 0x27]
                  @ '' (e.g. '' @ [CHR 0x27] @ ''example.com/MyName'' @ [CHR 0x27] @ '')''])"

definition IsValidLabelValue :: "string \<Rightarrow> string list" where
  "IsValidLabelValue v =
     (if 63 < length v then [MaxLenError 63] else [])
     @ (if \<not> matchString labelValueRe v
        then [RegexError (''a valid label must be an empty string or consist of alphanumeric characters, ''
                @ [CHR 0x27] @ ''-'' @ [CHR 0x27] @ '', '' @ [CHR 0x27] @ ''_'' @ [CHR 0x27] @ '' or ''
                @ [CHR 0x27] @ ''.'' @ [CHR 0x27] @ '', and must start and end with an alphanumeric character'')
              (''('' @ qualifiedNameFmt @ '')?'') [''MyValue'', ''my_value'', ''12345'']]
        else [])"

definition IsValidPortNum :: "int \<Rightarrow> string list" where
  "IsValidPortNum port = (if 1 \<le> port \<and> port \<le> 65535 then [] else [InclusiveRangeError 1 65535])"

definition IsInRange :: "int \<Rightarrow> int \<Rightarrow> int \<Rightarrow> string list" where
  "IsInRange v lo hi = (if lo \<le> v \<and> v \<le> hi then [] else [InclusiveRangeError lo hi])"

definition IsHTTPHeaderName :: "string \<Rightarrow> string list" where
  "IsHTTPHeaderName v =
     (if \<not> matchString httpHeaderNameRe v
      then [RegexError (''a valid HTTP header must consist of alphanumeric characters or '' @ [CHR 0x27] @ ''-'' @ [CHR 0x27])
            ''[-A-Za-z0-9]+'' [''X-Header-Name'']]
      else [])"

section \<open>What accepted names look like\<close>

text \<open>The bytes of a DNS name: lower-case letters, digits, the dash and the dot.\<close>

definition dnsByte :: "char \<Rightarrow> bool" where
  "dnsByte c = (isLower c \<or> isDigit c \<or> c = CHR ''-'' \<or> c = CHR ''.'')"

lemma IsDNS1123Subdomain_ok:
  "IsDNS1123Subdomain v = [] \<longleftrightarrow> length v \<le> 253 \<and> v \<in> lang dns1123SubdomainRe"
  by (auto simp: IsDNS1123Subdomain_def match_lang)

lemma IsDNS1123Label_ok: "IsDNS1123Label v = [] \<longleftrightarrow> length v \<le> 63 \<and> v \<in> lang dns1123LabelRe"
  by (auto simp: IsDNS1123Label_def match_lang)

lemma IsDNS1035Label_ok: "IsDNS1035Label v = [] \<longleftrightarrow> length v \<le> 63 \<and> v \<in> lang dns1035LabelRe"
  by (auto simp: IsDNS1035Label_def match_lang)

lemma IsHTTPHeaderName_ok:
  "IsHTTPHeaderName v = [] \<longleftrightarrow> v \<noteq> [] \<and> list_all (\<lambda>c. c = CHR ''-'' \<or> isAlnum c) v"
  by (simp add: IsHTTPHeaderName_def match_lang httpHeaderNameRe_def)

lemma IsValidPortNum_ok [simp]: "IsValidPortNum p = [] \<longleftrightarrow> 1 \<le> p \<and> p \<le> 65535"
  by (simp add: IsValidPortNum_def)

lemma IsInRange_ok [simp]: "IsInRange v lo hi = [] \<longleftrightarrow> lo \<le> v \<and> v \<le> hi"
  by (simp add: IsInRange_def)

lemmas dns_res = dns1123SubdomainRe_def dns1123LabelRe_def dns1035LabelRe_def lowerAlnum_def lowerAlnumDash_def

lemma reBytes_dns:
  "reBytes dns1123LabelRe c \<Longrightarrow> dnsByte c"
  "reBytes dns1123SubdomainRe c \<Longrightarrow> dnsByte c"
  "reBytes dns1035LabelRe c \<Longrightarrow> dnsByte c"
  by (auto simp: dns_res dnsByte_def)

lemma lang_list_all: "s \<in> lang r \<Longrightarrow> (\<And>c. reBytes r c \<Longrightarrow> p c) \<Longrightarrow> list_all p s"
  unfolding list_all_iff using lang_bytes by blast

lemma subdomain_bytes: "IsDNS1123Subdomain v = [] \<Longrightarrow> list_all dnsByte v"
  unfolding IsDNS1123Subdomain_ok using lang_list_all reBytes_dns(2) by blast

lemma label1035_bytes: "IsDNS1035Label v = [] \<Longrightarrow> list_all dnsByte v"
  unfolding IsDNS1035Label_ok using lang_list_all reBytes_dns(3) by blast

lemma subdomain_not_Nil: "IsDNS1123Subdomain v = [] \<Longrightarrow> v \<noteq> []"
  by (auto simp: IsDNS1123Subdomain_ok dns_res)

lemma label1035_not_Nil: "IsDNS1035Label v = [] \<Longrightarrow> v \<noteq> []"
  by (auto simp: IsDNS1035Label_ok dns_res)

end
