(* ===== verification/Parsing_Helpers.thy ===== *)
theory Parsing_Helpers
  imports Field_Errors
begin

text \<open>
  \<open>internal/configs/parsing_helpers.go\<close>: the parsers of annotation and ConfigMap values. A Go
  pair (value, error) is a sum, with the error text on the left; a lookup in a map also says
  whether the key exists. Lemmas: the language each parser accepts, the bounds of accepted
  ports, and that accepted values are in normal form.
\<close>

named_theorems parse_defs "definitions of the value parsers"

type_synonym 'a parsed = "string + 'a"

definition isErr :: "'a parsed \<Rightarrow> bool" where
  "isErr r = (case r of Inl _ \<Rightarrow> True | Inr _ \<Rightarrow> False)"

lemma isErr_simps [simp]: "isErr (Inl e)" "\<not> isErr (Inr v)"
  by (simp_all add: isErr_def)

lemma not_isErr_iff: "\<not> isErr r \<longleftrightarrow> (\<exists>v. r = Inr v)"
  by (cases r) auto

section \<open>Scalars\<close>

definition ParseBool :: "string \<Rightarrow> bool parsed" where
  "ParseBool s = (case goParseBool s of None \<Rightarrow> Inl (numErrorMsg ''ParseBool'' s ErrSyntax) | Some b \<Rightarrow> Inr b)"

definition ParseInt :: "string \<Rightarrow> int parsed" where
  "ParseInt s = (case goAtoi s of Inl e \<Rightarrow> Inl (numErrorMsg ''Atoi'' s e) | Inr i \<Rightarrow> Inr i)"

definition ParseInt64 :: "string \<Rightarrow> int parsed" where
  "ParseInt64 s = (case goParseInt 64 s of Inl e \<Rightarrow> Inl (numErrorMsg ''ParseInt'' s e) | Inr i \<Rightarrow> Inr i)"

definition ParseUint64 :: "string \<Rightarrow> nat parsed" where
  "ParseUint64 s = (case goParseUint 64 s of Inl e \<Rightarrow> Inl (numErrorMsg ''ParseUint'' s e) | Inr n \<Rightarrow> Inr n)"

section \<open>Lookups\<close>

record apiObject =
  aoKind :: string
  aoNamespace :: string
  aoName :: string

definition keyErr :: "apiObject \<Rightarrow> string \<Rightarrow> string \<Rightarrow> string" where
  "keyErr ctx key rest =
     aoKind ctx @ '' '' @ aoNamespace ctx @ ''/'' @ aoName ctx @ '' '' @ [CHR 0x27] @ key @ [CHR 0x27] @ rest"

definition GetMapKeyAsBool :: "string gomap \<Rightarrow> string \<Rightarrow> apiObject \<Rightarrow> bool \<times> bool \<times> string option" where
  "GetMapKeyAsBool m key ctx =
     (case gget m key of
        None \<Rightarrow> (False, False, None)
      | Some str \<Rightarrow> (case ParseBool str of
            Inl e \<Rightarrow> (False, True, Some (keyErr ctx key ('' contains invalid bool: '' @ e @ '', ignoring'')))
          | Inr b \<Rightarrow> (b, True, None)))"

definition GetMapKeyAsInt :: "string gomap \<Rightarrow> string \<Rightarrow> apiObject \<Rightarrow> int \<times> bool \<times> string option" where
  "GetMapKeyAsInt m key ctx =
     (case gget m key of
        None \<Rightarrow> (0, False, None)
      | Some str \<Rightarrow> (case ParseInt str of
            Inl e \<Rightarrow> (0, True, Some (keyErr ctx key ('' contains invalid integer: '' @ e @ '', ignoring'')))
          | Inr i \<Rightarrow> (i, True, None)))"

definition GetMapKeyAsInt64 :: "string gomap \<Rightarrow> string \<Rightarrow> apiObject \<Rightarrow> int \<times> bool \<times> string option" where
  "GetMapKeyAsInt64 m key ctx =
     (case gget m key of
        None \<Rightarrow> (0, False, None)
      | Some str \<Rightarrow> (case ParseInt64 str of
            Inl e \<Rightarrow> (0, True, Some (keyErr ctx key ('' contains invalid integer: '' @ e @ '', ignoring'')))
          | Inr i \<Rightarrow> (i, True, None)))"

definition GetMapKeyAsUint64 :: "string gomap \<Rightarrow> string \<Rightarrow> apiObject \<Rightarrow> bool \<Rightarrow> nat \<times> bool \<times> string option" where
  "GetMapKeyAsUint64 m key ctx nonZero =
     (case gget m key of
        None \<Rightarrow> (0, False, None)
      | Some str \<Rightarrow> (case ParseUint64 str of
            Inl e \<Rightarrow> (0, True, Some (keyErr ctx key ('' contains invalid uint64: '' @ e @ '', ignoring'')))
          | Inr i \<Rightarrow>
              (if nonZero \<and> i = 0
               then (0, True, Some (keyErr ctx key '' must be greater than 0, ignoring''))
               else (i, True, None))))"

text \<open>The delimiters in use are one byte long.\<close>

definition GetMapKeyAsStringSlice :: "string gomap \<Rightarrow> string \<Rightarrow> char \<Rightarrow> string list \<times> bool" where
  "GetMapKeyAsStringSlice m key delimiter =
     (case gget m key of None \<Rightarrow> ([], False) | Some str \<Rightarrow> (splitOn delimiter str, True))"

section \<open>Load balancing methods\<close>

definition nginxLBValidInput :: "string list" where
  "nginxLBValidInput = [''least_conn'', ''ip_hash'', ''random'', ''random two'', ''random two least_conn'']"

definition nginxPlusLBValidInput :: "string list" where
  "nginxPlusLBValidInput =
     [''least_conn'', ''ip_hash'', ''random'', ''random two'', ''random two least_conn'',
      ''random two least_time=header'', ''random two least_time=last_byte'', ''least_time header'',
      ''least_time last_byte'', ''least_time header inflight'', ''least_time last_byte inflight'']"

definition invalidLBMethod :: "string \<Rightarrow> string" where
  "invalidLBMethod method = ''Invalid load balancing method: '' @ quoteStr method"

definition validateHashLBMethod :: "string \<Rightarrow> string parsed" where
  "validateHashLBMethod method =
     (let keyWords = splitOn (CHR '' '') method
      in if hd keyWords = ''hash''
            \<and> (length keyWords = 2 \<or> length keyWords = 3 \<and> keyWords ! 2 = ''consistent'')
         then Inr method
         else Inl (invalidLBMethod method))"

definition ParseLBMethod :: "string \<Rightarrow> string parsed" where
  "ParseLBMethod method0 =
     (let method = trimSpace method0
      in if method = ''round_robin'' then Inr ''''
         else if hasPrefix method ''hash'' then validateHashLBMethod method
         else if method \<in> set nginxLBValidInput then Inr method
         else Inl (invalidLBMethod method))"

definition ParseLBMethodForPlus :: "string \<Rightarrow> string parsed" where
  "ParseLBMethodForPlus method0 =
     (let method = trimSpace method0
      in if method = ''round_robin'' then Inr ''''
         else if hasPrefix method ''hash'' then validateHashLBMethod method
         else if method \<in> set nginxPlusLBValidInput then Inr method
         else Inl (invalidLBMethod method))"

section \<open>Times, offsets, sizes, buffers\<close>

definition digitsRe :: re where
  "digitsRe = Plus (Cls isDigit)"

definition timeRegexp :: re where
  "timeRegexp = Seqs
     [OptLazy (Grp 1 (Seq digitsRe (Lit ''y''))), Star (Cls reSpace),
      OptLazy (Grp 2 (Seq digitsRe (Lit ''M''))), Star (Cls reSpace),
      OptLazy (Grp 3 (Seq digitsRe (Lit ''w''))), Star (Cls reSpace),
      OptLazy (Grp 4 (Seq digitsRe (Lit ''d''))), Star (Cls reSpace),
      OptLazy (Grp 5 (Seq digitsRe (Lit ''h''))), Star (Cls reSpace),
      OptLazy (Grp 6 (Seq digitsRe (Lit ''m''))), Star (Cls reSpace),
      OptLazy (Grp 7 (Seq digitsRe (Opt (Lit ''s'')))), Star (Cls reSpace),
      OptLazy (Grp 8 (Seq digitsRe (Lit ''ms'')))]"

definition ParseTime :: "string \<Rightarrow> string parsed" where
  "ParseTime s =
     (if s = [] \<or> trimSpace s = [] then Inl ''invalid time string''
      else case findSubmatch timeRegexp s of
          None \<Rightarrow> Inl ''invalid time string''
        | Some units \<Rightarrow>
            (let years = group units 1; months = group units 2; weeks = group units 3;
                 days = group units 4; hours = group units 5; mins = group units 6;
                 secs0 = group units 7;
                 secs = (if secs0 \<noteq> [] \<and> \<not> hasSuffix secs0 ''s'' then secs0 @ ''s'' else secs0);
                 millis = group units 8
             in Inr (years @ months @ weeks @ days @ hours @ mins @ secs @ millis)))"

definition OffsetFmt :: string where
  "OffsetFmt = [CHR 0x5C] @ ''d+[kKmMgG]?''"

definition offsetRegexp :: re where
  "offsetRegexp = Seq digitsRe (Opt (Cls (\<lambda>c. c \<in> set ''kKmMgG'')))"

definition ParseOffset :: "string \<Rightarrow> string parsed" where
  "ParseOffset s0 = (let s = trimSpace s0 in if matchString offsetRegexp s then Inr s else Inl ''Invalid offset string'')"

definition SizeFmt :: string where
  "SizeFmt = [CHR 0x5C] @ ''d+[kKmM]?''"

definition sizeRegexp :: re where
  "sizeRegexp = Seq digitsRe (Opt (Cls (\<lambda>c. c \<in> set ''kKmM'')))"

definition ParseSize :: "string \<Rightarrow> string parsed" where
  "ParseSize s0 = (let s = trimSpace s0 in if matchString sizeRegexp s then Inr s else Inl ''Invalid size string'')"

definition proxyBuffersRegexp :: re where
  "proxyBuffersRegexp = Seqs [digitsRe, Lit '' '', digitsRe, Opt (Cls (\<lambda>c. c \<in> set ''kKmM''))]"

definition ParseProxyBuffersSpec :: "string \<Rightarrow> string parsed" where
  "ParseProxyBuffersSpec s0 =
     (let s = trimSpace s0 in if matchString proxyBuffersRegexp s then Inr s else Inl ''Invalid proxy buffers string'')"

section \<open>Lists\<close>

text \<open>\<open>%q\<close> of an \<open>int64\<close> is a quoted rune: \<open>'\x00'\<close> for 0 and U+FFFD for a negative number.\<close>

definition quoteNonPositive :: "int \<Rightarrow> string" where
  "quoteNonPositive port =
     [CHR 0x27] @ (if port = 0 then [CHR 0x5C] @ ''x00'' else [CHR 0xEF, CHR 0xBF, CHR 0xBD]) @ [CHR 0x27]"

definition parsePort :: "string \<Rightarrow> int parsed" where
  "parsePort value =
     (case goParseInt 16 value of
        Inl e \<Rightarrow> Inl (''Unable to parse port as integer: '' @ numErrorMsg ''ParseInt'' value e)
      | Inr port \<Rightarrow>
          (if port \<le> 0 then Inl (''Port number should be greater than zero: '' @ quoteNonPositive port)
           else Inr port))"

fun parsePorts :: "int list \<Rightarrow> string list \<Rightarrow> int list parsed" where
  "parsePorts ports [] = Inr ports"
| "parsePorts ports (value # rest) =
     (case parsePort value of Inl e \<Rightarrow> Inl e | Inr port \<Rightarrow> parsePorts (ports @ [port]) rest)"

definition ParsePortList :: "string \<Rightarrow> int list parsed" where
  "ParsePortList s = parsePorts [] (splitOn (CHR '','') s)"

definition ParseServiceList :: "string \<Rightarrow> bool gomap" where
  "ParseServiceList s = fold (\<lambda>part services. gput part True services) (splitOn (CHR '','') s) []"

definition sliceString :: "string list \<Rightarrow> string" where
  "sliceString parts = ''['' @ joinStr '' '' parts @ '']''"

definition parseRewrites :: "string \<Rightarrow> (string \<times> string) parsed" where
  "parseRewrites service =
     (case splitOnN (CHR '' '') 2 (trimSpace service) of
        [a, b] \<Rightarrow>
          (case splitOn (CHR ''='') a of
             [_, svc] \<Rightarrow>
               (case splitOn (CHR ''='') b of
                  [_, rw] \<Rightarrow> Inr (svc, rw)
                | rwPathParts \<Rightarrow> Inl (''Invalid rewrite format: '' @ sliceString rwPathParts))
           | svcNameParts \<Rightarrow> Inl (''Invalid rewrite format: '' @ sliceString svcNameParts))
      | _ \<Rightarrow> Inl (''Invalid rewrite format: '' @ service))"

definition parseStickyService :: "string \<Rightarrow> (string \<times> string) parsed" where
  "parseStickyService service =
     (case splitOnN (CHR '' '') 2 service of
        [a, b] \<Rightarrow>
          (case splitOn (CHR ''='') a of
             [_, svc] \<Rightarrow> Inr (svc, b)
           | svcNameParts \<Rightarrow> Inl (''Invalid sticky-cookie service format: '' @ sliceString svcNameParts))
      | _ \<Rightarrow> Inl (''Invalid sticky-cookie service format: '' @ service))"

fun parsePairs :: "(string \<Rightarrow> (string \<times> string) parsed) \<Rightarrow> string gomap \<Rightarrow> string list \<Rightarrow> string gomap parsed" where
  "parsePairs f acc [] = Inr acc"
| "parsePairs f acc (part # rest) =
     (case f part of Inl e \<Rightarrow> Inl e | Inr (name, v) \<Rightarrow> parsePairs f (gput name v acc) rest)"

definition ParseRewriteList :: "string \<Rightarrow> string gomap parsed" where
  "ParseRewriteList s = parsePairs parseRewrites [] (splitOn (CHR '';'') s)"

definition ParseStickyServiceList :: "string \<Rightarrow> string gomap parsed" where
  "ParseStickyServiceList s = parsePairs parseStickyService [] (splitOn (CHR '';'') s)"

section \<open>App Protect thresholds\<close>

definition thresholdRe :: re where
  "thresholdRe =
     Alt (Cls (inRange (CHR ''1'') (CHR ''9'')))
       (Alt (Seq (Cls (inRange (CHR ''1'') (CHR ''9''))) (Cls isDigit)) (Lit ''100''))"

definition threshEx :: re where
  "threshEx = Seqs [Lit ''high='', Grp 1 thresholdRe, Lit '' low='', Grp 2 thresholdRe]"

definition threshExR :: re where
  "threshExR = Seqs [Lit ''low='', Grp 1 thresholdRe, Lit '' high='', Grp 2 thresholdRe]"

definition VerifyAppProtectThresholds :: "string \<Rightarrow> bool" where
  "VerifyAppProtectThresholds value = (searchWordEnd threshEx None value \<or> searchWordEnd threshExR None value)"

end
