(* ===== verification/Api_Types.thy ===== *)
theory Api_Types
  imports Go_Prelude "HOL-Library.Word"
begin

text \<open>
  The configuration objects: \<open>metav1.ObjectMeta\<close> and the Ingress of the vendored Kubernetes API,
  and the custom resources of \<open>pkg/apis/configuration/v1\<close> and \<open>v1alpha1\<close>, one record per struct.
  A pointer field is an option, an embedded struct is a field of its own, \<open>int\<close> is \<^typ>\<open>int\<close> and
  \<open>uint16\<close> is a 16-bit word. Left out are the status substructures and the metadata that the
  modelled code never reads. A time stamp is its instant; a nil map and an empty map are the
  same association list. A slice is a list, and an option where the code asks whether it is nil.
\<close>

section \<open>Kubernetes metadata and the Ingress\<close>

record ObjectMeta =
  omName :: string
  omNamespace :: string
  omUID :: string
  omGeneration :: int
  omCreationTimestamp :: int
  omAnnotations :: "string gomap"

datatype IntOrString = IntVal int | StrVal string

record IngressBackend =
  ibServiceName :: string
  ibServicePort :: IntOrString

record HTTPIngressPath =
  hpPath :: string
  hpPathType :: "string option"
  hpBackend :: IngressBackend

record HTTPIngressRuleValue =
  hrPaths :: "HTTPIngressPath list"

record IngressRule =
  irHost :: string
  irHTTP :: "HTTPIngressRuleValue option"

record IngressTLS =
  itHosts :: "string list"
  itSecretName :: string

record IngressSpec =
  isIngressClassName :: "string option"
  isBackend :: "IngressBackend option"
  isTLS :: "IngressTLS list"
  isRules :: "IngressRule list"

record Ingress =
  ingMeta :: ObjectMeta
  ingSpec :: IngressSpec

section \<open>VirtualServer, VirtualServerRoute (package v1)\<close>

record PolicyReference =
  prName :: string
  prNamespace :: string

record Header =
  hdName :: string
  hdValue :: string

record UpstreamBuffers =
  ubNumber :: int
  ubSize :: string

record UpstreamTLS =
  utEnable :: bool

record UpstreamQueue =
  uqSize :: int
  uqTimeout :: string

record SessionCookie =
  scEnable :: bool
  scName :: string
  scPath :: string
  scExpires :: string
  scDomain :: string
  scHTTPOnly :: bool
  scSecure :: bool

record HealthCheck =
  hcEnable :: bool
  hcPath :: string
  hcInterval :: string
  hcJitter :: string
  hcFails :: int
  hcPasses :: int
  hcPort :: int
  hcTLS :: "UpstreamTLS option"
  hcConnectTimeout :: string
  hcReadTimeout :: string
  hcSendTimeout :: string
  hcHeaders :: "Header list"
  hcStatusMatch :: string

record Upstream =
  uName :: string
  uService :: string
  uSubselector :: "string gomap option"
  uPort :: "16 word"
  uLBMethod :: string
  uFailTimeout :: string
  uMaxFails :: "int option"
  uMaxConns :: "int option"
  uKeepalive :: "int option"
  uProxyConnectTimeout :: string
  uProxyReadTimeout :: string
  uProxySendTimeout :: string
  uProxyNextUpstream :: string
  uProxyNextUpstreamTimeout :: string
  uProxyNextUpstreamTries :: int
  uProxyBuffering :: "bool option"
  uProxyBuffers :: "UpstreamBuffers option"
  uProxyBufferSize :: string
  uClientMaxBodySize :: string
  uTLS :: UpstreamTLS
  uHealthCheck :: "HealthCheck option"
  uSlowStart :: string
  uQueue :: "UpstreamQueue option"
  uSessionCookie :: "SessionCookie option"
  uUseClusterIP :: bool

record ActionRedirect =
  arURL :: string
  arCode :: int

record ActionReturn =
  atCode :: int
  atType :: string
  atBody :: string

record ProxyRequestHeaders =
  prhPass :: "bool option"
  prhSet :: "Header list"

record AddHeader =
  ahHeader :: Header
  ahAlways :: bool

record ProxyResponseHeaders =
  prsHide :: "string list"
  prsPass :: "string list"
  prsIgnore :: "string list"
  prsAdd :: "AddHeader list"

record ActionProxy =
  apUpstream :: string
  apRewritePath :: string
  apRequestHeaders :: "ProxyRequestHeaders option"
  apResponseHeaders :: "ProxyResponseHeaders option"

record Action =
  acPass :: string
  acRedirect :: "ActionRedirect option"
  acReturn :: "ActionReturn option"
  acProxy :: "ActionProxy option"

record Split =
  spWeight :: int
  spAction :: "Action option"

record Condition =
  cdHeader :: string
  cdCookie :: string
  cdArgument :: string
  cdVariable :: string
  cdValue :: string

record Match =
  mtConditions :: "Condition list"
  mtAction :: "Action option"
  mtSplits :: "Split list"

record ErrorPageReturn =
  erActionReturn :: ActionReturn
  erHeaders :: "Header list"

record ErrorPageRedirect =
  edActionRedirect :: ActionRedirect

record ErrorPage =
  epCodes :: "int list"
  epReturn :: "ErrorPageReturn option"
  epRedirect :: "ErrorPageRedirect option"

record Route =
  rtPath :: string
  rtPolicies :: "PolicyReference list"
  rtRoute :: string
  rtAction :: "Action option"
  rtSplits :: "Split list"
  rtMatches :: "Match list"
  rtErrorPages :: "ErrorPage list option"
  rtLocationSnippets :: string

record TLSRedirect =
  trEnable :: bool
  trCode :: "int option"
  trBasedOn :: string

record TLS =
  tlSecret :: string
  tlRedirect :: "TLSRedirect option"

record VirtualServerSpec =
  vssIngressClass :: string
  vssHost :: string
  vssTLS :: "TLS option"
  vssPolicies :: "PolicyReference list"
  vssUpstreams :: "Upstream list"
  vssRoutes :: "Route list"
  vssHTTPSnippets :: string
  vssServerSnippets :: string

record VirtualServer =
  vsMeta :: ObjectMeta
  vsSpec :: VirtualServerSpec

record VirtualServerRouteSpec =
  vrsIngressClass :: string
  vrsHost :: string
  vrsUpstreams :: "Upstream list"
  vrsSubroutes :: "Route list"

record VirtualServerRoute =
  vsrMeta :: ObjectMeta
  vsrSpec :: VirtualServerRouteSpec

section \<open>TransportServer, GlobalConfiguration (package v1alpha1)\<close>

definition TLSPassthroughListenerName :: string where
  "TLSPassthroughListenerName = ''tls-passthrough''"

definition TLSPassthroughListenerProtocol :: string where
  "TLSPassthroughListenerProtocol = ''TLS_PASSTHROUGH''"

record Listener =
  lsName :: string
  lsPort :: int
  lsProtocol :: string

record GlobalConfigurationSpec =
  gcsListeners :: "Listener list"

record GlobalConfiguration =
  gcMeta :: ObjectMeta
  gcSpec :: GlobalConfigurationSpec

record TransportServerListener =
  tslName :: string
  tslProtocol :: string

record TSHealthCheck =
  thEnabled :: bool
  thTimeout :: string
  thJitter :: string
  thPort :: int
  thInterval :: string
  thPasses :: int
  thFails :: int

record TSUpstream =
  tuName :: string
  tuService :: string
  tuPort :: int
  tuFailTimeout :: string
  tuMaxFails :: "int option"
  tuHealthCheck :: "TSHealthCheck option"

record UpstreamParameters =
  upUDPRequests :: "int option"
  upUDPResponses :: "int option"
  upConnectTimeout :: string
  upNextUpstream :: bool
  upNextUpstreamTimeout :: string
  upNextUpstreamTries :: int

record SessionParameters =
  spTimeout :: string

record TSAction =
  taPass :: string

record TransportServerSpec =
  tssIngressClass :: string
  tssListener :: TransportServerListener
  tssServerSnippets :: string
  tssHost :: string
  tssUpstreams :: "TSUpstream list"
  tssUpstreamParameters :: "UpstreamParameters option"
  tssSessionParameters :: "SessionParameters option"
  tssAction :: "TSAction option"

record TransportServer =
  tsMeta :: ObjectMeta
  tsSpec :: TransportServerSpec

section \<open>Keys\<close>

definition getResourceKey :: "ObjectMeta \<Rightarrow> string" where
  "getResourceKey m = omNamespace m @ ''/'' @ omName m"

definition getResourceKeyWithKind :: "string \<Rightarrow> ObjectMeta \<Rightarrow> string" where
  "getResourceKeyWithKind kind m = kind @ ''/'' @ omNamespace m @ ''/'' @ omName m"

lemma keyWithKind_key: "getResourceKeyWithKind kind m = kind @ ''/'' @ getResourceKey m"
  by (simp add: getResourceKeyWithKind_def getResourceKey_def)

lemma keyWithKind_inject: "getResourceKeyWithKind kind m = getResourceKeyWithKind kind m' \<longleftrightarrow> getResourceKey m = getResourceKey m'"
  by (simp add: keyWithKind_key)

text \<open>Kinds without a slash keep the keys of different kinds apart.\<close>

lemma keyWithKind_kind_eq:
  assumes "CHR ''/'' \<notin> set k" "CHR ''/'' \<notin> set k'"
    and "getResourceKeyWithKind k m = getResourceKeyWithKind k' m'"
  shows "k = k'"
proof -
  have "splitOn (CHR ''/'') (getResourceKeyWithKind k m) = splitOn (CHR ''/'') (getResourceKeyWithKind k' m')"
    using assms(3) by simp
  then show ?thesis using assms(1,2) by (simp add: keyWithKind_key splitOn_append)
qed

end
