(* ===== verification/Ingress_Validation.thy ===== *)
theory Ingress_Validation
  imports Parsing_Helpers Api_Types
begin

text \<open>
  \<open>internal/k8s/validation.go\<close>: which Ingress resources the controller accepts. Each annotation
  the controller knows has a list of checks, run in order until one fails; then the spec is
  checked, with extra rules for the master and the minions of a merged Ingress. Lemmas: when a
  spec is accepted, what acceptance of an annotation means, and that the other components may
  index the first rule (and a minion's paths) of an accepted Ingress.
\<close>

section \<open>Master and minion (utils.go)\<close>

text \<open>A missing key reads as the empty string.\<close>

definition gstr :: "string gomap \<Rightarrow> string \<Rightarrow> string" where
  "gstr m k = (case gget m k of None \<Rightarrow> '''' | Some v \<Rightarrow> v)"

definition isMinion :: "Ingress \<Rightarrow> bool" where
  "isMinion ing = (gstr (omAnnotations (ingMeta ing)) ''nginx.org/mergeable-ingress-type'' = ''minion'')"

definition isMaster :: "Ingress \<Rightarrow> bool" where
  "isMaster ing = (gstr (omAnnotations (ingMeta ing)) ''nginx.org/mergeable-ingress-type'' = ''master'')"

lemma minion_not_master: "isMinion ing \<Longrightarrow> \<not> isMaster ing"
  by (simp add: isMinion_def isMaster_def)

section \<open>Checks of one annotation\<close>

record annotationValidationContext =
  avAnnotations :: "string gomap"
  avSpecServices :: "bool gomap"
  avName :: string
  avValue :: string
  avIsPlus :: bool
  avAppProtectEnabled :: bool
  avInternalRoutesEnabled :: bool
  avFieldPath :: path

type_synonym annotationValidationFunc = "annotationValidationContext \<Rightarrow> error_list"

definition invalidIf :: "bool \<Rightarrow> annotationValidationContext \<Rightarrow> string \<Rightarrow> error_list" where
  "invalidIf b ctx msg = (if b then [Invalid (avFieldPath ctx) (BadStr (avValue ctx)) msg] else [])"

lemma invalidIf_Nil [simp]: "invalidIf b ctx msg = [] \<longleftrightarrow> \<not> b"
  by (simp add: invalidIf_def)

definition validateRelatedAnnotation :: "string \<Rightarrow> (string \<Rightarrow> string option) \<Rightarrow> annotationValidationFunc" where
  "validateRelatedAnnotation name validator ctx =
     (case gget (avAnnotations ctx) name of
        None \<Rightarrow> [Forbidden (avFieldPath ctx) (''related annotation '' @ name @ '': must be set'')]
      | Some val \<Rightarrow>
          (case validator val of
             Some err \<Rightarrow> [Forbidden (avFieldPath ctx) (''related annotation '' @ name @ '': '' @ err)]
           | None \<Rightarrow> []))"

definition validateMergeableIngressTypeAnnotation :: annotationValidationFunc where
  "validateMergeableIngressTypeAnnotation ctx =
     invalidIf (avValue ctx \<noteq> ''master'' \<and> avValue ctx \<noteq> ''minion'') ctx
       (''must be one of: '' @ [CHR 0x27] @ ''master'' @ [CHR 0x27] @ '' or '' @ [CHR 0x27] @ ''minion'' @ [CHR 0x27])"

definition errText :: "'a parsed \<Rightarrow> string" where
  "errText r = (case r of Inl e \<Rightarrow> e | Inr _ \<Rightarrow> '''')"

definition validateLBMethodAnnotation :: annotationValidationFunc where
  "validateLBMethodAnnotation ctx =
     (let r = (if avIsPlus ctx then ParseLBMethodForPlus else ParseLBMethod) (avValue ctx)
      in invalidIf (isErr r) ctx (errText r))"

definition validateServerTokensAnnotation :: annotationValidationFunc where
  "validateServerTokensAnnotation ctx =
     invalidIf (\<not> avIsPlus ctx \<and> isErr (ParseBool (avValue ctx))) ctx ''must be a boolean''"

definition validateRequiredAnnotation :: annotationValidationFunc where
  "validateRequiredAnnotation ctx = (if avValue ctx = '''' then [Required (avFieldPath ctx) ''''] else [])"

definition validatePlusOnlyAnnotation :: annotationValidationFunc where
  "validatePlusOnlyAnnotation ctx =
     (if \<not> avIsPlus ctx then [Forbidden (avFieldPath ctx) ''annotation requires NGINX Plus''] else [])"

definition validateAppProtectOnlyAnnotation :: annotationValidationFunc where
  "validateAppProtectOnlyAnnotation ctx =
     (if \<not> avAppProtectEnabled ctx then [Forbidden (avFieldPath ctx) ''annotation requires AppProtect''] else [])"

definition validateInternalRoutesOnlyAnnotation :: annotationValidationFunc where
  "validateInternalRoutesOnlyAnnotation ctx =
     (if \<not> avInternalRoutesEnabled ctx
      then [Forbidden (avFieldPath ctx) ''annotation requires Internal Routes enabled''] else [])"

definition validateBoolAnnotation :: annotationValidationFunc where
  "validateBoolAnnotation ctx = invalidIf (isErr (ParseBool (avValue ctx))) ctx ''must be a boolean''"

definition validateTimeAnnotation :: annotationValidationFunc where
  "validateTimeAnnotation ctx = invalidIf (isErr (ParseTime (avValue ctx))) ctx ''must be a time''"

definition validateOffsetAnnotation :: annotationValidationFunc where
  "validateOffsetAnnotation ctx = invalidIf (isErr (ParseOffset (avValue ctx))) ctx ''must be an offset''"

definition validateSizeAnnotation :: annotationValidationFunc where
  "validateSizeAnnotation ctx = invalidIf (isErr (ParseSize (avValue ctx))) ctx ''must be a size''"

definition validateProxyBuffersAnnotation :: annotationValidationFunc where
  "validateProxyBuffersAnnotation ctx =
     invalidIf (isErr (ParseProxyBuffersSpec (avValue ctx))) ctx ''must be a proxy buffer spec''"

definition validateUint64Annotation :: annotationValidationFunc where
  "validateUint64Annotation ctx =
     invalidIf (isErr (ParseUint64 (avValue ctx))) ctx ''must be a non-negative integer''"

definition validateInt64Annotation :: annotationValidationFunc where
  "validateInt64Annotation ctx = invalidIf (isErr (ParseInt64 (avValue ctx))) ctx ''must be an integer''"

definition validateIntAnnotation :: annotationValidationFunc where
  "validateIntAnnotation ctx = invalidIf (isErr (ParseInt (avValue ctx))) ctx ''must be an integer''"

definition validatePortListAnnotation :: annotationValidationFunc where
  "validatePortListAnnotation ctx =
     invalidIf (isErr (ParsePortList (avValue ctx))) ctx ''must be a comma-separated list of port numbers''"

definition validateServiceListAnnotation :: annotationValidationFunc where
  "validateServiceListAnnotation ctx =
     (let unknownServices = filter (\<lambda>svc. \<not> ghas (avSpecServices ctx) svc) (map fst (ParseServiceList (avValue ctx)))
      in invalidIf (unknownServices \<noteq> []) ctx
           (''must be a comma-separated list of services. The following services were not found: ''
             @ joinStr '','' unknownServices))"

definition validateStickyServiceListAnnotation :: annotationValidationFunc where
  "validateStickyServiceListAnnotation ctx =
     invalidIf (isErr (ParseStickyServiceList (avValue ctx))) ctx ''must be a semicolon-separated list of sticky services''"

definition validateRewriteListAnnotation :: annotationValidationFunc where
  "validateRewriteListAnnotation ctx =
     invalidIf (isErr (ParseRewriteList (avValue ctx))) ctx ''must be a semicolon-separated list of rewrites''"

definition validateIsBool :: "string \<Rightarrow> string option" where
  "validateIsBool v = (case ParseBool v of Inl e \<Rightarrow> Some e | Inr _ \<Rightarrow> None)"

definition validateIsTrue :: "string \<Rightarrow> string option" where
  "validateIsTrue v =
     (case ParseBool v of Inl e \<Rightarrow> Some e | Inr b \<Rightarrow> (if b then None else Some ''must be true''))"

section \<open>The table of annotations\<close>

definition annotationValidations :: "annotationValidationFunc list gomap" where
  "annotationValidations =
     [(''nginx.org/mergeable-ingress-type'', [validateRequiredAnnotation, validateMergeableIngressTypeAnnotation]),
      (''nginx.org/lb-method'', [validateRequiredAnnotation, validateLBMethodAnnotation]),
      (''nginx.com/health-checks'', [validatePlusOnlyAnnotation, validateRequiredAnnotation, validateBoolAnnotation]),
      (''nginx.com/health-checks-mandatory'',
        [validatePlusOnlyAnnotation, validateRelatedAnnotation ''nginx.com/health-checks'' validateIsTrue,
         validateRequiredAnnotation, validateBoolAnnotation]),
      (''nginx.com/health-checks-mandatory-queue'',
        [validatePlusOnlyAnnotation, validateRelatedAnnotation ''nginx.com/health-checks-mandatory'' validateIsTrue,
         validateRequiredAnnotation, validateUint64Annotation]),
      (''nginx.com/slow-start'', [validatePlusOnlyAnnotation, validateRequiredAnnotation, validateTimeAnnotation]),
      (''nginx.org/server-tokens'', [validateRequiredAnnotation, validateServerTokensAnnotation]),
      (''nginx.org/server-snippets'', []),
      (''nginx.org/location-snippets'', []),
      (''nginx.org/proxy-connect-timeout'', [validateRequiredAnnotation, validateTimeAnnotation]),
      (''nginx.org/proxy-read-timeout'', [validateRequiredAnnotation, validateTimeAnnotation]),
      (''nginx.org/proxy-send-timeout'', [validateRequiredAnnotation, validateTimeAnnotation]),
      (''nginx.org/proxy-hide-headers'', []),
      (''nginx.org/proxy-pass-headers'', []),
      (''nginx.org/client-max-body-size'', [validateRequiredAnnotation, validateOffsetAnnotation]),
      (''nginx.org/redirect-to-https'', [validateRequiredAnnotation, validateBoolAnnotation]),
      (''ingress.kubernetes.io/ssl-redirect'', [validateRequiredAnnotation, validateBoolAnnotation]),
      (''nginx.org/proxy-buffering'', [validateRequiredAnnotation, validateBoolAnnotation]),
      (''nginx.org/hsts'', [validateRequiredAnnotation, validateBoolAnnotation]),
      (''nginx.org/hsts-max-age'',
        [validateRelatedAnnotation ''nginx.org/hsts'' validateIsBool, validateRequiredAnnotation, validateInt64Annotation]),
      (''nginx.org/hsts-include-subdomains'',
        [validateRelatedAnnotation ''nginx.org/hsts'' validateIsBool, validateRequiredAnnotation, validateBoolAnnotation]),
      (''nginx.org/hsts-behind-proxy'',
        [validateRelatedAnnotation ''nginx.org/hsts'' validateIsBool, validateRequiredAnnotation, validateBoolAnnotation]),
      (''nginx.org/proxy-buffers'', [validateRequiredAnnotation, validateProxyBuffersAnnotation]),
      (''nginx.org/proxy-buffer-size'', [validateRequiredAnnotation, validateSizeAnnotation]),
      (''nginx.org/proxy-max-temp-file-size'', [validateRequiredAnnotation, validateSizeAnnotation]),
      (''nginx.org/upstream-zone-size'', [validateRequiredAnnotation, validateSizeAnnotation]),
      (''nginx.com/jwt-realm'', [validatePlusOnlyAnnotation]),
      (''nginx.com/jwt-key'', [validatePlusOnlyAnnotation]),
      (''nginx.com/jwt-token'', [validatePlusOnlyAnnotation]),
      (''nginx.com/jwt-login-url'', [validatePlusOnlyAnnotation]),
      (''nginx.org/listen-ports'', [validateRequiredAnnotation, validatePortListAnnotation]),
      (''nginx.org/listen-ports-ssl'', [validateRequiredAnnotation, validatePortListAnnotation]),
      (''nginx.org/keepalive'', [validateRequiredAnnotation, validateIntAnnotation]),
      (''nginx.org/max-fails'', [validateRequiredAnnotation, validateUint64Annotation]),
      (''nginx.org/max-conns'', [validateRequiredAnnotation, validateUint64Annotation]),
      (''nginx.org/fail-timeout'', [validateRequiredAnnotation, validateTimeAnnotation]),
      (''appprotect.f5.com/app-protect-enable'',
        [validateAppProtectOnlyAnnotation, validateRequiredAnnotation, validateBoolAnnotation]),
      (''appprotect.f5.com/app-protect-security-log-enable'',
        [validateAppProtectOnlyAnnotation, validateRequiredAnnotation, validateBoolAnnotation]),
      (''nsm.nginx.com/internal-route'',
        [validateInternalRoutesOnlyAnnotation, validateRequiredAnnotation, validateBoolAnnotation]),
      (''nginx.org/websocket-services'', [validateRequiredAnnotation, validateServiceListAnnotation]),
      (''nginx.org/ssl-services'', [validateRequiredAnnotation, validateServiceListAnnotation]),
      (''nginx.org/grpc-services'', [validateRequiredAnnotation, validateServiceListAnnotation]),
      (''nginx.org/rewrites'', [validateRequiredAnnotation, validateRewriteListAnnotation]),
      (''nginx.com/sticky-cookie-services'',
        [validatePlusOnlyAnnotation, validateRequiredAnnotation, validateStickyServiceListAnnotation])]"

definition annotationNames :: "string list" where
  "annotationNames = sortedKeys annotationValidations"

text \<open>The checks of one annotation run in order; the first that fails ends the loop.\<close>

fun firstErrors :: "annotationValidationFunc list \<Rightarrow> annotationValidationContext \<Rightarrow> error_list" where
  "firstErrors [] ctx = []"
| "firstErrors (f # fs) ctx = (let valErrors = f ctx in if valErrors \<noteq> [] then valErrors else firstErrors fs ctx)"

definition validateIngressAnnotation :: annotationValidationFunc where
  "validateIngressAnnotation ctx =
     (case gget annotationValidations (avName ctx) of None \<Rightarrow> [] | Some validationFuncs \<Rightarrow> firstErrors validationFuncs ctx)"

definition validateIngressAnnotations ::
    "string gomap \<Rightarrow> bool gomap \<Rightarrow> bool \<Rightarrow> bool \<Rightarrow> bool \<Rightarrow> path \<Rightarrow> error_list" where
  "validateIngressAnnotations annotations specServices isPlus appProtectEnabled internalRoutesEnabled fieldPath =
     concat (map (\<lambda>name.
        case gget annotations name of
          None \<Rightarrow> []
        | Some value \<Rightarrow> validateIngressAnnotation
            \<lparr>avAnnotations = annotations, avSpecServices = specServices, avName = name, avValue = value,
             avIsPlus = isPlus, avAppProtectEnabled = appProtectEnabled,
             avInternalRoutesEnabled = internalRoutesEnabled, avFieldPath = child fieldPath name\<rparr>)
       annotationNames)"

text \<open>Evaluation need not go through the names when there is no annotation.\<close>

lemma validateIngressAnnotations_code [code]:
  "validateIngressAnnotations annotations specServices isPlus appProtectEnabled internalRoutesEnabled fieldPath =
     (if annotations = [] then []
      else concat (map (\<lambda>name.
        case gget annotations name of
          None \<Rightarrow> []
        | Some value \<Rightarrow> validateIngressAnnotation
            \<lparr>avAnnotations = annotations, avSpecServices = specServices, avName = name, avValue = value,
             avIsPlus = isPlus, avAppProtectEnabled = appProtectEnabled,
             avInternalRoutesEnabled = internalRoutesEnabled, avFieldPath = child fieldPath name\<rparr>)
       annotationNames))"
  by (auto simp: validateIngressAnnotations_def)

section \<open>The spec\<close>

fun validateRuleHosts :: "path \<Rightarrow> nat \<Rightarrow> string list \<Rightarrow> IngressRule list \<Rightarrow> error_list" where
  "validateRuleHosts fieldPath i allHosts [] = []"
| "validateRuleHosts fieldPath i allHosts (r # rules) =
     (let idxPath = pathIndex (child fieldPath ''rules'') i
      in if irHost r = ''''
         then Required (child idxPath ''host'') '''' # validateRuleHosts fieldPath (Suc i) allHosts rules
         else if irHost r \<in> set allHosts
         then Duplicate (child idxPath ''host'') (BadStr (irHost r)) # validateRuleHosts fieldPath (Suc i) allHosts rules
         else validateRuleHosts fieldPath (Suc i) (irHost r # allHosts) rules)"

definition validateIngressSpec :: "IngressSpec \<Rightarrow> path \<Rightarrow> error_list" where
  "validateIngressSpec spec fieldPath =
     (if isRules spec = [] then [Required (child fieldPath ''rules'') '''']
      else validateRuleHosts fieldPath 0 [] (isRules spec))"

definition rulePaths :: "IngressRule \<Rightarrow> HTTPIngressPath list" where
  "rulePaths r = (case irHTTP r of None \<Rightarrow> [] | Some h \<Rightarrow> hrPaths h)"

definition validateMasterSpec :: "IngressSpec \<Rightarrow> path \<Rightarrow> error_list" where
  "validateMasterSpec spec fieldPath =
     (if length (isRules spec) \<noteq> 1
      then [TooMany (child fieldPath ''rules'') (length (isRules spec)) 1]
      else if rulePaths (isRules spec ! 0) \<noteq> []
      then [TooMany (child (child (pathIndex (child fieldPath ''rules'') 0) ''http'') ''paths'')
             (length (rulePaths (isRules spec ! 0))) 0]
      else [])"

definition validateMinionSpec :: "IngressSpec \<Rightarrow> path \<Rightarrow> error_list" where
  "validateMinionSpec spec fieldPath =
     (let allErrs = (if isTLS spec \<noteq> [] then [TooMany (child fieldPath ''tls'') (length (isTLS spec)) 0] else [])
      in if length (isRules spec) \<noteq> 1
         then allErrs @ [TooMany (child fieldPath ''rules'') (length (isRules spec)) 1]
         else if rulePaths (isRules spec ! 0) = []
         then allErrs @ [Required (child (child (pathIndex (child fieldPath ''rules'') 0) ''http'') ''paths'')
                ''must include at least one path'']
         else allErrs)"

definition getSpecServices :: "IngressSpec \<Rightarrow> bool gomap" where
  "getSpecServices spec =
     (let services0 = (case isBackend spec of None \<Rightarrow> [] | Some b \<Rightarrow> gput (ibServiceName b) True [])
      in fold (\<lambda>r services. fold (\<lambda>p. gput (ibServiceName (hpBackend p)) True) (rulePaths r) services)
           (isRules spec) services0)"

definition validateIngress :: "Ingress \<Rightarrow> bool \<Rightarrow> bool \<Rightarrow> bool \<Rightarrow> error_list" where
  "validateIngress ing isPlus appProtectEnabled internalRoutesEnabled =
     validateIngressAnnotations (omAnnotations (ingMeta ing)) (getSpecServices (ingSpec ing))
       isPlus appProtectEnabled internalRoutesEnabled (newPath ''annotations'')
     @ validateIngressSpec (ingSpec ing) (newPath ''spec'')
     @ (if isMaster ing then validateMasterSpec (ingSpec ing) (newPath ''spec'')
        else if isMinion ing then validateMinionSpec (ingSpec ing) (newPath ''spec'')
        else [])"

section \<open>What acceptance means\<close>

lemma firstErrors_Nil_iff: "firstErrors fs ctx = [] \<longleftrightarrow> (\<forall>f\<in>set fs. f ctx = [])"
  by (induction fs) (auto simp: Let_def)

text \<open>A failing list of checks reports exactly its first failing check.\<close>

lemma firstErrors_first:
  "firstErrors fs ctx = (case find (\<lambda>f. f ctx \<noteq> []) fs of None \<Rightarrow> [] | Some f \<Rightarrow> f ctx)"
  by (induction fs) (auto simp: Let_def)

lemma validateRuleHosts_Nil_iff:
  "validateRuleHosts p i seen rules = [] \<longleftrightarrow>
     '''' \<notin> irHost ` set rules \<and> distinct (map irHost rules) \<and> irHost ` set rules \<inter> set seen = {}"
  by (induction p i seen rules rule: validateRuleHosts.induct) (auto simp: Let_def)

lemma validateIngressSpec_Nil_iff:
  "validateIngressSpec spec p = [] \<longleftrightarrow>
     isRules spec \<noteq> [] \<and> '''' \<notin> irHost ` set (isRules spec) \<and> distinct (map irHost (isRules spec))"
  by (simp add: validateIngressSpec_def validateRuleHosts_Nil_iff)

lemma validateMasterSpec_Nil_iff:
  "validateMasterSpec spec p = [] \<longleftrightarrow> (\<exists>r. isRules spec = [r] \<and> rulePaths r = [])"
  by (cases "isRules spec"; cases "tl (isRules spec)") (auto simp: validateMasterSpec_def)

lemma validateMinionSpec_Nil_iff:
  "validateMinionSpec spec p = [] \<longleftrightarrow> isTLS spec = [] \<and> (\<exists>r. isRules spec = [r] \<and> rulePaths r \<noteq> [])"
  by (cases "isRules spec"; cases "tl (isRules spec)") (auto simp: validateMinionSpec_def Let_def)

lemma rulePaths_not_Nil: "rulePaths r \<noteq> [] \<Longrightarrow> \<exists>h. irHTTP r = Some h \<and> hrPaths h = rulePaths r"
  by (auto simp: rulePaths_def split: option.splits)

text \<open>The invariant of an accepted Ingress the other components rely on.\<close>

definition okIngress :: "Ingress \<Rightarrow> bool" where
  "okIngress ing =
     (isRules (ingSpec ing) \<noteq> []
      \<and> '''' \<notin> irHost ` set (isRules (ingSpec ing))
      \<and> distinct (map irHost (isRules (ingSpec ing)))
      \<and> (isMaster ing \<longrightarrow> (\<exists>r. isRules (ingSpec ing) = [r] \<and> rulePaths r = []))
      \<and> (isMinion ing \<longrightarrow> isTLS (ingSpec ing) = [] \<and> (\<exists>r. isRules (ingSpec ing) = [r] \<and> rulePaths r \<noteq> [])))"

lemma validateIngress_Nil_iff:
  "validateIngress ing pl ap ir = [] \<longleftrightarrow>
     validateIngressAnnotations (omAnnotations (ingMeta ing)) (getSpecServices (ingSpec ing)) pl ap ir (newPath ''annotations'') = []
     \<and> okIngress ing"
  using minion_not_master [of ing]
  by (auto simp: validateIngress_def okIngress_def validateIngressSpec_Nil_iff validateMasterSpec_Nil_iff
      validateMinionSpec_Nil_iff)

lemma validateIngress_ok: "validateIngress ing pl ap ir = [] \<Longrightarrow> okIngress ing"
  by (simp add: validateIngress_Nil_iff)

subsection \<open>Annotations\<close>

lemma set_annotationNames: "set annotationNames = gkeys annotationValidations"
  by (simp add: annotationNames_def)

lemma gget_validations_key: "gget annotationValidations name = Some fs \<Longrightarrow> name \<in> set annotationNames"
  by (simp add: set_annotationNames gget_in_keys)

definition annotationContext :: "Ingress \<Rightarrow> bool \<Rightarrow> bool \<Rightarrow> bool \<Rightarrow> string \<Rightarrow> string \<Rightarrow> annotationValidationContext" where
  "annotationContext ing pl ap ir name value =
     \<lparr>avAnnotations = omAnnotations (ingMeta ing), avSpecServices = getSpecServices (ingSpec ing), avName = name,
      avValue = value, avIsPlus = pl, avAppProtectEnabled = ap, avInternalRoutesEnabled = ir,
      avFieldPath = child (newPath ''annotations'') name\<rparr>"

text \<open>Each check the table lists for a present annotation has passed in an accepted Ingress.\<close>

lemma accepted_annotation:
  assumes "validateIngress ing pl ap ir = []"
    and "gget (omAnnotations (ingMeta ing)) name = Some value"
    and "gget annotationValidations name = Some fs" and "f \<in> set fs"
  shows "f (annotationContext ing pl ap ir name value) = []"
proof -
  have "validateIngressAnnotation (annotationContext ing pl ap ir name value) = []"
    using assms(1,2) gget_validations_key [OF assms(3)]
    by (auto simp: validateIngress_Nil_iff validateIngressAnnotations_def annotationContext_def)
  then show ?thesis
    using assms(3,4) by (simp add: validateIngressAnnotation_def firstErrors_Nil_iff annotationContext_def)
qed

lemma required_check: "validateRequiredAnnotation ctx = [] \<longleftrightarrow> avValue ctx \<noteq> ''''"
  by (simp add: validateRequiredAnnotation_def)

lemma plus_check: "validatePlusOnlyAnnotation ctx = [] \<longleftrightarrow> avIsPlus ctx"
  by (simp add: validatePlusOnlyAnnotation_def)

lemma related_check:
  "validateRelatedAnnotation name validator ctx = [] \<longleftrightarrow>
     (\<exists>val. gget (avAnnotations ctx) name = Some val \<and> validator val = None)"
  by (auto simp: validateRelatedAnnotation_def split: option.splits)

lemma isTrue_check: "validateIsTrue v = None \<longleftrightarrow> ParseBool v = Inr True"
  by (auto simp: validateIsTrue_def split: sum.splits)

lemma isBool_check: "validateIsBool v = None \<longleftrightarrow> (\<exists>b. ParseBool v = Inr b)"
  by (auto simp: validateIsBool_def split: sum.splits)

lemma annotation_tables:
  "gget annotationValidations ''nginx.org/mergeable-ingress-type''
     = Some [validateRequiredAnnotation, validateMergeableIngressTypeAnnotation]"
  "gget annotationValidations ''nginx.com/health-checks''
     = Some [validatePlusOnlyAnnotation, validateRequiredAnnotation, validateBoolAnnotation]"
  "gget annotationValidations ''nginx.com/health-checks-mandatory''
     = Some [validatePlusOnlyAnnotation, validateRelatedAnnotation ''nginx.com/health-checks'' validateIsTrue,
         validateRequiredAnnotation, validateBoolAnnotation]"
  "gget annotationValidations ''nginx.com/health-checks-mandatory-queue''
     = Some [validatePlusOnlyAnnotation, validateRelatedAnnotation ''nginx.com/health-checks-mandatory'' validateIsTrue,
         validateRequiredAnnotation, validateUint64Annotation]"
  "gget annotationValidations ''nginx.org/ssl-services'' = Some [validateRequiredAnnotation, validateServiceListAnnotation]"
  "gget annotationValidations ''nginx.org/listen-ports'' = Some [validateRequiredAnnotation, validatePortListAnnotation]"
  by (simp_all add: annotationValidations_def)

lemma accepted_mergeable_type:
  assumes "validateIngress ing pl ap ir = []"
    and "gget (omAnnotations (ingMeta ing)) ''nginx.org/mergeable-ingress-type'' = Some v"
  shows "isMaster ing \<or> isMinion ing"
  using accepted_annotation [OF assms annotation_tables(1), of validateMergeableIngressTypeAnnotation] assms(2)
  by (auto simp: validateMergeableIngressTypeAnnotation_def annotationContext_def isMaster_def isMinion_def gstr_def)

section \<open>Services of the spec\<close>

definition specServiceNames :: "IngressSpec \<Rightarrow> string set" where
  "specServiceNames spec =
     {ibServiceName b | b. isBackend spec = Some b}
     \<union> {ibServiceName (hpBackend p) | p r. r \<in> set (isRules spec) \<and> p \<in> set (rulePaths r)}"

lemma gkeys_fold_paths:
  "gkeys (fold (\<lambda>p. gput (ibServiceName (hpBackend p)) True) ps m) = gkeys m \<union> (\<lambda>p. ibServiceName (hpBackend p)) ` set ps"
  by (induction ps arbitrary: m) auto

lemma gkeys_fold_rules:
  "gkeys (fold (\<lambda>r services. fold (\<lambda>p. gput (ibServiceName (hpBackend p)) True) (rulePaths r) services) rules m)
     = gkeys m \<union> {ibServiceName (hpBackend p) | p r. r \<in> set rules \<and> p \<in> set (rulePaths r)}"
  by (induction rules arbitrary: m) (auto simp: gkeys_fold_paths)

lemma gkeys_getSpecServices: "gkeys (getSpecServices spec) = specServiceNames spec"
  by (auto simp: getSpecServices_def Let_def gkeys_fold_rules specServiceNames_def split: option.splits)

lemma gkeys_ParseServiceList: "gkeys (ParseServiceList s) = set (splitOn (CHR '','') s)"
proof -
  have "gkeys (fold (\<lambda>part services. gput part True services) ps m) = gkeys m \<union> set ps" for ps and m :: "bool gomap"
    by (induction ps arbitrary: m) auto
  then show ?thesis by (simp add: ParseServiceList_def)
qed

lemma service_list_check:
  "validateServiceListAnnotation ctx = [] \<longleftrightarrow> set (splitOn (CHR '','') (avValue ctx)) \<subseteq> gkeys (avSpecServices ctx)"
proof -
  have "validateServiceListAnnotation ctx = [] \<longleftrightarrow> gkeys (ParseServiceList (avValue ctx)) \<subseteq> gkeys (avSpecServices ctx)"
    by (auto simp: validateServiceListAnnotation_def Let_def filter_empty_conv ghas_iff gkeys_def)
  then show ?thesis by (simp add: gkeys_ParseServiceList)
qed

section \<open>Properties\<close>

text \<open>
  C21: an accepted Ingress that makes health checks mandatory runs on NGINX Plus, and has health
  checks switched on by their own annotation, and both annotations hold booleans.
\<close>

theorem mandatory_health_checks_need_health_checks:
  assumes "validateIngress ing isPlus appProtect internalRoutes = []"
    and "gget (omAnnotations (ingMeta ing)) ''nginx.com/health-checks-mandatory'' = Some v"
  shows "isPlus \<and> (\<exists>b. ParseBool v = Inr b)
         \<and> (\<exists>w. gget (omAnnotations (ingMeta ing)) ''nginx.com/health-checks'' = Some w \<and> ParseBool w = Inr True)"
proof -
  note acc = accepted_annotation [OF assms annotation_tables(3)]
  have "isPlus" using acc [of validatePlusOnlyAnnotation] by (simp add: plus_check annotationContext_def)
  moreover have "\<exists>w. gget (omAnnotations (ingMeta ing)) ''nginx.com/health-checks'' = Some w \<and> ParseBool w = Inr True"
    using acc [of "validateRelatedAnnotation ''nginx.com/health-checks'' validateIsTrue"]
    by (simp add: related_check isTrue_check annotationContext_def)
  moreover have "\<exists>b. ParseBool v = Inr b"
    using acc [of validateBoolAnnotation]
    by (simp add: validateBoolAnnotation_def annotationContext_def not_isErr_iff)
  ultimately show ?thesis by blast
qed

text \<open>A sample Ingress with one host and one path, and the given annotations.\<close>

definition sampleMeta :: "string \<Rightarrow> string \<Rightarrow> string \<Rightarrow> int \<Rightarrow> string gomap \<Rightarrow> ObjectMeta" where
  "sampleMeta ns name uid t annotations =
     \<lparr>omName = name, omNamespace = ns, omUID = uid, omGeneration = 1, omCreationTimestamp = t, omAnnotations = annotations\<rparr>"

definition sampleRule :: "string \<Rightarrow> string list \<Rightarrow> IngressRule" where
  "sampleRule host paths =
     \<lparr>irHost = host,
      irHTTP = Some \<lparr>hrPaths = map (\<lambda>p. \<lparr>hpPath = p, hpPathType = None,
        hpBackend = \<lparr>ibServiceName = ''svc'', ibServicePort = IntVal 80\<rparr>\<rparr>) paths\<rparr>\<rparr>"

definition sampleIngress :: "ObjectMeta \<Rightarrow> IngressRule list \<Rightarrow> Ingress" where
  "sampleIngress m rules =
     \<lparr>ingMeta = m,
      ingSpec = \<lparr>isIngressClassName = None, isBackend = None, isTLS = [], isRules = rules\<rparr>\<rparr>"

definition healthIngress :: Ingress where
  "healthIngress = sampleIngress
     (sampleMeta ''ns'' ''cafe'' ''u1'' 10
        [(''nginx.com/health-checks'', ''True''), (''nginx.com/health-checks-mandatory'', ''true'')])
     [sampleRule ''cafe.example.com'' [''/'']]"

theorem mandatory_health_checks_witness:
  "ParseBool ''true'' = Inr True
   \<and> (\<exists>w. gget (omAnnotations (ingMeta healthIngress)) ''nginx.com/health-checks'' = Some w \<and> ParseBool w = Inr True)"
proof -
  have "validateIngress healthIngress True False False = []"
    by code_simp
  moreover have "gget (omAnnotations (ingMeta healthIngress)) ''nginx.com/health-checks-mandatory'' = Some ''true''"
    by code_simp
  ultimately show ?thesis
    using mandatory_health_checks_need_health_checks [of healthIngress True False False "''true''"]
    by (auto simp: ParseBool_def goParseBool_def)
qed

end
