(* ===== verification/Resources.thy ===== *)
theory Resources
  imports Ingress_Validation
begin

text \<open>
  The first part of \<open>internal/k8s/configuration.go\<close>: the \<open>Resource\<close> interface, its three
  implementations, and the comparison that settles who gets a host, a listener or a path. The
  locale \<open>contest\<close> states what a comparison must satisfy for a contest decided by pairwise
  comparisons to have a winner no claimant beats; it is interpreted on the code's comparison.
\<close>

section \<open>Resource objects\<close>

record MinionConfiguration =
  mcIngress :: Ingress
  mcValidPaths :: "bool gomap"

record IngressConfiguration =
  icIngress :: Ingress
  icIsMaster :: bool
  icMinions :: "MinionConfiguration list"
  icValidHosts :: "bool gomap"
  icWarnings :: "string list"
  icChildWarnings :: "string list gomap"

record VirtualServerConfiguration =
  vscVirtualServer :: VirtualServer
  vscVirtualServerRoutes :: "VirtualServerRoute list"
  vscWarnings :: "string list"

record TransportServerConfiguration =
  tscListenerPort :: int
  tscTransportServer :: TransportServer
  tscWarnings :: "string list"

datatype Resource =
    IngressRes IngressConfiguration
  | VirtualServerRes VirtualServerConfiguration
  | TransportServerRes TransportServerConfiguration

definition NewRegularIngressConfiguration :: "Ingress \<Rightarrow> IngressConfiguration" where
  "NewRegularIngressConfiguration ing =
     \<lparr>icIngress = ing, icIsMaster = False, icMinions = [], icValidHosts = [], icWarnings = [], icChildWarnings = []\<rparr>"

definition NewMasterIngressConfiguration ::
    "Ingress \<Rightarrow> MinionConfiguration list \<Rightarrow> string list gomap \<Rightarrow> IngressConfiguration" where
  "NewMasterIngressConfiguration ing minions childWarnings =
     \<lparr>icIngress = ing, icIsMaster = True, icMinions = minions, icValidHosts = [], icWarnings = [],
      icChildWarnings = childWarnings\<rparr>"

definition NewMinionConfiguration :: "Ingress \<Rightarrow> MinionConfiguration" where
  "NewMinionConfiguration ing = \<lparr>mcIngress = ing, mcValidPaths = []\<rparr>"

definition NewVirtualServerConfiguration ::
    "VirtualServer \<Rightarrow> VirtualServerRoute list \<Rightarrow> string list \<Rightarrow> VirtualServerConfiguration" where
  "NewVirtualServerConfiguration vs vsrs warnings =
     \<lparr>vscVirtualServer = vs, vscVirtualServerRoutes = vsrs, vscWarnings = warnings\<rparr>"

definition NewTransportServerConfiguration :: "TransportServer \<Rightarrow> TransportServerConfiguration" where
  "NewTransportServerConfiguration ts = \<lparr>tscListenerPort = 0, tscTransportServer = ts, tscWarnings = []\<rparr>"

section \<open>The Resource interface\<close>

definition ingressKind :: string where "ingressKind = ''Ingress''"
definition virtualServerKind :: string where "virtualServerKind = ''VirtualServer''"
definition virtualServerRouteKind :: string where "virtualServerRouteKind = ''VirtualServerRoute''"
definition transportServerKind :: string where "transportServerKind = ''TransportServer''"

lemmas kind_defs = ingressKind_def virtualServerKind_def virtualServerRouteKind_def transportServerKind_def

fun GetObjectMeta :: "Resource \<Rightarrow> ObjectMeta" where
  "GetObjectMeta (IngressRes ic) = ingMeta (icIngress ic)"
| "GetObjectMeta (VirtualServerRes vsc) = vsMeta (vscVirtualServer vsc)"
| "GetObjectMeta (TransportServerRes tsc) = tsMeta (tscTransportServer tsc)"

fun GetKeyWithKind :: "Resource \<Rightarrow> string" where
  "GetKeyWithKind (IngressRes ic) = ingressKind @ ''/'' @ getResourceKey (ingMeta (icIngress ic))"
| "GetKeyWithKind (VirtualServerRes vsc) = virtualServerKind @ ''/'' @ getResourceKey (vsMeta (vscVirtualServer vsc))"
| "GetKeyWithKind (TransportServerRes tsc) = transportServerKind @ ''/'' @ getResourceKey (tsMeta (tscTransportServer tsc))"

definition chooseObjectMetaWinner :: "ObjectMeta \<Rightarrow> ObjectMeta \<Rightarrow> bool" where
  "chooseObjectMetaWinner meta1 meta2 =
     (if omCreationTimestamp meta1 = omCreationTimestamp meta2 then omUID meta1 > omUID meta2
      else omCreationTimestamp meta1 < omCreationTimestamp meta2)"

definition Wins :: "Resource \<Rightarrow> Resource \<Rightarrow> bool" where
  "Wins r1 r2 = chooseObjectMetaWinner (GetObjectMeta r1) (GetObjectMeta r2)"

fun AddWarning :: "string \<Rightarrow> Resource \<Rightarrow> Resource" where
  "AddWarning w (IngressRes ic) = IngressRes (ic\<lparr>icWarnings := icWarnings ic @ [w]\<rparr>)"
| "AddWarning w (VirtualServerRes vsc) = VirtualServerRes (vsc\<lparr>vscWarnings := vscWarnings vsc @ [w]\<rparr>)"
| "AddWarning w (TransportServerRes tsc) = TransportServerRes (tsc\<lparr>tscWarnings := tscWarnings tsc @ [w]\<rparr>)"

text \<open>\<open>reflect.DeepEqual\<close> of two maps: the same keys with the same values.\<close>

definition mapsEqual :: "'v gomap \<Rightarrow> 'v gomap \<Rightarrow> bool" where
  "mapsEqual m m' = list_all (\<lambda>k. gget m k = gget m' k) (map fst m @ map fst m')"

definition compareObjectMetas :: "ObjectMeta \<Rightarrow> ObjectMeta \<Rightarrow> bool" where
  "compareObjectMetas meta1 meta2 =
     (omNamespace meta1 = omNamespace meta2 \<and> omName meta1 = omName meta2 \<and> omGeneration meta1 = omGeneration meta2)"

definition compareObjectMetasWithAnnotations :: "ObjectMeta \<Rightarrow> ObjectMeta \<Rightarrow> bool" where
  "compareObjectMetasWithAnnotations meta1 meta2 =
     (compareObjectMetas meta1 meta2 \<and> mapsEqual (omAnnotations meta1) (omAnnotations meta2))"

definition ingressConfigurationsEqual :: "IngressConfiguration \<Rightarrow> IngressConfiguration \<Rightarrow> bool" where
  "ingressConfigurationsEqual ic ingConfig =
     (compareObjectMetasWithAnnotations (ingMeta (icIngress ic)) (ingMeta (icIngress ingConfig))
      \<and> mapsEqual (icValidHosts ic) (icValidHosts ingConfig)
      \<and> icIsMaster ic = icIsMaster ingConfig
      \<and> list_all2 (\<lambda>m m'. compareObjectMetasWithAnnotations (ingMeta (mcIngress m)) (ingMeta (mcIngress m')))
          (icMinions ic) (icMinions ingConfig))"

definition virtualServerConfigurationsEqual :: "VirtualServerConfiguration \<Rightarrow> VirtualServerConfiguration \<Rightarrow> bool" where
  "virtualServerConfigurationsEqual vsc vsConfig =
     (compareObjectMetas (vsMeta (vscVirtualServer vsc)) (vsMeta (vscVirtualServer vsConfig))
      \<and> list_all2 (\<lambda>r r'. compareObjectMetas (vsrMeta r) (vsrMeta r'))
          (vscVirtualServerRoutes vsc) (vscVirtualServerRoutes vsConfig))"

definition transportServerConfigurationsEqual :: "TransportServerConfiguration \<Rightarrow> TransportServerConfiguration \<Rightarrow> bool" where
  "transportServerConfigurationsEqual tsc tsConfig =
     (compareObjectMetas (tsMeta (tscTransportServer tsc)) (tsMeta (tscTransportServer tsConfig))
      \<and> tscListenerPort tsc = tscListenerPort tsConfig)"

fun IsEqual :: "Resource \<Rightarrow> Resource \<Rightarrow> bool" where
  "IsEqual (IngressRes ic) (IngressRes ic') = ingressConfigurationsEqual ic ic'"
| "IsEqual (VirtualServerRes vsc) (VirtualServerRes vsc') = virtualServerConfigurationsEqual vsc vsc'"
| "IsEqual (TransportServerRes tsc) (TransportServerRes tsc') = transportServerConfigurationsEqual tsc tsc'"
| "IsEqual _ _ = False"

subsection \<open>Keys\<close>

fun resourceKind :: "Resource \<Rightarrow> string" where
  "resourceKind (IngressRes ic) = ingressKind"
| "resourceKind (VirtualServerRes vsc) = virtualServerKind"
| "resourceKind (TransportServerRes tsc) = transportServerKind"

lemma GetKeyWithKind_eq: "GetKeyWithKind r = getResourceKeyWithKind (resourceKind r) (GetObjectMeta r)"
  by (cases r) (simp_all add: keyWithKind_key)

lemma resourceKind_no_slash: "CHR ''/'' \<notin> set (resourceKind r)"
  by (cases r) (simp_all add: kind_defs)

lemma GetKeyWithKind_eq_iff:
  "GetKeyWithKind r = GetKeyWithKind r' \<longleftrightarrow>
     resourceKind r = resourceKind r' \<and> getResourceKey (GetObjectMeta r) = getResourceKey (GetObjectMeta r')"
  unfolding GetKeyWithKind_eq
  by (metis keyWithKind_inject keyWithKind_kind_eq resourceKind_no_slash)

lemma AddWarning_simps [simp]:
  "GetObjectMeta (AddWarning w r) = GetObjectMeta r"
  "GetKeyWithKind (AddWarning w r) = GetKeyWithKind r"
  "resourceKind (AddWarning w r) = resourceKind r"
  "Wins (AddWarning w r) r' = Wins r r'" "Wins r' (AddWarning w r) = Wins r' r"
  by (cases r; simp add: Wins_def)+

subsection \<open>IsEqual is an equivalence that keeps the key\<close>

lemma mapsEqual_iff: "mapsEqual m m' \<longleftrightarrow> map_of m = map_of m'"
proof
  assume eq: "mapsEqual m m'"
  show "map_of m = map_of m'"
  proof
    fix k
    show "gget m k = gget m' k"
    proof (cases "k \<in> gkeys m \<union> gkeys m'")
      case True
      with eq show ?thesis by (auto simp: mapsEqual_def list_all_iff gkeys_def)
    next
      case False
      then show ?thesis by (metis Un_iff gget_None_iff)
    qed
  qed
qed (simp add: mapsEqual_def list_all_iff)

lemma list_all2_same_image: "list_all2 (\<lambda>x y. f x = f y) xs ys \<longleftrightarrow> map f xs = map f ys"
  by (auto simp: list_all2_conv_all_nth list_eq_iff_nth_eq)

text \<open>The part of a resource \<open>IsEqual\<close> looks at.\<close>

datatype fingerprint =
    IngressPrint "string \<times> string \<times> int \<times> (string \<Rightarrow> string option)" "string \<Rightarrow> bool option" bool
      "(string \<times> string \<times> int \<times> (string \<Rightarrow> string option)) list"
  | VirtualServerPrint "string \<times> string \<times> int" "(string \<times> string \<times> int) list"
  | TransportServerPrint "string \<times> string \<times> int" int

definition metaPrint :: "ObjectMeta \<Rightarrow> string \<times> string \<times> int" where
  "metaPrint m = (omNamespace m, omName m, omGeneration m)"

definition annotatedPrint :: "ObjectMeta \<Rightarrow> string \<times> string \<times> int \<times> (string \<Rightarrow> string option)" where
  "annotatedPrint m = (omNamespace m, omName m, omGeneration m, map_of (omAnnotations m))"

fun resourcePrint :: "Resource \<Rightarrow> fingerprint" where
  "resourcePrint (IngressRes ic) =
     IngressPrint (annotatedPrint (ingMeta (icIngress ic))) (map_of (icValidHosts ic)) (icIsMaster ic)
       (map (\<lambda>m. annotatedPrint (ingMeta (mcIngress m))) (icMinions ic))"
| "resourcePrint (VirtualServerRes vsc) =
     VirtualServerPrint (metaPrint (vsMeta (vscVirtualServer vsc))) (map (\<lambda>r. metaPrint (vsrMeta r)) (vscVirtualServerRoutes vsc))"
| "resourcePrint (TransportServerRes tsc) =
     TransportServerPrint (metaPrint (tsMeta (tscTransportServer tsc))) (tscListenerPort tsc)"

lemma compare_print: "compareObjectMetas m m' \<longleftrightarrow> metaPrint m = metaPrint m'"
  by (auto simp: compareObjectMetas_def metaPrint_def)

lemma compare_annotated_print: "compareObjectMetasWithAnnotations m m' \<longleftrightarrow> annotatedPrint m = annotatedPrint m'"
  by (auto simp: compareObjectMetasWithAnnotations_def compareObjectMetas_def annotatedPrint_def mapsEqual_iff)

theorem IsEqual_print: "IsEqual r r' \<longleftrightarrow> resourcePrint r = resourcePrint r'"
  by (cases r; cases r')
    (simp_all add: ingressConfigurationsEqual_def virtualServerConfigurationsEqual_def
      transportServerConfigurationsEqual_def compare_print compare_annotated_print mapsEqual_iff list_all2_same_image)

lemma IsEqual_refl [simp]: "IsEqual r r"
  by (simp add: IsEqual_print)

lemma IsEqual_sym: "IsEqual r r' \<longleftrightarrow> IsEqual r' r"
  by (auto simp: IsEqual_print)

lemma IsEqual_trans: "IsEqual a b \<Longrightarrow> IsEqual b c \<Longrightarrow> IsEqual a c"
  by (simp add: IsEqual_print)

lemma IsEqual_key: "IsEqual r r' \<Longrightarrow> GetKeyWithKind r = GetKeyWithKind r'"
  by (cases r; cases r') (auto simp: IsEqual_print metaPrint_def annotatedPrint_def getResourceKey_def)

lemma AddWarning_print [simp]: "resourcePrint (AddWarning w r) = resourcePrint r"
  by (cases r) simp_all

section \<open>Contests\<close>

text \<open>
  A contest: claimants come one after another, the holder keeps the prize only if it wins
  against the newcomer.
\<close>

fun contestFold :: "('a \<Rightarrow> 'a \<Rightarrow> bool) \<Rightarrow> 'a \<Rightarrow> 'a list \<Rightarrow> 'a" where
  "contestFold wins holder [] = holder"
| "contestFold wins holder (c # cs) = contestFold wins (if wins holder c then holder else c) cs"

text \<open>
  A table of holders (slots to keys) decided by such contests, for a set of claims (slot, key of
  the claimant, what the comparison looks at): a claimed slot has a holder, and the holder made
  a claim that no claim for the same slot beats.
\<close>

definition heldBy :: "('a \<Rightarrow> 'a \<Rightarrow> bool) \<Rightarrow> (string \<times> string \<times> 'a) set \<Rightarrow> string gomap \<Rightarrow> bool" where
  "heldBy wins C holders =
     ((\<forall>s k. gget holders s = Some k \<longrightarrow>
        (\<exists>m. (s, k, m) \<in> C \<and> (\<forall>k' m'. (s, k', m') \<in> C \<longrightarrow> \<not> wins m' m)))
      \<and> (\<forall>s k m. (s, k, m) \<in> C \<longrightarrow> gget holders s \<noteq> None))"

lemma heldByD:
  "heldBy wins C holders \<Longrightarrow> gget holders s = Some k \<Longrightarrow>
     \<exists>m. (s, k, m) \<in> C \<and> (\<forall>k' m'. (s, k', m') \<in> C \<longrightarrow> \<not> wins m' m)"
  "heldBy wins C holders \<Longrightarrow> (s, k, m) \<in> C \<Longrightarrow> gget holders s \<noteq> None"
  unfolding heldBy_def by blast+

lemma heldBy_Nil [simp]: "heldBy wins {} []"
  by (simp add: heldBy_def)

locale contest =
  fixes wins :: "'a \<Rightarrow> 'a \<Rightarrow> bool"
  assumes asym: "wins x y \<Longrightarrow> \<not> wins y x"
    and negatively_transitive: "\<not> wins x y \<Longrightarrow> \<not> wins y z \<Longrightarrow> \<not> wins x z"
begin

lemma irrefl: "\<not> wins x x"
  using asym by blast

lemma trans: "wins x y \<Longrightarrow> wins y z \<Longrightarrow> wins x z"
  using asym negatively_transitive by blast

text \<open>Whoever replaces an unbeaten holder is unbeaten itself.\<close>

lemma unbeaten_step:
  assumes "\<forall>c\<in>C. \<not> wins c h"
  shows "\<forall>c\<in>insert x (insert h C). \<not> wins c (if wins h x then h else x)"
proof (cases "wins h x")
  case True
  then show ?thesis using assms asym irrefl by auto
next
  case False
  then show ?thesis using assms irrefl negatively_transitive by auto
qed

lemma contest_unbeaten: "\<forall>c\<in>insert h (set cs). \<not> wins c (contestFold wins h cs)"
proof -
  have "\<forall>c\<in>C \<union> set cs. \<not> wins c (contestFold wins h cs)" if "\<forall>c\<in>C. \<not> wins c h" and "h \<in> C" for C
    using that
  proof (induction cs arbitrary: h C)
    case Nil
    then show ?case by simp
  next
    case (Cons x cs)
    have "\<forall>c\<in>insert x C. \<not> wins c (if wins h x then h else x)"
      using unbeaten_step [OF Cons.prems(1), of x] by auto
    moreover have "(if wins h x then h else x) \<in> insert x C" using Cons.prems(2) by simp
    ultimately show ?case using Cons.IH [of "insert x C" "if wins h x then h else x"] by auto
  qed
  from this [of "{h}"] irrefl show ?thesis by auto
qed

lemma contest_member: "contestFold wins h cs \<in> insert h (set cs)"
  by (induction cs arbitrary: h) auto

text \<open>If no two claimants tie, the winner is the one that beats every other claimant.\<close>

lemma contest_unique:
  assumes "\<And>c c'. c \<in> insert h (set cs) \<Longrightarrow> c' \<in> insert h (set cs) \<Longrightarrow> c \<noteq> c' \<Longrightarrow> wins c c' \<or> wins c' c"
    and "w \<in> insert h (set cs)" and "\<And>c. c \<in> insert h (set cs) \<Longrightarrow> c \<noteq> w \<Longrightarrow> wins w c"
  shows "contestFold wins h cs = w"
  using assms contest_unbeaten [of h cs] contest_member [of h cs] by blast

text \<open>A newcomer takes a slot whose claimants all fail to beat it, or leaves it to a holder it does not beat.\<close>

lemma held_take:
  assumes "heldBy wins C holders" and "\<And>k' m'. (s, k', m') \<in> C \<Longrightarrow> \<not> wins m' m"
  shows "heldBy wins (insert (s, key, m) C) (gput s key holders)"
  unfolding heldBy_def
proof (intro conjI allI impI)
  fix t k
  assume t: "gget (gput s key holders) t = Some k"
  show "\<exists>ma. (t, k, ma) \<in> insert (s, key, m) C \<and> (\<forall>k' m'. (t, k', m') \<in> insert (s, key, m) C \<longrightarrow> \<not> wins m' ma)"
  proof (cases "t = s")
    case True
    then show ?thesis using t assms(2) irrefl by auto
  next
    case False
    then show ?thesis using t heldByD(1) [OF assms(1), of t k] by auto
  qed
qed (use heldByD(2) [OF assms(1)] in auto)

lemma held_keep:
  assumes "heldBy wins C holders" and "gget holders s = Some hk"
    and "\<And>hm. (s, hk, hm) \<in> C \<Longrightarrow> \<not> wins m hm"
  shows "heldBy wins (insert (s, key, m) C) holders"
  unfolding heldBy_def
proof (intro conjI allI impI)
  fix t k
  assume t: "gget holders t = Some k"
  from heldByD(1) [OF assms(1) t] show "\<exists>ma. (t, k, ma) \<in> insert (s, key, m) C
      \<and> (\<forall>k' m'. (t, k', m') \<in> insert (s, key, m) C \<longrightarrow> \<not> wins m' ma)"
    using assms(2,3) t by (cases "t = s") auto
qed (use heldByD(2) [OF assms(1)] assms(2) in auto)

end

lemma winner_asym: "chooseObjectMetaWinner x y \<Longrightarrow> \<not> chooseObjectMetaWinner y x"
  by (auto simp: chooseObjectMetaWinner_def split: if_splits)

lemma winner_negatively_transitive:
  "\<not> chooseObjectMetaWinner x y \<Longrightarrow> \<not> chooseObjectMetaWinner y z \<Longrightarrow> \<not> chooseObjectMetaWinner x z"
  by (auto simp: chooseObjectMetaWinner_def split: if_splits)

lemma winner_total:
  "omUID x \<noteq> omUID y \<Longrightarrow> chooseObjectMetaWinner x y \<or> chooseObjectMetaWinner y x"
  by (auto simp: chooseObjectMetaWinner_def)

interpretation meta_contest: contest chooseObjectMetaWinner
  by unfold_locales (fact winner_asym, fact winner_negatively_transitive)

interpretation resource_contest: contest Wins
  by unfold_locales (auto simp: Wins_def dest: winner_asym winner_negatively_transitive)

end
