(* ===== verification/Config_Changes.thy ===== *)
theory Config_Changes
  imports Resources
begin

text \<open>
  The second part of \<open>internal/k8s/configuration.go\<close>: changes and problems as values, finding
  out what changed between two tables of holders (of hosts or of listeners), and turning that
  into a list of changes with at most one per resource. Lemmas: the list a squash returns, and
  that the changes carry a table of configuration files from the old holders to the new ones.
\<close>

section \<open>Changes and problems\<close>

datatype Operation = Delete | AddOrUpdate

record ResourceChange =
  rcOp :: Operation
  rcResource :: Resource
  rcError :: string

datatype RuntimeObject =
    IngressObj Ingress
  | VirtualServerObj VirtualServer
  | VirtualServerRouteObj VirtualServerRoute
  | TransportServerObj TransportServer

record ConfigurationProblem =
  cpObject :: RuntimeObject
  cpIsError :: bool
  cpReason :: string
  cpMessage :: string

definition compareConfigurationProblems :: "ConfigurationProblem \<Rightarrow> ConfigurationProblem \<Rightarrow> bool" where
  "compareConfigurationProblems p1 p2 =
     (cpIsError p1 = cpIsError p2 \<and> cpReason p1 = cpReason p2 \<and> cpMessage p1 = cpMessage p2)"

text \<open>The entries of a map in the order of its sorted keys.\<close>

definition sortedEntries :: "'v gomap \<Rightarrow> (string \<times> 'v) list" where
  "sortedEntries m = sort_key fst m"

lemma set_sortedEntries [simp]: "set (sortedEntries m) = set m"
  by (simp add: sortedEntries_def)

lemma map_insort_key: "map f (insort_key f x xs) = insort (f x) (map f xs)"
  by (induction xs) auto

lemma keys_sortedEntries: "map fst (sortedEntries m) = sortedKeys m"
  by (induction m) (simp_all add: sortedEntries_def sortedKeys_def map_insort_key)

lemma distinct_sortedEntries: "wf_gomap m \<Longrightarrow> distinct (map fst (sortedEntries m))"
  by (simp add: keys_sortedEntries)

section \<open>What changed\<close>

definition detectChangesInHosts :: "Resource gomap \<Rightarrow> Resource gomap \<Rightarrow> string list \<times> string list \<times> string list" where
  "detectChangesInHosts oldHosts newHosts =
     (filter (\<lambda>h. \<not> ghas newHosts h) (sortedKeys oldHosts),
      map fst (filter (\<lambda>(h, newR). case gget oldHosts h of None \<Rightarrow> False | Some oldR \<Rightarrow> \<not> IsEqual oldR newR)
        (sortedEntries newHosts)),
      filter (\<lambda>h. \<not> ghas oldHosts h) (sortedKeys newHosts))"

definition detectChangesInListeners ::
    "TransportServerConfiguration gomap \<Rightarrow> TransportServerConfiguration gomap \<Rightarrow> string list \<times> string list \<times> string list" where
  "detectChangesInListeners oldListeners newListeners =
     (filter (\<lambda>l. \<not> ghas newListeners l) (sortedKeys oldListeners),
      map fst (filter (\<lambda>(l, newR). case gget oldListeners l of None \<Rightarrow> False
          | Some oldR \<Rightarrow> \<not> transportServerConfigurationsEqual oldR newR) (sortedEntries newListeners)),
      filter (\<lambda>l. \<not> ghas oldListeners l) (sortedKeys newListeners))"

definition detectChangesInProblems ::
    "ConfigurationProblem gomap \<Rightarrow> ConfigurationProblem gomap \<Rightarrow> ConfigurationProblem list" where
  "detectChangesInProblems newProblems oldProblems =
     map snd (filter (\<lambda>(key, newP). case gget oldProblems key of None \<Rightarrow> True
         | Some oldP \<Rightarrow> \<not> compareConfigurationProblems newP oldP) (sortedEntries newProblems))"

definition newChange :: "Operation \<Rightarrow> Resource \<Rightarrow> ResourceChange" where
  "newChange op r = \<lparr>rcOp = op, rcResource = r, rcError = ''''\<rparr>"

text \<open>A lookup of a missing host is a nil interface, which panics when it is asked for its key.\<close>

definition createResourceChangesForHosts ::
    "string list \<Rightarrow> string list \<Rightarrow> string list \<Rightarrow> Resource gomap \<Rightarrow> Resource gomap \<Rightarrow> ResourceChange list option" where
  "createResourceChangesForHosts removedHosts updatedHosts addedHosts oldHosts newHosts =
     (case mapOpt (gget oldHosts) removedHosts of None \<Rightarrow> None | Some removed \<Rightarrow>
      case mapOpt (\<lambda>h. case gget oldHosts h of None \<Rightarrow> None
             | Some old \<Rightarrow> map_option (Pair old) (gget newHosts h)) updatedHosts of None \<Rightarrow> None | Some updated \<Rightarrow>
      case mapOpt (gget newHosts) addedHosts of None \<Rightarrow> None | Some added \<Rightarrow>
        Some (map (newChange Delete) removed
          @ map (newChange Delete \<circ> fst) (filter (\<lambda>(old, new). GetKeyWithKind old \<noteq> GetKeyWithKind new) updated)
          @ map (newChange AddOrUpdate \<circ> snd) updated
          @ map (newChange AddOrUpdate) added))"

definition createResourceChangesForListeners ::
    "string list \<Rightarrow> string list \<Rightarrow> string list \<Rightarrow> TransportServerConfiguration gomap \<Rightarrow> TransportServerConfiguration gomap
       \<Rightarrow> ResourceChange list option" where
  "createResourceChangesForListeners removedListeners updatedListeners addedListeners oldListeners newListeners =
     (case mapOpt (gget oldListeners) removedListeners of None \<Rightarrow> None | Some removed \<Rightarrow>
      case mapOpt (\<lambda>l. case gget oldListeners l of None \<Rightarrow> None
             | Some old \<Rightarrow> map_option (Pair old) (gget newListeners l)) updatedListeners of None \<Rightarrow> None | Some updated \<Rightarrow>
      case mapOpt (gget newListeners) addedListeners of None \<Rightarrow> None | Some added \<Rightarrow>
        Some (map (newChange Delete \<circ> TransportServerRes) removed
          @ map (newChange Delete \<circ> TransportServerRes \<circ> fst)
              (filter (\<lambda>(old, new). GetKeyWithKind (TransportServerRes old) \<noteq> GetKeyWithKind (TransportServerRes new)) updated)
          @ map (newChange AddOrUpdate \<circ> TransportServerRes \<circ> snd) updated
          @ map (newChange AddOrUpdate \<circ> TransportServerRes) added))"

definition changeKey :: "ResourceChange \<Rightarrow> string" where
  "changeKey c = GetKeyWithKind (rcResource c)"

fun groupChanges :: "ResourceChange list \<Rightarrow> ResourceChange list gomap \<Rightarrow> ResourceChange list gomap" where
  "groupChanges [] changesPerResource = changesPerResource"
| "groupChanges (c # cs) changesPerResource =
     groupChanges cs (gput (changeKey c)
       ((case gget changesPerResource (changeKey c) of None \<Rightarrow> [] | Some l \<Rightarrow> l) @ [c]) changesPerResource)"

fun squashLoop ::
    "ResourceChange list \<Rightarrow> ResourceChange list gomap \<Rightarrow> ResourceChange list \<Rightarrow> ResourceChange list \<Rightarrow> ResourceChange list" where
  "squashLoop [] changesPerResource deletes updates = deletes @ updates"
| "squashLoop (c # cs) changesPerResource deletes updates =
     (case gget changesPerResource (changeKey c) of
        None \<Rightarrow> squashLoop cs changesPerResource deletes updates
      | Some resChanges \<Rightarrow>
          (let squashedChanged = last resChanges
           in if rcOp squashedChanged = Delete
              then squashLoop cs (gdel (changeKey c) changesPerResource) (deletes @ [squashedChanged]) updates
              else squashLoop cs (gdel (changeKey c) changesPerResource) deletes (updates @ [squashedChanged])))"

definition squashResourceChanges :: "ResourceChange list \<Rightarrow> ResourceChange list" where
  "squashResourceChanges changes = squashLoop changes (groupChanges changes []) [] []"

text \<open>A change that refers to an older version of a resource is made to refer to the latest one.\<close>

definition referToLatest :: "Resource gomap \<Rightarrow> ResourceChange list \<Rightarrow> ResourceChange list" where
  "referToLatest newResources changes =
     map (\<lambda>c. case gget newResources (changeKey c) of None \<Rightarrow> c | Some r \<Rightarrow> c\<lparr>rcResource := r\<rparr>) changes"

section \<open>What a squash returns\<close>

lemma gget_groupChanges:
  "gget (groupChanges cs m) k =
     (case filter (\<lambda>c. changeKey c = k) cs of
        [] \<Rightarrow> gget m k
      | l \<Rightarrow> Some ((case gget m k of None \<Rightarrow> [] | Some l0 \<Rightarrow> l0) @ l))"
  by (induction cs m rule: groupChanges.induct) (auto split: option.splits list.splits)

fun pendingChanges :: "ResourceChange list \<Rightarrow> ResourceChange list gomap \<Rightarrow> ResourceChange list" where
  "pendingChanges [] m = []"
| "pendingChanges (c # cs) m =
     (case gget m (changeKey c) of
        None \<Rightarrow> pendingChanges cs m
      | Some l \<Rightarrow> last l # pendingChanges cs (gdel (changeKey c) m))"

lemma squashLoop_pending:
  "squashLoop cs m deletes updates =
     deletes @ filter (\<lambda>c. rcOp c = Delete) (pendingChanges cs m)
     @ updates @ filter (\<lambda>c. rcOp c \<noteq> Delete) (pendingChanges cs m)"
  by (induction cs m deletes updates rule: squashLoop.induct) (auto simp: Let_def split: option.splits)

definition groupedByKey :: "ResourceChange list gomap \<Rightarrow> bool" where
  "groupedByKey m = (\<forall>k l. gget m k = Some l \<longrightarrow> l \<noteq> [] \<and> (\<forall>c\<in>set l. changeKey c = k))"

lemma groupedByKey_gdel: "groupedByKey m \<Longrightarrow> groupedByKey (gdel k m)"
  by (auto simp: groupedByKey_def)

lemma in_pendingChanges:
  "x \<in> set (pendingChanges cs m) \<longleftrightarrow> (\<exists>c\<in>set cs. \<exists>l. gget m (changeKey c) = Some l \<and> x = last l)"
proof (induction cs m rule: pendingChanges.induct)
  case (2 c cs m)
  show ?case
  proof (cases "gget m (changeKey c)")
    case None
    with 2 show ?thesis by auto
  next
    case (Some l)
    with 2 have "x \<in> set (pendingChanges cs (gdel (changeKey c) m)) \<longleftrightarrow>
        (\<exists>d\<in>set cs. changeKey d \<noteq> changeKey c \<and> (\<exists>l. gget m (changeKey d) = Some l \<and> x = last l))"
      by auto
    with Some show ?thesis by (auto, metis option.inject)
  qed
qed simp

lemma distinct_pendingChanges: "groupedByKey m \<Longrightarrow> distinct (map changeKey (pendingChanges cs m))"
proof (induction cs m rule: pendingChanges.induct)
  case (2 c cs m)
  show ?case
  proof (cases "gget m (changeKey c)")
    case (Some l)
    then have key: "changeKey (last l) = changeKey c"
      using 2(3) by (auto simp: groupedByKey_def)
    have "changeKey c \<noteq> changeKey d" if "d \<in> set (pendingChanges cs (gdel (changeKey c) m))" for d
      using that 2(3) by (auto simp: in_pendingChanges groupedByKey_def split: if_splits)
    with Some key 2 show ?thesis by (auto simp: groupedByKey_gdel)
  qed (use 2 in simp)
qed simp

definition changesFor :: "string \<Rightarrow> ResourceChange list \<Rightarrow> ResourceChange list" where
  "changesFor k cs = filter (\<lambda>c. changeKey c = k) cs"

lemma changesFor_Nil_iff: "changesFor k cs = [] \<longleftrightarrow> k \<notin> changeKey ` set cs"
  by (auto simp: changesFor_def filter_empty_conv)

lemma changesFor_not_Nil: "k \<in> changeKey ` set cs \<Longrightarrow> changesFor k cs \<noteq> []"
  by (simp add: changesFor_Nil_iff)

lemma gget_groupChanges_Nil:
  "gget (groupChanges cs []) k = (if k \<in> changeKey ` set cs then Some (changesFor k cs) else None)"
  using changesFor_Nil_iff [of k cs] unfolding gget_groupChanges changesFor_def
  by (auto split: list.splits)

lemma changesFor_key: "c \<in> set (changesFor k cs) \<Longrightarrow> changeKey c = k \<and> c \<in> set cs"
  by (simp add: changesFor_def)

lemma groupedByKey_groupChanges: "groupedByKey (groupChanges cs [])"
  unfolding groupedByKey_def gget_groupChanges_Nil
  using changesFor_not_Nil changesFor_key by (auto split: if_splits)

lemma in_squash:
  "c \<in> set (squashResourceChanges cs) \<longleftrightarrow> (\<exists>d\<in>set cs. c = last (changesFor (changeKey d) cs))"
proof -
  have "c \<in> set (squashResourceChanges cs) \<longleftrightarrow> c \<in> set (pendingChanges cs (groupChanges cs []))"
    by (auto simp: squashResourceChanges_def squashLoop_pending)
  then show ?thesis by (auto simp: in_pendingChanges gget_groupChanges_Nil)
qed

lemma distinct_filters:
  "distinct (map f xs) \<Longrightarrow> distinct (map f (filter P xs @ filter (\<lambda>x. \<not> P x) xs))"
  by (auto simp: distinct_map inj_on_def distinct_filter)

lemma distinct_squash: "distinct (map changeKey (squashResourceChanges cs))"
proof -
  have "distinct (map changeKey (pendingChanges cs (groupChanges cs [])))"
    by (rule distinct_pendingChanges) (rule groupedByKey_groupChanges)
  from distinct_filters [OF this, of "\<lambda>c. rcOp c = Delete"] show ?thesis
    by (simp add: squashResourceChanges_def squashLoop_pending)
qed

lemma last_changesFor:
  assumes "k \<in> changeKey ` set cs"
  shows "last (changesFor k cs) \<in> set cs \<and> changeKey (last (changesFor k cs)) = k"
  using changesFor_key last_in_set [OF changesFor_not_Nil [OF assms]] by blast

section \<open>The changes between two tables\<close>

lemma mapOpt_Some: "(\<And>x. x \<in> set xs \<Longrightarrow> f x = Some (g x)) \<Longrightarrow> mapOpt f xs = Some (map g xs)"
  by (induction xs) auto

lemma in_sortedEntries: "wf_gomap m \<Longrightarrow> (k, v) \<in> set (sortedEntries m) \<longleftrightarrow> gget m k = Some v"
  by (simp add: wf_gomap_in_set)

definition hostDeletes :: "Resource gomap \<Rightarrow> Resource gomap \<Rightarrow> Resource set" where
  "hostDeletes old new =
     {r. \<exists>h. gget old h = Some r \<and> (\<forall>r'. gget new h = Some r' \<longrightarrow> GetKeyWithKind r' \<noteq> GetKeyWithKind r)}"

definition hostUpdates :: "Resource gomap \<Rightarrow> Resource gomap \<Rightarrow> Resource set" where
  "hostUpdates old new =
     {r. \<exists>h. gget new h = Some r \<and> (\<forall>r'. gget old h = Some r' \<longrightarrow> \<not> IsEqual r' r)}"

lemma in_gkeys_iff: "k \<in> gkeys m \<longleftrightarrow> gget m k \<noteq> None"
  by (simp add: gget_None_iff)

lemma detected_hosts:
  assumes "wf_gomap new" and "detectChangesInHosts old new = (removed, updated, added)"
  shows "h \<in> set removed \<longleftrightarrow> gget old h \<noteq> None \<and> gget new h = None"
    and "h \<in> set added \<longleftrightarrow> gget new h \<noteq> None \<and> gget old h = None"
    and "h \<in> set updated \<longleftrightarrow> (\<exists>r r'. gget old h = Some r \<and> gget new h = Some r' \<and> \<not> IsEqual r r')"
proof -
  have "removed = filter (\<lambda>h. \<not> ghas new h) (sortedKeys old)" "added = filter (\<lambda>h. \<not> ghas old h) (sortedKeys new)"
    and upd: "updated = map fst (filter (\<lambda>(h, newR). case gget old h of None \<Rightarrow> False | Some oldR \<Rightarrow> \<not> IsEqual oldR newR)
        (sortedEntries new))"
    using assms(2) by (simp_all add: detectChangesInHosts_def)
  then show "h \<in> set removed \<longleftrightarrow> gget old h \<noteq> None \<and> gget new h = None"
    and "h \<in> set added \<longleftrightarrow> gget new h \<noteq> None \<and> gget old h = None"
    by (simp_all add: ghas_def in_gkeys_iff)
  have "h \<in> set updated \<longleftrightarrow> (\<exists>r'. (h, r') \<in> set new \<and> (case gget old h of None \<Rightarrow> False | Some oldR \<Rightarrow> \<not> IsEqual oldR r'))"
    unfolding upd by (force simp: image_iff)
  then show "h \<in> set updated \<longleftrightarrow> (\<exists>r r'. gget old h = Some r \<and> gget new h = Some r' \<and> \<not> IsEqual r r')"
    using assms(1) by (auto simp: wf_gomap_in_set split: option.splits)
qed

text \<open>The changes before squashing: all deletes, then all updates, and which ones.\<close>

definition rawDeletes :: "string list \<Rightarrow> string list \<Rightarrow> Resource gomap \<Rightarrow> Resource gomap \<Rightarrow> Resource list" where
  "rawDeletes removed updated old new =
     map (\<lambda>h. the (gget old h)) removed
     @ map (\<lambda>h. the (gget old h))
         (filter (\<lambda>h. GetKeyWithKind (the (gget old h)) \<noteq> GetKeyWithKind (the (gget new h))) updated)"

definition rawUpdates :: "string list \<Rightarrow> string list \<Rightarrow> Resource gomap \<Rightarrow> Resource list" where
  "rawUpdates updated added new = map (\<lambda>h. the (gget new h)) (updated @ added)"

lemma create_raw:
  assumes "wf_gomap new" and det: "detectChangesInHosts old new = (removed, updated, added)"
  shows "createResourceChangesForHosts removed updated added old new
    = Some (map (newChange Delete) (rawDeletes removed updated old new)
        @ map (newChange AddOrUpdate) (rawUpdates updated added new))"
proof -
  note found = detected_hosts [OF assms]
  let ?o = "\<lambda>h. the (gget old h)" and ?n = "\<lambda>h. the (gget new h)"
  have "mapOpt (gget old) removed = Some (map ?o removed)"
    by (rule mapOpt_Some) (use found(1) in auto)
  moreover have "mapOpt (gget new) added = Some (map ?n added)"
    by (rule mapOpt_Some) (use found(2) in auto)
  moreover have "mapOpt (\<lambda>h. case gget old h of None \<Rightarrow> None | Some o' \<Rightarrow> map_option (Pair o') (gget new h)) updated
      = Some (map (\<lambda>h. (?o h, ?n h)) updated)"
    by (rule mapOpt_Some) (use found(3) in auto)
  ultimately show ?thesis
    by (simp add: createResourceChangesForHosts_def rawDeletes_def rawUpdates_def filter_map comp_def)
qed

lemma set_rawDeletes:
  assumes "wf_gomap new" and det: "detectChangesInHosts old new = (removed, updated, added)"
  shows "set (rawDeletes removed updated old new) = hostDeletes old new"
proof (intro set_eqI iffI)
  note found = detected_hosts [OF assms]
  fix r
  show "r \<in> set (rawDeletes removed updated old new) \<Longrightarrow> r \<in> hostDeletes old new"
    using found(1,3) by (auto simp: rawDeletes_def hostDeletes_def)
  assume "r \<in> hostDeletes old new"
  then obtain h where h: "gget old h = Some r" "\<forall>r'. gget new h = Some r' \<longrightarrow> GetKeyWithKind r' \<noteq> GetKeyWithKind r"
    by (auto simp: hostDeletes_def)
  then have "h \<in> set removed \<or> h \<in> set updated \<and> GetKeyWithKind r \<noteq> GetKeyWithKind (the (gget new h))"
    using found(1,3) [of h] IsEqual_key [of r] by (cases "gget new h") auto
  moreover have "r = the (gget old h)" using h by simp
  ultimately show "r \<in> set (rawDeletes removed updated old new)"
    by (auto simp: rawDeletes_def)
qed

lemma set_rawUpdates:
  assumes "wf_gomap new" and det: "detectChangesInHosts old new = (removed, updated, added)"
  shows "set (rawUpdates updated added new) = hostUpdates old new"
proof (intro set_eqI iffI)
  note found = detected_hosts [OF assms]
  fix r
  show "r \<in> set (rawUpdates updated added new) \<Longrightarrow> r \<in> hostUpdates old new"
    using found(2,3) by (fastforce simp: rawUpdates_def hostUpdates_def)
  assume "r \<in> hostUpdates old new"
  then obtain h where h: "gget new h = Some r" "\<forall>r'. gget old h = Some r' \<longrightarrow> \<not> IsEqual r' r"
    by (auto simp: hostUpdates_def)
  then have "h \<in> set (updated @ added)"
    using found(2,3) [of h] by (cases "gget old h") auto
  moreover have "r = the (gget new h)" using h by simp
  ultimately show "r \<in> set (rawUpdates updated added new)"
    by (auto simp: rawUpdates_def)
qed

section \<open>Applying changes to the configuration files\<close>

text \<open>
  The consumer of the changes keeps one configuration file per resource, named after its key: a
  Delete removes the file, an AddOrUpdate writes it from the resource.
\<close>

definition applyChange :: "ResourceChange \<Rightarrow> Resource gomap \<Rightarrow> Resource gomap" where
  "applyChange c files =
     (case rcOp c of
        Delete \<Rightarrow> gdel (changeKey c) files
      | AddOrUpdate \<Rightarrow> gput (changeKey c) (rcResource c) files)"

definition applyChanges :: "ResourceChange list \<Rightarrow> Resource gomap \<Rightarrow> Resource gomap" where
  "applyChanges cs files = fold applyChange cs files"

definition changeEffect :: "ResourceChange \<Rightarrow> Resource option" where
  "changeEffect c = (if rcOp c = Delete then None else Some (rcResource c))"

lemma gget_applyChange: "gget (applyChange c F) k = (if k = changeKey c then changeEffect c else gget F k)"
  by (cases "rcOp c") (auto simp: applyChange_def changeEffect_def)

lemma applyChanges_other: "k \<notin> changeKey ` set cs \<Longrightarrow> gget (applyChanges cs F) k = gget F k"
  by (induction cs arbitrary: F) (auto simp: applyChanges_def gget_applyChange)

lemma applyChanges_change:
  "distinct (map changeKey cs) \<Longrightarrow> c \<in> set cs \<Longrightarrow> gget (applyChanges cs F) (changeKey c) = changeEffect c"
proof (induction cs arbitrary: F)
  case (Cons d cs)
  then show ?case
    using applyChanges_other [of "changeKey c" cs "applyChange d F"]
    by (auto simp: applyChanges_def gget_applyChange)
qed simp

lemma wf_applyChanges: "wf_gomap F \<Longrightarrow> wf_gomap (applyChanges cs F)"
  by (induction cs arbitrary: F) (auto simp: applyChanges_def applyChange_def split: Operation.splits)

text \<open>
  The files of the resources whose keys satisfy a predicate reflect a table of holders: every
  such holder has a file that is up to date (equal to it in the sense of \<open>IsEqual\<close>) and nothing
  else has one.
\<close>

definition reflectsOn :: "(string \<Rightarrow> bool) \<Rightarrow> Resource gomap \<Rightarrow> Resource gomap \<Rightarrow> bool" where
  "reflectsOn K files table =
     ((\<forall>s r. gget table s = Some r \<longrightarrow> K (GetKeyWithKind r) \<longrightarrow> (\<exists>f. gget files (GetKeyWithKind r) = Some f \<and> IsEqual f r))
      \<and> (\<forall>k f. gget files k = Some f \<longrightarrow> K k \<longrightarrow> (\<exists>s r. gget table s = Some r \<and> GetKeyWithKind r = k)))"

lemma reflectsOn_Nil [simp]: "reflectsOn K [] []"
  by (simp add: reflectsOn_def)

text \<open>Changes of other resources leave the files of these alone.\<close>

lemma reflectsOn_other:
  assumes "reflectsOn K files table" and "\<And>c. c \<in> set cs \<Longrightarrow> \<not> K (changeKey c)"
  shows "reflectsOn K (applyChanges cs files) table"
proof -
  have "gget (applyChanges cs files) k = gget files k" if "K k" for k
    by (rule applyChanges_other) (use assms(2) that in auto)
  then show ?thesis using assms(1) unfolding reflectsOn_def by metis
qed

text \<open>
  A coherent table: resources with the same key are the same, a resource holds a slot exactly
  when it owns it (\<open>owns\<close> says which slots a resource considers its own).
\<close>

definition coherent :: "(Resource \<Rightarrow> string \<Rightarrow> bool) \<Rightarrow> Resource gomap \<Rightarrow> bool" where
  "coherent owns table =
     ((\<forall>s r. gget table s = Some r \<longrightarrow> owns r s)
      \<and> (\<forall>s s' r r'. gget table s = Some r \<longrightarrow> gget table s' = Some r' \<longrightarrow> GetKeyWithKind r = GetKeyWithKind r' \<longrightarrow> r = r')
      \<and> (\<forall>s s' r. gget table s = Some r \<longrightarrow> owns r s' \<longrightarrow> gget table s' = Some r))"

lemma coherentD:
  assumes "coherent owns table" and "gget table s = Some r"
  shows "owns r s"
    and "\<And>s' r'. gget table s' = Some r' \<Longrightarrow> GetKeyWithKind r' = GetKeyWithKind r \<Longrightarrow> r' = r"
    and "\<And>s'. owns r s' \<Longrightarrow> gget table s' = Some r"
  using assms unfolding coherent_def by metis+

definition changesOf :: "Resource gomap \<Rightarrow> Resource gomap \<Rightarrow> ResourceChange list \<Rightarrow> bool" where
  "changesOf old new cs =
     (\<exists>D U. cs = squashResourceChanges (map (newChange Delete) D @ map (newChange AddOrUpdate) U)
            \<and> set D = hostDeletes old new \<and> set U = hostUpdates old new)"

lemma changeKey_newChange [simp]: "changeKey (newChange op r) = GetKeyWithKind r"
  by (simp add: changeKey_def newChange_def)

lemma newChange_simps [simp]: "rcOp (newChange op r) = op" "rcResource (newChange op r) = r"
  by (simp_all add: newChange_def)

lemma squash_blocks:
  assumes cs: "cs = map (newChange Delete) D @ map (newChange AddOrUpdate) U"
    and c: "c \<in> set (squashResourceChanges cs)"
  shows "(rcOp c = AddOrUpdate \<and> rcResource c \<in> set U) \<or>
    (rcOp c = Delete \<and> rcResource c \<in> set D \<and> (\<forall>u\<in>set U. GetKeyWithKind u \<noteq> changeKey c))"
proof -
  obtain d where d: "d \<in> set cs" "c = last (changesFor (changeKey d) cs)"
    using c by (auto simp: in_squash)
  then have k: "c \<in> set cs" "changeKey c = changeKey d" using last_changesFor [of "changeKey d" cs] by auto
  let ?D = "filter (\<lambda>r. GetKeyWithKind r = changeKey d) D" and ?U = "filter (\<lambda>r. GetKeyWithKind r = changeKey d) U"
  have split: "changesFor (changeKey d) cs = map (newChange Delete) ?D @ map (newChange AddOrUpdate) ?U"
    by (simp add: changesFor_def cs filter_map comp_def)
  show ?thesis
  proof (cases "?U = []")
    case True
    then have "?D \<noteq> []" using d(1) split changesFor_Nil_iff [of "changeKey d" cs] by auto
    then have "c = newChange Delete (last ?D)" using True d(2) split by (simp add: last_map)
    moreover have "last ?D \<in> set D" using last_in_set [OF \<open>?D \<noteq> []\<close>] by simp
    ultimately show ?thesis using True k(2) by (auto simp: filter_empty_conv)
  next
    case False
    then have "c = newChange AddOrUpdate (last ?U)" using d(2) split by (simp add: last_map)
    moreover have "last ?U \<in> set U" using last_in_set [OF False] by simp
    ultimately show ?thesis by simp
  qed
qed

lemma squash_keys: "changeKey ` set (squashResourceChanges cs) = changeKey ` set cs"
proof (intro set_eqI iffI)
  fix k
  show "k \<in> changeKey ` set (squashResourceChanges cs) \<Longrightarrow> k \<in> changeKey ` set cs"
    using last_changesFor by (fastforce simp: in_squash)
  assume k: "k \<in> changeKey ` set cs"
  then have "last (changesFor k cs) \<in> set (squashResourceChanges cs)" by (auto simp: in_squash)
  then show "k \<in> changeKey ` set (squashResourceChanges cs)"
    using last_changesFor [OF k] by (metis imageI)
qed

text \<open>Every changed key was announced, and an announced change names a resource of one of the tables.\<close>

lemma changesOf_keys:
  assumes "changesOf old new cs"
  shows "changeKey ` set cs = GetKeyWithKind ` (hostDeletes old new \<union> hostUpdates old new)"
  using assms unfolding changesOf_def by (force simp: squash_keys image_Un image_image)

lemma changesOf_cases:
  assumes "changesOf old new cs" and "c \<in> set cs"
  obtains (update) "rcOp c = AddOrUpdate" "rcResource c \<in> hostUpdates old new"
    | (delete) "rcOp c = Delete" "rcResource c \<in> hostDeletes old new"
        "\<And>u. u \<in> hostUpdates old new \<Longrightarrow> GetKeyWithKind u \<noteq> changeKey c"
  using assms unfolding changesOf_def by (metis squash_blocks)

lemma changesOf_distinct: "changesOf old new cs \<Longrightarrow> distinct (map changeKey cs)"
  using distinct_squash by (auto simp: changesOf_def)

definition latestVersions :: "Resource gomap \<Rightarrow> Resource gomap \<Rightarrow> bool" where
  "latestVersions resources table =
     ((\<forall>k r. gget resources k = Some r \<longrightarrow> GetKeyWithKind r = k)
      \<and> (\<forall>s r. gget table s = Some r \<longrightarrow> gget resources (GetKeyWithKind r) = Some r))"

definition latestChange :: "Resource gomap \<Rightarrow> ResourceChange \<Rightarrow> ResourceChange" where
  "latestChange newResources c =
     (case gget newResources (changeKey c) of None \<Rightarrow> c | Some r \<Rightarrow> c\<lparr>rcResource := r\<rparr>)"

lemma referToLatest_map: "referToLatest S cs = map (latestChange S) cs"
  by (simp add: referToLatest_def latestChange_def)

lemma latestChange_op [simp]: "rcOp (latestChange S c) = rcOp c"
  by (simp add: latestChange_def split: option.splits)

lemma latestChange_key: "latestVersions S table \<Longrightarrow> changeKey (latestChange S c) = changeKey c"
  by (auto simp: latestChange_def latestVersions_def changeKey_def split: option.splits)

lemma latestChange_apply:
  assumes latest: "latestVersions S new" and c: "rcOp c = Delete \<or> (\<exists>s. gget new s = Some (rcResource c))"
  shows "applyChange (latestChange S c) files = applyChange c files"
proof (cases "rcOp c")
  case Delete
  then show ?thesis using latestChange_key [OF latest] by (simp add: applyChange_def)
next
  case AddOrUpdate
  then obtain s where "gget new s = Some (rcResource c)" using c by auto
  then have "gget S (changeKey c) = Some (rcResource c)" using latest by (auto simp: latestVersions_def changeKey_def)
  then have "latestChange S c = c" by (simp add: latestChange_def)
  then show ?thesis by simp
qed

text \<open>Referring to the latest versions changes what a delete reports, not what the changes do.\<close>

lemma applyChanges_latest:
  assumes cs: "changesOf old new cs" and latest: "latestVersions S new"
  shows "applyChanges (referToLatest S cs) files = applyChanges cs files"
proof -
  have "rcOp c = Delete \<or> (\<exists>s. gget new s = Some (rcResource c))" if "c \<in> set cs" for c
    using cs that by (cases rule: changesOf_cases) (auto simp: hostUpdates_def)
  then have "\<forall>c\<in>set cs. \<forall>F. applyChange (latestChange S c) F = applyChange c F"
    using latestChange_apply [OF latest] by blast
  then have "fold applyChange (map (latestChange S) ds) F = fold applyChange ds F" if "set ds \<subseteq> set cs" for ds F
    using that by (induction ds arbitrary: F) auto
  then show ?thesis by (simp add: referToLatest_map applyChanges_def)
qed

text \<open>
  What the interface of a kind of slot (host, listener) must promise for the changes to be
  complete: a resource that is equal to its predecessor and shares one slot with it owns every
  slot its predecessor owned.
\<close>

locale slot_ownership =
  fixes owns :: "Resource \<Rightarrow> string \<Rightarrow> bool"
  assumes owns_all: "IsEqual a b \<Longrightarrow> owns a s \<Longrightarrow> owns b s \<Longrightarrow> owns a t \<Longrightarrow> owns b t"
begin

lemma no_lost_slot:
  assumes old: "coherent owns old" and new: "coherent owns new"
    and r: "gget new s = Some r" "gget old s = Some r'" "IsEqual r' r"
  shows "r' \<notin> hostDeletes old new"
proof
  assume "r' \<in> hostDeletes old new"
  then obtain h where h: "gget old h = Some r'" "\<And>q. gget new h = Some q \<Longrightarrow> GetKeyWithKind q \<noteq> GetKeyWithKind r'"
    by (auto simp: hostDeletes_def)
  have "owns r h"
    using owns_all [OF r(3), of s h] coherentD(1) [OF old r(2)] coherentD(1) [OF new r(1)] coherentD(1) [OF old h(1)] by blast
  then have "gget new h = Some r" using coherentD(3) [OF new r(1)] by blast
  with h(2) IsEqual_key [OF r(3)] show False by metis
qed

text \<open>The file of every holder after the changes have been applied.\<close>

lemma holder_has_file:
  assumes old: "coherent owns old" and new: "coherent owns new" and refl: "reflectsOn K files old"
    and cs: "changesOf old new cs" and r: "gget new s = Some r" and K: "K (GetKeyWithKind r)"
  shows "\<exists>f. gget (applyChanges cs files) (GetKeyWithKind r) = Some f \<and> IsEqual f r"
proof (cases "GetKeyWithKind r \<in> changeKey ` set cs")
  case True
  then obtain c where c: "c \<in> set cs" "changeKey c = GetKeyWithKind r" by auto
  have eff: "gget (applyChanges cs files) (GetKeyWithKind r) = changeEffect c"
    using applyChanges_change [OF changesOf_distinct [OF cs] c(1)] c(2) by simp
  from cs c(1) show ?thesis
  proof (cases rule: changesOf_cases)
    case update
    then obtain h where h: "gget new h = Some (rcResource c)" by (auto simp: hostUpdates_def)
    then have "rcResource c = r" using coherentD(2) [OF new r h] c(2) by (simp add: changeKey_def)
    with eff update(1) show ?thesis by (simp add: changeEffect_def)
  next
    case delete
    then have "r \<notin> hostUpdates old new" using c(2) by metis
    then obtain r' where r': "gget old s = Some r'" "IsEqual r' r" using r by (auto simp: hostUpdates_def)
    obtain h where h: "gget old h = Some (rcResource c)" using delete(2) by (auto simp: hostDeletes_def)
    have "GetKeyWithKind (rcResource c) = GetKeyWithKind r'"
      using IsEqual_key [OF r'(2)] c(2) by (simp add: changeKey_def)
    then have "rcResource c = r'" by (rule coherentD(2) [OF old r'(1) h])
    with no_lost_slot [OF old new r r'] delete(2) show ?thesis by simp
  qed
next
  case False
  then have "r \<notin> hostUpdates old new" using changesOf_keys [OF cs] by auto
  then obtain r' where r': "gget old s = Some r'" "IsEqual r' r" using r by (auto simp: hostUpdates_def)
  then obtain f where f: "gget files (GetKeyWithKind r') = Some f" "IsEqual f r'"
    using refl K IsEqual_key [OF r'(2)] unfolding reflectsOn_def by metis
  then show ?thesis
    using False r' IsEqual_key [OF r'(2)] IsEqual_trans by (metis applyChanges_other)
qed

lemma file_has_holder:
  assumes refl: "reflectsOn K files old" and cs: "changesOf old new cs"
    and f: "gget (applyChanges cs files) k = Some f" and K: "K k"
  shows "\<exists>s r. gget new s = Some r \<and> GetKeyWithKind r = k"
proof (cases "k \<in> changeKey ` set cs")
  case True
  then obtain c where c: "c \<in> set cs" "changeKey c = k" by auto
  have "changeEffect c = Some f"
    using applyChanges_change [OF changesOf_distinct [OF cs] c(1)] c(2) f by simp
  then have "rcOp c \<noteq> Delete" by (auto simp: changeEffect_def split: if_splits)
  with cs c(1) have "rcResource c \<in> hostUpdates old new" by (cases rule: changesOf_cases) auto
  with c(2) show ?thesis by (auto simp: hostUpdates_def changeKey_def)
next
  case False
  then have "gget files k = Some f" using f by (simp add: applyChanges_other)
  then obtain s r where r: "gget old s = Some r" "GetKeyWithKind r = k" using refl K by (auto simp: reflectsOn_def)
  then have "r \<notin> hostDeletes old new" using False changesOf_keys [OF cs] by auto
  with r(1) have "\<exists>r'. gget new s = Some r' \<and> GetKeyWithKind r' = GetKeyWithKind r"
    by (auto simp: hostDeletes_def)
  with r(2) show ?thesis by metis
qed

lemma changes_carry_files:
  assumes "coherent owns old" and "coherent owns new" and "reflectsOn K files old" and "changesOf old new cs"
  shows "reflectsOn K (applyChanges cs files) new"
  unfolding reflectsOn_def
  using holder_has_file [OF assms] file_has_holder [OF assms(3,4)] by blast

end

end
