(* ===== verification/Validation_Common.thy ===== *)
theory Validation_Common
  imports Parsing_Helpers
begin

text \<open>
  \<open>pkg/apis/configuration/validation/common.go\<close>: the checks shared by the validators of the
  custom resources, above all the strings that are copied into the NGINX configuration and may
  name NGINX variables. Lemmas: the scanner of such strings never indexes past the end, an
  accepted escaped string cannot close the quotes around it, and every variable an accepted
  string names is one of the allowed ones.
\<close>

section \<open>Messages\<close>

definition sq :: "string \<Rightarrow> string" where
  "sq s = [CHR 0x27] @ s @ [CHR 0x27]"

definition invalids :: "path \<Rightarrow> string \<Rightarrow> string list \<Rightarrow> error_list" where
  "invalids p v msgs = map (Invalid p (BadStr v)) msgs"

lemma invalids_Nil [simp]: "invalids p v msgs = [] \<longleftrightarrow> msgs = []"
  by (simp add: invalids_def)

text \<open>A Go \<open>map[string]bool\<close> whose values are all true is the list of its keys.\<close>

definition mapToPrettyString :: "string list \<Rightarrow> string" where
  "mapToPrettyString m = joinStr '', '' m"

section \<open>Escaped strings\<close>

text \<open>\<open>([^"\\]|\\.)*\<close>: no bare double quote, no backslash at the end.\<close>

definition escapedStringsRe :: re where
  "escapedStringsRe =
     Star (Alt (Cls (\<lambda>c. c \<noteq> CHR 0x22 \<and> c \<noteq> CHR 0x5C)) (Seq (Cls (\<lambda>c. c = CHR 0x5C)) (Cls reAny)))"

definition escapedStringsFmt :: string where
  "escapedStringsFmt =
     ''([^'' @ [CHR 0x22, CHR 0x5C, CHR 0x5C] @ '']|'' @ [CHR 0x5C, CHR 0x5C] @ ''.)*''"

definition escapedStringsErrMsg :: string where
  "escapedStringsErrMsg =
     ''must have all '' @ sq [CHR 0x22] @ '' (double quotes) escaped and must not end with an unescaped ''
       @ sq [CHR 0x5C] @ '' (backslash)''"

section \<open>Variables\<close>

definition validateVariable :: "string \<Rightarrow> string list \<Rightarrow> path \<Rightarrow> error_list" where
  "validateVariable nVar validVars fieldPath =
     (if nVar \<notin> set validVars
      then [Invalid fieldPath (BadStr nVar)
             (sq nVar @ '' contains an invalid NGINX variable. Accepted variables are: '' @ mapToPrettyString validVars)]
      else [])"

definition isValidSpecialHeaderLikeVariable :: "string \<Rightarrow> string list" where
  "isValidSpecialHeaderLikeVariable value =
     (if IsHTTPHeaderName (replaceChar (CHR ''_'') (CHR ''-'') value) \<noteq> [] \<or> CHR ''-'' \<in> set value
      then [''a valid special variable must consists of alphanumeric characters or '' @ sq ''_'']
      else [])"

definition underscoreNameRe :: re where
  "underscoreNameRe = Plus (Cls (\<lambda>c. c = CHR ''_'' \<or> isAlnum c))"

definition cookieNameFmt :: string where
  "cookieNameFmt = ''[_A-Za-z0-9]+''"

definition isCookieName :: "string \<Rightarrow> string list" where
  "isCookieName value =
     (if \<not> matchString underscoreNameRe value
      then [RegexError (''a valid cookie name must consist of alphanumeric characters or '' @ sq ''_'')
             cookieNameFmt [''my_cookie_123'']]
      else [])"

definition isArgumentName :: "string \<Rightarrow> string list" where
  "isArgumentName value =
     (if \<not> matchString underscoreNameRe value
      then [RegexError (''a valid argument name must consist of alphanumeric characters or '' @ sq ''_'')
             cookieNameFmt [''argument_123'']]
      else [])"

definition parseSpecialVariable :: "string \<Rightarrow> path \<Rightarrow> error_list + (string \<times> string)" where
  "parseSpecialVariable nVar fieldPath =
     (if hasPrefix nVar ''jwt_header'' \<or> hasPrefix nVar ''jwt_claim''
      then (case splitOnN (CHR ''_'') 3 nVar of
              [a, b, c] \<Rightarrow> Inr (joinStr ''_'' [a, b], c)
            | _ \<Rightarrow> Inl [Invalid fieldPath (BadStr nVar) ''is invalid variable''])
      else (case splitOnN (CHR ''_'') 2 nVar of
              [a, b] \<Rightarrow> Inr (a, b)
            | _ \<Rightarrow> Inl [Invalid fieldPath (BadStr nVar) ''is invalid variable'']))"

definition validateSpecialVariable :: "string \<Rightarrow> path \<Rightarrow> bool \<Rightarrow> error_list" where
  "validateSpecialVariable nVar fieldPath isPlus =
     (case parseSpecialVariable nVar fieldPath of
        Inl errs \<Rightarrow> errs
      | Inr (name, value) \<Rightarrow>
          (if name = ''arg'' then invalids fieldPath nVar (isArgumentName value)
           else if name = ''http'' then invalids fieldPath nVar (isValidSpecialHeaderLikeVariable value)
           else if name = ''cookie'' then invalids fieldPath nVar (isCookieName value)
           else if name = ''jwt_header'' \<or> name = ''jwt_claim''
           then (if \<not> isPlus then [Forbidden fieldPath ''is only supported in NGINX Plus'']
                 else invalids fieldPath nVar (isValidSpecialHeaderLikeVariable value))
           else [Invalid fieldPath (BadStr nVar) ''unknown special variable'']))"

text \<open>
  The leftmost non-overlapping matches of \<open>\$\{([^}]*)\}\<close>: a dollar and an opening brace, then
  everything up to the first closing brace.
\<close>

function captureVariables :: "string \<Rightarrow> string list" where
  "captureVariables s =
     (case s of
        c # d # rest \<Rightarrow>
          (if c = CHR ''$'' \<and> d = CHR 0x7B \<and> CHR 0x7D \<in> set rest
           then takeWhile (\<lambda>x. x \<noteq> CHR 0x7D) rest # captureVariables (tl (dropWhile (\<lambda>x. x \<noteq> CHR 0x7D) rest))
           else captureVariables (d # rest))
      | _ \<Rightarrow> [])"
  by pat_completeness auto
termination
proof (relation "measure length")
  fix s :: string and c list d rest
  assume "s = c # list" "list = d # rest"
  then show "(tl (dropWhile (\<lambda>x. x \<noteq> CHR 0x7D) rest), s) \<in> measure length"
    using length_dropWhile_le [of "\<lambda>x. x \<noteq> CHR 0x7D" rest] by simp
qed auto

declare captureVariables.simps [simp del]

definition variableMsg :: string where
  "variableMsg = ''variables must be enclosed in curly braces, for example ${host}''"

text \<open>
  The loop over the string looks at the byte after each dollar; that index is checked like any
  other slice index of Go.
\<close>

fun checkDollars :: "string \<Rightarrow> path \<Rightarrow> nat \<Rightarrow> string \<Rightarrow> error_list option" where
  "checkDollars str fieldPath i [] = Some []"
| "checkDollars str fieldPath i (c # cs) =
     (if c = CHR ''$''
      then (case nthOpt str (i + 1) of
              None \<Rightarrow> None
            | Some d \<Rightarrow>
                (if d \<noteq> CHR 0x7B then Some [Invalid fieldPath (BadStr str) variableMsg]
                 else if \<not> containsStr (drop (i + 1) str) [CHR 0x7D]
                 then Some [Invalid fieldPath (BadStr str) variableMsg]
                 else checkDollars str fieldPath (i + 1) cs))
      else checkDollars str fieldPath (i + 1) cs)"

definition scanStringWithVariables :: "string \<Rightarrow> path \<Rightarrow> string list \<Rightarrow> string list \<Rightarrow> bool \<Rightarrow> error_list option" where
  "scanStringWithVariables str fieldPath specialVars validVars isPlus =
     (if hasSuffix str ''$'' then Some [Invalid fieldPath (BadStr str) ''must not end with $'']
      else case checkDollars str fieldPath 0 str of
          None \<Rightarrow> None
        | Some (e # es) \<Rightarrow> Some (e # es)
        | Some [] \<Rightarrow>
            Some (concat (map (\<lambda>nVar.
              if list_ex (hasPrefix nVar) specialVars then validateSpecialVariable nVar fieldPath isPlus
              else validateVariable nVar validVars fieldPath) (captureVariables str))))"

text \<open>
  \<open>scanStringWithVariables\<close> is the whole function with its possible panic, which never happens
  (\<open>scanStringWithVariables_total\<close> below); the callers use its value.
\<close>

definition validateStringWithVariables :: "string \<Rightarrow> path \<Rightarrow> string list \<Rightarrow> string list \<Rightarrow> bool \<Rightarrow> error_list" where
  "validateStringWithVariables str fieldPath specialVars validVars isPlus =
     (case scanStringWithVariables str fieldPath specialVars validVars isPlus of None \<Rightarrow> [] | Some errs \<Rightarrow> errs)"

section \<open>Times, offsets, sizes, names\<close>

definition validateTime :: "string \<Rightarrow> path \<Rightarrow> error_list" where
  "validateTime time fieldPath =
     (if time = '''' then []
      else case ParseTime time of Inl e \<Rightarrow> [Invalid fieldPath (BadStr time) e] | Inr _ \<Rightarrow> [])"

definition offsetErrMsg :: string where
  "offsetErrMsg = ''must consist of numeric characters followed by a valid size suffix. '' @ [CHR 0x27] @ ''k|K|m|M|g|G''"

definition validateOffset :: "string \<Rightarrow> path \<Rightarrow> error_list" where
  "validateOffset offset fieldPath =
     (if offset = '''' then []
      else if isErr (ParseOffset offset)
      then [Invalid fieldPath (BadStr offset) (RegexError offsetErrMsg OffsetFmt [''16'', ''32k'', ''64M'', ''2G''])]
      else [])"

definition sizeErrMsg :: string where
  "sizeErrMsg = ''must consist of numeric characters followed by a valid size suffix. '' @ [CHR 0x27] @ ''k|K|m|M''"

definition validateSize :: "string \<Rightarrow> path \<Rightarrow> error_list" where
  "validateSize sz fieldPath =
     (if sz = '''' then []
      else if isErr (ParseSize sz)
      then [Invalid fieldPath (BadStr sz) (RegexError sizeErrMsg SizeFmt [''16'', ''32k'', ''64M''])]
      else [])"

definition validateSecretName :: "string \<Rightarrow> path \<Rightarrow> error_list" where
  "validateSecretName name fieldPath =
     (if name = '''' then [] else invalids fieldPath name (IsDNS1123Subdomain name))"

definition validateParameter :: "string \<Rightarrow> string list \<Rightarrow> path \<Rightarrow> error_list" where
  "validateParameter nPar validParams fieldPath =
     (if nPar \<notin> set validParams
      then [Invalid fieldPath (BadStr nPar)
             (sq nPar @ '' contains an invalid NGINX parameter. Accepted parameters are: '' @ mapToPrettyString validParams)]
      else [])"

section \<open>No index out of range\<close>

lemma checkDollars_total:
  assumes "\<not> hasSuffix str ''$''" and "str = pre @ cs" and "length pre = i"
  shows "checkDollars str p i cs \<noteq> None"
  using assms(2,3)
proof (induction cs arbitrary: pre i)
  case Nil
  then show ?case by simp
next
  case (Cons c cs)
  have IH: "checkDollars str p (i + 1) cs \<noteq> None"
    using Cons.IH [of "pre @ [c]" "i + 1"] Cons.prems by simp
  have "cs \<noteq> []" if "c = CHR ''$''"
    using assms(1) Cons.prems that by (auto simp: hasSuffix_def)
  then have "c = CHR ''$'' \<Longrightarrow> nthOpt str (i + 1) = Some (hd cs)"
    using Cons.prems by (cases cs) (auto simp: nthOpt_Some_iff nth_append)
  with IH show ?case by auto
qed

lemma scanStringWithVariables_total:
  "\<exists>errs. scanStringWithVariables str p special valid pl = Some errs"
proof (cases "hasSuffix str ''$''")
  case False
  then have "checkDollars str p 0 str \<noteq> None"
    by (rule checkDollars_total [where pre = "[]"]) auto
  with False show ?thesis by (auto simp: scanStringWithVariables_def split: option.splits list.splits)
qed (simp add: scanStringWithVariables_def)

section \<open>Escaped strings stay inside their quotes\<close>

text \<open>
  How NGINX reads a double-quoted string: a backslash takes the next byte with it, the first
  other double quote ends the string. The result is the text between the quotes and the rest.
\<close>

fun quotedEnd :: "string \<Rightarrow> (string \<times> string) option" where
  "quotedEnd [] = None"
| "quotedEnd (c # cs) =
     (if c = CHR 0x22 then Some ([], cs)
      else if c = CHR 0x5C
      then (case cs of [] \<Rightarrow> None
            | d # ds \<Rightarrow> (case quotedEnd ds of None \<Rightarrow> None | Some (w, rest) \<Rightarrow> Some (c # d # w, rest)))
      else (case quotedEnd cs of None \<Rightarrow> None | Some (w, rest) \<Rightarrow> Some (c # w, rest)))"

lemma starLang_quotedEnd:
  assumes "s \<in> starLang A"
    and "\<And>u. u \<in> A \<Longrightarrow> (\<exists>c. u = [c] \<and> c \<noteq> CHR 0x22 \<and> c \<noteq> CHR 0x5C) \<or> (\<exists>d. u = [CHR 0x5C, d])"
  shows "quotedEnd (s @ CHR 0x22 # rest) = Some (s, rest)"
  using assms(1)
proof (induction s rule: starLang.induct)
  case Nil
  then show ?case by simp
next
  case (Cons u v)
  then show ?case using assms(2) [OF Cons.hyps(1)] by auto
qed

lemma escaped_quotedEnd:
  assumes "matchString escapedStringsRe s"
  shows "quotedEnd (s @ CHR 0x22 # rest) = Some (s, rest)"
proof (rule starLang_quotedEnd)
  show "s \<in> starLang (lang (Alt (Cls (\<lambda>c. c \<noteq> CHR 0x22 \<and> c \<noteq> CHR 0x5C)) (Seq (Cls (\<lambda>c. c = CHR 0x5C)) (Cls reAny))))"
    using assms by (simp add: match_lang escapedStringsRe_def lang.simps(5))
qed auto

section \<open>Variables of an accepted string\<close>

lemma scan_accepted:
  "validateStringWithVariables str p special valid pl = [] \<longleftrightarrow>
     \<not> hasSuffix str ''$'' \<and> checkDollars str p 0 str = Some []
     \<and> (\<forall>v\<in>set (captureVariables str).
          (if list_ex (hasPrefix v) special then validateSpecialVariable v p pl else validateVariable v valid p) = [])"
proof -
  have "hasSuffix str ''$'' \<or> checkDollars str p 0 str \<noteq> None"
    using checkDollars_total [where pre = "[]"] by blast
  then show ?thesis
    by (auto simp: validateStringWithVariables_def scanStringWithVariables_def split: option.splits list.splits)
qed

lemma accepted_variables:
  assumes "validateStringWithVariables str p special valid pl = []" and "v \<in> set (captureVariables str)"
  shows "v \<in> set valid \<or> (\<exists>s\<in>set special. hasPrefix v s) \<and> validateSpecialVariable v p pl = []"
  using assms by (auto simp: scan_accepted validateVariable_def list_ex_iff split: if_splits)

text \<open>Every dollar of an accepted string opens a \<open>${\<close>...\<open>}\<close>.\<close>

lemma containsStr_single: "containsStr s [c] \<longleftrightarrow> c \<in> set s"
  by (induction s) (auto simp: hasPrefix_def)

lemma checkDollars_accepted:
  assumes "checkDollars str p i cs = Some []" and "str = pre @ cs" and "length pre = i"
    and "cs = a @ CHR ''$'' # b"
  shows "\<exists>rest. b = CHR 0x7B # rest \<and> CHR 0x7D \<in> set rest"
  using assms
proof (induction a arbitrary: pre i cs)
  case Nil
  have "nthOpt str (i + 1) = nthOpt b 0" "drop (i + 1) str = b"
    using Nil by (auto simp: nthOpt_def nth_append)
  with Nil show ?case
    by (cases b) (auto simp: containsStr_single split: option.splits if_splits)
next
  case (Cons x a)
  have "checkDollars str p (i + 1) (a @ CHR ''$'' # b) = Some []"
    using Cons.prems by (auto split: if_splits option.splits)
  then show ?case
    using Cons.IH [of "i + 1" "a @ CHR ''$'' # b" "pre @ [x]"] Cons.prems by simp
qed

lemma accepted_dollar:
  assumes "validateStringWithVariables str p special valid pl = []" and "str = a @ CHR ''$'' # b"
  shows "\<exists>rest. b = CHR 0x7B # rest \<and> CHR 0x7D \<in> set rest"
  using assms checkDollars_accepted [of str p 0 str "[]"] by (simp add: scan_accepted)

end
