(* ===== verification/VirtualServer_Validation.thy ===== *)
theory VirtualServer_Validation
  imports Validation_Common Api_Types
begin

text \<open>
  \<open>pkg/apis/configuration/validation/virtualserver.go\<close>: the validator of VirtualServers and
  VirtualServerRoutes. A set of names is the list of its elements. \<open>regexp.Compile\<close>, which
  the code only asks for the error of a user's expression, is the field \<open>vvRegexpCompile\<close> of
  the validator: the error text of an invalid expression, \<^term>\<open>None\<close> for a valid one.
\<close>

record VirtualServerValidator =
  vvIsPlus :: bool
  vvRegexpCompile :: "string \<Rightarrow> string option"

section \<open>Hosts, policies, TLS\<close>

definition validateHost :: "string \<Rightarrow> path \<Rightarrow> error_list" where
  "validateHost host fieldPath =
     (if host = '''' then [Required fieldPath ''''] else invalids fieldPath host (IsDNS1123Subdomain host))"

fun validatePoliciesFrom :: "nat \<Rightarrow> string list \<Rightarrow> PolicyReference list \<Rightarrow> path \<Rightarrow> string \<Rightarrow> error_list" where
  "validatePoliciesFrom i policyKeys [] fieldPath namespace = []"
| "validatePoliciesFrom i policyKeys (p # ps) fieldPath namespace =
     (let idxPath = pathIndex fieldPath i;
          polNamespace = (if prNamespace p = '''' then namespace else prNamespace p);
          key = polNamespace @ ''/'' @ prName p
      in (if key \<in> set policyKeys then [Duplicate idxPath (BadStr key)] else [])
         @ (if prName p = '''' then [Required (child idxPath ''name'') '''']
            else invalids (child idxPath ''name'') (prName p) (IsDNS1123Subdomain (prName p)))
         @ (if prNamespace p \<noteq> ''''
            then invalids (child idxPath ''namespace'') (prNamespace p) (IsDNS1123Label (prNamespace p)) else [])
         @ validatePoliciesFrom (Suc i) (if key \<in> set policyKeys then policyKeys else key # policyKeys) ps fieldPath namespace)"

definition validatePolicies :: "PolicyReference list \<Rightarrow> path \<Rightarrow> string \<Rightarrow> error_list" where
  "validatePolicies policies fieldPath namespace = validatePoliciesFrom 0 [] policies fieldPath namespace"

definition validRedirectStatusCodes :: "int list" where
  "validRedirectStatusCodes = [301, 302, 307, 308]"

definition validateRedirectStatusCode :: "int \<Rightarrow> path \<Rightarrow> error_list" where
  "validateRedirectStatusCode code fieldPath =
     (if code \<notin> set validRedirectStatusCodes
      then [Invalid fieldPath (BadInt code) (''status code out of accepted range. accepted values are ''
             @ sq ''301'' @ '', '' @ sq ''302'' @ '', '' @ sq ''307'' @ '', '' @ sq ''308'')]
      else [])"

definition validateTLSRedirect :: "TLSRedirect option \<Rightarrow> path \<Rightarrow> error_list" where
  "validateTLSRedirect redirect fieldPath =
     (case redirect of
        None \<Rightarrow> []
      | Some r \<Rightarrow>
          (case trCode r of None \<Rightarrow> [] | Some code \<Rightarrow> validateRedirectStatusCode code (child fieldPath ''code''))
          @ (if trBasedOn r \<noteq> '''' \<and> trBasedOn r \<noteq> ''scheme'' \<and> trBasedOn r \<noteq> ''x-forwarded-proto''
             then [Invalid (child fieldPath ''basedOn'') (BadStr (trBasedOn r))
                    (''accepted values are '' @ sq ''scheme'' @ '', '' @ sq ''x-forwarded-proto'')]
             else []))"

definition validateTLS :: "TLS option \<Rightarrow> path \<Rightarrow> error_list" where
  "validateTLS tls fieldPath =
     (case tls of
        None \<Rightarrow> []
      | Some t \<Rightarrow> validateSecretName (tlSecret t) (child fieldPath ''secret'')
                  @ validateTLSRedirect (tlRedirect t) (child fieldPath ''redirect''))"

section \<open>Numbers, names\<close>

definition validatePositiveIntOrZero :: "int \<Rightarrow> path \<Rightarrow> error_list" where
  "validatePositiveIntOrZero n fieldPath = (if n < 0 then [Invalid fieldPath (BadInt n) ''must be positive''] else [])"

definition validatePositiveIntOrZeroFromPointer :: "int option \<Rightarrow> path \<Rightarrow> error_list" where
  "validatePositiveIntOrZeroFromPointer n fieldPath =
     (case n of None \<Rightarrow> [] | Some k \<Rightarrow> (if k < 0 then [Invalid fieldPath (BadInt k) ''must be positive or zero''] else []))"

definition validateDNS1035Label :: "string \<Rightarrow> path \<Rightarrow> error_list" where
  "validateDNS1035Label name fieldPath =
     (if name = '''' then [Required fieldPath ''''] else invalids fieldPath name (IsDNS1035Label name))"

definition validateUpstreamName :: "string \<Rightarrow> path \<Rightarrow> error_list" where
  "validateUpstreamName name fieldPath = validateDNS1035Label name fieldPath"

definition validateServiceName :: "string \<Rightarrow> path \<Rightarrow> error_list" where
  "validateServiceName name fieldPath = validateDNS1035Label name fieldPath"

definition isValidLabelName :: "string \<Rightarrow> path \<Rightarrow> error_list" where
  "isValidLabelName labelName fieldPath = invalids fieldPath labelName (IsQualifiedName labelName)"

text \<open>A nil map of labels has no entries.\<close>

definition validateLabels :: "string gomap option \<Rightarrow> path \<Rightarrow> error_list" where
  "validateLabels labels fieldPath =
     concat (map (\<lambda>(labelName, labelValue).
        isValidLabelName labelName fieldPath @ invalids fieldPath labelValue (IsValidLabelValue labelValue))
       (case labels of None \<Rightarrow> [] | Some m \<Rightarrow> m))"

definition pathRe :: re where
  "pathRe = Seq (Lit ''/'') (Star (Cls (\<lambda>c. \<not> reSpace c \<and> c \<noteq> CHR 0x7B \<and> c \<noteq> CHR 0x7D \<and> c \<noteq> CHR '';'')))"

definition pathFmt :: string where
  "pathFmt = ''/[^'' @ [CHR 0x5C] @ ''s{};]*''"

definition bq :: "string \<Rightarrow> string" where
  "bq s = [CHR 0x60] @ s @ [CHR 0x60]"

definition validatePath :: "string \<Rightarrow> path \<Rightarrow> error_list" where
  "validatePath p fieldPath =
     (if p = '''' then [Required fieldPath '''']
      else if \<not> matchString pathRe p
      then [Invalid fieldPath (BadStr p)
             (RegexError (''must start with / and must not include any whitespace character, '' @ bq ''{'' @ '', ''
                 @ bq ''}'' @ '' or '' @ bq '';'')
               pathFmt [''/'', ''/path'', ''/path/subpath-123''])]
      else [])"

section \<open>Upstreams\<close>

definition validateBuffer :: "UpstreamBuffers option \<Rightarrow> path \<Rightarrow> error_list" where
  "validateBuffer buff fieldPath =
     (case buff of
        None \<Rightarrow> []
      | Some b \<Rightarrow>
          (if ubNumber b \<le> 0 then [Invalid (child fieldPath ''number'') (BadInt (ubNumber b)) ''must be positive''] else [])
          @ (if ubSize b = '''' then [Required (child fieldPath ''size'') ''cannot be empty'']
             else validateSize (ubSize b) (child fieldPath ''size'')))"

definition validateUpstreamLBMethod :: "string \<Rightarrow> path \<Rightarrow> bool \<Rightarrow> error_list" where
  "validateUpstreamLBMethod lBMethod fieldPath isPlus =
     (if lBMethod = '''' then []
      else case (if isPlus then ParseLBMethodForPlus lBMethod else ParseLBMethod lBMethod) of
          Inl e \<Rightarrow> [Invalid fieldPath (BadStr lBMethod) e]
        | Inr _ \<Rightarrow> [])"

definition validateIntFromString :: "string \<Rightarrow> string + int" where
  "validateIntFromString number =
     (case goParseInt 64 number of Inl _ \<Rightarrow> Inl (number @ '' must be a valid integer'') | Inr i \<Rightarrow> Inr i)"

definition validateStatusCode :: "string \<Rightarrow> string" where
  "validateStatusCode status =
     (case validateIntFromString status of
        Inl errMsg \<Rightarrow> errMsg
      | Inr code \<Rightarrow> (if code < 100 \<or> code > 999 then InclusiveRangeError 100 999 else ''''))"

definition validateStatusCodeRange :: "string \<Rightarrow> string" where
  "validateStatusCodeRange statusRangeStr =
     (case splitOn (CHR ''-'') statusRangeStr of
        [lo, hi] \<Rightarrow>
          (case validateIntFromString lo of
             Inl msg \<Rightarrow> msg
           | Inr mn \<Rightarrow>
               (case validateIntFromString hi of
                  Inl msg \<Rightarrow> msg
                | Inr mx \<Rightarrow>
                    (if validateStatusCode lo \<noteq> '''' then validateStatusCode lo
                     else if validateStatusCode hi \<noteq> '''' then validateStatusCode hi
                     else if mx \<le> mn then ''range limits must be '' @ itoa mn @ '' < '' @ itoa mx
                     else '''')))
      | _ \<Rightarrow> ''ranges must only have 2 numbers'')"

definition validateStatusMatch :: "string \<Rightarrow> path \<Rightarrow> error_list" where
  "validateStatusMatch s fieldPath =
     (if s = '''' then []
      else (if hasPrefix s ''!'' \<and> \<not> hasPrefix s ''! ''
            then [Invalid fieldPath (BadStr s) (''must have an space character after the '' @ bq ''!'')] else [])
        @ concat (map (\<lambda>(i, value).
            if value = ''!''
            then (if i \<noteq> 0 then [Invalid fieldPath (BadStr s) (bq ''!'' @ '' can only appear once at the beginning'')] else [])
            else if containsStr value ''-''
            then (let msg = validateStatusCodeRange value in if msg \<noteq> '''' then [Invalid fieldPath (BadStr s) msg] else [])
            else (let msg = validateStatusCode value in if msg \<noteq> '''' then [Invalid fieldPath (BadStr s) msg] else []))
          (enumerate 0 (splitOn (CHR '' '') s))))"

text \<open>\<open>([^"$\\]|\\[^$])*\<close>.\<close>

definition headerValueRe :: re where
  "headerValueRe =
     Star (Alt (Cls (\<lambda>c. c \<noteq> CHR 0x22 \<and> c \<noteq> CHR ''$'' \<and> c \<noteq> CHR 0x5C))
            (Seq (Cls (\<lambda>c. c = CHR 0x5C)) (Cls (\<lambda>c. c \<noteq> CHR ''$''))))"

definition headerValueFmt :: string where
  "headerValueFmt =
     ''([^'' @ [CHR 0x22] @ ''$'' @ [CHR 0x5C, CHR 0x5C] @ '']|'' @ [CHR 0x5C, CHR 0x5C] @ ''[^$])*''"

definition isValidHeaderValue :: "string \<Rightarrow> string list" where
  "isValidHeaderValue s =
     (if \<not> matchString headerValueRe s
      then [RegexError (''a valid header must have all '' @ sq [CHR 0x22] @ '' escaped and must not contain any ''
              @ sq ''$'' @ '' or end with an unescaped '' @ sq [CHR 0x5C]) headerValueFmt [''my.service'', ''foo'']]
      else [])"

definition validateHeader :: "Header \<Rightarrow> path \<Rightarrow> error_list" where
  "validateHeader h fieldPath =
     (if hdName h = '''' then [Required (child fieldPath ''name'') ''''] else [])
     @ invalids (child fieldPath ''name'') (hdName h) (IsHTTPHeaderName (hdName h))
     @ invalids (child fieldPath ''value'') (hdValue h) (isValidHeaderValue (hdValue h))"

definition invalidPort :: "path \<Rightarrow> int \<Rightarrow> error_list" where
  "invalidPort fieldPath port = map (Invalid fieldPath (BadInt port)) (IsValidPortNum port)"

definition validateUpstreamHealthCheck :: "HealthCheck option \<Rightarrow> path \<Rightarrow> error_list" where
  "validateUpstreamHealthCheck hco fieldPath =
     (case hco of
        None \<Rightarrow> []
      | Some hc \<Rightarrow>
          (if hcPath hc \<noteq> '''' then validatePath (hcPath hc) (child fieldPath ''path'') else [])
          @ validateTime (hcInterval hc) (child fieldPath ''interval'')
          @ validateTime (hcJitter hc) (child fieldPath ''jitter'')
          @ validatePositiveIntOrZero (hcFails hc) (child fieldPath ''fails'')
          @ validatePositiveIntOrZero (hcPasses hc) (child fieldPath ''passes'')
          @ validateTime (hcConnectTimeout hc) (child fieldPath ''connect-timeout'')
          @ validateTime (hcReadTimeout hc) (child fieldPath ''read-timeout'')
          @ validateTime (hcSendTimeout hc) (child fieldPath ''send-timeout'')
          @ validateStatusMatch (hcStatusMatch hc) (child fieldPath ''statusMatch'')
          @ concat (map (\<lambda>(i, header). validateHeader header (pathIndex (child fieldPath ''headers'') i))
              (enumerate 0 (hcHeaders hc)))
          @ (if hcPort hc > 0 then invalidPort (child fieldPath ''port'') (hcPort hc) else []))"

definition validateSessionCookie :: "SessionCookie option \<Rightarrow> path \<Rightarrow> error_list" where
  "validateSessionCookie sco fieldPath =
     (case sco of
        None \<Rightarrow> []
      | Some sc \<Rightarrow>
          (if scName sc = '''' then [Required (child fieldPath ''name'') '''']
           else invalids (child fieldPath ''name'') (scName sc) (isCookieName (scName sc)))
          @ (if scPath sc \<noteq> '''' then validatePath (scPath sc) (child fieldPath ''path'') else [])
          @ (if scExpires sc \<noteq> ''max'' then validateTime (scExpires sc) (child fieldPath ''expires'') else [])
          @ (if scDomain sc \<noteq> ''''
             then invalids (child fieldPath ''domain'') (scDomain sc) (IsDNS1123Subdomain (trimPrefix (scDomain sc) ''.''))
             else []))"

definition validNextUpstreamParams :: "string list" where
  "validNextUpstreamParams =
     [''error'', ''timeout'', ''invalid_header'', ''http_500'', ''http_502'', ''http_503'', ''http_504'',
      ''http_403'', ''http_404'', ''http_429'', ''non_idempotent'', ''off'', '''']"

fun nextUpstreamErrs :: "string list \<Rightarrow> string list \<Rightarrow> path \<Rightarrow> error_list" where
  "nextUpstreamErrs allParams [] fieldPath = []"
| "nextUpstreamErrs allParams (para # params) fieldPath =
     (if para \<notin> set validNextUpstreamParams then [Invalid fieldPath (BadStr para) ''not a valid parameter''] else [])
     @ (if para \<in> set allParams then [Invalid fieldPath (BadStr para) ''can not have duplicate parameters''] else [])
     @ nextUpstreamErrs (if para \<in> set allParams then allParams else para # allParams) params fieldPath"

definition validateNextUpstream :: "string \<Rightarrow> path \<Rightarrow> error_list" where
  "validateNextUpstream nextUpstream fieldPath =
     (if nextUpstream = '''' then [] else nextUpstreamErrs [] (fieldsStr nextUpstream) fieldPath)"

definition validateQueue :: "UpstreamQueue option \<Rightarrow> path \<Rightarrow> error_list" where
  "validateQueue queue fieldPath =
     (case queue of
        None \<Rightarrow> []
      | Some q \<Rightarrow> validateTime (uqTimeout q) (child fieldPath ''timeout'')
                  @ (if uqSize q \<le> 0 then [Required (child fieldPath ''size'') ''must be positive''] else []))"

definition rejectPlusResourcesInOSS :: "Upstream \<Rightarrow> path \<Rightarrow> bool \<Rightarrow> error_list" where
  "rejectPlusResourcesInOSS u idxPath isPlus =
     (if isPlus then []
      else (if uHealthCheck u \<noteq> None
            then [Forbidden (child idxPath ''healthCheck'') ''active health checks are only supported in NGINX Plus''] else [])
        @ (if uSlowStart u \<noteq> ''''
           then [Forbidden (child idxPath ''slow-start'') ''slow start is only supported in NGINX Plus''] else [])
        @ (if uSessionCookie u \<noteq> None
           then [Forbidden (child idxPath ''sessionCookie'') ''sticky cookies are only supported in NGINX Plus''] else [])
        @ (if uQueue u \<noteq> None
           then [Forbidden (child idxPath ''queue'') ''queue is only supported in NGINX Plus''] else []))"

definition validateUpstreamFields :: "VirtualServerValidator \<Rightarrow> Upstream \<Rightarrow> path \<Rightarrow> error_list" where
  "validateUpstreamFields vsv u idxPath =
     (if uUseClusterIP u \<and> uSubselector u \<noteq> None
      then [Forbidden (child idxPath ''subselector'') (''subselector can'' @ [CHR 0x27] @ ''t be used with use-cluster-ip'')]
      else validateLabels (uSubselector u) (child idxPath ''subselector''))
     @ validateServiceName (uService u) (child idxPath ''service'')
     @ validateTime (uProxyConnectTimeout u) (child idxPath ''connect-timeout'')
     @ validateTime (uProxyReadTimeout u) (child idxPath ''read-timeout'')
     @ validateTime (uProxySendTimeout u) (child idxPath ''send-timeout'')
     @ validateNextUpstream (uProxyNextUpstream u) (child idxPath ''next-upstream'')
     @ validateTime (uProxyNextUpstreamTimeout u) (child idxPath ''next-upstream-timeout'')
     @ validatePositiveIntOrZeroFromPointer (Some (uProxyNextUpstreamTries u)) (child idxPath ''next-upstream-tries'')
     @ validateUpstreamLBMethod (uLBMethod u) (child idxPath ''lb-method'') (vvIsPlus vsv)
     @ validateTime (uFailTimeout u) (child idxPath ''fail-timeout'')
     @ validatePositiveIntOrZeroFromPointer (uMaxFails u) (child idxPath ''max-fails'')
     @ validatePositiveIntOrZeroFromPointer (uKeepalive u) (child idxPath ''keepalive'')
     @ validatePositiveIntOrZeroFromPointer (uMaxConns u) (child idxPath ''max-conns'')
     @ validateOffset (uClientMaxBodySize u) (child idxPath ''client-max-body-size'')
     @ validateUpstreamHealthCheck (uHealthCheck u) (child idxPath ''healthCheck'')
     @ validateTime (uSlowStart u) (child idxPath ''slow-start'')
     @ validateBuffer (uProxyBuffers u) (child idxPath ''buffers'')
     @ validateSize (uProxyBufferSize u) (child idxPath ''buffer-size'')
     @ validateQueue (uQueue u) (child idxPath ''queue'')
     @ validateSessionCookie (uSessionCookie u) (child idxPath ''sessionCookie'')
     @ map (Invalid (child idxPath ''port'') (BadUint16 (unat (uPort u)))) (IsValidPortNum (uint (uPort u)))
     @ rejectPlusResourcesInOSS u idxPath (vvIsPlus vsv)"

fun validateUpstreamsFrom :: "VirtualServerValidator \<Rightarrow> nat \<Rightarrow> string list \<Rightarrow> Upstream list \<Rightarrow> path \<Rightarrow> error_list \<times> string list" where
  "validateUpstreamsFrom vsv i upstreamNames [] fieldPath = ([], upstreamNames)"
| "validateUpstreamsFrom vsv i upstreamNames (u # us) fieldPath =
     (let idxPath = pathIndex fieldPath i;
          upstreamErrors = validateUpstreamName (uName u) (child idxPath ''name'');
          (nameErrs, upstreamNames') =
            (if upstreamErrors \<noteq> [] then (upstreamErrors, upstreamNames)
             else if uName u \<in> set upstreamNames
             then ([Duplicate (child idxPath ''name'') (BadStr (uName u))], upstreamNames)
             else ([], uName u # upstreamNames));
          (restErrs, names) = validateUpstreamsFrom vsv (Suc i) upstreamNames' us fieldPath
      in (nameErrs @ validateUpstreamFields vsv u idxPath @ restErrs, names))"

definition validateUpstreams :: "VirtualServerValidator \<Rightarrow> Upstream list \<Rightarrow> path \<Rightarrow> error_list \<times> string list" where
  "validateUpstreams vsv upstreams fieldPath = validateUpstreamsFrom vsv 0 [] upstreams fieldPath"

section \<open>Actions\<close>

definition validateReferencedUpstream :: "string \<Rightarrow> path \<Rightarrow> string list \<Rightarrow> error_list" where
  "validateReferencedUpstream name fieldPath upstreamNames =
     (let upstreamErrs = validateUpstreamName name fieldPath
      in if upstreamErrs \<noteq> [] then upstreamErrs
         else if name \<notin> set upstreamNames then [NotFound fieldPath (BadStr name)] else [])"

definition countActions :: "Action \<Rightarrow> nat" where
  "countActions a =
     (if acPass a \<noteq> '''' then 1 else 0) + (if acRedirect a \<noteq> None then 1 else 0)
     + (if acReturn a \<noteq> None then 1 else 0) + (if acProxy a \<noteq> None then 1 else 0)"

definition returnBodyVariables :: "string list" where
  "returnBodyVariables =
     [''request_uri'', ''request_method'', ''request_body'', ''scheme'', ''args'', ''host'', ''request_time'',
      ''request_length'', ''nginx_version'', ''pid'', ''connection'', ''remote_addr'', ''remote_port'',
      ''time_iso8601'', ''time_local'', ''server_addr'', ''server_port'', ''server_name'', ''server_protocol'',
      ''connections_active'', ''connections_reading'', ''connections_writing'', ''connections_waiting'']"

definition returnBodySpecialVariables :: "string list" where
  "returnBodySpecialVariables = [''arg_'', ''http_'', ''cookie_'']"

definition validRedirectVariableNames :: "string list" where
  "validRedirectVariableNames = [''scheme'', ''http_x_forwarded_proto'', ''request_uri'', ''host'']"

definition errorPageReturnBodyVariable :: "string list" where
  "errorPageReturnBodyVariable = [''upstream_status'']"

definition errorPageHeaderValueVariables :: "string list" where
  "errorPageHeaderValueVariables = [''upstream_status'']"

definition validErrorPageRedirectVariables :: "string list" where
  "validErrorPageRedirectVariables = [''scheme'', ''http_x_forwarded_proto'']"

definition actionProxyHeaderVariables :: "string list" where
  "actionProxyHeaderVariables =
     [''request_uri'', ''request_method'', ''request_body'', ''scheme'', ''args'', ''host'', ''request_time'',
      ''request_length'', ''nginx_version'', ''pid'', ''connection'', ''remote_addr'', ''remote_port'',
      ''time_iso8601'', ''time_local'', ''server_addr'', ''server_port'', ''server_name'', ''server_protocol'',
      ''connections_active'', ''connections_reading'', ''connections_writing'', ''connections_waiting'',
      ''ssl_cipher'', ''ssl_ciphers'', ''ssl_client_cert'', ''ssl_client_escaped_cert'', ''ssl_client_fingerprint'',
      ''ssl_client_i_dn'', ''ssl_client_i_dn_legacy'', ''ssl_client_raw_cert'', ''ssl_client_s_dn'',
      ''ssl_client_s_dn_legacy'', ''ssl_client_serial'', ''ssl_client_v_end'', ''ssl_client_v_remain'',
      ''ssl_client_v_start'', ''ssl_client_verify'', ''ssl_curves'', ''ssl_early_data'', ''ssl_protocol'',
      ''ssl_server_name'', ''ssl_session_id'', ''ssl_session_reused'']"

definition actionProxyHeaderSpecialVariables :: "string list" where
  "actionProxyHeaderSpecialVariables = [''arg_'', ''http_'', ''cookie_'', ''jwt_claim_'', ''jwt_header_'']"

text \<open>The quoted examples of the error messages, with a backslash before each double quote.\<close>

definition bsq :: "string \<Rightarrow> string" where
  "bsq s = [CHR 0x5C, CHR 0x22] @ s @ [CHR 0x5C, CHR 0x22]"

definition validateEscapedStringWithVariables :: "string \<Rightarrow> path \<Rightarrow> string list \<Rightarrow> string list \<Rightarrow> bool \<Rightarrow> error_list" where
  "validateEscapedStringWithVariables body fieldPath specialValidVars validVars isPlus =
     (if \<not> matchString escapedStringsRe body
      then [Invalid fieldPath (BadStr body)
             (RegexError escapedStringsErrMsg escapedStringsFmt
               [''Hello World! '' @ [CHR 0x5C] @ ''n'', bsq ''${request_uri}'' @ '' is unavailable. '' @ [CHR 0x5C] @ ''n''])]
      else [])
     @ validateStringWithVariables body fieldPath specialValidVars validVars isPlus"

definition validateRedirectURL :: "VirtualServerValidator \<Rightarrow> string \<Rightarrow> path \<Rightarrow> string list \<Rightarrow> error_list" where
  "validateRedirectURL vsv redirectURL fieldPath validVars =
     (if redirectURL = '''' then [Required fieldPath ''must specify a url'']
      else if \<not> containsStr redirectURL ''://''
      then [Invalid fieldPath (BadStr redirectURL)
             (''must contain the protocol with '' @ sq ''://'' @ '', for example http://, https:// or ${scheme}://'')]
      else if \<not> matchString escapedStringsRe redirectURL
      then [Invalid fieldPath (BadStr redirectURL)
             (RegexError escapedStringsErrMsg escapedStringsFmt
               [''http://www.nginx.com'', ''${scheme}://${host}/green/'', bsq ''http://www.nginx.com''])]
      else validateStringWithVariables redirectURL fieldPath [] validVars (vvIsPlus vsv))"

definition validateActionRedirect :: "VirtualServerValidator \<Rightarrow> ActionRedirect \<Rightarrow> path \<Rightarrow> string list \<Rightarrow> error_list" where
  "validateActionRedirect vsv redirect fieldPath validVars =
     validateRedirectURL vsv (arURL redirect) (child fieldPath ''url'') validVars
     @ (if arCode redirect \<noteq> 0 then validateRedirectStatusCode (arCode redirect) (child fieldPath ''code'') else [])"

definition validateActionReturnCode :: "int \<Rightarrow> path \<Rightarrow> error_list" where
  "validateActionReturnCode code fieldPath =
     (if code \<ge> 200 \<and> code \<le> 299 \<or> code \<ge> 400 \<and> code \<le> 599 then []
      else [Invalid fieldPath (BadInt code) ''must be a valid status code either 2XX, 4XX or 5XX, for example, 200 or 402.''])"

text \<open>\<open>([^;\{\}"\\]|\\.)*\<close>.\<close>

definition actionReturnTypeRe :: re where
  "actionReturnTypeRe =
     Star (Alt (Cls (\<lambda>c. c \<noteq> CHR '';'' \<and> c \<noteq> CHR 0x7B \<and> c \<noteq> CHR 0x7D \<and> c \<noteq> CHR 0x22 \<and> c \<noteq> CHR 0x5C))
            (Seq (Cls (\<lambda>c. c = CHR 0x5C)) (Cls reAny)))"

definition actionReturnTypeFmt :: string where
  "actionReturnTypeFmt =
     ''([^;'' @ [CHR 0x5C] @ ''{'' @ [CHR 0x5C] @ ''}'' @ [CHR 0x22, CHR 0x5C, CHR 0x5C] @ '']|'' @ [CHR 0x5C, CHR 0x5C] @ ''.)*''"

definition actionReturnTypeErr :: string where
  "actionReturnTypeErr =
     ''must have all '' @ sq [CHR 0x22] @ '' (double quotes), '' @ sq ''{'' @ '', '' @ sq ''}'' @ '' or '' @ sq '';''
       @ '' escaped and must not end with an unescaped '' @ sq [CHR 0x5C] @ '' (backslash)''"

definition validateActionReturnType :: "string \<Rightarrow> path \<Rightarrow> error_list" where
  "validateActionReturnType returnType fieldPath =
     (if \<not> matchString actionReturnTypeRe returnType
      then [Invalid fieldPath (BadStr returnType)
             (RegexError actionReturnTypeErr actionReturnTypeFmt [''type/subtype'', ''application/json''])]
      else [])"

definition validateActionReturn :: "VirtualServerValidator \<Rightarrow> ActionReturn \<Rightarrow> path \<Rightarrow> string list \<Rightarrow> string list \<Rightarrow> error_list" where
  "validateActionReturn vsv r fieldPath specialValidVars validVars =
     (if atBody r = '''' then [Required (child fieldPath ''body'') '''']
      else validateEscapedStringWithVariables (atBody r) (child fieldPath ''body'') specialValidVars validVars (vvIsPlus vsv)
        @ (if atType r \<noteq> '''' then validateActionReturnType (atType r) (child fieldPath ''type'') else [])
        @ (if atCode r \<noteq> 0 then validateActionReturnCode (atCode r) (child fieldPath ''code'') else []))"

fun stringNoVariables :: "string \<Rightarrow> string \<Rightarrow> path \<Rightarrow> error_list" where
  "stringNoVariables s [] fieldPath = []"
| "stringNoVariables s [c] fieldPath = []"
| "stringNoVariables s (c # d # rest) fieldPath =
     (if c = CHR ''$'' \<and> (case goAtoi [d] of Inl _ \<Rightarrow> True | Inr _ \<Rightarrow> False)
      then [Invalid fieldPath (BadStr s) (bq ''$'' @ '' character can be only followed by a number'')]
      else stringNoVariables s (d # rest) fieldPath)"

definition validateStringNoVariables :: "string \<Rightarrow> path \<Rightarrow> error_list" where
  "validateStringNoVariables s fieldPath = stringNoVariables s s fieldPath"

definition validateActionProxyRewritePath :: "string \<Rightarrow> path \<Rightarrow> error_list" where
  "validateActionProxyRewritePath rewritePath fieldPath =
     (if rewritePath = '''' then []
      else validateStringNoVariables rewritePath fieldPath @ validatePath rewritePath fieldPath)"

definition validateActionProxyRewritePathForRegexp :: "string \<Rightarrow> path \<Rightarrow> error_list" where
  "validateActionProxyRewritePathForRegexp rewritePath fieldPath =
     (if rewritePath = '''' then []
      else validateStringNoVariables rewritePath fieldPath
        @ (if \<not> matchString escapedStringsRe rewritePath
           then [Invalid fieldPath (BadStr rewritePath)
                  (RegexError escapedStringsErrMsg escapedStringsFmt [''/rewrite$1'', ''/images''])]
           else []))"

definition validateActionProxyHeader :: "VirtualServerValidator \<Rightarrow> Header \<Rightarrow> path \<Rightarrow> error_list" where
  "validateActionProxyHeader vsv h fieldPath =
     (if hdName h = '''' then [Required (child fieldPath ''name'') ''''] else [])
     @ invalids (child fieldPath ''name'') (hdName h) (IsHTTPHeaderName (hdName h))
     @ validateEscapedStringWithVariables (hdValue h) (child fieldPath ''value'')
         actionProxyHeaderSpecialVariables actionProxyHeaderVariables (vvIsPlus vsv)"

definition validateActionProxyRequestHeaders :: "VirtualServerValidator \<Rightarrow> ProxyRequestHeaders option \<Rightarrow> path \<Rightarrow> error_list" where
  "validateActionProxyRequestHeaders vsv requestHeaders fieldPath =
     (case requestHeaders of
        None \<Rightarrow> []
      | Some rh \<Rightarrow> concat (map (\<lambda>(i, header). validateActionProxyHeader vsv header (pathIndex fieldPath i)) (enumerate 0 (prhSet rh))))"

definition validIgnoreHeaders :: "string list" where
  "validIgnoreHeaders =
     [''X-Accel-Redirect'', ''X-Accel-Expires'', ''X-Accel-Limit-Rate'', ''X-Accel-Buffering'', ''X-Accel-Charset'',
      ''Expires'', ''Cache-Control'', ''Set-Cookie'', ''Vary'']"

definition validateIgnoreHeaders :: "string list \<Rightarrow> path \<Rightarrow> error_list" where
  "validateIgnoreHeaders ignoreHeaders fieldPath =
     concat (map (\<lambda>(i, h).
        if h \<notin> set validIgnoreHeaders
        then [Invalid (pathIndex fieldPath i) (BadStr h)
               (''not a valid ignore header name. Accepted headers are : '' @ mapToPrettyString validIgnoreHeaders)]
        else []) (enumerate 0 ignoreHeaders))"

definition validateActionProxyResponseHeaders :: "VirtualServerValidator \<Rightarrow> ProxyResponseHeaders option \<Rightarrow> path \<Rightarrow> error_list" where
  "validateActionProxyResponseHeaders vsv responseHeaders fieldPath =
     (case responseHeaders of
        None \<Rightarrow> []
      | Some rh \<Rightarrow>
          concat (map (\<lambda>(i, header). invalids (pathIndex (child fieldPath ''hide'') i) header (IsHTTPHeaderName header))
            (enumerate 0 (prsHide rh)))
          @ concat (map (\<lambda>(i, header). invalids (pathIndex (child fieldPath ''pass'') i) header (IsHTTPHeaderName header))
              (enumerate 0 (prsPass rh)))
          @ concat (map (\<lambda>(i, header). validateActionProxyHeader vsv (ahHeader header) (pathIndex (child fieldPath ''add'') i))
              (enumerate 0 (prsAdd rh)))
          @ validateIgnoreHeaders (prsIgnore rh) (child fieldPath ''ignore''))"

definition validateActionProxy :: "VirtualServerValidator \<Rightarrow> ActionProxy \<Rightarrow> path \<Rightarrow> string list \<Rightarrow> string \<Rightarrow> bool \<Rightarrow> error_list" where
  "validateActionProxy vsv p fieldPath upstreamNames rpath internal =
     validateReferencedUpstream (apUpstream p) (child fieldPath ''upstream'') upstreamNames
     @ validateActionProxyRequestHeaders vsv (apRequestHeaders p) (child fieldPath ''requestHeaders'')
     @ validateActionProxyResponseHeaders vsv (apResponseHeaders p) (child fieldPath ''responseHeaders'')
     @ (if hasPrefix rpath ''~'' \<or> internal
        then validateActionProxyRewritePathForRegexp (apRewritePath p) (child fieldPath ''rewritePath'')
        else validateActionProxyRewritePath (apRewritePath p) (child fieldPath ''rewritePath''))"

definition validateAction :: "VirtualServerValidator \<Rightarrow> Action \<Rightarrow> path \<Rightarrow> string list \<Rightarrow> string \<Rightarrow> bool \<Rightarrow> error_list" where
  "validateAction vsv action fieldPath upstreamNames rpath internal =
     (if countActions action \<noteq> 1
      then [Required fieldPath (''action must specify exactly one of '' @ bq ''pass'' @ '', '' @ bq ''redirect'' @ '', ''
             @ bq ''return'' @ '' or '' @ bq ''proxy'')]
      else (if acPass action \<noteq> '''' then validateReferencedUpstream (acPass action) (child fieldPath ''pass'') upstreamNames else [])
        @ (case acRedirect action of None \<Rightarrow> []
           | Some r \<Rightarrow> validateActionRedirect vsv r (child fieldPath ''redirect'') validRedirectVariableNames)
        @ (case acReturn action of None \<Rightarrow> []
           | Some r \<Rightarrow> validateActionReturn vsv r (child fieldPath ''return'') returnBodySpecialVariables returnBodyVariables)
        @ (case acProxy action of None \<Rightarrow> []
           | Some p \<Rightarrow> validateActionProxy vsv p (child fieldPath ''proxy'') upstreamNames rpath internal))"

section \<open>Error pages, splits, matches\<close>

definition errorPageHasRequiredFields :: "ErrorPage \<Rightarrow> bool" where
  "errorPageHasRequiredFields ep =
     ((if epReturn ep \<noteq> None then 1 else 0) + (if epRedirect ep \<noteq> None then 1 else 0) = (1 :: nat))"

definition validateErrorPageHeader :: "VirtualServerValidator \<Rightarrow> Header \<Rightarrow> path \<Rightarrow> error_list" where
  "validateErrorPageHeader vsv h fieldPath =
     (if hdName h = '''' then [Required (child fieldPath ''name'') ''''] else [])
     @ invalids (child fieldPath ''name'') (hdName h) (IsHTTPHeaderName (hdName h))
     @ (if \<not> matchString escapedStringsRe (hdValue h)
        then [Invalid (child fieldPath ''value'') (BadStr (hdValue h))
               (RegexError escapedStringsErrMsg escapedStringsFmt [''value'', bsq ''${status}''])]
        else [])
     @ validateStringWithVariables (hdValue h) (child fieldPath ''value'') [] errorPageHeaderValueVariables (vvIsPlus vsv)"

definition validateErrorPageReturn :: "VirtualServerValidator \<Rightarrow> ErrorPageReturn \<Rightarrow> path \<Rightarrow> error_list" where
  "validateErrorPageReturn vsv r fieldPath =
     validateActionReturn vsv (erActionReturn r) fieldPath [] errorPageReturnBodyVariable
     @ concat (map (\<lambda>(i, header). validateErrorPageHeader vsv header (pathIndex (child fieldPath ''headers'') i))
         (enumerate 0 (erHeaders r)))"

definition validateErrorPageRedirect :: "VirtualServerValidator \<Rightarrow> ErrorPageRedirect \<Rightarrow> path \<Rightarrow> error_list" where
  "validateErrorPageRedirect vsv r fieldPath =
     validateActionRedirect vsv (edActionRedirect r) fieldPath validErrorPageRedirectVariables"

definition validateErrorPage :: "VirtualServerValidator \<Rightarrow> ErrorPage \<Rightarrow> path \<Rightarrow> error_list" where
  "validateErrorPage vsv ep fieldPath =
     (if \<not> errorPageHasRequiredFields ep
      then [Required fieldPath (''must specify exactly one of '' @ bq ''redirect'' @ '' or '' @ bq ''return'')]
      else if epCodes ep = []
      then [Required (child fieldPath ''codes'') (''must include at least 1 status code in '' @ bq ''codes'')]
      else concat (map (\<lambda>(i, c). map (Invalid (pathIndex (child fieldPath ''codes'') i) (BadInt c)) (IsInRange c 300 599))
             (enumerate 0 (epCodes ep)))
        @ (case epReturn ep of None \<Rightarrow> [] | Some r \<Rightarrow> validateErrorPageReturn vsv r (child fieldPath ''return''))
        @ (case epRedirect ep of None \<Rightarrow> [] | Some r \<Rightarrow> validateErrorPageRedirect vsv r (child fieldPath ''redirect'')))"

definition validateSplits :: "VirtualServerValidator \<Rightarrow> Split list \<Rightarrow> path \<Rightarrow> string list \<Rightarrow> string \<Rightarrow> error_list" where
  "validateSplits vsv splits fieldPath upstreamNames rpath =
     (if length splits < 2 then [Invalid fieldPath (BadStr '''') ''must include at least 2 splits'']
      else concat (map (\<lambda>(i, s).
             map (Invalid (child (pathIndex fieldPath i) ''weight'') (BadInt (spWeight s))) (IsInRange (spWeight s) 1 99)
             @ (case spAction s of
                  None \<Rightarrow> [Required (child (pathIndex fieldPath i) ''action'') '''']
                | Some a \<Rightarrow> validateAction vsv a (child (pathIndex fieldPath i) ''action'') upstreamNames rpath True))
             (enumerate 0 splits))
        @ (if sum_list (map spWeight splits) \<noteq> 100
           then [Invalid fieldPath (BadStr '''') ''the sum of the weights of all splits must be equal to 100''] else []))"

definition validVariableNames :: "string list" where
  "validVariableNames =
     [''$args'', ''$http2'', ''$https'', ''$remote_addr'', ''$remote_port'', ''$query_string'', ''$request'',
      ''$request_body'', ''$request_uri'', ''$request_method'', ''$scheme'']"

definition validateVariableName :: "string \<Rightarrow> path \<Rightarrow> error_list" where
  "validateVariableName name fieldPath =
     (if \<not> hasPrefix name ''$'' then [Invalid fieldPath (BadStr name) (''must start with '' @ bq ''$'')]
      else if name \<notin> set validVariableNames
      then [Invalid fieldPath (BadStr name) ''is not allowed or is not an NGINX variable''] else [])"

definition isValidMatchValue :: "string \<Rightarrow> string list" where
  "isValidMatchValue value =
     (if \<not> matchString escapedStringsRe value
      then [RegexError escapedStringsErrMsg escapedStringsFmt [''value-123'']] else [])"

definition validateCondition :: "Condition \<Rightarrow> path \<Rightarrow> error_list" where
  "validateCondition c fieldPath =
     (if cdHeader c \<noteq> '''' then invalids (child fieldPath ''header'') (cdHeader c) (IsHTTPHeaderName (cdHeader c)) else [])
     @ (if cdCookie c \<noteq> '''' then invalids (child fieldPath ''cookie'') (cdCookie c) (isCookieName (cdCookie c)) else [])
     @ (if cdArgument c \<noteq> ''''
        then invalids (child fieldPath ''argument'') (cdArgument c) (isArgumentName (cdArgument c)) else [])
     @ (if cdVariable c \<noteq> '''' then validateVariableName (cdVariable c) (child fieldPath ''variable'') else [])
     @ (let fieldCount = (if cdHeader c \<noteq> '''' then 1 else 0) + (if cdCookie c \<noteq> '''' then 1 else 0)
              + (if cdArgument c \<noteq> '''' then 1 else 0) + (if cdVariable c \<noteq> '''' then 1 else (0 :: nat))
        in if fieldCount \<noteq> 1
           then [Invalid fieldPath (BadStr '''') (''must specify exactly one of: '' @ bq ''header'' @ '', '' @ bq ''cookie''
                  @ '', '' @ bq ''argument'' @ '' or '' @ bq ''variable'')] else [])
     @ invalids (child fieldPath ''value'') (cdValue c) (isValidMatchValue (cdValue c))"

definition actionOrSplitsErrs ::
    "VirtualServerValidator \<Rightarrow> Action option \<Rightarrow> Split list \<Rightarrow> path \<Rightarrow> string list \<Rightarrow> string \<Rightarrow> bool \<Rightarrow> error_list" where
  "actionOrSplitsErrs vsv action splits fieldPath upstreamNames rpath internal =
     (case action of None \<Rightarrow> [] | Some a \<Rightarrow> validateAction vsv a (child fieldPath ''action'') upstreamNames rpath internal)
     @ (if splits \<noteq> [] then validateSplits vsv splits (child fieldPath ''splits'') upstreamNames rpath else [])"

definition actionSplitsCount :: "Action option \<Rightarrow> Split list \<Rightarrow> nat" where
  "actionSplitsCount action splits = (if action \<noteq> None then 1 else 0) + (if splits \<noteq> [] then 1 else 0)"

definition validateMatch :: "VirtualServerValidator \<Rightarrow> Match \<Rightarrow> path \<Rightarrow> string list \<Rightarrow> string \<Rightarrow> error_list" where
  "validateMatch vsv m fieldPath upstreamNames rpath =
     (if mtConditions m = [] then [Required (child fieldPath ''conditions'') ''must specify at least one condition'']
      else concat (map (\<lambda>(i, c). validateCondition c (pathIndex (child fieldPath ''conditions'') i))
             (enumerate 0 (mtConditions m))))
     @ actionOrSplitsErrs vsv (mtAction m) (mtSplits m) fieldPath upstreamNames rpath True
     @ (if actionSplitsCount (mtAction m) (mtSplits m) \<noteq> 1
        then [Invalid fieldPath (BadStr '''') (''must specify exactly one of '' @ bq ''action'' @ '' or '' @ bq ''splits'')] else [])"

section \<open>Routes\<close>

definition validateRegexPath :: "VirtualServerValidator \<Rightarrow> string \<Rightarrow> path \<Rightarrow> error_list" where
  "validateRegexPath vsv p fieldPath =
     (case vvRegexpCompile vsv p of
        Some err \<Rightarrow> [Invalid fieldPath (BadStr p) (''must be a valid regular expression: '' @ err)]
      | None \<Rightarrow>
          (if \<not> matchString escapedStringsRe p
           then [Invalid fieldPath (BadStr p)
                  (RegexError escapedStringsErrMsg escapedStringsFmt [''*.jpg'', ''^/images/image_*.png$''])]
           else []))"

definition validateRoutePath :: "VirtualServerValidator \<Rightarrow> string \<Rightarrow> path \<Rightarrow> error_list" where
  "validateRoutePath vsv p fieldPath =
     (if p = '''' then [Required fieldPath '''']
      else if hasPrefix p ''~'' then validateRegexPath vsv p fieldPath
      else if hasPrefix p ''/'' then validatePath p fieldPath
      else if hasPrefix p ''='' then validatePath (trimPrefix p ''='') fieldPath
      else [Invalid fieldPath (BadStr p) ''must start with /, ~ or =''])"

definition validateRouteField :: "string \<Rightarrow> path \<Rightarrow> error_list" where
  "validateRouteField value fieldPath = invalids fieldPath value (IsQualifiedName value)"

definition validateRoute :: "VirtualServerValidator \<Rightarrow> Route \<Rightarrow> path \<Rightarrow> string list \<Rightarrow> bool \<Rightarrow> string \<Rightarrow> error_list" where
  "validateRoute vsv route fieldPath upstreamNames isRouteFieldForbidden namespace =
     validateRoutePath vsv (rtPath route) (child fieldPath ''path'')
     @ validatePolicies (rtPolicies route) (child fieldPath ''policies'') namespace
     @ actionOrSplitsErrs vsv (rtAction route) (rtSplits route) fieldPath upstreamNames (rtPath route) False
     @ concat (map (\<lambda>(i, m). validateMatch vsv m (pathIndex (child fieldPath ''matches'') i) upstreamNames (rtPath route))
         (enumerate 0 (rtMatches route)))
     @ concat (map (\<lambda>(i, e). validateErrorPage vsv e (pathIndex (child fieldPath ''errorPages'') i))
         (enumerate 0 (sliceOf (rtErrorPages route))))
     @ (if rtRoute route = '''' then []
        else if isRouteFieldForbidden then [Forbidden (child fieldPath ''route'') ''is not allowed'']
        else validateRouteField (rtRoute route) (child fieldPath ''route''))
     @ (let fieldCount = actionSplitsCount (rtAction route) (rtSplits route)
              + (if rtRoute route \<noteq> '''' \<and> \<not> isRouteFieldForbidden then 1 else 0)
        in if fieldCount \<noteq> 1
           then [Invalid fieldPath (BadStr '''')
                  (if isRouteFieldForbidden \<or> rtMatches route \<noteq> []
                   then ''must specify exactly one of '' @ bq ''action'' @ '' or '' @ bq ''splits''
                   else ''must specify exactly one of '' @ bq ''action'' @ '', '' @ bq ''splits'' @ '' or '' @ bq ''route'')]
           else [])"

fun validateVirtualServerRoutesFrom ::
    "VirtualServerValidator \<Rightarrow> nat \<Rightarrow> string list \<Rightarrow> Route list \<Rightarrow> path \<Rightarrow> string list \<Rightarrow> string \<Rightarrow> error_list" where
  "validateVirtualServerRoutesFrom vsv i allPaths [] fieldPath upstreamNames namespace = []"
| "validateVirtualServerRoutesFrom vsv i allPaths (r # rs) fieldPath upstreamNames namespace =
     (let idxPath = pathIndex fieldPath i;
          routeErrs = validateRoute vsv r idxPath upstreamNames False namespace
      in if routeErrs \<noteq> []
         then routeErrs @ validateVirtualServerRoutesFrom vsv (Suc i) allPaths rs fieldPath upstreamNames namespace
         else if rtPath r \<in> set allPaths
         then Duplicate (child idxPath ''path'') (BadStr (rtPath r))
                # validateVirtualServerRoutesFrom vsv (Suc i) allPaths rs fieldPath upstreamNames namespace
         else validateVirtualServerRoutesFrom vsv (Suc i) (rtPath r # allPaths) rs fieldPath upstreamNames namespace)"

definition validateVirtualServerRoutes ::
    "VirtualServerValidator \<Rightarrow> Route list \<Rightarrow> path \<Rightarrow> string list \<Rightarrow> string \<Rightarrow> error_list" where
  "validateVirtualServerRoutes vsv routes fieldPath upstreamNames namespace =
     validateVirtualServerRoutesFrom vsv 0 [] routes fieldPath upstreamNames namespace"

section \<open>VirtualServer\<close>

definition validateVirtualServerSpec :: "VirtualServerValidator \<Rightarrow> VirtualServerSpec \<Rightarrow> path \<Rightarrow> string \<Rightarrow> error_list" where
  "validateVirtualServerSpec vsv spec fieldPath namespace =
     (let (upstreamErrs, upstreamNames) = validateUpstreams vsv (vssUpstreams spec) (child fieldPath ''upstreams'')
      in validateHost (vssHost spec) (child fieldPath ''host'')
         @ validateTLS (vssTLS spec) (child fieldPath ''tls'')
         @ validatePolicies (vssPolicies spec) (child fieldPath ''policies'') namespace
         @ upstreamErrs
         @ validateVirtualServerRoutes vsv (vssRoutes spec) (child fieldPath ''routes'') upstreamNames namespace)"

definition ValidateVirtualServer :: "VirtualServerValidator \<Rightarrow> VirtualServer \<Rightarrow> string option" where
  "ValidateVirtualServer vsv vs =
     ToAggregate (validateVirtualServerSpec vsv (vsSpec vs) (newPath ''spec'') (omNamespace (vsMeta vs)))"

section \<open>VirtualServerRoute\<close>

definition validateVirtualServerRouteHost :: "string \<Rightarrow> string \<Rightarrow> path \<Rightarrow> error_list" where
  "validateVirtualServerRouteHost host virtualServerHost fieldPath =
     validateHost host fieldPath
     @ (if virtualServerHost \<noteq> '''' \<and> host \<noteq> virtualServerHost
        then [Invalid fieldPath (BadStr host) (''must be equal to '' @ sq virtualServerHost)] else [])"

definition isRegexOrExactMatch :: "string \<Rightarrow> bool" where
  "isRegexOrExactMatch p = (hasPrefix p ''~'' \<or> hasPrefix p ''='')"

fun validateSubroutesFrom ::
    "VirtualServerValidator \<Rightarrow> nat \<Rightarrow> string list \<Rightarrow> Route list \<Rightarrow> path \<Rightarrow> string list \<Rightarrow> string \<Rightarrow> string \<Rightarrow> error_list" where
  "validateSubroutesFrom vsv i allPaths [] fieldPath upstreamNames vsPath namespace = []"
| "validateSubroutesFrom vsv i allPaths (r # rs) fieldPath upstreamNames vsPath namespace =
     (let idxPath = pathIndex fieldPath i;
          routeErrs = validateRoute vsv r idxPath upstreamNames True namespace
            @ (if vsPath \<noteq> '''' \<and> \<not> hasPrefix (rtPath r) vsPath \<and> \<not> isRegexOrExactMatch (rtPath r)
               then [Invalid idxPath (BadStr (rtPath r)) (''must start with '' @ sq vsPath)] else [])
      in if routeErrs \<noteq> []
         then routeErrs @ validateSubroutesFrom vsv (Suc i) allPaths rs fieldPath upstreamNames vsPath namespace
         else if rtPath r \<in> set allPaths
         then Duplicate (child idxPath ''path'') (BadStr (rtPath r))
                # validateSubroutesFrom vsv (Suc i) allPaths rs fieldPath upstreamNames vsPath namespace
         else validateSubroutesFrom vsv (Suc i) (rtPath r # allPaths) rs fieldPath upstreamNames vsPath namespace)"

definition validateVirtualServerRouteSubroutes ::
    "VirtualServerValidator \<Rightarrow> Route list \<Rightarrow> path \<Rightarrow> string list \<Rightarrow> string \<Rightarrow> string \<Rightarrow> error_list" where
  "validateVirtualServerRouteSubroutes vsv routes fieldPath upstreamNames vsPath namespace =
     (if isRegexOrExactMatch vsPath
      then (case routes of
              [r] \<Rightarrow>
                (if rtPath r \<noteq> vsPath
                 then [Invalid (child (pathIndex fieldPath 0) ''path'') (BadStr (rtPath r))
                        ''must have the same path as the referenced VirtualServer route path'']
                 else validateRoute vsv r (pathIndex fieldPath 0) upstreamNames True namespace)
            | _ \<Rightarrow> [Invalid fieldPath (BadStr ''subroutes'')
                     ''must have only one subroute if regex match or exact match are being used''])
      else validateSubroutesFrom vsv 0 [] routes fieldPath upstreamNames vsPath namespace)"

definition validateVirtualServerRouteSpec ::
    "VirtualServerValidator \<Rightarrow> VirtualServerRouteSpec \<Rightarrow> path \<Rightarrow> string \<Rightarrow> string \<Rightarrow> string \<Rightarrow> error_list" where
  "validateVirtualServerRouteSpec vsv spec fieldPath virtualServerHost vsPath namespace =
     (let (upstreamErrs, upstreamNames) = validateUpstreams vsv (vrsUpstreams spec) (child fieldPath ''upstreams'')
      in validateVirtualServerRouteHost (vrsHost spec) virtualServerHost (child fieldPath ''host'')
         @ upstreamErrs
         @ validateVirtualServerRouteSubroutes vsv (vrsSubroutes spec) (child fieldPath ''subroutes'') upstreamNames vsPath namespace)"

definition ValidateVirtualServerRoute :: "VirtualServerValidator \<Rightarrow> VirtualServerRoute \<Rightarrow> string option" where
  "ValidateVirtualServerRoute vsv vsr =
     ToAggregate (validateVirtualServerRouteSpec vsv (vsrSpec vsr) (newPath ''spec'') '''' ''/'' (omNamespace (vsrMeta vsr)))"

definition ValidateVirtualServerRouteForVirtualServer ::
    "VirtualServerValidator \<Rightarrow> VirtualServerRoute \<Rightarrow> string \<Rightarrow> string \<Rightarrow> string option" where
  "ValidateVirtualServerRouteForVirtualServer vsv vsr virtualServerHost vsPath =
     ToAggregate (validateVirtualServerRouteSpec vsv (vsrSpec vsr) (newPath ''spec'') virtualServerHost vsPath (omNamespace (vsrMeta vsr)))"

end
