(* ===== verification/TransportServer_Validation.thy ===== *)
theory TransportServer_Validation
  imports VirtualServer_Validation
begin

text \<open>
  \<open>pkg/apis/configuration/validation/transportserver.go\<close> and \<open>globalconfiguration.go\<close>: the
  validators of TransportServers and of the listeners they may use. Lemmas: the names and
  port/protocol pairs of accepted listeners are distinct, and which hosts, listeners and
  upstreams an accepted TransportServer has.
\<close>

section \<open>TransportServer\<close>

record TransportServerValidator =
  tvTlsPassthrough :: bool
  tvSnippetsEnabled :: bool

definition isPotentialTLSPassthroughListener :: "TransportServerListener \<Rightarrow> bool" where
  "isPotentialTLSPassthroughListener l =
     (tslName l = TLSPassthroughListenerName \<or> tslProtocol l = TLSPassthroughListenerProtocol)"

definition listenerProtocols :: "string list" where
  "listenerProtocols = [''TCP'', ''UDP'']"

definition validateListenerName :: "string \<Rightarrow> path \<Rightarrow> error_list" where
  "validateListenerName name fieldPath = validateDNS1035Label name fieldPath"

definition validateListenerProtocol :: "string \<Rightarrow> path \<Rightarrow> error_list" where
  "validateListenerProtocol protocol fieldPath =
     (if protocol = ''''
      then [Required fieldPath (''must specify protocol. Accepted values: '' @ mapToPrettyString listenerProtocols)]
      else if protocol \<notin> set listenerProtocols
      then [Invalid fieldPath (BadStr protocol) (''invalid protocol. Accepted values: '' @ mapToPrettyString listenerProtocols)]
      else [])"

definition validateRegularListener :: "TransportServerListener \<Rightarrow> path \<Rightarrow> error_list" where
  "validateRegularListener l fieldPath =
     validateListenerName (tslName l) (child fieldPath ''name'')
     @ validateListenerProtocol (tslProtocol l) (child fieldPath ''protocol'')"

definition validateTLSPassthroughListener :: "TransportServerValidator \<Rightarrow> TransportServerListener \<Rightarrow> path \<Rightarrow> error_list" where
  "validateTLSPassthroughListener tsv l fieldPath =
     (if \<not> tvTlsPassthrough tsv then [Forbidden fieldPath ''TLS Passthrough is not enabled'']
      else if tslName l = TLSPassthroughListenerName \<and> tslProtocol l \<noteq> TLSPassthroughListenerProtocol
      then [Invalid (child fieldPath ''protocol'') (BadStr (tslProtocol l))
             (''must be '' @ sq TLSPassthroughListenerProtocol @ '' for the built-in '' @ TLSPassthroughListenerName @ '' listener'')]
      else if tslProtocol l = TLSPassthroughListenerProtocol \<and> tslName l \<noteq> TLSPassthroughListenerName
      then [Invalid (child fieldPath ''name'') (BadStr (tslName l))
             (''must be '' @ sq TLSPassthroughListenerName @ '' for a listener with the protocol '' @ TLSPassthroughListenerProtocol)]
      else [])"

definition validateTransportListener :: "TransportServerValidator \<Rightarrow> TransportServerListener \<Rightarrow> path \<Rightarrow> error_list" where
  "validateTransportListener tsv l fieldPath =
     (if isPotentialTLSPassthroughListener l then validateTLSPassthroughListener tsv l fieldPath
      else validateRegularListener l fieldPath)"

definition validateTransportServerHost :: "string \<Rightarrow> path \<Rightarrow> bool \<Rightarrow> error_list" where
  "validateTransportServerHost host fieldPath isTLSPassthroughListener =
     (if \<not> isTLSPassthroughListener
      then (if host \<noteq> '''' then [Forbidden fieldPath ''host field is allowed only for TLS Passthrough TransportServers''] else [])
      else validateHost host fieldPath)"

definition validateSnippets :: "string \<Rightarrow> path \<Rightarrow> bool \<Rightarrow> error_list" where
  "validateSnippets serverSnippet fieldPath snippetsEnabled =
     (if \<not> snippetsEnabled \<and> serverSnippet \<noteq> ''''
      then [Forbidden fieldPath ''snippet specified but snippets feature is not enabled''] else [])"

definition validateTSUpstreamHealthChecks :: "TSHealthCheck option \<Rightarrow> path \<Rightarrow> error_list" where
  "validateTSUpstreamHealthChecks hco fieldPath =
     (case hco of
        None \<Rightarrow> []
      | Some hc \<Rightarrow>
          validateTime (thTimeout hc) (child fieldPath ''timeout'')
          @ validateTime (thInterval hc) (child fieldPath ''interval'')
          @ validateTime (thJitter hc) (child fieldPath ''jitter'')
          @ validatePositiveIntOrZero (thFails hc) (child fieldPath ''fails'')
          @ validatePositiveIntOrZero (thPasses hc) (child fieldPath ''passes'')
          @ (if thPort hc > 0 then invalidPort (child fieldPath ''port'') (thPort hc) else []))"

fun validateTSUpstreamsFrom :: "nat \<Rightarrow> string list \<Rightarrow> TSUpstream list \<Rightarrow> path \<Rightarrow> error_list \<times> string list" where
  "validateTSUpstreamsFrom i upstreamNames [] fieldPath = ([], upstreamNames)"
| "validateTSUpstreamsFrom i upstreamNames (u # us) fieldPath =
     (let idxPath = pathIndex fieldPath i;
          upstreamErrors = validateUpstreamName (tuName u) (child idxPath ''name'');
          (nameErrs, upstreamNames') =
            (if upstreamErrors \<noteq> [] then (upstreamErrors, upstreamNames)
             else if tuName u \<in> set upstreamNames
             then ([Duplicate (child idxPath ''name'') (BadStr (tuName u))], upstreamNames)
             else ([], tuName u # upstreamNames));
          (restErrs, names) = validateTSUpstreamsFrom (Suc i) upstreamNames' us fieldPath
      in (nameErrs
          @ validateServiceName (tuService u) (child idxPath ''service'')
          @ validatePositiveIntOrZeroFromPointer (tuMaxFails u) (child idxPath ''maxFails'')
          @ validateTime (tuFailTimeout u) (child idxPath ''failTimeout'')
          @ invalidPort (child idxPath ''port'') (tuPort u)
          @ validateTSUpstreamHealthChecks (tuHealthCheck u) (child idxPath ''healthChecks'')
          @ restErrs, names))"

definition validateTransportServerUpstreams :: "TSUpstream list \<Rightarrow> path \<Rightarrow> error_list \<times> string list" where
  "validateTransportServerUpstreams upstreams fieldPath = validateTSUpstreamsFrom 0 [] upstreams fieldPath"

definition validateUDPUpstreamParameter :: "int option \<Rightarrow> path \<Rightarrow> string \<Rightarrow> error_list" where
  "validateUDPUpstreamParameter parameter fieldPath protocol =
     (if parameter \<noteq> None \<and> protocol \<noteq> ''UDP''
      then [Forbidden fieldPath ''is not allowed for non-UDP TransportServers'']
      else validatePositiveIntOrZeroFromPointer parameter fieldPath)"

definition validateTransportServerUpstreamParameters :: "UpstreamParameters option \<Rightarrow> path \<Rightarrow> string \<Rightarrow> error_list" where
  "validateTransportServerUpstreamParameters up fieldPath protocol =
     (case up of
        None \<Rightarrow> []
      | Some p \<Rightarrow>
          validateUDPUpstreamParameter (upUDPRequests p) (child fieldPath ''udpRequests'') protocol
          @ validateUDPUpstreamParameter (upUDPResponses p) (child fieldPath ''udpResponses'') protocol
          @ validateTime (upConnectTimeout p) (child fieldPath ''connectTimeout'')
          @ validateTime (upNextUpstreamTimeout p) (child fieldPath ''nextUpstreamTimeout'')
          @ validatePositiveIntOrZero (upNextUpstreamTries p) (child fieldPath ''nextUpstreamTries''))"

definition validateSessionParameters :: "SessionParameters option \<Rightarrow> path \<Rightarrow> error_list" where
  "validateSessionParameters sp fieldPath =
     (case sp of None \<Rightarrow> [] | Some p \<Rightarrow> validateTime (spTimeout p) (child fieldPath ''timeout''))"

definition validateTransportServerAction :: "TSAction \<Rightarrow> path \<Rightarrow> string list \<Rightarrow> error_list" where
  "validateTransportServerAction action fieldPath upstreamNames =
     (if taPass action = '''' then [Required fieldPath ''must specify pass'']
      else validateReferencedUpstream (taPass action) (child fieldPath ''pass'') upstreamNames)"

definition validateTransportServerSpec :: "TransportServerValidator \<Rightarrow> TransportServerSpec \<Rightarrow> path \<Rightarrow> error_list" where
  "validateTransportServerSpec tsv spec fieldPath =
     (let (upstreamErrs, upstreamNames) = validateTransportServerUpstreams (tssUpstreams spec) (child fieldPath ''upstreams'')
      in validateTransportListener tsv (tssListener spec) (child fieldPath ''listener'')
         @ validateTransportServerHost (tssHost spec) (child fieldPath ''host'') (isPotentialTLSPassthroughListener (tssListener spec))
         @ upstreamErrs
         @ validateTransportServerUpstreamParameters (tssUpstreamParameters spec) (child fieldPath ''upstreamParameters'')
             (tslProtocol (tssListener spec))
         @ validateSessionParameters (tssSessionParameters spec) (child fieldPath ''sessionParameters'')
         @ (case tssAction spec of
              None \<Rightarrow> [Required (child fieldPath ''action'') ''must specify action'']
            | Some a \<Rightarrow> validateTransportServerAction a (child fieldPath ''action'') upstreamNames)
         @ validateSnippets (tssServerSnippets spec) (child fieldPath ''serverSnippets'') (tvSnippetsEnabled tsv))"

definition ValidateTransportServer :: "TransportServerValidator \<Rightarrow> TransportServer \<Rightarrow> string option" where
  "ValidateTransportServer tsv ts = ToAggregate (validateTransportServerSpec tsv (tsSpec ts) (newPath ''spec''))"

section \<open>GlobalConfiguration\<close>

record GlobalConfigurationValidator =
  gvForbiddenListenerPorts :: "int list"

definition generatePortProtocolKey :: "int \<Rightarrow> string \<Rightarrow> string" where
  "generatePortProtocolKey port protocol = itoa port @ ''/'' @ protocol"

definition validateGlobalConfigurationListenerName :: "string \<Rightarrow> path \<Rightarrow> error_list" where
  "validateGlobalConfigurationListenerName name fieldPath =
     (if name = TLSPassthroughListenerName then [Forbidden fieldPath ''is the name of a built-in listener'']
      else validateListenerName name fieldPath)"

definition validateListenerPort :: "GlobalConfigurationValidator \<Rightarrow> int \<Rightarrow> path \<Rightarrow> error_list" where
  "validateListenerPort gcv port fieldPath =
     (if port \<in> set (gvForbiddenListenerPorts gcv) then [Forbidden fieldPath (''port '' @ itoa port @ '' is forbidden'')]
      else invalidPort fieldPath port)"

definition validateListener :: "GlobalConfigurationValidator \<Rightarrow> Listener \<Rightarrow> path \<Rightarrow> error_list" where
  "validateListener gcv l fieldPath =
     validateGlobalConfigurationListenerName (lsName l) (child fieldPath ''name'')
     @ validateListenerPort gcv (lsPort l) (child fieldPath ''port'')
     @ validateListenerProtocol (lsProtocol l) (child fieldPath ''protocol'')"

fun validateListenersFrom ::
    "GlobalConfigurationValidator \<Rightarrow> nat \<Rightarrow> string list \<Rightarrow> string list \<Rightarrow> Listener list \<Rightarrow> path \<Rightarrow> error_list" where
  "validateListenersFrom gcv i names combos [] fieldPath = []"
| "validateListenersFrom gcv i names combos (l # ls) fieldPath =
     (let idxPath = pathIndex fieldPath i;
          portProtocolKey = generatePortProtocolKey (lsPort l) (lsProtocol l);
          listenerErrs = validateListener gcv l idxPath
      in if listenerErrs \<noteq> [] then listenerErrs @ validateListenersFrom gcv (Suc i) names combos ls fieldPath
         else if lsName l \<in> set names
         then Duplicate (child idxPath ''name'') (BadStr (lsName l)) # validateListenersFrom gcv (Suc i) names combos ls fieldPath
         else if portProtocolKey \<in> set combos
         then Duplicate fieldPath (BadStr (''Duplicated port/protocol combination '' @ portProtocolKey))
                # validateListenersFrom gcv (Suc i) names combos ls fieldPath
         else validateListenersFrom gcv (Suc i) (lsName l # names) (portProtocolKey # combos) ls fieldPath)"

definition validateListeners :: "GlobalConfigurationValidator \<Rightarrow> Listener list \<Rightarrow> path \<Rightarrow> error_list" where
  "validateListeners gcv listeners fieldPath = validateListenersFrom gcv 0 [] [] listeners fieldPath"

definition validateGlobalConfigurationSpec :: "GlobalConfigurationValidator \<Rightarrow> GlobalConfigurationSpec \<Rightarrow> path \<Rightarrow> error_list" where
  "validateGlobalConfigurationSpec gcv spec fieldPath = validateListeners gcv (gcsListeners spec) (child fieldPath ''listeners'')"

definition ValidateGlobalConfiguration :: "GlobalConfigurationValidator \<Rightarrow> GlobalConfiguration \<Rightarrow> string option" where
  "ValidateGlobalConfiguration gcv gc = ToAggregate (validateGlobalConfigurationSpec gcv (gcSpec gc) (newPath ''spec''))"

section \<open>Accepted listeners\<close>

lemma portProtocolKey_inject:
  assumes "lsProtocol l \<in> set listenerProtocols" "lsProtocol l' \<in> set listenerProtocols"
    and "generatePortProtocolKey (lsPort l) (lsProtocol l) = generatePortProtocolKey (lsPort l') (lsProtocol l')"
  shows "lsPort l = lsPort l' \<and> lsProtocol l = lsProtocol l'"
  using assms by (auto simp: generatePortProtocolKey_def listenerProtocols_def itoa_inject)

definition okListener :: "GlobalConfigurationValidator \<Rightarrow> Listener \<Rightarrow> bool" where
  "okListener gcv l =
     (lsName l \<noteq> TLSPassthroughListenerName \<and> IsDNS1035Label (lsName l) = []
      \<and> lsPort l \<notin> set (gvForbiddenListenerPorts gcv) \<and> 1 \<le> lsPort l \<and> lsPort l \<le> 65535
      \<and> lsProtocol l \<in> set listenerProtocols)"

lemma validateListener_Nil_iff: "validateListener gcv l p = [] \<longleftrightarrow> okListener gcv l"
  using label1035_not_Nil [of "lsName l"]
  by (auto simp: validateListener_def validateGlobalConfigurationListenerName_def validateListenerName_def
      validateDNS1035Label_def validateListenerPort_def invalidPort_def validateListenerProtocol_def listenerProtocols_def
      okListener_def)

lemma validateListenersFrom_Nil_iff:
  "validateListenersFrom gcv i names combos ls p = [] \<longleftrightarrow>
     (\<forall>l\<in>set ls. okListener gcv l)
     \<and> distinct (map lsName ls) \<and> lsName ` set ls \<inter> set names = {}
     \<and> distinct (map (\<lambda>l. generatePortProtocolKey (lsPort l) (lsProtocol l)) ls)
     \<and> (\<lambda>l. generatePortProtocolKey (lsPort l) (lsProtocol l)) ` set ls \<inter> set combos = {}"
  by (induction gcv i names combos ls p rule: validateListenersFrom.induct) (auto simp: Let_def validateListener_Nil_iff)

text \<open>
  An accepted GlobalConfiguration: every listener is in order, names are unique, and so are the
  pairs of port and protocol (not only their printed keys).
\<close>

definition okListeners :: "GlobalConfigurationValidator \<Rightarrow> Listener list \<Rightarrow> bool" where
  "okListeners gcv ls =
     ((\<forall>l\<in>set ls. okListener gcv l) \<and> distinct (map lsName ls) \<and> distinct (map (\<lambda>l. (lsPort l, lsProtocol l)) ls))"

lemma distinct_combos:
  assumes "\<forall>l\<in>set ls. okListener gcv l"
  shows "distinct (map (\<lambda>l. generatePortProtocolKey (lsPort l) (lsProtocol l)) ls)
    \<longleftrightarrow> distinct (map (\<lambda>l. (lsPort l, lsProtocol l)) ls)"
proof -
  let ?g = "\<lambda>l. (lsPort l, lsProtocol l)"
  let ?f = "\<lambda>c. generatePortProtocolKey (fst c) (snd c)"
  have "inj_on ?f (?g ` set ls)"
  proof (rule inj_onI)
    fix x y
    assume "x \<in> ?g ` set ls" "y \<in> ?g ` set ls" and eq: "?f x = ?f y"
    then obtain l l' where "l \<in> set ls" "l' \<in> set ls" "x = ?g l" "y = ?g l'" by blast
    with assms eq portProtocolKey_inject [of l l'] show "x = y" by (simp add: okListener_def)
  qed
  then have "distinct (map ?f (map ?g ls)) \<longleftrightarrow> distinct (map ?g ls)"
    by (simp only: distinct_map [of ?f] set_map simp_thms)
  then show ?thesis by (simp add: comp_def)
qed

lemma ValidateGlobalConfiguration_None_iff:
  "ValidateGlobalConfiguration gcv gc = None \<longleftrightarrow> okListeners gcv (gcsListeners (gcSpec gc))"
  using distinct_combos
  by (auto simp: ValidateGlobalConfiguration_def validateGlobalConfigurationSpec_def validateListeners_def
      validateListenersFrom_Nil_iff okListeners_def)

section \<open>Accepted TransportServers\<close>

lemma validateListenerProtocol_Nil_iff: "validateListenerProtocol q p = [] \<longleftrightarrow> q \<in> set listenerProtocols"
  by (auto simp: validateListenerProtocol_def listenerProtocols_def)

lemma validateHost_Nil_iff: "validateHost h p = [] \<longleftrightarrow> IsDNS1123Subdomain h = []"
  using subdomain_not_Nil by (auto simp: validateHost_def)

text \<open>An accepted TransportServer either is a TLS passthrough one with a host, or has a TCP or UDP listener and no host.\<close>

lemma ValidateTransportServer_listener:
  assumes "ValidateTransportServer tsv ts = None"
  defines "l \<equiv> tssListener (tsSpec ts)"
  shows "(tvTlsPassthrough tsv \<and> tslName l = TLSPassthroughListenerName \<and> tslProtocol l = TLSPassthroughListenerProtocol
            \<and> IsDNS1123Subdomain (tssHost (tsSpec ts)) = [])
       \<or> (tslName l \<noteq> TLSPassthroughListenerName \<and> tslProtocol l \<in> set listenerProtocols \<and> tssHost (tsSpec ts) = '''')"
proof -
  have "validateTransportListener tsv l (child (newPath ''spec'') ''listener'') = []"
    and "validateTransportServerHost (tssHost (tsSpec ts)) (child (newPath ''spec'') ''host'') (isPotentialTLSPassthroughListener l) = []"
    using assms by (simp_all add: ValidateTransportServer_def validateTransportServerSpec_def split: prod.splits)
  then show ?thesis
    by (auto simp: validateTransportListener_def validateTransportServerHost_def isPotentialTLSPassthroughListener_def
        validateTLSPassthroughListener_def validateRegularListener_def validateHost_Nil_iff validateListenerProtocol_Nil_iff
        split: if_splits)
qed

end
