(* ===== verification/Config_Hosts.thy ===== *)
theory Config_Hosts
  imports Config_Changes TransportServer_Validation
begin

text \<open>
  The third part of \<open>internal/k8s/configuration.go\<close>: the state of the Configuration, and the
  rebuild of the table of hosts from the stored Ingresses, VirtualServers, VirtualServerRoutes
  and TransportServers.

  The code builds the resources of a rebuild as objects and puts pointers to them into two maps,
  from hosts and from keys. Here the map from keys is the store of the objects, and a pointer in
  the map of hosts is the key of the object; a warning changes the object in the store. Keys
  identify the objects of one rebuild because the maps of stored objects are keyed by namespace
  and name (\<open>wfConfiguration\<close> below). A pointer outside the store, a nil pointer and an index
  out of range are \<^term>\<open>None\<close>; \<open>Config_Hosts_Lemmas\<close> shows that none of them happens.
\<close>

record Configuration =
  cHosts :: "Resource gomap"
  cListeners :: "TransportServerConfiguration gomap"
  cIngresses :: "Ingress gomap"
  cVirtualServers :: "VirtualServer gomap"
  cVirtualServerRoutes :: "VirtualServerRoute gomap"
  cTransportServers :: "TransportServer gomap"
  cGlobalConfiguration :: "GlobalConfiguration option"
  cHostProblems :: "ConfigurationProblem gomap"
  cListenerProblems :: "ConfigurationProblem gomap"
  cHasCorrectIngressClass :: "RuntimeObject \<Rightarrow> bool"
  cVirtualServerValidator :: VirtualServerValidator
  cGlobalConfigurationValidator :: GlobalConfigurationValidator
  cTransportServerValidator :: TransportServerValidator
  cIsPlus :: bool
  cAppProtectEnabled :: bool
  cInternalRoutesEnabled :: bool
  cIsTLSPassthroughEnabled :: bool

definition NewConfiguration ::
    "(RuntimeObject \<Rightarrow> bool) \<Rightarrow> bool \<Rightarrow> bool \<Rightarrow> bool \<Rightarrow> VirtualServerValidator \<Rightarrow> GlobalConfigurationValidator
       \<Rightarrow> TransportServerValidator \<Rightarrow> bool \<Rightarrow> Configuration" where
  "NewConfiguration hasCorrectIngressClass isPlus appProtectEnabled internalRoutesEnabled
     virtualServerValidator globalConfigurationValidator transportServerValidator isTLSPassthroughEnabled =
     \<lparr>cHosts = [], cListeners = [], cIngresses = [], cVirtualServers = [], cVirtualServerRoutes = [],
      cTransportServers = [], cGlobalConfiguration = None, cHostProblems = [], cListenerProblems = [],
      cHasCorrectIngressClass = hasCorrectIngressClass,
      cVirtualServerValidator = virtualServerValidator,
      cGlobalConfigurationValidator = globalConfigurationValidator,
      cTransportServerValidator = transportServerValidator,
      cIsPlus = isPlus, cAppProtectEnabled = appProtectEnabled, cInternalRoutesEnabled = internalRoutesEnabled,
      cIsTLSPassthroughEnabled = isTLSPassthroughEnabled\<rparr>"

section \<open>Minions of a master\<close>

record minionBuild =
  mbMinions :: "MinionConfiguration gomap"     \<comment> \<open>the objects, in the order they are appended\<close>
  mbChildWarnings :: "string list gomap"
  mbPaths :: "string gomap"                    \<comment> \<open>from paths to the keys of the minions holding them\<close>

definition appendTo :: "string \<Rightarrow> string \<Rightarrow> string list gomap \<Rightarrow> string list gomap" where
  "appendTo key w m = gput key ((case gget m key of None \<Rightarrow> [] | Some ws \<Rightarrow> ws) @ [w]) m"

definition setValidPath :: "string \<Rightarrow> string \<Rightarrow> bool \<Rightarrow> MinionConfiguration gomap \<Rightarrow> MinionConfiguration gomap" where
  "setValidPath key p b minions =
     (case gget minions key of
        None \<Rightarrow> minions
      | Some mc \<Rightarrow> gput key (mc\<lparr>mcValidPaths := gput p b (mcValidPaths mc)\<rparr>) minions)"

definition pathWarning :: "string \<Rightarrow> string" where
  "pathWarning p = ''path '' @ p @ '' is taken by another resource''"

definition claimPath :: "string \<Rightarrow> string \<Rightarrow> minionBuild \<Rightarrow> minionBuild option" where
  "claimPath minionKey p b =
     (case gget (mbPaths b) p of
        None \<Rightarrow> Some (b\<lparr>mbPaths := gput p minionKey (mbPaths b), mbMinions := setValidPath minionKey p True (mbMinions b)\<rparr>)
      | Some holderKey \<Rightarrow>
          (case (gget (mbMinions b) holderKey, gget (mbMinions b) minionKey) of
             (Some holder, Some minionConfig) \<Rightarrow>
               Some (if \<not> chooseObjectMetaWinner (ingMeta (mcIngress holder)) (ingMeta (mcIngress minionConfig))
                     then b\<lparr>mbPaths := gput p minionKey (mbPaths b),
                            mbMinions := setValidPath holderKey p False (setValidPath minionKey p True (mbMinions b)),
                            mbChildWarnings :=
                              appendTo (getResourceKey (ingMeta (mcIngress holder))) (pathWarning p) (mbChildWarnings b)\<rparr>
                     else b\<lparr>mbChildWarnings :=
                              appendTo (getResourceKey (ingMeta (mcIngress minionConfig))) (pathWarning p) (mbChildWarnings b)\<rparr>)
           | _ \<Rightarrow> None))"

definition addMinion :: "string \<Rightarrow> string \<times> Ingress \<Rightarrow> minionBuild \<Rightarrow> minionBuild option" where
  "addMinion masterHost entry b =
     (case entry of (minionKey, ingress) \<Rightarrow>
        if \<not> isMinion ingress then Some b
        else case isRules (ingSpec ingress) of
            [] \<Rightarrow> None
          | rule # _ \<Rightarrow>
              (if masterHost \<noteq> irHost rule then Some b
               else case irHTTP rule of
                   None \<Rightarrow> None
                 | Some http \<Rightarrow>
                     foldOpt (claimPath minionKey) (map hpPath (hrPaths http))
                       (b\<lparr>mbMinions := gput minionKey (NewMinionConfiguration ingress) (mbMinions b)\<rparr>)))"

definition buildMinionConfigs :: "Ingress gomap \<Rightarrow> string \<Rightarrow> (MinionConfiguration list \<times> string list gomap) option" where
  "buildMinionConfigs ingresses masterHost =
     map_option (\<lambda>b. (map snd (mbMinions b), mbChildWarnings b))
       (foldOpt (addMinion masterHost) (sortedEntries ingresses) \<lparr>mbMinions = [], mbChildWarnings = [], mbPaths = []\<rparr>)"

section \<open>VirtualServerRoutes of a VirtualServer\<close>

definition routeKey :: "string \<Rightarrow> string \<Rightarrow> string" where
  "routeKey namespace route = (if CHR ''/'' \<notin> set route then namespace @ ''/'' @ route else route)"

fun collectRoutes ::
    "Configuration \<Rightarrow> VirtualServer \<Rightarrow> Route list \<Rightarrow> VirtualServerRoute list \<Rightarrow> string list
       \<Rightarrow> VirtualServerRoute list \<times> string list" where
  "collectRoutes c vs [] vsrs warnings = (vsrs, warnings)"
| "collectRoutes c vs (r # rs) vsrs warnings =
     (if rtRoute r = '''' then collectRoutes c vs rs vsrs warnings
      else (let vsrKey = routeKey (omNamespace (vsMeta vs)) (rtRoute r)
            in case gget (cVirtualServerRoutes c) vsrKey of
                 None \<Rightarrow>
                   collectRoutes c vs rs vsrs (warnings @ [''VirtualServerRoute '' @ vsrKey @ '' doesn'' @ [CHR 0x27] @ ''t exist or invalid''])
               | Some vsr \<Rightarrow>
                   (case ValidateVirtualServerRouteForVirtualServer (cVirtualServerValidator c) vsr (vssHost (vsSpec vs)) (rtPath r) of
                      Some err \<Rightarrow>
                        collectRoutes c vs rs vsrs (warnings @ [''VirtualServerRoute '' @ vsrKey @ '' is invalid: '' @ err])
                    | None \<Rightarrow> collectRoutes c vs rs (vsrs @ [vsr]) warnings)))"

definition buildVirtualServerRoutes :: "Configuration \<Rightarrow> VirtualServer \<Rightarrow> VirtualServerRoute list \<times> string list" where
  "buildVirtualServerRoutes c vs = collectRoutes c vs (vssRoutes (vsSpec vs)) [] []"

section \<open>Hosts and resources\<close>

record hostBuild =
  hbHosts :: "string gomap"          \<comment> \<open>from hosts to the keys of the resources holding them\<close>
  hbResources :: "Resource gomap"    \<comment> \<open>the resources by key\<close>

definition hostWarning :: "string \<Rightarrow> string" where
  "hostWarning h = ''host '' @ h @ '' is taken by another resource''"

definition claimHost :: "string \<Rightarrow> string \<Rightarrow> hostBuild \<Rightarrow> hostBuild option" where
  "claimHost key host b =
     (case gget (hbHosts b) host of
        None \<Rightarrow> Some (b\<lparr>hbHosts := gput host key (hbHosts b)\<rparr>)
      | Some holderKey \<Rightarrow>
          (case (gget (hbResources b) holderKey, gget (hbResources b) key) of
             (Some holder, Some resource) \<Rightarrow>
               Some (if \<not> Wins holder resource
                     then b\<lparr>hbHosts := gput host key (hbHosts b),
                            hbResources := gput holderKey (AddWarning (hostWarning host) holder) (hbResources b)\<rparr>
                     else b\<lparr>hbResources := gput key (AddWarning (hostWarning host) resource) (hbResources b)\<rparr>)
           | _ \<Rightarrow> None))"

definition addResource :: "Resource \<Rightarrow> string list \<Rightarrow> hostBuild \<Rightarrow> hostBuild option" where
  "addResource resource hosts b =
     foldOpt (claimHost (GetKeyWithKind resource)) hosts
       (b\<lparr>hbResources := gput (GetKeyWithKind resource) resource (hbResources b)\<rparr>)"

definition ingressHosts :: "Ingress \<Rightarrow> string list" where
  "ingressHosts ing = map irHost (isRules (ingSpec ing))"

definition newIngressResource :: "Configuration \<Rightarrow> Ingress \<Rightarrow> IngressConfiguration option" where
  "newIngressResource c ing =
     (if isMaster ing
      then case isRules (ingSpec ing) of
             [] \<Rightarrow> None
           | rule # _ \<Rightarrow>
               map_option (\<lambda>(minions, childWarnings). NewMasterIngressConfiguration ing minions childWarnings)
                 (buildMinionConfigs (cIngresses c) (irHost rule))
      else Some (NewRegularIngressConfiguration ing))"

definition addIngress :: "Configuration \<Rightarrow> string \<times> Ingress \<Rightarrow> hostBuild \<Rightarrow> hostBuild option" where
  "addIngress c entry b =
     (case entry of (key, ing) \<Rightarrow>
        if isMinion ing then Some b
        else case newIngressResource c ing of
            None \<Rightarrow> None
          | Some resource \<Rightarrow> addResource (IngressRes resource) (ingressHosts ing) b)"

definition addVirtualServer :: "Configuration \<Rightarrow> string \<times> VirtualServer \<Rightarrow> hostBuild \<Rightarrow> hostBuild option" where
  "addVirtualServer c entry b =
     (case entry of (key, vs) \<Rightarrow>
        (let (vsrs, warnings) = buildVirtualServerRoutes c vs
         in addResource (VirtualServerRes (NewVirtualServerConfiguration vs vsrs warnings)) [vssHost (vsSpec vs)] b))"

definition addPassthroughServer :: "string \<times> TransportServer \<Rightarrow> hostBuild \<Rightarrow> hostBuild option" where
  "addPassthroughServer entry b =
     (case entry of (key, ts) \<Rightarrow>
        if tslName (tssListener (tsSpec ts)) \<noteq> TLSPassthroughListenerName
           \<and> tslProtocol (tssListener (tsSpec ts)) \<noteq> TLSPassthroughListenerProtocol
        then Some b
        else addResource (TransportServerRes (NewTransportServerConfiguration ts)) [tssHost (tsSpec ts)] b)"

definition buildHostsAndResources :: "Configuration \<Rightarrow> hostBuild option" where
  "buildHostsAndResources c =
     (case foldOpt (addIngress c) (sortedEntries (cIngresses c)) \<lparr>hbHosts = [], hbResources = []\<rparr> of
        None \<Rightarrow> None
      | Some b1 \<Rightarrow>
          (case foldOpt (addVirtualServer c) (sortedEntries (cVirtualServers c)) b1 of
             None \<Rightarrow> None
           | Some b2 \<Rightarrow>
               (if cIsTLSPassthroughEnabled c
                then foldOpt addPassthroughServer (sortedEntries (cTransportServers c)) b2
                else Some b2)))"

text \<open>
  Whose host is it: each rule's host of an Ingress is marked with whether the Ingress holds it.
  The comparison looks at keys only, so the order in which the resources are visited does not
  matter.
\<close>

definition markHost :: "string gomap \<Rightarrow> Resource gomap \<Rightarrow> string \<Rightarrow> IngressConfiguration \<Rightarrow> IngressConfiguration option" where
  "markHost hosts resources host ingConfig =
     (case gget hosts host of
        None \<Rightarrow> None
      | Some p \<Rightarrow>
          (case gget resources p of
             None \<Rightarrow> None
           | Some res \<Rightarrow>
               Some (ingConfig\<lparr>icValidHosts :=
                 gput host (GetKeyWithKind res = GetKeyWithKind (IngressRes ingConfig)) (icValidHosts ingConfig)\<rparr>)))"

definition markHosts :: "string gomap \<Rightarrow> Resource gomap \<Rightarrow> Resource \<Rightarrow> Resource option" where
  "markHosts hosts resources r =
     (case r of
        IngressRes ingConfig \<Rightarrow>
          map_option IngressRes (foldOpt (markHost hosts resources) (ingressHosts (icIngress ingConfig)) ingConfig)
      | _ \<Rightarrow> Some r)"

definition updateActiveHostsForIngresses :: "string gomap \<Rightarrow> Resource gomap \<Rightarrow> Resource gomap option" where
  "updateActiveHostsForIngresses hosts resources =
     mapOpt (\<lambda>(key, r). map_option (Pair key) (markHosts hosts resources r)) resources"

text \<open>Following the pointers of the table of hosts.\<close>

definition derefHosts :: "string gomap \<Rightarrow> Resource gomap \<Rightarrow> Resource gomap option" where
  "derefHosts hosts resources = mapOpt (\<lambda>(h, p). map_option (Pair h) (gget resources p)) hosts"

section \<open>Problems\<close>

definition warningProblem :: "RuntimeObject \<Rightarrow> string \<Rightarrow> string \<Rightarrow> ConfigurationProblem" where
  "warningProblem obj reason msg = \<lparr>cpObject = obj, cpIsError = False, cpReason = reason, cpMessage = msg\<rparr>"

definition errorProblem :: "RuntimeObject \<Rightarrow> string \<Rightarrow> ConfigurationProblem" where
  "errorProblem obj msg = \<lparr>cpObject = obj, cpIsError = True, cpReason = ''Rejected'', cpMessage = msg\<rparr>"

definition holdsHost :: "Resource gomap \<Rightarrow> string \<Rightarrow> Resource \<Rightarrow> bool option" where
  "holdsHost hosts host r =
     (case gget hosts host of None \<Rightarrow> None | Some res \<Rightarrow> Some (GetKeyWithKind res = GetKeyWithKind r))"

definition addHostProblem :: "Resource gomap \<Rightarrow> Resource \<Rightarrow> ConfigurationProblem gomap \<Rightarrow> ConfigurationProblem gomap option" where
  "addHostProblem hosts r problems =
     (case r of
        IngressRes impl \<Rightarrow>
          Some (if \<not> list_ex snd (icValidHosts impl)
                then gput (GetKeyWithKind r)
                       (warningProblem (IngressObj (icIngress impl)) ''Rejected'' ''All hosts are taken by other resources'') problems
                else problems)
      | VirtualServerRes impl \<Rightarrow>
          map_option (\<lambda>holds. if holds then problems
              else gput (GetKeyWithKind r)
                     (warningProblem (VirtualServerObj (vscVirtualServer impl)) ''Rejected'' ''Host is taken by another resource'') problems)
            (holdsHost hosts (vssHost (vsSpec (vscVirtualServer impl))) r)
      | TransportServerRes impl \<Rightarrow>
          map_option (\<lambda>holds. if holds then problems
              else gput (GetKeyWithKind r)
                     (warningProblem (TransportServerObj (tscTransportServer impl)) ''Rejected'' ''Host is taken by another resource'') problems)
            (holdsHost hosts (tssHost (tsSpec (tscTransportServer impl))) r))"

definition addProblemsForResourcesWithoutActiveHost ::
    "Resource gomap \<Rightarrow> Resource gomap \<Rightarrow> ConfigurationProblem gomap \<Rightarrow> ConfigurationProblem gomap option" where
  "addProblemsForResourcesWithoutActiveHost hosts resources problems = foldOpt (addHostProblem hosts) (map snd resources) problems"

definition orphanMinion :: "Resource gomap \<Rightarrow> string \<Rightarrow> bool" where
  "orphanMinion hosts host =
     (case gget hosts host of Some (IngressRes ingressConf) \<Rightarrow> \<not> icIsMaster ingressConf | _ \<Rightarrow> True)"

definition addMinionProblem :: "Resource gomap \<Rightarrow> string \<times> Ingress \<Rightarrow> ConfigurationProblem gomap \<Rightarrow> ConfigurationProblem gomap option" where
  "addMinionProblem hosts entry problems =
     (case entry of (key, ing) \<Rightarrow>
        if \<not> isMinion ing then Some problems
        else case isRules (ingSpec ing) of
            [] \<Rightarrow> None
          | rule # _ \<Rightarrow>
              Some (if orphanMinion hosts (irHost rule)
                    then gput (getResourceKeyWithKind ingressKind (ingMeta ing))
                           (warningProblem (IngressObj ing) ''NoIngressMasterFound''
                             (''Ingress master is invalid or doesn'' @ [CHR 0x27] @ ''t exist'')) problems
                    else problems))"

definition addProblemsForOrphanMinions ::
    "Configuration \<Rightarrow> Resource gomap \<Rightarrow> ConfigurationProblem gomap \<Rightarrow> ConfigurationProblem gomap option" where
  "addProblemsForOrphanMinions c hosts problems = foldOpt (addMinionProblem hosts) (sortedEntries (cIngresses c)) problems"

definition addVsrProblem :: "Resource gomap \<Rightarrow> string \<times> VirtualServerRoute \<Rightarrow> ConfigurationProblem gomap \<Rightarrow> ConfigurationProblem gomap" where
  "addVsrProblem hosts entry problems =
     (case entry of (key, vsr) \<Rightarrow>
        case gget hosts (vrsHost (vsrSpec vsr)) of
          Some (VirtualServerRes vsConfig) \<Rightarrow>
            (if list_ex (\<lambda>v. omNamespace (vsrMeta vsr) = omNamespace (vsrMeta v) \<and> omName (vsrMeta vsr) = omName (vsrMeta v))
                  (vscVirtualServerRoutes vsConfig)
             then problems
             else gput (getResourceKeyWithKind virtualServerRouteKind (vsrMeta vsr))
                    (warningProblem (VirtualServerRouteObj vsr) ''Ignored''
                      (''VirtualServer '' @ getResourceKey (vsMeta (vscVirtualServer vsConfig)) @ '' ignores VirtualServerRoute''))
                    problems)
        | _ \<Rightarrow>
            gput (getResourceKeyWithKind virtualServerRouteKind (vsrMeta vsr))
              (warningProblem (VirtualServerRouteObj vsr) ''NoVirtualServerFound''
                (''VirtualServer is invalid or doesn'' @ [CHR 0x27] @ ''t exist'')) problems)"

definition addProblemsForOrphanOrIgnoredVsrs ::
    "Configuration \<Rightarrow> Resource gomap \<Rightarrow> ConfigurationProblem gomap \<Rightarrow> ConfigurationProblem gomap" where
  "addProblemsForOrphanOrIgnoredVsrs c hosts problems =
     fold (addVsrProblem hosts) (sortedEntries (cVirtualServerRoutes c)) problems"

section \<open>The rebuild\<close>

definition changesForHosts :: "Resource gomap \<Rightarrow> Resource gomap \<Rightarrow> ResourceChange list option" where
  "changesForHosts oldHosts newHosts =
     (case detectChangesInHosts oldHosts newHosts of
        (removed, updated, added) \<Rightarrow> createResourceChangesForHosts removed updated added oldHosts newHosts)"

definition hostProblemsOf :: "Configuration \<Rightarrow> Resource gomap \<Rightarrow> Resource gomap \<Rightarrow> ConfigurationProblem gomap option" where
  "hostProblemsOf c hosts resources =
     (case addProblemsForResourcesWithoutActiveHost hosts resources [] of
        None \<Rightarrow> None
      | Some p1 \<Rightarrow> map_option (addProblemsForOrphanOrIgnoredVsrs c hosts) (addProblemsForOrphanMinions c hosts p1))"

definition buildHosts :: "Configuration \<Rightarrow> (Resource gomap \<times> Resource gomap) option" where
  "buildHosts c =
     (case buildHostsAndResources c of
        None \<Rightarrow> None
      | Some b \<Rightarrow>
          (case updateActiveHostsForIngresses (hbHosts b) (hbResources b) of
             None \<Rightarrow> None
           | Some newResources \<Rightarrow> map_option (\<lambda>newHosts. (newHosts, newResources)) (derefHosts (hbHosts b) newResources)))"

definition rebuildHosts :: "Configuration \<Rightarrow> (Configuration \<times> ResourceChange list \<times> ConfigurationProblem list) option" where
  "rebuildHosts c =
     (case buildHosts c of
        None \<Rightarrow> None
      | Some (newHosts, newResources) \<Rightarrow>
          (case changesForHosts (cHosts c) newHosts of
             None \<Rightarrow> None
           | Some changes \<Rightarrow>
               (case hostProblemsOf c newHosts newResources of
                  None \<Rightarrow> None
                | Some newProblems \<Rightarrow>
                    Some (c\<lparr>cHosts := newHosts, cHostProblems := newProblems\<rparr>,
                          referToLatest newResources (squashResourceChanges changes),
                          detectChangesInProblems newProblems (cHostProblems c)))))"

end
