(* ===== verification/Config_Hosts_Lemmas.thy ===== *)
theory Config_Hosts_Lemmas
  imports Config_Hosts
begin

text \<open>
  What a rebuild of the hosts establishes: it does not panic on a well-formed Configuration, a
  host is held exactly when somebody claims it, by a claimant no other claimant beats, the
  resources know which of their hosts they hold, and the table of hosts is coherent.
\<close>

section \<open>Well-formed configurations\<close>

definition keyedBy :: "('v \<Rightarrow> ObjectMeta) \<Rightarrow> 'v gomap \<Rightarrow> bool" where
  "keyedBy metaOf m = (wf_gomap m \<and> (\<forall>k v. gget m k = Some v \<longrightarrow> getResourceKey (metaOf v) = k))"

lemma keyedBy_gput [wf_intros]: "keyedBy f m \<Longrightarrow> getResourceKey (f v) = k \<Longrightarrow> keyedBy f (gput k v m)"
  by (auto simp: keyedBy_def)

lemma keyedBy_gdel [wf_intros]: "keyedBy f m \<Longrightarrow> keyedBy f (gdel k m)"
  by (auto simp: keyedBy_def)

lemma keyedBy_Nil [simp]: "keyedBy f []"
  by (simp add: keyedBy_def)

lemma keyedBy_entry: "keyedBy f m \<Longrightarrow> (k, v) \<in> set m \<Longrightarrow> k = getResourceKey (f v)"
  by (auto simp: keyedBy_def wf_gomap_in_set)

definition wfObjects :: "Configuration \<Rightarrow> bool" where
  "wfObjects c =
     (keyedBy ingMeta (cIngresses c) \<and> (\<forall>k ing. gget (cIngresses c) k = Some ing \<longrightarrow> okIngress ing)
      \<and> keyedBy vsMeta (cVirtualServers c)
      \<and> keyedBy vsrMeta (cVirtualServerRoutes c)
      \<and> keyedBy tsMeta (cTransportServers c))"

lemma okIngress_rules: "okIngress ing \<Longrightarrow> \<exists>r rs. isRules (ingSpec ing) = r # rs"
  by (cases "isRules (ingSpec ing)") (auto simp: okIngress_def)

lemma okIngress_minion: "okIngress ing \<Longrightarrow> isMinion ing \<Longrightarrow> \<exists>r http. isRules (ingSpec ing) = [r] \<and> irHTTP r = Some http \<and> hrPaths http \<noteq> []"
  using rulePaths_not_Nil by (fastforce simp: okIngress_def)

section \<open>Minions: no panic\<close>

definition minionsOk :: "string set \<Rightarrow> minionBuild \<Rightarrow> bool" where
  "minionsOk P b =
     (gkeys (mbMinions b) \<subseteq> P \<and> (\<forall>p k. gget (mbPaths b) p = Some k \<longrightarrow> k \<in> gkeys (mbMinions b)))"

lemma gkeys_setValidPath [simp]: "gkeys (setValidPath k p b m) = gkeys m"
  by (auto simp: setValidPath_def dest: gget_in_keys split: option.splits)

lemma claimPath_total:
  assumes "minionsOk P b" and "key \<in> gkeys (mbMinions b)"
  shows "\<exists>b'. claimPath key p b = Some b' \<and> minionsOk P b' \<and> gkeys (mbMinions b') = gkeys (mbMinions b)"
proof (cases "gget (mbPaths b) p")
  case None
  then show ?thesis using assms by (auto simp: claimPath_def minionsOk_def split: if_splits)
next
  case (Some holderKey)
  then obtain h m where "gget (mbMinions b) holderKey = Some h" "gget (mbMinions b) key = Some m"
    using assms by (metis in_keys_gget minionsOk_def)
  then show ?thesis using Some assms by (auto simp: claimPath_def minionsOk_def split: if_splits)
qed

lemma claimPaths_total:
  assumes "minionsOk P b" and "key \<in> gkeys (mbMinions b)"
  shows "\<exists>b'. foldOpt (claimPath key) ps b = Some b' \<and> minionsOk P b' \<and> gkeys (mbMinions b') = gkeys (mbMinions b)"
  using foldOpt_total [where f = "claimPath key" and xs = ps and s = b
      and P = "\<lambda>b'. minionsOk P b' \<and> gkeys (mbMinions b') = gkeys (mbMinions b)"]
    claimPath_total assms by metis

lemma addMinion_total:
  assumes "isMinion ing \<longrightarrow> okIngress ing" and "minionsOk P b"
  shows "\<exists>b'. addMinion host (key, ing) b = Some b' \<and> minionsOk (insert key P) b'"
proof (cases "isMinion ing")
  case True
  then obtain r http where r: "isRules (ingSpec ing) = [r]" "irHTTP r = Some http"
    using assms(1) okIngress_minion by blast
  let ?b = "b\<lparr>mbMinions := gput key (NewMinionConfiguration ing) (mbMinions b)\<rparr>"
  have "minionsOk (insert key P) ?b" using assms(2) by (auto simp: minionsOk_def)
  with claimPaths_total [of "insert key P" ?b key "map hpPath (hrPaths http)"] True r assms(2)
  show ?thesis by (auto simp: addMinion_def minionsOk_def)
qed (use assms in \<open>auto simp: addMinion_def minionsOk_def\<close>)

lemma buildMinionConfigs_total:
  assumes "\<And>k ing. (k, ing) \<in> set ingresses \<Longrightarrow> okIngress ing"
  shows "\<exists>res. buildMinionConfigs ingresses host = Some res"
proof -
  have "\<exists>b'. foldOpt (addMinion host) (sortedEntries ingresses) \<lparr>mbMinions = [], mbChildWarnings = [], mbPaths = []\<rparr> = Some b'
      \<and> minionsOk UNIV b'"
  proof (rule foldOpt_total)
    fix e b
    assume "e \<in> set (sortedEntries ingresses)" "minionsOk UNIV b"
    then show "\<exists>b'. addMinion host e b = Some b' \<and> minionsOk UNIV b'"
      using addMinion_total [of "snd e" UNIV b host "fst e"] assms by (metis insert_UNIV prod.collapse set_sortedEntries)
  qed (simp add: minionsOk_def)
  then show ?thesis by (auto simp: buildMinionConfigs_def)
qed

section \<open>The contest for the hosts\<close>

text \<open>A claim: a host, the key of the claimant and its metadata.\<close>

type_synonym claim = "string \<times> string \<times> ObjectMeta"

definition claims :: "Resource \<Rightarrow> string list \<Rightarrow> claim set" where
  "claims r hosts = (\<lambda>h. (h, GetKeyWithKind r, GetObjectMeta r)) ` set hosts"

fun resourceHosts :: "Resource \<Rightarrow> string list" where
  "resourceHosts (IngressRes ic) = ingressHosts (icIngress ic)"
| "resourceHosts (VirtualServerRes vsc) = [vssHost (vsSpec (vscVirtualServer vsc))]"
| "resourceHosts (TransportServerRes tsc) = [tssHost (tsSpec (tscTransportServer tsc))]"

lemma resourceHosts_AddWarning [simp]: "resourceHosts (AddWarning w r) = resourceHosts r"
  by (cases r) simp_all

text \<open>Every rule of the new Ingress objects is still unmarked.\<close>

fun unmarked :: "Resource \<Rightarrow> bool" where
  "unmarked (IngressRes ic) = (icValidHosts ic = [])"
| "unmarked _ = True"

lemma unmarked_AddWarning [simp]: "unmarked (AddWarning w r) = unmarked r"
  by (cases r) simp_all

definition storeOk :: "string set \<Rightarrow> claim set \<Rightarrow> hostBuild \<Rightarrow> bool" where
  "storeOk P C b =
     (wf_gomap (hbHosts b) \<and> wf_gomap (hbResources b) \<and> gkeys (hbResources b) \<subseteq> P
      \<and> (\<forall>k r. gget (hbResources b) k = Some r \<longrightarrow> GetKeyWithKind r = k \<and> unmarked r)
      \<and> (\<forall>h k m. (h, k, m) \<in> C \<longrightarrow>
           (\<exists>r. gget (hbResources b) k = Some r \<and> GetObjectMeta r = m \<and> h \<in> set (resourceHosts r))))"

abbreviation contested :: "claim set \<Rightarrow> string gomap \<Rightarrow> bool" where
  "contested \<equiv> heldBy chooseObjectMetaWinner"

lemma storeOkD:
  assumes "storeOk P C b"
  shows "gget (hbResources b) k = Some r \<Longrightarrow> GetKeyWithKind r = k \<and> unmarked r"
    and "(h, k, m) \<in> C \<Longrightarrow> \<exists>r. gget (hbResources b) k = Some r \<and> GetObjectMeta r = m \<and> h \<in> set (resourceHosts r)"
    and "wf_gomap (hbHosts b)" and "wf_gomap (hbResources b)" and "gkeys (hbResources b) \<subseteq> P"
  using assms unfolding storeOk_def by blast+

lemma storeOk_hosts: "storeOk P C b \<Longrightarrow> storeOk P C (b\<lparr>hbHosts := gput host key (hbHosts b)\<rparr>)"
  by (simp add: storeOk_def)

lemma storeOk_claim:
  "storeOk P C b \<Longrightarrow> gget (hbResources b) key = Some r \<Longrightarrow> host \<in> set (resourceHosts r)
     \<Longrightarrow> storeOk P (insert (host, key, GetObjectMeta r) C) b"
  by (simp add: storeOk_def)

lemma storeOk_warning:
  assumes "storeOk P C b" and r: "gget (hbResources b) k = Some r"
  shows "storeOk P C (b\<lparr>hbResources := gput k (AddWarning w r) (hbResources b)\<rparr>)"
proof -
  have "k \<in> P" using storeOkD(5) [OF assms(1)] gget_in_keys [OF r] by blast
  moreover have "\<exists>r'. gget (gput k (AddWarning w r) (hbResources b)) k' = Some r' \<and> GetObjectMeta r' = m \<and> h \<in> set (resourceHosts r')"
    if "(h, k', m) \<in> C" for h k' m
    using storeOkD(2) [OF assms(1) that] r by auto
  ultimately show ?thesis
    using storeOkD(1) [OF assms(1)] storeOkD(3-5) [OF assms(1)] r
    unfolding storeOk_def by simp
qed

lemma claimHost_contest:
  assumes ok: "storeOk P C b" and con: "contested C (hbHosts b)"
    and r: "gget (hbResources b) key = Some r" and h: "host \<in> set (resourceHosts r)"
  shows "\<exists>b'. claimHost key host b = Some b'
      \<and> storeOk P (insert (host, key, GetObjectMeta r) C) b' \<and> contested (insert (host, key, GetObjectMeta r) C) (hbHosts b')
      \<and> (\<exists>r'. gget (hbResources b') key = Some r' \<and> GetObjectMeta r' = GetObjectMeta r \<and> resourceHosts r' = resourceHosts r)"
proof (cases "gget (hbHosts b) host")
  case None
  have "(host, k, m) \<notin> C" for k m using heldByD(2) [OF con] None by blast
  then have "contested (insert (host, key, GetObjectMeta r) C) (gput host key (hbHosts b))"
    using meta_contest.held_take [OF con] by blast
  moreover have "storeOk P (insert (host, key, GetObjectMeta r) C) (b\<lparr>hbHosts := gput host key (hbHosts b)\<rparr>)"
    by (rule storeOk_hosts) (rule storeOk_claim [OF ok r h])
  ultimately show ?thesis using None r by (auto simp: claimHost_def)
next
  case (Some holderKey)
  then obtain hm where hm: "(host, holderKey, hm) \<in> C"
      "\<And>k' m'. (host, k', m') \<in> C \<Longrightarrow> \<not> chooseObjectMetaWinner m' hm"
    using heldByD(1) [OF con] by blast
  then obtain holder where holder: "gget (hbResources b) holderKey = Some holder" "GetObjectMeta holder = hm"
    using storeOkD(2) [OF ok] by blast
  note ok' = storeOk_claim [OF ok r h]
  show ?thesis
  proof (cases "Wins holder r")
    case True
    have "\<not> chooseObjectMetaWinner (GetObjectMeta r) hm'" if "(host, holderKey, hm') \<in> C" for hm'
      using True that storeOkD(2) [OF ok that] holder winner_asym by (auto simp: Wins_def)
    then have "contested (insert (host, key, GetObjectMeta r) C) (hbHosts b)"
      using meta_contest.held_keep [OF con Some] by blast
    with storeOk_warning [OF ok' r] show ?thesis using Some holder r True by (auto simp: claimHost_def)
  next
    case False
    then have "\<not> chooseObjectMetaWinner m' (GetObjectMeta r)" if "(host, k', m') \<in> C" for k' m'
      using hm(2) [OF that] holder(2) winner_negatively_transitive by (auto simp: Wins_def)
    then have "contested (insert (host, key, GetObjectMeta r) C) (gput host key (hbHosts b))"
      using meta_contest.held_take [OF con] by blast
    moreover have "storeOk P (insert (host, key, GetObjectMeta r) C)
        (b\<lparr>hbHosts := gput host key (hbHosts b), hbResources := gput holderKey (AddWarning (hostWarning host) holder) (hbResources b)\<rparr>)"
      using storeOk_warning [OF storeOk_hosts [OF ok']] holder(1) by simp
    ultimately show ?thesis using Some holder r False by (auto simp: claimHost_def)
  qed
qed

section \<open>All resources of a rebuild\<close>

text \<open>A resource without its warnings, which are all a contest changes.\<close>

fun noWarnings :: "Resource \<Rightarrow> Resource" where
  "noWarnings (IngressRes ic) = IngressRes (ic\<lparr>icWarnings := []\<rparr>)"
| "noWarnings (VirtualServerRes vsc) = VirtualServerRes (vsc\<lparr>vscWarnings := []\<rparr>)"
| "noWarnings (TransportServerRes tsc) = TransportServerRes (tsc\<lparr>tscWarnings := []\<rparr>)"

lemma noWarnings_simps [simp]:
  "noWarnings (AddWarning w r) = noWarnings r" "noWarnings (noWarnings r) = noWarnings r"
  "GetKeyWithKind (noWarnings r) = GetKeyWithKind r" "GetObjectMeta (noWarnings r) = GetObjectMeta r"
  "resourceHosts (noWarnings r) = resourceHosts r" "unmarked (noWarnings r) = unmarked r"
  "resourceKind (noWarnings r) = resourceKind r"
  by (cases r; simp)+

definition profile :: "hostBuild \<Rightarrow> string \<Rightarrow> Resource option" where
  "profile b k = map_option noWarnings (gget (hbResources b) k)"

lemma claimHost_profile: "claimHost key host b = Some b' \<Longrightarrow> profile b' = profile b"
  by (rule ext) (auto simp: claimHost_def profile_def split: option.splits if_splits)

definition claimsOf :: "Resource set \<Rightarrow> claim set" where
  "claimsOf B = (\<Union>r\<in>B. claims r (resourceHosts r))"

lemma claimsOf_insert: "claimsOf (insert r B) = claimsOf B \<union> claims r (resourceHosts r)"
  by (auto simp: claimsOf_def)

lemma claims_noWarnings [simp]: "claims (noWarnings r) hs = claims r hs"
  by (simp add: claims_def)

lemma claimHosts_contest:
  assumes "storeOk P C b" and "contested C (hbHosts b)" and "gget (hbResources b) key = Some r"
    and "set hosts \<subseteq> set (resourceHosts r)" and "GetKeyWithKind r = key"
  shows "\<exists>b'. foldOpt (claimHost key) hosts b = Some b'
      \<and> storeOk P (C \<union> claims r hosts) b' \<and> contested (C \<union> claims r hosts) (hbHosts b') \<and> profile b' = profile b"
  using assms
proof (induction hosts arbitrary: b C r)
  case Nil
  then show ?case by (simp add: claims_def)
next
  case (Cons h hosts)
  obtain b1 r1 where b1: "claimHost key h b = Some b1"
      "storeOk P (insert (h, key, GetObjectMeta r) C) b1" "contested (insert (h, key, GetObjectMeta r) C) (hbHosts b1)"
      "gget (hbResources b1) key = Some r1" "GetObjectMeta r1 = GetObjectMeta r" "resourceHosts r1 = resourceHosts r"
    using claimHost_contest [OF Cons.prems(1-3), of h] Cons.prems(4) by auto
  have key: "GetKeyWithKind r1 = key" using storeOkD(1) [OF b1(2,4)] by simp
  obtain b2 where b2: "foldOpt (claimHost key) hosts b1 = Some b2"
      "storeOk P (insert (h, key, GetObjectMeta r) C \<union> claims r1 hosts) b2"
      "contested (insert (h, key, GetObjectMeta r) C \<union> claims r1 hosts) (hbHosts b2)" "profile b2 = profile b1"
    using Cons.IH [OF b1(2,3,4)] Cons.prems(4) b1(6) key by auto
  have "insert (h, key, GetObjectMeta r) C \<union> claims r1 hosts = C \<union> claims r (h # hosts)"
    using key Cons.prems(5) b1(5) by (auto simp: claims_def)
  with b1(1) b2 claimHost_profile [OF b1(1)] show ?case by simp
qed

definition hostInv :: "string set \<Rightarrow> Resource set \<Rightarrow> hostBuild \<Rightarrow> bool" where
  "hostInv P B b =
     (storeOk P (claimsOf B) b \<and> contested (claimsOf B) (hbHosts b) \<and> (\<forall>k x. profile b k = Some x \<longleftrightarrow> x \<in> B \<and> GetKeyWithKind x = k))"

lemma hostInv_init: "hostInv {} {} \<lparr>hbHosts = [], hbResources = []\<rparr>"
  by (simp add: hostInv_def storeOk_def claimsOf_def profile_def)

lemma addResource_step:
  assumes inv: "hostInv P B b" and fresh: "GetKeyWithKind r \<notin> P" and new: "unmarked r"
  shows "\<exists>b'. addResource r (resourceHosts r) b = Some b' \<and> hostInv (insert (GetKeyWithKind r) P) (insert (noWarnings r) B) b'"
proof -
  let ?k = "GetKeyWithKind r"
  let ?b = "b\<lparr>hbResources := gput ?k r (hbResources b)\<rparr>"
  have ok: "storeOk P (claimsOf B) b" and con: "contested (claimsOf B) (hbHosts b)"
    and prof: "\<And>k x. profile b k = Some x \<longleftrightarrow> x \<in> B \<and> GetKeyWithKind x = k"
    using inv by (auto simp: hostInv_def)
  have nokey: "gget (hbResources b) ?k = None"
    using storeOkD(5) [OF ok] fresh by (auto simp: gget_None_iff)
  have "\<exists>r'. gget (hbResources ?b) k = Some r' \<and> GetObjectMeta r' = m \<and> h \<in> set (resourceHosts r')"
    if "(h, k, m) \<in> claimsOf B" for h k m
    using storeOkD(2) [OF ok that] nokey by auto
  then have "storeOk (insert ?k P) (claimsOf B) ?b"
    using storeOkD(1) [OF ok] storeOkD(3-5) [OF ok] new unfolding storeOk_def by (simp, blast)
  moreover have "contested (claimsOf B) (hbHosts ?b)" using con by simp
  ultimately obtain b' where b': "foldOpt (claimHost ?k) (resourceHosts r) ?b = Some b'"
      "storeOk (insert ?k P) (claimsOf B \<union> claims r (resourceHosts r)) b'"
      "contested (claimsOf B \<union> claims r (resourceHosts r)) (hbHosts b')" "profile b' = profile ?b"
    using claimHosts_contest [of "insert ?k P" "claimsOf B" ?b ?k r "resourceHosts r"] by auto
  have "GetKeyWithKind x \<noteq> ?k" if "x \<in> B" for x
    using prof [of ?k x] nokey that by (auto simp: profile_def)
  then have "profile ?b k = Some x \<longleftrightarrow> x \<in> insert (noWarnings r) B \<and> GetKeyWithKind x = k" for k x
    using prof [of k x] by (auto simp: profile_def)
  with b' show ?thesis
    unfolding hostInv_def claimsOf_insert by (auto simp: addResource_def)
qed

text \<open>The resources an entry of the stored objects gives rise to (at most one).\<close>

definition ingressResources :: "Configuration \<Rightarrow> string \<times> Ingress \<Rightarrow> Resource set" where
  "ingressResources c entry =
     (if isMinion (snd entry) then {}
      else case newIngressResource c (snd entry) of None \<Rightarrow> {} | Some ic \<Rightarrow> {noWarnings (IngressRes ic)})"

definition virtualServerResource :: "Configuration \<Rightarrow> VirtualServer \<Rightarrow> Resource" where
  "virtualServerResource c vs =
     VirtualServerRes (NewVirtualServerConfiguration vs (fst (buildVirtualServerRoutes c vs)) (snd (buildVirtualServerRoutes c vs)))"

definition isPassthroughServer :: "TransportServer \<Rightarrow> bool" where
  "isPassthroughServer ts =
     (tslName (tssListener (tsSpec ts)) = TLSPassthroughListenerName
      \<or> tslProtocol (tssListener (tsSpec ts)) = TLSPassthroughListenerProtocol)"

definition passthroughResources :: "string \<times> TransportServer \<Rightarrow> Resource set" where
  "passthroughResources entry =
     (if isPassthroughServer (snd entry) then {TransportServerRes (NewTransportServerConfiguration (snd entry))} else {})"

definition resourcesOf :: "Configuration \<Rightarrow> Resource set" where
  "resourcesOf c =
     (\<Union>e\<in>set (cIngresses c). ingressResources c e)
     \<union> (\<Union>e\<in>set (cVirtualServers c). {noWarnings (virtualServerResource c (snd e))})
     \<union> (if cIsTLSPassthroughEnabled c then (\<Union>e\<in>set (cTransportServers c). passthroughResources e) else {})"

lemma hostInv_mono: "hostInv P B b \<Longrightarrow> hostInv (insert k P) B b"
  by (auto simp: hostInv_def storeOk_def)

lemma newIngressResource_total:
  assumes "wfObjects c" and "okIngress ing"
  shows "\<exists>ic. newIngressResource c ing = Some ic \<and> icIngress ic = ing \<and> icValidHosts ic = [] \<and> icIsMaster ic = isMaster ing"
proof -
  have ok: "\<And>k i. (k, i) \<in> set (cIngresses c) \<Longrightarrow> okIngress i"
    using assms(1) wf_gomap_in_set by (fastforce simp: wfObjects_def keyedBy_def)
  obtain r rs where "isRules (ingSpec ing) = r # rs" using okIngress_rules [OF assms(2)] by blast
  moreover have "\<exists>res. buildMinionConfigs (cIngresses c) (irHost r) = Some res"
    by (rule buildMinionConfigs_total) (rule ok)
  ultimately show ?thesis
    by (auto simp: newIngressResource_def NewMasterIngressConfiguration_def NewRegularIngressConfiguration_def
        split: prod.splits)
qed

lemma addIngress_step:
  assumes "wfObjects c" and "e \<in> set (cIngresses c)" and inv: "hostInv P B b"
    and fresh: "getResourceKeyWithKind ingressKind (ingMeta (snd e)) \<notin> P"
  shows "\<exists>b'. addIngress c e b = Some b'
      \<and> hostInv (insert (getResourceKeyWithKind ingressKind (ingMeta (snd e))) P) (B \<union> ingressResources c e) b'"
proof (cases "isMinion (snd e)")
  case True
  then show ?thesis
    using hostInv_mono [OF inv] by (auto simp: addIngress_def ingressResources_def split: prod.splits)
next
  case False
  have "okIngress (snd e)"
    using assms(1,2) wf_gomap_in_set by (cases e) (fastforce simp: wfObjects_def keyedBy_def)
  then obtain ic where ic: "newIngressResource c (snd e) = Some ic" "icIngress ic = snd e" "icValidHosts ic = []"
    using newIngressResource_total [OF assms(1)] by blast
  have key: "GetKeyWithKind (IngressRes ic) = getResourceKeyWithKind ingressKind (ingMeta (snd e))"
    using ic(2) by (simp add: keyWithKind_key)
  have "\<exists>b'. addResource (IngressRes ic) (resourceHosts (IngressRes ic)) b = Some b'
      \<and> hostInv (insert (GetKeyWithKind (IngressRes ic)) P) (insert (noWarnings (IngressRes ic)) B) b'"
    by (rule addResource_step [OF inv]) (use fresh key ic in simp_all)
  with False ic key show ?thesis
    by (auto simp: addIngress_def ingressResources_def split: prod.splits)
qed

lemma addVirtualServer_step:
  assumes inv: "hostInv P B b"
    and fresh: "getResourceKeyWithKind virtualServerKind (vsMeta (snd e)) \<notin> P"
  shows "\<exists>b'. addVirtualServer c e b = Some b'
      \<and> hostInv (insert (getResourceKeyWithKind virtualServerKind (vsMeta (snd e))) P)
          (B \<union> {noWarnings (virtualServerResource c (snd e))}) b'"
proof -
  let ?r = "virtualServerResource c (snd e)"
  have key: "GetKeyWithKind ?r = getResourceKeyWithKind virtualServerKind (vsMeta (snd e))"
    by (simp add: virtualServerResource_def NewVirtualServerConfiguration_def keyWithKind_key)
  have "\<exists>b'. addResource ?r (resourceHosts ?r) b = Some b'
      \<and> hostInv (insert (GetKeyWithKind ?r) P) (insert (noWarnings ?r) B) b'"
    by (rule addResource_step [OF inv]) (use fresh key in \<open>simp_all add: virtualServerResource_def\<close>)
  then show ?thesis
    unfolding key
    by (auto simp: addVirtualServer_def virtualServerResource_def NewVirtualServerConfiguration_def split: prod.splits)
qed

lemma addPassthroughServer_step:
  assumes inv: "hostInv P B b"
    and fresh: "getResourceKeyWithKind transportServerKind (tsMeta (snd e)) \<notin> P"
  shows "\<exists>b'. addPassthroughServer e b = Some b'
      \<and> hostInv (insert (getResourceKeyWithKind transportServerKind (tsMeta (snd e))) P) (B \<union> passthroughResources e) b'"
proof (cases "isPassthroughServer (snd e)")
  case False
  then show ?thesis
    using hostInv_mono [OF inv]
    by (auto simp: addPassthroughServer_def passthroughResources_def isPassthroughServer_def split: prod.splits)
next
  case True
  let ?r = "TransportServerRes (NewTransportServerConfiguration (snd e))"
  have key: "GetKeyWithKind ?r = getResourceKeyWithKind transportServerKind (tsMeta (snd e))"
    and nw: "noWarnings ?r = ?r"
    by (simp_all add: NewTransportServerConfiguration_def keyWithKind_key)
  have "\<exists>b'. addResource ?r (resourceHosts ?r) b = Some b'
      \<and> hostInv (insert (GetKeyWithKind ?r) P) (insert (noWarnings ?r) B) b'"
    by (rule addResource_step [OF inv]) (use fresh key in simp_all)
  with True show ?thesis
    unfolding key nw
    by (auto simp: addPassthroughServer_def passthroughResources_def isPassthroughServer_def
        NewTransportServerConfiguration_def split: prod.splits)
qed

lemma distinct_entry_keys:
  assumes "keyedBy f m"
  shows "distinct (map (\<lambda>e. getResourceKeyWithKind kind (f (snd e))) (sortedEntries m))"
proof -
  have "map (\<lambda>e. getResourceKeyWithKind kind (f (snd e))) (sortedEntries m)
      = map (\<lambda>k. kind @ ''/'' @ k) (map fst (sortedEntries m))"
    using keyedBy_entry [OF assms] by (auto simp: keyWithKind_key)
  moreover have "distinct (map fst (sortedEntries m))"
    using assms by (simp add: keyedBy_def distinct_sortedEntries)
  ultimately show ?thesis by (simp add: distinct_map inj_on_def)
qed

lemma kinds_differ:
  "getResourceKeyWithKind ingressKind m \<noteq> getResourceKeyWithKind virtualServerKind m'"
  "getResourceKeyWithKind ingressKind m \<noteq> getResourceKeyWithKind transportServerKind m'"
  "getResourceKeyWithKind virtualServerKind m \<noteq> getResourceKeyWithKind transportServerKind m'"
  by (simp_all add: getResourceKeyWithKind_def kind_defs)

theorem buildHostsAndResources_inv:
  assumes wf: "wfObjects c"
  shows "\<exists>b P. buildHostsAndResources c = Some b \<and> hostInv P (resourcesOf c) b"
proof -
  let ?ki = "\<lambda>e :: string \<times> Ingress. getResourceKeyWithKind ingressKind (ingMeta (snd e))"
  let ?kv = "\<lambda>e :: string \<times> VirtualServer. getResourceKeyWithKind virtualServerKind (vsMeta (snd e))"
  let ?kt = "\<lambda>e :: string \<times> TransportServer. getResourceKeyWithKind transportServerKind (tsMeta (snd e))"
  let ?B1 = "\<Union>e\<in>set (cIngresses c). ingressResources c e"
  let ?B2 = "?B1 \<union> (\<Union>e\<in>set (cVirtualServers c). {noWarnings (virtualServerResource c (snd e))})"
  have keyed: "keyedBy ingMeta (cIngresses c)" "keyedBy vsMeta (cVirtualServers c)" "keyedBy tsMeta (cTransportServers c)"
    using wf by (simp_all add: wfObjects_def)
  have "\<exists>b1. foldOpt (addIngress c) (sortedEntries (cIngresses c)) \<lparr>hbHosts = [], hbResources = []\<rparr> = Some b1
      \<and> hostInv ({} \<union> ?ki ` set (sortedEntries (cIngresses c))) ({} \<union> (\<Union>e\<in>set (sortedEntries (cIngresses c)). ingressResources c e)) b1"
    by (rule foldOpt_collect [where I = hostInv and kf = ?ki])
      (use addIngress_step [OF wf] distinct_entry_keys [OF keyed(1)] hostInv_init in auto)
  then obtain b1 where b1: "foldOpt (addIngress c) (sortedEntries (cIngresses c)) \<lparr>hbHosts = [], hbResources = []\<rparr> = Some b1"
      "hostInv (?ki ` set (cIngresses c)) ?B1 b1"
    by auto
  have "\<exists>b2. foldOpt (addVirtualServer c) (sortedEntries (cVirtualServers c)) b1 = Some b2
      \<and> hostInv (?ki ` set (cIngresses c) \<union> ?kv ` set (sortedEntries (cVirtualServers c)))
          (?B1 \<union> (\<Union>e\<in>set (sortedEntries (cVirtualServers c)). {noWarnings (virtualServerResource c (snd e))})) b2"
    by (rule foldOpt_collect [where I = hostInv and kf = ?kv])
      (use addVirtualServer_step distinct_entry_keys [OF keyed(2)] b1(2) kinds_differ(1) in \<open>auto simp: eq_commute\<close>)
  then obtain b2 where b2: "foldOpt (addVirtualServer c) (sortedEntries (cVirtualServers c)) b1 = Some b2"
      "hostInv (?ki ` set (cIngresses c) \<union> ?kv ` set (cVirtualServers c)) ?B2 b2"
    by auto
  show ?thesis
  proof (cases "cIsTLSPassthroughEnabled c")
    case False
    then show ?thesis using b1 b2 by (auto simp: buildHostsAndResources_def resourcesOf_def)
  next
    case True
    have "\<exists>b3. foldOpt addPassthroughServer (sortedEntries (cTransportServers c)) b2 = Some b3
        \<and> hostInv ((?ki ` set (cIngresses c) \<union> ?kv ` set (cVirtualServers c)) \<union> ?kt ` set (sortedEntries (cTransportServers c)))
            (?B2 \<union> (\<Union>e\<in>set (sortedEntries (cTransportServers c)). passthroughResources e)) b3"
      by (rule foldOpt_collect [where I = hostInv and kf = ?kt])
        (use addPassthroughServer_step distinct_entry_keys [OF keyed(3)] b2(2) kinds_differ(2,3) in \<open>auto simp: eq_commute\<close>)
    then show ?thesis using True b1 b2 by (auto simp: buildHostsAndResources_def resourcesOf_def)
  qed
qed

section \<open>Marking the hosts of the Ingresses\<close>

text \<open>What a resource looks like once its hosts are marked.\<close>

definition marked :: "string gomap \<Rightarrow> Resource \<Rightarrow> Resource \<Rightarrow> bool" where
  "marked hosts r r' =
     (case r of
        IngressRes ic \<Rightarrow>
          (\<exists>v. r' = IngressRes (ic\<lparr>icValidHosts := v\<rparr>) \<and> wf_gomap v
            \<and> (\<forall>h. gget v h = (if h \<in> set (resourceHosts r) then Some (gget hosts h = Some (GetKeyWithKind r)) else None)))
      | _ \<Rightarrow> r' = r)"

lemma marked_simps:
  assumes "marked hosts r r'"
  shows "GetKeyWithKind r' = GetKeyWithKind r" "GetObjectMeta r' = GetObjectMeta r" "resourceHosts r' = resourceHosts r"
    "resourceKind r' = resourceKind r"
  using assms by (cases r; auto simp: marked_def)+

lemma foldOpt_markHost:
  assumes "\<And>h. h \<in> set hs \<Longrightarrow> \<exists>p res. gget hosts h = Some p \<and> gget resources p = Some res \<and> GetKeyWithKind res = p"
  shows "\<exists>v. foldOpt (markHost hosts resources) hs ic = Some (ic\<lparr>icValidHosts := v\<rparr>)
    \<and> (wf_gomap (icValidHosts ic) \<longrightarrow> wf_gomap v) \<and> (\<forall>h. gget v h = (if h \<in> set hs then Some (gget hosts h = Some (GetKeyWithKind (IngressRes ic))) else gget (icValidHosts ic) h))"
  using assms
proof (induction hs arbitrary: ic)
  case Nil
  then show ?case by (auto intro: exI [of _ "icValidHosts ic"])
next
  case (Cons h hs)
  obtain p res where p: "gget hosts h = Some p" "gget resources p = Some res" "GetKeyWithKind res = p"
    using Cons.prems by (meson list.set_intros(1))
  let ?v = "gput h (p = GetKeyWithKind (IngressRes ic)) (icValidHosts ic)"
  have step: "markHost hosts resources h ic = Some (ic\<lparr>icValidHosts := ?v\<rparr>)"
    using p by (simp add: markHost_def)
  obtain v where v: "foldOpt (markHost hosts resources) hs (ic\<lparr>icValidHosts := ?v\<rparr>) = Some (ic\<lparr>icValidHosts := v\<rparr>)" "wf_gomap ?v \<longrightarrow> wf_gomap v"
      "\<forall>h'. gget v h' = (if h' \<in> set hs then Some (gget hosts h' = Some (GetKeyWithKind (IngressRes ic))) else gget ?v h')"
    using Cons.IH [of "ic\<lparr>icValidHosts := ?v\<rparr>"] Cons.prems by auto
  have "gget v h' = (if h' \<in> set (h # hs) then Some (gget hosts h' = Some (GetKeyWithKind (IngressRes ic)))
      else gget (icValidHosts ic) h')" for h'
    using v(3) p(1) by auto
  with step v(1,2) show ?case by auto
qed

lemma host_pointer_ok:
  assumes inv: "hostInv P B b" and r: "gget (hbResources b) k = Some r" and h: "h \<in> set (resourceHosts r)"
  shows "\<exists>p res. gget (hbHosts b) h = Some p \<and> gget (hbResources b) p = Some res \<and> GetKeyWithKind res = p"
proof -
  have ok: "storeOk P (claimsOf B) b" and con: "contested (claimsOf B) (hbHosts b)" using inv by (simp_all add: hostInv_def)
  have "profile b k = Some (noWarnings r)" using r by (simp add: profile_def)
  then have "noWarnings r \<in> B" using inv unfolding hostInv_def by blast
  then have "(h, k, GetObjectMeta r) \<in> claimsOf B"
    using h storeOkD(1) [OF ok r] unfolding claimsOf_def claims_def by (intro UN_I [of "noWarnings r"]) auto
  from heldByD(2) [OF con this] obtain p where p: "gget (hbHosts b) h = Some p" by blast
  from heldByD(1) [OF con p] obtain m where "(h, p, m) \<in> claimsOf B" by blast
  from storeOkD(2) [OF ok this] obtain res where res: "gget (hbResources b) p = Some res" by blast
  with p storeOkD(1) [OF ok res] show ?thesis by blast
qed

lemma markHosts_total:
  assumes inv: "hostInv P B b" and r: "gget (hbResources b) k = Some r"
  shows "\<exists>r'. markHosts (hbHosts b) (hbResources b) r = Some r' \<and> marked (hbHosts b) r r'"
proof (cases r)
  case (IngressRes ic)
  have "icValidHosts ic = []"
    using inv storeOkD(1) [of P "claimsOf B" b k r] r IngressRes by (simp add: hostInv_def)
  then obtain v where v: "foldOpt (markHost (hbHosts b) (hbResources b)) (ingressHosts (icIngress ic)) ic
        = Some (ic\<lparr>icValidHosts := v\<rparr>)" "wf_gomap v"
      "\<forall>h. gget v h = (if h \<in> set (ingressHosts (icIngress ic)) then Some (gget (hbHosts b) h = Some (GetKeyWithKind (IngressRes ic))) else None)"
    using foldOpt_markHost [of "ingressHosts (icIngress ic)" "hbHosts b" "hbResources b" ic]
      host_pointer_ok [OF inv r] IngressRes by auto
  have "marked (hbHosts b) r (IngressRes (ic\<lparr>icValidHosts := v\<rparr>))"
    using v(2,3) IngressRes by (auto simp: marked_def intro!: exI [of _ v])
  with v(1) IngressRes show ?thesis by (simp add: markHosts_def)
qed (simp_all add: markHosts_def marked_def)

section \<open>The table of hosts after a rebuild\<close>

fun ownsHost :: "Resource \<Rightarrow> string \<Rightarrow> bool" where
  "ownsHost (IngressRes ic) h = (gget (icValidHosts ic) h = Some True)"
| "ownsHost r h = (h \<in> set (resourceHosts r))"

interpretation host_slots: slot_ownership ownsHost
proof
  fix a b s t
  show "IsEqual a b \<Longrightarrow> ownsHost a s \<Longrightarrow> ownsHost b s \<Longrightarrow> ownsHost a t \<Longrightarrow> ownsHost b t"
    by (cases a; cases b) (auto simp: IsEqual_print)
qed

text \<open>A resource without what a rebuild adds to it: the warnings and the marks of its hosts.\<close>

fun plainResource :: "Resource \<Rightarrow> Resource" where
  "plainResource (IngressRes ic) = IngressRes (ic\<lparr>icWarnings := [], icValidHosts := []\<rparr>)"
| "plainResource r = noWarnings r"

lemma plainResource_simps [simp]:
  "GetKeyWithKind (plainResource r) = GetKeyWithKind r" "GetObjectMeta (plainResource r) = GetObjectMeta r"
  "resourceHosts (plainResource r) = resourceHosts r" "resourceKind (plainResource r) = resourceKind r"
  by (cases r; simp)+

lemma marked_plain: "marked hosts r r' \<Longrightarrow> unmarked r \<Longrightarrow> plainResource r' = noWarnings r"
  by (cases r) (auto simp: marked_def)

definition hostTable :: "Configuration \<Rightarrow> Resource gomap \<Rightarrow> Resource gomap \<Rightarrow> bool" where
  "hostTable c hosts resources =
     (wf_gomap hosts \<and> wf_gomap resources \<and> coherent ownsHost hosts \<and> latestVersions resources hosts
      \<and> (\<forall>k r. gget resources k = Some r \<longrightarrow> plainResource r \<in> resourcesOf c)
      \<and> (\<forall>x\<in>resourcesOf c. gget resources (GetKeyWithKind x) \<noteq> None)
      \<and> (\<forall>h r. gget hosts h = Some r \<longrightarrow> h \<in> set (resourceHosts r)
            \<and> (\<forall>x\<in>resourcesOf c. h \<in> set (resourceHosts x) \<longrightarrow> \<not> Wins x r))
      \<and> (\<forall>x\<in>resourcesOf c. \<forall>h\<in>set (resourceHosts x). gget hosts h \<noteq> None)
      \<and> (\<forall>k ic h. gget resources k = Some (IngressRes ic) \<longrightarrow> gget (icValidHosts ic) h =
            (if h \<in> set (ingressHosts (icIngress ic)) then Some (gget hosts h = Some (IngressRes ic)) else None))
      \<and> (\<forall>k ic. gget resources k = Some (IngressRes ic) \<longrightarrow> wf_gomap (icValidHosts ic)))"

definition builtFrom :: "hostBuild \<Rightarrow> Resource gomap \<Rightarrow> Resource gomap \<Rightarrow> bool" where
  "builtFrom b hosts resources =
     (wf_gomap hosts \<and> wf_gomap resources
      \<and> (\<forall>k. rel_option (marked (hbHosts b)) (gget (hbResources b) k) (gget resources k))
      \<and> (\<forall>h. gget hosts h = (case gget (hbHosts b) h of None \<Rightarrow> None | Some p \<Rightarrow> gget resources p)))"

lemma wf_gomap_keys: "map fst m' = map fst m \<Longrightarrow> wf_gomap m \<Longrightarrow> wf_gomap m'"
  by (simp add: wf_gomap_def)

lemma marking_total:
  assumes inv: "hostInv P B b"
  shows "\<exists>resources. updateActiveHostsForIngresses (hbHosts b) (hbResources b) = Some resources \<and> wf_gomap resources
    \<and> (\<forall>k. rel_option (marked (hbHosts b)) (gget (hbResources b) k) (gget resources k))"
proof -
  have ok: "storeOk P (claimsOf B) b" using inv by (simp add: hostInv_def)
  have wf: "wf_gomap (hbResources b)" using storeOkD(4) [OF ok] .
  have "markHosts (hbHosts b) (hbResources b) r \<noteq> None" if "(k, r) \<in> set (hbResources b)" for k r
    using markHosts_total [OF inv, of k r] that wf_gomap_in_set [OF wf] by fastforce
  then obtain R where R: "updateActiveHostsForIngresses (hbHosts b) (hbResources b) = Some R"
    using mapOpt_values_total unfolding updateActiveHostsForIngresses_def by blast
  then have look: "map fst R = map fst (hbResources b)"
      "\<And>k. gget R k = (case gget (hbResources b) k of None \<Rightarrow> None | Some v \<Rightarrow> markHosts (hbHosts b) (hbResources b) v)"
    using mapOpt_values unfolding updateActiveHostsForIngresses_def by blast+
  have "rel_option (marked (hbHosts b)) (gget (hbResources b) k) (gget R k)" for k
    using look(2) [of k] markHosts_total [OF inv, of k] by (cases "gget (hbResources b) k") auto
  with R wf_gomap_keys [OF look(1) wf] show ?thesis by blast
qed

lemma buildHosts_built:
  assumes "wfObjects c"
  shows "\<exists>b P hosts resources. hostInv P (resourcesOf c) b \<and> buildHosts c = Some (hosts, resources) \<and> builtFrom b hosts resources"
proof -
  obtain b P where b: "buildHostsAndResources c = Some b" and inv: "hostInv P (resourcesOf c) b"
    using buildHostsAndResources_inv [OF assms] by blast
  have ok: "storeOk P (claimsOf (resourcesOf c)) b" and con: "contested (claimsOf (resourcesOf c)) (hbHosts b)"
    using inv by (simp_all add: hostInv_def)
  obtain R where R: "updateActiveHostsForIngresses (hbHosts b) (hbResources b) = Some R" "wf_gomap R"
      "\<forall>k. rel_option (marked (hbHosts b)) (gget (hbResources b) k) (gget R k)"
    using marking_total [OF inv] by blast
  have "gget R p \<noteq> None" if h: "(h, p) \<in> set (hbHosts b)" for h p
  proof -
    have "gget (hbHosts b) h = Some p" using h storeOkD(3) [OF ok] by (simp add: wf_gomap_in_set)
    from heldByD(1) [OF con this] obtain m where "(h, p, m) \<in> claimsOf (resourcesOf c)" by blast
    from storeOkD(2) [OF ok this] obtain r where "gget (hbResources b) p = Some r" by blast
    with R(3) show ?thesis by (metis option.rel_distinct(2))
  qed
  then obtain T where T: "derefHosts (hbHosts b) R = Some T"
    using mapOpt_values_total [of "hbHosts b" "gget R"] unfolding derefHosts_def by blast
  have "map fst T = map fst (hbHosts b)
      \<and> (\<forall>h. gget T h = (case gget (hbHosts b) h of None \<Rightarrow> None | Some p \<Rightarrow> gget R p))"
    using T unfolding derefHosts_def by (rule mapOpt_values)
  then have "builtFrom b T R"
    using R wf_gomap_keys [of T "hbHosts b"] storeOkD(3) [OF ok] by (simp add: builtFrom_def)
  moreover have "buildHosts c = Some (T, R)" using b R(1) T by (simp add: buildHosts_def)
  ultimately show ?thesis using inv by blast
qed

lemma builtFromD:
  assumes built: "builtFrom b hosts resources" and inv: "hostInv P B b"
  shows "gget resources k = Some r' \<Longrightarrow> \<exists>r. gget (hbResources b) k = Some r \<and> marked (hbHosts b) r r' \<and> GetKeyWithKind r' = k"
    and "gget hosts h = Some r' \<Longrightarrow> gget (hbHosts b) h = Some (GetKeyWithKind r') \<and> gget resources (GetKeyWithKind r') = Some r'"
    and "gget (hbHosts b) h = Some k \<Longrightarrow> gget resources k = Some r' \<Longrightarrow> gget hosts h = Some r'"
proof -
  have ok: "storeOk P (claimsOf B) b" using inv by (simp add: hostInv_def)
  show res: "\<exists>r. gget (hbResources b) k = Some r \<and> marked (hbHosts b) r r' \<and> GetKeyWithKind r' = k"
    if r': "gget resources k = Some r'" for k r'
  proof -
    have "rel_option (marked (hbHosts b)) (gget (hbResources b) k) (Some r')"
      using built r' unfolding builtFrom_def by metis
    then obtain r where r: "gget (hbResources b) k = Some r" "marked (hbHosts b) r r'"
      by (cases "gget (hbResources b) k") auto
    with storeOkD(1) [OF ok r(1)] marked_simps(1) [OF r(2)] show ?thesis by simp
  qed
  show "gget (hbHosts b) h = Some (GetKeyWithKind r') \<and> gget resources (GetKeyWithKind r') = Some r'"
    if "gget hosts h = Some r'"
    using built that res unfolding builtFrom_def by (cases "gget (hbHosts b) h") fastforce+
  show "gget (hbHosts b) h = Some k \<Longrightarrow> gget resources k = Some r' \<Longrightarrow> gget hosts h = Some r'"
    using built unfolding builtFrom_def by simp
qed

lemma marked_owns:
  assumes "marked hosts r r'"
  shows "ownsHost r' h \<longleftrightarrow> h \<in> set (resourceHosts r) \<and> ((\<exists>ic. r = IngressRes ic) \<longrightarrow> gget hosts h = Some (GetKeyWithKind r))"
proof (cases r)
  case (IngressRes ic)
  then obtain v where r': "r' = IngressRes (ic\<lparr>icValidHosts := v\<rparr>)"
    and v: "gget v h = (if h \<in> set (resourceHosts r) then Some (gget hosts h = Some (GetKeyWithKind r)) else None)"
    using assms unfolding marked_def by auto
  have "ownsHost r' h \<longleftrightarrow> gget v h = Some True" unfolding r' by simp
  also have "\<dots> \<longleftrightarrow> h \<in> set (resourceHosts r) \<and> gget hosts h = Some (GetKeyWithKind r)" unfolding v by auto
  finally show ?thesis using IngressRes by simp
qed (use assms in \<open>auto simp: marked_def\<close>)

lemma table_entry:
  assumes built: "builtFrom b hosts resources" and inv: "hostInv P B b" and r': "gget hosts h = Some r'"
  shows "\<exists>r. gget (hbResources b) (GetKeyWithKind r') = Some r \<and> marked (hbHosts b) r r' \<and> h \<in> set (resourceHosts r)
    \<and> (\<forall>x\<in>B. h \<in> set (resourceHosts x) \<longrightarrow> \<not> Wins x r')"
proof -
  have ok: "storeOk P (claimsOf B) b" and con: "contested (claimsOf B) (hbHosts b)" using inv by (simp_all add: hostInv_def)
  have ptr: "gget (hbHosts b) h = Some (GetKeyWithKind r')" "gget resources (GetKeyWithKind r') = Some r'"
    using builtFromD(2) [OF built inv r'] by simp_all
  obtain r where r: "gget (hbResources b) (GetKeyWithKind r') = Some r" "marked (hbHosts b) r r'"
    using builtFromD(1) [OF built inv ptr(2)] by blast
  from heldByD(1) [OF con ptr(1)] obtain m where m: "(h, GetKeyWithKind r', m) \<in> claimsOf B"
      "\<And>k' m'. (h, k', m') \<in> claimsOf B \<Longrightarrow> \<not> chooseObjectMetaWinner m' m" by blast
  from storeOkD(2) [OF ok m(1)] r(1) have "GetObjectMeta r = m" "h \<in> set (resourceHosts r)" by auto
  moreover have "(h, GetKeyWithKind x, GetObjectMeta x) \<in> claimsOf B" if "x \<in> B" "h \<in> set (resourceHosts x)" for x
    using that unfolding claimsOf_def claims_def by (intro UN_I [of x]) auto
  ultimately show ?thesis
    using r m(2) marked_simps(2) [OF r(2)] by (auto simp: Wins_def)
qed

lemma built_coherent:
  assumes built: "builtFrom b hosts resources" and inv: "hostInv P B b"
  shows "coherent ownsHost hosts"
  unfolding coherent_def
proof (intro conjI allI impI)
  fix h r'
  assume r': "gget hosts h = Some r'"
  from table_entry [OF built inv r'] obtain r where
    r: "gget (hbResources b) (GetKeyWithKind r') = Some r" "marked (hbHosts b) r r'" "h \<in> set (resourceHosts r)" by blast
  then show "ownsHost r' h"
    using marked_owns [OF r(2)] marked_simps(1) [OF r(2)] builtFromD(2) [OF built inv r'] by simp
next
  fix h h' r r'
  assume r: "gget hosts h = Some r" and r': "gget hosts h' = Some r'" and eq: "GetKeyWithKind r = GetKeyWithKind r'"
  have "gget resources (GetKeyWithKind r) = Some r" using builtFromD(2) [OF built inv r] by (rule conjunct2)
  moreover have "gget resources (GetKeyWithKind r') = Some r'" using builtFromD(2) [OF built inv r'] by (rule conjunct2)
  ultimately show "r = r'" using eq by (metis option.inject)
next
  fix h t r'
  assume r': "gget hosts h = Some r'" and t: "ownsHost r' t"
  from table_entry [OF built inv r'] obtain r where
    r: "gget (hbResources b) (GetKeyWithKind r') = Some r" "marked (hbHosts b) r r'" "h \<in> set (resourceHosts r)" by blast
  have ptr: "gget (hbHosts b) h = Some (GetKeyWithKind r')" "gget resources (GetKeyWithKind r') = Some r'"
    using builtFromD(2) [OF built inv r'] by simp_all
  have own: "t \<in> set (resourceHosts r)" "(\<exists>ic. r = IngressRes ic) \<longrightarrow> gget (hbHosts b) t = Some (GetKeyWithKind r)"
    using t marked_owns [OF r(2)] by blast+
  have "gget (hbHosts b) t = Some (GetKeyWithKind r')"
  proof (cases "\<exists>ic. r = IngressRes ic")
    case True
    then show ?thesis using own(2) marked_simps(1) [OF r(2)] by simp
  next
    case False
    then have "t = h" using own(1) r(3) by (cases r) auto
    then show ?thesis using ptr(1) by simp
  qed
  then show "gget hosts t = Some r'" using builtFromD(3) [OF built inv _ ptr(2)] by blast
qed

lemma built_marks:
  assumes built: "builtFrom b hosts resources" and inv: "hostInv P B b"
    and r': "gget resources k = Some (IngressRes ic)"
  shows "gget (icValidHosts ic) h =
    (if h \<in> set (ingressHosts (icIngress ic)) then Some (gget hosts h = Some (IngressRes ic)) else None)"
    and "wf_gomap (icValidHosts ic)"
proof -
  from builtFromD(1) [OF built inv r'] obtain r where r: "gget (hbResources b) k = Some r" "marked (hbHosts b) r (IngressRes ic)"
      "GetKeyWithKind (IngressRes ic) = k"
    by blast
  then obtain ic0 v where ic: "r = IngressRes ic0" "ic = ic0\<lparr>icValidHosts := v\<rparr>" and wf: "wf_gomap v" and
      v: "gget v h = (if h \<in> set (resourceHosts r) then Some (gget (hbHosts b) h = Some (GetKeyWithKind r)) else None)"
    unfolding marked_def by (cases r) auto
  have "gget hosts h = Some (IngressRes ic) \<longleftrightarrow> gget (hbHosts b) h = Some k"
    using builtFromD(2) [OF built inv, of h "IngressRes ic"] builtFromD(3) [OF built inv _ r', of h] r(3) by auto
  moreover have "GetKeyWithKind r = k" using r(3) marked_simps(1) [OF r(2)] by simp
  ultimately show "gget (icValidHosts ic) h =
      (if h \<in> set (ingressHosts (icIngress ic)) then Some (gget hosts h = Some (IngressRes ic)) else None)"
    using ic v by simp
  show "wf_gomap (icValidHosts ic)" using ic wf by simp
qed

theorem buildHosts_table:
  assumes "wfObjects c"
  shows "\<exists>hosts resources. buildHosts c = Some (hosts, resources) \<and> hostTable c hosts resources"
proof -
  obtain b P hosts resources where inv: "hostInv P (resourcesOf c) b" and eq: "buildHosts c = Some (hosts, resources)"
    and built: "builtFrom b hosts resources"
    using buildHosts_built [OF assms] by blast
  have ok: "storeOk P (claimsOf (resourcesOf c)) b" and con: "contested (claimsOf (resourcesOf c)) (hbHosts b)"
    and prof: "\<And>k x. profile b k = Some x \<longleftrightarrow> x \<in> resourcesOf c \<and> GetKeyWithKind x = k"
    using inv by (auto simp: hostInv_def)
  have latest: "latestVersions resources hosts"
    using builtFromD(1,2) [OF built inv] unfolding latestVersions_def by blast
  have content: "plainResource r' \<in> resourcesOf c" if r': "gget resources k = Some r'" for k r'
  proof -
    from builtFromD(1) [OF built inv r'] obtain r where r: "gget (hbResources b) k = Some r" "marked (hbHosts b) r r'" by blast
    then have "profile b k = Some (noWarnings r)" by (simp add: profile_def)
    moreover have "plainResource r' = noWarnings r" using marked_plain [OF r(2)] storeOkD(1) [OF ok r(1)] by simp
    ultimately show ?thesis using prof by metis
  qed
  have present: "\<exists>r. gget resources (GetKeyWithKind x) = Some r \<and> gget (hbResources b) (GetKeyWithKind x) \<noteq> None"
    if "x \<in> resourcesOf c" for x
  proof -
    have "profile b (GetKeyWithKind x) = Some x" using prof that by blast
    then obtain s where s: "gget (hbResources b) (GetKeyWithKind x) = Some s" by (auto simp: profile_def)
    then have "rel_option (marked (hbHosts b)) (Some s) (gget resources (GetKeyWithKind x))"
      using built unfolding builtFrom_def by metis
    with s show ?thesis by (cases "gget resources (GetKeyWithKind x)") auto
  qed
  have taken: "gget hosts h \<noteq> None" if x: "x \<in> resourcesOf c" "h \<in> set (resourceHosts x)" for x h
  proof -
    have "(h, GetKeyWithKind x, GetObjectMeta x) \<in> claimsOf (resourcesOf c)"
      using x unfolding claimsOf_def claims_def by (intro UN_I [of x]) auto
    from heldByD(2) [OF con this] obtain p where p: "gget (hbHosts b) h = Some p" by blast
    from heldByD(1) [OF con p] obtain m where "(h, p, m) \<in> claimsOf (resourcesOf c)" by blast
    then obtain y where "y \<in> resourcesOf c" "p = GetKeyWithKind y" by (auto simp: claimsOf_def claims_def)
    then obtain r where "gget resources p = Some r" using present by blast
    with builtFromD(3) [OF built inv p] show ?thesis by simp
  qed
  have "h \<in> set (resourceHosts r) \<and> (\<forall>x\<in>resourcesOf c. h \<in> set (resourceHosts x) \<longrightarrow> \<not> Wins x r)"
    if "gget hosts h = Some r" for h r
    using table_entry [OF built inv that] marked_simps(3) by metis
  moreover have "wf_gomap hosts" "wf_gomap resources" using built by (simp_all add: builtFrom_def)
  ultimately have "hostTable c hosts resources"
    unfolding hostTable_def
    using built_coherent [OF built inv] latest content present taken built_marks [OF built inv] by blast
  with eq show ?thesis by blast
qed

section \<open>The problems of a rebuild\<close>

lemma hostTableD:
  assumes "hostTable c hosts resources"
  shows "wf_gomap hosts" "wf_gomap resources" "coherent ownsHost hosts" "latestVersions resources hosts"
    and "gget resources k = Some r \<Longrightarrow> plainResource r \<in> resourcesOf c"
    and "x \<in> resourcesOf c \<Longrightarrow> gget resources (GetKeyWithKind x) \<noteq> None"
    and "gget hosts h = Some r \<Longrightarrow> h \<in> set (resourceHosts r)"
    and "gget hosts h = Some r \<Longrightarrow> x \<in> resourcesOf c \<Longrightarrow> h \<in> set (resourceHosts x) \<Longrightarrow> \<not> Wins x r"
    and "x \<in> resourcesOf c \<Longrightarrow> h \<in> set (resourceHosts x) \<Longrightarrow> gget hosts h \<noteq> None"
    and "gget resources k = Some (IngressRes ic) \<Longrightarrow> gget (icValidHosts ic) h =
            (if h \<in> set (ingressHosts (icIngress ic)) then Some (gget hosts h = Some (IngressRes ic)) else None)"
    and "gget resources k = Some (IngressRes ic) \<Longrightarrow> wf_gomap (icValidHosts ic)"
  using assms unfolding hostTable_def by blast+

lemma resource_key: "hostTable c hosts resources \<Longrightarrow> gget resources k = Some r \<Longrightarrow> GetKeyWithKind r = k"
  using hostTableD(4) unfolding latestVersions_def by blast

lemma table_latest: "hostTable c hosts resources \<Longrightarrow> gget hosts h = Some r \<Longrightarrow> gget resources (GetKeyWithKind r) = Some r"
  using hostTableD(4) unfolding latestVersions_def by blast

definition holdsNoHost :: "Resource gomap \<Rightarrow> Resource \<Rightarrow> bool" where
  "holdsNoHost hosts r = (\<forall>h. gget hosts h \<noteq> Some r)"

lemma ingress_holds_none:
  assumes tab: "hostTable c hosts resources" and r: "gget resources k = Some (IngressRes ic)"
  shows "\<not> list_ex snd (icValidHosts ic) \<longleftrightarrow> holdsNoHost hosts (IngressRes ic)"
proof -
  have "list_ex snd (icValidHosts ic) \<longleftrightarrow> (\<exists>h. gget (icValidHosts ic) h = Some True)"
    using hostTableD(11) [OF tab r] by (force simp: list_ex_iff wf_gomap_def)
  also have "\<dots> \<longleftrightarrow> (\<exists>h. gget hosts h = Some (IngressRes ic))"
    using hostTableD(10) [OF tab r] hostTableD(7) [OF tab, of _ "IngressRes ic"] by (auto split: if_splits)
  finally show ?thesis by (simp add: holdsNoHost_def)
qed

lemma single_holds_none:
  assumes tab: "hostTable c hosts resources" and r: "gget resources k = Some r"
    and single: "resourceHosts r = [host]"
  shows "\<exists>b. holdsHost hosts host r = Some b \<and> (\<not> b \<longleftrightarrow> holdsNoHost hosts r)"
proof -
  obtain s where s: "gget hosts host = Some s" using hostTableD(9) [OF tab hostTableD(5) [OF tab r]] single by fastforce
  have "GetKeyWithKind s = GetKeyWithKind r \<longleftrightarrow> s = r"
    using table_latest [OF tab s] resource_key [OF tab r] r by (metis option.inject)
  moreover have "gget hosts h = Some r \<Longrightarrow> h = host" for h
    using hostTableD(7) [OF tab, of h r] single by simp
  then have "holdsNoHost hosts r \<longleftrightarrow> s \<noteq> r" using s by (auto simp: holdsNoHost_def)
  ultimately show ?thesis using s by (simp add: holdsHost_def)
qed

text \<open>The problem recorded for a resource that holds no host.\<close>

definition hostProblem :: "Resource \<Rightarrow> ConfigurationProblem" where
  "hostProblem r =
     (case r of
        IngressRes ic \<Rightarrow> warningProblem (IngressObj (icIngress ic)) ''Rejected'' ''All hosts are taken by other resources''
      | VirtualServerRes vsc \<Rightarrow>
          warningProblem (VirtualServerObj (vscVirtualServer vsc)) ''Rejected'' ''Host is taken by another resource''
      | TransportServerRes tsc \<Rightarrow>
          warningProblem (TransportServerObj (tscTransportServer tsc)) ''Rejected'' ''Host is taken by another resource'')"

lemma addHostProblem_eq:
  assumes tab: "hostTable c hosts resources" and r: "gget resources k = Some r"
  shows "addHostProblem hosts r problems =
    Some (if holdsNoHost hosts r then gput (GetKeyWithKind r) (hostProblem r) problems else problems)"
proof (cases r)
  case (IngressRes ic)
  then show ?thesis
    using ingress_holds_none [OF tab, of k ic] r by (simp add: addHostProblem_def hostProblem_def)
next
  case (VirtualServerRes vsc)
  have "resourceHosts r = [vssHost (vsSpec (vscVirtualServer vsc))]" using VirtualServerRes by simp
  then obtain b where "holdsHost hosts (vssHost (vsSpec (vscVirtualServer vsc))) r = Some b" "holdsNoHost hosts r = (\<not> b)"
    using single_holds_none [OF tab r] by metis
  then show ?thesis
    using VirtualServerRes by (simp add: addHostProblem_def hostProblem_def)
next
  case (TransportServerRes tsc)
  have "resourceHosts r = [tssHost (tsSpec (tscTransportServer tsc))]" using TransportServerRes by simp
  then obtain b where "holdsHost hosts (tssHost (tsSpec (tscTransportServer tsc))) r = Some b" "holdsNoHost hosts r = (\<not> b)"
    using single_holds_none [OF tab r] by metis
  then show ?thesis
    using TransportServerRes by (simp add: addHostProblem_def hostProblem_def)
qed

definition minionHost :: "Ingress \<Rightarrow> string" where
  "minionHost ing = irHost (hd (isRules (ingSpec ing)))"

definition minionProblem :: "Ingress \<Rightarrow> ConfigurationProblem" where
  "minionProblem ing =
     warningProblem (IngressObj ing) ''NoIngressMasterFound'' (''Ingress master is invalid or doesn'' @ [CHR 0x27] @ ''t exist'')"

definition orphanVsr :: "Resource gomap \<Rightarrow> VirtualServerRoute \<Rightarrow> bool" where
  "orphanVsr hosts vsr =
     (case gget hosts (vrsHost (vsrSpec vsr)) of
        Some (VirtualServerRes vsc) \<Rightarrow>
          \<not> list_ex (\<lambda>v. omNamespace (vsrMeta vsr) = omNamespace (vsrMeta v) \<and> omName (vsrMeta vsr) = omName (vsrMeta v))
              (vscVirtualServerRoutes vsc)
      | _ \<Rightarrow> True)"

definition vsrProblem :: "Resource gomap \<Rightarrow> VirtualServerRoute \<Rightarrow> ConfigurationProblem" where
  "vsrProblem hosts vsr =
     (case gget hosts (vrsHost (vsrSpec vsr)) of
        Some (VirtualServerRes vsc) \<Rightarrow>
          warningProblem (VirtualServerRouteObj vsr) ''Ignored''
            (''VirtualServer '' @ getResourceKey (vsMeta (vscVirtualServer vsc)) @ '' ignores VirtualServerRoute'')
      | _ \<Rightarrow>
          warningProblem (VirtualServerRouteObj vsr) ''NoVirtualServerFound''
            (''VirtualServer is invalid or doesn'' @ [CHR 0x27] @ ''t exist''))"

lemma addMinionProblem_eq:
  assumes "okIngress (snd e)"
  shows "addMinionProblem hosts e problems =
    Some (if isMinion (snd e) \<and> orphanMinion hosts (minionHost (snd e))
          then gput (getResourceKeyWithKind ingressKind (ingMeta (snd e))) (minionProblem (snd e)) problems else problems)"
  using okIngress_rules [OF assms] by (auto simp: addMinionProblem_def minionHost_def minionProblem_def split: prod.splits)

lemma addVsrProblem_eq:
  "addVsrProblem hosts e problems =
    (if orphanVsr hosts (snd e)
     then gput (getResourceKeyWithKind virtualServerRouteKind (vsrMeta (snd e))) (vsrProblem hosts (snd e)) problems else problems)"
  by (cases e) (simp add: addVsrProblem_def orphanVsr_def vsrProblem_def split: option.split Resource.split)

definition problemKeys :: "Configuration \<Rightarrow> Resource gomap \<Rightarrow> Resource gomap \<Rightarrow> string set" where
  "problemKeys c hosts resources =
     GetKeyWithKind ` {r \<in> snd ` set resources. holdsNoHost hosts r}
     \<union> (\<lambda>ing. getResourceKeyWithKind ingressKind (ingMeta ing)) `
         {ing \<in> snd ` set (cIngresses c). isMinion ing \<and> orphanMinion hosts (minionHost ing)}
     \<union> (\<lambda>vsr. getResourceKeyWithKind virtualServerRouteKind (vsrMeta vsr)) `
         {vsr \<in> snd ` set (cVirtualServerRoutes c). orphanVsr hosts vsr}"

lemma image_values: "(\<lambda>e. F (snd e)) ` {e \<in> set m. Q (snd e)} = F ` {v \<in> snd ` set m. Q v}"
  by auto

lemma resourceProblems_total:
  assumes tab: "hostTable c hosts resources"
  shows "\<exists>p1. addProblemsForResourcesWithoutActiveHost hosts resources [] = Some p1 \<and> wf_gomap p1
    \<and> gkeys p1 = GetKeyWithKind ` {r \<in> snd ` set resources. holdsNoHost hosts r}"
proof -
  have "\<exists>p1. foldOpt (addHostProblem hosts) (map snd resources) [] = Some p1
      \<and> gkeys p1 = gkeys ([] :: ConfigurationProblem gomap) \<union> GetKeyWithKind ` {r \<in> set (map snd resources). holdsNoHost hosts r}
      \<and> (wf_gomap ([] :: ConfigurationProblem gomap) \<longrightarrow> wf_gomap p1)"
  proof (rule foldOpt_gput [where V = hostProblem])
    fix r m
    assume "r \<in> set (map snd resources)"
    then obtain k where "gget resources k = Some r" using wf_gomap_in_set [OF hostTableD(2) [OF tab]] by fastforce
    then show "addHostProblem hosts r m = Some (if holdsNoHost hosts r then gput (GetKeyWithKind r) (hostProblem r) m else m)"
      by (rule addHostProblem_eq [OF tab])
  qed
  then show ?thesis by (simp add: addProblemsForResourcesWithoutActiveHost_def) blast
qed

lemma minionProblems_total:
  assumes "\<And>e. e \<in> set (cIngresses c) \<Longrightarrow> okIngress (snd e)"
  shows "\<exists>p2. addProblemsForOrphanMinions c hosts p1 = Some p2 \<and> (wf_gomap p1 \<longrightarrow> wf_gomap p2)
    \<and> gkeys p2 = gkeys p1 \<union> (\<lambda>ing. getResourceKeyWithKind ingressKind (ingMeta ing)) `
         {ing \<in> snd ` set (cIngresses c). isMinion ing \<and> orphanMinion hosts (minionHost ing)}"
proof -
  let ?f = "\<lambda>ing. getResourceKeyWithKind ingressKind (ingMeta ing)"
  have "\<exists>p2. foldOpt (addMinionProblem hosts) (sortedEntries (cIngresses c)) p1 = Some p2
      \<and> gkeys p2 = gkeys p1 \<union> (\<lambda>e. ?f (snd e)) `
           {e \<in> set (sortedEntries (cIngresses c)). isMinion (snd e) \<and> orphanMinion hosts (minionHost (snd e))}
      \<and> (wf_gomap p1 \<longrightarrow> wf_gomap p2)"
    by (rule foldOpt_gput [where V = "\<lambda>e. minionProblem (snd e)"]) (use addMinionProblem_eq assms in simp)
  then obtain p2 where p2: "foldOpt (addMinionProblem hosts) (sortedEntries (cIngresses c)) p1 = Some p2"
      and keys: "gkeys p2 = gkeys p1 \<union> (\<lambda>e. ?f (snd e)) `
           {e \<in> set (sortedEntries (cIngresses c)). isMinion (snd e) \<and> orphanMinion hosts (minionHost (snd e))}"
      and wf: "wf_gomap p1 \<longrightarrow> wf_gomap p2"
    by (elim exE conjE) (rule that)
  show ?thesis
    using p2 wf keys unfolding set_sortedEntries image_values [where F = ?f and Q = "\<lambda>ing. isMinion ing \<and> orphanMinion hosts (minionHost ing)"]
    by (intro exI [of _ p2]) (simp add: addProblemsForOrphanMinions_def)
qed

lemma vsrProblems_keys:
  "gkeys (addProblemsForOrphanOrIgnoredVsrs c hosts p2) = gkeys p2
     \<union> (\<lambda>vsr. getResourceKeyWithKind virtualServerRouteKind (vsrMeta vsr)) ` {vsr \<in> snd ` set (cVirtualServerRoutes c). orphanVsr hosts vsr}
   \<and> (wf_gomap p2 \<longrightarrow> wf_gomap (addProblemsForOrphanOrIgnoredVsrs c hosts p2))"
proof -
  let ?ps = "fold (addVsrProblem hosts) (sortedEntries (cVirtualServerRoutes c)) p2"
  have "gkeys ?ps = gkeys p2 \<union> (\<lambda>e. getResourceKeyWithKind virtualServerRouteKind (vsrMeta (snd e))) `
        {e \<in> set (sortedEntries (cVirtualServerRoutes c)). orphanVsr hosts (snd e)} \<and> (wf_gomap p2 \<longrightarrow> wf_gomap ?ps)"
    by (rule fold_gput [where V = "\<lambda>e. vsrProblem hosts (snd e)"]) (rule addVsrProblem_eq)
  then show ?thesis
    by (simp add: addProblemsForOrphanOrIgnoredVsrs_def
        image_values [where F = "\<lambda>vsr. getResourceKeyWithKind virtualServerRouteKind (vsrMeta vsr)"])
qed

lemma hostProblems_total:
  assumes wf: "wfObjects c" and tab: "hostTable c hosts resources"
  shows "\<exists>ps. hostProblemsOf c hosts resources = Some ps \<and> wf_gomap ps \<and> gkeys ps = problemKeys c hosts resources"
proof -
  have ok: "\<And>e. e \<in> set (cIngresses c) \<Longrightarrow> okIngress (snd e)"
    using wf by (auto simp: wfObjects_def keyedBy_def wf_gomap_in_set)
  obtain p1 where p1: "addProblemsForResourcesWithoutActiveHost hosts resources [] = Some p1" "wf_gomap p1"
      "gkeys p1 = GetKeyWithKind ` {r \<in> snd ` set resources. holdsNoHost hosts r}"
    using resourceProblems_total [OF tab] by blast
  moreover obtain p2 where "addProblemsForOrphanMinions c hosts p1 = Some p2" "wf_gomap p2"
      "gkeys p2 = gkeys p1 \<union> (\<lambda>ing. getResourceKeyWithKind ingressKind (ingMeta ing)) `
         {ing \<in> snd ` set (cIngresses c). isMinion ing \<and> orphanMinion hosts (minionHost ing)}"
    using minionProblems_total [of c hosts p1, OF ok] p1(2) by metis
  ultimately show ?thesis
    using vsrProblems_keys [of c hosts p2] by (simp add: hostProblemsOf_def problemKeys_def)
qed

section \<open>The rebuild as a whole\<close>

lemma changesForHosts_raw:
  assumes "wf_gomap new"
  shows "\<exists>D U. changesForHosts old new = Some (map (newChange Delete) D @ map (newChange AddOrUpdate) U)
    \<and> set D = hostDeletes old new \<and> set U = hostUpdates old new"
proof -
  obtain removed updated added where det: "detectChangesInHosts old new = (removed, updated, added)"
    by (cases "detectChangesInHosts old new") auto
  with create_raw [OF assms det] set_rawDeletes [OF assms det] set_rawUpdates [OF assms det]
  show ?thesis by (auto simp: changesForHosts_def)
qed

definition rebuiltHosts ::
    "Configuration \<Rightarrow> Configuration \<Rightarrow> Resource gomap \<Rightarrow> ResourceChange list \<Rightarrow> ConfigurationProblem list \<Rightarrow> bool" where
  "rebuiltHosts c c' resources changes problems =
     (c' = c\<lparr>cHosts := cHosts c', cHostProblems := cHostProblems c'\<rparr>
      \<and> hostTable c (cHosts c') resources
      \<and> (\<exists>cs. changesOf (cHosts c) (cHosts c') cs \<and> changes = referToLatest resources cs)
      \<and> wf_gomap (cHostProblems c') \<and> gkeys (cHostProblems c') = problemKeys c (cHosts c') resources
      \<and> problems = detectChangesInProblems (cHostProblems c') (cHostProblems c))"

theorem rebuildHosts_total:
  assumes "wfObjects c"
  shows "\<exists>c' resources changes problems. rebuildHosts c = Some (c', changes, problems)
    \<and> rebuiltHosts c c' resources changes problems"
proof -
  obtain hosts resources where b: "buildHosts c = Some (hosts, resources)" and tab: "hostTable c hosts resources"
    using buildHosts_table [OF assms] by blast
  obtain D U where ch: "changesForHosts (cHosts c) hosts = Some (map (newChange Delete) D @ map (newChange AddOrUpdate) U)"
      "set D = hostDeletes (cHosts c) hosts" "set U = hostUpdates (cHosts c) hosts"
    using changesForHosts_raw [OF hostTableD(1) [OF tab]] by blast
  obtain ps where ps: "hostProblemsOf c hosts resources = Some ps" "wf_gomap ps" "gkeys ps = problemKeys c hosts resources"
    using hostProblems_total [OF assms tab] by blast
  let ?cs = "squashResourceChanges (map (newChange Delete) D @ map (newChange AddOrUpdate) U)"
  let ?c' = "c\<lparr>cHosts := hosts, cHostProblems := ps\<rparr>"
  have "rebuildHosts c = Some (?c', referToLatest resources ?cs, detectChangesInProblems ps (cHostProblems c))"
    by (simp add: rebuildHosts_def b ch(1) ps(1))
  moreover have "changesOf (cHosts c) hosts ?cs" using ch(2,3) by (auto simp: changesOf_def)
  then have "rebuiltHosts c ?c' resources (referToLatest resources ?cs) (detectChangesInProblems ps (cHostProblems c))"
    using tab ps(2,3) by (auto simp: rebuiltHosts_def)
  ultimately show ?thesis by blast
qed

text \<open>After a rebuild, applying its changes makes the files reflect the new table of hosts.\<close>

theorem rebuildHosts_files:
  assumes "rebuiltHosts c c' resources changes problems" and "coherent ownsHost (cHosts c)" and "reflectsOn K files (cHosts c)"
  shows "reflectsOn K (applyChanges changes files) (cHosts c')"
proof -
  obtain cs where cs: "changesOf (cHosts c) (cHosts c') cs" "changes = referToLatest resources cs"
    using assms(1) by (auto simp: rebuiltHosts_def)
  have tab: "hostTable c (cHosts c') resources" using assms(1) by (simp add: rebuiltHosts_def)
  show ?thesis
    unfolding cs(2) applyChanges_latest [OF cs(1) hostTableD(4) [OF tab]]
    by (rule host_slots.changes_carry_files [OF assms(2) hostTableD(3) [OF tab] assms(3) cs(1)])
qed

end
