(* ===== verification/Config_Listeners.thy ===== *)
theory Config_Listeners
  imports Config_Hosts_Lemmas
begin

text \<open>
  The fourth part of \<open>internal/k8s/configuration.go\<close>: the rebuild of the table of listeners from
  the GlobalConfiguration and the TransportServers. As for the hosts, the map from the keys of
  the stored TransportServers is the store of the new objects and a pointer to one is its key.
  Lemmas: no panic, contests for listeners have unbeaten winners, the table is coherent, and the
  changes of a rebuild carry the files to the new table.
\<close>

record listenerBuild =
  lbListeners :: "string gomap"                       \<comment> \<open>from listener names to keys\<close>
  lbConfigs :: "TransportServerConfiguration gomap"   \<comment> \<open>the objects by key\<close>

definition listenerWarning :: "string \<Rightarrow> string" where
  "listenerWarning l = ''listener '' @ l @ '' is taken by another resource''"

definition addTSWarning :: "string \<Rightarrow> TransportServerConfiguration \<Rightarrow> TransportServerConfiguration" where
  "addTSWarning w tsc = tsc\<lparr>tscWarnings := tscWarnings tsc @ [w]\<rparr>"

definition tscWins :: "TransportServerConfiguration \<Rightarrow> TransportServerConfiguration \<Rightarrow> bool" where
  "tscWins a b = Wins (TransportServerRes a) (TransportServerRes b)"

definition claimListener :: "string \<Rightarrow> string \<Rightarrow> listenerBuild \<Rightarrow> listenerBuild option" where
  "claimListener key l b =
     (case gget (lbListeners b) l of
        None \<Rightarrow> Some (b\<lparr>lbListeners := gput l key (lbListeners b)\<rparr>)
      | Some holderKey \<Rightarrow>
          (case (gget (lbConfigs b) holderKey, gget (lbConfigs b) key) of
             (Some holder, Some tsc) \<Rightarrow>
               Some (if \<not> tscWins holder tsc
                     then b\<lparr>lbListeners := gput l key (lbListeners b),
                            lbConfigs := gput holderKey (addTSWarning (listenerWarning l) holder) (lbConfigs b)\<rparr>
                     else b\<lparr>lbConfigs := gput key (addTSWarning (listenerWarning l) tsc) (lbConfigs b)\<rparr>)
           | _ \<Rightarrow> None))"

definition findListener :: "GlobalConfiguration \<Rightarrow> TransportServer \<Rightarrow> Listener option" where
  "findListener gc ts =
     find (\<lambda>l. tslName (tssListener (tsSpec ts)) = lsName l \<and> tslProtocol (tssListener (tsSpec ts)) = lsProtocol l)
       (gcsListeners (gcSpec gc))"

definition addTransportServer ::
    "GlobalConfiguration option \<Rightarrow> string \<times> TransportServer \<Rightarrow> listenerBuild \<Rightarrow> listenerBuild option" where
  "addTransportServer globalConfiguration entry b =
     (case entry of (key, ts) \<Rightarrow>
        if tslProtocol (tssListener (tsSpec ts)) = TLSPassthroughListenerProtocol then Some b
        else (let tsc = NewTransportServerConfiguration ts;
                  b1 = b\<lparr>lbConfigs := gput key tsc (lbConfigs b)\<rparr>
              in case globalConfiguration of
                   None \<Rightarrow> Some b1
                 | Some gc \<Rightarrow>
                     (case findListener gc ts of
                        None \<Rightarrow> Some b1
                      | Some listener \<Rightarrow>
                          claimListener key (lsName listener)
                            (b\<lparr>lbConfigs := gput key (tsc\<lparr>tscListenerPort := lsPort listener\<rparr>) (lbConfigs b)\<rparr>))))"

text \<open>The stored TransportServers are visited in the map's own order.\<close>

definition buildListenersAndTSConfigurations :: "Configuration \<Rightarrow> listenerBuild option" where
  "buildListenersAndTSConfigurations c =
     foldOpt (addTransportServer (cGlobalConfiguration c)) (cTransportServers c) \<lparr>lbListeners = [], lbConfigs = []\<rparr>"

definition derefListeners ::
    "string gomap \<Rightarrow> TransportServerConfiguration gomap \<Rightarrow> TransportServerConfiguration gomap option" where
  "derefListeners listeners configs = mapOpt (\<lambda>(l, p). map_option (Pair l) (gget configs p)) listeners"

text \<open>
  The lookup of the latest version asks for a key with its kind in a map whose keys have none,
  as the code does.
\<close>

definition referToLatestTSConfigs :: "TransportServerConfiguration gomap \<Rightarrow> ResourceChange list \<Rightarrow> ResourceChange list" where
  "referToLatestTSConfigs newTSConfigs changes =
     map (\<lambda>c. case gget newTSConfigs (changeKey c) of None \<Rightarrow> c | Some r \<Rightarrow> c\<lparr>rcResource := TransportServerRes r\<rparr>) changes"

definition addTSProblem ::
    "TransportServerConfiguration gomap \<Rightarrow> TransportServerConfiguration \<Rightarrow> ConfigurationProblem gomap \<Rightarrow> ConfigurationProblem gomap" where
  "addTSProblem listeners tsc problems =
     (let l = tslName (tssListener (tsSpec (tscTransportServer tsc)));
          key = GetKeyWithKind (TransportServerRes tsc);
          obj = TransportServerObj (tscTransportServer tsc)
      in case gget listeners l of
           None \<Rightarrow> gput key (warningProblem obj ''Rejected'' (''Listener '' @ l @ '' doesn'' @ [CHR 0x27] @ ''t exist'')) problems
         | Some holder \<Rightarrow>
             (if \<not> transportServerConfigurationsEqual tsc holder
              then gput key (warningProblem obj ''Rejected'' (''Listener '' @ l @ '' is taken by another resource'')) problems
              else problems))"

definition addProblemsForTSConfigsWithoutActiveListener ::
    "TransportServerConfiguration gomap \<Rightarrow> TransportServerConfiguration gomap \<Rightarrow> ConfigurationProblem gomap \<Rightarrow> ConfigurationProblem gomap" where
  "addProblemsForTSConfigsWithoutActiveListener listeners tsConfigs problems =
     fold (addTSProblem listeners) (map snd tsConfigs) problems"

definition changesForListeners ::
    "TransportServerConfiguration gomap \<Rightarrow> TransportServerConfiguration gomap \<Rightarrow> ResourceChange list option" where
  "changesForListeners oldListeners newListeners =
     (case detectChangesInListeners oldListeners newListeners of
        (removed, updated, added) \<Rightarrow> createResourceChangesForListeners removed updated added oldListeners newListeners)"

definition buildListeners ::
    "Configuration \<Rightarrow> (TransportServerConfiguration gomap \<times> TransportServerConfiguration gomap) option" where
  "buildListeners c =
     (case buildListenersAndTSConfigurations c of
        None \<Rightarrow> None
      | Some b \<Rightarrow> map_option (\<lambda>newListeners. (newListeners, lbConfigs b)) (derefListeners (lbListeners b) (lbConfigs b)))"

definition rebuildListeners :: "Configuration \<Rightarrow> (Configuration \<times> ResourceChange list \<times> ConfigurationProblem list) option" where
  "rebuildListeners c =
     (case buildListeners c of
        None \<Rightarrow> None
      | Some (newListeners, newTSConfigs) \<Rightarrow>
          map_option (\<lambda>changes.
              (let newProblems = addProblemsForTSConfigsWithoutActiveListener newListeners newTSConfigs []
               in (c\<lparr>cListeners := newListeners, cListenerProblems := newProblems\<rparr>,
                   referToLatestTSConfigs newTSConfigs (squashResourceChanges changes),
                   detectChangesInProblems newProblems (cListenerProblems c))))
            (changesForListeners (cListeners c) newListeners))"

section \<open>Listeners as a table of resources\<close>

definition asResources :: "TransportServerConfiguration gomap \<Rightarrow> Resource gomap" where
  "asResources m = map (\<lambda>(k, tsc). (k, TransportServerRes tsc)) m"

lemma gget_asResources [simp]: "gget (asResources m) k = map_option TransportServerRes (gget m k)"
  by (simp add: asResources_def map_of_map)

lemma fst_asResources: "map fst (asResources m) = map fst m"
  by (simp add: asResources_def comp_def split_def)

lemma wf_asResources [simp]: "wf_gomap (asResources m) = wf_gomap m"
  by (simp add: wf_gomap_def fst_asResources)

lemma ghas_asResources [simp]: "ghas (asResources m) k = ghas m k"
  by (simp add: ghas_def)

lemma sortedKeys_asResources [simp]: "sortedKeys (asResources m) = sortedKeys m"
  by (simp add: sortedKeys_def fst_asResources)

lemma insort_key_map: "insort_key f (g x) (map g xs) = map g (insort_key (f \<circ> g) x xs)"
  by (induction xs) auto

lemma sortedEntries_asResources:
  "sortedEntries (asResources m) = map (\<lambda>(k, tsc). (k, TransportServerRes tsc)) (sortedEntries m)"
proof (induction m)
  case (Cons p m)
  have "fst \<circ> (\<lambda>(k, tsc). (k, TransportServerRes tsc)) = (fst :: string \<times> TransportServerConfiguration \<Rightarrow> string)"
    by (auto simp: fun_eq_iff)
  with Cons show ?case
    by (simp add: sortedEntries_def asResources_def insort_key_map)
qed (simp add: sortedEntries_def asResources_def)

lemma detect_asResources: "detectChangesInListeners old new = detectChangesInHosts (asResources old) (asResources new)"
proof -
  have "filter (\<lambda>(h, newR). case gget (asResources old) h of None \<Rightarrow> False | Some oldR \<Rightarrow> \<not> IsEqual oldR newR)
        (map (\<lambda>(k, tsc). (k, TransportServerRes tsc)) es)
      = map (\<lambda>(k, tsc). (k, TransportServerRes tsc))
          (filter (\<lambda>(l, newR). case gget old l of None \<Rightarrow> False | Some oldR \<Rightarrow> \<not> transportServerConfigurationsEqual oldR newR) es)"
    for es :: "(string \<times> TransportServerConfiguration) list"
    by (induction es) (auto split: option.splits)
  then show ?thesis
    by (simp add: detectChangesInListeners_def detectChangesInHosts_def sortedEntries_asResources comp_def split_def)
qed

lemma mapOpt_comp: "mapOpt (\<lambda>x. map_option g (f x)) xs = map_option (map g) (mapOpt f xs)"
  by (induction xs) (auto split: option.splits)

lemma create_asResources:
  "createResourceChangesForListeners removed updated added old new
     = createResourceChangesForHosts removed updated added (asResources old) (asResources new)"
proof -
  let ?T = "TransportServerRes"
  have one: "mapOpt (gget (asResources m)) xs = map_option (map ?T) (mapOpt (gget m) xs)" for m xs
    using mapOpt_comp [of ?T "gget m" xs] by simp
  have "(\<lambda>h. case gget (asResources old) h of None \<Rightarrow> None | Some old' \<Rightarrow> map_option (Pair old') (gget (asResources new) h))
      = (\<lambda>h. map_option (map_prod ?T ?T) (case gget old h of None \<Rightarrow> None | Some old' \<Rightarrow> map_option (Pair old') (gget new h)))"
    by (auto simp: fun_eq_iff option.map_comp comp_def split: option.splits)
  then have two: "mapOpt (\<lambda>h. case gget (asResources old) h of None \<Rightarrow> None
        | Some old' \<Rightarrow> map_option (Pair old') (gget (asResources new) h)) xs
      = map_option (map (map_prod ?T ?T)) (mapOpt (\<lambda>h. case gget old h of None \<Rightarrow> None
        | Some old' \<Rightarrow> map_option (Pair old') (gget new h)) xs)" for xs
    by (simp add: mapOpt_comp)
  have "filter (\<lambda>(o', n'). GetKeyWithKind o' \<noteq> GetKeyWithKind n') (map (map_prod ?T ?T) ps)
      = map (map_prod ?T ?T) (filter (\<lambda>(o', n'). GetKeyWithKind (?T o') \<noteq> GetKeyWithKind (?T n')) ps)" for ps
    by (induction ps) auto
  then show ?thesis
    unfolding createResourceChangesForListeners_def createResourceChangesForHosts_def one two
    by (auto split: option.splits simp del: GetKeyWithKind.simps)
qed

lemma changes_asResources: "changesForListeners old new = changesForHosts (asResources old) (asResources new)"
  by (simp add: changesForListeners_def changesForHosts_def detect_asResources create_asResources)

section \<open>The contest for the listeners\<close>

definition tsListenerName :: "TransportServer \<Rightarrow> string" where
  "tsListenerName ts = tslName (tssListener (tsSpec ts))"

text \<open>The listener a TransportServer asks for, if the GlobalConfiguration defines it.\<close>

definition wantedListener :: "GlobalConfiguration option \<Rightarrow> TransportServer \<Rightarrow> Listener option" where
  "wantedListener globalConfiguration ts =
     (if tslProtocol (tssListener (tsSpec ts)) = TLSPassthroughListenerProtocol then None
      else case globalConfiguration of None \<Rightarrow> None | Some gc \<Rightarrow> findListener gc ts)"

lemma wantedListener_name: "wantedListener g ts = Some l \<Longrightarrow> lsName l = tsListenerName ts"
  by (auto simp: wantedListener_def findListener_def tsListenerName_def find_Some_iff split: if_splits option.splits)

definition listenerClaims :: "GlobalConfiguration option \<Rightarrow> string \<times> TransportServer \<Rightarrow> claim set" where
  "listenerClaims g entry =
     (case wantedListener g (snd entry) of None \<Rightarrow> {} | Some l \<Rightarrow> {(lsName l, fst entry, tsMeta (snd entry))})"

definition tscFor :: "GlobalConfiguration option \<Rightarrow> TransportServer \<Rightarrow> TransportServerConfiguration \<Rightarrow> bool" where
  "tscFor g ts tsc =
     (tscTransportServer tsc = ts
      \<and> tscListenerPort tsc = (case wantedListener g ts of None \<Rightarrow> 0 | Some l \<Rightarrow> lsPort l))"

definition listenerInv ::
    "GlobalConfiguration option \<Rightarrow> TransportServer gomap \<Rightarrow> string set \<Rightarrow> claim set \<Rightarrow> listenerBuild \<Rightarrow> bool" where
  "listenerInv g tss P C b =
     (wf_gomap (lbListeners b) \<and> wf_gomap (lbConfigs b) \<and> gkeys (lbConfigs b) \<subseteq> P
      \<and> (\<forall>k tsc. gget (lbConfigs b) k = Some tsc \<longrightarrow> (\<exists>ts. gget tss k = Some ts \<and> tscFor g ts tsc))
      \<and> (\<forall>l k m. (l, k, m) \<in> C \<longrightarrow>
           (\<exists>tsc. gget (lbConfigs b) k = Some tsc \<and> tsMeta (tscTransportServer tsc) = m
                  \<and> tsListenerName (tscTransportServer tsc) = l))
      \<and> contested C (lbListeners b))"

lemma listenerInvD:
  assumes "listenerInv g tss P C b"
  shows "wf_gomap (lbListeners b)" "wf_gomap (lbConfigs b)" "gkeys (lbConfigs b) \<subseteq> P"
    and "gget (lbConfigs b) k = Some tsc \<Longrightarrow> \<exists>ts. gget tss k = Some ts \<and> tscFor g ts tsc"
    and "(l, k, m) \<in> C \<Longrightarrow> \<exists>tsc. gget (lbConfigs b) k = Some tsc \<and> tsMeta (tscTransportServer tsc) = m
                  \<and> tsListenerName (tscTransportServer tsc) = l"
    and "contested C (lbListeners b)"
  using assms unfolding listenerInv_def by blast+

lemma addTSWarning_simps [simp]:
  "tscTransportServer (addTSWarning w tsc) = tscTransportServer tsc" "tscListenerPort (addTSWarning w tsc) = tscListenerPort tsc"
  by (simp_all add: addTSWarning_def)

lemma tscFor_warning [simp]: "tscFor g ts (addTSWarning w tsc) = tscFor g ts tsc"
  by (simp add: tscFor_def)

lemma listenerInv_config:
  assumes inv: "listenerInv g tss P C b" and k: "k \<notin> P" and ts: "gget tss k = Some ts" "tscFor g ts tsc"
  shows "listenerInv g tss (insert k P) C (b\<lparr>lbConfigs := gput k tsc (lbConfigs b)\<rparr>)"
proof -
  have "gget (lbConfigs b) k = None" using listenerInvD(3) [OF inv] k by (auto simp: gget_None_iff)
  then have "\<exists>tsc'. gget (gput k tsc (lbConfigs b)) k' = Some tsc' \<and> tsMeta (tscTransportServer tsc') = m
      \<and> tsListenerName (tscTransportServer tsc') = l" if "(l, k', m) \<in> C" for l k' m
    using listenerInvD(5) [OF inv that] by auto
  then show ?thesis
    using listenerInvD(1-3) [OF inv] listenerInvD(4) [OF inv] listenerInvD(6) [OF inv] ts
    unfolding listenerInv_def by auto
qed

lemma listenerInv_warning:
  assumes inv: "listenerInv g tss P C b" and tsc: "gget (lbConfigs b) k = Some tsc"
  shows "listenerInv g tss P C (b\<lparr>lbConfigs := gput k (addTSWarning w tsc) (lbConfigs b)\<rparr>)"
proof -
  have "k \<in> P" using listenerInvD(3) [OF inv] gget_in_keys [OF tsc] by blast
  moreover have "\<exists>tsc'. gget (gput k (addTSWarning w tsc) (lbConfigs b)) k' = Some tsc' \<and> tsMeta (tscTransportServer tsc') = m
      \<and> tsListenerName (tscTransportServer tsc') = l" if "(l, k', m) \<in> C" for l k' m
    using listenerInvD(5) [OF inv that] tsc by auto
  moreover have "\<exists>ts. gget tss k' = Some ts \<and> tscFor g ts tsc'"
    if "gget (gput k (addTSWarning w tsc) (lbConfigs b)) k' = Some tsc'" for k' tsc'
    using that listenerInvD(4) [OF inv] tsc by (auto split: if_splits)
  ultimately show ?thesis
    using listenerInvD(1-3) [OF inv] listenerInvD(6) [OF inv] unfolding listenerInv_def by simp
qed

lemma claimListener_contest:
  assumes inv: "listenerInv g tss P C b"
    and tsc: "gget (lbConfigs b) key = Some tsc" and l: "tsListenerName (tscTransportServer tsc) = l"
  shows "\<exists>b'. claimListener key l b = Some b' \<and> listenerInv g tss P (insert (l, key, tsMeta (tscTransportServer tsc)) C) b'"
proof -
  let ?m = "tsMeta (tscTransportServer tsc)"
  note con = listenerInvD(6) [OF inv]
  have claim: "listenerInv g tss P (insert (l, key, ?m) C) b'"
    if "listenerInv g tss P C b'" "gget (lbConfigs b') key = Some tsc'" "tscTransportServer tsc' = tscTransportServer tsc"
      "contested (insert (l, key, ?m) C) (lbListeners b')" for b' tsc'
    using that l unfolding listenerInv_def by auto
  have move: "listenerInv g tss P (insert (l, key, ?m) C) (b'\<lparr>lbListeners := gput l key (lbListeners b')\<rparr>)"
    if "listenerInv g tss P C b'" "gget (lbConfigs b') key = Some tsc'" "tscTransportServer tsc' = tscTransportServer tsc"
      "contested (insert (l, key, ?m) C) (gput l key (lbListeners b'))" for b' tsc'
    using that l unfolding listenerInv_def by auto
  show ?thesis
  proof (cases "gget (lbListeners b) l")
    case None
    have "(l, k, m) \<notin> C" for k m using heldByD(2) [OF con] None by blast
    then have "contested (insert (l, key, ?m) C) (gput l key (lbListeners b))"
      using meta_contest.held_take [OF con] by blast
    from move [OF inv tsc refl this] None show ?thesis by (simp add: claimListener_def)
  next
    case (Some hk)
    from heldByD(1) [OF con Some] obtain hm where hm: "(l, hk, hm) \<in> C"
        "\<And>k' m'. (l, k', m') \<in> C \<Longrightarrow> \<not> chooseObjectMetaWinner m' hm" by blast
    from listenerInvD(5) [OF inv hm(1)] obtain holder where holder: "gget (lbConfigs b) hk = Some holder"
        "tsMeta (tscTransportServer holder) = hm" by blast
    show ?thesis
    proof (cases "tscWins holder tsc")
      case True
      have "\<not> chooseObjectMetaWinner ?m hm'" if "(l, hk, hm') \<in> C" for hm'
        using True that listenerInvD(5) [OF inv that] holder winner_asym by (auto simp: tscWins_def Wins_def)
      then have "contested (insert (l, key, ?m) C) (lbListeners b)"
        using meta_contest.held_keep [OF con Some] by blast
      from claim [OF listenerInv_warning [OF inv tsc, of "listenerWarning l"], of "addTSWarning (listenerWarning l) tsc"] this
      show ?thesis using Some holder tsc True by (simp add: claimListener_def)
    next
      case False
      then have "\<not> chooseObjectMetaWinner m' ?m" if "(l, k', m') \<in> C" for k' m'
        using hm(2) [OF that] holder(2) winner_negatively_transitive by (auto simp: tscWins_def Wins_def)
      then have con': "contested (insert (l, key, ?m) C) (gput l key (lbListeners b))"
        using meta_contest.held_take [OF con] by blast
      have "\<exists>tsc'. gget (gput hk (addTSWarning (listenerWarning l) holder) (lbConfigs b)) key = Some tsc'
          \<and> tscTransportServer tsc' = tscTransportServer tsc"
        using tsc holder by auto
      then obtain tsc' where tsc': "gget (gput hk (addTSWarning (listenerWarning l) holder) (lbConfigs b)) key = Some tsc'"
          "tscTransportServer tsc' = tscTransportServer tsc" by blast
      let ?b = "b\<lparr>lbConfigs := gput hk (addTSWarning (listenerWarning l) holder) (lbConfigs b)\<rparr>"
      have step: "claimListener key l b = Some (?b\<lparr>lbListeners := gput l key (lbListeners ?b)\<rparr>)"
        using Some holder(1) tsc False by (simp add: claimListener_def)
      have "listenerInv g tss P (insert (l, key, ?m) C) (?b\<lparr>lbListeners := gput l key (lbListeners ?b)\<rparr>)"
        by (rule move [OF listenerInv_warning [OF inv holder(1)] _ tsc'(2)]) (use tsc'(1) con' in simp_all)
      with step show ?thesis by blast
    qed
  qed
qed

lemma addTransportServer_step:
  assumes e: "gget tss (fst e) = Some (snd e)" and fresh: "fst e \<notin> P" and inv: "listenerInv g tss P C b"
  shows "\<exists>b'. addTransportServer g e b = Some b' \<and> listenerInv g tss (insert (fst e) P) (C \<union> listenerClaims g e) b'"
proof -
  obtain key ts where e': "e = (key, ts)" by (cases e)
  have ts: "gget tss key = Some ts" and key: "key \<notin> P" using e fresh e' by simp_all
  show ?thesis
  proof (cases "wantedListener g ts")
    case (Some l)
    let ?tsc = "(NewTransportServerConfiguration ts)\<lparr>tscListenerPort := lsPort l\<rparr>"
    let ?b = "b\<lparr>lbConfigs := gput key ?tsc (lbConfigs b)\<rparr>"
    have "tscFor g ts ?tsc" using Some by (simp add: tscFor_def NewTransportServerConfiguration_def)
    then have "listenerInv g tss (insert key P) C ?b" using listenerInv_config [OF inv key ts] by blast
    then have "\<exists>b'. claimListener key (lsName l) ?b = Some b'
        \<and> listenerInv g tss (insert key P) (insert (lsName l, key, tsMeta (tscTransportServer ?tsc)) C) b'"
      by (rule claimListener_contest)
        (use wantedListener_name [OF Some] in \<open>simp_all add: NewTransportServerConfiguration_def\<close>)
    moreover have "addTransportServer g e b = claimListener key (lsName l) ?b"
      using Some by (auto simp: e' addTransportServer_def wantedListener_def Let_def split: if_splits option.splits)
    ultimately show ?thesis
      using Some by (simp add: e' listenerClaims_def NewTransportServerConfiguration_def)
  next
    case None
    show ?thesis
    proof (cases "tslProtocol (tssListener (tsSpec ts)) = TLSPassthroughListenerProtocol")
      case True
      have "listenerInv g tss (insert key P) C b" using inv unfolding listenerInv_def by blast
      with True None show ?thesis by (simp add: e' addTransportServer_def listenerClaims_def)
    next
      case False
      let ?b = "b\<lparr>lbConfigs := gput key (NewTransportServerConfiguration ts) (lbConfigs b)\<rparr>"
      have "tscFor g ts (NewTransportServerConfiguration ts)"
        using None by (simp add: tscFor_def NewTransportServerConfiguration_def)
      then have "listenerInv g tss (insert key P) C ?b" using listenerInv_config [OF inv key ts] by blast
      moreover have "addTransportServer g e b = Some ?b"
        using None False by (auto simp: e' addTransportServer_def wantedListener_def Let_def split: option.splits)
      ultimately show ?thesis using None by (simp add: e' listenerClaims_def)
    qed
  qed
qed

theorem buildListeners_inv:
  assumes "keyedBy tsMeta (cTransportServers c)"
  shows "\<exists>b. buildListenersAndTSConfigurations c = Some b
    \<and> listenerInv (cGlobalConfiguration c) (cTransportServers c) (gkeys (cTransportServers c))
        (\<Union>e\<in>set (cTransportServers c). listenerClaims (cGlobalConfiguration c) e) b"
proof -
  let ?g = "cGlobalConfiguration c" and ?tss = "cTransportServers c"
  have wf: "wf_gomap ?tss" using assms by (simp add: keyedBy_def)
  have "\<exists>b. foldOpt (addTransportServer ?g) ?tss \<lparr>lbListeners = [], lbConfigs = []\<rparr> = Some b
      \<and> listenerInv ?g ?tss ({} \<union> fst ` set ?tss) ({} \<union> (\<Union>e\<in>set ?tss. listenerClaims ?g e)) b"
  proof (rule foldOpt_collect [where I = "listenerInv ?g ?tss" and kf = fst])
    fix e b P C
    assume e: "e \<in> set ?tss" "fst e \<notin> P" "listenerInv ?g ?tss P C b"
    have "gget ?tss (fst e) = Some (snd e)" using e(1) wf_gomap_in_set [OF wf, of "fst e" "snd e"] by simp
    then show "\<exists>b'. addTransportServer ?g e b = Some b' \<and> listenerInv ?g ?tss (insert (fst e) P) (C \<union> listenerClaims ?g e) b'"
      using addTransportServer_step e(2,3) by blast
  qed (use wf in \<open>simp_all add: wf_gomap_def listenerInv_def\<close>)
  then show ?thesis by (simp add: buildListenersAndTSConfigurations_def gkeys_def)
qed

section \<open>The table of listeners after a rebuild\<close>

fun ownsListener :: "Resource \<Rightarrow> string \<Rightarrow> bool" where
  "ownsListener (TransportServerRes tsc) l = (tsListenerName (tscTransportServer tsc) = l)"
| "ownsListener _ l = False"

interpretation listener_slots: slot_ownership ownsListener
proof
  fix a b s t
  show "IsEqual a b \<Longrightarrow> ownsListener a s \<Longrightarrow> ownsListener b s \<Longrightarrow> ownsListener a t \<Longrightarrow> ownsListener b t"
    by (cases a; cases b) auto
qed

text \<open>Who asks for a listener the GlobalConfiguration defines.\<close>

definition wants :: "Configuration \<Rightarrow> string \<Rightarrow> TransportServer \<Rightarrow> bool" where
  "wants c l ts = (ts \<in> snd ` set (cTransportServers c) \<and> (\<exists>li. wantedListener (cGlobalConfiguration c) ts = Some li \<and> lsName li = l))"

definition listenerTable :: "Configuration \<Rightarrow> TransportServerConfiguration gomap \<Rightarrow> bool" where
  "listenerTable c listeners =
     (wf_gomap listeners \<and> coherent ownsListener (asResources listeners)
      \<and> (\<forall>l tsc. gget listeners l = Some tsc \<longrightarrow>
            wants c l (tscTransportServer tsc) \<and> tscFor (cGlobalConfiguration c) (tscTransportServer tsc) tsc
            \<and> (\<forall>ts. wants c l ts \<longrightarrow> \<not> chooseObjectMetaWinner (tsMeta ts) (tsMeta (tscTransportServer tsc))))
      \<and> (\<forall>l ts. wants c l ts \<longrightarrow> gget listeners l \<noteq> None))"

lemma listenerTableD:
  assumes "listenerTable c listeners"
  shows "wf_gomap listeners" "coherent ownsListener (asResources listeners)"
    and "gget listeners l = Some tsc \<Longrightarrow> wants c l (tscTransportServer tsc)"
    and "gget listeners l = Some tsc \<Longrightarrow> tscFor (cGlobalConfiguration c) (tscTransportServer tsc) tsc"
    and "gget listeners l = Some tsc \<Longrightarrow> wants c l ts \<Longrightarrow> \<not> chooseObjectMetaWinner (tsMeta ts) (tsMeta (tscTransportServer tsc))"
    and "wants c l ts \<Longrightarrow> gget listeners l \<noteq> None"
  using assms unfolding listenerTable_def by blast+

lemma wanted_claims:
  "(l, k, m) \<in> (\<Union>e\<in>set tss. listenerClaims g e) \<longleftrightarrow>
     (\<exists>ts li. (k, ts) \<in> set tss \<and> wantedListener g ts = Some li \<and> lsName li = l \<and> tsMeta ts = m)"
  by (force simp: listenerClaims_def split: option.splits)

lemma listener_entry:
  assumes keyed: "keyedBy tsMeta (cTransportServers c)"
    and inv: "listenerInv (cGlobalConfiguration c) (cTransportServers c) P
        (\<Union>e\<in>set (cTransportServers c). listenerClaims (cGlobalConfiguration c) e) b"
    and k: "gget (lbListeners b) l = Some k" and tsc: "gget (lbConfigs b) k = Some tsc"
  shows "getResourceKey (tsMeta (tscTransportServer tsc)) = k"
    and "tsListenerName (tscTransportServer tsc) = l"
    and "wants c l (tscTransportServer tsc)"
    and "tscFor (cGlobalConfiguration c) (tscTransportServer tsc) tsc"
    and "wants c l ts \<Longrightarrow> \<not> chooseObjectMetaWinner (tsMeta ts) (tsMeta (tscTransportServer tsc))"
proof -
  let ?g = "cGlobalConfiguration c" and ?tss = "cTransportServers c"
  have wf: "wf_gomap ?tss" using keyed by (simp add: keyedBy_def)
  from listenerInvD(4) [OF inv tsc] have ts: "gget ?tss k = Some (tscTransportServer tsc)" "tscFor ?g (tscTransportServer tsc) tsc"
    by (auto simp: tscFor_def)
  from heldByD(1) [OF listenerInvD(6) [OF inv] k] obtain m where m: "(l, k, m) \<in> (\<Union>e\<in>set ?tss. listenerClaims ?g e)"
      "\<And>k' m'. (l, k', m') \<in> (\<Union>e\<in>set ?tss. listenerClaims ?g e) \<Longrightarrow> \<not> chooseObjectMetaWinner m' m" by blast
  from m(1) obtain ts' li where ts': "(k, ts') \<in> set ?tss" "wantedListener ?g ts' = Some li" "lsName li = l" "tsMeta ts' = m"
    unfolding wanted_claims by blast
  then have same: "ts' = tscTransportServer tsc" using ts(1) by (simp add: wf_gomap_in_set [OF wf])
  show "getResourceKey (tsMeta (tscTransportServer tsc)) = k"
    using keyed ts(1) by (simp add: keyedBy_def)
  show "tsListenerName (tscTransportServer tsc) = l" using wantedListener_name [OF ts'(2)] ts'(3) same by simp
  show "wants c l (tscTransportServer tsc)"
    using ts' same unfolding wants_def by (metis image_eqI snd_conv)
  show "tscFor ?g (tscTransportServer tsc) tsc" by (rule ts(2))
  assume "wants c l ts"
  then obtain k' where "(l, k', tsMeta ts) \<in> (\<Union>e\<in>set ?tss. listenerClaims ?g e)"
    unfolding wanted_claims wants_def by force
  with m(2) ts'(4) same show "\<not> chooseObjectMetaWinner (tsMeta ts) (tsMeta (tscTransportServer tsc))" by blast
qed

theorem buildListeners_table:
  assumes keyed: "keyedBy tsMeta (cTransportServers c)"
  shows "\<exists>listeners configs. buildListeners c = Some (listeners, configs) \<and> listenerTable c listeners
    \<and> wf_gomap configs \<and> gkeys configs \<subseteq> gkeys (cTransportServers c)"
proof -
  let ?g = "cGlobalConfiguration c" and ?tss = "cTransportServers c"
  let ?C = "\<Union>e\<in>set ?tss. listenerClaims ?g e"
  obtain b where b: "buildListenersAndTSConfigurations c = Some b" and inv: "listenerInv ?g ?tss (gkeys ?tss) ?C b"
    using buildListeners_inv [OF keyed] by blast
  note con = listenerInvD(6) [OF inv]
  have ptr: "\<exists>tsc. gget (lbConfigs b) k = Some tsc" if "gget (lbListeners b) l = Some k" for l k
  proof -
    from heldByD(1) [OF con that] obtain m where "(l, k, m) \<in> ?C" by (elim exE conjE)
    from listenerInvD(5) [OF inv this] show ?thesis by (elim exE conjE) (rule exI)
  qed
  have "gget (lbConfigs b) k \<noteq> None" if "(l, k) \<in> set (lbListeners b)" for l k
    using ptr [of l k] iffD1 [OF wf_gomap_in_set [OF listenerInvD(1) [OF inv]] that] by auto
  then obtain T where T: "derefListeners (lbListeners b) (lbConfigs b) = Some T"
    using mapOpt_values_total [of "lbListeners b" "gget (lbConfigs b)"] unfolding derefListeners_def by blast
  then have look: "map fst T = map fst (lbListeners b)"
      "\<And>l. gget T l = (case gget (lbListeners b) l of None \<Rightarrow> None | Some k \<Rightarrow> gget (lbConfigs b) k)"
    using mapOpt_values unfolding derefListeners_def by blast+
  have entry: "\<exists>k. gget (lbListeners b) l = Some k \<and> gget (lbConfigs b) k = Some tsc" if "gget T l = Some tsc" for l tsc
    using that look(2) [of l] by (cases "gget (lbListeners b) l") auto
  note ok = listener_entry [OF keyed inv]
  have "wf_gomap T" using wf_gomap_keys [OF look(1) listenerInvD(1) [OF inv]] .
  moreover have "coherent ownsListener (asResources T)"
    unfolding coherent_def
  proof (intro conjI allI impI)
    fix l r
    assume "gget (asResources T) l = Some r"
    then show "ownsListener r l" using entry ok(2) by fastforce
  next
    fix l l' r r'
    assume r: "gget (asResources T) l = Some r" "gget (asResources T) l' = Some r'" "GetKeyWithKind r = GetKeyWithKind r'"
    then obtain t t' where t: "r = TransportServerRes t" "gget T l = Some t" "r' = TransportServerRes t'" "gget T l' = Some t'"
      by auto
    with r(3) entry [OF t(2)] entry [OF t(4)] ok(1) show "r = r'" by fastforce
  next
    fix l l' r
    assume r: "gget (asResources T) l = Some r" and own: "ownsListener r l'"
    then obtain t where t: "r = TransportServerRes t" "gget T l = Some t" by auto
    from entry [OF t(2)] ok(2) t(1) own have "l' = l" by fastforce
    with r show "gget (asResources T) l' = Some r" by simp
  qed
  moreover have "gget T l \<noteq> None" if w: "wants c l ts" for l ts
  proof -
    obtain k' where "(l, k', tsMeta ts) \<in> ?C" using w unfolding wanted_claims wants_def by force
    from heldByD(2) [OF con this] obtain k where "gget (lbListeners b) l = Some k" by blast
    then show ?thesis using ptr look(2) [of l] by fastforce
  qed
  ultimately have "listenerTable c T" unfolding listenerTable_def using entry ok(3-5) by blast
  moreover have "buildListeners c = Some (T, lbConfigs b)" using b T by (simp add: buildListeners_def)
  ultimately show ?thesis using listenerInvD(2,3) [OF inv] by blast
qed

section \<open>The rebuild of the listeners\<close>

text \<open>Names of Kubernetes objects and namespaces have no slash.\<close>

definition plainMeta :: "ObjectMeta \<Rightarrow> bool" where
  "plainMeta m = (CHR ''/'' \<notin> set (omNamespace m) \<and> CHR ''/'' \<notin> set (omName m))"

definition plainServers :: "Configuration \<Rightarrow> bool" where
  "plainServers c = (\<forall>k ts. gget (cTransportServers c) k = Some ts \<longrightarrow> plainMeta (tsMeta ts))"

lemma notin_set_filter: "x \<notin> set xs \<Longrightarrow> filter ((=) x) xs = []"
  by (auto simp: filter_empty_conv)

lemma key_with_kind_is_no_key: "plainMeta m \<Longrightarrow> getResourceKey m \<noteq> GetKeyWithKind r"
proof
  assume plain: "plainMeta m" and eq: "getResourceKey m = GetKeyWithKind r"
  have "filter ((=) (CHR ''/'')) (getResourceKey m) = [CHR ''/'']"
    using plain by (simp add: plainMeta_def getResourceKey_def notin_set_filter)
  moreover have "2 \<le> length (filter ((=) (CHR ''/'')) (GetKeyWithKind r))"
    by (cases r) (simp_all add: getResourceKey_def)
  ultimately show False using eq by simp
qed

text \<open>
  So the lookup of the latest version of a TransportServer, which asks a map without kinds for a
  key with its kind, never finds anything.
\<close>

theorem referToLatestTSConfigs_never:
  assumes "keyedBy tsMeta (cTransportServers c)" and "plainServers c" and "gkeys configs \<subseteq> gkeys (cTransportServers c)"
  shows "referToLatestTSConfigs configs changes = changes"
proof -
  have "gget configs (changeKey ch) = None" for ch
  proof (rule ccontr)
    assume "gget configs (changeKey ch) \<noteq> None"
    then have "changeKey ch \<in> gkeys (cTransportServers c)" using assms(3) in_gkeys_iff by blast
    then obtain ts where ts: "gget (cTransportServers c) (changeKey ch) = Some ts" using in_keys_gget by blast
    then have "getResourceKey (tsMeta ts) = GetKeyWithKind (rcResource ch)" "plainMeta (tsMeta ts)"
      using assms(1,2) by (auto simp: keyedBy_def plainServers_def changeKey_def)
    with key_with_kind_is_no_key show False by metis
  qed
  then show ?thesis by (simp add: referToLatestTSConfigs_def map_idI)
qed

definition rebuiltListeners ::
    "Configuration \<Rightarrow> Configuration \<Rightarrow> ResourceChange list \<Rightarrow> ConfigurationProblem list \<Rightarrow> bool" where
  "rebuiltListeners c c' changes problems =
     (c' = c\<lparr>cListeners := cListeners c', cListenerProblems := cListenerProblems c'\<rparr>
      \<and> listenerTable c (cListeners c')
      \<and> (\<exists>cs configs. changesOf (asResources (cListeners c)) (asResources (cListeners c')) cs
            \<and> changes = referToLatestTSConfigs configs cs \<and> gkeys configs \<subseteq> gkeys (cTransportServers c))
      \<and> problems = detectChangesInProblems (cListenerProblems c') (cListenerProblems c))"

theorem rebuildListeners_total:
  assumes "keyedBy tsMeta (cTransportServers c)"
  shows "\<exists>c' changes problems. rebuildListeners c = Some (c', changes, problems) \<and> rebuiltListeners c c' changes problems"
proof -
  obtain listeners configs where b: "buildListeners c = Some (listeners, configs)" and tab: "listenerTable c listeners"
      and keys: "gkeys configs \<subseteq> gkeys (cTransportServers c)"
    using buildListeners_table [OF assms] by blast
  have wf: "wf_gomap (asResources listeners)" using listenerTableD(1) [OF tab] by simp
  obtain D U where ch: "changesForListeners (cListeners c) listeners = Some (map (newChange Delete) D @ map (newChange AddOrUpdate) U)"
      "set D = hostDeletes (asResources (cListeners c)) (asResources listeners)"
      "set U = hostUpdates (asResources (cListeners c)) (asResources listeners)"
    using changesForHosts_raw [OF wf] unfolding changes_asResources by blast
  let ?cs = "squashResourceChanges (map (newChange Delete) D @ map (newChange AddOrUpdate) U)"
  let ?ps = "addProblemsForTSConfigsWithoutActiveListener listeners configs []"
  let ?c' = "c\<lparr>cListeners := listeners, cListenerProblems := ?ps\<rparr>"
  have "rebuildListeners c = Some (?c', referToLatestTSConfigs configs ?cs, detectChangesInProblems ?ps (cListenerProblems c))"
    by (simp add: rebuildListeners_def b ch(1) Let_def)
  moreover have "changesOf (asResources (cListeners c)) (asResources listeners) ?cs" using ch(2,3) by (auto simp: changesOf_def)
  then have "rebuiltListeners c ?c' (referToLatestTSConfigs configs ?cs) (detectChangesInProblems ?ps (cListenerProblems c))"
    using tab keys unfolding rebuiltListeners_def by auto
  ultimately show ?thesis by blast
qed

theorem rebuildListeners_files:
  assumes reb: "rebuiltListeners c c' changes problems" and keyed: "keyedBy tsMeta (cTransportServers c)" and plain: "plainServers c"
    and coh: "coherent ownsListener (asResources (cListeners c))" and refl: "reflectsOn K files (asResources (cListeners c))"
  shows "reflectsOn K (applyChanges changes files) (asResources (cListeners c'))"
proof -
  have tab: "listenerTable c (cListeners c')" using reb unfolding rebuiltListeners_def by (elim conjE)
  obtain cs configs where cs: "changesOf (asResources (cListeners c)) (asResources (cListeners c')) cs"
      "changes = referToLatestTSConfigs configs cs" "gkeys configs \<subseteq> gkeys (cTransportServers c)"
    using reb unfolding rebuiltListeners_def by (elim conjE exE) (rule that)
  have "changes = cs" using cs(2) referToLatestTSConfigs_never [OF keyed plain cs(3)] by simp
  then show ?thesis
    using listener_slots.changes_carry_files [OF coh listenerTableD(2) [OF tab] refl cs(1)] by simp
qed

end
