(* ===== verification/Reference_Checkers.thy ===== *)
theory Reference_Checkers
  imports Resources
begin

text \<open>
  \<open>internal/k8s/reference_checkers.go\<close>: who references a Secret, a Service (or its Endpoints), a
  Policy or an App Protect resource. The Go interface \<open>resourceReferenceChecker\<close> is a record of
  its five methods and every implementation is a value of it. The locale \<open>reference_checker\<close>
  states what a checker promises: it decides membership in the set of references of an object.
  Every checker of the code is an interpretation.
\<close>

record resourceReferenceChecker =
  IsReferencedByIngress :: "string \<Rightarrow> string \<Rightarrow> Ingress \<Rightarrow> bool"
  IsReferencedByMinion :: "string \<Rightarrow> string \<Rightarrow> Ingress \<Rightarrow> bool"
  IsReferencedByVirtualServer :: "string \<Rightarrow> string \<Rightarrow> VirtualServer \<Rightarrow> bool"
  IsReferencedByVirtualServerRoute :: "string \<Rightarrow> string \<Rightarrow> VirtualServerRoute \<Rightarrow> bool"
  IsReferencedByTransportServer :: "string \<Rightarrow> string \<Rightarrow> TransportServer \<Rightarrow> bool"

section \<open>Secrets\<close>

definition JWTKeyAnnotation :: string where "JWTKeyAnnotation = ''nginx.com/jwt-key''"
definition AppProtectPolicyAnnotation :: string where "AppProtectPolicyAnnotation = ''appprotect.f5.com/app-protect-policy''"
definition AppProtectLogConfAnnotation :: string where "AppProtectLogConfAnnotation = ''appprotect.f5.com/app-protect-security-log''"

definition jwtKeyIs :: "bool \<Rightarrow> string \<Rightarrow> Ingress \<Rightarrow> bool" where
  "jwtKeyIs isPlus secretName ing = (isPlus \<and> gget (omAnnotations (ingMeta ing)) JWTKeyAnnotation = Some secretName)"

definition secretByIngress :: "bool \<Rightarrow> string \<Rightarrow> string \<Rightarrow> Ingress \<Rightarrow> bool" where
  "secretByIngress isPlus secretNamespace secretName ing =
     (if omNamespace (ingMeta ing) \<noteq> secretNamespace then False
      else if list_ex (\<lambda>tls. itSecretName tls = secretName) (isTLS (ingSpec ing)) then True
      else jwtKeyIs isPlus secretName ing)"

definition secretByMinion :: "bool \<Rightarrow> string \<Rightarrow> string \<Rightarrow> Ingress \<Rightarrow> bool" where
  "secretByMinion isPlus secretNamespace secretName ing =
     (if omNamespace (ingMeta ing) \<noteq> secretNamespace then False else jwtKeyIs isPlus secretName ing)"

definition secretByVirtualServer :: "string \<Rightarrow> string \<Rightarrow> VirtualServer \<Rightarrow> bool" where
  "secretByVirtualServer secretNamespace secretName vs =
     (if omNamespace (vsMeta vs) \<noteq> secretNamespace then False
      else case vssTLS (vsSpec vs) of None \<Rightarrow> False | Some tls \<Rightarrow> tlSecret tls = secretName)"

definition newSecretReferenceChecker :: "bool \<Rightarrow> resourceReferenceChecker" where
  "newSecretReferenceChecker isPlus =
     \<lparr>IsReferencedByIngress = secretByIngress isPlus,
      IsReferencedByMinion = secretByMinion isPlus,
      IsReferencedByVirtualServer = secretByVirtualServer,
      IsReferencedByVirtualServerRoute = (\<lambda>_ _ _. False),
      IsReferencedByTransportServer = (\<lambda>_ _ _. False)\<rparr>"

section \<open>Services and Endpoints\<close>

definition ruleUsesService :: "string \<Rightarrow> IngressRule \<Rightarrow> bool" where
  "ruleUsesService svcName rule =
     (case irHTTP rule of None \<Rightarrow> False
      | Some http \<Rightarrow> list_ex (\<lambda>p. ibServiceName (hpBackend p) = svcName) (hrPaths http))"

definition serviceByIngress :: "string \<Rightarrow> string \<Rightarrow> Ingress \<Rightarrow> bool" where
  "serviceByIngress svcNamespace svcName ing =
     (if omNamespace (ingMeta ing) \<noteq> svcNamespace then False
      else if (case isBackend (ingSpec ing) of None \<Rightarrow> False | Some b \<Rightarrow> ibServiceName b = svcName) then True
      else list_ex (ruleUsesService svcName) (isRules (ingSpec ing)))"

definition upstreamUses :: "bool \<Rightarrow> string \<Rightarrow> Upstream \<Rightarrow> bool" where
  "upstreamUses hasClusterIP svcName u = (\<not> (hasClusterIP \<and> uUseClusterIP u) \<and> uService u = svcName)"

definition serviceByVirtualServer :: "bool \<Rightarrow> string \<Rightarrow> string \<Rightarrow> VirtualServer \<Rightarrow> bool" where
  "serviceByVirtualServer hasClusterIP svcNamespace svcName vs =
     (if omNamespace (vsMeta vs) \<noteq> svcNamespace then False
      else list_ex (upstreamUses hasClusterIP svcName) (vssUpstreams (vsSpec vs)))"

definition serviceByVirtualServerRoute :: "bool \<Rightarrow> string \<Rightarrow> string \<Rightarrow> VirtualServerRoute \<Rightarrow> bool" where
  "serviceByVirtualServerRoute hasClusterIP svcNamespace svcName vsr =
     (if omNamespace (vsrMeta vsr) \<noteq> svcNamespace then False
      else list_ex (upstreamUses hasClusterIP svcName) (vrsUpstreams (vsrSpec vsr)))"

definition serviceByTransportServer :: "string \<Rightarrow> string \<Rightarrow> TransportServer \<Rightarrow> bool" where
  "serviceByTransportServer svcNamespace svcName ts =
     (if omNamespace (tsMeta ts) \<noteq> svcNamespace then False
      else list_ex (\<lambda>u. tuService u = svcName) (tssUpstreams (tsSpec ts)))"

definition newServiceReferenceChecker :: "bool \<Rightarrow> resourceReferenceChecker" where
  "newServiceReferenceChecker hasClusterIP =
     \<lparr>IsReferencedByIngress = serviceByIngress,
      IsReferencedByMinion = serviceByIngress,
      IsReferencedByVirtualServer = serviceByVirtualServer hasClusterIP,
      IsReferencedByVirtualServerRoute = serviceByVirtualServerRoute hasClusterIP,
      IsReferencedByTransportServer = serviceByTransportServer\<rparr>"

section \<open>Policies\<close>

fun isPolicyReferenced :: "PolicyReference list \<Rightarrow> string \<Rightarrow> string \<Rightarrow> string \<Rightarrow> bool" where
  "isPolicyReferenced [] resourceNamespace policyNamespace policyName = False"
| "isPolicyReferenced (p # ps) resourceNamespace policyNamespace policyName =
     (let namespace = (if prNamespace p = '''' then resourceNamespace else prNamespace p)
      in if prName p = policyName \<and> namespace = policyNamespace then True
         else isPolicyReferenced ps resourceNamespace policyNamespace policyName)"

definition policyByVirtualServer :: "string \<Rightarrow> string \<Rightarrow> VirtualServer \<Rightarrow> bool" where
  "policyByVirtualServer policyNamespace policyName vs =
     (if isPolicyReferenced (vssPolicies (vsSpec vs)) (omNamespace (vsMeta vs)) policyNamespace policyName then True
      else list_ex (\<lambda>r. isPolicyReferenced (rtPolicies r) (omNamespace (vsMeta vs)) policyNamespace policyName)
             (vssRoutes (vsSpec vs)))"

definition policyByVirtualServerRoute :: "string \<Rightarrow> string \<Rightarrow> VirtualServerRoute \<Rightarrow> bool" where
  "policyByVirtualServerRoute policyNamespace policyName vsr =
     list_ex (\<lambda>r. isPolicyReferenced (rtPolicies r) (omNamespace (vsrMeta vsr)) policyNamespace policyName)
       (vrsSubroutes (vsrSpec vsr))"

definition newPolicyReferenceChecker :: resourceReferenceChecker where
  "newPolicyReferenceChecker =
     \<lparr>IsReferencedByIngress = (\<lambda>_ _ _. False),
      IsReferencedByMinion = (\<lambda>_ _ _. False),
      IsReferencedByVirtualServer = policyByVirtualServer,
      IsReferencedByVirtualServerRoute = policyByVirtualServerRoute,
      IsReferencedByTransportServer = (\<lambda>_ _ _. False)\<rparr>"

section \<open>App Protect resources\<close>

definition annotationByIngress :: "string \<Rightarrow> string \<Rightarrow> string \<Rightarrow> Ingress \<Rightarrow> bool" where
  "annotationByIngress annotation namespace name ing =
     (case gget (omAnnotations (ingMeta ing)) annotation of
        None \<Rightarrow> False
      | Some pol \<Rightarrow> pol = namespace @ ''/'' @ name \<or> (namespace = omNamespace (ingMeta ing) \<and> pol = name))"

definition newAppProtectResourceReferenceChecker :: "string \<Rightarrow> resourceReferenceChecker" where
  "newAppProtectResourceReferenceChecker annotation =
     \<lparr>IsReferencedByIngress = annotationByIngress annotation,
      IsReferencedByMinion = (\<lambda>_ _ _. False),
      IsReferencedByVirtualServer = (\<lambda>_ _ _. False),
      IsReferencedByVirtualServerRoute = (\<lambda>_ _ _. False),
      IsReferencedByTransportServer = (\<lambda>_ _ _. False)\<rparr>"

section \<open>The resources that reference something\<close>

definition isReferencedByResource :: "resourceReferenceChecker \<Rightarrow> string \<Rightarrow> string \<Rightarrow> Resource \<Rightarrow> bool" where
  "isReferencedByResource checker namespace name r =
     (case r of
        IngressRes impl \<Rightarrow>
          IsReferencedByIngress checker namespace name (icIngress impl)
          \<or> list_ex (\<lambda>fm. IsReferencedByMinion checker namespace name (mcIngress fm)) (icMinions impl)
      | VirtualServerRes impl \<Rightarrow>
          IsReferencedByVirtualServer checker namespace name (vscVirtualServer impl)
          \<or> list_ex (IsReferencedByVirtualServerRoute checker namespace name) (vscVirtualServerRoutes impl)
      | TransportServerRes impl \<Rightarrow> IsReferencedByTransportServer checker namespace name (tscTransportServer impl))"

section \<open>What a checker promises\<close>

text \<open>A reference is the namespace and the name of what is referenced.\<close>

type_synonym reference = "string \<times> string"

locale reference_checker =
  fixes checker :: resourceReferenceChecker
    and ingressRefs minionRefs :: "Ingress \<Rightarrow> reference set"
    and vsRefs :: "VirtualServer \<Rightarrow> reference set"
    and vsrRefs :: "VirtualServerRoute \<Rightarrow> reference set"
    and tsRefs :: "TransportServer \<Rightarrow> reference set"
  assumes by_ingress: "IsReferencedByIngress checker ns n ing \<longleftrightarrow> (ns, n) \<in> ingressRefs ing"
    and by_minion: "IsReferencedByMinion checker ns n ing \<longleftrightarrow> (ns, n) \<in> minionRefs ing"
    and by_vs: "IsReferencedByVirtualServer checker ns n vs \<longleftrightarrow> (ns, n) \<in> vsRefs vs"
    and by_vsr: "IsReferencedByVirtualServerRoute checker ns n vsr \<longleftrightarrow> (ns, n) \<in> vsrRefs vsr"
    and by_ts: "IsReferencedByTransportServer checker ns n ts \<longleftrightarrow> (ns, n) \<in> tsRefs ts"
begin

fun resourceRefs :: "Resource \<Rightarrow> reference set" where
  "resourceRefs (IngressRes ic) = ingressRefs (icIngress ic) \<union> (\<Union>m\<in>set (icMinions ic). minionRefs (mcIngress m))"
| "resourceRefs (VirtualServerRes vsc) =
     vsRefs (vscVirtualServer vsc) \<union> (\<Union>vsr\<in>set (vscVirtualServerRoutes vsc). vsrRefs vsr)"
| "resourceRefs (TransportServerRes tsc) = tsRefs (tscTransportServer tsc)"

lemma by_resource: "isReferencedByResource checker ns n r \<longleftrightarrow> (ns, n) \<in> resourceRefs r"
  by (cases r) (auto simp: isReferencedByResource_def list_ex_iff by_ingress by_minion by_vs by_vsr by_ts)

end

subsection \<open>The references of the objects\<close>

definition ingressNs :: "Ingress \<Rightarrow> string" where "ingressNs ing = omNamespace (ingMeta ing)"

definition jwtSecrets :: "bool \<Rightarrow> Ingress \<Rightarrow> reference set" where
  "jwtSecrets isPlus ing = {(ingressNs ing, s) |s. isPlus \<and> gget (omAnnotations (ingMeta ing)) JWTKeyAnnotation = Some s}"

definition tlsSecrets :: "Ingress \<Rightarrow> reference set" where
  "tlsSecrets ing = (\<lambda>tls. (ingressNs ing, itSecretName tls)) ` set (isTLS (ingSpec ing))"

definition vsSecrets :: "VirtualServer \<Rightarrow> reference set" where
  "vsSecrets vs = {(omNamespace (vsMeta vs), tlSecret tls) |tls. vssTLS (vsSpec vs) = Some tls}"

interpretation secretChecker: reference_checker "newSecretReferenceChecker isPlus"
    "\<lambda>ing. tlsSecrets ing \<union> jwtSecrets isPlus ing" "jwtSecrets isPlus" vsSecrets "\<lambda>_. {}" "\<lambda>_. {}" for isPlus
  by unfold_locales
    (auto simp: newSecretReferenceChecker_def secretByIngress_def secretByMinion_def secretByVirtualServer_def jwtKeyIs_def
      jwtSecrets_def tlsSecrets_def vsSecrets_def ingressNs_def list_ex_iff split: option.splits)

definition ingressServices :: "Ingress \<Rightarrow> reference set" where
  "ingressServices ing =
     {(ingressNs ing, ibServiceName b) |b. isBackend (ingSpec ing) = Some b}
     \<union> {(ingressNs ing, ibServiceName (hpBackend p)) |rule http p.
          rule \<in> set (isRules (ingSpec ing)) \<and> irHTTP rule = Some http \<and> p \<in> set (hrPaths http)}"

definition upstreamServices :: "bool \<Rightarrow> string \<Rightarrow> Upstream list \<Rightarrow> reference set" where
  "upstreamServices hasClusterIP ns us = (\<lambda>u. (ns, uService u)) ` {u \<in> set us. \<not> (hasClusterIP \<and> uUseClusterIP u)}"

definition tsServices :: "TransportServer \<Rightarrow> reference set" where
  "tsServices ts = (\<lambda>u. (omNamespace (tsMeta ts), tuService u)) ` set (tssUpstreams (tsSpec ts))"

lemma serviceByIngress_iff: "serviceByIngress ns n ing \<longleftrightarrow> (ns, n) \<in> ingressServices ing"
  by (force simp: serviceByIngress_def ruleUsesService_def ingressServices_def ingressNs_def list_ex_iff split: option.splits)

interpretation serviceChecker: reference_checker "newServiceReferenceChecker hasClusterIP" ingressServices ingressServices
    "\<lambda>vs. upstreamServices hasClusterIP (omNamespace (vsMeta vs)) (vssUpstreams (vsSpec vs))"
    "\<lambda>vsr. upstreamServices hasClusterIP (omNamespace (vsrMeta vsr)) (vrsUpstreams (vsrSpec vsr))" tsServices for hasClusterIP
  by unfold_locales
    (auto simp: newServiceReferenceChecker_def serviceByIngress_iff serviceByVirtualServer_def serviceByVirtualServerRoute_def
      serviceByTransportServer_def upstreamUses_def upstreamServices_def tsServices_def list_ex_iff)

definition policyRefs :: "string \<Rightarrow> PolicyReference list \<Rightarrow> reference set" where
  "policyRefs ns ps = (\<lambda>p. (if prNamespace p = '''' then ns else prNamespace p, prName p)) ` set ps"

lemma isPolicyReferenced_iff: "isPolicyReferenced ps ns pns pn \<longleftrightarrow> (pns, pn) \<in> policyRefs ns ps"
  by (induction ps) (auto simp: policyRefs_def Let_def)

definition vsPolicies :: "VirtualServer \<Rightarrow> reference set" where
  "vsPolicies vs = policyRefs (omNamespace (vsMeta vs)) (vssPolicies (vsSpec vs))
     \<union> (\<Union>r\<in>set (vssRoutes (vsSpec vs)). policyRefs (omNamespace (vsMeta vs)) (rtPolicies r))"

definition vsrPolicies :: "VirtualServerRoute \<Rightarrow> reference set" where
  "vsrPolicies vsr = (\<Union>r\<in>set (vrsSubroutes (vsrSpec vsr)). policyRefs (omNamespace (vsrMeta vsr)) (rtPolicies r))"

interpretation policyChecker: reference_checker newPolicyReferenceChecker "\<lambda>_. {}" "\<lambda>_. {}" vsPolicies vsrPolicies "\<lambda>_. {}"
  by unfold_locales
    (auto simp: newPolicyReferenceChecker_def policyByVirtualServer_def policyByVirtualServerRoute_def isPolicyReferenced_iff
      vsPolicies_def vsrPolicies_def list_ex_iff)

text \<open>An annotation without a namespace refers to the namespace of the Ingress.\<close>

definition annotationRefs :: "string \<Rightarrow> Ingress \<Rightarrow> reference set" where
  "annotationRefs annotation ing =
     {(ns, n). gget (omAnnotations (ingMeta ing)) annotation \<in> {Some (ns @ ''/'' @ n)}
        \<or> (ns = ingressNs ing \<and> gget (omAnnotations (ingMeta ing)) annotation = Some n)}"

interpretation appProtectChecker: reference_checker "newAppProtectResourceReferenceChecker annotation" "annotationRefs annotation"
    "\<lambda>_. {}" "\<lambda>_. {}" "\<lambda>_. {}" "\<lambda>_. {}" for annotation
  by unfold_locales
    (auto simp: newAppProtectResourceReferenceChecker_def annotationByIngress_def annotationRefs_def ingressNs_def split: option.splits)

end
