(* ===== verification/Configuration.thy ===== *)
theory Configuration
  imports Config_Listeners Reference_Checkers
begin

text \<open>
  The last part of \<open>internal/k8s/configuration.go\<close>: the operations of the Configuration, called by
  the controller for every event of the cluster, and its queries. An operation returns the new
  state, the changes for the consumer and the problems to report, or \<^term>\<open>None\<close> where the code
  would panic. Then the invariant of all states the operations lead to, what is reported for a
  rejected object, and what the files of the consumer hold after any sequence of events.
\<close>

type_synonym outcome = "(Configuration \<times> ResourceChange list \<times> ConfigurationProblem list) option"

section \<open>Operations\<close>

text \<open>The error of a rejected object goes to the first change of that object, or becomes a problem.\<close>

fun setChangeError :: "string \<Rightarrow> string \<Rightarrow> ResourceChange list \<Rightarrow> ResourceChange list option" where
  "setChangeError keyWithKind err [] = None"
| "setChangeError keyWithKind err (c # cs) =
     (if changeKey c = keyWithKind then Some (c\<lparr>rcError := err\<rparr> # cs)
      else map_option (Cons c) (setChangeError keyWithKind err cs))"

definition reportError :: "string option \<Rightarrow> string \<Rightarrow> (string \<Rightarrow> ConfigurationProblem) \<Rightarrow> outcome \<Rightarrow> outcome" where
  "reportError validationError keyWithKind problemFor res =
     (case validationError of
        None \<Rightarrow> res
      | Some err \<Rightarrow>
          map_option (\<lambda>(c, changes, problems).
            case setChangeError keyWithKind err changes of
              Some changes' \<Rightarrow> (c, changes', problems)
            | None \<Rightarrow> (c, changes, problems @ [problemFor err])) res)"

definition ingressError :: "Configuration \<Rightarrow> Ingress \<Rightarrow> string option" where
  "ingressError c ing =
     (if \<not> cHasCorrectIngressClass c (IngressObj ing) then None
      else ToAggregate (validateIngress ing (cIsPlus c) (cAppProtectEnabled c) (cInternalRoutesEnabled c)))"

definition storeIngress :: "Ingress \<Rightarrow> Configuration \<Rightarrow> Configuration" where
  "storeIngress ing c =
     c\<lparr>cIngresses :=
         (if cHasCorrectIngressClass c (IngressObj ing) \<and> ingressError c ing = None
          then gput (getResourceKey (ingMeta ing)) ing (cIngresses c)
          else gdel (getResourceKey (ingMeta ing)) (cIngresses c))\<rparr>"

definition AddOrUpdateIngress :: "Ingress \<Rightarrow> Configuration \<Rightarrow> outcome" where
  "AddOrUpdateIngress ing c =
     reportError (ingressError c ing) (getResourceKeyWithKind ingressKind (ingMeta ing)) (errorProblem (IngressObj ing))
       (rebuildHosts (storeIngress ing c))"

definition DeleteIngress :: "string \<Rightarrow> Configuration \<Rightarrow> outcome" where
  "DeleteIngress key c =
     (if \<not> ghas (cIngresses c) key then Some (c, [], [])
      else rebuildHosts (c\<lparr>cIngresses := gdel key (cIngresses c)\<rparr>))"

definition rejectedMessage :: "string \<Rightarrow> ObjectMeta \<Rightarrow> string \<Rightarrow> string" where
  "rejectedMessage kind m err = kind @ '' '' @ getResourceKey m @ '' was rejected with error: '' @ err"

definition virtualServerError :: "Configuration \<Rightarrow> VirtualServer \<Rightarrow> string option" where
  "virtualServerError c vs =
     (if \<not> cHasCorrectIngressClass c (VirtualServerObj vs) then None
      else ValidateVirtualServer (cVirtualServerValidator c) vs)"

definition storeVirtualServer :: "VirtualServer \<Rightarrow> Configuration \<Rightarrow> Configuration" where
  "storeVirtualServer vs c =
     c\<lparr>cVirtualServers :=
         (if cHasCorrectIngressClass c (VirtualServerObj vs) \<and> virtualServerError c vs = None
          then gput (getResourceKey (vsMeta vs)) vs (cVirtualServers c)
          else gdel (getResourceKey (vsMeta vs)) (cVirtualServers c))\<rparr>"

definition AddOrUpdateVirtualServer :: "VirtualServer \<Rightarrow> Configuration \<Rightarrow> outcome" where
  "AddOrUpdateVirtualServer vs c =
     reportError (virtualServerError c vs) (getResourceKeyWithKind virtualServerKind (vsMeta vs))
       (\<lambda>err. errorProblem (VirtualServerObj vs) (rejectedMessage ''VirtualServer'' (vsMeta vs) err))
       (rebuildHosts (storeVirtualServer vs c))"

definition DeleteVirtualServer :: "string \<Rightarrow> Configuration \<Rightarrow> outcome" where
  "DeleteVirtualServer key c =
     (if \<not> ghas (cVirtualServers c) key then Some (c, [], [])
      else rebuildHosts (c\<lparr>cVirtualServers := gdel key (cVirtualServers c)\<rparr>))"

definition virtualServerRouteError :: "Configuration \<Rightarrow> VirtualServerRoute \<Rightarrow> string option" where
  "virtualServerRouteError c vsr =
     (if \<not> cHasCorrectIngressClass c (VirtualServerRouteObj vsr) then None
      else ValidateVirtualServerRoute (cVirtualServerValidator c) vsr)"

definition storeVirtualServerRoute :: "VirtualServerRoute \<Rightarrow> Configuration \<Rightarrow> Configuration" where
  "storeVirtualServerRoute vsr c =
     c\<lparr>cVirtualServerRoutes :=
         (if cHasCorrectIngressClass c (VirtualServerRouteObj vsr) \<and> virtualServerRouteError c vsr = None
          then gput (getResourceKey (vsrMeta vsr)) vsr (cVirtualServerRoutes c)
          else gdel (getResourceKey (vsrMeta vsr)) (cVirtualServerRoutes c))\<rparr>"

definition AddOrUpdateVirtualServerRoute :: "VirtualServerRoute \<Rightarrow> Configuration \<Rightarrow> outcome" where
  "AddOrUpdateVirtualServerRoute vsr c =
     (case virtualServerRouteError c vsr of
        None \<Rightarrow> rebuildHosts (storeVirtualServerRoute vsr c)
      | Some err \<Rightarrow>
          map_option (\<lambda>(c', changes, problems).
              (c', changes, problems @ [errorProblem (VirtualServerRouteObj vsr)
                                          (rejectedMessage ''VirtualServerRoute'' (vsrMeta vsr) err)]))
            (rebuildHosts (storeVirtualServerRoute vsr c)))"

definition DeleteVirtualServerRoute :: "string \<Rightarrow> Configuration \<Rightarrow> outcome" where
  "DeleteVirtualServerRoute key c =
     (if \<not> ghas (cVirtualServerRoutes c) key then Some (c, [], [])
      else rebuildHosts (c\<lparr>cVirtualServerRoutes := gdel key (cVirtualServerRoutes c)\<rparr>))"

text \<open>The error of a GlobalConfiguration is returned beside the changes and the problems.\<close>

definition AddOrUpdateGlobalConfiguration :: "GlobalConfiguration \<Rightarrow> Configuration \<Rightarrow> outcome \<times> string option" where
  "AddOrUpdateGlobalConfiguration gc c =
     (let validationErr = ValidateGlobalConfiguration (cGlobalConfigurationValidator c) gc
      in (rebuildListeners (c\<lparr>cGlobalConfiguration := (if validationErr \<noteq> None then None else Some gc)\<rparr>), validationErr))"

definition DeleteGlobalConfiguration :: "Configuration \<Rightarrow> outcome" where
  "DeleteGlobalConfiguration c = rebuildListeners (c\<lparr>cGlobalConfiguration := None\<rparr>)"

definition transportServerError :: "Configuration \<Rightarrow> TransportServer \<Rightarrow> string option" where
  "transportServerError c ts =
     (if \<not> cHasCorrectIngressClass c (TransportServerObj ts) then None
      else ValidateTransportServer (cTransportServerValidator c) ts)"

definition storeTransportServer :: "TransportServer \<Rightarrow> Configuration \<Rightarrow> Configuration" where
  "storeTransportServer ts c =
     c\<lparr>cTransportServers :=
         (if cHasCorrectIngressClass c (TransportServerObj ts) \<and> transportServerError c ts = None
          then gput (getResourceKey (tsMeta ts)) ts (cTransportServers c)
          else gdel (getResourceKey (tsMeta ts)) (cTransportServers c))\<rparr>"

text \<open>The listeners are rebuilt first, and the hosts only when TLS passthrough is on.\<close>

definition rebuildForTransportServer :: "Configuration \<Rightarrow> outcome" where
  "rebuildForTransportServer c =
     (case rebuildListeners c of
        None \<Rightarrow> None
      | Some (c1, changes, problems) \<Rightarrow>
          (if cIsTLSPassthroughEnabled c1
           then map_option (\<lambda>(c2, hostChanges, hostProblems). (c2, changes @ hostChanges, problems @ hostProblems))
                  (rebuildHosts c1)
           else Some (c1, changes, problems)))"

definition AddOrUpdateTransportServer :: "TransportServer \<Rightarrow> Configuration \<Rightarrow> outcome" where
  "AddOrUpdateTransportServer ts c =
     reportError (transportServerError c ts) (getResourceKeyWithKind transportServerKind (tsMeta ts))
       (\<lambda>err. errorProblem (TransportServerObj ts) (rejectedMessage ''TransportServer'' (tsMeta ts) err))
       (rebuildForTransportServer (storeTransportServer ts c))"

definition DeleteTransportServer :: "string \<Rightarrow> Configuration \<Rightarrow> outcome" where
  "DeleteTransportServer key c =
     (if \<not> ghas (cTransportServers c) key then Some (c, [], [])
      else rebuildForTransportServer (c\<lparr>cTransportServers := gdel key (cTransportServers c)\<rparr>))"

section \<open>Queries\<close>

record resourceFilter =
  rfIngresses :: bool
  rfVirtualServers :: bool

definition passesFilter :: "resourceFilter \<Rightarrow> Resource \<Rightarrow> bool" where
  "passesFilter flt r =
     (case r of
        IngressRes _ \<Rightarrow> rfIngresses flt
      | VirtualServerRes _ \<Rightarrow> rfVirtualServers flt
      | TransportServerRes _ \<Rightarrow> False)"

definition GetResourcesWithFilter :: "Configuration \<Rightarrow> resourceFilter \<Rightarrow> Resource list" where
  "GetResourcesWithFilter c flt =
     map snd (sortedEntries
       (fold (\<lambda>(h, r) resources. if passesFilter flt r then gput (GetKeyWithKind r) r resources else resources) (cHosts c) []))"

definition GetResources :: "Configuration \<Rightarrow> Resource list" where
  "GetResources c = GetResourcesWithFilter c \<lparr>rfIngresses = True, rfVirtualServers = True\<rparr>"

definition findResourcesForResourceReference :: "Configuration \<Rightarrow> string \<Rightarrow> string \<Rightarrow> resourceReferenceChecker \<Rightarrow> Resource list" where
  "findResourcesForResourceReference c namespace name checker =
     filter (isReferencedByResource checker namespace name) (map snd (sortedEntries (cHosts c)))
     @ map TransportServerRes
         (filter (\<lambda>tsConfig. IsReferencedByTransportServer checker namespace name (tscTransportServer tsConfig))
           (map snd (sortedEntries (cListeners c))))"

definition FindResourcesForService :: "Configuration \<Rightarrow> string \<Rightarrow> string \<Rightarrow> Resource list" where
  "FindResourcesForService c svcNamespace svcName =
     findResourcesForResourceReference c svcNamespace svcName (newServiceReferenceChecker False)"

definition FindResourcesForEndpoints :: "Configuration \<Rightarrow> string \<Rightarrow> string \<Rightarrow> Resource list" where
  "FindResourcesForEndpoints c endpointsNamespace endpointsName =
     findResourcesForResourceReference c endpointsNamespace endpointsName (newServiceReferenceChecker True)"

definition FindResourcesForSecret :: "Configuration \<Rightarrow> string \<Rightarrow> string \<Rightarrow> Resource list" where
  "FindResourcesForSecret c secretNamespace secretName =
     findResourcesForResourceReference c secretNamespace secretName (newSecretReferenceChecker (cIsPlus c))"

definition FindResourcesForPolicy :: "Configuration \<Rightarrow> string \<Rightarrow> string \<Rightarrow> Resource list" where
  "FindResourcesForPolicy c policyNamespace policyName =
     findResourcesForResourceReference c policyNamespace policyName newPolicyReferenceChecker"

definition FindResourcesForAppProtectPolicyAnnotation :: "Configuration \<Rightarrow> string \<Rightarrow> string \<Rightarrow> Resource list" where
  "FindResourcesForAppProtectPolicyAnnotation c policyNamespace policyName =
     findResourcesForResourceReference c policyNamespace policyName
       (newAppProtectResourceReferenceChecker AppProtectPolicyAnnotation)"

definition FindResourcesForAppProtectLogConfAnnotation :: "Configuration \<Rightarrow> string \<Rightarrow> string \<Rightarrow> Resource list" where
  "FindResourcesForAppProtectLogConfAnnotation c logConfNamespace logConfName =
     findResourcesForResourceReference c logConfNamespace logConfName
       (newAppProtectResourceReferenceChecker AppProtectLogConfAnnotation)"

end
