(* ===== verification/Configuration_Lemmas.thy ===== *)
theory Configuration_Lemmas
  imports Configuration "HOL-Library.Multiset"
begin

text \<open>
  The Configuration under any sequence of events: events and runs, the invariant of the reachable
  states (well-formed objects, tables of hosts and listeners that are in step with them), and the
  configuration files of the consumer of the changes.
\<close>

section \<open>Events and runs\<close>

datatype event =
    IngressUpdated Ingress
  | IngressRemoved string
  | VirtualServerUpdated VirtualServer
  | VirtualServerRemoved string
  | VirtualServerRouteUpdated VirtualServerRoute
  | VirtualServerRouteRemoved string
  | GlobalConfigurationUpdated GlobalConfiguration
  | GlobalConfigurationRemoved
  | TransportServerUpdated TransportServer
  | TransportServerRemoved string

fun handleEvent :: "event \<Rightarrow> Configuration \<Rightarrow> outcome" where
  "handleEvent (IngressUpdated ing) c = AddOrUpdateIngress ing c"
| "handleEvent (IngressRemoved key) c = DeleteIngress key c"
| "handleEvent (VirtualServerUpdated vs) c = AddOrUpdateVirtualServer vs c"
| "handleEvent (VirtualServerRemoved key) c = DeleteVirtualServer key c"
| "handleEvent (VirtualServerRouteUpdated vsr) c = AddOrUpdateVirtualServerRoute vsr c"
| "handleEvent (VirtualServerRouteRemoved key) c = DeleteVirtualServerRoute key c"
| "handleEvent (GlobalConfigurationUpdated gc) c = fst (AddOrUpdateGlobalConfiguration gc c)"
| "handleEvent GlobalConfigurationRemoved c = DeleteGlobalConfiguration c"
| "handleEvent (TransportServerUpdated ts) c = AddOrUpdateTransportServer ts c"
| "handleEvent (TransportServerRemoved key) c = DeleteTransportServer key c"

text \<open>The names of a TransportServer are names of Kubernetes objects.\<close>

fun plainEvent :: "event \<Rightarrow> bool" where
  "plainEvent (TransportServerUpdated ts) = plainMeta (tsMeta ts)"
| "plainEvent _ = True"

text \<open>
  The states reachable from a start, each with the files of a consumer that applied all changes.
  The one map the code ranges over in no particular order may be reordered at any time.
\<close>

inductive reachable :: "Configuration \<Rightarrow> Configuration \<Rightarrow> Resource gomap \<Rightarrow> bool" for c0 :: Configuration where
  reachable_start: "reachable c0 c0 []"
| reachable_event: "reachable c0 c files \<Longrightarrow> plainEvent ev \<Longrightarrow> handleEvent ev c = Some (c', changes, problems)
    \<Longrightarrow> reachable c0 c' (applyChanges changes files)"
| reachable_reorder: "reachable c0 c files \<Longrightarrow> mset ts = mset (cTransportServers c)
    \<Longrightarrow> reachable c0 (c\<lparr>cTransportServers := ts\<rparr>) files"

fun runEvents :: "event list \<Rightarrow> Configuration \<times> Resource gomap \<Rightarrow> (Configuration \<times> Resource gomap) option" where
  "runEvents [] s = Some s"
| "runEvents (ev # evs) (c, files) =
     (case handleEvent ev c of
        None \<Rightarrow> None
      | Some (c', changes, problems) \<Rightarrow> runEvents evs (c', applyChanges changes files))"

lemma runEvents_reachable:
  "runEvents evs (c, files) = Some (c', files') \<Longrightarrow> \<forall>ev\<in>set evs. plainEvent ev \<Longrightarrow> reachable c0 c files
     \<Longrightarrow> reachable c0 c' files'"
proof (induction evs arbitrary: c files)
  case (Cons ev evs)
  then obtain c1 ch pr where step: "handleEvent ev c = Some (c1, ch, pr)" "runEvents evs (c1, applyChanges ch files) = Some (c', files')"
    by (auto split: option.splits)
  have "reachable c0 c1 (applyChanges ch files)" using reachable_event [OF Cons.prems(3) _ step(1)] Cons.prems(2) by simp
  with Cons.IH [OF step(2)] Cons.prems(2) show ?case by simp
qed simp

section \<open>What the tables depend on\<close>

definition hostView where
  "hostView c = (cIngresses c, cVirtualServers c, cVirtualServerRoutes c,
     (if cIsTLSPassthroughEnabled c then set (cTransportServers c) else {}), cVirtualServerValidator c, cIsTLSPassthroughEnabled c)"

lemma collectRoutes_view:
  assumes "cVirtualServerRoutes c = cVirtualServerRoutes c'" "cVirtualServerValidator c = cVirtualServerValidator c'"
  shows "collectRoutes c vs rs vsrs ws = collectRoutes c' vs rs vsrs ws"
  by (induction rs arbitrary: vsrs ws) (simp_all add: assms Let_def split: option.split)

lemma collectRoutes_view_all:
  assumes "cVirtualServerRoutes c = cVirtualServerRoutes c'" "cVirtualServerValidator c = cVirtualServerValidator c'"
  shows "collectRoutes c = collectRoutes c'"
  using collectRoutes_view [OF assms] by (intro ext)

lemma resourcesOf_view:
  assumes "hostView c = hostView c'"
  shows "resourcesOf c = resourcesOf c'"
proof -
  have eq: "cIngresses c = cIngresses c'" "cVirtualServers c = cVirtualServers c'"
      "cVirtualServerRoutes c = cVirtualServerRoutes c'" "cVirtualServerValidator c = cVirtualServerValidator c'"
      "cIsTLSPassthroughEnabled c = cIsTLSPassthroughEnabled c'"
      "cIsTLSPassthroughEnabled c \<Longrightarrow> set (cTransportServers c) = set (cTransportServers c')"
    using assms by (auto simp: hostView_def split: if_splits)
  have "newIngressResource c = newIngressResource c'"
    by (intro ext) (simp add: newIngressResource_def eq split: list.split)
  moreover have "virtualServerResource c = virtualServerResource c'"
    by (intro ext) (simp add: virtualServerResource_def buildVirtualServerRoutes_def collectRoutes_view_all [OF eq(3,4)])
  ultimately show ?thesis
    using eq by (simp add: resourcesOf_def ingressResources_def)
qed

lemma hostTable_view: "hostView c = hostView c' \<Longrightarrow> hostTable c = hostTable c'"
  using resourcesOf_view [of c c'] by (intro ext) (simp add: hostTable_def)

definition listenerView where
  "listenerView c = (set (cTransportServers c), cGlobalConfiguration c)"

lemma listenerTable_view: "listenerView c = listenerView c' \<Longrightarrow> listenerTable c = listenerTable c'"
  by (intro ext) (simp add: listenerTable_def wants_def listenerView_def)

section \<open>The invariant\<close>

definition hostsInStep :: "Configuration \<Rightarrow> bool" where
  "hostsInStep c = (\<exists>resources. hostTable c (cHosts c) resources)"

definition listenersInStep :: "Configuration \<Rightarrow> bool" where
  "listenersInStep c = listenerTable c (cListeners c)"

definition inStep :: "Configuration \<Rightarrow> bool" where
  "inStep c = (wfObjects c \<and> plainServers c \<and> hostsInStep c \<and> listenersInStep c)"

lemma inStepD:
  assumes "inStep c"
  shows "wfObjects c" "plainServers c" "hostsInStep c" "listenersInStep c" "keyedBy tsMeta (cTransportServers c)"
  using assms by (auto simp: inStep_def wfObjects_def)

definition isTransportKey :: "string \<Rightarrow> bool" where
  "isTransportKey k = (take (length transportServerKind + 1) k = transportServerKind @ ''/'')"

text \<open>
  The files are right: those of the Ingresses and VirtualServers for the hosts, and those of the
  TransportServers for the listeners, unless TLS passthrough lets TransportServers have hosts.
\<close>

definition filesRight :: "Configuration \<Rightarrow> Resource gomap \<Rightarrow> bool" where
  "filesRight c files =
     (reflectsOn (\<lambda>k. \<not> isTransportKey k) files (cHosts c)
      \<and> (\<not> cIsTLSPassthroughEnabled c \<longrightarrow> reflectsOn isTransportKey files (asResources (cListeners c))))"

lemma transport_key: "isTransportKey (GetKeyWithKind r) \<longleftrightarrow> resourceKind r = transportServerKind"
  by (cases r) (simp_all add: isTransportKey_def kind_defs)

lemma asResources_kind: "gget (asResources m) l = Some r \<Longrightarrow> resourceKind r = transportServerKind"
  by auto

lemma resourcesOf_kind: "x \<in> resourcesOf c \<Longrightarrow> \<not> cIsTLSPassthroughEnabled c \<Longrightarrow> resourceKind x \<noteq> transportServerKind"
  by (auto simp: resourcesOf_def ingressResources_def virtualServerResource_def kind_defs split: if_splits option.splits)

lemma host_kind:
  assumes "hostTable c hosts resources" and "\<not> cIsTLSPassthroughEnabled c" and "gget hosts h = Some r"
  shows "resourceKind r \<noteq> transportServerKind"
  using resourcesOf_kind [OF hostTableD(5) [OF assms(1) table_latest [OF assms(1,3)]] assms(2)] by simp

section \<open>The two rebuilds\<close>

definition tablesOk :: "Configuration \<Rightarrow> bool" where
  "tablesOk c =
     (coherent ownsHost (cHosts c) \<and> coherent ownsListener (asResources (cListeners c))
      \<and> (\<not> cIsTLSPassthroughEnabled c \<longrightarrow> (\<forall>h r. gget (cHosts c) h = Some r \<longrightarrow> resourceKind r \<noteq> transportServerKind)))"

lemma inStep_tables: "inStep c \<Longrightarrow> tablesOk c"
  using host_kind hostTableD(3) listenerTableD(2)
  unfolding inStep_def tablesOk_def hostsInStep_def listenersInStep_def by blast

text \<open>What a step of the Configuration from \<open>c\<close> to \<open>c'\<close> does to files that were right.\<close>

definition carriesFiles :: "Configuration \<Rightarrow> ResourceChange list \<Rightarrow> Configuration \<Rightarrow> bool" where
  "carriesFiles c changes c' = (\<forall>files. filesRight c files \<longrightarrow> filesRight c' (applyChanges changes files))"

lemma applyChanges_append: "applyChanges (xs @ ys) files = applyChanges ys (applyChanges xs files)"
  by (simp add: applyChanges_def)

lemma carriesFiles_append: "carriesFiles c xs c1 \<Longrightarrow> carriesFiles c1 ys c2 \<Longrightarrow> carriesFiles c (xs @ ys) c2"
  by (simp add: carriesFiles_def applyChanges_append)

lemma carriesFiles_Nil: "filesRight c = filesRight c' \<Longrightarrow> carriesFiles c [] c'"
  by (simp add: carriesFiles_def applyChanges_def)

lemma changesOf_resource:
  assumes "changesOf old new cs" and "c \<in> set cs"
  shows "\<exists>s r. (gget old s = Some r \<or> gget new s = Some r) \<and> changeKey c = GetKeyWithKind r"
  using assms by (cases rule: changesOf_cases) (auto simp: hostDeletes_def hostUpdates_def changeKey_def)

lemma updated_view:
  assumes "c' = c\<lparr>cHosts := H, cHostProblems := P\<rparr>"
  shows "hostView c' = hostView c" "cListeners c' = cListeners c" "cIsTLSPassthroughEnabled c' = cIsTLSPassthroughEnabled c"
  by (simp_all add: assms hostView_def)

lemma updated_listener_view:
  assumes "c' = c\<lparr>cListeners := H, cListenerProblems := P\<rparr>"
  shows "listenerView c' = listenerView c" "cHosts c' = cHosts c" "cIsTLSPassthroughEnabled c' = cIsTLSPassthroughEnabled c"
  by (simp_all add: assms listenerView_def)

lemma rebuiltHostsD:
  assumes "rebuiltHosts c c' res ch pr"
  shows "c' = c\<lparr>cHosts := cHosts c', cHostProblems := cHostProblems c'\<rparr> \<and> hostTable c (cHosts c') res"
  using assms unfolding rebuiltHosts_def by (elim conjE) (rule conjI)

lemma rebuiltListenersD:
  assumes "rebuiltListeners c c' ch pr"
  shows "c' = c\<lparr>cListeners := cListeners c', cListenerProblems := cListenerProblems c'\<rparr> \<and> listenerTable c (cListeners c')"
  using assms unfolding rebuiltListeners_def by (elim conjE) (rule conjI)

lemma rebuildHosts_step:
  assumes wf: "wfObjects c" and tabs: "tablesOk c"
  shows "\<exists>c' changes problems. rebuildHosts c = Some (c', changes, problems)
    \<and> c' = c\<lparr>cHosts := cHosts c', cHostProblems := cHostProblems c'\<rparr>
    \<and> hostsInStep c' \<and> tablesOk c' \<and> carriesFiles c changes c'"
proof -
  obtain c' res ch pr where eq: "rebuildHosts c = Some (c', ch, pr)" and reb: "rebuiltHosts c c' res ch pr"
    using rebuildHosts_total [OF wf] by blast
  have upd: "c' = c\<lparr>cHosts := cHosts c', cHostProblems := cHostProblems c'\<rparr>" and tab: "hostTable c (cHosts c') res"
    using rebuiltHostsD [OF reb] by blast+
  obtain cs where cs: "changesOf (cHosts c) (cHosts c') cs" "ch = referToLatest res cs"
    using reb unfolding rebuiltHosts_def by (elim conjE exE) (rule that)
  have same: "hostView c' = hostView c" "cListeners c' = cListeners c" "cIsTLSPassthroughEnabled c' = cIsTLSPassthroughEnabled c"
    using updated_view [OF upd] by simp_all
  have tab': "hostTable c' (cHosts c') res" using tab hostTable_view [OF same(1)] by simp
  have tabs': "tablesOk c'"
    using tabs hostTableD(3) [OF tab] host_kind [OF tab] same(2,3) unfolding tablesOk_def by metis
  have other: "\<not> isTransportKey (changeKey x)" if "x \<in> set ch" "\<not> cIsTLSPassthroughEnabled c" for x
  proof -
    obtain y where y: "y \<in> set cs" "x = latestChange res y" using \<open>x \<in> set ch\<close> by (auto simp: cs(2) referToLatest_map)
    then have "changeKey x = changeKey y" using latestChange_key [OF hostTableD(4) [OF tab]] by simp
    with changesOf_resource [OF cs(1) y(1)] that(2) tabs tabs' same(3) show ?thesis
      unfolding tablesOk_def by (metis transport_key)
  qed
  have "filesRight c' (applyChanges ch files)" if "filesRight c files" for files
    using that rebuildHosts_files [OF reb, of "\<lambda>k. \<not> isTransportKey k" files] tabs
      reflectsOn_other [of isTransportKey files "asResources (cListeners c)" ch] other same(2,3)
    unfolding filesRight_def tablesOk_def by metis
  then show ?thesis using eq upd tab' tabs' unfolding hostsInStep_def carriesFiles_def by blast
qed

lemma rebuildListeners_step:
  assumes keyed: "keyedBy tsMeta (cTransportServers c)" and plain: "plainServers c" and tabs: "tablesOk c"
  shows "\<exists>c' changes problems. rebuildListeners c = Some (c', changes, problems)
    \<and> c' = c\<lparr>cListeners := cListeners c', cListenerProblems := cListenerProblems c'\<rparr>
    \<and> listenersInStep c' \<and> tablesOk c' \<and> carriesFiles c changes c'"
proof -
  obtain c' ch pr where eq: "rebuildListeners c = Some (c', ch, pr)" and reb: "rebuiltListeners c c' ch pr"
    using rebuildListeners_total [OF keyed] by blast
  have upd: "c' = c\<lparr>cListeners := cListeners c', cListenerProblems := cListenerProblems c'\<rparr>"
    and tab: "listenerTable c (cListeners c')"
    using rebuiltListenersD [OF reb] by blast+
  obtain cs configs where cs: "changesOf (asResources (cListeners c)) (asResources (cListeners c')) cs"
      "ch = referToLatestTSConfigs configs cs" "gkeys configs \<subseteq> gkeys (cTransportServers c)"
    using reb unfolding rebuiltListeners_def by (elim conjE exE) (rule that)
  have ch: "ch = cs" using cs(2) referToLatestTSConfigs_never [OF keyed plain cs(3)] by simp
  have same: "listenerView c' = listenerView c" "cHosts c' = cHosts c" "cIsTLSPassthroughEnabled c' = cIsTLSPassthroughEnabled c"
    using updated_listener_view [OF upd] by simp_all
  have tab': "listenerTable c' (cListeners c')" using tab listenerTable_view [OF same(1)] by simp
  have tabs': "tablesOk c'" using tabs listenerTableD(2) [OF tab] same(2,3) unfolding tablesOk_def by metis
  have other: "isTransportKey (changeKey x)" if "x \<in> set ch" for x
    using changesOf_resource [OF cs(1), of x] that ch asResources_kind by (metis transport_key)
  have "filesRight c' (applyChanges ch files)" if "filesRight c files" for files
    using that rebuildListeners_files [OF reb keyed plain, of isTransportKey files] tabs
      reflectsOn_other [of "\<lambda>k. \<not> isTransportKey k" files "cHosts c" ch] other same(2,3)
    unfolding filesRight_def tablesOk_def by metis
  then show ?thesis using eq upd tab' tabs' unfolding listenersInStep_def carriesFiles_def by blast
qed

section \<open>Every event keeps the invariant\<close>

definition stepsTo :: "Configuration \<Rightarrow> ResourceChange list \<Rightarrow> Configuration \<Rightarrow> bool" where
  "stepsTo c changes c' =
     (inStep c' \<and> cIsTLSPassthroughEnabled c' = cIsTLSPassthroughEnabled c \<and> carriesFiles c changes c')"

definition staysInStep :: "Configuration \<Rightarrow> outcome \<Rightarrow> bool" where
  "staysInStep c res = (\<exists>c' changes problems. res = Some (c', changes, problems) \<and> stepsTo c changes c')"

text \<open>The tables and flags the objects of \<open>c1\<close> are rebuilt from are those of \<open>c\<close>.\<close>

definition sameTables :: "Configuration \<Rightarrow> Configuration \<Rightarrow> bool" where
  "sameTables c c1 =
     (cHosts c1 = cHosts c \<and> cListeners c1 = cListeners c \<and> cIsTLSPassthroughEnabled c1 = cIsTLSPassthroughEnabled c)"

lemma sameTables_simps:
  assumes "sameTables c c1"
  shows "tablesOk c1 = tablesOk c" "carriesFiles c1 ch c' = carriesFiles c ch c'"
    "cIsTLSPassthroughEnabled c1 = cIsTLSPassthroughEnabled c"
  using assms by (simp_all add: sameTables_def tablesOk_def carriesFiles_def filesRight_def)

lemma hostEvent_step:
  assumes step: "inStep c" and wf: "wfObjects c1" and same: "sameTables c c1"
    and ts: "cTransportServers c1 = cTransportServers c" "cGlobalConfiguration c1 = cGlobalConfiguration c"
  shows "staysInStep c (rebuildHosts c1)"
proof -
  have "tablesOk c1" using inStep_tables [OF step] sameTables_simps(1) [OF same] by simp
  from rebuildHosts_step [OF wf this] obtain c' ch pr where eq: "rebuildHosts c1 = Some (c', ch, pr)"
    and upd: "c' = c1\<lparr>cHosts := cHosts c', cHostProblems := cHostProblems c'\<rparr>"
    and hosts: "hostsInStep c'" and files: "carriesFiles c1 ch c'" by blast
  obtain H P where c': "c' = c1\<lparr>cHosts := H, cHostProblems := P\<rparr>" using upd by blast
  have "listenerView c' = listenerView c" "cListeners c' = cListeners c" "wfObjects c'" "plainServers c' = plainServers c"
    using same ts wf by (simp_all add: c' listenerView_def sameTables_def wfObjects_def plainServers_def)
  then have "inStep c'" using step hosts listenerTable_view [of c' c] by (simp add: inStep_def listenersInStep_def)
  then show ?thesis
    using eq files sameTables_simps [OF same] c' by (simp add: staysInStep_def stepsTo_def)
qed

lemma listenerEvent_step:
  assumes step: "inStep c" and wf: "wfObjects c1" and plain: "plainServers c1" and same: "sameTables c c1"
    and view: "hostView c1 = hostView c"
  shows "staysInStep c (rebuildListeners c1)"
proof -
  have keyed: "keyedBy tsMeta (cTransportServers c1)" using wf by (simp add: wfObjects_def)
  have "tablesOk c1" using inStep_tables [OF step] sameTables_simps(1) [OF same] by simp
  from rebuildListeners_step [OF keyed plain this] obtain c' ch pr where eq: "rebuildListeners c1 = Some (c', ch, pr)"
    and upd: "c' = c1\<lparr>cListeners := cListeners c', cListenerProblems := cListenerProblems c'\<rparr>"
    and listeners: "listenersInStep c'" and files: "carriesFiles c1 ch c'" by blast
  obtain H P where c': "c' = c1\<lparr>cListeners := H, cListenerProblems := P\<rparr>" using upd by blast
  have "hostView c' = hostView c1" "cHosts c' = cHosts c" "wfObjects c'" "plainServers c'"
    using same wf plain by (simp_all add: c' hostView_def sameTables_def wfObjects_def plainServers_def)
  then have "inStep c'" using step listeners view hostTable_view [of c' c] by (simp add: inStep_def hostsInStep_def)
  then show ?thesis
    using eq files sameTables_simps [OF same] c' by (simp add: staysInStep_def stepsTo_def)
qed

lemma transportEvent_step:
  assumes step: "inStep c" and wf: "wfObjects c1" and plain: "plainServers c1" and same: "sameTables c c1"
    and view: "hostView c1 = hostView c \<or> cIsTLSPassthroughEnabled c1"
  shows "staysInStep c (rebuildForTransportServer c1)"
proof (cases "cIsTLSPassthroughEnabled c1")
  case False
  then have "staysInStep c (rebuildListeners c1)" using listenerEvent_step [OF step wf plain same] view by blast
  then show ?thesis
    using False same unfolding staysInStep_def stepsTo_def rebuildForTransportServer_def sameTables_def by auto
next
  case True
  have keyed: "keyedBy tsMeta (cTransportServers c1)" using wf by (simp add: wfObjects_def)
  have "tablesOk c1" using inStep_tables [OF step] sameTables_simps(1) [OF same] by simp
  from rebuildListeners_step [OF keyed plain this] obtain c2 ch2 pr2 where eq2: "rebuildListeners c1 = Some (c2, ch2, pr2)"
    and upd2: "c2 = c1\<lparr>cListeners := cListeners c2, cListenerProblems := cListenerProblems c2\<rparr>"
    and listeners: "listenersInStep c2" and tabs2: "tablesOk c2" and files2: "carriesFiles c1 ch2 c2" by blast
  obtain H2 P2 where c2: "c2 = c1\<lparr>cListeners := H2, cListenerProblems := P2\<rparr>" using upd2 by blast
  have wf2: "wfObjects c2" and plain2: "plainServers c2" using wf plain by (simp_all add: c2 wfObjects_def plainServers_def)
  from rebuildHosts_step [OF wf2 tabs2] obtain c3 ch3 pr3 where eq3: "rebuildHosts c2 = Some (c3, ch3, pr3)"
    and upd3: "c3 = c2\<lparr>cHosts := cHosts c3, cHostProblems := cHostProblems c3\<rparr>"
    and hosts: "hostsInStep c3" and files3: "carriesFiles c2 ch3 c3" by blast
  obtain H3 P3 where c3: "c3 = c2\<lparr>cHosts := H3, cHostProblems := P3\<rparr>" using upd3 by blast
  have "listenerView c3 = listenerView c2" "cListeners c3 = cListeners c2" "wfObjects c3" "plainServers c3"
    using wf2 plain2 by (simp_all add: c3 listenerView_def wfObjects_def plainServers_def)
  then have "inStep c3" using listeners hosts listenerTable_view [of c3 c2] by (simp add: inStep_def listenersInStep_def)
  moreover have "carriesFiles c (ch2 @ ch3) c3"
    using carriesFiles_append [OF files2 files3] sameTables_simps(2) [OF same] by simp
  moreover have "rebuildForTransportServer c1 = Some (c3, ch2 @ ch3, pr2 @ pr3)"
    using True eq2 eq3 by (simp add: rebuildForTransportServer_def c2)
  ultimately show ?thesis
    using same by (auto simp: staysInStep_def stepsTo_def sameTables_def c3 c2)
qed

lemma setChangeError_apply: "setChangeError k e cs = Some cs' \<Longrightarrow> applyChanges cs' files = applyChanges cs files"
  by (induction cs arbitrary: cs' files)
    (auto simp: applyChanges_def applyChange_def changeKey_def split: if_splits Operation.splits)

lemma carriesFiles_error: "setChangeError k e cs = Some cs' \<Longrightarrow> carriesFiles c cs' c' = carriesFiles c cs c'"
  by (simp add: carriesFiles_def setChangeError_apply)

lemma staysInStepI: "res = Some (c', ch, pr) \<Longrightarrow> stepsTo c ch c' \<Longrightarrow> staysInStep c res"
  by (auto simp: staysInStep_def)

lemma reportError_step:
  assumes "staysInStep c res"
  shows "staysInStep c (reportError e k p res)"
proof -
  obtain c' ch pr where res: "res = Some (c', ch, pr)" and step: "stepsTo c ch c'"
    using assms by (auto simp: staysInStep_def)
  show ?thesis
  proof (cases e)
    case None
    then show ?thesis using assms by (simp add: reportError_def)
  next
    case (Some err)
    show ?thesis
    proof (cases "setChangeError k err ch")
      case None
      then have "reportError e k p res = Some (c', ch, pr @ [p err])" by (simp add: reportError_def Some res)
      then show ?thesis using step by (rule staysInStepI)
    next
      case changed: (Some ch')
      then have "reportError e k p res = Some (c', ch', pr)" by (simp add: reportError_def Some res)
      moreover have "stepsTo c ch' c'" using step carriesFiles_error [OF changed] by (simp add: stepsTo_def)
      ultimately show ?thesis by (rule staysInStepI)
    qed
  qed
qed

lemma unchanged_step: "inStep c \<Longrightarrow> staysInStep c (Some (c, [], problems))"
  by (simp add: staysInStep_def stepsTo_def carriesFiles_Nil)

lemma keyedBy_store: "keyedBy f m \<Longrightarrow> keyedBy f (if b then gput (getResourceKey (f v)) v m else gdel k m)"
  by (simp add: keyedBy_gput keyedBy_gdel)

lemma stored_gput: "(\<And>k v. gget m k = Some v \<Longrightarrow> P v) \<Longrightarrow> P v0 \<Longrightarrow> gget (gput k0 v0 m) k = Some v \<Longrightarrow> P v"
  by (auto split: if_splits)

lemma stored_gdel: "(\<And>k v. gget m k = Some v \<Longrightarrow> P v) \<Longrightarrow> gget (gdel k0 m) k = Some v \<Longrightarrow> P v"
  by (auto split: if_splits)

lemma wf_storeIngress: "wfObjects c \<Longrightarrow> wfObjects (storeIngress ing c)"
  unfolding wfObjects_def storeIngress_def
  by (auto simp: keyedBy_store ingressError_def validateIngress_ok split: if_splits)

lemma wf_storeVirtualServer: "wfObjects c \<Longrightarrow> wfObjects (storeVirtualServer vs c)"
  by (simp add: wfObjects_def storeVirtualServer_def keyedBy_gput keyedBy_gdel)

lemma wf_storeVirtualServerRoute: "wfObjects c \<Longrightarrow> wfObjects (storeVirtualServerRoute vsr c)"
  by (simp add: wfObjects_def storeVirtualServerRoute_def keyedBy_gput keyedBy_gdel)

lemma wf_storeTransportServer: "wfObjects c \<Longrightarrow> wfObjects (storeTransportServer ts c)"
  by (simp add: wfObjects_def storeTransportServer_def keyedBy_gput keyedBy_gdel)

lemma plain_storeTransportServer: "plainServers c \<Longrightarrow> plainMeta (tsMeta ts) \<Longrightarrow> plainServers (storeTransportServer ts c)"
  by (auto simp: plainServers_def storeTransportServer_def split: if_splits)

theorem handleEvent_step:
  assumes step: "inStep c" and plain: "plainEvent ev"
  shows "staysInStep c (handleEvent ev c)"
proof -
  note wf = inStepD(1) [OF step] and plainS = inStepD(2) [OF step]
  note hosts = hostEvent_step [OF step] and listeners = listenerEvent_step [OF step] and transport = transportEvent_step [OF step]
  show ?thesis
  proof (cases ev)
    case (IngressUpdated ing)
    have "staysInStep c (rebuildHosts (storeIngress ing c))"
      by (rule hosts [OF wf_storeIngress [OF wf]]) (simp_all add: storeIngress_def sameTables_def)
    then show ?thesis by (simp add: IngressUpdated AddOrUpdateIngress_def reportError_step)
  next
    case (IngressRemoved key)
    have "staysInStep c (rebuildHosts (c\<lparr>cIngresses := gdel key (cIngresses c)\<rparr>))"
      by (rule hosts) (use wf in \<open>auto simp: sameTables_def wfObjects_def keyedBy_gdel split: if_splits\<close>)
    then show ?thesis using unchanged_step [OF step] by (simp add: IngressRemoved DeleteIngress_def)
  next
    case (VirtualServerUpdated vs)
    have "staysInStep c (rebuildHosts (storeVirtualServer vs c))"
      by (rule hosts [OF wf_storeVirtualServer [OF wf]]) (simp_all add: storeVirtualServer_def sameTables_def)
    then show ?thesis by (simp add: VirtualServerUpdated AddOrUpdateVirtualServer_def reportError_step)
  next
    case (VirtualServerRemoved key)
    have "staysInStep c (rebuildHosts (c\<lparr>cVirtualServers := gdel key (cVirtualServers c)\<rparr>))"
      by (rule hosts) (use wf in \<open>simp_all add: sameTables_def wfObjects_def keyedBy_gdel\<close>)
    then show ?thesis using unchanged_step [OF step] by (simp add: VirtualServerRemoved DeleteVirtualServer_def)
  next
    case (VirtualServerRouteUpdated vsr)
    have "staysInStep c (rebuildHosts (storeVirtualServerRoute vsr c))"
      by (rule hosts [OF wf_storeVirtualServerRoute [OF wf]]) (simp_all add: storeVirtualServerRoute_def sameTables_def)
    then show ?thesis
      by (auto simp: VirtualServerRouteUpdated AddOrUpdateVirtualServerRoute_def staysInStep_def split: option.split)
  next
    case (VirtualServerRouteRemoved key)
    have "staysInStep c (rebuildHosts (c\<lparr>cVirtualServerRoutes := gdel key (cVirtualServerRoutes c)\<rparr>))"
      by (rule hosts) (use wf in \<open>simp_all add: sameTables_def wfObjects_def keyedBy_gdel\<close>)
    then show ?thesis using unchanged_step [OF step] by (simp add: VirtualServerRouteRemoved DeleteVirtualServerRoute_def)
  next
    case (GlobalConfigurationUpdated gc)
    have "staysInStep c (rebuildListeners (c\<lparr>cGlobalConfiguration := g\<rparr>))" for g
      by (rule listeners) (use wf plainS in \<open>simp_all add: sameTables_def wfObjects_def plainServers_def hostView_def\<close>)
    then show ?thesis by (simp add: GlobalConfigurationUpdated AddOrUpdateGlobalConfiguration_def Let_def)
  next
    case GlobalConfigurationRemoved
    have "staysInStep c (rebuildListeners (c\<lparr>cGlobalConfiguration := None\<rparr>))"
      by (rule listeners) (use wf plainS in \<open>simp_all add: sameTables_def wfObjects_def plainServers_def hostView_def\<close>)
    then show ?thesis by (simp add: GlobalConfigurationRemoved DeleteGlobalConfiguration_def)
  next
    case (TransportServerUpdated ts)
    have "plainServers (storeTransportServer ts c)"
      using plain_storeTransportServer [OF plainS] plain TransportServerUpdated by simp
    then have "staysInStep c (rebuildForTransportServer (storeTransportServer ts c))"
      by (rule transport [OF wf_storeTransportServer [OF wf]])
        (simp_all add: storeTransportServer_def sameTables_def hostView_def)
    then show ?thesis by (simp add: TransportServerUpdated AddOrUpdateTransportServer_def reportError_step)
  next
    case (TransportServerRemoved key)
    have "staysInStep c (rebuildForTransportServer (c\<lparr>cTransportServers := gdel key (cTransportServers c)\<rparr>))"
      by (rule transport) (use wf plainS in
          \<open>auto simp: sameTables_def wfObjects_def keyedBy_gdel plainServers_def hostView_def split: if_splits\<close>)
    then show ?thesis using unchanged_step [OF step] by (simp add: TransportServerRemoved DeleteTransportServer_def)
  qed
qed

section \<open>Reachable states\<close>

lemma start_inStep:
  assumes "c = NewConfiguration hasClass pl ap ir vsv gcv tsv tls"
  shows "inStep c"
proof -
  have "resourcesOf c = {}" by (simp add: assms NewConfiguration_def resourcesOf_def)
  then have "hostTable c [] []" by (simp add: hostTable_def coherent_def latestVersions_def)
  then show ?thesis
    by (auto simp: assms NewConfiguration_def inStep_def wfObjects_def plainServers_def hostsInStep_def listenersInStep_def
        listenerTable_def wants_def coherent_def asResources_def)
qed

lemma start_filesRight:
  assumes "c = NewConfiguration hasClass pl ap ir vsv gcv tsv tls"
  shows "filesRight c []"
  by (simp add: assms NewConfiguration_def filesRight_def asResources_def)

lemma reorder_lookup:
  assumes "wf_gomap m" and "mset m' = mset m"
  shows "wf_gomap m'" "gget m' k = gget m k" "set m' = set m"
proof -
  have "mset (map fst m') = mset (map fst m)" using assms(2) by simp
  then show wf: "wf_gomap m'" using assms(1) unfolding wf_gomap_def by (metis mset_eq_imp_distinct_iff)
  show same: "set m' = set m" using assms(2) by (metis mset_eq_setD)
  then have "gget m' k = Some v \<longleftrightarrow> gget m k = Some v" for v
    using wf_gomap_in_set [OF wf, of k v] wf_gomap_in_set [OF assms(1), of k v] by simp
  then show "gget m' k = gget m k" by (metis option.exhaust)
qed

lemma reorder_step:
  assumes step: "inStep c" and ms: "mset ts = mset (cTransportServers c)"
  shows "inStep (c\<lparr>cTransportServers := ts\<rparr>)"
proof -
  let ?c = "c\<lparr>cTransportServers := ts\<rparr>"
  have wf: "wf_gomap (cTransportServers c)" using inStepD(5) [OF step] by (simp add: keyedBy_def)
  note r = reorder_lookup [OF wf ms]
  have "wfObjects ?c" "plainServers ?c"
    using inStepD(1,2) [OF step] r by (simp_all add: wfObjects_def plainServers_def keyedBy_def)
  moreover have "hostView ?c = hostView c" "listenerView ?c = listenerView c"
    using r(3) by (simp_all add: hostView_def listenerView_def)
  ultimately show ?thesis
    using step hostTable_view [of ?c c] listenerTable_view [of ?c c]
    by (simp add: inStep_def hostsInStep_def listenersInStep_def)
qed

text \<open>All reachable states are in step with their objects, and the files with the tables.\<close>

lemma reachable_invariant:
  assumes "reachable c0 c files" and "inStep c0" and "filesRight c0 []"
  shows "inStep c \<and> filesRight c files"
  using assms
proof (induction rule: reachable.induct)
  case reachable_start
  then show ?case by simp
next
  case (reachable_event c files ev c' changes problems)
  then have "stepsTo c changes c'" using handleEvent_step [of c ev] by (auto simp: staysInStep_def)
  with reachable_event show ?case by (simp add: stepsTo_def carriesFiles_def)
next
  case (reachable_reorder c files ts)
  then have "filesRight (c\<lparr>cTransportServers := ts\<rparr>) files" by (simp add: filesRight_def)
  with reachable_reorder reorder_step show ?case by blast
qed

definition started :: "Configuration \<Rightarrow> bool" where
  "started c = (\<exists>hasClass pl ap ir vsv gcv tsv tls. c = NewConfiguration hasClass pl ap ir vsv gcv tsv tls)"

lemma startedI [simp]: "started (NewConfiguration hasClass pl ap ir vsv gcv tsv tls)"
  unfolding started_def by blast

lemma reachableD:
  assumes "started c0" and "reachable c0 c files"
  shows "inStep c" "filesRight c files"
proof -
  obtain hasClass pl ap ir vsv gcv tsv tls where "c0 = NewConfiguration hasClass pl ap ir vsv gcv tsv tls"
    using assms(1) unfolding started_def by (elim exE)
  then have "inStep c0" "filesRight c0 []" by (rule start_inStep, rule start_filesRight)
  from reachable_invariant [OF assms(2) this] show "inStep c" "filesRight c files" by (rule conjunct1, rule conjunct2)
qed

lemma runEvents_total:
  assumes "inStep c" and "\<forall>ev\<in>set evs. plainEvent ev"
  shows "\<exists>s. runEvents evs (c, files) = Some s"
  using assms
proof (induction evs arbitrary: c files)
  case (Cons ev evs)
  then obtain c' ch pr where "handleEvent ev c = Some (c', ch, pr)" "inStep c'"
    using handleEvent_step [of c ev] by (auto simp: staysInStep_def stepsTo_def)
  with Cons show ?case by simp
qed simp

section \<open>Rejected objects\<close>

text \<open>Every resource comes from a stored object.\<close>

lemma resource_stored:
  assumes "wfObjects c" and "x \<in> resourcesOf c"
  shows "(resourceKind x = ingressKind \<longrightarrow> ghas (cIngresses c) (getResourceKey (GetObjectMeta x)))
    \<and> (resourceKind x = virtualServerKind \<longrightarrow> ghas (cVirtualServers c) (getResourceKey (GetObjectMeta x)))
    \<and> (resourceKind x = transportServerKind \<longrightarrow> ghas (cTransportServers c) (getResourceKey (GetObjectMeta x)))"
proof -
  note keyed = assms(1) [unfolded wfObjects_def]
  from assms(2) consider (ing) k i ic where "(k, i) \<in> set (cIngresses c)" "newIngressResource c i = Some ic" "x = noWarnings (IngressRes ic)"
    | (vs) k v where "(k, v) \<in> set (cVirtualServers c)" "x = noWarnings (virtualServerResource c v)"
    | (ts) k t where "(k, t) \<in> set (cTransportServers c)" "x = TransportServerRes (NewTransportServerConfiguration t)"
    by (auto simp: resourcesOf_def ingressResources_def passthroughResources_def split: if_splits option.splits)
  then show ?thesis
  proof cases
    case ing
    then have i: "gget (cIngresses c) k = Some i" using keyed by (simp add: keyedBy_def wf_gomap_in_set)
    then have "icIngress ic = i" using newIngressResource_total [OF assms(1), of i] ing(2) keyed by auto
    then show ?thesis using ing(3) i keyed by (auto simp: ghas_def keyedBy_def kind_defs)
  next
    case vs
    then have "gget (cVirtualServers c) k = Some v" using keyed by (simp add: keyedBy_def wf_gomap_in_set)
    then show ?thesis using vs(2) keyed
      by (auto simp: ghas_def keyedBy_def kind_defs virtualServerResource_def NewVirtualServerConfiguration_def)
  next
    case ts
    then have "gget (cTransportServers c) k = Some t" using keyed by (simp add: keyedBy_def wf_gomap_in_set)
    then show ?thesis using ts(2) keyed by (auto simp: ghas_def keyedBy_def kind_defs NewTransportServerConfiguration_def)
  qed
qed

lemma setChangeError_spec:
  "setChangeError k e cs = Some cs' \<Longrightarrow> \<exists>x\<in>set cs'. changeKey x = k \<and> rcError x = e \<and> (\<exists>y\<in>set cs. changeKey y = k \<and> rcOp y = rcOp x)"
  by (induction cs arbitrary: cs') (auto simp: changeKey_def split: if_splits)

lemma setChangeError_None: "setChangeError k e cs = None \<longleftrightarrow> k \<notin> changeKey ` set cs"
  by (induction cs) auto

text \<open>What a rebuild says about a key that no resource has.\<close>

lemma gone_resource_changes:
  assumes reb: "rebuiltHosts c c' resources changes problems" and gone: "\<And>x. x \<in> resourcesOf c \<Longrightarrow> GetKeyWithKind x \<noteq> K"
  shows "gget (cHosts c') h = Some r \<Longrightarrow> GetKeyWithKind r \<noteq> K"
    and "x \<in> set changes \<Longrightarrow> changeKey x = K \<Longrightarrow> rcOp x = Delete"
proof -
  have tab: "hostTable c (cHosts c') resources" using rebuiltHostsD [OF reb] by blast
  obtain cs where cs: "changesOf (cHosts c) (cHosts c') cs" "changes = referToLatest resources cs"
    using reb unfolding rebuiltHosts_def by (elim conjE exE) (rule that)
  show nobody: "GetKeyWithKind r \<noteq> K" if "gget (cHosts c') h = Some r" for h r
    using gone [OF hostTableD(5) [OF tab table_latest [OF tab that]]] by simp
  assume "x \<in> set changes" "changeKey x = K"
  then obtain y where y: "y \<in> set cs" "x = latestChange resources y" by (auto simp: cs(2) referToLatest_map)
  then have key: "changeKey y = K" using latestChange_key [OF hostTableD(4) [OF tab]] \<open>changeKey x = K\<close> by simp
  from cs(1) y(1) have "rcOp y = Delete"
  proof (cases rule: changesOf_cases)
    case update
    then obtain h where "gget (cHosts c') h = Some (rcResource y)" by (auto simp: hostUpdates_def)
    with nobody key show ?thesis by (simp add: changeKey_def)
  qed simp
  then show "rcOp x = Delete" by (simp add: y(2))
qed

lemma rejected_reported:
  assumes wf: "wfObjects c1" and gone: "\<And>x. x \<in> resourcesOf c1 \<Longrightarrow> GetKeyWithKind x \<noteq> K"
    and res: "reportError (Some err) K p (rebuildHosts c1) = Some (c', changes, problems)"
  shows "(\<forall>h r. gget (cHosts c') h = Some r \<longrightarrow> GetKeyWithKind r \<noteq> K)
    \<and> ((\<exists>x\<in>set changes. changeKey x = K \<and> rcOp x = Delete \<and> rcError x = err) \<or> p err \<in> set problems)
    \<and> cIngresses c' = cIngresses c1 \<and> cVirtualServers c' = cVirtualServers c1"
proof -
  obtain c2 rs ch pr where eq: "rebuildHosts c1 = Some (c2, ch, pr)" and reb: "rebuiltHosts c1 c2 rs ch pr"
    using rebuildHosts_total [OF wf] by blast
  obtain H P where upd: "c2 = c1\<lparr>cHosts := H, cHostProblems := P\<rparr>" using rebuiltHostsD [OF reb] by blast
  have gone': "\<And>h r. gget (cHosts c2) h = Some r \<Longrightarrow> GetKeyWithKind r \<noteq> K"
      "\<And>x. x \<in> set ch \<Longrightarrow> changeKey x = K \<Longrightarrow> rcOp x = Delete"
    using gone_resource_changes [OF reb gone] by blast+
  show ?thesis
  proof (cases "setChangeError K err ch")
    case None
    then have "c' = c2" "problems = pr @ [p err]" using res by (simp_all add: reportError_def eq)
    then show ?thesis using gone'(1) upd by simp
  next
    case (Some ch')
    then have *: "c' = c2" "changes = ch'" using res by (simp_all add: reportError_def eq)
    from setChangeError_spec [OF Some] gone'(2) have "\<exists>x\<in>set changes. changeKey x = K \<and> rcOp x = Delete \<and> rcError x = err"
      unfolding *(2) by fastforce
    then show ?thesis using gone'(1) * upd by simp
  qed
qed

end
