(* ===== verification/Configuration_Properties.thy ===== *)
theory Configuration_Properties
  imports Configuration_Lemmas
begin

text \<open>
  The properties of the Configuration, with runs of it on small clusters that show the
  hypotheses of the properties can hold.
\<close>

section \<open>Sample clusters\<close>

definition sampleStart :: "bool \<Rightarrow> Configuration" where
  "sampleStart tlsPassthrough =
     NewConfiguration (\<lambda>_. True) False False False \<lparr>vvIsPlus = False, vvRegexpCompile = (\<lambda>_. None)\<rparr>
       \<lparr>gvForbiddenListenerPorts = []\<rparr> \<lparr>tvTlsPassthrough = tlsPassthrough, tvSnippetsEnabled = False\<rparr> tlsPassthrough"

definition olderIngress :: Ingress where
  "olderIngress = sampleIngress (sampleMeta ''n'' ''a'' ''u'' 1 []) [sampleRule ''x'' [''/'']]"

definition youngerIngress :: Ingress where
  "youngerIngress = sampleIngress (sampleMeta ''n'' ''b'' ''v'' 2 []) [sampleRule ''x'' [''/''], sampleRule ''y'' [''/'']]"

text \<open>The younger Ingress comes first and has to give up one of its hosts.\<close>

definition ingressRun :: "event list" where
  "ingressRun = [IngressUpdated youngerIngress, IngressUpdated olderIngress]"

definition outcomeOf :: "event list \<Rightarrow> bool \<Rightarrow> Configuration \<times> Resource gomap" where
  "outcomeOf evs tls = the (runEvents evs (sampleStart tls, []))"

lemma sampleStart_started: "started (sampleStart tls)"
  by (simp add: sampleStart_def)

lemma outcome_reachable:
  assumes "\<forall>ev\<in>set evs. plainEvent ev"
  shows "reachable (sampleStart tls) (sampleStart tls) []"
    and "reachable (sampleStart tls) (fst (outcomeOf evs tls)) (snd (outcomeOf evs tls))"
    and "runEvents evs (sampleStart tls, []) = Some (outcomeOf evs tls)"
proof -
  show start: "reachable (sampleStart tls) (sampleStart tls) []" by (rule reachable_start)
  have "inStep (sampleStart tls)" using reachableD(1) [OF sampleStart_started start] .
  then obtain s where s: "runEvents evs (sampleStart tls, []) = Some s"
    using runEvents_total [OF _ assms] by blast
  then show run: "runEvents evs (sampleStart tls, []) = Some (outcomeOf evs tls)" by (simp add: outcomeOf_def)
  show "reachable (sampleStart tls) (fst (outcomeOf evs tls)) (snd (outcomeOf evs tls))"
    using runEvents_reachable [of evs "sampleStart tls" "[]" "fst (outcomeOf evs tls)" "snd (outcomeOf evs tls)"] run assms start
    by simp
qed

text \<open>The settings of a Configuration never change.\<close>

definition settingsOf where
  "settingsOf c = (cHasCorrectIngressClass c, cVirtualServerValidator c, cGlobalConfigurationValidator c,
     cTransportServerValidator c, cIsPlus c, cAppProtectEnabled c, cInternalRoutesEnabled c, cIsTLSPassthroughEnabled c)"

lemma rebuildHosts_settings:
  "rebuildHosts c = Some (c', ch, pr) \<Longrightarrow> settingsOf c' = settingsOf c"
  by (auto simp: rebuildHosts_def settingsOf_def split: option.splits)

lemma rebuildListeners_settings:
  "rebuildListeners c = Some (c', ch, pr) \<Longrightarrow> settingsOf c' = settingsOf c"
  by (auto simp: rebuildListeners_def settingsOf_def Let_def split: option.splits)

lemma settings_update [simp]:
  "settingsOf (c\<lparr>cIngresses := m1\<rparr>) = settingsOf c" "settingsOf (c\<lparr>cVirtualServers := m2\<rparr>) = settingsOf c"
  "settingsOf (c\<lparr>cVirtualServerRoutes := m3\<rparr>) = settingsOf c" "settingsOf (c\<lparr>cTransportServers := m4\<rparr>) = settingsOf c"
  "settingsOf (c\<lparr>cGlobalConfiguration := g\<rparr>) = settingsOf c"
  by (simp_all add: settingsOf_def)

lemma reportError_state: "reportError e k p res = Some (c', ch, pr) \<Longrightarrow> \<exists>ch' pr'. res = Some (c', ch', pr')"
  by (auto simp: reportError_def split: option.splits)

lemma rebuildForTransportServer_settings:
  "rebuildForTransportServer c = Some (c', ch, pr) \<Longrightarrow> settingsOf c' = settingsOf c"
  by (auto simp: rebuildForTransportServer_def dest!: rebuildHosts_settings rebuildListeners_settings
      split: option.splits if_splits)

lemma handleEvent_settings:
  "handleEvent ev c = Some (c', ch, pr) \<Longrightarrow> settingsOf c' = settingsOf c"
  by (cases ev)
    (auto simp: AddOrUpdateIngress_def DeleteIngress_def AddOrUpdateVirtualServer_def DeleteVirtualServer_def
      AddOrUpdateVirtualServerRoute_def DeleteVirtualServerRoute_def AddOrUpdateGlobalConfiguration_def
      DeleteGlobalConfiguration_def AddOrUpdateTransportServer_def DeleteTransportServer_def Let_def
      storeIngress_def storeVirtualServer_def storeVirtualServerRoute_def storeTransportServer_def
      dest!: reportError_state rebuildHosts_settings rebuildListeners_settings rebuildForTransportServer_settings
      split: if_splits option.splits)

lemma reachable_settings: "reachable c0 c files \<Longrightarrow> settingsOf c = settingsOf c0"
  by (induction rule: reachable.induct) (auto dest!: handleEvent_settings)

lemma ingressRun_plain: "\<forall>ev\<in>set ingressRun. plainEvent ev"
  by (simp add: ingressRun_def)

definition storedObjects where
  "storedObjects c = (cIngresses c, cVirtualServers c, cVirtualServerRoutes c, cTransportServers c)"

lemma ingressRun_outcome:
  "(case outcomeOf ingressRun False of (c, files) \<Rightarrow>
      (map_option GetKeyWithKind (gget (cHosts c) ''x''), map_option GetKeyWithKind (gget (cHosts c) ''y''), map fst files)
      = (Some ''Ingress/n/a'', Some ''Ingress/n/b'', [''Ingress/n/b'', ''Ingress/n/a''])
      \<and> storedObjects c = ([(''n/b'', youngerIngress), (''n/a'', olderIngress)], [], [], []))"
  by code_simp

lemma ingressRun_holders:
  assumes "outcomeOf ingressRun False = (c, files)"
  shows "map_option GetKeyWithKind (gget (cHosts c) ''x'') = Some ''Ingress/n/a''"
    "map_option GetKeyWithKind (gget (cHosts c) ''y'') = Some ''Ingress/n/b''" "gkeys files = {''Ingress/n/b'', ''Ingress/n/a''}"
    "storedObjects c = ([(''n/b'', youngerIngress), (''n/a'', olderIngress)], [], [], [])"
  using ingressRun_outcome assms by (auto simp: gkeys_def)

text \<open>The same objects in the other order.\<close>

definition reverseRun :: "event list" where
  "reverseRun = rev ingressRun"

lemma reverseRun_plain: "\<forall>ev\<in>set reverseRun. plainEvent ev"
  by (simp add: reverseRun_def ingressRun_plain)

lemma reverseRun_objects:
  "storedObjects (fst (outcomeOf reverseRun False)) = ([(''n/a'', olderIngress), (''n/b'', youngerIngress)], [], [], [])"
  by code_simp

section \<open>No event panics\<close>

text \<open>
  C1: No event makes the Configuration panic: in every state reachable from a new Configuration,
  whatever object is added, updated or deleted, the operation returns (no nil pointer is followed
  and no index is out of range in the rebuilds).
\<close>

theorem events_never_panic:
  assumes "started c0" and "reachable c0 c files" and "plainEvent ev"
  shows "\<exists>c' changes problems. handleEvent ev c = Some (c', changes, problems)"
  using handleEvent_step [OF reachableD(1) [OF assms(1,2)] assms(3)] by (auto simp: staysInStep_def)

theorem events_never_panic_witness:
  "\<exists>c' changes problems. handleEvent (IngressRemoved ''n/a'') (fst (outcomeOf ingressRun False)) = Some (c', changes, problems)"
  using events_never_panic [OF sampleStart_started outcome_reachable(2) [OF ingressRun_plain], of "IngressRemoved ''n/a''"]
  by simp

section \<open>Who holds a host\<close>

lemma host_table_facts:
  assumes "started c0" and "reachable c0 c files"
  shows "gget (cHosts c) h = None \<longleftrightarrow> (\<forall>x\<in>resourcesOf c. h \<notin> set (resourceHosts x))"
    and "gget (cHosts c) h = Some r \<Longrightarrow> plainResource r \<in> resourcesOf c"
    and "gget (cHosts c) h = Some r \<Longrightarrow> h \<in> set (resourceHosts r)"
    and "gget (cHosts c) h = Some r \<Longrightarrow> x \<in> resourcesOf c \<Longrightarrow> h \<in> set (resourceHosts x) \<Longrightarrow> \<not> Wins x r"
proof -
  obtain resources where tab: "hostTable c (cHosts c) resources"
    using inStepD(3) [OF reachableD(1) [OF assms]] by (auto simp: hostsInStep_def)
  show holder: "plainResource r \<in> resourcesOf c" "h \<in> set (resourceHosts r)" if "gget (cHosts c) h = Some r" for r
    using hostTableD(5) [OF tab table_latest [OF tab that]] hostTableD(7) [OF tab that] by blast+
  show "\<not> Wins x r" if "gget (cHosts c) h = Some r" "x \<in> resourcesOf c" "h \<in> set (resourceHosts x)"
    using hostTableD(8) [OF tab that] .
  show "gget (cHosts c) h = None \<longleftrightarrow> (\<forall>x\<in>resourcesOf c. h \<notin> set (resourceHosts x))"
  proof (cases "gget (cHosts c) h")
    case (Some r)
    have "\<exists>x\<in>resourcesOf c. h \<in> set (resourceHosts x)"
      using holder [OF Some] by (intro bexI [of _ "plainResource r"]) simp_all
    with Some show ?thesis by simp
  qed (use hostTableD(9) [OF tab] in blast)
qed

lemma unbeaten_iff:
  "\<not> chooseObjectMetaWinner m m' \<longleftrightarrow>
     omCreationTimestamp m' < omCreationTimestamp m
     \<or> (omCreationTimestamp m' = omCreationTimestamp m \<and> omUID m \<le> omUID m')"
  by (auto simp: chooseObjectMetaWinner_def)

text \<open>
  C2: In every reachable state the table of hosts is in step with the stored objects: a host has
  a holder exactly when a stored resource asks for it, and the holder is one of those that ask
  for it and is beaten by none of them, whatever the order of the events was: it is older than each
  of them, or as old and has the greatest UID. (The guide to host and listener collisions in
  docs-web promises the smallest UID; the code compares the other way round.)
\<close>

theorem host_held_by_unbeaten:
  assumes "started c0" and "reachable c0 c files"
  shows "(gget (cHosts c) h = None \<longleftrightarrow> (\<forall>x\<in>resourcesOf c. h \<notin> set (resourceHosts x)))
    \<and> (\<forall>r. gget (cHosts c) h = Some r \<longrightarrow>
          plainResource r \<in> resourcesOf c \<and> h \<in> set (resourceHosts r)
          \<and> (\<forall>x\<in>resourcesOf c. h \<in> set (resourceHosts x) \<longrightarrow>
                \<not> Wins x r
                \<and> (omCreationTimestamp (GetObjectMeta r) < omCreationTimestamp (GetObjectMeta x)
                   \<or> (omCreationTimestamp (GetObjectMeta r) = omCreationTimestamp (GetObjectMeta x)
                      \<and> omUID (GetObjectMeta x) \<le> omUID (GetObjectMeta r)))))"
  using host_table_facts [OF assms] unbeaten_iff unfolding Wins_def by blast

theorem host_held_by_unbeaten_witness:
  "\<exists>r. gget (cHosts (fst (outcomeOf ingressRun False))) ''x'' = Some r \<and> GetKeyWithKind r = ''Ingress/n/a''
     \<and> (\<forall>x\<in>resourcesOf (fst (outcomeOf ingressRun False)). ''x'' \<in> set (resourceHosts x) \<longrightarrow> \<not> Wins x r)"
  using host_held_by_unbeaten [OF sampleStart_started outcome_reachable(2) [OF ingressRun_plain], of False "''x''"]
    ingressRun_holders(1) [OF surjective_pairing]
  by (auto simp del: GetKeyWithKind.simps)

section \<open>Files\<close>

text \<open>
  C3: The changes the operations return are complete and consistent: a consumer that keeps one
  configuration file per resource and does what the changes say has, after any sequence of
  events, an up-to-date file for every Ingress and VirtualServer that holds a host and no other
  file for them; and the same for the TransportServers that hold a listener, as long as TLS
  passthrough is off.
\<close>

theorem files_reflect_holders:
  assumes "started c0" and "reachable c0 c files"
  shows "reflectsOn (\<lambda>k. \<not> isTransportKey k) files (cHosts c)
    \<and> (\<not> cIsTLSPassthroughEnabled c \<longrightarrow> reflectsOn isTransportKey files (asResources (cListeners c)))"
  using reachableD(2) [OF assms] by (simp add: filesRight_def)

theorem files_reflect_holders_witness:
  "reflectsOn (\<lambda>k. \<not> isTransportKey k) (snd (outcomeOf ingressRun False)) (cHosts (fst (outcomeOf ingressRun False)))
   \<and> gkeys (snd (outcomeOf ingressRun False)) = {''Ingress/n/b'', ''Ingress/n/a''}"
  using files_reflect_holders [OF sampleStart_started outcome_reachable(2) [OF ingressRun_plain]]
    ingressRun_holders(3) [OF surjective_pairing] by blast

section \<open>Rejected objects\<close>

lemma key_parts:
  assumes "GetKeyWithKind x = getResourceKeyWithKind kind m" and "CHR ''/'' \<notin> set kind"
  shows "resourceKind x = kind" "getResourceKey (GetObjectMeta x) = getResourceKey m"
proof -
  have eq: "getResourceKeyWithKind (resourceKind x) (GetObjectMeta x) = getResourceKeyWithKind kind m"
    using assms(1) by (simp add: GetKeyWithKind_eq)
  then show kind: "resourceKind x = kind" using keyWithKind_kind_eq resourceKind_no_slash assms(2) by blast
  show "getResourceKey (GetObjectMeta x) = getResourceKey m" using eq unfolding kind keyWithKind_inject .
qed

text \<open>
  C16: An Ingress that fails validation is not stored (an older valid version is dropped), holds
  no host afterwards, and its error is reported: in the change that deletes the resource if it
  held a host, and as a problem otherwise.
\<close>

theorem rejected_ingress_reported:
  assumes "started c0" and "reachable c0 c files"
    and "cHasCorrectIngressClass c (IngressObj ing)"
    and "ToAggregate (validateIngress ing (cIsPlus c) (cAppProtectEnabled c) (cInternalRoutesEnabled c)) = Some err"
    and "AddOrUpdateIngress ing c = Some (c', changes, problems)"
  defines "K \<equiv> getResourceKeyWithKind ingressKind (ingMeta ing)"
  shows "\<not> ghas (cIngresses c') (getResourceKey (ingMeta ing))
    \<and> (\<forall>h r. gget (cHosts c') h = Some r \<longrightarrow> GetKeyWithKind r \<noteq> K)
    \<and> ((\<exists>x\<in>set changes. changeKey x = K \<and> rcOp x = Delete \<and> rcError x = err)
       \<or> errorProblem (IngressObj ing) err \<in> set problems)"
proof -
  let ?c1 = "storeIngress ing c"
  have err: "ingressError c ing = Some err" using assms(3,4) by (simp add: ingressError_def)
  have wf: "wfObjects ?c1" using wf_storeIngress inStepD(1) [OF reachableD(1) [OF assms(1,2)]] by blast
  have gone: "\<not> ghas (cIngresses ?c1) (getResourceKey (ingMeta ing))" by (simp add: storeIngress_def err ghas_def)
  have "GetKeyWithKind x \<noteq> K" if "x \<in> resourcesOf ?c1" for x
    using resource_stored [OF wf that] key_parts [of x ingressKind "ingMeta ing"] gone by (auto simp: K_def kind_defs)
  moreover have "reportError (Some err) K (errorProblem (IngressObj ing)) (rebuildHosts ?c1) = Some (c', changes, problems)"
    using assms(5) by (simp add: AddOrUpdateIngress_def err K_def)
  ultimately have "(\<forall>h r. gget (cHosts c') h = Some r \<longrightarrow> GetKeyWithKind r \<noteq> K)
      \<and> ((\<exists>x\<in>set changes. changeKey x = K \<and> rcOp x = Delete \<and> rcError x = err)
         \<or> errorProblem (IngressObj ing) err \<in> set problems)
      \<and> cIngresses c' = cIngresses ?c1 \<and> cVirtualServers c' = cVirtualServers ?c1"
    by (rule rejected_reported [OF wf])
  with gone show ?thesis by simp
qed

definition brokenIngress :: Ingress where
  "brokenIngress = olderIngress\<lparr>ingSpec := (ingSpec olderIngress)\<lparr>isRules := []\<rparr>\<rparr>"

theorem rejected_ingress_reported_witness:
  "\<exists>err c' changes problems.
     AddOrUpdateIngress brokenIngress (fst (outcomeOf ingressRun False)) = Some (c', changes, problems)
     \<and> \<not> ghas (cIngresses c') ''n/a'' \<and> (\<forall>h r. gget (cHosts c') h = Some r \<longrightarrow> GetKeyWithKind r \<noteq> ''Ingress/n/a'')
     \<and> ((\<exists>x\<in>set changes. changeKey x = ''Ingress/n/a'' \<and> rcOp x = Delete \<and> rcError x = err)
        \<or> errorProblem (IngressObj brokenIngress) err \<in> set problems)"
proof -
  let ?c = "fst (outcomeOf ingressRun False)"
  note reach = outcome_reachable(2) [OF ingressRun_plain, of False]
  have "cHasCorrectIngressClass ?c (IngressObj brokenIngress)"
  proof -
    have "cHasCorrectIngressClass (sampleStart False) = (\<lambda>_. True)" by (simp add: sampleStart_def NewConfiguration_def)
    then show ?thesis using reachable_settings [OF reach] by (simp add: settingsOf_def)
  qed
  moreover have "validateIngress brokenIngress pl ap ir \<noteq> []" for pl ap ir
    by (simp add: validateIngress_Nil_iff okIngress_def brokenIngress_def)
  then obtain err where
    "ToAggregate (validateIngress brokenIngress (cIsPlus ?c) (cAppProtectEnabled ?c) (cInternalRoutesEnabled ?c)) = Some err"
    by (metis ToAggregate_None_iff option.exhaust)
  moreover obtain c' changes problems where "AddOrUpdateIngress brokenIngress ?c = Some (c', changes, problems)"
    using handleEvent_step [OF reachableD(1) [OF sampleStart_started reach], of "IngressUpdated brokenIngress"]
    by (auto simp: staysInStep_def)
  moreover have "getResourceKey (ingMeta brokenIngress) = ''n/a''"
      "getResourceKeyWithKind ingressKind (ingMeta brokenIngress) = ''Ingress/n/a''"
    by (simp_all add: brokenIngress_def olderIngress_def sampleIngress_def sampleMeta_def getResourceKey_def
        getResourceKeyWithKind_def ingressKind_def)
  ultimately show ?thesis
    using rejected_ingress_reported [OF sampleStart_started reach, of brokenIngress err c' changes problems] by metis
qed

text \<open>
  C17: The same for a VirtualServer that fails validation.
\<close>

theorem rejected_virtual_server_reported:
  assumes "started c0" and "reachable c0 c files"
    and "cHasCorrectIngressClass c (VirtualServerObj vs)"
    and "ValidateVirtualServer (cVirtualServerValidator c) vs = Some err"
    and "AddOrUpdateVirtualServer vs c = Some (c', changes, problems)"
  defines "K \<equiv> getResourceKeyWithKind virtualServerKind (vsMeta vs)"
  shows "\<not> ghas (cVirtualServers c') (getResourceKey (vsMeta vs))
    \<and> (\<forall>h r. gget (cHosts c') h = Some r \<longrightarrow> GetKeyWithKind r \<noteq> K)
    \<and> ((\<exists>x\<in>set changes. changeKey x = K \<and> rcOp x = Delete \<and> rcError x = err)
       \<or> (\<exists>p\<in>set problems. cpIsError p \<and> cpObject p = VirtualServerObj vs))"
proof -
  let ?c1 = "storeVirtualServer vs c"
  let ?p = "\<lambda>err. errorProblem (VirtualServerObj vs) (rejectedMessage ''VirtualServer'' (vsMeta vs) err)"
  have err: "virtualServerError c vs = Some err" using assms(3,4) by (simp add: virtualServerError_def)
  have wf: "wfObjects ?c1" using wf_storeVirtualServer inStepD(1) [OF reachableD(1) [OF assms(1,2)]] by blast
  have gone: "\<not> ghas (cVirtualServers ?c1) (getResourceKey (vsMeta vs))" by (simp add: storeVirtualServer_def err ghas_def)
  have "GetKeyWithKind x \<noteq> K" if "x \<in> resourcesOf ?c1" for x
    using resource_stored [OF wf that] key_parts [of x virtualServerKind "vsMeta vs"] gone by (auto simp: K_def kind_defs)
  moreover have "reportError (Some err) K ?p (rebuildHosts ?c1) = Some (c', changes, problems)"
    using assms(5) by (simp add: AddOrUpdateVirtualServer_def err K_def)
  ultimately have *: "(\<forall>h r. gget (cHosts c') h = Some r \<longrightarrow> GetKeyWithKind r \<noteq> K)
      \<and> ((\<exists>x\<in>set changes. changeKey x = K \<and> rcOp x = Delete \<and> rcError x = err) \<or> ?p err \<in> set problems)
      \<and> cIngresses c' = cIngresses ?c1 \<and> cVirtualServers c' = cVirtualServers ?c1"
    by (rule rejected_reported [OF wf])
  have "cpIsError (?p err)" "cpObject (?p err) = VirtualServerObj vs" by (simp_all add: errorProblem_def)
  with * gone show ?thesis by auto
qed

definition sampleVirtualServer :: "ObjectMeta \<Rightarrow> string \<Rightarrow> VirtualServer" where
  "sampleVirtualServer m host =
     \<lparr>vsMeta = m, vsSpec = \<lparr>vssIngressClass = [], vssHost = host, vssTLS = None, vssPolicies = [], vssUpstreams = [], vssRoutes = [],
        vssHTTPSnippets = [], vssServerSnippets = []\<rparr>\<rparr>"

theorem rejected_virtual_server_reported_witness:
  "\<exists>err c' changes problems.
     AddOrUpdateVirtualServer (sampleVirtualServer (sampleMeta ''n'' ''a'' ''w'' 1 []) '''') (sampleStart False) = Some (c', changes, problems)
     \<and> ((\<exists>x\<in>set changes. changeKey x = ''VirtualServer/n/a'' \<and> rcOp x = Delete \<and> rcError x = err) \<or> (\<exists>p\<in>set problems. cpIsError p))"
proof -
  let ?c = "sampleStart False" and ?vs = "sampleVirtualServer (sampleMeta ''n'' ''a'' ''w'' 1 []) ''''"
  have reach: "reachable ?c ?c []" by (rule reachable_start)
  have "cHasCorrectIngressClass ?c (VirtualServerObj ?vs)" by (simp add: sampleStart_def NewConfiguration_def)
  moreover have "ValidateVirtualServer (cVirtualServerValidator ?c) ?vs \<noteq> None" by code_simp
  then obtain err where "ValidateVirtualServer (cVirtualServerValidator ?c) ?vs = Some err" by blast
  moreover obtain c' changes problems where "AddOrUpdateVirtualServer ?vs ?c = Some (c', changes, problems)"
    using handleEvent_step [OF reachableD(1) [OF sampleStart_started reach], of "VirtualServerUpdated ?vs"]
    by (auto simp: staysInStep_def)
  moreover have "getResourceKeyWithKind virtualServerKind (vsMeta ?vs) = ''VirtualServer/n/a''"
    by (simp add: sampleVirtualServer_def sampleMeta_def getResourceKeyWithKind_def virtualServerKind_def)
  ultimately show ?thesis
    using rejected_virtual_server_reported [OF sampleStart_started reach, of ?vs err c' changes problems] by metis
qed

section \<open>The order of the events does not matter\<close>

definition sameMap :: "'v gomap \<Rightarrow> 'v gomap \<Rightarrow> bool" where
  "sameMap m m' = (\<forall>k. gget m k = gget m' k)"

lemma sortedEntries_keys: "wf_gomap m \<Longrightarrow> sortedEntries m = map (\<lambda>k. (k, the (gget m k))) (sortedKeys m)"
  by (subst keys_sortedEntries [symmetric]) (auto simp: in_sortedEntries wf_gomap_in_set intro!: map_idI [symmetric])

lemma sortedKeys_map:
  assumes "wf_gomap m" and "wf_gomap m'" and "sameMap m m'"
  shows "sortedKeys m = sortedKeys m'"
proof (rule sorted_distinct_set_unique)
  have "gkeys m = gkeys m'" using assms(3) by (auto simp: sameMap_def in_gkeys_iff)
  then show "set (sortedKeys m) = set (sortedKeys m')" by (simp add: sortedKeys_def gkeys_def)
qed (use assms in \<open>simp_all add: sortedKeys_def wf_gomap_def\<close>)

lemma sortedEntries_map:
  "wf_gomap m \<Longrightarrow> wf_gomap m' \<Longrightarrow> sameMap m m' \<Longrightarrow> sortedEntries m = sortedEntries m'"
  using sortedKeys_map [of m m'] by (simp add: sortedEntries_keys sameMap_def)

lemma set_map_same: "wf_gomap m \<Longrightarrow> wf_gomap m' \<Longrightarrow> sameMap m m' \<Longrightarrow> set m = set m'"
  using sortedEntries_map [of m m'] set_sortedEntries by metis

text \<open>Two Configurations with the same settings that store the same objects, as maps.\<close>

definition sameObjects :: "Configuration \<Rightarrow> Configuration \<Rightarrow> bool" where
  "sameObjects c c' =
     (sameMap (cIngresses c) (cIngresses c') \<and> sameMap (cVirtualServers c) (cVirtualServers c')
      \<and> sameMap (cVirtualServerRoutes c) (cVirtualServerRoutes c') \<and> sameMap (cTransportServers c) (cTransportServers c')
      \<and> cVirtualServerValidator c = cVirtualServerValidator c' \<and> cIsTLSPassthroughEnabled c = cIsTLSPassthroughEnabled c')"

lemma collectRoutes_map:
  assumes "sameMap (cVirtualServerRoutes c) (cVirtualServerRoutes c')" "cVirtualServerValidator c = cVirtualServerValidator c'"
  shows "collectRoutes c vs rs vsrs ws = collectRoutes c' vs rs vsrs ws"
  using assms(1) by (induction rs arbitrary: vsrs ws) (simp_all add: assms(2) sameMap_def Let_def split: option.split)

lemma resourcesOf_map:
  assumes same: "sameObjects c c'" and wf: "wfObjects c" "wfObjects c'"
  shows "resourcesOf c = resourcesOf c'"
proof -
  note parts = same [unfolded sameObjects_def]
  have wfs: "wf_gomap (cIngresses c)" "wf_gomap (cIngresses c')" "wf_gomap (cVirtualServers c)" "wf_gomap (cVirtualServers c')"
      "wf_gomap (cTransportServers c)" "wf_gomap (cTransportServers c')"
    using wf by (simp_all add: wfObjects_def keyedBy_def)
  have sets: "set (cIngresses c) = set (cIngresses c')" "set (cVirtualServers c) = set (cVirtualServers c')"
      "set (cTransportServers c) = set (cTransportServers c')"
    using parts wfs set_map_same by blast+
  have "buildMinionConfigs (cIngresses c) = buildMinionConfigs (cIngresses c')"
    using sortedEntries_map [OF wfs(1,2)] parts by (intro ext) (simp add: buildMinionConfigs_def)
  then have "newIngressResource c = newIngressResource c'"
    by (intro ext) (simp add: newIngressResource_def split: list.split)
  moreover have "virtualServerResource c = virtualServerResource c'"
    using collectRoutes_map [of c c'] parts by (intro ext) (simp add: virtualServerResource_def buildVirtualServerRoutes_def)
  ultimately show ?thesis
    using parts sets by (simp add: resourcesOf_def ingressResources_def)
qed

text \<open>
  C18: Who holds which host is a function of the objects in the cluster, not of the history: two
  reachable Configurations that store the same objects (whose resources have distinct UIDs) give
  every host to the same resource, built from the same Ingress, minions, VirtualServer and
  VirtualServerRoutes.
\<close>

theorem hosts_independent_of_history:
  assumes "started c0" "reachable c0 c files" and "started c0'" "reachable c0' c' files'" and "sameObjects c c'"
    and "\<And>x y. x \<in> resourcesOf c \<Longrightarrow> y \<in> resourcesOf c \<Longrightarrow> x \<noteq> y \<Longrightarrow> omUID (GetObjectMeta x) \<noteq> omUID (GetObjectMeta y)"
  shows "map_option plainResource (gget (cHosts c) h) = map_option plainResource (gget (cHosts c') h)"
proof -
  have res: "resourcesOf c = resourcesOf c'"
    using resourcesOf_map [OF assms(5)] inStepD(1) reachableD(1) assms(1-4) by blast
  note held = host_table_facts [OF assms(1,2), of h] and held' = host_table_facts [OF assms(3,4), of h]
  show ?thesis
  proof (cases "gget (cHosts c) h")
    case None
    then have "gget (cHosts c') h = None" using held(1) held'(1) unfolding res by blast
    with None show ?thesis by simp
  next
    case (Some r)
    then obtain r' where r': "gget (cHosts c') h = Some r'" using held(1) held'(1) unfolding res by (metis option.exhaust)
    let ?x = "plainResource r" and ?y = "plainResource r'"
    have "?x \<in> resourcesOf c" "?y \<in> resourcesOf c" "h \<in> set (resourceHosts ?x)" "h \<in> set (resourceHosts ?y)"
        "\<not> Wins ?y r" "\<not> Wins ?x r'"
      using held(2,3,4) [OF Some] held'(2,3,4) [OF r'] unfolding res by simp_all
    then have "?x = ?y" using assms(6) [of ?x ?y] winner_total by (auto simp: Wins_def)
    with Some r' show ?thesis by simp
  qed
qed

lemma trans_sym: "x = z \<Longrightarrow> y = z \<Longrightarrow> x = y"
  by simp

lemma sample_resources:
  assumes "storedObjects c = (ings, [], [], [])" and "set ings = {(''n/a'', olderIngress), (''n/b'', youngerIngress)}"
  shows "resourcesOf c = {IngressRes (NewRegularIngressConfiguration olderIngress), IngressRes (NewRegularIngressConfiguration youngerIngress)}"
proof -
  have "\<not> isMinion i \<and> newIngressResource c i = Some (NewRegularIngressConfiguration i)
      \<and> noWarnings (IngressRes (NewRegularIngressConfiguration i)) = IngressRes (NewRegularIngressConfiguration i)"
    if "i \<in> {olderIngress, youngerIngress}" for i
    using that by (auto simp: newIngressResource_def isMinion_def isMaster_def gstr_def olderIngress_def youngerIngress_def
        sampleIngress_def sampleMeta_def NewRegularIngressConfiguration_def)
  then show ?thesis
    using assms by (auto simp: resourcesOf_def ingressResources_def storedObjects_def)
qed

theorem hosts_independent_of_history_witness:
  "map_option GetKeyWithKind (gget (cHosts (fst (outcomeOf reverseRun False))) ''x'') = Some ''Ingress/n/a''"
proof -
  let ?c = "fst (outcomeOf ingressRun False)" and ?c' = "fst (outcomeOf reverseRun False)"
  note reach = outcome_reachable(2) [OF ingressRun_plain, of False] outcome_reachable(2) [OF reverseRun_plain, of False]
  note run = ingressRun_holders [OF surjective_pairing]
  have "settingsOf ?c = settingsOf ?c'"
    using reachable_settings [OF reach(1)] reachable_settings [OF reach(2)] by (rule trans_sym)
  moreover have "sameMap [(''n/b'', youngerIngress), (''n/a'', olderIngress)] [(''n/a'', olderIngress), (''n/b'', youngerIngress)]"
    by (simp add: sameMap_def)
  ultimately have "sameObjects ?c ?c'"
    using run(4) reverseRun_objects unfolding sameObjects_def storedObjects_def settingsOf_def
    by (elim Pair_inject) (simp add: sameMap_def)
  moreover have res: "resourcesOf ?c = {IngressRes (NewRegularIngressConfiguration olderIngress), IngressRes (NewRegularIngressConfiguration youngerIngress)}"
    by (rule sample_resources [OF run(4)]) auto
  have "omUID (GetObjectMeta x) \<noteq> omUID (GetObjectMeta y)" if "x \<in> resourcesOf ?c" "y \<in> resourcesOf ?c" "x \<noteq> y" for x y
    using that unfolding res by (auto simp: NewRegularIngressConfiguration_def olderIngress_def youngerIngress_def sampleIngress_def sampleMeta_def)
  ultimately have "map_option plainResource (gget (cHosts ?c) ''x'') = map_option plainResource (gget (cHosts ?c') ''x'')"
    using hosts_independent_of_history [OF sampleStart_started reach(1) sampleStart_started reach(2)] by blast
  then have "map_option (GetKeyWithKind \<circ> plainResource) (gget (cHosts ?c) ''x'')
      = map_option (GetKeyWithKind \<circ> plainResource) (gget (cHosts ?c') ''x'')"
    by (metis option.map_comp)
  moreover have "GetKeyWithKind \<circ> plainResource = GetKeyWithKind" by (auto simp: fun_eq_iff simp del: GetKeyWithKind.simps)
  ultimately show ?thesis using run(1) by simp
qed

section \<open>Listeners\<close>

text \<open>
  C19: In every reachable state a listener of the GlobalConfiguration has a holder exactly when a
  stored TransportServer asks for it by name and protocol, and the holder is beaten by none that
  do: it is older than each of them, or as old and has the greatest UID (the guide to collisions
  promises the smallest). The holder carries the port of the listener.
\<close>

theorem listener_held_by_unbeaten:
  assumes "started c0" and "reachable c0 c files"
  shows "(gget (cListeners c) l = None \<longleftrightarrow> (\<forall>ts. \<not> wants c l ts))
    \<and> (\<forall>tsc. gget (cListeners c) l = Some tsc \<longrightarrow>
          wants c l (tscTransportServer tsc)
          \<and> (\<exists>li. wantedListener (cGlobalConfiguration c) (tscTransportServer tsc) = Some li \<and> tscListenerPort tsc = lsPort li)
          \<and> (\<forall>ts. wants c l ts \<longrightarrow>
                \<not> chooseObjectMetaWinner (tsMeta ts) (tsMeta (tscTransportServer tsc))
                \<and> (omCreationTimestamp (tsMeta (tscTransportServer tsc)) < omCreationTimestamp (tsMeta ts)
                   \<or> (omCreationTimestamp (tsMeta (tscTransportServer tsc)) = omCreationTimestamp (tsMeta ts)
                      \<and> omUID (tsMeta ts) \<le> omUID (tsMeta (tscTransportServer tsc))))))"
proof -
  have tab: "listenerTable c (cListeners c)"
    using inStepD(4) [OF reachableD(1) [OF assms]] by (simp add: listenersInStep_def)
  have "\<exists>li. wantedListener (cGlobalConfiguration c) (tscTransportServer tsc) = Some li \<and> tscListenerPort tsc = lsPort li"
    if "gget (cListeners c) l = Some tsc" for tsc
    using listenerTableD(3,4) [OF tab that] by (auto simp: wants_def tscFor_def)
  moreover have "gget (cListeners c) l = None \<longleftrightarrow> (\<forall>ts. \<not> wants c l ts)"
    using listenerTableD(3,6) [OF tab] by (metis option.exhaust option.distinct(1))
  moreover have "\<not> chooseObjectMetaWinner (tsMeta ts) (tsMeta (tscTransportServer tsc))"
    if "gget (cListeners c) l = Some tsc" "wants c l ts" for ts tsc
    using listenerTableD(5) [OF tab] that by blast
  ultimately show ?thesis using listenerTableD(3) [OF tab] unbeaten_iff by blast
qed

definition sampleTransportServer :: "ObjectMeta \<Rightarrow> string \<Rightarrow> string \<Rightarrow> string \<Rightarrow> TransportServer" where
  "sampleTransportServer m l protocol host =
     \<lparr>tsMeta = m,
      tsSpec = \<lparr>tssIngressClass = [], tssListener = \<lparr>tslName = l, tslProtocol = protocol\<rparr>, tssServerSnippets = [],
        tssHost = host,
        tssUpstreams = [\<lparr>tuName = ''u'', tuService = ''s'', tuPort = 80, tuFailTimeout = [], tuMaxFails = None, tuHealthCheck = None\<rparr>],
        tssUpstreamParameters = None, tssSessionParameters = None, tssAction = Some \<lparr>taPass = ''u''\<rparr>\<rparr>\<rparr>"

definition sampleGlobalConfiguration :: GlobalConfiguration where
  "sampleGlobalConfiguration =
     \<lparr>gcMeta = sampleMeta ''n'' ''g'' ''g'' 1 [], gcSpec = \<lparr>gcsListeners = [\<lparr>lsName = ''t'', lsPort = 53, lsProtocol = ''TCP''\<rparr>]\<rparr>\<rparr>"

text \<open>A TransportServer that moves from TLS passthrough to a TCP listener.\<close>

definition switchRun :: "event list" where
  "switchRun =
     [GlobalConfigurationUpdated sampleGlobalConfiguration,
      TransportServerUpdated (sampleTransportServer (sampleMeta ''n'' ''t'' ''u'' 1 []) ''tls-passthrough'' ''TLS_PASSTHROUGH'' ''x''),
      TransportServerUpdated (sampleTransportServer (sampleMeta ''n'' ''t'' ''u'' 1 []) ''t'' ''TCP'' '''')]"

lemma switchRun_plain: "\<forall>ev\<in>set switchRun. plainEvent ev"
  by (simp add: switchRun_def sampleTransportServer_def sampleMeta_def plainMeta_def)

text \<open>
  With TLS passthrough on, the changes are not complete: a TransportServer that moves from
  TLS passthrough to a TCP listener gets its listener, but the deletion of its host is returned
  after the addition of its listener, so the consumer is left without a file for it.
\<close>

lemma switched_transport_server_loses_file:
  "case outcomeOf switchRun True of (c, files) \<Rightarrow>
     map_option (GetKeyWithKind \<circ> TransportServerRes) (gget (cListeners c) ''t'') = Some ''TransportServer/n/t''
     \<and> files = []"
  by code_simp

text \<open>The listener is held in that run, also in the sense of C19.\<close>

theorem listener_held_by_unbeaten_witness:
  "\<exists>tsc. gget (cListeners (fst (outcomeOf switchRun True))) ''t'' = Some tsc \<and> wants (fst (outcomeOf switchRun True)) ''t'' (tscTransportServer tsc)"
proof -
  have "gget (cListeners (fst (outcomeOf switchRun True))) ''t'' \<noteq> None" by code_simp
  then show ?thesis
    using listener_held_by_unbeaten [OF sampleStart_started outcome_reachable(2) [OF switchRun_plain], of True "''t''"] by blast
qed

section \<open>Finding the resources to update\<close>

text \<open>The references of the resources that are active.\<close>

definition activeResources :: "Configuration \<Rightarrow> Resource set" where
  "activeResources c = snd ` set (cHosts c) \<union> TransportServerRes ` snd ` set (cListeners c)"

lemma in_findResources:
  "r \<in> set (findResourcesForResourceReference c ns n checker) \<longleftrightarrow>
     (r \<in> snd ` set (cHosts c) \<and> isReferencedByResource checker ns n r)
     \<or> (r \<in> TransportServerRes ` snd ` set (cListeners c) \<and> isReferencedByResource checker ns n r)"
  by (force simp: findResourcesForResourceReference_def isReferencedByResource_def)

lemma in_findResources_active:
  "r \<in> set (findResourcesForResourceReference c ns n checker) \<longleftrightarrow> r \<in> activeResources c \<and> isReferencedByResource checker ns n r"
  by (auto simp: in_findResources activeResources_def)

fun resourceServices :: "bool \<Rightarrow> Resource \<Rightarrow> reference set" where
  "resourceServices b (IngressRes ic) = ingressServices (icIngress ic) \<union> (\<Union>m\<in>set (icMinions ic). ingressServices (mcIngress m))"
| "resourceServices b (VirtualServerRes vsc) =
     upstreamServices b (omNamespace (vsMeta (vscVirtualServer vsc))) (vssUpstreams (vsSpec (vscVirtualServer vsc)))
     \<union> (\<Union>v\<in>set (vscVirtualServerRoutes vsc). upstreamServices b (omNamespace (vsrMeta v)) (vrsUpstreams (vsrSpec v)))"
| "resourceServices b (TransportServerRes tsc) = tsServices (tscTransportServer tsc)"

fun resourceSecrets :: "bool \<Rightarrow> Resource \<Rightarrow> reference set" where
  "resourceSecrets b (IngressRes ic) =
     tlsSecrets (icIngress ic) \<union> jwtSecrets b (icIngress ic) \<union> (\<Union>m\<in>set (icMinions ic). jwtSecrets b (mcIngress m))"
| "resourceSecrets b (VirtualServerRes vsc) = vsSecrets (vscVirtualServer vsc)"
| "resourceSecrets b (TransportServerRes tsc) = {}"

fun resourcePolicies :: "Resource \<Rightarrow> reference set" where
  "resourcePolicies (VirtualServerRes vsc) =
     vsPolicies (vscVirtualServer vsc) \<union> (\<Union>v\<in>set (vscVirtualServerRoutes vsc). vsrPolicies v)"
| "resourcePolicies _ = {}"

lemma resourceServices_eq: "serviceChecker.resourceRefs b r = resourceServices b r"
  by (cases r) simp_all

lemma resourceSecrets_eq: "secretChecker.resourceRefs b r = resourceSecrets b r"
  by (cases r) simp_all

lemma resourcePolicies_eq: "policyChecker.resourceRefs r = resourcePolicies r"
  by (cases r) simp_all

text \<open>
  C20: The resources found for a Service, for its Endpoints, for a Secret and for a Policy are
  exactly the active resources one of whose objects (Ingress, minion, VirtualServer,
  VirtualServerRoute or TransportServer) names it; for Endpoints, upstreams that use the cluster
  IP do not count.
\<close>

theorem found_resources_reference:
  "(r \<in> set (FindResourcesForService c ns n) \<longleftrightarrow> r \<in> activeResources c \<and> (ns, n) \<in> resourceServices False r)
    \<and> (r \<in> set (FindResourcesForEndpoints c ns n) \<longleftrightarrow> r \<in> activeResources c \<and> (ns, n) \<in> resourceServices True r)
    \<and> (r \<in> set (FindResourcesForSecret c ns n) \<longleftrightarrow> r \<in> activeResources c \<and> (ns, n) \<in> resourceSecrets (cIsPlus c) r)
    \<and> (r \<in> set (FindResourcesForPolicy c ns n) \<longleftrightarrow> r \<in> activeResources c \<and> (ns, n) \<in> resourcePolicies r)"
  unfolding FindResourcesForService_def FindResourcesForEndpoints_def FindResourcesForSecret_def FindResourcesForPolicy_def
    in_findResources_active serviceChecker.by_resource secretChecker.by_resource policyChecker.by_resource
    resourceServices_eq resourceSecrets_eq resourcePolicies_eq
  by (intro conjI refl)

end
