(* ===== verification/VirtualServer_Properties.thy ===== *)
theory VirtualServer_Properties
  imports Ingress_Validation VirtualServer_Validation
begin

text \<open>
  What acceptance by the validator of VirtualServers and VirtualServerRoutes means: names and
  paths are unique, every action resolves to a declared upstream, splits are percentages, and
  the texts the templates put between double quotes stay there.
\<close>

section \<open>Lists of errors\<close>

lemma concat_enumerate_Nil:
  "concat (map (\<lambda>(i, x). f i x) (enumerate n xs)) = [] \<Longrightarrow> x \<in> set xs \<Longrightarrow> \<exists>i. f i x = []"
  by (induction xs arbitrary: n) auto

section \<open>What is checked of an action\<close>

definition quotedSafely :: "string \<Rightarrow> bool" where
  "quotedSafely s = (\<forall>rest. quotedEnd (s @ CHR 0x22 # rest) = Some (s, rest))"

text \<open>Every variable is one of some names or starts with one of some prefixes; every dollar opens one.\<close>

definition knownVariables :: "string list \<Rightarrow> string list \<Rightarrow> string \<Rightarrow> bool" where
  "knownVariables names prefixes s =
     ((\<forall>v\<in>set (captureVariables s). v \<in> set names \<or> (\<exists>p\<in>set prefixes. hasPrefix v p))
      \<and> (\<forall>a b. s = a @ CHR ''$'' # b \<longrightarrow> (\<exists>rest. b = CHR 0x7B # rest \<and> CHR 0x7D \<in> set rest)))"

lemma escaped_safely: "matchString escapedStringsRe s \<Longrightarrow> quotedSafely s"
  by (simp add: quotedSafely_def escaped_quotedEnd)

lemma variables_known: "validateStringWithVariables s p special valid pl = [] \<Longrightarrow> knownVariables valid special s"
  using accepted_variables accepted_dollar unfolding knownVariables_def by blast

lemma escaped_with_variables:
  "validateEscapedStringWithVariables s p special valid pl = [] \<Longrightarrow> quotedSafely s \<and> knownVariables valid special s"
  by (auto simp: validateEscapedStringWithVariables_def escaped_safely variables_known split: if_splits)

text \<open>A text without dollars that ends at the quote the template closes it with: no variable, no directive gets in.\<close>

definition plainText :: "string \<Rightarrow> bool" where
  "plainText s = (quotedSafely s \<and> CHR ''$'' \<notin> set s)"

lemma header_value_plain:
  assumes "matchString headerValueRe s"
  shows "plainText s"
proof -
  have star: "s \<in> starLang (lang (Alt (Cls (\<lambda>c. c \<noteq> CHR 0x22 \<and> c \<noteq> CHR ''$'' \<and> c \<noteq> CHR 0x5C))
      (Seq (Cls (\<lambda>c. c = CHR 0x5C)) (Cls (\<lambda>c. c \<noteq> CHR ''$'')))))" and l: "s \<in> lang headerValueRe"
    using assms by (simp_all add: match_lang headerValueRe_def lang.simps(5))
  have "quotedEnd (s @ CHR 0x22 # rest) = Some (s, rest)" for rest
    by (rule starLang_quotedEnd [OF star]) auto
  moreover have "list_all (\<lambda>c. c \<noteq> CHR ''$'') s"
    using l by (rule lang_list_all) (auto simp: headerValueRe_def)
  ultimately show ?thesis by (auto simp: plainText_def quotedSafely_def list_all_iff)
qed

lemma return_type_safely: "matchString actionReturnTypeRe s \<Longrightarrow> quotedSafely s"
  unfolding quotedSafely_def
proof
  fix rest assume "matchString actionReturnTypeRe s"
  then have "s \<in> starLang (lang (Alt (Cls (\<lambda>c. c \<noteq> CHR '';'' \<and> c \<noteq> CHR 0x7B \<and> c \<noteq> CHR 0x7D \<and> c \<noteq> CHR 0x22 \<and> c \<noteq> CHR 0x5C))
      (Seq (Cls (\<lambda>c. c = CHR 0x5C)) (Cls reAny))))"
    by (simp add: match_lang actionReturnTypeRe_def lang.simps(5))
  then show "quotedEnd (s @ CHR 0x22 # rest) = Some (s, rest)" by (rule starLang_quotedEnd) auto
qed

lemma empty_safely [simp]: "quotedSafely ''''"
  by (simp add: quotedSafely_def)

lemma quotedSafely_tail:
  assumes "quotedSafely (c # s)" and "c \<noteq> CHR 0x5C"
  shows "quotedSafely s"
  using assms by (auto simp: quotedSafely_def split: if_splits option.splits)

text \<open>The body and the type of a return.\<close>

definition safeReturn :: "string list \<Rightarrow> string list \<Rightarrow> ActionReturn \<Rightarrow> bool" where
  "safeReturn names prefixes r =
     (quotedSafely (atBody r) \<and> knownVariables names prefixes (atBody r) \<and> quotedSafely (atType r))"

definition safeHeader :: "Header \<Rightarrow> bool" where
  "safeHeader h = (IsHTTPHeaderName (hdName h) = [] \<and> quotedSafely (hdValue h)
     \<and> knownVariables actionProxyHeaderVariables actionProxyHeaderSpecialVariables (hdValue h))"

lemma proxyHeader_safe: "validateActionProxyHeader vsv h p = [] \<Longrightarrow> safeHeader h"
  by (auto simp: validateActionProxyHeader_def safeHeader_def dest!: escaped_with_variables split: if_splits)

text \<open>The headers a proxy action sets, on the request and on the response.\<close>

definition proxyHeaders :: "ActionProxy \<Rightarrow> Header set" where
  "proxyHeaders p =
     (case apRequestHeaders p of None \<Rightarrow> {} | Some rh \<Rightarrow> set (prhSet rh))
     \<union> (case apResponseHeaders p of None \<Rightarrow> {} | Some rh \<Rightarrow> ahHeader ` set (prsAdd rh))"

lemma proxyHeaders_safe:
  assumes "validateActionProxy vsv p path names rpath internal = []" and "h \<in> proxyHeaders p"
  shows "safeHeader h"
proof -
  have req: "validateActionProxyRequestHeaders vsv (apRequestHeaders p) (child path ''requestHeaders'') = []"
    and resp: "validateActionProxyResponseHeaders vsv (apResponseHeaders p) (child path ''responseHeaders'') = []"
    using assms(1) by (simp_all add: validateActionProxy_def)
  from assms(2) consider (req) rh where "apRequestHeaders p = Some rh" "h \<in> set (prhSet rh)"
    | (resp) rh a where "apResponseHeaders p = Some rh" "a \<in> set (prsAdd rh)" "h = ahHeader a"
    by (auto simp: proxyHeaders_def split: option.splits)
  then show ?thesis
  proof cases
    case req
    with \<open>validateActionProxyRequestHeaders vsv _ _ = []\<close> have
      "concat (map (\<lambda>(i, header). validateActionProxyHeader vsv header (pathIndex (child path ''requestHeaders'') i))
        (enumerate 0 (prhSet rh))) = []"
      by (simp add: validateActionProxyRequestHeaders_def)
    from concat_enumerate_Nil [OF this req(2)] show ?thesis using proxyHeader_safe by blast
  next
    case resp
    with \<open>validateActionProxyResponseHeaders vsv _ _ = []\<close> have
      "concat (map (\<lambda>(i, header). validateActionProxyHeader vsv (ahHeader header)
        (pathIndex (child (child path ''responseHeaders'') ''add'') i)) (enumerate 0 (prsAdd rh))) = []"
      by (simp add: validateActionProxyResponseHeaders_def)
    from concat_enumerate_Nil [OF this resp(2)] show ?thesis using proxyHeader_safe resp(3) by blast
  qed
qed

text \<open>An action that does one thing, with a declared upstream.\<close>

definition resolves :: "string set \<Rightarrow> Action \<Rightarrow> bool" where
  "resolves names a =
     (countActions a = 1 \<and> (acPass a \<noteq> '''' \<longrightarrow> acPass a \<in> names)
      \<and> (\<forall>p. acProxy a = Some p \<longrightarrow> apUpstream p \<in> names))"

definition safeTexts :: "Action \<Rightarrow> bool" where
  "safeTexts a =
     ((\<forall>r. acRedirect a = Some r \<longrightarrow> quotedSafely (arURL r) \<and> knownVariables validRedirectVariableNames [] (arURL r))
      \<and> (\<forall>r. acReturn a = Some r \<longrightarrow> safeReturn returnBodyVariables returnBodySpecialVariables r)
      \<and> (\<forall>p. acProxy a = Some p \<longrightarrow> (\<forall>h\<in>proxyHeaders p. safeHeader h)))"

lemma referenced_upstream: "validateReferencedUpstream n p names = [] \<Longrightarrow> n \<in> set names"
  by (auto simp: validateReferencedUpstream_def Let_def split: if_splits)

lemma redirectURL_safe: "validateRedirectURL vsv url p vars = [] \<Longrightarrow> quotedSafely url \<and> knownVariables vars [] url"
  by (auto simp: validateRedirectURL_def escaped_safely variables_known split: if_splits)

lemma actionReturn_safe: "validateActionReturn vsv r p special vars = [] \<Longrightarrow> safeReturn vars special r"
  by (auto simp: validateActionReturn_def validateActionReturnType_def safeReturn_def return_type_safely
      dest!: escaped_with_variables split: if_splits)

lemma validateAction_ok:
  assumes "validateAction vsv a p names rpath internal = []"
  shows "resolves (set names) a" "safeTexts a"
proof -
  have one: "countActions a = 1" and pass: "acPass a \<noteq> '''' \<Longrightarrow> validateReferencedUpstream (acPass a) (child p ''pass'') names = []"
    and redirect: "\<And>r. acRedirect a = Some r \<Longrightarrow> validateActionRedirect vsv r (child p ''redirect'') validRedirectVariableNames = []"
    and return: "\<And>r. acReturn a = Some r \<Longrightarrow>
        validateActionReturn vsv r (child p ''return'') returnBodySpecialVariables returnBodyVariables = []"
    and proxy: "\<And>q. acProxy a = Some q \<Longrightarrow> validateActionProxy vsv q (child p ''proxy'') names rpath internal = []"
    using assms by (auto simp: validateAction_def split: if_splits)
  have "apUpstream q \<in> set names" if "acProxy a = Some q" for q
    using proxy [OF that] referenced_upstream by (auto simp: validateActionProxy_def)
  with one pass show "resolves (set names) a" using referenced_upstream by (auto simp: resolves_def)
  have "quotedSafely (arURL r) \<and> knownVariables validRedirectVariableNames [] (arURL r)" if "acRedirect a = Some r" for r
    using redirect [OF that] redirectURL_safe by (auto simp: validateActionRedirect_def)
  then show "safeTexts a"
    using actionReturn_safe return proxyHeaders_safe proxy unfolding safeTexts_def by blast
qed

section \<open>Routes\<close>

definition percentages :: "Split list \<Rightarrow> bool" where
  "percentages ss = (2 \<le> length ss \<and> (\<forall>s\<in>set ss. 1 \<le> spWeight s \<and> spWeight s \<le> 99) \<and> sum_list (map spWeight ss) = 100)"

definition splitActions :: "Split list \<Rightarrow> Action set" where
  "splitActions ss = (\<Union>s\<in>set ss. set_option (spAction s))"

lemma validateSplits_ok:
  assumes "validateSplits vsv ss p names rpath = []"
  shows "percentages ss" "\<forall>a\<in>splitActions ss. resolves (set names) a \<and> safeTexts a"
proof -
  let ?f = "\<lambda>i s. map (Invalid (child (pathIndex p i) ''weight'') (BadInt (spWeight s))) (IsInRange (spWeight s) 1 99)
     @ (case spAction s of None \<Rightarrow> [Required (child (pathIndex p i) ''action'') '''']
        | Some a \<Rightarrow> validateAction vsv a (child (pathIndex p i) ''action'') names rpath True)"
  have "2 \<le> length ss" "sum_list (map spWeight ss) = 100" and all: "concat (map (\<lambda>(i, s). ?f i s) (enumerate 0 ss)) = []"
    using assms by (auto simp: validateSplits_def simp del: concat_eq_Nil_conv split: if_splits)
  moreover have "1 \<le> spWeight s \<and> spWeight s \<le> 99 \<and> (\<forall>a\<in>set_option (spAction s). resolves (set names) a \<and> safeTexts a)"
    if "s \<in> set ss" for s
    using concat_enumerate_Nil [OF all that] validateAction_ok by (auto split: option.splits)
  ultimately show "percentages ss" "\<forall>a\<in>splitActions ss. resolves (set names) a \<and> safeTexts a"
    by (auto simp: percentages_def splitActions_def)
qed

text \<open>What a route or a match does with a request: an action, or splits.\<close>

definition targetActions :: "Action option \<Rightarrow> Split list \<Rightarrow> Action set" where
  "targetActions action splits = set_option action \<union> splitActions splits"

lemma actionOrSplits_ok:
  assumes "actionOrSplitsErrs vsv action splits p names rpath internal = []"
  shows "splits \<noteq> [] \<Longrightarrow> percentages splits" "a \<in> targetActions action splits \<Longrightarrow> resolves (set names) a \<and> safeTexts a"
proof -
  have act: "\<And>b. action = Some b \<Longrightarrow> validateAction vsv b (child p ''action'') names rpath internal = []"
    and spl: "splits \<noteq> [] \<Longrightarrow> validateSplits vsv splits (child p ''splits'') names rpath = []"
    using assms by (auto simp: actionOrSplitsErrs_def)
  show "splits \<noteq> [] \<Longrightarrow> percentages splits" using spl validateSplits_ok(1) by blast
  show "resolves (set names) a \<and> safeTexts a" if a: "a \<in> targetActions action splits"
  proof (cases "a \<in> set_option action")
    case True
    then show ?thesis using act validateAction_ok by auto
  next
    case False
    then have "a \<in> splitActions splits" using a by (simp add: targetActions_def)
    moreover from this have "splits \<noteq> []" by (auto simp: splitActions_def)
    ultimately show ?thesis using spl validateSplits_ok(2) by blast
  qed
qed

definition routeActions :: "Route \<Rightarrow> Action set" where
  "routeActions r = targetActions (rtAction r) (rtSplits r) \<union> (\<Union>m\<in>set (rtMatches r). targetActions (mtAction m) (mtSplits m))"

definition routeSplits :: "Route \<Rightarrow> Split list set" where
  "routeSplits r = ({rtSplits r} \<union> (mtSplits ` set (rtMatches r))) - {[]}"

lemma validateMatch_target:
  "validateMatch vsv m p names rpath = [] \<Longrightarrow> actionOrSplitsErrs vsv (mtAction m) (mtSplits m) p names rpath True = []"
  by (simp add: validateMatch_def)

lemma validateRoute_parts:
  assumes "validateRoute vsv r p names forbidden ns = []"
  shows "actionOrSplitsErrs vsv (rtAction r) (rtSplits r) p names (rtPath r) False = []"
    and "m \<in> set (rtMatches r) \<Longrightarrow> \<exists>q. validateMatch vsv m q names (rtPath r) = []"
    and "actionSplitsCount (rtAction r) (rtSplits r) + (if rtRoute r \<noteq> '''' \<and> \<not> forbidden then 1 else 0) = 1"
    and "validateRoutePath vsv (rtPath r) (child p ''path'') = []"
proof -
  show "actionOrSplitsErrs vsv (rtAction r) (rtSplits r) p names (rtPath r) False = []"
    and "actionSplitsCount (rtAction r) (rtSplits r) + (if rtRoute r \<noteq> '''' \<and> \<not> forbidden then 1 else 0) = 1"
    and "validateRoutePath vsv (rtPath r) (child p ''path'') = []"
    using assms by (simp_all add: validateRoute_def Let_def split: if_splits)
  have "concat (map (\<lambda>(i, m). validateMatch vsv m (pathIndex (child p ''matches'') i) names (rtPath r))
      (enumerate 0 (rtMatches r))) = []"
    using assms by (simp add: validateRoute_def)
  from concat_enumerate_Nil [OF this] show "m \<in> set (rtMatches r) \<Longrightarrow> \<exists>q. validateMatch vsv m q names (rtPath r) = []"
    by blast
qed

lemma validateRoute_ok:
  assumes ok: "validateRoute vsv r p names forbidden ns = []"
  shows "\<forall>a\<in>routeActions r. resolves (set names) a \<and> safeTexts a" "\<forall>ss\<in>routeSplits r. percentages ss"
proof -
  note target = validateRoute_parts(1) [OF ok]
  have matched: "\<exists>q. actionOrSplitsErrs vsv (mtAction m) (mtSplits m) q names (rtPath r) True = []" if "m \<in> set (rtMatches r)" for m
    using validateRoute_parts(2) [OF ok that] validateMatch_target by blast
  show "\<forall>a\<in>routeActions r. resolves (set names) a \<and> safeTexts a"
    using actionOrSplits_ok(2) [OF target] matched actionOrSplits_ok(2) unfolding routeActions_def by blast
  show "\<forall>ss\<in>routeSplits r. percentages ss"
    using actionOrSplits_ok(1) [OF target] matched actionOrSplits_ok(1) unfolding routeSplits_def by blast
qed

section \<open>Error pages, conditions, health checks\<close>

definition safeErrorPage :: "ErrorPage \<Rightarrow> bool" where
  "safeErrorPage ep =
     ((\<forall>r. epReturn ep = Some r \<longrightarrow>
          safeReturn errorPageReturnBodyVariable [] (erActionReturn r)
          \<and> (\<forall>h\<in>set (erHeaders r). IsHTTPHeaderName (hdName h) = [] \<and> quotedSafely (hdValue h)
               \<and> knownVariables errorPageHeaderValueVariables [] (hdValue h)))
      \<and> (\<forall>r. epRedirect ep = Some r \<longrightarrow>
            quotedSafely (arURL (edActionRedirect r)) \<and> knownVariables validErrorPageRedirectVariables [] (arURL (edActionRedirect r))))"

lemma validateErrorPage_texts:
  assumes "validateErrorPage vsv ep p = []"
  shows "safeErrorPage ep"
proof -
  have return: "\<And>r. epReturn ep = Some r \<Longrightarrow> validateErrorPageReturn vsv r (child p ''return'') = []"
    and redirect: "\<And>r. epRedirect ep = Some r \<Longrightarrow> validateErrorPageRedirect vsv r (child p ''redirect'') = []"
    using assms by (auto simp: validateErrorPage_def split: if_splits)
  have "quotedSafely (arURL (edActionRedirect r)) \<and> knownVariables validErrorPageRedirectVariables [] (arURL (edActionRedirect r))"
    if "epRedirect ep = Some r" for r
    using redirect [OF that] redirectURL_safe by (auto simp: validateErrorPageRedirect_def validateActionRedirect_def)
  moreover have "safeReturn errorPageReturnBodyVariable [] (erActionReturn r)" if "epReturn ep = Some r" for r
    using return [OF that] actionReturn_safe by (auto simp: validateErrorPageReturn_def)
  moreover have "IsHTTPHeaderName (hdName h) = [] \<and> quotedSafely (hdValue h) \<and> knownVariables errorPageHeaderValueVariables [] (hdValue h)"
    if r: "epReturn ep = Some r" and h: "h \<in> set (erHeaders r)" for r h
  proof -
    have "concat (map (\<lambda>(i, header). validateErrorPageHeader vsv header (pathIndex (child (child p ''return'') ''headers'') i))
        (enumerate 0 (erHeaders r))) = []"
      using return [OF r] by (simp add: validateErrorPageReturn_def)
    from concat_enumerate_Nil [OF this h] show ?thesis
      by (auto simp: validateErrorPageHeader_def escaped_safely variables_known split: if_splits)
  qed
  ultimately show ?thesis unfolding safeErrorPage_def by blast
qed

text \<open>The value of a condition, also after the mark of a negation.\<close>

definition safeCondition :: "Condition \<Rightarrow> bool" where
  "safeCondition c = (quotedSafely (cdValue c) \<and> (\<forall>s. cdValue c = CHR ''!'' # s \<longrightarrow> quotedSafely s))"

lemma validateMatch_conditions:
  assumes "validateMatch vsv m p names rpath = []" and "c \<in> set (mtConditions m)"
  shows "safeCondition c"
proof -
  have "concat (map (\<lambda>(i, c). validateCondition c (pathIndex (child p ''conditions'') i)) (enumerate 0 (mtConditions m))) = []"
    using assms(1) by (simp add: validateMatch_def split: if_splits)
  from concat_enumerate_Nil [OF this assms(2)] have "quotedSafely (cdValue c)"
    by (auto simp: validateCondition_def isValidMatchValue_def escaped_safely split: if_splits)
  then show ?thesis using quotedSafely_tail by (fastforce simp: safeCondition_def)
qed

text \<open>The headers of the requests of a health check.\<close>

definition safeHealthCheck :: "Upstream \<Rightarrow> bool" where
  "safeHealthCheck u =
     (\<forall>hc. uHealthCheck u = Some hc \<longrightarrow> (\<forall>h\<in>set (hcHeaders hc). IsHTTPHeaderName (hdName h) = [] \<and> plainText (hdValue h)))"

lemma upstreamFields_health:
  assumes "validateUpstreamFields vsv u q = []"
  shows "safeHealthCheck u"
  unfolding safeHealthCheck_def
proof (intro allI impI ballI)
  fix hc h assume hc: "uHealthCheck u = Some hc" and h: "h \<in> set (hcHeaders hc)"
  have "concat (map (\<lambda>(i, header). validateHeader header (pathIndex (child (child q ''healthCheck'') ''headers'') i))
      (enumerate 0 (hcHeaders hc))) = []"
    using assms hc by (simp add: validateUpstreamFields_def validateUpstreamHealthCheck_def)
  from concat_enumerate_Nil [OF this h] show "IsHTTPHeaderName (hdName h) = [] \<and> plainText (hdValue h)"
    by (auto simp: validateHeader_def isValidHeaderValue_def header_value_plain split: if_splits)
qed

text \<open>All texts of a route.\<close>

definition safeRoute :: "Route \<Rightarrow> bool" where
  "safeRoute r =
     ((\<forall>a\<in>routeActions r. safeTexts a) \<and> (\<forall>ep\<in>set (sliceOf (rtErrorPages r)). safeErrorPage ep)
      \<and> (\<forall>m\<in>set (rtMatches r). \<forall>c\<in>set (mtConditions m). safeCondition c))"

lemma validateRoute_texts:
  assumes ok: "validateRoute vsv r p names forbidden ns = []"
  shows "safeRoute r"
proof -
  have "concat (map (\<lambda>(i, e). validateErrorPage vsv e (pathIndex (child p ''errorPages'') i))
      (enumerate 0 (sliceOf (rtErrorPages r)))) = []"
    using ok by (simp add: validateRoute_def)
  then have "safeErrorPage ep" if "ep \<in> set (sliceOf (rtErrorPages r))" for ep
    using concat_enumerate_Nil [OF _ that] validateErrorPage_texts by blast
  moreover have "safeCondition c" if "m \<in> set (rtMatches r)" "c \<in> set (mtConditions m)" for m c
    using validateRoute_parts(2) [OF ok that(1)] validateMatch_conditions that(2) by blast
  ultimately show ?thesis using validateRoute_ok(1) [OF ok] unfolding safeRoute_def by blast
qed

section \<open>Lists without repetitions\<close>

lemma validateUpstreamsFrom_ok:
  assumes "validateUpstreamsFrom vsv i seen us p = ([], names)"
  shows "set names = uName ` set us \<union> set seen" "distinct (map uName us)" "uName ` set us \<inter> set seen = {}"
    "\<forall>u\<in>set us. \<exists>q. validateUpstreamName (uName u) (child q ''name'') = [] \<and> validateUpstreamFields vsv u q = []"
  using assms
proof (induction us arbitrary: i seen)
  case (Cons u us)
  {
    case 1 then show ?case using Cons.IH(1) [of "Suc i" "uName u # seen"] by (auto simp: Let_def split: if_splits prod.splits)
  next
    case 2 then show ?case using Cons.IH(2,3) [of "Suc i" "uName u # seen"] by (auto simp: Let_def split: if_splits prod.splits)
  next
    case 3 then show ?case using Cons.IH(3) [of "Suc i" "uName u # seen"] by (auto simp: Let_def split: if_splits prod.splits)
  next
    case 4 then show ?case using Cons.IH(4) [of "Suc i" "uName u # seen"] by (auto simp: Let_def split: if_splits prod.splits)
  }
qed auto

lemma validateVirtualServerRoutesFrom_ok:
  assumes "validateVirtualServerRoutesFrom vsv i seen rs p names ns = []"
  shows "distinct (map rtPath rs)" "rtPath ` set rs \<inter> set seen = {}"
    "\<forall>r\<in>set rs. \<exists>q. validateRoute vsv r q names False ns = []"
  using assms
proof (induction rs arbitrary: i seen)
  case (Cons r rs)
  {
    case 1 then show ?case using Cons.IH(1,2) [of "Suc i" "rtPath r # seen"] by (auto simp: Let_def split: if_splits)
  next
    case 2 then show ?case using Cons.IH(2) [of "Suc i" "rtPath r # seen"] by (auto simp: Let_def split: if_splits)
  next
    case 3 then show ?case using Cons.IH(3) [of "Suc i" "rtPath r # seen"] by (auto simp: Let_def split: if_splits)
  }
qed auto

text \<open>The paths of the subroutes of a VirtualServerRoute, given the path of the route that refers to it.\<close>

definition belongsUnder :: "string \<Rightarrow> string \<Rightarrow> bool" where
  "belongsUnder vsPath p = (vsPath = '''' \<or> hasPrefix p vsPath \<or> isRegexOrExactMatch p)"

lemma validateSubroutesFrom_ok:
  assumes "validateSubroutesFrom vsv i seen rs p names vsPath ns = []"
  shows "distinct (map rtPath rs)" "rtPath ` set rs \<inter> set seen = {}"
    "\<forall>r\<in>set rs. (\<exists>q. validateRoute vsv r q names True ns = []) \<and> belongsUnder vsPath (rtPath r)"
  using assms
proof (induction rs arbitrary: i seen)
  case (Cons r rs)
  {
    case 1 then show ?case using Cons.IH(1,2) [of "Suc i" "rtPath r # seen"] by (auto simp: Let_def split: if_splits)
  next
    case 2 then show ?case using Cons.IH(2) [of "Suc i" "rtPath r # seen"] by (auto simp: Let_def split: if_splits)
  next
    case 3 then show ?case using Cons.IH(3) [of "Suc i" "rtPath r # seen"]
      by (auto simp: Let_def belongsUnder_def split: if_splits)
  }
qed auto

lemma validateSubroutes_ok:
  assumes "validateVirtualServerRouteSubroutes vsv rs p names vsPath ns = []"
  shows "distinct (map rtPath rs)"
    "\<forall>r\<in>set rs. (\<exists>q. validateRoute vsv r q names True ns = []) \<and> belongsUnder vsPath (rtPath r)"
    "isRegexOrExactMatch vsPath \<Longrightarrow> map rtPath rs = [vsPath]"
proof -
  show single: "isRegexOrExactMatch vsPath \<Longrightarrow> map rtPath rs = [vsPath]"
    using assms by (auto simp: validateVirtualServerRouteSubroutes_def split: list.splits if_splits)
  show "distinct (map rtPath rs)"
    using assms single validateSubroutesFrom_ok(1)
    by (cases "isRegexOrExactMatch vsPath") (auto simp: validateVirtualServerRouteSubroutes_def)
  show "\<forall>r\<in>set rs. (\<exists>q. validateRoute vsv r q names True ns = []) \<and> belongsUnder vsPath (rtPath r)"
  proof (cases "isRegexOrExactMatch vsPath")
    case True
    then show ?thesis
      using assms by (auto simp: validateVirtualServerRouteSubroutes_def belongsUnder_def split: list.splits if_splits)
  next
    case False
    then show ?thesis
      using assms validateSubroutesFrom_ok(3) by (auto simp: validateVirtualServerRouteSubroutes_def)
  qed
qed

lemma ValidateVirtualServer_parts:
  assumes "ValidateVirtualServer vsv vs = None"
  obtains names p where "set names = uName ` set (vssUpstreams (vsSpec vs))" "distinct (map uName (vssUpstreams (vsSpec vs)))"
    "distinct (map rtPath (vssRoutes (vsSpec vs)))"
    "\<forall>r\<in>set (vssRoutes (vsSpec vs)). \<exists>q. validateRoute vsv r q names False (omNamespace (vsMeta vs)) = []"
    "IsDNS1123Subdomain (vssHost (vsSpec vs)) = []"
    "\<forall>u\<in>set (vssUpstreams (vsSpec vs)). \<exists>q. validateUpstreamName (uName u) (child q ''name'') = [] \<and> validateUpstreamFields vsv u q = []"
proof -
  obtain names where "validateUpstreamsFrom vsv 0 [] (vssUpstreams (vsSpec vs)) (child (newPath ''spec'') ''upstreams'') = ([], names)"
    and "validateVirtualServerRoutesFrom vsv 0 [] (vssRoutes (vsSpec vs)) (child (newPath ''spec'') ''routes'') names (omNamespace (vsMeta vs)) = []"
    and "validateHost (vssHost (vsSpec vs)) (child (newPath ''spec'') ''host'') = []"
    using assms by (auto simp: ValidateVirtualServer_def validateVirtualServerSpec_def validateUpstreams_def
        validateVirtualServerRoutes_def split: prod.splits)
  then show ?thesis
    using that [of names] validateUpstreamsFrom_ok [of vsv 0 "[]"] validateVirtualServerRoutesFrom_ok [of vsv 0 "[]"]
    by (auto simp: validateHost_def split: if_splits)
qed

lemma ValidateVirtualServerRoute_parts:
  assumes "ValidateVirtualServerRouteForVirtualServer vsv vsr host vsPath = None"
  obtains names where "set names = uName ` set (vrsUpstreams (vsrSpec vsr))" "distinct (map uName (vrsUpstreams (vsrSpec vsr)))"
    "validateVirtualServerRouteSubroutes vsv (vrsSubroutes (vsrSpec vsr)) (child (newPath ''spec'') ''subroutes'') names vsPath
      (omNamespace (vsrMeta vsr)) = []"
    "validateVirtualServerRouteHost (vrsHost (vsrSpec vsr)) host (child (newPath ''spec'') ''host'') = []"
    "\<forall>u\<in>set (vrsUpstreams (vsrSpec vsr)). \<exists>q. validateUpstreamName (uName u) (child q ''name'') = [] \<and> validateUpstreamFields vsv u q = []"
proof -
  obtain names where "validateUpstreamsFrom vsv 0 [] (vrsUpstreams (vsrSpec vsr)) (child (newPath ''spec'') ''upstreams'') = ([], names)"
    and "validateVirtualServerRouteSubroutes vsv (vrsSubroutes (vsrSpec vsr)) (child (newPath ''spec'') ''subroutes'') names vsPath
      (omNamespace (vsrMeta vsr)) = []"
    and "validateVirtualServerRouteHost (vrsHost (vsrSpec vsr)) host (child (newPath ''spec'') ''host'') = []"
    using assms by (auto simp: ValidateVirtualServerRouteForVirtualServer_def validateVirtualServerRouteSpec_def
        validateUpstreams_def split: prod.splits)
  then show ?thesis using that [of names] validateUpstreamsFrom_ok [of vsv 0 "[]"] by simp
qed

section \<open>Samples\<close>

definition sampleUpstream :: "string \<Rightarrow> Upstream" where
  "sampleUpstream n =
     \<lparr>uName = n, uService = ''svc'', uSubselector = None, uPort = 80, uLBMethod = '''', uFailTimeout = '''', uMaxFails = None,
      uMaxConns = None, uKeepalive = None, uProxyConnectTimeout = '''', uProxyReadTimeout = '''', uProxySendTimeout = '''',
      uProxyNextUpstream = '''', uProxyNextUpstreamTimeout = '''', uProxyNextUpstreamTries = 0, uProxyBuffering = None,
      uProxyBuffers = None, uProxyBufferSize = '''', uClientMaxBodySize = '''', uTLS = \<lparr>utEnable = False\<rparr>,
      uHealthCheck = None, uSlowStart = '''', uQueue = None, uSessionCookie = None, uUseClusterIP = False\<rparr>"

definition sampleAction :: Action where
  "sampleAction = \<lparr>acPass = '''', acRedirect = None, acReturn = None, acProxy = None\<rparr>"

definition samplePass :: "string \<Rightarrow> Action" where
  "samplePass n = sampleAction\<lparr>acPass := n\<rparr>"

definition sampleReturn :: Action where
  "sampleReturn = sampleAction\<lparr>acReturn := Some \<lparr>atCode = 200, atType = '''', atBody = ''at ${request_uri}''\<rparr>\<rparr>"

definition sampleRoute :: "string \<Rightarrow> Route" where
  "sampleRoute p = \<lparr>rtPath = p, rtPolicies = [], rtRoute = '''', rtAction = None, rtSplits = [], rtMatches = [], rtErrorPages = None,
     rtLocationSnippets = ''''\<rparr>"

definition sampleSplits :: "Split list" where
  "sampleSplits = [\<lparr>spWeight = 90, spAction = Some (samplePass ''tea'')\<rparr>, \<lparr>spWeight = 10, spAction = Some sampleReturn\<rparr>]"

definition sampleRoutes :: "Route list" where
  "sampleRoutes = [(sampleRoute ''/tea'')\<lparr>rtSplits := sampleSplits\<rparr>, (sampleRoute ''/coffee'')\<lparr>rtAction := Some (samplePass ''coffee'')\<rparr>]"

definition cafe :: VirtualServer where
  "cafe =
     \<lparr>vsMeta = sampleMeta ''n'' ''cafe'' ''u'' 1 [],
      vsSpec = \<lparr>vssIngressClass = [], vssHost = ''cafe.example.com'', vssTLS = None, vssPolicies = [],
        vssUpstreams = [sampleUpstream ''tea'', sampleUpstream ''coffee''], vssRoutes = sampleRoutes,
        vssHTTPSnippets = [], vssServerSnippets = []\<rparr>\<rparr>"

definition cafeRoute :: VirtualServerRoute where
  "cafeRoute =
     \<lparr>vsrMeta = sampleMeta ''n'' ''tea'' ''v'' 2 [],
      vsrSpec = \<lparr>vrsIngressClass = [], vrsHost = ''cafe.example.com'', vrsUpstreams = [sampleUpstream ''tea''],
        vrsSubroutes = [(sampleRoute ''/tea/green'')\<lparr>rtSplits := sampleSplits\<rparr>]\<rparr>\<rparr>"

definition plainValidator :: VirtualServerValidator where
  "plainValidator = \<lparr>vvIsPlus = False, vvRegexpCompile = (\<lambda>_. None)\<rparr>"

lemma cafe_accepted: "ValidateVirtualServer plainValidator cafe = None"
  by code_simp

lemma cafeRoute_accepted:
  "ValidateVirtualServerRouteForVirtualServer plainValidator cafeRoute ''cafe.example.com'' ''/tea'' = None"
  by code_simp

lemmas sample_defs = cafe_def cafeRoute_def sampleRoutes_def sampleRoute_def sampleSplits_def samplePass_def sampleReturn_def
  sampleAction_def sampleUpstream_def plainValidator_def

section \<open>Accepted VirtualServers\<close>

text \<open>
  C22: In an accepted VirtualServer every action of every route, split and match does exactly one
  thing, every upstream it names is declared in the VirtualServer, and the weights of every list
  of splits are percentages: at least two, each between 1 and 99, 100 in sum.
\<close>

theorem accepted_virtual_server_actions:
  assumes "ValidateVirtualServer vsv vs = None" and "r \<in> set (vssRoutes (vsSpec vs))"
  shows "(\<forall>a\<in>routeActions r. resolves (uName ` set (vssUpstreams (vsSpec vs))) a) \<and> (\<forall>ss\<in>routeSplits r. percentages ss)"
proof -
  from assms(1) show ?thesis
  proof (rule ValidateVirtualServer_parts)
    fix names p
    assume "set names = uName ` set (vssUpstreams (vsSpec vs))"
      "\<forall>r\<in>set (vssRoutes (vsSpec vs)). \<exists>q. validateRoute vsv r q names False (omNamespace (vsMeta vs)) = []"
    then show ?thesis using assms(2) validateRoute_ok by metis
  qed
qed

theorem accepted_virtual_server_actions_witness:
  "percentages sampleSplits \<and> resolves {''tea'', ''coffee''} (samplePass ''tea'')"
  using accepted_virtual_server_actions [OF cafe_accepted, of "(sampleRoute ''/tea'')\<lparr>rtSplits := sampleSplits\<rparr>"]
  by (simp add: sample_defs routeActions_def routeSplits_def targetActions_def splitActions_def)

text \<open>
  C23: The free texts of an accepted VirtualServer end at the double quote the templates close them
  with: the URLs of redirects and the bodies and types of returns, of actions and of error pages, the
  values of the headers of proxies, of error pages and of health checks, and the values of the
  conditions of matches. In the URLs, the bodies and the headers every dollar opens one of the
  variables allowed at that place; the headers of health checks have no dollar at all.
\<close>

theorem accepted_virtual_server_texts:
  assumes "ValidateVirtualServer vsv vs = None"
  shows "(\<forall>r\<in>set (vssRoutes (vsSpec vs)). safeRoute r) \<and> (\<forall>u\<in>set (vssUpstreams (vsSpec vs)). safeHealthCheck u)"
proof -
  from assms show ?thesis
  proof (rule ValidateVirtualServer_parts)
    fix names p
    assume "\<forall>r\<in>set (vssRoutes (vsSpec vs)). \<exists>q. validateRoute vsv r q names False (omNamespace (vsMeta vs)) = []"
      "\<forall>u\<in>set (vssUpstreams (vsSpec vs)). \<exists>q. validateUpstreamName (uName u) (child q ''name'') = [] \<and> validateUpstreamFields vsv u q = []"
    then show ?thesis using validateRoute_texts upstreamFields_health by blast
  qed
qed

theorem accepted_virtual_server_texts_witness:
  "safeTexts sampleReturn \<and> knownVariables returnBodyVariables returnBodySpecialVariables ''at ${request_uri}''"
proof -
  have "safeRoute ((sampleRoute ''/tea'')\<lparr>rtSplits := sampleSplits\<rparr>)"
    using accepted_virtual_server_texts [OF cafe_accepted] by (simp add: cafe_def sampleRoutes_def)
  then show ?thesis
    by (simp add: sample_defs safeRoute_def routeActions_def targetActions_def splitActions_def safeTexts_def safeReturn_def)
qed

text \<open>How many targets a route has: an action, splits, a VirtualServerRoute.\<close>

definition targets :: "Route \<Rightarrow> nat" where
  "targets r = actionSplitsCount (rtAction r) (rtSplits r) + (if rtRoute r = '''' then 0 else 1)"

text \<open>
  C24: In an accepted VirtualServer the names of the upstreams are distinct, the paths of the
  routes are distinct, and every route has exactly one target: an action, splits, or a
  VirtualServerRoute.
\<close>

theorem accepted_virtual_server_names:
  assumes "ValidateVirtualServer vsv vs = None"
  shows "distinct (map uName (vssUpstreams (vsSpec vs))) \<and> distinct (map rtPath (vssRoutes (vsSpec vs)))
    \<and> (\<forall>r\<in>set (vssRoutes (vsSpec vs)). targets r = 1)"
proof -
  from assms show ?thesis
  proof (rule ValidateVirtualServer_parts)
    fix names p
    assume *: "distinct (map uName (vssUpstreams (vsSpec vs)))" "distinct (map rtPath (vssRoutes (vsSpec vs)))"
      "\<forall>r\<in>set (vssRoutes (vsSpec vs)). \<exists>q. validateRoute vsv r q names False (omNamespace (vsMeta vs)) = []"
    have "targets r = 1" if "r \<in> set (vssRoutes (vsSpec vs))" for r
      using * that validateRoute_parts(3) [of vsv r _ names False] by (fastforce simp: targets_def)
    with * show ?thesis by blast
  qed
qed

theorem accepted_virtual_server_names_witness:
  "distinct (map uName (vssUpstreams (vsSpec cafe))) \<and> list_all (\<lambda>r. targets r = 1) (vssRoutes (vsSpec cafe))"
  using accepted_virtual_server_names [OF cafe_accepted] by (simp add: list_all_iff)

section \<open>Accepted VirtualServerRoutes\<close>

text \<open>
  A VirtualServerRoute accepted for a route of a VirtualServer has the host of the
  VirtualServer; its subroutes have distinct paths, each under the path of the route (or a
  regular expression or an exact path), and exactly the path of the route when that is a
  regular expression or an exact path itself; none refers to another VirtualServerRoute, and their
  actions and splits are resolved with the upstreams of the VirtualServerRoute.
\<close>

theorem accepted_virtual_server_route:
  assumes "ValidateVirtualServerRouteForVirtualServer vsv vsr host vsPath = None"
  shows "(host \<noteq> '''' \<longrightarrow> vrsHost (vsrSpec vsr) = host)
    \<and> distinct (map rtPath (vrsSubroutes (vsrSpec vsr)))
    \<and> (isRegexOrExactMatch vsPath \<longrightarrow> map rtPath (vrsSubroutes (vsrSpec vsr)) = [vsPath])
    \<and> (\<forall>r\<in>set (vrsSubroutes (vsrSpec vsr)). belongsUnder vsPath (rtPath r) \<and> rtRoute r = ''''
        \<and> (\<forall>a\<in>routeActions r. resolves (uName ` set (vrsUpstreams (vsrSpec vsr))) a \<and> safeTexts a)
        \<and> (\<forall>ss\<in>routeSplits r. percentages ss))"
proof -
  obtain names where names: "set names = uName ` set (vrsUpstreams (vsrSpec vsr))"
    and subs: "validateVirtualServerRouteSubroutes vsv (vrsSubroutes (vsrSpec vsr)) (child (newPath ''spec'') ''subroutes'') names vsPath
      (omNamespace (vsrMeta vsr)) = []"
    and host: "validateVirtualServerRouteHost (vrsHost (vsrSpec vsr)) host (child (newPath ''spec'') ''host'') = []"
    using ValidateVirtualServerRoute_parts [OF assms] by metis
  have "rtRoute r = ''''" if "validateRoute vsv r q names True ns = []" for r q ns
    using that by (auto simp: validateRoute_def split: if_splits)
  then have "belongsUnder vsPath (rtPath r) \<and> rtRoute r = ''''
      \<and> (\<forall>a\<in>routeActions r. resolves (set names) a \<and> safeTexts a) \<and> (\<forall>ss\<in>routeSplits r. percentages ss)"
    if "r \<in> set (vrsSubroutes (vsrSpec vsr))" for r
    using validateSubroutes_ok(2) [OF subs] that validateRoute_ok by metis
  with validateSubroutes_ok(1,3) [OF subs] host show ?thesis
    unfolding names by (auto simp: validateVirtualServerRouteHost_def split: if_splits)
qed

theorem accepted_virtual_server_route_witness:
  "vrsHost (vsrSpec cafeRoute) = ''cafe.example.com'' \<and> belongsUnder ''/tea'' ''/tea/green''"
  using accepted_virtual_server_route [OF cafeRoute_accepted] by (simp add: sample_defs)

section \<open>Paths\<close>

text \<open>A byte that neither ends nor splits an argument of an NGINX directive.\<close>

definition pathByte :: "char \<Rightarrow> bool" where
  "pathByte c = (\<not> reSpace c \<and> c \<noteq> CHR 0x7B \<and> c \<noteq> CHR 0x7D \<and> c \<noteq> CHR '';'')"

definition safePath :: "string \<Rightarrow> bool" where
  "safePath p =
     (if hasPrefix p ''~'' then quotedSafely p
      else (\<exists>rest. (p = CHR ''/'' # rest \<or> p = ''=/'' @ rest) \<and> list_all pathByte rest))"

lemma lang_path: "s \<in> lang pathRe \<longleftrightarrow> (\<exists>rest. s = CHR ''/'' # rest \<and> list_all pathByte rest)"
proof -
  have "(\<lambda>c. \<not> reSpace c \<and> c \<noteq> CHR 0x7B \<and> c \<noteq> CHR 0x7D \<and> c \<noteq> CHR '';'') = pathByte"
    by (auto simp: pathByte_def fun_eq_iff)
  then show ?thesis by (auto simp: pathRe_def)
qed

lemma validatePath_ok: "validatePath p q = [] \<longleftrightarrow> (\<exists>rest. p = CHR ''/'' # rest \<and> list_all pathByte rest)"
  by (auto simp: validatePath_def match_lang lang_path)

lemma validateRoutePath_safe:
  assumes "validateRoutePath vsv p q = []"
  shows "safePath p"
proof (cases "hasPrefix p ''~''")
  case True
  then show ?thesis
    using assms escaped_safely by (auto simp: validateRoutePath_def validateRegexPath_def safePath_def split: option.splits if_splits)
next
  case False
  then show ?thesis
    using assms
    by (cases p) (auto simp: validateRoutePath_def validatePath_ok safePath_def hasPrefix_def trimPrefix_def split: if_splits)
qed

text \<open>
  C25: The path of every route of an accepted VirtualServer and of every subroute of an accepted
  VirtualServerRoute can be put into a location of the configuration: a regular expression stays
  between the double quotes it is put in, and any other path is one argument of the directive,
  free of whitespace, braces and semicolons.
\<close>

theorem accepted_paths_safe:
  assumes "(ValidateVirtualServer vsv vs = None \<and> r \<in> set (vssRoutes (vsSpec vs)))
    \<or> (ValidateVirtualServerRouteForVirtualServer vsv vsr host vsPath = None \<and> r \<in> set (vrsSubroutes (vsrSpec vsr)))"
  shows "safePath (rtPath r)"
proof -
  obtain q names forbidden ns where "validateRoute vsv r q names forbidden ns = []"
    using assms
  proof
    assume vs: "ValidateVirtualServer vsv vs = None \<and> r \<in> set (vssRoutes (vsSpec vs))"
    then have "ValidateVirtualServer vsv vs = None" ..
    then show ?thesis by (rule ValidateVirtualServer_parts) (use vs that in blast)
  next
    assume vsr: "ValidateVirtualServerRouteForVirtualServer vsv vsr host vsPath = None \<and> r \<in> set (vrsSubroutes (vsrSpec vsr))"
    then obtain names where "validateVirtualServerRouteSubroutes vsv (vrsSubroutes (vsrSpec vsr))
        (child (newPath ''spec'') ''subroutes'') names vsPath (omNamespace (vsrMeta vsr)) = []"
      by (auto simp: ValidateVirtualServerRouteForVirtualServer_def validateVirtualServerRouteSpec_def split: prod.splits)
    then show ?thesis using vsr that validateSubroutes_ok(2) by blast
  qed
  from validateRoutePath_safe [OF validateRoute_parts(4) [OF this]] show ?thesis .
qed

theorem accepted_paths_safe_witness: "safePath ''/tea/green'' \<and> safePath ''/coffee''"
  using accepted_paths_safe [of plainValidator cafe "(sampleRoute ''/coffee'')\<lparr>rtAction := Some (samplePass ''coffee'')\<rparr>"]
    accepted_paths_safe [of plainValidator undefined "(sampleRoute ''/tea/green'')\<lparr>rtSplits := sampleSplits\<rparr>" cafeRoute
      "''cafe.example.com''" "''/tea''"] cafe_accepted cafeRoute_accepted
  by (simp add: sample_defs)

end
