(* ===== verification/Parsing_Properties.thy ===== *)
theory Parsing_Properties
  imports Ingress_Validation
begin

text \<open>
  Properties of the value parsers: printing and parsing are inverse, the bounds of ports, the
  normal form of times, and which bytes an accepted value may bring into the configuration.
\<close>

section \<open>Numbers\<close>

lemma natDigits_no_sign: "hd (natDigits n) \<noteq> CHR ''-''" "hd (natDigits n) \<noteq> CHR ''+''"
  using natDigits_hd_digit [of n] by (auto simp: isDigit_def inRange_def)

lemma parse_itoa:
  assumes "0 < bits"
  shows "goParseInt bits (itoa i) = Inr i \<longleftrightarrow> - (2 ^ (bits - 1)) \<le> i \<and> i < 2 ^ (bits - 1)"
proof
  show "goParseInt bits (itoa i) = Inr i \<Longrightarrow> - (2 ^ (bits - 1)) \<le> i \<and> i < 2 ^ (bits - 1)"
    by (rule goParseInt_Inr_bounds)
next
  let ?k = "2 ^ (bits - 1) :: nat"
  assume bound: "- (2 ^ (bits - 1)) \<le> i \<and> i < 2 ^ (bits - 1)"
  have k: "int ?k = 2 ^ (bits - 1)" by simp
  have wide: "?k < 2 ^ bits" using assms by (simp add: power_strict_increasing_iff)
  show "goParseInt bits (itoa i) = Inr i"
  proof (cases "i < 0")
    case True
    then have "nat (- i) \<le> ?k" using bound k by linarith
    then show ?thesis
      using True parse_natDigits [of "nat (- i)" bits, OF le_less_trans [OF _ wide]]
      by (simp add: itoa_def goParseInt_def del: One_nat_def)
  next
    case False
    then have "nat i < ?k" using bound k by linarith
    then show ?thesis
      using False assms goParseInt_no_sign [OF natDigits_digits natDigits_not_Nil, of "nat i" bits]
      by (simp add: itoa_def numVal_natDigits)
  qed
qed

text \<open>
  C26: Printing and parsing of numbers are inverse within the width of the Go type and nowhere
  else: a 64-bit integer is read back as itself, and so is a 64-bit unsigned integer.
\<close>

theorem numbers_round_trip:
  "(ParseInt64 (itoa i) = Inr i \<longleftrightarrow> - (2 ^ 63) \<le> i \<and> i < 2 ^ 63)
    \<and> (ParseInt (itoa i) = Inr i \<longleftrightarrow> - (2 ^ 63) \<le> i \<and> i < 2 ^ 63)
    \<and> (ParseUint64 (natDigits n) = Inr n \<longleftrightarrow> n < 2 ^ 64)"
proof -
  have "goParseInt 64 (itoa i) = Inr i \<longleftrightarrow> - (2 ^ 63) \<le> i \<and> i < 2 ^ 63"
    using parse_itoa [of 64 i] by simp
  moreover have "goParseUint 64 (natDigits n) = Inr n \<longleftrightarrow> n < 2 ^ 64"
    by (simp add: goParseUint_Inr_iff natDigits_digits natDigits_not_Nil numVal_natDigits)
  ultimately show ?thesis
    by (auto simp: ParseInt64_def ParseInt_def goAtoi_def ParseUint64_def split: sum.splits)
qed

section \<open>Ports\<close>

lemma parsePort_Inr: "parsePort v = Inr p \<Longrightarrow> 1 \<le> p \<and> p \<le> 32767"
  using goParseInt_Inr_bounds [of 16 v p] by (auto simp: parsePort_def split: sum.splits if_splits)

lemma parsePort_itoa: "1 \<le> p \<Longrightarrow> p \<le> 32767 \<Longrightarrow> parsePort (itoa p) = Inr p"
  using parse_itoa [of 16 p] by (simp add: parsePort_def)

lemma parsePorts_Inr: "parsePorts acc vs = Inr ps \<Longrightarrow> \<exists>qs. ps = acc @ qs \<and> length qs = length vs \<and> (\<forall>q\<in>set qs. 1 \<le> q \<and> q \<le> 32767)"
proof (induction vs arbitrary: acc)
  case (Cons v vs)
  then obtain q where q: "parsePort v = Inr q" "parsePorts (acc @ [q]) vs = Inr ps" by (auto split: sum.splits)
  from Cons.IH [OF q(2)] obtain qs where "ps = acc @ q # qs" "length qs = length vs" "\<forall>q\<in>set qs. 1 \<le> q \<and> q \<le> 32767" by auto
  with parsePort_Inr [OF q(1)] show ?case by (intro exI [of _ "q # qs"]) simp
qed simp

lemma parsePorts_itoa: "\<forall>p\<in>set ps. 1 \<le> p \<and> p \<le> 32767 \<Longrightarrow> parsePorts acc (map itoa ps) = Inr (acc @ ps)"
  by (induction ps arbitrary: acc) (simp_all add: parsePort_itoa)

lemma splitOn_join: "xs \<noteq> [] \<Longrightarrow> \<forall>x\<in>set xs. c \<notin> set x \<Longrightarrow> splitOn c (joinStr [c] xs) = xs"
  by (induction xs rule: induct_list012) (simp_all add: splitOn_id splitOn_append)

lemma itoa_no_comma: "CHR '','' \<notin> set (itoa i)"
proof -
  have "CHR '','' \<notin> set (natDigits n)" for n
    using natDigits_digits [of n] by (auto simp: list_all_iff isDigit_def inRange_def)
  then show ?thesis by (simp add: itoa_def)
qed

text \<open>
  C27: A list of ports that is accepted holds ports from 1 to 32767 only, and any such list is
  read back as it was printed.
\<close>

theorem port_lists:
  "(ParsePortList s = Inr ps \<longrightarrow> ps \<noteq> [] \<and> (\<forall>p\<in>set ps. 1 \<le> p \<and> p \<le> 32767))
    \<and> (ps \<noteq> [] \<and> (\<forall>p\<in>set ps. 1 \<le> p \<and> p \<le> 32767) \<longrightarrow> ParsePortList (joinStr '','' (map itoa ps)) = Inr ps)"
proof (intro conjI impI)
  assume "ParsePortList s = Inr ps"
  from parsePorts_Inr [OF this [unfolded ParsePortList_def]] obtain qs
    where qs: "ps = qs" "length qs = length (splitOn (CHR '','') s)" "\<forall>q\<in>set qs. 1 \<le> q \<and> q \<le> 32767" by auto
  then show "ps \<noteq> []" using length_splitOn_pos [of "CHR '',''" s] by (cases ps) auto
  show "\<forall>p\<in>set ps. 1 \<le> p \<and> p \<le> 32767" using qs by simp
next
  assume ps: "ps \<noteq> [] \<and> (\<forall>p\<in>set ps. 1 \<le> p \<and> p \<le> 32767)"
  then have "splitOn (CHR '','') (joinStr '','' (map itoa ps)) = map itoa ps"
    by (intro splitOn_join) (simp_all add: itoa_no_comma)
  then show "ParsePortList (joinStr '','' (map itoa ps)) = Inr ps"
    using parsePorts_itoa [of ps "[]"] ps by (simp add: ParsePortList_def)
qed

theorem port_lists_witness: "ParsePortList ''80,8443'' = Inr [80, 8443]"
proof -
  have "joinStr '','' (map itoa [80, 8443]) = ''80,8443''"
    by (simp add: itoa_def natDigits.simps [of 80] natDigits.simps [of 8] natDigits.simps [of 8443] natDigits.simps [of 844]
        natDigits.simps [of 84] char_of_def bit_0)
  moreover have "ParsePortList (joinStr '','' (map itoa [80, 8443])) = Inr [80, 8443]"
    by (rule port_lists [THEN conjunct2, THEN mp]) (simp only: list.set list.distinct ball_simps, simp)
  ultimately show ?thesis by (simp only:)
qed

text \<open>
  The upper half of the ports is out of reach: every port from 32768 to 65535 is rejected,
  because the parser reads ports as signed 16-bit integers.
\<close>

theorem high_ports_rejected:
  assumes "32768 \<le> p" and "p \<le> 65535"
  shows "isErr (ParsePortList (itoa p))"
proof (rule ccontr)
  assume "\<not> isErr (ParsePortList (itoa p))"
  then obtain ps where "parsePorts [] [itoa p] = Inr ps"
    by (auto simp: not_isErr_iff ParsePortList_def splitOn_id itoa_no_comma)
  then obtain q where q: "goParseInt 16 (itoa p) = Inr q" by (auto simp: parsePort_def split: sum.splits)
  have "goParseUint 16 (itoa p) = Inr (nat p)"
    using assms parse_natDigits [of "nat p" 16] by (simp add: itoa_def)
  then have "goParseInt 16 (itoa p) = Inl ErrRange"
    using assms natDigits_not_Nil natDigits_no_sign by (simp add: goParseInt_def Let_def itoa_def)
  with q show False by simp
qed

theorem high_ports_rejected_witness: "isErr (ParsePortList ''60000'')"
proof -
  have "itoa 60000 = ''60000''"
    by (simp add: itoa_def natDigits.simps [of 60000] natDigits.simps [of 6000] natDigits.simps [of 600] natDigits.simps [of 60]
        natDigits.simps [of 6] char_of_def bit_0)
  moreover have "isErr (ParsePortList (itoa 60000))" by (rule high_ports_rejected) simp_all
  ultimately show ?thesis by (simp only:)
qed

section \<open>Submatches\<close>

text \<open>The numbered groups of an expression, and what they may capture.\<close>

fun groupsOf :: "re \<Rightarrow> (nat \<times> re) set" where
  "groupsOf Eps = {}"
| "groupsOf (Cls p) = {}"
| "groupsOf (Seq a b) = groupsOf a \<union> groupsOf b"
| "groupsOf (Alt a b) = groupsOf a \<union> groupsOf b"
| "groupsOf (Star a) = groupsOf a"
| "groupsOf (Opt a) = groupsOf a"
| "groupsOf (OptLazy a) = groupsOf a"
| "groupsOf (Grp i a) = insert (i, a) (groupsOf a)"

definition captured :: "re \<Rightarrow> nat \<times> string \<Rightarrow> bool" where
  "captured r g = (\<exists>a. (fst g, a) \<in> groupsOf r \<and> snd g \<in> lang a)"

lemma captured_simps [simp]:
  "captured (Seq a b) g \<longleftrightarrow> captured a g \<or> captured b g" "captured (Alt a b) g \<longleftrightarrow> captured a g \<or> captured b g"
  "captured (Star a) = captured a" "captured (Opt a) = captured a" "captured (OptLazy a) = captured a"
  "captured (Grp i a) g \<longleftrightarrow> fst g = i \<and> snd g \<in> lang a \<or> captured a g"
  by (auto simp: captured_def fun_eq_iff)

lemma iterate_captures:
  assumes "\<And>st st'. st' \<in> set (f st) \<Longrightarrow> g \<in> set (snd st') \<Longrightarrow> g \<in> set (snd st) \<or> P g"
  shows "st' \<in> set (iterate f n st) \<Longrightarrow> g \<in> set (snd st') \<Longrightarrow> g \<in> set (snd st) \<or> P g"
proof (induction n arbitrary: st)
  case (Suc n)
  from Suc.prems(1) consider "st' = st" | (more) st1 where "st1 \<in> set (f st)" "st' \<in> set (iterate f n st1)" by auto
  then show ?case using Suc.IH Suc.prems(2) assms by cases blast+
qed simp

lemma matches_captures:
  "st' \<in> set (matches r st) \<Longrightarrow> g \<in> set (snd st') \<Longrightarrow> g \<in> set (snd st) \<or> captured r g"
proof (induction r arbitrary: st st')
  case (Seq a b)
  then obtain st1 where st1: "st1 \<in> set (matches a st)" "st' \<in> set (matches b st1)" by auto
  show ?case using Seq.IH(1) [OF st1(1)] Seq.IH(2) [OF st1(2) Seq.prems(2)] by auto
next
  case (Alt a b)
  then consider "st' \<in> set (matches a st)" | "st' \<in> set (matches b st)" by auto
  then show ?case using Alt.IH(1,2) [of st' st] Alt.prems(2) unfolding captured_simps by cases blast+
next
  case (Star a)
  then show ?case using iterate_captures [of "matches a" g "captured a"] by simp
next
  case (Grp i a)
  then obtain st1 where st1: "st1 \<in> set (matches a st)" "fst st' = fst st1"
      "snd st' = (i, take (length (fst st) - length (fst st1)) (fst st)) # snd st1"
    by auto
  obtain u where u: "fst st = u @ fst st1" "u \<in> lang a" using matches_sound [OF st1(1)] by blast
  then have "take (length (fst st) - length (fst st1)) (fst st) = u" by simp
  then show ?case using Grp.IH [OF st1(1)] Grp.prems(2) u(2) st1(3) by auto
qed (auto split: list.splits if_splits)

lemma findSubmatch_group:
  assumes "findSubmatch r s = Some caps"
  shows "group caps i = '''' \<or> (\<exists>a. (i, a) \<in> groupsOf r \<and> group caps i \<in> lang a)"
proof (cases "map_of caps i")
  case (Some w)
  obtain st where "find (\<lambda>st. fst st = []) (matches r (s, [])) = Some st" "snd st = caps"
    using assms by (auto simp: findSubmatch_def)
  then have "st \<in> set (matches r (s, []))" "snd st = caps" by (auto simp: find_Some_iff)
  with Some have "captured r (i, w)" using matches_captures [of st r "(s, [])" "(i, w)"] map_of_SomeD by fastforce
  then show ?thesis using Some by (auto simp: captured_def group_def)
qed (simp add: group_def)

section \<open>Times, sizes and offsets\<close>

text \<open>A time in normal form: years down to milliseconds, each at most once, with its unit, and no spaces.\<close>

definition normalTimeRe :: re where
  "normalTimeRe = Seqs (map (\<lambda>unit. Opt (Seq digitsRe (Lit unit))) [''y'', ''M'', ''w'', ''d'', ''h'', ''m'', ''s'', ''ms''])"

lemma lang_Opt_group: "w = '''' \<or> w \<in> lang (Seq digitsRe (Lit u)) \<Longrightarrow> w \<in> lang (Opt (Seq digitsRe (Lit u)))"
  by auto

lemma timeGroups:
  "groupsOf timeRegexp =
     {(1, Seq digitsRe (Lit ''y'')), (2, Seq digitsRe (Lit ''M'')), (3, Seq digitsRe (Lit ''w'')), (4, Seq digitsRe (Lit ''d'')),
      (5, Seq digitsRe (Lit ''h'')), (6, Seq digitsRe (Lit ''m'')), (7, Seq digitsRe (Opt (Lit ''s''))), (8, Seq digitsRe (Lit ''ms''))}"
proof -
  have "groupsOf digitsRe = {}" by (simp add: digitsRe_def Plus_def)
  moreover have "groupsOf (Lit w) = {}" for w by (induction w) simp_all
  ultimately show ?thesis by (auto simp: timeRegexp_def)
qed

text \<open>The seconds get their unit.\<close>

lemma seconds_unit:
  assumes "w = '''' \<or> w \<in> lang (Seq digitsRe (Opt (Lit ''s'')))"
  shows "(if w \<noteq> [] \<and> \<not> hasSuffix w ''s'' then w @ ''s'' else w) \<in> lang (Opt (Seq digitsRe (Lit ''s'')))"
proof (cases "w = ''''")
  case False
  then obtain ds u where w: "w = ds @ u" "ds \<in> lang digitsRe" "u = ''s'' \<or> u = ''''" using assms by auto
  then have "ds @ ''s'' \<in> lang (Seq digitsRe (Lit ''s''))" by auto
  moreover have "hasSuffix (ds @ ''s'') ''s''" by (simp add: hasSuffix_def)
  moreover have "\<not> hasSuffix ds ''s''"
  proof
    assume "hasSuffix ds ''s''"
    then have "CHR ''s'' \<in> set (drop (length ds - 1) ds)" by (simp add: hasSuffix_def)
    then have "CHR ''s'' \<in> set ds" by (rule in_set_dropD)
    moreover have "list_all isDigit ds" using w(2) by (simp add: digitsRe_def)
    ultimately show False by (auto simp: list_all_iff isDigit_def inRange_def)
  qed
  ultimately show ?thesis using w(1,3) by auto
qed simp

lemma in_Seq: "u \<in> lang a \<Longrightarrow> v \<in> lang b \<Longrightarrow> u @ v \<in> lang (Seq a b)"
  by auto

lemma in_last: "u \<in> lang a \<Longrightarrow> u \<in> lang (Seq a Eps)"
  by auto

lemma ParseTime_normal:
  assumes "ParseTime s = Inr t"
  shows "t \<in> lang normalTimeRe"
proof -
  obtain caps where caps: "findSubmatch timeRegexp s = Some caps"
    using assms by (auto simp: ParseTime_def split: if_splits option.splits)
  let ?secs = "if group caps 7 \<noteq> [] \<and> \<not> hasSuffix (group caps 7) ''s'' then group caps 7 @ ''s'' else group caps 7"
  have t: "t = group caps 1 @ group caps 2 @ group caps 3 @ group caps 4 @ group caps 5 @ group caps 6 @ ?secs @ group caps 8"
    using assms caps by (auto simp: ParseTime_def Let_def split: if_splits)
  note g = findSubmatch_group [OF caps, unfolded timeGroups]
  note opt = lang_Opt_group
  have "group caps 1 \<in> lang (Opt (Seq digitsRe (Lit ''y'')))" using g [of 1] by (intro opt) auto
  moreover have "group caps 2 \<in> lang (Opt (Seq digitsRe (Lit ''M'')))" using g [of 2] by (intro opt) auto
  moreover have "group caps 3 \<in> lang (Opt (Seq digitsRe (Lit ''w'')))" using g [of 3] by (intro opt) auto
  moreover have "group caps 4 \<in> lang (Opt (Seq digitsRe (Lit ''d'')))" using g [of 4] by (intro opt) auto
  moreover have "group caps 5 \<in> lang (Opt (Seq digitsRe (Lit ''h'')))" using g [of 5] by (intro opt) auto
  moreover have "group caps 6 \<in> lang (Opt (Seq digitsRe (Lit ''m'')))" using g [of 6] by (intro opt) auto
  moreover have "?secs \<in> lang (Opt (Seq digitsRe (Lit ''s'')))" using g [of 7] by (intro seconds_unit) auto
  moreover have "group caps 8 \<in> lang (Opt (Seq digitsRe (Lit ''ms'')))" using g [of 8] by (intro opt) auto
  ultimately show ?thesis
    unfolding t normalTimeRe_def list.map Seqs.simps by (intro in_Seq in_last)
qed

text \<open>Strings that begin and end with a letter or a digit have nothing to trim.\<close>

lemma multiByteSpaces_alnum: "\<forall>w\<in>set multiByteSpaces. w \<noteq> [] \<and> \<not> isAlnum (hd w) \<and> \<not> isAlnum (last w)"
  by code_simp

lemma spaceLen_alnum:
  assumes "isAlnum c" and "\<forall>w\<in>set multi. w \<noteq> [] \<and> \<not> isAlnum (hd w)"
  shows "spaceLen multi (c # cs) = 0"
proof -
  have "\<not> hasPrefix (c # cs) w" if "w \<in> set multi" for w
    using assms that by (cases w) (auto simp: hasPrefix_def)
  then have "find (hasPrefix (c # cs)) multi = None" by (simp add: find_None_iff)
  moreover have "\<not> asciiSpace c" using assms(1) by (auto simp: asciiSpace_def byte_classes)
  ultimately show ?thesis by (simp add: spaceLen_def)
qed

lemma trimLeft_alnum:
  "s \<noteq> [] \<Longrightarrow> isAlnum (hd s) \<Longrightarrow> \<forall>w\<in>set multi. w \<noteq> [] \<and> \<not> isAlnum (hd w) \<Longrightarrow> trimLeftWith multi s = s"
  using spaceLen_alnum [of "hd s" multi "tl s"] by (subst trimLeftWith.simps) simp

lemma trimSpace_alnum:
  assumes "s \<noteq> []" "isAlnum (hd s)" "isAlnum (last s)"
  shows "trimSpace s = s"
proof -
  have "trimLeftWith multiByteSpaces s = s"
    using assms multiByteSpaces_alnum by (intro trimLeft_alnum) auto
  moreover have "trimLeftWith (map rev multiByteSpaces) (rev s) = rev s"
    using assms multiByteSpaces_alnum by (intro trimLeft_alnum) (auto simp: hd_rev)
  ultimately show ?thesis by (simp add: trimSpace_def)
qed

lemma digits_ends:
  assumes "s \<in> lang (Seq digitsRe a)" and "\<And>w. w \<in> lang a \<Longrightarrow> w = [] \<or> isAlnum (last w)"
  shows "s \<noteq> [] \<and> isAlnum (hd s) \<and> isAlnum (last s)"
proof -
  obtain u v where s: "s = u @ v" "u \<noteq> []" "list_all isDigit u" "v \<in> lang a"
    using assms(1) by (auto simp: digitsRe_def)
  then have "isAlnum (hd u)" "isAlnum (last u)" by (auto simp: list_all_iff isAlnum_def)
  then show ?thesis using s assms(2) [OF s(4)] by (auto simp: last_append)
qed

text \<open>What an accepted size is, and an accepted offset.\<close>

lemma size_ends: "s \<in> lang sizeRegexp \<Longrightarrow> s \<noteq> [] \<and> isAlnum (hd s) \<and> isAlnum (last s)"
  unfolding sizeRegexp_def by (erule digits_ends) (auto simp: byte_classes)

lemma offset_ends: "s \<in> lang offsetRegexp \<Longrightarrow> s \<noteq> [] \<and> isAlnum (hd s) \<and> isAlnum (last s)"
  unfolding offsetRegexp_def by (erule digits_ends) (auto simp: byte_classes)

lemma size_is_offset: "s \<in> lang sizeRegexp \<Longrightarrow> s \<in> lang offsetRegexp"
  by (auto simp: sizeRegexp_def offsetRegexp_def)

lemma reBytes_alnum:
  "reBytes sizeRegexp c \<Longrightarrow> isAlnum c" "reBytes offsetRegexp c \<Longrightarrow> isAlnum c" "reBytes normalTimeRe c \<Longrightarrow> isAlnum c"
  by (auto simp: sizeRegexp_def offsetRegexp_def normalTimeRe_def digitsRe_def isAlnum_def isLower_def isUpper_def inRange_def)

text \<open>
  C28: The times, offsets and sizes the parsers return are plain: letters and digits only, so
  they can bring nothing but one argument into the configuration. A time is in the normal form
  of years down to milliseconds; offsets and sizes are returned trimmed, are parsed again as
  themselves, and every size is an offset.
\<close>

theorem accepted_values_plain:
  "(ParseTime s = Inr t \<longrightarrow> t \<in> lang normalTimeRe \<and> list_all isAlnum t)
    \<and> (ParseOffset s = Inr t \<longrightarrow> t = trimSpace s \<and> ParseOffset t = Inr t \<and> list_all isAlnum t)
    \<and> (ParseSize s = Inr t \<longrightarrow> t = trimSpace s \<and> ParseSize t = Inr t \<and> ParseOffset t = Inr t \<and> list_all isAlnum t)"
proof (intro conjI impI)
  assume "ParseTime s = Inr t"
  then show time: "t \<in> lang normalTimeRe" by (rule ParseTime_normal)
  show "list_all isAlnum t" using time reBytes_alnum(3) by (rule lang_list_all)
next
  assume "ParseOffset s = Inr t"
  then show t: "t = trimSpace s" by (simp add: ParseOffset_def Let_def split: if_splits)
  have l: "t \<in> lang offsetRegexp" using \<open>ParseOffset s = Inr t\<close> by (simp add: ParseOffset_def Let_def match_lang split: if_splits)
  then show "list_all isAlnum t" using reBytes_alnum(2) by (rule lang_list_all)
  show "ParseOffset t = Inr t" using l trimSpace_alnum offset_ends [OF l] by (simp add: ParseOffset_def match_lang)
next
  assume "ParseSize s = Inr t"
  then show t: "t = trimSpace s" by (simp add: ParseSize_def Let_def split: if_splits)
  have l: "t \<in> lang sizeRegexp" using \<open>ParseSize s = Inr t\<close> by (simp add: ParseSize_def Let_def match_lang split: if_splits)
  then show "list_all isAlnum t" using reBytes_alnum(1) by (rule lang_list_all)
  have trim: "trimSpace t = t" using trimSpace_alnum size_ends [OF l] by blast
  show "ParseSize t = Inr t" "ParseOffset t = Inr t"
    using l trim size_is_offset [OF l] by (simp_all add: ParseSize_def ParseOffset_def match_lang)
qed

theorem accepted_values_plain_witness: "ParseSize ''64k'' = Inr ''64k'' \<and> ParseOffset ''64k'' = Inr ''64k''"
proof -
  have "ParseSize '' 64k '' = Inr ''64k''" by code_simp
  then show ?thesis using accepted_values_plain [of "'' 64k ''" "''64k''"] by blast
qed

end
