(* ===== verification/Validation_Properties.thy ===== *)
theory Validation_Properties
  imports TransportServer_Validation Ingress_Validation
begin

text \<open>
  What the validators of Ingresses, TransportServers and GlobalConfigurations accept.
\<close>

section \<open>Ingresses\<close>

lemma validateIngressAnnotations_Nil_iff:
  "validateIngressAnnotations (omAnnotations (ingMeta ing)) (getSpecServices (ingSpec ing)) pl ap ir (newPath ''annotations'') = []
   \<longleftrightarrow> (\<forall>name value fs f. gget (omAnnotations (ingMeta ing)) name = Some value \<and> gget annotationValidations name = Some fs
          \<and> f \<in> set fs \<longrightarrow> f (annotationContext ing pl ap ir name value) = [])"
  (is "?L \<longleftrightarrow> ?R")
proof
  assume ?R
  show ?L
    unfolding validateIngressAnnotations_def concat_eq_Nil_conv
  proof (clarsimp split: option.splits)
    fix name v
    assume "gget (omAnnotations (ingMeta ing)) name = Some v"
    with \<open>?R\<close> show "validateIngressAnnotation
        \<lparr>avAnnotations = omAnnotations (ingMeta ing), avSpecServices = getSpecServices (ingSpec ing), avName = name,
         avValue = v, avIsPlus = pl, avAppProtectEnabled = ap, avInternalRoutesEnabled = ir,
         avFieldPath = child (newPath ''annotations'') name\<rparr> = []"
      by (auto simp: validateIngressAnnotation_def firstErrors_Nil_iff annotationContext_def split: option.splits)
  qed
next
  assume ?L
  show ?R
  proof (intro allI impI, elim conjE)
    fix name v fs f
    assume *: "gget (omAnnotations (ingMeta ing)) name = Some v" "gget annotationValidations name = Some fs" "f \<in> set fs"
    have "validateIngressAnnotation (annotationContext ing pl ap ir name v) = []"
      using \<open>?L\<close> * gget_validations_key [OF *(2)] by (auto simp: validateIngressAnnotations_def annotationContext_def)
    with * show "f (annotationContext ing pl ap ir name v) = []"
      by (simp add: validateIngressAnnotation_def firstErrors_Nil_iff annotationContext_def)
  qed
qed

text \<open>
  C29: An Ingress is accepted exactly when it passes every check that the table lists for each of
  its annotations, its rules have distinct hosts, none empty, a master has one rule without
  paths, and a minion has one rule with paths and no TLS.
\<close>

theorem accepted_ingress_iff:
  "validateIngress ing pl ap ir = [] \<longleftrightarrow>
     okIngress ing
     \<and> (\<forall>name value fs f. gget (omAnnotations (ingMeta ing)) name = Some value \<and> gget annotationValidations name = Some fs
          \<and> f \<in> set fs \<longrightarrow> f (annotationContext ing pl ap ir name value) = [])"
  unfolding validateIngress_Nil_iff validateIngressAnnotations_Nil_iff by blast

theorem accepted_ingress_iff_witness: "validateIngressAnnotations [] [] True False False [] = [] \<and> okIngress (sampleIngress (sampleMeta ''n'' ''a'' ''u'' 1 []) [sampleRule ''x'' [''/'']])"
  using accepted_ingress_iff [of "sampleIngress (sampleMeta ''n'' ''a'' ''u'' 1 []) [sampleRule ''x'' [''/'']]" True False False]
  by (simp add: sampleIngress_def sampleMeta_def sampleRule_def okIngress_def isMinion_def isMaster_def gstr_def validateIngressAnnotations_def)

section \<open>GlobalConfigurations\<close>

text \<open>
  C30: A GlobalConfiguration is accepted exactly when every listener has a valid name that is not
  the built-in one, a valid port that is not forbidden and the protocol TCP or UDP, the names are
  distinct, and so are the pairs of port and protocol.
\<close>

theorem accepted_global_configuration_iff:
  "ValidateGlobalConfiguration gcv gc = None \<longleftrightarrow> okListeners gcv (gcsListeners (gcSpec gc))"
  by (rule ValidateGlobalConfiguration_None_iff)

section \<open>TransportServers\<close>

lemma validateTSUpstreamsFrom_ok:
  assumes "validateTSUpstreamsFrom i seen us p = ([], names)"
  shows "set names = tuName ` set us \<union> set seen" "distinct (map tuName us)" "tuName ` set us \<inter> set seen = {}"
    "\<forall>u\<in>set us. 1 \<le> tuPort u \<and> tuPort u \<le> 65535"
  using assms
proof (induction us arbitrary: i seen)
  case (Cons u us)
  {
    case 1 then show ?case using Cons.IH(1) [of "Suc i" "tuName u # seen"] by (auto simp: Let_def split: if_splits prod.splits)
  next
    case 2 then show ?case using Cons.IH(2,3) [of "Suc i" "tuName u # seen"] by (auto simp: Let_def split: if_splits prod.splits)
  next
    case 3 then show ?case using Cons.IH(3) [of "Suc i" "tuName u # seen"] by (auto simp: Let_def split: if_splits prod.splits)
  next
    case 4 then show ?case using Cons.IH(4) [of "Suc i" "tuName u # seen"]
      by (auto simp: Let_def invalidPort_def split: if_splits prod.splits)
  }
qed auto

lemma accepted_transport_server_parts:
  assumes "ValidateTransportServer tsv ts = None"
  shows "(let l = tssListener (tsSpec ts) in
       (tvTlsPassthrough tsv \<and> tslName l = TLSPassthroughListenerName \<and> tslProtocol l = TLSPassthroughListenerProtocol
          \<and> IsDNS1123Subdomain (tssHost (tsSpec ts)) = [])
       \<or> (tslName l \<noteq> TLSPassthroughListenerName \<and> tslProtocol l \<in> set listenerProtocols \<and> tssHost (tsSpec ts) = ''''))
    \<and> distinct (map tuName (tssUpstreams (tsSpec ts)))
    \<and> (\<forall>u\<in>set (tssUpstreams (tsSpec ts)). 1 \<le> tuPort u \<and> tuPort u \<le> 65535)
    \<and> (\<exists>a. tssAction (tsSpec ts) = Some a \<and> taPass a \<in> tuName ` set (tssUpstreams (tsSpec ts)))
    \<and> (\<forall>up. tssUpstreamParameters (tsSpec ts) = Some up \<and> (upUDPRequests up \<noteq> None \<or> upUDPResponses up \<noteq> None)
          \<longrightarrow> tslProtocol (tssListener (tsSpec ts)) = ''UDP'')
    \<and> (tssServerSnippets (tsSpec ts) \<noteq> '''' \<longrightarrow> tvSnippetsEnabled tsv)"
proof -
  obtain names where ups: "validateTSUpstreamsFrom 0 [] (tssUpstreams (tsSpec ts)) (child (newPath ''spec'') ''upstreams'') = ([], names)"
    and action: "(case tssAction (tsSpec ts) of None \<Rightarrow> [Required (child (newPath ''spec'') ''action'') ''must specify action'']
        | Some a \<Rightarrow> validateTransportServerAction a (child (newPath ''spec'') ''action'') names) = []"
    and params: "validateTransportServerUpstreamParameters (tssUpstreamParameters (tsSpec ts)) (child (newPath ''spec'') ''upstreamParameters'')
        (tslProtocol (tssListener (tsSpec ts))) = []"
    and snippets: "validateSnippets (tssServerSnippets (tsSpec ts)) (child (newPath ''spec'') ''serverSnippets'') (tvSnippetsEnabled tsv) = []"
    using assms by (auto simp: ValidateTransportServer_def validateTransportServerSpec_def validateTransportServerUpstreams_def
        split: prod.splits)
  note up = validateTSUpstreamsFrom_ok [OF ups]
  have "\<exists>a. tssAction (tsSpec ts) = Some a \<and> taPass a \<in> set names"
    using action by (auto simp: validateTransportServerAction_def validateReferencedUpstream_def Let_def split: option.splits if_splits)
  moreover have "\<forall>q. tssUpstreamParameters (tsSpec ts) = Some q \<and> (upUDPRequests q \<noteq> None \<or> upUDPResponses q \<noteq> None)
      \<longrightarrow> tslProtocol (tssListener (tsSpec ts)) = ''UDP''"
    using params by (auto simp: validateTransportServerUpstreamParameters_def validateUDPUpstreamParameter_def split: if_splits)
  moreover have "tssServerSnippets (tsSpec ts) \<noteq> '''' \<longrightarrow> tvSnippetsEnabled tsv"
    using snippets by (auto simp: validateSnippets_def split: if_splits)
  ultimately show ?thesis
    using ValidateTransportServer_listener [OF assms] up unfolding Let_def by simp
qed

definition sampleDNS :: TransportServer where
  "sampleDNS =
     \<lparr>tsMeta = sampleMeta ''n'' ''dns'' ''u'' 1 [],
      tsSpec = \<lparr>tssIngressClass = [], tssListener = \<lparr>tslName = ''dns'', tslProtocol = ''UDP''\<rparr>, tssServerSnippets = [],
        tssHost = '''',
        tssUpstreams = [\<lparr>tuName = ''u'', tuService = ''s'', tuPort = 53, tuFailTimeout = [], tuMaxFails = None, tuHealthCheck = None\<rparr>],
        tssUpstreamParameters = Some \<lparr>upUDPRequests = Some 1, upUDPResponses = None, upConnectTimeout = '''', upNextUpstream = False,
          upNextUpstreamTimeout = '''', upNextUpstreamTries = 0\<rparr>,
        tssSessionParameters = None, tssAction = Some \<lparr>taPass = ''u''\<rparr>\<rparr>\<rparr>"

text \<open>
  An accepted TransportServer either is a TLS passthrough one with a host, where TLS
  passthrough is on, or has a TCP or UDP listener and no host. Its upstreams have distinct names
  and valid ports, its action passes to one of them, only a UDP one sets the numbers of requests
  and responses, and it has snippets only where they are enabled.
\<close>

theorem accepted_transport_server:
  assumes "ValidateTransportServer tsv ts = None"
  shows "(let l = tssListener (tsSpec ts) in
       (tvTlsPassthrough tsv \<and> tslName l = TLSPassthroughListenerName \<and> tslProtocol l = TLSPassthroughListenerProtocol
          \<and> IsDNS1123Subdomain (tssHost (tsSpec ts)) = [])
       \<or> (tslName l \<noteq> TLSPassthroughListenerName \<and> tslProtocol l \<in> set listenerProtocols \<and> tssHost (tsSpec ts) = ''''))
    \<and> distinct (map tuName (tssUpstreams (tsSpec ts)))
    \<and> (\<forall>u\<in>set (tssUpstreams (tsSpec ts)). 1 \<le> tuPort u \<and> tuPort u \<le> 65535)
    \<and> (\<exists>a. tssAction (tsSpec ts) = Some a \<and> taPass a \<in> tuName ` set (tssUpstreams (tsSpec ts)))
    \<and> (\<forall>up. tssUpstreamParameters (tsSpec ts) = Some up \<and> (upUDPRequests up \<noteq> None \<or> upUDPResponses up \<noteq> None)
          \<longrightarrow> tslProtocol (tssListener (tsSpec ts)) = ''UDP'')
    \<and> (tssServerSnippets (tsSpec ts) \<noteq> '''' \<longrightarrow> tvSnippetsEnabled tsv)"
  using assms by (rule accepted_transport_server_parts)

theorem accepted_transport_server_witness:
  "tslProtocol (tssListener (tsSpec sampleDNS)) = ''UDP'' \<and> (\<exists>a. tssAction (tsSpec sampleDNS) = Some a \<and> taPass a \<in> {''u''})"
proof -
  have "ValidateTransportServer \<lparr>tvTlsPassthrough = False, tvSnippetsEnabled = False\<rparr> sampleDNS = None" by code_simp
  from accepted_transport_server [OF this] show ?thesis by (simp add: sampleDNS_def)
qed

end
