(* ===== verification/App_Protect.thy ===== *)
theory App_Protect
  imports Go_Strconv
begin

text \<open>
  \<open>internal/k8s/appprotect\<close>: the configuration of App Protect policies, log configurations and
  user-defined signatures, which the controller handles as unstructured JSON objects. Of
  several signatures with one tag only the oldest is valid, and a policy is valid as long as
  valid signatures satisfy its requirements.

  A Go map entry holds a pointer to its \<open>PolicyEx\<close>, \<open>LogConfEx\<close> or \<open>UserSigEx\<close>; no two entries
  share one, so a change through the pointer is an update of the entry. The parser of RFC 3339
  time stamps (package \<open>time\<close>) and the parser of IP addresses (package \<open>net\<close>) are arguments;
  instants count from Go's zero time. An \<open>Errorf\<close> whose text is used as its format is that
  text. A failing type assertion is a panic, \<^term>\<open>None\<close> of the result.
\<close>

section \<open>Unstructured objects\<close>

text \<open>The values of decoded JSON. A floating-point number is the text \<open>%v\<close> prints for it.\<close>

datatype json = JNull | JBool bool | JInt int | JFloat string | JStr string | JArr "json list" | JObj "(string \<times> json) list"

type_synonym unstructured = "json gomap"

text \<open>\<open>%v\<close> and \<open>%T\<close> of such a value; maps are printed with sorted keys.\<close>

fun fmtValue :: "json \<Rightarrow> string" where
  "fmtValue JNull = ''<nil>''"
| "fmtValue (JBool b) = (if b then ''true'' else ''false'')"
| "fmtValue (JInt i) = itoa i"
| "fmtValue (JFloat s) = s"
| "fmtValue (JStr s) = s"
| "fmtValue (JArr vs) = ''['' @ joinStr '' '' (map fmtValue vs) @ '']''"
| "fmtValue (JObj kvs) =
     ''map['' @ joinStr '' '' (map (\<lambda>(k, s). k @ '':'' @ s) (sort_key fst (map (\<lambda>(k, v). (k, fmtValue v)) kvs))) @ '']''"

fun typeName :: "json \<Rightarrow> string" where
  "typeName JNull = ''<nil>''"
| "typeName (JBool b) = ''bool''"
| "typeName (JInt i) = ''int64''"
| "typeName (JFloat s) = ''float64''"
| "typeName (JStr s) = ''string''"
| "typeName (JArr vs) = ''[]interface {}''"
| "typeName (JObj kvs) = ''map[string]interface {}''"

definition jsonPath :: "string list \<Rightarrow> string" where
  "jsonPath fields = ''.'' @ joinStr ''.'' fields"

definition accessorError :: "string list \<Rightarrow> json \<Rightarrow> string \<Rightarrow> string" where
  "accessorError fields val expected =
     jsonPath fields @ '' accessor error: '' @ fmtValue val @ '' is of the type '' @ typeName val @ '', expected '' @ expected"

text \<open>A nested value: an error, a missing value (\<^term>\<open>Inr None\<close>), or the value found.\<close>

fun nestedField :: "json \<Rightarrow> string list \<Rightarrow> string list \<Rightarrow> string + json option" where
  "nestedField val done [] = Inr (Some val)"
| "nestedField val done (f # fs) =
     (case val of
        JNull \<Rightarrow> Inr None
      | JObj m \<Rightarrow> (case gget m f of None \<Rightarrow> Inr None | Some v \<Rightarrow> nestedField v (done @ [f]) fs)
      | _ \<Rightarrow> Inl (accessorError (done @ [f]) val ''map[string]interface{}''))"

definition NestedFieldNoCopy :: "unstructured \<Rightarrow> string list \<Rightarrow> string + json option" where
  "NestedFieldNoCopy obj fields = nestedField (JObj obj) [] fields"

definition NestedString :: "unstructured \<Rightarrow> string list \<Rightarrow> string + string option" where
  "NestedString obj fields =
     (case NestedFieldNoCopy obj fields of
        Inl e \<Rightarrow> Inl e
      | Inr None \<Rightarrow> Inr None
      | Inr (Some (JStr s)) \<Rightarrow> Inr (Some s)
      | Inr (Some val) \<Rightarrow> Inl (accessorError fields val ''string''))"

definition NestedSlice :: "unstructured \<Rightarrow> string list \<Rightarrow> string + json list option" where
  "NestedSlice obj fields =
     (case NestedFieldNoCopy obj fields of
        Inl e \<Rightarrow> Inl e
      | Inr None \<Rightarrow> Inr None
      | Inr (Some (JArr vs)) \<Rightarrow> Inr (Some vs)
      | Inr (Some val) \<Rightarrow> Inl (accessorError fields val ''[]interface{}''))"

definition NestedMap :: "unstructured \<Rightarrow> string list \<Rightarrow> string + json gomap option" where
  "NestedMap obj fields =
     (case NestedFieldNoCopy obj fields of
        Inl e \<Rightarrow> Inl e
      | Inr None \<Rightarrow> Inr None
      | Inr (Some (JObj m)) \<Rightarrow> Inr (Some m)
      | Inr (Some val) \<Rightarrow> Inl (accessorError fields val ''map[string]interface{}''))"

definition getNestedString :: "unstructured \<Rightarrow> string list \<Rightarrow> string" where
  "getNestedString obj fields = (case NestedString obj fields of Inr (Some s) \<Rightarrow> s | _ \<Rightarrow> '''')"

definition usGetName :: "unstructured \<Rightarrow> string" where
  "usGetName obj = getNestedString obj [''metadata'', ''name'']"

definition usGetNamespace :: "unstructured \<Rightarrow> string" where
  "usGetNamespace obj = getNestedString obj [''metadata'', ''namespace'']"

definition usGetUID :: "unstructured \<Rightarrow> string" where
  "usGetUID obj = getNestedString obj [''metadata'', ''uid'']"

type_synonym time_parser = "string \<Rightarrow> string + int"

definition usGetCreationTimestamp :: "time_parser \<Rightarrow> unstructured \<Rightarrow> int" where
  "usGetCreationTimestamp timeParse obj =
     (let str = getNestedString obj [''metadata'', ''creationTimestamp'']
      in if str = '''' \<or> str = ''null'' then 0 else case timeParse str of Inl _ \<Rightarrow> 0 | Inr t \<Rightarrow> t)"

section \<open>Validation of the objects\<close>

definition appProtectPolicyRequiredFields :: "string list list" where
  "appProtectPolicyRequiredFields = [[''spec'', ''policy'']]"

definition appProtectLogConfRequiredFields :: "string list list" where
  "appProtectLogConfRequiredFields = [[''spec'', ''content''], [''spec'', ''filter'']]"

definition appProtectUserSigRequiredSlices :: "string list list" where
  "appProtectUserSigRequiredSlices = [[''spec'', ''signatures'']]"

text \<open>In both messages the field is the nil map or slice the lookup returned.\<close>

fun validateRequiredFields :: "unstructured \<Rightarrow> string list list \<Rightarrow> string option" where
  "validateRequiredFields obj [] = None"
| "validateRequiredFields obj (fields # rest) =
     (case NestedMap obj fields of
        Inl e \<Rightarrow> Some (''Error checking for required field map[]: '' @ e)
      | Inr None \<Rightarrow> Some ''Required field map[] not found''
      | Inr (Some _) \<Rightarrow> validateRequiredFields obj rest)"

fun validateRequiredSlices :: "unstructured \<Rightarrow> string list list \<Rightarrow> string option" where
  "validateRequiredSlices obj [] = None"
| "validateRequiredSlices obj (fields # rest) =
     (case NestedSlice obj fields of
        Inl e \<Rightarrow> Some (''Error checking for required field []: '' @ e)
      | Inr None \<Rightarrow> Some ''Required field [] not found''
      | Inr (Some _) \<Rightarrow> validateRequiredSlices obj rest)"

fun validateRequiredStrings :: "unstructured \<Rightarrow> string list list \<Rightarrow> string option" where
  "validateRequiredStrings obj [] = None"
| "validateRequiredStrings obj (fields # rest) =
     (case NestedString obj fields of
        Inl e \<Rightarrow> Some (''Error checking for required field : '' @ e)
      | Inr None \<Rightarrow> Some ''Required field  not found''
      | Inr (Some _) \<Rightarrow> validateRequiredStrings obj rest)"

definition ValidateAppProtectPolicy :: "unstructured \<Rightarrow> string option" where
  "ValidateAppProtectPolicy policy =
     map_option (\<lambda>err. ''Error validating App Protect Policy '' @ usGetName policy @ '': '' @ err)
       (validateRequiredFields policy appProtectPolicyRequiredFields)"

definition ValidateAppProtectLogConf :: "unstructured \<Rightarrow> string option" where
  "ValidateAppProtectLogConf logConf =
     map_option (\<lambda>err. ''Error validating App Protect Log Configuration '' @ usGetName logConf @ '': '' @ err)
       (validateRequiredFields logConf appProtectLogConfRequiredFields)"

definition validateAppProtectUserSig :: "unstructured \<Rightarrow> string option" where
  "validateAppProtectUserSig userSig =
     map_option (\<lambda>err. ''Error validating App Protect User Signature '' @ usGetName userSig @ '': '' @ err)
       (validateRequiredSlices userSig appProtectUserSigRequiredSlices)"

definition ParseResourceReferenceAnnotation :: "string \<Rightarrow> string \<Rightarrow> string" where
  "ParseResourceReferenceAnnotation ns antn = (if CHR ''/'' \<notin> set antn then ns @ ''/'' @ antn else antn)"

definition GetNsName :: "unstructured \<Rightarrow> string" where
  "GetNsName obj = usGetNamespace obj @ ''/'' @ usGetName obj"

section \<open>Destinations of logs\<close>

definition digits1to3 :: re where
  "digits1to3 = Seqs [Cls isDigit, Opt (Cls isDigit), Opt (Cls isDigit)]"

definition digits1to5 :: re where
  "digits1to5 = Seqs [Cls isDigit, Opt (Cls isDigit), Opt (Cls isDigit), Opt (Cls isDigit), Opt (Cls isDigit)]"

definition logDstFileEx :: re where
  "logDstFileEx = Plus (Seq (Lit ''/'') (Plus (Cls (\<lambda>c. \<not> reSpace c))))"

definition logDstEx :: re where
  "logDstEx =
     Alt (Seqs [Lit ''syslog:server='',
            Alt (Seqs [digits1to3, Lit ''.'', digits1to3, Lit ''.'', digits1to3, Lit ''.'', digits1to3]) (Lit ''localhost''),
            Lit '':'', digits1to5])
       (Alt (Lit ''stderr'') logDstFileEx)"

text \<open>\<open>MatchString\<close> of an expression that is not anchored: some suffix starts with a match.\<close>

fun searchString :: "re \<Rightarrow> string \<Rightarrow> bool" where
  "searchString r s = (matches r (s, []) \<noteq> [] \<or> (case s of [] \<Rightarrow> False | c # cs \<Rightarrow> searchString r cs))"

declare searchString.simps [simp del]

definition logDestMsg :: string where
  "logDestMsg = ''Error parsing App Protect Log config: Destination must follow format: syslog:server=<ip-address | localhost>:<port> or stderr or absolute path to file''"

text \<open>The number \<open>Atoi\<close> returns next to its error: 0 for a syntax error, the nearest bound for a range error.\<close>

definition goAtoiValue :: "string \<Rightarrow> int" where
  "goAtoiValue s =
     (case goAtoi s of
        Inl ErrSyntax \<Rightarrow> 0
      | Inl ErrRange \<Rightarrow> (if hd s = CHR ''-'' then - (2 ^ 63) else 2 ^ 63 - 1)
      | Inr i \<Rightarrow> i)"

text \<open>The outer option is the panic of an index out of range, the inner one the error.\<close>

definition ValidateAppProtectLogDestination :: "(string \<Rightarrow> bool) \<Rightarrow> string \<Rightarrow> string option option" where
  "ValidateAppProtectLogDestination isIP dstAntn =
     (if \<not> searchString logDstEx dstAntn then Some (Some (logDestMsg @ '' Log Destination did not follow format''))
      else if dstAntn = ''stderr'' then Some None
      else if searchString logDstFileEx dstAntn then Some None
      else
        let dstchunks = splitOn (CHR '':'') dstAntn
        in case nthOpt dstchunks 2 of
             None \<Rightarrow> None
           | Some portText \<Rightarrow>
               (let port = goAtoiValue portText
                in if port > 65535 \<or> port < 1
                   then Some (Some (''Error parsing port: '' @ itoa port @ '' not a valid port number''))
                   else case nthOpt dstchunks 1 of
                          None \<Rightarrow> None
                        | Some server \<Rightarrow>
                            (case nthOpt (splitOn (CHR ''='') server) 1 of
                               None \<Rightarrow> None
                             | Some ipstr \<Rightarrow>
                                 (if ipstr = ''localhost'' then Some None
                                  else if \<not> isIP ipstr
                                  then Some (Some (''Error parsing host: '' @ ipstr @ '' is not a valid ip address''))
                                  else Some None))))"

section \<open>The state\<close>

datatype APOperation = APDelete | APAddOrUpdate

record RevTimes =
  rvMinRevTime :: "int option"
  rvMaxRevTime :: "int option"

record SignatureReq =
  srTag :: string
  srRevTimes :: "RevTimes option"

record PolicyEx =
  pxObj :: unstructured
  pxSignatureReqs :: "SignatureReq list"
  pxIsValid :: bool
  pxErrorMsg :: string

record LogConfEx =
  lxObj :: unstructured
  lxIsValid :: bool
  lxErrorMsg :: string

record UserSigEx =
  sxObj :: unstructured
  sxTag :: string
  sxRevTime :: "int option"
  sxIsValid :: bool
  sxErrorMsg :: string

datatype APResource = APPolicyRes PolicyEx | APLogConfRes LogConfEx | APUserSigRes UserSigEx

record APChange =
  apcOp :: APOperation
  apcResource :: APResource

record APProblem =
  appObject :: unstructured
  appReason :: string
  appMessage :: string

record UserSigChange =
  uscPolicyDeletions :: "unstructured list"
  uscPolicyAddsOrUpdates :: "unstructured list"
  uscUserSigs :: "unstructured list"

record APConfiguration =
  apPolicies :: "PolicyEx gomap"
  apLogConfs :: "LogConfEx gomap"
  apUserSigs :: "UserSigEx gomap"

definition newConfigurationImpl :: APConfiguration where
  "newConfigurationImpl = \<lparr>apPolicies = [], apLogConfs = [], apUserSigs = []\<rparr>"

definition failedValidationErrorMsg :: string where
  "failedValidationErrorMsg = ''Validation Failed''"

definition missingUserSigErrorMsg :: string where
  "missingUserSigErrorMsg = ''Policy has unsatisfied signature requirements''"

definition duplicatedTagsErrorMsg :: string where
  "duplicatedTagsErrorMsg = ''Duplicate tag set''"

definition invalidTimestampErrorMsg :: string where
  "invalidTimestampErrorMsg = ''Invalid timestamp''"

definition setInvalidPolicy :: "string \<Rightarrow> PolicyEx \<Rightarrow> PolicyEx" where
  "setInvalidPolicy reason pol = pol\<lparr>pxIsValid := False, pxErrorMsg := reason\<rparr>"

definition setValidPolicy :: "PolicyEx \<Rightarrow> PolicyEx" where
  "setValidPolicy pol = pol\<lparr>pxIsValid := True, pxErrorMsg := ''''\<rparr>"

definition setInvalidSig :: "string \<Rightarrow> UserSigEx \<Rightarrow> UserSigEx" where
  "setInvalidSig reason sg = sg\<lparr>sxIsValid := False, sxErrorMsg := reason\<rparr>"

definition setValidSig :: "UserSigEx \<Rightarrow> UserSigEx" where
  "setValidSig sg = sg\<lparr>sxIsValid := True, sxErrorMsg := ''''\<rparr>"

section \<open>Reading the objects\<close>

text \<open>A time requirement: \<^term>\<open>None\<close> when it is not a string (a failing type assertion).\<close>

definition revTime :: "time_parser \<Rightarrow> string \<Rightarrow> json gomap \<Rightarrow> string \<Rightarrow> (string + int option) option" where
  "revTime timeParse msg requirement key =
     (case gget requirement key of
        None \<Rightarrow> Some (Inr None)
      | Some (JStr s) \<Rightarrow> Some (case timeParse s of Inl e \<Rightarrow> Inl (msg @ e) | Inr t \<Rightarrow> Inr (Some t))
      | Some _ \<Rightarrow> None)"

definition buildRevTimes :: "time_parser \<Rightarrow> json gomap \<Rightarrow> (string + RevTimes) option" where
  "buildRevTimes timeParse requirement =
     (case revTime timeParse ''Error Parsing time from minRevisionDatetime '' requirement ''minRevisionDatetime'' of
        None \<Rightarrow> None
      | Some (Inl e) \<Rightarrow> Some (Inl e)
      | Some (Inr minRev) \<Rightarrow>
          (case revTime timeParse ''Error Parsing time from maxRevisionDatetime  '' requirement ''maxRevisionDatetime'' of
             None \<Rightarrow> None
           | Some (Inl e) \<Rightarrow> Some (Inl e)
           | Some (Inr maxRev) \<Rightarrow> Some (Inr \<lparr>rvMinRevTime = minRev, rvMaxRevTime = maxRev\<rparr>)))"

fun signatureReqs :: "time_parser \<Rightarrow> json list \<Rightarrow> (string + SignatureReq list) option" where
  "signatureReqs timeParse [] = Some (Inr [])"
| "signatureReqs timeParse (req # reqs) =
     (case req of
        JObj requirement \<Rightarrow>
          (case gget requirement ''tag'' of
             None \<Rightarrow> signatureReqs timeParse reqs
           | Some reqTag \<Rightarrow>
               (case buildRevTimes timeParse requirement of
                  None \<Rightarrow> None
                | Some (Inl e) \<Rightarrow> Some (Inl e)
                | Some (Inr timeReq) \<Rightarrow>
                    (case reqTag of
                       JStr tag \<Rightarrow>
                         map_option (map_sum id (\<lambda>rs. \<lparr>srTag = tag, srRevTimes = Some timeReq\<rparr> # rs))
                           (signatureReqs timeParse reqs)
                     | _ \<Rightarrow> None)))
      | _ \<Rightarrow> None)"

definition rejectedPolicy :: "unstructured \<Rightarrow> string \<Rightarrow> PolicyEx" where
  "rejectedPolicy obj reason = \<lparr>pxObj = obj, pxSignatureReqs = [], pxIsValid = False, pxErrorMsg = reason\<rparr>"

definition createAppProtectPolicyEx :: "time_parser \<Rightarrow> unstructured \<Rightarrow> (PolicyEx \<times> string option) option" where
  "createAppProtectPolicyEx timeParse policyObj =
     (case ValidateAppProtectPolicy policyObj of
        Some err \<Rightarrow> Some (rejectedPolicy policyObj failedValidationErrorMsg,
                      Some (''Error validating policy '' @ usGetName policyObj @ '': '' @ err))
      | None \<Rightarrow>
          (case NestedSlice policyObj [''spec'', ''policy'', ''signature-requirements''] of
             Inl err \<Rightarrow> Some (rejectedPolicy policyObj failedValidationErrorMsg,
                          Some (''Error retrieving Signature requirements from '' @ usGetName policyObj @ '': '' @ err))
           | Inr reqs \<Rightarrow>
               (case signatureReqs timeParse (case reqs of None \<Rightarrow> [] | Some rs \<Rightarrow> rs) of
                  None \<Rightarrow> None
                | Some (Inl err) \<Rightarrow> Some (rejectedPolicy policyObj invalidTimestampErrorMsg,
                                     Some (''Error creating time requirements from '' @ usGetName policyObj @ '': '' @ err))
                | Some (Inr sigReqs) \<Rightarrow>
                    Some (\<lparr>pxObj = policyObj, pxSignatureReqs = sigReqs, pxIsValid = True, pxErrorMsg = ''''\<rparr>, None))))"

definition createAppProtectLogConfEx :: "unstructured \<Rightarrow> LogConfEx \<times> string option" where
  "createAppProtectLogConfEx logConfObj =
     (case ValidateAppProtectLogConf logConfObj of
        Some err \<Rightarrow> (\<lparr>lxObj = logConfObj, lxIsValid = False, lxErrorMsg = failedValidationErrorMsg\<rparr>, Some err)
      | None \<Rightarrow> (\<lparr>lxObj = logConfObj, lxIsValid = True, lxErrorMsg = ''''\<rparr>, None))"

definition createAppProtectUserSigEx :: "time_parser \<Rightarrow> unstructured \<Rightarrow> UserSigEx \<times> string option" where
  "createAppProtectUserSigEx timeParse userSigObj =
     (case validateAppProtectUserSig userSigObj of
        Some err \<Rightarrow>
          (\<lparr>sxObj = userSigObj, sxTag = '''', sxRevTime = None, sxIsValid = False, sxErrorMsg = failedValidationErrorMsg\<rparr>,
           Some failedValidationErrorMsg)
      | None \<Rightarrow>
          (let sTag = (case NestedString userSigObj [''spec'', ''tag''] of Inr (Some tag) \<Rightarrow> tag | _ \<Rightarrow> '''')
           in case NestedString userSigObj [''spec'', ''revisionDatetime''] of
                Inr (Some revTimeString) \<Rightarrow>
                  (case timeParse revTimeString of
                     Inl _ \<Rightarrow>
                       (\<lparr>sxObj = userSigObj, sxTag = '''', sxRevTime = None, sxIsValid = False, sxErrorMsg = invalidTimestampErrorMsg\<rparr>,
                        Some invalidTimestampErrorMsg)
                   | Inr t \<Rightarrow>
                       (\<lparr>sxObj = userSigObj, sxTag = sTag, sxRevTime = Some t, sxIsValid = True, sxErrorMsg = ''''\<rparr>, None))
              | _ \<Rightarrow> (\<lparr>sxObj = userSigObj, sxTag = sTag, sxRevTime = None, sxIsValid = True, sxErrorMsg = ''''\<rparr>, None)))"

section \<open>Requirements\<close>

definition isReqSatisfiedByUserSig :: "SignatureReq \<Rightarrow> UserSigEx \<Rightarrow> bool" where
  "isReqSatisfiedByUserSig sigReq sg =
     (if sxTag sg = '''' \<or> sxTag sg \<noteq> srTag sigReq then False
      else case (srRevTimes sigReq, sxRevTime sg) of
          (Some revTimes, Some t) \<Rightarrow>
            (case (rvMinRevTime revTimes, rvMaxRevTime revTimes) of
               (Some lo, Some hi) \<Rightarrow> t < hi \<and> t > lo
             | (None, Some hi) \<Rightarrow> t < hi
             | (Some lo, None) \<Rightarrow> t > lo
             | (None, None) \<Rightarrow> False)
        | _ \<Rightarrow> sxTag sg = srTag sigReq)"

definition isReqSatisfiedByUserSigs :: "SignatureReq \<Rightarrow> UserSigEx gomap \<Rightarrow> bool" where
  "isReqSatisfiedByUserSigs sigReq sigs = list_ex (\<lambda>(k, sg). isReqSatisfiedByUserSig sigReq sg \<and> sxIsValid sg) sigs"

definition verifyPolicyAgainstUserSigs :: "APConfiguration \<Rightarrow> PolicyEx \<Rightarrow> bool" where
  "verifyPolicyAgainstUserSigs ci pol = list_all (\<lambda>sigreq. isReqSatisfiedByUserSigs sigreq (apUserSigs ci)) (pxSignatureReqs pol)"

section \<open>Policies and log configurations\<close>

definition rejected :: "unstructured \<Rightarrow> string \<Rightarrow> APProblem" where
  "rejected obj msg = \<lparr>appObject = obj, appReason = ''Rejected'', appMessage = msg\<rparr>"

definition AddOrUpdatePolicy ::
    "time_parser \<Rightarrow> unstructured \<Rightarrow> APConfiguration \<Rightarrow> (APConfiguration \<times> APChange list \<times> APProblem list) option" where
  "AddOrUpdatePolicy timeParse policyObj ci =
     (let resNsName = GetNsName policyObj
      in case createAppProtectPolicyEx timeParse policyObj of
           None \<Rightarrow> None
         | Some (pol, Some err) \<Rightarrow>
             Some (ci\<lparr>apPolicies := gput resNsName pol (apPolicies ci)\<rparr>,
                   [\<lparr>apcOp = APDelete, apcResource = APPolicyRes pol\<rparr>], [rejected policyObj err])
         | Some (pol, None) \<Rightarrow>
             (if verifyPolicyAgainstUserSigs ci pol
              then Some (ci\<lparr>apPolicies := gput resNsName pol (apPolicies ci)\<rparr>,
                         [\<lparr>apcOp = APAddOrUpdate, apcResource = APPolicyRes pol\<rparr>], [])
              else let pol' = setInvalidPolicy missingUserSigErrorMsg pol
                   in Some (ci\<lparr>apPolicies := gput resNsName pol' (apPolicies ci)\<rparr>,
                            [\<lparr>apcOp = APDelete, apcResource = APPolicyRes pol'\<rparr>],
                            [rejected policyObj missingUserSigErrorMsg])))"

definition AddOrUpdateLogConf :: "unstructured \<Rightarrow> APConfiguration \<Rightarrow> APConfiguration \<times> APChange list \<times> APProblem list" where
  "AddOrUpdateLogConf logconfObj ci =
     (let (logConf, err) = createAppProtectLogConfEx logconfObj;
          ci' = ci\<lparr>apLogConfs := gput (GetNsName logconfObj) logConf (apLogConfs ci)\<rparr>
      in case err of
           Some e \<Rightarrow> (ci', [\<lparr>apcOp = APDelete, apcResource = APLogConfRes logConf\<rparr>], [rejected logconfObj e])
         | None \<Rightarrow> (ci', [\<lparr>apcOp = APAddOrUpdate, apcResource = APLogConfRes logConf\<rparr>], []))"

definition DeletePolicy :: "string \<Rightarrow> APConfiguration \<Rightarrow> APConfiguration \<times> APChange list \<times> APProblem list" where
  "DeletePolicy key ci =
     (case gget (apPolicies ci) key of
        Some pol \<Rightarrow> (ci\<lparr>apPolicies := gdel key (apPolicies ci)\<rparr>, [\<lparr>apcOp = APDelete, apcResource = APPolicyRes pol\<rparr>], [])
      | None \<Rightarrow> (ci, [], []))"

definition DeleteLogConf :: "string \<Rightarrow> APConfiguration \<Rightarrow> APConfiguration \<times> APChange list \<times> APProblem list" where
  "DeleteLogConf key ci =
     (case gget (apLogConfs ci) key of
        Some lc \<Rightarrow> (ci\<lparr>apLogConfs := gdel key (apLogConfs ci)\<rparr>, [\<lparr>apcOp = APDelete, apcResource = APLogConfRes lc\<rparr>], [])
      | None \<Rightarrow> (ci, [], []))"

definition GetAppResource :: "string \<Rightarrow> string \<Rightarrow> APConfiguration \<Rightarrow> string + unstructured" where
  "GetAppResource kind key ci =
     (if kind = ''APPolicy'' then
        (case gget (apPolicies ci) key of
           Some obj \<Rightarrow> (if pxIsValid obj then Inr (pxObj obj) else Inl (pxErrorMsg obj))
         | None \<Rightarrow> Inl (''App Protect Policy '' @ key @ '' not found''))
      else if kind = ''APLogConf'' then
        (case gget (apLogConfs ci) key of
           Some obj \<Rightarrow> (if lxIsValid obj then Inr (lxObj obj) else Inl (lxErrorMsg obj))
         | None \<Rightarrow> Inl (''App Protect LogConf '' @ key @ '' not found''))
      else if kind = ''APUserSig'' then
        (case gget (apUserSigs ci) key of
           Some obj \<Rightarrow> (if sxIsValid obj then Inr (sxObj obj) else Inl (sxErrorMsg obj))
         | None \<Rightarrow> Inl (''App Protect UserSig '' @ key @ '' not found''))
      else Inl (''Unknown App Protect resource kind '' @ kind))"

section \<open>User-defined signatures\<close>

text \<open>\<open>Less\<close>: the older signature first, of two equally old ones the one with the greater UID.\<close>

definition sigLess :: "time_parser \<Rightarrow> UserSigEx \<Rightarrow> UserSigEx \<Rightarrow> bool" where
  "sigLess timeParse a b =
     (let ta = usGetCreationTimestamp timeParse (sxObj a); tb = usGetCreationTimestamp timeParse (sxObj b)
      in if ta = tb then usGetUID (sxObj a) > usGetUID (sxObj b) else ta < tb)"

text \<open>\<open>sort.Sort\<close>, on the keys of the signatures.\<close>

fun insertSig :: "('a \<Rightarrow> 'a \<Rightarrow> bool) \<Rightarrow> 'a \<Rightarrow> 'a list \<Rightarrow> 'a list" where
  "insertSig lt x [] = [x]"
| "insertSig lt x (y # ys) = (if lt y x then y # insertSig lt x ys else x # y # ys)"

definition sortSigs :: "('a \<Rightarrow> 'a \<Rightarrow> bool) \<Rightarrow> 'a list \<Rightarrow> 'a list" where
  "sortSigs lt xs = foldr (insertSig lt) xs []"

text \<open>The signatures by tag, except those that failed validation and those without a tag.\<close>

definition detectDuplicateTags :: "UserSigEx gomap \<Rightarrow> (string \<times> UserSigEx) list list" where
  "detectDuplicateTags sigs =
     (let tmp = fold (\<lambda>(k, sg) tmp.
            if sxErrorMsg sg \<noteq> failedValidationErrorMsg
            then gput (sxTag sg) ((case gget tmp (sxTag sg) of None \<Rightarrow> [] | Some vals \<Rightarrow> vals) @ [(k, sg)]) tmp
            else tmp) sigs []
      in map snd (filter (\<lambda>(tag, vals). tag \<noteq> '''') tmp))"

text \<open>One group of signatures with the same tag: the first stays or becomes valid, the others become invalid.\<close>

fun looseSigs :: "(string \<times> UserSigEx) list \<Rightarrow> UserSigEx gomap \<Rightarrow> UserSigEx gomap \<times> APChange list \<times> APProblem list" where
  "looseSigs [] sigs = (sigs, [], [])"
| "looseSigs ((k, sg) # rest) sigs =
     (if sxIsValid sg
      then let sg' = setInvalidSig duplicatedTagsErrorMsg sg;
               (sigs', changes, problems) = looseSigs rest (gput k sg' sigs)
           in (sigs', \<lparr>apcOp = APDelete, apcResource = APUserSigRes sg'\<rparr> # changes,
               rejected (sxObj sg) duplicatedTagsErrorMsg # problems)
      else looseSigs rest sigs)"

definition reconcileGroup ::
    "time_parser \<Rightarrow> (string \<times> UserSigEx) list \<Rightarrow> UserSigEx gomap \<Rightarrow> UserSigEx gomap \<times> APChange list \<times> APProblem list" where
  "reconcileGroup timeParse grp sigs =
     (case sortSigs (\<lambda>a b. sigLess timeParse (snd a) (snd b)) grp of
        [] \<Rightarrow> (sigs, [], [])
      | (k, winner) # losers \<Rightarrow>
          (let (sigs1, change) =
                 (if \<not> sxIsValid winner
                  then (gput k (setValidSig winner) sigs,
                        [\<lparr>apcOp = APAddOrUpdate, apcResource = APUserSigRes (setValidSig winner)\<rparr>])
                  else (sigs, []));
               (sigs2, changes, problems) = looseSigs losers sigs1
           in (sigs2, change @ changes, problems)))"

fun reconcileGroups ::
    "time_parser \<Rightarrow> (string \<times> UserSigEx) list list \<Rightarrow> UserSigEx gomap \<Rightarrow> UserSigEx gomap \<times> APChange list \<times> APProblem list" where
  "reconcileGroups timeParse [] sigs = (sigs, [], [])"
| "reconcileGroups timeParse (grp # groups) sigs =
     (let (sigs1, changes1, problems1) = reconcileGroup timeParse grp sigs;
          (sigs2, changes2, problems2) = reconcileGroups timeParse groups sigs1
      in (sigs2, changes1 @ changes2, problems1 @ problems2))"

definition reconcileUserSigs :: "time_parser \<Rightarrow> APConfiguration \<Rightarrow> APConfiguration \<times> APChange list \<times> APProblem list" where
  "reconcileUserSigs timeParse ci =
     (let (sigs, changes, problems) = reconcileGroups timeParse (detectDuplicateTags (apUserSigs ci)) (apUserSigs ci)
      in (ci\<lparr>apUserSigs := sigs\<rparr>, changes, problems))"

text \<open>One policy of the loop: it may become valid, and is then checked once more.\<close>

definition verifyPolicy :: "APConfiguration \<Rightarrow> PolicyEx \<Rightarrow> PolicyEx \<times> APChange list \<times> APProblem list" where
  "verifyPolicy ci pol =
     (let (pol1, changes1) =
            (if \<not> pxIsValid pol \<and> pxErrorMsg pol = missingUserSigErrorMsg \<and> verifyPolicyAgainstUserSigs ci pol
             then (setValidPolicy pol, [\<lparr>apcOp = APAddOrUpdate, apcResource = APPolicyRes (setValidPolicy pol)\<rparr>])
             else (pol, []))
      in if pxIsValid pol1 \<and> \<not> verifyPolicyAgainstUserSigs ci pol1
         then let pol2 = setInvalidPolicy missingUserSigErrorMsg pol1
              in (pol2, changes1 @ [\<lparr>apcOp = APDelete, apcResource = APPolicyRes pol2\<rparr>], [rejected (pxObj pol2) missingUserSigErrorMsg])
         else (pol1, changes1, []))"

definition verifyPolicies :: "APConfiguration \<Rightarrow> APConfiguration \<times> APChange list \<times> APProblem list" where
  "verifyPolicies ci =
     (let results = map (\<lambda>(k, pol). (k, verifyPolicy ci pol)) (apPolicies ci)
      in (ci\<lparr>apPolicies := map (\<lambda>(k, pol, changes, problems). (k, pol)) results\<rparr>,
          concat (map (\<lambda>(k, pol, changes, problems). changes) results),
          concat (map (\<lambda>(k, pol, changes, problems). problems) results)))"

definition getAllUserSigObjects :: "APConfiguration \<Rightarrow> unstructured list" where
  "getAllUserSigObjects ci = map (sxObj \<circ> snd) (filter (sxIsValid \<circ> snd) (apUserSigs ci))"

definition policyObjects :: "APOperation \<Rightarrow> APChange list \<Rightarrow> unstructured list" where
  "policyObjects op changes =
     concat (map (\<lambda>cha. case apcResource cha of APPolicyRes pol \<Rightarrow> (if apcOp cha = op then [pxObj pol] else []) | _ \<Rightarrow> []) changes)"

definition buildUserSigChangeAndProblems ::
    "time_parser \<Rightarrow> APProblem list \<Rightarrow> APConfiguration \<Rightarrow> APConfiguration \<times> UserSigChange \<times> APProblem list" where
  "buildUserSigChangeAndProblems timeParse problems ci =
     (let (ci1, reconChanges, reconProblems) = reconcileUserSigs timeParse ci;
          (ci2, verChanges, verProblems) = verifyPolicies ci1;
          changes = reconChanges @ verChanges
      in (ci2,
          \<lparr>uscPolicyDeletions = policyObjects APDelete changes, uscPolicyAddsOrUpdates = policyObjects APAddOrUpdate changes,
           uscUserSigs = getAllUserSigObjects ci2\<rparr>,
          problems @ reconProblems @ verProblems))"

definition AddOrUpdateUserSig ::
    "time_parser \<Rightarrow> unstructured \<Rightarrow> APConfiguration \<Rightarrow> APConfiguration \<times> UserSigChange \<times> APProblem list" where
  "AddOrUpdateUserSig timeParse userSigObj ci =
     (let (userSig, err) = createAppProtectUserSigEx timeParse userSigObj;
          ci1 = ci\<lparr>apUserSigs := gput (GetNsName userSigObj) userSig (apUserSigs ci)\<rparr>
      in buildUserSigChangeAndProblems timeParse (case err of None \<Rightarrow> [] | Some e \<Rightarrow> [rejected userSigObj e]) ci1)"

definition DeleteUserSig :: "time_parser \<Rightarrow> string \<Rightarrow> APConfiguration \<Rightarrow> APConfiguration \<times> UserSigChange \<times> APProblem list" where
  "DeleteUserSig timeParse key ci =
     (if ghas (apUserSigs ci) key
      then buildUserSigChangeAndProblems timeParse [] (ci\<lparr>apUserSigs := gdel key (apUserSigs ci)\<rparr>)
      else (ci, \<lparr>uscPolicyDeletions = [], uscPolicyAddsOrUpdates = [], uscUserSigs = []\<rparr>, []))"

end
