(* ===== verification/App_Protect_Properties.thy ===== *)
theory App_Protect_Properties
  imports App_Protect
begin

text \<open>
  What the App Protect configuration keeps: one valid signature per tag, the oldest, and the
  policies valid exactly when valid signatures satisfy their requirements, whatever the order
  of the events; and what the reported changes tell a consumer.
\<close>

section \<open>The least element of an insertion sort\<close>

locale strict_order =
  fixes lt :: "'a \<Rightarrow> 'a \<Rightarrow> bool"
  assumes asym: "lt x y \<Longrightarrow> \<not> lt y x"
    and neg_trans: "\<not> lt z y \<Longrightarrow> \<not> lt y x \<Longrightarrow> \<not> lt z x"
begin

lemma irrefl: "\<not> lt x x"
  using asym by blast

lemma set_insertSig [simp]: "set (insertSig lt x ys) = insert x (set ys)"
  by (induction ys) auto

lemma distinct_insertSig: "distinct (map f (insertSig lt x ys)) \<longleftrightarrow> distinct (map f (x # ys))"
  by (induction ys) auto

lemma set_sortSigs [simp]: "set (sortSigs lt xs) = set xs"
  by (induction xs) (simp_all add: sortSigs_def)

lemma distinct_sortSigs: "distinct (map f (sortSigs lt xs)) \<longleftrightarrow> distinct (map f xs)"
proof (induction xs)
  case (Cons x xs)
  have "f ` set (sortSigs lt xs) = f ` set xs" by simp
  with Cons show ?case by (simp add: sortSigs_def distinct_insertSig)
qed (simp add: sortSigs_def)

lemma sortSigs_Nil_iff [simp]: "sortSigs lt xs = [] \<longleftrightarrow> xs = []"
  by (metis set_empty set_sortSigs)

lemma insertSig_least:
  assumes "\<forall>z\<in>set ys. ys \<noteq> [] \<longrightarrow> \<not> lt z (hd ys)" and "z \<in> insert x (set ys)"
  shows "\<not> lt z (hd (insertSig lt x ys))"
proof (cases ys)
  case (Cons y zs)
  show ?thesis
  proof (cases "lt y x")
    case True
    then show ?thesis using assms asym Cons by auto
  next
    case False
    then show ?thesis using assms neg_trans irrefl Cons by auto
  qed
qed (use assms(2) irrefl in simp)

lemma sortSigs_least: "z \<in> set xs \<Longrightarrow> \<not> lt z (hd (sortSigs lt xs))"
proof (induction xs arbitrary: z)
  case (Cons x xs)
  have "\<not> lt z (hd (insertSig lt x (sortSigs lt xs)))"
    using Cons.IH Cons.prems by (intro insertSig_least) auto
  then show ?case by (simp add: sortSigs_def)
qed simp

end

text \<open>The order of the signatures is such an order.\<close>

lemma sigLess_iff:
  "sigLess tp a b \<longleftrightarrow>
     usGetCreationTimestamp tp (sxObj a) < usGetCreationTimestamp tp (sxObj b)
     \<or> usGetCreationTimestamp tp (sxObj a) = usGetCreationTimestamp tp (sxObj b) \<and> usGetUID (sxObj b) < usGetUID (sxObj a)"
  by (auto simp: sigLess_def Let_def)

interpretation sigOrder: strict_order "\<lambda>a b. sigLess tp (snd a) (snd b)" for tp
  by unfold_locales (auto simp: sigLess_iff)

section \<open>Groups of signatures\<close>

definition tagGroup :: "UserSigEx gomap \<Rightarrow> string \<Rightarrow> (string \<times> UserSigEx) list" where
  "tagGroup sigs tag = filter (\<lambda>(k, sg). sxErrorMsg sg \<noteq> failedValidationErrorMsg \<and> sxTag sg = tag) sigs"

lemma in_tagGroup:
  "(k, sg) \<in> set (tagGroup sigs tag) \<longleftrightarrow> (k, sg) \<in> set sigs \<and> sxErrorMsg sg \<noteq> failedValidationErrorMsg \<and> sxTag sg = tag"
  by (auto simp: tagGroup_def)

lemma distinct_tagGroup: "wf_gomap sigs \<Longrightarrow> distinct (map fst (tagGroup sigs tag))"
  by (simp add: tagGroup_def wf_gomap_def distinct_map_filter)

definition groupStep :: "string \<times> UserSigEx \<Rightarrow> (string \<times> UserSigEx) list gomap \<Rightarrow> (string \<times> UserSigEx) list gomap" where
  "groupStep = (\<lambda>(k, sg) tmp.
     if sxErrorMsg sg \<noteq> failedValidationErrorMsg
     then gput (sxTag sg) ((case gget tmp (sxTag sg) of None \<Rightarrow> [] | Some vals \<Rightarrow> vals) @ [(k, sg)]) tmp
     else tmp)"

lemma groupStep_apply:
  "groupStep (k, sg) tmp =
     (if sxErrorMsg sg \<noteq> failedValidationErrorMsg
      then gput (sxTag sg) ((case gget tmp (sxTag sg) of None \<Rightarrow> [] | Some vals \<Rightarrow> vals) @ [(k, sg)]) tmp
      else tmp)"
  by (simp add: groupStep_def)

lemma tagGroup_Cons:
  "tagGroup ((k, sg) # sigs) tag =
     (if sxErrorMsg sg \<noteq> failedValidationErrorMsg \<and> sxTag sg = tag then (k, sg) # tagGroup sigs tag else tagGroup sigs tag)"
  by (simp add: tagGroup_def)

lemma gget_groups:
  "gget (fold groupStep sigs tmp) tag =
     (let old = (case gget tmp tag of None \<Rightarrow> [] | Some vals \<Rightarrow> vals)
      in if gget tmp tag = None \<and> tagGroup sigs tag = [] then None else Some (old @ tagGroup sigs tag))"
proof (induction sigs arbitrary: tmp)
  case (Cons p sigs)
  obtain k sg where p: "p = (k, sg)" by fastforce
  show ?case by (simp add: Cons.IH p groupStep_apply tagGroup_Cons Let_def split: option.split)
qed (simp add: tagGroup_def split: option.split)

lemma wf_groups: "wf_gomap tmp \<Longrightarrow> wf_gomap (fold groupStep sigs tmp)"
  by (induction sigs arbitrary: tmp) (auto simp: groupStep_apply)

lemma detectDuplicateTags_eq:
  "detectDuplicateTags sigs = map snd (filter (\<lambda>(tag, vals). tag \<noteq> '''') (fold groupStep sigs []))"
  by (simp add: detectDuplicateTags_def groupStep_def Let_def)

lemma group_of_tag:
  assumes "(tag, vals) \<in> set (fold groupStep sigs [])"
  shows "vals = tagGroup sigs tag" "vals \<noteq> []"
proof -
  have "wf_gomap (fold groupStep sigs [])" by (simp add: wf_groups)
  then have "gget (fold groupStep sigs []) tag = Some vals" using assms by (simp add: wf_gomap_in_set)
  then show "vals = tagGroup sigs tag" "vals \<noteq> []" by (auto simp: gget_groups split: if_splits)
qed

lemma tag_has_group:
  "tagGroup sigs tag \<noteq> [] \<Longrightarrow> (tag, tagGroup sigs tag) \<in> set (fold groupStep sigs [])"
  using wf_gomap_in_set [of "fold groupStep sigs []" tag "tagGroup sigs tag"] wf_groups [of "[]" sigs]
  by (simp add: gget_groups)

text \<open>Groups of different tags share no key.\<close>

definition apart :: "(string \<times> UserSigEx) list \<Rightarrow> (string \<times> UserSigEx) list \<Rightarrow> bool" where
  "apart g h = (fst ` set g \<inter> fst ` set h = {})"

lemma tagGroups_apart: "wf_gomap sigs \<Longrightarrow> t \<noteq> t' \<Longrightarrow> apart (tagGroup sigs t) (tagGroup sigs t')"
  by (auto simp: apart_def in_tagGroup wf_gomap_in_set)

lemma groups_apart:
  assumes "wf_gomap sigs"
  shows "distinct (map fst tmp) \<Longrightarrow> \<forall>p\<in>set tmp. snd p = tagGroup sigs (fst p) \<Longrightarrow> sorted_wrt apart (map snd (filter P tmp))"
proof (induction tmp)
  case (Cons p tmp)
  have "apart (snd p) (snd q)" if "q \<in> set tmp" for q
  proof -
    have "fst p \<noteq> fst q" using that Cons.prems(1) by auto
    moreover have "snd p = tagGroup sigs (fst p)" "snd q = tagGroup sigs (fst q)" using that Cons.prems(2) by simp_all
    ultimately show ?thesis using tagGroups_apart [OF assms, of "fst p" "fst q"] by simp
  qed
  moreover have "sorted_wrt apart (map snd (filter P tmp))" using Cons by simp
  ultimately show ?case by simp
qed simp

lemma detected_apart: "wf_gomap sigs \<Longrightarrow> sorted_wrt apart (detectDuplicateTags sigs)"
  unfolding detectDuplicateTags_eq
proof (erule groups_apart)
  show "distinct (map fst (fold groupStep sigs []))" using wf_groups [of "[]" sigs] by (simp add: wf_gomap_def)
  show "\<forall>p\<in>set (fold groupStep sigs []). snd p = tagGroup sigs (fst p)"
    using group_of_tag(1) [of _ _ sigs] by (metis prod.collapse)
qed

lemma detected_iff: "grp \<in> set (detectDuplicateTags sigs) \<longleftrightarrow> (\<exists>tag. tag \<noteq> '''' \<and> grp = tagGroup sigs tag \<and> grp \<noteq> [])"
  unfolding detectDuplicateTags_eq using group_of_tag [of _ _ sigs] tag_has_group [of sigs] by force

section \<open>The reconciliation, signature by signature\<close>

lemma keys_gput: "k \<in> gkeys m \<Longrightarrow> map fst (gput k v m) = map fst m"
  by (simp add: gput_def update_keys gkeys_def)

lemma looseSigs_fst:
  "fst (looseSigs ((k, sg) # rest) sigs) =
     fst (looseSigs rest (if sxIsValid sg then gput k (setInvalidSig duplicatedTagsErrorMsg sg) sigs else sigs))"
  by (simp add: Let_def split: prod.split)

lemma looseSigs_keys:
  "fst ` set grp \<subseteq> gkeys sigs \<Longrightarrow> map fst (fst (looseSigs grp sigs)) = map fst sigs"
proof (induction grp arbitrary: sigs)
  case (Cons p grp)
  obtain k sg where p: "p = (k, sg)" by fastforce
  let ?sigs = "if sxIsValid sg then gput k (setInvalidSig duplicatedTagsErrorMsg sg) sigs else sigs"
  have "k \<in> gkeys sigs" and "fst ` set grp \<subseteq> gkeys ?sigs" using Cons.prems by (auto simp: p)
  then show ?case using Cons.IH [of ?sigs] by (simp add: p looseSigs_fst keys_gput del: looseSigs.simps)
qed simp

lemma looseSigs_gget:
  "distinct (map fst grp) \<Longrightarrow> gget (fst (looseSigs grp sigs)) k =
     (case map_of grp k of
        None \<Rightarrow> gget sigs k
      | Some sg \<Rightarrow> (if sxIsValid sg then Some (setInvalidSig duplicatedTagsErrorMsg sg) else gget sigs k))"
proof (induction grp arbitrary: sigs)
  case (Cons p grp)
  obtain k' sg where p: "p = (k', sg)" by fastforce
  have "k = k' \<Longrightarrow> map_of grp k = None" using Cons.prems by (simp add: p map_of_eq_None_iff)
  with Cons show ?case by (auto simp: p looseSigs_fst simp del: looseSigs.simps split: option.split)
qed simp

definition winnerKey :: "time_parser \<Rightarrow> (string \<times> UserSigEx) list \<Rightarrow> string" where
  "winnerKey tp grp = fst (hd (sortSigs (\<lambda>a b. sigLess tp (snd a) (snd b)) grp))"

definition settle :: "time_parser \<Rightarrow> (string \<times> UserSigEx) list \<Rightarrow> string \<Rightarrow> UserSigEx \<Rightarrow> UserSigEx" where
  "settle tp grp k sg =
     (if k = winnerKey tp grp then (if sxIsValid sg then sg else setValidSig sg)
      else if sxIsValid sg then setInvalidSig duplicatedTagsErrorMsg sg else sg)"

lemma reconcileGroup_fst:
  "sortSigs (\<lambda>a b. sigLess tp (snd a) (snd b)) grp = (k, w) # losers \<Longrightarrow>
    fst (reconcileGroup tp grp sigs) = fst (looseSigs losers (if sxIsValid w then sigs else gput k (setValidSig w) sigs))"
  by (simp add: reconcileGroup_def Let_def split: prod.split)

lemma reconcileGroup_Nil: "reconcileGroup tp [] sigs = (sigs, [], [])"
  by (simp add: reconcileGroup_def sortSigs_def)

lemma reconcileGroup_keys:
  assumes "fst ` set grp \<subseteq> gkeys sigs"
  shows "map fst (fst (reconcileGroup tp grp sigs)) = map fst sigs"
proof (cases "sortSigs (\<lambda>a b. sigLess tp (snd a) (snd b)) grp")
  case Nil
  then have "grp = []" by simp
  then show ?thesis by (simp add: reconcileGroup_Nil)
next
  case (Cons p losers)
  obtain k w where p: "p = (k, w)" by fastforce
  let ?sigs = "if sxIsValid w then sigs else gput k (setValidSig w) sigs"
  have "set ((k, w) # losers) = set grp" using Cons p sigOrder.set_sortSigs [of tp grp] by simp
  then have "fst ` set ((k, w) # losers) \<subseteq> gkeys sigs" using assms by (simp only:)
  then have "k \<in> gkeys sigs" "fst ` set losers \<subseteq> gkeys ?sigs" by auto
  then show ?thesis using looseSigs_keys [of losers ?sigs] reconcileGroup_fst [OF Cons [unfolded p]] by (simp add: keys_gput)
qed

lemma reconcileGroup_gget:
  assumes dist: "distinct (map fst grp)" and cur: "\<forall>(k, sg)\<in>set grp. gget sigs k = Some sg"
  shows "gget (fst (reconcileGroup tp grp sigs)) k =
     (case map_of grp k of None \<Rightarrow> gget sigs k | Some sg \<Rightarrow> Some (settle tp grp k sg))"
proof (cases "sortSigs (\<lambda>a b. sigLess tp (snd a) (snd b)) grp")
  case Nil
  then have "grp = []" by simp
  then show ?thesis by (simp add: reconcileGroup_Nil)
next
  case (Cons p losers)
  obtain k0 w where p: "p = (k0, w)" by fastforce
  have set_eq: "set ((k0, w) # losers) = set grp" using Cons p sigOrder.set_sortSigs [of tp grp] by simp
  have dist': "distinct (map fst ((k0, w) # losers))"
    using Cons p sigOrder.distinct_sortSigs [of fst tp grp] dist by simp
  have map_eq: "map_of grp = map_of ((k0, w) # losers)"
    using map_of_inject_set [OF dist dist'] set_eq by simp
  have win: "winnerKey tp grp = k0" by (simp add: winnerKey_def Cons p)
  have lost: "map_of losers k0 = None" using dist' by (simp add: map_of_eq_None_iff)
  have cur_k: "gget sigs k = Some sg" if "map_of grp k = Some sg" for k sg
    using cur map_of_SomeD [OF that] by blast
  have w: "gget sigs k0 = Some w" by (rule cur_k) (simp add: map_eq)
  have l: "gget sigs k = Some sg" if "map_of losers k = Some sg" "k \<noteq> k0" for sg
    by (rule cur_k) (use that in \<open>simp add: map_eq\<close>)
  have "distinct (map fst losers)" using dist' by simp
  note loose = looseSigs_gget [OF this]
  show ?thesis
  proof (cases "k = k0")
    case True
    then show ?thesis using w lost by (simp add: reconcileGroup_fst [OF Cons [unfolded p]] loose map_eq settle_def win)
  next
    case False
    then show ?thesis
      using l by (auto simp: reconcileGroup_fst [OF Cons [unfolded p]] loose map_eq settle_def win split: option.split)
  qed
qed

lemma reconcileGroups_fst:
  "fst (reconcileGroups tp (grp # groups) sigs) = fst (reconcileGroups tp groups (fst (reconcileGroup tp grp sigs)))"
  by (simp add: Let_def split: prod.split)

definition groupsFit :: "(string \<times> UserSigEx) list list \<Rightarrow> UserSigEx gomap \<Rightarrow> bool" where
  "groupsFit groups sigs = (\<forall>grp\<in>set groups. distinct (map fst grp) \<and> (\<forall>(k, sg)\<in>set grp. gget sigs k = Some sg))"

lemma groupsFit_keys: "groupsFit groups sigs \<Longrightarrow> grp \<in> set groups \<Longrightarrow> fst ` set grp \<subseteq> gkeys sigs"
  by (fastforce simp: groupsFit_def intro: gget_in_keys)

lemma groupsFit_after:
  assumes fit: "groupsFit (grp # groups) sigs" and ap: "sorted_wrt apart (grp # groups)"
  shows "groupsFit groups (fst (reconcileGroup tp grp sigs))"
  unfolding groupsFit_def
proof (intro ballI conjI)
  fix g assume g: "g \<in> set groups"
  then show "distinct (map fst g)" using fit by (simp add: groupsFit_def)
  show "case p of (k, sg) \<Rightarrow> gget (fst (reconcileGroup tp grp sigs)) k = Some sg" if "p \<in> set g" for p
  proof -
    obtain k sg where p: "p = (k, sg)" by fastforce
    have "apart grp g" using ap g by simp
    then have "k \<notin> fst ` set grp" using that p by (force simp: apart_def)
    then have "map_of grp k = None" by (simp add: map_of_eq_None_iff)
    moreover have "gget sigs k = Some sg" using fit g that p by (force simp: groupsFit_def)
    ultimately show ?thesis using reconcileGroup_gget [of grp sigs tp k] fit p by (simp add: groupsFit_def)
  qed
qed

lemma reconcileGroups_keys:
  "groupsFit groups sigs \<Longrightarrow> sorted_wrt apart groups \<Longrightarrow> map fst (fst (reconcileGroups tp groups sigs)) = map fst sigs"
proof (induction groups arbitrary: sigs)
  case (Cons grp groups)
  have "map fst (fst (reconcileGroup tp grp sigs)) = map fst sigs"
    using groupsFit_keys [OF Cons.prems(1)] by (intro reconcileGroup_keys) simp
  moreover have "groupsFit groups (fst (reconcileGroup tp grp sigs))" by (rule groupsFit_after [OF Cons.prems])
  ultimately show ?case using Cons by (simp add: reconcileGroups_fst del: reconcileGroups.simps)
qed simp

lemma reconcileGroups_other:
  "groupsFit groups sigs \<Longrightarrow> sorted_wrt apart groups \<Longrightarrow> \<forall>grp\<in>set groups. k \<notin> fst ` set grp \<Longrightarrow>
    gget (fst (reconcileGroups tp groups sigs)) k = gget sigs k"
proof (induction groups arbitrary: sigs)
  case (Cons grp groups)
  have "map_of grp k = None" using Cons.prems(3) by (simp add: map_of_eq_None_iff)
  then have "gget (fst (reconcileGroup tp grp sigs)) k = gget sigs k"
    using reconcileGroup_gget [of grp sigs tp k] Cons.prems(1) by (simp add: groupsFit_def)
  moreover have "groupsFit groups (fst (reconcileGroup tp grp sigs))" by (rule groupsFit_after [OF Cons.prems(1,2)])
  ultimately show ?case using Cons by (simp add: reconcileGroups_fst del: reconcileGroups.simps)
qed simp

lemma reconcileGroups_settled:
  "groupsFit groups sigs \<Longrightarrow> sorted_wrt apart groups \<Longrightarrow> grp \<in> set groups \<Longrightarrow> (k, sg) \<in> set grp \<Longrightarrow>
    gget (fst (reconcileGroups tp groups sigs)) k = Some (settle tp grp k sg)"
proof (induction groups arbitrary: sigs)
  case (Cons g groups)
  note fit = groupsFit_after [OF Cons.prems(1,2)]
  show ?case
  proof (cases "g = grp")
    case True
    have "\<forall>h\<in>set groups. k \<notin> fst ` set h" using Cons.prems(2,4) True by (force simp: apart_def)
    then have "gget (fst (reconcileGroups tp groups (fst (reconcileGroup tp g sigs)))) k = gget (fst (reconcileGroup tp g sigs)) k"
      using reconcileGroups_other [OF fit] Cons.prems(2) by simp
    moreover have "map_of grp k = Some sg" using Cons.prems(1,4) True by (simp add: groupsFit_def)
    ultimately show ?thesis
      using reconcileGroup_gget [of g sigs tp k] Cons.prems(1) True
      by (simp add: reconcileGroups_fst groupsFit_def del: reconcileGroups.simps)
  next
    case False
    then show ?thesis
      using Cons.IH [OF fit] Cons.prems by (simp add: reconcileGroups_fst del: reconcileGroups.simps)
  qed
qed simp

lemma gget_map: "gget (map (\<lambda>(k, v). (k, f k v)) m) k = map_option (f k) (gget m k)"
  by (induction m) auto

lemma gomap_eqI: "map fst m = map fst m' \<Longrightarrow> wf_gomap m \<Longrightarrow> (\<And>k. gget m k = gget m' k) \<Longrightarrow> m = m'"
proof (induction m m' rule: list_induct2')
  case (4 p m q m')
  obtain k v w where p: "p = (k, v)" "q = (k, w)" using "4.prems"(1) by (cases p; cases q) auto
  have "v = w" using "4.prems"(3) [of k] by (simp add: p)
  moreover have "gget m k' = gget m' k'" for k'
  proof (cases "k' = k")
    case True
    have "k \<notin> fst ` set m" "k \<notin> fst ` set m'"
      using "4.prems"(1,2) by (auto simp: p wf_gomap_def simp flip: set_map)
    then have "gget m k = None" "gget m' k = None" by (simp_all add: map_of_eq_None_iff)
    then show ?thesis by (simp add: True)
  next
    case False
    then show ?thesis using "4.prems"(3) [of k'] by (simp add: p)
  qed
  then have "m = m'" using "4.IH" "4.prems"(1,2) by (simp add: p wf_gomap_def)
  ultimately show ?case by (simp add: p)
qed simp_all

text \<open>What the whole reconciliation does to one signature.\<close>

definition settled :: "time_parser \<Rightarrow> UserSigEx gomap \<Rightarrow> string \<Rightarrow> UserSigEx \<Rightarrow> UserSigEx" where
  "settled tp sigs k sg =
     (if sxTag sg = '''' \<or> sxErrorMsg sg = failedValidationErrorMsg then sg else settle tp (tagGroup sigs (sxTag sg)) k sg)"

lemma detected_fit: "wf_gomap sigs \<Longrightarrow> groupsFit (detectDuplicateTags sigs) sigs"
  by (auto simp: groupsFit_def detected_iff distinct_tagGroup in_tagGroup wf_gomap_in_set)

theorem reconciled:
  assumes wf: "wf_gomap sigs"
  shows "fst (reconcileGroups tp (detectDuplicateTags sigs) sigs) = map (\<lambda>(k, sg). (k, settled tp sigs k sg)) sigs"
    (is "?l = ?r")
proof -
  note fit = detected_fit [OF wf] and ap = detected_apart [OF wf]
  have keys: "map fst ?l = map fst ?r"
    using reconcileGroups_keys [OF fit ap] by (simp add: comp_def case_prod_beta)
  have "gget ?l k = gget ?r k" for k
  proof (cases "gget sigs k")
    case None
    then have "\<forall>grp\<in>set (detectDuplicateTags sigs). k \<notin> fst ` set grp"
      using groupsFit_keys [OF fit] by (auto simp: gget_None_iff)
    then show ?thesis using reconcileGroups_other [OF fit ap] None by (simp add: gget_map)
  next
    case (Some sg)
    let ?grp = "tagGroup sigs (sxTag sg)"
    show ?thesis
    proof (cases "sxTag sg = '''' \<or> sxErrorMsg sg = failedValidationErrorMsg")
      case True
      then have "k \<notin> fst ` set grp" if "grp \<in> set (detectDuplicateTags sigs)" for grp
        using that Some wf by (auto simp: detected_iff in_tagGroup wf_gomap_in_set)
      then show ?thesis using reconcileGroups_other [OF fit ap] Some True by (simp add: gget_map settled_def)
    next
      case False
      then have mem: "(k, sg) \<in> set ?grp" using Some wf by (simp add: in_tagGroup wf_gomap_in_set)
      then have "?grp \<in> set (detectDuplicateTags sigs)" using False by (auto simp: detected_iff)
      from reconcileGroups_settled [OF fit ap this mem] show ?thesis using False Some by (simp add: gget_map settled_def)
    qed
  qed
  moreover have "wf_gomap ?l" using keys wf by (simp add: wf_gomap_def comp_def case_prod_beta)
  ultimately show ?thesis using keys by (intro gomap_eqI)
qed

section \<open>Signatures in step\<close>

text \<open>A stored signature is as it was read from its object, or put aside because of its tag.\<close>

definition readSig :: "time_parser \<Rightarrow> unstructured \<Rightarrow> UserSigEx" where
  "readSig tp obj = fst (createAppProtectUserSigEx tp obj)"

definition sigRead :: "time_parser \<Rightarrow> UserSigEx \<Rightarrow> bool" where
  "sigRead tp sg =
     (let f = readSig tp (sxObj sg) in sg = f \<or> sxIsValid f \<and> sxTag f \<noteq> [] \<and> sg = setInvalidSig duplicatedTagsErrorMsg f)"

lemmas msg_defs = failedValidationErrorMsg_def invalidTimestampErrorMsg_def missingUserSigErrorMsg_def duplicatedTagsErrorMsg_def

lemma readSig_facts:
  "sxObj (readSig tp obj) = obj" "sxIsValid (readSig tp obj) \<Longrightarrow> sxErrorMsg (readSig tp obj) = ''''"
  "\<not> sxIsValid (readSig tp obj) \<Longrightarrow> sxTag (readSig tp obj) = ''''"
  by (auto simp: readSig_def createAppProtectUserSigEx_def Let_def split: option.splits sum.splits)

lemma sigRead_readSig: "sigRead tp (readSig tp obj)"
  by (simp add: sigRead_def readSig_facts)

lemma setSig_facts [simp]:
  "sxObj (setInvalidSig m sg) = sxObj sg" "sxTag (setInvalidSig m sg) = sxTag sg" "\<not> sxIsValid (setInvalidSig m sg)"
  "sxErrorMsg (setInvalidSig m sg) = m" "sxObj (setValidSig sg) = sxObj sg" "sxTag (setValidSig sg) = sxTag sg" "sxIsValid (setValidSig sg)"
  by (simp_all add: setInvalidSig_def setValidSig_def)

lemma setValid_setInvalid: "sxIsValid f \<Longrightarrow> sxErrorMsg f = '''' \<Longrightarrow> setValidSig (setInvalidSig m f) = f"
  by (cases f) (simp add: setInvalidSig_def setValidSig_def)

lemma msgs_differ [simp]:
  "duplicatedTagsErrorMsg \<noteq> failedValidationErrorMsg" "missingUserSigErrorMsg \<noteq> failedValidationErrorMsg"
  "missingUserSigErrorMsg \<noteq> invalidTimestampErrorMsg" "failedValidationErrorMsg \<noteq> ''''" "missingUserSigErrorMsg \<noteq> ''''"
  by (simp_all add: msg_defs)

lemma tagged_read:
  assumes "sigRead tp sg" and "sxTag sg \<noteq> ''''"
  shows "sxIsValid (readSig tp (sxObj sg))" "sxErrorMsg sg \<noteq> failedValidationErrorMsg"
    "sg = readSig tp (sxObj sg) \<or> sg = setInvalidSig duplicatedTagsErrorMsg (readSig tp (sxObj sg))"
proof -
  define f where "f = readSig tp (sxObj sg)"
  have sg: "sg = f \<or> sg = setInvalidSig duplicatedTagsErrorMsg f" using assms(1) by (auto simp: sigRead_def Let_def f_def)
  then show "sg = readSig tp (sxObj sg) \<or> sg = setInvalidSig duplicatedTagsErrorMsg (readSig tp (sxObj sg))"
    by (simp add: f_def)
  from sg have "sxTag f = sxTag sg" by (elim disjE) (simp_all only: setSig_facts)
  then have valid: "sxIsValid f" using assms(2) readSig_facts(3) [of tp "sxObj sg"] by (auto simp: f_def)
  then show "sxIsValid (readSig tp (sxObj sg))" by (simp add: f_def)
  have "sxErrorMsg f = ''''" using readSig_facts(2) [of tp "sxObj sg"] valid by (simp add: f_def)
  with sg show "sxErrorMsg sg \<noteq> failedValidationErrorMsg"
    by (elim disjE) (simp_all only: setSig_facts msgs_differ not_False_eq_True simp_thms msgs_differ(4) [symmetric])
qed

lemma settle_read:
  assumes "sigRead tp sg" and "sxTag sg \<noteq> ''''"
  shows "settle tp grp k sg =
    (if k = winnerKey tp grp then readSig tp (sxObj sg) else setInvalidSig duplicatedTagsErrorMsg (readSig tp (sxObj sg)))"
proof -
  define f where "f = readSig tp (sxObj sg)"
  have valid: "sxIsValid f" using tagged_read(1) [OF assms] by (simp add: f_def)
  have undone: "setValidSig (setInvalidSig duplicatedTagsErrorMsg f) = f"
    using setValid_setInvalid [OF valid] readSig_facts(2) [of tp "sxObj sg"] valid by (simp add: f_def)
  have "sg = f \<or> sg = setInvalidSig duplicatedTagsErrorMsg f" using tagged_read(3) [OF assms] by (simp add: f_def)
  then have "settle tp grp k sg = (if k = winnerKey tp grp then f else setInvalidSig duplicatedTagsErrorMsg f)"
    using valid undone by (elim disjE) (simp_all add: settle_def)
  then show ?thesis by (simp add: f_def)
qed

lemma settled_read:
  assumes "sigRead tp sg"
  shows "sigRead tp (settled tp sigs k sg)"
proof (cases "sxTag sg = '''' \<or> sxErrorMsg sg = failedValidationErrorMsg")
  case False
  define f where "f = readSig tp (sxObj sg)"
  have obj: "sxObj f = sxObj sg" by (simp add: f_def readSig_facts)
  have valid: "sxIsValid f" using tagged_read(1) [OF assms] False by (simp add: f_def)
  have "sxTag f = sxTag sg" using tagged_read(3) [OF assms] False setSig_facts(2) unfolding f_def by metis
  then have tag: "sxTag f \<noteq> []" using False by simp
  have "settled tp sigs k sg = f \<or> settled tp sigs k sg = setInvalidSig duplicatedTagsErrorMsg f"
    using False settle_read [OF assms] by (simp add: settled_def f_def)
  then show ?thesis
    using valid tag by (elim disjE) (simp_all add: sigRead_def Let_def obj flip: f_def)
qed (use assms in \<open>simp add: settled_def\<close>)

lemma settled_same [simp]: "sxObj (settled tp sigs k sg) = sxObj sg" "sxTag (settled tp sigs k sg) = sxTag sg"
  by (simp_all add: settled_def settle_def)

text \<open>Of the signatures with a tag exactly one is valid, and none comes before it.\<close>

definition oldestValid :: "time_parser \<Rightarrow> UserSigEx gomap \<Rightarrow> bool" where
  "oldestValid tp sigs =
     ((\<forall>k sg. (k, sg) \<in> set sigs \<and> sxTag sg \<noteq> '''' \<longrightarrow>
         (\<exists>!k'. \<exists>sg'. (k', sg') \<in> set sigs \<and> sxTag sg' = sxTag sg \<and> sxIsValid sg'))
      \<and> (\<forall>k sg k' sg'. (k, sg) \<in> set sigs \<and> (k', sg') \<in> set sigs \<and> sxIsValid sg \<and> sxTag sg \<noteq> '''' \<and> sxTag sg' = sxTag sg \<longrightarrow>
           \<not> sigLess tp sg' sg))"

definition sigsRead :: "time_parser \<Rightarrow> UserSigEx gomap \<Rightarrow> bool" where
  "sigsRead tp sigs = (wf_gomap sigs \<and> (\<forall>(k, sg)\<in>set sigs. k = GetNsName (sxObj sg) \<and> sigRead tp sg))"

lemma sigLess_objects: "sxObj a = sxObj a' \<Longrightarrow> sxObj b = sxObj b' \<Longrightarrow> sigLess tp a b = sigLess tp a' b'"
  by (simp add: sigLess_def)

lemma settled_valid:
  assumes "sigRead tp sg" "sxTag sg \<noteq> ''''"
  shows "sxIsValid (settled tp sigs k sg) \<longleftrightarrow> k = winnerKey tp (tagGroup sigs (sxTag sg))"
  using tagged_read [OF assms] assms by (simp add: settled_def settle_read)

lemma winner_in_group:
  assumes "grp \<noteq> []"
  shows "\<exists>w. (winnerKey tp grp, w) \<in> set grp \<and> (\<forall>k sg. (k, sg) \<in> set grp \<longrightarrow> \<not> sigLess tp sg w)"
proof -
  let ?s = "sortSigs (\<lambda>a b. sigLess tp (snd a) (snd b)) grp"
  have "?s \<noteq> []" using assms by simp
  then have "hd ?s \<in> set grp" using list.set_sel(1) [of ?s] by simp
  moreover have "hd ?s = (winnerKey tp grp, snd (hd ?s))" by (simp add: winnerKey_def)
  moreover have "\<forall>k sg. (k, sg) \<in> set grp \<longrightarrow> \<not> sigLess tp sg (snd (hd ?s))"
    using sigOrder.sortSigs_least [of _ grp tp] by force
  ultimately show ?thesis by metis
qed

lemma reconciled_oldest:
  assumes "sigsRead tp sigs"
  shows "oldestValid tp (map (\<lambda>(k, sg). (k, settled tp sigs k sg)) sigs)"
proof -
  have wf: "wf_gomap sigs" and read: "\<And>k sg. (k, sg) \<in> set sigs \<Longrightarrow> sigRead tp sg"
    using assms by (auto simp: sigsRead_def)
  have mem: "(k, sg) \<in> set (tagGroup sigs (sxTag sg))" if "(k, sg) \<in> set sigs" "sxTag sg \<noteq> ''''" for k sg
    using that tagged_read(2) [OF read [OF that(1)] that(2)] by (simp add: in_tagGroup)
  have one: "\<exists>!k'. \<exists>sg'. (k', sg') \<in> set sigs \<and> sxTag sg' = sxTag sg \<and> sxIsValid (settled tp sigs k' sg')"
    if "(k, sg) \<in> set sigs" "sxTag sg \<noteq> ''''" for k sg
  proof -
    let ?grp = "tagGroup sigs (sxTag sg)"
    have "?grp \<noteq> []" using mem [OF that] by auto
    then obtain w where w: "(winnerKey tp ?grp, w) \<in> set ?grp" using winner_in_group [of ?grp tp] by blast
    show ?thesis
    proof (intro ex1I [of _ "winnerKey tp ?grp"] exI [of _ w] conjI)
      show "(winnerKey tp ?grp, w) \<in> set sigs" "sxTag w = sxTag sg" using w by (auto simp: in_tagGroup)
      then show "sxIsValid (settled tp sigs (winnerKey tp ?grp) w)" using settled_valid [OF read] that(2) by simp
    next
      fix k' assume "\<exists>sg'. (k', sg') \<in> set sigs \<and> sxTag sg' = sxTag sg \<and> sxIsValid (settled tp sigs k' sg')"
      then show "k' = winnerKey tp ?grp" using settled_valid [OF read] that(2) by auto
    qed
  qed
  have least: "\<not> sigLess tp (settled tp sigs k' sg') (settled tp sigs k sg)"
    if "(k, sg) \<in> set sigs" "(k', sg') \<in> set sigs" "sxIsValid (settled tp sigs k sg)" "sxTag sg \<noteq> ''''" "sxTag sg' = sxTag sg"
    for k sg k' sg'
  proof -
    let ?grp = "tagGroup sigs (sxTag sg)"
    have k: "k = winnerKey tp ?grp" using settled_valid [OF read [OF that(1)] that(4)] that(3) by simp
    have "?grp \<noteq> []" using mem [OF that(1,4)] by auto
    then obtain w where w: "(winnerKey tp ?grp, w) \<in> set ?grp" "\<forall>k sg. (k, sg) \<in> set ?grp \<longrightarrow> \<not> sigLess tp sg w"
      using winner_in_group [of ?grp tp] by blast
    have "w = sg" using w(1) that(1) wf k by (auto simp: in_tagGroup wf_gomap_in_set)
    moreover have "(k', sg') \<in> set ?grp" using mem [OF that(2)] that(4,5) by simp
    ultimately have "\<not> sigLess tp sg' sg" using w(2) by blast
    then show ?thesis using sigLess_objects [of "settled tp sigs k' sg'" sg' "settled tp sigs k sg" sg tp] by simp
  qed
  show ?thesis unfolding oldestValid_def
  proof (intro conjI allI impI)
    fix k sg assume "(k, sg) \<in> set (map (\<lambda>(k, sg). (k, settled tp sigs k sg)) sigs) \<and> sxTag sg \<noteq> ''''"
    then obtain sg0 where "(k, sg0) \<in> set sigs" "sxTag sg0 \<noteq> ''''" "sxTag sg = sxTag sg0" by auto
    moreover have "(\<exists>sg'. (k', sg') \<in> set (map (\<lambda>(k, sg). (k, settled tp sigs k sg)) sigs) \<and> sxTag sg' = t \<and> sxIsValid sg')
        \<longleftrightarrow> (\<exists>sg'. (k', sg') \<in> set sigs \<and> sxTag sg' = t \<and> sxIsValid (settled tp sigs k' sg'))" for k' t
      by auto
    ultimately show "\<exists>!k'. \<exists>sg'. (k', sg') \<in> set (map (\<lambda>(k, sg). (k, settled tp sigs k sg)) sigs) \<and> sxTag sg' = sxTag sg \<and> sxIsValid sg'"
      using one [of k sg0] by simp

next
    fix k sg k' sg'
    assume "(k, sg) \<in> set (map (\<lambda>(k, sg). (k, settled tp sigs k sg)) sigs)
      \<and> (k', sg') \<in> set (map (\<lambda>(k, sg). (k, settled tp sigs k sg)) sigs)
      \<and> sxIsValid sg \<and> sxTag sg \<noteq> '''' \<and> sxTag sg' = sxTag sg"
    then show "\<not> sigLess tp sg' sg" using least by auto
  qed
qed

section \<open>Policies in step\<close>

text \<open>A policy that could be read is valid when the signatures satisfy it; one that could not be read stays rejected.\<close>

definition judged :: "APConfiguration \<Rightarrow> PolicyEx \<times> string option \<Rightarrow> PolicyEx" where
  "judged ci = (\<lambda>(f, err).
     if err = None \<and> \<not> verifyPolicyAgainstUserSigs ci f then setInvalidPolicy missingUserSigErrorMsg f else f)"

definition policyJudged :: "time_parser \<Rightarrow> APConfiguration \<Rightarrow> string \<times> PolicyEx \<Rightarrow> bool" where
  "policyJudged tp ci = (\<lambda>(k, pol).
     k = GetNsName (pxObj pol) \<and> (\<exists>r. createAppProtectPolicyEx tp (pxObj pol) = Some r \<and> pol = judged ci r))"

definition policiesJudged :: "time_parser \<Rightarrow> APConfiguration \<Rightarrow> bool" where
  "policiesJudged tp ci = (wf_gomap (apPolicies ci) \<and> (\<forall>p\<in>set (apPolicies ci). policyJudged tp ci p))"

lemma createPolicy_facts:
  assumes "createAppProtectPolicyEx tp obj = Some (f, err)"
  shows "pxObj f = obj" "err = None \<Longrightarrow> pxIsValid f \<and> pxErrorMsg f = ''''"
    "err \<noteq> None \<Longrightarrow> \<not> pxIsValid f \<and> pxErrorMsg f \<noteq> missingUserSigErrorMsg"
  using assms msgs_differ(2,3) [symmetric]
  by (auto simp: createAppProtectPolicyEx_def rejectedPolicy_def split: option.splits sum.splits)

lemma setPolicy_facts [simp]:
  "pxObj (setInvalidPolicy m pol) = pxObj pol" "pxSignatureReqs (setInvalidPolicy m pol) = pxSignatureReqs pol"
  "\<not> pxIsValid (setInvalidPolicy m pol)" "pxErrorMsg (setInvalidPolicy m pol) = m"
  "pxObj (setValidPolicy pol) = pxObj pol" "pxSignatureReqs (setValidPolicy pol) = pxSignatureReqs pol" "pxIsValid (setValidPolicy pol)"
  by (simp_all add: setInvalidPolicy_def setValidPolicy_def)

lemma setValidPolicy_undo: "pxIsValid f \<Longrightarrow> pxErrorMsg f = '''' \<Longrightarrow> setValidPolicy (setInvalidPolicy m f) = f"
  by (cases f) (simp add: setInvalidPolicy_def setValidPolicy_def)

lemma verify_reqs: "pxSignatureReqs a = pxSignatureReqs b \<Longrightarrow> verifyPolicyAgainstUserSigs ci a = verifyPolicyAgainstUserSigs ci b"
  by (simp add: verifyPolicyAgainstUserSigs_def)

lemma verify_sigs: "apUserSigs a = apUserSigs b \<Longrightarrow> verifyPolicyAgainstUserSigs a = verifyPolicyAgainstUserSigs b"
  by (simp add: verifyPolicyAgainstUserSigs_def fun_eq_iff)

text \<open>The loop judges a policy anew, and reports exactly a change of its validity.\<close>

definition policyChange :: "PolicyEx \<Rightarrow> PolicyEx \<Rightarrow> APChange list" where
  "policyChange pol pol' =
     (if pxIsValid pol' = pxIsValid pol then []
      else [\<lparr>apcOp = (if pxIsValid pol' then APAddOrUpdate else APDelete), apcResource = APPolicyRes pol'\<rparr>])"

lemma verifyPolicy_judges:
  assumes "createAppProtectPolicyEx tp (pxObj pol) = Some r" and "pol = judged ci0 r"
  shows "fst (verifyPolicy ci pol) = judged ci r \<and> fst (snd (verifyPolicy ci pol)) = policyChange pol (judged ci r)"
proof -
  obtain f err where r: "r = (f, err)" by fastforce
  let ?m = missingUserSigErrorMsg
  note facts = createPolicy_facts [OF assms(1) [unfolded r]]
  have inv: "verifyPolicyAgainstUserSigs ci (setInvalidPolicy ?m f) = verifyPolicyAgainstUserSigs ci f"
    by (rule verify_reqs) simp
  show ?thesis
  proof (cases err)
    case (Some e)
    then show ?thesis using facts(3) assms(2) by (simp add: r judged_def verifyPolicy_def policyChange_def)
  next
    case None
    note ok = facts(2) [OF None]
    have undo: "setValidPolicy (setInvalidPolicy ?m f) = f" using ok by (simp add: setValidPolicy_undo)
    show ?thesis
    proof (cases "verifyPolicyAgainstUserSigs ci0 f")
      case True
      then have "pol = f" using assms(2) by (simp add: r judged_def)
      then show ?thesis using ok by (simp add: r None judged_def verifyPolicy_def policyChange_def Let_def)
    next
      case False
      then have "pol = setInvalidPolicy ?m f" using assms(2) by (simp add: r None judged_def)
      then show ?thesis using ok undo inv by (simp add: r None judged_def verifyPolicy_def policyChange_def Let_def)
    qed
  qed
qed

section \<open>Events and their consumer\<close>

datatype apEvent =
    APPolicyUpdated unstructured | APPolicyRemoved string | APLogConfUpdated unstructured | APLogConfRemoved string
  | APUserSigUpdated unstructured | APUserSigRemoved string

text \<open>A consumer that keeps one file per policy, by the key of its object.\<close>

definition putFile :: "unstructured \<Rightarrow> unstructured gomap \<Rightarrow> unstructured gomap" where
  "putFile obj files = gput (GetNsName obj) obj files"

definition dropFile :: "unstructured \<Rightarrow> unstructured gomap \<Rightarrow> unstructured gomap" where
  "dropFile obj files = gdel (GetNsName obj) files"

definition consumeChange :: "APChange \<Rightarrow> unstructured gomap \<Rightarrow> unstructured gomap" where
  "consumeChange cha files =
     (case apcResource cha of
        APPolicyRes pol \<Rightarrow> (if apcOp cha = APDelete then dropFile (pxObj pol) files else putFile (pxObj pol) files)
      | _ \<Rightarrow> files)"

definition consumeUserSigChange :: "UserSigChange \<Rightarrow> unstructured gomap \<Rightarrow> unstructured gomap" where
  "consumeUserSigChange usc files = fold putFile (uscPolicyAddsOrUpdates usc) (fold dropFile (uscPolicyDeletions usc) files)"

fun handleAPEvent ::
    "time_parser \<Rightarrow> apEvent \<Rightarrow> APConfiguration \<times> unstructured gomap \<Rightarrow> (APConfiguration \<times> unstructured gomap) option" where
  "handleAPEvent tp (APPolicyUpdated obj) (ci, files) =
     map_option (\<lambda>(ci', changes, problems). (ci', fold consumeChange changes files)) (AddOrUpdatePolicy tp obj ci)"
| "handleAPEvent tp (APPolicyRemoved key) (ci, files) =
     (case DeletePolicy key ci of (ci', changes, problems) \<Rightarrow> Some (ci', fold consumeChange changes files))"
| "handleAPEvent tp (APLogConfUpdated obj) (ci, files) =
     (case AddOrUpdateLogConf obj ci of (ci', changes, problems) \<Rightarrow> Some (ci', fold consumeChange changes files))"
| "handleAPEvent tp (APLogConfRemoved key) (ci, files) =
     (case DeleteLogConf key ci of (ci', changes, problems) \<Rightarrow> Some (ci', fold consumeChange changes files))"
| "handleAPEvent tp (APUserSigUpdated obj) (ci, files) =
     (case AddOrUpdateUserSig tp obj ci of (ci', usc, problems) \<Rightarrow> Some (ci', consumeUserSigChange usc files))"
| "handleAPEvent tp (APUserSigRemoved key) (ci, files) =
     (case DeleteUserSig tp key ci of (ci', usc, problems) \<Rightarrow> Some (ci', consumeUserSigChange usc files))"

inductive apReachable :: "time_parser \<Rightarrow> APConfiguration \<times> unstructured gomap \<Rightarrow> bool" for tp where
  ap_start: "apReachable tp (newConfigurationImpl, [])"
| ap_step: "apReachable tp s \<Longrightarrow> handleAPEvent tp ev s = Some s' \<Longrightarrow> apReachable tp s'"

text \<open>The file of a policy: its object, while it is valid.\<close>

definition deployed :: "APConfiguration \<Rightarrow> string \<Rightarrow> unstructured option" where
  "deployed ci k = (case gget (apPolicies ci) k of Some pol \<Rightarrow> (if pxIsValid pol then Some (pxObj pol) else None) | None \<Rightarrow> None)"

definition apInStep :: "time_parser \<Rightarrow> APConfiguration \<times> unstructured gomap \<Rightarrow> bool" where
  "apInStep tp = (\<lambda>(ci, files).
     sigsRead tp (apUserSigs ci) \<and> oldestValid tp (apUserSigs ci) \<and> policiesJudged tp ci \<and> (\<forall>k. gget files k = deployed ci k))"

lemma apInStepD:
  assumes "apInStep tp (ci, files)"
  shows "sigsRead tp (apUserSigs ci)" "oldestValid tp (apUserSigs ci)" "policiesJudged tp ci" "gget files k = deployed ci k"
  using assms by (simp_all add: apInStep_def)

lemma policyJudgedD:
  assumes "policiesJudged tp ci" and "gget (apPolicies ci) k = Some pol"
  shows "k = GetNsName (pxObj pol)" "\<exists>r. createAppProtectPolicyEx tp (pxObj pol) = Some r \<and> pol = judged ci r"
proof -
  have "policyJudged tp ci (k, pol)" using assms map_of_SomeD unfolding policiesJudged_def by fast
  then show "k = GetNsName (pxObj pol)" "\<exists>r. createAppProtectPolicyEx tp (pxObj pol) = Some r \<and> pol = judged ci r"
    by (simp_all add: policyJudged_def)
qed

lemma policiesJudgedI:
  assumes "wf_gomap (apPolicies ci)"
    and "\<And>k pol. gget (apPolicies ci) k = Some pol \<Longrightarrow>
      k = GetNsName (pxObj pol) \<and> (\<exists>r. createAppProtectPolicyEx tp (pxObj pol) = Some r \<and> pol = judged ci r)"
  shows "policiesJudged tp ci"
  using assms by (auto simp: policiesJudged_def policyJudged_def wf_gomap_in_set)

lemma judged_sigs: "apUserSigs ci = apUserSigs ci' \<Longrightarrow> judged ci = judged ci'"
  using verify_sigs [of ci ci'] by (simp add: judged_def)

lemma judged_obj: "createAppProtectPolicyEx tp obj = Some r \<Longrightarrow> pxObj (judged ci r) = obj"
  using createPolicy_facts(1) [of tp obj "fst r" "snd r"] by (auto simp: judged_def case_prod_beta)

lemma AddOrUpdatePolicy_judges:
  assumes "AddOrUpdatePolicy tp obj ci = Some (ci', changes, problems)"
  shows "\<exists>r. createAppProtectPolicyEx tp obj = Some r
    \<and> ci' = ci\<lparr>apPolicies := gput (GetNsName obj) (judged ci r) (apPolicies ci)\<rparr>
    \<and> changes = [\<lparr>apcOp = (if pxIsValid (judged ci r) then APAddOrUpdate else APDelete), apcResource = APPolicyRes (judged ci r)\<rparr>]"
proof -
  obtain f err where r: "createAppProtectPolicyEx tp obj = Some (f, err)"
    using assms by (cases "createAppProtectPolicyEx tp obj") (auto simp: AddOrUpdatePolicy_def)
  note facts = createPolicy_facts [OF r]
  show ?thesis
  proof (cases err)
    case (Some e)
    then show ?thesis using assms facts(3) by (auto simp: AddOrUpdatePolicy_def r judged_def)
  next
    case None
    then show ?thesis using assms facts(2) by (auto simp: AddOrUpdatePolicy_def r judged_def Let_def split: if_splits)
  qed
qed

lemma gget_putFile [simp]: "gget (putFile obj files) k = (if k = GetNsName obj then Some obj else gget files k)"
  by (simp add: putFile_def)

lemma gget_dropFile [simp]: "gget (dropFile obj files) k = (if k = GetNsName obj then None else gget files k)"
  by (simp add: dropFile_def)

lemma policyUpdated_step:
  assumes inv: "apInStep tp (ci, files)" and "AddOrUpdatePolicy tp obj ci = Some (ci', changes, problems)"
  shows "apInStep tp (ci', fold consumeChange changes files)"
proof -
  obtain r where r: "createAppProtectPolicyEx tp obj = Some r"
    and ci': "ci' = ci\<lparr>apPolicies := gput (GetNsName obj) (judged ci r) (apPolicies ci)\<rparr>"
    and changes: "changes = [\<lparr>apcOp = (if pxIsValid (judged ci r) then APAddOrUpdate else APDelete), apcResource = APPolicyRes (judged ci r)\<rparr>]"
    using AddOrUpdatePolicy_judges [OF assms(2)] by blast
  note old = apInStepD [OF inv]
  have obj: "pxObj (judged ci r) = obj" by (rule judged_obj [OF r])
  have judged: "judged ci' = judged ci" by (rule judged_sigs) (simp add: ci')
  have "policiesJudged tp ci'"
  proof (rule policiesJudgedI)
    show "wf_gomap (apPolicies ci')" using old(3) by (simp add: ci' policiesJudged_def)
    fix k pol assume "gget (apPolicies ci') k = Some pol"
    then show "k = GetNsName (pxObj pol) \<and> (\<exists>r. createAppProtectPolicyEx tp (pxObj pol) = Some r \<and> pol = judged ci' r)"
      using policyJudgedD [OF old(3), of k pol] r obj unfolding judged
      by (cases "k = GetNsName obj") (auto simp: ci' simp del: split_paired_Ex)
  qed
  moreover have "gget (fold consumeChange changes files) k = deployed ci' k" for k
    using old(4) [of k] by (simp add: changes consumeChange_def obj deployed_def ci')
  ultimately show ?thesis using old(1,2) by (simp add: apInStep_def ci')
qed

lemma policyRemoved_step:
  assumes inv: "apInStep tp (ci, files)" and "DeletePolicy key ci = (ci', changes, problems)"
  shows "apInStep tp (ci', fold consumeChange changes files)"
proof (cases "gget (apPolicies ci) key")
  case None
  then show ?thesis using assms by (simp add: DeletePolicy_def)
next
  case (Some pol)
  note old = apInStepD [OF inv]
  have ci': "ci' = ci\<lparr>apPolicies := gdel key (apPolicies ci)\<rparr>"
    and changes: "changes = [\<lparr>apcOp = APDelete, apcResource = APPolicyRes pol\<rparr>]"
    using assms(2) Some by (auto simp: DeletePolicy_def)
  have key: "key = GetNsName (pxObj pol)" using policyJudgedD(1) [OF old(3) Some] .
  have judged: "judged ci' = judged ci" by (rule judged_sigs) (simp add: ci')
  have "policiesJudged tp ci'"
  proof (rule policiesJudgedI)
    show "wf_gomap (apPolicies ci')" using old(3) by (simp add: ci' policiesJudged_def)
    fix k pol assume "gget (apPolicies ci') k = Some pol"
    then show "k = GetNsName (pxObj pol) \<and> (\<exists>r. createAppProtectPolicyEx tp (pxObj pol) = Some r \<and> pol = judged ci' r)"
      using policyJudgedD [OF old(3), of k pol] unfolding judged by (auto simp: ci' split: if_splits)
  qed
  moreover have "gget (fold consumeChange changes files) k = deployed ci' k" for k
    using old(4) [of k] by (simp add: changes consumeChange_def deployed_def ci' flip: key)
  ultimately show ?thesis using old(1,2) by (simp add: apInStep_def ci')
qed

lemma policiesJudged_logConfs: "policiesJudged tp (ci\<lparr>apLogConfs := l\<rparr>) = policiesJudged tp ci"
  using judged_sigs [of "ci\<lparr>apLogConfs := l\<rparr>" ci] by (simp add: policiesJudged_def policyJudged_def)

lemma logConf_step:
  assumes inv: "apInStep tp (ci, files)"
    and "AddOrUpdateLogConf obj ci = (ci', changes, problems) \<or> DeleteLogConf key ci = (ci', changes, problems)"
  shows "apInStep tp (ci', fold consumeChange changes files)"
proof -
  have "(\<exists>l. ci' = ci\<lparr>apLogConfs := l\<rparr>) \<and> fold consumeChange changes files = files"
    using assms(2)
  proof
    assume "AddOrUpdateLogConf obj ci = (ci', changes, problems)"
    then show ?thesis
      by (cases "snd (createAppProtectLogConfEx obj)")
        (auto simp: AddOrUpdateLogConf_def Let_def case_prod_beta consumeChange_def)
  next
    assume "DeleteLogConf key ci = (ci', changes, problems)"
    then show ?thesis
      by (cases "gget (apLogConfs ci) key") (auto simp: DeleteLogConf_def consumeChange_def intro: exI [of _ "apLogConfs ci"])
  qed
  then obtain l where "ci' = ci\<lparr>apLogConfs := l\<rparr>" "fold consumeChange changes files = files" by blast
  then show ?thesis
    using apInStepD [OF inv] by (simp add: apInStep_def deployed_def policiesJudged_logConfs)
qed

text \<open>The reconciliation reports no policies.\<close>

lemma policyObjects_append [simp]: "policyObjects op (xs @ ys) = policyObjects op xs @ policyObjects op ys"
  by (simp add: policyObjects_def)

lemma looseSigs_policies: "policyObjects op (fst (snd (looseSigs grp sigs))) = []"
  by (induction grp sigs rule: looseSigs.induct) (auto simp: policyObjects_def Let_def split: prod.splits)

lemma reconcileGroup_policies: "policyObjects op (fst (snd (reconcileGroup tp grp sigs))) = []"
proof (cases "sortSigs (\<lambda>a b. sigLess tp (snd a) (snd b)) grp")
  case Nil
  then have "grp = []" by simp
  then show ?thesis by (simp add: reconcileGroup_Nil policyObjects_def)
next
  case (Cons p losers)
  then show ?thesis
    using looseSigs_policies [of op losers]
    by (cases p) (auto simp: reconcileGroup_def Let_def policyObjects_def case_prod_beta)
qed

lemma reconcileGroups_policies: "policyObjects op (fst (snd (reconcileGroups tp groups sigs))) = []"
proof (induction groups arbitrary: sigs)
  case (Cons grp groups)
  then show ?case by (simp add: Let_def case_prod_beta reconcileGroup_policies)
qed (simp add: policyObjects_def)

text \<open>What is left after new signatures: signatures settled, policies judged by them.\<close>

definition rejudged :: "time_parser \<Rightarrow> APConfiguration \<Rightarrow> APConfiguration" where
  "rejudged tp ci =
     (let ci1 = ci\<lparr>apUserSigs := map (\<lambda>(k, sg). (k, settled tp (apUserSigs ci) k sg)) (apUserSigs ci)\<rparr>
      in ci1\<lparr>apPolicies := map (\<lambda>(k, pol). (k, fst (verifyPolicy ci1 pol))) (apPolicies ci)\<rparr>)"

definition policyChanges :: "APConfiguration \<Rightarrow> PolicyEx gomap \<Rightarrow> APChange list" where
  "policyChanges ci pols = concat (map (\<lambda>(k, pol). fst (snd (verifyPolicy ci pol))) pols)"

lemma buildUserSigChange_eq:
  assumes "wf_gomap (apUserSigs ci)" and "buildUserSigChangeAndProblems tp ps ci = (ci', usc, problems)"
  shows "ci' = rejudged tp ci"
    and "uscPolicyDeletions usc = policyObjects APDelete (policyChanges ci' (apPolicies ci))"
    and "uscPolicyAddsOrUpdates usc = policyObjects APAddOrUpdate (policyChanges ci' (apPolicies ci))"
    and "uscUserSigs usc = getAllUserSigObjects ci'"
proof -
  let ?sigs = "apUserSigs ci"
  let ?ci1 = "ci\<lparr>apUserSigs := map (\<lambda>(k, sg). (k, settled tp ?sigs k sg)) ?sigs\<rparr>"
  obtain sigs1 changes1 problems1 where rec: "reconcileGroups tp (detectDuplicateTags ?sigs) ?sigs = (sigs1, changes1, problems1)"
    by (rule prod_cases3)
  have sigs1: "sigs1 = map (\<lambda>(k, sg). (k, settled tp ?sigs k sg)) ?sigs"
    using reconciled [OF assms(1), of tp] rec by simp
  have none: "policyObjects op changes1 = []" for op
    using reconcileGroups_policies [of op tp "detectDuplicateTags ?sigs" ?sigs] rec by simp
  note defs = buildUserSigChangeAndProblems_def reconcileUserSigs_def verifyPolicies_def Let_def case_prod_unfold comp_def rec
  show ci': "ci' = rejudged tp ci"
    using assms(2) by (auto simp: defs rejudged_def sigs1)
  have "verifyPolicy ci' = verifyPolicy ?ci1"
    using verify_sigs [of ci' ?ci1] by (simp add: ci' rejudged_def Let_def verifyPolicy_def fun_eq_iff)
  then have pc: "policyChanges ci' = policyChanges ?ci1" by (simp add: policyChanges_def fun_eq_iff)
  show "uscPolicyDeletions usc = policyObjects APDelete (policyChanges ci' (apPolicies ci))"
    and "uscPolicyAddsOrUpdates usc = policyObjects APAddOrUpdate (policyChanges ci' (apPolicies ci))"
    unfolding pc using assms(2) none by (auto simp: defs policyChanges_def sigs1)
  show "uscUserSigs usc = getAllUserSigObjects ci'"
    using assms(2) by (auto simp: defs)
qed

lemma gget_drops: "gget (fold dropFile objs files) k = (if k \<in> GetNsName ` set objs then None else gget files k)"
  by (induction objs arbitrary: files) auto

lemma gget_puts:
  "(\<And>obj. obj \<in> set objs \<Longrightarrow> GetNsName obj = k \<Longrightarrow> obj = x) \<Longrightarrow>
    gget (fold putFile objs files) k = (if k \<in> GetNsName ` set objs then Some x else gget files k)"
proof (induction objs arbitrary: files)
  case (Cons obj objs)
  show ?case
  proof (cases "k \<in> GetNsName ` set objs")
    case True
    then show ?thesis using Cons.IH [of "putFile obj files"] Cons.prems by simp
  next
    case False
    then show ?thesis using Cons.IH [of "putFile obj files"] Cons.prems [of obj] by (auto simp: Cons.prems)
  qed
qed simp

lemma in_policyObjects:
  "obj \<in> set (policyObjects op (policyChanges ci pols)) \<longleftrightarrow>
     (\<exists>k pol cha pol'. (k, pol) \<in> set pols \<and> cha \<in> set (fst (snd (verifyPolicy ci pol)))
        \<and> apcOp cha = op \<and> apcResource cha = APPolicyRes pol' \<and> obj = pxObj pol')"
  by (force simp: policyObjects_def policyChanges_def split: APResource.splits if_splits)

lemma setSigs_same: "policiesJudged tp ci \<Longrightarrow> apPolicies (ci\<lparr>apUserSigs := sigs\<rparr>) = apPolicies ci"
  by simp

lemma userSig_step:
  assumes inv: "apInStep tp (ci0, files)" and sigs: "sigsRead tp sigs"
    and upd: "buildUserSigChangeAndProblems tp ps (ci0\<lparr>apUserSigs := sigs\<rparr>) = (ci', usc, problems)"
  shows "apInStep tp (ci', consumeUserSigChange usc files)"
proof -
  let ?pols = "apPolicies ci0"
  note old = apInStepD [OF inv]
  have wf: "wf_gomap (apUserSigs (ci0\<lparr>apUserSigs := sigs\<rparr>))" using sigs by (simp add: sigsRead_def)
  note eq = buildUserSigChange_eq [OF wf upd]
  have sigs': "apUserSigs ci' = map (\<lambda>(k, sg). (k, settled tp sigs k sg)) sigs"
    by (simp add: eq(1) rejudged_def Let_def)
  have "verifyPolicy ci' = verifyPolicy (ci0\<lparr>apUserSigs := apUserSigs ci'\<rparr>)"
    using verify_sigs [of ci' "ci0\<lparr>apUserSigs := apUserSigs ci'\<rparr>"] by (simp add: verifyPolicy_def fun_eq_iff)
  then have pols': "apPolicies ci' = map (\<lambda>(k, pol). (k, fst (verifyPolicy ci' pol))) ?pols"
    by (simp add: eq(1) rejudged_def Let_def)
  have new: "fst (snd (verifyPolicy ci' pol)) = policyChange pol (fst (verifyPolicy ci' pol))"
      "\<exists>r. createAppProtectPolicyEx tp (pxObj pol) = Some r \<and> fst (verifyPolicy ci' pol) = judged ci' r"
      "pxObj (fst (verifyPolicy ci' pol)) = pxObj pol" "k = GetNsName (pxObj pol)"
    if cur: "gget ?pols k = Some pol" for k pol
  proof -
    obtain r where r: "createAppProtectPolicyEx tp (pxObj pol) = Some r" "pol = judged ci0 r"
      using policyJudgedD(2) [OF old(3) cur] by blast
    note v = verifyPolicy_judges [OF r, of ci']
    then show "fst (snd (verifyPolicy ci' pol)) = policyChange pol (fst (verifyPolicy ci' pol))" by simp
    show "\<exists>r. createAppProtectPolicyEx tp (pxObj pol) = Some r \<and> fst (verifyPolicy ci' pol) = judged ci' r" using r v by blast
    show "pxObj (fst (verifyPolicy ci' pol)) = pxObj pol" using v judged_obj [OF r(1)] by simp
    show "k = GetNsName (pxObj pol)" using policyJudgedD(1) [OF old(3) cur] .
  qed
  have wfp: "wf_gomap ?pols" using old(3) by (simp add: policiesJudged_def)
  have "sigsRead tp (apUserSigs ci')"
    using sigs settled_read by (auto simp: sigsRead_def sigs' wf_gomap_def comp_def case_prod_unfold)
  moreover have "oldestValid tp (apUserSigs ci')" unfolding sigs' by (rule reconciled_oldest [OF sigs])
  moreover have "policiesJudged tp ci'"
  proof (rule policiesJudgedI)
    show "wf_gomap (apPolicies ci')" using wfp by (simp add: pols' wf_gomap_def comp_def case_prod_unfold)
    fix k pol' assume "gget (apPolicies ci') k = Some pol'"
    then obtain pol where "gget ?pols k = Some pol" "pol' = fst (verifyPolicy ci' pol)" by (auto simp: pols' gget_map)
    then show "k = GetNsName (pxObj pol') \<and> (\<exists>r. createAppProtectPolicyEx tp (pxObj pol') = Some r \<and> pol' = judged ci' r)"
      using new [of k pol] by simp
  qed
  moreover have "gget (consumeUserSigChange usc files) k = deployed ci' k" for k
  proof -
    have reported: "obj \<in> set (policyObjects op (policyChanges ci' ?pols)) \<and> GetNsName obj = k \<longleftrightarrow>
        (\<exists>pol. gget ?pols k = Some pol \<and> obj = pxObj pol \<and> pxIsValid (fst (verifyPolicy ci' pol)) \<noteq> pxIsValid pol
          \<and> op = (if pxIsValid (fst (verifyPolicy ci' pol)) then APAddOrUpdate else APDelete))" for obj op
      using new wfp unfolding in_policyObjects by (fastforce simp: policyChange_def wf_gomap_in_set split: if_splits)
    have image_key: "k \<in> GetNsName ` set objs \<longleftrightarrow> (\<exists>obj. obj \<in> set objs \<and> GetNsName obj = k)" for objs by auto
    show ?thesis
    proof (cases "gget ?pols k")
      case None
      then have "k \<notin> GetNsName ` set (policyObjects op (policyChanges ci' ?pols))" for op using reported by auto
      then show ?thesis
        using None old(4) [of k] gget_puts [of "policyObjects APAddOrUpdate (policyChanges ci' ?pols)" k undefined]
        by (force simp: consumeUserSigChange_def eq(2,3) gget_drops deployed_def pols' gget_map)
    next
      case (Some pol)
      let ?adds = "policyObjects APAddOrUpdate (policyChanges ci' ?pols)" and ?dels = "policyObjects APDelete (policyChanges ci' ?pols)"
      have adds: "k \<in> GetNsName ` set ?adds \<longleftrightarrow> pxIsValid (fst (verifyPolicy ci' pol)) \<and> \<not> pxIsValid pol"
        and dels: "k \<in> GetNsName ` set ?dels \<longleftrightarrow> \<not> pxIsValid (fst (verifyPolicy ci' pol)) \<and> pxIsValid pol"
        unfolding image_key reported using Some by auto
      have "obj = pxObj pol" if "obj \<in> set ?adds" "GetNsName obj = k" for obj using reported that Some by auto
      from gget_puts [OF this] show ?thesis
        using Some old(4) [of k] new(3) [OF Some]
        by (auto simp: consumeUserSigChange_def eq(2,3) gget_drops adds dels deployed_def pols' gget_map)
    qed
  qed
  ultimately show ?thesis by (simp add: apInStep_def)
qed

lemma sigsRead_iff:
  "sigsRead tp sigs \<longleftrightarrow> wf_gomap sigs \<and> (\<forall>k sg. gget sigs k = Some sg \<longrightarrow> k = GetNsName (sxObj sg) \<and> sigRead tp sg)"
  by (auto simp: sigsRead_def wf_gomap_in_set dest: map_of_SomeD)

lemma sigsRead_gput: "sigsRead tp sigs \<Longrightarrow> sigsRead tp (gput (GetNsName obj) (readSig tp obj) sigs)"
  by (simp add: sigsRead_iff readSig_facts sigRead_readSig)

lemma sigsRead_gdel: "sigsRead tp sigs \<Longrightarrow> sigsRead tp (gdel k sigs)"
  by (simp add: sigsRead_iff)

lemma handleAPEvent_step:
  assumes inv: "apInStep tp (ci, files)" and "handleAPEvent tp ev (ci, files) = Some (ci', files')"
  shows "apInStep tp (ci', files')"
proof (cases ev)
  case (APPolicyUpdated obj)
  then show ?thesis using assms policyUpdated_step [OF inv] by auto
next
  case (APPolicyRemoved key)
  then show ?thesis using assms policyRemoved_step [OF inv] by (auto split: prod.splits)
next
  case (APLogConfUpdated obj)
  then show ?thesis using assms logConf_step [OF inv, of obj] by (auto simp del: fold_simps split: prod.splits)
next
  case (APLogConfRemoved key)
  then show ?thesis using assms logConf_step [OF inv, of _ _ _ _ key] by (auto simp del: fold_simps split: prod.splits)
next
  case (APUserSigUpdated obj)
  then obtain usc problems where "AddOrUpdateUserSig tp obj ci = (ci', usc, problems)" "files' = consumeUserSigChange usc files"
    using assms(2) by (auto split: prod.splits)
  moreover from this(1) obtain ps where
    "buildUserSigChangeAndProblems tp ps (ci\<lparr>apUserSigs := gput (GetNsName obj) (readSig tp obj) (apUserSigs ci)\<rparr>) = (ci', usc, problems)"
    by (auto simp: AddOrUpdateUserSig_def readSig_def Let_def case_prod_unfold)
  ultimately show ?thesis using userSig_step [OF inv sigsRead_gput [OF apInStepD(1) [OF inv]]] by simp
next
  case (APUserSigRemoved key)
  then show ?thesis
    using assms(2) inv userSig_step [OF inv sigsRead_gdel [OF apInStepD(1) [OF inv]]]
    by (auto simp: DeleteUserSig_def consumeUserSigChange_def split: prod.splits if_splits)
qed

lemma apReachable_inStep: "apReachable tp s \<Longrightarrow> apInStep tp s"
proof (induction rule: apReachable.induct)
  case ap_start
  show ?case
    by (simp add: apInStep_def newConfigurationImpl_def sigsRead_def oldestValid_def policiesJudged_def deployed_def)
next
  case (ap_step s ev s')
  then show ?case using handleAPEvent_step by (metis prod.collapse)
qed

section \<open>Samples\<close>

text \<open>Time stamps of the samples are one digit.\<close>

definition digitTime :: time_parser where
  "digitTime s = (case s of [c] \<Rightarrow> Inr (int (digitVal c)) | _ \<Rightarrow> Inl ''cannot parse'')"

definition sampleObject :: "string \<Rightarrow> string \<Rightarrow> string \<Rightarrow> json gomap \<Rightarrow> unstructured" where
  "sampleObject name uid time spec =
     [(''metadata'', JObj [(''namespace'', JStr ''n''), (''name'', JStr name), (''uid'', JStr uid), (''creationTimestamp'', JStr time)]),
      (''spec'', JObj spec)]"

definition sampleSig :: "string \<Rightarrow> string \<Rightarrow> string \<Rightarrow> unstructured" where
  "sampleSig name uid time = sampleObject name uid time [(''signatures'', JArr []), (''tag'', JStr ''Fruits'')]"

definition samplePolicy :: unstructured where
  "samplePolicy = sampleObject ''pol'' ''p'' ''1''
     [(''policy'', JObj [(''signature-requirements'', JArr [JObj [(''tag'', JStr ''Fruits'')]])])]"

fun runAP :: "apEvent list \<Rightarrow> APConfiguration \<times> unstructured gomap \<Rightarrow> (APConfiguration \<times> unstructured gomap) option" where
  "runAP [] s = Some s"
| "runAP (ev # evs) s = Option.bind (handleAPEvent digitTime ev s) (runAP evs)"

lemma runAP_reachable: "apReachable digitTime s \<Longrightarrow> runAP evs s = Some s' \<Longrightarrow> apReachable digitTime s'"
  by (induction evs arbitrary: s) (auto simp: bind_eq_Some_conv intro: ap_step)

definition sampleRun :: "apEvent list" where
  "sampleRun = [APPolicyUpdated samplePolicy, APUserSigUpdated (sampleSig ''young'' ''y'' ''2''), APUserSigUpdated (sampleSig ''old'' ''o'' ''1'')]"

lemma sampleRun_outcome:
  "case runAP sampleRun (newConfigurationImpl, []) of
     Some (ci, files) \<Rightarrow>
       map (\<lambda>(k, sg). (k, sxIsValid sg)) (apUserSigs ci) = [(''n/young'', False), (''n/old'', True)]
       \<and> map fst files = [''n/pol'']
   | None \<Rightarrow> False"
  by code_simp

lemma sampleRun_reachable:
  obtains ci files where "apReachable digitTime (ci, files)"
    "map (\<lambda>(k, sg). (k, sxIsValid sg)) (apUserSigs ci) = [(''n/young'', False), (''n/old'', True)]" "map fst files = [''n/pol'']"
proof -
  obtain ci files where s: "runAP sampleRun (newConfigurationImpl, []) = Some (ci, files)"
    "map (\<lambda>(k, sg). (k, sxIsValid sg)) (apUserSigs ci) = [(''n/young'', False), (''n/old'', True)]" "map fst files = [''n/pol'']"
    using sampleRun_outcome by (auto split: option.splits prod.splits)
  from that [OF runAP_reachable [OF ap_start s(1)] s(2,3)] show thesis .
qed

section \<open>Properties\<close>

text \<open>
  C31: Whatever the order in which signatures are added, changed and removed, of all the
  signatures with a tag exactly one is valid at any time, and none of the others is older (or
  equally old with a greater UID). A signature without a tag is as it was read from its object.
\<close>

theorem one_valid_signature_per_tag:
  assumes "apReachable tp (ci, files)"
  shows "oldestValid tp (apUserSigs ci)
    \<and> (\<forall>k sg. gget (apUserSigs ci) k = Some sg \<and> sxTag sg = '''' \<longrightarrow> sg = readSig tp (sxObj sg))"
proof -
  note inv = apReachable_inStep [OF assms]
  have "sg = readSig tp (sxObj sg)" if "gget (apUserSigs ci) k = Some sg" "sxTag sg = ''''" for k sg
  proof -
    have "sigRead tp sg" using apInStepD(1) [OF inv] that(1) by (simp add: sigsRead_iff)
    then show ?thesis using that(2) setSig_facts(2) unfolding sigRead_def Let_def by metis
  qed
  then show ?thesis using apInStepD(2) [OF inv] by blast
qed

theorem one_valid_signature_per_tag_witness:
  "\<exists>ci files. apReachable digitTime (ci, files) \<and> oldestValid digitTime (apUserSigs ci)
     \<and> map (\<lambda>(k, sg). (k, sxIsValid sg)) (apUserSigs ci) = [(''n/young'', False), (''n/old'', True)]"
  using one_valid_signature_per_tag by (metis sampleRun_reachable)

text \<open>
  C32: A stored policy is valid exactly when it could be read from its object and each of its
  requirements is satisfied by a valid signature, at any time and whatever came first, the
  policy or the signatures.
\<close>

theorem policies_valid_iff_satisfied:
  assumes "apReachable tp (ci, files)" and "gget (apPolicies ci) k = Some pol"
  shows "pxIsValid pol \<longleftrightarrow>
     (\<exists>f. createAppProtectPolicyEx tp (pxObj pol) = Some (f, None)
        \<and> (\<forall>req\<in>set (pxSignatureReqs f). \<exists>k sg. gget (apUserSigs ci) k = Some sg \<and> sxIsValid sg \<and> isReqSatisfiedByUserSig req sg))"
proof -
  note inv = apInStepD [OF apReachable_inStep [OF assms(1)]]
  obtain f err where r: "createAppProtectPolicyEx tp (pxObj pol) = Some (f, err)" "pol = judged ci (f, err)"
    using policyJudgedD(2) [OF inv(3) assms(2)] by (metis prod.collapse)
  have "verifyPolicyAgainstUserSigs ci f \<longleftrightarrow>
      (\<forall>req\<in>set (pxSignatureReqs f). \<exists>k sg. gget (apUserSigs ci) k = Some sg \<and> sxIsValid sg \<and> isReqSatisfiedByUserSig req sg)"
  proof -
    have "wf_gomap (apUserSigs ci)" using inv(1) by (simp add: sigsRead_def)
    then show ?thesis
      unfolding verifyPolicyAgainstUserSigs_def isReqSatisfiedByUserSigs_def list_all_iff list_ex_iff
      by (fastforce simp: wf_gomap_in_set)
  qed
  moreover have "pxIsValid pol \<longleftrightarrow> err = None \<and> verifyPolicyAgainstUserSigs ci f"
    using createPolicy_facts(2,3) [OF r(1)] by (subst r(2)) (cases err; auto simp: judged_def)
  ultimately show ?thesis using r(1) by auto
qed

theorem policies_valid_iff_satisfied_witness:
  "\<exists>ci files pol. apReachable digitTime (ci, files) \<and> gget (apPolicies ci) ''n/pol'' = Some pol \<and> pxIsValid pol
     \<and> (\<exists>f. createAppProtectPolicyEx digitTime (pxObj pol) = Some (f, None))"
proof -
  obtain ci files where s: "apReachable digitTime (ci, files)" "map fst files = [''n/pol'']" by (rule sampleRun_reachable)
  have "gget files ''n/pol'' \<noteq> None" using s(2) by (cases files) (auto split: if_splits)
  then obtain pol where pol: "gget (apPolicies ci) ''n/pol'' = Some pol" "pxIsValid pol"
    using apInStepD(4) [OF apReachable_inStep [OF s(1)], of "''n/pol''"] by (auto simp: deployed_def split: option.splits if_splits)
  with s(1) show ?thesis using policies_valid_iff_satisfied [OF s(1) pol(1)] by blast
qed

text \<open>
  C33: The reported changes keep a consumer right: one that writes a file for each policy
  reported as added or updated and removes the files of the policies reported as deleted (also
  by a change of a signature) has exactly the files of the valid policies.
\<close>

theorem policy_files_match:
  assumes "apReachable tp (ci, files)"
  shows "gget files k = Some obj \<longleftrightarrow> (\<exists>pol. gget (apPolicies ci) k = Some pol \<and> pxIsValid pol \<and> pxObj pol = obj)"
  using apInStepD(4) [OF apReachable_inStep [OF assms], of k] by (auto simp: deployed_def split: option.splits)

theorem policy_files_match_witness:
  "\<exists>ci files. apReachable digitTime (ci, files) \<and> (\<exists>pol. gget (apPolicies ci) ''n/pol'' = Some pol \<and> pxIsValid pol)"
proof -
  obtain ci files where s: "apReachable digitTime (ci, files)" "map fst files = [''n/pol'']" by (rule sampleRun_reachable)
  then obtain obj where "gget files ''n/pol'' = Some obj" by (cases files) auto
  with s(1) show ?thesis using policy_files_match [OF s(1)] by blast
qed

text \<open>
  A requirement that names a tag and no times is not satisfied by a signature that has a
  revision time, although the check of the tag alone is meant for it: the requirement read from
  a policy always carries a (possibly empty) pair of bounds.
\<close>

theorem tag_only_requirement_unsatisfied:
  assumes "signatureReqs tp [JObj [(''tag'', JStr tag)]] = Some (Inr [req])" and "sxRevTime sg \<noteq> None"
  shows "\<not> isReqSatisfiedByUserSig req sg"
  using assms by (auto simp: buildRevTimes_def revTime_def isReqSatisfiedByUserSig_def)

theorem tag_only_requirement_unsatisfied_witness:
  "\<exists>req sg. signatureReqs digitTime [JObj [(''tag'', JStr ''Fruits'')]] = Some (Inr [req])
     \<and> sxTag sg = ''Fruits'' \<and> sxIsValid sg \<and> \<not> isReqSatisfiedByUserSig req sg"
proof -
  let ?req = "\<lparr>srTag = ''Fruits'', srRevTimes = Some \<lparr>rvMinRevTime = None, rvMaxRevTime = None\<rparr>\<rparr>"
  let ?sg = "\<lparr>sxObj = [], sxTag = ''Fruits'', sxRevTime = Some 3, sxIsValid = True, sxErrorMsg = ''''\<rparr>"
  have "signatureReqs digitTime [JObj [(''tag'', JStr ''Fruits'')]] = Some (Inr [?req])"
    by (simp add: buildRevTimes_def revTime_def)
  moreover from this have "\<not> isReqSatisfiedByUserSig ?req ?sg" by (rule tag_only_requirement_unsatisfied) simp
  ultimately show ?thesis by (intro exI [of _ ?req] exI [of _ ?sg]) simp
qed

text \<open>
  The check of the destination of security logs panics (an index out of range) on the
  destination stderr2: the expression it is matched with is not anchored.
\<close>

theorem log_destination_panics: "ValidateAppProtectLogDestination isIP ''stderr2'' = None"
proof -
  have "searchString logDstEx ''stderr2''" "\<not> searchString logDstFileEx ''stderr2''" by code_simp+
  then show ?thesis by (simp add: ValidateAppProtectLogDestination_def nthOpt_def)
qed

end
