(* ===== verification/Policy_Validation.thy ===== *)
theory Policy_Validation
  imports VirtualServer_Validation App_Protect
begin

text \<open>
  \<open>pkg/apis/configuration/validation/policy.go\<close>: the validator of policies, with the records of
  \<open>PolicySpec\<close>. The parsers of IP addresses, CIDRs, URLs and host:port pairs (packages \<open>net\<close> and
  \<open>net/url\<close>) are fields of a record. A nil slice is \<^term>\<open>None\<close>, so that it differs from an
  empty one. A panic, which only the check of log destinations can have, is \<^term>\<open>None\<close> of the
  result.
\<close>

section \<open>Policies\<close>

record AccessControl =
  aclAllow :: "string list option"
  aclDeny :: "string list option"

record RateLimit =
  rlRate :: string
  rlKey :: string
  rlDelay :: "int option"
  rlNoDelay :: "bool option"
  rlBurst :: "int option"
  rlZoneSize :: string
  rlDryRun :: "bool option"
  rlLogLevel :: string
  rlRejectCode :: "int option"

record JWTAuth =
  jwtRealm :: string
  jwtSecret :: string
  jwtToken :: string

record IngressMTLS =
  imClientCertSecret :: string
  imVerifyClient :: string
  imVerifyDepth :: "int option"

record EgressMTLS =
  emTLSSecret :: string
  emVerifyServer :: bool
  emVerifyDepth :: "int option"
  emProtocols :: string
  emSessionReuse :: "bool option"
  emCiphers :: string
  emTrustedCertSecret :: string
  emServerName :: bool
  emSSLName :: string

record OIDC =
  oiAuthEndpoint :: string
  oiTokenEndpoint :: string
  oiJWKSURI :: string
  oiClientID :: string
  oiClientSecret :: string
  oiScope :: string
  oiRedirectURI :: string

record SecurityLog =
  slEnable :: bool
  slApLogConf :: string
  slLogDest :: string

record WAF =
  wfEnable :: bool
  wfApPolicy :: string
  wfSecurityLog :: "SecurityLog option"

record PolicySpec =
  psAccessControl :: "AccessControl option"
  psRateLimit :: "RateLimit option"
  psJWTAuth :: "JWTAuth option"
  psIngressMTLS :: "IngressMTLS option"
  psEgressMTLS :: "EgressMTLS option"
  psOIDC :: "OIDC option"
  psWAF :: "WAF option"

record Policy =
  polMeta :: ObjectMeta
  polSpec :: PolicySpec

record URL =
  urlScheme :: string
  urlHost :: string
  urlPath :: string

record NetLib =
  nlIsIP :: "string \<Rightarrow> bool"
  nlIsCIDR :: "string \<Rightarrow> bool"
  nlParseURL :: "string \<Rightarrow> string + URL"
  nlSplitHostPort :: "string \<Rightarrow> (string \<times> string) option"

section \<open>Access control\<close>

definition validateIPorCIDR :: "NetLib \<Rightarrow> string \<Rightarrow> path \<Rightarrow> error_list" where
  "validateIPorCIDR net ipOrCIDR fieldPath =
     (if nlIsCIDR net ipOrCIDR then [] else if nlIsIP net ipOrCIDR then []
      else [Invalid fieldPath (BadStr ipOrCIDR) ''must be a CIDR or IP''])"

definition validateAddresses :: "NetLib \<Rightarrow> string list option \<Rightarrow> path \<Rightarrow> error_list" where
  "validateAddresses net addresses fieldPath =
     (case addresses of
        None \<Rightarrow> []
      | Some as \<Rightarrow> concat (map (\<lambda>(i, a). validateIPorCIDR net a (pathIndex fieldPath i)) (enumerate 0 as)))"

definition validateAccessControl :: "NetLib \<Rightarrow> AccessControl \<Rightarrow> path \<Rightarrow> error_list" where
  "validateAccessControl net ac fieldPath =
     validateAddresses net (aclAllow ac) (child fieldPath ''allow'')
     @ validateAddresses net (aclDeny ac) (child fieldPath ''deny'')
     @ (let fieldCount = (if aclAllow ac \<noteq> None then 1 else 0) + (if aclDeny ac \<noteq> None then 1 else (0 :: nat))
        in if fieldCount \<noteq> 1
           then [Invalid fieldPath (BadStr '''') (''must specify exactly one of: '' @ bq ''allow'' @ '' or '' @ bq ''deny'')] else [])"

section \<open>Rate limits\<close>

definition validatePositiveInt :: "int \<Rightarrow> path \<Rightarrow> error_list" where
  "validatePositiveInt n fieldPath = (if n \<le> 0 then [Invalid fieldPath (BadInt n) ''must be positive''] else [])"

definition rateRegexp :: re where
  "rateRegexp = Seqs [Cls (inRange (CHR ''1'') (CHR ''9'')), Star (Cls isDigit), Lit ''r/'', Cls (\<lambda>c. c \<in> set ''sSmM'')]"

definition rateFmt :: string where
  "rateFmt = ''[1-9]'' @ [CHR 0x5C] @ ''d*r/[sSmM]''"

definition rateErrMsg :: string where
  "rateErrMsg = ''must consist of numeric characters followed by a valid rate suffix. '' @ [CHR 0x27] @ ''r/s|r/m''"

definition validateRate :: "string \<Rightarrow> path \<Rightarrow> error_list" where
  "validateRate rate fieldPath =
     (if rate = '''' then [Required fieldPath '''']
      else if \<not> matchString rateRegexp rate
      then [Invalid fieldPath (BadStr rate) (RegexError rateErrMsg rateFmt [''16r/s'', ''32r/m'', ''64r/s''])] else [])"

text \<open>
  \<open>ToLower\<close> on ASCII. The two other runes it maps to ASCII letters make a size invalid already;
  only further errors would be reported for them.
\<close>

definition toLowerByte :: "char \<Rightarrow> char" where
  "toLowerByte c = (if isUpper c then char_of (of_char c + 32 :: nat) else c)"

definition trimSuffix :: "string \<Rightarrow> string \<Rightarrow> string" where
  "trimSuffix s p = (if hasSuffix s p then take (length s - length p) s else s)"

definition validateRateLimitZoneSize :: "string \<Rightarrow> path \<Rightarrow> error_list" where
  "validateRateLimitZoneSize zoneSize fieldPath =
     (if zoneSize = '''' then [Required fieldPath '''']
      else
        let lower = map toLowerByte zoneSize;
            kb = goAtoi (trimSuffix lower ''k''); mb = goAtoi (trimSuffix lower ''m'')
        in validateSize zoneSize fieldPath
           @ (if (case kb of Inr n \<Rightarrow> n < 32 | Inl _ \<Rightarrow> False) \<or> (case mb of Inr n \<Rightarrow> n = 0 | Inl _ \<Rightarrow> False)
              then [Invalid fieldPath (BadStr zoneSize) ''must be greater than 31k''] else []))"

definition rateLimitKeySpecialVariables :: "string list" where
  "rateLimitKeySpecialVariables = [''arg_'', ''http_'', ''cookie_'']"

definition rateLimitKeyVariables :: "string list" where
  "rateLimitKeyVariables = [''binary_remote_addr'', ''request_uri'', ''uri'', ''args'']"

definition validateRateLimitKey :: "string \<Rightarrow> path \<Rightarrow> bool \<Rightarrow> error_list" where
  "validateRateLimitKey key fieldPath isPlus =
     (if key = '''' then [Required fieldPath '''']
      else
        (if \<not> matchString escapedStringsRe key
         then [Invalid fieldPath (BadStr key)
                (RegexError escapedStringsErrMsg escapedStringsFmt
                  [''Hello World! '' @ [CHR 0x5C] @ ''n'',
                   [CHR 0x5C, CHR 0x22] @ ''${request_uri}'' @ [CHR 0x5C, CHR 0x22] @ '' is unavailable. '' @ [CHR 0x5C] @ ''n''])]
         else [])
        @ validateStringWithVariables key fieldPath rateLimitKeySpecialVariables rateLimitKeyVariables isPlus)"

definition validLogLevels :: "string list" where
  "validLogLevels = [''info'', ''notice'', ''warn'', ''error'']"

definition validateRateLimitLogLevel :: "string \<Rightarrow> path \<Rightarrow> error_list" where
  "validateRateLimitLogLevel logLevel fieldPath =
     (if logLevel \<notin> set validLogLevels
      then [Invalid fieldPath (BadStr logLevel) (''Accepted values: '' @ mapToPrettyString validLogLevels)] else [])"

definition validateRateLimit :: "RateLimit \<Rightarrow> path \<Rightarrow> bool \<Rightarrow> error_list" where
  "validateRateLimit rl fieldPath isPlus =
     validateRateLimitZoneSize (rlZoneSize rl) (child fieldPath ''zoneSize'')
     @ validateRate (rlRate rl) (child fieldPath ''rate'')
     @ validateRateLimitKey (rlKey rl) (child fieldPath ''key'') isPlus
     @ (case rlDelay rl of None \<Rightarrow> [] | Some n \<Rightarrow> validatePositiveInt n (child fieldPath ''delay''))
     @ (case rlBurst rl of None \<Rightarrow> [] | Some n \<Rightarrow> validatePositiveInt n (child fieldPath ''burst''))
     @ (if rlLogLevel rl \<noteq> '''' then validateRateLimitLogLevel (rlLogLevel rl) (child fieldPath ''logLevel'') else [])
     @ (case rlRejectCode rl of
          None \<Rightarrow> []
        | Some code \<Rightarrow>
            (if code < 400 \<or> code > 599
             then [Invalid (child fieldPath ''rejectCode'') (BadInt code) ''must be within the range [400-599]''] else []))"

section \<open>JWT\<close>

definition jwtTokenSpecialVariables :: "string list" where
  "jwtTokenSpecialVariables = [''arg_'', ''http_'', ''cookie_'']"

definition validateJWTToken :: "string \<Rightarrow> path \<Rightarrow> error_list" where
  "validateJWTToken token fieldPath =
     (if token = '''' then []
      else if length (splitOn (CHR ''$'') token) \<noteq> 2 then [Invalid fieldPath (BadStr token) ''must have 1 var'']
      else if list_ex (hasPrefix (tl token)) jwtTokenSpecialVariables then validateSpecialVariable (tl token) fieldPath True
      else [Invalid fieldPath (BadStr token) ''must only have special vars''])"

definition jwtRealmRe :: re where
  "jwtRealmRe =
     Star (Alt (Cls (\<lambda>c. c \<noteq> CHR 0x22 \<and> c \<noteq> CHR ''$'' \<and> c \<noteq> CHR 0x5C))
       (Seq (Cls (\<lambda>c. c = CHR 0x5C)) (Cls (\<lambda>c. c \<noteq> CHR ''$''))))"

definition jwtRealmFmt :: string where
  "jwtRealmFmt = ''([^'' @ [CHR 0x22] @ ''$'' @ [CHR 0x5C, CHR 0x5C] @ '']|'' @ [CHR 0x5C, CHR 0x5C] @ ''[^$])*''"

definition jwtRealmFmtErrMsg :: string where
  "jwtRealmFmtErrMsg =
     ''a valid realm must have all '' @ sq [CHR 0x22] @ '' escaped and must not contain any '' @ sq ''$''
       @ '' or end with an unescaped '' @ sq [CHR 0x5C]"

definition validateJWTRealm :: "string \<Rightarrow> path \<Rightarrow> error_list" where
  "validateJWTRealm realm fieldPath =
     (if realm = '''' then [Required fieldPath '''']
      else if \<not> matchString jwtRealmRe realm
      then [Invalid fieldPath (BadStr realm) (RegexError jwtRealmFmtErrMsg jwtRealmFmt [''MyAPI'', ''My Product API''])] else [])"

definition validateJWT :: "JWTAuth \<Rightarrow> path \<Rightarrow> error_list" where
  "validateJWT jwt fieldPath =
     validateJWTRealm (jwtRealm jwt) (child fieldPath ''realm'')
     @ (if jwtSecret jwt = '''' then [Required (child fieldPath ''secret'') '''']
        else validateSecretName (jwtSecret jwt) (child fieldPath ''secret'')
             @ validateJWTToken (jwtToken jwt) (child fieldPath ''token''))"
section \<open>Mutual TLS\<close>

definition validateVerifyClientKeyParameters :: "string list" where
  "validateVerifyClientKeyParameters = [''on'', ''off'', ''optional'', ''optional_no_ca'']"

definition validateIngressMTLSVerifyClient :: "string \<Rightarrow> path \<Rightarrow> error_list" where
  "validateIngressMTLSVerifyClient verifyClient fieldPath =
     (if verifyClient \<noteq> '''' then validateParameter verifyClient validateVerifyClientKeyParameters fieldPath else [])"

definition validateIngressMTLS :: "IngressMTLS \<Rightarrow> path \<Rightarrow> error_list" where
  "validateIngressMTLS im fieldPath =
     (if imClientCertSecret im = '''' then [Required (child fieldPath ''clientCertSecret'') '''']
      else validateSecretName (imClientCertSecret im) (child fieldPath ''clientCertSecret'')
        @ validateIngressMTLSVerifyClient (imVerifyClient im) (child fieldPath ''verifyClient'')
        @ (case imVerifyDepth im of None \<Rightarrow> [] | Some d \<Rightarrow> validatePositiveIntOrZero d (child fieldPath ''verifyDepth'')))"

definition validateSSLName :: "string \<Rightarrow> path \<Rightarrow> error_list" where
  "validateSSLName name fieldPath = (if name \<noteq> '''' then invalids fieldPath name (IsDNS1123Subdomain name) else [])"

definition validateEgressMTLS :: "EgressMTLS \<Rightarrow> path \<Rightarrow> error_list" where
  "validateEgressMTLS em fieldPath =
     validateSecretName (emTLSSecret em) (child fieldPath ''tlsSecret'')
     @ (if emVerifyServer em \<and> emTrustedCertSecret em = ''''
        then [Required (child fieldPath ''trustedCertSecret'') (''must be set when verifyServer is '' @ sq ''true'')]
        else validateSecretName (emTrustedCertSecret em) (child fieldPath ''trustedCertSecret'')
          @ (case emVerifyDepth em of None \<Rightarrow> [] | Some d \<Rightarrow> validatePositiveIntOrZero d (child fieldPath ''verifyDepth''))
          @ validateSSLName (emSSLName em) (child fieldPath ''sslName''))"

section \<open>OpenID Connect\<close>

definition validateClientID :: "string \<Rightarrow> path \<Rightarrow> error_list" where
  "validateClientID client fieldPath =
     (if isValidHeaderValue client \<noteq> []
      then [Invalid fieldPath (BadStr client)
             (''invalid string. String must contain valid ASCII characters, must have all '' @ sq [CHR 0x22]
               @ '' escaped and must not contain any '' @ sq ''$'' @ '' or end with an unescaped '' @ sq [CHR 0x5C]
               @ [CHR 0x0A, CHR 0x09, CHR 0x09])]
      else [])"

definition validScopes :: "string list" where
  "validScopes = [''openid'', ''profile'', ''email'', ''address'', ''phone'']"

definition validateOIDCScope :: "string \<Rightarrow> path \<Rightarrow> error_list" where
  "validateOIDCScope scope fieldPath =
     (if \<not> containsStr scope ''openid'' then [Required fieldPath ''openid scope'']
      else concat (map (\<lambda>v.
             if v \<notin> set validScopes
             then [Invalid fieldPath (BadStr v) (''invalid Scope. Accepted scopes are: '' @ mapToPrettyString validScopes)]
             else []) (splitOn (CHR ''+'') scope)))"

definition validatePortNumber :: "string \<Rightarrow> path \<Rightarrow> error_list" where
  "validatePortNumber port fieldPath =
     (case IsValidPortNum (goAtoiValue port) of [] \<Rightarrow> [] | msg # _ \<Rightarrow> [Invalid fieldPath (BadStr port) msg])"

definition validateURL :: "NetLib \<Rightarrow> string \<Rightarrow> path \<Rightarrow> error_list" where
  "validateURL net name fieldPath =
     (case nlParseURL net name of
        Inl err \<Rightarrow> [Invalid fieldPath (BadStr name) err]
      | Inr u \<Rightarrow>
          (if urlScheme u = ''''
           then [Invalid fieldPath (BadStr name) ''scheme required, please use the prefix http(s)://'']
           else if urlHost u = '''' then [Invalid fieldPath (BadStr name) ''hostname required'']
           else if urlPath u = '''' then [Invalid fieldPath (BadStr name) ''path required'']
           else
             let (host, port) = (case nlSplitHostPort net (urlHost u) of None \<Rightarrow> (urlHost u, '''') | Some hp \<Rightarrow> hp)
             in validateSSLName host fieldPath @ (if port \<noteq> '''' then validatePortNumber port fieldPath else [])))"

definition validateOIDC :: "NetLib \<Rightarrow> OIDC \<Rightarrow> path \<Rightarrow> error_list" where
  "validateOIDC net oidc fieldPath =
     (if oiAuthEndpoint oidc = '''' then [Required (child fieldPath ''authEndpoint'') '''']
      else if oiTokenEndpoint oidc = '''' then [Required (child fieldPath ''tokenEndpoint'') '''']
      else if oiJWKSURI oidc = '''' then [Required (child fieldPath ''jwksURI'') '''']
      else if oiClientID oidc = '''' then [Required (child fieldPath ''clientID'') '''']
      else if oiClientSecret oidc = '''' then [Required (child fieldPath ''clientSecret'') '''']
      else
        (if oiScope oidc \<noteq> '''' then validateOIDCScope (oiScope oidc) (child fieldPath ''scope'') else [])
        @ (if oiRedirectURI oidc \<noteq> '''' then validatePath (oiRedirectURI oidc) (child fieldPath ''redirectURI'') else [])
        @ validateURL net (oiAuthEndpoint oidc) (child fieldPath ''authEndpoint'')
        @ validateURL net (oiTokenEndpoint oidc) (child fieldPath ''tokenEndpoint'')
        @ validateURL net (oiJWKSURI oidc) (child fieldPath ''jwksURI'')
        @ validateSecretName (oiClientSecret oidc) (child fieldPath ''clientSecret'')
        @ validateClientID (oiClientID oidc) (child fieldPath ''clientID''))"

section \<open>Web application firewall\<close>

definition validateLogConf :: "NetLib \<Rightarrow> string \<Rightarrow> string \<Rightarrow> path \<Rightarrow> error_list option" where
  "validateLogConf net logConf logDest fieldPath =
     (case ValidateAppProtectLogDestination (nlIsIP net) logDest of
        None \<Rightarrow> None
      | Some err \<Rightarrow>
          Some ((if logConf \<noteq> '''' then invalids (child fieldPath ''apLogConf'') logConf (IsQualifiedName logConf) else [])
            @ (case err of None \<Rightarrow> [] | Some e \<Rightarrow> [Invalid (child fieldPath ''logDest'') (BadStr logDest) e])))"

definition validateWAF :: "NetLib \<Rightarrow> WAF \<Rightarrow> path \<Rightarrow> error_list option" where
  "validateWAF net waf fieldPath =
     map_option (append (if wfApPolicy waf \<noteq> ''''
                         then invalids (child fieldPath ''apPolicy'') (wfApPolicy waf) (IsQualifiedName (wfApPolicy waf)) else []))
       (case wfSecurityLog waf of
          None \<Rightarrow> Some []
        | Some sl \<Rightarrow> validateLogConf net (slApLogConf sl) (slLogDest sl) (child fieldPath ''securityLog''))"

section \<open>The whole policy\<close>

text \<open>
  The block of one kind of policy: what it appends to the errors, whether the function then
  returns, and whether it counts as a specified field.
\<close>

type_synonym policyBlock = "(error_list \<times> bool \<times> nat) option"

fun runBlocks :: "policyBlock list \<Rightarrow> policyBlock" where
  "runBlocks [] = Some ([], False, 0)"
| "runBlocks (b # bs) =
     (case b of
        None \<Rightarrow> None
      | Some (errs, True, n) \<Rightarrow> Some (errs, True, n)
      | Some (errs, False, n) \<Rightarrow> map_option (\<lambda>(errs', stop, n'). (errs @ errs', stop, n + n')) (runBlocks bs))"

definition absentBlock :: policyBlock where
  "absentBlock = Some ([], False, 0)"

definition previewErr :: "path \<Rightarrow> string \<Rightarrow> field_error" where
  "previewErr fieldPath name =
     Forbidden (child fieldPath name)
       (name @ '' is a preview policy. Preview policies must be enabled to use via cli argument -enable-preview-policies'')"

definition policyBlocks :: "NetLib \<Rightarrow> PolicySpec \<Rightarrow> path \<Rightarrow> bool \<Rightarrow> bool \<Rightarrow> bool \<Rightarrow> policyBlock list" where
  "policyBlocks net spec fieldPath isPlus enablePreviewPolicies enableAppProtect =
     [case psAccessControl spec of
        None \<Rightarrow> absentBlock
      | Some ac \<Rightarrow> Some (validateAccessControl net ac (child fieldPath ''accessControl''), False, 1),
      case psRateLimit spec of
        None \<Rightarrow> absentBlock
      | Some rl \<Rightarrow>
          (if \<not> enablePreviewPolicies then Some ([previewErr fieldPath ''rateLimit''], True, 0)
           else Some (validateRateLimit rl (child fieldPath ''rateLimit'') isPlus, False, 1)),
      case psJWTAuth spec of
        None \<Rightarrow> absentBlock
      | Some jwt \<Rightarrow>
          (let preview = (if \<not> enablePreviewPolicies then [previewErr fieldPath ''jwt''] else [])
           in if \<not> isPlus
              then Some (preview @ [Forbidden (child fieldPath ''jwt'') ''jwt secrets are only supported in NGINX Plus''], True, 0)
              else Some (preview @ validateJWT jwt (child fieldPath ''jwt''), False, 1)),
      case psIngressMTLS spec of
        None \<Rightarrow> absentBlock
      | Some im \<Rightarrow>
          (if \<not> enablePreviewPolicies then Some ([previewErr fieldPath ''ingressMTLS''], True, 0)
           else Some (validateIngressMTLS im (child fieldPath ''ingressMTLS''), False, 1)),
      case psEgressMTLS spec of
        None \<Rightarrow> absentBlock
      | Some em \<Rightarrow>
          (if \<not> enablePreviewPolicies then Some ([previewErr fieldPath ''egressMTLS''], True, 0)
           else Some (validateEgressMTLS em (child fieldPath ''egressMTLS''), False, 1)),
      case psOIDC spec of
        None \<Rightarrow> absentBlock
      | Some oidc \<Rightarrow>
          (let preview = (if \<not> enablePreviewPolicies then [previewErr fieldPath ''oidc''] else [])
           in if \<not> isPlus
              then Some (preview @ [Forbidden (child fieldPath ''oidc'') ''OIDC is only supported in NGINX Plus''], True, 0)
              else Some (preview @ validateOIDC net oidc (child fieldPath ''oidc''), False, 1)),
      case psWAF spec of
        None \<Rightarrow> absentBlock
      | Some waf \<Rightarrow>
          map_option (\<lambda>errs.
            ((if \<not> enablePreviewPolicies then [previewErr fieldPath ''waf''] else [])
             @ (if \<not> isPlus then [Forbidden (child fieldPath ''waf'') ''WAF is only supported in NGINX Plus''] else [])
             @ (if \<not> enableAppProtect
                then [Forbidden (child fieldPath ''waf'')
                       ''App Protect must be enabled via cli argument -enable-appprotect to use WAF policy''] else [])
             @ errs, False, 1)) (validateWAF net waf (child fieldPath ''waf''))]"

definition validatePolicySpec ::
    "NetLib \<Rightarrow> PolicySpec \<Rightarrow> path \<Rightarrow> bool \<Rightarrow> bool \<Rightarrow> bool \<Rightarrow> error_list option" where
  "validatePolicySpec net spec fieldPath isPlus enablePreviewPolicies enableAppProtect =
     (case runBlocks (policyBlocks net spec fieldPath isPlus enablePreviewPolicies enableAppProtect) of
        None \<Rightarrow> None
      | Some (errs, stop, fieldCount) \<Rightarrow>
          Some (errs @
            (if \<not> stop \<and> fieldCount \<noteq> 1
             then [Invalid fieldPath (BadStr '''')
                    (''must specify exactly one of: '' @ bq ''accessControl'' @ '', '' @ bq ''rateLimit'' @ '', ''
                      @ bq ''ingressMTLS'' @ '', '' @ bq ''egressMTLS''
                      @ (if isPlus then '', '' @ bq ''jwt'' @ '', '' @ bq ''oidc'' @ '', '' @ bq ''waf'' else ''''))]
             else [])))"

text \<open>The outer option is the panic, the inner one the error.\<close>

definition ValidatePolicy :: "NetLib \<Rightarrow> Policy \<Rightarrow> bool \<Rightarrow> bool \<Rightarrow> bool \<Rightarrow> string option option" where
  "ValidatePolicy net pol isPlus enablePreviewPolicies enableAppProtect =
     map_option ToAggregate
       (validatePolicySpec net (polSpec pol) (newPath ''spec'') isPlus enablePreviewPolicies enableAppProtect)"

end
