(* ===== verification/Policy_Properties.thy ===== *)
theory Policy_Properties
  imports Policy_Validation VirtualServer_Properties Parsing_Properties
begin

text \<open>What the validator of policies accepts, and one size it should not.\<close>

section \<open>Which policy\<close>

definition policyKinds :: "PolicySpec \<Rightarrow> nat" where
  "policyKinds s =
     length (filter id [psAccessControl s \<noteq> None, psRateLimit s \<noteq> None, psJWTAuth s \<noteq> None, psIngressMTLS s \<noteq> None,
       psEgressMTLS s \<noteq> None, psOIDC s \<noteq> None, psWAF s \<noteq> None])"

text \<open>A run without errors: no block returned early with errors, and the fields add up.\<close>

lemma runBlocks_Nil:
  assumes "\<And>b errs m. b \<in> set bs \<Longrightarrow> b = Some (errs, True, m) \<Longrightarrow> errs \<noteq> []"
  shows "runBlocks bs = Some ([], stop, n) \<Longrightarrow>
    \<not> stop \<and> (\<forall>b\<in>set bs. \<exists>m. b = Some ([], False, m)) \<and> n = sum_list (map (\<lambda>b. case b of Some (_, _, m) \<Rightarrow> m | None \<Rightarrow> 0) bs)"
  using assms
proof (induction bs arbitrary: stop n)
  case (Cons b bs)
  from Cons.prems(1) obtain errs st m where b: "b = Some (errs, st, m)" by (auto split: option.splits)
  have "\<not> st"
  proof
    assume st: "st"
    then have "errs = []" using Cons.prems(1) b by simp
    then show False using Cons.prems(2) [of b errs m] b st by simp
  qed
  then obtain n' where "runBlocks bs = Some ([], stop, n')" "errs = []" "n = m + n'"
    using Cons.prems(1) b by auto
  then show ?case using Cons.IH [of stop n'] Cons.prems(2) b \<open>\<not> st\<close> by auto
qed simp

definition needsPreview :: "PolicySpec \<Rightarrow> bool" where
  "needsPreview s = (psRateLimit s \<noteq> None \<or> psJWTAuth s \<noteq> None \<or> psIngressMTLS s \<noteq> None \<or> psEgressMTLS s \<noteq> None
     \<or> psOIDC s \<noteq> None \<or> psWAF s \<noteq> None)"

definition needsPlus :: "PolicySpec \<Rightarrow> bool" where
  "needsPlus s = (psJWTAuth s \<noteq> None \<or> psOIDC s \<noteq> None \<or> psWAF s \<noteq> None)"

lemma policyBlocks_stop:
  assumes "b \<in> set (policyBlocks net s p pl pre ap)" "b = Some (errs, True, m)"
  shows "errs \<noteq> []"
proof -
  from assms(1) show ?thesis
    unfolding policyBlocks_def assms(2) list.set insert_iff empty_iff absentBlock_def Let_def
    by (elim disjE; auto simp: map_option_case split: option.split_asm if_split_asm)
qed

lemma validatePolicySpec_Nil:
  assumes "validatePolicySpec net s p pl pre ap = Some []"
  shows "\<forall>b\<in>set (policyBlocks net s p pl pre ap). \<exists>m. b = Some ([], False, m)"
    and "sum_list (map (\<lambda>b. case b of Some (_, _, m) \<Rightarrow> m | None \<Rightarrow> 0) (policyBlocks net s p pl pre ap)) = 1"
proof -
  let ?bs = "policyBlocks net s p pl pre ap"
  obtain stop n where run: "runBlocks ?bs = Some ([], stop, n)" and count: "\<not> stop \<longrightarrow> n = 1"
    using assms by (auto simp: validatePolicySpec_def split: option.splits prod.splits if_splits)
  have "\<not> stop \<and> (\<forall>b\<in>set ?bs. \<exists>m. b = Some ([], False, m))
      \<and> n = sum_list (map (\<lambda>b. case b of Some (_, _, m) \<Rightarrow> m | None \<Rightarrow> 0) ?bs)"
    by (rule runBlocks_Nil [OF _ run]) (rule policyBlocks_stop)
  then show "\<forall>b\<in>set ?bs. \<exists>m. b = Some ([], False, m)"
    "sum_list (map (\<lambda>b. case b of Some (_, _, m) \<Rightarrow> m | None \<Rightarrow> 0) ?bs) = 1"
    using count by simp_all
qed

lemma acceptedPolicy: "ValidatePolicy net pol pl pre ap = Some None \<Longrightarrow> validatePolicySpec net (polSpec pol) (newPath ''spec'') pl pre ap = Some []"
  by (auto simp: ValidatePolicy_def)

text \<open>Each part of an accepted policy passed its own validator.\<close>

lemma policy_parts:
  assumes "ValidatePolicy net pol pl pre ap = Some None"
  shows "psAccessControl (polSpec pol) = Some ac \<Longrightarrow> \<exists>q. validateAccessControl net ac q = []"
    and "psRateLimit (polSpec pol) = Some rl \<Longrightarrow> pre \<and> (\<exists>q. validateRateLimit rl q pl = [])"
    and "psJWTAuth (polSpec pol) = Some jwt \<Longrightarrow> pre \<and> pl \<and> (\<exists>q. validateJWT jwt q = [])"
    and "psIngressMTLS (polSpec pol) = Some im \<Longrightarrow> pre \<and> (\<exists>q. validateIngressMTLS im q = [])"
    and "psEgressMTLS (polSpec pol) = Some em \<Longrightarrow> pre \<and> (\<exists>q. validateEgressMTLS em q = [])"
    and "psOIDC (polSpec pol) = Some oi \<Longrightarrow> pre \<and> pl \<and> (\<exists>q. validateOIDC net oi q = [])"
    and "psWAF (polSpec pol) = Some waf \<Longrightarrow> pre \<and> pl \<and> ap \<and> (\<exists>q. validateWAF net waf q = Some [])"
proof -
  note ok = validatePolicySpec_Nil [OF acceptedPolicy [OF assms], unfolded policyBlocks_def]
  show "psAccessControl (polSpec pol) = Some ac \<Longrightarrow> \<exists>q. validateAccessControl net ac q = []" using ok(1) by auto
  show "psRateLimit (polSpec pol) = Some rl \<Longrightarrow> pre \<and> (\<exists>q. validateRateLimit rl q pl = [])"
    using ok(1) by (auto split: if_splits)
  show "psJWTAuth (polSpec pol) = Some jwt \<Longrightarrow> pre \<and> pl \<and> (\<exists>q. validateJWT jwt q = [])"
    using ok(1) by (auto simp: Let_def split: if_splits)
  show "psIngressMTLS (polSpec pol) = Some im \<Longrightarrow> pre \<and> (\<exists>q. validateIngressMTLS im q = [])"
    using ok(1) by (auto split: if_splits)
  show "psEgressMTLS (polSpec pol) = Some em \<Longrightarrow> pre \<and> (\<exists>q. validateEgressMTLS em q = [])"
    using ok(1) by (auto split: if_splits)
  show "psOIDC (polSpec pol) = Some oi \<Longrightarrow> pre \<and> pl \<and> (\<exists>q. validateOIDC net oi q = [])"
    using ok(1) by (auto simp: Let_def split: if_splits)
  show "psWAF (polSpec pol) = Some waf \<Longrightarrow> pre \<and> pl \<and> ap \<and> (\<exists>q. validateWAF net waf q = Some [])"
    using ok(1) by (auto split: if_splits option.splits)
qed

lemma policyBlocks_count:
  "list_all2 (\<lambda>b k. \<forall>m. b = Some ([], False, m) \<longrightarrow> m = of_bool k) (policyBlocks net s p pl pre ap)
     [psAccessControl s \<noteq> None, psRateLimit s \<noteq> None, psJWTAuth s \<noteq> None, psIngressMTLS s \<noteq> None,
      psEgressMTLS s \<noteq> None, psOIDC s \<noteq> None, psWAF s \<noteq> None]"
  unfolding policyBlocks_def absentBlock_def Let_def list_all2_Cons
  by (intro conjI; auto simp: map_option_case split: option.split_asm if_split_asm)

lemma sum_list_count:
  "list_all2 (\<lambda>b k. \<forall>m. b = Some ([], False, m) \<longrightarrow> m = of_bool k) bs ks \<Longrightarrow> \<forall>b\<in>set bs. \<exists>m. b = Some ([], False, m) \<Longrightarrow>
    sum_list (map (\<lambda>b. case b of Some (_, _, m) \<Rightarrow> m | None \<Rightarrow> 0) bs) = length (filter id ks)"
  by (induction rule: list_all2_induct) auto

lemma policyKinds_one:
  assumes "ValidatePolicy net pol pl pre ap = Some None"
  shows "policyKinds (polSpec pol) = 1"
proof -
  note ok = validatePolicySpec_Nil [OF acceptedPolicy [OF assms]]
  show ?thesis using sum_list_count [OF policyBlocks_count ok(1)] ok(2) unfolding policyKinds_def by simp
qed

section \<open>Texts\<close>

lemma realm_is_header_value: "jwtRealmRe = headerValueRe"
  by (simp add: jwtRealmRe_def headerValueRe_def)

text \<open>The one variable that an accepted token may name.\<close>

definition nameByte :: "char \<Rightarrow> bool" where
  "nameByte c = (c = CHR ''_'' \<or> isAlnum c)"

definition requestVariable :: "string \<Rightarrow> bool" where
  "requestVariable t =
     (\<exists>name v. name \<in> set [''arg'', ''http'', ''cookie''] \<and> v \<noteq> [] \<and> list_all nameByte v \<and> t = CHR ''$'' # name @ CHR ''_'' # v)"

lemma splitOnN_one: "splitOnN c (Suc 0) s = [s]"
  by (cases s) auto

lemma splitOnN_pair: "splitOnN c 2 s = [a, b] \<Longrightarrow> s = a @ c # b \<and> c \<notin> set a"
proof (induction s arbitrary: a)
  case (Cons x xs)
  show ?case
  proof (cases "x = c")
    case True
    then show ?thesis using Cons.prems splitOnN_one [of c xs] by auto
  next
    case False
    then have "splitOnN c 2 xs = [tl a, b]" "a = x # tl a" using Cons.prems by (auto split: list.splits)
    then show ?thesis using Cons.IH [of "tl a"] False by (metis append_Cons set_ConsD)
  qed
qed simp

lemma headerLike_bytes:
  assumes "isValidSpecialHeaderLikeVariable v = []"
  shows "v \<noteq> [] \<and> list_all nameByte v"
proof -
  have "v \<noteq> []" "CHR ''-'' \<notin> set v" "list_all (\<lambda>c. c = CHR ''-'' \<or> isAlnum c) (replaceChar (CHR ''_'') (CHR ''-'') v)"
    using assms by (auto simp: isValidSpecialHeaderLikeVariable_def IsHTTPHeaderName_ok replaceChar_def split: if_splits)
  moreover have "nameByte c" if "c \<in> set v" for c
  proof (cases "c = CHR ''_''")
    case False
    then have "c \<in> set (replaceChar (CHR ''_'') (CHR ''-'') v)" using that by (force simp: replaceChar_def)
    then have "c = CHR ''-'' \<or> isAlnum c" using calculation(3) by (simp add: list_all_iff)
    then show ?thesis using calculation(2) that by (auto simp: nameByte_def)
  qed (simp add: nameByte_def)
  ultimately show ?thesis by (simp add: list_all_iff)
qed

lemma underscoreName_bytes: "matchString underscoreNameRe v \<Longrightarrow> v \<noteq> [] \<and> list_all nameByte v"
  by (simp add: match_lang underscoreNameRe_def nameByte_def list_all_iff)

lemma special_prefix:
  assumes "list_ex (hasPrefix w) jwtTokenSpecialVariables"
  shows "\<not> (hasPrefix w ''jwt_header'' \<or> hasPrefix w ''jwt_claim'')"
proof -
  obtain q where q: "q \<in> set jwtTokenSpecialVariables" "hasPrefix w q" using assms by (auto simp: list_ex_iff)
  then have "w \<noteq> []" "hd w \<noteq> CHR ''j''"
    by (cases w; auto simp: jwtTokenSpecialVariables_def hasPrefix_def)+
  then show ?thesis by (cases w) (auto simp: hasPrefix_def)
qed

lemma special_variable_parts:
  assumes "validateSpecialVariable w p pl = []" and "\<not> (hasPrefix w ''jwt_header'' \<or> hasPrefix w ''jwt_claim'')"
  shows "\<exists>name v. w = name @ CHR ''_'' # v \<and> name \<in> set [''arg'', ''http'', ''cookie''] \<and> v \<noteq> [] \<and> list_all nameByte v"
proof -
  obtain name v where split: "splitOnN (CHR ''_'') 2 w = [name, v]" and parsed: "parseSpecialVariable w p = Inr (name, v)"
    using assms
    by (auto simp: validateSpecialVariable_def parseSpecialVariable_def split: list.splits sum.splits if_splits)
  have w: "w = name @ CHR ''_'' # v" "CHR ''_'' \<notin> set name" using splitOnN_pair [OF split] by auto
  have "name \<noteq> ''jwt_header''" "name \<noteq> ''jwt_claim''" using w(2) by auto
  then have "name \<in> set [''arg'', ''http'', ''cookie'']" and "v \<noteq> [] \<and> list_all nameByte v"
    using assms(1) parsed headerLike_bytes underscoreName_bytes
    by (auto simp: validateSpecialVariable_def isArgumentName_def isCookieName_def split: if_splits)
  then show ?thesis using w(1) by blast
qed

lemma accepted_token:
  assumes "validateJWTToken t p = []"
  shows "t = '''' \<or> requestVariable t"
proof (cases t)
  case (Cons c cs)
  then have two: "length (splitOn (CHR ''$'') (c # cs)) = 2" and special: "list_ex (hasPrefix cs) jwtTokenSpecialVariables"
    and ok: "validateSpecialVariable cs p True = []"
    using assms by (auto simp: validateJWTToken_def split: if_splits)
  obtain name v where v: "cs = name @ CHR ''_'' # v" "name \<in> set [''arg'', ''http'', ''cookie'']" "v \<noteq> []" "list_all nameByte v"
    using special_variable_parts [OF ok special_prefix [OF special]] by blast
  have "\<not> nameByte (CHR ''$'')" by code_simp
  then have "CHR ''$'' \<notin> set v" using v(4) by (auto simp: list_all_iff)
  then have "CHR ''$'' \<notin> set cs" using v(1,2) by auto
  then have "splitOn (CHR ''$'') cs = [cs]" using splitOn_join [of "[cs]"] by simp
  then have "c = CHR ''$''" using two by (simp split: if_splits)
  then have "t = CHR ''$'' # name @ CHR ''_'' # v" using Cons v(1) by simp
  then show ?thesis using v(2-4) unfolding requestVariable_def by blast
qed simp

lemma splitOn_prefix: "hasPrefix s w \<Longrightarrow> c \<notin> set w \<Longrightarrow> hasPrefix (hd (splitOn c s)) w"
proof (induction s arbitrary: w)
  case (Cons x xs)
  show ?case
  proof (cases w)
    case (Cons y ys)
    then have "y = x" "hasPrefix xs ys" "c \<noteq> x" using Cons.prems by (auto simp: hasPrefix_def)
    then show ?thesis using Cons.IH [of ys] Cons Cons.prems(2) by (auto simp: hasPrefix_def split: list.splits)
  qed (simp add: hasPrefix_def)
qed (simp add: hasPrefix_def)

lemma hasPrefix_contains: "hasPrefix s w \<Longrightarrow> containsStr s w"
  by (cases s) (auto simp: hasPrefix_def)

text \<open>A word without separators that occurs in a string occurs in one of its parts.\<close>

lemma splitOn_contains: "containsStr s w \<Longrightarrow> c \<notin> set w \<Longrightarrow> \<exists>q\<in>set (splitOn c s). containsStr q w"
proof (induction s)
  case (Cons x xs)
  show ?case
  proof (cases "hasPrefix (x # xs) w")
    case True
    then show ?thesis
      using hasPrefix_contains [OF splitOn_prefix [OF True Cons.prems(2)]] by (meson list.set_sel(1) splitOn_not_Nil)
  next
    case False
    then obtain q where q: "q \<in> set (splitOn c xs)" "containsStr q w" using Cons by auto
    obtain p ps where ps: "splitOn c xs = p # ps" by (meson splitOn_not_Nil neq_Nil_conv)
    show ?thesis using q ps by auto
  qed
qed simp

lemma accepted_scope:
  assumes "validateOIDCScope s p = []"
  shows "''openid'' \<in> set (splitOn (CHR ''+'') s) \<and> set (splitOn (CHR ''+'') s) \<subseteq> set validScopes"
proof -
  have openid: "containsStr s ''openid''" and all: "set (splitOn (CHR ''+'') s) \<subseteq> set validScopes"
    using assms by (auto simp: validateOIDCScope_def split: if_splits)
  obtain q where q: "q \<in> set (splitOn (CHR ''+'') s)" "containsStr q ''openid''"
    using splitOn_contains [OF openid, of "CHR ''+''"] by auto
  have "\<forall>v\<in>set validScopes. containsStr v ''openid'' \<longrightarrow> v = ''openid''" by code_simp
  then show ?thesis using all q by blast
qed

text \<open>What an accepted rate limit, JWT or OIDC policy may bring into the configuration.\<close>

definition policyTextsSafe :: "PolicySpec \<Rightarrow> bool" where
  "policyTextsSafe s =
     ((\<forall>rl. psRateLimit s = Some rl \<longrightarrow>
          quotedSafely (rlKey rl) \<and> knownVariables rateLimitKeyVariables rateLimitKeySpecialVariables (rlKey rl))
      \<and> (\<forall>jwt. psJWTAuth s = Some jwt \<longrightarrow> plainText (jwtRealm jwt) \<and> (jwtToken jwt = '''' \<or> requestVariable (jwtToken jwt)))
      \<and> (\<forall>oi. psOIDC s = Some oi \<longrightarrow>
            plainText (oiClientID oi) \<and> (oiScope oi = ''''
               \<or> ''openid'' \<in> set (splitOn (CHR ''+'') (oiScope oi)) \<and> set (splitOn (CHR ''+'') (oiScope oi)) \<subseteq> set validScopes)))"

lemma texts_of_parts:
  "validateRateLimit rl q pl = [] \<Longrightarrow>
    quotedSafely (rlKey rl) \<and> knownVariables rateLimitKeyVariables rateLimitKeySpecialVariables (rlKey rl)"
  "validateJWT jwt q = [] \<Longrightarrow> plainText (jwtRealm jwt) \<and> (jwtToken jwt = '''' \<or> requestVariable (jwtToken jwt))"
  "validateOIDC net oi q = [] \<Longrightarrow> plainText (oiClientID oi)
     \<and> (oiScope oi = '''' \<or> ''openid'' \<in> set (splitOn (CHR ''+'') (oiScope oi)) \<and> set (splitOn (CHR ''+'') (oiScope oi)) \<subseteq> set validScopes)"
proof -
  assume "validateRateLimit rl q pl = []"
  then have "validateRateLimitKey (rlKey rl) (child q ''key'') pl = []" by (simp add: validateRateLimit_def)
  then show "quotedSafely (rlKey rl) \<and> knownVariables rateLimitKeyVariables rateLimitKeySpecialVariables (rlKey rl)"
    using escaped_safely variables_known by (auto simp: validateRateLimitKey_def split: if_splits)
next
  assume "validateJWT jwt q = []"
  then have "validateJWTRealm (jwtRealm jwt) (child q ''realm'') = []" "validateJWTToken (jwtToken jwt) (child q ''token'') = []"
    by (auto simp: validateJWT_def split: if_splits)
  then show "plainText (jwtRealm jwt) \<and> (jwtToken jwt = '''' \<or> requestVariable (jwtToken jwt))"
    using header_value_plain accepted_token by (auto simp: validateJWTRealm_def realm_is_header_value split: if_splits)
next
  assume "validateOIDC net oi q = []"
  then have "validateClientID (oiClientID oi) (child q ''clientID'') = []"
    and "oiScope oi \<noteq> '''' \<longrightarrow> validateOIDCScope (oiScope oi) (child q ''scope'') = []"
    by (auto simp: validateOIDC_def split: if_splits)
  then show "plainText (oiClientID oi)
     \<and> (oiScope oi = '''' \<or> ''openid'' \<in> set (splitOn (CHR ''+'') (oiScope oi)) \<and> set (splitOn (CHR ''+'') (oiScope oi)) \<subseteq> set validScopes)"
    using header_value_plain accepted_scope by (auto simp: validateClientID_def isValidHeaderValue_def split: if_splits)
qed

section \<open>Samples\<close>

definition emptyPolicy :: PolicySpec where
  "emptyPolicy = \<lparr>psAccessControl = None, psRateLimit = None, psJWTAuth = None, psIngressMTLS = None, psEgressMTLS = None,
     psOIDC = None, psWAF = None\<rparr>"

definition sampleNet :: NetLib where
  "sampleNet = \<lparr>nlIsIP = (\<lambda>_. True), nlIsCIDR = (\<lambda>_. False), nlParseURL = (\<lambda>_. Inl ''unsupported''), nlSplitHostPort = (\<lambda>_. None)\<rparr>"

definition sampleJWT :: JWTAuth where
  "sampleJWT = \<lparr>jwtRealm = ''My API'', jwtSecret = ''jwk'', jwtToken = ''$http_token''\<rparr>"

definition jwtPolicy :: Policy where
  "jwtPolicy = \<lparr>polMeta = sampleMeta ''n'' ''jwt'' ''p'' 1 [], polSpec = emptyPolicy\<lparr>psJWTAuth := Some sampleJWT\<rparr>\<rparr>"

lemma jwtPolicy_accepted: "ValidatePolicy sampleNet jwtPolicy True True False = Some None"
  by code_simp

section \<open>Accepted policies\<close>

text \<open>
  C34: An accepted policy is of exactly one kind. The kinds under preview need the flag that
  enables them, JWT, OIDC and WAF also need NGINX Plus, WAF also needs App Protect.
\<close>

theorem accepted_policy_kind:
  assumes "ValidatePolicy net pol isPlus enablePreviewPolicies enableAppProtect = Some None"
  shows "policyKinds (polSpec pol) = 1 \<and> (needsPreview (polSpec pol) \<longrightarrow> enablePreviewPolicies)
    \<and> (needsPlus (polSpec pol) \<longrightarrow> isPlus) \<and> (psWAF (polSpec pol) \<noteq> None \<longrightarrow> enableAppProtect)"
  using policyKinds_one [OF assms] policy_parts(2-7) [OF assms] unfolding needsPreview_def needsPlus_def by blast

theorem accepted_policy_kind_witness: "policyKinds (polSpec jwtPolicy) = 1"
  using accepted_policy_kind [OF jwtPolicy_accepted] by blast

text \<open>
  C35: What an accepted policy brings into the configuration: the realm of a JWT policy and the
  client id of an OIDC policy end at the quotes the templates put around them and have no
  variables, the token of a JWT policy is exactly one variable of the request, and the scopes of
  an OIDC policy are known ones with openid among them. The key of a rate limit has known
  variables only, and would end at a quote; but the template puts no quotes around the key.
\<close>

theorem accepted_policy_texts:
  assumes "ValidatePolicy net pol isPlus enablePreviewPolicies enableAppProtect = Some None"
  shows "policyTextsSafe (polSpec pol)"
  using policy_parts(2,3,6) [OF assms] texts_of_parts unfolding policyTextsSafe_def by meson

theorem accepted_policy_texts_witness: "plainText ''My API'' \<and> requestVariable ''$http_token''"
  using accepted_policy_texts [OF jwtPolicy_accepted]
  by (simp add: policyTextsSafe_def jwtPolicy_def sampleJWT_def emptyPolicy_def)

section \<open>Sizes of zones\<close>

lemma toLower_digits: "list_all isDigit s \<Longrightarrow> map toLowerByte s = s"
  by (induction s) (auto simp: toLowerByte_def byte_classes)

lemma trimSuffix_digits: "list_all isDigit s \<Longrightarrow> \<not> isDigit c \<Longrightarrow> trimSuffix s [c] = s"
proof -
  assume s: "list_all isDigit s" and c: "\<not> isDigit c"
  have "c \<notin> set (drop (length s - 1) s)" using s c in_set_dropD by (fastforce simp: list_all_iff)
  then show ?thesis by (auto simp: trimSuffix_def hasSuffix_def)
qed

lemma trimSuffix_unit [simp]: "trimSuffix (s @ [c]) [d] = (if c = d then s else s @ [c])"
  by (auto simp: trimSuffix_def hasSuffix_def)

lemma goAtoi_digits: "goAtoi (natDigits n) = Inr i \<Longrightarrow> i = int n"
proof -
  assume "goAtoi (natDigits n) = Inr i"
  then have "goParseUint 64 (natDigits n) \<noteq> Inl ErrSyntax" and "\<forall>m. goParseUint 64 (natDigits n) = Inr m \<longrightarrow> i = int m"
    using natDigits_no_sign [of n] natDigits_not_Nil [of n]
    by (auto simp: goAtoi_def goParseInt_def Let_def split: sum.splits num_error.splits if_splits)
  moreover have "goParseUint 64 (natDigits n) \<noteq> Inl ErrRange"
    using \<open>goAtoi (natDigits n) = Inr i\<close> natDigits_no_sign [of n] natDigits_not_Nil [of n]
    by (auto simp: goAtoi_def goParseInt_def Let_def split: sum.splits num_error.splits if_splits)
  ultimately show ?thesis
    by (cases "goParseUint 64 (natDigits n)") (use num_error.exhaust in \<open>auto simp: goParseUint_Inr_iff numVal_natDigits\<close>)
qed

lemma goAtoi_small: "n < 2 ^ 63 \<Longrightarrow> goAtoi (natDigits n) = Inr (int n)"
  using parse_itoa [of 64 "int n"] by (simp add: goAtoi_def itoa_def)

lemma goAtoi_unit: "\<not> isDigit c \<Longrightarrow> \<exists>e. goAtoi (natDigits n @ [c]) = Inl e"
proof (rule ccontr)
  assume c: "\<not> isDigit c" and "\<nexists>e. goAtoi (natDigits n @ [c]) = Inl e"
  then obtain i where "goAtoi (natDigits n @ [c]) = Inr i" by (cases "goAtoi (natDigits n @ [c])") auto
  then obtain m where "goParseUint 64 (natDigits n @ [c]) = Inr m"
    using natDigits_no_sign [of n] natDigits_not_Nil [of n]
    by (auto simp: goAtoi_def goParseInt_def Let_def split: sum.splits num_error.splits if_splits)
  then show False using c by (simp add: goParseUint_Inr_iff)
qed

lemma small_number:
  "(case goAtoi (natDigits n) of Inr i \<Rightarrow> i < 32 | Inl _ \<Rightarrow> False) \<longleftrightarrow> n < 32"
  "(case goAtoi (natDigits n) of Inr i \<Rightarrow> i = 0 | Inl _ \<Rightarrow> False) \<longleftrightarrow> n = 0"
proof -
  have "goAtoi (natDigits n) = Inr (int n) \<or> (\<exists>e. goAtoi (natDigits n) = Inl e) \<and> 2 ^ 63 \<le> n"
    using goAtoi_small [of n] goAtoi_digits [of n] by (cases "goAtoi (natDigits n)") (auto simp: not_less [symmetric])
  then show "(case goAtoi (natDigits n) of Inr i \<Rightarrow> i < 32 | Inl _ \<Rightarrow> False) \<longleftrightarrow> n < 32"
    "(case goAtoi (natDigits n) of Inr i \<Rightarrow> i = 0 | Inl _ \<Rightarrow> False) \<longleftrightarrow> n = 0"
    by auto
qed

lemma size_accepted:
  assumes "u = '''' \<or> (\<exists>c\<in>set ''kKmM''. u = [c])"
  shows "validateSize (natDigits n @ u) p = []"
proof -
  have "u \<in> lang (Opt (Cls (\<lambda>c. c \<in> set ''kKmM'')))" using assms by auto
  moreover have "natDigits n \<in> lang digitsRe"
    using natDigits_digits natDigits_not_Nil by (simp add: digitsRe_def list_all_iff)
  ultimately have l: "natDigits n @ u \<in> lang sizeRegexp" unfolding sizeRegexp_def by (intro in_Seq)
  then have "trimSpace (natDigits n @ u) = natDigits n @ u" using size_ends trimSpace_alnum by blast
  then show ?thesis using l by (simp add: validateSize_def ParseSize_def match_lang isErr_def)
qed

text \<open>
  Which sizes of a rate limit zone are accepted: a number with a unit of megabytes when it
  is not zero, and any other number from 32 on, with a unit of kilobytes or with none. Without a
  unit NGINX reads the number as bytes, so 32 is accepted although it is far below the 31k that
  the message names and that are rejected.
\<close>

theorem rate_limit_zone_sizes:
  assumes "u \<in> set ['''', ''k'', ''K'', ''m'', ''M'']"
  shows "validateRateLimitZoneSize (natDigits n @ u) p = [] \<longleftrightarrow> (if u \<in> set [''m'', ''M''] then 1 \<le> n else 32 \<le> n)"
proof -
  let ?kb = "\<lambda>s. case goAtoi (trimSuffix s ''k'') of Inr i \<Rightarrow> i < 32 | Inl _ \<Rightarrow> False"
  let ?mb = "\<lambda>s. case goAtoi (trimSuffix s ''m'') of Inr i \<Rightarrow> i = 0 | Inl _ \<Rightarrow> False"
  have units: "\<not> isDigit (CHR ''k'')" "\<not> isDigit (CHR ''m'')" by code_simp+
  obtain e where e: "goAtoi (natDigits n @ ''m'') = Inl e" using goAtoi_unit [OF units(2)] by auto
  obtain e' where e': "goAtoi (natDigits n @ ''k'') = Inl e'" using goAtoi_unit [OF units(1)] by auto
  have plain: "trimSuffix (natDigits n) ''k'' = natDigits n" "trimSuffix (natDigits n) ''m'' = natDigits n"
    using natDigits_digits units by (simp_all add: trimSuffix_digits)
  have lower: "map toLowerByte (natDigits n @ u) = natDigits n @ map toLowerByte u"
    using natDigits_digits by (simp add: toLower_digits)
  have unit: "map toLowerByte u = (if u \<in> set [''m'', ''M''] then ''m'' else if u = '''' then '''' else ''k'')"
  proof -
    have "\<forall>v\<in>set ['''', ''k'', ''K'', ''m'', ''M''].
        map toLowerByte v = (if v \<in> set [''m'', ''M''] then ''m'' else if v = '''' then '''' else ''k'')"
      by code_simp
    then show ?thesis using assms by blast
  qed
  have size: "validateSize (natDigits n @ u) p = []" using assms by (intro size_accepted) auto
  have "validateRateLimitZoneSize (natDigits n @ u) p = []
      \<longleftrightarrow> \<not> ?kb (natDigits n @ map toLowerByte u) \<and> \<not> ?mb (natDigits n @ map toLowerByte u)"
    using natDigits_not_Nil [of n] size lower by (simp add: validateRateLimitZoneSize_def Let_def)
  also have "\<dots> \<longleftrightarrow> (if u \<in> set [''m'', ''M''] then 1 \<le> n else 32 \<le> n)"
    unfolding unit using e e' plain small_number [of n] by (auto simp: not_less)
  finally show ?thesis .
qed

theorem rate_limit_zone_sizes_witness:
  "validateRateLimitZoneSize ''32'' [] = [] \<and> validateRateLimitZoneSize ''31k'' [] \<noteq> []"
proof -
  have "natDigits 32 = ''32''" "natDigits 31 = ''31''"
    by (simp_all add: natDigits.simps [of 32] natDigits.simps [of 31] natDigits.simps [of 3] char_of_def bit_0)
  then show ?thesis using rate_limit_zone_sizes [of "''''" 32 "[]"] rate_limit_zone_sizes [of "''k''" 31 "[]"] by simp
qed

end
