(* ===== verification/Secrets.thy ===== *)
theory Secrets
  imports Api_Types Validation_Common
begin

text \<open>
  Package \<open>internal/k8s/secrets\<close>: the validation of secrets and \<open>LocalSecretStore\<close>, which keeps
  every secret of a supported type with its validation error and the path of its file. The file
  is written when a resource asks for the secret. Of \<open>crypto/tls\<close>, \<open>crypto/x509\<close> and
  \<open>encoding/pem\<close> the validators use three functions, the fields of a record: the errors of
  \<open>X509KeyPair\<close> and \<open>ParseCertificate\<close>, and the type and bytes of the first PEM block.

  The store reaches the file system through the interface \<open>SecretFileManager\<close>, a record of two
  functions on the state of the files. The Configurator implements it (\<open>AddOrUpdateSecret\<close> and
  \<open>DeleteSecret\<close> of \<open>internal/configs/configurator.go\<close>) with the manager of
  \<open>internal/nginx/manager.go\<close>, whose files are a map from paths to contents. The directory of
  the secrets is a clean path, so that \<open>path.Join\<close> only puts a slash between it and a name.
\<close>

section \<open>Secrets\<close>

text \<open>A Secret of the Kubernetes core API, and the controller's reference to one.\<close>

record Secret =
  secMeta :: ObjectMeta
  secType :: string
  secData :: "string gomap"

record SecretReference =
  srSecret :: "Secret option"
  srPath :: string
  srError :: "string option"

record CryptoLib =
  clX509KeyPair :: "string \<Rightarrow> string \<Rightarrow> string option"
  clPemDecode :: "string \<Rightarrow> (string \<times> string) option"
  clParseCertificate :: "string \<Rightarrow> string option"

definition TLSCertKey :: string where "TLSCertKey = ''tls.crt''"
definition TLSPrivateKeyKey :: string where "TLSPrivateKeyKey = ''tls.key''"
definition SecretTypeTLS :: string where "SecretTypeTLS = ''kubernetes.io/tls''"

definition JWTKeyKey :: string where "JWTKeyKey = ''jwk''"
definition CAKey :: string where "CAKey = ''ca.crt''"
definition ClientSecretKey :: string where "ClientSecretKey = ''client-secret''"
definition SecretTypeCA :: string where "SecretTypeCA = ''nginx.org/ca''"
definition SecretTypeJWK :: string where "SecretTypeJWK = ''nginx.org/jwk''"
definition SecretTypeOIDC :: string where "SecretTypeOIDC = ''nginx.org/oidc''"

text \<open>A missing field of the data reads as no bytes.\<close>

definition dataField :: "Secret \<Rightarrow> string \<Rightarrow> string" where
  "dataField secret k = (case gget (secData secret) k of None \<Rightarrow> [] | Some v \<Rightarrow> v)"

section \<open>Validation\<close>

definition ValidateTLSSecret :: "CryptoLib \<Rightarrow> Secret \<Rightarrow> string option" where
  "ValidateTLSSecret lib secret =
     (if secType secret \<noteq> SecretTypeTLS then Some (''TLS Secret must be of the type '' @ SecretTypeTLS)
      else case clX509KeyPair lib (dataField secret TLSCertKey) (dataField secret TLSPrivateKeyKey) of
          Some err \<Rightarrow> Some (''Failed to validate TLS cert and key: '' @ err)
        | None \<Rightarrow> None)"

definition ValidateJWKSecret :: "Secret \<Rightarrow> string option" where
  "ValidateJWKSecret secret =
     (if secType secret \<noteq> SecretTypeJWK then Some (''JWK secret must be of the type '' @ SecretTypeJWK)
      else if \<not> ghas (secData secret) JWTKeyKey then Some (''JWK secret must have the data field '' @ JWTKeyKey)
      else None)"

definition ValidateCASecret :: "CryptoLib \<Rightarrow> Secret \<Rightarrow> string option" where
  "ValidateCASecret lib secret =
     (if secType secret \<noteq> SecretTypeCA then Some (''CA secret must be of the type '' @ SecretTypeCA)
      else if \<not> ghas (secData secret) CAKey then Some (''CA secret must have the data field '' @ CAKey)
      else case clPemDecode lib (dataField secret CAKey) of
          None \<Rightarrow> Some (''The data field '' @ CAKey @ '' must hold a valid CERTIFICATE PEM block'')
        | Some (typ, bytes) \<Rightarrow>
            (if typ \<noteq> ''CERTIFICATE''
             then Some (''The data field '' @ CAKey @ '' must hold a valid CERTIFICATE PEM block, but got '' @ sq typ)
             else case clParseCertificate lib bytes of
                 Some err \<Rightarrow> Some (''Failed to validate certificate: '' @ err)
               | None \<Rightarrow> None))"

text \<open>\<open>^([^"$\\\s]|\\[^$])*$\<close>\<close>

definition clientSecretValueRe :: re where
  "clientSecretValueRe =
     Star (Alt (Cls (\<lambda>c. c \<noteq> CHR 0x22 \<and> c \<noteq> CHR ''$'' \<and> c \<noteq> CHR 0x5C \<and> \<not> reSpace c))
       (Seq (Cls (\<lambda>c. c = CHR 0x5C)) (Cls (\<lambda>c. c \<noteq> CHR ''$''))))"

definition isValidClientSecretValue :: "string \<Rightarrow> string \<times> bool" where
  "isValidClientSecretValue s =
     (if \<not> matchString clientSecretValueRe s
      then (''It must contain valid ASCII characters, must have all '' @ sq [CHR 0x22]
              @ '' escaped and must not contain any '' @ sq ''$'' @ '' or whitespaces (''
              @ sq [CHR 0x5C, CHR ''n''] @ '', '' @ sq [CHR 0x5C, CHR ''t'']
              @ '' etc.) or end with an unescaped '' @ sq [CHR 0x5C], False)
      else ('''', True))"

definition ValidateOIDCSecret :: "Secret \<Rightarrow> string option" where
  "ValidateOIDCSecret secret =
     (if secType secret \<noteq> SecretTypeOIDC then Some (''OIDC secret must be of the type '' @ SecretTypeOIDC)
      else case gget (secData secret) ClientSecretKey of
          None \<Rightarrow> Some (''OIDC secret must have the data field '' @ ClientSecretKey)
        | Some clientSecret \<Rightarrow>
            (let (msg, ok) = isValidClientSecretValue clientSecret
             in if \<not> ok then Some (''OIDC client secret is invalid: '' @ msg) else None))"

definition IsSupportedSecretType :: "string \<Rightarrow> bool" where
  "IsSupportedSecretType t = (t = SecretTypeTLS \<or> t = SecretTypeCA \<or> t = SecretTypeJWK \<or> t = SecretTypeOIDC)"

definition ValidateSecret :: "CryptoLib \<Rightarrow> Secret \<Rightarrow> string option" where
  "ValidateSecret lib secret =
     (if secType secret = SecretTypeTLS then ValidateTLSSecret lib secret
      else if secType secret = SecretTypeJWK then ValidateJWKSecret secret
      else if secType secret = SecretTypeCA then ValidateCASecret lib secret
      else if secType secret = SecretTypeOIDC then ValidateOIDCSecret secret
      else Some (''Secret is of the unsupported type '' @ secType secret))"

section \<open>The store\<close>

record 'fs SecretFileManager =
  fmAddOrUpdateSecret :: "Secret \<Rightarrow> 'fs \<Rightarrow> string \<times> 'fs"
  fmDeleteSecret :: "string \<Rightarrow> 'fs \<Rightarrow> 'fs"

record 'fs LocalSecretStore =
  ssSecrets :: "SecretReference gomap"
  ssFiles :: 'fs

definition secretKey :: "Secret \<Rightarrow> string" where
  "secretKey secret = getResourceKey (secMeta secret)"

definition AddOrUpdateSecret ::
    "CryptoLib \<Rightarrow> 'fs SecretFileManager \<Rightarrow> Secret \<Rightarrow> 'fs LocalSecretStore \<Rightarrow> 'fs LocalSecretStore" where
  "AddOrUpdateSecret lib manager secret s =
     (let secretRef = (case gget (ssSecrets s) (secretKey secret) of
                         None \<Rightarrow> \<lparr>srSecret = Some secret, srPath = '''', srError = None\<rparr>
                       | Some ref \<Rightarrow> ref\<lparr>srSecret := Some secret\<rparr>);
          err = ValidateSecret lib secret;
          (path, files) =
            (if srPath secretRef \<noteq> ''''
             then (if err \<noteq> None then ('''', fmDeleteSecret manager (secretKey secret) (ssFiles s))
                   else fmAddOrUpdateSecret manager secret (ssFiles s))
             else ('''', ssFiles s))
      in \<lparr>ssSecrets = gput (secretKey secret) (secretRef\<lparr>srError := err, srPath := path\<rparr>) (ssSecrets s), ssFiles = files\<rparr>)"

definition DeleteSecret :: "'fs SecretFileManager \<Rightarrow> string \<Rightarrow> 'fs LocalSecretStore \<Rightarrow> 'fs LocalSecretStore" where
  "DeleteSecret manager key s =
     (case gget (ssSecrets s) key of
        None \<Rightarrow> s
      | Some storedSecret \<Rightarrow>
          \<lparr>ssSecrets = gdel key (ssSecrets s),
           ssFiles = (if srPath storedSecret = '''' then ssFiles s else fmDeleteSecret manager key (ssFiles s))\<rparr>)"

text \<open>The reference is shared with the store: writing the file also sets the path of the stored one.\<close>

definition GetSecret ::
    "'fs SecretFileManager \<Rightarrow> string \<Rightarrow> 'fs LocalSecretStore \<Rightarrow> (SecretReference \<times> 'fs LocalSecretStore) option" where
  "GetSecret manager key s =
     (case gget (ssSecrets s) key of
        None \<Rightarrow> Some (\<lparr>srSecret = None, srPath = '''', srError = Some (''secret doesn'' @ [CHR 0x27] @ ''t exist or of an unsupported type'')\<rparr>, s)
      | Some ref \<Rightarrow>
          (if srError ref = None \<and> srPath ref = ''''
           then (case srSecret ref of
                   None \<Rightarrow> None
                 | Some secret \<Rightarrow>
                     (let (path, files) = fmAddOrUpdateSecret manager secret (ssFiles s);
                          ref' = ref\<lparr>srPath := path\<rparr>
                      in Some (ref', \<lparr>ssSecrets = gput key ref' (ssSecrets s), ssFiles = files\<rparr>)))
           else Some (ref, s)))"

section \<open>The files of the Configurator\<close>

type_synonym files = "string gomap"

definition GetFilenameForSecret :: "string \<Rightarrow> string \<Rightarrow> string" where
  "GetFilenameForSecret secretsPath name = secretsPath @ ''/'' @ name"

definition CreateSecret :: "string \<Rightarrow> string \<Rightarrow> string \<Rightarrow> files \<Rightarrow> string \<times> files" where
  "CreateSecret secretsPath name content fs =
     (GetFilenameForSecret secretsPath name, gput (GetFilenameForSecret secretsPath name) content fs)"

definition removeSecretFile :: "string \<Rightarrow> string \<Rightarrow> files \<Rightarrow> files" where
  "removeSecretFile secretsPath name fs = gdel (GetFilenameForSecret secretsPath name) fs"

definition objectMetaToFileName :: "ObjectMeta \<Rightarrow> string" where
  "objectMetaToFileName m = omNamespace m @ ''-'' @ omName m"

definition keyToFileName :: "string \<Rightarrow> string" where
  "keyToFileName key = replaceChar (CHR ''/'') (CHR ''-'') key"

definition GenerateCertAndKeyFileContent :: "Secret \<Rightarrow> string" where
  "GenerateCertAndKeyFileContent secret =
     dataField secret TLSCertKey @ [CHR 0x0A] @ dataField secret TLSPrivateKeyKey"

definition GenerateCAFileContent :: "Secret \<Rightarrow> string" where
  "GenerateCAFileContent secret = dataField secret CAKey"

definition cnfAddOrUpdateSecret :: "string \<Rightarrow> Secret \<Rightarrow> files \<Rightarrow> string \<times> files" where
  "cnfAddOrUpdateSecret secretsPath secret fs =
     (let name = objectMetaToFileName (secMeta secret)
      in if secType secret = SecretTypeCA then CreateSecret secretsPath name (GenerateCAFileContent secret) fs
         else if secType secret = SecretTypeJWK then CreateSecret secretsPath name (dataField secret JWTKeyKey) fs
         else if secType secret = SecretTypeOIDC then ('''', fs)
         else CreateSecret secretsPath name (GenerateCertAndKeyFileContent secret) fs)"

definition cnfDeleteSecret :: "string \<Rightarrow> string \<Rightarrow> files \<Rightarrow> files" where
  "cnfDeleteSecret secretsPath key fs = removeSecretFile secretsPath (keyToFileName key) fs"

definition configuratorFiles :: "string \<Rightarrow> files SecretFileManager" where
  "configuratorFiles secretsPath =
     \<lparr>fmAddOrUpdateSecret = cnfAddOrUpdateSecret secretsPath, fmDeleteSecret = cnfDeleteSecret secretsPath\<rparr>"

end
