(* ===== verification/Secrets_Properties.thy ===== *)
theory Secrets_Properties
  imports Secrets
begin

text \<open>
  What the store of secrets promises whatever implements its files (the locale
  \<open>secret_files\<close>), that the Configurator's files implement it for the keys that no two of which
  get the same file name, and where they do not.
\<close>

section \<open>Events\<close>

datatype secretEvent = StoreSecret Secret | DropSecret string | AskSecret string

definition handleSecretEvent ::
    "CryptoLib \<Rightarrow> 'fs SecretFileManager \<Rightarrow> secretEvent \<Rightarrow> 'fs LocalSecretStore \<Rightarrow> 'fs LocalSecretStore option" where
  "handleSecretEvent lib manager ev s =
     (case ev of
        StoreSecret secret \<Rightarrow> Some (AddOrUpdateSecret lib manager secret s)
      | DropSecret key \<Rightarrow> Some (DeleteSecret manager key s)
      | AskSecret key \<Rightarrow> map_option snd (GetSecret manager key s))"

definition runSecretEvents ::
    "CryptoLib \<Rightarrow> 'fs SecretFileManager \<Rightarrow> secretEvent list \<Rightarrow> 'fs LocalSecretStore \<Rightarrow> 'fs LocalSecretStore option" where
  "runSecretEvents lib manager evs s = foldOpt (handleSecretEvent lib manager) evs s"

text \<open>The secrets of the cluster: the abstract state of the store.\<close>

definition clusterStep :: "secretEvent \<Rightarrow> (string \<Rightarrow> Secret option) \<Rightarrow> string \<Rightarrow> Secret option" where
  "clusterStep ev m =
     (case ev of StoreSecret secret \<Rightarrow> m(secretKey secret \<mapsto> secret) | DropSecret key \<Rightarrow> m(key := None) | AskSecret key \<Rightarrow> m)"

text \<open>
  Which events the cluster sends: secrets with keys of a given set, and never a secret of another
  type in the place of a stored one, because Kubernetes does not let the type of a secret change.
\<close>

fun clusterEvents :: "string set \<Rightarrow> (string \<Rightarrow> Secret option) \<Rightarrow> secretEvent list \<Rightarrow> bool" where
  "clusterEvents K m [] = True"
| "clusterEvents K m (ev # evs) =
     ((case ev of
         StoreSecret secret \<Rightarrow>
           secretKey secret \<in> K \<and> (case m (secretKey secret) of None \<Rightarrow> True | Some old \<Rightarrow> secType old = secType secret)
       | DropSecret key \<Rightarrow> key \<in> K
       | AskSecret key \<Rightarrow> key \<in> K) \<and> clusterEvents K (clusterStep ev m) evs)"

section \<open>The contract of the files\<close>

locale secret_files =
  fixes manager :: "'fs SecretFileManager"
    and content :: "'fs \<Rightarrow> string \<Rightarrow> string option"
    and pathOf :: "string \<Rightarrow> string"
    and textOf :: "Secret \<Rightarrow> string option"
    and K :: "string set"
  assumes add_file: "secretKey secret \<in> K \<Longrightarrow> textOf secret = Some t \<Longrightarrow> fst (fmAddOrUpdateSecret manager secret fs) = pathOf (secretKey secret)"
    and add_content: "secretKey secret \<in> K \<Longrightarrow> textOf secret = Some t \<Longrightarrow>
      content (snd (fmAddOrUpdateSecret manager secret fs)) p = (if p = pathOf (secretKey secret) then Some t else content fs p)"
    and add_nothing: "textOf secret = None \<Longrightarrow> fmAddOrUpdateSecret manager secret fs = ('''', fs)"
    and delete_content: "content (fmDeleteSecret manager key fs) p = (if p = pathOf key then None else content fs p)"
    and paths_apart: "inj_on pathOf K"
    and path_named: "pathOf key \<noteq> ''''"
    and text_of_type: "secType secret = secType secret' \<Longrightarrow> textOf secret = None \<longleftrightarrow> textOf secret' = None"
begin

text \<open>A reference of the store against the secret of the cluster it stands for.\<close>

definition refOk :: "CryptoLib \<Rightarrow> 'fs \<Rightarrow> string \<Rightarrow> Secret \<Rightarrow> SecretReference \<Rightarrow> bool" where
  "refOk lib fs key secret ref =
     (srSecret ref = Some secret \<and> secretKey secret = key \<and> srError ref = ValidateSecret lib secret
      \<and> (if srPath ref = '''' then content fs (pathOf key) = None
         else srError ref = None \<and> srPath ref = pathOf key \<and> textOf secret \<noteq> None \<and> content fs (pathOf key) = textOf secret))"

definition storeOk :: "CryptoLib \<Rightarrow> (string \<Rightarrow> Secret option) \<Rightarrow> 'fs LocalSecretStore \<Rightarrow> bool" where
  "storeOk lib m s =
     (\<forall>key\<in>K. case m key of
        None \<Rightarrow> gget (ssSecrets s) key = None \<and> content (ssFiles s) (pathOf key) = None
      | Some secret \<Rightarrow> \<exists>ref. gget (ssSecrets s) key = Some ref \<and> refOk lib (ssFiles s) key secret ref)"

lemma pathOf_eq: "k \<in> K \<Longrightarrow> k' \<in> K \<Longrightarrow> pathOf k = pathOf k' \<longleftrightarrow> k = k'"
  using paths_apart by (auto simp: inj_on_def)

text \<open>A step that changes the reference and the file of one key only.\<close>

lemma storeOk_step:
  assumes ok: "storeOk lib m s" and key: "key \<in> K"
    and others: "\<And>k. k \<noteq> key \<Longrightarrow> m' k = m k \<and> gget (ssSecrets s') k = gget (ssSecrets s) k"
    and files: "\<And>p. p \<noteq> pathOf key \<Longrightarrow> content (ssFiles s') p = content (ssFiles s) p"
    and own: "case m' key of
        None \<Rightarrow> gget (ssSecrets s') key = None \<and> content (ssFiles s') (pathOf key) = None
      | Some secret \<Rightarrow> \<exists>ref. gget (ssSecrets s') key = Some ref \<and> refOk lib (ssFiles s') key secret ref"
  shows "storeOk lib m' s'"
  unfolding storeOk_def
proof
  fix k assume k: "k \<in> K"
  show "case m' k of
        None \<Rightarrow> gget (ssSecrets s') k = None \<and> content (ssFiles s') (pathOf k) = None
      | Some secret \<Rightarrow> \<exists>ref. gget (ssSecrets s') k = Some ref \<and> refOk lib (ssFiles s') k secret ref"
  proof (cases "k = key")
    case True
    show ?thesis unfolding True by (rule own)
  next
    case False
    then have "content (ssFiles s') (pathOf k) = content (ssFiles s) (pathOf k)" using files pathOf_eq k key by simp
    then have "refOk lib (ssFiles s') k = refOk lib (ssFiles s) k" by (simp add: refOk_def fun_eq_iff)
    then show ?thesis using bspec [OF ok [unfolded storeOk_def] k] others [OF False] files pathOf_eq [OF k key] False
      by (cases "m k") simp_all
  qed
qed

lemma secretsOkD:
  assumes "storeOk lib m s" "key \<in> K"
  shows "m key = None \<Longrightarrow> gget (ssSecrets s) key = None \<and> content (ssFiles s) (pathOf key) = None"
    and "m key = Some secret \<Longrightarrow> \<exists>ref. gget (ssSecrets s) key = Some ref \<and> refOk lib (ssFiles s) key secret ref"
  using assms unfolding storeOk_def by (force split: option.splits)+

lemma store_step:
  assumes ok: "storeOk lib m s" and key: "secretKey secret \<in> K"
    and sameType: "\<And>old. m (secretKey secret) = Some old \<Longrightarrow> secType old = secType secret"
  shows "storeOk lib (m(secretKey secret \<mapsto> secret)) (AddOrUpdateSecret lib manager secret s)"
proof -
  let ?k = "secretKey secret"
  show ?thesis
  proof (cases "gget (ssSecrets s) ?k")
    case None
    then have "m ?k = None" using secretsOkD [OF ok key] by (cases "m ?k") auto
    then have "content (ssFiles s) (pathOf ?k) = None" using secretsOkD(1) [OF ok key] by simp
    then show ?thesis using None
      by (intro storeOk_step [OF ok key]) (simp_all add: AddOrUpdateSecret_def refOk_def Let_def)
  next
    case (Some ref)
    then obtain old where old: "m ?k = Some old" "refOk lib (ssFiles s) ?k old ref"
      using secretsOkD [OF ok key] by (cases "m ?k") auto
    have same: "textOf old = None \<longleftrightarrow> textOf secret = None" by (rule text_of_type) (use sameType old(1) in blast)
    consider "srPath ref = ''''" "content (ssFiles s) (pathOf ?k) = None"
      | t where "srPath ref = pathOf ?k" "textOf secret = Some t"
      using old(2) same by (auto simp: refOk_def split: if_splits)
    then show ?thesis
    proof cases
      case 1
      then show ?thesis using Some
        by (intro storeOk_step [OF ok key]) (simp_all add: AddOrUpdateSecret_def refOk_def Let_def)
    next
      case 2
      then show ?thesis using Some path_named [of ?k] add_file [OF key 2(2)] add_content [OF key 2(2)]
        by (intro storeOk_step [OF ok key])
          (simp_all add: AddOrUpdateSecret_def refOk_def delete_content Let_def case_prod_unfold)
    qed
  qed
qed

lemma drop_step:
  assumes ok: "storeOk lib m s" and key: "key \<in> K"
  shows "storeOk lib (m(key := None)) (DeleteSecret manager key s)"
proof (cases "gget (ssSecrets s) key")
  case None
  then have "m key = None" using secretsOkD(2) [OF ok key] by (cases "m key") auto
  then have "m(key := None) = m" by auto
  then show ?thesis using None ok by (simp add: DeleteSecret_def)
next
  case (Some ref)
  then obtain old where "m key = Some old" "refOk lib (ssFiles s) key old ref"
    using secretsOkD [OF ok key] by (cases "m key") auto
  then show ?thesis using Some
    by (intro storeOk_step [OF ok key]) (auto simp: DeleteSecret_def refOk_def delete_content)
qed

text \<open>What a caller gets: the secret of the cluster, and its file when the secret is valid and has one.\<close>

definition served :: "CryptoLib \<Rightarrow> (string \<Rightarrow> Secret option) \<Rightarrow> string \<Rightarrow> SecretReference \<Rightarrow> 'fs \<Rightarrow> bool" where
  "served lib m key ref fs =
     (case m key of
        None \<Rightarrow> srError ref \<noteq> None \<and> srPath ref = ''''
      | Some secret \<Rightarrow>
          srSecret ref = Some secret \<and> srError ref = ValidateSecret lib secret
          \<and> (if srError ref = None \<and> textOf secret \<noteq> None
             then srPath ref = pathOf key \<and> content fs (pathOf key) = textOf secret else srPath ref = ''''))"

lemma ask_step:
  assumes ok: "storeOk lib m s" and key: "key \<in> K"
  shows "\<exists>ref s'. GetSecret manager key s = Some (ref, s') \<and> storeOk lib m s' \<and> served lib m key ref (ssFiles s')"
proof (cases "m key")
  case None
  then show ?thesis using secretsOkD(1) [OF ok key] ok by (auto simp: GetSecret_def served_def)
next
  case (Some secret)
  then obtain ref where ref: "gget (ssSecrets s) key = Some ref" "refOk lib (ssFiles s) key secret ref"
    using secretsOkD(2) [OF ok key] by blast
  show ?thesis
  proof (cases "srError ref = None \<and> srPath ref = ''''")
    case False
    then have "GetSecret manager key s = Some (ref, s)" using ref(1) by (auto simp: GetSecret_def)
    moreover have "served lib m key ref (ssFiles s)"
      using False Some ref(2) by (auto simp: served_def refOk_def split: if_splits)
    ultimately show ?thesis using ok by blast
  next
    case True
    let ?p = "fst (fmAddOrUpdateSecret manager secret (ssFiles s))"
    let ?fs = "snd (fmAddOrUpdateSecret manager secret (ssFiles s))"
    let ?s = "\<lparr>ssSecrets = gput key (ref\<lparr>srPath := ?p\<rparr>) (ssSecrets s), ssFiles = ?fs\<rparr>"
    have r: "srSecret ref = Some secret" "secretKey secret = key" "ValidateSecret lib secret = None"
        "content (ssFiles s) (pathOf key) = None"
      using ref(2) True by (auto simp: refOk_def)
    have inK: "secretKey secret \<in> K" using r(2) key by simp
    have get: "GetSecret manager key s = Some (ref\<lparr>srPath := ?p\<rparr>, ?s)"
      using ref(1) r(1) True by (simp add: GetSecret_def Let_def case_prod_unfold)
    show ?thesis
    proof (cases "textOf secret")
      case None
      then have "storeOk lib m ?s"
        using Some True r add_nothing [OF None] by (intro storeOk_step [OF ok key]) (simp_all add: refOk_def)
      moreover have "served lib m key (ref\<lparr>srPath := ?p\<rparr>) (ssFiles ?s)"
        using Some True r None add_nothing [OF None] by (simp add: served_def)
      ultimately show ?thesis using get by blast
    next
      case (Some t)
      have "storeOk lib m ?s"
        using \<open>m key = Some secret\<close> True r Some add_file [OF inK Some] add_content [OF inK Some] path_named [of key]
        by (intro storeOk_step [OF ok key]) (simp_all add: refOk_def)
      moreover have "served lib m key (ref\<lparr>srPath := ?p\<rparr>) (ssFiles ?s)"
        using \<open>m key = Some secret\<close> True r Some add_file [OF inK Some] add_content [OF inK Some] by (simp add: served_def)
      ultimately show ?thesis using get by blast
    qed
  qed
qed

lemma secret_run:
  "clusterEvents K m evs \<Longrightarrow> storeOk lib m s \<Longrightarrow>
    \<exists>s'. runSecretEvents lib manager evs s = Some s' \<and> storeOk lib (fold clusterStep evs m) s'"
proof (induction evs arbitrary: m s)
  case (Cons ev evs)
  have "\<exists>s1. handleSecretEvent lib manager ev s = Some s1 \<and> storeOk lib (clusterStep ev m) s1"
  proof (cases ev)
    case (StoreSecret secret)
    have "secretKey secret \<in> K" "\<And>old. m (secretKey secret) = Some old \<Longrightarrow> secType old = secType secret"
      using Cons.prems(1) StoreSecret by auto
    then show ?thesis using store_step [OF Cons.prems(2), of secret] StoreSecret
      by (simp add: handleSecretEvent_def clusterStep_def)
  next
    case (DropSecret key)
    then show ?thesis using drop_step [OF Cons.prems(2), of key] Cons.prems(1)
      by (simp add: handleSecretEvent_def clusterStep_def)
  next
    case (AskSecret key)
    then show ?thesis using ask_step [OF Cons.prems(2), of key] Cons.prems(1)
      by (auto simp: handleSecretEvent_def clusterStep_def)
  qed
  then obtain s1 where s1: "handleSecretEvent lib manager ev s = Some s1" "storeOk lib (clusterStep ev m) s1" by blast
  then show ?case using Cons.IH [OF _ s1(2)] Cons.prems(1) by (simp add: runSecretEvents_def)
qed (simp add: runSecretEvents_def)

end

section \<open>The Configurator's files\<close>

text \<open>Keys of namespaces without dashes: no two of them get the same file name.\<close>

definition plainKeys :: "string set" where
  "plainKeys = {ns @ ''/'' @ name |ns name. CHR ''/'' \<notin> set ns \<and> CHR ''-'' \<notin> set ns \<and> CHR ''/'' \<notin> set name}"

definition secretText :: "Secret \<Rightarrow> string option" where
  "secretText secret =
     (if secType secret = SecretTypeCA then Some (GenerateCAFileContent secret)
      else if secType secret = SecretTypeJWK then Some (dataField secret JWTKeyKey)
      else if secType secret = SecretTypeOIDC then None
      else Some (GenerateCertAndKeyFileContent secret))"

definition secretPath :: "string \<Rightarrow> string \<Rightarrow> string" where
  "secretPath dir key = GetFilenameForSecret dir (keyToFileName key)"

lemma replaceChar_id: "a \<notin> set s \<Longrightarrow> replaceChar a b s = s"
  by (induction s) (auto simp: replaceChar_def)

lemma replaceChar_append: "replaceChar a b (s @ t) = replaceChar a b s @ replaceChar a b t"
  by (simp add: replaceChar_def)

lemma plain_file_name:
  "CHR ''/'' \<notin> set ns \<Longrightarrow> CHR ''/'' \<notin> set name \<Longrightarrow> keyToFileName (ns @ ''/'' @ name) = ns @ ''-'' @ name"
  using replaceChar_append [of "CHR ''/''" "CHR ''-''" "''/''" name] replaceChar_id [of "CHR ''/''" name]
  by (simp add: keyToFileName_def replaceChar_append replaceChar_id) (simp add: replaceChar_def)

lemma inj_plainKeys: "inj_on keyToFileName plainKeys"
proof (rule inj_onI)
  fix k k' assume "k \<in> plainKeys" "k' \<in> plainKeys" and eq: "keyToFileName k = keyToFileName k'"
  then obtain a b a' b' where k: "k = a @ ''/'' @ b" "CHR ''/'' \<notin> set a" "CHR ''-'' \<notin> set a" "CHR ''/'' \<notin> set b"
    and k': "k' = a' @ ''/'' @ b'" "CHR ''/'' \<notin> set a'" "CHR ''-'' \<notin> set a'" "CHR ''/'' \<notin> set b'"
    unfolding plainKeys_def by blast
  have same: "a @ CHR ''-'' # b = a' @ CHR ''-'' # b'"
    using eq plain_file_name [OF k(2,4)] plain_file_name [OF k'(2,4)] k(1) k'(1) by simp
  have "takeWhile (\<lambda>c. c \<noteq> CHR ''-'') (a @ CHR ''-'' # b) = a"
    "takeWhile (\<lambda>c. c \<noteq> CHR ''-'') (a' @ CHR ''-'' # b') = a'"
    using k(3) k'(3) by (auto simp: takeWhile_append)
  then have "a = a'" using same by simp
  then show "k = k'" using same k(1) k'(1) by simp
qed

lemma meta_file_name:
  assumes "getResourceKey m \<in> plainKeys"
  shows "objectMetaToFileName m = keyToFileName (getResourceKey m)"
proof -
  obtain ns name where key: "omNamespace m @ ''/'' @ omName m = ns @ ''/'' @ name" "CHR ''/'' \<notin> set ns" "CHR ''/'' \<notin> set name"
    using assms unfolding plainKeys_def getResourceKey_def by blast
  have "length (filter (\<lambda>c. c = CHR ''/'') (ns @ ''/'' @ name)) = 1"
    using key(2,3) by (auto simp: filter_empty_conv)
  then have "length (filter (\<lambda>c. c = CHR ''/'') (omNamespace m)) = 0 \<and> length (filter (\<lambda>c. c = CHR ''/'') (omName m)) = 0"
    unfolding key(1) [symmetric] by simp
  then have "CHR ''/'' \<notin> set (omNamespace m)" "CHR ''/'' \<notin> set (omName m)" by (auto simp: filter_empty_conv)
  then show ?thesis using plain_file_name by (simp add: objectMetaToFileName_def getResourceKey_def)
qed

interpretation cnfFiles: secret_files "configuratorFiles dir" gget "secretPath dir" secretText plainKeys for dir
proof
  fix secret t fs p
  assume "secretKey secret \<in> plainKeys" and t: "secretText secret = Some t"
  then have name: "objectMetaToFileName (secMeta secret) = keyToFileName (secretKey secret)"
    using meta_file_name by (simp add: secretKey_def)
  have "cnfAddOrUpdateSecret dir secret fs = CreateSecret dir (keyToFileName (secretKey secret)) t fs"
    using t name by (auto simp: cnfAddOrUpdateSecret_def secretText_def Let_def split: if_splits)
  then show "fst (fmAddOrUpdateSecret (configuratorFiles dir) secret fs) = secretPath dir (secretKey secret)"
    and "gget (snd (fmAddOrUpdateSecret (configuratorFiles dir) secret fs)) p =
      (if p = secretPath dir (secretKey secret) then Some t else gget fs p)"
    by (simp_all add: configuratorFiles_def CreateSecret_def secretPath_def)
next
  fix secret fs
  assume "secretText secret = None"
  then show "fmAddOrUpdateSecret (configuratorFiles dir) secret fs = ('''', fs)"
    by (auto simp: configuratorFiles_def cnfAddOrUpdateSecret_def secretText_def Let_def split: if_splits)
next
  fix key fs p
  show "gget (fmDeleteSecret (configuratorFiles dir) key fs) p = (if p = secretPath dir key then None else gget fs p)"
    by (simp add: configuratorFiles_def cnfDeleteSecret_def removeSecretFile_def secretPath_def)
  show "secretPath dir key \<noteq> ''''" by (simp add: secretPath_def GetFilenameForSecret_def)
next
  show "inj_on (secretPath dir) plainKeys"
    using inj_plainKeys by (auto simp: inj_on_def secretPath_def GetFilenameForSecret_def)
next
  fix s s' :: Secret assume "secType s = secType s'"
  then show "(secretText s = None) = (secretText s' = None)" by (simp add: secretText_def)
qed

definition emptyStore :: "files LocalSecretStore" where
  "emptyStore = \<lparr>ssSecrets = [], ssFiles = []\<rparr>"

lemma emptyStore_ok: "cnfFiles.storeOk dir lib Map.empty emptyStore"
  by (simp add: cnfFiles.storeOk_def emptyStore_def)

section \<open>What the resources get\<close>

text \<open>
  C36: After any events of the cluster on keys of namespaces without dashes, asking for a secret
  gives the secret the cluster has now and its validation error; when it is valid and of a type
  that needs a file, also the path of a file that holds its present data. A secret the cluster
  does not have comes with an error and no path.
\<close>

theorem secrets_served:
  assumes "clusterEvents plainKeys Map.empty evs" and "key \<in> plainKeys"
  shows "\<exists>s ref s'. runSecretEvents lib (configuratorFiles dir) evs emptyStore = Some s
    \<and> GetSecret (configuratorFiles dir) key s = Some (ref, s')
    \<and> (case fold clusterStep evs Map.empty key of
         None \<Rightarrow> srError ref \<noteq> None \<and> srPath ref = ''''
       | Some secret \<Rightarrow> srSecret ref = Some secret \<and> srError ref = ValidateSecret lib secret
           \<and> (if srError ref = None \<and> secretText secret \<noteq> None
              then srPath ref = secretPath dir key \<and> gget (ssFiles s') (secretPath dir key) = secretText secret
              else srPath ref = ''''))"
proof -
  obtain s where s: "runSecretEvents lib (configuratorFiles dir) evs emptyStore = Some s"
      "cnfFiles.storeOk dir lib (fold clusterStep evs Map.empty) s"
    using cnfFiles.secret_run [OF assms(1) emptyStore_ok] by blast
  then show ?thesis using cnfFiles.ask_step [OF s(2) assms(2)] unfolding cnfFiles.served_def by blast
qed

text \<open>
  C37: No file of a secret outlives it: after any events of the cluster on keys of namespaces
  without dashes, the file of a key holds the data of the secret the cluster has under that key,
  and that secret is valid.
\<close>

theorem secret_files_fresh:
  assumes "clusterEvents plainKeys Map.empty evs" and "key \<in> plainKeys"
    and "runSecretEvents lib (configuratorFiles dir) evs emptyStore = Some s"
    and "gget (ssFiles s) (secretPath dir key) = Some data"
  shows "\<exists>secret. fold clusterStep evs Map.empty key = Some secret \<and> ValidateSecret lib secret = None
    \<and> secretText secret = Some data"
proof -
  have ok: "cnfFiles.storeOk dir lib (fold clusterStep evs Map.empty) s"
    using cnfFiles.secret_run [OF assms(1) emptyStore_ok, of lib dir] assms(3) by auto
  show ?thesis
  proof (cases "fold clusterStep evs Map.empty key")
    case None
    then show ?thesis using cnfFiles.secretsOkD(1) [OF ok assms(2)] assms(4) by simp
  next
    case (Some secret)
    then show ?thesis using cnfFiles.secretsOkD(2) [OF ok assms(2)] assms(4)
      by (auto simp: cnfFiles.refOk_def split: if_splits)
  qed
qed

section \<open>Samples\<close>

definition sampleLib :: CryptoLib where
  "sampleLib = \<lparr>clX509KeyPair = (\<lambda>_ _. None), clPemDecode = (\<lambda>_. None), clParseCertificate = (\<lambda>_. None)\<rparr>"

definition sampleJWK :: "string \<Rightarrow> string \<Rightarrow> string \<Rightarrow> Secret" where
  "sampleJWK ns name key =
     \<lparr>secMeta = \<lparr>omName = name, omNamespace = ns, omUID = '''', omGeneration = 1, omCreationTimestamp = 0, omAnnotations = []\<rparr>,
      secType = SecretTypeJWK, secData = [(JWTKeyKey, key)]\<rparr>"

definition sampleEvents :: "secretEvent list" where
  "sampleEvents = [StoreSecret (sampleJWK ''n'' ''a'' ''old''), AskSecret ''n/a'', StoreSecret (sampleJWK ''n'' ''a'' ''new'')]"

lemma sample_key: "''n/a'' \<in> plainKeys"
  unfolding plainKeys_def by (rule CollectI, rule exI [of _ "''n''"], rule exI [of _ "''a''"]) simp

lemma sampleEvents_ok: "clusterEvents plainKeys Map.empty sampleEvents"
  using sample_key by (simp add: sampleEvents_def sampleJWK_def secretKey_def getResourceKey_def clusterStep_def)

lemma sampleEvents_run:
  "runSecretEvents sampleLib (configuratorFiles ''/s'') sampleEvents emptyStore =
     Some \<lparr>ssSecrets = [(''n/a'', \<lparr>srSecret = Some (sampleJWK ''n'' ''a'' ''new''), srPath = ''/s/n-a'', srError = None\<rparr>)],
           ssFiles = [(''/s/n-a'', ''new'')]\<rparr>"
  by code_simp

lemma sampleEvents_cluster: "fold clusterStep sampleEvents Map.empty ''n/a'' = Some (sampleJWK ''n'' ''a'' ''new'')"
  by (simp add: sampleEvents_def clusterStep_def sampleJWK_def secretKey_def getResourceKey_def)

theorem secrets_served_witness:
  "\<exists>s ref s'. runSecretEvents sampleLib (configuratorFiles ''/s'') sampleEvents emptyStore = Some s
    \<and> GetSecret (configuratorFiles ''/s'') ''n/a'' s = Some (ref, s') \<and> srSecret ref = Some (sampleJWK ''n'' ''a'' ''new'')"
  using secrets_served [OF sampleEvents_ok sample_key, of sampleLib "''/s''"] unfolding sampleEvents_cluster by auto

theorem secret_files_fresh_witness: "secretText (sampleJWK ''n'' ''a'' ''new'') = Some ''new''"
  using secret_files_fresh [OF sampleEvents_ok sample_key sampleEvents_run, of "''new''"]
  unfolding sampleEvents_cluster by (simp add: secretPath_def GetFilenameForSecret_def keyToFileName_def replaceChar_def)

text \<open>
  With dashes in the names of namespaces two secrets can share a file: the reference of the
  secret c of namespace a-b then leads to the data of the secret b-c of namespace a.
\<close>

theorem secrets_of_different_namespaces_mix:
  "case runSecretEvents sampleLib (configuratorFiles ''/s'')
      [StoreSecret (sampleJWK ''a-b'' ''c'' ''one''), StoreSecret (sampleJWK ''a'' ''b-c'' ''two''), AskSecret ''a-b/c'', AskSecret ''a/b-c'']
      emptyStore of
     None \<Rightarrow> False
   | Some s \<Rightarrow> (case GetSecret (configuratorFiles ''/s'') ''a-b/c'' s of
         None \<Rightarrow> False
       | Some (ref, s') \<Rightarrow> srError ref = None \<and> srSecret ref = Some (sampleJWK ''a-b'' ''c'' ''one'')
           \<and> gget (ssFiles s') (srPath ref) = Some ''two'')"
  by code_simp

end
