(* ===== verification/Config_Params.thy ===== *)
theory Config_Params
  imports Api_Types
begin

text \<open>
  The parameters of the configuration (\<open>internal/configs/config_params.go\<close>): those of the ConfigMap
  and of the annotations, those of the command line, and the listeners. \<open>uint64\<close> is \<^typ>\<open>nat\<close>: the
  numbers are read, compared and printed, never computed with beyond the bounds of the type.
\<close>

section \<open>Parameters\<close>

record ConfigParams =
  cpClientMaxBodySize :: string
  cpDefaultServerAccessLogOff :: bool
  cpDefaultServerReturn :: string
  cpFailTimeout :: string
  cpHealthCheckEnabled :: bool
  cpHealthCheckMandatory :: bool
  cpHealthCheckMandatoryQueue :: int
  cpHSTS :: bool
  cpHSTSBehindProxy :: bool
  cpHSTSIncludeSubdomains :: bool
  cpHSTSMaxAge :: int
  cpHTTP2 :: bool
  cpKeepalive :: int
  cpLBMethod :: string
  cpLocationSnippets :: "string list"
  cpMainAccessLogOff :: bool
  cpMainErrorLogLevel :: string
  cpMainHTTPSnippets :: "string list"
  cpMainKeepaliveRequests :: int
  cpMainKeepaliveTimeout :: string
  cpMainLogFormat :: "string list"
  cpMainLogFormatEscaping :: string
  cpMainMainSnippets :: "string list"
  cpMainOpenTracingEnabled :: bool
  cpMainOpenTracingLoadModule :: bool
  cpMainOpenTracingTracer :: string
  cpMainOpenTracingTracerConfig :: string
  cpMainServerNamesHashBucketSize :: string
  cpMainServerNamesHashMaxSize :: string
  cpMainStreamLogFormat :: "string list"
  cpMainStreamLogFormatEscaping :: string
  cpMainStreamSnippets :: "string list"
  cpMainWorkerConnections :: string
  cpMainWorkerCPUAffinity :: string
  cpMainWorkerProcesses :: string
  cpMainWorkerRlimitNofile :: string
  cpMainWorkerShutdownTimeout :: string
  cpMaxConns :: int
  cpMaxFails :: int
  cpAppProtectEnable :: string
  cpAppProtectPolicy :: string
  cpAppProtectLogConf :: string
  cpAppProtectLogEnable :: string
  cpMainAppProtectFailureModeAction :: string
  cpMainAppProtectCookieSeed :: string
  cpMainAppProtectCPUThresholds :: string
  cpMainAppProtectPhysicalMemoryThresholds :: string
  cpProxyBuffering :: bool
  cpProxyBuffers :: string
  cpProxyBufferSize :: string
  cpProxyConnectTimeout :: string
  cpProxyHideHeaders :: "string list"
  cpProxyMaxTempFileSize :: string
  cpProxyPassHeaders :: "string list"
  cpProxyProtocol :: bool
  cpProxyReadTimeout :: string
  cpProxySendTimeout :: string
  cpRedirectToHTTPS :: bool
  cpResolverAddresses :: "string list"
  cpResolverIPV6 :: bool
  cpResolverTimeout :: string
  cpResolverValid :: string
  cpServerSnippets :: "string list"
  cpServerTokens :: string
  cpSlowStart :: string
  cpSSLRedirect :: bool
  cpUpstreamZoneSize :: string
  cpVariablesHashBucketSize :: nat
  cpVariablesHashMaxSize :: nat
  cpRealIPHeader :: string
  cpRealIPRecursive :: bool
  cpSetRealIPFrom :: "string list"
  cpMainServerSSLCiphers :: string
  cpMainServerSSLDHParam :: string
  cpMainServerSSLDHParamFileContent :: "string option"
  cpMainServerSSLPreferServerCiphers :: bool
  cpMainServerSSLProtocols :: string
  cpIngressTemplate :: "string option"
  cpVirtualServerTemplate :: "string option"
  cpMainTemplate :: "string option"
  cpJWTKey :: string
  cpJWTLoginURL :: string
  cpJWTRealm :: string
  cpJWTToken :: string
  cpPorts :: "int list"
  cpSSLPorts :: "int list"
  cpSpiffeServerCerts :: bool

record StaticConfigParams =
  stHealthStatus :: bool
  stHealthStatusURI :: string
  stNginxStatus :: bool
  stNginxStatusAllowCIDRs :: "string list"
  stNginxStatusPort :: int
  stStubStatusOverUnixSocketForOSS :: bool
  stTLSPassthrough :: bool
  stEnableSnippets :: bool
  stNginxServiceMesh :: bool
  stEnableInternalRoutes :: bool
  stMainAppProtectLoadModule :: bool
  stPodName :: string
  stEnableLatencyMetrics :: bool
  stEnablePreviewPolicies :: bool

section \<open>Listeners\<close>

record Listener2 =
  ls2Port :: int
  ls2Protocol :: string

record GlobalConfigParams =
  gcListeners :: "Listener2 gomap"

section \<open>Defaults\<close>

definition NewDefaultConfigParams :: ConfigParams where
  "NewDefaultConfigParams =
     \<lparr>cpClientMaxBodySize = ''1m'', cpDefaultServerAccessLogOff = False, cpDefaultServerReturn = ''404'',
      cpFailTimeout = ''10s'', cpHealthCheckEnabled = False, cpHealthCheckMandatory = False,
      cpHealthCheckMandatoryQueue = 0, cpHSTS = False, cpHSTSBehindProxy = False,
      cpHSTSIncludeSubdomains = False, cpHSTSMaxAge = 2592000, cpHTTP2 = False, cpKeepalive = 0,
      cpLBMethod = ''random two least_conn'', cpLocationSnippets = [], cpMainAccessLogOff = False,
      cpMainErrorLogLevel = ''notice'', cpMainHTTPSnippets = [], cpMainKeepaliveRequests = 100,
      cpMainKeepaliveTimeout = ''65s'', cpMainLogFormat = [], cpMainLogFormatEscaping = '''',
      cpMainMainSnippets = [], cpMainOpenTracingEnabled = False, cpMainOpenTracingLoadModule = False,
      cpMainOpenTracingTracer = '''', cpMainOpenTracingTracerConfig = '''',
      cpMainServerNamesHashBucketSize = ''256'', cpMainServerNamesHashMaxSize = ''1024'',
      cpMainStreamLogFormat = [], cpMainStreamLogFormatEscaping = '''', cpMainStreamSnippets = [],
      cpMainWorkerConnections = ''1024'', cpMainWorkerCPUAffinity = '''', cpMainWorkerProcesses = ''auto'',
      cpMainWorkerRlimitNofile = '''', cpMainWorkerShutdownTimeout = '''', cpMaxConns = 0, cpMaxFails = 1,
      cpAppProtectEnable = '''', cpAppProtectPolicy = '''', cpAppProtectLogConf = '''',
      cpAppProtectLogEnable = '''', cpMainAppProtectFailureModeAction = '''', cpMainAppProtectCookieSeed = '''',
      cpMainAppProtectCPUThresholds = '''', cpMainAppProtectPhysicalMemoryThresholds = '''',
      cpProxyBuffering = True, cpProxyBuffers = '''', cpProxyBufferSize = '''', cpProxyConnectTimeout = ''60s'',
      cpProxyHideHeaders = [], cpProxyMaxTempFileSize = '''', cpProxyPassHeaders = [], cpProxyProtocol = False,
      cpProxyReadTimeout = ''60s'', cpProxySendTimeout = ''60s'', cpRedirectToHTTPS = False,
      cpResolverAddresses = [], cpResolverIPV6 = True, cpResolverTimeout = '''', cpResolverValid = '''',
      cpServerSnippets = [], cpServerTokens = ''on'', cpSlowStart = '''', cpSSLRedirect = True,
      cpUpstreamZoneSize = ''256k'', cpVariablesHashBucketSize = 256, cpVariablesHashMaxSize = 1024,
      cpRealIPHeader = '''', cpRealIPRecursive = False, cpSetRealIPFrom = [], cpMainServerSSLCiphers = '''',
      cpMainServerSSLDHParam = '''', cpMainServerSSLDHParamFileContent = None,
      cpMainServerSSLPreferServerCiphers = False, cpMainServerSSLProtocols = '''', cpIngressTemplate = None,
      cpVirtualServerTemplate = None, cpMainTemplate = None, cpJWTKey = '''', cpJWTLoginURL = '''',
      cpJWTRealm = '''', cpJWTToken = '''', cpPorts = [80], cpSSLPorts = [443], cpSpiffeServerCerts = False\<rparr>"

definition NewDefaultGlobalConfigParams :: GlobalConfigParams where
  "NewDefaultGlobalConfigParams = \<lparr>gcListeners = []\<rparr>"

definition NewGlobalConfigParamsWithTLSPassthrough :: GlobalConfigParams where
  "NewGlobalConfigParamsWithTLSPassthrough =
     \<lparr>gcListeners = gput TLSPassthroughListenerName \<lparr>ls2Port = 0, ls2Protocol = TLSPassthroughListenerProtocol\<rparr> []\<rparr>"

end
