(* ===== verification/VS_Config_Types.thy ===== *)
theory VS_Config_Types
  imports Policy_Validation Secrets Config_Params
begin

text \<open>
  The data of the generator of the configuration of VirtualServers: the structs of
  \<open>internal/configs/version2/http.go\<close> that the templates print, and the inputs of the generator
  (\<open>VirtualServerEx\<close>). A struct of package \<open>version2\<close> whose
  name is taken by the API has the suffix 2.
\<close>

section \<open>Package version2\<close>

record UpstreamLabels =
  ulService :: string
  ulResourceType :: string
  ulResourceName :: string
  ulResourceNamespace :: string

record UpstreamServer =
  usAddress :: string

record Queue =
  quSize :: int
  quTimeout :: string

record SessionCookie2 =
  sc2Enable :: bool
  sc2Name :: string
  sc2Path :: string
  sc2Expires :: string
  sc2Domain :: string
  sc2HTTPOnly :: bool
  sc2Secure :: bool

record Upstream2 =
  u2Name :: string
  u2Servers :: "UpstreamServer list"
  u2LBMethod :: string
  u2Resolve :: bool
  u2Keepalive :: int
  u2MaxFails :: int
  u2MaxConns :: int
  u2SlowStart :: string
  u2FailTimeout :: string
  u2UpstreamZoneSize :: string
  u2Queue :: "Queue option"
  u2SessionCookie :: "SessionCookie2 option"
  u2UpstreamLabels :: UpstreamLabels

record SSL =
  sslHTTP2 :: bool
  sslCertificate :: string
  sslCertificateKey :: string
  sslCiphers :: string

record IngressMTLS2 =
  im2ClientCert :: string
  im2VerifyClient :: string
  im2VerifyDepth :: int

record EgressMTLS2 =
  em2Certificate :: string
  em2CertificateKey :: string
  em2VerifyServer :: bool
  em2VerifyDepth :: int
  em2Ciphers :: string
  em2Protocols :: string
  em2TrustedCert :: string
  em2SessionReuse :: bool
  em2ServerName :: bool
  em2SSLName :: string

record OIDC2 =
  oi2AuthEndpoint :: string
  oi2ClientID :: string
  oi2ClientSecret :: string
  oi2JwksURI :: string
  oi2Scope :: string
  oi2TokenEndpoint :: string
  oi2RedirectURI :: string

record WAF2 =
  wf2Enable :: string
  wf2ApPolicy :: string
  wf2ApSecurityLogEnable :: bool
  wf2ApLogConf :: string

record JWTAuth2 =
  jw2Secret :: string
  jw2Realm :: string
  jw2Token :: string

record Return =
  reCode :: int
  reText :: string

record Header2 =
  hd2Name :: string
  hd2Value :: string

record AddHeader2 =
  ah2Header :: Header2
  ah2Always :: bool

record ErrorPage2 =
  ep2Name :: string
  ep2Codes :: string
  ep2ResponseCode :: int

record ErrorPageLocation =
  elName :: string
  elDefaultType :: string
  elReturn :: "Return option"
  elHeaders :: "Header2 list"

record ReturnLocation =
  rlName :: string
  rlDefaultType :: string
  rlReturn :: Return

record LimitReqZone =
  lzKey :: string
  lzZoneName :: string
  lzZoneSize :: string
  lzRate :: string

record LimitReq =
  lrZoneName :: string
  lrBurst :: int
  lrNoDelay :: bool
  lrDelay :: int

record LimitReqOptions =
  loDryRun :: bool
  loLogLevel :: string
  loRejectCode :: int

record Location =
  locPath :: string
  locInternal :: bool
  locSnippets :: "string list"
  locProxyConnectTimeout :: string
  locProxyReadTimeout :: string
  locProxySendTimeout :: string
  locClientMaxBodySize :: string
  locProxyMaxTempFileSize :: string
  locProxyBuffering :: bool
  locProxyBuffers :: string
  locProxyBufferSize :: string
  locProxyPass :: string
  locProxyNextUpstream :: string
  locProxyNextUpstreamTimeout :: string
  locProxyNextUpstreamTries :: int
  locProxyInterceptErrors :: bool
  locProxyPassRequestHeaders :: bool
  locProxySetHeaders :: "Header2 list"
  locProxyHideHeaders :: "string list"
  locProxyPassHeaders :: "string list"
  locProxyIgnoreHeaders :: string
  locProxyPassRewrite :: string
  locAddHeaders :: "AddHeader2 list"
  locRewrites :: "string list"
  locHasKeepalive :: bool
  locErrorPages :: "ErrorPage2 list"
  locProxySSLName :: string
  locInternalProxyPass :: string
  locAllow :: "string list"
  locDeny :: "string list"
  locLimitReqOptions :: LimitReqOptions
  locLimitReqs :: "LimitReq list"
  locJWTAuth :: "JWTAuth2 option"
  locEgressMTLS :: "EgressMTLS2 option"
  locOIDC :: bool
  locWAF :: "WAF2 option"
  locPoliciesErrorReturn :: "Return option"
  locServiceName :: string
  locIsVSR :: bool
  locVSRName :: string
  locVSRNamespace :: string

record Distribution =
  dsWeight :: string
  dsValue :: string

record SplitClient =
  spcSource :: string
  spcVariable :: string
  spcDistributions :: "Distribution list"

record InternalRedirectLocation =
  irlPath :: string
  irlDestination :: string

record Parameter =
  pmValue :: string
  pmResult :: string

record Map2 =
  mpSource :: string
  mpVariable :: string
  mpParameters :: "Parameter list"

record StatusMatch =
  smName :: string
  smCode :: string

record HealthCheck2 =
  hc2Name :: string
  hc2URI :: string
  hc2Interval :: string
  hc2Jitter :: string
  hc2Fails :: int
  hc2Passes :: int
  hc2Port :: int
  hc2ProxyPass :: string
  hc2ProxyConnectTimeout :: string
  hc2ProxyReadTimeout :: string
  hc2ProxySendTimeout :: string
  hc2Headers :: "string gomap"
  hc2Match :: string

record TLSRedirect2 =
  tr2Code :: int
  tr2BasedOn :: string

record Server =
  svServerName :: string
  svStatusZone :: string
  svProxyProtocol :: bool
  svSSL :: "SSL option"
  svServerTokens :: string
  svRealIPHeader :: string
  svSetRealIPFrom :: "string list"
  svRealIPRecursive :: bool
  svSnippets :: "string list"
  svInternalRedirectLocations :: "InternalRedirectLocation list"
  svLocations :: "Location list"
  svErrorPageLocations :: "ErrorPageLocation list"
  svReturnLocations :: "ReturnLocation list"
  svHealthChecks :: "HealthCheck2 list"
  svTLSRedirect :: "TLSRedirect2 option"
  svTLSPassthrough :: bool
  svAllow :: "string list"
  svDeny :: "string list"
  svLimitReqOptions :: LimitReqOptions
  svLimitReqs :: "LimitReq list"
  svJWTAuth :: "JWTAuth2 option"
  svIngressMTLS :: "IngressMTLS2 option"
  svEgressMTLS :: "EgressMTLS2 option"
  svOIDC :: "OIDC2 option"
  svWAF :: "WAF2 option"
  svPoliciesErrorReturn :: "Return option"
  svVSNamespace :: string
  svVSName :: string

record VirtualServerConfig =
  vcHTTPSnippets :: "string list"
  vcLimitReqZones :: "LimitReqZone list"
  vcMaps :: "Map2 list"
  vcServer :: Server
  vcSpiffeCerts :: bool
  vcSplitClients :: "SplitClient list"
  vcStatusMatches :: "StatusMatch list"
  vcUpstreams :: "Upstream2 list"

section \<open>Inputs\<close>

record MeshPodOwner =
  moOwnerType :: string
  moOwnerName :: string

record PodInfo =
  piName :: string
  piMeshPodOwner :: MeshPodOwner

record VirtualServerEx =
  vxVirtualServer :: VirtualServer
  vxEndpoints :: "string list gomap"
  vxVirtualServerRoutes :: "VirtualServerRoute list"
  vxExternalNameSvcs :: "bool gomap"
  vxPolicies :: "Policy gomap"
  vxPodsByIP :: "PodInfo gomap"
  vxSecretRefs :: "SecretReference gomap"
  vxApPolRefs :: "unstructured gomap"
  vxLogConfRefs :: "unstructured gomap"

end
