(* ===== verification/VS_Policies.thy ===== *)
theory VS_Policies
  imports VS_Config_Types
begin

text \<open>
  The first part of \<open>internal/configs/virtualserver.go\<close>: the state of the generator and the
  configuration of the policies of one context (the server, a route or a subroute). The generator
  keeps the warnings per object and the one OIDC policy of the VirtualServer. An object is
  identified by its kind and metadata, which stand for the pointer that keys the warnings. A nil
  reference to a secret makes the code panic, here \<^term>\<open>None\<close>.
\<close>

section \<open>The generator\<close>

datatype runtimeOwner = VirtualServerOwner ObjectMeta | VirtualServerRouteOwner ObjectMeta

type_synonym Warnings = "(runtimeOwner \<times> string list) list"

record oidcPolicyCfg =
  opOidc :: "OIDC2 option"
  opKey :: string

record virtualServerConfigurator =
  genCfgParams :: ConfigParams
  genIsPlus :: bool
  genIsResolverConfigured :: bool
  genIsTLSPassthrough :: bool
  genEnableSnippets :: bool
  genWarnings :: Warnings
  genSpiffeCerts :: bool
  genOidcPolCfg :: oidcPolicyCfg

definition newVirtualServerConfigurator ::
    "ConfigParams \<Rightarrow> bool \<Rightarrow> bool \<Rightarrow> StaticConfigParams \<Rightarrow> virtualServerConfigurator" where
  "newVirtualServerConfigurator cfgParams isPlus isResolverConfigured staticParams =
     \<lparr>genCfgParams = cfgParams, genIsPlus = isPlus, genIsResolverConfigured = isResolverConfigured,
      genIsTLSPassthrough = stTLSPassthrough staticParams, genEnableSnippets = stEnableSnippets staticParams,
      genWarnings = [], genSpiffeCerts = stNginxServiceMesh staticParams,
      genOidcPolCfg = \<lparr>opOidc = None, opKey = ''''\<rparr>\<rparr>"

definition AddWarningTo :: "runtimeOwner \<Rightarrow> string \<Rightarrow> Warnings \<Rightarrow> Warnings" where
  "AddWarningTo obj msg w = AList.update obj ((case map_of w obj of None \<Rightarrow> [] | Some l \<Rightarrow> l) @ [msg]) w"

definition addWarningf :: "runtimeOwner \<Rightarrow> string \<Rightarrow> virtualServerConfigurator \<Rightarrow> virtualServerConfigurator" where
  "addWarningf obj msg vsc = vsc\<lparr>genWarnings := AddWarningTo obj msg (genWarnings vsc)\<rparr>"

definition addWarnings :: "runtimeOwner \<Rightarrow> string list \<Rightarrow> virtualServerConfigurator \<Rightarrow> virtualServerConfigurator" where
  "addWarnings obj msgs vsc = vsc\<lparr>genWarnings := fold (AddWarningTo obj) msgs (genWarnings vsc)\<rparr>"

definition clearWarnings :: "virtualServerConfigurator \<Rightarrow> virtualServerConfigurator" where
  "clearWarnings vsc = vsc\<lparr>genWarnings := []\<rparr>"

section \<open>Defaults\<close>

definition generateString :: "string \<Rightarrow> string \<Rightarrow> string" where
  "generateString s defaultS = (if s = '''' then defaultS else s)"

definition generateBool :: "bool option \<Rightarrow> bool \<Rightarrow> bool" where
  "generateBool s defaultS = (case s of Some b \<Rightarrow> b | None \<Rightarrow> defaultS)"

definition generateIntFromPointer :: "int option \<Rightarrow> int \<Rightarrow> int" where
  "generateIntFromPointer n defaultN = (case n of None \<Rightarrow> defaultN | Some i \<Rightarrow> i)"

definition fmtBool :: "bool \<Rightarrow> string" where
  "fmtBool b = (if b then ''true'' else ''false'')"

section \<open>Configuration of policies\<close>

record policiesCfg =
  pcAllow :: "string list"
  pcDeny :: "string list"
  pcLimitReqOptions :: LimitReqOptions
  pcLimitReqZones :: "LimitReqZone list"
  pcLimitReqs :: "LimitReq list"
  pcJWTAuth :: "JWTAuth2 option"
  pcIngressMTLS :: "IngressMTLS2 option"
  pcEgressMTLS :: "EgressMTLS2 option"
  pcOIDC :: bool
  pcWAF :: "WAF2 option"
  pcErrorReturn :: "Return option"

definition newPoliciesConfig :: policiesCfg where
  "newPoliciesConfig =
     \<lparr>pcAllow = [], pcDeny = [], pcLimitReqOptions = \<lparr>loDryRun = False, loLogLevel = '''', loRejectCode = 0\<rparr>,
      pcLimitReqZones = [], pcLimitReqs = [], pcJWTAuth = None, pcIngressMTLS = None, pcEgressMTLS = None,
      pcOIDC = False, pcWAF = None, pcErrorReturn = None\<rparr>"

record policyOwnerDetails =
  poOwner :: runtimeOwner
  poOwnerNamespace :: string
  poVsNamespace :: string
  poVsName :: string

record policyOptions =
  pyTls :: bool
  pySecretRefs :: "SecretReference gomap"
  pyApResources :: "string gomap"

record validationResults =
  vrIsError :: bool
  vrWarnings :: "string list"

definition okResult :: validationResults where
  "okResult = \<lparr>vrIsError = False, vrWarnings = []\<rparr>"

definition warnResult :: "string \<Rightarrow> validationResults" where
  "warnResult msg = \<lparr>vrIsError = False, vrWarnings = [msg]\<rparr>"

definition errorResult :: "string \<Rightarrow> validationResults" where
  "errorResult msg = \<lparr>vrIsError = True, vrWarnings = [msg]\<rparr>"

definition addAccessControlConfig :: "policiesCfg \<Rightarrow> AccessControl \<Rightarrow> policiesCfg \<times> validationResults" where
  "addAccessControlConfig p accessControl =
     (let p' = p\<lparr>pcAllow := pcAllow p @ sliceOf (aclAllow accessControl), pcDeny := pcDeny p @ sliceOf (aclDeny accessControl)\<rparr>
      in (p', if pcAllow p' \<noteq> [] \<and> pcDeny p' \<noteq> []
              then warnResult (''AccessControl policy (or policies) with deny rules is overridden by policy (or policies) with allow rules'')
              else okResult))"

definition generateLimitReq :: "string \<Rightarrow> RateLimit \<Rightarrow> LimitReq" where
  "generateLimitReq zoneName rateLimitPol =
     (let noDelay = generateBool (rlNoDelay rateLimitPol) False
      in \<lparr>lrZoneName = zoneName, lrBurst = (case rlBurst rateLimitPol of None \<Rightarrow> 0 | Some b \<Rightarrow> b), lrNoDelay = noDelay,
          lrDelay = (if noDelay then 0 else case rlDelay rateLimitPol of None \<Rightarrow> 0 | Some d \<Rightarrow> d)\<rparr>)"

definition generateLimitReqZone :: "string \<Rightarrow> RateLimit \<Rightarrow> LimitReqZone" where
  "generateLimitReqZone zoneName rateLimitPol =
     \<lparr>lzKey = rlKey rateLimitPol, lzZoneName = zoneName, lzZoneSize = rlZoneSize rateLimitPol, lzRate = rlRate rateLimitPol\<rparr>"

definition generateLimitReqOptions :: "RateLimit \<Rightarrow> LimitReqOptions" where
  "generateLimitReqOptions rateLimitPol =
     \<lparr>loDryRun = generateBool (rlDryRun rateLimitPol) False, loLogLevel = generateString (rlLogLevel rateLimitPol) ''error'',
      loRejectCode = generateIntFromPointer (rlRejectCode rateLimitPol) 503\<rparr>"

definition overriddenWarning :: "string \<Rightarrow> string \<Rightarrow> string \<Rightarrow> string \<Rightarrow> string" where
  "overriddenWarning polKey opt cur first =
     ''RateLimit policy '' @ polKey @ '' with limit request option '' @ opt @ ''='' @ sq cur @ '' is overridden to '' @ opt
       @ ''='' @ sq first @ '' by the first policy reference in this context''"

definition addRateLimitConfig ::
    "policiesCfg \<Rightarrow> RateLimit \<Rightarrow> string \<Rightarrow> string \<Rightarrow> string \<Rightarrow> string \<Rightarrow> string \<Rightarrow> policiesCfg \<times> validationResults" where
  "addRateLimitConfig p rateLimit polKey polNamespace polName vsNamespace vsName =
     (let rlZoneName = ''pol_rl_'' @ polNamespace @ ''_'' @ polName @ ''_'' @ vsNamespace @ ''_'' @ vsName;
          p' = p\<lparr>pcLimitReqs := pcLimitReqs p @ [generateLimitReq rlZoneName rateLimit],
                 pcLimitReqZones := pcLimitReqZones p @ [generateLimitReqZone rlZoneName rateLimit]\<rparr>;
          curOptions = generateLimitReqOptions rateLimit;
          options = pcLimitReqOptions p'
      in if length (pcLimitReqs p') = 1 then (p'\<lparr>pcLimitReqOptions := curOptions\<rparr>, okResult)
         else (p', \<lparr>vrIsError = False, vrWarnings =
             (if loDryRun curOptions \<noteq> loDryRun options
              then [overriddenWarning polKey ''dryRun'' (fmtBool (loDryRun curOptions)) (fmtBool (loDryRun options))] else [])
             @ (if loLogLevel curOptions \<noteq> loLogLevel options
                then [overriddenWarning polKey ''logLevel'' (loLogLevel curOptions) (loLogLevel options)] else [])
             @ (if loRejectCode curOptions \<noteq> loRejectCode options
                then [overriddenWarning polKey ''rejectCode'' (itoa (loRejectCode curOptions)) (itoa (loRejectCode options))]
                else [])\<rparr>))"

text \<open>The type of the secret of a reference; a reference without a secret has none.\<close>

definition refType :: "SecretReference \<Rightarrow> string" where
  "refType ref = (case srSecret ref of None \<Rightarrow> '''' | Some secret \<Rightarrow> secType secret)"

definition wrongType :: "string \<Rightarrow> string \<Rightarrow> string \<Rightarrow> string \<Rightarrow> string \<Rightarrow> string" where
  "wrongType kind polKey refKey t expected =
     kind @ '' policy '' @ polKey @ '' references a secret '' @ refKey @ '' of a wrong type '' @ sq t
       @ '', must be '' @ sq expected"

definition invalidSecret :: "string \<Rightarrow> string \<Rightarrow> string \<Rightarrow> string \<Rightarrow> string" where
  "invalidSecret kind polKey refKey err =
     kind @ '' policy '' @ polKey @ '' references an invalid secret '' @ refKey @ '': '' @ err"

definition addJWTAuthConfig ::
    "policiesCfg \<Rightarrow> JWTAuth \<Rightarrow> string \<Rightarrow> string \<Rightarrow> SecretReference gomap \<Rightarrow> (policiesCfg \<times> validationResults) option" where
  "addJWTAuthConfig p jwtAuth polKey polNamespace secretRefs =
     (if pcJWTAuth p \<noteq> None
      then Some (p, warnResult (''Multiple jwt policies in the same context is not valid. JWT policy '' @ polKey @ '' will be ignored''))
      else
        let jwtSecretKey = polNamespace @ ''/'' @ jwtSecret jwtAuth
        in case gget secretRefs jwtSecretKey of
             None \<Rightarrow> None
           | Some ref \<Rightarrow>
               Some (if refType ref \<noteq> '''' \<and> refType ref \<noteq> SecretTypeJWK
                     then (p, errorResult (wrongType ''JWT'' polKey jwtSecretKey (refType ref) SecretTypeJWK))
                     else case srError ref of
                         Some err \<Rightarrow> (p, errorResult (invalidSecret ''JWT'' polKey jwtSecretKey err))
                       | None \<Rightarrow>
                           (p\<lparr>pcJWTAuth := Some \<lparr>jw2Secret = srPath ref, jw2Realm = jwtRealm jwtAuth, jw2Token = jwtToken jwtAuth\<rparr>\<rparr>,
                            okResult)))"

definition specContext :: string where "specContext = ''spec''"
definition routeContext :: string where "routeContext = ''route''"
definition subRouteContext :: string where "subRouteContext = ''subroute''"

definition addIngressMTLSConfig ::
    "policiesCfg \<Rightarrow> IngressMTLS \<Rightarrow> string \<Rightarrow> string \<Rightarrow> string \<Rightarrow> bool \<Rightarrow> SecretReference gomap
       \<Rightarrow> (policiesCfg \<times> validationResults) option" where
  "addIngressMTLSConfig p ingressMTLS polKey polNamespace ctxt tls secretRefs =
     (if \<not> tls then Some (p, errorResult (''TLS must be enabled in VirtualServer for IngressMTLS policy '' @ polKey))
      else if ctxt \<noteq> specContext
      then Some (p, errorResult (''IngressMTLS policy '' @ polKey @ '' is not allowed in the '' @ ctxt @ '' context''))
      else if pcIngressMTLS p \<noteq> None
      then Some (p, warnResult (''Multiple ingressMTLS policies are not allowed. IngressMTLS policy '' @ polKey @ '' will be ignored''))
      else
        let certKey = polNamespace @ ''/'' @ imClientCertSecret ingressMTLS
        in case gget secretRefs certKey of
             None \<Rightarrow> None
           | Some ref \<Rightarrow>
               Some (if refType ref \<noteq> '''' \<and> refType ref \<noteq> SecretTypeCA
                     then (p, errorResult (wrongType ''IngressMTLS'' polKey certKey (refType ref) SecretTypeCA))
                     else case srError ref of
                         Some err \<Rightarrow> (p, errorResult (invalidSecret ''IngressMTLS'' (quoteStr polKey) certKey err))
                       | None \<Rightarrow>
                           (p\<lparr>pcIngressMTLS := Some
                               \<lparr>im2ClientCert = srPath ref,
                                im2VerifyClient = (if imVerifyClient ingressMTLS \<noteq> '''' then imVerifyClient ingressMTLS else ''on''),
                                im2VerifyDepth = (case imVerifyDepth ingressMTLS of None \<Rightarrow> 1 | Some d \<Rightarrow> d)\<rparr>\<rparr>,
                            okResult)))"

text \<open>A secret of an EgressMTLS policy: nil reference, error, or path; no name means no path.\<close>

definition egressSecret :: "string \<Rightarrow> string \<Rightarrow> string \<Rightarrow> string \<Rightarrow> SecretReference gomap \<Rightarrow> (string + string) option" where
  "egressSecret name expected polKey polNamespace secretRefs =
     (if name = '''' then Some (Inr '''')
      else
        let certKey = polNamespace @ ''/'' @ name
        in case gget secretRefs certKey of
             None \<Rightarrow> None
           | Some ref \<Rightarrow>
               Some (if refType ref \<noteq> '''' \<and> refType ref \<noteq> expected
                     then Inl (wrongType ''EgressMTLS'' polKey certKey (refType ref) expected)
                     else case srError ref of
                         Some err \<Rightarrow> Inl (invalidSecret ''EgressMTLS'' polKey certKey err)
                       | None \<Rightarrow> Inr (srPath ref)))"

definition addEgressMTLSConfig ::
    "policiesCfg \<Rightarrow> EgressMTLS \<Rightarrow> string \<Rightarrow> string \<Rightarrow> SecretReference gomap \<Rightarrow> (policiesCfg \<times> validationResults) option" where
  "addEgressMTLSConfig p egressMTLS polKey polNamespace secretRefs =
     (if pcEgressMTLS p \<noteq> None
      then Some (p, warnResult (''Multiple egressMTLS policies in the same context is not valid. EgressMTLS policy ''
                      @ polKey @ '' will be ignored''))
      else case egressSecret (emTLSSecret egressMTLS) SecretTypeTLS polKey polNamespace secretRefs of
          None \<Rightarrow> None
        | Some (Inl msg) \<Rightarrow> Some (p, errorResult msg)
        | Some (Inr tlsSecretPath) \<Rightarrow>
            (case egressSecret (emTrustedCertSecret egressMTLS) SecretTypeCA polKey polNamespace secretRefs of
               None \<Rightarrow> None
             | Some (Inl msg) \<Rightarrow> Some (p, errorResult msg)
             | Some (Inr trustedSecretPath) \<Rightarrow>
                 Some (p\<lparr>pcEgressMTLS := Some
                          \<lparr>em2Certificate = tlsSecretPath, em2CertificateKey = tlsSecretPath,
                           em2VerifyServer = emVerifyServer egressMTLS,
                           em2VerifyDepth = generateIntFromPointer (emVerifyDepth egressMTLS) 1,
                           em2Ciphers = generateString (emCiphers egressMTLS) ''DEFAULT'',
                           em2Protocols = generateString (emProtocols egressMTLS) ''TLSv1 TLSv1.1 TLSv1.2'',
                           em2TrustedCert = trustedSecretPath,
                           em2SessionReuse = generateBool (emSessionReuse egressMTLS) True,
                           em2ServerName = emServerName egressMTLS,
                           em2SSLName = generateString (emSSLName egressMTLS) ''$proxy_host''\<rparr>\<rparr>, okResult)))"

text \<open>The one OIDC policy of the VirtualServer is set by the first use and shared by the others.\<close>

definition addOIDCConfig ::
    "policiesCfg \<Rightarrow> OIDC \<Rightarrow> string \<Rightarrow> string \<Rightarrow> SecretReference gomap \<Rightarrow> oidcPolicyCfg
       \<Rightarrow> (policiesCfg \<times> oidcPolicyCfg \<times> validationResults) option" where
  "addOIDCConfig p oidc polKey polNamespace secretRefs oidcPolCfg =
     (if pcOIDC p
      then Some (p, oidcPolCfg,
             warnResult (''Multiple oidc policies in the same context is not valid. OIDC policy '' @ polKey @ '' will be ignored''))
      else if opOidc oidcPolCfg \<noteq> None
      then Some (if opKey oidcPolCfg \<noteq> polKey
                 then (p, oidcPolCfg,
                   errorResult (''Only one oidc policy is allowed in a VirtualServer and its VirtualServerRoutes. Can''
                     @ [CHR 0x27] @ ''t use '' @ polKey @ ''. Use '' @ opKey oidcPolCfg))
                 else (p\<lparr>pcOIDC := True\<rparr>, oidcPolCfg, okResult))
      else
        let certKey = polNamespace @ ''/'' @ oiClientSecret oidc
        in case gget secretRefs certKey of
             None \<Rightarrow> None
           | Some ref \<Rightarrow>
               (if refType ref \<noteq> '''' \<and> refType ref \<noteq> SecretTypeOIDC
                then Some (p, oidcPolCfg, errorResult (wrongType ''OIDC'' polKey certKey (refType ref) SecretTypeOIDC))
                else case srError ref of
                    Some err \<Rightarrow> Some (p, oidcPolCfg, errorResult (invalidSecret ''OIDC'' polKey certKey err))
                  | None \<Rightarrow>
                      (case srSecret ref of
                         None \<Rightarrow> None
                       | Some secret \<Rightarrow>
                           Some (p\<lparr>pcOIDC := True\<rparr>,
                                 \<lparr>opOidc = Some
                                    \<lparr>oi2AuthEndpoint = oiAuthEndpoint oidc, oi2ClientID = oiClientID oidc,
                                     oi2ClientSecret = dataField secret ClientSecretKey, oi2JwksURI = oiJWKSURI oidc,
                                     oi2Scope = (if oiScope oidc = '''' then ''openid'' else oiScope oidc),
                                     oi2TokenEndpoint = oiTokenEndpoint oidc,
                                     oi2RedirectURI = (if oiRedirectURI oidc = '''' then ''/_codexch'' else oiRedirectURI oidc)\<rparr>,
                                  opKey = polKey\<rparr>, okResult))))"

definition namespacedKey :: "string \<Rightarrow> string \<Rightarrow> string" where
  "namespacedKey namespace key = (if CHR ''/'' \<notin> set key then namespace @ ''/'' @ key else key)"

definition addWAFConfig ::
    "policiesCfg \<Rightarrow> WAF \<Rightarrow> string \<Rightarrow> string \<Rightarrow> string gomap \<Rightarrow> policiesCfg \<times> validationResults" where
  "addWAFConfig p waf polKey polNamespace apResources =
     (if pcWAF p \<noteq> None
      then (p, warnResult (''Multiple WAF policies in the same context is not valid. WAF policy '' @ polKey @ '' will be ignored''))
      else
        let w0 = \<lparr>wf2Enable = (if wfEnable waf then ''on'' else ''off''), wf2ApPolicy = '''', wf2ApSecurityLogEnable = False,
                  wf2ApLogConf = ''''\<rparr>;
            apPolKey = namespacedKey polNamespace (wfApPolicy waf)
        in if wfApPolicy waf \<noteq> '''' \<and> gget apResources apPolKey = None
           then (p\<lparr>pcWAF := Some w0\<rparr>,
                 errorResult (''WAF policy '' @ polKey @ '' references an invalid or non-existing App Protect policy '' @ apPolKey))
           else
             let w1 = (if wfApPolicy waf = '''' then w0
                       else w0\<lparr>wf2ApPolicy := (case gget apResources apPolKey of Some f \<Rightarrow> f | None \<Rightarrow> '''')\<rparr>)
             in case wfSecurityLog waf of
                  None \<Rightarrow> (p\<lparr>pcWAF := Some w1\<rparr>, okResult)
                | Some sl \<Rightarrow>
                    (let logConfKey = namespacedKey polNamespace (slApLogConf sl)
                     in case gget apResources logConfKey of
                          Some logConfPath \<Rightarrow>
                            (p\<lparr>pcWAF := Some (w1\<lparr>wf2ApSecurityLogEnable := True,
                               wf2ApLogConf := logConfPath @ '' '' @ generateString (slLogDest sl) ''syslog:server=localhost:514''\<rparr>)\<rparr>,
                             okResult)
                        | None \<Rightarrow>
                            (p\<lparr>pcWAF := Some (w1\<lparr>wf2ApSecurityLogEnable := True\<rparr>)\<rparr>,
                             errorResult (''WAF policy '' @ polKey @ '' references an invalid or non-existing log config ''
                               @ logConfKey))))"

section \<open>All policies of a context\<close>

text \<open>One policy added to the configuration: the new configuration, the OIDC policy, and the result.\<close>

definition addPolicyConfig ::
    "policyOwnerDetails \<Rightarrow> string \<Rightarrow> policyOptions \<Rightarrow> string \<Rightarrow> string \<Rightarrow> string \<Rightarrow> PolicySpec \<Rightarrow> policiesCfg \<Rightarrow> oidcPolicyCfg
       \<Rightarrow> (policiesCfg \<times> oidcPolicyCfg \<times> validationResults) option" where
  "addPolicyConfig ownerDetails ctxt policyOpts key polNamespace polName spec config oidcPolCfg =
     (let withOidc = (\<lambda>(config', res). (config', oidcPolCfg, res)) in
        (case psAccessControl spec of Some ac \<Rightarrow> Some (withOidc (addAccessControlConfig config ac)) | None \<Rightarrow>
        (case psRateLimit spec of
           Some rl \<Rightarrow> Some (withOidc (addRateLimitConfig config rl key polNamespace polName (poVsNamespace ownerDetails) (poVsName ownerDetails)))
         | None \<Rightarrow>
        (case psJWTAuth spec of Some jwt \<Rightarrow> map_option withOidc (addJWTAuthConfig config jwt key polNamespace (pySecretRefs policyOpts)) | None \<Rightarrow>
        (case psIngressMTLS spec of
           Some im \<Rightarrow> map_option withOidc (addIngressMTLSConfig config im key polNamespace ctxt (pyTls policyOpts) (pySecretRefs policyOpts))
         | None \<Rightarrow>
        (case psEgressMTLS spec of Some em \<Rightarrow> map_option withOidc (addEgressMTLSConfig config em key polNamespace (pySecretRefs policyOpts)) | None \<Rightarrow>
        (case psOIDC spec of Some oi \<Rightarrow> addOIDCConfig config oi key polNamespace (pySecretRefs policyOpts) oidcPolCfg | None \<Rightarrow>
        (case psWAF spec of Some w \<Rightarrow> Some (withOidc (addWAFConfig config w key polNamespace (pyApResources policyOpts)))
         | None \<Rightarrow> Some (config, oidcPolCfg, okResult)))))))))"

definition errorPolicies :: policiesCfg where
  "errorPolicies = newPoliciesConfig\<lparr>pcErrorReturn := Some \<lparr>reCode = 500, reText = ''''\<rparr>\<rparr>"

fun policiesLoop ::
    "policyOwnerDetails \<Rightarrow> PolicyReference list \<Rightarrow> Policy gomap \<Rightarrow> string \<Rightarrow> policyOptions \<Rightarrow> policiesCfg \<Rightarrow> virtualServerConfigurator
       \<Rightarrow> (policiesCfg \<times> virtualServerConfigurator) option" where
  "policiesLoop ownerDetails [] policies ctxt policyOpts config vsc = Some (config, vsc)"
| "policiesLoop ownerDetails (p # ps) policies ctxt policyOpts config vsc =
     (let polNamespace = (if prNamespace p = '''' then poOwnerNamespace ownerDetails else prNamespace p);
          key = polNamespace @ ''/'' @ prName p
      in case gget policies key of
           None \<Rightarrow> Some (errorPolicies, addWarningf (poOwner ownerDetails) (''Policy '' @ key @ '' is missing or invalid'') vsc)
         | Some pol \<Rightarrow>
             (case addPolicyConfig ownerDetails ctxt policyOpts key polNamespace (prName p) (polSpec pol) config (genOidcPolCfg vsc) of
                None \<Rightarrow> None
              | Some (config', oidcPolCfg, res) \<Rightarrow>
                  (let vsc' = addWarnings (poOwner ownerDetails) (vrWarnings res) (vsc\<lparr>genOidcPolCfg := oidcPolCfg\<rparr>)
                   in if vrIsError res then Some (errorPolicies, vsc')
                      else policiesLoop ownerDetails ps policies ctxt policyOpts config' vsc')))"

definition generatePolicies ::
    "policyOwnerDetails \<Rightarrow> PolicyReference list \<Rightarrow> Policy gomap \<Rightarrow> string \<Rightarrow> policyOptions \<Rightarrow> virtualServerConfigurator
       \<Rightarrow> (policiesCfg \<times> virtualServerConfigurator) option" where
  "generatePolicies ownerDetails policyRefs policies ctxt policyOpts vsc =
     policiesLoop ownerDetails policyRefs policies ctxt policyOpts newPoliciesConfig vsc"

fun removeDuplicateZones :: "string list \<Rightarrow> LimitReqZone list \<Rightarrow> LimitReqZone list" where
  "removeDuplicateZones encountered [] = []"
| "removeDuplicateZones encountered (v # vs) =
     (if lzZoneName v \<notin> set encountered then v # removeDuplicateZones (lzZoneName v # encountered) vs
      else removeDuplicateZones encountered vs)"

definition removeDuplicateLimitReqZones :: "LimitReqZone list \<Rightarrow> LimitReqZone list" where
  "removeDuplicateLimitReqZones rlz = removeDuplicateZones [] rlz"

definition addPoliciesCfgToLocation :: "policiesCfg \<Rightarrow> Location \<Rightarrow> Location" where
  "addPoliciesCfgToLocation cfg location =
     location\<lparr>locAllow := pcAllow cfg, locDeny := pcDeny cfg, locLimitReqOptions := pcLimitReqOptions cfg,
       locLimitReqs := pcLimitReqs cfg, locJWTAuth := pcJWTAuth cfg, locEgressMTLS := pcEgressMTLS cfg, locOIDC := pcOIDC cfg,
       locWAF := pcWAF cfg, locPoliciesErrorReturn := pcErrorReturn cfg\<rparr>"

definition addPoliciesCfgToLocations :: "policiesCfg \<Rightarrow> Location list \<Rightarrow> Location list" where
  "addPoliciesCfgToLocations cfg locations = map (addPoliciesCfgToLocation cfg) locations"

end
