(* ===== verification/VS_Upstreams.thy ===== *)
theory VS_Upstreams
  imports VS_Policies
begin

text \<open>
  The second part of \<open>internal/configs/virtualserver.go\<close>: the names of upstreams and variables, and
  the upstreams with their health checks.
\<close>

section \<open>Names\<close>

text \<open>\<open>labels.Set.String\<close>: the labels in sorted order.\<close>

definition labelsString :: "string gomap \<Rightarrow> string" where
  "labelsString ls = joinStr '','' (sort (map (\<lambda>(k, v). k @ ''='' @ v) ls))"

definition fmtPort :: "16 word \<Rightarrow> string" where
  "fmtPort p = itoa (uint p)"

definition GenerateEndpointsKey :: "string \<Rightarrow> string \<Rightarrow> string gomap \<Rightarrow> 16 word \<Rightarrow> string" where
  "GenerateEndpointsKey serviceNamespace serviceName subselector port =
     (if subselector \<noteq> []
      then serviceNamespace @ ''/'' @ serviceName @ ''_'' @ labelsString subselector @ '':'' @ fmtPort port
      else serviceNamespace @ ''/'' @ serviceName @ '':'' @ fmtPort port)"

record upstreamNamer =
  unPrefix :: string
  unNamespace :: string

definition newUpstreamNamerForVirtualServer :: "VirtualServer \<Rightarrow> upstreamNamer" where
  "newUpstreamNamerForVirtualServer virtualServer =
     \<lparr>unPrefix = ''vs_'' @ omNamespace (vsMeta virtualServer) @ ''_'' @ omName (vsMeta virtualServer),
      unNamespace = omNamespace (vsMeta virtualServer)\<rparr>"

definition newUpstreamNamerForVirtualServerRoute :: "VirtualServer \<Rightarrow> VirtualServerRoute \<Rightarrow> upstreamNamer" where
  "newUpstreamNamerForVirtualServerRoute virtualServer virtualServerRoute =
     \<lparr>unPrefix = ''vs_'' @ omNamespace (vsMeta virtualServer) @ ''_'' @ omName (vsMeta virtualServer)
        @ ''_vsr_'' @ omNamespace (vsrMeta virtualServerRoute) @ ''_'' @ omName (vsrMeta virtualServerRoute),
      unNamespace = omNamespace (vsrMeta virtualServerRoute)\<rparr>"

definition newUpstreamNamerForTransportServer :: "TransportServer \<Rightarrow> upstreamNamer" where
  "newUpstreamNamerForTransportServer transportServer =
     \<lparr>unPrefix = ''ts_'' @ omNamespace (tsMeta transportServer) @ ''_'' @ omName (tsMeta transportServer), unNamespace = ''''\<rparr>"

definition GetNameForUpstream :: "upstreamNamer \<Rightarrow> string \<Rightarrow> string" where
  "GetNameForUpstream namer upstream = unPrefix namer @ ''_'' @ upstream"

definition GetNameForUpstreamFromAction :: "upstreamNamer \<Rightarrow> Action \<Rightarrow> string" where
  "GetNameForUpstreamFromAction namer action =
     (let upstream = (case acProxy action of
                        Some proxy \<Rightarrow> (if apUpstream proxy \<noteq> '''' then apUpstream proxy else acPass action)
                      | None \<Rightarrow> acPass action)
      in unPrefix namer @ ''_'' @ upstream)"

record variableNamer =
  vnSafeNsName :: string

definition newVariableNamer :: "VirtualServer \<Rightarrow> variableNamer" where
  "newVariableNamer virtualServer =
     \<lparr>vnSafeNsName = replaceChar (CHR ''-'') (CHR ''_'') (omNamespace (vsMeta virtualServer) @ ''_'' @ omName (vsMeta virtualServer))\<rparr>"

definition fmtNat :: "nat \<Rightarrow> string" where
  "fmtNat n = itoa (int n)"

definition GetNameForSplitClientVariable :: "variableNamer \<Rightarrow> nat \<Rightarrow> string" where
  "GetNameForSplitClientVariable namer i = ''$vs_'' @ vnSafeNsName namer @ ''_splits_'' @ fmtNat i"

definition GetNameForVariableForMatchesRouteMap :: "variableNamer \<Rightarrow> nat \<Rightarrow> nat \<Rightarrow> nat \<Rightarrow> string" where
  "GetNameForVariableForMatchesRouteMap namer matchesIndex matchIndex conditionIndex =
     ''$vs_'' @ vnSafeNsName namer @ ''_matches_'' @ fmtNat matchesIndex @ ''_match_'' @ fmtNat matchIndex
       @ ''_cond_'' @ fmtNat conditionIndex"

definition GetNameForVariableForMatchesRouteMainMap :: "variableNamer \<Rightarrow> nat \<Rightarrow> string" where
  "GetNameForVariableForMatchesRouteMainMap namer matchesIndex =
     ''$vs_'' @ vnSafeNsName namer @ ''_matches_'' @ fmtNat matchesIndex"

section \<open>Values\<close>

definition generateTime :: "string \<Rightarrow> string" where
  "generateTime value = (case ParseTime value of Inr t \<Rightarrow> t | Inl _ \<Rightarrow> '''')"

definition generateTimeWithDefault :: "string \<Rightarrow> string \<Rightarrow> string" where
  "generateTimeWithDefault value defaultValue = (if value = '''' then defaultValue else generateTime value)"

definition generateProxyPassProtocol :: "bool \<Rightarrow> string" where
  "generateProxyPassProtocol enableTLS = (if enableTLS then ''https'' else ''http'')"

definition generateLBMethod :: "string \<Rightarrow> string \<Rightarrow> string" where
  "generateLBMethod lbMethod defaultMethod =
     (if lbMethod = '''' then defaultMethod else if lbMethod = ''round_robin'' then '''' else lbMethod)"

definition GenerateExternalNameSvcKey :: "string \<Rightarrow> string \<Rightarrow> string" where
  "GenerateExternalNameSvcKey namespace service = namespace @ ''/'' @ service"

definition generateQueueForPlus :: "UpstreamQueue option \<Rightarrow> string \<Rightarrow> Queue option" where
  "generateQueueForPlus upstreamQueue defaultTimeout =
     map_option (\<lambda>q. \<lparr>quSize = uqSize q, quTimeout = generateTimeWithDefault (uqTimeout q) defaultTimeout\<rparr>) upstreamQueue"

definition generateSessionCookie :: "SessionCookie option \<Rightarrow> SessionCookie2 option" where
  "generateSessionCookie sc =
     (case sc of
        None \<Rightarrow> None
      | Some c \<Rightarrow>
          (if \<not> scEnable c then None
           else Some \<lparr>sc2Enable = True, sc2Name = scName c, sc2Path = scPath c, sc2Expires = scExpires c, sc2Domain = scDomain c,
                      sc2HTTPOnly = scHTTPOnly c, sc2Secure = scSecure c\<rparr>))"

definition upstreamHasKeepalive :: "Upstream \<Rightarrow> ConfigParams \<Rightarrow> bool" where
  "upstreamHasKeepalive upstream cfgParams =
     (case uKeepalive upstream of Some n \<Rightarrow> n \<noteq> 0 | None \<Rightarrow> cpKeepalive cfgParams \<noteq> 0)"

definition isTLSEnabled :: "Upstream \<Rightarrow> bool \<Rightarrow> bool" where
  "isTLSEnabled u spiffeCerts = (utEnable (uTLS u) \<or> spiffeCerts)"

section \<open>Health checks\<close>

definition generateStatusMatchName :: "string \<Rightarrow> string" where
  "generateStatusMatchName upstreamName = upstreamName @ ''_match''"

definition generateUpstreamStatusMatch :: "string \<Rightarrow> string \<Rightarrow> StatusMatch" where
  "generateUpstreamStatusMatch upstreamName status = \<lparr>smName = generateStatusMatchName upstreamName, smCode = status\<rparr>"

definition newHealthCheckWithDefaults :: "Upstream \<Rightarrow> string \<Rightarrow> ConfigParams \<Rightarrow> HealthCheck2" where
  "newHealthCheckWithDefaults upstream upstreamName cfgParams =
     \<lparr>hc2Name = upstreamName, hc2URI = ''/'', hc2Interval = ''5s'', hc2Jitter = ''0s'', hc2Fails = 1, hc2Passes = 1,
      hc2Port = uint (uPort upstream),
      hc2ProxyPass = generateProxyPassProtocol (utEnable (uTLS upstream)) @ ''://'' @ upstreamName,
      hc2ProxyConnectTimeout = generateTimeWithDefault (uProxyConnectTimeout upstream) (cpProxyConnectTimeout cfgParams),
      hc2ProxyReadTimeout = generateTimeWithDefault (uProxyReadTimeout upstream) (cpProxyReadTimeout cfgParams),
      hc2ProxySendTimeout = generateTimeWithDefault (uProxySendTimeout upstream) (cpProxySendTimeout cfgParams),
      hc2Headers = [], hc2Match = ''''\<rparr>"

definition generateHealthCheck :: "Upstream \<Rightarrow> string \<Rightarrow> ConfigParams \<Rightarrow> HealthCheck2 option" where
  "generateHealthCheck upstream upstreamName cfgParams =
     (case uHealthCheck upstream of
        None \<Rightarrow> None
      | Some h \<Rightarrow>
          (if \<not> hcEnable h then None
           else
             let d = newHealthCheckWithDefaults upstream upstreamName cfgParams;
                 time = (\<lambda>value def. if value \<noteq> '''' then generateTime value else def)
             in Some
                 \<lparr>hc2Name = hc2Name d, hc2URI = (if hcPath h \<noteq> '''' then hcPath h else hc2URI d),
                  hc2Interval = time (hcInterval h) (hc2Interval d), hc2Jitter = time (hcJitter h) (hc2Jitter d),
                  hc2Fails = (if hcFails h > 0 then hcFails h else hc2Fails d),
                  hc2Passes = (if hcPasses h > 0 then hcPasses h else hc2Passes d),
                  hc2Port = (if hcPort h > 0 then hcPort h else hc2Port d),
                  hc2ProxyPass = (case hcTLS h of
                                    Some tls \<Rightarrow> generateProxyPassProtocol (utEnable tls) @ ''://'' @ upstreamName
                                  | None \<Rightarrow> hc2ProxyPass d),
                  hc2ProxyConnectTimeout = time (hcConnectTimeout h) (hc2ProxyConnectTimeout d),
                  hc2ProxyReadTimeout = time (hcReadTimeout h) (hc2ProxyReadTimeout d),
                  hc2ProxySendTimeout = time (hcSendTimeout h) (hc2ProxySendTimeout d),
                  hc2Headers = fold (\<lambda>hd m. gput (hdName hd) (hdValue hd) m) (hcHeaders h) (hc2Headers d),
                  hc2Match = (if hcStatusMatch h \<noteq> '''' then generateStatusMatchName upstreamName else hc2Match d)\<rparr>))"

section \<open>Upstreams\<close>

definition nginx502Server :: string where
  "nginx502Server = ''unix:/var/lib/nginx/nginx-502-server.sock''"

definition incompatibleLBMethodsForSlowStart :: "string list" where
  "incompatibleLBMethodsForSlowStart =
     [''random'', ''ip_hash'', ''random two'', ''random two least_conn'', ''random two least_time=header'',
      ''random two least_time=last_byte'']"

definition generateSlowStartForPlus ::
    "runtimeOwner \<Rightarrow> Upstream \<Rightarrow> string \<Rightarrow> virtualServerConfigurator \<Rightarrow> string \<times> virtualServerConfigurator" where
  "generateSlowStartForPlus owner upstream lbMethod vsc =
     (if uSlowStart upstream = '''' then ('''', vsc)
      else if lbMethod \<in> set incompatibleLBMethodsForSlowStart \<or> hasPrefix lbMethod ''hash''
      then ('''', addWarningf owner (''Slow start will be disabled for upstream '' @ uName upstream @ '' because lb method ''
                    @ sq lbMethod @ '' is incompatible with slow start'') vsc)
      else (generateTime (uSlowStart upstream), vsc))"

fun getUpstreamResourceLabels :: "runtimeOwner \<Rightarrow> UpstreamLabels" where
  "getUpstreamResourceLabels (VirtualServerOwner m) =
     \<lparr>ulService = '''', ulResourceType = ''virtualserver'', ulResourceName = omName m, ulResourceNamespace = omNamespace m\<rparr>"
| "getUpstreamResourceLabels (VirtualServerRouteOwner m) =
     \<lparr>ulService = '''', ulResourceType = ''virtualserverroute'', ulResourceName = omName m, ulResourceNamespace = omNamespace m\<rparr>"

definition generateUpstream ::
    "runtimeOwner \<Rightarrow> string \<Rightarrow> Upstream \<Rightarrow> bool \<Rightarrow> string list \<Rightarrow> virtualServerConfigurator
       \<Rightarrow> Upstream2 \<times> virtualServerConfigurator" where
  "generateUpstream owner upstreamName upstream isExternalNameSvc endpoints vsc =
     (let cfgParams = genCfgParams vsc;
          lbMethod = generateLBMethod (uLBMethod upstream) (cpLBMethod cfgParams);
          ups = \<lparr>u2Name = upstreamName, u2Servers = map (\<lambda>e. \<lparr>usAddress = e\<rparr>) endpoints, u2LBMethod = lbMethod,
                 u2Resolve = isExternalNameSvc,
                 u2Keepalive = generateIntFromPointer (uKeepalive upstream) (cpKeepalive cfgParams),
                 u2MaxFails = generateIntFromPointer (uMaxFails upstream) (cpMaxFails cfgParams),
                 u2MaxConns = generateIntFromPointer (uMaxConns upstream) (cpMaxConns cfgParams),
                 u2SlowStart = '''',
                 u2FailTimeout = generateTimeWithDefault (uFailTimeout upstream) (cpFailTimeout cfgParams),
                 u2UpstreamZoneSize = cpUpstreamZoneSize cfgParams, u2Queue = None, u2SessionCookie = None,
                 u2UpstreamLabels = (getUpstreamResourceLabels owner)\<lparr>ulService := uService upstream\<rparr>\<rparr>
      in if genIsPlus vsc
         then (let (slowStart, vsc') = generateSlowStartForPlus owner upstream lbMethod vsc
               in (ups\<lparr>u2SlowStart := slowStart, u2Queue := generateQueueForPlus (uQueue upstream) ''60s'',
                       u2SessionCookie := generateSessionCookie (uSessionCookie upstream)\<rparr>, vsc'))
         else (ups, vsc))"

definition endpointsFor :: "VirtualServerEx \<Rightarrow> string \<Rightarrow> Upstream \<Rightarrow> string list" where
  "endpointsFor vsEx namespace u =
     (let key = GenerateEndpointsKey namespace (uService u) (sliceOf (uSubselector u)) (uPort u)
      in case gget (vxEndpoints vsEx) key of None \<Rightarrow> [] | Some es \<Rightarrow> es)"

definition generateEndpointsForUpstream ::
    "runtimeOwner \<Rightarrow> string \<Rightarrow> Upstream \<Rightarrow> VirtualServerEx \<Rightarrow> virtualServerConfigurator \<Rightarrow> string list \<times> virtualServerConfigurator" where
  "generateEndpointsForUpstream owner namespace upstream virtualServerEx vsc =
     (let endpoints = endpointsFor virtualServerEx namespace upstream
      in if \<not> genIsPlus vsc \<and> endpoints = [] then ([nginx502Server], vsc)
         else if ghas (vxExternalNameSvcs virtualServerEx) (GenerateExternalNameSvcKey namespace (uService upstream))
                 \<and> \<not> genIsResolverConfigured vsc
         then ([], addWarningf owner (''Type ExternalName service '' @ uService upstream @ '' in upstream '' @ uName upstream
                     @ '' will be ignored. To use ExternaName services, a resolver must be configured in the ConfigMap'') vsc)
         else (endpoints, vsc))"

section \<open>Upstreams for the NGINX Plus API\<close>

definition createEndpointsFromUpstream :: "Upstream2 \<Rightarrow> string list" where
  "createEndpointsFromUpstream upstream = map usAddress (u2Servers upstream)"

text \<open>The configuration of the servers of an upstream, without servers the zero value.\<close>

record ServerConfig =
  scfMaxFails :: int
  scfMaxConns :: int
  scfFailTimeout :: string
  scfSlowStart :: string

definition createUpstreamServersConfigForPlus :: "Upstream2 \<Rightarrow> ServerConfig" where
  "createUpstreamServersConfigForPlus upstream =
     (if u2Servers upstream = [] then \<lparr>scfMaxFails = 0, scfMaxConns = 0, scfFailTimeout = '''', scfSlowStart = ''''\<rparr>
      else \<lparr>scfMaxFails = u2MaxFails upstream, scfMaxConns = u2MaxConns upstream, scfFailTimeout = u2FailTimeout upstream,
            scfSlowStart = u2SlowStart upstream\<rparr>)"

definition createUpstreamForPlus ::
    "VirtualServerEx \<Rightarrow> runtimeOwner \<Rightarrow> string \<Rightarrow> upstreamNamer \<Rightarrow> Upstream
       \<Rightarrow> Upstream2 list \<times> virtualServerConfigurator \<Rightarrow> Upstream2 list \<times> virtualServerConfigurator" where
  "createUpstreamForPlus vsEx owner namespace namer u st =
     (case st of (upstreams, vsc) \<Rightarrow>
        (let isExternalNameSvc =
               (case gget (vxExternalNameSvcs vsEx) (GenerateExternalNameSvcKey namespace (uService u)) of
                  None \<Rightarrow> False | Some b \<Rightarrow> b)
         in if isExternalNameSvc then (upstreams, vsc)
            else (let (ups, vsc') = generateUpstream owner (GetNameForUpstream namer (uName u)) u isExternalNameSvc
                                      (endpointsFor vsEx namespace u) vsc
                  in (upstreams @ [ups], vsc'))))"

definition createUpstreamsForPlus :: "VirtualServerEx \<Rightarrow> ConfigParams \<Rightarrow> StaticConfigParams \<Rightarrow> Upstream2 list" where
  "createUpstreamsForPlus vsEx baseCfgParams staticParams =
     (let vs = vxVirtualServer vsEx;
          vsc = newVirtualServerConfigurator baseCfgParams True False staticParams;
          st = fold (createUpstreamForPlus vsEx (VirtualServerOwner (vsMeta vs)) (omNamespace (vsMeta vs))
                 (newUpstreamNamerForVirtualServer vs)) (vssUpstreams (vsSpec vs)) ([], vsc)
      in fst (fold (\<lambda>vsr. fold (createUpstreamForPlus vsEx (VirtualServerRouteOwner (vsrMeta vsr)) (omNamespace (vsrMeta vsr))
                 (newUpstreamNamerForVirtualServerRoute vs vsr)) (vrsUpstreams (vsrSpec vsr))) (vxVirtualServerRoutes vsEx) st))"

end
