(* ===== verification/VS_Locations.thy ===== *)
theory VS_Locations
  imports VS_Upstreams
begin

text \<open>
  The third part of \<open>internal/configs/virtualserver.go\<close>: locations for the actions of routes
  (proxying, redirects, canned responses) and the pages for errors. A nil action or a nil return
  of an error page makes the code panic, here \<^term>\<open>None\<close>.
\<close>

section \<open>Paths and rewrites\<close>

definition quoted :: "string \<Rightarrow> string" where
  "quoted s = [CHR 0x22] @ s @ [CHR 0x22]"

definition generatePath :: "string \<Rightarrow> string" where
  "generatePath p =
     (if hasPrefix p ''~*'' then ''~* '' @ quoted (trimPrefix (trimPrefix p ''~*'') '' '')
      else if hasPrefix p ''~'' then ''~ '' @ quoted (trimPrefix (trimPrefix p ''~'') '' '')
      else p)"

definition generateRewrites :: "string \<Rightarrow> ActionProxy option \<Rightarrow> bool \<Rightarrow> string \<Rightarrow> string list" where
  "generateRewrites p0 proxy internal originalPath =
     (case proxy of
        None \<Rightarrow> []
      | Some pr \<Rightarrow>
          (if apRewritePath pr = '''' then []
           else
             let p = (if originalPath \<noteq> '''' then originalPath else p0);
                 isRegex = hasPrefix p ''~'';
                 trimmedPath = trimSpace (trimPrefix (trimPrefix p ''~'') ''*'')
             in (if internal then [''^ $request_uri''] else [])
                @ (if isRegex then [quoted (''^'' @ trimmedPath) @ '' '' @ quoted (apRewritePath pr) @ '' break'']
                   else if internal
                   then [quoted (''^'' @ trimmedPath @ ''(.*)$'') @ '' '' @ quoted (apRewritePath pr @ ''$1'') @ '' break'']
                   else [])))"

definition generateProxyPassRewrite :: "string \<Rightarrow> ActionProxy option \<Rightarrow> bool \<Rightarrow> string" where
  "generateProxyPassRewrite p proxy internal =
     (case proxy of
        None \<Rightarrow> ''''
      | Some pr \<Rightarrow>
          (if internal then '''' else if hasPrefix p ''/'' \<or> hasPrefix p ''='' then apRewritePath pr else ''''))"

definition generateProxyPass :: "bool \<Rightarrow> string \<Rightarrow> bool \<Rightarrow> ActionProxy option \<Rightarrow> string" where
  "generateProxyPass tlsEnabled upstreamName internal proxy =
     (let proxyPass = generateProxyPassProtocol tlsEnabled @ ''://'' @ upstreamName
      in if internal \<and> (case proxy of None \<Rightarrow> True | Some pr \<Rightarrow> apRewritePath pr = '''')
         then proxyPass @ ''$request_uri'' else proxyPass)"

definition generateSnippets :: "bool \<Rightarrow> string \<Rightarrow> string list \<Rightarrow> string list" where
  "generateSnippets enableSnippets snippet defaultSnippets =
     (if \<not> enableSnippets \<or> snippet = '''' then defaultSnippets else splitOn (CHR 0x0A) snippet)"

definition generateBuffers :: "UpstreamBuffers option \<Rightarrow> string \<Rightarrow> string" where
  "generateBuffers s defaultS = (case s of None \<Rightarrow> defaultS | Some b \<Rightarrow> itoa (ubNumber b) @ '' '' @ ubSize b)"

definition generateProxySSLName :: "string \<Rightarrow> string \<Rightarrow> string" where
  "generateProxySSLName svcName ns = svcName @ ''.'' @ ns @ ''.svc''"

section \<open>Headers\<close>

definition toHeader2 :: "Header \<Rightarrow> Header2" where
  "toHeader2 h = \<lparr>hd2Name = hdName h, hd2Value = hdValue h\<rparr>"

text \<open>\<open>strings.ToLower\<close> maps no rune outside ASCII to a letter of \<open>host\<close>.\<close>

definition generateProxySetHeaders :: "ActionProxy option \<Rightarrow> Header2 list" where
  "generateProxySetHeaders proxy =
     (let set = (case proxy of
                   None \<Rightarrow> []
                 | Some pr \<Rightarrow> (case apRequestHeaders pr of None \<Rightarrow> [] | Some rh \<Rightarrow> prhSet rh));
          hasHostHeader = list_ex (\<lambda>h. map toLowerByte (hdName h) = ''host'') set
      in map toHeader2 set @ (if hasHostHeader then [] else [\<lparr>hd2Name = ''Host'', hd2Value = ''$host''\<rparr>]))"

definition generateProxyPassRequestHeaders :: "ActionProxy option \<Rightarrow> bool" where
  "generateProxyPassRequestHeaders proxy =
     (case proxy of
        None \<Rightarrow> True
      | Some pr \<Rightarrow>
          (case apRequestHeaders pr of
             None \<Rightarrow> True
           | Some rh \<Rightarrow> (case prhPass rh of Some b \<Rightarrow> b | None \<Rightarrow> True)))"

definition responseHeaders :: "ActionProxy option \<Rightarrow> ProxyResponseHeaders option" where
  "responseHeaders proxy = (case proxy of None \<Rightarrow> None | Some pr \<Rightarrow> apResponseHeaders pr)"

definition generateProxyHideHeaders :: "ActionProxy option \<Rightarrow> string list" where
  "generateProxyHideHeaders proxy = (case responseHeaders proxy of None \<Rightarrow> [] | Some rh \<Rightarrow> prsHide rh)"

definition generateProxyPassHeaders :: "ActionProxy option \<Rightarrow> string list" where
  "generateProxyPassHeaders proxy = (case responseHeaders proxy of None \<Rightarrow> [] | Some rh \<Rightarrow> prsPass rh)"

definition generateProxyIgnoreHeaders :: "ActionProxy option \<Rightarrow> string" where
  "generateProxyIgnoreHeaders proxy = (case responseHeaders proxy of None \<Rightarrow> '''' | Some rh \<Rightarrow> joinStr '' '' (prsIgnore rh))"

definition generateProxyAddHeaders :: "ActionProxy option \<Rightarrow> AddHeader2 list" where
  "generateProxyAddHeaders proxy =
     (case responseHeaders proxy of
        None \<Rightarrow> []
      | Some rh \<Rightarrow> map (\<lambda>h. \<lparr>ah2Header = toHeader2 (ahHeader h), ah2Always = ahAlways h\<rparr>) (prsAdd rh))"

section \<open>Pages for errors\<close>

definition generateErrorPageName :: "nat \<Rightarrow> nat \<Rightarrow> string" where
  "generateErrorPageName errPageIndex i = ''@error_page_'' @ fmtNat errPageIndex @ ''_'' @ fmtNat i"

definition generateErrorPageCodes :: "int list \<Rightarrow> string" where
  "generateErrorPageCodes codes = joinStr '' '' (map itoa codes)"

definition generateReturnBlock :: "string \<Rightarrow> int \<Rightarrow> int \<Rightarrow> Return" where
  "generateReturnBlock txt code defaultCode = \<lparr>reCode = (if code \<noteq> 0 then code else defaultCode), reText = txt\<rparr>"

definition generateErrorPage :: "nat \<Rightarrow> nat \<times> ErrorPage \<Rightarrow> ErrorPage2 option" where
  "generateErrorPage errPageIndex entry =
     (case entry of (i, e) \<Rightarrow>
        (case epRedirect e of
           Some rd \<Rightarrow>
             Some \<lparr>ep2Name = arURL (edActionRedirect rd), ep2Codes = generateErrorPageCodes (epCodes e),
                   ep2ResponseCode = (if arCode (edActionRedirect rd) \<noteq> 0 then arCode (edActionRedirect rd) else 301)\<rparr>
         | None \<Rightarrow>
             map_option (\<lambda>r. \<lparr>ep2Name = generateErrorPageName errPageIndex i, ep2Codes = generateErrorPageCodes (epCodes e),
                              ep2ResponseCode = atCode (erActionReturn r)\<rparr>) (epReturn e)))"

definition generateErrorPages :: "nat \<Rightarrow> ErrorPage list \<Rightarrow> ErrorPage2 list option" where
  "generateErrorPages errPageIndex errorPages = mapOpt (generateErrorPage errPageIndex) (enumerate 0 errorPages)"

definition generateErrorPageLocation :: "nat \<Rightarrow> nat \<times> ErrorPage \<Rightarrow> ErrorPageLocation list option" where
  "generateErrorPageLocation errPageIndex entry =
     (case entry of (i, e) \<Rightarrow>
        if epRedirect e \<noteq> None then Some []
        else map_option (\<lambda>r. [\<lparr>elName = generateErrorPageName errPageIndex i,
               elDefaultType = (if atType (erActionReturn r) \<noteq> '''' then atType (erActionReturn r) else ''text/html''),
               elReturn = Some (generateReturnBlock (atBody (erActionReturn r)) 0 0),
               elHeaders = map toHeader2 (erHeaders r)\<rparr>]) (epReturn e))"

definition generateErrorPageLocations :: "nat \<Rightarrow> ErrorPage list \<Rightarrow> ErrorPageLocation list option" where
  "generateErrorPageLocations errPageIndex errorPages =
     map_option concat (mapOpt (generateErrorPageLocation errPageIndex) (enumerate 0 errorPages))"

definition generateProxyInterceptErrors :: "ErrorPage list \<Rightarrow> bool" where
  "generateProxyInterceptErrors errorPages = (errorPages \<noteq> [])"

section \<open>Locations\<close>

definition emptyLocation :: Location where
  "emptyLocation =
     \<lparr>locPath = '''', locInternal = False, locSnippets = [], locProxyConnectTimeout = '''', locProxyReadTimeout = '''',
      locProxySendTimeout = '''', locClientMaxBodySize = '''', locProxyMaxTempFileSize = '''', locProxyBuffering = False,
      locProxyBuffers = '''', locProxyBufferSize = '''', locProxyPass = '''', locProxyNextUpstream = '''',
      locProxyNextUpstreamTimeout = '''', locProxyNextUpstreamTries = 0, locProxyInterceptErrors = False,
      locProxyPassRequestHeaders = False, locProxySetHeaders = [], locProxyHideHeaders = [], locProxyPassHeaders = [],
      locProxyIgnoreHeaders = '''', locProxyPassRewrite = '''', locAddHeaders = [], locRewrites = [], locHasKeepalive = False,
      locErrorPages = [], locProxySSLName = '''', locInternalProxyPass = '''', locAllow = [], locDeny = [],
      locLimitReqOptions = \<lparr>loDryRun = False, loLogLevel = '''', loRejectCode = 0\<rparr>, locLimitReqs = [], locJWTAuth = None,
      locEgressMTLS = None, locOIDC = False, locWAF = None, locPoliciesErrorReturn = None, locServiceName = '''',
      locIsVSR = False, locVSRName = '''', locVSRNamespace = ''''\<rparr>"

text \<open>Where a location comes from: the route's pages for errors, its snippets, its VirtualServerRoute.\<close>

record locationContext =
  lcCfgParams :: ConfigParams
  lcErrorPages :: "ErrorPage list"
  lcErrPageIndex :: nat
  lcLocSnippets :: string
  lcEnableSnippets :: bool
  lcIsVSR :: bool
  lcVsrName :: string
  lcVsrNamespace :: string

definition generateLocationForProxying ::
    "locationContext \<Rightarrow> string \<Rightarrow> string \<Rightarrow> Upstream \<Rightarrow> bool \<Rightarrow> string \<Rightarrow> ActionProxy option \<Rightarrow> string \<Rightarrow> string list \<Rightarrow> Location option" where
  "generateLocationForProxying lc p upstreamName upstream internal proxySSLName proxy originalPath locationSnippets =
     (let cfgParams = lcCfgParams lc in
      map_option (\<lambda>pages. emptyLocation
        \<lparr>locPath := generatePath p, locInternal := internal, locSnippets := locationSnippets,
         locProxyConnectTimeout := generateTimeWithDefault (uProxyConnectTimeout upstream) (cpProxyConnectTimeout cfgParams),
         locProxyReadTimeout := generateTimeWithDefault (uProxyReadTimeout upstream) (cpProxyReadTimeout cfgParams),
         locProxySendTimeout := generateTimeWithDefault (uProxySendTimeout upstream) (cpProxySendTimeout cfgParams),
         locClientMaxBodySize := generateString (uClientMaxBodySize upstream) (cpClientMaxBodySize cfgParams),
         locProxyMaxTempFileSize := cpProxyMaxTempFileSize cfgParams,
         locProxyBuffering := generateBool (uProxyBuffering upstream) (cpProxyBuffering cfgParams),
         locProxyBuffers := generateBuffers (uProxyBuffers upstream) (cpProxyBuffers cfgParams),
         locProxyBufferSize := generateString (uProxyBufferSize upstream) (cpProxyBufferSize cfgParams),
         locProxyPass := generateProxyPass (utEnable (uTLS upstream)) upstreamName internal proxy,
         locProxyNextUpstream := generateString (uProxyNextUpstream upstream) ''error timeout'',
         locProxyNextUpstreamTimeout := generateTimeWithDefault (uProxyNextUpstreamTimeout upstream) ''0s'',
         locProxyNextUpstreamTries := uProxyNextUpstreamTries upstream,
         locProxyInterceptErrors := generateProxyInterceptErrors (lcErrorPages lc),
         locProxyPassRequestHeaders := generateProxyPassRequestHeaders proxy,
         locProxySetHeaders := generateProxySetHeaders proxy,
         locProxyHideHeaders := generateProxyHideHeaders proxy,
         locProxyPassHeaders := generateProxyPassHeaders proxy,
         locProxyIgnoreHeaders := generateProxyIgnoreHeaders proxy,
         locAddHeaders := generateProxyAddHeaders proxy,
         locProxyPassRewrite := generateProxyPassRewrite p proxy internal,
         locRewrites := generateRewrites p proxy internal originalPath,
         locHasKeepalive := upstreamHasKeepalive upstream cfgParams,
         locErrorPages := pages,
         locProxySSLName := proxySSLName,
         locServiceName := uService upstream,
         locIsVSR := lcIsVSR lc,
         locVSRName := lcVsrName lc,
         locVSRNamespace := lcVsrNamespace lc\<rparr>) (generateErrorPages (lcErrPageIndex lc) (lcErrorPages lc)))"

definition nginx418Server :: string where
  "nginx418Server = ''unix:/var/lib/nginx/nginx-418-server.sock''"

definition generateLocationForRedirect :: "string \<Rightarrow> string list \<Rightarrow> ActionRedirect \<Rightarrow> Location" where
  "generateLocationForRedirect p locationSnippets redirect =
     emptyLocation
       \<lparr>locPath := p, locSnippets := locationSnippets, locProxyInterceptErrors := True,
        locInternalProxyPass := ''http://'' @ nginx418Server,
        locErrorPages := [\<lparr>ep2Name = arURL redirect, ep2Codes = ''418'',
                           ep2ResponseCode = (if arCode redirect = 0 then 301 else arCode redirect)\<rparr>]\<rparr>"

definition generateLocationForReturn :: "string \<Rightarrow> string list \<Rightarrow> ActionReturn \<Rightarrow> nat \<Rightarrow> Location \<times> ReturnLocation" where
  "generateLocationForReturn p locationSnippets actionReturn retLocIndex =
     (let retLocName = ''@return_'' @ fmtNat retLocIndex
      in (emptyLocation
            \<lparr>locPath := p, locSnippets := locationSnippets, locProxyInterceptErrors := True,
             locInternalProxyPass := ''http://'' @ nginx418Server,
             locErrorPages := [\<lparr>ep2Name = retLocName, ep2Codes = ''418'',
                                ep2ResponseCode = (if atCode actionReturn = 0 then 200 else atCode actionReturn)\<rparr>]\<rparr>,
          \<lparr>rlName = retLocName, rlDefaultType = (if atType actionReturn = '''' then ''text/plain'' else atType actionReturn),
           rlReturn = \<lparr>reCode = 0, reText = atBody actionReturn\<rparr>\<rparr>))"

definition generateLocation ::
    "locationContext \<Rightarrow> string \<Rightarrow> string \<Rightarrow> Upstream \<Rightarrow> Action \<Rightarrow> bool \<Rightarrow> string \<Rightarrow> string \<Rightarrow> nat
       \<Rightarrow> (Location \<times> ReturnLocation option) option" where
  "generateLocation lc p upstreamName upstream action internal proxySSLName originalPath retLocIndex =
     (let locationSnippets = generateSnippets (lcEnableSnippets lc) (lcLocSnippets lc) (cpLocationSnippets (lcCfgParams lc))
      in case acRedirect action of
           Some redirect \<Rightarrow> Some (generateLocationForRedirect p locationSnippets redirect, None)
         | None \<Rightarrow>
             (case acReturn action of
                Some ret \<Rightarrow>
                  (case generateLocationForReturn p (cpLocationSnippets (lcCfgParams lc)) ret retLocIndex of
                     (loc, retLoc) \<Rightarrow> Some (loc, Some retLoc))
              | None \<Rightarrow>
                  map_option (\<lambda>loc. (loc, None))
                    (generateLocationForProxying lc p upstreamName upstream internal proxySSLName (acProxy action)
                       originalPath locationSnippets)))"

end
