(* ===== verification/VS_Routing.thy ===== *)
theory VS_Routing
  imports VS_Locations
begin

text \<open>
  The fourth part of \<open>internal/configs/virtualserver.go\<close>: routes that split or match their traffic.
  Splits become a \<open>split_clients\<close> block whose values are the paths of internal locations, matches
  become maps: one per condition, chained, and a main map that picks the first match.
\<close>

record routingCfg =
  rcMaps :: "Map2 list"
  rcSplitClients :: "SplitClient list"
  rcLocations :: "Location list"
  rcInternalRedirectLocation :: InternalRedirectLocation
  rcReturnLocations :: "ReturnLocation list"

text \<open>The zero value of an upstream, which the lookup of an unknown name gives.\<close>

definition emptyUpstream :: Upstream where
  "emptyUpstream =
     \<lparr>uName = '''', uService = '''', uSubselector = None, uPort = 0, uLBMethod = '''', uFailTimeout = '''', uMaxFails = None,
      uMaxConns = None, uKeepalive = None, uProxyConnectTimeout = '''', uProxyReadTimeout = '''', uProxySendTimeout = '''',
      uProxyNextUpstream = '''', uProxyNextUpstreamTimeout = '''', uProxyNextUpstreamTries = 0, uProxyBuffering = None,
      uProxyBuffers = None, uProxyBufferSize = '''', uClientMaxBodySize = '''', uTLS = \<lparr>utEnable = False\<rparr>,
      uHealthCheck = None, uSlowStart = '''', uQueue = None, uSessionCookie = None, uUseClusterIP = False\<rparr>"

definition upstreamOf :: "Upstream gomap \<Rightarrow> string \<Rightarrow> Upstream" where
  "upstreamOf crUpstreams upstreamName = (case gget crUpstreams upstreamName of None \<Rightarrow> emptyUpstream | Some u \<Rightarrow> u)"

text \<open>The tables every route is generated with.\<close>

record routingContext =
  rtxUpstreamNamer :: upstreamNamer
  rtxCrUpstreams :: "Upstream gomap"
  rtxVariableNamer :: variableNamer
  rtxLocation :: locationContext

section \<open>Locations of actions\<close>

text \<open>The location of an action under a path, appended to the locations made so far.\<close>

definition addActionLocation ::
    "routingContext \<Rightarrow> string \<Rightarrow> Action option \<Rightarrow> bool \<Rightarrow> string \<Rightarrow> string \<Rightarrow> nat
       \<Rightarrow> Location list \<times> ReturnLocation list \<Rightarrow> (Location list \<times> ReturnLocation list) option" where
  "addActionLocation rc p action internal namespace originalPath retLocIndex st =
     (case (action, st) of
        (None, _) \<Rightarrow> None
      | (Some a, (locations, returnLocations)) \<Rightarrow>
          (let upstreamName = GetNameForUpstreamFromAction (rtxUpstreamNamer rc) a;
               upstream = upstreamOf (rtxCrUpstreams rc) upstreamName;
               proxySSLName = generateProxySSLName (uService upstream) namespace
           in map_option (\<lambda>(loc, returnLoc). (locations @ [loc], returnLocations @ (case returnLoc of None \<Rightarrow> [] | Some r \<Rightarrow> [r])))
                (generateLocation (rtxLocation rc) p upstreamName upstream a internal proxySSLName originalPath
                  (retLocIndex + length returnLocations))))"

section \<open>Splits\<close>

definition internalLocationPrefix :: string where
  "internalLocationPrefix = ''internal_location_''"

definition splitPath :: "nat \<Rightarrow> nat \<Rightarrow> string" where
  "splitPath scIndex i = ''/'' @ internalLocationPrefix @ ''splits_'' @ fmtNat scIndex @ ''_split_'' @ fmtNat i"

definition splitDistribution :: "nat \<Rightarrow> nat \<times> Split \<Rightarrow> Distribution" where
  "splitDistribution scIndex entry = (case entry of (i, s) \<Rightarrow> \<lparr>dsWeight = itoa (spWeight s) @ ''%'', dsValue = splitPath scIndex i\<rparr>)"

definition generateSplits ::
    "routingContext \<Rightarrow> Split list \<Rightarrow> nat \<Rightarrow> string \<Rightarrow> nat \<Rightarrow> (SplitClient \<times> Location list \<times> ReturnLocation list) option" where
  "generateSplits rc splits scIndex originalPath retLocIndex =
     map_option (\<lambda>(locations, returnLocations).
         (\<lparr>spcSource = ''$request_id'', spcVariable = GetNameForSplitClientVariable (rtxVariableNamer rc) scIndex,
           spcDistributions = map (splitDistribution scIndex) (enumerate 0 splits)\<rparr>, locations, returnLocations))
       (foldOpt (\<lambda>(i, s). addActionLocation rc (splitPath scIndex i) (spAction s) True (unNamespace (rtxUpstreamNamer rc))
                    originalPath retLocIndex) (enumerate 0 splits) ([], []))"

definition generateDefaultSplitsConfig :: "routingContext \<Rightarrow> Route \<Rightarrow> nat \<Rightarrow> nat \<Rightarrow> routingCfg option" where
  "generateDefaultSplitsConfig rc route scIndex retLocIndex =
     map_option (\<lambda>(sc, locs, returnLocs).
         \<lparr>rcMaps = [], rcSplitClients = [sc], rcLocations = locs,
          rcInternalRedirectLocation =
            \<lparr>irlPath = rtPath route, irlDestination = GetNameForSplitClientVariable (rtxVariableNamer rc) scIndex\<rparr>,
          rcReturnLocations = returnLocs\<rparr>)
       (generateSplits rc (rtSplits route) scIndex (rtPath route) retLocIndex)"

section \<open>Conditions\<close>

definition specialMapParameters :: "string list" where
  "specialMapParameters = [''default'', ''hostnames'', ''include'', ''volatile'']"

definition generateValueForMatchesRouteMap :: "string \<Rightarrow> string \<times> bool" where
  "generateValueForMatchesRouteMap matchedValue =
     (if matchedValue = '''' then (quoted '''', False)
      else
        let isNegative = (hd matchedValue = CHR ''!'');
            v = (if isNegative then tl matchedValue else matchedValue)
        in (if v \<in> set specialMapParameters then [CHR 0x5C] @ v else quoted v, isNegative))"

definition generateParametersForMatchesRouteMap :: "string \<Rightarrow> string \<Rightarrow> Parameter list" where
  "generateParametersForMatchesRouteMap matchedValue successfulResult =
     (let (val, isNegative) = generateValueForMatchesRouteMap matchedValue
      in [\<lparr>pmValue = val, pmResult = (if isNegative then ''0'' else successfulResult)\<rparr>,
          \<lparr>pmValue = ''default'', pmResult = (if isNegative then successfulResult else ''0'')\<rparr>])"

definition getNameForSourceForMatchesRouteMapFromCondition :: "Condition \<Rightarrow> string" where
  "getNameForSourceForMatchesRouteMapFromCondition condition =
     (if cdHeader condition \<noteq> '''' then ''$http_'' @ replaceChar (CHR ''-'') (CHR ''_'') (cdHeader condition)
      else if cdCookie condition \<noteq> '''' then ''$cookie_'' @ cdCookie condition
      else if cdArgument condition \<noteq> '''' then ''$arg_'' @ cdArgument condition
      else cdVariable condition)"

section \<open>Maps of a route with matches\<close>

definition conditionMap :: "variableNamer \<Rightarrow> nat \<Rightarrow> nat \<Rightarrow> nat \<Rightarrow> nat \<times> Condition \<Rightarrow> Map2" where
  "conditionMap namer i matchIndex nConditions entry =
     (case entry of (j, c) \<Rightarrow>
        \<lparr>mpSource = getNameForSourceForMatchesRouteMapFromCondition c,
         mpVariable = GetNameForVariableForMatchesRouteMap namer i matchIndex j,
         mpParameters = generateParametersForMatchesRouteMap (cdValue c)
           (if Suc j < nConditions then GetNameForVariableForMatchesRouteMap namer i matchIndex (Suc j) else ''1'')\<rparr>)"

definition conditionMaps :: "variableNamer \<Rightarrow> nat \<Rightarrow> Match list \<Rightarrow> Map2 list" where
  "conditionMaps namer i matches' =
     concat (map (\<lambda>(k, m). map (conditionMap namer i k (length (mtConditions m))) (enumerate 0 (mtConditions m)))
       (enumerate 0 matches'))"

definition matchPath :: "nat \<Rightarrow> nat \<Rightarrow> string" where
  "matchPath i k = ''/'' @ internalLocationPrefix @ ''matches_'' @ fmtNat i @ ''_match_'' @ fmtNat k"

definition defaultPath :: "nat \<Rightarrow> string" where
  "defaultPath i = ''/'' @ internalLocationPrefix @ ''matches_'' @ fmtNat i @ ''_default''"

fun mainMapParameters :: "variableNamer \<Rightarrow> nat \<Rightarrow> nat \<Rightarrow> nat \<Rightarrow> Match list \<Rightarrow> Parameter list \<times> nat" where
  "mainMapParameters namer i k scIndex [] = ([], scIndex)"
| "mainMapParameters namer i k scIndex (m # ms) =
     (let hasSplits = (mtSplits m \<noteq> []);
          (params, scIndex') = mainMapParameters namer i (Suc k) (if hasSplits then Suc scIndex else scIndex) ms
      in (\<lparr>pmValue = ''~^'' @ replicate k (CHR ''0'') @ ''1'',
           pmResult = (if hasSplits then GetNameForSplitClientVariable namer scIndex else matchPath i k)\<rparr> # params, scIndex'))"

definition mainMap :: "variableNamer \<Rightarrow> nat \<Rightarrow> nat \<Rightarrow> Route \<Rightarrow> Map2" where
  "mainMap namer i scIndex route =
     (let (params, scIndex') = mainMapParameters namer i 0 scIndex (rtMatches route)
      in \<lparr>mpSource = concat (map (\<lambda>k. GetNameForVariableForMatchesRouteMap namer i k 0) [0..<length (rtMatches route)]),
          mpVariable = GetNameForVariableForMatchesRouteMainMap namer i,
          mpParameters = params @ [\<lparr>pmValue = ''default'',
            pmResult = (if rtSplits route \<noteq> [] then GetNameForSplitClientVariable namer scIndex' else defaultPath i)\<rparr>]\<rparr>)"

section \<open>Locations of a route with matches\<close>

record matchBuild =
  mtbLocations :: "Location list"
  mtbReturnLocations :: "ReturnLocation list"
  mtbSplitClients :: "SplitClient list"

text \<open>An action or splits under a path, as one match or as the default of the route.\<close>

definition addMatchTarget ::
    "routingContext \<Rightarrow> nat \<Rightarrow> string \<Rightarrow> nat \<Rightarrow> string \<Rightarrow> Action option \<Rightarrow> Split list \<Rightarrow> matchBuild \<Rightarrow> matchBuild option" where
  "addMatchTarget rc scIndex originalPath retLocIndex p action splits b =
     (if splits \<noteq> []
      then map_option (\<lambda>(sc, locs, returnLocs).
             \<lparr>mtbLocations = mtbLocations b @ locs, mtbReturnLocations = mtbReturnLocations b @ returnLocs,
              mtbSplitClients = mtbSplitClients b @ [sc]\<rparr>)
             (generateSplits rc splits (scIndex + length (mtbSplitClients b)) originalPath
               (retLocIndex + length (mtbReturnLocations b)))
      else map_option (\<lambda>(locs, returnLocs). b\<lparr>mtbLocations := locs, mtbReturnLocations := returnLocs\<rparr>)
             (addActionLocation rc p action True (unNamespace (rtxUpstreamNamer rc)) originalPath retLocIndex
               (mtbLocations b, mtbReturnLocations b)))"

definition generateMatchesConfig :: "routingContext \<Rightarrow> Route \<Rightarrow> nat \<Rightarrow> nat \<Rightarrow> nat \<Rightarrow> routingCfg option" where
  "generateMatchesConfig rc route i scIndex retLocIndex =
     (case foldOpt (\<lambda>(k, m). addMatchTarget rc scIndex (rtPath route) retLocIndex (matchPath i k) (mtAction m) (mtSplits m))
             (enumerate 0 (rtMatches route)) \<lparr>mtbLocations = [], mtbReturnLocations = [], mtbSplitClients = []\<rparr> of
        None \<Rightarrow> None
      | Some b \<Rightarrow>
          map_option (\<lambda>b'.
              \<lparr>rcMaps = conditionMaps (rtxVariableNamer rc) i (rtMatches route) @ [mainMap (rtxVariableNamer rc) i scIndex route],
               rcSplitClients = mtbSplitClients b', rcLocations = mtbLocations b',
               rcInternalRedirectLocation =
                 \<lparr>irlPath = rtPath route, irlDestination = GetNameForVariableForMatchesRouteMainMap (rtxVariableNamer rc) i\<rparr>,
               rcReturnLocations = mtbReturnLocations b'\<rparr>)
            (addMatchTarget rc scIndex (rtPath route) retLocIndex (defaultPath i) (rtAction route) (rtSplits route) b))"

end
