(* ===== verification/VS_Config.thy ===== *)
theory VS_Config
  imports VS_Routing
begin

text \<open>
  The last part of \<open>internal/configs/virtualserver.go\<close>: \<open>GenerateVirtualServerConfig\<close>. The local
  variables the loops of the function append to are the fields of a record, one definition per
  loop body. A nil dereference is \<^term>\<open>None\<close>.
\<close>

section \<open>TLS\<close>

definition pemFileNameForMissingTLSSecret :: string where
  "pemFileNameForMissingTLSSecret = ''/etc/nginx/secrets/default''"

definition generateSSLConfig ::
    "runtimeOwner \<Rightarrow> TLS option \<Rightarrow> string \<Rightarrow> SecretReference gomap \<Rightarrow> virtualServerConfigurator
       \<Rightarrow> (SSL option \<times> virtualServerConfigurator) option" where
  "generateSSLConfig owner tls namespace secretRefs vsc =
     (case tls of
        None \<Rightarrow> Some (None, vsc)
      | Some t \<Rightarrow>
          (if tlSecret t = '''' then Some (None, vsc)
           else case gget secretRefs (namespace @ ''/'' @ tlSecret t) of
               None \<Rightarrow> None
             | Some ref \<Rightarrow>
                 (let ssl = (\<lambda>name ciphers. \<lparr>sslHTTP2 = cpHTTP2 (genCfgParams vsc), sslCertificate = name,
                                             sslCertificateKey = name, sslCiphers = ciphers\<rparr>)
                  in Some (if refType ref \<noteq> '''' \<and> refType ref \<noteq> SecretTypeTLS
                       then (Some (ssl pemFileNameForMissingTLSSecret ''NULL''),
                             addWarningf owner (''TLS secret '' @ tlSecret t @ '' is of a wrong type '' @ sq (refType ref)
                               @ '', must be '' @ sq SecretTypeTLS) vsc)
                       else case srError ref of
                           Some err \<Rightarrow> (Some (ssl pemFileNameForMissingTLSSecret ''NULL''),
                             addWarningf owner (''TLS secret '' @ tlSecret t @ '' is invalid: '' @ err) vsc)
                         | None \<Rightarrow> (Some (ssl (srPath ref) ''''), vsc)))))"

definition generateTLSRedirectBasedOn :: "string \<Rightarrow> string" where
  "generateTLSRedirectBasedOn basedOn = (if basedOn = ''x-forwarded-proto'' then ''$http_x_forwarded_proto'' else ''$scheme'')"

definition generateTLSRedirectConfig :: "TLS option \<Rightarrow> TLSRedirect2 option" where
  "generateTLSRedirectConfig tls =
     (case tls of
        None \<Rightarrow> None
      | Some t \<Rightarrow>
          (case tlRedirect t of
             None \<Rightarrow> None
           | Some r \<Rightarrow>
               (if \<not> trEnable r then None
                else Some \<lparr>tr2Code = generateIntFromPointer (trCode r) 301, tr2BasedOn = generateTLSRedirectBasedOn (trBasedOn r)\<rparr>)))"

section \<open>Upstreams\<close>

record vsBuild =
  vbVsc :: virtualServerConfigurator
  vbUpstreams :: "Upstream2 list"
  vbCrUpstreams :: "Upstream gomap"
  vbStatusMatches :: "StatusMatch list"
  vbHealthChecks :: "HealthCheck2 list"
  vbLimitReqZones :: "LimitReqZone list"
  vbLocations :: "Location list"
  vbInternalRedirectLocations :: "InternalRedirectLocation list"
  vbReturnLocations :: "ReturnLocation list"
  vbSplitClients :: "SplitClient list"
  vbMaps :: "Map2 list"
  vbErrorPageLocations :: "ErrorPageLocation list"
  vbMatchesRoutes :: nat
  vbVsrErrorPages :: "ErrorPage list gomap"
  vbVsrErrorPagesIndex :: "nat gomap"
  vbVsrLocationSnippets :: "string gomap"
  vbVsrPolicies :: "PolicyReference list gomap"

definition addUpstream :: "VirtualServerEx \<Rightarrow> runtimeOwner \<Rightarrow> string \<Rightarrow> upstreamNamer \<Rightarrow> Upstream \<Rightarrow> vsBuild \<Rightarrow> vsBuild" where
  "addUpstream vsEx owner upstreamNamespace namer u b =
     (let vsc = vbVsc b;
          upstreamName = GetNameForUpstream namer (uName u);
          (endpoints, vsc1) = generateEndpointsForUpstream owner upstreamNamespace u vsEx vsc;
          isExternalNameSvc = ghas (vxExternalNameSvcs vsEx) (GenerateExternalNameSvcKey upstreamNamespace (uService u));
          (ups, vsc2) = generateUpstream owner upstreamName u isExternalNameSvc endpoints vsc1;
          u' = u\<lparr>uTLS := \<lparr>utEnable = isTLSEnabled u (genSpiffeCerts vsc)\<rparr>\<rparr>;
          b' = b\<lparr>vbVsc := vsc2, vbUpstreams := vbUpstreams b @ [ups], vbCrUpstreams := gput upstreamName u' (vbCrUpstreams b)\<rparr>
      in case (generateHealthCheck u' upstreamName (genCfgParams vsc), uHealthCheck u') of
           (Some hc, Some h) \<Rightarrow>
             b'\<lparr>vbHealthChecks := vbHealthChecks b' @ [hc],
                vbStatusMatches := vbStatusMatches b' @
                  (if hcStatusMatch h \<noteq> '''' then [generateUpstreamStatusMatch upstreamName (hcStatusMatch h)] else [])\<rparr>
         | _ \<Rightarrow> b')"

definition addUpstreams :: "VirtualServerEx \<Rightarrow> vsBuild \<Rightarrow> vsBuild" where
  "addUpstreams vsEx b =
     (let vs = vxVirtualServer vsEx
      in fold (\<lambda>vsr. fold (addUpstream vsEx (VirtualServerRouteOwner (vsrMeta vsr)) (omNamespace (vsrMeta vsr))
                        (newUpstreamNamerForVirtualServerRoute vs vsr)) (vrsUpstreams (vsrSpec vsr)))
           (vxVirtualServerRoutes vsEx)
           (fold (addUpstream vsEx (VirtualServerOwner (vsMeta vs)) (omNamespace (vsMeta vs)) (newUpstreamNamerForVirtualServer vs))
             (vssUpstreams (vsSpec vs)) b))"

section \<open>Routes\<close>

text \<open>What a route becomes once its policies are known: matches, splits, or one location.\<close>

definition addRouteConfig ::
    "routingContext \<Rightarrow> string \<Rightarrow> Route \<Rightarrow> policiesCfg \<Rightarrow> vsBuild \<Rightarrow> vsBuild option" where
  "addRouteConfig rc namespace r routePoliciesCfg b =
     (let addCfg = (\<lambda>cfg matched. b\<lparr>
            vbMaps := vbMaps b @ rcMaps cfg,
            vbLocations := vbLocations b @ addPoliciesCfgToLocations routePoliciesCfg (rcLocations cfg),
            vbInternalRedirectLocations := vbInternalRedirectLocations b @ [rcInternalRedirectLocation cfg],
            vbReturnLocations := vbReturnLocations b @ rcReturnLocations cfg,
            vbSplitClients := vbSplitClients b @ rcSplitClients cfg,
            vbMatchesRoutes := vbMatchesRoutes b + matched\<rparr>)
      in if rtMatches r \<noteq> []
         then map_option (\<lambda>cfg. addCfg cfg 1)
                (generateMatchesConfig rc r (vbMatchesRoutes b) (length (vbSplitClients b)) (length (vbReturnLocations b)))
         else if rtSplits r \<noteq> []
         then map_option (\<lambda>cfg. addCfg cfg 0)
                (generateDefaultSplitsConfig rc r (length (vbSplitClients b)) (length (vbReturnLocations b)))
         else map_option (\<lambda>(locs, returnLocs).
                  b\<lparr>vbLocations := vbLocations b @ addPoliciesCfgToLocations routePoliciesCfg locs,
                    vbReturnLocations := vbReturnLocations b @ returnLocs\<rparr>)
                (addActionLocation rc (rtPath r) (rtAction r) False namespace (rtPath r) (length (vbReturnLocations b)) ([], [])))"

text \<open>The policies of a route; the OIDC policy of the server holds in every route.\<close>

definition routePolicies ::
    "VirtualServerEx \<Rightarrow> policyOwnerDetails \<Rightarrow> PolicyReference list \<Rightarrow> string \<Rightarrow> policyOptions \<Rightarrow> bool \<Rightarrow> vsBuild
       \<Rightarrow> (policiesCfg \<times> vsBuild) option" where
  "routePolicies vsEx ownerDetails policyRefs ctxt policyOpts serverOIDC b =
     map_option (\<lambda>(cfg, vsc).
         (if serverOIDC then cfg\<lparr>pcOIDC := True\<rparr> else cfg,
          b\<lparr>vbVsc := vsc, vbLimitReqZones := vbLimitReqZones b @ pcLimitReqZones cfg\<rparr>))
       (generatePolicies ownerDetails policyRefs (vxPolicies vsEx) ctxt policyOpts (vbVsc b))"

definition vsOwnerDetails :: "VirtualServer \<Rightarrow> policyOwnerDetails" where
  "vsOwnerDetails vs =
     \<lparr>poOwner = VirtualServerOwner (vsMeta vs), poOwnerNamespace = omNamespace (vsMeta vs),
      poVsNamespace = omNamespace (vsMeta vs), poVsName = omName (vsMeta vs)\<rparr>"

definition vsrOwnerDetails :: "VirtualServer \<Rightarrow> VirtualServerRoute \<Rightarrow> policyOwnerDetails" where
  "vsrOwnerDetails vs vsr =
     \<lparr>poOwner = VirtualServerRouteOwner (vsrMeta vsr), poOwnerNamespace = omNamespace (vsrMeta vsr),
      poVsNamespace = omNamespace (vsMeta vs), poVsName = omName (vsMeta vs)\<rparr>"

definition addRoute :: "VirtualServerEx \<Rightarrow> policyOptions \<Rightarrow> bool \<Rightarrow> Route \<Rightarrow> vsBuild \<Rightarrow> vsBuild option" where
  "addRoute vsEx policyOpts serverOIDC r b =
     (let vs = vxVirtualServer vsEx;
          errorPageIndex = length (vbErrorPageLocations b);
          errorPages = sliceOf (rtErrorPages r)
      in case generateErrorPageLocations errorPageIndex errorPages of
           None \<Rightarrow> None
         | Some errorLocations \<Rightarrow>
             (let b1 = b\<lparr>vbErrorPageLocations := vbErrorPageLocations b @ errorLocations\<rparr>
              in if rtRoute r \<noteq> ''''
                 then (let name = namespacedKey (omNamespace (vsMeta vs)) (rtRoute r)
                       in Some (b1
                            \<lparr>vbVsrLocationSnippets := (if rtLocationSnippets r \<noteq> ''''
                               then gput name (rtLocationSnippets r) (vbVsrLocationSnippets b1) else vbVsrLocationSnippets b1),
                             vbVsrErrorPages := (if errorPages \<noteq> []
                               then gput name errorPages (vbVsrErrorPages b1) else vbVsrErrorPages b1),
                             vbVsrErrorPagesIndex := (if errorPages \<noteq> []
                               then gput name errorPageIndex (vbVsrErrorPagesIndex b1) else vbVsrErrorPagesIndex b1),
                             vbVsrPolicies := (if rtPolicies r \<noteq> []
                               then gput name (rtPolicies r) (vbVsrPolicies b1) else vbVsrPolicies b1)\<rparr>))
                 else case routePolicies vsEx (vsOwnerDetails vs) (rtPolicies r) routeContext policyOpts serverOIDC b1 of
                     None \<Rightarrow> None
                   | Some (routePoliciesCfg, b2) \<Rightarrow>
                       addRouteConfig
                         \<lparr>rtxUpstreamNamer = newUpstreamNamerForVirtualServer vs, rtxCrUpstreams = vbCrUpstreams b2,
                          rtxVariableNamer = newVariableNamer vs,
                          rtxLocation = \<lparr>lcCfgParams = genCfgParams (vbVsc b2), lcErrorPages = errorPages,
                            lcErrPageIndex = errorPageIndex, lcLocSnippets = rtLocationSnippets r,
                            lcEnableSnippets = genEnableSnippets (vbVsc b2), lcIsVSR = False, lcVsrName = '''',
                            lcVsrNamespace = ''''\<rparr>\<rparr>
                         (omNamespace (vsMeta vs)) r routePoliciesCfg b2))"

definition addSubroute ::
    "VirtualServerEx \<Rightarrow> policyOptions \<Rightarrow> bool \<Rightarrow> VirtualServerRoute \<Rightarrow> Route \<Rightarrow> vsBuild \<Rightarrow> vsBuild option" where
  "addSubroute vsEx policyOpts serverOIDC vsr r b =
     (let vs = vxVirtualServer vsEx;
          errorPageIndex0 = length (vbErrorPageLocations b);
          vsrNamespaceName = omNamespace (vsrMeta vsr) @ ''/'' @ omName (vsrMeta vsr)
      in case generateErrorPageLocations errorPageIndex0 (sliceOf (rtErrorPages r)) of
           None \<Rightarrow> None
         | Some errorLocations \<Rightarrow>
             (let b1 = b\<lparr>vbErrorPageLocations := vbErrorPageLocations b @ errorLocations\<rparr>;
                  (errorPages, errorPageIndex) =
                    (case (rtErrorPages r, gget (vbVsrErrorPages b1) vsrNamespaceName) of
                       (None, Some vsErrorPages) \<Rightarrow>
                         (vsErrorPages,
                          case gget (vbVsrErrorPagesIndex b1) vsrNamespaceName of None \<Rightarrow> 0 | Some i \<Rightarrow> i)
                     | _ \<Rightarrow> (sliceOf (rtErrorPages r), errorPageIndex0));
                  locSnippets =
                    (if rtLocationSnippets r = ''''
                     then (case gget (vbVsrLocationSnippets b1) vsrNamespaceName of None \<Rightarrow> '''' | Some s \<Rightarrow> s)
                     else rtLocationSnippets r);
                  (ownerDetails, policyRefs, ctxt) =
                    (if rtPolicies r = []
                     then (vsOwnerDetails vs, sliceOf (gget (vbVsrPolicies b1) vsrNamespaceName), routeContext)
                     else (vsrOwnerDetails vs vsr, rtPolicies r, subRouteContext))
              in case routePolicies vsEx ownerDetails policyRefs ctxt policyOpts serverOIDC b1 of
                   None \<Rightarrow> None
                 | Some (routePoliciesCfg, b2) \<Rightarrow>
                     addRouteConfig
                       \<lparr>rtxUpstreamNamer = newUpstreamNamerForVirtualServerRoute vs vsr, rtxCrUpstreams = vbCrUpstreams b2,
                        rtxVariableNamer = newVariableNamer vs,
                        rtxLocation = \<lparr>lcCfgParams = genCfgParams (vbVsc b2), lcErrorPages = errorPages,
                          lcErrPageIndex = errorPageIndex, lcLocSnippets = locSnippets,
                          lcEnableSnippets = genEnableSnippets (vbVsc b2), lcIsVSR = True, lcVsrName = omName (vsrMeta vsr),
                          lcVsrNamespace = omNamespace (vsrMeta vsr)\<rparr>\<rparr>
                       (omNamespace (vsrMeta vsr)) r routePoliciesCfg b2))"

section \<open>The whole configuration\<close>

definition startBuild :: "virtualServerConfigurator \<Rightarrow> LimitReqZone list \<Rightarrow> vsBuild" where
  "startBuild vsc zones =
     \<lparr>vbVsc = vsc, vbUpstreams = [], vbCrUpstreams = [], vbStatusMatches = [], vbHealthChecks = [], vbLimitReqZones = zones,
      vbLocations = [], vbInternalRedirectLocations = [], vbReturnLocations = [], vbSplitClients = [], vbMaps = [],
      vbErrorPageLocations = [], vbMatchesRoutes = 0, vbVsrErrorPages = [], vbVsrErrorPagesIndex = [],
      vbVsrLocationSnippets = [], vbVsrPolicies = []\<rparr>"

text \<open>The upstreams and the routes, from the configuration of the server's own policies.\<close>

definition buildVirtualServer ::
    "VirtualServerEx \<Rightarrow> policyOptions \<Rightarrow> policiesCfg \<Rightarrow> virtualServerConfigurator \<Rightarrow> vsBuild option" where
  "buildVirtualServer vsEx policyOpts serverPolicies vsc =
     (case foldOpt (addRoute vsEx policyOpts (pcOIDC serverPolicies)) (vssRoutes (vsSpec (vxVirtualServer vsEx)))
             (addUpstreams vsEx (startBuild vsc (pcLimitReqZones serverPolicies))) of
        None \<Rightarrow> None
      | Some b \<Rightarrow>
          foldOpt (\<lambda>vsr. foldOpt (addSubroute vsEx policyOpts (pcOIDC serverPolicies) vsr) (vrsSubroutes (vsrSpec vsr)))
            (vxVirtualServerRoutes vsEx) b)"

definition virtualServerConfigOf ::
    "VirtualServer \<Rightarrow> SSL option \<Rightarrow> policiesCfg \<Rightarrow> vsBuild \<Rightarrow> VirtualServerConfig" where
  "virtualServerConfigOf vs sslConfig policies b =
     (let vsc = vbVsc b; cfgParams = genCfgParams vsc in
      \<lparr>vcHTTPSnippets = generateSnippets (genEnableSnippets vsc) (vssHTTPSnippets (vsSpec vs)) [],
       vcLimitReqZones = removeDuplicateLimitReqZones (vbLimitReqZones b), vcMaps = vbMaps b,
       vcServer =
         \<lparr>svServerName = vssHost (vsSpec vs), svStatusZone = vssHost (vsSpec vs), svProxyProtocol = cpProxyProtocol cfgParams,
          svSSL = sslConfig, svServerTokens = cpServerTokens cfgParams, svRealIPHeader = cpRealIPHeader cfgParams,
          svSetRealIPFrom = cpSetRealIPFrom cfgParams, svRealIPRecursive = cpRealIPRecursive cfgParams,
          svSnippets = generateSnippets (genEnableSnippets vsc) (vssServerSnippets (vsSpec vs)) (cpServerSnippets cfgParams),
          svInternalRedirectLocations = vbInternalRedirectLocations b, svLocations = vbLocations b,
          svErrorPageLocations = vbErrorPageLocations b, svReturnLocations = vbReturnLocations b,
          svHealthChecks = vbHealthChecks b, svTLSRedirect = generateTLSRedirectConfig (vssTLS (vsSpec vs)),
          svTLSPassthrough = genIsTLSPassthrough vsc, svAllow = pcAllow policies, svDeny = pcDeny policies,
          svLimitReqOptions = pcLimitReqOptions policies, svLimitReqs = pcLimitReqs policies, svJWTAuth = pcJWTAuth policies,
          svIngressMTLS = pcIngressMTLS policies, svEgressMTLS = pcEgressMTLS policies,
          svOIDC = opOidc (genOidcPolCfg vsc), svWAF = pcWAF policies, svPoliciesErrorReturn = pcErrorReturn policies,
          svVSNamespace = omNamespace (vsMeta vs), svVSName = omName (vsMeta vs)\<rparr>,
       vcSpiffeCerts = genSpiffeCerts vsc, vcSplitClients = vbSplitClients b, vcStatusMatches = vbStatusMatches b,
       vcUpstreams = vbUpstreams b\<rparr>)"

definition GenerateVirtualServerConfig ::
    "VirtualServerEx \<Rightarrow> string gomap \<Rightarrow> virtualServerConfigurator
       \<Rightarrow> (VirtualServerConfig \<times> Warnings \<times> virtualServerConfigurator) option" where
  "GenerateVirtualServerConfig vsEx apResources vsc0 =
     (let vs = vxVirtualServer vsEx in
      case generateSSLConfig (VirtualServerOwner (vsMeta vs)) (vssTLS (vsSpec vs)) (omNamespace (vsMeta vs)) (vxSecretRefs vsEx)
             (clearWarnings vsc0) of
        None \<Rightarrow> None
      | Some (sslConfig, vsc1) \<Rightarrow>
          (let policyOpts = \<lparr>pyTls = (sslConfig \<noteq> None), pySecretRefs = vxSecretRefs vsEx, pyApResources = apResources\<rparr>
           in case generatePolicies (vsOwnerDetails vs) (vssPolicies (vsSpec vs)) (vxPolicies vsEx) specContext policyOpts vsc1 of
                None \<Rightarrow> None
              | Some (policies, vsc2) \<Rightarrow>
                  map_option (\<lambda>b. (virtualServerConfigOf vs sslConfig policies b, genWarnings (vbVsc b), vbVsc b))
                    (buildVirtualServer vsEx policyOpts policies vsc2)))"

end
