(* ===== verification/VS_Build.thy ===== *)
theory VS_Build
  imports VS_Config VirtualServer_Properties
begin

text \<open>
  How \<^term>\<open>GenerateVirtualServerConfig\<close> builds a configuration, piece by piece: the parts that one
  route adds to the locations, redirects, splits, maps and pages of the server, what is known of
  the locations of an action, and the rule by which an invariant of the pieces is one of the whole.
\<close>

section \<open>Locations of actions\<close>

text \<open>The locations and the return locations of actions \<open>A\<close>; return locations are numbered from \<open>n\<close>.\<close>

definition returnName :: "nat \<Rightarrow> string" where
  "returnName n = ''@return_'' @ fmtNat n"

definition locationOf :: "routingContext \<Rightarrow> string \<Rightarrow> bool \<Rightarrow> Action \<Rightarrow> ReturnLocation list \<Rightarrow> Location \<Rightarrow> bool" where
  "locationOf rc p internal a rets loc =
     (\<exists>ssl original n rl.
        generateLocation (rtxLocation rc) p (GetNameForUpstreamFromAction (rtxUpstreamNamer rc) a)
          (upstreamOf (rtxCrUpstreams rc) (GetNameForUpstreamFromAction (rtxUpstreamNamer rc) a)) a internal ssl original n = Some (loc, rl)
        \<and> set_option rl \<subseteq> set rets)"

definition soundLocations :: "routingContext \<Rightarrow> Action set \<Rightarrow> nat \<Rightarrow> Location list \<Rightarrow> ReturnLocation list \<Rightarrow> bool" where
  "soundLocations rc A n locs rets =
     (map rlName rets = map returnName [n..<n + length rets]
      \<and> (\<forall>loc\<in>set locs. \<exists>a\<in>A. \<exists>p internal. locationOf rc p internal a rets loc))"

lemma locationOf_mono: "locationOf rc p internal a rets loc \<Longrightarrow> set rets \<subseteq> set rets' \<Longrightarrow> locationOf rc p internal a rets' loc"
  unfolding locationOf_def by blast

lemma soundLocations_Nil [simp]: "soundLocations rc A n [] []"
  by (simp add: soundLocations_def)

lemma soundLocations_append:
  assumes "soundLocations rc A n l1 r1" and "soundLocations rc B (n + length r1) l2 r2"
  shows "soundLocations rc (A \<union> B) n (l1 @ l2) (r1 @ r2)"
proof -
  have "[n..<n + length (r1 @ r2)] = [n..<n + length r1] @ [n + length r1..<n + length r1 + length r2]"
    using upt_add_eq_append [of n "n + length r1" "length r2"] by (simp add: add.assoc)
  moreover have "\<exists>a\<in>A \<union> B. \<exists>p internal. locationOf rc p internal a (r1 @ r2) loc" if "loc \<in> set (l1 @ l2)" for loc
  proof (cases "loc \<in> set l1")
    case True
    then obtain a p internal where "a \<in> A" "locationOf rc p internal a r1 loc" using assms(1) by (auto simp: soundLocations_def)
    moreover have "set r1 \<subseteq> set (r1 @ r2)" by simp
    ultimately show ?thesis using locationOf_mono by blast
  next
    case False
    then have "loc \<in> set l2" using that by simp
    then obtain a p internal where "a \<in> B" "locationOf rc p internal a r2 loc" using assms(2) by (auto simp: soundLocations_def)
    moreover have "set r2 \<subseteq> set (r1 @ r2)" by simp
    ultimately show ?thesis using locationOf_mono by blast
  qed
  ultimately show ?thesis using assms by (simp add: soundLocations_def)
qed

lemma soundLocations_mono: "soundLocations rc A n l r \<Longrightarrow> A \<subseteq> B \<Longrightarrow> soundLocations rc B n l r"
  unfolding soundLocations_def by blast

text \<open>The path of a location is the given one, up to the quotes of regular expressions.\<close>

lemma generateLocation_path:
  assumes "generateLocation lc p up u a internal ssl orig n = Some (loc, rl)"
  shows "locPath loc = p \<or> locPath loc = generatePath p"
  using assms by (auto simp: generateLocation_def generateLocationForRedirect_def generateLocationForReturn_def
      generateLocationForProxying_def Let_def split: option.splits)

lemma generatePath_slash [simp]: "generatePath (CHR ''/'' # p) = CHR ''/'' # p"
  by (simp add: generatePath_def hasPrefix_def)

lemma locationOf_path: "locationOf rc p internal a rets loc \<Longrightarrow> locPath loc = p \<or> locPath loc = generatePath p"
  unfolding locationOf_def using generateLocation_path by blast

lemma generateLocation_return_name:
  "generateLocation lc p up u a internal ssl orig n = Some (loc, Some rl) \<Longrightarrow> rlName rl = returnName n"
  by (auto simp: generateLocation_def generateLocationForReturn_def returnName_def Let_def split: option.splits)

lemma addActionLocation_effect:
  assumes "addActionLocation rc p action internal ns orig n (locs, rets) = Some (locs', rets')"
  obtains a loc rs where "action = Some a" "locs' = locs @ [loc]" "rets' = rets @ rs"
    "locationOf rc p internal a rs loc" "soundLocations rc {a} (n + length rets) [loc] rs"
proof -
  obtain a where a: "action = Some a" using assms by (cases action) (simp_all add: addActionLocation_def)
  from assms a obtain loc rl where r: "locs' = locs @ [loc]" "rets' = rets @ (case rl of None \<Rightarrow> [] | Some r \<Rightarrow> [r])"
    and g: "generateLocation (rtxLocation rc) p (GetNameForUpstreamFromAction (rtxUpstreamNamer rc) a)
          (upstreamOf (rtxCrUpstreams rc) (GetNameForUpstreamFromAction (rtxUpstreamNamer rc) a)) a internal
          (generateProxySSLName (uService (upstreamOf (rtxCrUpstreams rc) (GetNameForUpstreamFromAction (rtxUpstreamNamer rc) a))) ns)
          orig (n + length rets) = Some (loc, rl)"
    by (fastforce simp: addActionLocation_def Let_def map_option_eq_Some)
  let ?rs = "case rl of None \<Rightarrow> [] | Some r \<Rightarrow> [r]"
  have l: "locationOf rc p internal a ?rs loc"
    unfolding locationOf_def using g by (fastforce split: option.splits)
  moreover have "map rlName ?rs = map returnName [n + length rets..<n + length rets + length ?rs]"
    using g generateLocation_return_name by (cases rl) auto
  ultimately have "soundLocations rc {a} (n + length rets) [loc] ?rs" by (auto simp: soundLocations_def)
  with a r l show ?thesis using that by blast
qed

text \<open>A loop over paths with actions gives one location per path.\<close>

lemma foldOpt_map: "foldOpt f (map g xs) s = foldOpt (\<lambda>x. f (g x)) xs s"
  by (induction xs arbitrary: s) (simp_all split: option.splits)

lemma addActionLocations_effect:
  assumes "foldOpt (\<lambda>(p, a). addActionLocation rc p a internal ns orig n) items (locs, rets) = Some (locs', rets')"
  shows "\<exists>ls rs. locs' = locs @ ls \<and> rets' = rets @ rs
    \<and> soundLocations rc (\<Union>(p, a)\<in>set items. set_option a) (n + length rets) ls rs
    \<and> list_all2 (\<lambda>(p, a) loc. \<exists>b. a = Some b \<and> locationOf rc p internal b rs loc) items ls"
  using assms
proof (induction items arbitrary: locs rets)
  case Nil
  then show ?case by simp
next
  case (Cons item items)
  obtain p a where item: "item = (p, a)" by (cases item)
  from Cons.prems item obtain st where st: "addActionLocation rc p a internal ns orig n (locs, rets) = Some st"
    and rest: "foldOpt (\<lambda>(p, a). addActionLocation rc p a internal ns orig n) items st = Some (locs', rets')"
    by (auto split: option.splits)
  obtain l1 r1 where st_eq: "st = (l1, r1)" by (cases st)
  from st st_eq obtain b loc rs1 where 1: "a = Some b" "l1 = locs @ [loc]" "r1 = rets @ rs1"
    "locationOf rc p internal b rs1 loc" "soundLocations rc {b} (n + length rets) [loc] rs1"
    using addActionLocation_effect by metis
  from Cons.IH [of l1 r1] rest st_eq obtain ls rs2 where 2: "locs' = l1 @ ls" "rets' = r1 @ rs2"
    "soundLocations rc (\<Union>(p, a)\<in>set items. set_option a) (n + length r1) ls rs2"
    "list_all2 (\<lambda>(p, a) loc. \<exists>b. a = Some b \<and> locationOf rc p internal b rs2 loc) items ls"
    by blast
  have "soundLocations rc ({b} \<union> (\<Union>(p, a)\<in>set items. set_option a)) (n + length rets) ([loc] @ ls) (rs1 @ rs2)"
    using soundLocations_append [OF 1(5)] 2(3) 1(3) by (simp add: add.assoc)
  moreover have "list_all2 (\<lambda>(p, a) loc. \<exists>b. a = Some b \<and> locationOf rc p internal b (rs1 @ rs2) loc) items ls"
    using 2(4) by (rule list_all2_mono) (fastforce elim: locationOf_mono)
  moreover have "locationOf rc p internal b (rs1 @ rs2) loc" using 1(4) by (rule locationOf_mono) simp
  ultimately show ?case
    using 1 2 item by (intro exI [of _ "loc # ls"] exI [of _ "rs1 @ rs2"]) simp
qed

section \<open>Splits\<close>

text \<open>The i-th split is served at the i-th split path.\<close>

definition splitsServed :: "routingContext \<Rightarrow> Split list \<Rightarrow> nat \<Rightarrow> Location list \<Rightarrow> ReturnLocation list \<Rightarrow> bool" where
  "splitsServed rc splits sci locs rets =
     list_all2 (\<lambda>(i, s) loc. locPath loc = splitPath sci i \<and> (\<exists>a. spAction s = Some a \<and> locationOf rc (splitPath sci i) True a rets loc))
       (enumerate 0 splits) locs"

lemma splitPath_generatePath [simp]: "generatePath (splitPath sci i) = splitPath sci i"
  by (simp add: splitPath_def)

lemma generateSplits_effect:
  assumes "generateSplits rc splits sci orig n = Some (sc, locs, rets)"
  shows "spcVariable sc = GetNameForSplitClientVariable (rtxVariableNamer rc) sci"
    and "spcDistributions sc = map (splitDistribution sci) (enumerate 0 splits)"
    and "soundLocations rc (splitActions splits) n locs rets"
    and "splitsServed rc splits sci locs rets"
proof -
  let ?items = "map (\<lambda>(i, s). (splitPath sci i, spAction s)) (enumerate 0 splits)"
  have "foldOpt (\<lambda>(i, s). addActionLocation rc (splitPath sci i) (spAction s) True (unNamespace (rtxUpstreamNamer rc)) orig n)
      (enumerate 0 splits) ([], []) = Some (locs, rets)"
    using assms by (auto simp: generateSplits_def)
  then have "foldOpt (\<lambda>(p, a). addActionLocation rc p a True (unNamespace (rtxUpstreamNamer rc)) orig n) ?items ([], []) = Some (locs, rets)"
    by (simp add: foldOpt_map case_prod_unfold)
  from addActionLocations_effect [OF this]
  have sound: "soundLocations rc (\<Union>(p, a)\<in>set ?items. set_option a) n locs rets"
    and served: "list_all2 (\<lambda>(p, a) loc. \<exists>b. a = Some b \<and> locationOf rc p True b rets loc) ?items locs" by auto
  have "(\<Union>(p, a)\<in>set ?items. set_option a) = (\<Union>s\<in>snd ` set (enumerate 0 splits). set_option (spAction s))"
    by (auto simp: case_prod_unfold)
  also have "snd ` set (enumerate 0 splits) = set splits" by (simp flip: set_map)
  finally show "soundLocations rc (splitActions splits) n locs rets" using sound by (simp add: splitActions_def)
  show "splitsServed rc splits sci locs rets"
    unfolding splitsServed_def using served unfolding list_all2_map1
    by (rule list_all2_mono) (auto dest: locationOf_path)
  show "spcVariable sc = GetNameForSplitClientVariable (rtxVariableNamer rc) sci"
    "spcDistributions sc = map (splitDistribution sci) (enumerate 0 splits)"
    using assms by (auto simp: generateSplits_def)
qed

lemma splitDistribution_paths: "map dsValue (map (splitDistribution sci) (enumerate 0 splits)) = map (splitPath sci) [0..<length splits]"
  by (rule nth_equalityI) (simp_all add: nth_enumerate_eq splitDistribution_def)

lemma splitsServed_paths: "splitsServed rc splits sci locs rets \<Longrightarrow> map locPath locs = map (splitPath sci) [0..<length splits]"
  unfolding splitsServed_def by (rule nth_equalityI) (auto simp: list_all2_conv_all_nth nth_enumerate_eq)

section \<open>Matches\<close>

text \<open>
  A target of a route with matches: the path of a location for an action, or the variable of
  split clients for splits.
\<close>

definition hasSplits :: "Match \<Rightarrow> bool" where
  "hasSplits m = (mtSplits m \<noteq> [])"

definition targetName :: "variableNamer \<Rightarrow> nat \<Rightarrow> string \<Rightarrow> Split list \<Rightarrow> string" where
  "targetName namer sci p splits = (if splits \<noteq> [] then GetNameForSplitClientVariable namer sci else p)"

definition targetServed ::
    "routingContext \<Rightarrow> nat \<Rightarrow> string \<Rightarrow> Action option \<Rightarrow> Split list \<Rightarrow> Location list \<Rightarrow> ReturnLocation list \<Rightarrow> SplitClient list \<Rightarrow> bool" where
  "targetServed rc sci p action splits locs rets scs =
     (if splits = [] then \<exists>a. action = Some a \<and> (\<exists>loc\<in>set locs. locPath loc = p \<and> locationOf rc p True a rets loc)
      else \<exists>sc\<in>set scs. spcVariable sc = GetNameForSplitClientVariable (rtxVariableNamer rc) sci
             \<and> spcDistributions sc = map (splitDistribution sci) (enumerate 0 splits)
             \<and> (\<exists>ls. set ls \<subseteq> set locs \<and> splitsServed rc splits sci ls rets))"

lemma splitsServed_mono: "splitsServed rc splits sci locs rets \<Longrightarrow> set rets \<subseteq> set rets' \<Longrightarrow> splitsServed rc splits sci locs rets'"
  unfolding splitsServed_def by (erule list_all2_mono) (fastforce elim: locationOf_mono)

lemma targetServed_mono:
  assumes "targetServed rc sci p action splits locs rets scs"
    and "set locs \<subseteq> set locs'" "set rets \<subseteq> set rets'" "set scs \<subseteq> set scs'"
  shows "targetServed rc sci p action splits locs' rets' scs'"
proof (cases "splits = []")
  case True
  then show ?thesis using assms unfolding targetServed_def by (simp, metis locationOf_mono subsetD)
next
  case False
  then show ?thesis using assms unfolding targetServed_def by (simp, metis splitsServed_mono subset_trans subsetD)
qed

text \<open>What adding one target does to the build of the matches.\<close>

definition splitVariables :: "variableNamer \<Rightarrow> nat \<Rightarrow> SplitClient list \<Rightarrow> bool" where
  "splitVariables namer sci scs = (map spcVariable scs = map (GetNameForSplitClientVariable namer) [sci..<sci + length scs])"

lemma splitVariables_append:
  "splitVariables namer sci xs \<Longrightarrow> splitVariables namer (sci + length xs) ys \<Longrightarrow> splitVariables namer sci (xs @ ys)"
  using upt_add_eq_append [of sci "sci + length xs" "length ys"] by (simp add: splitVariables_def add.assoc)

lemma addMatchTarget_effect:
  assumes "addMatchTarget rc sci orig n p action splits b = Some b'" and "generatePath p = p"
  obtains ls rs ss where "mtbLocations b' = mtbLocations b @ ls" "mtbReturnLocations b' = mtbReturnLocations b @ rs"
    "mtbSplitClients b' = mtbSplitClients b @ ss" "length ss = (if splits \<noteq> [] then 1 else 0)"
    "splitVariables (rtxVariableNamer rc) (sci + length (mtbSplitClients b)) ss"
    "soundLocations rc (targetActions action splits) (n + length (mtbReturnLocations b)) ls rs"
    "targetServed rc (sci + length (mtbSplitClients b)) p action splits ls rs ss"
    "\<forall>sc\<in>set ss. \<forall>d\<in>set (spcDistributions sc). dsValue d \<in> locPath ` set ls"
proof (cases "splits = []")
  case True
  then obtain st where st: "addActionLocation rc p action True (unNamespace (rtxUpstreamNamer rc)) orig n
      (mtbLocations b, mtbReturnLocations b) = Some st" and b': "b' = b\<lparr>mtbLocations := fst st, mtbReturnLocations := snd st\<rparr>"
    using assms(1) by (auto simp: addMatchTarget_def)
  obtain l1 r1 where st_eq: "st = (l1, r1)" by (cases st)
  from st st_eq obtain a loc rs where "action = Some a" "l1 = mtbLocations b @ [loc]" "r1 = mtbReturnLocations b @ rs"
    "locationOf rc p True a rs loc" "soundLocations rc {a} (n + length (mtbReturnLocations b)) [loc] rs"
    using addActionLocation_effect by metis
  moreover from this have "locPath loc = p" using locationOf_path assms(2) by metis
  ultimately show ?thesis
    using True b' st_eq that [of "[loc]" rs "[]"]
    by (simp add: targetServed_def targetActions_def splitActions_def splitVariables_def)
next
  case False
  then obtain sc ls rs where g: "generateSplits rc splits (sci + length (mtbSplitClients b)) orig (n + length (mtbReturnLocations b)) = Some (sc, ls, rs)"
    and b': "b' = \<lparr>mtbLocations = mtbLocations b @ ls, mtbReturnLocations = mtbReturnLocations b @ rs, mtbSplitClients = mtbSplitClients b @ [sc]\<rparr>"
    using assms(1) by (auto simp: addMatchTarget_def)
  note e = generateSplits_effect [OF g]
  have "targetServed rc (sci + length (mtbSplitClients b)) p action splits ls rs [sc]"
    using e(1,2,4) False by (auto simp: targetServed_def)
  moreover have "soundLocations rc (targetActions action splits) (n + length (mtbReturnLocations b)) ls rs"
    using e(3) by (rule soundLocations_mono) (simp add: targetActions_def)
  moreover have "dsValue d \<in> locPath ` set ls" if "d \<in> set (spcDistributions sc)" for d
  proof -
    have "dsValue d \<in> set (map dsValue (spcDistributions sc))" using that by simp
    also have "map dsValue (spcDistributions sc) = map locPath ls" using splitDistribution_paths splitsServed_paths e(2,4) by simp
    finally show ?thesis by simp
  qed
  ultimately show ?thesis
    using that [of ls rs "[sc]"] b' False e(1) by (simp add: splitVariables_def)
qed

text \<open>The targets of all matches, numbered as the loop numbers them.\<close>

definition splitsBefore :: "nat \<Rightarrow> Match list \<Rightarrow> nat" where
  "splitsBefore j ms = length (filter hasSplits (take j ms))"

lemma splitsBefore_Cons: "splitsBefore (Suc j) (m # ms) = (if hasSplits m then 1 else 0) + splitsBefore j ms"
  by (simp add: splitsBefore_def)

lemma splitsBefore_0 [simp]: "splitsBefore 0 ms = 0"
  by (simp add: splitsBefore_def)

lemma generatePath_match [simp]: "generatePath (matchPath i k) = matchPath i k" "generatePath (defaultPath i) = defaultPath i"
  by (simp_all add: matchPath_def defaultPath_def)

definition matchActions :: "Match list \<Rightarrow> Action set" where
  "matchActions ms = (\<Union>m\<in>set ms. targetActions (mtAction m) (mtSplits m))"

lemma matchTargets_effect:
  assumes "foldOpt (\<lambda>(k, m). addMatchTarget rc sci orig n (matchPath i k) (mtAction m) (mtSplits m)) (enumerate k0 ms) b = Some b'"
  shows "\<exists>ls rs ss. mtbLocations b' = mtbLocations b @ ls \<and> mtbReturnLocations b' = mtbReturnLocations b @ rs
    \<and> mtbSplitClients b' = mtbSplitClients b @ ss \<and> length ss = splitsBefore (length ms) ms
    \<and> splitVariables (rtxVariableNamer rc) (sci + length (mtbSplitClients b)) ss
    \<and> soundLocations rc (matchActions ms) (n + length (mtbReturnLocations b)) ls rs
    \<and> (\<forall>j<length ms. targetServed rc (sci + length (mtbSplitClients b) + splitsBefore j ms) (matchPath i (k0 + j))
          (mtAction (ms ! j)) (mtSplits (ms ! j)) ls rs ss)
    \<and> (\<forall>sc\<in>set ss. \<forall>d\<in>set (spcDistributions sc). dsValue d \<in> locPath ` set ls)"
  using assms
proof (induction ms arbitrary: k0 b)
  case Nil
  then show ?case by (auto simp: splitVariables_def)
next
  case (Cons m ms)
  from Cons.prems obtain b1 where b1: "addMatchTarget rc sci orig n (matchPath i k0) (mtAction m) (mtSplits m) b = Some b1"
    and rest: "foldOpt (\<lambda>(k, m). addMatchTarget rc sci orig n (matchPath i k) (mtAction m) (mtSplits m)) (enumerate (Suc k0) ms) b1 = Some b'"
    by (auto split: option.splits)
  obtain l1 r1 s1 where 1: "mtbLocations b1 = mtbLocations b @ l1" "mtbReturnLocations b1 = mtbReturnLocations b @ r1"
    "mtbSplitClients b1 = mtbSplitClients b @ s1" "length s1 = (if mtSplits m \<noteq> [] then 1 else 0)"
    "splitVariables (rtxVariableNamer rc) (sci + length (mtbSplitClients b)) s1"
    "soundLocations rc (targetActions (mtAction m) (mtSplits m)) (n + length (mtbReturnLocations b)) l1 r1"
    "targetServed rc (sci + length (mtbSplitClients b)) (matchPath i k0) (mtAction m) (mtSplits m) l1 r1 s1"
    "\<forall>sc\<in>set s1. \<forall>d\<in>set (spcDistributions sc). dsValue d \<in> locPath ` set l1"
    using addMatchTarget_effect [OF b1 generatePath_match(1)] by metis
  obtain l2 r2 s2 where 2: "mtbLocations b' = mtbLocations b1 @ l2" "mtbReturnLocations b' = mtbReturnLocations b1 @ r2"
    "mtbSplitClients b' = mtbSplitClients b1 @ s2" "length s2 = splitsBefore (length ms) ms"
    "splitVariables (rtxVariableNamer rc) (sci + length (mtbSplitClients b1)) s2"
    "soundLocations rc (matchActions ms) (n + length (mtbReturnLocations b1)) l2 r2"
    "\<forall>j<length ms. targetServed rc (sci + length (mtbSplitClients b1) + splitsBefore j ms) (matchPath i (Suc k0 + j))
          (mtAction (ms ! j)) (mtSplits (ms ! j)) l2 r2 s2"
    "\<forall>sc\<in>set s2. \<forall>d\<in>set (spcDistributions sc). dsValue d \<in> locPath ` set l2"
    using Cons.IH [OF rest] by blast
  have len: "length s1 = (if hasSplits m then 1 else 0)" using 1(4) by (simp add: hasSplits_def)
  have served: "targetServed rc (sci + length (mtbSplitClients b) + splitsBefore j (m # ms)) (matchPath i (k0 + j))
      (mtAction ((m # ms) ! j)) (mtSplits ((m # ms) ! j)) (l1 @ l2) (r1 @ r2) (s1 @ s2)" if "j < length (m # ms)" for j
  proof (cases j)
    case 0
    then show ?thesis using targetServed_mono [OF 1(7)] by simp
  next
    case (Suc j')
    then have "j' < length ms" using that by simp
    then have "targetServed rc (sci + length (mtbSplitClients b1) + splitsBefore j' ms) (matchPath i (Suc k0 + j'))
          (mtAction (ms ! j')) (mtSplits (ms ! j')) l2 r2 s2" using 2(7) by blast
    moreover have "sci + length (mtbSplitClients b1) + splitsBefore j' ms = sci + length (mtbSplitClients b) + splitsBefore j (m # ms)"
      using 1(3) len Suc by (simp add: splitsBefore_Cons)
    ultimately show ?thesis using targetServed_mono Suc by (fastforce simp del: One_nat_def)
  qed
  have "soundLocations rc (matchActions (m # ms)) (n + length (mtbReturnLocations b)) (l1 @ l2) (r1 @ r2)"
    using soundLocations_append [OF 1(6)] 2(6) 1(2) by (simp add: matchActions_def add.assoc)
  moreover have "splitVariables (rtxVariableNamer rc) (sci + length (mtbSplitClients b)) (s1 @ s2)"
    using splitVariables_append [OF 1(5)] 2(5) 1(3) by (simp add: add.assoc)
  moreover have "length (s1 @ s2) = splitsBefore (length (m # ms)) (m # ms)"
    using len 2(4) by (simp add: splitsBefore_Cons)
  moreover have "\<forall>sc\<in>set (s1 @ s2). \<forall>d\<in>set (spcDistributions sc). dsValue d \<in> locPath ` set (l1 @ l2)"
    using 1(8) 2(8) by (simp add: image_Un) blast
  ultimately show ?case
    using 1(1,2,3) 2(1,2,3) served
    by (intro exI [of _ "l1 @ l2"] exI [of _ "r1 @ r2"] exI [of _ "s1 @ s2"] conjI allI impI) (assumption | simp only: append_assoc)+
qed

lemma mainMapParameters_eq:
  "mainMapParameters namer i k sci ms =
     (map (\<lambda>j. \<lparr>pmValue = ''~^'' @ replicate (k + j) (CHR ''0'') @ ''1'',
                pmResult = targetName namer (sci + splitsBefore j ms) (matchPath i (k + j)) (mtSplits (ms ! j))\<rparr>) [0..<length ms],
      sci + splitsBefore (length ms) ms)"
proof (induction ms arbitrary: k sci)
  case Nil
  then show ?case by simp
next
  case (Cons m ms)
  have "[0..<length (m # ms)] = 0 # map Suc [0..<length ms]" by (simp add: upt_conv_Cons map_Suc_upt del: upt_Suc)
  then show ?case
    using Cons.IH [of "Suc k"] by (simp add: Let_def splitsBefore_Cons targetName_def hasSplits_def del: upt_Suc)
qed

text \<open>The values of the distributions of split clients are paths of locations.\<close>

definition splitsDefined :: "SplitClient list \<Rightarrow> Location list \<Rightarrow> bool" where
  "splitsDefined scs locs = (\<forall>sc\<in>set scs. \<forall>d\<in>set (spcDistributions sc). dsValue d \<in> locPath ` set locs)"

lemma splitsDefined_append:
  "splitsDefined s1 l1 \<Longrightarrow> splitsDefined s2 l2 \<Longrightarrow> splitsDefined (s1 @ s2) (l1 @ l2)"
  unfolding splitsDefined_def set_append image_Un by blast

lemma generateMatchesConfig_effect:
  assumes "generateMatchesConfig rc r i sci n = Some cfg"
  shows "rcMaps cfg = conditionMaps (rtxVariableNamer rc) i (rtMatches r) @ [mainMap (rtxVariableNamer rc) i sci r]"
    and "rcInternalRedirectLocation cfg =
      \<lparr>irlPath = rtPath r, irlDestination = GetNameForVariableForMatchesRouteMainMap (rtxVariableNamer rc) i\<rparr>"
    and "splitVariables (rtxVariableNamer rc) sci (rcSplitClients cfg)"
    and "soundLocations rc (routeActions r) n (rcLocations cfg) (rcReturnLocations cfg)"
    and "j < length (rtMatches r) \<Longrightarrow> targetServed rc (sci + splitsBefore j (rtMatches r)) (matchPath i j) (mtAction (rtMatches r ! j))
      (mtSplits (rtMatches r ! j)) (rcLocations cfg) (rcReturnLocations cfg) (rcSplitClients cfg)"
    and "targetServed rc (sci + splitsBefore (length (rtMatches r)) (rtMatches r)) (defaultPath i) (rtAction r) (rtSplits r)
      (rcLocations cfg) (rcReturnLocations cfg) (rcSplitClients cfg)"
    and "splitsDefined (rcSplitClients cfg) (rcLocations cfg)"
proof -
  let ?b0 = "\<lparr>mtbLocations = [], mtbReturnLocations = [], mtbSplitClients = []\<rparr>"
  obtain b b' where b: "foldOpt (\<lambda>(k, m). addMatchTarget rc sci (rtPath r) n (matchPath i k) (mtAction m) (mtSplits m))
      (enumerate 0 (rtMatches r)) ?b0 = Some b"
    and b': "addMatchTarget rc sci (rtPath r) n (defaultPath i) (rtAction r) (rtSplits r) b = Some b'"
    and cfg: "cfg = \<lparr>rcMaps = conditionMaps (rtxVariableNamer rc) i (rtMatches r) @ [mainMap (rtxVariableNamer rc) i sci r],
               rcSplitClients = mtbSplitClients b', rcLocations = mtbLocations b',
               rcInternalRedirectLocation =
                 \<lparr>irlPath = rtPath r, irlDestination = GetNameForVariableForMatchesRouteMainMap (rtxVariableNamer rc) i\<rparr>,
               rcReturnLocations = mtbReturnLocations b'\<rparr>"
    using assms by (fastforce simp: generateMatchesConfig_def map_option_eq_Some split: option.splits)
  obtain l1 r1 s1 where 1: "mtbLocations b = l1" "mtbReturnLocations b = r1" "mtbSplitClients b = s1"
    "length s1 = splitsBefore (length (rtMatches r)) (rtMatches r)"
    "splitVariables (rtxVariableNamer rc) sci s1" "soundLocations rc (matchActions (rtMatches r)) n l1 r1"
    "\<forall>j<length (rtMatches r). targetServed rc (sci + splitsBefore j (rtMatches r)) (matchPath i j)
          (mtAction (rtMatches r ! j)) (mtSplits (rtMatches r ! j)) l1 r1 s1"
    "splitsDefined s1 l1"
    using matchTargets_effect [OF b] unfolding splitsDefined_def by auto
  obtain l2 r2 s2 where 2: "mtbLocations b' = l1 @ l2" "mtbReturnLocations b' = r1 @ r2" "mtbSplitClients b' = s1 @ s2"
    "splitVariables (rtxVariableNamer rc) (sci + length s1) s2"
    "soundLocations rc (targetActions (rtAction r) (rtSplits r)) (n + length r1) l2 r2"
    "targetServed rc (sci + length s1) (defaultPath i) (rtAction r) (rtSplits r) l2 r2 s2"
    "splitsDefined s2 l2"
    using addMatchTarget_effect [OF b' generatePath_match(2)] 1(1,2,3) unfolding splitsDefined_def by metis
  show "rcMaps cfg = conditionMaps (rtxVariableNamer rc) i (rtMatches r) @ [mainMap (rtxVariableNamer rc) i sci r]"
    and "rcInternalRedirectLocation cfg =
      \<lparr>irlPath = rtPath r, irlDestination = GetNameForVariableForMatchesRouteMainMap (rtxVariableNamer rc) i\<rparr>"
    by (simp_all add: cfg)
  show "splitVariables (rtxVariableNamer rc) sci (rcSplitClients cfg)"
    using splitVariables_append [OF 1(5) 2(4)] by (simp add: cfg 2)
  show "soundLocations rc (routeActions r) n (rcLocations cfg) (rcReturnLocations cfg)"
    using soundLocations_append [OF 1(6) 2(5)] by (simp add: cfg 2 routeActions_def matchActions_def Un_commute)
  show "targetServed rc (sci + splitsBefore j (rtMatches r)) (matchPath i j) (mtAction (rtMatches r ! j))
      (mtSplits (rtMatches r ! j)) (rcLocations cfg) (rcReturnLocations cfg) (rcSplitClients cfg)" if "j < length (rtMatches r)"
    using targetServed_mono [OF 1(7) [rule_format, OF that]] by (simp add: cfg 2)
  show "targetServed rc (sci + splitsBefore (length (rtMatches r)) (rtMatches r)) (defaultPath i) (rtAction r) (rtSplits r)
      (rcLocations cfg) (rcReturnLocations cfg) (rcSplitClients cfg)"
    using targetServed_mono [OF 2(6)] 1(4) by (simp add: cfg 2)
  show "splitsDefined (rcSplitClients cfg) (rcLocations cfg)"
    using splitsDefined_append [OF 1(8) 2(7)] by (simp add: cfg 2)
qed

section \<open>The parts of a route\<close>

text \<open>What one route adds to the configuration, before its policies are written into the locations.\<close>

record routeParts =
  rpMaps :: "Map2 list"
  rpLocations :: "Location list"
  rpRedirects :: "InternalRedirectLocation list"
  rpReturnLocations :: "ReturnLocation list"
  rpSplitClients :: "SplitClient list"
  rpMatched :: nat

definition partsOfCfg :: "nat \<Rightarrow> routingCfg \<Rightarrow> routeParts" where
  "partsOfCfg matched cfg =
     \<lparr>rpMaps = rcMaps cfg, rpLocations = rcLocations cfg, rpRedirects = [rcInternalRedirectLocation cfg],
      rpReturnLocations = rcReturnLocations cfg, rpSplitClients = rcSplitClients cfg, rpMatched = matched\<rparr>"

definition routePartsOf :: "routingContext \<Rightarrow> string \<Rightarrow> Route \<Rightarrow> nat \<Rightarrow> nat \<Rightarrow> nat \<Rightarrow> routeParts option" where
  "routePartsOf rc ns r i sci n =
     (if rtMatches r \<noteq> [] then map_option (partsOfCfg 1) (generateMatchesConfig rc r i sci n)
      else if rtSplits r \<noteq> [] then map_option (partsOfCfg 0) (generateDefaultSplitsConfig rc r sci n)
      else map_option (\<lambda>(locs, rets). \<lparr>rpMaps = [], rpLocations = locs, rpRedirects = [], rpReturnLocations = rets,
               rpSplitClients = [], rpMatched = 0\<rparr>)
             (addActionLocation rc (rtPath r) (rtAction r) False ns (rtPath r) n ([], [])))"

text \<open>The pieces of the build that routes extend, and by what.\<close>

definition extends :: "routeParts \<Rightarrow> policiesCfg \<Rightarrow> ErrorPageLocation list \<Rightarrow> vsBuild \<Rightarrow> vsBuild \<Rightarrow> bool" where
  "extends parts pol els b b' =
     (vbUpstreams b' = vbUpstreams b \<and> vbCrUpstreams b' = vbCrUpstreams b
      \<and> vbMaps b' = vbMaps b @ rpMaps parts
      \<and> vbLocations b' = vbLocations b @ map (addPoliciesCfgToLocation pol) (rpLocations parts)
      \<and> vbInternalRedirectLocations b' = vbInternalRedirectLocations b @ rpRedirects parts
      \<and> vbReturnLocations b' = vbReturnLocations b @ rpReturnLocations parts
      \<and> vbSplitClients b' = vbSplitClients b @ rpSplitClients parts
      \<and> vbErrorPageLocations b' = vbErrorPageLocations b @ els
      \<and> vbMatchesRoutes b' = vbMatchesRoutes b + rpMatched parts)"

lemma addRouteConfig_parts:
  assumes "addRouteConfig rc ns r pol b = Some b'"
  obtains parts where "routePartsOf rc ns r (vbMatchesRoutes b) (length (vbSplitClients b)) (length (vbReturnLocations b)) = Some parts"
    "extends parts pol [] b b'"
    "vbVsrErrorPages b' = vbVsrErrorPages b" "vbVsrErrorPagesIndex b' = vbVsrErrorPagesIndex b"
proof (cases "routePartsOf rc ns r (vbMatchesRoutes b) (length (vbSplitClients b)) (length (vbReturnLocations b))")
  case None
  then show ?thesis using assms by (auto simp: addRouteConfig_def routePartsOf_def split: if_splits)
next
  case (Some parts)
  have "extends parts pol [] b b' \<and> vbVsrErrorPages b' = vbVsrErrorPages b \<and> vbVsrErrorPagesIndex b' = vbVsrErrorPagesIndex b"
    using assms Some by (auto simp: addRouteConfig_def routePartsOf_def partsOfCfg_def extends_def addPoliciesCfgToLocations_def
      map_option_eq_Some split: if_splits)
  then show ?thesis using that [OF Some] by blast
qed

section \<open>Maps\<close>

lemma map_enumerate: "map f (enumerate 0 xs) = map (\<lambda>j. f (j, xs ! j)) [0..<length xs]"
  by (rule nth_equalityI) (simp_all add: nth_enumerate_eq)

lemma enumerate_eq: "enumerate 0 xs = map (\<lambda>j. (j, xs ! j)) [0..<length xs]"
  by (rule nth_equalityI) (simp_all add: nth_enumerate_eq)

lemma in_enumerate: "x \<in> set (enumerate 0 xs) \<longleftrightarrow> (\<exists>j<length xs. x = (j, xs ! j))"
  unfolding enumerate_eq by (auto simp del: upt_Suc)

lemma in_concat_upt: "y \<in> set (concat (map (\<lambda>k. map (F k) [0..<g k]) [0..<n])) \<longleftrightarrow> (\<exists>k<n. \<exists>j<g k. y = F k j)"
proof -
  have "y \<in> set (concat (map (\<lambda>k. map (F k) [0..<g k]) [0..<n])) \<longleftrightarrow> (\<exists>k\<in>{0..<n}. y \<in> F k ` {0..<g k})"
    by (simp del: upt_Suc)
  then show ?thesis unfolding image_iff Bex_def by simp
qed

lemma in_conditionMaps:
  "m \<in> set (conditionMaps namer i ms) \<longleftrightarrow>
     (\<exists>k<length ms. \<exists>j<length (mtConditions (ms ! k)).
        m = conditionMap namer i k (length (mtConditions (ms ! k))) (j, mtConditions (ms ! k) ! j))"
  unfolding conditionMaps_def map_enumerate prod.case in_concat_upt ..

lemma conditionMap_variable [simp]: "mpVariable (conditionMap namer i k nc (j, c)) = GetNameForVariableForMatchesRouteMap namer i k j"
  by (simp add: conditionMap_def)

text \<open>What the results of maps may be: the constants of conditions, variables, and paths of locations.\<close>

definition resultsDefined :: "Map2 list \<Rightarrow> SplitClient list \<Rightarrow> Location list \<Rightarrow> bool" where
  "resultsDefined maps scs locs =
     (\<forall>m\<in>set maps. \<forall>p\<in>set (mpParameters m).
        pmResult p \<in> {''0'', ''1''} \<union> mpVariable ` set maps \<union> spcVariable ` set scs \<union> locPath ` set locs)"

lemma resultsDefined_append:
  "resultsDefined m1 s1 l1 \<Longrightarrow> resultsDefined m2 s2 l2 \<Longrightarrow> resultsDefined (m1 @ m2) (s1 @ s2) (l1 @ l2)"
  unfolding resultsDefined_def set_append image_Un by blast

lemma conditionMaps_results:
  assumes "m \<in> set (conditionMaps namer i ms)" and "p \<in> set (mpParameters m)"
  shows "pmResult p \<in> {''0'', ''1''} \<union> mpVariable ` set (conditionMaps namer i ms)"
proof -
  from assms(1) obtain k j where kj: "k < length ms" "j < length (mtConditions (ms ! k))"
    and m: "m = conditionMap namer i k (length (mtConditions (ms ! k))) (j, mtConditions (ms ! k) ! j)"
    unfolding in_conditionMaps by blast
  let ?next = "if Suc j < length (mtConditions (ms ! k)) then GetNameForVariableForMatchesRouteMap namer i k (Suc j) else ''1''"
  have "pmResult p \<in> {''0'', ?next}"
    using assms(2) by (auto simp: m conditionMap_def generateParametersForMatchesRouteMap_def Let_def split: prod.splits if_splits)
  moreover have "?next \<in> {''1''} \<union> mpVariable ` set (conditionMaps namer i ms)"
  proof (cases "Suc j < length (mtConditions (ms ! k))")
    case True
    then have "conditionMap namer i k (length (mtConditions (ms ! k))) (Suc j, mtConditions (ms ! k) ! Suc j) \<in> set (conditionMaps namer i ms)"
      unfolding in_conditionMaps using kj(1) by blast
    from imageI [OF this, of mpVariable] show ?thesis using True by simp
  qed simp
  ultimately obtain nx where nx: "pmResult p \<in> {''0'', nx}" "nx \<in> {''1''} \<union> mpVariable ` set (conditionMaps namer i ms)" by (rule that)
  from nx(1) show ?thesis
  proof (elim insertE emptyE)
    assume "pmResult p = nx"
    with nx(2) show ?thesis by (simp only: Un_insert_left insert_iff Un_empty_left simp_thms)
  qed simp
qed

lemma targetServed_defined:
  assumes "targetServed rc sci p action splits locs rets scs"
  shows "targetName (rtxVariableNamer rc) sci p splits \<in> spcVariable ` set scs \<union> locPath ` set locs"
proof (cases "splits = []")
  case True
  then show ?thesis using assms by (auto simp: targetServed_def targetName_def)
next
  case False
  then obtain sc where "sc \<in> set scs" "spcVariable sc = GetNameForSplitClientVariable (rtxVariableNamer rc) sci"
    using assms by (auto simp: targetServed_def)
  from imageI [OF this(1), of spcVariable] this(2) show ?thesis using False by (simp add: targetName_def)
qed

lemma mainMap_eq:
  "mainMap namer i sci r =
     \<lparr>mpSource = concat (map (\<lambda>k. GetNameForVariableForMatchesRouteMap namer i k 0) [0..<length (rtMatches r)]),
      mpVariable = GetNameForVariableForMatchesRouteMainMap namer i,
      mpParameters =
        map (\<lambda>j. \<lparr>pmValue = ''~^'' @ replicate j (CHR ''0'') @ ''1'',
                   pmResult = targetName namer (sci + splitsBefore j (rtMatches r)) (matchPath i j) (mtSplits (rtMatches r ! j))\<rparr>)
          [0..<length (rtMatches r)]
        @ [\<lparr>pmValue = ''default'',
             pmResult = targetName namer (sci + splitsBefore (length (rtMatches r)) (rtMatches r)) (defaultPath i) (rtSplits r)\<rparr>]\<rparr>"
  by (simp add: mainMap_def mainMapParameters_eq targetName_def)

lemma generateMatchesConfig_results:
  assumes "generateMatchesConfig rc r i sci n = Some cfg"
  shows "resultsDefined (rcMaps cfg) (rcSplitClients cfg) (rcLocations cfg)"
proof -
  let ?namer = "rtxVariableNamer rc"
  note e = generateMatchesConfig_effect [OF assms]
  have "pmResult p \<in> spcVariable ` set (rcSplitClients cfg) \<union> locPath ` set (rcLocations cfg)"
    if p: "p \<in> set (mpParameters (mainMap ?namer i sci r))" for p
  proof -
    from p consider j where "j < length (rtMatches r)"
        "pmResult p = targetName ?namer (sci + splitsBefore j (rtMatches r)) (matchPath i j) (mtSplits (rtMatches r ! j))"
      | "pmResult p = targetName ?namer (sci + splitsBefore (length (rtMatches r)) (rtMatches r)) (defaultPath i) (rtSplits r)"
      by (auto simp: mainMap_eq)
    then show ?thesis using targetServed_defined [OF e(5)] targetServed_defined [OF e(6)] by cases simp_all
  qed
  then show ?thesis
    using conditionMaps_results unfolding resultsDefined_def e(1) set_append image_Un by fastforce
qed

section \<open>What is known of the parts\<close>

definition routeVariables :: "variableNamer \<Rightarrow> nat \<Rightarrow> Route \<Rightarrow> string list" where
  "routeVariables namer i r =
     (if rtMatches r = [] then []
      else map mpVariable (conditionMaps namer i (rtMatches r)) @ [GetNameForVariableForMatchesRouteMainMap namer i])"

lemma routePartsOf_effect:
  assumes "routePartsOf rc ns r i sci n = Some parts"
  shows "splitVariables (rtxVariableNamer rc) sci (rpSplitClients parts)"
    and "soundLocations rc (routeActions r) n (rpLocations parts) (rpReturnLocations parts)"
    and "splitsDefined (rpSplitClients parts) (rpLocations parts)"
    and "resultsDefined (rpMaps parts) (rpSplitClients parts) (rpLocations parts)"
    and "irl \<in> set (rpRedirects parts) \<Longrightarrow>
      irlDestination irl \<in> mpVariable ` set (rpMaps parts) \<union> spcVariable ` set (rpSplitClients parts)"
    and "map mpVariable (rpMaps parts) = routeVariables (rtxVariableNamer rc) i r"
    and "rpMatched parts = (if rtMatches r = [] then 0 else 1)"
proof -
  let ?concl = "splitVariables (rtxVariableNamer rc) sci (rpSplitClients parts)
    \<and> soundLocations rc (routeActions r) n (rpLocations parts) (rpReturnLocations parts)
    \<and> splitsDefined (rpSplitClients parts) (rpLocations parts)
    \<and> resultsDefined (rpMaps parts) (rpSplitClients parts) (rpLocations parts)
    \<and> (\<forall>irl\<in>set (rpRedirects parts). irlDestination irl \<in> mpVariable ` set (rpMaps parts) \<union> spcVariable ` set (rpSplitClients parts))
    \<and> map mpVariable (rpMaps parts) = routeVariables (rtxVariableNamer rc) i r
    \<and> rpMatched parts = (if rtMatches r = [] then 0 else 1)"
  have ?concl
  proof (cases "rtMatches r = []")
    case False
    then obtain cfg where g: "generateMatchesConfig rc r i sci n = Some cfg" and parts: "parts = partsOfCfg 1 cfg"
      using assms by (auto simp: routePartsOf_def)
    note e = generateMatchesConfig_effect [OF g]
    show ?thesis
      using False e(3,4,7) generateMatchesConfig_results [OF g]
      by (simp add: parts partsOfCfg_def e(1,2) routeVariables_def mainMap_eq)
  next
    case no_matches: True
    show ?thesis
    proof (cases "rtSplits r = []")
      case False
      then obtain cfg where g: "generateDefaultSplitsConfig rc r sci n = Some cfg" and parts: "parts = partsOfCfg 0 cfg"
        using assms no_matches by (auto simp: routePartsOf_def)
      then obtain sc locs rets where s: "generateSplits rc (rtSplits r) sci (rtPath r) n = Some (sc, locs, rets)"
        and cfg: "cfg = \<lparr>rcMaps = [], rcSplitClients = [sc], rcLocations = locs,
          rcInternalRedirectLocation =
            \<lparr>irlPath = rtPath r, irlDestination = GetNameForSplitClientVariable (rtxVariableNamer rc) sci\<rparr>,
          rcReturnLocations = rets\<rparr>"
        by (auto simp: generateDefaultSplitsConfig_def)
      note e = generateSplits_effect [OF s]
      have "soundLocations rc (routeActions r) n locs rets"
        using e(3) by (rule soundLocations_mono) (auto simp: routeActions_def targetActions_def)
      moreover have "dsValue d \<in> locPath ` set locs" if "d \<in> set (spcDistributions sc)" for d
      proof -
        have "map dsValue (spcDistributions sc) = map locPath locs" using splitDistribution_paths splitsServed_paths e(2,4) by simp
        with that show ?thesis by (metis image_eqI list.set_map)
      qed
      ultimately show ?thesis
        using no_matches e(1) by (simp add: parts partsOfCfg_def cfg splitVariables_def splitsDefined_def resultsDefined_def routeVariables_def)
    next
      case True
      then obtain locs rets where a: "addActionLocation rc (rtPath r) (rtAction r) False ns (rtPath r) n ([], []) = Some (locs, rets)"
        and parts: "parts = \<lparr>rpMaps = [], rpLocations = locs, rpRedirects = [], rpReturnLocations = rets, rpSplitClients = [], rpMatched = 0\<rparr>"
        using assms no_matches by (auto simp: routePartsOf_def)
      obtain b where "rtAction r = Some b" "soundLocations rc {b} n locs rets"
        using addActionLocation_effect [OF a] by (metis append_Nil list.size(3) add.right_neutral)
      then have "soundLocations rc (routeActions r) n locs rets"
        by (elim soundLocations_mono) (simp add: routeActions_def targetActions_def)
      then show ?thesis
        using no_matches by (simp add: parts splitVariables_def splitsDefined_def resultsDefined_def routeVariables_def)
    qed
  qed
  then show "splitVariables (rtxVariableNamer rc) sci (rpSplitClients parts)"
    and "soundLocations rc (routeActions r) n (rpLocations parts) (rpReturnLocations parts)"
    and "splitsDefined (rpSplitClients parts) (rpLocations parts)"
    and "resultsDefined (rpMaps parts) (rpSplitClients parts) (rpLocations parts)"
    and "irl \<in> set (rpRedirects parts) \<Longrightarrow>
      irlDestination irl \<in> mpVariable ` set (rpMaps parts) \<union> spcVariable ` set (rpSplitClients parts)"
    and "map mpVariable (rpMaps parts) = routeVariables (rtxVariableNamer rc) i r"
    and "rpMatched parts = (if rtMatches r = [] then 0 else 1)"
    by blast+
qed

section \<open>Pages for errors\<close>

lemma errorPageLocations_names:
  assumes "generateErrorPageLocations idx pages = Some els"
  shows "map elName els = map (generateErrorPageName idx) (filter (\<lambda>i. epRedirect (pages ! i) = None) [0..<length pages])"
proof -
  have gen: "map elName (concat ls) = map (\<lambda>(i, e). generateErrorPageName idx i) (filter (\<lambda>(i, e). epRedirect e = None) es)"
    if "mapOpt (generateErrorPageLocation idx) es = Some ls" for es ls
    using that
    by (induction es arbitrary: ls) (auto simp: generateErrorPageLocation_def split: option.splits prod.splits if_splits)
  obtain ls where "mapOpt (generateErrorPageLocation idx) (enumerate 0 pages) = Some ls" "els = concat ls"
    using assms by (auto simp: generateErrorPageLocations_def)
  from gen [OF this(1)] this(2) have
    "map elName els = map (\<lambda>(i, e). generateErrorPageName idx i) (filter (\<lambda>(i, e). epRedirect e = None) (map (\<lambda>i. (i, pages ! i)) [0..<length pages]))"
    by (simp only: enumerate_eq)
  then show ?thesis by (simp add: filter_map o_def)
qed

text \<open>An error page is a named location, or the URL of a redirect.\<close>

lemma errorPages_names:
  assumes "generateErrorPages idx pages = Some eps" and "ep \<in> set eps"
  obtains (url) e rd where "e \<in> set pages" "epRedirect e = Some rd" "ep2Name ep = arURL (edActionRedirect rd)"
    | (page) i where "i < length pages" "epRedirect (pages ! i) = None" "ep2Name ep = generateErrorPageName idx i"
proof -
  have gen: "\<exists>(i, e)\<in>set es. generateErrorPage idx (i, e) = Some ep"
    if "mapOpt (generateErrorPage idx) es = Some eps" "ep \<in> set eps" for es
    using that by (induction es arbitrary: eps) (auto split: option.splits)
  obtain i where "i < length pages" "generateErrorPage idx (i, pages ! i) = Some ep"
    using gen [OF assms(1) [unfolded generateErrorPages_def] assms(2)] by (auto simp: in_enumerate)
  then show ?thesis
    using url [of "pages ! i"] page [of i] by (auto simp: generateErrorPage_def split: option.splits)
qed

section \<open>One route, one subroute\<close>

text \<open>
  What adding a route does, whatever its policies are: it extends the build by the parts of the
  route, generated for the given error pages.
\<close>

definition placedRoute ::
    "VirtualServer \<Rightarrow> upstreamNamer \<Rightarrow> ErrorPage list \<Rightarrow> nat \<Rightarrow> Route \<Rightarrow> vsBuild \<Rightarrow> vsBuild \<Rightarrow> bool" where
  "placedRoute vs namer pages idx r b b' =
     (\<exists>rc ns pol els parts. rtxUpstreamNamer rc = namer \<and> rtxCrUpstreams rc = vbCrUpstreams b
        \<and> rtxVariableNamer rc = newVariableNamer vs \<and> lcErrorPages (rtxLocation rc) = pages \<and> lcErrPageIndex (rtxLocation rc) = idx
        \<and> generateErrorPageLocations (length (vbErrorPageLocations b)) (sliceOf (rtErrorPages r)) = Some els
        \<and> routePartsOf rc ns r (vbMatchesRoutes b) (length (vbSplitClients b)) (length (vbReturnLocations b)) = Some parts
        \<and> extends parts pol els b b')"

definition noParts :: routeParts where
  "noParts = \<lparr>rpMaps = [], rpLocations = [], rpRedirects = [], rpReturnLocations = [], rpSplitClients = [], rpMatched = 0\<rparr>"

lemma routePolicies_effect:
  assumes "routePolicies vsEx od refs ctxt po oidc b = Some (pol, b2)"
  obtains vsc zones where "b2 = b\<lparr>vbVsc := vsc, vbLimitReqZones := zones\<rparr>"
  using assms by (auto simp: routePolicies_def)

lemma addRoute_reference:
  assumes "addRoute vsEx po oidc r b = Some b'" and "rtRoute r \<noteq> ''''"
  obtains els where "generateErrorPageLocations (length (vbErrorPageLocations b)) (sliceOf (rtErrorPages r)) = Some els"
    "extends noParts newPoliciesConfig els b b'"
    "vbVsrErrorPages b' = (if sliceOf (rtErrorPages r) \<noteq> []
       then gput (namespacedKey (omNamespace (vsMeta (vxVirtualServer vsEx))) (rtRoute r)) (sliceOf (rtErrorPages r)) (vbVsrErrorPages b)
       else vbVsrErrorPages b)"
    "vbVsrErrorPagesIndex b' = (if sliceOf (rtErrorPages r) \<noteq> []
       then gput (namespacedKey (omNamespace (vsMeta (vxVirtualServer vsEx))) (rtRoute r)) (length (vbErrorPageLocations b)) (vbVsrErrorPagesIndex b)
       else vbVsrErrorPagesIndex b)"
proof -
  obtain els where els: "generateErrorPageLocations (length (vbErrorPageLocations b)) (sliceOf (rtErrorPages r)) = Some els"
    using assms(1) by (auto simp: addRoute_def Let_def split: option.splits)
  show ?thesis
    using assms els by (intro that [of els]) (auto simp: addRoute_def Let_def extends_def noParts_def)
qed

lemma addRoute_placed:
  assumes "addRoute vsEx po oidc r b = Some b'" and "rtRoute r = ''''"
  shows "placedRoute (vxVirtualServer vsEx) (newUpstreamNamerForVirtualServer (vxVirtualServer vsEx)) (sliceOf (rtErrorPages r))
      (length (vbErrorPageLocations b)) r b b'
    \<and> vbVsrErrorPages b' = vbVsrErrorPages b \<and> vbVsrErrorPagesIndex b' = vbVsrErrorPagesIndex b"
proof -
  obtain els where els: "generateErrorPageLocations (length (vbErrorPageLocations b)) (sliceOf (rtErrorPages r)) = Some els"
    using assms(1) by (auto simp: addRoute_def Let_def split: option.splits)
  let ?b1 = "b\<lparr>vbErrorPageLocations := vbErrorPageLocations b @ els\<rparr>"
  let ?rc = "\<lambda>b2. \<lparr>rtxUpstreamNamer = newUpstreamNamerForVirtualServer (vxVirtualServer vsEx), rtxCrUpstreams = vbCrUpstreams b2,
       rtxVariableNamer = newVariableNamer (vxVirtualServer vsEx),
       rtxLocation = \<lparr>lcCfgParams = genCfgParams (vbVsc b2), lcErrorPages = sliceOf (rtErrorPages r),
         lcErrPageIndex = length (vbErrorPageLocations b), lcLocSnippets = rtLocationSnippets r,
         lcEnableSnippets = genEnableSnippets (vbVsc b2), lcIsVSR = False, lcVsrName = [], lcVsrNamespace = []\<rparr>\<rparr>"
  let ?ns = "omNamespace (vsMeta (vxVirtualServer vsEx))"
  obtain pol b2 where pol: "routePolicies vsEx (vsOwnerDetails (vxVirtualServer vsEx)) (rtPolicies r) routeContext po oidc ?b1 = Some (pol, b2)"
    and add': "addRouteConfig (?rc b2) ?ns r pol b2 = Some b'"
    using assms els by (auto simp: addRoute_def Let_def split: option.splits)
  obtain rc ns where rc: "rtxUpstreamNamer rc = newUpstreamNamerForVirtualServer (vxVirtualServer vsEx)" "rtxCrUpstreams rc = vbCrUpstreams b2"
      "rtxVariableNamer rc = newVariableNamer (vxVirtualServer vsEx)" "lcErrorPages (rtxLocation rc) = sliceOf (rtErrorPages r)"
      "lcErrPageIndex (rtxLocation rc) = length (vbErrorPageLocations b)"
    and add: "addRouteConfig rc ns r pol b2 = Some b'"
    using that [of "?rc b2" ?ns] add' by simp
  obtain vsc zones where b2: "b2 = ?b1\<lparr>vbVsc := vsc, vbLimitReqZones := zones\<rparr>" using routePolicies_effect [OF pol] .
  obtain parts where parts: "routePartsOf rc ns r (vbMatchesRoutes b2) (length (vbSplitClients b2)) (length (vbReturnLocations b2)) = Some parts"
    "extends parts pol [] b2 b'" "vbVsrErrorPages b' = vbVsrErrorPages b2" "vbVsrErrorPagesIndex b' = vbVsrErrorPagesIndex b2"
    using addRouteConfig_parts [OF add] .
  have "extends parts pol els b b'" using parts(2) by (simp add: b2 extends_def)
  then show ?thesis
    unfolding placedRoute_def using els rc parts(1,3,4) by (simp add: b2) blast
qed

lemma addSubroute_placed:
  assumes "addSubroute vsEx po oidc vsr r b = Some b'"
  shows "\<exists>pages idx. placedRoute (vxVirtualServer vsEx) (newUpstreamNamerForVirtualServerRoute (vxVirtualServer vsEx) vsr) pages idx r b b'
    \<and> (pages = sliceOf (rtErrorPages r) \<and> idx = length (vbErrorPageLocations b)
       \<or> (\<exists>key. gget (vbVsrErrorPages b) key = Some pages \<and> idx = (case gget (vbVsrErrorPagesIndex b) key of None \<Rightarrow> 0 | Some i \<Rightarrow> i)))
    \<and> vbVsrErrorPages b' = vbVsrErrorPages b \<and> vbVsrErrorPagesIndex b' = vbVsrErrorPagesIndex b"
proof -
  obtain els where els: "generateErrorPageLocations (length (vbErrorPageLocations b)) (sliceOf (rtErrorPages r)) = Some els"
    using assms by (auto simp: addSubroute_def Let_def split: option.splits)
  let ?b1 = "b\<lparr>vbErrorPageLocations := vbErrorPageLocations b @ els\<rparr>"
  let ?key = "omNamespace (vsrMeta vsr) @ ''/'' @ omName (vsrMeta vsr)"
  obtain pages idx where pi: "(pages, idx) = (case rtErrorPages r of
      None \<Rightarrow> (case gget (vbVsrErrorPages ?b1) ?key of
          None \<Rightarrow> (sliceOf (rtErrorPages r), length (vbErrorPageLocations b))
        | Some vsErrorPages \<Rightarrow> (vsErrorPages, case gget (vbVsrErrorPagesIndex ?b1) ?key of None \<Rightarrow> 0 | Some i \<Rightarrow> i))
    | Some _ \<Rightarrow> (sliceOf (rtErrorPages r), length (vbErrorPageLocations b)))" by (metis surj_pair)
  obtain od refs ctxt snippets where odr: "(od, refs, ctxt) = (if rtPolicies r = []
       then (vsOwnerDetails (vxVirtualServer vsEx), sliceOf (gget (vbVsrPolicies ?b1) ?key), routeContext)
       else (vsrOwnerDetails (vxVirtualServer vsEx) vsr, rtPolicies r, subRouteContext))"
    and snippets: "snippets = (if rtLocationSnippets r = ''''
       then (case gget (vbVsrLocationSnippets ?b1) ?key of None \<Rightarrow> '''' | Some s \<Rightarrow> s) else rtLocationSnippets r)"
    by (metis surj_pair)
  let ?rc = "\<lambda>b2. \<lparr>rtxUpstreamNamer = newUpstreamNamerForVirtualServerRoute (vxVirtualServer vsEx) vsr, rtxCrUpstreams = vbCrUpstreams b2,
       rtxVariableNamer = newVariableNamer (vxVirtualServer vsEx),
       rtxLocation = \<lparr>lcCfgParams = genCfgParams (vbVsc b2), lcErrorPages = pages, lcErrPageIndex = idx, lcLocSnippets = snippets,
         lcEnableSnippets = genEnableSnippets (vbVsc b2), lcIsVSR = True, lcVsrName = omName (vsrMeta vsr),
         lcVsrNamespace = omNamespace (vsrMeta vsr)\<rparr>\<rparr>"
  let ?ns = "omNamespace (vsrMeta vsr)"
  have "(case routePolicies vsEx od refs ctxt po oidc ?b1 of None \<Rightarrow> None | Some (pol, b2) \<Rightarrow> addRouteConfig (?rc b2) ?ns r pol b2) = Some b'"
    using assms els unfolding addSubroute_def Let_def by (simp only: option.case pi [symmetric] odr [symmetric] snippets [symmetric] prod.case)
  then obtain pol b2 where pol: "routePolicies vsEx od refs ctxt po oidc ?b1 = Some (pol, b2)"
    and add': "addRouteConfig (?rc b2) ?ns r pol b2 = Some b'"
    by (auto split: option.splits)
  obtain rc ns where rc: "rtxUpstreamNamer rc = newUpstreamNamerForVirtualServerRoute (vxVirtualServer vsEx) vsr" "rtxCrUpstreams rc = vbCrUpstreams b2"
      "rtxVariableNamer rc = newVariableNamer (vxVirtualServer vsEx)" "lcErrorPages (rtxLocation rc) = pages"
      "lcErrPageIndex (rtxLocation rc) = idx"
    and add: "addRouteConfig rc ns r pol b2 = Some b'"
    using that [of "?rc b2" ?ns] add' by simp
  obtain vsc zones where b2: "b2 = ?b1\<lparr>vbVsc := vsc, vbLimitReqZones := zones\<rparr>" using routePolicies_effect [OF pol] .
  obtain parts where parts: "routePartsOf rc ns r (vbMatchesRoutes b2) (length (vbSplitClients b2)) (length (vbReturnLocations b2)) = Some parts"
    "extends parts pol [] b2 b'" "vbVsrErrorPages b' = vbVsrErrorPages b2" "vbVsrErrorPagesIndex b' = vbVsrErrorPagesIndex b2"
    using addRouteConfig_parts [OF add] .
  have "extends parts pol els b b'" using parts(2) by (simp add: b2 extends_def)
  then have "placedRoute (vxVirtualServer vsEx) (newUpstreamNamerForVirtualServerRoute (vxVirtualServer vsEx) vsr) pages idx r b b'"
    unfolding placedRoute_def using els rc parts(1) by (simp add: b2) blast
  moreover have "pages = sliceOf (rtErrorPages r) \<and> idx = length (vbErrorPageLocations b)
      \<or> gget (vbVsrErrorPages b) ?key = Some pages \<and> idx = (case gget (vbVsrErrorPagesIndex b) ?key of None \<Rightarrow> 0 | Some i \<Rightarrow> i)"
    using pi by (auto split: option.splits)
  ultimately show ?thesis using parts(3,4) by (auto simp: b2)
qed

section \<open>The whole build, route by route\<close>

text \<open>The routes that the generator places, with the namer of the object that declares them.\<close>

definition generatedRoutes :: "VirtualServerEx \<Rightarrow> (upstreamNamer \<times> Route) set" where
  "generatedRoutes vsEx =
     {(newUpstreamNamerForVirtualServer (vxVirtualServer vsEx), r) |r. r \<in> set (vssRoutes (vsSpec (vxVirtualServer vsEx))) \<and> rtRoute r = ''''}
     \<union> {(newUpstreamNamerForVirtualServerRoute (vxVirtualServer vsEx) vsr, r) |vsr r.
          vsr \<in> set (vxVirtualServerRoutes vsEx) \<and> r \<in> set (vrsSubroutes (vsrSpec vsr))}"

definition routePages :: "VirtualServerEx \<Rightarrow> ErrorPage set" where
  "routePages vsEx =
     (\<Union>r\<in>set (vssRoutes (vsSpec (vxVirtualServer vsEx))). set (sliceOf (rtErrorPages r)))
     \<union> (\<Union>vsr\<in>set (vxVirtualServerRoutes vsEx). \<Union>r\<in>set (vrsSubroutes (vsrSpec vsr)). set (sliceOf (rtErrorPages r)))"

text \<open>The pages \<open>pages\<close> numbered with \<open>idx\<close> have their named locations.\<close>

definition pagesAt :: "nat \<Rightarrow> ErrorPage list \<Rightarrow> vsBuild \<Rightarrow> bool" where
  "pagesAt idx pages b =
     (\<forall>i<length pages. epRedirect (pages ! i) = None \<longrightarrow> generateErrorPageName idx i \<in> elName ` set (vbErrorPageLocations b))"

text \<open>The pages the subroutes inherit are those of routes of the VirtualServer that were placed before.\<close>

definition pagesKnown :: "VirtualServerEx \<Rightarrow> vsBuild \<Rightarrow> bool" where
  "pagesKnown vsEx b =
     (\<forall>key pages. gget (vbVsrErrorPages b) key = Some pages \<longrightarrow>
        (\<exists>i. gget (vbVsrErrorPagesIndex b) key = Some i \<and> pagesAt i pages b \<and> set pages \<subseteq> routePages vsEx))"

definition routeStep :: "VirtualServerEx \<Rightarrow> vsBuild \<Rightarrow> vsBuild \<Rightarrow> bool" where
  "routeStep vsEx b b' =
     (\<exists>parts pol els own. generateErrorPageLocations (length (vbErrorPageLocations b)) own = Some els \<and> extends parts pol els b b'
        \<and> (parts = noParts
           \<or> (\<exists>namer r pages idx rc ns. (namer, r) \<in> generatedRoutes vsEx \<and> pagesAt idx pages b' \<and> set pages \<subseteq> routePages vsEx
                \<and> rtxUpstreamNamer rc = namer \<and> rtxCrUpstreams rc = vbCrUpstreams b \<and> rtxVariableNamer rc = newVariableNamer (vxVirtualServer vsEx)
                \<and> lcErrorPages (rtxLocation rc) = pages \<and> lcErrPageIndex (rtxLocation rc) = idx
                \<and> routePartsOf rc ns r (vbMatchesRoutes b) (length (vbSplitClients b)) (length (vbReturnLocations b)) = Some parts)))"

lemma errorPageLocations_at:
  assumes "generateErrorPageLocations idx pages = Some els" and "set els \<subseteq> set (vbErrorPageLocations b)"
  shows "pagesAt idx pages b"
proof -
  have "elName ` set els = generateErrorPageName idx ` {i. i < length pages \<and> epRedirect (pages ! i) = None}"
    using arg_cong [OF errorPageLocations_names [OF assms(1)], of set] by (auto simp: image_iff)
  then show ?thesis using assms(2) unfolding pagesAt_def by blast
qed

lemma pagesAt_mono: "pagesAt idx pages b \<Longrightarrow> set (vbErrorPageLocations b) \<subseteq> set (vbErrorPageLocations b') \<Longrightarrow> pagesAt idx pages b'"
  unfolding pagesAt_def by blast

lemma pagesKnown_mono:
  assumes "pagesKnown vsEx b" and "set (vbErrorPageLocations b) \<subseteq> set (vbErrorPageLocations b')"
    and "vbVsrErrorPages b' = vbVsrErrorPages b" "vbVsrErrorPagesIndex b' = vbVsrErrorPagesIndex b"
  shows "pagesKnown vsEx b'"
  using assms pagesAt_mono unfolding pagesKnown_def by metis

lemma addRoute_step:
  assumes "addRoute vsEx po oidc r b = Some b'" and "pagesKnown vsEx b" and "r \<in> set (vssRoutes (vsSpec (vxVirtualServer vsEx)))"
  shows "routeStep vsEx b b' \<and> pagesKnown vsEx b'"
proof (cases "rtRoute r = ''''")
  case True
  have p: "placedRoute (vxVirtualServer vsEx) (newUpstreamNamerForVirtualServer (vxVirtualServer vsEx)) (sliceOf (rtErrorPages r))
      (length (vbErrorPageLocations b)) r b b'"
    and same: "vbVsrErrorPages b' = vbVsrErrorPages b" "vbVsrErrorPagesIndex b' = vbVsrErrorPagesIndex b"
    using addRoute_placed [OF assms(1) True] by blast+
  then obtain rc ns pol els parts where rc: "rtxUpstreamNamer rc = newUpstreamNamerForVirtualServer (vxVirtualServer vsEx)"
      "rtxCrUpstreams rc = vbCrUpstreams b" "rtxVariableNamer rc = newVariableNamer (vxVirtualServer vsEx)"
      "lcErrorPages (rtxLocation rc) = sliceOf (rtErrorPages r)" "lcErrPageIndex (rtxLocation rc) = length (vbErrorPageLocations b)"
    and els: "generateErrorPageLocations (length (vbErrorPageLocations b)) (sliceOf (rtErrorPages r)) = Some els"
    and parts: "routePartsOf rc ns r (vbMatchesRoutes b) (length (vbSplitClients b)) (length (vbReturnLocations b)) = Some parts"
    and ext: "extends parts pol els b b'"
    unfolding placedRoute_def by blast
  have "set els \<subseteq> set (vbErrorPageLocations b')" "set (vbErrorPageLocations b) \<subseteq> set (vbErrorPageLocations b')"
    using ext by (auto simp: extends_def)
  moreover have "(newUpstreamNamerForVirtualServer (vxVirtualServer vsEx), r) \<in> generatedRoutes vsEx"
      "set (sliceOf (rtErrorPages r)) \<subseteq> routePages vsEx"
    using assms(3) True by (auto simp: generatedRoutes_def routePages_def)
  ultimately show ?thesis
    unfolding routeStep_def using rc els parts ext errorPageLocations_at pagesKnown_mono [OF assms(2) _ same] by blast
next
  case False
  from assms(1) False obtain els where els: "generateErrorPageLocations (length (vbErrorPageLocations b)) (sliceOf (rtErrorPages r)) = Some els"
    and ext: "extends noParts newPoliciesConfig els b b'"
    and vsr: "vbVsrErrorPages b' = (if sliceOf (rtErrorPages r) \<noteq> []
       then gput (namespacedKey (omNamespace (vsMeta (vxVirtualServer vsEx))) (rtRoute r)) (sliceOf (rtErrorPages r)) (vbVsrErrorPages b)
       else vbVsrErrorPages b)"
      "vbVsrErrorPagesIndex b' = (if sliceOf (rtErrorPages r) \<noteq> []
       then gput (namespacedKey (omNamespace (vsMeta (vxVirtualServer vsEx))) (rtRoute r)) (length (vbErrorPageLocations b)) (vbVsrErrorPagesIndex b)
       else vbVsrErrorPagesIndex b)"
    using addRoute_reference by metis
  have sub: "set els \<subseteq> set (vbErrorPageLocations b')" "set (vbErrorPageLocations b) \<subseteq> set (vbErrorPageLocations b')"
    using ext by (auto simp: extends_def)
  have own: "pagesAt (length (vbErrorPageLocations b)) (sliceOf (rtErrorPages r)) b'" using errorPageLocations_at [OF els sub(1)] .
  have from_route: "set (sliceOf (rtErrorPages r)) \<subseteq> routePages vsEx" using assms(3) by (auto simp: routePages_def)
  have "pagesKnown vsEx b'"
    unfolding pagesKnown_def
  proof (intro allI impI)
    fix key pages assume g: "gget (vbVsrErrorPages b') key = Some pages"
    show "\<exists>i. gget (vbVsrErrorPagesIndex b') key = Some i \<and> pagesAt i pages b' \<and> set pages \<subseteq> routePages vsEx"
    proof (cases "sliceOf (rtErrorPages r) \<noteq> [] \<and> key = namespacedKey (omNamespace (vsMeta (vxVirtualServer vsEx))) (rtRoute r)")
      case True
      then show ?thesis using g vsr own from_route by simp
    next
      case False
      then have "gget (vbVsrErrorPages b) key = Some pages" "gget (vbVsrErrorPagesIndex b') key = gget (vbVsrErrorPagesIndex b) key"
        using g vsr by (auto split: if_splits)
      then show ?thesis using assms(2) pagesAt_mono sub(2) unfolding pagesKnown_def by metis
    qed
  qed
  then show ?thesis unfolding routeStep_def using els ext by blast
qed

lemma addSubroute_step:
  assumes "addSubroute vsEx po oidc vsr r b = Some b'" and "pagesKnown vsEx b"
    and "vsr \<in> set (vxVirtualServerRoutes vsEx)" "r \<in> set (vrsSubroutes (vsrSpec vsr))"
  shows "routeStep vsEx b b' \<and> pagesKnown vsEx b'"
proof -
  obtain pages idx where p: "placedRoute (vxVirtualServer vsEx) (newUpstreamNamerForVirtualServerRoute (vxVirtualServer vsEx) vsr) pages idx r b b'"
    and src: "pages = sliceOf (rtErrorPages r) \<and> idx = length (vbErrorPageLocations b)
       \<or> (\<exists>key. gget (vbVsrErrorPages b) key = Some pages \<and> idx = (case gget (vbVsrErrorPagesIndex b) key of None \<Rightarrow> 0 | Some i \<Rightarrow> i))"
    and same: "vbVsrErrorPages b' = vbVsrErrorPages b" "vbVsrErrorPagesIndex b' = vbVsrErrorPagesIndex b"
    using addSubroute_placed [OF assms(1)] by blast
  from p obtain rc ns pol els parts where rc: "rtxUpstreamNamer rc = newUpstreamNamerForVirtualServerRoute (vxVirtualServer vsEx) vsr"
      "rtxCrUpstreams rc = vbCrUpstreams b" "rtxVariableNamer rc = newVariableNamer (vxVirtualServer vsEx)"
      "lcErrorPages (rtxLocation rc) = pages" "lcErrPageIndex (rtxLocation rc) = idx"
    and els: "generateErrorPageLocations (length (vbErrorPageLocations b)) (sliceOf (rtErrorPages r)) = Some els"
    and parts: "routePartsOf rc ns r (vbMatchesRoutes b) (length (vbSplitClients b)) (length (vbReturnLocations b)) = Some parts"
    and ext: "extends parts pol els b b'"
    unfolding placedRoute_def by blast
  have sub: "set els \<subseteq> set (vbErrorPageLocations b')" "set (vbErrorPageLocations b) \<subseteq> set (vbErrorPageLocations b')"
    using ext by (auto simp: extends_def)
  have at: "pagesAt idx pages b' \<and> set pages \<subseteq> routePages vsEx"
    using src
  proof (elim disjE exE conjE)
    assume "pages = sliceOf (rtErrorPages r)" "idx = length (vbErrorPageLocations b)"
    then show ?thesis using errorPageLocations_at [OF els sub(1)] assms(3,4) by (auto simp: routePages_def)
  next
    fix key assume "gget (vbVsrErrorPages b) key = Some pages" "idx = (case gget (vbVsrErrorPagesIndex b) key of None \<Rightarrow> 0 | Some i \<Rightarrow> i)"
    then have "pagesAt idx pages b \<and> set pages \<subseteq> routePages vsEx" using assms(2) by (fastforce simp: pagesKnown_def)
    then show ?thesis using pagesAt_mono sub(2) by blast
  qed
  moreover have "(newUpstreamNamerForVirtualServerRoute (vxVirtualServer vsEx) vsr, r) \<in> generatedRoutes vsEx"
    using assms(3,4) by (auto simp: generatedRoutes_def)
  ultimately show ?thesis
    unfolding routeStep_def using rc els parts ext pagesKnown_mono [OF assms(2) sub(2) same] by blast
qed

text \<open>Before the routes there are the upstreams, and nothing else.\<close>

definition samePieces :: "vsBuild \<Rightarrow> vsBuild \<Rightarrow> bool" where
  "samePieces b b' =
     (vbMaps b' = vbMaps b \<and> vbLocations b' = vbLocations b \<and> vbInternalRedirectLocations b' = vbInternalRedirectLocations b
      \<and> vbReturnLocations b' = vbReturnLocations b \<and> vbSplitClients b' = vbSplitClients b
      \<and> vbErrorPageLocations b' = vbErrorPageLocations b \<and> vbMatchesRoutes b' = vbMatchesRoutes b
      \<and> vbVsrErrorPages b' = vbVsrErrorPages b)"

definition declaredUpstreams :: "VirtualServerEx \<Rightarrow> (upstreamNamer \<times> Upstream) list" where
  "declaredUpstreams vsEx =
     map (Pair (newUpstreamNamerForVirtualServer (vxVirtualServer vsEx))) (vssUpstreams (vsSpec (vxVirtualServer vsEx)))
     @ concat (map (\<lambda>vsr. map (Pair (newUpstreamNamerForVirtualServerRoute (vxVirtualServer vsEx) vsr)) (vrsUpstreams (vsrSpec vsr)))
         (vxVirtualServerRoutes vsEx))"

definition upstreamNames :: "(upstreamNamer \<times> Upstream) list \<Rightarrow> string list" where
  "upstreamNames us = map (\<lambda>(namer, u). GetNameForUpstream namer (uName u)) us"

lemma generateUpstream_name: "u2Name (fst (generateUpstream ow n u ext eps vsc)) = n"
  by (simp add: generateUpstream_def Let_def split: prod.splits)

lemma addUpstream_effect:
  "samePieces b (addUpstream vsEx ow ns namer u b)
   \<and> map u2Name (vbUpstreams (addUpstream vsEx ow ns namer u b)) = map u2Name (vbUpstreams b) @ [GetNameForUpstream namer (uName u)]
   \<and> gkeys (vbCrUpstreams (addUpstream vsEx ow ns namer u b)) = insert (GetNameForUpstream namer (uName u)) (gkeys (vbCrUpstreams b))"
  using generateUpstream_name [of ow "GetNameForUpstream namer (uName u)" u]
  by (auto simp: addUpstream_def Let_def samePieces_def case_prod_unfold split: option.splits)

lemma addUpstreamList_effect:
  "samePieces b (fold (addUpstream vsEx ow ns namer) us b)
   \<and> map u2Name (vbUpstreams (fold (addUpstream vsEx ow ns namer) us b)) = map u2Name (vbUpstreams b) @ upstreamNames (map (Pair namer) us)
   \<and> gkeys (vbCrUpstreams (fold (addUpstream vsEx ow ns namer) us b)) = set (upstreamNames (map (Pair namer) us)) \<union> gkeys (vbCrUpstreams b)"
proof (induction us arbitrary: b)
  case Nil
  then show ?case by (simp add: samePieces_def upstreamNames_def)
next
  case (Cons u us)
  then show ?case
    using addUpstream_effect [of b vsEx ow ns namer u] by (simp add: samePieces_def upstreamNames_def)
qed

lemma addUpstreams_pieces:
  "samePieces b (addUpstreams vsEx b)
   \<and> map u2Name (vbUpstreams (addUpstreams vsEx b)) = map u2Name (vbUpstreams b) @ upstreamNames (declaredUpstreams vsEx)
   \<and> gkeys (vbCrUpstreams (addUpstreams vsEx b)) = set (upstreamNames (declaredUpstreams vsEx)) \<union> gkeys (vbCrUpstreams b)"
proof -
  let ?vs = "vxVirtualServer vsEx"
  let ?f = "\<lambda>vsr. fold (addUpstream vsEx (VirtualServerRouteOwner (vsrMeta vsr)) (omNamespace (vsrMeta vsr))
              (newUpstreamNamerForVirtualServerRoute ?vs vsr)) (vrsUpstreams (vsrSpec vsr))"
  have gen: "samePieces c (fold ?f vsrs c)
      \<and> map u2Name (vbUpstreams (fold ?f vsrs c)) = map u2Name (vbUpstreams c) @ upstreamNames (concat (map
          (\<lambda>vsr. map (Pair (newUpstreamNamerForVirtualServerRoute ?vs vsr)) (vrsUpstreams (vsrSpec vsr))) vsrs))
      \<and> gkeys (vbCrUpstreams (fold ?f vsrs c)) = set (upstreamNames (concat (map
          (\<lambda>vsr. map (Pair (newUpstreamNamerForVirtualServerRoute ?vs vsr)) (vrsUpstreams (vsrSpec vsr))) vsrs))) \<union> gkeys (vbCrUpstreams c)"
    for vsrs c
  proof (induction vsrs arbitrary: c)
    case Nil
    then show ?case by (simp add: samePieces_def upstreamNames_def)
  next
    case (Cons vsr vsrs)
    show ?case
      using Cons.IH [of "?f vsr c"] addUpstreamList_effect [of c vsEx "VirtualServerRouteOwner (vsrMeta vsr)"
          "omNamespace (vsrMeta vsr)" "newUpstreamNamerForVirtualServerRoute ?vs vsr" "vrsUpstreams (vsrSpec vsr)"]
      by (simp add: samePieces_def upstreamNames_def Un_ac)
  qed
  let ?b1 = "fold (addUpstream vsEx (VirtualServerOwner (vsMeta ?vs)) (omNamespace (vsMeta ?vs)) (newUpstreamNamerForVirtualServer ?vs))
      (vssUpstreams (vsSpec ?vs)) b"
  show ?thesis
    using gen [of ?b1 "vxVirtualServerRoutes vsEx"] addUpstreamList_effect [of b vsEx "VirtualServerOwner (vsMeta ?vs)"
        "omNamespace (vsMeta ?vs)" "newUpstreamNamerForVirtualServer ?vs" "vssUpstreams (vsSpec ?vs)"]
    by (simp add: addUpstreams_def Let_def declaredUpstreams_def samePieces_def upstreamNames_def Un_ac)
qed

text \<open>An invariant of the start and of every step holds of the finished build.\<close>

lemma build_induct:
  assumes build: "buildVirtualServer vsEx po sp vsc = Some b"
    and start: "P (addUpstreams vsEx (startBuild vsc (pcLimitReqZones sp)))"
    and step: "\<And>b b'. P b \<Longrightarrow> routeStep vsEx b b' \<Longrightarrow> P b'"
  shows "P b"
proof -
  let ?s = "addUpstreams vsEx (startBuild vsc (pcLimitReqZones sp))"
  have "P ?s \<and> pagesKnown vsEx ?s" using start addUpstreams_pieces [of "startBuild vsc (pcLimitReqZones sp)" vsEx]
    by (simp add: pagesKnown_def startBuild_def samePieces_def)
  from build obtain b1 where b1: "foldOpt (addRoute vsEx po (pcOIDC sp)) (vssRoutes (vsSpec (vxVirtualServer vsEx))) ?s = Some b1"
    and b: "foldOpt (\<lambda>vsr. foldOpt (addSubroute vsEx po (pcOIDC sp) vsr) (vrsSubroutes (vsrSpec vsr))) (vxVirtualServerRoutes vsEx) b1 = Some b"
    by (auto simp: buildVirtualServer_def split: option.splits)
  have inner: "P c' \<and> pagesKnown vsEx c'"
    if "vsr \<in> set (vxVirtualServerRoutes vsEx)" "P c \<and> pagesKnown vsEx c"
      "foldOpt (addSubroute vsEx po (pcOIDC sp) vsr) (vrsSubroutes (vsrSpec vsr)) c = Some c'" for vsr c c'
    using foldOpt_invariant [where P = "\<lambda>c. P c \<and> pagesKnown vsEx c", OF _ that(2,3)] step addSubroute_step that(1) by blast
  have "P b1 \<and> pagesKnown vsEx b1"
    using foldOpt_invariant [where P = "\<lambda>c. P c \<and> pagesKnown vsEx c", OF _ \<open>P ?s \<and> pagesKnown vsEx ?s\<close> b1] step addRoute_step by blast
  from foldOpt_invariant [where P = "\<lambda>c. P c \<and> pagesKnown vsEx c", OF _ this b] inner
  have "P b \<and> pagesKnown vsEx b" by blast
  then show ?thesis ..
qed

end
