(* ===== verification/VS_Total.thy ===== *)
theory VS_Total
  imports VS_Build Policy_Properties
begin

text \<open>
  When the generator of a configuration of a VirtualServer returns one: no nil action, no page for
  errors without content, and no nil reference to a secret. The first policy of a kind in a context
  is the only one whose secret is read, up to the first policy that is missing.
\<close>

section \<open>Secrets of policies\<close>

text \<open>The namespace and the block of the first policy with the block, before a missing policy.\<close>

fun firstBlock :: "(PolicySpec \<Rightarrow> 'b option) \<Rightarrow> string \<Rightarrow> Policy gomap \<Rightarrow> PolicyReference list \<Rightarrow> (string \<times> 'b) option" where
  "firstBlock block ownerNs policies [] = None"
| "firstBlock block ownerNs policies (p # ps) =
     (let ns = (if prNamespace p = '''' then ownerNs else prNamespace p)
      in case gget policies (ns @ ''/'' @ prName p) of
           None \<Rightarrow> None
         | Some pol \<Rightarrow> (case block (polSpec pol) of Some x \<Rightarrow> Some (ns, x) | None \<Rightarrow> firstBlock block ownerNs policies ps))"

definition secretThere :: "SecretReference gomap \<Rightarrow> string \<Rightarrow> string \<Rightarrow> bool" where
  "secretThere refs ns name =
     (case gget refs (ns @ ''/'' @ name) of None \<Rightarrow> False | Some ref \<Rightarrow> srError ref = None \<longrightarrow> srSecret ref \<noteq> None)"

definition secretFailed :: "SecretReference gomap \<Rightarrow> string \<Rightarrow> string \<Rightarrow> bool" where
  "secretFailed refs ns name = (case gget refs (ns @ ''/'' @ name) of None \<Rightarrow> False | Some ref \<Rightarrow> srError ref \<noteq> None)"

definition egressThere :: "SecretReference gomap \<Rightarrow> string \<Rightarrow> EgressMTLS \<Rightarrow> bool" where
  "egressThere refs ns em =
     ((emTLSSecret em = '''' \<or> secretThere refs ns (emTLSSecret em))
      \<and> (emTrustedCertSecret em = '''' \<or> secretThere refs ns (emTrustedCertSecret em)
         \<or> (emTLSSecret em \<noteq> '''' \<and> secretFailed refs ns (emTLSSecret em))))"

definition optAll :: "(string \<Rightarrow> 'b \<Rightarrow> bool) \<Rightarrow> (string \<times> 'b) option \<Rightarrow> bool" where
  "optAll f x = (case x of None \<Rightarrow> True | Some (ns, b) \<Rightarrow> f ns b)"

text \<open>The secrets that the policies of one context read are there.\<close>

definition contextReady :: "SecretReference gomap \<Rightarrow> Policy gomap \<Rightarrow> string \<Rightarrow> string \<Rightarrow> PolicyReference list \<Rightarrow> bool" where
  "contextReady refs policies ctxt ownerNs ps =
     (optAll (\<lambda>ns j. secretThere refs ns (jwtSecret j)) (firstBlock psJWTAuth ownerNs policies ps)
      \<and> optAll (\<lambda>ns o'. secretThere refs ns (oiClientSecret o')) (firstBlock psOIDC ownerNs policies ps)
      \<and> optAll (egressThere refs) (firstBlock psEgressMTLS ownerNs policies ps)
      \<and> (ctxt = specContext \<longrightarrow>
           optAll (\<lambda>ns im. secretThere refs ns (imClientCertSecret im)) (firstBlock psIngressMTLS ownerNs policies ps)))"

definition onePolicyKind :: "Policy gomap \<Rightarrow> bool" where
  "onePolicyKind policies = (\<forall>key pol. gget policies key = Some pol \<longrightarrow> policyKinds (polSpec pol) = 1)"

text \<open>One policy is added, or stops the loop with an error, when its secret is there or not read.\<close>

definition slotsFilled :: "policiesCfg \<Rightarrow> PolicySpec \<Rightarrow> policiesCfg \<Rightarrow> bool" where
  "slotsFilled p spec p' =
     ((pcJWTAuth p' \<noteq> None \<longleftrightarrow> pcJWTAuth p \<noteq> None \<or> psJWTAuth spec \<noteq> None)
      \<and> (pcIngressMTLS p' \<noteq> None \<longleftrightarrow> pcIngressMTLS p \<noteq> None \<or> psIngressMTLS spec \<noteq> None)
      \<and> (pcEgressMTLS p' \<noteq> None \<longleftrightarrow> pcEgressMTLS p \<noteq> None \<or> psEgressMTLS spec \<noteq> None)
      \<and> (pcOIDC p' \<longleftrightarrow> pcOIDC p \<or> psOIDC spec \<noteq> None))"

lemma refType_there: "secretThere refs ns n \<Longrightarrow> \<exists>ref. gget refs (ns @ ''/'' @ n) = Some ref \<and> (srError ref = None \<longrightarrow> srSecret ref \<noteq> None)"
  by (auto simp: secretThere_def split: option.splits)

lemma addJWTAuthConfig_total:
  "pcJWTAuth p \<noteq> None \<or> secretThere refs ns (jwtSecret j) \<Longrightarrow> \<exists>r. addJWTAuthConfig p j key ns refs = Some r"
  using refType_there [of refs ns "jwtSecret j"] by (auto simp: addJWTAuthConfig_def Let_def)

lemma addJWTAuthConfig_effect:
  "addJWTAuthConfig p j key ns refs = Some (p', res) \<Longrightarrow>
     (vrIsError res \<or> pcJWTAuth p' \<noteq> None) \<and> pcIngressMTLS p' = pcIngressMTLS p \<and> pcEgressMTLS p' = pcEgressMTLS p \<and> pcOIDC p' = pcOIDC p"
  by (auto simp: addJWTAuthConfig_def Let_def errorResult_def warnResult_def split: if_splits option.splits)

lemma addIngressMTLSConfig_total:
  "ctxt \<noteq> specContext \<or> pcIngressMTLS p \<noteq> None \<or> secretThere refs ns (imClientCertSecret im)
     \<Longrightarrow> \<exists>r. addIngressMTLSConfig p im key ns ctxt tls refs = Some r"
  using refType_there [of refs ns "imClientCertSecret im"] by (auto simp: addIngressMTLSConfig_def Let_def)

lemma addIngressMTLSConfig_effect:
  "addIngressMTLSConfig p im key ns ctxt tls refs = Some (p', res) \<Longrightarrow>
     (vrIsError res \<or> pcIngressMTLS p' \<noteq> None) \<and> pcJWTAuth p' = pcJWTAuth p \<and> pcEgressMTLS p' = pcEgressMTLS p \<and> pcOIDC p' = pcOIDC p"
  by (auto simp: addIngressMTLSConfig_def Let_def errorResult_def warnResult_def split: if_splits option.splits)

lemma egressSecret_total: "name = '''' \<or> secretThere refs ns name \<Longrightarrow> \<exists>r. egressSecret name expected key ns refs = Some r"
  using refType_there [of refs ns name] by (auto simp: egressSecret_def Let_def)

lemma egressSecret_failed:
  "name \<noteq> '''' \<Longrightarrow> secretFailed refs ns name \<Longrightarrow> \<exists>msg. egressSecret name expected key ns refs = Some (Inl msg)"
  by (auto simp: egressSecret_def secretFailed_def Let_def split: option.splits)

lemma addEgressMTLSConfig_total:
  assumes "pcEgressMTLS p \<noteq> None \<or> egressThere refs ns em"
  shows "\<exists>r. addEgressMTLSConfig p em key ns refs = Some r"
proof (cases "pcEgressMTLS p = None")
  case True
  then have there: "egressThere refs ns em" using assms by blast
  obtain r1 where r1: "egressSecret (emTLSSecret em) SecretTypeTLS key ns refs = Some r1"
    using egressSecret_total there unfolding egressThere_def by blast
  show ?thesis
  proof (cases r1)
    case (Inl msg)
    then show ?thesis using True r1 by (simp add: addEgressMTLSConfig_def)
  next
    case (Inr path)
    then have "emTrustedCertSecret em = '''' \<or> secretThere refs ns (emTrustedCertSecret em)"
      using there r1 egressSecret_failed [of "emTLSSecret em" refs ns SecretTypeTLS key] by (auto simp: egressThere_def)
    then obtain r2 where "egressSecret (emTrustedCertSecret em) SecretTypeCA key ns refs = Some r2" using egressSecret_total by blast
    then show ?thesis using True r1 Inr by (cases r2) (simp_all add: addEgressMTLSConfig_def)
  qed
next
  case False
  then show ?thesis by (simp add: addEgressMTLSConfig_def)
qed

lemma addEgressMTLSConfig_effect:
  "addEgressMTLSConfig p em key ns refs = Some (p', res) \<Longrightarrow>
     (vrIsError res \<or> pcEgressMTLS p' \<noteq> None) \<and> pcJWTAuth p' = pcJWTAuth p \<and> pcIngressMTLS p' = pcIngressMTLS p \<and> pcOIDC p' = pcOIDC p"
  by (auto simp: addEgressMTLSConfig_def errorResult_def warnResult_def split: if_splits option.splits sum.splits)

lemma addOIDCConfig_total:
  "pcOIDC p \<or> secretThere refs ns (oiClientSecret oi) \<Longrightarrow> \<exists>r. addOIDCConfig p oi key ns refs c = Some r"
  using refType_there [of refs ns "oiClientSecret oi"] by (auto simp: addOIDCConfig_def Let_def split: option.splits)

lemma addOIDCConfig_effect:
  "addOIDCConfig p oi key ns refs c = Some (p', c', res) \<Longrightarrow>
     (vrIsError res \<or> pcOIDC p') \<and> pcJWTAuth p' = pcJWTAuth p \<and> pcIngressMTLS p' = pcIngressMTLS p \<and> pcEgressMTLS p' = pcEgressMTLS p"
  by (auto simp: addOIDCConfig_def Let_def errorResult_def warnResult_def split: if_splits option.splits)

lemma addOthers_effect:
  "addAccessControlConfig p ac = (p', res) \<Longrightarrow>
     pcJWTAuth p' = pcJWTAuth p \<and> pcIngressMTLS p' = pcIngressMTLS p \<and> pcEgressMTLS p' = pcEgressMTLS p \<and> pcOIDC p' = pcOIDC p"
  "addRateLimitConfig p rl key ns n vns vn = (p', res) \<Longrightarrow>
     pcJWTAuth p' = pcJWTAuth p \<and> pcIngressMTLS p' = pcIngressMTLS p \<and> pcEgressMTLS p' = pcEgressMTLS p \<and> pcOIDC p' = pcOIDC p"
  "addWAFConfig p w key ns ap = (p', res) \<Longrightarrow>
     pcJWTAuth p' = pcJWTAuth p \<and> pcIngressMTLS p' = pcIngressMTLS p \<and> pcEgressMTLS p' = pcEgressMTLS p \<and> pcOIDC p' = pcOIDC p"
  by (auto simp: addAccessControlConfig_def addRateLimitConfig_def addWAFConfig_def Let_def split: if_splits option.splits)

text \<open>What the slots of a configuration still need: the first block of each kind that will be read.\<close>

definition slotsReady :: "SecretReference gomap \<Rightarrow> Policy gomap \<Rightarrow> string \<Rightarrow> string \<Rightarrow> PolicyReference list \<Rightarrow> policiesCfg \<Rightarrow> bool" where
  "slotsReady refs policies ctxt ownerNs ps p =
     ((pcJWTAuth p \<noteq> None \<or> optAll (\<lambda>ns j. secretThere refs ns (jwtSecret j)) (firstBlock psJWTAuth ownerNs policies ps))
      \<and> (pcOIDC p \<or> optAll (\<lambda>ns o'. secretThere refs ns (oiClientSecret o')) (firstBlock psOIDC ownerNs policies ps))
      \<and> (pcEgressMTLS p \<noteq> None \<or> optAll (egressThere refs) (firstBlock psEgressMTLS ownerNs policies ps))
      \<and> (ctxt \<noteq> specContext \<or> pcIngressMTLS p \<noteq> None
         \<or> optAll (\<lambda>ns im. secretThere refs ns (imClientCertSecret im)) (firstBlock psIngressMTLS ownerNs policies ps)))"

lemma contextReady_slots: "contextReady refs policies ctxt ownerNs ps \<Longrightarrow> slotsReady refs policies ctxt ownerNs ps p"
  by (simp add: contextReady_def slotsReady_def)

datatype policyKind = OtherPolicy | JWTPolicy JWTAuth | IngressPolicy IngressMTLS | EgressPolicy EgressMTLS | OIDCPolicy OIDC

text \<open>The kind of a policy of one kind, as far as secrets go.\<close>

definition kindOf :: "PolicySpec \<Rightarrow> policyKind" where
  "kindOf s =
     (case psJWTAuth s of Some j \<Rightarrow> JWTPolicy j | None \<Rightarrow>
      (case psIngressMTLS s of Some im \<Rightarrow> IngressPolicy im | None \<Rightarrow>
       (case psEgressMTLS s of Some em \<Rightarrow> EgressPolicy em | None \<Rightarrow>
        (case psOIDC s of Some oi \<Rightarrow> OIDCPolicy oi | None \<Rightarrow> OtherPolicy))))"

lemma kindOf_blocks:
  assumes "policyKinds s = 1"
  shows "kindOf s = JWTPolicy j \<Longrightarrow> psJWTAuth s = Some j \<and> psAccessControl s = None \<and> psRateLimit s = None \<and> psIngressMTLS s = None
      \<and> psEgressMTLS s = None \<and> psOIDC s = None"
    and "kindOf s = IngressPolicy im \<Longrightarrow> psIngressMTLS s = Some im \<and> psAccessControl s = None \<and> psRateLimit s = None \<and> psJWTAuth s = None
      \<and> psEgressMTLS s = None \<and> psOIDC s = None"
    and "kindOf s = EgressPolicy em \<Longrightarrow> psEgressMTLS s = Some em \<and> psAccessControl s = None \<and> psRateLimit s = None \<and> psJWTAuth s = None
      \<and> psIngressMTLS s = None \<and> psOIDC s = None"
    and "kindOf s = OIDCPolicy oi \<Longrightarrow> psOIDC s = Some oi \<and> psAccessControl s = None \<and> psRateLimit s = None \<and> psJWTAuth s = None
      \<and> psIngressMTLS s = None \<and> psEgressMTLS s = None"
    and "kindOf s = OtherPolicy \<Longrightarrow> psJWTAuth s = None \<and> psIngressMTLS s = None \<and> psEgressMTLS s = None \<and> psOIDC s = None"
  using assms by (auto simp: kindOf_def policyKinds_def split: option.splits if_splits)

lemma firstBlock_step:
  assumes "ns = (if prNamespace p = '''' then ownerNs else prNamespace p)" and "gget policies (ns @ ''/'' @ prName p) = Some pol"
  shows "firstBlock block ownerNs policies (p # ps)
    = (case block (polSpec pol) of Some x \<Rightarrow> Some (ns, x) | None \<Rightarrow> firstBlock block ownerNs policies ps)"
  using assms by (cases "prNamespace p = ''''") (simp_all split: option.splits)

declare firstBlock.simps(2) [simp del]

lemma addPolicyConfig_step:
  assumes ns: "ns = (if prNamespace p = '''' then ownerNs else prNamespace p)"
    and pol: "gget policies (ns @ ''/'' @ prName p) = Some pol" and one: "policyKinds (polSpec pol) = 1"
    and ready: "slotsReady (pySecretRefs po) policies ctxt ownerNs (p # ps) config"
  shows "\<exists>config' c' res. addPolicyConfig od ctxt po key ns name (polSpec pol) config c = Some (config', c', res)
    \<and> (vrIsError res \<or> slotsReady (pySecretRefs po) policies ctxt ownerNs ps config')"
proof -
  let ?refs = "pySecretRefs po"
  note kind = kindOf_blocks [OF one]
  note fb = firstBlock_step [OF ns pol]
  show ?thesis
  proof (cases "kindOf (polSpec pol)")
    case OtherPolicy
    note k = kind(5) [OF this]
    have keep: "slotsReady ?refs policies ctxt ownerNs ps q"
      if "pcJWTAuth q = pcJWTAuth config \<and> pcIngressMTLS q = pcIngressMTLS config \<and> pcEgressMTLS q = pcEgressMTLS config \<and> pcOIDC q = pcOIDC config" for q
      using ready k that by (simp add: slotsReady_def fb)
    have "\<exists>q res. addPolicyConfig od ctxt po key ns name (polSpec pol) config c = Some (q, c, res)
      \<and> pcJWTAuth q = pcJWTAuth config \<and> pcIngressMTLS q = pcIngressMTLS config \<and> pcEgressMTLS q = pcEgressMTLS config \<and> pcOIDC q = pcOIDC config"
    proof (cases "psAccessControl (polSpec pol)")
      case (Some ac)
      obtain q res where q: "addAccessControlConfig config ac = (q, res)" by fastforce
      from addOthers_effect(1) [OF q] q Some show ?thesis by (simp add: addPolicyConfig_def)
    next
      case no_ac: None
      show ?thesis
      proof (cases "psRateLimit (polSpec pol)")
        case (Some rl)
        obtain q res where q: "addRateLimitConfig config rl key ns name (poVsNamespace od) (poVsName od) = (q, res)" by fastforce
        from addOthers_effect(2) [OF q] q Some no_ac show ?thesis by (simp add: addPolicyConfig_def)
      next
        case no_rl: None
        show ?thesis
        proof (cases "psWAF (polSpec pol)")
          case (Some w)
          obtain q res where q: "addWAFConfig config w key ns (pyApResources po) = (q, res)" by fastforce
          from addOthers_effect(3) [OF q] q Some no_ac no_rl k show ?thesis by (simp add: addPolicyConfig_def)
        next
          case None
          then show ?thesis using no_ac no_rl k by (simp add: addPolicyConfig_def)
        qed
      qed
    qed
    then show ?thesis using keep by blast
  next
    case (JWTPolicy j)
    note k = kind(1) [OF this]
    have "pcJWTAuth config \<noteq> None \<or> secretThere ?refs ns (jwtSecret j)" using ready k by (simp add: slotsReady_def fb optAll_def)
    then obtain q res where r: "addJWTAuthConfig config j key ns ?refs = Some (q, res)" using addJWTAuthConfig_total [of config ?refs ns j key] by auto
    moreover have "vrIsError res \<or> slotsReady ?refs policies ctxt ownerNs ps q"
      using addJWTAuthConfig_effect [OF r] ready k by (auto simp: slotsReady_def fb optAll_def)
    ultimately show ?thesis using k by (simp add: addPolicyConfig_def)
  next
    case (IngressPolicy im)
    note k = kind(2) [OF this]
    have "ctxt \<noteq> specContext \<or> pcIngressMTLS config \<noteq> None \<or> secretThere ?refs ns (imClientCertSecret im)"
      using ready k by (simp add: slotsReady_def fb optAll_def)
    then obtain q res where r: "addIngressMTLSConfig config im key ns ctxt (pyTls po) ?refs = Some (q, res)"
      using addIngressMTLSConfig_total [of ctxt config ?refs ns im key "pyTls po"] by auto
    moreover have "vrIsError res \<or> slotsReady ?refs policies ctxt ownerNs ps q"
      using addIngressMTLSConfig_effect [OF r] ready k by (auto simp: slotsReady_def fb optAll_def)
    ultimately show ?thesis using k by (simp add: addPolicyConfig_def)
  next
    case (EgressPolicy em)
    note k = kind(3) [OF this]
    have "pcEgressMTLS config \<noteq> None \<or> egressThere ?refs ns em" using ready k by (simp add: slotsReady_def fb optAll_def)
    then obtain q res where r: "addEgressMTLSConfig config em key ns ?refs = Some (q, res)" using addEgressMTLSConfig_total [of config ?refs ns em key] by auto
    moreover have "vrIsError res \<or> slotsReady ?refs policies ctxt ownerNs ps q"
      using addEgressMTLSConfig_effect [OF r] ready k by (auto simp: slotsReady_def fb optAll_def)
    ultimately show ?thesis using k by (simp add: addPolicyConfig_def)
  next
    case (OIDCPolicy oi)
    note k = kind(4) [OF this]
    have "pcOIDC config \<or> secretThere ?refs ns (oiClientSecret oi)" using ready k by (simp add: slotsReady_def fb optAll_def)
    then obtain r0 where "addOIDCConfig config oi key ns ?refs c = Some r0" using addOIDCConfig_total by blast
    moreover obtain q c' res where "r0 = (q, c', res)" by (cases r0)
    ultimately have r: "addOIDCConfig config oi key ns ?refs c = Some (q, c', res)" by simp
    moreover have "vrIsError res \<or> slotsReady ?refs policies ctxt ownerNs ps q"
      using addOIDCConfig_effect [OF r] ready k by (auto simp: slotsReady_def fb optAll_def)
    moreover have "addPolicyConfig od ctxt po key ns name (polSpec pol) config c = Some (q, c', res)"
      using r k by (simp add: addPolicyConfig_def)
    ultimately show ?thesis by blast
  qed
qed

lemma policiesLoop_total:
  assumes "onePolicyKind policies" and "slotsReady (pySecretRefs po) policies ctxt (poOwnerNamespace od) ps config"
  shows "\<exists>r. policiesLoop od ps policies ctxt po config vsc = Some r"
  using assms(2)
proof (induction ps arbitrary: config vsc)
  case Nil
  then show ?case by simp
next
  case (Cons p ps)
  obtain ns where ns: "ns = (if prNamespace p = '''' then poOwnerNamespace od else prNamespace p)" by simp
  show ?case
  proof (cases "gget policies (ns @ ''/'' @ prName p)")
    case None
    then show ?thesis by (simp add: ns [symmetric] Let_def)
  next
    case (Some pol)
    have one: "policyKinds (polSpec pol) = 1" using assms(1) Some by (simp add: onePolicyKind_def)
    obtain config' c' res where step: "addPolicyConfig od ctxt po (ns @ ''/'' @ prName p) ns (prName p) (polSpec pol) config (genOidcPolCfg vsc)
        = Some (config', c', res)" "vrIsError res \<or> slotsReady (pySecretRefs po) policies ctxt (poOwnerNamespace od) ps config'"
      using addPolicyConfig_step [OF ns Some one Cons.prems] by blast
    then show ?thesis using Cons.IH [of config'] Some by (cases "vrIsError res") (simp_all add: ns [symmetric] Let_def)
  qed
qed

lemma generatePolicies_total:
  assumes "onePolicyKind policies" and "contextReady (pySecretRefs po) policies ctxt (poOwnerNamespace od) ps"
  shows "\<exists>r. generatePolicies od ps policies ctxt po vsc = Some r"
  unfolding generatePolicies_def using policiesLoop_total [OF assms(1) contextReady_slots [OF assms(2)]] .

section \<open>Routes\<close>

definition pagesOk :: "ErrorPage list \<Rightarrow> bool" where
  "pagesOk pages = (\<forall>e\<in>set pages. epRedirect e \<noteq> None \<or> epReturn e \<noteq> None)"

lemma mapOpt_total: "(\<And>x. x \<in> set xs \<Longrightarrow> f x \<noteq> None) \<Longrightarrow> \<exists>ys. mapOpt f xs = Some ys"
proof (induction xs)
  case (Cons x xs)
  obtain y where "f x = Some y" using Cons.prems [of x] by auto
  moreover obtain ys where "mapOpt f xs = Some ys" using Cons.IH Cons.prems by auto
  ultimately show ?case by simp
qed simp

lemma errorPages_total:
  assumes "pagesOk pages"
  shows "\<exists>eps. generateErrorPages idx pages = Some eps" and "\<exists>els. generateErrorPageLocations idx pages = Some els"
proof -
  have page: "epRedirect (snd x) \<noteq> None \<or> epReturn (snd x) \<noteq> None" if "x \<in> set (enumerate 0 pages)" for x
    using assms that by (auto simp: in_enumerate pagesOk_def)
  have "generateErrorPage idx x \<noteq> None" "generateErrorPageLocation idx x \<noteq> None" if "x \<in> set (enumerate 0 pages)" for x
    using page [OF that] by (auto simp: generateErrorPage_def generateErrorPageLocation_def case_prod_unfold split: option.splits)
  note one = this
  show "\<exists>eps. generateErrorPages idx pages = Some eps"
    unfolding generateErrorPages_def by (rule mapOpt_total) (rule one(1))
  have "\<exists>ls. mapOpt (generateErrorPageLocation idx) (enumerate 0 pages) = Some ls"
    by (rule mapOpt_total) (rule one(2))
  then show "\<exists>els. generateErrorPageLocations idx pages = Some els" by (auto simp: generateErrorPageLocations_def)
qed

definition targetOk :: "Action option \<Rightarrow> Split list \<Rightarrow> bool" where
  "targetOk action splits = (if splits = [] then action \<noteq> None else \<forall>s\<in>set splits. spAction s \<noteq> None)"

definition routeOk :: "Route \<Rightarrow> bool" where
  "routeOk r = (targetOk (rtAction r) (rtSplits r) \<and> (\<forall>m\<in>set (rtMatches r). targetOk (mtAction m) (mtSplits m)))"

lemma generateLocation_total:
  assumes "pagesOk (lcErrorPages lc)"
  shows "\<exists>r. generateLocation lc p up u a internal ssl orig n = Some r"
  using errorPages_total(1) [OF assms, of "lcErrPageIndex lc"]
  by (auto simp: generateLocation_def generateLocationForProxying_def Let_def split: option.splits prod.splits)

lemma addActionLocation_total:
  assumes "pagesOk (lcErrorPages (rtxLocation rc))" and "action \<noteq> None"
  shows "\<exists>st'. addActionLocation rc p action internal ns orig n st = Some st'"
proof -
  obtain a where "action = Some a" using assms(2) by blast
  moreover obtain locs rets where "st = (locs, rets)" by (cases st)
  ultimately show ?thesis
    using generateLocation_total [OF assms(1)] by (simp add: addActionLocation_def Let_def)
qed

lemma generateSplits_total:
  assumes "pagesOk (lcErrorPages (rtxLocation rc))" and "\<forall>s\<in>set splits. spAction s \<noteq> None"
  shows "\<exists>x. generateSplits rc splits sci orig n = Some x"
proof -
  have "\<exists>st. foldOpt (\<lambda>(i, s). addActionLocation rc (splitPath sci i) (spAction s) True (unNamespace (rtxUpstreamNamer rc)) orig n)
      (enumerate 0 splits) ([], []) = Some st \<and> True"
  proof (rule foldOpt_total)
    fix x :: "nat \<times> Split" and st :: "Location list \<times> ReturnLocation list" assume "x \<in> set (enumerate 0 splits)"
    then have "spAction (snd x) \<noteq> None" using assms(2) by (auto simp: in_enumerate)
    then show "\<exists>s'. (case x of (i, s) \<Rightarrow> addActionLocation rc (splitPath sci i) (spAction s) True (unNamespace (rtxUpstreamNamer rc)) orig n) st = Some s' \<and> True"
      using addActionLocation_total [OF assms(1)] by (auto simp: case_prod_unfold)
  qed simp
  then show ?thesis by (auto simp: generateSplits_def)
qed

lemma addMatchTarget_total:
  assumes "pagesOk (lcErrorPages (rtxLocation rc))" and "targetOk action splits"
  shows "\<exists>b'. addMatchTarget rc sci orig n p action splits b = Some b'"
proof (cases "splits = []")
  case True
  then show ?thesis using addActionLocation_total [OF assms(1)] assms(2) by (simp add: addMatchTarget_def targetOk_def)
next
  case False
  then obtain x where "generateSplits rc splits (sci + length (mtbSplitClients b)) orig (n + length (mtbReturnLocations b)) = Some x"
    using generateSplits_total [OF assms(1)] assms(2) unfolding targetOk_def by meson
  then show ?thesis using False by (simp add: addMatchTarget_def)
qed

lemma generateMatchesConfig_total:
  assumes "pagesOk (lcErrorPages (rtxLocation rc))" and "routeOk r"
  shows "\<exists>cfg. generateMatchesConfig rc r i sci n = Some cfg"
proof -
  have "\<exists>b. foldOpt (\<lambda>(k, m). addMatchTarget rc sci (rtPath r) n (matchPath i k) (mtAction m) (mtSplits m)) (enumerate 0 (rtMatches r))
      \<lparr>mtbLocations = [], mtbReturnLocations = [], mtbSplitClients = []\<rparr> = Some b \<and> True"
  proof (rule foldOpt_total)
    fix x :: "nat \<times> Match" and b assume "x \<in> set (enumerate 0 (rtMatches r))"
    then have "targetOk (mtAction (snd x)) (mtSplits (snd x))" using assms(2) by (auto simp: in_enumerate routeOk_def)
    then show "\<exists>b'. (case x of (k, m) \<Rightarrow> addMatchTarget rc sci (rtPath r) n (matchPath i k) (mtAction m) (mtSplits m)) b = Some b' \<and> True"
      using addMatchTarget_total [OF assms(1)] by (simp add: case_prod_unfold)
  qed simp
  then obtain b where "foldOpt (\<lambda>(k, m). addMatchTarget rc sci (rtPath r) n (matchPath i k) (mtAction m) (mtSplits m)) (enumerate 0 (rtMatches r))
      \<lparr>mtbLocations = [], mtbReturnLocations = [], mtbSplitClients = []\<rparr> = Some b" by blast
  moreover have "targetOk (rtAction r) (rtSplits r)" using assms(2) by (simp add: routeOk_def)
  then obtain b' where "addMatchTarget rc sci (rtPath r) n (defaultPath i) (rtAction r) (rtSplits r) b = Some b'"
    using addMatchTarget_total [OF assms(1)] by blast
  ultimately show ?thesis by (simp add: generateMatchesConfig_def)
qed

lemma addRouteConfig_total:
  assumes "pagesOk (lcErrorPages (rtxLocation rc))" and "routeOk r"
  shows "\<exists>b'. addRouteConfig rc ns r pol b = Some b'"
proof -
  consider "rtMatches r \<noteq> []" | "rtMatches r = []" "rtSplits r \<noteq> []" | "rtMatches r = []" "rtSplits r = []" by blast
  then show ?thesis
  proof cases
    case 1
    then show ?thesis using generateMatchesConfig_total [OF assms] by (simp add: addRouteConfig_def)
  next
    case 2
    then have "\<forall>s\<in>set (rtSplits r). spAction s \<noteq> None" using assms(2) by (simp add: routeOk_def targetOk_def)
    from generateSplits_total [OF assms(1) this] obtain x where
      "generateSplits rc (rtSplits r) (length (vbSplitClients b)) (rtPath r) (length (vbReturnLocations b)) = Some x" by blast
    then show ?thesis using 2 by (simp add: addRouteConfig_def generateDefaultSplitsConfig_def)
  next
    case 3
    then obtain x where "addActionLocation rc (rtPath r) (rtAction r) False ns (rtPath r) (length (vbReturnLocations b)) ([], []) = Some x"
      using addActionLocation_total [OF assms(1)] assms(2) unfolding routeOk_def targetOk_def by (metis (full_types))
    then show ?thesis using 3 by (simp add: addRouteConfig_def)
  qed
qed

section \<open>Accepted inputs\<close>

text \<open>
  The VirtualServer and each of its VirtualServerRoutes were accepted by the validators, as the
  Configuration ensures before it hands them to the generator.
\<close>

definition acceptedEx :: "VirtualServerValidator \<Rightarrow> VirtualServerEx \<Rightarrow> bool" where
  "acceptedEx vsv vsEx =
     (ValidateVirtualServer vsv (vxVirtualServer vsEx) = None
      \<and> (\<forall>vsr\<in>set (vxVirtualServerRoutes vsEx).
           \<exists>path. ValidateVirtualServerRouteForVirtualServer vsv vsr (vssHost (vsSpec (vxVirtualServer vsEx))) path = None))"

lemma declared_upstream:
  assumes "vsr \<in> set (vxVirtualServerRoutes vsEx)" and "u \<in> set (vrsUpstreams (vsrSpec vsr))"
  shows "GetNameForUpstream (newUpstreamNamerForVirtualServerRoute (vxVirtualServer vsEx) vsr) (uName u) \<in> set (upstreamNames (declaredUpstreams vsEx))"
proof -
  have "(newUpstreamNamerForVirtualServerRoute (vxVirtualServer vsEx) vsr, u) \<in> set (declaredUpstreams vsEx)"
    using assms by (auto simp: declaredUpstreams_def)
  from imageI [OF this, of "\<lambda>(namer, u). GetNameForUpstream namer (uName u)"] show ?thesis by (simp add: upstreamNames_def)
qed

lemma accepted_route:
  assumes "acceptedEx vsv vsEx" and "(namer, r) \<in> generatedRoutes vsEx"
  obtains names q forbidden ns where "validateRoute vsv r q names forbidden ns = []" "rtRoute r = '''' \<or> forbidden"
    "\<And>n. n \<in> set names \<Longrightarrow> GetNameForUpstream namer n \<in> set (upstreamNames (declaredUpstreams vsEx))"
proof -
  let ?vs = "vxVirtualServer vsEx"
  from assms(2) consider
      (vs) "namer = newUpstreamNamerForVirtualServer ?vs" "r \<in> set (vssRoutes (vsSpec ?vs))" "rtRoute r = ''''"
    | (vsr) vsr where "namer = newUpstreamNamerForVirtualServerRoute ?vs vsr" "vsr \<in> set (vxVirtualServerRoutes vsEx)"
        "r \<in> set (vrsSubroutes (vsrSpec vsr))"
    unfolding generatedRoutes_def by blast
  then show ?thesis
  proof cases
    case vs
    have "ValidateVirtualServer vsv ?vs = None" using assms(1) by (simp add: acceptedEx_def)
    then show ?thesis
    proof (rule ValidateVirtualServer_parts)
      fix names p
      assume names: "set names = uName ` set (vssUpstreams (vsSpec ?vs))"
        and routes: "\<forall>r\<in>set (vssRoutes (vsSpec ?vs)). \<exists>q. validateRoute vsv r q names False (omNamespace (vsMeta ?vs)) = []"
      obtain q where q: "validateRoute vsv r q names False (omNamespace (vsMeta ?vs)) = []" using routes vs(2) by blast
      have "GetNameForUpstream namer n \<in> set (upstreamNames (declaredUpstreams vsEx))" if "n \<in> set names" for n
        using that names vs(1) by (auto simp: upstreamNames_def declaredUpstreams_def)
      then show ?thesis using that [OF q] vs(3) by blast
    qed
  next
    case vsr
    obtain path where "ValidateVirtualServerRouteForVirtualServer vsv vsr (vssHost (vsSpec ?vs)) path = None"
      using assms(1) vsr(2) unfolding acceptedEx_def by blast
    then show ?thesis
    proof (rule ValidateVirtualServerRoute_parts)
      fix names
      assume names: "set names = uName ` set (vrsUpstreams (vsrSpec vsr))"
        and subs: "validateVirtualServerRouteSubroutes vsv (vrsSubroutes (vsrSpec vsr)) (child (newPath ''spec'') ''subroutes'') names path
          (omNamespace (vsrMeta vsr)) = []"
      obtain q where q: "validateRoute vsv r q names True (omNamespace (vsrMeta vsr)) = []"
        using validateSubroutes_ok(2) [OF subs] vsr(3) by blast
      have "GetNameForUpstream namer n \<in> set (upstreamNames (declaredUpstreams vsEx))" if "n \<in> set names" for n
        using that names vsr(1,2) declared_upstream by auto
      then show ?thesis using that [OF q] by blast
    qed
  qed
qed

lemma validateErrorPage_ok: "validateErrorPage vsv e p = [] \<Longrightarrow> epRedirect e \<noteq> None \<or> epReturn e \<noteq> None"
  by (auto simp: validateErrorPage_def errorPageHasRequiredFields_def split: if_splits)

lemma validateSplits_actions:
  assumes "validateSplits vsv ss p names rpath = []" and "s \<in> set ss"
  shows "spAction s \<noteq> None"
proof -
  let ?f = "\<lambda>i s. map (Invalid (child (pathIndex p i) ''weight'') (BadInt (spWeight s))) (IsInRange (spWeight s) 1 99)
     @ (case spAction s of None \<Rightarrow> [Required (child (pathIndex p i) ''action'') '''']
        | Some a \<Rightarrow> validateAction vsv a (child (pathIndex p i) ''action'') names rpath True)"
  have "concat (map (\<lambda>(i, s). ?f i s) (enumerate 0 ss)) = []"
    using assms(1) by (auto simp: validateSplits_def simp del: concat_eq_Nil_conv split: if_splits)
  from concat_enumerate_Nil [OF this assms(2)] show ?thesis by (auto split: option.splits)
qed

lemma actionOrSplits_target:
  assumes "actionOrSplitsErrs vsv action splits p names rpath internal = []" and "actionSplitsCount action splits = 1"
  shows "targetOk action splits"
  using assms validateSplits_actions by (auto simp: actionOrSplitsErrs_def actionSplitsCount_def targetOk_def split: if_splits)

lemma validateRoute_total:
  assumes "validateRoute vsv r q names forbidden ns = []"
  shows "rtRoute r = '''' \<or> forbidden \<Longrightarrow> routeOk r" and "pagesOk (sliceOf (rtErrorPages r))"
proof -
  note parts = validateRoute_parts [OF assms]
  assume "rtRoute r = '''' \<or> forbidden"
  then have "targetOk (rtAction r) (rtSplits r)" using actionOrSplits_target [OF parts(1)] parts(3) by auto
  moreover have "targetOk (mtAction m) (mtSplits m)" if m: "m \<in> set (rtMatches r)" for m
  proof -
    obtain q where "validateMatch vsv m q names (rtPath r) = []" using parts(2) [OF m] by blast
    then show ?thesis using actionOrSplits_target by (auto simp: validateMatch_def split: if_splits)
  qed
  ultimately show "routeOk r" by (simp add: routeOk_def)
next
  have "concat (map (\<lambda>(i, e). validateErrorPage vsv e (pathIndex (child q ''errorPages'') i)) (enumerate 0 (sliceOf (rtErrorPages r)))) = []"
    using assms by (simp add: validateRoute_def)
  from concat_enumerate_Nil [OF this] show "pagesOk (sliceOf (rtErrorPages r))"
    unfolding pagesOk_def using validateErrorPage_ok by blast
qed

lemma acceptedEx_vs_route:
  assumes "acceptedEx vsv vsEx" and "r \<in> set (vssRoutes (vsSpec (vxVirtualServer vsEx)))"
  obtains names q where "validateRoute vsv r q names False (omNamespace (vsMeta (vxVirtualServer vsEx))) = []"
proof -
  have "ValidateVirtualServer vsv (vxVirtualServer vsEx) = None" using assms(1) by (simp add: acceptedEx_def)
  then show ?thesis
  proof (rule ValidateVirtualServer_parts)
    fix names p
    assume "\<forall>r\<in>set (vssRoutes (vsSpec (vxVirtualServer vsEx))).
      \<exists>q. validateRoute vsv r q names False (omNamespace (vsMeta (vxVirtualServer vsEx))) = []"
    then show ?thesis using that assms(2) by blast
  qed
qed

lemma acceptedEx_subroute:
  assumes "acceptedEx vsv vsEx" and "vsr \<in> set (vxVirtualServerRoutes vsEx)" and "r \<in> set (vrsSubroutes (vsrSpec vsr))"
  obtains names q where "validateRoute vsv r q names True (omNamespace (vsrMeta vsr)) = []"
proof -
  obtain path where "ValidateVirtualServerRouteForVirtualServer vsv vsr (vssHost (vsSpec (vxVirtualServer vsEx))) path = None"
    using assms(1,2) unfolding acceptedEx_def by blast
  then show ?thesis
  proof (rule ValidateVirtualServerRoute_parts)
    fix names
    assume "validateVirtualServerRouteSubroutes vsv (vrsSubroutes (vsrSpec vsr)) (child (newPath ''spec'') ''subroutes'') names path
      (omNamespace (vsrMeta vsr)) = []"
    from validateSubroutes_ok(2) [OF this] show ?thesis using that assms(3) by blast
  qed
qed

lemma acceptedEx_pages:
  assumes "acceptedEx vsv vsEx" and "set pages \<subseteq> routePages vsEx"
  shows "pagesOk pages"
  unfolding pagesOk_def
proof
  fix e assume "e \<in> set pages"
  then consider (vs) r where "r \<in> set (vssRoutes (vsSpec (vxVirtualServer vsEx)))" "e \<in> set (sliceOf (rtErrorPages r))"
    | (vsr) vsr r where "vsr \<in> set (vxVirtualServerRoutes vsEx)" "r \<in> set (vrsSubroutes (vsrSpec vsr))" "e \<in> set (sliceOf (rtErrorPages r))"
    using assms(2) unfolding routePages_def by blast
  then have "\<exists>r :: Route. e \<in> set (sliceOf (rtErrorPages r)) \<and> pagesOk (sliceOf (rtErrorPages r))"
  proof cases
    case vs
    obtain names q where v: "validateRoute vsv r q names False (omNamespace (vsMeta (vxVirtualServer vsEx))) = []"
      using acceptedEx_vs_route [OF assms(1) vs(1)] .
    from validateRoute_total(2) [OF v] vs(2) show ?thesis by blast
  next
    case vsr
    obtain names q where v: "validateRoute vsv r q names True (omNamespace (vsrMeta vsr)) = []"
      using acceptedEx_subroute [OF assms(1) vsr(1,2)] .
    from validateRoute_total(2) [OF v] vsr(3) show ?thesis by blast
  qed
  then show "epRedirect e \<noteq> None \<or> epReturn e \<noteq> None" unfolding pagesOk_def by blast
qed

section \<open>The generator returns\<close>

text \<open>Every secret that the generator reads has a reference, with the secret or an error.\<close>

definition readyEx :: "VirtualServerEx \<Rightarrow> bool" where
  "readyEx vsEx =
     (let vs = vxVirtualServer vsEx; refs = vxSecretRefs vsEx; pols = vxPolicies vsEx; ns = omNamespace (vsMeta vs) in
      onePolicyKind pols
      \<and> (case vssTLS (vsSpec vs) of None \<Rightarrow> True
         | Some t \<Rightarrow> tlSecret t = '''' \<or> gget refs (ns @ ''/'' @ tlSecret t) \<noteq> None)
      \<and> contextReady refs pols specContext ns (vssPolicies (vsSpec vs))
      \<and> (\<forall>r\<in>set (vssRoutes (vsSpec vs)). contextReady refs pols routeContext ns (rtPolicies r))
      \<and> (\<forall>vsr\<in>set (vxVirtualServerRoutes vsEx). \<forall>r\<in>set (vrsSubroutes (vsrSpec vsr)).
           contextReady refs pols subRouteContext (omNamespace (vsrMeta vsr)) (rtPolicies r)))"

definition inheritedKnown :: "VirtualServerEx \<Rightarrow> vsBuild \<Rightarrow> bool" where
  "inheritedKnown vsEx b =
     (pagesKnown vsEx b
      \<and> (\<forall>key refs. gget (vbVsrPolicies b) key = Some refs \<longrightarrow>
           (\<exists>r\<in>set (vssRoutes (vsSpec (vxVirtualServer vsEx))). refs = rtPolicies r)))"

lemma routePolicies_total:
  assumes "onePolicyKind (vxPolicies vsEx)"
    and "contextReady (pySecretRefs po) (vxPolicies vsEx) ctxt (poOwnerNamespace od) refs"
  shows "\<exists>pol vsc zones. routePolicies vsEx od refs ctxt po oidc b = Some (pol, b\<lparr>vbVsc := vsc, vbLimitReqZones := zones\<rparr>)"
proof (rule exE [OF generatePolicies_total [OF assms, of "vbVsc b"]])
  fix r0 assume r0: "generatePolicies od refs (vxPolicies vsEx) ctxt po (vbVsc b) = Some r0"
  obtain pol vsc where "r0 = (pol, vsc)" by (cases r0)
  with r0 show ?thesis
    by (intro exI [of _ "if oidc then pol\<lparr>pcOIDC := True\<rparr> else pol"] exI [of _ vsc] exI [of _ "vbLimitReqZones b @ pcLimitReqZones pol"])
      (simp add: routePolicies_def)
qed

lemma addRouteConfig_policies: "addRouteConfig rc ns r pol b = Some b' \<Longrightarrow> vbVsrPolicies b' = vbVsrPolicies b"
  by (auto simp: addRouteConfig_def split: if_splits)

lemma addUpstreams_policies: "vbVsrPolicies (addUpstreams vsEx b) = vbVsrPolicies b"
proof -
  have one: "vbVsrPolicies (addUpstream vsEx ow n nm u c) = vbVsrPolicies c" for ow n nm u c
    by (simp add: addUpstream_def Let_def case_prod_unfold split: option.splits)
  have list: "vbVsrPolicies (fold (addUpstream vsEx ow n nm) us c) = vbVsrPolicies c" for ow n nm us c
    by (induction us arbitrary: c) (simp_all add: one)
  have "vbVsrPolicies (fold (\<lambda>vsr. fold (addUpstream vsEx (ow vsr) (n vsr) (nm vsr)) (us vsr)) vsrs c) = vbVsrPolicies c"
    for ow n nm us and vsrs :: "VirtualServerRoute list" and c
    by (induction vsrs arbitrary: c) (simp_all add: list)
  then show ?thesis by (simp add: addUpstreams_def Let_def list)
qed

lemma addRoute_total:
  assumes ok: "acceptedEx vsv vsEx" and ready: "readyEx vsEx" and r: "r \<in> set (vssRoutes (vsSpec (vxVirtualServer vsEx)))"
    and po: "pySecretRefs po = vxSecretRefs vsEx" and known: "inheritedKnown vsEx b"
  shows "\<exists>b'. addRoute vsEx po oidc r b = Some b' \<and> inheritedKnown vsEx b'"
proof -
  let ?vs = "vxVirtualServer vsEx"
  obtain names q where v: "validateRoute vsv r q names False (omNamespace (vsMeta ?vs)) = []" using acceptedEx_vs_route [OF ok r] .
  obtain els where els: "generateErrorPageLocations (length (vbErrorPageLocations b)) (sliceOf (rtErrorPages r)) = Some els"
    using errorPages_total(2) [OF validateRoute_total(2) [OF v]] by blast
  have "\<exists>b'. addRoute vsEx po oidc r b = Some b'
      \<and> (vbVsrPolicies b' = vbVsrPolicies b \<or> (\<exists>key. vbVsrPolicies b' = gput key (rtPolicies r) (vbVsrPolicies b)))"
  proof (cases "rtRoute r = ''''")
    case False
    then show ?thesis using els by (auto simp: addRoute_def Let_def)
  next
    case True
    let ?b1 = "b\<lparr>vbErrorPageLocations := vbErrorPageLocations b @ els\<rparr>"
    have "contextReady (pySecretRefs po) (vxPolicies vsEx) routeContext (poOwnerNamespace (vsOwnerDetails ?vs)) (rtPolicies r)"
      using ready r po by (simp add: readyEx_def Let_def vsOwnerDetails_def)
    moreover have "onePolicyKind (vxPolicies vsEx)" using ready by (simp add: readyEx_def Let_def)
    ultimately obtain pol vsc zones where pol: "routePolicies vsEx (vsOwnerDetails ?vs) (rtPolicies r) routeContext po oidc ?b1
        = Some (pol, ?b1\<lparr>vbVsc := vsc, vbLimitReqZones := zones\<rparr>)"
      using routePolicies_total by meson
    let ?b2 = "?b1\<lparr>vbVsc := vsc, vbLimitReqZones := zones\<rparr>"
    let ?rc = "\<lparr>rtxUpstreamNamer = newUpstreamNamerForVirtualServer ?vs, rtxCrUpstreams = vbCrUpstreams ?b2,
       rtxVariableNamer = newVariableNamer ?vs,
       rtxLocation = \<lparr>lcCfgParams = genCfgParams (vbVsc ?b2), lcErrorPages = sliceOf (rtErrorPages r),
         lcErrPageIndex = length (vbErrorPageLocations b), lcLocSnippets = rtLocationSnippets r,
         lcEnableSnippets = genEnableSnippets (vbVsc ?b2), lcIsVSR = False, lcVsrName = [], lcVsrNamespace = []\<rparr>\<rparr>"
    have pages: "pagesOk (lcErrorPages (rtxLocation ?rc))" using validateRoute_total(2) [OF v] by simp
    have shape: "routeOk r" using validateRoute_total(1) [OF v] True by blast
    obtain b' where b': "addRouteConfig ?rc (omNamespace (vsMeta ?vs)) r pol ?b2 = Some b'"
      using addRouteConfig_total [OF pages shape, where b = ?b2] by blast
    have "vbVsrPolicies b' = vbVsrPolicies b" using addRouteConfig_policies [OF b'] by simp
    moreover have "addRoute vsEx po oidc r b = Some b'" using True els pol b' by (simp add: addRoute_def Let_def)
    ultimately show ?thesis by blast
  qed
  then obtain b' where b': "addRoute vsEx po oidc r b = Some b'"
    and pols: "vbVsrPolicies b' = vbVsrPolicies b \<or> (\<exists>key. vbVsrPolicies b' = gput key (rtPolicies r) (vbVsrPolicies b))" by blast
  have "pagesKnown vsEx b'" using addRoute_step [OF b' _ r] known by (simp add: inheritedKnown_def)
  moreover have "\<exists>r\<in>set (vssRoutes (vsSpec ?vs)). refs = rtPolicies r" if "gget (vbVsrPolicies b') key = Some refs" for key refs
    using pols known r that unfolding inheritedKnown_def by (auto split: if_splits)
  ultimately show ?thesis using b' by (auto simp: inheritedKnown_def)
qed

lemma addSubroute_total:
  assumes ok: "acceptedEx vsv vsEx" and ready: "readyEx vsEx"
    and vsr: "vsr \<in> set (vxVirtualServerRoutes vsEx)" and r: "r \<in> set (vrsSubroutes (vsrSpec vsr))"
    and po: "pySecretRefs po = vxSecretRefs vsEx" and known: "inheritedKnown vsEx b"
  shows "\<exists>b'. addSubroute vsEx po oidc vsr r b = Some b' \<and> inheritedKnown vsEx b'"
proof -
  let ?vs = "vxVirtualServer vsEx"
  let ?key = "omNamespace (vsrMeta vsr) @ ''/'' @ omName (vsrMeta vsr)"
  obtain names q where v: "validateRoute vsv r q names True (omNamespace (vsrMeta vsr)) = []" using acceptedEx_subroute [OF ok vsr r] .
  have shape: "routeOk r" and own: "pagesOk (sliceOf (rtErrorPages r))" using validateRoute_total [OF v] by blast+
  obtain els where els: "generateErrorPageLocations (length (vbErrorPageLocations b)) (sliceOf (rtErrorPages r)) = Some els"
    using errorPages_total(2) [OF own] by blast
  let ?b1 = "b\<lparr>vbErrorPageLocations := vbErrorPageLocations b @ els\<rparr>"
  obtain pages idx where pi: "(pages, idx) = (case rtErrorPages r of
      None \<Rightarrow> (case gget (vbVsrErrorPages ?b1) ?key of
          None \<Rightarrow> (sliceOf (rtErrorPages r), length (vbErrorPageLocations b))
        | Some vsErrorPages \<Rightarrow> (vsErrorPages, case gget (vbVsrErrorPagesIndex ?b1) ?key of None \<Rightarrow> 0 | Some i \<Rightarrow> i))
    | Some _ \<Rightarrow> (sliceOf (rtErrorPages r), length (vbErrorPageLocations b)))" by (metis surj_pair)
  have pages: "pagesOk pages"
  proof (cases "pages = sliceOf (rtErrorPages r)")
    case False
    then have "gget (vbVsrErrorPages b) ?key = Some pages" using pi by (auto split: option.splits)
    then have "set pages \<subseteq> routePages vsEx" using known by (auto simp: inheritedKnown_def pagesKnown_def)
    then show ?thesis using acceptedEx_pages [OF ok] by blast
  qed (simp add: own)
  obtain od refs ctxt snippets where odr: "(od, refs, ctxt) = (if rtPolicies r = []
       then (vsOwnerDetails ?vs, sliceOf (gget (vbVsrPolicies ?b1) ?key), routeContext)
       else (vsrOwnerDetails ?vs vsr, rtPolicies r, subRouteContext))"
    and snippets: "snippets = (if rtLocationSnippets r = ''''
       then (case gget (vbVsrLocationSnippets ?b1) ?key of None \<Rightarrow> '''' | Some s \<Rightarrow> s) else rtLocationSnippets r)"
    by (metis surj_pair)
  have "contextReady (pySecretRefs po) (vxPolicies vsEx) ctxt (poOwnerNamespace od) refs"
  proof (cases "rtPolicies r = []")
    case False
    then show ?thesis using odr ready vsr r po by (auto simp: readyEx_def Let_def vsrOwnerDetails_def)
  next
    case True
    show ?thesis
    proof (cases "gget (vbVsrPolicies b) ?key")
      case None
      then show ?thesis using True odr by (simp add: contextReady_def optAll_def sliceOf_def)
    next
      case (Some refs')
      then obtain r' where "r' \<in> set (vssRoutes (vsSpec ?vs))" "refs' = rtPolicies r'" using known unfolding inheritedKnown_def by blast
      then show ?thesis using Some True odr ready po by (simp add: readyEx_def Let_def vsOwnerDetails_def sliceOf_def)
    qed
  qed
  moreover have "onePolicyKind (vxPolicies vsEx)" using ready by (simp add: readyEx_def Let_def)
  ultimately obtain pol vsc zones where pol: "routePolicies vsEx od refs ctxt po oidc ?b1
      = Some (pol, ?b1\<lparr>vbVsc := vsc, vbLimitReqZones := zones\<rparr>)"
    using routePolicies_total by meson
  let ?b2 = "?b1\<lparr>vbVsc := vsc, vbLimitReqZones := zones\<rparr>"
  let ?rc = "\<lambda>b2. \<lparr>rtxUpstreamNamer = newUpstreamNamerForVirtualServerRoute ?vs vsr, rtxCrUpstreams = vbCrUpstreams b2,
       rtxVariableNamer = newVariableNamer ?vs,
       rtxLocation = \<lparr>lcCfgParams = genCfgParams (vbVsc b2), lcErrorPages = pages, lcErrPageIndex = idx, lcLocSnippets = snippets,
         lcEnableSnippets = genEnableSnippets (vbVsc b2), lcIsVSR = True, lcVsrName = omName (vsrMeta vsr),
         lcVsrNamespace = omNamespace (vsrMeta vsr)\<rparr>\<rparr>"
  have "pagesOk (lcErrorPages (rtxLocation (?rc ?b2)))" using pages by simp
  from addRouteConfig_total [OF this shape, where b = ?b2] obtain b' where
    b': "addRouteConfig (?rc ?b2) (omNamespace (vsrMeta vsr)) r pol ?b2 = Some b'" by blast
  have add: "addSubroute vsEx po oidc vsr r b = Some b'"
    using els pol b' unfolding addSubroute_def Let_def
    by (simp only: option.case pi [symmetric] odr [symmetric] snippets [symmetric] prod.case)
  have "vbVsrPolicies b' = vbVsrPolicies b" using addRouteConfig_policies [OF b'] by simp
  moreover have "pagesKnown vsEx b'" using addSubroute_step [OF add _ vsr r] known by (simp add: inheritedKnown_def)
  ultimately show ?thesis using add known by (auto simp: inheritedKnown_def)
qed

lemma generateSSLConfig_total:
  assumes "case tls of None \<Rightarrow> True | Some t \<Rightarrow> tlSecret t = '''' \<or> gget refs (ns @ ''/'' @ tlSecret t) \<noteq> None"
  shows "\<exists>r. generateSSLConfig owner tls ns refs vsc = Some r"
  using assms by (auto simp: generateSSLConfig_def Let_def split: option.splits)

lemma buildVirtualServer_total:
  assumes ok: "acceptedEx vsv vsEx" and ready: "readyEx vsEx" and po: "pySecretRefs po = vxSecretRefs vsEx"
  shows "\<exists>b. buildVirtualServer vsEx po sp vsc = Some b"
proof -
  let ?s = "addUpstreams vsEx (startBuild vsc (pcLimitReqZones sp))"
  have start: "inheritedKnown vsEx ?s"
    using addUpstreams_pieces [of "startBuild vsc (pcLimitReqZones sp)" vsEx] addUpstreams_policies [of vsEx "startBuild vsc (pcLimitReqZones sp)"]
    by (simp add: inheritedKnown_def pagesKnown_def startBuild_def samePieces_def)
  have "\<exists>b. foldOpt (addRoute vsEx po (pcOIDC sp)) (vssRoutes (vsSpec (vxVirtualServer vsEx))) ?s = Some b \<and> inheritedKnown vsEx b"
    by (rule foldOpt_total) (use addRoute_total [OF ok ready _ po] start in auto)
  then obtain b1 where b1: "foldOpt (addRoute vsEx po (pcOIDC sp)) (vssRoutes (vsSpec (vxVirtualServer vsEx))) ?s = Some b1"
    and k1: "inheritedKnown vsEx b1" by blast
  have inner: "\<exists>b'. foldOpt (addSubroute vsEx po (pcOIDC sp) vsr) (vrsSubroutes (vsrSpec vsr)) b = Some b' \<and> inheritedKnown vsEx b'"
    if "vsr \<in> set (vxVirtualServerRoutes vsEx)" "inheritedKnown vsEx b" for vsr b
    by (rule foldOpt_total) (use addSubroute_total [OF ok ready that(1) _ po] that(2) in auto)
  have "\<exists>b. foldOpt (\<lambda>vsr. foldOpt (addSubroute vsEx po (pcOIDC sp) vsr) (vrsSubroutes (vsrSpec vsr))) (vxVirtualServerRoutes vsEx) b1 = Some b
      \<and> inheritedKnown vsEx b"
    by (rule foldOpt_total) (use inner k1 in auto)
  then show ?thesis using b1 by (auto simp: buildVirtualServer_def)
qed

lemma GenerateVirtualServerConfig_total:
  assumes ok: "acceptedEx vsv vsEx" and ready: "readyEx vsEx"
  shows "\<exists>cfg ws vsc. GenerateVirtualServerConfig vsEx apResources vsc0 = Some (cfg, ws, vsc)"
proof -
  let ?vs = "vxVirtualServer vsEx"
  have "case vssTLS (vsSpec ?vs) of None \<Rightarrow> True
      | Some t \<Rightarrow> tlSecret t = '''' \<or> gget (vxSecretRefs vsEx) (omNamespace (vsMeta ?vs) @ ''/'' @ tlSecret t) \<noteq> None"
    using ready by (simp add: readyEx_def Let_def)
  from generateSSLConfig_total [OF this] obtain r0 where
    "generateSSLConfig (VirtualServerOwner (vsMeta ?vs)) (vssTLS (vsSpec ?vs)) (omNamespace (vsMeta ?vs)) (vxSecretRefs vsEx)
      (clearWarnings vsc0) = Some r0" by blast
  moreover obtain ssl vsc1 where "r0 = (ssl, vsc1)" by (cases r0)
  ultimately have ssl: "generateSSLConfig (VirtualServerOwner (vsMeta ?vs)) (vssTLS (vsSpec ?vs)) (omNamespace (vsMeta ?vs)) (vxSecretRefs vsEx)
      (clearWarnings vsc0) = Some (ssl, vsc1)" by simp
  let ?po = "\<lparr>pyTls = (ssl \<noteq> None), pySecretRefs = vxSecretRefs vsEx, pyApResources = apResources\<rparr>"
  have "onePolicyKind (vxPolicies vsEx)"
    "contextReady (pySecretRefs ?po) (vxPolicies vsEx) specContext (poOwnerNamespace (vsOwnerDetails ?vs)) (vssPolicies (vsSpec ?vs))"
    using ready by (simp_all add: readyEx_def Let_def vsOwnerDetails_def)
  from generatePolicies_total [OF this] obtain sp vsc2 where
    sp: "generatePolicies (vsOwnerDetails ?vs) (vssPolicies (vsSpec ?vs)) (vxPolicies vsEx) specContext ?po vsc1 = Some (sp, vsc2)" by fast
  obtain b where "buildVirtualServer vsEx ?po sp vsc2 = Some b" using buildVirtualServer_total [OF ok ready] by (metis policyOptions.select_convs(2))
  then show ?thesis using ssl sp by (simp add: GenerateVirtualServerConfig_def Let_def)
qed

end
