(* ===== verification/VS_Config_Properties.thy ===== *)
theory VS_Config_Properties
  imports VS_Total
begin

text \<open>
  What holds of every generated configuration of a VirtualServer: the names in it are defined in
  it, they are distinct, and an accepted VirtualServer is proxied to its declared upstreams only.
\<close>

section \<open>Invariants of the build\<close>

lemma policies_keep [simp]:
  "locPath (addPoliciesCfgToLocation pol loc) = locPath loc"
  "locErrorPages (addPoliciesCfgToLocation pol loc) = locErrorPages loc"
  "locProxyPass (addPoliciesCfgToLocation pol loc) = locProxyPass loc"
  "locInternalProxyPass (addPoliciesCfgToLocation pol loc) = locInternalProxyPass loc"
  "locInternal (addPoliciesCfgToLocation pol loc) = locInternal loc"
  by (simp_all add: addPoliciesCfgToLocation_def)

lemma policies_keep_paths [simp]: "locPath ` addPoliciesCfgToLocation pol ` L = locPath ` L"
  by (simp add: image_image)

lemma splitsDefined_policies [simp]: "splitsDefined scs (map (addPoliciesCfgToLocation pol) locs) = splitsDefined scs locs"
  by (simp add: splitsDefined_def)

lemma resultsDefined_policies [simp]: "resultsDefined ms scs (map (addPoliciesCfgToLocation pol) locs) = resultsDefined ms scs locs"
  by (simp add: resultsDefined_def)

text \<open>A step adds nothing but pages for errors, or the parts of a generated route.\<close>

lemma routeStep_cases:
  assumes "routeStep vsEx b b'"
  obtains (reference) own els where "generateErrorPageLocations (length (vbErrorPageLocations b)) own = Some els"
      "extends noParts newPoliciesConfig els b b'"
    | (route) own els pol parts r pages idx rc ns where
      "generateErrorPageLocations (length (vbErrorPageLocations b)) own = Some els" "extends parts pol els b b'"
      "(rtxUpstreamNamer rc, r) \<in> generatedRoutes vsEx" "pagesAt idx pages b'" "set pages \<subseteq> routePages vsEx"
      "rtxCrUpstreams rc = vbCrUpstreams b" "rtxVariableNamer rc = newVariableNamer (vxVirtualServer vsEx)"
      "lcErrorPages (rtxLocation rc) = pages" "lcErrPageIndex (rtxLocation rc) = idx"
      "routePartsOf rc ns r (vbMatchesRoutes b) (length (vbSplitClients b)) (length (vbReturnLocations b)) = Some parts"
proof -
  from assms obtain parts pol els own where els: "generateErrorPageLocations (length (vbErrorPageLocations b)) own = Some els"
    and ext: "extends parts pol els b b'" and parts: "parts = noParts \<or> (\<exists>namer r pages idx rc ns. (namer, r) \<in> generatedRoutes vsEx
        \<and> pagesAt idx pages b' \<and> set pages \<subseteq> routePages vsEx
        \<and> rtxUpstreamNamer rc = namer \<and> rtxCrUpstreams rc = vbCrUpstreams b \<and> rtxVariableNamer rc = newVariableNamer (vxVirtualServer vsEx)
        \<and> lcErrorPages (rtxLocation rc) = pages \<and> lcErrPageIndex (rtxLocation rc) = idx
        \<and> routePartsOf rc ns r (vbMatchesRoutes b) (length (vbSplitClients b)) (length (vbReturnLocations b)) = Some parts)"
    unfolding routeStep_def by blast
  from parts show ?thesis
  proof
    assume "parts = noParts"
    then have "extends noParts newPoliciesConfig els b b'" using ext by (simp add: extends_def noParts_def)
    then show ?thesis using reference els by blast
  next
    assume "\<exists>namer r pages idx rc ns. (namer, r) \<in> generatedRoutes vsEx \<and> pagesAt idx pages b' \<and> set pages \<subseteq> routePages vsEx
        \<and> rtxUpstreamNamer rc = namer \<and> rtxCrUpstreams rc = vbCrUpstreams b \<and> rtxVariableNamer rc = newVariableNamer (vxVirtualServer vsEx)
        \<and> lcErrorPages (rtxLocation rc) = pages \<and> lcErrPageIndex (rtxLocation rc) = idx
        \<and> routePartsOf rc ns r (vbMatchesRoutes b) (length (vbSplitClients b)) (length (vbReturnLocations b)) = Some parts"
    then show ?thesis using route els ext by blast
  qed
qed

section \<open>Targets inside the configuration\<close>

definition redirectURLs :: "VirtualServerEx \<Rightarrow> string set" where
  "redirectURLs vsEx =
     {arURL rd |rd. \<exists>(namer, r)\<in>generatedRoutes vsEx. \<exists>a\<in>routeActions r. acRedirect a = Some rd}
     \<union> {arURL (edActionRedirect rd) |rd. \<exists>e\<in>routePages vsEx. epRedirect e = Some rd}"

text \<open>The name of a page for errors is a return location, an error page location, or a URL.\<close>

definition pagesDefined :: "string set \<Rightarrow> Location list \<Rightarrow> ReturnLocation list \<Rightarrow> ErrorPageLocation list \<Rightarrow> bool" where
  "pagesDefined urls locs rets els =
     (\<forall>loc\<in>set locs. \<forall>ep\<in>set (locErrorPages loc). ep2Name ep \<in> rlName ` set rets \<union> elName ` set els \<union> urls)"

definition redirectsDefined :: "InternalRedirectLocation list \<Rightarrow> Map2 list \<Rightarrow> SplitClient list \<Rightarrow> bool" where
  "redirectsDefined irls ms scs = (\<forall>irl\<in>set irls. irlDestination irl \<in> mpVariable ` set ms \<union> spcVariable ` set scs)"

lemma redirectsDefined_append:
  "redirectsDefined i1 m1 s1 \<Longrightarrow> redirectsDefined i2 m2 s2 \<Longrightarrow> redirectsDefined (i1 @ i2) (m1 @ m2) (s1 @ s2)"
  unfolding redirectsDefined_def set_append image_Un by blast

lemma pagesDefined_append:
  "pagesDefined urls l1 r1 e1 \<Longrightarrow> pagesDefined urls l2 (r1 @ r2) (e1 @ e2) \<Longrightarrow> pagesDefined urls (l1 @ l2) (r1 @ r2) (e1 @ e2)"
  unfolding pagesDefined_def set_append image_Un by blast

lemma pagesDefined_policies [simp]: "pagesDefined urls (map (addPoliciesCfgToLocation pol) locs) rets els = pagesDefined urls locs rets els"
  by (simp add: pagesDefined_def)

text \<open>The pages of the location of one action.\<close>

lemma locationOf_pages:
  assumes "locationOf rc p internal a rets loc" and "ep \<in> set (locErrorPages loc)"
  obtains (return) "ep2Name ep \<in> rlName ` set rets"
    | (redirect) rd where "acRedirect a = Some rd" "ep2Name ep = arURL rd"
    | (url) e rd where "e \<in> set (lcErrorPages (rtxLocation rc))" "epRedirect e = Some rd" "ep2Name ep = arURL (edActionRedirect rd)"
    | (page) i where "i < length (lcErrorPages (rtxLocation rc))" "epRedirect (lcErrorPages (rtxLocation rc) ! i) = None"
        "ep2Name ep = generateErrorPageName (lcErrPageIndex (rtxLocation rc)) i"
proof -
  let ?lc = "rtxLocation rc"
  from assms(1) obtain up u ssl orig n rl where g: "generateLocation ?lc p up u a internal ssl orig n = Some (loc, rl)"
    and rl: "set_option rl \<subseteq> set rets"
    unfolding locationOf_def by blast
  show ?thesis
  proof (cases "acRedirect a")
    case (Some rd)
    then have "ep2Name ep = arURL rd" using g assms(2) by (auto simp: generateLocation_def generateLocationForRedirect_def Let_def)
    then show ?thesis using redirect Some by blast
  next
    case no_redirect: None
    show ?thesis
    proof (cases "acReturn a")
      case (Some rt)
      then have "\<exists>r. rl = Some r \<and> ep2Name ep = rlName r"
        using g assms(2) no_redirect by (auto simp: generateLocation_def generateLocationForReturn_def Let_def)
      then show ?thesis using return rl by force
    next
      case None
      then obtain eps where "generateErrorPages (lcErrPageIndex ?lc) (lcErrorPages ?lc) = Some eps" "ep \<in> set eps"
        using g assms(2) no_redirect by (auto simp: generateLocation_def generateLocationForProxying_def Let_def)
      then show ?thesis using errorPages_names url page by metis
    qed
  qed
qed

definition wired :: "VirtualServerEx \<Rightarrow> vsBuild \<Rightarrow> bool" where
  "wired vsEx b =
     (redirectsDefined (vbInternalRedirectLocations b) (vbMaps b) (vbSplitClients b)
      \<and> splitsDefined (vbSplitClients b) (vbLocations b)
      \<and> resultsDefined (vbMaps b) (vbSplitClients b) (vbLocations b)
      \<and> pagesDefined (redirectURLs vsEx) (vbLocations b) (vbReturnLocations b) (vbErrorPageLocations b))"

lemma route_pages:
  assumes "routePartsOf rc ns r i sci n = Some parts" and "(rtxUpstreamNamer rc, r) \<in> generatedRoutes vsEx"
    and "pagesAt (lcErrPageIndex (rtxLocation rc)) (lcErrorPages (rtxLocation rc)) b" and "set (lcErrorPages (rtxLocation rc)) \<subseteq> routePages vsEx"
  shows "pagesDefined (redirectURLs vsEx) (rpLocations parts) (rpReturnLocations parts) (vbErrorPageLocations b)"
  unfolding pagesDefined_def
proof (intro ballI)
  fix loc ep assume loc: "loc \<in> set (rpLocations parts)" and ep: "ep \<in> set (locErrorPages loc)"
  from loc routePartsOf_effect(2) [OF assms(1)] obtain a p internal where a: "a \<in> routeActions r"
    and l: "locationOf rc p internal a (rpReturnLocations parts) loc" unfolding soundLocations_def by blast
  from l ep show "ep2Name ep \<in> rlName ` set (rpReturnLocations parts) \<union> elName ` set (vbErrorPageLocations b) \<union> redirectURLs vsEx"
  proof (cases rule: locationOf_pages)
    case return
    then show ?thesis by blast
  next
    case (redirect rd)
    then have "arURL rd \<in> redirectURLs vsEx" unfolding redirectURLs_def using a assms(2) by blast
    then show ?thesis using redirect by simp
  next
    case (url e rd)
    then have "arURL (edActionRedirect rd) \<in> redirectURLs vsEx" unfolding redirectURLs_def using assms(4) by blast
    then show ?thesis using url by simp
  next
    case (page i)
    then show ?thesis using assms(3) unfolding pagesAt_def by simp
  qed
qed

lemma pagesDefined_mono:
  "pagesDefined urls locs rets els \<Longrightarrow> set rets \<subseteq> set rets' \<Longrightarrow> set els \<subseteq> set els' \<Longrightarrow> pagesDefined urls locs rets' els'"
  unfolding pagesDefined_def by blast

lemma pagesDefined_later: "pagesDefined urls locs rets els \<Longrightarrow> pagesDefined urls locs rets (els @ els')"
  by (erule pagesDefined_mono) simp_all

lemma wired_step:
  assumes "wired vsEx b" and "routeStep vsEx b b'"
  shows "wired vsEx b'"
  using assms(2)
proof (cases rule: routeStep_cases)
  case (reference own els)
  then show ?thesis using assms(1) pagesDefined_later by (simp add: wired_def extends_def noParts_def)
next
  case (route own els pol parts r pages idx rc ns)
  note e = routePartsOf_effect [OF route(10)]
  have parts: "pagesDefined (redirectURLs vsEx) (rpLocations parts) (rpReturnLocations parts) (vbErrorPageLocations b')"
    using route_pages [OF route(10) route(3)] route by blast
  have "redirectsDefined (rpRedirects parts) (rpMaps parts) (rpSplitClients parts)" using e(5) by (simp add: redirectsDefined_def)
  moreover have "pagesDefined (redirectURLs vsEx) (rpLocations parts) (vbReturnLocations b @ rpReturnLocations parts)
      (vbErrorPageLocations b @ els)" using pagesDefined_mono [OF parts] route(2) by (simp add: extends_def)
  ultimately show ?thesis
    using assms(1) route(2) e(3,4) redirectsDefined_append splitsDefined_append resultsDefined_append pagesDefined_append
    by (simp add: wired_def extends_def)
qed

lemma wired_build:
  assumes "buildVirtualServer vsEx po sp vsc = Some b"
  shows "wired vsEx b"
  using assms
proof (rule build_induct)
  show "wired vsEx (addUpstreams vsEx (startBuild vsc (pcLimitReqZones sp)))"
    using addUpstreams_pieces [of "startBuild vsc (pcLimitReqZones sp)" vsEx]
    by (simp add: wired_def samePieces_def startBuild_def redirectsDefined_def splitsDefined_def resultsDefined_def pagesDefined_def)
qed (rule wired_step)

section \<open>Names\<close>

lemma fmtNat_digits: "list_all isDigit (fmtNat n)"
  by (simp add: fmtNat_def itoa_def natDigits_digits)

lemma fmtNat_inject [simp]: "fmtNat a = fmtNat b \<longleftrightarrow> a = b"
  by (simp add: fmtNat_def itoa_inject)

text \<open>A number in a name ends where the digits end.\<close>

definition noDigit :: "string \<Rightarrow> bool" where
  "noDigit s = (case s of [] \<Rightarrow> True | c # _ \<Rightarrow> \<not> isDigit c)"

lemma fmtNat_append_inject:
  assumes "noDigit x" "noDigit y"
  shows "fmtNat a @ x = fmtNat b @ y \<longleftrightarrow> a = b \<and> x = y"
proof
  assume eq: "fmtNat a @ x = fmtNat b @ y"
  have tw: "takeWhile isDigit (fmtNat n @ z) = fmtNat n" if "noDigit z" for n z
    using fmtNat_digits [of n] that by (subst takeWhile_append2) (auto simp: noDigit_def list_all_iff split: list.splits)
  have "fmtNat a = fmtNat b" using arg_cong [OF eq, of "takeWhile isDigit"] tw assms by simp
  with eq show "a = b \<and> x = y" by simp
qed simp

lemma noDigit_simps [simp]: "noDigit []" "noDigit (c # s) \<longleftrightarrow> \<not> isDigit c"
  by (simp_all add: noDigit_def)

lemma isDigit_chars [simp]: "\<not> isDigit (CHR ''_'')"
  by (simp add: isDigit_def inRange_def)

lemma splitVariable_inject: "GetNameForSplitClientVariable namer i = GetNameForSplitClientVariable namer j \<longleftrightarrow> i = j"
  by (simp add: GetNameForSplitClientVariable_def)

lemma returnName_inject: "returnName i = returnName j \<longleftrightarrow> i = j"
  by (simp add: returnName_def)

lemma errorPageName_inject: "generateErrorPageName k i = generateErrorPageName k' i' \<longleftrightarrow> k = k' \<and> i = i'"
  using fmtNat_append_inject [of "''_'' @ fmtNat i" "''_'' @ fmtNat i'" k k'] by (simp add: generateErrorPageName_def)

lemma conditionVariable_inject:
  "GetNameForVariableForMatchesRouteMap namer i k j = GetNameForVariableForMatchesRouteMap namer i' k' j' \<longleftrightarrow> i = i' \<and> k = k' \<and> j = j'"
proof -
  let ?t = "\<lambda>k j. ''_match_'' @ fmtNat k @ ''_cond_'' @ fmtNat j"
  have "?t k j = ?t k' j' \<longleftrightarrow> k = k' \<and> j = j'"
    using fmtNat_append_inject [of "''_cond_'' @ fmtNat j" "''_cond_'' @ fmtNat j'" k k'] by simp
  then show ?thesis
    using fmtNat_append_inject [of "?t k j" "?t k' j'" i i'] by (simp add: GetNameForVariableForMatchesRouteMap_def)
qed

lemma mainVariable_inject:
  "GetNameForVariableForMatchesRouteMainMap namer i = GetNameForVariableForMatchesRouteMainMap namer i' \<longleftrightarrow> i = i'"
  by (simp add: GetNameForVariableForMatchesRouteMainMap_def)

lemma mainVariable_not_condition:
  "GetNameForVariableForMatchesRouteMainMap namer i \<noteq> GetNameForVariableForMatchesRouteMap namer i' k j"
  using fmtNat_append_inject [of "[]" "''_match_'' @ fmtNat k @ ''_cond_'' @ fmtNat j" i i']
  by (simp add: GetNameForVariableForMatchesRouteMainMap_def GetNameForVariableForMatchesRouteMap_def)

lemma splitVariable_not_matches:
  "GetNameForSplitClientVariable namer i \<noteq> GetNameForVariableForMatchesRouteMap namer i' k j"
  "GetNameForSplitClientVariable namer i \<noteq> GetNameForVariableForMatchesRouteMainMap namer i'"
  by (simp_all add: GetNameForSplitClientVariable_def GetNameForVariableForMatchesRouteMap_def
      GetNameForVariableForMatchesRouteMainMap_def)

section \<open>Distinct names\<close>

text \<open>The variables of the maps of the route with number \<open>i\<close>.\<close>

definition matchVariable :: "variableNamer \<Rightarrow> nat \<Rightarrow> string \<Rightarrow> bool" where
  "matchVariable namer i v =
     (v = GetNameForVariableForMatchesRouteMainMap namer i \<or> (\<exists>k j. v = GetNameForVariableForMatchesRouteMap namer i k j))"

lemma matchVariable_inject: "matchVariable namer i v \<Longrightarrow> matchVariable namer i' v \<Longrightarrow> i = i'"
  unfolding matchVariable_def using mainVariable_inject conditionVariable_inject mainVariable_not_condition by metis

lemma conditionMaps_variables:
  "map mpVariable (conditionMaps namer i ms) =
     concat (map (\<lambda>k. map (\<lambda>j. GetNameForVariableForMatchesRouteMap namer i k j) [0..<length (mtConditions (ms ! k))]) [0..<length ms])"
  unfolding conditionMaps_def map_enumerate prod.case by (simp add: map_concat o_def del: upt_Suc)

lemma routeVariables_match: "v \<in> set (routeVariables namer i r) \<Longrightarrow> matchVariable namer i v"
  unfolding routeVariables_def conditionMaps_variables matchVariable_def in_concat_upt
  by (auto simp: in_concat_upt simp del: upt_Suc split: if_splits)

lemma distinct_concat_upt:
  assumes "\<And>k j k' j'. F k j = F k' j' \<Longrightarrow> k = k' \<and> j = j'"
  shows "distinct (concat (map (\<lambda>k. map (F k) [0..<g k]) [0..<n]))"
proof (induction n)
  case (Suc n)
  have "distinct (map (F n) [0..<g n])" using assms by (auto simp: distinct_map inj_on_def)
  moreover have "set (concat (map (\<lambda>k. map (F k) [0..<g k]) [0..<n])) \<inter> set (map (F n) [0..<g n]) = {}"
    using assms by (fastforce simp: in_concat_upt simp del: upt_Suc set_concat)
  ultimately show ?case using Suc by simp
qed simp

lemma routeVariables_distinct: "distinct (routeVariables namer i r)"
proof (cases "rtMatches r = []")
  case False
  have "distinct (map mpVariable (conditionMaps namer i (rtMatches r)))"
    unfolding conditionMaps_variables by (rule distinct_concat_upt) (simp add: conditionVariable_inject)
  moreover have "GetNameForVariableForMatchesRouteMainMap namer i \<notin> set (map mpVariable (conditionMaps namer i (rtMatches r)))"
    unfolding conditionMaps_variables in_concat_upt using mainVariable_not_condition by metis
  ultimately show ?thesis using False by (simp add: routeVariables_def)
qed (simp add: routeVariables_def)

definition named :: "VirtualServerEx \<Rightarrow> vsBuild \<Rightarrow> bool" where
  "named vsEx b =
     (let namer = newVariableNamer (vxVirtualServer vsEx) in
      splitVariables namer 0 (vbSplitClients b)
      \<and> map rlName (vbReturnLocations b) = map returnName [0..<length (vbReturnLocations b)]
      \<and> distinct (map mpVariable (vbMaps b))
      \<and> (\<forall>m\<in>set (vbMaps b). \<exists>i<vbMatchesRoutes b. matchVariable namer i (mpVariable m))
      \<and> distinct (map elName (vbErrorPageLocations b))
      \<and> (\<forall>e\<in>set (vbErrorPageLocations b). \<exists>k i. k < length (vbErrorPageLocations b) \<and> elName e = generateErrorPageName k i))"

lemma errorPageLocations_fresh:
  assumes "generateErrorPageLocations idx pages = Some els"
  shows "distinct (map elName els)" and "e \<in> set els \<Longrightarrow> \<exists>i. elName e = generateErrorPageName idx i"
proof -
  note n = errorPageLocations_names [OF assms]
  show "distinct (map elName els)"
    unfolding n by (simp add: distinct_map inj_on_def errorPageName_inject del: upt_Suc)
  assume "e \<in> set els"
  then have "elName e \<in> set (map elName els)" by simp
  then show "\<exists>i. elName e = generateErrorPageName idx i" unfolding n by auto
qed

lemma named_pages:
  assumes "generateErrorPageLocations (length els) own = Some extra"
    and "distinct (map elName els)" and "\<forall>e\<in>set els. \<exists>k i. k < length els \<and> elName e = generateErrorPageName k i"
  shows "distinct (map elName (els @ extra))"
    and "\<forall>e\<in>set (els @ extra). \<exists>k i. k < length (els @ extra) \<and> elName e = generateErrorPageName k i"
proof -
  note f = errorPageLocations_fresh [OF assms(1)]
  have "elName e \<noteq> elName e'" if e: "e \<in> set els" and e': "e' \<in> set extra" for e e'
  proof -
    obtain k i where "k < length els" "elName e = generateErrorPageName k i" using assms(3) e by blast
    moreover obtain i' where "elName e' = generateErrorPageName (length els) i'" using f(2) e' by blast
    ultimately show ?thesis by (simp add: errorPageName_inject)
  qed
  then have "elName ` set els \<inter> elName ` set extra = {}" by (simp add: disjoint_iff image_iff) metis
  then show "distinct (map elName (els @ extra))" using f(1) assms(2) by simp
  show "\<forall>e\<in>set (els @ extra). \<exists>k i. k < length (els @ extra) \<and> elName e = generateErrorPageName k i"
  proof
    fix e assume "e \<in> set (els @ extra)"
    then consider "e \<in> set els" | "e \<in> set extra" by auto
    then show "\<exists>k i. k < length (els @ extra) \<and> elName e = generateErrorPageName k i"
    proof cases
      case 1
      then obtain k i where "k < length els" "elName e = generateErrorPageName k i" using assms(3) by blast
      moreover from this(1) have "k < length (els @ extra)" by simp
      ultimately show ?thesis by blast
    next
      case 2
      then obtain i where "elName e = generateErrorPageName (length els) i" using f(2) by blast
      moreover have "length els < length (els @ extra)" using 2 by (cases extra) simp_all
      ultimately show ?thesis by blast
    qed
  qed
qed

lemma named_maps:
  assumes "distinct (map mpVariable ms)" and "\<forall>m\<in>set ms. \<exists>i<n. matchVariable namer i (mpVariable m)"
    and "map mpVariable extra = routeVariables namer n r"
  shows "distinct (map mpVariable (ms @ extra))"
    and "\<forall>m\<in>set (ms @ extra). \<exists>i<n + (if rtMatches r = [] then 0 else 1). matchVariable namer i (mpVariable m)"
proof -
  have extra: "matchVariable namer n (mpVariable m)" if "m \<in> set extra" for m
    using routeVariables_match assms(3) that by (metis image_eqI list.set_map)
  have "mpVariable m \<noteq> mpVariable m'" if "m \<in> set ms" "m' \<in> set extra" for m m'
    using assms(2) extra [OF that(2)] that(1) matchVariable_inject by (metis less_irrefl)
  then have "mpVariable ` set ms \<inter> mpVariable ` set extra = {}" by fastforce
  then show "distinct (map mpVariable (ms @ extra))"
    using assms(1) routeVariables_distinct [of namer n r] by (simp flip: assms(3))
  show "\<forall>m\<in>set (ms @ extra). \<exists>i<n + (if rtMatches r = [] then 0 else 1). matchVariable namer i (mpVariable m)"
  proof
    fix m assume "m \<in> set (ms @ extra)"
    then consider "m \<in> set ms" | "m \<in> set extra" by auto
    then show "\<exists>i<n + (if rtMatches r = [] then 0 else 1). matchVariable namer i (mpVariable m)"
    proof cases
      case 1
      then show ?thesis using assms(2) by (meson trans_less_add1)
    next
      case 2
      then have "rtMatches r \<noteq> []" using assms(3) by (auto simp: routeVariables_def)
      then show ?thesis using extra [OF 2] by auto
    qed
  qed
qed

lemma named_step:
  assumes "named vsEx b" and "routeStep vsEx b b'"
  shows "named vsEx b'"
  using assms(2)
proof (cases rule: routeStep_cases)
  case (reference own els)
  then show ?thesis using assms(1) named_pages [OF reference(1)] by (simp add: named_def Let_def extends_def noParts_def)
next
  case (route own els pol parts r pages idx rc ns)
  note e = routePartsOf_effect [OF route(10)]
  let ?namer = "newVariableNamer (vxVirtualServer vsEx)"
  let ?n = "length (vbReturnLocations b)" and ?extra = "rpReturnLocations parts"
  have "map rlName ?extra = map returnName [?n..<?n + length ?extra]" using e(2) by (simp add: soundLocations_def)
  moreover have "[0..<?n + length ?extra] = [0..<?n] @ [?n..<?n + length ?extra]"
    using upt_add_eq_append [of 0 ?n "length ?extra"] by simp
  ultimately have rets: "map rlName (vbReturnLocations b') = map returnName [0..<length (vbReturnLocations b')]"
    using assms(1) route(2) by (simp add: named_def Let_def extends_def)
  have splits: "splitVariables ?namer 0 (vbSplitClients b')"
    using splitVariables_append [of ?namer 0 "vbSplitClients b"] assms(1) route(2,7) e(1) by (simp add: named_def Let_def extends_def)
  have maps: "distinct (map mpVariable (vbMaps b'))" "\<forall>m\<in>set (vbMaps b'). \<exists>i<vbMatchesRoutes b'. matchVariable ?namer i (mpVariable m)"
    using named_maps [of "vbMaps b" "vbMatchesRoutes b" ?namer "rpMaps parts" r] assms(1) route(2,7) e(6,7)
    by (simp_all add: named_def Let_def extends_def)
  have pages: "distinct (map elName (vbErrorPageLocations b'))"
    "\<forall>e\<in>set (vbErrorPageLocations b'). \<exists>k i. k < length (vbErrorPageLocations b') \<and> elName e = generateErrorPageName k i"
    using named_pages [OF route(1)] assms(1) route(2) by (simp_all add: named_def Let_def extends_def)
  show ?thesis
    unfolding named_def Let_def using rets splits maps pages by blast
qed

lemma named_build:
  assumes "buildVirtualServer vsEx po sp vsc = Some b"
  shows "named vsEx b"
  using assms
proof (rule build_induct)
  show "named vsEx (addUpstreams vsEx (startBuild vsc (pcLimitReqZones sp)))"
    using addUpstreams_pieces [of "startBuild vsc (pcLimitReqZones sp)" vsEx]
    by (simp add: named_def samePieces_def startBuild_def splitVariables_def)
qed (rule named_step)

section \<open>From the build to the configuration\<close>

lemma GenerateVirtualServerConfig_build:
  assumes "GenerateVirtualServerConfig vsEx apResources vsc0 = Some (cfg, ws, vsc')"
  obtains sslConfig po sp vsc b where "buildVirtualServer vsEx po sp vsc = Some b"
    "cfg = virtualServerConfigOf (vxVirtualServer vsEx) sslConfig sp b"
  using assms by (auto simp: GenerateVirtualServerConfig_def Let_def split: option.splits)

lemma config_fields [simp]:
  "vcMaps (virtualServerConfigOf vs ssl sp b) = vbMaps b"
  "vcSplitClients (virtualServerConfigOf vs ssl sp b) = vbSplitClients b"
  "vcUpstreams (virtualServerConfigOf vs ssl sp b) = vbUpstreams b"
  "svLocations (vcServer (virtualServerConfigOf vs ssl sp b)) = vbLocations b"
  "svInternalRedirectLocations (vcServer (virtualServerConfigOf vs ssl sp b)) = vbInternalRedirectLocations b"
  "svReturnLocations (vcServer (virtualServerConfigOf vs ssl sp b)) = vbReturnLocations b"
  "svErrorPageLocations (vcServer (virtualServerConfigOf vs ssl sp b)) = vbErrorPageLocations b"
  by (simp_all add: virtualServerConfigOf_def Let_def)

lemma build_upstreams:
  assumes "buildVirtualServer vsEx po sp vsc = Some b"
  shows "map u2Name (vbUpstreams b) = upstreamNames (declaredUpstreams vsEx)"
    and "gkeys (vbCrUpstreams b) = set (upstreamNames (declaredUpstreams vsEx))"
proof -
  let ?s = "addUpstreams vsEx (startBuild vsc (pcLimitReqZones sp))"
  have "vbUpstreams b = vbUpstreams ?s \<and> vbCrUpstreams b = vbCrUpstreams ?s"
    using assms by (rule build_induct) (auto elim!: routeStep_cases simp: extends_def)
  then show "map u2Name (vbUpstreams b) = upstreamNames (declaredUpstreams vsEx)"
    and "gkeys (vbCrUpstreams b) = set (upstreamNames (declaredUpstreams vsEx))"
    using addUpstreams_pieces [of "startBuild vsc (pcLimitReqZones sp)" vsEx] by (simp_all add: startBuild_def)
qed

section \<open>Upstreams of locations\<close>

lemma resolves_upstream:
  assumes "resolves names a" and "acRedirect a = None" and "acReturn a = None"
  shows "\<exists>n\<in>names. GetNameForUpstreamFromAction namer a = GetNameForUpstream namer n"
proof (cases "acProxy a")
  case None
  then have "acPass a \<in> names" using assms by (auto simp: resolves_def countActions_def split: if_splits)
  then show ?thesis using None by (auto simp: GetNameForUpstreamFromAction_def GetNameForUpstream_def)
next
  case (Some p)
  then have "acPass a = ''''" "apUpstream p \<in> names" using assms by (auto simp: resolves_def countActions_def split: if_splits)
  then show ?thesis using Some by (auto simp: GetNameForUpstreamFromAction_def GetNameForUpstream_def)
qed

text \<open>Where a location sends a request: to an upstream, or to the server for canned responses.\<close>

definition proxiedTo :: "string set \<Rightarrow> Location \<Rightarrow> bool" where
  "proxiedTo names loc =
     (if locProxyPass loc = '''' then locInternalProxyPass loc = ''http://'' @ nginx418Server
      else \<exists>name\<in>names. \<exists>tls internal proxy. locProxyPass loc = generateProxyPass tls name internal proxy)"

lemma locationOf_proxied:
  assumes "locationOf rc p internal a rets loc" and "resolves names a"
    and "\<And>n. n \<in> names \<Longrightarrow> GetNameForUpstream (rtxUpstreamNamer rc) n \<in> ups"
  shows "proxiedTo ups loc"
proof -
  from assms(1) obtain u ssl orig n rl where
    g: "generateLocation (rtxLocation rc) p (GetNameForUpstreamFromAction (rtxUpstreamNamer rc) a) u a internal ssl orig n = Some (loc, rl)"
    unfolding locationOf_def by blast
  show ?thesis
  proof (cases "acRedirect a = None \<and> acReturn a = None")
    case True
    then obtain n where n: "n \<in> names" "GetNameForUpstreamFromAction (rtxUpstreamNamer rc) a = GetNameForUpstream (rtxUpstreamNamer rc) n"
      using resolves_upstream [OF assms(2)] by metis
    have "locProxyPass loc = generateProxyPass (utEnable (uTLS u)) (GetNameForUpstream (rtxUpstreamNamer rc) n) internal (acProxy a)"
      using g True n(2) by (auto simp: generateLocation_def generateLocationForProxying_def Let_def)
    moreover have "generateProxyPass t nm i pr \<noteq> ''''" for t nm i pr
      by (simp add: generateProxyPass_def generateProxyPassProtocol_def Let_def)
    ultimately show ?thesis unfolding proxiedTo_def using assms(3) [OF n(1)] by auto
  next
    case False
    then show ?thesis
      using g by (auto simp: proxiedTo_def generateLocation_def generateLocationForRedirect_def generateLocationForReturn_def
          emptyLocation_def Let_def split: option.splits)
  qed
qed

lemma proxied_policies [simp]: "proxiedTo ups (addPoliciesCfgToLocation pol loc) = proxiedTo ups loc"
  by (simp add: proxiedTo_def)

lemma proxied_build:
  assumes "acceptedEx vsv vsEx" and "buildVirtualServer vsEx po sp vsc = Some b"
  shows "\<forall>loc\<in>set (vbLocations b). proxiedTo (set (upstreamNames (declaredUpstreams vsEx))) loc"
  using assms(2)
proof (rule build_induct)
  let ?ups = "set (upstreamNames (declaredUpstreams vsEx))"
  show "\<forall>loc\<in>set (vbLocations (addUpstreams vsEx (startBuild vsc (pcLimitReqZones sp)))). proxiedTo ?ups loc"
    using addUpstreams_pieces [of "startBuild vsc (pcLimitReqZones sp)" vsEx] by (simp add: samePieces_def startBuild_def)
  fix b b' assume old: "\<forall>loc\<in>set (vbLocations b). proxiedTo ?ups loc" and step: "routeStep vsEx b b'"
  from step show "\<forall>loc\<in>set (vbLocations b'). proxiedTo ?ups loc"
  proof (cases rule: routeStep_cases)
    case (reference own els)
    then show ?thesis using old by (simp add: extends_def noParts_def)
  next
    case (route own els pol parts r pages idx rc ns)
    obtain names q forbidden ns' where ok: "validateRoute vsv r q names forbidden ns' = []"
      and ups: "\<And>n. n \<in> set names \<Longrightarrow> GetNameForUpstream (rtxUpstreamNamer rc) n \<in> ?ups"
      using accepted_route [OF assms(1) route(3)] by metis
    have "proxiedTo ?ups loc" if loc: "loc \<in> set (rpLocations parts)" for loc
    proof -
      obtain a p internal where "a \<in> routeActions r" "locationOf rc p internal a (rpReturnLocations parts) loc"
        using routePartsOf_effect(2) [OF route(10)] loc unfolding soundLocations_def by blast
      then show ?thesis using locationOf_proxied ups validateRoute_ok(1) [OF ok] by blast
    qed
    then show ?thesis using old route(2) by (auto simp: extends_def)
  qed
qed

text \<open>Names of Kubernetes objects and of upstreams have no underscore, so the parts of a name can be told.\<close>

definition noUnderscore :: "string \<Rightarrow> bool" where
  "noUnderscore s = (CHR ''_'' \<notin> set s)"

lemma upstreamName_no_underscore: "validateUpstreamName n p = [] \<Longrightarrow> noUnderscore n"
  using label1035_bytes [of n]
  by (fastforce simp: validateUpstreamName_def validateDNS1035Label_def noUnderscore_def list_all_iff dnsByte_def inRange_def
      isLower_def isDigit_def split: if_splits)

lemma underscore_split:
  assumes "a @ ''_'' @ x = b @ ''_'' @ y" and "noUnderscore a" and "noUnderscore b"
  shows "a = b" "x = y"
proof -
  have tw: "takeWhile (\<lambda>c. c \<noteq> CHR ''_'') (s @ ''_'' @ t) = s" if "noUnderscore s" for s t :: string
    using that by (subst takeWhile_append2) (auto simp: noUnderscore_def)
  show "a = b" using arg_cong [OF assms(1), of "takeWhile (\<lambda>c. c \<noteq> CHR ''_'')"] tw assms(2,3) by simp
  with assms(1) show "x = y" by simp
qed

definition vsrKey :: "VirtualServerRoute \<Rightarrow> string \<times> string" where
  "vsrKey vsr = (omNamespace (vsrMeta vsr), omName (vsrMeta vsr))"

definition plainVsr :: "VirtualServerRoute \<Rightarrow> bool" where
  "plainVsr vsr = (noUnderscore (omNamespace (vsrMeta vsr)) \<and> noUnderscore (omName (vsrMeta vsr)))"

definition vsrUpstreamName :: "VirtualServer \<Rightarrow> VirtualServerRoute \<Rightarrow> Upstream \<Rightarrow> string" where
  "vsrUpstreamName vs vsr u = GetNameForUpstream (newUpstreamNamerForVirtualServerRoute vs vsr) (uName u)"

lemma vsrUpstreamName_inject:
  assumes "vsrUpstreamName vs vsr u = vsrUpstreamName vs vsr' u'" and "plainVsr vsr" "plainVsr vsr'"
  shows "vsrKey vsr = vsrKey vsr'" "uName u = uName u'"
proof -
  have "omNamespace (vsrMeta vsr) @ ''_'' @ omName (vsrMeta vsr) @ ''_'' @ uName u
      = omNamespace (vsrMeta vsr') @ ''_'' @ omName (vsrMeta vsr') @ ''_'' @ uName u'"
    using assms(1) by (simp add: vsrUpstreamName_def GetNameForUpstream_def newUpstreamNamerForVirtualServerRoute_def)
  note s1 = underscore_split [OF this]
  have ns: "omNamespace (vsrMeta vsr) = omNamespace (vsrMeta vsr')" using s1(1) assms(2,3) by (simp add: plainVsr_def)
  have "omName (vsrMeta vsr) @ ''_'' @ uName u = omName (vsrMeta vsr') @ ''_'' @ uName u'"
    using s1(2) assms(2,3) by (simp add: plainVsr_def)
  note s2 = underscore_split [OF this]
  show "vsrKey vsr = vsrKey vsr'" using s2(1) ns assms(2,3) by (simp add: plainVsr_def vsrKey_def)
  show "uName u = uName u'" using s2(2) assms(2,3) by (simp add: plainVsr_def)
qed

lemma vsrUpstreamName_not_vs:
  assumes "noUnderscore (uName u')"
  shows "vsrUpstreamName vs vsr u \<noteq> GetNameForUpstream (newUpstreamNamerForVirtualServer vs) (uName u')"
proof
  assume "vsrUpstreamName vs vsr u = GetNameForUpstream (newUpstreamNamerForVirtualServer vs) (uName u')"
  then have "uName u' = ''vsr_'' @ omNamespace (vsrMeta vsr) @ ''_'' @ omName (vsrMeta vsr) @ ''_'' @ uName u"
    by (simp add: vsrUpstreamName_def GetNameForUpstream_def newUpstreamNamerForVirtualServerRoute_def newUpstreamNamerForVirtualServer_def)
  with assms show False by (simp add: noUnderscore_def)
qed

lemma distinct_concat_map:
  assumes "distinct (map k xs)" and "\<And>x. x \<in> set xs \<Longrightarrow> distinct (f x)"
    and "\<And>x y z. x \<in> set xs \<Longrightarrow> y \<in> set xs \<Longrightarrow> z \<in> set (f x) \<Longrightarrow> z \<in> set (f y) \<Longrightarrow> k x = k y"
  shows "distinct (concat (map f xs))"
  using assms
proof (induction xs)
  case (Cons x xs)
  have "z \<notin> set (f y)" if "z \<in> set (f x)" "y \<in> set xs" for y z
    using Cons.prems(1) Cons.prems(3) [of x y z] that by auto
  then have "set (f x) \<inter> set (concat (map f xs)) = {}" by auto
  moreover have "distinct (concat (map f xs))"
  proof (rule Cons.IH)
    show "distinct (map k xs)" using Cons.prems(1) by simp
    show "distinct (f y)" if "y \<in> set xs" for y using Cons.prems(2) that by simp
    show "k y = k y'" if "y \<in> set xs" "y' \<in> set xs" "z \<in> set (f y)" "z \<in> set (f y')" for y y' z
      using Cons.prems(3) [of y y' z] that by simp
  qed
  ultimately show ?case using Cons.prems(2) by simp
qed simp

lemma acceptedEx_upstreams:
  assumes "acceptedEx vsv vsEx"
  shows "distinct (map uName (vssUpstreams (vsSpec (vxVirtualServer vsEx))))"
    and "u \<in> set (vssUpstreams (vsSpec (vxVirtualServer vsEx))) \<Longrightarrow> noUnderscore (uName u)"
    and "vsr \<in> set (vxVirtualServerRoutes vsEx) \<Longrightarrow> distinct (map uName (vrsUpstreams (vsrSpec vsr)))"
proof -
  have vs: "ValidateVirtualServer vsv (vxVirtualServer vsEx) = None" using assms by (simp add: acceptedEx_def)
  then show "distinct (map uName (vssUpstreams (vsSpec (vxVirtualServer vsEx))))" using ValidateVirtualServer_parts by metis
  show "u \<in> set (vssUpstreams (vsSpec (vxVirtualServer vsEx))) \<Longrightarrow> noUnderscore (uName u)"
    using vs upstreamName_no_underscore by (metis ValidateVirtualServer_parts)
  assume "vsr \<in> set (vxVirtualServerRoutes vsEx)"
  then obtain path where "ValidateVirtualServerRouteForVirtualServer vsv vsr (vssHost (vsSpec (vxVirtualServer vsEx))) path = None"
    using assms unfolding acceptedEx_def by blast
  then show "distinct (map uName (vrsUpstreams (vsrSpec vsr)))" using ValidateVirtualServerRoute_parts by metis
qed

lemma declared_names_distinct:
  assumes ok: "acceptedEx vsv vsEx" and keys: "distinct (map vsrKey (vxVirtualServerRoutes vsEx))"
    and plain: "list_all plainVsr (vxVirtualServerRoutes vsEx)"
  shows "distinct (upstreamNames (declaredUpstreams vsEx))"
proof -
  let ?vs = "vxVirtualServer vsEx"
  let ?own = "map (\<lambda>u. GetNameForUpstream (newUpstreamNamerForVirtualServer ?vs) (uName u)) (vssUpstreams (vsSpec ?vs))"
  let ?f = "\<lambda>vsr. map (vsrUpstreamName ?vs vsr) (vrsUpstreams (vsrSpec vsr))"
  have "distinct ?own"
    using acceptedEx_upstreams(1) [OF ok] by (simp add: distinct_map inj_on_def GetNameForUpstream_def)
  moreover have "distinct (concat (map ?f (vxVirtualServerRoutes vsEx)))"
  proof (rule distinct_concat_map [OF keys])
    fix vsr assume "vsr \<in> set (vxVirtualServerRoutes vsEx)"
    then show "distinct (?f vsr)"
      using acceptedEx_upstreams(3) [OF ok] by (auto simp: distinct_map inj_on_def vsrUpstreamName_def GetNameForUpstream_def)
  next
    fix x y z assume "x \<in> set (vxVirtualServerRoutes vsEx)" "y \<in> set (vxVirtualServerRoutes vsEx)" "z \<in> set (?f x)" "z \<in> set (?f y)"
    then show "vsrKey x = vsrKey y" using vsrUpstreamName_inject(1) plain by (fastforce simp: list_all_iff)
  qed
  moreover have "set ?own \<inter> set (concat (map ?f (vxVirtualServerRoutes vsEx))) = {}"
  proof -
    have "z \<notin> set (?f vsr)" if z: "z \<in> set ?own" for z vsr
    proof -
      obtain u where "u \<in> set (vssUpstreams (vsSpec ?vs))" "z = GetNameForUpstream (newUpstreamNamerForVirtualServer ?vs) (uName u)"
        using z by auto
      then have "vsrUpstreamName ?vs vsr v \<noteq> z" for v using vsrUpstreamName_not_vs [OF acceptedEx_upstreams(2) [OF ok]] by simp
      then show ?thesis by (auto simp: image_iff)
    qed
    then show ?thesis by auto
  qed
  moreover have "upstreamNames (declaredUpstreams vsEx) = ?own @ concat (map ?f (vxVirtualServerRoutes vsEx))"
    by (simp add: upstreamNames_def declaredUpstreams_def map_concat o_def vsrUpstreamName_def [abs_def])
  ultimately show ?thesis by simp
qed

section \<open>Samples\<close>

definition sampleStatic :: StaticConfigParams where
  "sampleStatic =
     \<lparr>stHealthStatus = False, stHealthStatusURI = '''', stNginxStatus = False, stNginxStatusAllowCIDRs = [], stNginxStatusPort = 8080,
      stStubStatusOverUnixSocketForOSS = False, stTLSPassthrough = False, stEnableSnippets = False, stNginxServiceMesh = False,
      stEnableInternalRoutes = False, stMainAppProtectLoadModule = False, stPodName = '''', stEnableLatencyMetrics = False,
      stEnablePreviewPolicies = False\<rparr>"

definition sampleGenerator :: virtualServerConfigurator where
  "sampleGenerator = newVirtualServerConfigurator NewDefaultConfigParams False False sampleStatic"

definition sampleCondition :: Condition where
  "sampleCondition = \<lparr>cdHeader = '''', cdCookie = '''', cdArgument = '''', cdVariable = '''', cdValue = ''''\<rparr>"

definition sampleMatches :: "Match list" where
  "sampleMatches =
     [\<lparr>mtConditions = [sampleCondition\<lparr>cdHeader := ''x-version'', cdValue := ''v2''\<rparr>, sampleCondition\<lparr>cdCookie := ''user'', cdValue := ''!john''\<rparr>],
       mtAction = Some (samplePass ''tea''), mtSplits = []\<rparr>,
      \<lparr>mtConditions = [sampleCondition\<lparr>cdArgument := ''beta'', cdValue := ''default''\<rparr>], mtAction = None, mtSplits = sampleSplits\<rparr>]"

definition samplePage :: ErrorPage where
  "samplePage = \<lparr>epCodes = [502], epReturn = Some \<lparr>erActionReturn = \<lparr>atCode = 200, atType = '''', atBody = ''unavailable''\<rparr>, erHeaders = []\<rparr>,
     epRedirect = None\<rparr>"

definition matchCafe :: VirtualServer where
  "matchCafe = cafe\<lparr>vsSpec := (vsSpec cafe)\<lparr>vssRoutes :=
     [(sampleRoute ''/tea'')\<lparr>rtMatches := sampleMatches, rtAction := Some sampleReturn\<rparr>,
      (sampleRoute ''/coffee'')\<lparr>rtAction := Some (samplePass ''coffee''), rtErrorPages := Some [samplePage]\<rparr>,
      (sampleRoute ''/tea/green'')\<lparr>rtRoute := ''tea'', rtErrorPages := Some [samplePage]\<rparr>]\<rparr>\<rparr>"

definition sampleEx :: VirtualServerEx where
  "sampleEx = \<lparr>vxVirtualServer = matchCafe, vxEndpoints = [], vxVirtualServerRoutes = [cafeRoute], vxExternalNameSvcs = [],
     vxPolicies = [], vxPodsByIP = [], vxSecretRefs = [], vxApPolRefs = [], vxLogConfRefs = []\<rparr>"

lemma sampleEx_accepted: "acceptedEx plainValidator sampleEx"
proof -
  have "ValidateVirtualServer plainValidator (vxVirtualServer sampleEx) = None" by code_simp
  moreover have "vxVirtualServerRoutes sampleEx = [cafeRoute]" "vssHost (vsSpec (vxVirtualServer sampleEx)) = ''cafe.example.com''"
    by (simp_all add: sampleEx_def matchCafe_def cafe_def)
  ultimately show ?thesis unfolding acceptedEx_def using cafeRoute_accepted by auto
qed

lemma sampleEx_ready: "readyEx sampleEx"
  by (simp add: readyEx_def sampleEx_def matchCafe_def cafe_def cafeRoute_def onePolicyKind_def contextReady_def optAll_def
      sampleRoute_def)

definition sampleConfig :: VirtualServerConfig where
  "sampleConfig = fst (the (GenerateVirtualServerConfig sampleEx [] sampleGenerator))"

lemma sampleConfig_generated:
  "\<exists>ws vsc. GenerateVirtualServerConfig sampleEx [] sampleGenerator = Some (sampleConfig, ws, vsc)"
  using GenerateVirtualServerConfig_total [OF sampleEx_accepted sampleEx_ready, of "[]" sampleGenerator] by (auto simp: sampleConfig_def)

section \<open>Properties\<close>

text \<open>
  C7: In a configuration generated for an accepted VirtualServer with accepted VirtualServerRoutes
  every location either proxies to an upstream that the configuration itself declares, over HTTP
  or HTTPS, or goes to the internal server for redirects and canned responses; none is left
  without a destination, and none names an upstream of another object.
\<close>

theorem proxied_upstreams_declared:
  assumes "acceptedEx vsv vsEx" and "GenerateVirtualServerConfig vsEx apResources vsc = Some (cfg, ws, vsc')"
  shows "list_all (proxiedTo (set (map u2Name (vcUpstreams cfg)))) (svLocations (vcServer cfg))"
proof -
  from assms(2) obtain ssl po sp vsc1 b where b: "buildVirtualServer vsEx po sp vsc1 = Some b"
    and cfg: "cfg = virtualServerConfigOf (vxVirtualServer vsEx) ssl sp b" by (rule GenerateVirtualServerConfig_build)
  show ?thesis using proxied_build [OF assms(1) b] by (simp add: cfg build_upstreams(1) [OF b] list_all_iff del: set_map)
qed

theorem proxied_upstreams_declared_witness:
  "list_all (proxiedTo (set (map u2Name (vcUpstreams sampleConfig)))) (svLocations (vcServer sampleConfig))"
proof -
  obtain ws vsc where "GenerateVirtualServerConfig sampleEx [] sampleGenerator = Some (sampleConfig, ws, vsc)"
    using sampleConfig_generated by blast
  from proxied_upstreams_declared [OF sampleEx_accepted this] show ?thesis .
qed

text \<open>
  C6: Every name that a generated configuration refers to is defined in it: the destination of an
  internal redirect is the variable of one of its maps or split clients; every value of split
  clients is the path of one of its locations; every result of a map is a constant of a condition,
  a variable of a map or of split clients, or the path of a location; and a page for errors is a
  return location, an error page location (those a VirtualServerRoute inherits from the
  VirtualServer included), or the URL of a redirect of the input.
\<close>

theorem internal_targets_defined:
  assumes "GenerateVirtualServerConfig vsEx apResources vsc = Some (cfg, ws, vsc')"
  shows "redirectsDefined (svInternalRedirectLocations (vcServer cfg)) (vcMaps cfg) (vcSplitClients cfg)
    \<and> splitsDefined (vcSplitClients cfg) (svLocations (vcServer cfg))
    \<and> resultsDefined (vcMaps cfg) (vcSplitClients cfg) (svLocations (vcServer cfg))
    \<and> pagesDefined (redirectURLs vsEx) (svLocations (vcServer cfg)) (svReturnLocations (vcServer cfg)) (svErrorPageLocations (vcServer cfg))"
proof -
  from assms obtain ssl po sp vsc1 b where b: "buildVirtualServer vsEx po sp vsc1 = Some b"
    and cfg: "cfg = virtualServerConfigOf (vxVirtualServer vsEx) ssl sp b" by (rule GenerateVirtualServerConfig_build)
  show ?thesis using wired_build [OF b] by (simp add: cfg wired_def)
qed

theorem internal_targets_defined_witness:
  "resultsDefined (vcMaps sampleConfig) (vcSplitClients sampleConfig) (svLocations (vcServer sampleConfig))
    \<and> redirectsDefined (svInternalRedirectLocations (vcServer sampleConfig)) (vcMaps sampleConfig) (vcSplitClients sampleConfig)"
proof -
  obtain ws vsc where "GenerateVirtualServerConfig sampleEx [] sampleGenerator = Some (sampleConfig, ws, vsc)"
    using sampleConfig_generated by blast
  from internal_targets_defined [OF this] show ?thesis by blast
qed

text \<open>
  C12: The names that a generated configuration declares are distinct: the variables of its maps and
  split clients, its return locations and its error page locations in any case, and its upstreams
  if the input is accepted, no VirtualServerRoute occurs in it twice, and the names of Kubernetes
  objects have no underscore.
\<close>

theorem generated_names_distinct:
  assumes "GenerateVirtualServerConfig vsEx apResources vsc = Some (cfg, ws, vsc')" and "acceptedEx vsv vsEx"
    and "distinct (map vsrKey (vxVirtualServerRoutes vsEx))" and "list_all plainVsr (vxVirtualServerRoutes vsEx)"
  shows "distinct (map mpVariable (vcMaps cfg) @ map spcVariable (vcSplitClients cfg))
    \<and> distinct (map rlName (svReturnLocations (vcServer cfg)))
    \<and> distinct (map elName (svErrorPageLocations (vcServer cfg)))
    \<and> distinct (map u2Name (vcUpstreams cfg))"
proof -
  let ?namer = "newVariableNamer (vxVirtualServer vsEx)"
  from assms(1) obtain ssl po sp vsc1 b where b: "buildVirtualServer vsEx po sp vsc1 = Some b"
    and cfg: "cfg = virtualServerConfigOf (vxVirtualServer vsEx) ssl sp b" by (rule GenerateVirtualServerConfig_build)
  have n: "splitVariables ?namer 0 (vbSplitClients b)" "map rlName (vbReturnLocations b) = map returnName [0..<length (vbReturnLocations b)]"
    "distinct (map mpVariable (vbMaps b))" "\<forall>m\<in>set (vbMaps b). \<exists>i<vbMatchesRoutes b. matchVariable ?namer i (mpVariable m)"
    "distinct (map elName (vbErrorPageLocations b))"
    using named_build [OF b] by (simp_all add: named_def Let_def)
  have "distinct (map spcVariable (vbSplitClients b))"
    using n(1) by (simp add: splitVariables_def distinct_map inj_on_def splitVariable_inject)
  moreover have "mpVariable m \<noteq> GetNameForSplitClientVariable ?namer i" if "m \<in> set (vbMaps b)" for m i
    using n(4) that splitVariable_not_matches unfolding matchVariable_def by metis
  then have "set (map mpVariable (vbMaps b)) \<inter> set (map spcVariable (vbSplitClients b)) = {}"
    using n(1) by (auto simp: splitVariables_def simp del: upt_Suc)
  moreover have "distinct (map rlName (vbReturnLocations b))"
    unfolding n(2) by (simp add: distinct_map inj_on_def returnName_inject)
  moreover have "distinct (map u2Name (vbUpstreams b))"
    unfolding build_upstreams(1) [OF b] using declared_names_distinct assms(2,3,4) .
  ultimately show ?thesis using n(3,5) by (simp add: cfg)
qed

theorem generated_names_distinct_witness:
  "distinct (map mpVariable (vcMaps sampleConfig) @ map spcVariable (vcSplitClients sampleConfig))
    \<and> distinct (map u2Name (vcUpstreams sampleConfig))"
proof -
  obtain ws vsc where g: "GenerateVirtualServerConfig sampleEx [] sampleGenerator = Some (sampleConfig, ws, vsc)"
    using sampleConfig_generated by blast
  have "distinct (map vsrKey (vxVirtualServerRoutes sampleEx))" "list_all plainVsr (vxVirtualServerRoutes sampleEx)"
    by (simp_all add: sampleEx_def plainVsr_def noUnderscore_def cafeRoute_def sampleMeta_def)
  from generated_names_distinct [OF g sampleEx_accepted this] show ?thesis by blast
qed

end
