(* ===== verification/VS_Matches.thy ===== *)
theory VS_Matches
  imports VS_Config_Properties
begin

text \<open>
  What the maps of a route with matches compute. NGINX evaluates variables per request; its
  documented rules for \<open>map\<close> are stated as hypotheses on an evaluation \<open>ev\<close> of texts and on the
  relation \<open>covers\<close> between the parameter of a map and a value. The variable of the main map is
  then the target of the first match whose conditions all hold.
\<close>

section \<open>Variables and maps of NGINX\<close>

text \<open>A dollar and word characters.\<close>

definition isVariable :: "string \<Rightarrow> bool" where
  "isVariable v = (case v of c # w \<Rightarrow> c = CHR ''$'' \<and> w \<noteq> [] \<and> list_all isWord w | [] \<Rightarrow> False)"

text \<open>
  A text without variables is itself, a text of variables is what they evaluate to in order, and a
  parameter that starts with a tilde is a regular expression: \<open>~^0*1\<close> with \<open>k\<close> zeros covers the
  values that start with \<open>k\<close> zeros and a one.
\<close>

definition nginxSemantics :: "(string \<Rightarrow> string \<Rightarrow> bool) \<Rightarrow> (string \<Rightarrow> string) \<Rightarrow> bool" where
  "nginxSemantics covers ev =
     ((\<forall>s. CHR ''$'' \<notin> set s \<longrightarrow> ev s = s)
      \<and> (\<forall>vs. list_all isVariable vs \<longrightarrow> ev (concat vs) = concat (map ev vs))
      \<and> (\<forall>k s. covers (''~^'' @ replicate k (CHR ''0'') @ ''1'') s = hasPrefix s (replicate k (CHR ''0'') @ ''1'')))"

text \<open>The first parameter that covers the value of the source, else the default, else nothing.\<close>

definition mapResult :: "(string \<Rightarrow> string \<Rightarrow> bool) \<Rightarrow> (string \<Rightarrow> string) \<Rightarrow> Map2 \<Rightarrow> string" where
  "mapResult covers ev m =
     (case find (\<lambda>p. pmValue p \<noteq> ''default'' \<and> covers (pmValue p) (ev (mpSource m))) (mpParameters m) of
        Some p \<Rightarrow> ev (pmResult p)
      | None \<Rightarrow> (case find (\<lambda>p. pmValue p = ''default'') (mpParameters m) of Some p \<Rightarrow> ev (pmResult p) | None \<Rightarrow> ''''))"

definition obeysMaps :: "(string \<Rightarrow> string \<Rightarrow> bool) \<Rightarrow> (string \<Rightarrow> string) \<Rightarrow> Map2 list \<Rightarrow> bool" where
  "obeysMaps covers ev ms = list_all (\<lambda>m. ev (mpVariable m) = mapResult covers ev m) ms"

section \<open>Conditions\<close>

text \<open>A value as the parameter of a map, and when a condition holds: an exclamation mark negates it.\<close>

definition valueToken :: "string \<Rightarrow> string" where
  "valueToken s = (if s \<in> set specialMapParameters then [CHR 0x5C] @ s else quoted s)"

definition conditionHolds :: "(string \<Rightarrow> string \<Rightarrow> bool) \<Rightarrow> (string \<Rightarrow> string) \<Rightarrow> Condition \<Rightarrow> bool" where
  "conditionHolds covers ev c =
     (let v = ev (getNameForSourceForMatchesRouteMapFromCondition c)
      in case cdValue c of
           x # rest \<Rightarrow> (if x = CHR ''!'' then \<not> covers (valueToken rest) v else covers (valueToken (cdValue c)) v)
         | [] \<Rightarrow> covers (valueToken []) v)"

definition matchHolds :: "(string \<Rightarrow> string \<Rightarrow> bool) \<Rightarrow> (string \<Rightarrow> string) \<Rightarrow> Match \<Rightarrow> bool" where
  "matchHolds covers ev m = list_all (conditionHolds covers ev) (mtConditions m)"

lemma valueToken_not_default: "valueToken s \<noteq> ''default''"
  by (simp add: valueToken_def quoted_def)

lemma generateValue_token:
  "generateValueForMatchesRouteMap s =
     (case s of [] \<Rightarrow> (valueToken [], False) | x # rest \<Rightarrow> if x = CHR ''!'' then (valueToken rest, True) else (valueToken s, False))"
  by (simp add: generateValueForMatchesRouteMap_def valueToken_def specialMapParameters_def Let_def split: list.splits)

lemma conditionMap_result:
  assumes sem: "nginxSemantics covers ev" and obey: "ev (GetNameForVariableForMatchesRouteMap namer i k j) = mapResult covers ev (conditionMap namer i k nc (j, c))"
  shows "ev (GetNameForVariableForMatchesRouteMap namer i k j) =
     (if conditionHolds covers ev c
      then (if Suc j < nc then ev (GetNameForVariableForMatchesRouteMap namer i k (Suc j)) else ''1'') else ''0'')"
proof -
  have plain: "ev ''0'' = ''0''" "ev ''1'' = ''1''" using sem by (simp_all add: nginxSemantics_def)
  show ?thesis
    unfolding obey using plain valueToken_not_default
    by (cases "cdValue c")
      (auto simp: mapResult_def conditionMap_def generateParametersForMatchesRouteMap_def generateValue_token conditionHolds_def Let_def)
qed

text \<open>The chain of the maps of one match is \<open>1\<close> when all its conditions hold, else \<open>0\<close>.\<close>

lemma conditionMaps_chain:
  assumes sem: "nginxSemantics covers ev" and obey: "obeysMaps covers ev (conditionMaps namer i ms)"
    and k: "k < length ms" and j: "j < length (mtConditions (ms ! k))"
  shows "ev (GetNameForVariableForMatchesRouteMap namer i k j) =
     (if list_all (conditionHolds covers ev) (drop j (mtConditions (ms ! k))) then ''1'' else ''0'')"
  using j
proof (induction "length (mtConditions (ms ! k)) - j" arbitrary: j)
  case 0
  then show ?case by simp
next
  case (Suc n)
  let ?cs = "mtConditions (ms ! k)"
  have "conditionMap namer i k (length ?cs) (j, ?cs ! j) \<in> set (conditionMaps namer i ms)"
    unfolding in_conditionMaps using k Suc.prems by blast
  then have "ev (GetNameForVariableForMatchesRouteMap namer i k j) = mapResult covers ev (conditionMap namer i k (length ?cs) (j, ?cs ! j))"
    using obey by (fastforce simp: obeysMaps_def list_all_iff)
  note r = conditionMap_result [OF sem this]
  have drop: "drop j ?cs = ?cs ! j # drop (Suc j) ?cs" using Suc.prems by (simp add: Cons_nth_drop_Suc)
  show ?case
  proof (cases "Suc j < length ?cs")
    case True
    then have "ev (GetNameForVariableForMatchesRouteMap namer i k (Suc j)) =
        (if list_all (conditionHolds covers ev) (drop (Suc j) ?cs) then ''1'' else ''0'')"
      using Suc.hyps by simp
    then show ?thesis unfolding r drop using True by simp
  next
    case False
    then show ?thesis unfolding r drop by simp
  qed
qed

section \<open>The main map\<close>

lemma fmtNat_word: "list_all isWord (fmtNat n)"
  using fmtNat_digits [of n] by (simp add: list_all_iff isWord_def isAlnum_def)

lemma variables_are_variables:
  assumes "list_all isWord (vnSafeNsName namer)"
  shows "isVariable (GetNameForVariableForMatchesRouteMap namer i k j)"
  using assms fmtNat_word by (simp add: isVariable_def GetNameForVariableForMatchesRouteMap_def isWord_def isAlnum_def isLower_def inRange_def)

lemma find_map_Suc: "find P (map Suc xs) = map_option Suc (find (\<lambda>x. P (Suc x)) xs)"
  by (induction xs) simp_all

lemma firstOne:
  "find (\<lambda>j. hasPrefix (concat (map (\<lambda>k. if f k then ''1'' else ''0'') [m..<n])) (replicate j (CHR ''0'') @ ''1'')) [0..<n - m]
    = map_option (\<lambda>k. k - m) (find f [m..<n])"
proof (induction "n - m" arbitrary: m)
  case 0
  then show ?case by simp
next
  case (Suc d)
  then have mn: "m < n" and d: "d = n - Suc m" by simp_all
  have upt: "[m..<n] = m # [Suc m..<n]" using mn by (simp add: upt_conv_Cons)
  have idx: "[0..<n - m] = 0 # map Suc [0..<n - Suc m]" using mn by (simp add: upt_conv_Cons map_Suc_upt Suc_diff_Suc del: upt_Suc)
  let ?bits = "\<lambda>m. concat (map (\<lambda>k. if f k then ''1'' else ''0'') [m..<n])"
  show ?case
  proof (cases "f m")
    case True
    then show ?thesis unfolding upt idx by (simp add: hasPrefix_def)
  next
    case False
    then have "hasPrefix (?bits m) (replicate (Suc j) (CHR ''0'') @ ''1'') = hasPrefix (?bits (Suc m)) (replicate j (CHR ''0'') @ ''1'')" for j
      unfolding upt by (simp add: hasPrefix_def)
    moreover have "\<not> hasPrefix (?bits m) ''1''" using False unfolding upt by (simp add: hasPrefix_def)
    ultimately have "find (\<lambda>j. hasPrefix (?bits m) (replicate j (CHR ''0'') @ ''1'')) [0..<n - m]
        = map_option Suc (find (\<lambda>j. hasPrefix (?bits (Suc m)) (replicate j (CHR ''0'') @ ''1'')) [0..<n - Suc m])"
      unfolding idx by (simp add: find_map_Suc)
    also have "\<dots> = map_option Suc (map_option (\<lambda>k. k - Suc m) (find f [Suc m..<n]))" using Suc.hyps(1) [OF d] by simp
    also have "\<dots> = map_option (\<lambda>k. k - m) (find f [m..<n])"
      using False unfolding upt by (auto simp: find_Some_iff option.map_comp intro!: option.map_cong0)
    finally show ?thesis .
  qed
qed

text \<open>The target of the first match that holds, as the generator names it.\<close>

definition targetOf :: "variableNamer \<Rightarrow> nat \<Rightarrow> nat \<Rightarrow> Route \<Rightarrow> nat option \<Rightarrow> string" where
  "targetOf namer i sci r k =
     (case k of
        Some k \<Rightarrow> targetName namer (sci + splitsBefore k (rtMatches r)) (matchPath i k) (mtSplits (rtMatches r ! k))
      | None \<Rightarrow> targetName namer (sci + splitsBefore (length (rtMatches r)) (rtMatches r)) (defaultPath i) (rtSplits r))"

definition firstMatch :: "(string \<Rightarrow> string \<Rightarrow> bool) \<Rightarrow> (string \<Rightarrow> string) \<Rightarrow> Match list \<Rightarrow> nat option" where
  "firstMatch covers ev ms = find (\<lambda>k. matchHolds covers ev (ms ! k)) [0..<length ms]"

lemma mainMap_result:
  assumes sem: "nginxSemantics covers ev" and word: "list_all isWord (vnSafeNsName namer)"
    and obey: "obeysMaps covers ev (conditionMaps namer i (rtMatches r) @ [mainMap namer i sci r])"
    and conds: "\<forall>m\<in>set (rtMatches r). mtConditions m \<noteq> []"
  shows "ev (GetNameForVariableForMatchesRouteMainMap namer i) = ev (targetOf namer i sci r (firstMatch covers ev (rtMatches r)))"
proof -
  let ?ms = "rtMatches r"
  let ?holds = "\<lambda>k. matchHolds covers ev (?ms ! k)"
  let ?bits = "concat (map (\<lambda>k. if ?holds k then ''1'' else ''0'') [0..<length ?ms])"
  let ?p = "\<lambda>j. \<lparr>pmValue = ''~^'' @ replicate j (CHR ''0'') @ ''1'',
      pmResult = targetName namer (sci + splitsBefore j ?ms) (matchPath i j) (mtSplits (?ms ! j))\<rparr>"
  have obey': "obeysMaps covers ev (conditionMaps namer i ?ms)" using obey by (simp add: obeysMaps_def)
  have bit: "ev (GetNameForVariableForMatchesRouteMap namer i k 0) = (if ?holds k then ''1'' else ''0'')" if "k < length ?ms" for k
    using conditionMaps_chain [OF sem obey' that, of 0] conds that by (simp add: matchHolds_def)
  have "ev (mpSource (mainMap namer i sci r)) = concat (map (\<lambda>k. ev (GetNameForVariableForMatchesRouteMap namer i k 0)) [0..<length ?ms])"
    using sem variables_are_variables [OF word] by (simp add: nginxSemantics_def mainMap_eq list_all_iff o_def)
  also have "\<dots> = ?bits" using bit by (intro arg_cong [where f = concat] map_cong) simp_all
  finally have source: "ev (mpSource (mainMap namer i sci r)) = ?bits" .
  have regex: "covers (pmValue (?p j)) ?bits = hasPrefix ?bits (replicate j (CHR ''0'') @ ''1'')" for j
    using sem by (simp add: nginxSemantics_def)
  let ?isDefault = "\<lambda>p. pmValue p = ''default''"
  let ?dflt = "\<lparr>pmValue = ''default'', pmResult = targetName namer (sci + splitsBefore (length ?ms) ?ms) (defaultPath i) (rtSplits r)\<rparr>"
  have params: "mpParameters (mainMap namer i sci r) = map ?p [0..<length ?ms] @ [?dflt]" by (simp add: mainMap_eq)
  have "find (\<lambda>p. \<not> ?isDefault p \<and> covers (pmValue p) ?bits) (map ?p js) = map_option ?p (find (\<lambda>j. hasPrefix ?bits (replicate j (CHR ''0'') @ ''1'')) js)" for js
    by (induction js) (use regex in simp_all)
  moreover have "find (\<lambda>j. hasPrefix ?bits (replicate j (CHR ''0'') @ ''1'')) [0..<length ?ms] = firstMatch covers ev ?ms"
    using firstOne [of ?holds 0 "length ?ms"] by (simp add: firstMatch_def option.map_ident)
  ultimately have first: "find (\<lambda>p. \<not> ?isDefault p \<and> covers (pmValue p) ?bits) (map ?p [0..<length ?ms]) = map_option ?p (firstMatch covers ev ?ms)"
    by simp
  have app: "find P (xs @ [x]) = (case find P xs of Some y \<Rightarrow> Some y | None \<Rightarrow> if P x then Some x else None)" for P xs and x :: Parameter
    by (induction xs) simp_all
  have dflt: "find ?isDefault (map ?p js) = None" for js by (induction js) simp_all
  have "ev (GetNameForVariableForMatchesRouteMainMap namer i) = mapResult covers ev (mainMap namer i sci r)"
    using obey by (simp add: obeysMaps_def mainMap_eq)
  also have "\<dots> = ev (targetOf namer i sci r (firstMatch covers ev ?ms))"
    unfolding mapResult_def source params app first dflt
    by (cases "firstMatch covers ev ?ms") (simp_all add: targetOf_def)
  finally show ?thesis .
qed

section \<open>Routes of the configuration\<close>

text \<open>What one route adds stays in the finished build.\<close>

definition grows :: "vsBuild \<Rightarrow> vsBuild \<Rightarrow> bool" where
  "grows b b' =
     (set (vbMaps b) \<subseteq> set (vbMaps b') \<and> set (vbLocations b) \<subseteq> set (vbLocations b')
      \<and> set (vbInternalRedirectLocations b) \<subseteq> set (vbInternalRedirectLocations b')
      \<and> set (vbReturnLocations b) \<subseteq> set (vbReturnLocations b') \<and> set (vbSplitClients b) \<subseteq> set (vbSplitClients b'))"

lemma grows_refl: "grows b b"
  by (simp add: grows_def)

lemma grows_trans: "grows a b \<Longrightarrow> grows b c \<Longrightarrow> grows a c"
  unfolding grows_def by blast

lemma extends_grows: "extends parts pol els b b' \<Longrightarrow> grows b b'"
  by (auto simp: extends_def grows_def)

lemma addRoute_grows: "addRoute vsEx po oidc r b = Some b' \<Longrightarrow> grows b b'"
  by (cases "rtRoute r = ''''") (use addRoute_placed placedRoute_def extends_grows addRoute_reference in \<open>metis+\<close>)

lemma addSubroute_grows: "addSubroute vsEx po oidc vsr r b = Some b' \<Longrightarrow> grows b b'"
  using addSubroute_placed extends_grows unfolding placedRoute_def by meson

lemma foldOpt_grows:
  assumes "\<forall>x s s'. f x s = Some s' \<longrightarrow> grows s s'" and "foldOpt f xs s = Some s'"
  shows "grows s s'"
  using assms(2)
proof (induction xs arbitrary: s)
  case (Cons x xs)
  then obtain s1 where "f x s = Some s1" "foldOpt f xs s1 = Some s'" by (auto split: option.splits)
  then show ?case using Cons.IH assms(1) grows_trans by blast
qed (simp add: grows_refl)

lemma foldOpt_grows_at:
  assumes "\<forall>x s s'. f x s = Some s' \<longrightarrow> grows s s'" and "foldOpt f xs s = Some s'" and "x \<in> set xs"
  shows "\<exists>s1 s2. f x s1 = Some s2 \<and> grows s2 s'"
  using assms(2,3)
proof (induction xs arbitrary: s)
  case (Cons y xs)
  then obtain s1 where "f y s = Some s1" "foldOpt f xs s1 = Some s'" by (auto split: option.splits)
  show ?case
  proof (cases "x = y")
    case True
    have "grows s1 s'" using foldOpt_grows [OF assms(1) \<open>foldOpt f xs s1 = Some s'\<close>] .
    then show ?thesis using True \<open>f y s = Some s1\<close> by blast
  next
    case False
    then show ?thesis using Cons.IH [OF \<open>foldOpt f xs s1 = Some s'\<close>] Cons.prems(2) by simp
  qed
qed simp

lemma build_contains:
  assumes build: "buildVirtualServer vsEx po sp vsc = Some b" and r: "(namer, r) \<in> generatedRoutes vsEx"
  obtains pages idx b1 b2 where "placedRoute (vxVirtualServer vsEx) namer pages idx r b1 b2" "grows b2 b"
proof -
  let ?s = "addUpstreams vsEx (startBuild vsc (pcLimitReqZones sp))"
  from build obtain c where c: "foldOpt (addRoute vsEx po (pcOIDC sp)) (vssRoutes (vsSpec (vxVirtualServer vsEx))) ?s = Some c"
    and b: "foldOpt (\<lambda>vsr. foldOpt (addSubroute vsEx po (pcOIDC sp) vsr) (vrsSubroutes (vsrSpec vsr))) (vxVirtualServerRoutes vsEx) c = Some b"
    by (auto simp: buildVirtualServer_def split: option.splits)
  have outer: "\<forall>x s s'. addRoute vsEx po (pcOIDC sp) x s = Some s' \<longrightarrow> grows s s'"
    by (intro allI impI) (rule addRoute_grows)
  have step: "\<forall>x s s'. addSubroute vsEx po (pcOIDC sp) vsr x s = Some s' \<longrightarrow> grows s s'" for vsr
    by (intro allI impI) (rule addSubroute_grows)
  have inner: "\<forall>vsr s s'. foldOpt (addSubroute vsEx po (pcOIDC sp) vsr) (vrsSubroutes (vsrSpec vsr)) s = Some s' \<longrightarrow> grows s s'"
    by (intro allI impI) (rule foldOpt_grows [OF step])
  from r consider (vs) "namer = newUpstreamNamerForVirtualServer (vxVirtualServer vsEx)"
      "r \<in> set (vssRoutes (vsSpec (vxVirtualServer vsEx)))" "rtRoute r = ''''"
    | (vsr) vsr where "namer = newUpstreamNamerForVirtualServerRoute (vxVirtualServer vsEx) vsr"
        "vsr \<in> set (vxVirtualServerRoutes vsEx)" "r \<in> set (vrsSubroutes (vsrSpec vsr))"
    unfolding generatedRoutes_def by blast
  then show ?thesis
  proof cases
    case vs
    obtain b1 b2 where "addRoute vsEx po (pcOIDC sp) r b1 = Some b2" "grows b2 c"
      using foldOpt_grows_at [OF outer c vs(2)] by blast
    moreover have "grows c b" using foldOpt_grows [OF inner b] .
    ultimately show ?thesis using that addRoute_placed vs(1,3) grows_trans by blast
  next
    case vsr
    obtain s1 s2 where s: "foldOpt (addSubroute vsEx po (pcOIDC sp) vsr) (vrsSubroutes (vsrSpec vsr)) s1 = Some s2" "grows s2 b"
      using foldOpt_grows_at [OF inner b vsr(2)] by blast
    obtain b1 b2 where "addSubroute vsEx po (pcOIDC sp) vsr r b1 = Some b2" "grows b2 s2"
      using foldOpt_grows_at [OF step s(1) vsr(3)] by blast
    then show ?thesis using that addSubroute_placed vsr(1) s(2) grows_trans by blast
  qed
qed

text \<open>A route with matches in the finished build: its maps, its redirect and the targets behind it.\<close>

lemma build_matches:
  assumes build: "buildVirtualServer vsEx po sp vsc = Some b" and r: "(namer, r) \<in> generatedRoutes vsEx" and ms: "rtMatches r \<noteq> []"
  obtains rc i sci n cfg pol where "generateMatchesConfig rc r i sci n = Some cfg" "rtxUpstreamNamer rc = namer"
    "rtxVariableNamer rc = newVariableNamer (vxVirtualServer vsEx)"
    "set (rcMaps cfg) \<subseteq> set (vbMaps b)" "rcInternalRedirectLocation cfg \<in> set (vbInternalRedirectLocations b)"
    "addPoliciesCfgToLocation pol ` set (rcLocations cfg) \<subseteq> set (vbLocations b)"
    "set (rcReturnLocations cfg) \<subseteq> set (vbReturnLocations b)" "set (rcSplitClients cfg) \<subseteq> set (vbSplitClients b)"
proof -
  obtain pages idx b1 b2 where p: "placedRoute (vxVirtualServer vsEx) namer pages idx r b1 b2" and g: "grows b2 b"
    using build_contains [OF build r] .
  from p obtain rc ns pol els parts where rc: "rtxUpstreamNamer rc = namer" "rtxVariableNamer rc = newVariableNamer (vxVirtualServer vsEx)"
    and parts: "routePartsOf rc ns r (vbMatchesRoutes b1) (length (vbSplitClients b1)) (length (vbReturnLocations b1)) = Some parts"
    and ext: "extends parts pol els b1 b2"
    unfolding placedRoute_def by blast
  from parts ms obtain cfg where cfg: "generateMatchesConfig rc r (vbMatchesRoutes b1) (length (vbSplitClients b1)) (length (vbReturnLocations b1)) = Some cfg"
    and parts_eq: "parts = partsOfCfg 1 cfg"
    by (auto simp: routePartsOf_def)
  have "set (rcMaps cfg) \<subseteq> set (vbMaps b)" "rcInternalRedirectLocation cfg \<in> set (vbInternalRedirectLocations b)"
    "addPoliciesCfgToLocation pol ` set (rcLocations cfg) \<subseteq> set (vbLocations b)"
    "set (rcReturnLocations cfg) \<subseteq> set (vbReturnLocations b)" "set (rcSplitClients cfg) \<subseteq> set (vbSplitClients b)"
    using ext g by (auto simp: extends_def grows_def parts_eq partsOfCfg_def)
  then show ?thesis using that [OF cfg rc] by blast
qed

section \<open>What serves a request\<close>

text \<open>
  A location performs an action: it redirects, returns the body of a return location, or passes the
  request to the upstream of the action.
\<close>

definition cannedPage :: "Location \<Rightarrow> string \<Rightarrow> int \<Rightarrow> bool" where
  "cannedPage loc name code =
     (locInternalProxyPass loc = ''http://'' @ nginx418Server
      \<and> locErrorPages loc = [\<lparr>ep2Name = name, ep2Codes = ''418'', ep2ResponseCode = code\<rparr>])"

definition performs :: "upstreamNamer \<Rightarrow> ReturnLocation list \<Rightarrow> Action \<Rightarrow> Location \<Rightarrow> bool" where
  "performs namer rets a loc =
     (case acRedirect a of
        Some redirect \<Rightarrow> cannedPage loc (arURL redirect) (if arCode redirect = 0 then 301 else arCode redirect)
      | None \<Rightarrow>
          (case acReturn a of
             Some ret \<Rightarrow> (\<exists>rl\<in>set rets. reText (rlReturn rl) = atBody ret
               \<and> cannedPage loc (rlName rl) (if atCode ret = 0 then 200 else atCode ret))
           | None \<Rightarrow> (\<exists>tls. locProxyPass loc = generateProxyPass tls (GetNameForUpstreamFromAction namer a) True (acProxy a))))"

text \<open>A destination leads to an action, or to split clients with a location for each of the splits.\<close>

definition performedAt :: "upstreamNamer \<Rightarrow> Server \<Rightarrow> Action option \<Rightarrow> string \<Rightarrow> bool" where
  "performedAt namer server action p =
     (\<exists>a loc. action = Some a \<and> loc \<in> set (svLocations server) \<and> locPath loc = p \<and> performs namer (svReturnLocations server) a loc)"

definition leadsTo :: "(string \<Rightarrow> string) \<Rightarrow> upstreamNamer \<Rightarrow> VirtualServerConfig \<Rightarrow> string \<Rightarrow> Action option \<Rightarrow> Split list \<Rightarrow> bool" where
  "leadsTo ev namer cfg destination action splits =
     (if splits = [] then performedAt namer (vcServer cfg) action destination
      else \<exists>sc\<in>set (vcSplitClients cfg). destination = ev (spcVariable sc)
             \<and> list_all2 (\<lambda>s d. dsWeight d = itoa (spWeight s) @ ''%'' \<and> performedAt namer (vcServer cfg) (spAction s) (dsValue d))
                 splits (spcDistributions sc))"

lemma locationOf_performs:
  assumes "locationOf rc p True a rets loc"
  shows "performs (rtxUpstreamNamer rc) rets a loc"
proof -
  from assms obtain ssl original n rl where
    g: "generateLocation (rtxLocation rc) p (GetNameForUpstreamFromAction (rtxUpstreamNamer rc) a)
          (upstreamOf (rtxCrUpstreams rc) (GetNameForUpstreamFromAction (rtxUpstreamNamer rc) a)) a True ssl original n = Some (loc, rl)"
    and rl: "set_option rl \<subseteq> set rets"
    unfolding locationOf_def by blast
  show ?thesis
  proof (cases "acRedirect a")
    case (Some redirect)
    then show ?thesis using g
      by (auto simp: generateLocation_def Let_def performs_def cannedPage_def generateLocationForRedirect_def emptyLocation_def)
  next
    case redirect: None
    show ?thesis
    proof (cases "acReturn a")
      case (Some ret)
      define made where "made = generateLocationForReturn p (cpLocationSnippets (lcCfgParams (rtxLocation rc))) ret n"
      have "loc = fst made" "snd made \<in> set rets"
        using g rl redirect Some by (auto simp: generateLocation_def Let_def made_def split: prod.splits)
      moreover have "reText (rlReturn (snd made)) = atBody ret"
        "cannedPage (fst made) (rlName (snd made)) (if atCode ret = 0 then 200 else atCode ret)"
        by (simp_all add: made_def generateLocationForReturn_def cannedPage_def emptyLocation_def Let_def)
      ultimately show ?thesis unfolding performs_def using redirect Some by auto
    next
      case None
      then show ?thesis using g redirect
        by (auto simp: generateLocation_def Let_def performs_def generateLocationForProxying_def)
    qed
  qed
qed

lemma performs_mono: "performs namer rets a loc \<Longrightarrow> set rets \<subseteq> set rets' \<Longrightarrow> performs namer rets' a loc"
  unfolding performs_def by (auto split: option.splits)

lemma performs_policies [simp]: "performs namer rets a (addPoliciesCfgToLocation pol loc) = performs namer rets a loc"
  by (simp add: performs_def cannedPage_def addPoliciesCfgToLocation_def split: option.splits)

lemma locPath_policies [simp]: "locPath (addPoliciesCfgToLocation pol loc) = locPath loc"
  by (simp add: addPoliciesCfgToLocation_def)

lemma performedAt_served:
  assumes "locationOf rc p True a rets loc" and "rtxUpstreamNamer rc = namer" and "locPath loc = p" and "action = Some a"
    and "addPoliciesCfgToLocation pol loc \<in> set (svLocations server)" and "set rets \<subseteq> set (svReturnLocations server)"
  shows "performedAt namer server action p"
proof -
  have "performs namer (svReturnLocations server) a (addPoliciesCfgToLocation pol loc)"
    using performs_mono [OF locationOf_performs [OF assms(1)] assms(6)] assms(2) by simp
  then show ?thesis unfolding performedAt_def using assms(3-5) locPath_policies by blast
qed

text \<open>Paths of internal locations have no variables.\<close>

lemma paths_plain: "CHR ''$'' \<notin> set (matchPath i k)" "CHR ''$'' \<notin> set (defaultPath i)"
proof -
  have "CHR ''$'' \<notin> set (fmtNat n)" for n using fmtNat_word [of n] by (auto simp: list_all_iff isWord_def isAlnum_def isLower_def isUpper_def isDigit_def inRange_def)
  then show "CHR ''$'' \<notin> set (matchPath i k)" "CHR ''$'' \<notin> set (defaultPath i)"
    by (simp_all add: matchPath_def defaultPath_def internalLocationPrefix_def)
qed


text \<open>The targets of a route with matches, in the finished configuration.\<close>

lemma targetServed_leads:
  assumes served: "targetServed rc sci p action splits locs rets scs" and namer: "rtxUpstreamNamer rc = namer"
    and locs: "addPoliciesCfgToLocation pol ` set locs \<subseteq> set (svLocations (vcServer cfg))"
    and rets: "set rets \<subseteq> set (svReturnLocations (vcServer cfg))" and scs: "set scs \<subseteq> set (vcSplitClients cfg)"
    and plain: "ev p = p"
  shows "leadsTo ev namer cfg (ev (targetName (rtxVariableNamer rc) sci p splits)) action splits"
proof (cases "splits = []")
  case True
  then obtain a loc where a: "action = Some a" "loc \<in> set locs" "locPath loc = p" "locationOf rc p True a rets loc"
    using served unfolding targetServed_def by auto
  have "addPoliciesCfgToLocation pol loc \<in> set (svLocations (vcServer cfg))" using locs a(2) by blast
  from performedAt_served [OF a(4) namer a(3,1) this rets] show ?thesis using True plain by (simp add: leadsTo_def targetName_def)
next
  case False
  then obtain sc ls where sc: "sc \<in> set scs" "spcVariable sc = GetNameForSplitClientVariable (rtxVariableNamer rc) sci"
      "spcDistributions sc = map (splitDistribution sci) (enumerate 0 splits)"
    and ls: "set ls \<subseteq> set locs" "splitsServed rc splits sci ls rets"
    using served unfolding targetServed_def by auto
  have len: "length ls = length splits" using ls(2) unfolding splitsServed_def by (auto dest: list_all2_lengthD)
  have at: "performedAt namer (vcServer cfg) (spAction (splits ! i)) (splitPath sci i)" if i: "i < length splits" for i
  proof -
    obtain a where a: "locPath (ls ! i) = splitPath sci i" "spAction (splits ! i) = Some a"
        "locationOf rc (splitPath sci i) True a rets (ls ! i)"
      using list_all2_nthD [OF ls(2) [unfolded splitsServed_def], of i] i by (auto simp: nth_enumerate_eq)
    have "ls ! i \<in> set ls" using i len by simp
    then have "addPoliciesCfgToLocation pol (ls ! i) \<in> addPoliciesCfgToLocation pol ` set locs" using ls(1) by (intro imageI) (rule subsetD)
    then have "addPoliciesCfgToLocation pol (ls ! i) \<in> set (svLocations (vcServer cfg))" by (rule subsetD [OF locs])
    from performedAt_served [OF a(3) namer a(1,2) this rets] show ?thesis .
  qed
  have "list_all2 (\<lambda>s d. dsWeight d = itoa (spWeight s) @ ''%'' \<and> performedAt namer (vcServer cfg) (spAction s) (dsValue d))
      splits (spcDistributions sc)"
    unfolding sc(3) list_all2_conv_all_nth using at by (simp add: nth_enumerate_eq splitDistribution_def)
  moreover have "ev (targetName (rtxVariableNamer rc) sci p splits) = ev (spcVariable sc)" using False sc(2) by (simp add: targetName_def)
  moreover have "sc \<in> set (vcSplitClients cfg)" using sc(1) scs by blast
  ultimately show ?thesis unfolding leadsTo_def if_not_P [OF False] by (intro bexI [of _ sc] conjI)
qed

lemma accepted_matches:
  assumes "acceptedEx vsv vsEx" and "(namer, r) \<in> generatedRoutes vsEx"
  shows "\<forall>m\<in>set (rtMatches r). mtConditions m \<noteq> []"
proof
  obtain names q forbidden ns where v: "validateRoute vsv r q names forbidden ns = []" using accepted_route [OF assms] .
  fix m assume "m \<in> set (rtMatches r)"
  then obtain i where "(i, m) \<in> set (enumerate 0 (rtMatches r))" by (auto simp: in_enumerate in_set_conv_nth [of m])
  with v have "validateMatch vsv m (pathIndex (child q ''matches'') i) names (rtPath r) = []" by (force simp: validateRoute_def)
  then show "mtConditions m \<noteq> []" by (auto simp: validateMatch_def split: if_splits)
qed

text \<open>The action or the splits that a request is for: those of the first match that holds, else those of the route.\<close>

definition chosen :: "(string \<Rightarrow> string \<Rightarrow> bool) \<Rightarrow> (string \<Rightarrow> string) \<Rightarrow> Route \<Rightarrow> Action option \<times> Split list" where
  "chosen covers ev r =
     (case find (matchHolds covers ev) (rtMatches r) of
        Some m \<Rightarrow> (mtAction m, mtSplits m)
      | None \<Rightarrow> (rtAction r, rtSplits r))"

lemma find_nth: "find P xs = map_option ((!) xs) (find (\<lambda>k. P (xs ! k)) [0..<length xs])"
proof (induction xs)
  case (Cons x xs)
  have "[0..<length (x # xs)] = 0 # map Suc [0..<length xs]" by (simp add: upt_conv_Cons map_Suc_upt del: upt_Suc)
  then show ?case using Cons by (simp add: find_map_Suc option.map_comp o_def del: upt_Suc)
qed simp


section \<open>The maps of a build\<close>

lemma placedRoute_maps:
  assumes "placedRoute vs namer pages idx r b b'"
  shows "vbMaps b' = vbMaps b @
    (if rtMatches r = [] then []
     else conditionMaps (newVariableNamer vs) (vbMatchesRoutes b) (rtMatches r)
       @ [mainMap (newVariableNamer vs) (vbMatchesRoutes b) (length (vbSplitClients b)) r])"
proof -
  from assms obtain rc ns pol els parts where rc: "rtxVariableNamer rc = newVariableNamer vs"
    and parts: "routePartsOf rc ns r (vbMatchesRoutes b) (length (vbSplitClients b)) (length (vbReturnLocations b)) = Some parts"
    and ext: "extends parts pol els b b'"
    unfolding placedRoute_def by blast
  show ?thesis
  proof (cases "rtMatches r = []")
    case True
    then show ?thesis using ext routePartsOf_effect(6) [OF parts] by (simp add: extends_def routeVariables_def)
  next
    case False
    then obtain cfg where cfg: "generateMatchesConfig rc r (vbMatchesRoutes b) (length (vbSplitClients b)) (length (vbReturnLocations b)) = Some cfg"
      and parts_eq: "parts = partsOfCfg 1 cfg"
      using parts by (auto simp: routePartsOf_def)
    show ?thesis using False ext generateMatchesConfig_effect(1) [OF cfg] rc by (simp add: extends_def parts_eq partsOfCfg_def)
  qed
qed

lemma sampleConfig_maps:
  "vcMaps sampleConfig = conditionMaps (newVariableNamer matchCafe) 0 sampleMatches
     @ [mainMap (newVariableNamer matchCafe) 0 0 ((sampleRoute ''/tea'')\<lparr>rtMatches := sampleMatches, rtAction := Some sampleReturn\<rparr>)]"
proof -
  let ?vs = "vxVirtualServer sampleEx"
  let ?tea = "(sampleRoute ''/tea'')\<lparr>rtMatches := sampleMatches, rtAction := Some sampleReturn\<rparr>"
  let ?coffee = "(sampleRoute ''/coffee'')\<lparr>rtAction := Some (samplePass ''coffee''), rtErrorPages := Some [samplePage]\<rparr>"
  let ?green = "(sampleRoute ''/tea/green'')\<lparr>rtRoute := ''tea'', rtErrorPages := Some [samplePage]\<rparr>"
  let ?sub = "(sampleRoute ''/tea/green'')\<lparr>rtSplits := sampleSplits\<rparr>"
  obtain ws vsc where "GenerateVirtualServerConfig sampleEx [] sampleGenerator = Some (sampleConfig, ws, vsc)"
    using sampleConfig_generated by blast
  then obtain ssl po sp vsc1 b where b: "buildVirtualServer sampleEx po sp vsc1 = Some b"
    and cfg: "sampleConfig = virtualServerConfigOf ?vs ssl sp b" by (rule GenerateVirtualServerConfig_build)
  define s where "s = addUpstreams sampleEx (startBuild vsc1 (pcLimitReqZones sp))"
  have s: "vbMaps s = []" "vbMatchesRoutes s = 0" "vbSplitClients s = []"
    using addUpstreams_pieces [of "startBuild vsc1 (pcLimitReqZones sp)" sampleEx] by (simp_all add: s_def samePieces_def startBuild_def)
  have vs: "?vs = matchCafe" "vxVirtualServerRoutes sampleEx = [cafeRoute]" by (simp_all add: sampleEx_def)
  have routes: "vssRoutes (vsSpec matchCafe) = [?tea, ?coffee, ?green]" "vrsSubroutes (vsrSpec cafeRoute) = [?sub]"
    by (simp_all add: matchCafe_def cafeRoute_def)
  from b obtain b1 b2 b3 where 1: "addRoute sampleEx po (pcOIDC sp) ?tea s = Some b1"
    and 2: "addRoute sampleEx po (pcOIDC sp) ?coffee b1 = Some b2" and 3: "addRoute sampleEx po (pcOIDC sp) ?green b2 = Some b3"
    and 4: "addSubroute sampleEx po (pcOIDC sp) cafeRoute ?sub b3 = Some b"
    unfolding buildVirtualServer_def vs routes s_def [symmetric] by (auto split: option.splits simp: vs routes)
  have "vbMaps b1 = conditionMaps (newVariableNamer matchCafe) 0 sampleMatches @ [mainMap (newVariableNamer matchCafe) 0 0 ?tea]"
    using placedRoute_maps [OF conjunct1 [OF addRoute_placed [OF 1]]] by (simp add: s vs sampleRoute_def sampleMatches_def)
  moreover have "vbMaps b2 = vbMaps b1"
    using placedRoute_maps [OF conjunct1 [OF addRoute_placed [OF 2]]] by (simp add: sampleRoute_def)
  moreover have "vbMaps b3 = vbMaps b2"
    by (rule addRoute_reference [OF 3]) (simp_all add: sampleRoute_def extends_def noParts_def)
  moreover have "vbMaps b = vbMaps b3"
    using addSubroute_placed [OF 4] by (auto dest: placedRoute_maps simp: sampleRoute_def)
  ultimately show ?thesis by (simp add: cfg virtualServerConfigOf_def Let_def)
qed

section \<open>A sample of the semantics of NGINX\<close>

text \<open>Variables are replaced from an environment; a parameter is a regular expression or the value itself.\<close>

function expandVariables :: "(string \<Rightarrow> string) \<Rightarrow> string \<Rightarrow> string" where
  "expandVariables env [] = []"
| "expandVariables env (c # s) =
     (if c = CHR ''$'' then env (takeWhile isWord s) @ expandVariables env (dropWhile isWord s) else c # expandVariables env s)"
  by pat_completeness auto

termination expandVariables
  by (relation "measure (length \<circ> snd)") (auto simp: le_imp_less_Suc length_dropWhile_le)

definition coversText :: "string \<Rightarrow> string \<Rightarrow> bool" where
  "coversText p v = (if hasPrefix p ''~^'' then hasPrefix v (drop 2 p) else p = valueToken v)"

lemma expandVariables_plain: "CHR ''$'' \<notin> set s \<Longrightarrow> expandVariables env s = s"
  by (induction env s rule: expandVariables.induct) auto

lemma expandVariables_variable:
  assumes "isVariable v" and "s = [] \<or> (\<exists>t. s = CHR ''$'' # t)"
  shows "expandVariables env (v @ s) = expandVariables env v @ expandVariables env s"
proof -
  from assms(1) obtain w where w: "v = CHR ''$'' # w" "list_all isWord w" by (auto simp: isVariable_def split: list.splits)
  have "\<not> isWord (CHR ''$'')" by (simp add: isWord_def isAlnum_def isLower_def isUpper_def isDigit_def inRange_def)
  then have "takeWhile isWord (w @ s) = w" "dropWhile isWord (w @ s) = s" "takeWhile isWord w = w" "dropWhile isWord w = []"
    using w(2) assms(2) by (auto simp: list_all_iff takeWhile_append dropWhile_append)
  then show ?thesis by (simp add: w(1) del: takeWhile_eq_all_conv dropWhile_eq_Nil_conv dropWhile_eq_self_iff)
qed

lemma sample_semantics: "nginxSemantics coversText (expandVariables env)"
proof -
  have vars: "expandVariables env (concat vs) = concat (map (expandVariables env) vs)" if "list_all isVariable vs" for vs
    using that
  proof (induction vs)
    case (Cons v vs)
    have "concat vs = [] \<or> (\<exists>t. concat vs = CHR ''$'' # t)"
      using Cons.prems by (cases vs) (auto simp: isVariable_def split: list.splits)
    then show ?case using Cons expandVariables_variable [of v "concat vs" env] by simp
  qed simp
  show ?thesis unfolding nginxSemantics_def using expandVariables_plain vars by (auto simp: coversText_def hasPrefix_def)
qed


section \<open>Properties\<close>

text \<open>
  C5: A request for a route with matches is served by the first match whose conditions all hold,
  and by the action or the splits of the route if there is none: if NGINX obeys the maps of the
  generated configuration, then the internal redirect of the path of the route leads to a location
  that performs the chosen action, or to split clients with the chosen weights and a location that
  performs the action of each split. The words of the names of Kubernetes are assumed to have no dot.
\<close>

theorem first_match_served:
  assumes generated: "GenerateVirtualServerConfig vsEx apResources vsc = Some (cfg, ws, vsc')" and ok: "acceptedEx vsv vsEx"
    and r: "(namer, r) \<in> generatedRoutes vsEx" and matches: "rtMatches r \<noteq> []"
    and word: "list_all isWord (vnSafeNsName (newVariableNamer (vxVirtualServer vsEx)))"
    and sem: "nginxSemantics covers ev" and obey: "obeysMaps covers ev (vcMaps cfg)"
  shows "\<exists>irl. irl \<in> set (svInternalRedirectLocations (vcServer cfg)) \<and> irlPath irl = rtPath r
    \<and> leadsTo ev namer cfg (ev (irlDestination irl)) (fst (chosen covers ev r)) (snd (chosen covers ev r))"
proof -
  from generated obtain ssl po sp vsc1 b where build: "buildVirtualServer vsEx po sp vsc1 = Some b"
    and cfg: "cfg = virtualServerConfigOf (vxVirtualServer vsEx) ssl sp b" by (rule GenerateVirtualServerConfig_build)
  obtain rc i sci n rcfg pol where g: "generateMatchesConfig rc r i sci n = Some rcfg" and rc: "rtxUpstreamNamer rc = namer"
      "rtxVariableNamer rc = newVariableNamer (vxVirtualServer vsEx)"
    and b: "set (rcMaps rcfg) \<subseteq> set (vbMaps b)" "rcInternalRedirectLocation rcfg \<in> set (vbInternalRedirectLocations b)"
      "addPoliciesCfgToLocation pol ` set (rcLocations rcfg) \<subseteq> set (vbLocations b)"
      "set (rcReturnLocations rcfg) \<subseteq> set (vbReturnLocations b)" "set (rcSplitClients rcfg) \<subseteq> set (vbSplitClients b)"
    using build_matches [OF build r matches] .
  have cfg_eqs: "vcMaps cfg = vbMaps b" "svInternalRedirectLocations (vcServer cfg) = vbInternalRedirectLocations b"
    "svLocations (vcServer cfg) = vbLocations b" "svReturnLocations (vcServer cfg) = vbReturnLocations b" "vcSplitClients cfg = vbSplitClients b"
    by (simp_all add: cfg virtualServerConfigOf_def Let_def)
  note leads = targetServed_leads [where cfg = cfg, unfolded cfg_eqs, OF _ rc(1) b(3,4,5)]
  note e = generateMatchesConfig_effect [OF g]
  let ?namer = "rtxVariableNamer rc"
  let ?k = "firstMatch covers ev (rtMatches r)"
  have "obeysMaps covers ev (conditionMaps ?namer i (rtMatches r) @ [mainMap ?namer i sci r])"
    using obey b(1) unfolding e(1) cfg_eqs obeysMaps_def list_all_iff by blast
  from mainMap_result [OF sem _ this accepted_matches [OF ok r]] word
  have main: "ev (irlDestination (rcInternalRedirectLocation rcfg)) = ev (targetOf ?namer i sci r ?k)" by (simp add: rc(2) e(2))
  have plain: "ev p = p" if "CHR ''$'' \<notin> set p" for p using sem that by (simp add: nginxSemantics_def)
  have "leadsTo ev namer cfg (ev (targetOf ?namer i sci r ?k)) (fst (chosen covers ev r)) (snd (chosen covers ev r))"
  proof (cases ?k)
    case None
    then have "chosen covers ev r = (rtAction r, rtSplits r)" by (simp add: chosen_def find_nth [of _ "rtMatches r"] firstMatch_def)
    then show ?thesis using leads [OF e(6)] plain paths_plain(2) by (simp add: targetOf_def None)
  next
    case (Some k)
    then have k: "k < length (rtMatches r)" by (auto simp: firstMatch_def find_Some_iff)
    have "chosen covers ev r = (mtAction (rtMatches r ! k), mtSplits (rtMatches r ! k))"
      using Some by (simp add: chosen_def find_nth [of _ "rtMatches r"] firstMatch_def)
    then show ?thesis using leads [OF e(5) [OF k]] plain paths_plain(1) by (simp add: targetOf_def Some)
  qed
  with main b(2) show ?thesis unfolding cfg_eqs by (intro exI [of _ "rcInternalRedirectLocation rcfg"]) (simp add: e(2))
qed


text \<open>A request with the header \<open>x-version: v2\<close> and a cookie of another user than \<open>john\<close>.\<close>

definition sampleEnv :: "string \<Rightarrow> string" where
  "sampleEnv w =
     (case map_of
        [(''http_x_version'', ''v2''), (''cookie_user'', ''jane''),
         (''vs_n_cafe_matches_0_match_0_cond_0'', ''1''), (''vs_n_cafe_matches_0_match_0_cond_1'', ''1''),
         (''vs_n_cafe_matches_0_match_1_cond_0'', ''0''), (''vs_n_cafe_matches_0'', ''/internal_location_matches_0_match_0'')] w of
        Some v \<Rightarrow> v
      | None \<Rightarrow> '''')"

lemma sample_obeys: "obeysMaps coversText (expandVariables sampleEnv) (vcMaps sampleConfig)"
  unfolding sampleConfig_maps by code_simp

theorem first_match_served_witness:
  "\<exists>irl. irl \<in> set (svInternalRedirectLocations (vcServer sampleConfig)) \<and> irlPath irl = ''/tea''
    \<and> leadsTo (expandVariables sampleEnv) (newUpstreamNamerForVirtualServer matchCafe) sampleConfig
        (expandVariables sampleEnv (irlDestination irl)) (Some (samplePass ''tea'')) []"
proof -
  let ?r = "(sampleRoute ''/tea'')\<lparr>rtMatches := sampleMatches, rtAction := Some sampleReturn\<rparr>"
  obtain ws vsc where g: "GenerateVirtualServerConfig sampleEx [] sampleGenerator = Some (sampleConfig, ws, vsc)"
    using sampleConfig_generated by blast
  have r: "(newUpstreamNamerForVirtualServer matchCafe, ?r) \<in> generatedRoutes sampleEx"
    by (simp add: generatedRoutes_def sampleEx_def matchCafe_def sampleRoute_def)
  have ms: "rtMatches ?r \<noteq> []" by (simp add: sampleMatches_def)
  have word: "list_all isWord (vnSafeNsName (newVariableNamer (vxVirtualServer sampleEx)))" by code_simp
  have chosen: "chosen coversText (expandVariables sampleEnv) ?r = (Some (samplePass ''tea''), [])" by code_simp
  from first_match_served [OF g sampleEx_accepted r ms word sample_semantics sample_obeys] show ?thesis
    unfolding chosen by (simp add: sampleRoute_def)
qed


end
