(* ===== verification/Cluster.thy ===== *)
theory Cluster
  imports VS_Upstreams Ingress_Validation
begin

text \<open>
  How the controller reads the cluster (\<open>internal/k8s/utils.go\<close> and \<open>controller.go\<close>): the objects of
  the Kubernetes core API that it reads, with the fields it reads, and the searches for services,
  ports, pods and endpoints. The caches of the client library are the fields of a record: what a
  cache returns for a key, with a namespace and a selector, or as its list. The messages of
  errors are constructors with the arguments of the message.
\<close>

section \<open>Objects of the core API\<close>

record ServicePort =
  svpName :: string
  svpProtocol :: string
  svpPort :: int
  svpTargetPort :: IntOrString

record Service =
  svcMeta :: ObjectMeta
  svcType :: string
  svcExternalName :: string
  svcClusterIP :: string
  svcPorts :: "ServicePort list"
  svcSelector :: "string gomap"

record HTTPHeader =
  hhName :: string
  hhValue :: string

record HTTPGetAction =
  hgPath :: string
  hgScheme :: string
  hgHTTPHeaders :: "HTTPHeader list"

record Probe =
  pbHTTPGet :: "HTTPGetAction option"
  pbTimeoutSeconds :: int
  pbPeriodSeconds :: int
  pbSuccessThreshold :: int
  pbFailureThreshold :: int

record ContainerPort =
  cprName :: string
  cprContainerPort :: int
  cprProtocol :: string

record Container =
  ctPorts :: "ContainerPort list"
  ctReadinessProbe :: "Probe option"

record OwnerReference =
  owKind :: string
  owName :: string
  owController :: "bool option"

record Pod =
  pdMeta :: ObjectMeta
  pdLabels :: "string gomap"
  pdOwnerReferences :: "OwnerReference list"
  pdContainers :: "Container list"
  pdPodIP :: string

record ObjectReference =
  orNamespace :: string
  orName :: string

record EndpointAddress =
  eaIP :: string
  eaTargetRef :: "ObjectReference option"

record EndpointPort =
  eptPort :: int

record EndpointSubset =
  esAddresses :: "EndpointAddress list"
  esPorts :: "EndpointPort list"

record Endpoints =
  enMeta :: ObjectMeta
  enSubsets :: "EndpointSubset list"

section \<open>Caches and errors\<close>

text \<open>The flags of the controller.\<close>

record controllerFlags =
  kcIsNginxPlus :: bool
  kcIsPrometheusEnabled :: bool
  kcIsLatencyMetricsEnabled :: bool
  kcAppProtectEnabled :: bool
  kcEnablePreviewPolicies :: bool
  kcIngressClass :: string
  kcUseIngressClassOnly :: bool
  kcDefaultServerSecret :: string
  kcWildcardTLSSecret :: string

record listers =
  lsServiceByKey :: "string \<Rightarrow> string + Service option"
  lsPodByKey :: "string \<Rightarrow> string + Pod option"
  lsPods :: "string \<Rightarrow> string gomap \<Rightarrow> string + Pod list"
  lsEndpoints :: "Endpoints list"
  lsPolicyByKey :: "string \<Rightarrow> string + Policy option"
  lsPolicies :: "Policy list"

datatype lookupError =
  ListerError string
| ServiceDoesNotExist string
| NoEndpointsForService string
| NoSuitablePort string
| NoPodsOfService string
| PodInformation string
| NamedPortNotFound ServicePort string lookupError
| TargetPortUnknown string lookupError
| NoPortInService string string
| NoEndpointsForTargetPort int string
| ExternalNameNeedsPlus
| ErrorGettingService string lookupError
| ErrorRetrievingEndpoints string lookupError
| ErrorGettingPods string "string gomap" string

text \<open>An \<open>int\<close> as \<open>int32\<close>, and the two readings of \<open>IntOrString\<close>: a text is parsed, and 0 if it is no number.\<close>

definition toInt32 :: "int \<Rightarrow> int" where
  "toInt32 i = sint (word_of_int i :: 32 word)"

definition IntValue :: "IntOrString \<Rightarrow> int" where
  "IntValue v = (case v of IntVal i \<Rightarrow> i | StrVal s \<Rightarrow> goAtoiValue s)"

definition intOrStringText :: "IntOrString \<Rightarrow> string" where
  "intOrStringText v = (case v of IntVal i \<Rightarrow> itoa i | StrVal s \<Rightarrow> s)"

section \<open>Searches (utils.go)\<close>

definition GetServiceEndpoints :: "listers \<Rightarrow> Service \<Rightarrow> lookupError + Endpoints" where
  "GetServiceEndpoints ls svc =
     (case find (\<lambda>ep. omName (svcMeta svc) = omName (enMeta ep) \<and> omNamespace (svcMeta svc) = omNamespace (enMeta ep)) (lsEndpoints ls) of
        Some ep \<Rightarrow> Inr ep
      | None \<Rightarrow> Inl (NoEndpointsForService (omName (svcMeta svc))))"

definition findPort :: "Pod \<Rightarrow> ServicePort \<Rightarrow> lookupError + int" where
  "findPort pod svcPort =
     (case svpTargetPort svcPort of
        StrVal name \<Rightarrow>
          (case find (\<lambda>port. cprName port = name \<and> cprProtocol port = svpProtocol svcPort) (concat (map ctPorts (pdContainers pod))) of
             Some port \<Rightarrow> Inr (cprContainerPort port)
           | None \<Rightarrow> Inl (NoSuitablePort (omUID (pdMeta pod))))
      | IntVal i \<Rightarrow> Inr (toInt32 (IntValue (IntVal i))))"

section \<open>Services and their ports (controller.go)\<close>

definition getServiceForIngressBackend :: "listers \<Rightarrow> IngressBackend \<Rightarrow> string \<Rightarrow> lookupError + Service" where
  "getServiceForIngressBackend ls backend namespace =
     (let svcKey = namespace @ ''/'' @ ibServiceName backend
      in case lsServiceByKey ls svcKey of
           Inl err \<Rightarrow> Inl (ListerError err)
         | Inr (Some svc) \<Rightarrow> Inr svc
         | Inr None \<Rightarrow> Inl (ServiceDoesNotExist svcKey))"

definition getServiceForUpstream :: "listers \<Rightarrow> string \<Rightarrow> string \<Rightarrow> 16 word \<Rightarrow> lookupError + Service" where
  "getServiceForUpstream ls namespace upstreamService upstreamPort =
     getServiceForIngressBackend ls \<lparr>ibServiceName = upstreamService, ibServicePort = IntVal (uint upstreamPort)\<rparr> namespace"

definition portMatches :: "IntOrString \<Rightarrow> ServicePort \<Rightarrow> bool" where
  "portMatches ingSvcPort port =
     (case ingSvcPort of
        IntVal i \<Rightarrow> svpPort port = toInt32 (IntValue ingSvcPort)
      | StrVal s \<Rightarrow> svpName port = intOrStringText ingSvcPort)"

definition getServicePortForIngressPort :: "IntOrString \<Rightarrow> Service \<Rightarrow> ServicePort option" where
  "getServicePortForIngressPort ingSvcPort svc = find (portMatches ingSvcPort) (svcPorts svc)"

definition getTargetPort :: "listers \<Rightarrow> ServicePort \<Rightarrow> Service \<Rightarrow> lookupError + int" where
  "getTargetPort ls svcPort svc =
     (if svpTargetPort svcPort = IntVal 0 then Inr (svpPort svcPort)
      else case svpTargetPort svcPort of
          IntVal i \<Rightarrow> Inr (toInt32 (IntValue (IntVal i)))
        | StrVal s \<Rightarrow>
            (case lsPods ls (omNamespace (svcMeta svc)) (svcSelector svc) of
               Inl err \<Rightarrow> Inl (PodInformation err)
             | Inr [] \<Rightarrow> Inl (NoPodsOfService (omName (svcMeta svc)))
             | Inr (pod # pods) \<Rightarrow>
                 (case findPort pod svcPort of
                    Inl err \<Rightarrow> Inl (NamedPortNotFound svcPort (omName (pdMeta pod)) err)
                  | Inr portNum \<Rightarrow> Inr portNum)))"

section \<open>Endpoints\<close>

record podEndpoint =
  peAddress :: string
  pePodName :: string
  peMeshPodOwner :: MeshPodOwner

definition getIPAddressesFromEndpoints :: "podEndpoint list \<Rightarrow> string list" where
  "getIPAddressesFromEndpoints endpoints = map peAddress endpoints"

definition lowerText :: "string \<Rightarrow> string" where
  "lowerText s = map toLowerByte s"

fun podOwner :: "string \<Rightarrow> OwnerReference list \<Rightarrow> string \<times> string \<Rightarrow> string \<times> string" where
  "podOwner templateHash [] acc = acc"
| "podOwner templateHash (owner # owners) (parentType, parentName) =
     (let controls = (owController owner = Some True);
          parentType' = (if controls \<and> owKind owner \<in> {''StatefulSet'', ''DaemonSet''} then lowerText (owKind owner) else parentType);
          parentName' = (if controls \<and> owKind owner = ''ReplicaSet'' \<and> hasSuffix (owName owner) templateHash
                         then trimSuffix (owName owner) (''-'' @ templateHash) else owName owner)
      in podOwner templateHash owners (parentType', parentName'))"

definition getPodOwnerTypeAndName :: "Pod \<Rightarrow> string \<times> string" where
  "getPodOwnerTypeAndName pod =
     podOwner (case gget (pdLabels pod) ''pod-template-hash'' of None \<Rightarrow> '''' | Some h \<Rightarrow> h) (pdOwnerReferences pod) (''deployment'', '''')"

definition getPodOwnerTypeAndNameFromAddress :: "listers \<Rightarrow> string \<Rightarrow> string \<Rightarrow> string \<times> string" where
  "getPodOwnerTypeAndNameFromAddress ls ns name =
     (case lsPodByKey ls (ns @ ''/'' @ name) of
        Inr (Some pod) \<Rightarrow> getPodOwnerTypeAndName pod
      | _ \<Rightarrow> ('''', ''''))"

definition getPodName :: "ObjectReference option \<Rightarrow> string" where
  "getPodName pod = (case pod of Some r \<Rightarrow> orName r | None \<Rightarrow> '''')"

definition addressEndpoint :: "listers \<Rightarrow> int \<Rightarrow> EndpointAddress \<Rightarrow> podEndpoint" where
  "addressEndpoint ls port address =
     (let addr = eaIP address @ '':'' @ itoa port
      in case eaTargetRef address of
           None \<Rightarrow> \<lparr>peAddress = addr, pePodName = '''', peMeshPodOwner = \<lparr>moOwnerType = '''', moOwnerName = ''''\<rparr>\<rparr>
         | Some r \<Rightarrow>
             (case getPodOwnerTypeAndNameFromAddress ls (orNamespace r) (orName r) of
                (parentType, parentName) \<Rightarrow>
                  \<lparr>peAddress = addr, pePodName = orName r,
                   peMeshPodOwner = \<lparr>moOwnerType = parentType, moOwnerName = parentName\<rparr>\<rparr>))"

text \<open>The first subset with the port gives the endpoints; a target port of 0 is no port.\<close>

definition getEndpointsForPort :: "listers \<Rightarrow> Endpoints \<Rightarrow> IntOrString \<Rightarrow> Service \<Rightarrow> lookupError + podEndpoint list" where
  "getEndpointsForPort ls endps ingSvcPort svc =
     (case (case find (portMatches ingSvcPort) (svcPorts svc) of
              None \<Rightarrow> Inr 0
            | Some port \<Rightarrow> getTargetPort ls port svc) of
        Inl err \<Rightarrow> Inl (TargetPortUnknown (intOrStringText ingSvcPort) err)
      | Inr targetPort \<Rightarrow>
          (if targetPort = 0 then Inl (NoPortInService (intOrStringText ingSvcPort) (omName (svcMeta svc)))
           else case find (\<lambda>sub. \<exists>port\<in>set (esPorts sub). eptPort port = targetPort) (enSubsets endps) of
               Some sub \<Rightarrow> Inr (map (addressEndpoint ls targetPort) (esAddresses sub))
             | None \<Rightarrow> Inl (NoEndpointsForTargetPort targetPort (omName (svcMeta svc)))))"

definition getExternalEndpointsForIngressBackend :: "IngressBackend \<Rightarrow> Service \<Rightarrow> podEndpoint list" where
  "getExternalEndpointsForIngressBackend backend svc =
     [\<lparr>peAddress = svcExternalName svc @ '':'' @ itoa (toInt32 (IntValue (ibServicePort backend))), pePodName = '''',
       peMeshPodOwner = \<lparr>moOwnerType = '''', moOwnerName = ''''\<rparr>\<rparr>]"

text \<open>The endpoints, and whether the service is external.\<close>

definition getEndpointsForIngressBackend ::
    "controllerFlags \<Rightarrow> listers \<Rightarrow> IngressBackend \<Rightarrow> Service \<Rightarrow> lookupError + podEndpoint list \<times> bool" where
  "getEndpointsForIngressBackend fl ls backend svc =
     (case GetServiceEndpoints ls svc of
        Inl err \<Rightarrow>
          (if svcType svc = ''ExternalName''
           then if \<not> kcIsNginxPlus fl then Inl ExternalNameNeedsPlus
                else Inr (getExternalEndpointsForIngressBackend backend svc, True)
           else Inl err)
      | Inr endps \<Rightarrow>
          (case getEndpointsForPort ls endps (ibServicePort backend) svc of
             Inl err \<Rightarrow> Inl err
           | Inr result \<Rightarrow> Inr (result, False)))"

definition getEndpointsForUpstream ::
    "controllerFlags \<Rightarrow> listers \<Rightarrow> string \<Rightarrow> string \<Rightarrow> 16 word \<Rightarrow> lookupError + podEndpoint list \<times> bool" where
  "getEndpointsForUpstream fl ls namespace upstreamService upstreamPort =
     (case getServiceForUpstream ls namespace upstreamService upstreamPort of
        Inl err \<Rightarrow> Inl (ErrorGettingService upstreamService err)
      | Inr svc \<Rightarrow>
          (case getEndpointsForIngressBackend fl ls
                  \<lparr>ibServiceName = upstreamService, ibServicePort = IntVal (uint upstreamPort)\<rparr> svc of
             Inl err \<Rightarrow> Inl (ErrorRetrievingEndpoints upstreamService err)
           | Inr r \<Rightarrow> Inr r))"

section \<open>Endpoints of selected pods\<close>

definition getEndpointsBySubselectedPods :: "int \<Rightarrow> Pod list \<Rightarrow> Endpoints \<Rightarrow> podEndpoint list" where
  "getEndpointsBySubselectedPods targetPort pods svcEps =
     concat (map (\<lambda>pod. concat (map (\<lambda>sub. concat (map (\<lambda>port.
         if eptPort port \<noteq> targetPort then []
         else map (\<lambda>address. \<lparr>peAddress = pdPodIP pod @ '':'' @ itoa targetPort, pePodName = getPodName (eaTargetRef address),
                  peMeshPodOwner = (case getPodOwnerTypeAndName pod of (t, n) \<Rightarrow> \<lparr>moOwnerType = t, moOwnerName = n\<rparr>)\<rparr>)
                (filter (\<lambda>address. eaIP address = pdPodIP pod) (esAddresses sub)))
       (esPorts sub))) (enSubsets svcEps))) pods)"

text \<open>\<open>labels.Merge\<close>: the labels of the second set win.\<close>

definition mergeLabels :: "string gomap \<Rightarrow> string gomap \<Rightarrow> string gomap" where
  "mergeLabels labels1 labels2 = fold (\<lambda>(k, v). gput k v) labels2 (fold (\<lambda>(k, v). gput k v) labels1 [])"

definition getEndpointsForServiceWithSubselector ::
    "listers \<Rightarrow> int \<Rightarrow> string gomap \<Rightarrow> Service \<Rightarrow> lookupError + podEndpoint list" where
  "getEndpointsForServiceWithSubselector ls targetPort subselector svc =
     (let selector = mergeLabels (svcSelector svc) subselector
      in case lsPods ls (omNamespace (svcMeta svc)) selector of
           Inl err \<Rightarrow> Inl (ErrorGettingPods (omNamespace (svcMeta svc)) selector err)
         | Inr pods \<Rightarrow>
             (case GetServiceEndpoints ls svc of
                Inl err \<Rightarrow> Inl err
              | Inr svcEps \<Rightarrow> Inr (getEndpointsBySubselectedPods targetPort pods svcEps)))"

definition getEndpointsForSubselector :: "listers \<Rightarrow> string \<Rightarrow> Upstream \<Rightarrow> lookupError + podEndpoint list" where
  "getEndpointsForSubselector ls namespace upstream =
     (case getServiceForUpstream ls namespace (uService upstream) (uPort upstream) of
        Inl err \<Rightarrow> Inl (ErrorGettingService (uService upstream) err)
      | Inr svc \<Rightarrow>
          (case (case find (\<lambda>port. svpPort port = uint (uPort upstream)) (svcPorts svc) of
                   None \<Rightarrow> Inr 0
                 | Some port \<Rightarrow> getTargetPort ls port svc) of
             Inl err \<Rightarrow> Inl (TargetPortUnknown (itoa (uint (uPort upstream))) err)
           | Inr targetPort \<Rightarrow>
               (if targetPort = 0 then Inl (NoPortInService (itoa (uint (uPort upstream))) (omName (svcMeta svc)))
                else case getEndpointsForServiceWithSubselector ls targetPort (sliceOf (uSubselector upstream)) svc of
                    Inl err \<Rightarrow> Inl (ErrorRetrievingEndpoints (uService upstream) err)
                  | Inr endps \<Rightarrow> Inr endps)))"

section \<open>Health checks of pods\<close>

definition compareContainerPortAndServicePort :: "ContainerPort \<Rightarrow> ServicePort \<Rightarrow> bool" where
  "compareContainerPortAndServicePort containerPort svcPort =
     (if svpTargetPort svcPort = IntVal 0 then svpPort svcPort > 0 \<and> svpPort svcPort = cprContainerPort containerPort
      else case svpTargetPort svcPort of
          StrVal s \<Rightarrow> s = cprName containerPort \<and> svpProtocol svcPort = cprProtocol containerPort
        | IntVal i \<Rightarrow> i > 0 \<and> i = cprContainerPort containerPort)"

definition usefulProbe :: "ServicePort \<Rightarrow> Container \<Rightarrow> Probe option" where
  "usefulProbe svcPort container =
     (if (\<exists>port\<in>set (ctPorts container). compareContainerPortAndServicePort port svcPort)
      then case ctReadinessProbe container of
             Some probe \<Rightarrow> (if pbHTTPGet probe \<noteq> None \<and> pbPeriodSeconds probe > 0 then Some probe else None)
           | None \<Rightarrow> None
      else None)"

fun firstProbe :: "ServicePort \<Rightarrow> Container list \<Rightarrow> Probe option" where
  "firstProbe svcPort [] = None"
| "firstProbe svcPort (container # containers) =
     (case usefulProbe svcPort container of Some probe \<Rightarrow> Some probe | None \<Rightarrow> firstProbe svcPort containers)"

definition findProbeForPods :: "Pod list \<Rightarrow> ServicePort \<Rightarrow> Probe option" where
  "findProbeForPods pods svcPort = (case pods of [] \<Rightarrow> None | pod # _ \<Rightarrow> firstProbe svcPort (pdContainers pod))"

definition getHealthChecksForIngressBackend :: "listers \<Rightarrow> IngressBackend \<Rightarrow> string \<Rightarrow> Probe option" where
  "getHealthChecksForIngressBackend ls backend namespace =
     (case getServiceForIngressBackend ls backend namespace of
        Inl _ \<Rightarrow> None
      | Inr svc \<Rightarrow>
          (case getServicePortForIngressPort (ibServicePort backend) svc of
             None \<Rightarrow> None
           | Some svcPort \<Rightarrow>
               (case lsPods ls (omNamespace (svcMeta svc)) (svcSelector svc) of
                  Inl _ \<Rightarrow> None
                | Inr pods \<Rightarrow> findProbeForPods pods svcPort)))"

end
