(* ===== verification/Ingress_Config_Types.thy ===== *)
theory Ingress_Config_Types
  imports Cluster
begin

text \<open>
  The data of the generator of the configuration of Ingresses: the structs of
  \<open>internal/configs/version1/config.go\<close> that the templates print, and its inputs (\<open>IngressEx\<close>,
  \<open>MergeableIngresses\<close>). A struct of package \<open>version1\<close> whose name is taken has the suffix 1.
\<close>

section \<open>Package version1\<close>

record UpstreamLabels1 =
  ul1Service :: string
  ul1ResourceType :: string
  ul1ResourceName :: string
  ul1ResourceNamespace :: string

record Ingress1 =
  ig1Name :: string
  ig1Namespace :: string
  ig1Annotations :: "string gomap"

record UpstreamServer1 =
  us1Address :: string
  us1Port :: string
  us1MaxFails :: int
  us1MaxConns :: int
  us1FailTimeout :: string
  us1SlowStart :: string
  us1Resolve :: bool

record Upstream1 =
  u1Name :: string
  u1UpstreamServers :: "UpstreamServer1 list"
  u1StickyCookie :: string
  u1LBMethod :: string
  u1Queue :: int
  u1QueueTimeout :: int
  u1UpstreamZoneSize :: string
  u1UpstreamLabels :: UpstreamLabels1

record HealthCheck1 =
  hc1UpstreamName :: string
  hc1URI :: string
  hc1Interval :: int
  hc1Fails :: int
  hc1Passes :: int
  hc1Scheme :: string
  hc1Mandatory :: bool
  hc1Headers :: "string gomap"
  hc1TimeoutSeconds :: int

record JWTRedirectLocation =
  jrName :: string
  jrLoginURL :: string

record JWTAuth1 =
  j1Key :: string
  j1Realm :: string
  j1Token :: string
  j1RedirectLocationName :: string

record Location1 =
  l1LocationSnippets :: "string list"
  l1Path :: string
  l1Upstream :: Upstream1
  l1ProxyConnectTimeout :: string
  l1ProxyReadTimeout :: string
  l1ProxySendTimeout :: string
  l1ClientMaxBodySize :: string
  l1Websocket :: bool
  l1Rewrite :: string
  l1SSL :: bool
  l1GRPC :: bool
  l1ProxyBuffering :: bool
  l1ProxyBuffers :: string
  l1ProxyBufferSize :: string
  l1ProxyMaxTempFileSize :: string
  l1ProxySSLName :: string
  l1JWTAuth :: "JWTAuth1 option"
  l1ServiceName :: string
  l1MinionIngress :: "Ingress1 option"

record Server1 =
  s1ServerSnippets :: "string list"
  s1Name :: string
  s1ServerTokens :: string
  s1Locations :: "Location1 list"
  s1SSL :: bool
  s1SSLCertificate :: string
  s1SSLCertificateKey :: string
  s1SSLCiphers :: string
  s1TLSPassthrough :: bool
  s1GRPCOnly :: bool
  s1StatusZone :: string
  s1HTTP2 :: bool
  s1RedirectToHTTPS :: bool
  s1SSLRedirect :: bool
  s1ProxyProtocol :: bool
  s1HSTS :: bool
  s1HSTSMaxAge :: int
  s1HSTSIncludeSubdomains :: bool
  s1HSTSBehindProxy :: bool
  s1ProxyHideHeaders :: "string list"
  s1ProxyPassHeaders :: "string list"
  s1HealthChecks :: "HealthCheck1 gomap"
  s1RealIPHeader :: string
  s1SetRealIPFrom :: "string list"
  s1RealIPRecursive :: bool
  s1JWTAuth :: "JWTAuth1 option"
  s1JWTRedirectLocations :: "JWTRedirectLocation list"
  s1Ports :: "int list"
  s1SSLPorts :: "int list"
  s1AppProtectEnable :: string
  s1AppProtectPolicy :: string
  s1AppProtectLogConf :: string
  s1AppProtectLogEnable :: string
  s1SpiffeCerts :: bool

record IngressNginxConfig =
  incUpstreams :: "Upstream1 list"
  incServers :: "Server1 list"
  incKeepalive :: string
  incIngress :: Ingress1
  incSpiffeClientCerts :: bool

record MainConfig =
  mcAccessLogOff :: bool
  mcDefaultServerAccessLogOff :: bool
  mcDefaultServerReturn :: string
  mcErrorLogLevel :: string
  mcHealthStatus :: bool
  mcHealthStatusURI :: string
  mcHTTP2 :: bool
  mcHTTPSnippets :: "string list"
  mcKeepaliveRequests :: int
  mcKeepaliveTimeout :: string
  mcLogFormat :: "string list"
  mcLogFormatEscaping :: string
  mcMainSnippets :: "string list"
  mcNginxStatus :: bool
  mcNginxStatusAllowCIDRs :: "string list"
  mcNginxStatusPort :: int
  mcOpenTracingEnabled :: bool
  mcOpenTracingLoadModule :: bool
  mcOpenTracingTracer :: string
  mcOpenTracingTracerConfig :: string
  mcProxyProtocol :: bool
  mcResolverAddresses :: "string list"
  mcResolverIPV6 :: bool
  mcResolverTimeout :: string
  mcResolverValid :: string
  mcRealIPHeader :: string
  mcRealIPRecursive :: bool
  mcSetRealIPFrom :: "string list"
  mcServerNamesHashBucketSize :: string
  mcServerNamesHashMaxSize :: string
  mcServerTokens :: string
  mcSSLCiphers :: string
  mcSSLDHParam :: string
  mcSSLPreferServerCiphers :: bool
  mcSSLProtocols :: string
  mcStreamLogFormat :: "string list"
  mcStreamLogFormatEscaping :: string
  mcStreamSnippets :: "string list"
  mcStubStatusOverUnixSocketForOSS :: bool
  mcTLSPassthrough :: bool
  mcVariablesHashBucketSize :: nat
  mcVariablesHashMaxSize :: nat
  mcWorkerConnections :: string
  mcWorkerCPUAffinity :: string
  mcWorkerProcesses :: string
  mcWorkerRlimitNofile :: string
  mcWorkerShutdownTimeout :: string
  mcAppProtectLoadModule :: bool
  mcAppProtectFailureModeAction :: string
  mcAppProtectCookieSeed :: string
  mcAppProtectCPUThresholds :: string
  mcAppProtectPhysicalMemoryThresholds :: string
  mcInternalRouteServer :: bool
  mcInternalRouteServerName :: string
  mcLatencyMetrics :: bool
  mcPreviewPolicies :: bool

definition NewUpstreamWithDefaultServer :: "string \<Rightarrow> Upstream1" where
  "NewUpstreamWithDefaultServer name =
     \<lparr>u1Name = name,
      u1UpstreamServers = [\<lparr>us1Address = ''127.0.0.1'', us1Port = ''8181'', us1MaxFails = 1, us1MaxConns = 0,
        us1FailTimeout = ''10s'', us1SlowStart = '''', us1Resolve = False\<rparr>],
      u1StickyCookie = '''', u1LBMethod = '''', u1Queue = 0, u1QueueTimeout = 0, u1UpstreamZoneSize = ''256k'',
      u1UpstreamLabels = \<lparr>ul1Service = '''', ul1ResourceType = '''', ul1ResourceName = '''', ul1ResourceNamespace = ''''\<rparr>\<rparr>"

section \<open>Inputs\<close>

record IngressEx =
  ixIngress :: Ingress
  ixEndpoints :: "string list gomap"
  ixHealthChecks :: "Probe gomap"
  ixExternalNameSvcs :: "bool gomap"
  ixPodsByIP :: "PodInfo gomap"
  ixValidHosts :: "bool gomap"
  ixValidMinionPaths :: "bool gomap"
  ixAppProtectPolicy :: "unstructured option"
  ixAppProtectLogConf :: "unstructured option"
  ixAppProtectLogDst :: string
  ixSecretRefs :: "SecretReference gomap"

record MergeableIngresses =
  miMaster :: IngressEx
  miMinions :: "IngressEx list"

end
