(* ===== verification/Controller_Resources.thy ===== *)
theory Controller_Resources
  imports Ingress_Config_Types Resources VS_Config Reference_Checkers "HOL-Library.Monad_Syntax"
begin

text \<open>
  How the controller collects what a resource refers to (\<open>internal/k8s/controller.go\<close>): policies,
  secrets, App Protect resources and endpoints, for a VirtualServer, a TransportServer and an
  Ingress. The store of secrets is passed through, because getting a secret can write its file;
  \<^term>\<open>None\<close> is a panic. Errors that the code only logs are dropped.
\<close>

section \<open>Policies\<close>

text \<open>What the controller has at hand.\<close>

record 'fs controllerEnv =
  keFlags :: controllerFlags
  keListers :: listers
  keNet :: NetLib
  keAppProtect :: APConfiguration
  keSecretManager :: "'fs SecretFileManager"

definition controllerValidatePolicy :: "'fs controllerEnv \<Rightarrow> Policy \<Rightarrow> string option option" where
  "controllerValidatePolicy env pol =
     ValidatePolicy (keNet env) pol (kcIsNginxPlus (keFlags env)) (kcEnablePreviewPolicies (keFlags env)) (kcAppProtectEnabled (keFlags env))"

datatype policyError =
  PolicyLookupFailed string string
| PolicyMissing string
| PolicyInvalid string string

definition createPolicyMap :: "Policy list \<Rightarrow> Policy gomap" where
  "createPolicyMap policies = fold (\<lambda>p. gput (omNamespace (polMeta p) @ ''/'' @ omName (polMeta p)) p) policies []"

fun validPolicies :: "'fs controllerEnv \<Rightarrow> Policy list \<Rightarrow> Policy list option" where
  "validPolicies env [] = Some []"
| "validPolicies env (pol # pols) =
     (case controllerValidatePolicy env pol of
        None \<Rightarrow> None
      | Some err \<Rightarrow> map_option (\<lambda>r. if err = None then pol # r else r) (validPolicies env pols))"

definition getAllPolicies :: "'fs controllerEnv \<Rightarrow> Policy list option" where
  "getAllPolicies env = validPolicies env (lsPolicies (keListers env))"

fun getPolicies :: "'fs controllerEnv \<Rightarrow> PolicyReference list \<Rightarrow> string \<Rightarrow> (Policy list \<times> policyError list) option" where
  "getPolicies env [] ownerNamespace = Some ([], [])"
| "getPolicies env (p # ps) ownerNamespace =
     (let polNamespace = (if prNamespace p = '''' then ownerNamespace else prNamespace p);
          policyKey = polNamespace @ ''/'' @ prName p;
          failed = (\<lambda>e. map_option (\<lambda>(result, errs). (result, e # errs)) (getPolicies env ps ownerNamespace))
      in case lsPolicyByKey (keListers env) policyKey of
           Inl err \<Rightarrow> failed (PolicyLookupFailed policyKey err)
         | Inr None \<Rightarrow> failed (PolicyMissing policyKey)
         | Inr (Some policy) \<Rightarrow>
             (case controllerValidatePolicy env policy of
                None \<Rightarrow> None
              | Some (Some err) \<Rightarrow> failed (PolicyInvalid policyKey err)
              | Some None \<Rightarrow> map_option (\<lambda>(result, errs). (policy # result, errs)) (getPolicies env ps ownerNamespace)))"

definition findPoliciesForSecret :: "Policy list \<Rightarrow> string \<Rightarrow> string \<Rightarrow> Policy list" where
  "findPoliciesForSecret policies secretNamespace secretName =
     filter (\<lambda>pol. let spec = polSpec pol; here = (omNamespace (polMeta pol) = secretNamespace) in
       if (case psIngressMTLS spec of Some im \<Rightarrow> imClientCertSecret im = secretName \<and> here | None \<Rightarrow> False) then True
       else if (case psJWTAuth spec of Some jwt \<Rightarrow> jwtSecret jwt = secretName \<and> here | None \<Rightarrow> False) then True
       else if (case psEgressMTLS spec of Some em \<Rightarrow> emTLSSecret em = secretName \<and> here | None \<Rightarrow> False) then True
       else if (case psEgressMTLS spec of Some em \<Rightarrow> emTrustedCertSecret em = secretName \<and> here | None \<Rightarrow> False) then True
       else (case psOIDC spec of Some oi \<Rightarrow> oiClientSecret oi = secretName \<and> here | None \<Rightarrow> False)) policies"

definition getPoliciesForSecret :: "'fs controllerEnv \<Rightarrow> string \<Rightarrow> string \<Rightarrow> Policy list option" where
  "getPoliciesForSecret env secretNamespace secretName =
     map_option (\<lambda>pols. findPoliciesForSecret pols secretNamespace secretName) (getAllPolicies env)"

definition isMatchingResourceRef :: "string \<Rightarrow> string \<Rightarrow> string \<Rightarrow> bool" where
  "isMatchingResourceRef ownerNs resRef key = ((if CHR ''/'' \<notin> set resRef then ownerNs @ ''/'' @ resRef else resRef) = key)"

definition getWAFPoliciesForAppProtectPolicy :: "Policy list \<Rightarrow> string \<Rightarrow> Policy list" where
  "getWAFPoliciesForAppProtectPolicy pols key =
     filter (\<lambda>pol. case psWAF (polSpec pol) of
         Some waf \<Rightarrow> isMatchingResourceRef (omNamespace (polMeta pol)) (wfApPolicy waf) key
       | None \<Rightarrow> False) pols"

definition getWAFPoliciesForAppProtectLogConf :: "Policy list \<Rightarrow> string \<Rightarrow> Policy list" where
  "getWAFPoliciesForAppProtectLogConf pols key =
     filter (\<lambda>pol. case psWAF (polSpec pol) of
         Some waf \<Rightarrow> (case wfSecurityLog waf of
             Some sl \<Rightarrow> isMatchingResourceRef (omNamespace (polMeta pol)) (slApLogConf sl) key
           | None \<Rightarrow> False)
       | None \<Rightarrow> False) pols"

section \<open>References to secrets\<close>

type_synonym 'fs secretState = "SecretReference gomap \<times> 'fs LocalSecretStore"

text \<open>The reference for a key, put into the map under a name.\<close>

definition takeSecret :: "'fs SecretFileManager \<Rightarrow> string \<Rightarrow> string \<Rightarrow> 'fs secretState \<Rightarrow> (SecretReference \<times> 'fs secretState) option" where
  "takeSecret manager key name st =
     (case st of (refs, store) \<Rightarrow>
        (case GetSecret manager key store of
           None \<Rightarrow> None
         | Some (ref, store') \<Rightarrow> Some (ref, gput name ref refs, store')))"

fun addJWTSecretRefs :: "'fs SecretFileManager \<Rightarrow> Policy list \<Rightarrow> 'fs secretState \<Rightarrow> (string option \<times> 'fs secretState) option" where
  "addJWTSecretRefs manager [] st = Some (None, st)"
| "addJWTSecretRefs manager (pol # pols) st =
     (case psJWTAuth (polSpec pol) of
        None \<Rightarrow> addJWTSecretRefs manager pols st
      | Some jwt \<Rightarrow>
          (let secretKey = omNamespace (polMeta pol) @ ''/'' @ jwtSecret jwt
           in case takeSecret manager secretKey secretKey st of
                None \<Rightarrow> None
              | Some (ref, st') \<Rightarrow> (if srError ref \<noteq> None then Some (srError ref, st') else addJWTSecretRefs manager pols st')))"

fun addIngressMTLSSecretRefs :: "'fs SecretFileManager \<Rightarrow> Policy list \<Rightarrow> 'fs secretState \<Rightarrow> (string option \<times> 'fs secretState) option" where
  "addIngressMTLSSecretRefs manager [] st = Some (None, st)"
| "addIngressMTLSSecretRefs manager (pol # pols) st =
     (case psIngressMTLS (polSpec pol) of
        None \<Rightarrow> addIngressMTLSSecretRefs manager pols st
      | Some im \<Rightarrow>
          (let secretKey = omNamespace (polMeta pol) @ ''/'' @ imClientCertSecret im
           in case takeSecret manager secretKey secretKey st of
                None \<Rightarrow> None
              | Some (ref, st') \<Rightarrow> Some (srError ref, st')))"

text \<open>One of the two secrets of an EgressMTLS policy, when it is named.\<close>

definition takeNamedSecret :: "'fs SecretFileManager \<Rightarrow> string \<Rightarrow> string \<Rightarrow> 'fs secretState \<Rightarrow> (string option \<times> 'fs secretState) option" where
  "takeNamedSecret manager ns name st =
     (if name \<noteq> '''' then
        (let secretKey = ns @ ''/'' @ name
         in case takeSecret manager secretKey secretKey st of None \<Rightarrow> None | Some (ref, st') \<Rightarrow> Some (srError ref, st'))
      else Some (None, st))"

fun addEgressMTLSSecretRefs :: "'fs SecretFileManager \<Rightarrow> Policy list \<Rightarrow> 'fs secretState \<Rightarrow> (string option \<times> 'fs secretState) option" where
  "addEgressMTLSSecretRefs manager [] st = Some (None, st)"
| "addEgressMTLSSecretRefs manager (pol # pols) st =
     (case psEgressMTLS (polSpec pol) of
        None \<Rightarrow> addEgressMTLSSecretRefs manager pols st
      | Some em \<Rightarrow>
          (case takeNamedSecret manager (omNamespace (polMeta pol)) (emTLSSecret em) st of
             None \<Rightarrow> None
           | Some (Some err, st1) \<Rightarrow> Some (Some err, st1)
           | Some (None, st1) \<Rightarrow>
               (case takeNamedSecret manager (omNamespace (polMeta pol)) (emTrustedCertSecret em) st1 of
                  None \<Rightarrow> None
                | Some (Some err, st2) \<Rightarrow> Some (Some err, st2)
                | Some (None, st2) \<Rightarrow> addEgressMTLSSecretRefs manager pols st2)))"

fun addOIDCSecretRefs :: "'fs SecretFileManager \<Rightarrow> Policy list \<Rightarrow> 'fs secretState \<Rightarrow> (string option \<times> 'fs secretState) option" where
  "addOIDCSecretRefs manager [] st = Some (None, st)"
| "addOIDCSecretRefs manager (pol # pols) st =
     (case psOIDC (polSpec pol) of
        None \<Rightarrow> addOIDCSecretRefs manager pols st
      | Some oi \<Rightarrow>
          (let secretKey = omNamespace (polMeta pol) @ ''/'' @ oiClientSecret oi
           in case takeSecret manager secretKey secretKey st of
                None \<Rightarrow> None
              | Some (ref, st') \<Rightarrow> (if srError ref \<noteq> None then Some (srError ref, st') else addOIDCSecretRefs manager pols st')))"

text \<open>The App Protect resources of WAF policies, up to the first that is missing or invalid.\<close>

fun addWAFPolicyRefs ::
    "APConfiguration \<Rightarrow> Policy list \<Rightarrow> unstructured gomap \<times> unstructured gomap \<Rightarrow> string option \<times> unstructured gomap \<times> unstructured gomap" where
  "addWAFPolicyRefs ap [] refs = (None, refs)"
| "addWAFPolicyRefs ap (pol # pols) (apPolRef, logConfRef) =
     (case psWAF (polSpec pol) of
        None \<Rightarrow> addWAFPolicyRefs ap pols (apPolRef, logConfRef)
      | Some waf \<Rightarrow>
          (let apPolKey = namespacedKey (omNamespace (polMeta pol)) (wfApPolicy waf)
           in case (if wfApPolicy waf \<noteq> '''' then map_sum id Some (GetAppResource ''APPolicy'' apPolKey ap) else Inr None) of
                Inl err \<Rightarrow> (Some (''WAF policy '' @ quoteStr apPolKey @ '' is invalid: '' @ err), apPolRef, logConfRef)
              | Inr apPolicy \<Rightarrow>
                  (let apPolRef' = (case apPolicy of None \<Rightarrow> apPolRef | Some obj \<Rightarrow> gput apPolKey obj apPolRef)
                   in case wfSecurityLog waf of
                        None \<Rightarrow> addWAFPolicyRefs ap pols (apPolRef', logConfRef)
                      | Some sl \<Rightarrow>
                          (if slApLogConf sl = '''' then addWAFPolicyRefs ap pols (apPolRef', logConfRef)
                           else
                             let logConfKey = namespacedKey (omNamespace (polMeta pol)) (slApLogConf sl)
                             in case GetAppResource ''APLogConf'' logConfKey ap of
                                  Inl err \<Rightarrow> (Some (''WAF policy '' @ quoteStr logConfKey @ '' is invalid: '' @ err), apPolRef', logConfRef)
                                | Inr logConf \<Rightarrow> addWAFPolicyRefs ap pols (apPolRef', gput logConfKey logConf logConfRef)))))"

section \<open>A VirtualServer and what it refers to\<close>

text \<open>
  The secrets of the policies of one context; only the context of the VirtualServer itself can have
  IngressMTLS policies.
\<close>

definition addContextSecretRefs :: "'fs controllerEnv \<Rightarrow> bool \<Rightarrow> Policy list \<Rightarrow> 'fs secretState \<Rightarrow> 'fs secretState option" where
  "addContextSecretRefs env isSpec policies st =
     (let manager = keSecretManager env in do {
        (_, st1) \<leftarrow> addJWTSecretRefs manager policies st;
        (_, st2) \<leftarrow> (if isSpec then addIngressMTLSSecretRefs manager policies st1 else Some (None, st1));
        (_, st3) \<leftarrow> addEgressMTLSSecretRefs manager policies st2;
        (_, st4) \<leftarrow> addOIDCSecretRefs manager policies st3;
        Some st4
      })"

text \<open>What is collected from contexts of policies: the secrets, the App Protect resources, all the policies.\<close>

record 'fs collectedRefs =
  prSecrets :: "'fs secretState"
  prApRefs :: "unstructured gomap \<times> unstructured gomap"
  prPolicies :: "Policy list"

definition addContext :: "'fs controllerEnv \<Rightarrow> bool \<Rightarrow> PolicyReference list \<Rightarrow> string \<Rightarrow> 'fs collectedRefs \<Rightarrow> 'fs collectedRefs option" where
  "addContext env isSpec refs ownerNamespace acc =
     do {
       (policies, _) \<leftarrow> getPolicies env refs ownerNamespace;
       secrets \<leftarrow> addContextSecretRefs env isSpec policies (prSecrets acc);
       Some \<lparr>prSecrets = secrets, prApRefs = snd (addWAFPolicyRefs (keAppProtect env) policies (prApRefs acc)),
             prPolicies = prPolicies acc @ policies\<rparr>
     }"

definition addTLSSecretRef :: "'fs controllerEnv \<Rightarrow> VirtualServer \<Rightarrow> 'fs secretState \<Rightarrow> 'fs secretState option" where
  "addTLSSecretRef env virtualServer st =
     (case vssTLS (vsSpec virtualServer) of
        None \<Rightarrow> Some st
      | Some tls \<Rightarrow>
          (if tlSecret tls = '''' then Some st
           else let secretKey = omNamespace (vsMeta virtualServer) @ ''/'' @ tlSecret tls
                in map_option snd (takeSecret (keSecretManager env) secretKey secretKey st)))"

text \<open>The policies of all contexts, in the order of the code.\<close>

definition collectPolicies ::
    "'fs controllerEnv \<Rightarrow> VirtualServer \<Rightarrow> VirtualServerRoute list \<Rightarrow> 'fs LocalSecretStore \<Rightarrow> 'fs collectedRefs option" where
  "collectPolicies env virtualServer virtualServerRoutes store =
     (let ns = omNamespace (vsMeta virtualServer) in do {
        st \<leftarrow> addTLSSecretRef env virtualServer ([], store);
        a0 \<leftarrow> addContext env True (vssPolicies (vsSpec virtualServer)) ns \<lparr>prSecrets = st, prApRefs = ([], []), prPolicies = []\<rparr>;
        a1 \<leftarrow> foldOpt (\<lambda>r. addContext env False (rtPolicies r) ns) (vssRoutes (vsSpec virtualServer)) a0;
        foldOpt (\<lambda>vsr. foldOpt (\<lambda>sr. addContext env False (rtPolicies sr) (omNamespace (vsrMeta vsr))) (vrsSubroutes (vsrSpec vsr)))
          virtualServerRoutes a1
      })"

record vsEndpoints =
  veEndpoints :: "string list gomap"
  veExternalNameSvcs :: "bool gomap"
  vePodsByIP :: "PodInfo gomap"

definition addPods :: "podEndpoint list \<Rightarrow> PodInfo gomap \<Rightarrow> PodInfo gomap" where
  "addPods podEndps podsByIP =
     fold (\<lambda>e. gput (peAddress e) \<lparr>piName = pePodName e, piMeshPodOwner = peMeshPodOwner e\<rparr>) podEndps podsByIP"

definition addUpstreamEndpoints :: "'fs controllerEnv \<Rightarrow> bool \<Rightarrow> string \<Rightarrow> Upstream \<Rightarrow> vsEndpoints \<Rightarrow> vsEndpoints" where
  "addUpstreamEndpoints env keepPods namespace u ve =
     (let ls = keListers env; fl = keFlags env;
          endpointsKey = GenerateEndpointsKey namespace (uService u) (sliceOf (uSubselector u)) (uPort u)
      in if uUseClusterIP u
         then ve\<lparr>veEndpoints := gput endpointsKey
                  (case getServiceForUpstream ls namespace (uService u) (uPort u) of
                     Inl _ \<Rightarrow> []
                   | Inr s \<Rightarrow> [svcClusterIP s @ '':'' @ fmtPort (uPort u)]) (veEndpoints ve)\<rparr>
         else
           let (podEndps, external) =
                 (if sliceOf (uSubselector u) \<noteq> []
                  then (case getEndpointsForSubselector ls namespace u of Inl _ \<Rightarrow> ([], False) | Inr e \<Rightarrow> (e, False))
                  else (case getEndpointsForUpstream fl ls namespace (uService u) (uPort u) of Inl _ \<Rightarrow> ([], False) | Inr r \<Rightarrow> r))
           in ve\<lparr>veEndpoints := gput endpointsKey (getIPAddressesFromEndpoints podEndps) (veEndpoints ve),
                 veExternalNameSvcs := (if external \<and> kcIsNginxPlus fl
                   then gput (GenerateExternalNameSvcKey namespace (uService u)) True (veExternalNameSvcs ve) else veExternalNameSvcs ve),
                 vePodsByIP := (if keepPods then addPods podEndps (vePodsByIP ve) else vePodsByIP ve)\<rparr>)"

text \<open>The pods of the upstreams of a VirtualServer are kept under another condition than those of a VirtualServerRoute.\<close>

definition collectEndpoints :: "'fs controllerEnv \<Rightarrow> VirtualServer \<Rightarrow> VirtualServerRoute list \<Rightarrow> vsEndpoints" where
  "collectEndpoints env virtualServer virtualServerRoutes =
     (let fl = keFlags env;
          ve = fold (addUpstreamEndpoints env (kcIsNginxPlus fl \<and> kcIsPrometheusEnabled fl \<or> kcIsLatencyMetricsEnabled fl)
                       (omNamespace (vsMeta virtualServer)))
                 (vssUpstreams (vsSpec virtualServer)) \<lparr>veEndpoints = [], veExternalNameSvcs = [], vePodsByIP = []\<rparr>
      in fold (\<lambda>vsr. fold (addUpstreamEndpoints env (kcIsNginxPlus fl \<or> kcIsLatencyMetricsEnabled fl) (omNamespace (vsrMeta vsr)))
                 (vrsUpstreams (vsrSpec vsr))) virtualServerRoutes ve)"

definition createVirtualServerEx ::
    "'fs controllerEnv \<Rightarrow> VirtualServer \<Rightarrow> VirtualServerRoute list \<Rightarrow> 'fs LocalSecretStore
       \<Rightarrow> (VirtualServerEx \<times> 'fs LocalSecretStore) option" where
  "createVirtualServerEx env virtualServer virtualServerRoutes store =
     map_option (\<lambda>acc.
         let ve = collectEndpoints env virtualServer virtualServerRoutes in
         (\<lparr>vxVirtualServer = virtualServer, vxEndpoints = veEndpoints ve, vxVirtualServerRoutes = virtualServerRoutes,
           vxExternalNameSvcs = veExternalNameSvcs ve, vxPolicies = createPolicyMap (prPolicies acc), vxPodsByIP = vePodsByIP ve,
           vxSecretRefs = fst (prSecrets acc), vxApPolRefs = fst (prApRefs acc), vxLogConfRefs = snd (prApRefs acc)\<rparr>,
          snd (prSecrets acc)))
       (collectPolicies env virtualServer virtualServerRoutes store)"

section \<open>A TransportServer\<close>

record TransportServerEx =
  txListenerPort :: int
  txTransportServer :: TransportServer
  txEndpoints :: "string list gomap"
  txPodsByIP :: "string gomap"

definition addTransportEndpoints ::
    "'fs controllerEnv \<Rightarrow> string \<Rightarrow> TSUpstream \<Rightarrow> string list gomap \<times> string gomap \<Rightarrow> string list gomap \<times> string gomap" where
  "addTransportEndpoints env namespace u acc =
     (case acc of (endpoints, podsByIP) \<Rightarrow>
        let port = word_of_int (tuPort u) :: 16 word;
            podEndps = (case getEndpointsForUpstream (keFlags env) (keListers env) namespace (tuService u) port of
                          Inl _ \<Rightarrow> [] | Inr (e, external) \<Rightarrow> e)
        in (gput (GenerateEndpointsKey namespace (tuService u) [] port) (getIPAddressesFromEndpoints podEndps) endpoints,
            if kcIsNginxPlus (keFlags env) \<and> kcIsPrometheusEnabled (keFlags env)
            then fold (\<lambda>e. gput (peAddress e) (pePodName e)) podEndps podsByIP else podsByIP))"

definition createTransportServerEx :: "'fs controllerEnv \<Rightarrow> TransportServer \<Rightarrow> int \<Rightarrow> TransportServerEx" where
  "createTransportServerEx env transportServer listenerPort =
     (case fold (addTransportEndpoints env (omNamespace (tsMeta transportServer))) (tssUpstreams (tsSpec transportServer)) ([], []) of
        (endpoints, podsByIP) \<Rightarrow>
          \<lparr>txListenerPort = listenerPort, txTransportServer = transportServer, txEndpoints = endpoints, txPodsByIP = podsByIP\<rparr>)"


section \<open>An Ingress\<close>

definition AppProtectLogConfDstAnnotation :: string where
  "AppProtectLogConfDstAnnotation = ''appprotect.f5.com/app-protect-security-log-destination''"

definition annotationText :: "Ingress \<Rightarrow> string \<Rightarrow> string" where
  "annotationText ing key = (case gget (omAnnotations (ingMeta ing)) key of None \<Rightarrow> '''' | Some v \<Rightarrow> v)"

definition gtrue :: "bool gomap \<Rightarrow> string \<Rightarrow> bool" where
  "gtrue m key = (gget m key = Some True)"

definition getAppProtectPolicy :: "'fs controllerEnv \<Rightarrow> Ingress \<Rightarrow> string + unstructured" where
  "getAppProtectPolicy env ing =
     (case GetAppResource ''APPolicy''
             (ParseResourceReferenceAnnotation (omNamespace (ingMeta ing)) (annotationText ing AppProtectPolicyAnnotation)) (keAppProtect env) of
        Inl err \<Rightarrow> Inl (''Error retrieving App Protect Policy for Ingress '' @ omName (ingMeta ing) @ '': '' @ err @ '' '')
      | Inr apPolicy \<Rightarrow> Inr apPolicy)"

text \<open>The check of the destination can panic: \<^term>\<open>None\<close>.\<close>

definition getAppProtectLogConfAndDst :: "'fs controllerEnv \<Rightarrow> Ingress \<Rightarrow> (string + unstructured \<times> string) option" where
  "getAppProtectLogConfAndDst env ing =
     (let logConfNsN = ParseResourceReferenceAnnotation (omNamespace (ingMeta ing)) (annotationText ing AppProtectLogConfAnnotation);
          name = omName (ingMeta ing)
      in case gget (omAnnotations (ingMeta ing)) AppProtectLogConfDstAnnotation of
           None \<Rightarrow> Some (Inl (''Error: '' @ AppProtectLogConfAnnotation @ '' requires '' @ AppProtectLogConfDstAnnotation @ '' in '' @ name))
         | Some logDst \<Rightarrow>
             (case ValidateAppProtectLogDestination (nlIsIP (keNet env)) logDst of
                None \<Rightarrow> None
              | Some (Some err) \<Rightarrow> Some (Inl (''Error Validating App Protect Destination Config for Ingress '' @ name @ '': '' @ err))
              | Some None \<Rightarrow>
                  Some (case GetAppResource ''APLogConf'' logConfNsN (keAppProtect env) of
                      Inl err \<Rightarrow> Inl (''Error retrieving App Protect Log Config for Ingress '' @ name @ '': '' @ err)
                    | Inr logConf \<Rightarrow> Inr (logConf, logDst))))"

text \<open>The object that messages name; the objects of the caches have no kind.\<close>

definition ingressObject :: "Ingress \<Rightarrow> apiObject" where
  "ingressObject ing = \<lparr>aoKind = '''', aoNamespace = omNamespace (ingMeta ing), aoName = omName (ingMeta ing)\<rparr>"

definition isHealthCheckEnabled :: "Ingress \<Rightarrow> bool" where
  "isHealthCheckEnabled ing =
     (case GetMapKeyAsBool (omAnnotations (ingMeta ing)) ''nginx.com/health-checks'' (ingressObject ing) of
        (healthCheckEnabled, found, _) \<Rightarrow> found \<and> healthCheckEnabled)"

text \<open>The endpoints, the health check and the pods of one backend.\<close>

definition addBackend :: "'fs controllerEnv \<Rightarrow> Ingress \<Rightarrow> bool \<Rightarrow> IngressBackend \<Rightarrow> IngressEx \<Rightarrow> IngressEx" where
  "addBackend env ing keepPods backend ix =
     (let ls = keListers env; fl = keFlags env; ns = omNamespace (ingMeta ing);
          key = ibServiceName backend @ intOrStringText (ibServicePort backend);
          (podEndps, externals) =
            (case getServiceForIngressBackend ls backend ns of
               Inl _ \<Rightarrow> ([], ixExternalNameSvcs ix)
             | Inr svc \<Rightarrow>
                 (case getEndpointsForIngressBackend fl ls backend svc of
                    Inl _ \<Rightarrow> ([], ixExternalNameSvcs ix)
                  | Inr (endps, external) \<Rightarrow>
                      (endps, if external \<and> kcIsNginxPlus fl then gput (omName (svcMeta svc)) True (ixExternalNameSvcs ix)
                              else ixExternalNameSvcs ix)))
      in ix\<lparr>ixEndpoints := gput key (getIPAddressesFromEndpoints podEndps) (ixEndpoints ix),
            ixExternalNameSvcs := externals,
            ixHealthChecks :=
              (if kcIsNginxPlus fl \<and> isHealthCheckEnabled ing
               then case getHealthChecksForIngressBackend ls backend ns of
                      Some healthCheck \<Rightarrow> gput key healthCheck (ixHealthChecks ix)
                    | None \<Rightarrow> ixHealthChecks ix
               else ixHealthChecks ix),
            ixPodsByIP := (if keepPods then addPods podEndps (ixPodsByIP ix) else ixPodsByIP ix)\<rparr>)"

text \<open>The paths of the valid hosts, and of a minion the valid paths.\<close>

definition backendsOf :: "bool gomap \<Rightarrow> bool gomap option \<Rightarrow> IngressRule list \<Rightarrow> IngressBackend list" where
  "backendsOf validHosts validMinionPaths rules =
     concat (map (\<lambda>rule.
       if \<not> gtrue validHosts (irHost rule) then []
       else case irHTTP rule of
           None \<Rightarrow> []
         | Some http \<Rightarrow>
             map hpBackend (filter (\<lambda>path. case validMinionPaths of None \<Rightarrow> True | Some ps \<Rightarrow> gtrue ps (hpPath path)) (hrPaths http))) rules)"

definition addIngressSecrets :: "'fs controllerEnv \<Rightarrow> Ingress \<Rightarrow> 'fs secretState \<Rightarrow> 'fs secretState option" where
  "addIngressSecrets env ing st =
     (let get = (\<lambda>secretName. takeSecret (keSecretManager env) (omNamespace (ingMeta ing) @ ''/'' @ secretName) secretName) in
      case foldOpt (\<lambda>tls s. map_option snd (get (itSecretName tls) s)) (isTLS (ingSpec ing)) st of
        None \<Rightarrow> None
      | Some st' \<Rightarrow>
          (if kcIsNginxPlus (keFlags env)
           then case gget (omAnnotations (ingMeta ing)) JWTKeyAnnotation of
                  Some jwtKey \<Rightarrow> map_option snd (get jwtKey st')
                | None \<Rightarrow> Some st'
           else Some st'))"

definition addAppProtectPolicy :: "'fs controllerEnv \<Rightarrow> Ingress \<Rightarrow> IngressEx \<Rightarrow> IngressEx" where
  "addAppProtectPolicy env ing ix =
     (if ghas (omAnnotations (ingMeta ing)) AppProtectPolicyAnnotation
      then case getAppProtectPolicy env ing of Inl _ \<Rightarrow> ix | Inr policy \<Rightarrow> ix\<lparr>ixAppProtectPolicy := Some policy\<rparr>
      else ix)"

definition addAppProtectLogConf :: "'fs controllerEnv \<Rightarrow> Ingress \<Rightarrow> IngressEx \<Rightarrow> IngressEx option" where
  "addAppProtectLogConf env ing ix =
     (if ghas (omAnnotations (ingMeta ing)) AppProtectLogConfAnnotation
      then map_option (\<lambda>r. case r of
               Inl _ \<Rightarrow> ix
             | Inr (logConf, logDst) \<Rightarrow> ix\<lparr>ixAppProtectLogConf := Some logConf, ixAppProtectLogDst := logDst\<rparr>)
             (getAppProtectLogConfAndDst env ing)
      else Some ix)"

definition addIngressBackends :: "'fs controllerEnv \<Rightarrow> Ingress \<Rightarrow> bool gomap \<Rightarrow> bool gomap option \<Rightarrow> IngressEx \<Rightarrow> IngressEx" where
  "addIngressBackends env ing validHosts validMinionPaths ix =
     (let fl = keFlags env;
          ix' = (case isBackend (ingSpec ing) of
                   None \<Rightarrow> ix
                 | Some backend \<Rightarrow>
                     addBackend env ing (kcIsNginxPlus fl \<and> kcIsPrometheusEnabled fl \<or> kcIsLatencyMetricsEnabled fl) backend ix)
      in fold (addBackend env ing (kcIsNginxPlus fl \<or> kcIsLatencyMetricsEnabled fl))
           (backendsOf validHosts validMinionPaths (isRules (ingSpec ing))) ix')"

definition createIngressEx ::
    "'fs controllerEnv \<Rightarrow> Ingress \<Rightarrow> bool gomap \<Rightarrow> bool gomap option \<Rightarrow> 'fs LocalSecretStore \<Rightarrow> (IngressEx \<times> 'fs LocalSecretStore) option" where
  "createIngressEx env ing validHosts validMinionPaths store =
     do {
       (refs, store') \<leftarrow> addIngressSecrets env ing ([], store);
       ix \<leftarrow> (let ix0 = \<lparr>ixIngress = ing, ixEndpoints = [], ixHealthChecks = [], ixExternalNameSvcs = [], ixPodsByIP = [],
                  ixValidHosts = validHosts, ixValidMinionPaths = (case validMinionPaths of None \<Rightarrow> [] | Some ps \<Rightarrow> ps),
                  ixAppProtectPolicy = None, ixAppProtectLogConf = None, ixAppProtectLogDst = '''', ixSecretRefs = refs\<rparr>
              in if kcIsNginxPlus (keFlags env) \<and> kcAppProtectEnabled (keFlags env)
                 then addAppProtectLogConf env ing (addAppProtectPolicy env ing ix0) else Some ix0);
       Some (addIngressBackends env ing validHosts validMinionPaths ix, store')
     }"

text \<open>A master and its minions: the valid paths limit the minions only.\<close>

fun createMinionExes ::
    "'fs controllerEnv \<Rightarrow> bool gomap \<Rightarrow> MinionConfiguration list \<Rightarrow> 'fs LocalSecretStore \<Rightarrow> (IngressEx list \<times> 'fs LocalSecretStore) option" where
  "createMinionExes env validHosts [] store = Some ([], store)"
| "createMinionExes env validHosts (m # ms) store =
     do {
       (ix, store1) \<leftarrow> createIngressEx env (mcIngress m) validHosts (Some (mcValidPaths m)) store;
       (ixs, store2) \<leftarrow> createMinionExes env validHosts ms store1;
       Some (ix # ixs, store2)
     }"

definition createMergeableIngresses ::
    "'fs controllerEnv \<Rightarrow> IngressConfiguration \<Rightarrow> 'fs LocalSecretStore \<Rightarrow> (MergeableIngresses \<times> 'fs LocalSecretStore) option" where
  "createMergeableIngresses env ingConfig store =
     do {
       (master, store1) \<leftarrow> createIngressEx env (icIngress ingConfig) (icValidHosts ingConfig) None store;
       (minions, store2) \<leftarrow> createMinionExes env (icValidHosts ingConfig) (icMinions ingConfig) store1;
       Some (\<lparr>miMaster = master, miMinions = minions\<rparr>, store2)
     }"

section \<open>Classes\<close>

datatype classObject = ClassVirtualServer VirtualServer | ClassVirtualServerRoute VirtualServerRoute
  | ClassTransportServer TransportServer | ClassIngress Ingress | ClassOther

definition HasCorrectIngressClass :: "controllerFlags \<Rightarrow> classObject \<Rightarrow> bool" where
  "HasCorrectIngressClass fl obj =
     (let ok = (\<lambda>class. class = kcIngressClass fl \<or> class = '''') in
      case obj of
        ClassVirtualServer vs \<Rightarrow> ok (vssIngressClass (vsSpec vs))
      | ClassVirtualServerRoute vsr \<Rightarrow> ok (vrsIngressClass (vsrSpec vsr))
      | ClassTransportServer ts \<Rightarrow> ok (tssIngressClass (tsSpec ts))
      | ClassIngress ing \<Rightarrow>
          (let annotation = annotationText ing ''kubernetes.io/ingress.class'';
               class = (case (annotation, isIngressClassName (ingSpec ing)) of
                          ([], Some c) \<Rightarrow> c
                        | _ \<Rightarrow> annotation)
           in if kcUseIngressClassOnly fl then class = kcIngressClass fl else ok class)
      | ClassOther \<Rightarrow> False)"

end
