(* ===== verification/TS_Config.thy ===== *)
theory TS_Config
  imports Controller_Resources Validation_Properties
begin

text \<open>
  The generator of the configuration of TransportServers (\<open>internal/configs/transportserver.go\<close>), with
  the structs of \<open>internal/configs/version2/stream.go\<close>, and what it promises together with the
  controller: the servers of an upstream are the endpoints of its service. A nil action is a
  panic, \<^term>\<open>None\<close>.
\<close>

section \<open>Package version2\<close>

record StreamUpstreamServer =
  ssvAddress :: string
  ssvMaxFails :: int
  ssvFailTimeout :: string

record StreamUpstream =
  suName :: string
  suServers :: "StreamUpstreamServer list"
  suUpstreamLabels :: UpstreamLabels

record StreamHealthCheck =
  shEnabled :: bool
  shInterval :: string
  shPort :: int
  shPasses :: int
  shJitter :: string
  shFails :: int
  shTimeout :: string

record StreamServer =
  smTLSPassthrough :: bool
  smUnixSocket :: string
  smPort :: int
  smUDP :: bool
  smStatusZone :: string
  smProxyRequests :: "int option"
  smProxyResponses :: "int option"
  smProxyPass :: string
  smName :: string
  smNamespace :: string
  smProxyTimeout :: string
  smProxyConnectTimeout :: string
  smProxyNextUpstream :: bool
  smProxyNextUpstreamTimeout :: string
  smProxyNextUpstreamTries :: int
  smHealthCheck :: "StreamHealthCheck option"
  smSnippets :: "string list"

record TransportServerConfig =
  tcServer :: StreamServer
  tcUpstreams :: "StreamUpstream list"

section \<open>Upstreams\<close>

definition nginxNonExistingUnixSocket :: string where
  "nginxNonExistingUnixSocket = ''unix:/var/lib/nginx/non-existing-unix-socket.sock''"

definition emptyLabels :: UpstreamLabels where
  "emptyLabels = \<lparr>ulService = '''', ulResourceType = '''', ulResourceName = '''', ulResourceNamespace = ''''\<rparr>"

definition generateStreamUpstream :: "TSUpstream \<Rightarrow> upstreamNamer \<Rightarrow> string list \<Rightarrow> bool \<Rightarrow> StreamUpstream" where
  "generateStreamUpstream upstream upstreamNamer endpoints isPlus =
     (let maxFails = generateIntFromPointer (tuMaxFails upstream) 1;
          failTimeout = generateTimeWithDefault (tuFailTimeout upstream) ''10s'';
          server = (\<lambda>e. \<lparr>ssvAddress = e, ssvMaxFails = maxFails, ssvFailTimeout = failTimeout\<rparr>)
      in \<lparr>suName = GetNameForUpstream upstreamNamer (tuName upstream),
          suServers = map server endpoints @ (if \<not> isPlus \<and> endpoints = [] then [server nginxNonExistingUnixSocket] else []),
          suUpstreamLabels = emptyLabels\<rparr>)"

definition generateStreamUpstreams :: "TransportServerEx \<Rightarrow> upstreamNamer \<Rightarrow> bool \<Rightarrow> StreamUpstream list" where
  "generateStreamUpstreams transportServerEx upstreamNamer isPlus =
     (let ts = txTransportServer transportServerEx in
      map (\<lambda>u.
        let endpointsKey = GenerateEndpointsKey (omNamespace (tsMeta ts)) (tuService u) [] (word_of_int (tuPort u));
            endpoints = (case gget (txEndpoints transportServerEx) endpointsKey of None \<Rightarrow> [] | Some es \<Rightarrow> es)
        in (generateStreamUpstream u upstreamNamer endpoints isPlus)
             \<lparr>suUpstreamLabels := \<lparr>ulService = tuService u, ulResourceType = ''transportserver'',
                ulResourceName = omName (tsMeta ts), ulResourceNamespace = omNamespace (tsMeta ts)\<rparr>\<rparr>)
        (tssUpstreams (tsSpec ts)))"

section \<open>Health checks\<close>

definition generateTransportServerHealthCheckWithDefaults :: "TSUpstream \<Rightarrow> StreamHealthCheck" where
  "generateTransportServerHealthCheckWithDefaults up =
     \<lparr>shEnabled = False, shInterval = ''5s'', shPort = tuPort up, shPasses = 1, shJitter = ''0s'', shFails = 1, shTimeout = ''5s''\<rparr>"

text \<open>The loop goes on after a match, and returns nil at a match without an enabled check.\<close>

fun healthCheckLoop :: "string \<Rightarrow> TSUpstream list \<Rightarrow> StreamHealthCheck option \<Rightarrow> StreamHealthCheck option" where
  "healthCheckLoop name [] hc = hc"
| "healthCheckLoop name (u # us) hc =
     (if tuName u = name then
        (case tuHealthCheck u of
           None \<Rightarrow> None
         | Some h \<Rightarrow>
             (if \<not> thEnabled h then None
              else
                let d = generateTransportServerHealthCheckWithDefaults u
                in healthCheckLoop name us
                     (Some \<lparr>shEnabled = thEnabled h,
                            shInterval = generateTimeWithDefault (thInterval h) (shInterval d),
                            shPort = (if thPort h > 0 then thPort h else shPort d),
                            shPasses = (if thPasses h > 0 then thPasses h else shPasses d),
                            shJitter = generateTimeWithDefault (thJitter h) (shJitter d),
                            shFails = (if thFails h > 0 then thFails h else shFails d),
                            shTimeout = generateTimeWithDefault (thTimeout h) (shTimeout d)\<rparr>)))
      else healthCheckLoop name us hc)"

definition generateTransportServerHealthCheck :: "string \<Rightarrow> TSUpstream list \<Rightarrow> StreamHealthCheck option" where
  "generateTransportServerHealthCheck upstreamHealthCheckName upstreams = healthCheckLoop upstreamHealthCheckName upstreams None"

section \<open>The configuration\<close>

definition generateUnixSocket :: "TransportServerEx \<Rightarrow> string" where
  "generateUnixSocket transportServerEx =
     (let ts = txTransportServer transportServerEx in
      if tslName (tssListener (tsSpec ts)) = TLSPassthroughListenerName
      then ''unix:/var/lib/nginx/passthrough-'' @ omNamespace (tsMeta ts) @ ''_'' @ omName (tsMeta ts) @ ''.sock'' else '''')"

definition generateTransportServerConfig :: "TransportServerEx \<Rightarrow> int \<Rightarrow> bool \<Rightarrow> TransportServerConfig option" where
  "generateTransportServerConfig transportServerEx listenerPort isPlus =
     (let ts = txTransportServer transportServerEx; spec = tsSpec ts;
          upstreamNamer = newUpstreamNamerForTransportServer ts;
          upstreams = generateStreamUpstreams transportServerEx upstreamNamer isPlus;
          passthrough = (tslName (tssListener spec) = TLSPassthroughListenerName);
          param = (\<lambda>f d. case tssUpstreamParameters spec of None \<Rightarrow> d | Some p \<Rightarrow> f p);
          nextUpstream = (case tssUpstreamParameters spec of None \<Rightarrow> False | Some p \<Rightarrow> upNextUpstream p)
      in map_option (\<lambda>action.
           \<lparr>tcServer =
              \<lparr>smTLSPassthrough = passthrough, smUnixSocket = generateUnixSocket transportServerEx, smPort = listenerPort,
               smUDP = (tslProtocol (tssListener spec) = ''UDP''),
               smStatusZone = (if passthrough then tssHost spec else tslName (tssListener spec)),
               smProxyRequests = param upUDPRequests None, smProxyResponses = param upUDPResponses None,
               smProxyPass = GetNameForUpstream upstreamNamer (taPass action),
               smName = omName (tsMeta ts), smNamespace = omNamespace (tsMeta ts),
               smProxyTimeout = generateTimeWithDefault
                 (case tssSessionParameters spec of None \<Rightarrow> '''' | Some sp \<Rightarrow> spTimeout sp) ''10m'',
               smProxyConnectTimeout = generateTimeWithDefault
                 (case tssUpstreamParameters spec of None \<Rightarrow> '''' | Some p \<Rightarrow> upConnectTimeout p) ''60s'',
               smProxyNextUpstream = nextUpstream,
               smProxyNextUpstreamTimeout = generateTimeWithDefault
                 (case tssUpstreamParameters spec of None \<Rightarrow> '''' | Some p \<Rightarrow> (if nextUpstream then upNextUpstreamTimeout p else '''')) ''0s'',
               smProxyNextUpstreamTries =
                 (case tssUpstreamParameters spec of None \<Rightarrow> 0 | Some p \<Rightarrow> (if nextUpstream then upNextUpstreamTries p else 0)),
               smHealthCheck = generateTransportServerHealthCheck (taPass action) (tssUpstreams spec),
               smSnippets = generateSnippets True (tssServerSnippets spec) []\<rparr>,
            tcUpstreams = upstreams\<rparr>) (tssAction spec))"

section \<open>Listeners of the GlobalConfiguration\<close>

definition ParseGlobalConfiguration :: "GlobalConfiguration \<Rightarrow> bool \<Rightarrow> GlobalConfigParams" where
  "ParseGlobalConfiguration gc tlsPassthrough =
     (let gcfgParams = (if tlsPassthrough then NewGlobalConfigParamsWithTLSPassthrough else NewDefaultGlobalConfigParams)
      in \<lparr>gcListeners = fold (\<lambda>l. gput (lsName l) \<lparr>ls2Port = lsPort l, ls2Protocol = lsProtocol l\<rparr>)
            (gcsListeners (gcSpec gc)) (gcListeners gcfgParams)\<rparr>)"

end
