(* ===== verification/Controller_Properties.thy ===== *)
theory Controller_Properties
  imports Controller_Resources VS_Config_Properties
begin

text \<open>
  What the controller collects for a VirtualServer is what the generator reads: for every accepted
  VirtualServer the configuration is generated, without a panic, whatever policies, secrets,
  services and endpoints the cluster has.
\<close>

section \<open>The store of secrets\<close>

definition soundStore :: "'fs LocalSecretStore \<Rightarrow> bool" where
  "soundStore s = (\<forall>k ref. gget (ssSecrets s) k = Some ref \<longrightarrow> srSecret ref \<noteq> None)"

definition secretFails :: "'fs LocalSecretStore \<Rightarrow> string \<Rightarrow> bool" where
  "secretFails s k = (case gget (ssSecrets s) k of None \<Rightarrow> True | Some ref \<Rightarrow> srError ref \<noteq> None)"

lemma soundStore_operations:
  "soundStore s \<Longrightarrow> soundStore (AddOrUpdateSecret lib manager secret s)"
  "soundStore s \<Longrightarrow> soundStore (DeleteSecret manager key s)"
  "soundStore s \<Longrightarrow> GetSecret manager key s = Some (ref, s') \<Longrightarrow> soundStore s'"
  unfolding soundStore_def
  by (auto simp: AddOrUpdateSecret_def DeleteSecret_def GetSecret_def gdel_def delete_conv' Let_def
      split: option.splits if_splits prod.splits)

text \<open>The references taken so far are sound and agree with the store.\<close>

definition secretInv :: "(string \<Rightarrow> bool) \<Rightarrow> 'fs secretState \<Rightarrow> bool" where
  "secretInv e st =
     (soundStore (snd st) \<and> (\<forall>k. secretFails (snd st) k = e k)
      \<and> (\<forall>k ref. gget (fst st) k = Some ref \<longrightarrow> (srError ref \<noteq> None) = e k \<and> (srError ref = None \<longrightarrow> srSecret ref \<noteq> None)))"

definition taken :: "'fs secretState \<Rightarrow> string set" where
  "taken st = gkeys (fst st)"

lemma GetSecret_ok:
  assumes "soundStore s"
  shows "\<exists>ref s'. GetSecret manager key s = Some (ref, s') \<and> soundStore s' \<and> (\<forall>k. secretFails s' k = secretFails s k)
    \<and> (srError ref \<noteq> None) = secretFails s key \<and> (srError ref = None \<longrightarrow> srSecret ref \<noteq> None)"
proof (cases "gget (ssSecrets s) key")
  case None
  then show ?thesis using assms by (auto simp: GetSecret_def secretFails_def)
next
  case (Some ref)
  then obtain secret where secret: "srSecret ref = Some secret" using assms by (auto simp: soundStore_def)
  show ?thesis
  proof (cases "srError ref = None \<and> srPath ref = ''''")
    case False
    then show ?thesis using assms Some secret by (auto simp: GetSecret_def secretFails_def)
  next
    case True
    obtain p fs where f: "fmAddOrUpdateSecret manager secret (ssFiles s) = (p, fs)" by fastforce
    let ?s = "\<lparr>ssSecrets = gput key (ref\<lparr>srPath := p\<rparr>) (ssSecrets s), ssFiles = fs\<rparr>"
    have "GetSecret manager key s = Some (ref\<lparr>srPath := p\<rparr>, ?s)" using Some True secret f by (simp add: GetSecret_def Let_def)
    moreover have "soundStore ?s" using assms secret by (simp add: soundStore_def)
    moreover have "secretFails ?s k = secretFails s k" for k using Some True by (simp add: secretFails_def)
    moreover have "(srError (ref\<lparr>srPath := p\<rparr>) \<noteq> None) = secretFails s key" "srSecret (ref\<lparr>srPath := p\<rparr>) \<noteq> None"
      using Some secret by (simp_all add: secretFails_def)
    ultimately show ?thesis by blast
  qed
qed

lemma takeSecret_ok:
  assumes "secretInv e st"
  shows "\<exists>ref st'. takeSecret manager k k st = Some (ref, st') \<and> secretInv e st' \<and> taken st' = insert k (taken st)
    \<and> (srError ref \<noteq> None) = e k"
proof -
  obtain refs store where st: "st = (refs, store)" by fastforce
  have inv: "soundStore store" "\<And>k. secretFails store k = e k"
    "\<And>k ref. gget refs k = Some ref \<Longrightarrow> (srError ref \<noteq> None) = e k \<and> (srError ref = None \<longrightarrow> srSecret ref \<noteq> None)"
    using assms by (simp_all add: st secretInv_def)
  obtain ref s' where g: "GetSecret manager k store = Some (ref, s')" "soundStore s'" "\<forall>k. secretFails s' k = secretFails store k"
    "(srError ref \<noteq> None) = secretFails store k" "srError ref = None \<longrightarrow> srSecret ref \<noteq> None"
    using GetSecret_ok [OF inv(1), of manager k] by (elim exE conjE) (rule that)
  have "takeSecret manager k k st = Some (ref, gput k ref refs, s')" by (simp add: takeSecret_def st g(1))
  moreover have "secretInv e (gput k ref refs, s')"
    unfolding secretInv_def using g(2-5) inv(2,3) by auto
  ultimately show ?thesis using g(4) inv(2) by (auto simp: taken_def st)
qed

section \<open>Secrets of policies\<close>

fun firstOf :: "(PolicySpec \<Rightarrow> 'b option) \<Rightarrow> Policy list \<Rightarrow> (string \<times> 'b) option" where
  "firstOf block [] = None"
| "firstOf block (pol # pols) =
     (case block (polSpec pol) of Some b \<Rightarrow> Some (omNamespace (polMeta pol), b) | None \<Rightarrow> firstOf block pols)"

definition keepsSecrets :: "(string \<Rightarrow> bool) \<Rightarrow> 'fs secretState \<Rightarrow> 'fs secretState \<Rightarrow> bool" where
  "keepsSecrets e st st' = (secretInv e st' \<and> taken st \<subseteq> taken st')"

lemma keepsSecrets_trans: "keepsSecrets e a b \<Longrightarrow> keepsSecrets e b c \<Longrightarrow> keepsSecrets e a c"
  unfolding keepsSecrets_def by blast

lemma addJWTSecretRefs_ok:
  assumes "secretInv e st"
  shows "\<exists>err st'. addJWTSecretRefs manager pols st = Some (err, st') \<and> keepsSecrets e st st'
    \<and> (\<forall>n j. firstOf psJWTAuth pols = Some (n, j) \<longrightarrow> n @ ''/'' @ jwtSecret j \<in> taken st')"
  using assms
proof (induction pols arbitrary: st)
  case Nil
  then show ?case by (simp add: keepsSecrets_def)
next
  case (Cons pol pols)
  show ?case
  proof (cases "psJWTAuth (polSpec pol)")
    case None
    then show ?thesis using Cons.IH [OF Cons.prems] by simp
  next
    case (Some j)
    let ?k = "omNamespace (polMeta pol) @ ''/'' @ jwtSecret j"
    obtain ref st1 where t: "takeSecret manager ?k ?k st = Some (ref, st1)" "secretInv e st1" "taken st1 = insert ?k (taken st)"
      using takeSecret_ok [OF Cons.prems] by blast
    obtain err st2 where r: "addJWTSecretRefs manager pols st1 = Some (err, st2)" "keepsSecrets e st1 st2" using Cons.IH [OF t(2)] by blast
    show ?thesis using Some t r by (cases st1; cases st2) (auto simp: keepsSecrets_def)
  qed
qed

lemma addOIDCSecretRefs_ok:
  assumes "secretInv e st"
  shows "\<exists>err st'. addOIDCSecretRefs manager pols st = Some (err, st') \<and> keepsSecrets e st st'
    \<and> (\<forall>n oi. firstOf psOIDC pols = Some (n, oi) \<longrightarrow> n @ ''/'' @ oiClientSecret oi \<in> taken st')"
  using assms
proof (induction pols arbitrary: st)
  case Nil
  then show ?case by (simp add: keepsSecrets_def)
next
  case (Cons pol pols)
  show ?case
  proof (cases "psOIDC (polSpec pol)")
    case None
    then show ?thesis using Cons.IH [OF Cons.prems] by simp
  next
    case (Some oi)
    let ?k = "omNamespace (polMeta pol) @ ''/'' @ oiClientSecret oi"
    obtain ref st1 where t: "takeSecret manager ?k ?k st = Some (ref, st1)" "secretInv e st1" "taken st1 = insert ?k (taken st)"
      using takeSecret_ok [OF Cons.prems] by blast
    obtain err st2 where r: "addOIDCSecretRefs manager pols st1 = Some (err, st2)" "keepsSecrets e st1 st2" using Cons.IH [OF t(2)] by blast
    show ?thesis using Some t r by (cases st1; cases st2) (auto simp: keepsSecrets_def)
  qed
qed

lemma addIngressMTLSSecretRefs_ok:
  assumes "secretInv e st"
  shows "\<exists>err st'. addIngressMTLSSecretRefs manager pols st = Some (err, st') \<and> keepsSecrets e st st'
    \<and> (\<forall>n im. firstOf psIngressMTLS pols = Some (n, im) \<longrightarrow> n @ ''/'' @ imClientCertSecret im \<in> taken st')"
  using assms
proof (induction pols arbitrary: st)
  case Nil
  then show ?case by (simp add: keepsSecrets_def)
next
  case (Cons pol pols)
  show ?case
  proof (cases "psIngressMTLS (polSpec pol)")
    case None
    then show ?thesis using Cons.IH [OF Cons.prems] by simp
  next
    case (Some im)
    let ?k = "omNamespace (polMeta pol) @ ''/'' @ imClientCertSecret im"
    obtain ref st1 where "takeSecret manager ?k ?k st = Some (ref, st1)" "secretInv e st1" "taken st1 = insert ?k (taken st)"
      using takeSecret_ok [OF Cons.prems] by blast
    then show ?thesis using Some by (cases st1) (auto simp: keepsSecrets_def)
  qed
qed

lemma takeNamedSecret_ok:
  assumes "secretInv e st"
  shows "\<exists>err st'. takeNamedSecret manager ns name st = Some (err, st') \<and> keepsSecrets e st st'
    \<and> (name \<noteq> '''' \<longrightarrow> ns @ ''/'' @ name \<in> taken st') \<and> (err \<noteq> None \<longrightarrow> name \<noteq> '''' \<and> e (ns @ ''/'' @ name))"
proof (cases "name = ''''")
  case False
  then show ?thesis using takeSecret_ok [OF assms, of manager "ns @ ''/'' @ name"] by (auto simp: takeNamedSecret_def keepsSecrets_def)
qed (simp add: takeNamedSecret_def keepsSecrets_def assms)

text \<open>The secrets of the first EgressMTLS policy: the second one is taken unless the first one fails.\<close>

definition egressTaken :: "(string \<Rightarrow> bool) \<Rightarrow> string set \<Rightarrow> string \<Rightarrow> EgressMTLS \<Rightarrow> bool" where
  "egressTaken e K n em =
     ((emTLSSecret em = '''' \<or> n @ ''/'' @ emTLSSecret em \<in> K)
      \<and> (emTrustedCertSecret em = '''' \<or> n @ ''/'' @ emTrustedCertSecret em \<in> K
         \<or> emTLSSecret em \<noteq> '''' \<and> e (n @ ''/'' @ emTLSSecret em)))"

lemma egressTaken_mono: "egressTaken e K n em \<Longrightarrow> K \<subseteq> K' \<Longrightarrow> egressTaken e K' n em"
  unfolding egressTaken_def by blast

lemma addEgressMTLSSecretRefs_ok:
  assumes "secretInv e st"
  shows "\<exists>err st'. addEgressMTLSSecretRefs manager pols st = Some (err, st') \<and> keepsSecrets e st st'
    \<and> (\<forall>n em. firstOf psEgressMTLS pols = Some (n, em) \<longrightarrow> egressTaken e (taken st') n em)"
  using assms
proof (induction pols arbitrary: st)
  case Nil
  then show ?case by (simp add: keepsSecrets_def)
next
  case (Cons pol pols)
  show ?case
  proof (cases "psEgressMTLS (polSpec pol)")
    case None
    then show ?thesis using Cons.IH [OF Cons.prems] by simp
  next
    case (Some em)
    let ?n = "omNamespace (polMeta pol)"
    obtain err1 st1 where 1: "takeNamedSecret manager ?n (emTLSSecret em) st = Some (err1, st1)" "keepsSecrets e st st1"
      "emTLSSecret em \<noteq> '''' \<longrightarrow> ?n @ ''/'' @ emTLSSecret em \<in> taken st1" "err1 \<noteq> None \<longrightarrow> emTLSSecret em \<noteq> '''' \<and> e (?n @ ''/'' @ emTLSSecret em)"
      using takeNamedSecret_ok [OF Cons.prems] by blast
    then have inv1: "secretInv e st1" by (simp add: keepsSecrets_def)
    obtain err2 st2 where 2: "takeNamedSecret manager ?n (emTrustedCertSecret em) st1 = Some (err2, st2)" "keepsSecrets e st1 st2"
      "emTrustedCertSecret em \<noteq> '''' \<longrightarrow> ?n @ ''/'' @ emTrustedCertSecret em \<in> taken st2"
      using takeNamedSecret_ok [OF inv1] by blast
    then have inv2: "secretInv e st2" by (simp add: keepsSecrets_def)
    obtain err3 st3 where 3: "addEgressMTLSSecretRefs manager pols st2 = Some (err3, st3)" "keepsSecrets e st2 st3"
      using Cons.IH [OF inv2] by blast
    have 4: "keepsSecrets e st st2" "keepsSecrets e st st3"
      using keepsSecrets_trans 1(2) 2(2) 3(2) by blast+
    have t1: "egressTaken e (taken st1) ?n em" if "err1 \<noteq> None" using 1(3,4) that by (auto simp: egressTaken_def)
    have t2: "egressTaken e (taken st2) ?n em" using 1(3) 2(2,3) by (auto simp: egressTaken_def keepsSecrets_def)
    have t3: "egressTaken e (taken st3) ?n em" using egressTaken_mono [OF t2] 3(2) by (simp add: keepsSecrets_def)
    show ?thesis
    proof (cases err1)
      case (Some err)
      then show ?thesis using \<open>psEgressMTLS (polSpec pol) = Some em\<close> 1(1,2) t1 by simp
    next
      case None
      then show ?thesis using Some 1(1) 2(1) 3(1) t2 t3 4 by (cases err2) simp_all
    qed
  qed
qed

section \<open>One context\<close>

definition contextTaken :: "(string \<Rightarrow> bool) \<Rightarrow> bool \<Rightarrow> Policy list \<Rightarrow> string set \<Rightarrow> bool" where
  "contextTaken e isSpec pols K =
     ((\<forall>n j. firstOf psJWTAuth pols = Some (n, j) \<longrightarrow> n @ ''/'' @ jwtSecret j \<in> K)
      \<and> (\<forall>n oi. firstOf psOIDC pols = Some (n, oi) \<longrightarrow> n @ ''/'' @ oiClientSecret oi \<in> K)
      \<and> (\<forall>n em. firstOf psEgressMTLS pols = Some (n, em) \<longrightarrow> egressTaken e K n em)
      \<and> (isSpec \<longrightarrow> (\<forall>n im. firstOf psIngressMTLS pols = Some (n, im) \<longrightarrow> n @ ''/'' @ imClientCertSecret im \<in> K)))"

lemma contextTaken_mono: "contextTaken e isSpec pols K \<Longrightarrow> K \<subseteq> K' \<Longrightarrow> contextTaken e isSpec pols K'"
  unfolding contextTaken_def using egressTaken_mono by blast

lemma addContextSecretRefs_ok:
  assumes "secretInv e st"
  shows "\<exists>st'. addContextSecretRefs env isSpec pols st = Some st' \<and> keepsSecrets e st st' \<and> contextTaken e isSpec pols (taken st')"
proof -
  let ?m = "keSecretManager env"
  obtain err1 st1 where 1: "addJWTSecretRefs ?m pols st = Some (err1, st1)" "keepsSecrets e st st1"
    "\<forall>n j. firstOf psJWTAuth pols = Some (n, j) \<longrightarrow> n @ ''/'' @ jwtSecret j \<in> taken st1"
    using addJWTSecretRefs_ok [OF assms] by blast
  then have i1: "secretInv e st1" by (simp add: keepsSecrets_def)
  have "\<exists>err2 st2. (if isSpec then addIngressMTLSSecretRefs ?m pols st1 else Some (None, st1)) = Some (err2, st2) \<and> keepsSecrets e st1 st2
      \<and> (isSpec \<longrightarrow> (\<forall>n im. firstOf psIngressMTLS pols = Some (n, im) \<longrightarrow> n @ ''/'' @ imClientCertSecret im \<in> taken st2))"
    using addIngressMTLSSecretRefs_ok [OF i1] i1 by (cases isSpec) (simp_all add: keepsSecrets_def)
  then obtain err2 st2 where 2: "(if isSpec then addIngressMTLSSecretRefs ?m pols st1 else Some (None, st1)) = Some (err2, st2)"
    "keepsSecrets e st1 st2"
    "isSpec \<longrightarrow> (\<forall>n im. firstOf psIngressMTLS pols = Some (n, im) \<longrightarrow> n @ ''/'' @ imClientCertSecret im \<in> taken st2)"
    by blast
  then have i2: "secretInv e st2" by (simp add: keepsSecrets_def)
  obtain err3 st3 where 3: "addEgressMTLSSecretRefs ?m pols st2 = Some (err3, st3)" "keepsSecrets e st2 st3"
    "\<forall>n em. firstOf psEgressMTLS pols = Some (n, em) \<longrightarrow> egressTaken e (taken st3) n em"
    using addEgressMTLSSecretRefs_ok [OF i2] by blast
  then have i3: "secretInv e st3" by (simp add: keepsSecrets_def)
  obtain err4 st4 where 4: "addOIDCSecretRefs ?m pols st3 = Some (err4, st4)" "keepsSecrets e st3 st4"
    "\<forall>n oi. firstOf psOIDC pols = Some (n, oi) \<longrightarrow> n @ ''/'' @ oiClientSecret oi \<in> taken st4"
    using addOIDCSecretRefs_ok [OF i3] by blast
  have grow: "taken st1 \<subseteq> taken st4" "taken st2 \<subseteq> taken st4" "taken st3 \<subseteq> taken st4" "keepsSecrets e st st4"
    using 1(2) 2(2) 3(2) 4(2) by (auto simp: keepsSecrets_def)
  have "contextTaken e isSpec pols (taken st4)"
    unfolding contextTaken_def using 1(3) 2(3) 3(3) 4(3) grow(1-3) egressTaken_mono by blast
  moreover have "addContextSecretRefs env isSpec pols st = Some st4"
    using 1(1) 2(1) 3(1) 4(1) by (simp add: addContextSecretRefs_def)
  ultimately show ?thesis using grow(4) by blast
qed

section \<open>Policies of a context\<close>

text \<open>
  What the cache of policies promises: a policy is under the key of its namespace and name. And
  the only panic of the validator, for the destination of a log, does not occur.
\<close>

definition policiesKeyed :: "listers \<Rightarrow> bool" where
  "policiesKeyed ls =
     (\<forall>ns name p. lsPolicyByKey ls (ns @ ''/'' @ name) = Inr (Some p) \<longrightarrow> omNamespace (polMeta p) = ns \<and> omName (polMeta p) = name)"

definition policiesCheckable :: "'fs controllerEnv \<Rightarrow> bool" where
  "policiesCheckable env = (\<forall>key p. lsPolicyByKey (keListers env) key = Inr (Some p) \<longrightarrow> controllerValidatePolicy env p \<noteq> None)"

text \<open>A policy of the cache under its own key that is accepted.\<close>

definition knownPolicy :: "'fs controllerEnv \<Rightarrow> Policy \<Rightarrow> bool" where
  "knownPolicy env p =
     (lsPolicyByKey (keListers env) (omNamespace (polMeta p) @ ''/'' @ omName (polMeta p)) = Inr (Some p)
      \<and> controllerValidatePolicy env p = Some None)"

text \<open>The namespace of a reference is that of its owner if it names none.\<close>

definition refNs :: "PolicyReference \<Rightarrow> string \<Rightarrow> string" where
  "refNs p ns = (if prNamespace p = '''' then ns else prNamespace p)"

lemma getPolicies_step:
  "getPolicies env (p # ps) ns =
     (let key = refNs p ns @ ''/'' @ prName p;
          failed = (\<lambda>e. map_option (\<lambda>(result, errs). (result, e # errs)) (getPolicies env ps ns))
      in case lsPolicyByKey (keListers env) key of
           Inl err \<Rightarrow> failed (PolicyLookupFailed key err)
         | Inr None \<Rightarrow> failed (PolicyMissing key)
         | Inr (Some policy) \<Rightarrow>
             (case controllerValidatePolicy env policy of
                None \<Rightarrow> None
              | Some (Some err) \<Rightarrow> failed (PolicyInvalid key err)
              | Some None \<Rightarrow> map_option (\<lambda>(result, errs). (policy # result, errs)) (getPolicies env ps ns)))"
  by (simp add: refNs_def Let_def)

lemma firstBlock_lookup:
  "firstBlock block ns pols (p # ps) =
     (case gget pols (refNs p ns @ ''/'' @ prName p) of
        None \<Rightarrow> None
      | Some pol \<Rightarrow> (case block (polSpec pol) of Some x \<Rightarrow> Some (refNs p ns, x) | None \<Rightarrow> firstBlock block ns pols ps))"
  unfolding firstBlock.simps refNs_def Let_def by (rule refl)

lemma getPolicies_total:
  assumes "policiesCheckable env"
  shows "\<exists>pols errs. getPolicies env refs ns = Some (pols, errs)"
proof (induction refs)
  case Nil
  then show ?case by simp
next
  case (Cons p refs)
  then obtain pols errs where rest: "getPolicies env refs ns = Some (pols, errs)" by blast
  let ?key = "refNs p ns @ ''/'' @ prName p"
  have "controllerValidatePolicy env pol \<noteq> None" if "lsPolicyByKey (keListers env) ?key = Inr (Some pol)" for pol
    using assms that by (auto simp: policiesCheckable_def)
  then show ?case using rest by (auto simp: Let_def getPolicies_step simp del: getPolicies.simps(2) split: sum.splits option.splits)
qed

lemma getPolicies_known:
  assumes "policiesKeyed (keListers env)" and "getPolicies env refs ns = Some (pols, errs)"
  shows "\<forall>p\<in>set pols. knownPolicy env p"
  using assms(2)
proof (induction refs arbitrary: pols errs)
  case (Cons p refs)
  let ?key = "refNs p ns @ ''/'' @ prName p"
  have "omNamespace (polMeta pol) @ ''/'' @ omName (polMeta pol) = ?key" if "lsPolicyByKey (keListers env) ?key = Inr (Some pol)" for pol
    using assms(1) that unfolding policiesKeyed_def by auto
  then show ?case using Cons.prems
    by (auto simp: Let_def knownPolicy_def getPolicies_step simp del: getPolicies.simps(2) dest!: Cons.IH split: sum.splits option.splits)
qed simp

lemma createPolicyMap_known:
  assumes "\<forall>p\<in>set pols. knownPolicy env p" and "gget (createPolicyMap pols) key = Some pol"
  shows "lsPolicyByKey (keListers env) key = Inr (Some pol) \<and> controllerValidatePolicy env pol = Some None"
proof -
  have "gget (fold (\<lambda>p. gput (omNamespace (polMeta p) @ ''/'' @ omName (polMeta p)) p) pols m) key = Some pol
      \<Longrightarrow> gget m key = Some pol \<or> pol \<in> set pols \<and> key = omNamespace (polMeta pol) @ ''/'' @ omName (polMeta pol)" for m
    by (induction pols arbitrary: m) (fastforce split: if_splits)+
  from this [of "[]"] assms show ?thesis unfolding createPolicyMap_def knownPolicy_def by auto
qed

text \<open>The first block that the generator finds is the first block of the policies that the controller took.\<close>

lemma firstBlock_firstOf:
  assumes "policiesKeyed (keListers env)" and "\<forall>p\<in>set all. knownPolicy env p"
    and "getPolicies env refs ns = Some (pols, errs)" and "firstBlock block ns (createPolicyMap all) refs = Some (n, b)"
  shows "firstOf block pols = Some (n, b)"
  using assms(3,4)
proof (induction refs arbitrary: pols errs)
  case (Cons p refs)
  let ?ns = "refNs p ns"
  let ?key = "?ns @ ''/'' @ prName p"
  obtain pol where pol: "gget (createPolicyMap all) ?key = Some pol" using Cons.prems(2) unfolding firstBlock_lookup by (auto split: option.splits)
  have known: "lsPolicyByKey (keListers env) ?key = Inr (Some pol)" "controllerValidatePolicy env pol = Some None"
    using createPolicyMap_known [OF assms(2) pol] by blast+
  have ns: "omNamespace (polMeta pol) = ?ns" using assms(1) known(1) unfolding policiesKeyed_def by blast
  obtain pols' where pols': "getPolicies env refs ns = Some (pols', errs)" "pols = pol # pols'"
    using Cons.prems(1) known unfolding getPolicies_step by (auto simp: Let_def)
  show ?case
  proof (cases "block (polSpec pol)")
    case None
    then show ?thesis using Cons.IH [OF pols'(1)] Cons.prems(2) pol pols'(2) unfolding firstBlock_lookup by simp
  next
    case (Some c)
    then show ?thesis using Cons.prems(2) pol pols'(2) ns unfolding firstBlock_lookup by simp
  qed
qed simp

lemma contextReady_taken:
  assumes keyed: "policiesKeyed (keListers env)" and known: "\<forall>p\<in>set all. knownPolicy env p"
    and pols: "getPolicies env refs ns = Some (pols, errs)" and inv: "secretInv e st"
    and ctx: "contextTaken e isSpec pols (taken st)" and spec: "ctxt = specContext \<longrightarrow> isSpec"
  shows "contextReady (fst st) (createPolicyMap all) ctxt ns refs"
proof -
  have there: "secretThere (fst st) n name" if "n @ ''/'' @ name \<in> taken st" for n name
    using in_keys_gget [OF that [unfolded taken_def]] inv by (auto simp: secretThere_def secretInv_def)
  have failed: "secretFailed (fst st) n name" if "n @ ''/'' @ name \<in> taken st" "e (n @ ''/'' @ name)" for n name
    using in_keys_gget [OF that(1) [unfolded taken_def]] that(2) inv by (fastforce simp: secretFailed_def secretInv_def)
  note first = firstBlock_firstOf [OF keyed known pols]
  have egress: "egressThere (fst st) n em" if "egressTaken e (taken st) n em" for n em
    using that there failed unfolding egressThere_def egressTaken_def by blast
  have "optAll P (firstBlock block ns (createPolicyMap all) refs)"
    if "\<And>n b. firstOf block pols = Some (n, b) \<Longrightarrow> P n b" for block :: "PolicySpec \<Rightarrow> 'z option" and P
    using first [of block] that by (auto simp: optAll_def split: option.splits)
  note all = this
  show ?thesis unfolding contextReady_def
    using ctx spec there egress unfolding contextTaken_def by (intro conjI impI all) blast+
qed


section \<open>All contexts\<close>

text \<open>The contexts of policies, in the order of the code: of the VirtualServer, of its routes, of the subroutes.\<close>

definition contexts :: "VirtualServer \<Rightarrow> VirtualServerRoute list \<Rightarrow> (bool \<times> PolicyReference list \<times> string) list" where
  "contexts vs vsrs =
     (True, vssPolicies (vsSpec vs), omNamespace (vsMeta vs))
       # map (\<lambda>r. (False, rtPolicies r, omNamespace (vsMeta vs))) (vssRoutes (vsSpec vs))
       @ concat (map (\<lambda>vsr. map (\<lambda>sr. (False, rtPolicies sr, omNamespace (vsrMeta vsr))) (vrsSubroutes (vsrSpec vsr))) vsrs)"

lemma foldOpt_map_fun: "foldOpt f (map g xs) = foldOpt (\<lambda>x. f (g x)) xs"
proof
  show "foldOpt f (map g xs) s = foldOpt (\<lambda>x. f (g x)) xs s" for s
    by (induction xs arbitrary: s) (auto split: option.splits)
qed

lemma foldOpt_concat: "foldOpt f (concat xss) = foldOpt (foldOpt f) xss"
proof
  show "foldOpt f (concat xss) s = foldOpt (foldOpt f) xss s" for s
    by (induction xss arbitrary: s) (auto simp: foldOpt_append split: option.splits)
qed

lemma foldOpt_bind: "foldOpt f (xs @ ys) s = Option.bind (foldOpt f xs s) (foldOpt f ys)"
  by (cases "foldOpt f xs s") (simp_all add: foldOpt_append)

lemma foldOpt_bind_Cons: "foldOpt f (x # xs) s = Option.bind (f x s) (foldOpt f xs)"
  by (cases "f x s") simp_all

definition addOneContext :: "'fs controllerEnv \<Rightarrow> bool \<times> PolicyReference list \<times> string \<Rightarrow> 'fs collectedRefs \<Rightarrow> 'fs collectedRefs option" where
  "addOneContext env c acc = (case c of (isSpec, refs, ns) \<Rightarrow> addContext env isSpec refs ns acc)"

lemma collectPolicies_contexts:
  "collectPolicies env vs vsrs store =
     Option.bind (addTLSSecretRef env vs ([], store))
       (\<lambda>st. foldOpt (addOneContext env) (contexts vs vsrs) \<lparr>prSecrets = st, prApRefs = ([], []), prPolicies = []\<rparr>)"
  unfolding collectPolicies_def contexts_def Let_def foldOpt_bind foldOpt_bind_Cons foldOpt_concat map_map o_def foldOpt_map_fun
  by (simp add: addOneContext_def [abs_def] foldOpt_map_fun)

definition contextDone :: "'fs controllerEnv \<Rightarrow> (string \<Rightarrow> bool) \<Rightarrow> 'fs collectedRefs \<Rightarrow> bool \<times> PolicyReference list \<times> string \<Rightarrow> bool" where
  "contextDone env e acc c =
     (case c of (isSpec, refs, ns) \<Rightarrow>
        \<exists>pols errs. getPolicies env refs ns = Some (pols, errs) \<and> contextTaken e isSpec pols (taken (prSecrets acc)))"

definition collected :: "'fs controllerEnv \<Rightarrow> (string \<Rightarrow> bool) \<Rightarrow> 'fs collectedRefs \<Rightarrow> bool" where
  "collected env e acc = (secretInv e (prSecrets acc) \<and> (\<forall>p\<in>set (prPolicies acc). knownPolicy env p))"

lemma contextDone_mono: "contextDone env e acc c \<Longrightarrow> taken (prSecrets acc) \<subseteq> taken (prSecrets acc') \<Longrightarrow> contextDone env e acc' c"
  by (cases c) (auto simp: contextDone_def dest: contextTaken_mono)

lemma addOneContext_ok:
  assumes keyed: "policiesKeyed (keListers env)" and check: "policiesCheckable env" and inv: "collected env e acc"
  shows "\<exists>acc'. addOneContext env c acc = Some acc' \<and> collected env e acc' \<and> contextDone env e acc' c
    \<and> taken (prSecrets acc) \<subseteq> taken (prSecrets acc')"
proof -
  obtain isSpec refs ns where c: "c = (isSpec, refs, ns)" by (cases c)
  obtain pols errs where pols: "getPolicies env refs ns = Some (pols, errs)" using getPolicies_total [OF check] by blast
  have "secretInv e (prSecrets acc)" using inv by (simp add: collected_def)
  from addContextSecretRefs_ok [OF this]
  obtain st' where st': "addContextSecretRefs env isSpec pols (prSecrets acc) = Some st'" "keepsSecrets e (prSecrets acc) st'"
    "contextTaken e isSpec pols (taken st')" by blast
  let ?acc = "\<lparr>prSecrets = st', prApRefs = snd (addWAFPolicyRefs (keAppProtect env) pols (prApRefs acc)), prPolicies = prPolicies acc @ pols\<rparr>"
  have "addOneContext env c acc = Some ?acc" using pols st'(1) by (simp add: addOneContext_def addContext_def c)
  moreover have "collected env e ?acc"
    using inv st'(2) getPolicies_known [OF keyed pols] by (auto simp: collected_def keepsSecrets_def)
  moreover have "contextDone env e ?acc c" using pols st'(3) by (simp add: contextDone_def c)
  moreover have "taken (prSecrets acc) \<subseteq> taken (prSecrets ?acc)" using st'(2) by (simp add: keepsSecrets_def)
  ultimately show ?thesis by blast
qed

lemma contexts_ok:
  assumes "policiesKeyed (keListers env)" and "policiesCheckable env" and "collected env e acc"
  shows "\<exists>acc'. foldOpt (addOneContext env) cs acc = Some acc' \<and> collected env e acc'
    \<and> taken (prSecrets acc) \<subseteq> taken (prSecrets acc') \<and> (\<forall>c\<in>set cs. contextDone env e acc' c)"
  using assms(3)
proof (induction cs arbitrary: acc)
  case Nil
  then show ?case by simp
next
  case (Cons c cs)
  obtain acc1 where 1: "addOneContext env c acc = Some acc1" "collected env e acc1" "contextDone env e acc1 c"
    "taken (prSecrets acc) \<subseteq> taken (prSecrets acc1)"
    using addOneContext_ok [OF assms(1,2) Cons.prems] by blast
  obtain acc2 where 2: "foldOpt (addOneContext env) cs acc1 = Some acc2" "collected env e acc2"
    "taken (prSecrets acc1) \<subseteq> taken (prSecrets acc2)" "\<forall>c\<in>set cs. contextDone env e acc2 c"
    using Cons.IH [OF 1(2)] by blast
  then show ?case using 1 contextDone_mono [OF 1(3) 2(3)] by auto
qed

section \<open>Collected and generated\<close>

lemma addTLSSecretRef_ok:
  assumes "secretInv e st"
  shows "\<exists>st'. addTLSSecretRef env vs st = Some st' \<and> secretInv e st'
    \<and> (\<forall>t. vssTLS (vsSpec vs) = Some t \<longrightarrow> tlSecret t = '''' \<or> omNamespace (vsMeta vs) @ ''/'' @ tlSecret t \<in> taken st')"
proof (cases "vssTLS (vsSpec vs)")
  case None
  then show ?thesis using assms by (simp add: addTLSSecretRef_def)
next
  case (Some t)
  let ?k = "omNamespace (vsMeta vs) @ ''/'' @ tlSecret t"
  obtain ref st' where "takeSecret (keSecretManager env) ?k ?k st = Some (ref, st')" "secretInv e st'" "taken st' = insert ?k (taken st)"
    using takeSecret_ok [OF assms] by blast
  then show ?thesis using Some assms by (cases "tlSecret t = ''''") (simp_all add: addTLSSecretRef_def)
qed

lemma createVirtualServerEx_ready:
  assumes keyed: "policiesKeyed (keListers env)" and check: "policiesCheckable env" and store: "soundStore store"
  shows "\<exists>vsEx store'. createVirtualServerEx env vs vsrs store = Some (vsEx, store') \<and> vxVirtualServer vsEx = vs
    \<and> vxVirtualServerRoutes vsEx = vsrs \<and> readyEx vsEx \<and> soundStore store'"
proof -
  let ?e = "secretFails store"
  have "secretInv ?e ([], store)" using store by (simp add: secretInv_def)
  then have "\<exists>st. addTLSSecretRef env vs ([], store) = Some st \<and> secretInv ?e st
      \<and> (\<forall>t. vssTLS (vsSpec vs) = Some t \<longrightarrow> tlSecret t = '''' \<or> omNamespace (vsMeta vs) @ ''/'' @ tlSecret t \<in> taken st)"
    using addTLSSecretRef_ok by blast
  then obtain st where st: "addTLSSecretRef env vs ([], store) = Some st" "secretInv ?e st"
    "\<forall>t. vssTLS (vsSpec vs) = Some t \<longrightarrow> tlSecret t = '''' \<or> omNamespace (vsMeta vs) @ ''/'' @ tlSecret t \<in> taken st" by blast
  let ?acc0 = "\<lparr>prSecrets = st, prApRefs = ([], []), prPolicies = []\<rparr>"
  have "collected env ?e ?acc0" using st(2) by (simp add: collected_def)
  from contexts_ok [OF keyed check this, of "contexts vs vsrs"]
  obtain acc where acc: "foldOpt (addOneContext env) (contexts vs vsrs) ?acc0 = Some acc" "collected env ?e acc"
    "taken st \<subseteq> taken (prSecrets acc)" "\<forall>c\<in>set (contexts vs vsrs). contextDone env ?e acc c"
    by auto
  have inv: "secretInv ?e (prSecrets acc)" and known: "\<forall>p\<in>set (prPolicies acc). knownPolicy env p"
    using acc(2) by (simp_all add: collected_def)
  have ctx: "contextReady (fst (prSecrets acc)) (createPolicyMap (prPolicies acc)) ctxt ns refs"
    if "(isSpec, refs, ns) \<in> set (contexts vs vsrs)" "ctxt = specContext \<longrightarrow> isSpec" for isSpec refs ns ctxt
  proof -
    have "contextDone env ?e acc (isSpec, refs, ns)" using acc(4) that(1) by blast
    then obtain pols errs where "getPolicies env refs ns = Some (pols, errs)" "contextTaken ?e isSpec pols (taken (prSecrets acc))"
      by (auto simp: contextDone_def)
    from contextReady_taken [OF keyed known this(1) inv this(2) that(2)] show ?thesis .
  qed
  have kinds: "onePolicyKind (createPolicyMap (prPolicies acc))"
  proof -
    have "policyKinds (polSpec pol) = 1" if "gget (createPolicyMap (prPolicies acc)) key = Some pol" for key pol
      using createPolicyMap_known [OF known that] policyKinds_one unfolding controllerValidatePolicy_def by blast
    then show ?thesis by (simp add: onePolicyKind_def)
  qed
  have tls: "case vssTLS (vsSpec vs) of None \<Rightarrow> True
      | Some t \<Rightarrow> tlSecret t = '''' \<or> gget (fst (prSecrets acc)) (omNamespace (vsMeta vs) @ ''/'' @ tlSecret t) \<noteq> None"
    using st(3) acc(3) by (auto simp: taken_def gget_None_iff split: option.splits)
  have other: "routeContext \<noteq> specContext" "subRouteContext \<noteq> specContext"
    by (simp_all add: routeContext_def subRouteContext_def specContext_def)
  obtain vsEx where vsEx: "createVirtualServerEx env vs vsrs store = Some (vsEx, snd (prSecrets acc))"
    "vxVirtualServer vsEx = vs" "vxVirtualServerRoutes vsEx = vsrs" "vxSecretRefs vsEx = fst (prSecrets acc)"
    "vxPolicies vsEx = createPolicyMap (prPolicies acc)"
    using acc(1) st(1) by (simp add: createVirtualServerEx_def collectPolicies_contexts Let_def)
  have "readyEx vsEx"
    unfolding readyEx_def Let_def vsEx(2-5) using kinds tls other
    by (intro conjI ballI ctx [of True] ctx [of False]) (auto simp: contexts_def)
  moreover have "soundStore (snd (prSecrets acc))" using inv by (simp add: secretInv_def)
  ultimately show ?thesis using vsEx(1-3) by blast
qed


section \<open>Properties\<close>

definition sampleFlags :: controllerFlags where
  "sampleFlags = \<lparr>kcIsNginxPlus = True, kcIsPrometheusEnabled = False, kcIsLatencyMetricsEnabled = False, kcAppProtectEnabled = False,
     kcEnablePreviewPolicies = True, kcIngressClass = ''nginx'', kcUseIngressClassOnly = False, kcDefaultServerSecret = '''',
     kcWildcardTLSSecret = ''''\<rparr>"

text \<open>A cluster with one policy, and without the secret that it names.\<close>

definition sampleEnvironment :: "files controllerEnv" where
  "sampleEnvironment =
     \<lparr>keFlags = sampleFlags,
      keListers = \<lparr>lsServiceByKey = (\<lambda>_. Inr None), lsPodByKey = (\<lambda>_. Inr None), lsPods = (\<lambda>_ _. Inr []), lsEndpoints = [],
        lsPolicyByKey = (\<lambda>key. Inr (if key = ''n/jwt'' then Some jwtPolicy else None)), lsPolicies = [jwtPolicy]\<rparr>,
      keNet = sampleNet, keAppProtect = newConfigurationImpl, keSecretManager = configuratorFiles ''/etc/nginx/secrets''\<rparr>"

definition policyCafe :: VirtualServer where
  "policyCafe = matchCafe\<lparr>vsSpec := (vsSpec matchCafe)\<lparr>vssPolicies := [\<lparr>prName = ''jwt'', prNamespace = ''''\<rparr>]\<rparr>\<rparr>"

lemma sampleEnvironment_keyed: "policiesKeyed (keListers sampleEnvironment)"
proof -
  have "ns = ''n'' \<and> name = ''jwt''" if "ns @ ''/'' @ name = ''n/jwt''" for ns name :: string
  proof (cases ns)
    case (Cons c cs)
    then have c: "c = CHR ''n''" and rest: "cs @ ''/'' @ name = ''/jwt''" using that by simp_all
    have "cs = []"
    proof (cases cs)
      case (Cons d ds)
      then have "ds @ ''/'' @ name = ''jwt''" using rest by simp
      then have "CHR ''/'' \<in> set ''jwt''" by (metis in_set_conv_decomp append_Cons append_Nil)
      then show ?thesis by simp
    qed simp
    then show ?thesis using c rest Cons by simp
  qed (use that in simp)
  then show ?thesis by (auto simp: policiesKeyed_def sampleEnvironment_def jwtPolicy_def sampleMeta_def)
qed

lemma sampleEnvironment_checkable: "policiesCheckable sampleEnvironment"
  using jwtPolicy_accepted
  by (auto simp: policiesCheckable_def sampleEnvironment_def controllerValidatePolicy_def sampleFlags_def)

text \<open>
  C4: For every accepted VirtualServer with accepted VirtualServerRoutes the controller collects
  what they refer to and the generator returns a configuration, whatever policies, secrets,
  services and endpoints the cluster has or lacks: no step panics on a nil action, on a nil
  reference to a secret or on a page for errors without content. The cache of policies is assumed
  to hold policies under their own keys, the store of secrets to hold references with a secret
  (which its operations keep), and the check of policies to return, which fails only for some
  destinations of security logs.
\<close>

theorem accepted_virtual_server_generated:
  assumes "policiesKeyed (keListers env)" and "policiesCheckable env" and "soundStore store"
    and "ValidateVirtualServer vsv vs = None"
    and "\<forall>vsr\<in>set vsrs. \<exists>path. ValidateVirtualServerRouteForVirtualServer vsv vsr (vssHost (vsSpec vs)) path = None"
  shows "\<exists>vsEx store' cfg ws vsc'. createVirtualServerEx env vs vsrs store = Some (vsEx, store')
    \<and> GenerateVirtualServerConfig vsEx apResources vsc = Some (cfg, ws, vsc') \<and> soundStore store'"
proof -
  obtain vsEx store' where ex: "createVirtualServerEx env vs vsrs store = Some (vsEx, store')" "vxVirtualServer vsEx = vs"
    "vxVirtualServerRoutes vsEx = vsrs" "readyEx vsEx" "soundStore store'"
    using createVirtualServerEx_ready [OF assms(1-3)] by blast
  have "acceptedEx vsv vsEx" using assms(4,5) ex(2,3) by (simp add: acceptedEx_def)
  from GenerateVirtualServerConfig_total [OF this ex(4)] ex(1,5) show ?thesis by blast
qed

theorem accepted_virtual_server_generated_witness:
  "\<exists>vsEx store' cfg ws vsc'.
     createVirtualServerEx sampleEnvironment policyCafe [cafeRoute] \<lparr>ssSecrets = [], ssFiles = []\<rparr> = Some (vsEx, store')
     \<and> GenerateVirtualServerConfig vsEx [] sampleGenerator = Some (cfg, ws, vsc') \<and> soundStore store'"
proof -
  have store: "soundStore \<lparr>ssSecrets = [], ssFiles = [] :: files\<rparr>" by (simp add: soundStore_def)
  have vs: "ValidateVirtualServer plainValidator policyCafe = None" by code_simp
  have "vssHost (vsSpec policyCafe) = ''cafe.example.com''" by (simp add: policyCafe_def matchCafe_def cafe_def)
  then have vsr: "\<forall>vsr\<in>set [cafeRoute]. \<exists>path. ValidateVirtualServerRouteForVirtualServer plainValidator vsr (vssHost (vsSpec policyCafe)) path = None"
    using cafeRoute_accepted by auto
  show ?thesis
    by (rule accepted_virtual_server_generated [OF sampleEnvironment_keyed sampleEnvironment_checkable store vs vsr])
qed


end
