(* ===== verification/TS_Config_Properties.thy ===== *)
theory TS_Config_Properties
  imports TS_Config Controller_Properties
begin

text \<open>
  What the generated configuration of an accepted TransportServer is: its server passes to the
  upstream of its action, and the servers of every upstream are the endpoints of its service.
\<close>

section \<open>Keys of endpoints\<close>

text \<open>A port in a key has no colon, so the last colon ends the name of the service.\<close>

lemma last_separator:
  assumes "xs @ c # ys = xs' @ c # ys'" and "c \<notin> set ys" and "c \<notin> set ys'"
  shows "xs = xs' \<and> ys = ys'"
  using assms
proof (induction xs arbitrary: xs')
  case Nil
  then show ?case by (cases xs') auto
next
  case (Cons x xs)
  then show ?case by (cases xs') auto
qed

lemma fmtPort_no_colon: "CHR '':'' \<notin> set (fmtPort p)"
proof -
  have "CHR '':'' \<notin> set (natDigits n)" for n
    using natDigits_digits [of n] by (auto simp: list_all_iff isDigit_def inRange_def)
  then show ?thesis by (simp add: fmtPort_def itoa_def)
qed

lemma endpointsKey_inject:
  assumes "GenerateEndpointsKey ns s [] p = GenerateEndpointsKey ns s' [] p'"
  shows "s = s' \<and> p = p'"
proof -
  have "s @ CHR '':'' # fmtPort p = s' @ CHR '':'' # fmtPort p'" using assms by (simp add: GenerateEndpointsKey_def)
  from last_separator [OF this fmtPort_no_colon fmtPort_no_colon] have "s = s'" "fmtPort p = fmtPort p'" by simp_all
  then show ?thesis by (simp add: fmtPort_def itoa_inject word_uint_eq_iff)
qed

section \<open>Endpoints of upstreams\<close>

text \<open>The addresses of the endpoints of the service of an upstream, none if they cannot be found.\<close>

definition serviceEndpoints :: "'fs controllerEnv \<Rightarrow> string \<Rightarrow> string \<Rightarrow> 16 word \<Rightarrow> string list" where
  "serviceEndpoints env ns service port =
     (case getEndpointsForUpstream (keFlags env) (keListers env) ns service port of Inl _ \<Rightarrow> [] | Inr (e, _) \<Rightarrow> map peAddress e)"

lemma addTransportEndpoints_endpoints:
  "fst (addTransportEndpoints env ns u acc) =
     gput (GenerateEndpointsKey ns (tuService u) [] (word_of_int (tuPort u))) (serviceEndpoints env ns (tuService u) (word_of_int (tuPort u))) (fst acc)"
  by (simp add: addTransportEndpoints_def serviceEndpoints_def getIPAddressesFromEndpoints_def Let_def case_prod_unfold
      split: sum.splits)

lemma collected_endpoints:
  assumes "u \<in> set us"
  shows "gget (fst (fold (addTransportEndpoints env ns) us acc)) (GenerateEndpointsKey ns (tuService u) [] (word_of_int (tuPort u)))
    = Some (serviceEndpoints env ns (tuService u) (word_of_int (tuPort u)))"
proof -
  let ?key = "\<lambda>u. GenerateEndpointsKey ns (tuService u) [] (word_of_int (tuPort u))"
  let ?val = "\<lambda>u. serviceEndpoints env ns (tuService u) (word_of_int (tuPort u))"
  have "gget (fst (fold (addTransportEndpoints env ns) us acc)) (?key u) = Some (?val u)"
    if "u \<in> set us \<or> gget (fst acc) (?key u) = Some (?val u)"
    using that
  proof (induction us arbitrary: acc)
    case (Cons v us)
    have "?val v = ?val u" if "?key v = ?key u" using endpointsKey_inject [OF that] by simp
    then have "u \<in> set us \<or> gget (fst (addTransportEndpoints env ns v acc)) (?key u) = Some (?val u)"
      using Cons.prems by (auto simp: addTransportEndpoints_endpoints)
    from Cons.IH [OF this] show ?case by simp
  qed simp
  then show ?thesis using assms by blast
qed

lemma createTransportServerEx_endpoints:
  assumes "u \<in> set (tssUpstreams (tsSpec ts))"
  shows "gget (txEndpoints (createTransportServerEx env ts port))
      (GenerateEndpointsKey (omNamespace (tsMeta ts)) (tuService u) [] (word_of_int (tuPort u)))
    = Some (serviceEndpoints env (omNamespace (tsMeta ts)) (tuService u) (word_of_int (tuPort u)))"
  using collected_endpoints [OF assms, of env "omNamespace (tsMeta ts)" "([], [])"]
  by (simp add: createTransportServerEx_def case_prod_unfold)

section \<open>Properties\<close>

text \<open>Where NGINX sends a connection when the service has no endpoints: nowhere, which NGINX Plus can express.\<close>

definition serversFor :: "bool \<Rightarrow> string list \<Rightarrow> string list" where
  "serversFor isPlus endpoints = (if \<not> isPlus \<and> endpoints = [] then [nginxNonExistingUnixSocket] else endpoints)"

text \<open>
  C11: For an accepted TransportServer a configuration is generated: its server passes to one of its
  upstreams, whose names are distinct; the upstreams are those of the TransportServer, in order,
  and the servers of each are the endpoints that the controller finds for its service and port
  (without any, a socket that does not exist, unless NGINX Plus takes an upstream without
  servers). Only a UDP listener has numbers of datagrams, and a TLS passthrough server a socket.
\<close>

theorem transport_server_passes_to_endpoints:
  assumes "ValidateTransportServer tsv ts = None"
  shows "\<exists>cfg. generateTransportServerConfig (createTransportServerEx env ts port) port isPlus = Some cfg
    \<and> smProxyPass (tcServer cfg) \<in> set (map suName (tcUpstreams cfg)) \<and> distinct (map suName (tcUpstreams cfg))
    \<and> map (\<lambda>up. (suName up, map ssvAddress (suServers up))) (tcUpstreams cfg)
        = map (\<lambda>u. (GetNameForUpstream (newUpstreamNamerForTransportServer ts) (tuName u),
                    serversFor isPlus (serviceEndpoints env (omNamespace (tsMeta ts)) (tuService u) (word_of_int (tuPort u)))))
            (tssUpstreams (tsSpec ts))
    \<and> (smProxyRequests (tcServer cfg) \<noteq> None \<or> smProxyResponses (tcServer cfg) \<noteq> None \<longrightarrow> smUDP (tcServer cfg))
    \<and> (smUnixSocket (tcServer cfg) \<noteq> '''' \<longleftrightarrow> smTLSPassthrough (tcServer cfg))"
proof -
  let ?ex = "createTransportServerEx env ts port"
  let ?namer = "newUpstreamNamerForTransportServer ts"
  let ?us = "tssUpstreams (tsSpec ts)"
  have ex: "txTransportServer ?ex = ts" by (simp add: createTransportServerEx_def case_prod_unfold)
  note parts = accepted_transport_server_parts [OF assms]
  obtain a where a: "tssAction (tsSpec ts) = Some a" "taPass a \<in> tuName ` set ?us" using parts by blast
  define cfg where "cfg = the (generateTransportServerConfig ?ex port isPlus)"
  have gen: "generateTransportServerConfig ?ex port isPlus = Some cfg"
    using a(1) by (simp add: cfg_def generateTransportServerConfig_def ex Let_def)
  have ups: "tcUpstreams cfg = generateStreamUpstreams ?ex ?namer isPlus"
    and server: "smProxyPass (tcServer cfg) = GetNameForUpstream ?namer (taPass a)"
    using a(1) by (simp_all add: cfg_def generateTransportServerConfig_def ex Let_def)
  have names: "map suName (tcUpstreams cfg) = map (GetNameForUpstream ?namer) (map tuName ?us)"
    by (simp add: ups generateStreamUpstreams_def generateStreamUpstream_def ex Let_def)
  have inj: "inj_on (GetNameForUpstream ?namer) A" for A by (simp add: inj_on_def GetNameForUpstream_def)
  have pass: "smProxyPass (tcServer cfg) \<in> set (map suName (tcUpstreams cfg))" unfolding server names using a(2) by auto
  have dist: "distinct (map suName (tcUpstreams cfg))"
    unfolding names using parts inj by (subst distinct_map) blast
  have servers: "map (\<lambda>up. (suName up, map ssvAddress (suServers up))) (tcUpstreams cfg)
      = map (\<lambda>u. (GetNameForUpstream ?namer (tuName u),
                  serversFor isPlus (serviceEndpoints env (omNamespace (tsMeta ts)) (tuService u) (word_of_int (tuPort u))))) ?us"
    unfolding ups generateStreamUpstreams_def map_map o_def ex Let_def
    by (intro map_cong refl) (simp add: createTransportServerEx_endpoints generateStreamUpstream_def serversFor_def Let_def o_def)
  have udp: "smProxyRequests (tcServer cfg) \<noteq> None \<or> smProxyResponses (tcServer cfg) \<noteq> None \<longrightarrow> smUDP (tcServer cfg)"
    using parts a(1) by (auto simp: cfg_def generateTransportServerConfig_def ex Let_def split: option.splits)
  have socket: "smUnixSocket (tcServer cfg) \<noteq> '''' \<longleftrightarrow> smTLSPassthrough (tcServer cfg)"
    using a(1) by (simp add: cfg_def generateTransportServerConfig_def generateUnixSocket_def ex Let_def)
  from gen pass dist servers udp socket show ?thesis by blast
qed

theorem transport_server_passes_to_endpoints_witness:
  "\<exists>cfg. generateTransportServerConfig (createTransportServerEx sampleEnvironment sampleDNS 5353) 5353 False = Some cfg
    \<and> smProxyPass (tcServer cfg) = ''ts_n_dns_u'' \<and> map ssvAddress (concat (map suServers (tcUpstreams cfg))) = [nginxNonExistingUnixSocket]"
proof -
  have "ValidateTransportServer \<lparr>tvTlsPassthrough = False, tvSnippetsEnabled = False\<rparr> sampleDNS = None" by code_simp
  note generated = transport_server_passes_to_endpoints [OF this, of sampleEnvironment 5353 False]
  have ups: "tssUpstreams (tsSpec sampleDNS) = [\<lparr>tuName = ''u'', tuService = ''s'', tuPort = 53, tuFailTimeout = [],
      tuMaxFails = None, tuHealthCheck = None\<rparr>]" and ns: "omNamespace (tsMeta sampleDNS) = ''n''"
    by (simp_all add: sampleDNS_def sampleMeta_def)
  have name: "GetNameForUpstream (newUpstreamNamerForTransportServer sampleDNS) ''u'' = ''ts_n_dns_u''" by code_simp
  have servers: "serversFor False (serviceEndpoints sampleEnvironment ''n'' ''s'' 53) = [nginxNonExistingUnixSocket]"
    by (simp add: serversFor_def serviceEndpoints_def sampleEnvironment_def getEndpointsForUpstream_def
        getServiceForUpstream_def getServiceForIngressBackend_def)
  from generated [unfolded ups ns list.map name servers prod.case] obtain cfg
    where gen: "generateTransportServerConfig (createTransportServerEx sampleEnvironment sampleDNS 5353) 5353 False = Some cfg"
      and pass: "smProxyPass (tcServer cfg) \<in> set (map suName (tcUpstreams cfg))"
      and up: "map (\<lambda>up. (suName up, map ssvAddress (suServers up))) (tcUpstreams cfg) = [(''ts_n_dns_u'', [nginxNonExistingUnixSocket])]"
    using name servers by auto
  obtain u where "tcUpstreams cfg = [u]" "suName u = ''ts_n_dns_u''" "map ssvAddress (suServers u) = [nginxNonExistingUnixSocket]"
    using up by (auto simp: map_eq_Cons_conv)
  with gen pass show ?thesis by simp
qed

end
