(* ===== verification/Config_Parsing.thy ===== *)
theory Config_Parsing
  imports Controller_Resources
begin

text \<open>
  The parameters that users set: \<open>internal/configs/configmaps.go\<close> reads the ConfigMap,
  \<open>internal/configs/annotations.go\<close> the annotations of an Ingress on top of it. Each key is a step that
  changes the parameters; the steps are in the order of the code. A wrong value is only logged,
  and the parameter keeps its value, where the code says so.
\<close>

section \<open>Steps\<close>

type_synonym paramStep = "ConfigParams \<Rightarrow> ConfigParams"

definition runSteps :: "paramStep list \<Rightarrow> paramStep" where
  "runSteps steps cp = fold (\<lambda>step. step) steps cp"

definition ifText :: "string gomap \<Rightarrow> string \<Rightarrow> (string \<Rightarrow> paramStep) \<Rightarrow> paramStep" where
  "ifText m key f cp = (case gget m key of Some v \<Rightarrow> f v cp | None \<Rightarrow> cp)"

definition ifBool :: "apiObject \<Rightarrow> string gomap \<Rightarrow> string \<Rightarrow> (bool \<Rightarrow> paramStep) \<Rightarrow> paramStep" where
  "ifBool ctx m key f cp =
     (case GetMapKeyAsBool m key ctx of (b, found, err) \<Rightarrow> if found \<and> err = None then f b cp else cp)"

definition ifInt :: "apiObject \<Rightarrow> string gomap \<Rightarrow> string \<Rightarrow> (int \<Rightarrow> paramStep) \<Rightarrow> paramStep" where
  "ifInt ctx m key f cp =
     (case GetMapKeyAsInt m key ctx of (i, found, err) \<Rightarrow> if found \<and> err = None then f i cp else cp)"

definition ifInt64 :: "apiObject \<Rightarrow> string gomap \<Rightarrow> string \<Rightarrow> (int \<Rightarrow> paramStep) \<Rightarrow> paramStep" where
  "ifInt64 ctx m key f cp =
     (case GetMapKeyAsInt64 m key ctx of (i, found, err) \<Rightarrow> if found \<and> err = None then f i cp else cp)"

definition ifUint64 :: "apiObject \<Rightarrow> string gomap \<Rightarrow> string \<Rightarrow> bool \<Rightarrow> (nat \<Rightarrow> paramStep) \<Rightarrow> paramStep" where
  "ifUint64 ctx m key nonZero f cp =
     (case GetMapKeyAsUint64 m key ctx nonZero of (i, found, err) \<Rightarrow> if found \<and> err = None then f i cp else cp)"

definition ifSlice :: "string gomap \<Rightarrow> string \<Rightarrow> char \<Rightarrow> (string list \<Rightarrow> paramStep) \<Rightarrow> paramStep" where
  "ifSlice m key delimiter f cp =
     (case GetMapKeyAsStringSlice m key delimiter of (xs, found) \<Rightarrow> if found then f xs cp else cp)"

definition ifParsed :: "(string \<Rightarrow> 'a parsed) \<Rightarrow> string gomap \<Rightarrow> string \<Rightarrow> ('a \<Rightarrow> paramStep) \<Rightarrow> paramStep" where
  "ifParsed parse m key f = ifText m key (\<lambda>v. case parse v of Inl _ \<Rightarrow> (\<lambda>cp. cp) | Inr x \<Rightarrow> f x)"

lemmas step_defs = runSteps_def ifText_def ifBool_def ifInt_def ifInt64_def ifUint64_def ifSlice_def ifParsed_def

text \<open>Steps that the ConfigMap and the annotations share, up to the keys.\<close>

definition serverTokensStep :: "apiObject \<Rightarrow> bool \<Rightarrow> string gomap \<Rightarrow> string \<Rightarrow> paramStep" where
  "serverTokensStep ctx isPlus m key cp =
     (case GetMapKeyAsBool m key ctx of (serverTokens, found, err) \<Rightarrow>
        if \<not> found then cp
        else if err \<noteq> None
        then (if isPlus then cp\<lparr>cpServerTokens := (case gget m key of Some v \<Rightarrow> v | None \<Rightarrow> '''')\<rparr> else cp)
        else cp\<lparr>cpServerTokens := (if serverTokens then ''on'' else ''off'')\<rparr>)"

definition lbMethodStep :: "bool \<Rightarrow> string gomap \<Rightarrow> string \<Rightarrow> paramStep" where
  "lbMethodStep isPlus m key = ifParsed (if isPlus then ParseLBMethodForPlus else ParseLBMethod) m key (\<lambda>v cp. cp\<lparr>cpLBMethod := v\<rparr>)"

text \<open>The settings of HSTS are taken together, or not at all if one of them is wrong.\<close>

definition hstsStep :: "apiObject \<Rightarrow> string gomap \<Rightarrow> string \<Rightarrow> paramStep" where
  "hstsStep ctx m prefix = ifBool ctx m (prefix @ ''hsts'') (\<lambda>hsts cp.
     case (GetMapKeyAsInt64 m (prefix @ ''hsts-max-age'') ctx, GetMapKeyAsBool m (prefix @ ''hsts-include-subdomains'') ctx,
           GetMapKeyAsBool m (prefix @ ''hsts-behind-proxy'') ctx) of
       ((maxAge, existsMA, err1), (includeSubdomains, existsIS, err2), (behindProxy, existsBP, err3)) \<Rightarrow>
         if existsMA \<and> err1 \<noteq> None \<or> existsIS \<and> err2 \<noteq> None \<or> existsBP \<and> err3 \<noteq> None then cp
         else cp\<lparr>cpHSTS := hsts, cpHSTSMaxAge := (if existsMA then maxAge else cpHSTSMaxAge cp),
                 cpHSTSIncludeSubdomains := (if existsIS then includeSubdomains else cpHSTSIncludeSubdomains cp),
                 cpHSTSBehindProxy := (if existsBP then behindProxy else cpHSTSBehindProxy cp)\<rparr>)"

section \<open>The ConfigMap\<close>

record ConfigMap =
  cmMeta :: ObjectMeta
  cmData :: "string gomap"

definition configMapObject :: "ConfigMap \<Rightarrow> apiObject" where
  "configMapObject cfgm = \<lparr>aoKind = '''', aoNamespace = omNamespace (cmMeta cfgm), aoName = omName (cmMeta cfgm)\<rparr>"

definition newlineChar :: char where "newlineChar = CHR 0x0A"

definition trimNewlines :: "string \<Rightarrow> string" where
  "trimNewlines s = rev (dropWhile (\<lambda>c. c = newlineChar) (rev (dropWhile (\<lambda>c. c = newlineChar) s)))"

definition configMapProxySteps :: "apiObject \<Rightarrow> bool \<Rightarrow> string gomap \<Rightarrow> paramStep list" where
  "configMapProxySteps ctx nginxPlus m =
     [serverTokensStep ctx nginxPlus m ''server-tokens'',
      lbMethodStep nginxPlus m ''lb-method'',
      ifText m ''proxy-connect-timeout'' (\<lambda>v cp. cp\<lparr>cpProxyConnectTimeout := v\<rparr>),
      ifText m ''proxy-read-timeout'' (\<lambda>v cp. cp\<lparr>cpProxyReadTimeout := v\<rparr>),
      ifText m ''proxy-send-timeout'' (\<lambda>v cp. cp\<lparr>cpProxySendTimeout := v\<rparr>),
      ifSlice m ''proxy-hide-headers'' (CHR '','') (\<lambda>v cp. cp\<lparr>cpProxyHideHeaders := v\<rparr>),
      ifSlice m ''proxy-pass-headers'' (CHR '','') (\<lambda>v cp. cp\<lparr>cpProxyPassHeaders := v\<rparr>),
      ifText m ''client-max-body-size'' (\<lambda>v cp. cp\<lparr>cpClientMaxBodySize := v\<rparr>),
      ifText m ''server-names-hash-bucket-size'' (\<lambda>v cp. cp\<lparr>cpMainServerNamesHashBucketSize := v\<rparr>),
      ifText m ''server-names-hash-max-size'' (\<lambda>v cp. cp\<lparr>cpMainServerNamesHashMaxSize := v\<rparr>),
      ifBool ctx m ''http2'' (\<lambda>v cp. cp\<lparr>cpHTTP2 := v\<rparr>),
      ifBool ctx m ''redirect-to-https'' (\<lambda>v cp. cp\<lparr>cpRedirectToHTTPS := v\<rparr>),
      ifBool ctx m ''ssl-redirect'' (\<lambda>v cp. cp\<lparr>cpSSLRedirect := v\<rparr>),
      hstsStep ctx m ''''] "

definition configMapServerSteps :: "apiObject \<Rightarrow> string gomap \<Rightarrow> paramStep list" where
  "configMapServerSteps ctx m =
     [ifBool ctx m ''proxy-protocol'' (\<lambda>v cp. cp\<lparr>cpProxyProtocol := v\<rparr>),
      ifText m ''real-ip-header'' (\<lambda>v cp. cp\<lparr>cpRealIPHeader := v\<rparr>),
      ifSlice m ''set-real-ip-from'' (CHR '','') (\<lambda>v cp. cp\<lparr>cpSetRealIPFrom := v\<rparr>),
      ifBool ctx m ''real-ip-recursive'' (\<lambda>v cp. cp\<lparr>cpRealIPRecursive := v\<rparr>),
      ifText m ''ssl-protocols'' (\<lambda>v cp. cp\<lparr>cpMainServerSSLProtocols := v\<rparr>),
      ifBool ctx m ''ssl-prefer-server-ciphers'' (\<lambda>v cp. cp\<lparr>cpMainServerSSLPreferServerCiphers := v\<rparr>),
      ifText m ''ssl-ciphers'' (\<lambda>v cp. cp\<lparr>cpMainServerSSLCiphers := trimNewlines v\<rparr>),
      ifText m ''ssl-dhparam-file'' (\<lambda>v cp. cp\<lparr>cpMainServerSSLDHParamFileContent := Some (trimNewlines v)\<rparr>),
      ifText m ''error-log-level'' (\<lambda>v cp. cp\<lparr>cpMainErrorLogLevel := v\<rparr>),
      ifBool ctx m ''access-log-off'' (\<lambda>v cp. cp\<lparr>cpMainAccessLogOff := v\<rparr>),
      ifSlice m ''log-format'' newlineChar (\<lambda>v cp. cp\<lparr>cpMainLogFormat := v\<rparr>),
      ifText m ''log-format-escaping'' (\<lambda>v cp. if trimSpace v \<noteq> '''' then cp\<lparr>cpMainLogFormatEscaping := trimSpace v\<rparr> else cp),
      ifSlice m ''stream-log-format'' newlineChar (\<lambda>v cp. cp\<lparr>cpMainStreamLogFormat := v\<rparr>),
      ifText m ''stream-log-format-escaping''
        (\<lambda>v cp. if trimSpace v \<noteq> '''' then cp\<lparr>cpMainStreamLogFormatEscaping := trimSpace v\<rparr> else cp),
      ifBool ctx m ''default-server-access-log-off'' (\<lambda>v cp. cp\<lparr>cpDefaultServerAccessLogOff := v\<rparr>),
      ifText m ''default-server-return'' (\<lambda>v cp. cp\<lparr>cpDefaultServerReturn := v\<rparr>),
      ifBool ctx m ''proxy-buffering'' (\<lambda>v cp. cp\<lparr>cpProxyBuffering := v\<rparr>),
      ifText m ''proxy-buffers'' (\<lambda>v cp. cp\<lparr>cpProxyBuffers := v\<rparr>),
      ifText m ''proxy-buffer-size'' (\<lambda>v cp. cp\<lparr>cpProxyBufferSize := v\<rparr>),
      ifText m ''proxy-max-temp-file-size'' (\<lambda>v cp. cp\<lparr>cpProxyMaxTempFileSize := v\<rparr>)]"

definition configMapWorkerSteps :: "apiObject \<Rightarrow> string gomap \<Rightarrow> paramStep list" where
  "configMapWorkerSteps ctx m =
     [ifSlice m ''main-snippets'' newlineChar (\<lambda>v cp. cp\<lparr>cpMainMainSnippets := v\<rparr>),
      ifSlice m ''http-snippets'' newlineChar (\<lambda>v cp. cp\<lparr>cpMainHTTPSnippets := v\<rparr>),
      ifSlice m ''location-snippets'' newlineChar (\<lambda>v cp. cp\<lparr>cpLocationSnippets := v\<rparr>),
      ifSlice m ''server-snippets'' newlineChar (\<lambda>v cp. cp\<lparr>cpServerSnippets := v\<rparr>),
      ifText m ''worker-processes'' (\<lambda>v cp. case GetMapKeyAsInt m ''worker-processes'' ctx of
          (_, _, err) \<Rightarrow> if err \<noteq> None \<and> v \<noteq> ''auto'' then cp else cp\<lparr>cpMainWorkerProcesses := v\<rparr>),
      ifText m ''worker-cpu-affinity'' (\<lambda>v cp. cp\<lparr>cpMainWorkerCPUAffinity := v\<rparr>),
      ifText m ''worker-shutdown-timeout'' (\<lambda>v cp. cp\<lparr>cpMainWorkerShutdownTimeout := v\<rparr>),
      ifText m ''worker-connections'' (\<lambda>v cp. cp\<lparr>cpMainWorkerConnections := v\<rparr>),
      ifText m ''worker-rlimit-nofile'' (\<lambda>v cp. cp\<lparr>cpMainWorkerRlimitNofile := v\<rparr>),
      ifInt ctx m ''keepalive'' (\<lambda>v cp. cp\<lparr>cpKeepalive := v\<rparr>),
      ifInt ctx m ''max-fails'' (\<lambda>v cp. cp\<lparr>cpMaxFails := v\<rparr>),
      ifText m ''upstream-zone-size'' (\<lambda>v cp. cp\<lparr>cpUpstreamZoneSize := v\<rparr>),
      ifText m ''fail-timeout'' (\<lambda>v cp. cp\<lparr>cpFailTimeout := v\<rparr>),
      ifText m ''main-template'' (\<lambda>v cp. cp\<lparr>cpMainTemplate := Some v\<rparr>),
      ifText m ''ingress-template'' (\<lambda>v cp. cp\<lparr>cpIngressTemplate := Some v\<rparr>),
      ifText m ''virtualserver-template'' (\<lambda>v cp. cp\<lparr>cpVirtualServerTemplate := Some v\<rparr>),
      ifSlice m ''stream-snippets'' newlineChar (\<lambda>v cp. cp\<lparr>cpMainStreamSnippets := v\<rparr>)]"

definition configMapResolverSteps :: "apiObject \<Rightarrow> bool \<Rightarrow> string gomap \<Rightarrow> paramStep list" where
  "configMapResolverSteps ctx nginxPlus m =
     [ifSlice m ''resolver-addresses'' (CHR '','') (\<lambda>v cp. if nginxPlus then cp\<lparr>cpResolverAddresses := v\<rparr> else cp),
      ifBool ctx m ''resolver-ipv6'' (\<lambda>v cp. if nginxPlus then cp\<lparr>cpResolverIPV6 := v\<rparr> else cp),
      ifText m ''resolver-valid'' (\<lambda>v cp. if nginxPlus then cp\<lparr>cpResolverValid := v\<rparr> else cp),
      ifText m ''resolver-timeout'' (\<lambda>v cp. if nginxPlus then cp\<lparr>cpResolverTimeout := v\<rparr> else cp),
      ifText m ''keepalive-timeout'' (\<lambda>v cp. cp\<lparr>cpMainKeepaliveTimeout := v\<rparr>),
      ifInt64 ctx m ''keepalive-requests'' (\<lambda>v cp. cp\<lparr>cpMainKeepaliveRequests := v\<rparr>),
      ifUint64 ctx m ''variables-hash-bucket-size'' True (\<lambda>v cp. cp\<lparr>cpVariablesHashBucketSize := v\<rparr>),
      ifUint64 ctx m ''variables-hash-max-size'' False (\<lambda>v cp. cp\<lparr>cpVariablesHashMaxSize := v\<rparr>),
      ifText m ''opentracing-tracer'' (\<lambda>v cp. cp\<lparr>cpMainOpenTracingTracer := v\<rparr>),
      ifText m ''opentracing-tracer-config'' (\<lambda>v cp. cp\<lparr>cpMainOpenTracingTracerConfig := v\<rparr>),
      (\<lambda>cp. if cpMainOpenTracingTracer cp \<noteq> '''' \<or> cpMainOpenTracingTracerConfig cp \<noteq> ''''
            then cp\<lparr>cpMainOpenTracingLoadModule := True\<rparr> else cp),
      ifBool ctx m ''opentracing'' (\<lambda>v cp. if cpMainOpenTracingLoadModule cp then cp\<lparr>cpMainOpenTracingEnabled := v\<rparr> else cp)]"

text \<open>The thresholds of the memory are taken before they are checked.\<close>

definition configMapAppProtectSteps :: "string gomap \<Rightarrow> paramStep list" where
  "configMapAppProtectSteps m =
     [ifText m ''app-protect-failure-mode-action''
        (\<lambda>v cp. if v = ''pass'' \<or> v = ''drop'' then cp\<lparr>cpMainAppProtectFailureModeAction := v\<rparr> else cp),
      ifText m ''app-protect-cookie-seed'' (\<lambda>v cp. cp\<lparr>cpMainAppProtectCookieSeed := v\<rparr>),
      ifText m ''app-protect-cpu-thresholds''
        (\<lambda>v cp. if VerifyAppProtectThresholds v then cp\<lparr>cpMainAppProtectCPUThresholds := v\<rparr> else cp),
      ifText m ''app-protect-physical-memory-util-thresholds''
        (\<lambda>v cp. let cp' = cp\<lparr>cpMainAppProtectPhysicalMemoryThresholds := v\<rparr>
                in if VerifyAppProtectThresholds v then cp'\<lparr>cpMainAppProtectPhysicalMemoryThresholds := v\<rparr> else cp')]"

definition ParseConfigMap :: "ConfigMap \<Rightarrow> bool \<Rightarrow> bool \<Rightarrow> ConfigParams" where
  "ParseConfigMap cfgm nginxPlus hasAppProtect =
     (let ctx = configMapObject cfgm; m = cmData cfgm
      in runSteps (configMapProxySteps ctx nginxPlus m @ configMapServerSteps ctx m @ configMapWorkerSteps ctx m
           @ configMapResolverSteps ctx nginxPlus m @ (if hasAppProtect then configMapAppProtectSteps m else [])) NewDefaultConfigParams)"

section \<open>The main configuration\<close>

definition GenerateNginxMainConfig :: "StaticConfigParams \<Rightarrow> ConfigParams \<Rightarrow> MainConfig" where
  "GenerateNginxMainConfig staticCfgParams config =
     \<lparr>mcAccessLogOff = cpMainAccessLogOff config, mcDefaultServerAccessLogOff = cpDefaultServerAccessLogOff config,
      mcDefaultServerReturn = cpDefaultServerReturn config, mcErrorLogLevel = cpMainErrorLogLevel config,
      mcHealthStatus = stHealthStatus staticCfgParams, mcHealthStatusURI = stHealthStatusURI staticCfgParams,
      mcHTTP2 = cpHTTP2 config, mcHTTPSnippets = cpMainHTTPSnippets config,
      mcKeepaliveRequests = cpMainKeepaliveRequests config, mcKeepaliveTimeout = cpMainKeepaliveTimeout config,
      mcLogFormat = cpMainLogFormat config, mcLogFormatEscaping = cpMainLogFormatEscaping config,
      mcMainSnippets = cpMainMainSnippets config, mcNginxStatus = stNginxStatus staticCfgParams,
      mcNginxStatusAllowCIDRs = stNginxStatusAllowCIDRs staticCfgParams,
      mcNginxStatusPort = stNginxStatusPort staticCfgParams, mcOpenTracingEnabled = cpMainOpenTracingEnabled config,
      mcOpenTracingLoadModule = cpMainOpenTracingLoadModule config,
      mcOpenTracingTracer = cpMainOpenTracingTracer config,
      mcOpenTracingTracerConfig = cpMainOpenTracingTracerConfig config, mcProxyProtocol = cpProxyProtocol config,
      mcResolverAddresses = cpResolverAddresses config, mcResolverIPV6 = cpResolverIPV6 config,
      mcResolverTimeout = cpResolverTimeout config, mcResolverValid = cpResolverValid config,
      mcRealIPHeader = cpRealIPHeader config, mcRealIPRecursive = cpRealIPRecursive config,
      mcSetRealIPFrom = cpSetRealIPFrom config, mcServerNamesHashBucketSize = cpMainServerNamesHashBucketSize config,
      mcServerNamesHashMaxSize = cpMainServerNamesHashMaxSize config, mcServerTokens = cpServerTokens config,
      mcSSLCiphers = cpMainServerSSLCiphers config, mcSSLDHParam = cpMainServerSSLDHParam config,
      mcSSLPreferServerCiphers = cpMainServerSSLPreferServerCiphers config,
      mcSSLProtocols = cpMainServerSSLProtocols config, mcStreamLogFormat = cpMainStreamLogFormat config,
      mcStreamLogFormatEscaping = cpMainStreamLogFormatEscaping config,
      mcStreamSnippets = cpMainStreamSnippets config,
      mcStubStatusOverUnixSocketForOSS = stStubStatusOverUnixSocketForOSS staticCfgParams,
      mcTLSPassthrough = stTLSPassthrough staticCfgParams,
      mcVariablesHashBucketSize = cpVariablesHashBucketSize config,
      mcVariablesHashMaxSize = cpVariablesHashMaxSize config, mcWorkerConnections = cpMainWorkerConnections config,
      mcWorkerCPUAffinity = cpMainWorkerCPUAffinity config, mcWorkerProcesses = cpMainWorkerProcesses config,
      mcWorkerRlimitNofile = cpMainWorkerRlimitNofile config,
      mcWorkerShutdownTimeout = cpMainWorkerShutdownTimeout config,
      mcAppProtectLoadModule = stMainAppProtectLoadModule staticCfgParams,
      mcAppProtectFailureModeAction = cpMainAppProtectFailureModeAction config,
      mcAppProtectCookieSeed = cpMainAppProtectCookieSeed config,
      mcAppProtectCPUThresholds = cpMainAppProtectCPUThresholds config,
      mcAppProtectPhysicalMemoryThresholds = cpMainAppProtectPhysicalMemoryThresholds config,
      mcInternalRouteServer = stEnableInternalRoutes staticCfgParams,
      mcInternalRouteServerName = stPodName staticCfgParams,
      mcLatencyMetrics = stEnableLatencyMetrics staticCfgParams,
      mcPreviewPolicies = stEnablePreviewPolicies staticCfgParams\<rparr>"

section \<open>Annotations\<close>

definition annotationBackendSteps :: "apiObject \<Rightarrow> bool \<Rightarrow> string gomap \<Rightarrow> paramStep list" where
  "annotationBackendSteps ctx isPlus m =
     [lbMethodStep isPlus m ''nginx.org/lb-method'',
      (\<lambda>cp. case GetMapKeyAsBool m ''nginx.com/health-checks'' ctx of (healthCheckEnabled, found, _) \<Rightarrow>
         if found \<and> isPlus then cp\<lparr>cpHealthCheckEnabled := healthCheckEnabled\<rparr> else cp),
      (\<lambda>cp. case GetMapKeyAsBool m ''nginx.com/health-checks-mandatory'' ctx of (healthCheckMandatory, found, _) \<Rightarrow>
         if cpHealthCheckEnabled cp \<and> found then cp\<lparr>cpHealthCheckMandatory := healthCheckMandatory\<rparr> else cp),
      (\<lambda>cp. case GetMapKeyAsInt64 m ''nginx.com/health-checks-mandatory-queue'' ctx of (healthCheckQueue, found, _) \<Rightarrow>
         if cpHealthCheckMandatory cp \<and> found then cp\<lparr>cpHealthCheckMandatoryQueue := healthCheckQueue\<rparr> else cp),
      ifParsed ParseTime m ''nginx.com/slow-start'' (\<lambda>v cp. if isPlus then cp\<lparr>cpSlowStart := v\<rparr> else cp),
      serverTokensStep ctx isPlus m ''nginx.org/server-tokens'',
      ifSlice m ''nginx.org/server-snippets'' newlineChar (\<lambda>v cp. cp\<lparr>cpServerSnippets := v\<rparr>),
      ifSlice m ''nginx.org/location-snippets'' newlineChar (\<lambda>v cp. cp\<lparr>cpLocationSnippets := v\<rparr>)]"

definition annotationProxySteps :: "apiObject \<Rightarrow> string gomap \<Rightarrow> paramStep list" where
  "annotationProxySteps ctx m =
     [ifParsed ParseTime m ''nginx.org/proxy-connect-timeout'' (\<lambda>v cp. cp\<lparr>cpProxyConnectTimeout := v\<rparr>),
      ifParsed ParseTime m ''nginx.org/proxy-read-timeout'' (\<lambda>v cp. cp\<lparr>cpProxyReadTimeout := v\<rparr>),
      ifParsed ParseTime m ''nginx.org/proxy-send-timeout'' (\<lambda>v cp. cp\<lparr>cpProxySendTimeout := v\<rparr>),
      ifSlice m ''nginx.org/proxy-hide-headers'' (CHR '','') (\<lambda>v cp. cp\<lparr>cpProxyHideHeaders := v\<rparr>),
      ifSlice m ''nginx.org/proxy-pass-headers'' (CHR '','') (\<lambda>v cp. cp\<lparr>cpProxyPassHeaders := v\<rparr>),
      ifText m ''nginx.org/client-max-body-size'' (\<lambda>v cp. cp\<lparr>cpClientMaxBodySize := v\<rparr>),
      ifBool ctx m ''nginx.org/redirect-to-https'' (\<lambda>v cp. cp\<lparr>cpRedirectToHTTPS := v\<rparr>),
      ifBool ctx m ''ingress.kubernetes.io/ssl-redirect'' (\<lambda>v cp. cp\<lparr>cpSSLRedirect := v\<rparr>),
      ifBool ctx m ''nginx.org/proxy-buffering'' (\<lambda>v cp. cp\<lparr>cpProxyBuffering := v\<rparr>),
      hstsStep ctx m ''nginx.org/'',
      ifText m ''nginx.org/proxy-buffers'' (\<lambda>v cp. cp\<lparr>cpProxyBuffers := v\<rparr>),
      ifText m ''nginx.org/proxy-buffer-size'' (\<lambda>v cp. cp\<lparr>cpProxyBufferSize := v\<rparr>),
      ifText m ''nginx.org/upstream-zone-size'' (\<lambda>v cp. cp\<lparr>cpUpstreamZoneSize := v\<rparr>),
      ifText m ''nginx.org/proxy-max-temp-file-size'' (\<lambda>v cp. cp\<lparr>cpProxyMaxTempFileSize := v\<rparr>)]"

definition annotationServerSteps :: "apiObject \<Rightarrow> bool \<Rightarrow> string gomap \<Rightarrow> paramStep list" where
  "annotationServerSteps ctx isPlus m =
     (if isPlus then
        [ifText m ''nginx.com/jwt-realm'' (\<lambda>v cp. cp\<lparr>cpJWTRealm := v\<rparr>),
         ifText m JWTKeyAnnotation (\<lambda>v cp. cp\<lparr>cpJWTKey := v\<rparr>),
         ifText m ''nginx.com/jwt-token'' (\<lambda>v cp. cp\<lparr>cpJWTToken := v\<rparr>),
         ifText m ''nginx.com/jwt-login-url'' (\<lambda>v cp. cp\<lparr>cpJWTLoginURL := v\<rparr>)]
      else [])
     @ [ifParsed ParsePortList m ''nginx.org/listen-ports'' (\<lambda>v cp. if v \<noteq> [] then cp\<lparr>cpPorts := v\<rparr> else cp),
        ifParsed ParsePortList m ''nginx.org/listen-ports-ssl'' (\<lambda>v cp. if v \<noteq> [] then cp\<lparr>cpSSLPorts := v\<rparr> else cp),
        ifInt ctx m ''nginx.org/keepalive'' (\<lambda>v cp. cp\<lparr>cpKeepalive := v\<rparr>),
        ifInt ctx m ''nginx.org/max-fails'' (\<lambda>v cp. cp\<lparr>cpMaxFails := v\<rparr>),
        ifInt ctx m ''nginx.org/max-conns'' (\<lambda>v cp. cp\<lparr>cpMaxConns := v\<rparr>),
        ifParsed ParseTime m ''nginx.org/fail-timeout'' (\<lambda>v cp. cp\<lparr>cpFailTimeout := v\<rparr>)]"

definition annotationMeshSteps :: "apiObject \<Rightarrow> bool \<Rightarrow> bool \<Rightarrow> string gomap \<Rightarrow> paramStep list" where
  "annotationMeshSteps ctx hasAppProtect enableInternalRoutes m =
     (if hasAppProtect then
        [ifBool ctx m ''appprotect.f5.com/app-protect-enable'' (\<lambda>v cp. cp\<lparr>cpAppProtectEnable := (if v then ''on'' else ''off'')\<rparr>),
         ifBool ctx m ''appprotect.f5.com/app-protect-security-log-enable''
           (\<lambda>v cp. cp\<lparr>cpAppProtectLogEnable := (if v then ''on'' else ''off'')\<rparr>)]
      else [])
     @ (if enableInternalRoutes
        then [ifBool ctx m ''nsm.nginx.com/internal-route'' (\<lambda>v cp. cp\<lparr>cpSpiffeServerCerts := v\<rparr>)] else [])"

definition parseAnnotations :: "IngressEx \<Rightarrow> ConfigParams \<Rightarrow> bool \<Rightarrow> bool \<Rightarrow> bool \<Rightarrow> ConfigParams" where
  "parseAnnotations ingEx baseCfgParams isPlus hasAppProtect enableInternalRoutes =
     (let ing = ixIngress ingEx; ctx = ingressObject ing; m = omAnnotations (ingMeta ing)
      in runSteps (annotationBackendSteps ctx isPlus m @ annotationProxySteps ctx m @ annotationServerSteps ctx isPlus m
           @ annotationMeshSteps ctx hasAppProtect enableInternalRoutes m) baseCfgParams)"

text \<open>The services of the annotations; a list that cannot be parsed is nil.\<close>

definition annotationServices :: "IngressEx \<Rightarrow> string \<Rightarrow> bool gomap" where
  "annotationServices ingEx key =
     (case gget (omAnnotations (ingMeta (ixIngress ingEx))) key of Some v \<Rightarrow> ParseServiceList v | None \<Rightarrow> [])"

definition getWebsocketServices :: "IngressEx \<Rightarrow> bool gomap" where
  "getWebsocketServices ingEx = annotationServices ingEx ''nginx.org/websocket-services''"

definition getSSLServices :: "IngressEx \<Rightarrow> bool gomap" where
  "getSSLServices ingEx = annotationServices ingEx ''nginx.org/ssl-services''"

definition getGrpcServices :: "IngressEx \<Rightarrow> bool gomap" where
  "getGrpcServices ingEx = annotationServices ingEx ''nginx.org/grpc-services''"

definition annotationPairs :: "(string \<Rightarrow> string gomap parsed) \<Rightarrow> IngressEx \<Rightarrow> string \<Rightarrow> string gomap" where
  "annotationPairs parse ingEx key =
     (case gget (omAnnotations (ingMeta (ixIngress ingEx))) key of
        Some v \<Rightarrow> (case parse v of Inl _ \<Rightarrow> [] | Inr pairs \<Rightarrow> pairs)
      | None \<Rightarrow> [])"

definition getRewrites :: "IngressEx \<Rightarrow> string gomap" where
  "getRewrites ingEx = annotationPairs ParseRewriteList ingEx ''nginx.org/rewrites''"

definition getSessionPersistenceServices :: "IngressEx \<Rightarrow> string gomap" where
  "getSessionPersistenceServices ingEx = annotationPairs ParseStickyServiceList ingEx ''nginx.com/sticky-cookie-services''"

section \<open>Annotations of masters and minions\<close>

definition masterBlacklist :: "string list" where
  "masterBlacklist =
     [''nginx.org/rewrites'', ''nginx.org/ssl-services'', ''nginx.org/grpc-services'',
      ''nginx.org/websocket-services'', ''nginx.com/sticky-cookie-services'', ''nginx.com/health-checks'',
      ''nginx.com/health-checks-mandatory'', ''nginx.com/health-checks-mandatory-queue'']"

definition minionBlacklist :: "string list" where
  "minionBlacklist =
     [''nginx.org/proxy-hide-headers'', ''nginx.org/proxy-pass-headers'', ''nginx.org/redirect-to-https'',
      ''ingress.kubernetes.io/ssl-redirect'', ''nginx.org/hsts'', ''nginx.org/hsts-max-age'',
      ''nginx.org/hsts-include-subdomains'', ''nginx.org/server-tokens'', ''nginx.org/listen-ports'',
      ''nginx.org/listen-ports-ssl'', ''nginx.org/server-snippets'', ''appprotect.f5.com/app_protect_enable'',
      ''appprotect.f5.com/app_protect_policy'', ''appprotect.f5.com/app_protect_security_log_enable'',
      ''appprotect.f5.com/app_protect_security_log'']"

definition minionInheritanceList :: "string list" where
  "minionInheritanceList =
     [''nginx.org/proxy-connect-timeout'', ''nginx.org/proxy-read-timeout'', ''nginx.org/proxy-send-timeout'',
      ''nginx.org/client-max-body-size'', ''nginx.org/proxy-buffering'', ''nginx.org/proxy-buffers'',
      ''nginx.org/proxy-buffer-size'', ''nginx.org/proxy-max-temp-file-size'', ''nginx.org/upstream-zone-size'',
      ''nginx.org/location-snippets'', ''nginx.org/lb-method'', ''nginx.org/keepalive'', ''nginx.org/max-fails'',
      ''nginx.org/max-conns'', ''nginx.org/fail-timeout'']"

text \<open>The removed annotations and the rest.\<close>

definition filterAnnotations :: "string list \<Rightarrow> string gomap \<Rightarrow> string list \<times> string gomap" where
  "filterAnnotations blacklist annotations =
     (filter (\<lambda>k. k \<in> set blacklist) (map fst annotations), filter (\<lambda>(k, _). k \<notin> set blacklist) annotations)"

definition filterMasterAnnotations :: "string gomap \<Rightarrow> string list \<times> string gomap" where
  "filterMasterAnnotations annotations = filterAnnotations masterBlacklist annotations"

definition filterMinionAnnotations :: "string gomap \<Rightarrow> string list \<times> string gomap" where
  "filterMinionAnnotations annotations = filterAnnotations minionBlacklist annotations"

definition mergeMasterAnnotationsIntoMinion :: "string gomap \<Rightarrow> string gomap \<Rightarrow> string gomap" where
  "mergeMasterAnnotationsIntoMinion minionAnnotations masterAnnotations =
     fold (\<lambda>(key, val) m. if \<not> ghas m key \<and> key \<in> set minionInheritanceList then gput key val m else m)
       masterAnnotations minionAnnotations"

end
