(* ===== verification/Ingress_Config.thy ===== *)
theory Ingress_Config
  imports Config_Parsing
begin

text \<open>
  The generator of the configuration of Ingresses (\<open>internal/configs/ingress.go\<close>): one server for each
  valid host, one location for each path, and the merge of a master with its minions. A panic (a
  nil reference to a secret, an endpoint without a port, a health check without an HTTP action, a
  master without a server) is \<^term>\<open>None\<close>. All warnings of one call are about its Ingress, so
  they are a list.
\<close>

section \<open>Names and paths\<close>

definition emptyHost :: string where "emptyHost = ''''"
definition appProtectPolicyKey :: string where "appProtectPolicyKey = ''policy''"
definition appProtectLogConfKey :: string where "appProtectLogConfKey = ''logconf''"

definition pathOrDefault :: "string \<Rightarrow> string" where
  "pathOrDefault p = (if p = '''' then ''/'' else p)"

definition generateIngressPath :: "string \<Rightarrow> string option \<Rightarrow> string" where
  "generateIngressPath p pathType = (if pathType = Some ''Exact'' then ''= '' @ p else p)"

definition ingressUpstreamName :: "Ingress \<Rightarrow> string \<Rightarrow> IngressBackend \<Rightarrow> string" where
  "ingressUpstreamName ing host backend =
     omNamespace (ingMeta ing) @ ''-'' @ omName (ingMeta ing) @ ''-'' @ host @ ''-'' @ ibServiceName backend @ ''-''
       @ intOrStringText (ibServicePort backend)"

definition getNameForRedirectLocation :: "Ingress \<Rightarrow> string" where
  "getNameForRedirectLocation ing = ''@login_url_'' @ omNamespace (ingMeta ing) @ ''-'' @ omName (ingMeta ing)"

definition backendKey :: "IngressBackend \<Rightarrow> string" where
  "backendKey backend = ibServiceName backend @ intOrStringText (ibServicePort backend)"

definition isSSLEnabled :: "bool \<Rightarrow> ConfigParams \<Rightarrow> StaticConfigParams \<Rightarrow> bool" where
  "isSSLEnabled isSSLService cfgParams staticCfgParams =
     (isSSLService \<or> stNginxServiceMesh staticCfgParams \<and> \<not> cpSpiffeServerCerts cfgParams)"

section \<open>Upstreams and health checks\<close>

definition upstreamRequiresQueue :: "string \<Rightarrow> IngressEx \<Rightarrow> ConfigParams \<Rightarrow> int \<times> int" where
  "upstreamRequiresQueue name ingEx cfg =
     (if cpHealthCheckEnabled cfg \<and> cpHealthCheckMandatory cfg \<and> cpHealthCheckMandatoryQueue cfg > 0
      then case gget (ixHealthChecks ingEx) name of
             Some hc \<Rightarrow> (cpHealthCheckMandatoryQueue cfg, pbTimeoutSeconds hc)
           | None \<Rightarrow> (0, 0)
      else (0, 0))"

definition ingressUpstreamServer :: "ConfigParams \<Rightarrow> bool \<Rightarrow> string \<Rightarrow> UpstreamServer1 option" where
  "ingressUpstreamServer cfg isExternalNameSvc endp =
     (case splitOn (CHR '':'') endp of
        address # port # _ \<Rightarrow>
          Some \<lparr>us1Address = address, us1Port = port, us1MaxFails = cpMaxFails cfg, us1MaxConns = cpMaxConns cfg,
                us1FailTimeout = cpFailTimeout cfg, us1SlowStart = cpSlowStart cfg, us1Resolve = isExternalNameSvc\<rparr>
      | _ \<Rightarrow> None)"

definition createUpstream ::
    "IngressEx \<Rightarrow> string \<Rightarrow> IngressBackend \<Rightarrow> string \<Rightarrow> ConfigParams \<Rightarrow> bool \<Rightarrow> bool \<Rightarrow> bool \<Rightarrow> Upstream1 option" where
  "createUpstream ingEx name backend stickyCookie cfg isPlus isResolverConfigured isLatencyMetricsEnabled =
     (let labels = \<lparr>ul1Service = ibServiceName backend, ul1ResourceType = ''ingress'',
            ul1ResourceName = omName (ingMeta (ixIngress ingEx)), ul1ResourceNamespace = omNamespace (ingMeta (ixIngress ingEx))\<rparr>;
          ups = (if isPlus
                 then (case upstreamRequiresQueue (backendKey backend) ingEx cfg of (queue, timeout) \<Rightarrow>
                   \<lparr>u1Name = name, u1UpstreamServers = [], u1StickyCookie = stickyCookie, u1LBMethod = '''', u1Queue = queue,
                    u1QueueTimeout = timeout, u1UpstreamZoneSize = '''', u1UpstreamLabels = labels\<rparr>)
                 else let ups = NewUpstreamWithDefaultServer name
                      in if isLatencyMetricsEnabled then ups\<lparr>u1UpstreamLabels := labels\<rparr> else ups);
          finish = (\<lambda>ups. ups\<lparr>u1LBMethod := cpLBMethod cfg, u1UpstreamZoneSize := cpUpstreamZoneSize cfg\<rparr>)
      in case gget (ixEndpoints ingEx) (backendKey backend) of
           None \<Rightarrow> Some (finish ups)
         | Some endps0 \<Rightarrow>
             (let isExternalNameSvc = ghas (ixExternalNameSvcs ingEx) (ibServiceName backend);
                  endps = (if isExternalNameSvc \<and> \<not> isResolverConfigured then [] else endps0)
              in map_option (\<lambda>upsServers. finish (if upsServers \<noteq> [] then ups\<lparr>u1UpstreamServers := upsServers\<rparr> else ups))
                   (mapOpt (ingressUpstreamServer cfg isExternalNameSvc) endps)))"

definition headersToString :: "HTTPHeader list \<Rightarrow> string gomap" where
  "headersToString headers = fold (\<lambda>header. gput (hhName header) (hhValue header)) headers []"

definition createHealthCheck :: "Probe \<Rightarrow> string \<Rightarrow> ConfigParams \<Rightarrow> HealthCheck1 option" where
  "createHealthCheck hc upstreamName cfg =
     map_option (\<lambda>get.
       \<lparr>hc1UpstreamName = upstreamName, hc1URI = hgPath get, hc1Interval = pbPeriodSeconds hc, hc1Fails = pbFailureThreshold hc,
        hc1Passes = pbSuccessThreshold hc, hc1Scheme = lowerText (hgScheme get), hc1Mandatory = cpHealthCheckMandatory cfg,
        hc1Headers = headersToString (hgHTTPHeaders get), hc1TimeoutSeconds = pbTimeoutSeconds hc\<rparr>) (pbHTTPGet hc)"

section \<open>TLS and JWT\<close>

definition pemFileNameForWildcardTLSSecret :: string where
  "pemFileNameForWildcardTLSSecret = ''/etc/nginx/secrets/wildcard''"

text \<open>The secret of the last entry with the host.\<close>

definition tlsSecretFor :: "string \<Rightarrow> IngressTLS list \<Rightarrow> string option" where
  "tlsSecretFor host ingressTLS =
     fold (\<lambda>tls acc. if host \<in> set (itHosts tls) then Some (itSecretName tls) else acc) ingressTLS None"

definition sslFile :: "string \<Rightarrow> string \<Rightarrow> SecretReference gomap \<Rightarrow> bool \<Rightarrow> (string \<times> string list) option" where
  "sslFile host tlsSecret secretRefs isWildcardEnabled =
     (if tlsSecret \<noteq> '''' then
        (case gget secretRefs tlsSecret of
           None \<Rightarrow> None
         | Some ref \<Rightarrow>
             Some (if refType ref \<noteq> '''' \<and> refType ref \<noteq> SecretTypeTLS
                   then (pemFileNameForMissingTLSSecret,
                         [''TLS secret '' @ tlsSecret @ '' is of a wrong type '' @ sq (refType ref) @ '', must be '' @ sq SecretTypeTLS])
                   else case srError ref of
                       Some err \<Rightarrow> (pemFileNameForMissingTLSSecret, [''TLS secret '' @ tlsSecret @ '' is invalid: '' @ err])
                     | None \<Rightarrow> (srPath ref, [])))
      else if isWildcardEnabled then Some (pemFileNameForWildcardTLSSecret, [])
      else Some (pemFileNameForMissingTLSSecret,
             [''TLS termination for host '' @ sq host @ '' requires specifying a TLS secret or configuring a global wildcard TLS secret'']))"

definition addSSLConfig ::
    "Server1 \<Rightarrow> string \<Rightarrow> IngressTLS list \<Rightarrow> SecretReference gomap \<Rightarrow> bool \<Rightarrow> (Server1 \<times> string list) option" where
  "addSSLConfig server host ingressTLS secretRefs isWildcardEnabled =
     (case tlsSecretFor host ingressTLS of
        None \<Rightarrow> Some (server, [])
      | Some tlsSecret \<Rightarrow>
          map_option (\<lambda>(pemFile, warnings).
              (server\<lparr>s1SSL := True, s1SSLCertificate := pemFile, s1SSLCertificateKey := pemFile,
                 s1SSLCiphers := (if pemFile = pemFileNameForMissingTLSSecret then ''NULL'' else s1SSLCiphers server)\<rparr>, warnings))
            (sslFile host tlsSecret secretRefs isWildcardEnabled))"

definition generateJWTConfig ::
    "SecretReference gomap \<Rightarrow> ConfigParams \<Rightarrow> string \<Rightarrow> (JWTAuth1 \<times> JWTRedirectLocation option \<times> string list) option" where
  "generateJWTConfig secretRefs cfgParams redirectLocationName =
     (case gget secretRefs (cpJWTKey cfgParams) of
        None \<Rightarrow> None
      | Some ref \<Rightarrow>
          (let warnings =
                 (if refType ref \<noteq> '''' \<and> refType ref \<noteq> SecretTypeJWK
                  then [''JWK secret '' @ cpJWTKey cfgParams @ '' is of a wrong type '' @ sq (refType ref) @ '', must be '' @ sq SecretTypeJWK]
                  else case srError ref of
                      Some err \<Rightarrow> [''JWK secret '' @ cpJWTKey cfgParams @ '' is invalid: '' @ err]
                    | None \<Rightarrow> []);
               login = (cpJWTLoginURL cfgParams \<noteq> '''')
           in Some (\<lparr>j1Key = srPath ref, j1Realm = cpJWTRealm cfgParams, j1Token = cpJWTToken cfgParams,
                     j1RedirectLocationName = (if login then redirectLocationName else '''')\<rparr>,
                    (if login then Some \<lparr>jrName = redirectLocationName, jrLoginURL = cpJWTLoginURL cfgParams\<rparr> else None),
                    warnings)))"


section \<open>Locations\<close>

definition createLocation ::
    "string \<Rightarrow> Upstream1 \<Rightarrow> ConfigParams \<Rightarrow> bool \<Rightarrow> string \<Rightarrow> bool \<Rightarrow> bool \<Rightarrow> string \<Rightarrow> string option \<Rightarrow> string \<Rightarrow> Location1" where
  "createLocation path upstream cfg websocket rewrite ssl grpc proxySSLName pathType serviceName =
     \<lparr>l1LocationSnippets = cpLocationSnippets cfg, l1Path = generateIngressPath path pathType, l1Upstream = upstream,
      l1ProxyConnectTimeout = cpProxyConnectTimeout cfg, l1ProxyReadTimeout = cpProxyReadTimeout cfg,
      l1ProxySendTimeout = cpProxySendTimeout cfg, l1ClientMaxBodySize = cpClientMaxBodySize cfg, l1Websocket = websocket,
      l1Rewrite = rewrite, l1SSL = ssl, l1GRPC = grpc, l1ProxyBuffering = cpProxyBuffering cfg,
      l1ProxyBuffers = cpProxyBuffers cfg, l1ProxyBufferSize = cpProxyBufferSize cfg,
      l1ProxyMaxTempFileSize = cpProxyMaxTempFileSize cfg, l1ProxySSLName = proxySSLName, l1JWTAuth = None,
      l1ServiceName = serviceName, l1MinionIngress = None\<rparr>"

text \<open>What the loops of the generator read: the call's parameters and what they are parsed to.\<close>

record ingressContext =
  gcIngEx :: IngressEx
  gcIsMinion :: bool
  gcParams :: ConfigParams
  gcIsPlus :: bool
  gcResolver :: bool
  gcStatic :: StaticConfigParams
  gcWildcard :: bool
  gcWs :: "bool gomap"
  gcSticky :: "string gomap"
  gcRewrites :: "string gomap"
  gcSsl :: "bool gomap"
  gcGrpc :: "bool gomap"
  gcApResources :: "string gomap"

definition ingressCtx ::
    "IngressEx \<Rightarrow> string gomap \<Rightarrow> bool \<Rightarrow> ConfigParams \<Rightarrow> bool \<Rightarrow> bool \<Rightarrow> StaticConfigParams \<Rightarrow> bool \<Rightarrow> ingressContext" where
  "ingressCtx ingEx apResources minion baseCfgParams isPlus isResolverConfigured staticParams isWildcardEnabled =
     (let cfgParams = parseAnnotations ingEx baseCfgParams isPlus (stMainAppProtectLoadModule staticParams)
            (stEnableInternalRoutes staticParams);
          grpcServices = getGrpcServices ingEx
      in \<lparr>gcIngEx = ingEx, gcIsMinion = minion, gcParams = cfgParams, gcIsPlus = isPlus, gcResolver = isResolverConfigured,
          gcStatic = staticParams, gcWildcard = isWildcardEnabled, gcWs = getWebsocketServices ingEx,
          gcSticky = getSessionPersistenceServices ingEx, gcRewrites = getRewrites ingEx, gcSsl = getSSLServices ingEx,
          gcGrpc = (if grpcServices \<noteq> [] \<and> \<not> cpHTTP2 cfgParams then [] else grpcServices), gcApResources = apResources\<rparr>)"

text \<open>A missing key reads as the empty text.\<close>

definition textAt :: "string gomap \<Rightarrow> string \<Rightarrow> string" where
  "textAt m k = (case gget m k of Some v \<Rightarrow> v | None \<Rightarrow> '''')"

definition contextUpstream :: "ingressContext \<Rightarrow> string \<Rightarrow> IngressBackend \<Rightarrow> Upstream1 option" where
  "contextUpstream c name backend =
     createUpstream (gcIngEx c) name backend (textAt (gcSticky c) (ibServiceName backend)) (gcParams c) (gcIsPlus c)
       (gcResolver c) (stEnableLatencyMetrics (gcStatic c))"

definition contextLocation :: "ingressContext \<Rightarrow> string \<Rightarrow> Upstream1 \<Rightarrow> IngressBackend \<Rightarrow> string option \<Rightarrow> Location1" where
  "contextLocation c path upstream backend pathType =
     (let svc = ibServiceName backend
      in createLocation (pathOrDefault path) upstream (gcParams c) (gtrue (gcWs c) svc) (textAt (gcRewrites c) svc)
           (isSSLEnabled (gtrue (gcSsl c) svc) (gcParams c) (gcStatic c)) (gtrue (gcGrpc c) svc)
           (generateProxySSLName svc (omNamespace (ingMeta (ixIngress (gcIngEx c))))) pathType svc)"

text \<open>The health check of a backend, added under the name of its upstream where there is one.\<close>

definition addHealthCheck ::
    "ingressContext \<Rightarrow> string \<Rightarrow> IngressBackend \<Rightarrow> HealthCheck1 gomap \<Rightarrow> HealthCheck1 gomap option" where
  "addHealthCheck c upsName backend healthChecks =
     (if \<not> cpHealthCheckEnabled (gcParams c) then Some healthChecks
      else case gget (ixHealthChecks (gcIngEx c)) (backendKey backend) of
             None \<Rightarrow> Some healthChecks
           | Some hc \<Rightarrow> map_option (\<lambda>check. gput upsName check healthChecks) (createHealthCheck hc upsName (gcParams c)))"

section \<open>Servers\<close>

record ruleState =
  ruUpstreams :: "Upstream1 gomap"
  ruLocations :: "Location1 list"
  ruHealthChecks :: "HealthCheck1 gomap"
  ruRedirects :: "JWTRedirectLocation list"
  ruWarnings :: "string list"
  ruRoot :: bool

definition contextJWT :: "ingressContext \<Rightarrow> (JWTAuth1 \<times> JWTRedirectLocation list \<times> string list) option" where
  "contextJWT c =
     map_option (\<lambda>(jwtAuth, redirectLoc, warnings). (jwtAuth, (case redirectLoc of Some r \<Rightarrow> [r] | None \<Rightarrow> []), warnings))
       (generateJWTConfig (ixSecretRefs (gcIngEx c)) (gcParams c) (getNameForRedirectLocation (ixIngress (gcIngEx c))))"

text \<open>The JWT of a location, for the paths of a minion only, and of a server, for any other Ingress.\<close>

definition optionalJWT :: "ingressContext \<Rightarrow> bool \<Rightarrow> (JWTAuth1 option \<times> JWTRedirectLocation list \<times> string list) option" where
  "optionalJWT c applies =
     (if applies \<and> cpJWTKey (gcParams c) \<noteq> ''''
      then map_option (\<lambda>(jwtAuth, redirects, warnings). (Some jwtAuth, redirects, warnings)) (contextJWT c)
      else Some (None, [], []))"

definition addPath :: "ingressContext \<Rightarrow> string \<Rightarrow> HTTPIngressPath \<Rightarrow> ruleState \<Rightarrow> ruleState option" where
  "addPath c host path st =
     (if gcIsMinion c \<and> \<not> gtrue (ixValidMinionPaths (gcIngEx c)) (hpPath path) then Some st
      else
        let backend = hpBackend path;
            upsName = ingressUpstreamName (ixIngress (gcIngEx c)) host backend
        in case addHealthCheck c upsName backend (ruHealthChecks st) of
             None \<Rightarrow> None
           | Some healthChecks \<Rightarrow>
               (case (case gget (ruUpstreams st) upsName of Some u \<Rightarrow> Some u | None \<Rightarrow> contextUpstream c upsName backend) of
                  None \<Rightarrow> None
                | Some upstream \<Rightarrow>
                    (let loc = contextLocation c (hpPath path) upstream backend (hpPathType path)
                     in map_option (\<lambda>(jwtAuth, redirects, warnings).
                          st\<lparr>ruUpstreams := (if ghas (ruUpstreams st) upsName then ruUpstreams st
                                             else gput upsName upstream (ruUpstreams st)),
                             ruLocations := ruLocations st @ [loc\<lparr>l1JWTAuth := jwtAuth\<rparr>],
                             ruHealthChecks := healthChecks, ruRedirects := ruRedirects st @ redirects,
                             ruWarnings := ruWarnings st @ warnings, ruRoot := (ruRoot st \<or> l1Path loc = ''/'')\<rparr>)
                        (optionalJWT c (gcIsMinion c)))))"


definition grpcOnlyRule :: "ingressContext \<Rightarrow> HTTPIngressPath list \<Rightarrow> bool" where
  "grpcOnlyRule c paths = (gcGrpc c \<noteq> [] \<and> list_all (\<lambda>path. ghas (gcGrpc c) (ibServiceName (hpBackend path))) paths)"

definition ruleServer :: "ingressContext \<Rightarrow> string \<Rightarrow> Server1" where
  "ruleServer c host =
     (let cfg = gcParams c
      in \<lparr>s1ServerSnippets = cpServerSnippets cfg, s1Name = host, s1ServerTokens = cpServerTokens cfg, s1Locations = [],
          s1SSL = False, s1SSLCertificate = '''', s1SSLCertificateKey = '''', s1SSLCiphers = '''',
          s1TLSPassthrough = stTLSPassthrough (gcStatic c), s1GRPCOnly = False, s1StatusZone = host, s1HTTP2 = cpHTTP2 cfg,
          s1RedirectToHTTPS = cpRedirectToHTTPS cfg, s1SSLRedirect = cpSSLRedirect cfg, s1ProxyProtocol = cpProxyProtocol cfg,
          s1HSTS = cpHSTS cfg, s1HSTSMaxAge = cpHSTSMaxAge cfg, s1HSTSIncludeSubdomains = cpHSTSIncludeSubdomains cfg,
          s1HSTSBehindProxy = cpHSTSBehindProxy cfg, s1ProxyHideHeaders = cpProxyHideHeaders cfg,
          s1ProxyPassHeaders = cpProxyPassHeaders cfg, s1HealthChecks = [], s1RealIPHeader = cpRealIPHeader cfg,
          s1SetRealIPFrom = cpSetRealIPFrom cfg, s1RealIPRecursive = cpRealIPRecursive cfg, s1JWTAuth = None,
          s1JWTRedirectLocations = [], s1Ports = cpPorts cfg, s1SSLPorts = cpSSLPorts cfg,
          s1AppProtectEnable = cpAppProtectEnable cfg,
          s1AppProtectPolicy =
            (if stMainAppProtectLoadModule (gcStatic c) then textAt (gcApResources c) appProtectPolicyKey else ''''),
          s1AppProtectLogConf =
            (if stMainAppProtectLoadModule (gcStatic c) then textAt (gcApResources c) appProtectLogConfKey else ''''),
          s1AppProtectLogEnable = cpAppProtectLogEnable cfg, s1SpiffeCerts = cpSpiffeServerCerts cfg\<rparr>)"

text \<open>The location of the default backend, where no path of the rule is the root.\<close>

definition addDefaultLocation :: "ingressContext \<Rightarrow> ruleState \<times> bool \<Rightarrow> (ruleState \<times> bool) option" where
  "addDefaultLocation c = (\<lambda>(st, grpcOnly).
     (case isBackend (ingSpec (ixIngress (gcIngEx c))) of
        None \<Rightarrow> Some (st, grpcOnly)
      | Some backend \<Rightarrow>
          if ruRoot st then Some (st, grpcOnly)
          else
            let upsName = ingressUpstreamName (ixIngress (gcIngEx c)) emptyHost backend
            in case gget (ruUpstreams st) upsName of
                 None \<Rightarrow> None
               | Some upstream \<Rightarrow>
                   map_option (\<lambda>healthChecks.
                       (st\<lparr>ruLocations := ruLocations st @ [contextLocation c ''/'' upstream backend (Some ''Prefix'')],
                           ruHealthChecks := healthChecks\<rparr>,
                        grpcOnly \<and> ghas (gcGrpc c) (ibServiceName backend)))
                     (addHealthCheck c upsName backend (ruHealthChecks st))))"



text \<open>
  The server of a rule with a valid host: its upstreams join those of the rules before. The lookup
  of the upstream of the default backend cannot fail, as \<open>generateNginxCfg\<close> starts with it.
\<close>

definition generateRule ::
    "ingressContext \<Rightarrow> IngressRule \<Rightarrow> Upstream1 gomap \<times> Server1 list \<times> string list
      \<Rightarrow> (Upstream1 gomap \<times> Server1 list \<times> string list) option" where
  "generateRule c rule = (\<lambda>(upstreams, servers, warnings).
     (if \<not> gtrue (ixValidHosts (gcIngEx c)) (irHost rule) then Some (upstreams, servers, warnings)
      else
        let paths = rulePaths rule; ingEx = gcIngEx c
        in case addSSLConfig (ruleServer c (irHost rule)) (irHost rule) (isTLS (ingSpec (ixIngress ingEx))) (ixSecretRefs ingEx)
                  (gcWildcard c) of
             None \<Rightarrow> None
           | Some (server, sslWarnings) \<Rightarrow>
               (case optionalJWT c (\<not> gcIsMinion c) of
                  None \<Rightarrow> None
                | Some (jwtAuth, redirects, jwtWarnings) \<Rightarrow>
                    (case foldOpt (addPath c (irHost rule)) paths
                            \<lparr>ruUpstreams = upstreams, ruLocations = [], ruHealthChecks = [], ruRedirects = redirects,
                             ruWarnings = [], ruRoot = False\<rparr> of
                       None \<Rightarrow> None
                     | Some st \<Rightarrow>
                         map_option (\<lambda>(st, grpcOnly).
                             (ruUpstreams st,
                              servers @ [server\<lparr>s1JWTAuth := jwtAuth, s1JWTRedirectLocations := ruRedirects st,
                                s1Locations := ruLocations st, s1HealthChecks := ruHealthChecks st, s1GRPCOnly := grpcOnly\<rparr>],
                              warnings @ sslWarnings @ jwtWarnings @ ruWarnings st))
                           (addDefaultLocation c (st, grpcOnlyRule c paths))))))"

definition upstreamMapToSlice :: "Upstream1 gomap \<Rightarrow> Upstream1 list" where
  "upstreamMapToSlice upstreams = map (\<lambda>k. the (gget upstreams k)) (sortedKeys upstreams)"

definition ingressSummary :: "Ingress \<Rightarrow> Ingress1" where
  "ingressSummary ing =
     \<lparr>ig1Name = omName (ingMeta ing), ig1Namespace = omNamespace (ingMeta ing), ig1Annotations = omAnnotations (ingMeta ing)\<rparr>"

text \<open>The upstream of the default backend, and the check of its health, which the code then drops.\<close>

definition defaultUpstream :: "ingressContext \<Rightarrow> Upstream1 gomap option" where
  "defaultUpstream c =
     (case isBackend (ingSpec (ixIngress (gcIngEx c))) of
        None \<Rightarrow> Some []
      | Some backend \<Rightarrow>
          let name = ingressUpstreamName (ixIngress (gcIngEx c)) emptyHost backend
          in case contextUpstream c name backend of
               None \<Rightarrow> None
             | Some upstream \<Rightarrow> map_option (\<lambda>_. gput name upstream []) (addHealthCheck c name backend []))"

definition generateNginxCfg ::
    "IngressEx \<Rightarrow> string gomap \<Rightarrow> bool \<Rightarrow> ConfigParams \<Rightarrow> bool \<Rightarrow> bool \<Rightarrow> StaticConfigParams \<Rightarrow> bool
      \<Rightarrow> (IngressNginxConfig \<times> string list) option" where
  "generateNginxCfg ingEx apResources minion baseCfgParams isPlus isResolverConfigured staticParams isWildcardEnabled =
     (let c = ingressCtx ingEx apResources minion baseCfgParams isPlus isResolverConfigured staticParams isWildcardEnabled
      in case defaultUpstream c of
           None \<Rightarrow> None
         | Some upstreams \<Rightarrow>
             map_option (\<lambda>(upstreams, servers, warnings).
                 (\<lparr>incUpstreams = upstreamMapToSlice upstreams, incServers = servers,
                   incKeepalive = (if cpKeepalive (gcParams c) > 0 then itoa (cpKeepalive (gcParams c)) else ''''),
                   incIngress = ingressSummary (ixIngress ingEx),
                   incSpiffeClientCerts = (stNginxServiceMesh staticParams \<and> \<not> cpSpiffeServerCerts (gcParams c))\<rparr>, warnings))
               (foldOpt (generateRule c) (isRules (ingSpec (ixIngress ingEx))) (upstreams, [], [])))"


section \<open>Masters and minions\<close>

definition withAnnotations :: "string gomap \<Rightarrow> Ingress \<Rightarrow> Ingress" where
  "withAnnotations annotations ing = ing\<lparr>ingMeta := (ingMeta ing)\<lparr>omAnnotations := annotations\<rparr>\<rparr>"

text \<open>The copy of the master that is generated: without the annotations that a master may not have.\<close>

definition preparedMaster :: "IngressEx \<Rightarrow> IngressEx" where
  "preparedMaster master =
     (let ing = ixIngress master
      in master\<lparr>ixIngress := withAnnotations (snd (filterMasterAnnotations (omAnnotations (ingMeta ing)))) ing\<rparr>)"

text \<open>
  The copy of a minion: without a default backend, with the annotations that it inherits from the
  (prepared) master, and without those that a minion may not have.
\<close>

definition preparedMinion :: "IngressEx \<Rightarrow> IngressEx \<Rightarrow> IngressEx" where
  "preparedMinion master minion =
     (let ing = ixIngress minion;
          merged = mergeMasterAnnotationsIntoMinion (omAnnotations (ingMeta ing)) (omAnnotations (ingMeta (ixIngress master)))
      in minion\<lparr>ixIngress := withAnnotations (snd (filterMinionAnnotations merged)) (ing\<lparr>ingSpec := (ingSpec ing)\<lparr>isBackend := None\<rparr>\<rparr>)\<rparr>)"

record mergeState =
  msLocations :: "Location1 list"
  msHealthChecks :: "HealthCheck1 gomap"
  msRedirects :: "JWTRedirectLocation list"
  msUpstreams :: "Upstream1 list"

definition addMinionServer :: "Ingress1 \<Rightarrow> Server1 \<Rightarrow> mergeState \<Rightarrow> mergeState" where
  "addMinionServer minionIngress server st =
     st\<lparr>msLocations := msLocations st @ map (\<lambda>loc. loc\<lparr>l1MinionIngress := Some minionIngress\<rparr>) (s1Locations server),
        msHealthChecks := fold (\<lambda>(hcName, check). gput hcName check) (s1HealthChecks server) (msHealthChecks st),
        msRedirects := msRedirects st @ s1JWTRedirectLocations server\<rparr>"

definition addMinionConfig :: "IngressNginxConfig \<Rightarrow> mergeState \<Rightarrow> mergeState" where
  "addMinionConfig nginxCfg st =
     (let st' = fold (addMinionServer (incIngress nginxCfg)) (incServers nginxCfg) st
      in st'\<lparr>msUpstreams := msUpstreams st' @ incUpstreams nginxCfg\<rparr>)"

text \<open>
  The configuration of a master and its minions, with the warnings of each of these Ingresses, and
  the prepared copies, which the call leaves in its argument.
\<close>

definition generateNginxCfgForMergeableIngresses ::
    "MergeableIngresses \<Rightarrow> string gomap \<Rightarrow> ConfigParams \<Rightarrow> bool \<Rightarrow> bool \<Rightarrow> StaticConfigParams \<Rightarrow> bool
      \<Rightarrow> (IngressNginxConfig \<times> (Ingress \<times> string list) list \<times> MergeableIngresses) option" where
  "generateNginxCfgForMergeableIngresses mi masterApResources baseCfgParams isPlus isResolverConfigured staticParams isWildcardEnabled =
     (let master = preparedMaster (miMaster mi); minions = map (preparedMinion master) (miMinions mi);
          gen = (\<lambda>ingEx apResources minion.
            generateNginxCfg ingEx apResources minion baseCfgParams isPlus isResolverConfigured staticParams isWildcardEnabled)
      in case gen master masterApResources False of
           None \<Rightarrow> None
         | Some (masterCfg, masterWarnings) \<Rightarrow>
             (case incServers masterCfg of
                [] \<Rightarrow> None
              | masterServer # _ \<Rightarrow>
                  map_option (\<lambda>cfgs.
                      (let st = fold addMinionConfig (map fst cfgs)
                             \<lparr>msLocations = [], msHealthChecks = [], msRedirects = s1JWTRedirectLocations masterServer,
                              msUpstreams = incUpstreams masterCfg\<rparr>
                       in (\<lparr>incUpstreams = msUpstreams st,
                            incServers = [masterServer\<lparr>s1HealthChecks := msHealthChecks st, s1Locations := msLocations st,
                              s1JWTRedirectLocations := msRedirects st\<rparr>],
                            incKeepalive = incKeepalive masterCfg, incIngress = incIngress masterCfg,
                            incSpiffeClientCerts = (stNginxServiceMesh staticParams \<and> \<not> cpSpiffeServerCerts baseCfgParams)\<rparr>,
                           (ixIngress (miMaster mi), masterWarnings) # zip (map ixIngress (miMinions mi)) (map snd cfgs),
                           \<lparr>miMaster = master, miMinions = minions\<rparr>)))
                    (mapOpt (\<lambda>minion. gen minion [] True) minions)))"

end
