(* ===== verification/Config_Parsing_Properties.thy ===== *)
theory Config_Parsing_Properties
  imports Config_Parsing Parsing_Properties
begin

text \<open>
  What the ConfigMap and the annotations can change: which parameters a list of steps leaves
  alone, the conditions between parameters, and what a minion has of its master's annotations.
\<close>

section \<open>Parameters that steps leave alone\<close>

text \<open>A step keeps what a function reads of the parameters.\<close>

definition keeps :: "(ConfigParams \<Rightarrow> 'a) \<Rightarrow> paramStep \<Rightarrow> bool" where
  "keeps f step = (\<forall>cp. f (step cp) = f cp)"

lemma keeps_steps:
  "(\<And>v cp. f (g v cp) = f cp) \<Longrightarrow> keeps f (ifText m k g)"
  "(\<And>b cp. f (h b cp) = f cp) \<Longrightarrow> keeps f (ifBool ctx m k h)"
  "(\<And>i cp. f (n i cp) = f cp) \<Longrightarrow> keeps f (ifInt ctx m k n)"
  "(\<And>i cp. f (n i cp) = f cp) \<Longrightarrow> keeps f (ifInt64 ctx m k n)"
  "(\<And>i cp. f (w i cp) = f cp) \<Longrightarrow> keeps f (ifUint64 ctx m k nonZero w)"
  "(\<And>xs cp. f (l xs cp) = f cp) \<Longrightarrow> keeps f (ifSlice m k c l)"
  by (simp_all add: keeps_def ifText_def ifBool_def ifInt_def ifInt64_def ifUint64_def ifSlice_def split: option.splits prod.splits)

lemma keeps_ifParsed: "(\<And>x cp. f (g x cp) = f cp) \<Longrightarrow> keeps f (ifParsed parse m k g)"
  unfolding ifParsed_def by (rule keeps_steps) (simp split: sum.splits)

lemma keeps_runSteps: "list_all (keeps f) steps \<Longrightarrow> f (runSteps steps cp) = f cp"
  unfolding runSteps_def by (induction steps arbitrary: cp) (simp_all add: keeps_def)

lemma runSteps_append: "runSteps (xs @ ys) cp = runSteps ys (runSteps xs cp)"
  by (simp add: runSteps_def)

lemma runSteps_Cons: "runSteps (x # xs) cp = runSteps xs (x cp)"
  by (simp add: runSteps_def)

lemma runSteps_Nil: "runSteps [] cp = cp"
  by (simp add: runSteps_def)

lemma keeps_serverTokens: "(\<And>v cp. f (cp\<lparr>cpServerTokens := v\<rparr>) = f cp) \<Longrightarrow> keeps f (serverTokensStep ctx isPlus m k)"
  by (simp add: keeps_def serverTokensStep_def split: prod.splits)

lemma keeps_lbMethod: "(\<And>v cp. f (cp\<lparr>cpLBMethod := v\<rparr>) = f cp) \<Longrightarrow> keeps f (lbMethodStep isPlus m k)"
  unfolding lbMethodStep_def by (rule keeps_ifParsed)

lemma keeps_hsts:
  assumes "\<And>a b c d cp. f (cp\<lparr>cpHSTS := a, cpHSTSMaxAge := b, cpHSTSIncludeSubdomains := c, cpHSTSBehindProxy := d\<rparr>) = f cp"
  shows "keeps f (hstsStep ctx m prefix)"
  unfolding hstsStep_def by (rule keeps_steps) (simp only: case_prod_unfold if_distrib [of f] assms if_cancel)

lemma keeps_plain: "(\<And>cp. f (step cp) = f cp) \<Longrightarrow> keeps f step"
  by (simp add: keeps_def)

lemmas keeps_intros = keeps_steps keeps_ifParsed keeps_serverTokens keeps_lbMethod keeps_hsts

section \<open>Annotations\<close>

lemma annotation_jwt:
  "cpJWTKey (parseAnnotations ingEx base isPlus hasAppProtect internal) =
     (case (isPlus, gget (omAnnotations (ingMeta (ixIngress ingEx))) JWTKeyAnnotation) of
        (True, Some v) \<Rightarrow> v
      | _ \<Rightarrow> cpJWTKey base)"
proof -
  let ?ing = "ixIngress ingEx"
  let ?ctx = "ingressObject ?ing" and ?m = "omAnnotations (ingMeta ?ing)"
  have backend: "list_all (keeps cpJWTKey) (annotationBackendSteps ?ctx isPlus ?m)"
    by (simp add: annotationBackendSteps_def keeps_intros keeps_plain split: prod.splits)
  have proxy: "list_all (keeps cpJWTKey) (annotationProxySteps ?ctx ?m)"
    by (simp add: annotationProxySteps_def keeps_intros)
  have mesh: "list_all (keeps cpJWTKey) (annotationMeshSteps ?ctx hasAppProtect internal ?m)"
    by (simp add: annotationMeshSteps_def keeps_intros)
  have server: "cpJWTKey (runSteps (annotationServerSteps ?ctx isPlus ?m) cp) =
      (case (isPlus, gget ?m JWTKeyAnnotation) of (True, Some v) \<Rightarrow> v | _ \<Rightarrow> cpJWTKey cp)" for cp
  proof -
    have rest: "list_all (keeps cpJWTKey)
        [ifParsed ParsePortList ?m ''nginx.org/listen-ports'' (\<lambda>v cp. if v \<noteq> [] then cp\<lparr>cpPorts := v\<rparr> else cp),
         ifParsed ParsePortList ?m ''nginx.org/listen-ports-ssl'' (\<lambda>v cp. if v \<noteq> [] then cp\<lparr>cpSSLPorts := v\<rparr> else cp),
         ifInt ?ctx ?m ''nginx.org/keepalive'' (\<lambda>v cp. cp\<lparr>cpKeepalive := v\<rparr>),
         ifInt ?ctx ?m ''nginx.org/max-fails'' (\<lambda>v cp. cp\<lparr>cpMaxFails := v\<rparr>),
         ifInt ?ctx ?m ''nginx.org/max-conns'' (\<lambda>v cp. cp\<lparr>cpMaxConns := v\<rparr>),
         ifParsed ParseTime ?m ''nginx.org/fail-timeout'' (\<lambda>v cp. cp\<lparr>cpFailTimeout := v\<rparr>)]"
      by (simp add: keeps_intros)
    show ?thesis
      unfolding annotationServerSteps_def runSteps_append keeps_runSteps [OF rest]
      by (cases isPlus) (simp_all add: runSteps_Cons runSteps_Nil ifText_def split: option.splits)
  qed
  show ?thesis
    unfolding parseAnnotations_def Let_def runSteps_append keeps_runSteps [OF mesh] server keeps_runSteps [OF proxy]
      keeps_runSteps [OF backend] by (rule refl)
qed


text \<open>Without annotations the parameters are those of the ConfigMap.\<close>

lemma absent_keys:
  "GetMapKeyAsBool [] k ctx = (False, False, None)" "GetMapKeyAsInt [] k ctx = (0, False, None)"
  "GetMapKeyAsInt64 [] k ctx = (0, False, None)" "GetMapKeyAsStringSlice [] k c = ([], False)"
  by (simp_all add: GetMapKeyAsBool_def GetMapKeyAsInt_def GetMapKeyAsInt64_def GetMapKeyAsStringSlice_def)

lemma keeps_absent:
  "keeps f (ifText [] k g)" "keeps f (ifBool ctx [] k h)" "keeps f (ifInt ctx [] k n)" "keeps f (ifInt64 ctx [] k n)"
  "keeps f (ifSlice [] k c l)" "keeps f (ifParsed parse [] k p)" "keeps f (serverTokensStep ctx isPlus [] k)"
  "keeps f (lbMethodStep isPlus [] k)" "keeps f (hstsStep ctx [] prefix)"
  by (simp_all add: keeps_def ifText_def ifBool_def ifInt_def ifInt64_def ifSlice_def ifParsed_def serverTokensStep_def
      lbMethodStep_def hstsStep_def absent_keys)

lemma no_annotations:
  assumes "omAnnotations (ingMeta (ixIngress ix)) = []"
  shows "parseAnnotations ix base isPlus hasAppProtect internal = base"
proof -
  let ?ctx = "ingressObject (ixIngress ix)"
  have "list_all (keeps (\<lambda>cp. cp)) (annotationBackendSteps ?ctx isPlus [])"
    by (simp add: annotationBackendSteps_def keeps_absent absent_keys keeps_plain)
  moreover have "list_all (keeps (\<lambda>cp. cp)) (annotationProxySteps ?ctx [])"
    by (simp add: annotationProxySteps_def keeps_absent)
  moreover have "list_all (keeps (\<lambda>cp. cp)) (annotationServerSteps ?ctx isPlus [])"
    by (simp add: annotationServerSteps_def keeps_absent)
  moreover have "list_all (keeps (\<lambda>cp. cp)) (annotationMeshSteps ?ctx hasAppProtect internal [])"
    by (simp add: annotationMeshSteps_def keeps_absent)
  ultimately have "runSteps (annotationBackendSteps ?ctx isPlus [] @ annotationProxySteps ?ctx [] @ annotationServerSteps ?ctx isPlus []
      @ annotationMeshSteps ?ctx hasAppProtect internal []) base = base"
    by (intro keeps_runSteps [of "\<lambda>cp. cp"]) simp
  then show ?thesis using assms by (simp add: parseAnnotations_def Let_def)
qed


section \<open>Parameters that depend on each other\<close>

text \<open>
  Health checks are mandatory only where they are enabled, and have a queue only where they are
  mandatory; tracing is enabled only where its module is loaded; what needs NGINX Plus is off without it.
\<close>

definition consistentParams :: "bool \<Rightarrow> ConfigParams \<Rightarrow> bool" where
  "consistentParams isPlus cp =
     ((cpHealthCheckMandatory cp \<longrightarrow> cpHealthCheckEnabled cp)
      \<and> (cpHealthCheckMandatoryQueue cp \<noteq> 0 \<longrightarrow> cpHealthCheckMandatory cp)
      \<and> (cpMainOpenTracingEnabled cp \<longrightarrow> cpMainOpenTracingLoadModule cp)
      \<and> (isPlus \<or> \<not> cpHealthCheckEnabled cp \<and> cpSlowStart cp = '''' \<and> cpJWTKey cp = '''' \<and> cpJWTRealm cp = '''' \<and> cpJWTToken cp = ''''
           \<and> cpJWTLoginURL cp = '''' \<and> cpResolverAddresses cp = []))"

definition healthParams :: "ConfigParams \<Rightarrow> bool \<times> bool \<times> int" where
  "healthParams cp = (cpHealthCheckEnabled cp, cpHealthCheckMandatory cp, cpHealthCheckMandatoryQueue cp)"

definition tracingParams :: "ConfigParams \<Rightarrow> bool \<times> bool" where
  "tracingParams cp = (cpMainOpenTracingEnabled cp, cpMainOpenTracingLoadModule cp)"

definition plusParams :: "ConfigParams \<Rightarrow> string list \<times> string list" where
  "plusParams cp = ([cpSlowStart cp, cpJWTKey cp, cpJWTRealm cp, cpJWTToken cp, cpJWTLoginURL cp], cpResolverAddresses cp)"

lemmas params_defs = healthParams_def tracingParams_def plusParams_def

lemma configMap_health: "healthParams (ParseConfigMap cfgm isPlus ap) = (False, False, 0)"
proof -
  let ?ctx = "configMapObject cfgm" and ?m = "cmData cfgm"
  have "list_all (keeps healthParams) (configMapProxySteps ?ctx isPlus ?m)"
    by (simp add: configMapProxySteps_def keeps_intros healthParams_def)
  moreover have "list_all (keeps healthParams) (configMapServerSteps ?ctx ?m)"
    by (simp add: configMapServerSteps_def keeps_intros healthParams_def)
  moreover have "list_all (keeps healthParams) (configMapWorkerSteps ?ctx ?m)"
    by (simp add: configMapWorkerSteps_def keeps_intros healthParams_def split: prod.split)
  moreover have "list_all (keeps healthParams) (configMapResolverSteps ?ctx isPlus ?m)"
    by (simp add: configMapResolverSteps_def keeps_intros keeps_plain healthParams_def)
  moreover have "list_all (keeps healthParams) (configMapAppProtectSteps ?m)"
    by (simp add: configMapAppProtectSteps_def keeps_intros healthParams_def Let_def)
  ultimately have "healthParams (ParseConfigMap cfgm isPlus ap) = healthParams NewDefaultConfigParams"
    unfolding ParseConfigMap_def Let_def by (intro keeps_runSteps) simp
  then show ?thesis by (simp add: healthParams_def NewDefaultConfigParams_def)
qed

lemma configMap_plus: "plusParams (ParseConfigMap cfgm False ap) = ([[], [], [], [], []], [])"
proof -
  let ?ctx = "configMapObject cfgm" and ?m = "cmData cfgm"
  have "list_all (keeps plusParams) (configMapProxySteps ?ctx False ?m)"
    by (simp add: configMapProxySteps_def keeps_intros plusParams_def)
  moreover have "list_all (keeps plusParams) (configMapServerSteps ?ctx ?m)"
    by (simp add: configMapServerSteps_def keeps_intros plusParams_def)
  moreover have "list_all (keeps plusParams) (configMapWorkerSteps ?ctx ?m)"
    by (simp add: configMapWorkerSteps_def keeps_intros plusParams_def split: prod.split)
  moreover have "list_all (keeps plusParams) (configMapResolverSteps ?ctx False ?m)"
    by (simp add: configMapResolverSteps_def keeps_intros keeps_plain plusParams_def)
  moreover have "list_all (keeps plusParams) (configMapAppProtectSteps ?m)"
    by (simp add: configMapAppProtectSteps_def keeps_intros plusParams_def Let_def)
  ultimately have "plusParams (ParseConfigMap cfgm False ap) = plusParams NewDefaultConfigParams"
    unfolding ParseConfigMap_def Let_def by (intro keeps_runSteps) simp
  then show ?thesis by (simp add: plusParams_def NewDefaultConfigParams_def)
qed

text \<open>A list of steps preserves a condition that each of its steps preserves.\<close>

lemma runSteps_preserves: "list_all (\<lambda>step. \<forall>cp. P cp \<longrightarrow> P (step cp)) steps \<Longrightarrow> P cp \<Longrightarrow> P (runSteps steps cp)"
  unfolding runSteps_def by (induction steps arbitrary: cp) simp_all

lemma keeps_preserves: "keeps f step \<Longrightarrow> \<forall>cp. (case f cp of (a, b) \<Rightarrow> Q a b) \<longrightarrow> (case f (step cp) of (a, b) \<Rightarrow> Q a b)"
  by (simp add: keeps_def)

lemma configMap_tracing: "case tracingParams (ParseConfigMap cfgm isPlus ap) of (enabled, loaded) \<Rightarrow> enabled \<longrightarrow> loaded"
proof -
  let ?ctx = "configMapObject cfgm" and ?m = "cmData cfgm"
  let ?P = "\<lambda>cp. case tracingParams cp of (enabled, loaded) \<Rightarrow> enabled \<longrightarrow> loaded"
  let ?ok = "list_all (\<lambda>step. \<forall>cp. ?P cp \<longrightarrow> ?P (step cp))"
  have keep: "?ok steps" if "list_all (keeps tracingParams) steps" for steps
    using that keeps_preserves [of tracingParams _ "\<lambda>enabled loaded. enabled \<longrightarrow> loaded"] by (auto simp: list_all_iff)
  have "?ok (configMapProxySteps ?ctx isPlus ?m)" by (rule keep) (simp add: configMapProxySteps_def keeps_intros tracingParams_def)
  moreover have "?ok (configMapServerSteps ?ctx ?m)" by (rule keep) (simp add: configMapServerSteps_def keeps_intros tracingParams_def)
  moreover have "?ok (configMapWorkerSteps ?ctx ?m)"
    by (rule keep) (simp add: configMapWorkerSteps_def keeps_intros tracingParams_def split: prod.split)
  moreover have "?ok (configMapAppProtectSteps ?m)"
    by (rule keep) (simp add: configMapAppProtectSteps_def keeps_intros tracingParams_def Let_def)
  moreover have "?ok (configMapResolverSteps ?ctx isPlus ?m)"
    by (simp add: configMapResolverSteps_def tracingParams_def step_defs split: option.split prod.split)
  ultimately have "?ok (configMapProxySteps ?ctx isPlus ?m @ configMapServerSteps ?ctx ?m @ configMapWorkerSteps ?ctx ?m
      @ configMapResolverSteps ?ctx isPlus ?m @ (if ap then configMapAppProtectSteps ?m else []))" by simp
  then show ?thesis unfolding ParseConfigMap_def Let_def
    by (rule runSteps_preserves) (simp add: tracingParams_def NewDefaultConfigParams_def)
qed


text \<open>The steps of the annotations, but for those that may change what is looked at.\<close>

lemma annotation_steps_keep:
  "list_all (keeps healthParams) (annotationProxySteps ctx m @ annotationServerSteps ctx isPlus m @ annotationMeshSteps ctx ap internal m)"
  "list_all (keeps tracingParams)
     (annotationBackendSteps ctx isPlus m @ annotationProxySteps ctx m @ annotationServerSteps ctx isPlus m @ annotationMeshSteps ctx ap internal m)"
  "list_all (keeps plusParams)
     (annotationBackendSteps ctx False m @ annotationProxySteps ctx m @ annotationServerSteps ctx False m @ annotationMeshSteps ctx ap internal m)"
  by (simp_all add: annotationBackendSteps_def annotationProxySteps_def annotationServerSteps_def annotationMeshSteps_def
      keeps_intros keeps_plain params_defs split: prod.split)

definition healthConsistent :: "bool \<Rightarrow> bool \<times> bool \<times> int \<Rightarrow> bool" where
  "healthConsistent isPlus h =
     (case h of (enabled, mandatory, queue) \<Rightarrow> (mandatory \<longrightarrow> enabled) \<and> (queue \<noteq> 0 \<longrightarrow> mandatory) \<and> (enabled \<longrightarrow> isPlus))"

lemma annotation_health:
  assumes "healthParams cp = (False, False, 0)"
  shows "healthConsistent isPlus (healthParams (runSteps (annotationBackendSteps ctx isPlus m) cp))"
proof -
  have rest: "list_all (keeps healthParams) (drop 4 (annotationBackendSteps ctx isPlus m))"
    by (simp add: annotationBackendSteps_def keeps_intros healthParams_def)
  have first: "healthConsistent isPlus (healthParams (runSteps (take 4 (annotationBackendSteps ctx isPlus m)) cp))"
  proof -
    have "keeps healthParams (lbMethodStep isPlus m ''nginx.org/lb-method'')" by (simp add: keeps_intros healthParams_def)
    then have "healthParams (lbMethodStep isPlus m ''nginx.org/lb-method'' cp) = (False, False, 0)" using assms by (simp add: keeps_def)
    moreover obtain b1 f1 e1 where "GetMapKeyAsBool m ''nginx.com/health-checks'' ctx = (b1, f1, e1)" by (rule prod_cases3)
    moreover obtain b2 f2 e2 where "GetMapKeyAsBool m ''nginx.com/health-checks-mandatory'' ctx = (b2, f2, e2)" by (rule prod_cases3)
    moreover obtain q f3 e3 where "GetMapKeyAsInt64 m ''nginx.com/health-checks-mandatory-queue'' ctx = (q, f3, e3)" by (rule prod_cases3)
    ultimately show ?thesis
      by (cases isPlus) (simp_all add: annotationBackendSteps_def runSteps_Cons runSteps_Nil healthParams_def healthConsistent_def)
  qed
  have "runSteps (annotationBackendSteps ctx isPlus m) cp
      = runSteps (drop 4 (annotationBackendSteps ctx isPlus m)) (runSteps (take 4 (annotationBackendSteps ctx isPlus m)) cp)"
    by (simp add: runSteps_append [symmetric])
  with first keeps_runSteps [OF rest] show ?thesis by simp
qed

text \<open>
  C13: The parameters of an Ingress are consistent: whatever the ConfigMap and the annotations hold,
  health checks are mandatory only where they are enabled and have a queue only where they are mandatory,
  tracing is enabled only where its module is loaded, and without NGINX Plus there are no health
  checks, no slow start, no JWT and no resolver.
\<close>

theorem parameters_consistent:
  "consistentParams isPlus (parseAnnotations ix (ParseConfigMap cfgm isPlus ap) isPlus ap internal)"
proof -
  let ?base = "ParseConfigMap cfgm isPlus ap" and ?ctx = "ingressObject (ixIngress ix)" and ?m = "omAnnotations (ingMeta (ixIngress ix))"
  let ?cp = "parseAnnotations ix ?base isPlus ap internal"
  have "healthParams ?cp = healthParams (runSteps (annotationBackendSteps ?ctx isPlus ?m) ?base)"
    unfolding parseAnnotations_def Let_def runSteps_append [of "annotationBackendSteps ?ctx isPlus ?m"]
    by (rule keeps_runSteps) (rule annotation_steps_keep)
  with annotation_health [OF configMap_health] have health: "healthConsistent isPlus (healthParams ?cp)" by simp
  have "tracingParams ?cp = tracingParams ?base"
    unfolding parseAnnotations_def Let_def by (rule keeps_runSteps) (rule annotation_steps_keep)
  with configMap_tracing [of cfgm isPlus ap] have tracing: "case tracingParams ?cp of (enabled, loaded) \<Rightarrow> enabled \<longrightarrow> loaded" by simp
  have plus: "plusParams ?cp = ([[], [], [], [], []], [])" if "\<not> isPlus"
  proof -
    have "plusParams ?cp = plusParams ?base"
      unfolding parseAnnotations_def Let_def using that by (intro keeps_runSteps) (simp only: annotation_steps_keep)
    with configMap_plus that show ?thesis by simp
  qed
  from health tracing plus show ?thesis
    by (auto simp: consistentParams_def healthConsistent_def params_defs)
qed

end
