(* ===== verification/Ingress_Config_Properties.thy ===== *)
theory Ingress_Config_Properties
  imports Ingress_Config Config_Parsing_Properties Controller_Properties
begin

text \<open>
  What the generated configuration of an Ingress is: it exists for every Ingress that the
  controller extends, has one server for each valid host and one location for each path, and the
  upstream of a location is the one of its own backend, unless names collide.
\<close>

section \<open>When the generator cannot panic\<close>

definition readyContext :: "ingressContext \<Rightarrow> bool" where
  "readyContext c =
     (let ix = gcIngEx c in
        (\<forall>k es. gget (ixEndpoints ix) k = Some es \<longrightarrow> (\<forall>e\<in>set es. CHR '':'' \<in> set e))
        \<and> (\<forall>k hc. gget (ixHealthChecks ix) k = Some hc \<longrightarrow> pbHTTPGet hc \<noteq> None)
        \<and> (cpJWTKey (gcParams c) \<noteq> '''' \<longrightarrow> ghas (ixSecretRefs ix) (cpJWTKey (gcParams c)))
        \<and> (\<forall>t\<in>set (isTLS (ingSpec (ixIngress ix))). ghas (ixSecretRefs ix) (itSecretName t)))"

lemma splitOn_two: "c \<in> set s \<Longrightarrow> \<exists>a b rest. splitOn c s = a # b # rest"
  by (metis splitOn_single_iff splitOn_not_Nil neq_Nil_conv)

lemma createUpstream_name:
  "createUpstream ingEx name backend sticky cfg isPlus resolver latency = Some u \<Longrightarrow> u1Name u = name"
  by (auto simp: createUpstream_def NewUpstreamWithDefaultServer_def Let_def split: option.splits if_splits prod.splits)

lemma contextUpstream_name: "contextUpstream c name backend = Some u \<Longrightarrow> u1Name u = name"
  unfolding contextUpstream_def by (rule createUpstream_name)

lemma contextUpstream_total:
  assumes "readyContext c"
  shows "\<exists>u. contextUpstream c name backend = Some u"
proof -
  have "\<exists>ys. mapOpt (ingressUpstreamServer cfg external) es = Some ys"
    if "gget (ixEndpoints (gcIngEx c)) k = Some es" for cfg external k es
  proof (rule mapOpt_total)
    fix e assume "e \<in> set es"
    then have "CHR '':'' \<in> set e" using assms that unfolding readyContext_def Let_def by blast
    from splitOn_two [OF this] show "ingressUpstreamServer cfg external e \<noteq> None" by (auto simp: ingressUpstreamServer_def)
  qed
  moreover have "\<exists>ys. mapOpt f (if b then [] else es) = Some ys" if "\<exists>ys. mapOpt f es = Some ys" for f b and es :: "string list"
    using that by simp
  ultimately show ?thesis by (fastforce simp: contextUpstream_def createUpstream_def Let_def split: option.splits)
qed

lemma addHealthCheck_total:
  assumes "readyContext c"
  shows "\<exists>checks'. addHealthCheck c name backend checks = Some checks'"
proof -
  have "pbHTTPGet hc \<noteq> None" if "gget (ixHealthChecks (gcIngEx c)) k = Some hc" for k hc
    using assms that unfolding readyContext_def Let_def by blast
  then show ?thesis by (auto simp: addHealthCheck_def createHealthCheck_def split: option.splits)
qed

lemma optionalJWT_total:
  assumes "readyContext c"
  shows "\<exists>auth redirects warnings. optionalJWT c applies = Some (auth, redirects, warnings)"
proof -
  have "\<exists>r. generateJWTConfig (ixSecretRefs (gcIngEx c)) (gcParams c) name = Some r" if "cpJWTKey (gcParams c) \<noteq> ''''" for name
    using assms that unfolding readyContext_def Let_def
    by (auto simp: generateJWTConfig_def ghas_def Let_def split: option.splits)
  then have context_jwt: "\<exists>a r w. contextJWT c = Some (a, r, w)" if "cpJWTKey (gcParams c) \<noteq> ''''"
    using that unfolding contextJWT_def case_prod_unfold by fastforce
  show ?thesis
  proof (cases "applies \<and> cpJWTKey (gcParams c) \<noteq> ''''")
    case True
    with context_jwt obtain a r w where "contextJWT c = Some (a, r, w)" by blast
    with True show ?thesis by (simp add: optionalJWT_def)
  next
    case False
    then show ?thesis unfolding optionalJWT_def if_not_P [OF False] by simp
  qed
qed

lemma tlsSecretFor_in: "tlsSecretFor host tls = Some s \<Longrightarrow> \<exists>t\<in>set tls. itSecretName t = s \<and> host \<in> set (itHosts t)"
proof -
  have "fold (\<lambda>tls acc. if host \<in> set (itHosts tls) then Some (itSecretName tls) else acc) tls acc = Some s
      \<Longrightarrow> acc = Some s \<or> (\<exists>t\<in>set tls. itSecretName t = s \<and> host \<in> set (itHosts t))" for acc
    by (induction tls arbitrary: acc) (auto split: if_splits)
  then show "tlsSecretFor host tls = Some s \<Longrightarrow> \<exists>t\<in>set tls. itSecretName t = s \<and> host \<in> set (itHosts t)"
    unfolding tlsSecretFor_def by blast
qed

lemma addSSLConfig_total:
  assumes "readyContext c"
  shows "\<exists>server' warnings. addSSLConfig server host (isTLS (ingSpec (ixIngress (gcIngEx c)))) (ixSecretRefs (gcIngEx c)) wildcard
    = Some (server', warnings)"
proof (cases "tlsSecretFor host (isTLS (ingSpec (ixIngress (gcIngEx c))))")
  case None
  then show ?thesis by (simp add: addSSLConfig_def)
next
  case (Some s)
  then have "\<exists>ref. gget (ixSecretRefs (gcIngEx c)) s = Some ref"
    using assms tlsSecretFor_in [OF Some] by (auto simp: readyContext_def ghas_def Let_def)
  then have "\<exists>f ws. sslFile host s (ixSecretRefs (gcIngEx c)) wildcard = Some (f, ws)"
    by (auto simp: sslFile_def split: option.splits)
  then show ?thesis by (auto simp: addSSLConfig_def Some)
qed


section \<open>Paths\<close>

text \<open>
  Every upstream of the map comes from a backend of a set, under the name of that backend; the
  upstream of every location is in the map.
\<close>

definition upstreamsOf :: "ingressContext \<Rightarrow> (string \<times> IngressBackend) set \<Rightarrow> Upstream1 gomap \<Rightarrow> bool" where
  "upstreamsOf c S U =
     (wf_gomap U \<and> (\<forall>k u. gget U k = Some u \<longrightarrow>
        (\<exists>(h, b)\<in>S. k = ingressUpstreamName (ixIngress (gcIngEx c)) h b \<and> contextUpstream c k b = Some u)))"

definition placed :: "Upstream1 gomap \<Rightarrow> Location1 list \<Rightarrow> bool" where
  "placed U locs = (\<forall>l\<in>set locs. gget U (u1Name (l1Upstream l)) = Some (l1Upstream l))"

definition keptUpstreams :: "Upstream1 gomap \<Rightarrow> Upstream1 gomap \<Rightarrow> bool" where
  "keptUpstreams U U' = (\<forall>k u. gget U k = Some u \<longrightarrow> gget U' k = Some u)"

lemma keptUpstreams_trans: "keptUpstreams U V \<Longrightarrow> keptUpstreams V W \<Longrightarrow> keptUpstreams U W"
  by (simp add: keptUpstreams_def)

lemma keptUpstreams_refl [simp]: "keptUpstreams U U"
  by (simp add: keptUpstreams_def)

lemma placed_kept: "placed U locs \<Longrightarrow> keptUpstreams U U' \<Longrightarrow> placed U' locs"
  by (simp add: placed_def keptUpstreams_def)

text \<open>What a location shows of its path: its own path, its service and the name of its upstream.\<close>

definition locationInfo :: "Location1 \<Rightarrow> string \<times> string \<times> string" where
  "locationInfo l = (l1Path l, l1ServiceName l, u1Name (l1Upstream l))"

definition backendInfo :: "Ingress \<Rightarrow> string \<Rightarrow> string \<Rightarrow> IngressBackend \<Rightarrow> string \<times> string \<times> string" where
  "backendInfo ing host path backend = (path, ibServiceName backend, ingressUpstreamName ing host backend)"

definition pathInfo :: "Ingress \<Rightarrow> string \<Rightarrow> HTTPIngressPath \<Rightarrow> string \<times> string \<times> string" where
  "pathInfo ing host p = backendInfo ing host (generateIngressPath (pathOrDefault (hpPath p)) (hpPathType p)) (hpBackend p)"

definition usedPath :: "ingressContext \<Rightarrow> HTTPIngressPath \<Rightarrow> bool" where
  "usedPath c p = (\<not> (gcIsMinion c \<and> \<not> gtrue (ixValidMinionPaths (gcIngEx c)) (hpPath p)))"

lemma contextLocation_info:
  "locationInfo ((contextLocation c path u b pt)\<lparr>l1JWTAuth := auth\<rparr>)
     = (generateIngressPath (pathOrDefault path) pt, ibServiceName b, u1Name u)"
  by (simp add: contextLocation_def createLocation_def locationInfo_def Let_def)

lemma upstreamsOf_gput:
  assumes "upstreamsOf c S U" and "(h, b) \<in> S" and "contextUpstream c (ingressUpstreamName (ixIngress (gcIngEx c)) h b) b = Some u"
  shows "upstreamsOf c S (gput (ingressUpstreamName (ixIngress (gcIngEx c)) h b) u U)"
  using assms by (auto simp: upstreamsOf_def split: if_splits)

lemma upstreamsOf_name: "upstreamsOf c S U \<Longrightarrow> gget U k = Some u \<Longrightarrow> u1Name u = k"
  unfolding upstreamsOf_def using contextUpstream_name by blast

text \<open>The state after some paths of a rule, from its start.\<close>

definition ruleReaches :: "ingressContext \<Rightarrow> (string \<times> IngressBackend) set \<Rightarrow> ruleState \<Rightarrow> (string \<times> string \<times> string) list \<Rightarrow> ruleState \<Rightarrow> bool" where
  "ruleReaches c S st infos st' =
     (upstreamsOf c S (ruUpstreams st') \<and> keptUpstreams (ruUpstreams st) (ruUpstreams st')
      \<and> placed (ruUpstreams st') (ruLocations st') \<and> map locationInfo (ruLocations st') = map locationInfo (ruLocations st) @ infos
      \<and> ruRoot st' = (ruRoot st \<or> ''/'' \<in> fst ` set infos))"

lemma ruleReaches_trans: "ruleReaches c S st xs st' \<Longrightarrow> ruleReaches c S st' ys st'' \<Longrightarrow> ruleReaches c S st (xs @ ys) st''"
  unfolding ruleReaches_def using keptUpstreams_trans by auto

lemma addPath_reaches:
  assumes ready: "readyContext c" and of_S: "upstreamsOf c S (ruUpstreams st)" and pl: "placed (ruUpstreams st) (ruLocations st)"
    and b: "usedPath c p \<Longrightarrow> (host, hpBackend p) \<in> S"
  shows "\<exists>st'. addPath c host p st = Some st'
    \<and> ruleReaches c S st (if usedPath c p then [pathInfo (ixIngress (gcIngEx c)) host p] else []) st'"
proof (cases "usedPath c p")
  case False
  then show ?thesis using of_S pl by (simp add: addPath_def usedPath_def ruleReaches_def)
next
  case True
  let ?U = "ruUpstreams st" and ?name = "ingressUpstreamName (ixIngress (gcIngEx c)) host (hpBackend p)"
  obtain checks where checks: "addHealthCheck c ?name (hpBackend p) (ruHealthChecks st) = Some checks"
    using addHealthCheck_total [OF ready] by blast
  obtain auth redirects warnings where jwt: "optionalJWT c (gcIsMinion c) = Some (auth, redirects, warnings)"
    using optionalJWT_total [OF ready] by blast
  obtain u0 where u0: "contextUpstream c ?name (hpBackend p) = Some u0" using contextUpstream_total [OF ready] by blast
  define u where "u = (case gget ?U ?name of Some u \<Rightarrow> u | None \<Rightarrow> u0)"
  define U' where "U' = (if ghas ?U ?name then ?U else gput ?name u ?U)"
  define loc where "loc = contextLocation c (hpPath p) u (hpBackend p) (hpPathType p)"
  have ups: "(case gget ?U ?name of Some u \<Rightarrow> Some u | None \<Rightarrow> contextUpstream c ?name (hpBackend p)) = Some u"
    using u0 by (simp add: u_def split: option.splits)
  have got: "gget U' ?name = Some u" by (auto simp: U'_def u_def ghas_def split: option.splits)
  have kept: "keptUpstreams ?U U'" by (auto simp: U'_def ghas_def keptUpstreams_def)
  have of_S': "upstreamsOf c S U'"
    using of_S upstreamsOf_gput [OF of_S b [OF True] u0] u0 by (auto simp: U'_def u_def ghas_def split: option.splits)
  have info: "locationInfo (loc\<lparr>l1JWTAuth := auth\<rparr>) = pathInfo (ixIngress (gcIngEx c)) host p"
    using upstreamsOf_name [OF of_S' got] by (simp add: loc_def contextLocation_info pathInfo_def backendInfo_def)
  define st' where "st' = st\<lparr>ruUpstreams := U', ruLocations := ruLocations st @ [loc\<lparr>l1JWTAuth := auth\<rparr>], ruHealthChecks := checks,
      ruRedirects := ruRedirects st @ redirects, ruWarnings := ruWarnings st @ warnings, ruRoot := (ruRoot st \<or> l1Path loc = ''/'')\<rparr>"
  have result: "addPath c host p st = Some st'"
    unfolding addPath_def Let_def if_not_P [OF True [unfolded usedPath_def]]
    by (simp add: checks ups jwt st'_def U'_def loc_def)
  have "placed U' [loc\<lparr>l1JWTAuth := auth\<rparr>]"
    using got upstreamsOf_name [OF of_S' got] by (simp add: placed_def loc_def contextLocation_def createLocation_def Let_def)
  moreover have "l1Path loc = fst (pathInfo (ixIngress (gcIngEx c)) host p)"
    unfolding info [symmetric] by (simp add: locationInfo_def)
  ultimately have "ruleReaches c S st [pathInfo (ixIngress (gcIngEx c)) host p] st'"
    using of_S' kept placed_kept [OF pl kept] info unfolding ruleReaches_def st'_def placed_def by auto
  with result True show ?thesis by auto
qed

lemma addPaths_reach:
  assumes "readyContext c" and "upstreamsOf c S (ruUpstreams st)" and "placed (ruUpstreams st) (ruLocations st)"
    and "\<forall>p\<in>set ps. usedPath c p \<longrightarrow> (host, hpBackend p) \<in> S"
  shows "\<exists>st'. foldOpt (addPath c host) ps st = Some st'
    \<and> ruleReaches c S st (map (pathInfo (ixIngress (gcIngEx c)) host) (filter (usedPath c) ps)) st'"
  using assms(2-4)
proof (induction ps arbitrary: st)
  case Nil
  then show ?case by (simp add: ruleReaches_def)
next
  case (Cons p ps)
  have "usedPath c p \<Longrightarrow> (host, hpBackend p) \<in> S" using Cons.prems(3) by simp
  from addPath_reaches [OF assms(1) Cons.prems(1,2) this] obtain st1
    where st1: "addPath c host p st = Some st1"
      and r1: "ruleReaches c S st (if usedPath c p then [pathInfo (ixIngress (gcIngEx c)) host p] else []) st1" by blast
  have "upstreamsOf c S (ruUpstreams st1)" "placed (ruUpstreams st1) (ruLocations st1)"
    using r1 unfolding ruleReaches_def by blast+
  from Cons.IH [OF this] Cons.prems(3) obtain st2 where st2: "foldOpt (addPath c host) ps st1 = Some st2"
      "ruleReaches c S st1 (map (pathInfo (ixIngress (gcIngEx c)) host) (filter (usedPath c) ps)) st2"
    by auto
  have "(if usedPath c p then [pathInfo (ixIngress (gcIngEx c)) host p] else []) @
      map (pathInfo (ixIngress (gcIngEx c)) host) (filter (usedPath c) ps)
    = map (pathInfo (ixIngress (gcIngEx c)) host) (filter (usedPath c) (p # ps))" by simp
  with ruleReaches_trans [OF r1 st2(2)] st1 st2(1) show ?case by simp
qed


section \<open>Rules\<close>

definition defaultPresent :: "ingressContext \<Rightarrow> Upstream1 gomap \<Rightarrow> bool" where
  "defaultPresent c U =
     (\<forall>b. isBackend (ingSpec (ixIngress (gcIngEx c))) = Some b
        \<longrightarrow> (\<exists>u. gget U (ingressUpstreamName (ixIngress (gcIngEx c)) emptyHost b) = Some u))"

lemma defaultPresent_kept: "defaultPresent c U \<Longrightarrow> keptUpstreams U U' \<Longrightarrow> defaultPresent c U'"
  unfolding defaultPresent_def keptUpstreams_def by blast

definition defaultInfos :: "Ingress \<Rightarrow> (string \<times> string \<times> string) list \<Rightarrow> (string \<times> string \<times> string) list" where
  "defaultInfos ing infos =
     (case isBackend (ingSpec ing) of
        None \<Rightarrow> []
      | Some b \<Rightarrow> (if ''/'' \<in> fst ` set infos then [] else [backendInfo ing emptyHost ''/'' b]))"

lemma addDefaultLocation_reaches:
  assumes ready: "readyContext c" and of_S: "upstreamsOf c S (ruUpstreams st)" and pl: "placed (ruUpstreams st) (ruLocations st)"
    and present: "defaultPresent c (ruUpstreams st)" and root: "ruRoot st = (''/'' \<in> fst ` set infos)"
  shows "\<exists>st' only. addDefaultLocation c (st, grpcOnly) = Some (st', only) \<and> ruUpstreams st' = ruUpstreams st
    \<and> placed (ruUpstreams st') (ruLocations st')
    \<and> map locationInfo (ruLocations st') = map locationInfo (ruLocations st) @ defaultInfos (ixIngress (gcIngEx c)) infos"
proof (cases "isBackend (ingSpec (ixIngress (gcIngEx c)))")
  case None
  then show ?thesis using pl by (simp add: addDefaultLocation_def defaultInfos_def)
next
  case (Some b)
  let ?name = "ingressUpstreamName (ixIngress (gcIngEx c)) emptyHost b"
  obtain u where u: "gget (ruUpstreams st) ?name = Some u" using present Some unfolding defaultPresent_def by blast
  obtain checks where checks: "addHealthCheck c ?name b (ruHealthChecks st) = Some checks"
    using addHealthCheck_total [OF ready] by blast
  note name = upstreamsOf_name [OF of_S u]
  have "locationInfo (contextLocation c ''/'' u b (Some ''Prefix'')) = backendInfo (ixIngress (gcIngEx c)) emptyHost ''/'' b"
    and "l1Upstream (contextLocation c ''/'' u b (Some ''Prefix'')) = u"
    by (simp_all add: contextLocation_def createLocation_def locationInfo_def backendInfo_def name generateIngressPath_def
        pathOrDefault_def Let_def)
  then show ?thesis
    using pl u name Some checks root by (simp add: addDefaultLocation_def defaultInfos_def placed_def)
qed

definition usedRule :: "IngressEx \<Rightarrow> IngressRule \<Rightarrow> bool" where
  "usedRule ix rule = gtrue (ixValidHosts ix) (irHost rule)"

text \<open>The locations of the server of a rule.\<close>

definition ruleInfos :: "ingressContext \<Rightarrow> IngressRule \<Rightarrow> (string \<times> string \<times> string) list" where
  "ruleInfos c rule =
     (let infos = map (pathInfo (ixIngress (gcIngEx c)) (irHost rule)) (filter (usedPath c) (rulePaths rule))
      in infos @ defaultInfos (ixIngress (gcIngEx c)) infos)"

definition serverInfo :: "Server1 \<Rightarrow> string \<times> (string \<times> string \<times> string) list" where
  "serverInfo s = (s1Name s, map locationInfo (s1Locations s))"

text \<open>What the map of upstreams and the servers are after some rules.\<close>

definition rulesDone ::
    "ingressContext \<Rightarrow> (string \<times> IngressBackend) set \<Rightarrow> IngressRule list \<Rightarrow> Upstream1 gomap \<times> Server1 list \<times> string list \<Rightarrow> bool" where
  "rulesDone c S rules r =
     (case r of (U, servers, _) \<Rightarrow>
        upstreamsOf c S U \<and> defaultPresent c U \<and> (\<forall>s\<in>set servers. placed U (s1Locations s))
        \<and> map serverInfo servers = map (\<lambda>r. (irHost r, ruleInfos c r)) (filter (usedRule (gcIngEx c)) rules))"

lemma addSSLConfig_name:
  "addSSLConfig server host tls refs wildcard = Some (server', warnings) \<Longrightarrow> s1Name server' = s1Name server"
  by (auto simp: addSSLConfig_def split: option.splits)

lemma generateRule_done:
  assumes ready: "readyContext c" and before: "rulesDone c S rules r"
    and in_S: "usedRule (gcIngEx c) rule \<Longrightarrow> \<forall>p\<in>set (rulePaths rule). usedPath c p \<longrightarrow> (irHost rule, hpBackend p) \<in> S"
  shows "\<exists>r'. generateRule c rule r = Some r' \<and> rulesDone c S (rules @ [rule]) r'"
proof (cases "usedRule (gcIngEx c) rule")
  case False
  then show ?thesis using before by (simp add: generateRule_def usedRule_def rulesDone_def case_prod_unfold)
next
  case True
  obtain U servers warnings where r: "r = (U, servers, warnings)" by (cases r)
  obtain server ssl where server: "addSSLConfig (ruleServer c (irHost rule)) (irHost rule) (isTLS (ingSpec (ixIngress (gcIngEx c))))
      (ixSecretRefs (gcIngEx c)) (gcWildcard c) = Some (server, ssl)"
    using addSSLConfig_total [OF ready] by blast
  obtain auth redirects jwt where jwt: "optionalJWT c (\<not> gcIsMinion c) = Some (auth, redirects, jwt)"
    using optionalJWT_total [OF ready] by blast
  define st0 where "st0 = \<lparr>ruUpstreams = U, ruLocations = [], ruHealthChecks = [], ruRedirects = redirects, ruWarnings = [], ruRoot = False\<rparr>"
  define infos where "infos = map (pathInfo (ixIngress (gcIngEx c)) (irHost rule)) (filter (usedPath c) (rulePaths rule))"
  have U: "upstreamsOf c S U" "defaultPresent c U" using before by (simp_all add: rulesDone_def r)
  have "upstreamsOf c S (ruUpstreams st0)" "placed (ruUpstreams st0) (ruLocations st0)" using U by (simp_all add: st0_def placed_def)
  from addPaths_reach [OF ready this in_S [OF True]] obtain st1
    where st1: "foldOpt (addPath c (irHost rule)) (rulePaths rule) st0 = Some st1" and reach: "ruleReaches c S st0 infos st1"
    unfolding infos_def by blast
  have r1: "upstreamsOf c S (ruUpstreams st1)" "keptUpstreams U (ruUpstreams st1)" "placed (ruUpstreams st1) (ruLocations st1)"
      "map locationInfo (ruLocations st1) = infos" "ruRoot st1 = (''/'' \<in> fst ` set infos)"
    using reach by (simp_all add: ruleReaches_def st0_def)
  note present = defaultPresent_kept [OF U(2) r1(2)]
  from addDefaultLocation_reaches [OF ready r1(1,3) present r1(5)] obtain st2 only
    where st2: "addDefaultLocation c (st1, grpcOnlyRule c (rulePaths rule)) = Some (st2, only)" "ruUpstreams st2 = ruUpstreams st1"
      "placed (ruUpstreams st2) (ruLocations st2)"
      "map locationInfo (ruLocations st2) = infos @ defaultInfos (ixIngress (gcIngEx c)) infos"
    unfolding r1(4) by blast
  define s where "s = server\<lparr>s1JWTAuth := auth, s1JWTRedirectLocations := ruRedirects st2,
      s1Locations := ruLocations st2, s1HealthChecks := ruHealthChecks st2, s1GRPCOnly := only\<rparr>"
  have gen: "generateRule c rule r = Some (ruUpstreams st2, servers @ [s], warnings @ ssl @ jwt @ ruWarnings st2)"
    using True server jwt st1 st2(1) unfolding generateRule_def usedRule_def Let_def r st0_def by (simp add: s_def)
  have "s1Name server = irHost rule" using addSSLConfig_name [OF server] by (simp add: ruleServer_def Let_def)
  then have "serverInfo s = (irHost rule, ruleInfos c rule)"
    using st2(4) by (simp add: serverInfo_def s_def ruleInfos_def infos_def Let_def)
  moreover have "\<forall>t\<in>set servers. placed (ruUpstreams st2) (s1Locations t)"
    using before placed_kept r1(2) unfolding st2(2) by (auto simp: rulesDone_def r)
  ultimately have "rulesDone c S (rules @ [rule]) (ruUpstreams st2, servers @ [s], warnings @ ssl @ jwt @ ruWarnings st2)"
    using before True r1(1) present st2(2,3) by (simp add: rulesDone_def r s_def)
  with gen show ?thesis by blast
qed

lemma generateRules_done:
  assumes "readyContext c" and "rulesDone c S rules r"
    and "\<forall>rule\<in>set more_rules. usedRule (gcIngEx c) rule \<longrightarrow> (\<forall>p\<in>set (rulePaths rule). usedPath c p \<longrightarrow> (irHost rule, hpBackend p) \<in> S)"
  shows "\<exists>r'. foldOpt (generateRule c) more_rules r = Some r' \<and> rulesDone c S (rules @ more_rules) r'"
  using assms(2,3)
proof (induction more_rules arbitrary: rules r)
  case Nil
  then show ?case by simp
next
  case (Cons rule more_rules)
  have "usedRule (gcIngEx c) rule \<Longrightarrow> \<forall>p\<in>set (rulePaths rule). usedPath c p \<longrightarrow> (irHost rule, hpBackend p) \<in> S"
    using Cons.prems(2) by simp
  from generateRule_done [OF assms(1) Cons.prems(1) this] obtain r1
    where "generateRule c rule r = Some r1" and "rulesDone c S (rules @ [rule]) r1" by blast
  with Cons.IH [of "rules @ [rule]" r1] Cons.prems(2) show ?case by simp
qed


section \<open>The configuration\<close>

text \<open>The backends of the paths that are used, with their hosts, and the default one.\<close>

definition usedBackends :: "ingressContext \<Rightarrow> (string \<times> IngressBackend) set" where
  "usedBackends c =
     {(irHost r, hpBackend p) |r p. r \<in> set (isRules (ingSpec (ixIngress (gcIngEx c)))) \<and> usedRule (gcIngEx c) r
        \<and> p \<in> set (rulePaths r) \<and> usedPath c p}
     \<union> {(emptyHost, b) |b. isBackend (ingSpec (ixIngress (gcIngEx c))) = Some b}"

lemma defaultUpstream_done:
  assumes "readyContext c"
  shows "\<exists>U. defaultUpstream c = Some U \<and> rulesDone c (usedBackends c) [] (U, [], [])"
proof (cases "isBackend (ingSpec (ixIngress (gcIngEx c)))")
  case None
  then show ?thesis by (simp add: defaultUpstream_def rulesDone_def upstreamsOf_def defaultPresent_def)
next
  case (Some b)
  let ?name = "ingressUpstreamName (ixIngress (gcIngEx c)) emptyHost b"
  obtain u where u: "contextUpstream c ?name b = Some u" using contextUpstream_total [OF assms] by blast
  obtain checks where "addHealthCheck c ?name b [] = Some checks" using addHealthCheck_total [OF assms] by blast
  with u Some have def: "defaultUpstream c = Some (gput ?name u [])" by (simp add: defaultUpstream_def)
  have "upstreamsOf c (usedBackends c) []" by (simp add: upstreamsOf_def)
  moreover have "(emptyHost, b) \<in> usedBackends c" using Some by (simp add: usedBackends_def)
  ultimately have "upstreamsOf c (usedBackends c) (gput ?name u [])" using u by (rule upstreamsOf_gput)
  with def Some show ?thesis by (simp add: rulesDone_def defaultPresent_def)
qed

lemma upstreamMapToSlice_props:
  assumes "upstreamsOf c S U"
  shows "set (upstreamMapToSlice U) = {u. \<exists>k. gget U k = Some u}" and "distinct (map u1Name (upstreamMapToSlice U))"
proof -
  have get: "gget U k = Some (the (gget U k))" if "k \<in> gkeys U" for k using in_keys_gget [OF that] by auto
  have "u1Name (the (gget U k)) = k" if "k \<in> gkeys U" for k using upstreamsOf_name [OF assms get [OF that]] .
  then have "map u1Name (upstreamMapToSlice U) = sortedKeys U"
    unfolding upstreamMapToSlice_def map_map o_def by (intro map_idI) simp
  with assms show "distinct (map u1Name (upstreamMapToSlice U))" by (simp add: upstreamsOf_def)
  have "set (upstreamMapToSlice U) = (\<lambda>k. the (gget U k)) ` gkeys U" by (simp add: upstreamMapToSlice_def)
  also have "\<dots> = {u. \<exists>k. gget U k = Some u}"
  proof (rule Set.set_eqI, rule iffI)
    fix u assume "u \<in> {u. \<exists>k. gget U k = Some u}"
    then obtain k where k: "gget U k = Some u" by blast
    show "u \<in> (\<lambda>k. the (gget U k)) ` gkeys U" by (rule image_eqI [of _ _ k]) (simp_all add: k gget_in_keys [OF k])
  qed (use get in blast)
  finally show "set (upstreamMapToSlice U) = {u. \<exists>k. gget U k = Some u}" .
qed

lemma generateNginxCfg_routes:
  assumes c: "c = ingressCtx ix ap minion base isPlus resolver static wildcard" and ready: "readyContext c"
  shows "\<exists>cfg ws. generateNginxCfg ix ap minion base isPlus resolver static wildcard = Some (cfg, ws)
    \<and> map serverInfo (incServers cfg) = map (\<lambda>r. (irHost r, ruleInfos c r)) (filter (usedRule ix) (isRules (ingSpec (ixIngress ix))))
    \<and> (\<forall>s\<in>set (incServers cfg). \<forall>l\<in>set (s1Locations s). l1Upstream l \<in> set (incUpstreams cfg))
    \<and> distinct (map u1Name (incUpstreams cfg))
    \<and> (\<forall>u\<in>set (incUpstreams cfg). \<exists>(h, b)\<in>usedBackends c.
          u1Name u = ingressUpstreamName (ixIngress ix) h b \<and> contextUpstream c (u1Name u) b = Some u)"
proof -
  have ix: "gcIngEx c = ix" by (simp add: c ingressCtx_def Let_def)
  obtain U0 where U0: "defaultUpstream c = Some U0" "rulesDone c (usedBackends c) [] (U0, [], [])"
    using defaultUpstream_done [OF ready] by blast
  have "\<forall>rule\<in>set (isRules (ingSpec (ixIngress ix))). usedRule (gcIngEx c) rule
      \<longrightarrow> (\<forall>p\<in>set (rulePaths rule). usedPath c p \<longrightarrow> (irHost rule, hpBackend p) \<in> usedBackends c)"
    unfolding usedBackends_def ix by blast
  from generateRules_done [OF ready U0(2) this] obtain U servers ws
    where gen: "foldOpt (generateRule c) (isRules (ingSpec (ixIngress ix))) (U0, [], []) = Some (U, servers, ws)"
      and finished: "rulesDone c (usedBackends c) (isRules (ingSpec (ixIngress ix))) (U, servers, ws)" by auto
  have U: "upstreamsOf c (usedBackends c) U" and pl: "\<forall>s\<in>set servers. placed U (s1Locations s)"
    and info: "map serverInfo servers = map (\<lambda>r. (irHost r, ruleInfos c r)) (filter (usedRule ix) (isRules (ingSpec (ixIngress ix))))"
    using finished by (simp_all add: rulesDone_def ix)
  obtain cfg where cfg: "generateNginxCfg ix ap minion base isPlus resolver static wildcard = Some (cfg, ws)"
    and parts: "incServers cfg = servers" "incUpstreams cfg = upstreamMapToSlice U"
    using gen U0(1) by (simp add: generateNginxCfg_def c [symmetric])
  have locs: "\<forall>s\<in>set (incServers cfg). \<forall>l\<in>set (s1Locations s). l1Upstream l \<in> set (incUpstreams cfg)"
    using pl upstreamMapToSlice_props(1) [OF U] unfolding parts placed_def by blast
  have names: "distinct (map u1Name (incUpstreams cfg))" unfolding parts by (rule upstreamMapToSlice_props(2) [OF U])
  have ups: "\<forall>u\<in>set (incUpstreams cfg). \<exists>(h, b)\<in>usedBackends c.
      u1Name u = ingressUpstreamName (ixIngress ix) h b \<and> contextUpstream c (u1Name u) b = Some u"
  proof
    fix u assume "u \<in> set (incUpstreams cfg)"
    then obtain k where k: "gget U k = Some u" using upstreamMapToSlice_props(1) [OF U] unfolding parts by blast
    then obtain h b where "(h, b) \<in> usedBackends c" "k = ingressUpstreamName (ixIngress ix) h b" "contextUpstream c k b = Some u"
      using U unfolding upstreamsOf_def ix by blast
    with upstreamsOf_name [OF U k] show "\<exists>(h, b)\<in>usedBackends c.
        u1Name u = ingressUpstreamName (ixIngress ix) h b \<and> contextUpstream c (u1Name u) b = Some u" by blast
  qed
  show ?thesis by (intro exI conjI) (rule cfg info [folded parts(1)] locs names ups)+
qed


section \<open>What the controller hands over\<close>

text \<open>Addresses have a port, and health checks an HTTP request.\<close>

definition usableEx :: "IngressEx \<Rightarrow> bool" where
  "usableEx ix =
     ((\<forall>k es. gget (ixEndpoints ix) k = Some es \<longrightarrow> (\<forall>e\<in>set es. CHR '':'' \<in> set e))
      \<and> (\<forall>k hc. gget (ixHealthChecks ix) k = Some hc \<longrightarrow> pbHTTPGet hc \<noteq> None))"

lemma addressEndpoint_colon: "CHR '':'' \<in> set (peAddress (addressEndpoint ls port address))"
  by (auto simp: addressEndpoint_def Let_def split: option.splits prod.splits)

lemma getEndpointsForPort_colon:
  "getEndpointsForPort ls endps port svc = Inr es \<Longrightarrow> \<forall>e\<in>set es. CHR '':'' \<in> set (peAddress e)"
  by (auto simp: getEndpointsForPort_def addressEndpoint_colon split: sum.splits if_splits option.splits)

lemma getEndpointsForIngressBackend_colon:
  "getEndpointsForIngressBackend fl ls backend svc = Inr (es, external) \<Longrightarrow> \<forall>e\<in>set es. CHR '':'' \<in> set (peAddress e)"
  by (auto simp: getEndpointsForIngressBackend_def getExternalEndpointsForIngressBackend_def
      dest: getEndpointsForPort_colon split: sum.splits if_splits)

lemma firstProbe_get: "firstProbe svcPort cs = Some p \<Longrightarrow> pbHTTPGet p \<noteq> None"
  by (induction cs) (auto simp: usefulProbe_def split: option.splits if_splits)

lemma getHealthChecksForIngressBackend_get: "getHealthChecksForIngressBackend ls b ns = Some hc \<Longrightarrow> pbHTTPGet hc \<noteq> None"
  by (auto simp: getHealthChecksForIngressBackend_def findProbeForPods_def dest: firstProbe_get split: sum.splits option.splits list.splits)

text \<open>The endpoints of the service of a backend, none if they cannot be found.\<close>

definition backendEndpoints :: "'fs controllerEnv \<Rightarrow> Ingress \<Rightarrow> IngressBackend \<Rightarrow> podEndpoint list" where
  "backendEndpoints env ing b =
     (case getServiceForIngressBackend (keListers env) b (omNamespace (ingMeta ing)) of
        Inl _ \<Rightarrow> []
      | Inr svc \<Rightarrow> (case getEndpointsForIngressBackend (keFlags env) (keListers env) b svc of Inl _ \<Rightarrow> [] | Inr (es, _) \<Rightarrow> es))"

lemma backendEndpoints_colon: "\<forall>e\<in>set (backendEndpoints env ing b). CHR '':'' \<in> set (peAddress e)"
  by (auto simp: backendEndpoints_def dest: getEndpointsForIngressBackend_colon [OF sym] split: sum.splits)

lemma addBackend_endpoints:
  "ixEndpoints (addBackend env ing keep b ix) = gput (backendKey b) (map peAddress (backendEndpoints env ing b)) (ixEndpoints ix)"
  by (simp add: addBackend_def backendEndpoints_def backendKey_def getIPAddressesFromEndpoints_def case_prod_unfold Let_def split: sum.splits)

lemma addBackend_other:
  "ixIngress (addBackend env ing keep b ix) = ixIngress ix" "ixSecretRefs (addBackend env ing keep b ix) = ixSecretRefs ix"
  "ixValidHosts (addBackend env ing keep b ix) = ixValidHosts ix" "ixValidMinionPaths (addBackend env ing keep b ix) = ixValidMinionPaths ix"
  by (simp_all add: addBackend_def case_prod_unfold Let_def)

lemma addBackend_usable:
  assumes "usableEx ix"
  shows "usableEx (addBackend env ing keep b ix)"
proof -
  have "ixHealthChecks (addBackend env ing keep b ix) = ixHealthChecks ix
      \<or> (\<exists>hc. pbHTTPGet hc \<noteq> None \<and> ixHealthChecks (addBackend env ing keep b ix) = gput (backendKey b) hc (ixHealthChecks ix))"
    using getHealthChecksForIngressBackend_get
    by (simp add: addBackend_def backendKey_def case_prod_unfold Let_def split: option.splits) blast
  then show ?thesis using assms backendEndpoints_colon unfolding usableEx_def addBackend_endpoints by (auto split: if_splits)
qed

lemma addIngressBackends_usable:
  assumes "usableEx ix"
  shows "usableEx (addIngressBackends env ing vh vmp ix)
    \<and> ixIngress (addIngressBackends env ing vh vmp ix) = ixIngress ix \<and> ixSecretRefs (addIngressBackends env ing vh vmp ix) = ixSecretRefs ix
    \<and> ixValidHosts (addIngressBackends env ing vh vmp ix) = ixValidHosts ix
    \<and> ixValidMinionPaths (addIngressBackends env ing vh vmp ix) = ixValidMinionPaths ix"
proof -
  let ?same = "\<lambda>ix'. usableEx ix' \<and> ixIngress ix' = ixIngress ix \<and> ixSecretRefs ix' = ixSecretRefs ix \<and> ixValidHosts ix' = ixValidHosts ix
    \<and> ixValidMinionPaths ix' = ixValidMinionPaths ix"
  have step: "?same (addBackend env ing keep b ix')" if "?same ix'" for keep b ix'
    using that by (simp add: addBackend_usable addBackend_other)
  have "?same (fold (addBackend env ing keep) bs ix')" if "?same ix'" for keep bs ix'
    by (rule fold_invariant_set) (use step that in blast)+
  then show ?thesis using assms step unfolding addIngressBackends_def Let_def by (simp split: option.split)
qed

lemma takeSecret_has: "takeSecret manager key name st = Some (ref, st') \<Longrightarrow> gkeys (fst st') = insert name (gkeys (fst st))"
  by (auto simp: takeSecret_def split: prod.splits option.splits)

lemma takeSecrets_has:
  assumes "foldOpt (\<lambda>t s. map_option snd (takeSecret manager (key t) (name t) s)) ts st = Some st'"
  shows "gkeys (fst st') = gkeys (fst st) \<union> name ` set ts"
  using assms
proof (induction ts arbitrary: st)
  case (Cons t ts)
  then obtain ref st1 where "takeSecret manager (key t) (name t) st = Some (ref, st1)"
      "foldOpt (\<lambda>t s. map_option snd (takeSecret manager (key t) (name t) s)) ts st1 = Some st'"
    by (auto split: option.splits)
  with Cons.IH [of st1] show ?case by (auto dest: takeSecret_has)
qed simp

lemma addIngressSecrets_has:
  assumes "addIngressSecrets env ing st = Some st'"
  shows "itSecretName ` set (isTLS (ingSpec ing)) \<subseteq> gkeys (fst st')"
    and "kcIsNginxPlus (keFlags env) \<Longrightarrow> gget (omAnnotations (ingMeta ing)) JWTKeyAnnotation = Some k \<Longrightarrow> k \<in> gkeys (fst st')"
proof -
  obtain st1 where st1: "foldOpt (\<lambda>tls s. map_option snd (takeSecret (keSecretManager env)
        (omNamespace (ingMeta ing) @ ''/'' @ itSecretName tls) (itSecretName tls) s)) (isTLS (ingSpec ing)) st = Some st1"
    and last: "st' = st1 \<or> (\<exists>key name ref. takeSecret (keSecretManager env) key name st1 = Some (ref, st'))"
    using assms by (auto simp: addIngressSecrets_def Let_def split: option.splits if_splits)
  from last have "gkeys (fst st1) \<subseteq> gkeys (fst st')" by (auto dest: takeSecret_has)
  with takeSecrets_has [OF st1] show "itSecretName ` set (isTLS (ingSpec ing)) \<subseteq> gkeys (fst st')" by blast
  show "k \<in> gkeys (fst st')" if "kcIsNginxPlus (keFlags env)" and "gget (omAnnotations (ingMeta ing)) JWTKeyAnnotation = Some k"
    using assms that st1 by (auto simp: addIngressSecrets_def Let_def dest: takeSecret_has split: option.splits)
qed


lemma createIngressEx_parts:
  assumes "createIngressEx env ing vh vmp store = Some (ix, store')"
  shows "usableEx ix \<and> ixIngress ix = ing \<and> ixValidHosts ix = vh \<and> ixValidMinionPaths ix = sliceOf vmp
    \<and> itSecretName ` set (isTLS (ingSpec ing)) \<subseteq> gkeys (ixSecretRefs ix)
    \<and> (\<forall>k. kcIsNginxPlus (keFlags env) \<and> gget (omAnnotations (ingMeta ing)) JWTKeyAnnotation = Some k \<longrightarrow> k \<in> gkeys (ixSecretRefs ix))"
proof -
  obtain refs store1 where refs: "addIngressSecrets env ing ([], store) = Some (refs, store1)"
    using assms by (auto simp: createIngressEx_def split: Option.bind_splits)
  define ix0 where "ix0 = \<lparr>ixIngress = ing, ixEndpoints = [], ixHealthChecks = [], ixExternalNameSvcs = [], ixPodsByIP = [],
      ixValidHosts = vh, ixValidMinionPaths = (case vmp of None \<Rightarrow> [] | Some ps \<Rightarrow> ps), ixAppProtectPolicy = None, ixAppProtectLogConf = None,
      ixAppProtectLogDst = '''', ixSecretRefs = refs\<rparr>"
  let ?same = "\<lambda>ix'. ixIngress ix' = ing \<and> ixEndpoints ix' = [] \<and> ixHealthChecks ix' = [] \<and> ixValidHosts ix' = vh
    \<and> ixValidMinionPaths ix' = sliceOf vmp \<and> ixSecretRefs ix' = refs"
  have "?same ix0" by (simp add: ix0_def sliceOf_def split: option.splits)
  moreover have "?same (addAppProtectPolicy env ing ix')" if "?same ix'" for ix'
    using that by (simp add: addAppProtectPolicy_def split: sum.splits)
  moreover have "?same ix2" if "?same ix'" "addAppProtectLogConf env ing ix' = Some ix2" for ix' ix2
    using that by (auto simp: addAppProtectLogConf_def split: if_splits sum.split)
  moreover obtain ix1 where ix1: "(if kcIsNginxPlus (keFlags env) \<and> kcAppProtectEnabled (keFlags env)
      then addAppProtectLogConf env ing (addAppProtectPolicy env ing ix0) else Some ix0) = Some ix1"
    and ix: "ix = addIngressBackends env ing vh vmp ix1"
    using assms by (auto simp: createIngressEx_def refs ix0_def Let_def split: Option.bind_splits if_splits)
  ultimately have same: "?same ix1" by (metis option.inject)
  then have "usableEx ix1" by (simp add: usableEx_def)
  from addIngressBackends_usable [OF this, of env ing vh vmp] addIngressSecrets_has [OF refs] same show ?thesis
    unfolding ix [symmetric] by auto
qed

lemma readyContext_ingressCtx:
  assumes "usableEx ix" and "itSecretName ` set (isTLS (ingSpec (ixIngress ix))) \<subseteq> gkeys (ixSecretRefs ix)"
    and "\<forall>k. isPlus \<and> gget (omAnnotations (ingMeta (ixIngress ix))) JWTKeyAnnotation = Some k \<longrightarrow> k \<in> gkeys (ixSecretRefs ix)"
    and "cpJWTKey base = ''''"
  shows "readyContext (ingressCtx ix ap minion base isPlus resolver static wildcard)"
proof -
  have "cpJWTKey (gcParams (ingressCtx ix ap minion base isPlus resolver static wildcard))
      = (case (isPlus, gget (omAnnotations (ingMeta (ixIngress ix))) JWTKeyAnnotation) of (True, Some v) \<Rightarrow> v | _ \<Rightarrow> '''')"
    unfolding assms(4) [symmetric] by (simp add: ingressCtx_def annotation_jwt Let_def)
  moreover have "gcIngEx (ingressCtx ix ap minion base isPlus resolver static wildcard) = ix" by (simp add: ingressCtx_def Let_def)
  ultimately show ?thesis
    using assms(1-3) by (auto simp: readyContext_def usableEx_def ghas_iff Let_def split: bool.splits option.splits)
qed


section \<open>Endpoints\<close>

text \<open>The backends that an Ingress routes to, with their hosts; the default one has the empty host.\<close>

definition routedBackends :: "Ingress \<Rightarrow> bool gomap \<Rightarrow> bool gomap option \<Rightarrow> (string \<times> IngressBackend) list" where
  "routedBackends ing vh vmp =
     (case isBackend (ingSpec ing) of None \<Rightarrow> [] | Some b \<Rightarrow> [(emptyHost, b)])
     @ concat (map (\<lambda>rule.
         if gtrue vh (irHost rule)
         then map (\<lambda>p. (irHost rule, hpBackend p))
                (filter (\<lambda>p. case vmp of None \<Rightarrow> True | Some ps \<Rightarrow> gtrue ps (hpPath p)) (rulePaths rule))
         else []) (isRules (ingSpec ing)))"

lemma backendsOf_routed:
  "(case isBackend (ingSpec ing) of None \<Rightarrow> [] | Some b \<Rightarrow> [b]) @ backendsOf vh vmp (isRules (ingSpec ing)) = map snd (routedBackends ing vh vmp)"
proof -
  have "backendsOf vh vmp rules = map snd (concat (map (\<lambda>rule.
         if gtrue vh (irHost rule)
         then map (\<lambda>p. (irHost rule, hpBackend p))
                (filter (\<lambda>p. case vmp of None \<Rightarrow> True | Some ps \<Rightarrow> gtrue ps (hpPath p)) (rulePaths rule))
         else []) rules))" for rules
    by (induction rules) (simp_all add: backendsOf_def rulePaths_def o_def split: option.split)
  then show ?thesis by (simp add: routedBackends_def split: option.split)
qed

lemma usedBackends_routed:
  "usedBackends (ingressCtx ix ap (vmp \<noteq> None) base isPlus resolver static wildcard)
     \<subseteq> set (routedBackends (ixIngress ix) (ixValidHosts ix) vmp)" if "ixValidMinionPaths ix = sliceOf vmp"
proof -
  let ?c = "ingressCtx ix ap (vmp \<noteq> None) base isPlus resolver static wildcard"
  have c: "gcIngEx ?c = ix" "gcIsMinion ?c = (vmp \<noteq> None)" by (simp_all add: ingressCtx_def Let_def)
  have "(case vmp of None \<Rightarrow> True | Some ps \<Rightarrow> gtrue ps (hpPath p)) = usedPath ?c p" for p
    unfolding usedPath_def c using that by (simp split: option.split)
  then show ?thesis unfolding usedBackends_def routedBackends_def c usedRule_def by auto
qed

lemma fold_addBackend_endpoints:
  assumes "inj_on backendKey B" and "set bs \<subseteq> B" and "b \<in> B"
    and "b \<in> set bs \<or> gget (ixEndpoints ix) (backendKey b) = Some (map peAddress (backendEndpoints env ing b))"
  shows "gget (ixEndpoints (fold (addBackend env ing keep) bs ix)) (backendKey b) = Some (map peAddress (backendEndpoints env ing b))"
  using assms(2,4)
proof (induction bs arbitrary: ix)
  case (Cons b' bs)
  have same: "b' = b" if "backendKey b' = backendKey b" using inj_onD [OF assms(1) that] Cons.prems(1) assms(3) by simp
  have "b \<in> set bs \<or> gget (ixEndpoints (addBackend env ing keep b' ix)) (backendKey b) = Some (map peAddress (backendEndpoints env ing b))"
  proof (cases "backendKey b' = backendKey b")
    case True
    with same show ?thesis by (simp add: addBackend_endpoints)
  next
    case False
    with Cons.prems(2) show ?thesis by (auto simp: addBackend_endpoints)
  qed
  moreover have "set bs \<subseteq> B" using Cons.prems(1) by simp
  ultimately show ?case unfolding fold_simps o_apply by (intro Cons.IH)
qed simp

lemma addIngressBackends_endpoints:
  assumes "inj_on backendKey (snd ` set (routedBackends ing vh vmp))" and "b \<in> snd ` set (routedBackends ing vh vmp)"
  shows "gget (ixEndpoints (addIngressBackends env ing vh vmp ix)) (backendKey b) = Some (map peAddress (backendEndpoints env ing b))"
proof -
  let ?B = "snd ` set (routedBackends ing vh vmp)"
  have B: "?B = set ((case isBackend (ingSpec ing) of None \<Rightarrow> [] | Some b \<Rightarrow> [b]) @ backendsOf vh vmp (isRules (ingSpec ing)))"
    unfolding backendsOf_routed by simp
  show ?thesis
  proof (cases "isBackend (ingSpec ing)")
    case None
    then show ?thesis unfolding addIngressBackends_def Let_def
      by (simp, intro fold_addBackend_endpoints [OF assms(1) _ assms(2)]) (use assms(2) B in auto)
  next
    case (Some d)
    have "b \<in> set (backendsOf vh vmp (isRules (ingSpec ing)))
        \<or> gget (ixEndpoints (addBackend env ing keep d ix)) (backendKey b) = Some (map peAddress (backendEndpoints env ing b))" for keep
      using assms(2) Some unfolding B by (auto simp: addBackend_endpoints)
    then show ?thesis unfolding addIngressBackends_def Let_def
      by (simp add: Some, intro fold_addBackend_endpoints [OF assms(1) _ assms(2)]) (use B Some in auto)
  qed
qed

lemma createIngressEx_endpoints:
  assumes "createIngressEx env ing vh vmp store = Some (ix, store')"
    and "inj_on backendKey (snd ` set (routedBackends ing vh vmp))" and "b \<in> snd ` set (routedBackends ing vh vmp)"
  shows "gget (ixEndpoints ix) (backendKey b) = Some (map peAddress (backendEndpoints env ing b))"
proof -
  obtain ix1 where "ix = addIngressBackends env ing vh vmp ix1"
    using assms(1) by (auto simp: createIngressEx_def Let_def split: Option.bind_splits if_splits)
  then show ?thesis using addIngressBackends_endpoints [OF assms(2,3)] by simp
qed

text \<open>The addresses of an upstream without endpoints: the default server, which NGINX Plus does without.\<close>

definition serverAddresses :: "Upstream1 \<Rightarrow> string list" where
  "serverAddresses u = map (\<lambda>s. us1Address s @ '':'' @ us1Port s) (u1UpstreamServers u)"

definition addressesFor :: "bool \<Rightarrow> string list \<Rightarrow> string list" where
  "addressesFor isPlus es = (if \<not> isPlus \<and> es = [] then [''127.0.0.1:8181''] else es)"

lemma ingressUpstreamServer_plain:
  assumes "count_list e (CHR '':'') = 1" and "ingressUpstreamServer cfg external e = Some s"
  shows "us1Address s @ '':'' @ us1Port s = e"
proof -
  have "length (splitOn (CHR '':'') e) = 2" using assms(1) by (simp add: length_splitOn)
  then obtain a p where ap: "splitOn (CHR '':'') e = [a, p]" by (auto simp: length_Suc_conv numeral_2_eq_2)
  have "e = a @ '':'' @ p" using join_splitOn [of "CHR '':''" e] unfolding ap by simp
  with assms(2) ap show ?thesis by (auto simp: ingressUpstreamServer_def)
qed

lemma ingressUpstreamServers_plain:
  assumes "\<forall>e\<in>set es. count_list e (CHR '':'') = 1" and "mapOpt (ingressUpstreamServer cfg external) es = Some ss"
  shows "map (\<lambda>s. us1Address s @ '':'' @ us1Port s) ss = es"
  using assms
proof (induction es arbitrary: ss)
  case (Cons e es)
  then obtain s ss' where s: "ingressUpstreamServer cfg external e = Some s" "ss = s # ss'"
      "mapOpt (ingressUpstreamServer cfg external) es = Some ss'"
    by (auto split: option.splits)
  with Cons.IH [OF _ s(3)] Cons.prems(1) ingressUpstreamServer_plain [OF _ s(1)] show ?case by simp
qed simp

lemma createUpstream_addresses:
  assumes "gget (ixEndpoints ix) (backendKey b) = Some es" and "\<forall>e\<in>set es. count_list e (CHR '':'') = 1"
    and "createUpstream ix name b sticky cfg isPlus resolver latency = Some u"
  shows "serverAddresses u
    = addressesFor isPlus (if ghas (ixExternalNameSvcs ix) (ibServiceName b) \<and> \<not> resolver then [] else es)"
proof -
  let ?es = "if ghas (ixExternalNameSvcs ix) (ibServiceName b) \<and> \<not> resolver then [] else es"
  obtain ss where ss: "mapOpt (ingressUpstreamServer cfg (ghas (ixExternalNameSvcs ix) (ibServiceName b))) ?es = Some ss"
    using assms(1,3) by (auto simp: createUpstream_def Let_def split: option.splits)
  have "\<forall>e\<in>set ?es. count_list e (CHR '':'') = 1" using assms(2) by simp
  from ingressUpstreamServers_plain [OF this ss] have ss_es: "map (\<lambda>s. us1Address s @ '':'' @ us1Port s) ss = ?es" .
  then have "ss = [] \<longleftrightarrow> ?es = []" by (metis map_is_Nil_conv)
  moreover have "u1UpstreamServers u = (if ss \<noteq> [] then ss
      else if isPlus then [] else u1UpstreamServers (NewUpstreamWithDefaultServer name))"
    using assms(1,3) ss by (auto simp: createUpstream_def Let_def split: option.splits prod.splits)
  ultimately show ?thesis
    using ss_es unfolding serverAddresses_def addressesFor_def by (auto simp: NewUpstreamWithDefaultServer_def)
qed


section \<open>Properties of an Ingress\<close>

lemma controller_generates:
  assumes "createIngressEx env ing vh vmp store = Some (ix, store')" and "cpJWTKey base = ''''"
    and c_def: "c = ingressCtx ix ap minion base (kcIsNginxPlus (keFlags env)) resolver static wildcard"
  shows "\<exists>cfg ws. generateNginxCfg ix ap minion base (kcIsNginxPlus (keFlags env)) resolver static wildcard = Some (cfg, ws)
    \<and> map serverInfo (incServers cfg) = map (\<lambda>r. (irHost r, ruleInfos c r)) (filter (\<lambda>r. gtrue vh (irHost r)) (isRules (ingSpec ing)))
    \<and> (\<forall>s\<in>set (incServers cfg). \<forall>l\<in>set (s1Locations s). l1Upstream l \<in> set (incUpstreams cfg))
    \<and> distinct (map u1Name (incUpstreams cfg))
    \<and> (\<forall>u\<in>set (incUpstreams cfg). \<exists>(h, b)\<in>usedBackends c.
          u1Name u = ingressUpstreamName ing h b \<and> contextUpstream c (u1Name u) b = Some u)"
proof -
  note parts = createIngressEx_parts [OF assms(1)]
  have ing: "ixIngress ix = ing" and vh: "usedRule ix = (\<lambda>r. gtrue vh (irHost r))" using parts by (auto simp: usedRule_def fun_eq_iff)
  have "readyContext c"
    unfolding c_def by (rule readyContext_ingressCtx) (use parts assms(2) in auto)
  from generateNginxCfg_routes [OF c_def this] show ?thesis unfolding ing vh .
qed

text \<open>
  C9: For every Ingress that the controller extends a configuration is generated: it has one server
  for each valid host, in order, whose locations are those of the paths of the rule, in order, and
  the root for the default backend where no path is the root. The upstreams have distinct
  names, and every location has one of them as its upstream.
\<close>

theorem ingress_configuration_generated:
  assumes "createIngressEx env ing vh vmp store = Some (ix, store')" and "cpJWTKey base = ''''"
  shows "\<exists>cfg ws. generateNginxCfg ix ap minion base (kcIsNginxPlus (keFlags env)) resolver static wildcard = Some (cfg, ws)
    \<and> map serverInfo (incServers cfg)
        = map (\<lambda>r. (irHost r, ruleInfos (ingressCtx ix ap minion base (kcIsNginxPlus (keFlags env)) resolver static wildcard) r))
            (filter (\<lambda>r. gtrue vh (irHost r)) (isRules (ingSpec ing)))
    \<and> (\<forall>s\<in>set (incServers cfg). \<forall>l\<in>set (s1Locations s). l1Upstream l \<in> set (incUpstreams cfg))
    \<and> distinct (map u1Name (incUpstreams cfg))"
  using controller_generates [OF assms refl] by blast

lemma ruleInfos_routed:
  assumes "i \<in> set (ruleInfos c r)" and "r \<in> set (isRules (ingSpec (ixIngress (gcIngEx c))))" and "usedRule (gcIngEx c) r"
  shows "\<exists>(h, b)\<in>usedBackends c. \<exists>path. i = backendInfo (ixIngress (gcIngEx c)) h path b"
proof -
  consider p where "p \<in> set (rulePaths r)" "usedPath c p" "i = pathInfo (ixIngress (gcIngEx c)) (irHost r) p"
    | b where "isBackend (ingSpec (ixIngress (gcIngEx c))) = Some b" "i = backendInfo (ixIngress (gcIngEx c)) emptyHost ''/'' b"
  proof -
    have "i \<in> pathInfo (ixIngress (gcIngEx c)) (irHost r) ` {p \<in> set (rulePaths r). usedPath c p}
        \<or> (\<exists>infos. i \<in> set (defaultInfos (ixIngress (gcIngEx c)) infos))"
      using assms(1) unfolding ruleInfos_def Let_def by auto
    moreover have "\<exists>b. isBackend (ingSpec ing) = Some b \<and> i = backendInfo ing emptyHost ''/'' b" if "i \<in> set (defaultInfos ing infos)" for ing infos
      using that by (cases "isBackend (ingSpec ing)") (auto simp: defaultInfos_def split: if_split_asm)
    ultimately show thesis using that by blast
  qed
  then show ?thesis
  proof cases
    case 1
    then have "(irHost r, hpBackend p) \<in> usedBackends c" using assms(2,3) unfolding usedBackends_def by blast
    with 1 show ?thesis unfolding pathInfo_def by blast
  next
    case 2
    then have "(emptyHost, b) \<in> usedBackends c" unfolding usedBackends_def by blast
    with 2 show ?thesis by blast
  qed
qed

text \<open>No two backends share a name of an upstream or a key of endpoints.\<close>

definition collisionFree :: "Ingress \<Rightarrow> (string \<times> IngressBackend) list \<Rightarrow> bool" where
  "collisionFree ing hbs =
     ((\<forall>(h, b)\<in>set hbs. \<forall>(h', b')\<in>set hbs. ingressUpstreamName ing h b = ingressUpstreamName ing h' b' \<longrightarrow> b = b')
      \<and> (\<forall>(_, b)\<in>set hbs. \<forall>(_, b')\<in>set hbs. backendKey b = backendKey b' \<longrightarrow> b = b'))"

lemma collisionFree_names:
  assumes "collisionFree ing hbs" and "(h, b) \<in> set hbs" and "(h', b') \<in> set hbs"
    and "ingressUpstreamName ing h b = ingressUpstreamName ing h' b'"
  shows "b = b'"
  using assms unfolding collisionFree_def by blast

lemma collisionFree_keys:
  assumes "collisionFree ing hbs"
  shows "inj_on backendKey (snd ` set hbs)"
proof (rule inj_onI)
  fix b b' assume "b \<in> snd ` set hbs" and "b' \<in> snd ` set hbs" and same: "backendKey b = backendKey b'"
  then obtain h h' where "(h, b) \<in> set hbs" and "(h', b') \<in> set hbs" by auto
  with assms same show "b = b'" unfolding collisionFree_def by blast
qed

text \<open>The address of an endpoint that is not IPv6: one colon, before the port.\<close>

definition plainAddresses :: "'fs controllerEnv \<Rightarrow> Ingress \<Rightarrow> (string \<times> IngressBackend) list \<Rightarrow> bool" where
  "plainAddresses env ing hbs =
     (\<forall>(_, b)\<in>set hbs. \<forall>e\<in>set (backendEndpoints env ing b). count_list (peAddress e) (CHR '':'') = 1)"

text \<open>
  The routes of a rule: each path as it is generated, with the host and the backend it is for, and the
  root for the default backend where no path is the root. A minion has the paths that it won.
\<close>

definition ruleRoutes :: "Ingress \<Rightarrow> bool gomap option \<Rightarrow> IngressRule \<Rightarrow> (string \<times> string \<times> IngressBackend) list" where
  "ruleRoutes ing vmp rule =
     (let routes = map (\<lambda>p. (generateIngressPath (pathOrDefault (hpPath p)) (hpPathType p), irHost rule, hpBackend p))
                     (filter (\<lambda>p. case vmp of None \<Rightarrow> True | Some ps \<Rightarrow> gtrue ps (hpPath p)) (rulePaths rule))
      in routes @ (case isBackend (ingSpec ing) of
                     None \<Rightarrow> []
                   | Some b \<Rightarrow> (if ''/'' \<in> fst ` set routes then [] else [(''/'', emptyHost, b)])))"

lemma ruleInfos_routes:
  assumes "c = ingressCtx ix ap (vmp \<noteq> None) base isPlus resolver static wildcard" and "ixIngress ix = ing"
    and "ixValidMinionPaths ix = sliceOf vmp"
  shows "ruleInfos c rule = map (\<lambda>(path, h, b). backendInfo ing h path b) (ruleRoutes ing vmp rule)"
proof -
  have c: "gcIngEx c = ix" "gcIsMinion c = (vmp \<noteq> None)" by (simp_all add: assms(1) ingressCtx_def Let_def)
  have used: "usedPath c = (\<lambda>p. case vmp of None \<Rightarrow> True | Some ps \<Rightarrow> gtrue ps (hpPath p))"
    unfolding fun_eq_iff usedPath_def c using assms(3) by (simp split: option.split)
  have path: "pathInfo ing h = (\<lambda>p. backendInfo ing h (generateIngressPath (pathOrDefault (hpPath p)) (hpPathType p)) (hpBackend p))" for h
    by (simp add: fun_eq_iff pathInfo_def)
  show ?thesis
    by (simp add: ruleInfos_def ruleRoutes_def Let_def c assms(2) used path defaultInfos_def backendInfo_def image_image comp_def
        split: option.split)
qed

lemma ruleRoutes_backends:
  assumes "(path, h, b) \<in> set (ruleRoutes ing vmp rule)" and "rule \<in> set (isRules (ingSpec ing))" and "gtrue vh (irHost rule)"
  shows "(h, b) \<in> set (routedBackends ing vh vmp)"
  using assms by (auto simp: ruleRoutes_def routedBackends_def Let_def split: option.splits if_splits)

lemma map_eq_list_all2: "map f xs = map g ys \<longleftrightarrow> list_all2 (\<lambda>x y. f x = g y) xs ys"
  by (auto simp: list_all2_conv_all_nth list_eq_iff_nth_eq)

text \<open>A location serves a route: its path, its service, and the endpoints that the cluster has for its backend.\<close>

definition servesRoute :: "'fs controllerEnv \<Rightarrow> IngressEx \<Rightarrow> bool \<Rightarrow> Location1 \<Rightarrow> string \<times> string \<times> IngressBackend \<Rightarrow> bool" where
  "servesRoute env ix resolver l route =
     (case route of (path, h, b) \<Rightarrow>
        l1Path l = path \<and> l1ServiceName l = ibServiceName b \<and> u1Name (l1Upstream l) = ingressUpstreamName (ixIngress ix) h b
        \<and> serverAddresses (l1Upstream l) = addressesFor (kcIsNginxPlus (keFlags env))
            (if ghas (ixExternalNameSvcs ix) (ibServiceName b) \<and> \<not> resolver then []
             else map peAddress (backendEndpoints env (ixIngress ix) b)))"

lemma location_serves_route:
  assumes ex: "createIngressEx env ing vh vmp store = Some (ix, store')"
    and coll: "collisionFree ing (routedBackends ing vh vmp)" and plain: "plainAddresses env ing (routedBackends ing vh vmp)"
    and upstream: "(h', b') \<in> set (routedBackends ing vh vmp)" "u1Name (l1Upstream l) = ingressUpstreamName ing h' b'"
      "createUpstream ix name b' sticky cfg (kcIsNginxPlus (keFlags env)) resolver latency = Some (l1Upstream l)"
    and route: "(h, b) \<in> set (routedBackends ing vh vmp)" "locationInfo l = backendInfo ing h path b"
  shows "servesRoute env ix resolver l (path, h, b)"
proof -
  have info: "l1Path l = path" "l1ServiceName l = ibServiceName b" "u1Name (l1Upstream l) = ingressUpstreamName ing h b"
    using route(2) by (simp_all add: locationInfo_def backendInfo_def)
  have ing: "ixIngress ix = ing" using createIngressEx_parts [OF ex] by blast
  have same: "b' = b" by (rule collisionFree_names [OF coll upstream(1) route(1)]) (simp add: upstream(2) [symmetric] info(3))
  have "b \<in> snd ` set (routedBackends ing vh vmp)" by (rule image_eqI [OF _ route(1)]) simp
  with collisionFree_keys [OF coll]
  have get: "gget (ixEndpoints ix) (backendKey b) = Some (map peAddress (backendEndpoints env ing b))"
    by (rule createIngressEx_endpoints [OF ex])
  have "\<forall>e\<in>set (map peAddress (backendEndpoints env ing b)). count_list e (CHR '':'') = 1"
    using bspec [OF plain [unfolded plainAddresses_def] route(1)] by simp
  from createUpstream_addresses [OF get this upstream(3) [unfolded same]] show ?thesis
    by (simp add: servesRoute_def info ing)
qed

text \<open>
  C8: Every path is served by the pods of its own service: for each valid host, in order, there is one
  server, with one location for each route of the rule, in order, under the path of that route, whose
  upstream has exactly the endpoints that the controller finds for the backend of the route (for an
  external service none without a resolver; without endpoints the placeholder of NGINX without Plus).
  This needs that no two backends share a name of an upstream or a key of endpoints, and that no
  address is an IPv6 one: the code fails there.
\<close>

theorem ingress_locations_reach_services:
  assumes ex: "createIngressEx env ing vh vmp store = Some (ix, store')" and jwt: "cpJWTKey base = ''''"
    and coll: "collisionFree ing (routedBackends ing vh vmp)" and plain: "plainAddresses env ing (routedBackends ing vh vmp)"
  shows "\<exists>cfg ws. generateNginxCfg ix ap (vmp \<noteq> None) base (kcIsNginxPlus (keFlags env)) resolver static wildcard = Some (cfg, ws)
    \<and> list_all2 (\<lambda>s rule. s1Name s = irHost rule \<and> list_all2 (servesRoute env ix resolver) (s1Locations s) (ruleRoutes ing vmp rule))
        (incServers cfg) (filter (\<lambda>rule. gtrue vh (irHost rule)) (isRules (ingSpec ing)))"
proof -
  define c where "c = ingressCtx ix ap (vmp \<noteq> None) base (kcIsNginxPlus (keFlags env)) resolver static wildcard"
  note parts = createIngressEx_parts [OF ex]
  have c: "gcIngEx c = ix" "gcIsPlus c = kcIsNginxPlus (keFlags env)" "gcResolver c = resolver"
    by (simp_all add: c_def ingressCtx_def Let_def)
  have routed: "usedBackends c \<subseteq> set (routedBackends ing vh vmp)"
    using usedBackends_routed [of ix vmp] parts unfolding c_def by simp
  have infos: "ruleInfos c rule = map (\<lambda>(path, h, b). backendInfo ing h path b) (ruleRoutes ing vmp rule)" for rule
    by (rule ruleInfos_routes [OF c_def]) (use parts in blast)+
  from controller_generates [OF ex jwt c_def] obtain cfg ws
    where gen: "generateNginxCfg ix ap (vmp \<noteq> None) base (kcIsNginxPlus (keFlags env)) resolver static wildcard = Some (cfg, ws)"
      and servers: "map serverInfo (incServers cfg)
        = map (\<lambda>r. (irHost r, ruleInfos c r)) (filter (\<lambda>r. gtrue vh (irHost r)) (isRules (ingSpec ing)))"
      and locs: "\<forall>s\<in>set (incServers cfg). \<forall>l\<in>set (s1Locations s). l1Upstream l \<in> set (incUpstreams cfg)"
      and ups: "\<forall>u\<in>set (incUpstreams cfg). \<exists>(h, b)\<in>usedBackends c.
          u1Name u = ingressUpstreamName ing h b \<and> contextUpstream c (u1Name u) b = Some u"
    by blast
  have served: "s1Name s = irHost rule \<and> list_all2 (servesRoute env ix resolver) (s1Locations s) (ruleRoutes ing vmp rule)"
    if s: "s \<in> set (incServers cfg)" and rule: "rule \<in> set (isRules (ingSpec ing))" "gtrue vh (irHost rule)"
      and info: "serverInfo s = (irHost rule, ruleInfos c rule)" for s rule
  proof
    show "s1Name s = irHost rule" using info by (simp add: serverInfo_def)
    have "list_all2 (\<lambda>l route. locationInfo l = (case route of (path, h, b) \<Rightarrow> backendInfo ing h path b)) (s1Locations s) (ruleRoutes ing vmp rule)"
      using info by (simp add: serverInfo_def infos map_eq_list_all2)
    then show "list_all2 (servesRoute env ix resolver) (s1Locations s) (ruleRoutes ing vmp rule)"
    proof (rule list.rel_mono_strong, clarsimp)
      fix l path h b assume l: "l \<in> set (s1Locations s)" and route: "(path, h, b) \<in> set (ruleRoutes ing vmp rule)"
        and li: "locationInfo l = backendInfo ing h path b"
      obtain h' b' where b': "(h', b') \<in> usedBackends c" "u1Name (l1Upstream l) = ingressUpstreamName ing h' b'"
          "contextUpstream c (u1Name (l1Upstream l)) b' = Some (l1Upstream l)"
        using ups locs s l by blast
      from b'(1) routed have "(h', b') \<in> set (routedBackends ing vh vmp)" by blast
      from location_serves_route [OF ex coll plain this b'(2) b'(3) [unfolded contextUpstream_def c] ruleRoutes_backends [OF route rule] li]
      show "servesRoute env ix resolver l (path, h, b)" .
    qed
  qed
  from servers [unfolded map_eq_list_all2] have "list_all2 (\<lambda>s rule. s1Name s = irHost rule \<and> list_all2 (servesRoute env ix resolver) (s1Locations s) (ruleRoutes ing vmp rule))
      (incServers cfg) (filter (\<lambda>rule. gtrue vh (irHost rule)) (isRules (ingSpec ing)))"
    by (rule list.rel_mono_strong) (use served in auto)
  with gen show ?thesis by blast
qed


section \<open>Samples\<close>

definition shopService :: "string \<Rightarrow> int \<Rightarrow> int \<Rightarrow> Service" where
  "shopService name port target =
     \<lparr>svcMeta = sampleMeta ''n'' name ''s'' 1 [], svcType = ''ClusterIP'', svcExternalName = '''', svcClusterIP = '''',
      svcPorts = [\<lparr>svpName = '''', svpProtocol = ''TCP'', svpPort = port, svpTargetPort = IntVal target\<rparr>], svcSelector = []\<rparr>"

definition shopEndpoints :: "string \<Rightarrow> string \<Rightarrow> int \<Rightarrow> Endpoints" where
  "shopEndpoints name ip port =
     \<lparr>enMeta = sampleMeta ''n'' name ''e'' 1 [],
      enSubsets = [\<lparr>esAddresses = [\<lparr>eaIP = ip, eaTargetRef = None\<rparr>], esPorts = [\<lparr>eptPort = port\<rparr>]\<rparr>]\<rparr>"

definition shopEnvironment :: "files controllerEnv" where
  "shopEnvironment = sampleEnvironment\<lparr>keListers := (keListers sampleEnvironment)\<lparr>
      lsServiceByKey := (\<lambda>key. Inr (if key = ''n/svc'' then Some (shopService ''svc'' 180 8080)
         else if key = ''n/svc1'' then Some (shopService ''svc1'' 80 9090) else None)),
      lsEndpoints := [shopEndpoints ''svc'' ''10.0.0.1'' 8080, shopEndpoints ''svc1'' ''10.0.0.2'' 9090]\<rparr>\<rparr>"

definition shopPath :: "string \<Rightarrow> string \<Rightarrow> int \<Rightarrow> HTTPIngressPath" where
  "shopPath p svc port = \<lparr>hpPath = p, hpPathType = None, hpBackend = \<lparr>ibServiceName = svc, ibServicePort = IntVal port\<rparr>\<rparr>"

definition shopIngress :: "HTTPIngressPath list \<Rightarrow> Ingress" where
  "shopIngress paths =
     \<lparr>ingMeta = sampleMeta ''n'' ''shop'' ''i'' 1 [],
      ingSpec = \<lparr>isIngressClassName = None, isBackend = None, isTLS = [],
        isRules = [\<lparr>irHost = ''shop'', irHTTP = Some \<lparr>hrPaths = paths\<rparr>\<rparr>]\<rparr>\<rparr>"

definition emptyStore :: "files LocalSecretStore" where
  "emptyStore = \<lparr>ssSecrets = [], ssFiles = []\<rparr>"

definition shopEx :: "HTTPIngressPath list \<Rightarrow> IngressEx" where
  "shopEx paths = fst (the (createIngressEx shopEnvironment (shopIngress paths) [(''shop'', True)] None emptyStore))"

lemma shopEx_exists:
  "\<exists>store'. createIngressEx shopEnvironment (shopIngress paths) [(''shop'', True)] None emptyStore = Some (shopEx paths, store')"
  by (auto simp: shopEx_def createIngressEx_def addIngressSecrets_def shopIngress_def shopEnvironment_def sampleEnvironment_def
      sampleFlags_def sampleMeta_def Let_def)


lemma shop_lookup:
  "getServiceForIngressBackend (keListers shopEnvironment) b ''n'' =
     (if ibServiceName b = ''svc'' then Inr (shopService ''svc'' 180 8080)
      else if ibServiceName b = ''svc1'' then Inr (shopService ''svc1'' 80 9090) else Inl (ServiceDoesNotExist (''n/'' @ ibServiceName b)))"
  by (simp add: getServiceForIngressBackend_def shopEnvironment_def)

lemma shop_endpoints: "lsEndpoints (keListers shopEnvironment) = [shopEndpoints ''svc'' ''10.0.0.1'' 8080, shopEndpoints ''svc1'' ''10.0.0.2'' 9090]"
   "keFlags shopEnvironment = sampleFlags"
  by (simp_all add: shopEnvironment_def sampleEnvironment_def)
lemma shop_meta: "svcMeta (shopService n p t) = sampleMeta ''n'' n ''s'' 1 []" "enMeta (shopEndpoints n i q) = sampleMeta ''n'' n ''e'' 1 []"
  by (simp_all add: shopService_def shopEndpoints_def)
lemma shop_numbers: "toInt32 (IntValue (IntVal 8080)) = 8080" "toInt32 (IntValue (IntVal 9090)) = 9090"  "toInt32 (IntValue (IntVal 180)) = 180"
   "toInt32 (IntValue (IntVal 80)) = 80"
  by (simp_all add: toInt32_def IntValue_def)
lemma shop_texts: "itoa 8080 = ''8080''" "itoa 9090 = ''9090''" "itoa 80 = ''80''" "itoa 180 = ''180''"
  by (simp_all add: itoa_def natDigits.simps [of "8080"] natDigits.simps [of "808"] natDigits.simps [of "80"] natDigits.simps [of "8"] natDigits.simps [of "9090"] natDigits.simps [of "909"] natDigits.simps [of "90"] natDigits.simps [of "9"] natDigits.simps [of "180"] natDigits.simps [of "18"] natDigits.simps [of "Suc 0"] natDigits.simps [of "1"] char_of_def bit_Suc_0_iff)
lemma shop_found:
  "backendEndpoints shopEnvironment (shopIngress ps) \<lparr>ibServiceName = ''svc'', ibServicePort = IntVal 180\<rparr>
    = [\<lparr>peAddress = ''10.0.0.1:8080'', pePodName = '''', peMeshPodOwner = \<lparr>moOwnerType = '''', moOwnerName = ''''\<rparr>\<rparr>]"
  "backendEndpoints shopEnvironment (shopIngress ps) \<lparr>ibServiceName = ''svc1'', ibServicePort = IntVal 80\<rparr>
    = [\<lparr>peAddress = ''10.0.0.2:9090'', pePodName = '''', peMeshPodOwner = \<lparr>moOwnerType = '''', moOwnerName = ''''\<rparr>\<rparr>]"
  by (simp_all add: backendEndpoints_def shop_lookup shopIngress_def getEndpointsForIngressBackend_def GetServiceEndpoints_def shop_endpoints shop_meta sampleMeta_def)
   (simp_all add: getEndpointsForPort_def shopService_def portMatches_def getTargetPort_def shopEndpoints_def addressEndpoint_def shop_numbers shop_texts)
lemma shop_external:
  "ixExternalNameSvcs (addBackend shopEnvironment (shopIngress ps) keep \<lparr>ibServiceName = ''svc'', ibServicePort = IntVal 180\<rparr> ix) = ixExternalNameSvcs ix"
  "ixExternalNameSvcs (addBackend shopEnvironment (shopIngress ps) keep \<lparr>ibServiceName = ''svc1'', ibServicePort = IntVal 80\<rparr> ix) = ixExternalNameSvcs ix"
  by (simp_all add: addBackend_def shop_lookup shopIngress_def getEndpointsForIngressBackend_def GetServiceEndpoints_def shop_endpoints shop_meta sampleMeta_def Let_def split: sum.split)

definition shopPaths :: "HTTPIngressPath list" where
  "shopPaths = [shopPath ''/'' ''svc'' 180, shopPath ''/pay'' ''svc1'' 80]"
lemma shopEx_addBackends:
  "\<exists>ix1. shopEx ps = addIngressBackends shopEnvironment (shopIngress ps) [(''shop'', True)] None ix1
     \<and> ixEndpoints ix1 = [] \<and> ixExternalNameSvcs ix1 = []"
proof -
  have "addIngressSecrets shopEnvironment (shopIngress ps) ([], emptyStore) = Some ([], emptyStore)"
    by (simp add: addIngressSecrets_def shopIngress_def sampleMeta_def)
  moreover have "\<not> kcAppProtectEnabled (keFlags shopEnvironment)" by (simp add: shop_endpoints sampleFlags_def)
  ultimately show ?thesis unfolding shopEx_def createIngressEx_def Let_def by (simp, intro exI conjI) (rule refl | simp)+
qed

lemma shopEx_fields:
  "ixIngress (shopEx ps) = shopIngress ps" "ixValidHosts (shopEx ps) = [(''shop'', True)]"
  using shopEx_exists [of ps] createIngressEx_parts by blast+

lemma shopEx_lookups:
  "ixExternalNameSvcs (shopEx shopPaths) = []" "ixEndpoints (shopEx shopPaths) = [(''svc180'', [''10.0.0.2:9090''])]"
proof -
  have b: "backendsOf [(''shop'', True)] None (isRules (ingSpec (shopIngress shopPaths)))
     = [\<lparr>ibServiceName = ''svc'', ibServicePort = IntVal 180\<rparr>, \<lparr>ibServiceName = ''svc1'', ibServicePort = IntVal 80\<rparr>]"
     "isBackend (ingSpec (shopIngress shopPaths)) = None"
    by (simp_all add: shopIngress_def shopPaths_def shopPath_def backendsOf_def gtrue_def)
  obtain ix1 where ix: "shopEx shopPaths = addIngressBackends shopEnvironment (shopIngress shopPaths) [(''shop'', True)] None ix1" 
   "ixEndpoints ix1 = []" "ixExternalNameSvcs ix1 = []" using shopEx_addBackends by blast
  show "ixExternalNameSvcs (shopEx shopPaths) = []" by (simp add: ix addIngressBackends_def b shop_external Let_def)
  show "ixEndpoints (shopEx shopPaths) = [(''svc180'', [''10.0.0.2:9090''])]"
    by (simp add: ix addIngressBackends_def b addBackend_endpoints shop_found backendKey_def intOrStringText_def shop_texts gput_def Let_def)
qed

lemma shop_context:
  defines "c \<equiv> ingressCtx (shopEx shopPaths) [] False NewDefaultConfigParams True False sampleStatic False"
  shows "usedBackends c = {(''shop'', \<lparr>ibServiceName = ''svc'', ibServicePort = IntVal 180\<rparr>), (''shop'', \<lparr>ibServiceName = ''svc1'', ibServicePort = IntVal 80\<rparr>)}"
    and "map (\<lambda>r. (irHost r, ruleInfos c r)) (filter (\<lambda>r. gtrue [(''shop'', True)] (irHost r)) (isRules (ingSpec (shopIngress shopPaths))))
      = [(''shop'', [(''/'', ''svc'', ''n-shop-shop-svc-180''), (''/pay'', ''svc1'', ''n-shop-shop-svc1-80'')])]"
    and "gcIngEx c = shopEx shopPaths" and "gcIsPlus c" and "\<not> gcResolver c"
proof -
  show c: "gcIngEx c = shopEx shopPaths" "gcIsPlus c" "\<not> gcResolver c" by (simp_all add: c_def ingressCtx_def Let_def)
  have minion: "\<not> gcIsMinion c" by (simp add: c_def ingressCtx_def Let_def)
  have used: "usedPath c p" for p by (simp add: usedPath_def minion)
  show "usedBackends c = {(''shop'', \<lparr>ibServiceName = ''svc'', ibServicePort = IntVal 180\<rparr>), (''shop'', \<lparr>ibServiceName = ''svc1'', ibServicePort = IntVal 80\<rparr>)}"
    by (auto simp: usedBackends_def c used usedRule_def shopEx_fields shopIngress_def shopPaths_def shopPath_def rulePaths_def gtrue_def
        conj_disj_distribL ex_disj_distrib)
  show "map (\<lambda>r. (irHost r, ruleInfos c r)) (filter (\<lambda>r. gtrue [(''shop'', True)] (irHost r)) (isRules (ingSpec (shopIngress shopPaths))))
      = [(''shop'', [(''/'', ''svc'', ''n-shop-shop-svc-180''), (''/pay'', ''svc1'', ''n-shop-shop-svc1-80'')])]"
    by (simp add: ruleInfos_def c used shopEx_fields shopIngress_def shopPaths_def shopPath_def rulePaths_def gtrue_def pathInfo_def backendInfo_def
       generateIngressPath_def pathOrDefault_def ingressUpstreamName_def sampleMeta_def defaultInfos_def intOrStringText_def shop_texts Let_def)
qed

text \<open>
  C39: The keys of endpoints can collide: the key of service svc with port 180 is that of service
  svc1 with port 80, so that in an Ingress with both the traffic of one goes to the pods of the other.
\<close>

theorem endpoint_keys_collide:
  "\<exists>cfg ws s l. generateNginxCfg (shopEx shopPaths) [] False NewDefaultConfigParams True False sampleStatic False = Some (cfg, ws)
    \<and> s \<in> set (incServers cfg) \<and> l \<in> set (s1Locations s) \<and> l1Path l = ''/'' \<and> l1ServiceName l = ''svc''
    \<and> serverAddresses (l1Upstream l) = [''10.0.0.2:9090'']
    \<and> map peAddress (backendEndpoints shopEnvironment (shopIngress shopPaths) \<lparr>ibServiceName = ''svc'', ibServicePort = IntVal 180\<rparr>) = [''10.0.0.1:8080'']"
proof -
  let ?svc = "\<lparr>ibServiceName = ''svc'', ibServicePort = IntVal 180\<rparr>"
  obtain store' where ex: "createIngressEx shopEnvironment (shopIngress shopPaths) [(''shop'', True)] None emptyStore = Some (shopEx shopPaths, store')"
    using shopEx_exists by blast
  have jwt: "cpJWTKey NewDefaultConfigParams = ''''" by (simp add: NewDefaultConfigParams_def)
  have plus: "kcIsNginxPlus (keFlags shopEnvironment) = True" by (simp add: shop_endpoints sampleFlags_def)
  from controller_generates [OF ex jwt refl, of "[]" False False sampleStatic False, unfolded plus shop_context] obtain cfg ws
    where gen: "generateNginxCfg (shopEx shopPaths) [] False NewDefaultConfigParams True False sampleStatic False = Some (cfg, ws)"
      and infos: "map serverInfo (incServers cfg) = [(''shop'', [(''/'', ''svc'', ''n-shop-shop-svc-180''), (''/pay'', ''svc1'', ''n-shop-shop-svc1-80'')])]"
      and locs: "\<forall>s\<in>set (incServers cfg). \<forall>l\<in>set (s1Locations s). l1Upstream l \<in> set (incUpstreams cfg)"
      and ups: "\<forall>u\<in>set (incUpstreams cfg). \<exists>(h, b)\<in>{(''shop'', ?svc), (''shop'', \<lparr>ibServiceName = ''svc1'', ibServicePort = IntVal 80\<rparr>)}.
          u1Name u = ingressUpstreamName (shopIngress shopPaths) h b
          \<and> contextUpstream (ingressCtx (shopEx shopPaths) [] False NewDefaultConfigParams True False sampleStatic False) (u1Name u) b = Some u"
    by (elim exE conjE) (rule that)
  obtain s l l' where s: "s \<in> set (incServers cfg)" "s1Locations s = [l, l']" "locationInfo l = (''/'', ''svc'', ''n-shop-shop-svc-180'')"
    using infos by (auto simp: map_eq_Cons_conv serverInfo_def)
  then have l: "l \<in> set (s1Locations s)" "l1Path l = ''/''" "l1ServiceName l = ''svc''" "u1Name (l1Upstream l) = ''n-shop-shop-svc-180''"
    by (simp_all add: locationInfo_def)
  have "ingressUpstreamName (shopIngress shopPaths) ''shop'' \<lparr>ibServiceName = ''svc1'', ibServicePort = IntVal 80\<rparr> = ''n-shop-shop-svc1-80''"
    by (simp add: ingressUpstreamName_def shopIngress_def sampleMeta_def intOrStringText_def shop_texts)
  with ups locs s(1) l(1,4) have "contextUpstream (ingressCtx (shopEx shopPaths) [] False NewDefaultConfigParams True False sampleStatic False)
      (u1Name (l1Upstream l)) ?svc = Some (l1Upstream l)"
    by fastforce
  moreover have "gget (ixEndpoints (shopEx shopPaths)) (backendKey ?svc) = Some [''10.0.0.2:9090'']"
    by (simp add: shopEx_lookups backendKey_def intOrStringText_def shop_texts)
  ultimately have "serverAddresses (l1Upstream l) = addressesFor True [''10.0.0.2:9090'']"
    using createUpstream_addresses [of "shopEx shopPaths" ?svc "[''10.0.0.2:9090'']"]
    by (simp add: contextUpstream_def shop_context shopEx_lookups ghas_def)
  then show ?thesis using gen s(1) l by (auto simp: addressesFor_def shop_found)
qed


lemma shop_routed:
  "routedBackends (shopIngress [shopPath ''/'' ''svc'' 180]) [(''shop'', True)] None = [(''shop'', \<lparr>ibServiceName = ''svc'', ibServicePort = IntVal 180\<rparr>)]"
  by (simp add: routedBackends_def shopIngress_def shopPath_def rulePaths_def gtrue_def)

theorem ingress_locations_reach_services_witness:
  "\<exists>cfg ws s l. generateNginxCfg (shopEx [shopPath ''/'' ''svc'' 180]) [] False NewDefaultConfigParams (kcIsNginxPlus (keFlags shopEnvironment)) True
      sampleStatic False = Some (cfg, ws)
    \<and> incServers cfg = [s] \<and> s1Name s = ''shop'' \<and> s1Locations s = [l] \<and> l1Path l = ''/''
    \<and> serverAddresses (l1Upstream l) = [''10.0.0.1:8080'']"
proof -
  let ?ps = "[shopPath ''/'' ''svc'' 180]" and ?rule = "\<lparr>irHost = ''shop'', irHTTP = Some \<lparr>hrPaths = [shopPath ''/'' ''svc'' 180]\<rparr>\<rparr>"
  obtain store' where ex: "createIngressEx shopEnvironment (shopIngress ?ps) [(''shop'', True)] None emptyStore = Some (shopEx ?ps, store')"
    using shopEx_exists by blast
  have jwt: "cpJWTKey NewDefaultConfigParams = ''''" by (simp add: NewDefaultConfigParams_def)
  have coll: "collisionFree (shopIngress ?ps) (routedBackends (shopIngress ?ps) [(''shop'', True)] None)"
    unfolding shop_routed by (simp add: collisionFree_def)
  have plain: "plainAddresses shopEnvironment (shopIngress ?ps) (routedBackends (shopIngress ?ps) [(''shop'', True)] None)"
    unfolding shop_routed by (simp add: plainAddresses_def shop_found)
  have plus: "kcIsNginxPlus (keFlags shopEnvironment)" by (simp add: shop_endpoints sampleFlags_def)
  have rules: "filter (\<lambda>rule. gtrue [(''shop'', True)] (irHost rule)) (isRules (ingSpec (shopIngress ?ps))) = [?rule]"
    by (simp add: shopIngress_def gtrue_def)
  have routes: "ruleRoutes (shopIngress ?ps) None ?rule = [(''/'', ''shop'', \<lparr>ibServiceName = ''svc'', ibServicePort = IntVal 180\<rparr>)]"
    by (simp add: ruleRoutes_def rulePaths_def shopPath_def generateIngressPath_def pathOrDefault_def shopIngress_def)
  from ingress_locations_reach_services [OF ex jwt coll plain, of "[]" True sampleStatic False, unfolded rules] obtain cfg ws s
    where gen: "generateNginxCfg (shopEx ?ps) [] False NewDefaultConfigParams (kcIsNginxPlus (keFlags shopEnvironment)) True
        sampleStatic False = Some (cfg, ws)"
      and s: "incServers cfg = [s]" "s1Name s = ''shop''"
        "list_all2 (servesRoute shopEnvironment (shopEx ?ps) True) (s1Locations s) (ruleRoutes (shopIngress ?ps) None ?rule)"
    by (auto simp: list_all2_Cons2)
  from s(3) obtain l where l: "s1Locations s = [l]" "l1Path l = ''/''" "serverAddresses (l1Upstream l) = [''10.0.0.1:8080'']"
    by (auto simp: list_all2_Cons2 routes servesRoute_def shopEx_fields shop_found plus addressesFor_def)
  show ?thesis by (intro exI conjI) (fact gen s(1,2) l)+
qed

theorem ingress_configuration_generated_witness:
  "\<exists>cfg ws. generateNginxCfg (shopEx shopPaths) [] False NewDefaultConfigParams (kcIsNginxPlus (keFlags shopEnvironment)) False
      sampleStatic False = Some (cfg, ws)
    \<and> map serverInfo (incServers cfg) = [(''shop'', [(''/'', ''svc'', ''n-shop-shop-svc-180''), (''/pay'', ''svc1'', ''n-shop-shop-svc1-80'')])]
    \<and> distinct (map u1Name (incUpstreams cfg))"
proof -
  obtain store' where ex: "createIngressEx shopEnvironment (shopIngress shopPaths) [(''shop'', True)] None emptyStore = Some (shopEx shopPaths, store')"
    using shopEx_exists by blast
  have jwt: "cpJWTKey NewDefaultConfigParams = ''''" by (simp add: NewDefaultConfigParams_def)
  have plus: "kcIsNginxPlus (keFlags shopEnvironment) = True" by (simp add: shop_endpoints sampleFlags_def)
  from ingress_configuration_generated [OF ex jwt, of "[]" False False sampleStatic False] show ?thesis
    unfolding plus shop_context by (elim exE conjE) (intro exI conjI)
qed


section \<open>Masters and minions\<close>

lemma gget_filter: "gget (filter (\<lambda>(k, _). P k) m) k = (if P k then gget m k else None)"
  by (induction m) auto

lemma JWTKey_not_filtered:
  "JWTKeyAnnotation \<notin> set masterBlacklist" "JWTKeyAnnotation \<notin> set minionBlacklist" "JWTKeyAnnotation \<notin> set minionInheritanceList"
  by (simp_all add: JWTKeyAnnotation_def masterBlacklist_def minionBlacklist_def minionInheritanceList_def)

lemma merged_annotations:
  "gget (mergeMasterAnnotationsIntoMinion minion master) k =
     (case gget minion k of Some v \<Rightarrow> Some v | None \<Rightarrow> (if k \<in> set minionInheritanceList then gget master k else None))"
proof -
  have "gget (fold (\<lambda>(key, val) m. if \<not> ghas m key \<and> key \<in> set minionInheritanceList then gput key val m else m) master m) k =
     (case gget m k of Some v \<Rightarrow> Some v | None \<Rightarrow> (if k \<in> set minionInheritanceList then gget master k else None))" for m
  proof (induction master arbitrary: m)
    case Nil
    then show ?case by (simp split: option.split)
  next
    case (Cons p master)
    obtain a b where p: "p = (a, b)" by (cases p)
    show ?case
    proof (cases "\<not> ghas m a \<and> a \<in> set minionInheritanceList")
      case True
      then have "gget m a = None" by (simp add: ghas_def)
      then show ?thesis using True Cons.IH [of "gput a b m"] by (simp add: p split: option.split)
    next
      case False
      then have "gget m a = None \<Longrightarrow> a \<notin> set minionInheritanceList" by (simp add: ghas_def)
      then show ?thesis using False Cons.IH [of m] by (auto simp: p split: option.split)
    qed
  qed
  then show ?thesis unfolding mergeMasterAnnotationsIntoMinion_def by blast
qed

lemma preparedMaster_annotations:
  "gget (omAnnotations (ingMeta (ixIngress (preparedMaster ix)))) k =
     (if k \<in> set masterBlacklist then None else gget (omAnnotations (ingMeta (ixIngress ix))) k)"
  by (simp add: preparedMaster_def withAnnotations_def filterMasterAnnotations_def filterAnnotations_def gget_filter Let_def)

lemma preparedMinion_annotations:
  "gget (omAnnotations (ingMeta (ixIngress (preparedMinion master ix)))) k =
     (if k \<in> set minionBlacklist then None
      else case gget (omAnnotations (ingMeta (ixIngress ix))) k of
          Some v \<Rightarrow> Some v
        | None \<Rightarrow> (if k \<in> set minionInheritanceList then gget (omAnnotations (ingMeta (ixIngress master))) k else None))"
  by (simp add: preparedMinion_def withAnnotations_def filterMinionAnnotations_def filterAnnotations_def gget_filter merged_annotations Let_def)

text \<open>
  C15: The annotations of a minion, as they are generated: of the kinds that belong to the master it
  has none; any other of its own is kept; and it inherits from its master the listed kinds that it does
  not set itself, unless the master may not have them.
\<close>

theorem minion_annotations:
  "gget (omAnnotations (ingMeta (ixIngress (preparedMinion (preparedMaster master) minion)))) k =
     (let own = gget (omAnnotations (ingMeta (ixIngress minion))) k; inherited = gget (omAnnotations (ingMeta (ixIngress master))) k
      in if k \<in> set minionBlacklist then None
         else if own \<noteq> None then own
         else if k \<in> set minionInheritanceList \<and> k \<notin> set masterBlacklist then inherited else None)"
  by (auto simp: preparedMinion_annotations preparedMaster_annotations Let_def)

lemma preparedMaster_fields:
  "usableEx (preparedMaster ix) = usableEx ix" "ixSecretRefs (preparedMaster ix) = ixSecretRefs ix" "ixValidHosts (preparedMaster ix) = ixValidHosts ix"
  "ingSpec (ixIngress (preparedMaster ix)) = ingSpec (ixIngress ix)"
  by (simp_all add: preparedMaster_def usableEx_def withAnnotations_def Let_def)

lemma preparedMinion_fields:
  "usableEx (preparedMinion master ix) = usableEx ix" "ixSecretRefs (preparedMinion master ix) = ixSecretRefs ix"
  "isTLS (ingSpec (ixIngress (preparedMinion master ix))) = isTLS (ingSpec (ixIngress ix))"
  by (simp_all add: preparedMinion_def usableEx_def withAnnotations_def Let_def)

definition withMinion :: "Ingress1 \<Rightarrow> Location1 \<Rightarrow> Location1" where
  "withMinion minionIngress l = l\<lparr>l1MinionIngress := Some minionIngress\<rparr>"

lemma addMinionServers:
  "msLocations (fold (addMinionServer mi) servers st) = msLocations st @ map (withMinion mi) (concat (map s1Locations servers))
    \<and> msUpstreams (fold (addMinionServer mi) servers st) = msUpstreams st"
  by (induction servers arbitrary: st) (simp_all add: addMinionServer_def withMinion_def [abs_def])

lemma addMinionConfigs:
  "msLocations (fold addMinionConfig cfgs st)
      = msLocations st @ concat (map (\<lambda>cfg. map (withMinion (incIngress cfg)) (concat (map s1Locations (incServers cfg)))) cfgs)
    \<and> msUpstreams (fold addMinionConfig cfgs st) = msUpstreams st @ concat (map incUpstreams cfgs)"
  by (induction cfgs arbitrary: st) (simp_all add: addMinionConfig_def addMinionServers Let_def)

lemma createMinionExes_parts:
  assumes "createMinionExes env vh ms store = Some (ixs, store')" and "ix \<in> set ixs"
  shows "\<exists>ing vmp store1 store2. createIngressEx env ing vh vmp store1 = Some (ix, store2)"
  using assms
proof (induction ms arbitrary: store ixs)
  case (Cons m ms)
  then obtain ix1 ixs1 store1 where one: "createIngressEx env (mcIngress m) vh (Some (mcValidPaths m)) store = Some (ix1, store1)"
    and rest: "createMinionExes env vh ms store1 = Some (ixs1, store')" and ixs: "ixs = ix1 # ixs1"
    by (auto split: Option.bind_splits)
  show ?case
  proof (cases "ix = ix1")
    case True
    with one show ?thesis by blast
  next
    case False
    with Cons.prems(2) ixs have "ix \<in> set ixs1" by simp
    with Cons.IH [OF rest] show ?thesis by blast
  qed
qed simp

lemma minion_ready:
  assumes "createIngressEx env ing vh vmp store = Some (ix, store')" and "cpJWTKey base = ''''"
  shows "readyContext (ingressCtx (preparedMinion master ix) ap minion base (kcIsNginxPlus (keFlags env)) resolver static wildcard)"
  by (rule readyContext_ingressCtx)
    (use createIngressEx_parts [OF assms(1)] assms(2) JWTKey_not_filtered in
      \<open>auto simp: preparedMinion_fields preparedMinion_annotations split: option.split_asm\<close>)


lemma generateNginxCfg_ingress:
  "generateNginxCfg ix ap minion base isPlus resolver static wildcard = Some (cfg, ws) \<Longrightarrow> incIngress cfg = ingressSummary (ixIngress ix)"
  by (auto simp: generateNginxCfg_def Let_def split: option.splits)

lemma withMinion_simps [simp]:
  "locationInfo (withMinion mi l) = locationInfo l" "l1Upstream (withMinion mi l) = l1Upstream l" "l1MinionIngress (withMinion mi l) = Some mi"
  by (simp_all add: withMinion_def locationInfo_def)

text \<open>The locations of all the servers that an Ingress has: those of its valid rules, one after the other.\<close>

definition ingressInfos :: "ingressContext \<Rightarrow> (string \<times> string \<times> string) list" where
  "ingressInfos c = concat (map (ruleInfos c) (filter (usedRule (gcIngEx c)) (isRules (ingSpec (ixIngress (gcIngEx c))))))"

lemma generateNginxCfg_locations:
  assumes c: "c = ingressCtx ix ap minion base isPlus resolver static wildcard" and ready: "readyContext c"
  shows "\<exists>cfg ws. generateNginxCfg ix ap minion base isPlus resolver static wildcard = Some (cfg, ws)
    \<and> map locationInfo (concat (map s1Locations (incServers cfg))) = ingressInfos c
    \<and> l1Upstream ` set (concat (map s1Locations (incServers cfg))) \<subseteq> set (incUpstreams cfg)
    \<and> map s1Name (incServers cfg) = map irHost (filter (usedRule ix) (isRules (ingSpec (ixIngress ix))))
    \<and> incIngress cfg = ingressSummary (ixIngress ix)"
proof -
  have ix: "gcIngEx c = ix" by (simp add: c ingressCtx_def Let_def)
  from generateNginxCfg_routes [OF c ready] obtain cfg ws
    where gen: "generateNginxCfg ix ap minion base isPlus resolver static wildcard = Some (cfg, ws)"
      and infos: "map serverInfo (incServers cfg) = map (\<lambda>r. (irHost r, ruleInfos c r)) (filter (usedRule ix) (isRules (ingSpec (ixIngress ix))))"
      and locs: "\<forall>s\<in>set (incServers cfg). \<forall>l\<in>set (s1Locations s). l1Upstream l \<in> set (incUpstreams cfg)"
    by (elim exE conjE) (rule that)
  have "map locationInfo (concat (map s1Locations (incServers cfg))) = concat (map snd (map serverInfo (incServers cfg)))"
    by (simp add: serverInfo_def map_concat o_def)
  also have "\<dots> = ingressInfos c" unfolding infos by (simp add: ingressInfos_def ix o_def)
  finally have "map locationInfo (concat (map s1Locations (incServers cfg))) = ingressInfos c" .
  moreover have "map s1Name (incServers cfg) = map fst (map serverInfo (incServers cfg))" by (simp add: serverInfo_def o_def)
  then have "map s1Name (incServers cfg) = map irHost (filter (usedRule ix) (isRules (ingSpec (ixIngress ix))))" unfolding infos by (simp add: o_def)
  moreover have "l1Upstream ` set (concat (map s1Locations (incServers cfg))) \<subseteq> set (incUpstreams cfg)" using locs by auto
  ultimately show ?thesis using gen generateNginxCfg_ingress [OF gen] by blast
qed

lemma mapOpt_list_all2:
  assumes "\<forall>x\<in>set xs. \<exists>y. f x = Some y \<and> R x y"
  shows "\<exists>ys. mapOpt f xs = Some ys \<and> list_all2 R xs ys"
  using assms
proof (induction xs)
  case (Cons x xs)
  then obtain y ys where "f x = Some y" "R x y" "mapOpt f xs = Some ys" "list_all2 R xs ys" by auto
  then show ?case by simp
qed simp

text \<open>What the configuration of a prepared minion is, and what becomes of it in that of its master.\<close>

definition minionGenerated :: "(IngressEx \<Rightarrow> ingressContext) \<Rightarrow> IngressEx \<Rightarrow> IngressNginxConfig \<Rightarrow> bool" where
  "minionGenerated ctx m cfg =
     (map locationInfo (concat (map s1Locations (incServers cfg))) = ingressInfos (ctx m)
      \<and> l1Upstream ` set (concat (map s1Locations (incServers cfg))) \<subseteq> set (incUpstreams cfg)
      \<and> incIngress cfg = ingressSummary (ixIngress m))"

definition minionLocations :: "IngressNginxConfig \<Rightarrow> Location1 list" where
  "minionLocations cfg = map (withMinion (incIngress cfg)) (concat (map s1Locations (incServers cfg)))"

lemma minions_merged:
  assumes "list_all2 (minionGenerated ctx) minions cfgs"
  shows "map locationInfo (concat (map minionLocations cfgs)) = concat (map (ingressInfos \<circ> ctx) minions)"
    and "l1Upstream ` set (concat (map minionLocations cfgs)) \<subseteq> set (concat (map incUpstreams cfgs))"
    and "l1MinionIngress ` set (concat (map minionLocations cfgs)) \<subseteq> (Some \<circ> ingressSummary \<circ> ixIngress) ` set minions"
proof -
  have one: "map locationInfo (minionLocations cfg) = ingressInfos (ctx m)" "l1Upstream ` set (minionLocations cfg) \<subseteq> set (incUpstreams cfg)"
      "l1MinionIngress ` set (minionLocations cfg) \<subseteq> {Some (ingressSummary (ixIngress m))}" if "minionGenerated ctx m cfg" for m cfg
    using that by (simp_all add: minionLocations_def minionGenerated_def image_image image_subset_iff o_def)
  show "map locationInfo (concat (map minionLocations cfgs)) = concat (map (ingressInfos \<circ> ctx) minions)"
    using assms by (induction rule: list_all2_induct) (simp_all add: one)
  show "l1Upstream ` set (concat (map minionLocations cfgs)) \<subseteq> set (concat (map incUpstreams cfgs))"
    using assms
  proof (induction rule: list_all2_induct)
    case (Cons m ms cfg cfgs)
    from Un_mono [OF one(2) [OF Cons.hyps(1)] Cons.IH] show ?case by (simp only: list.map concat.simps set_append image_Un)
  qed simp
  show "l1MinionIngress ` set (concat (map minionLocations cfgs)) \<subseteq> (Some \<circ> ingressSummary \<circ> ixIngress) ` set minions"
    using assms
  proof (induction rule: list_all2_induct)
    case (Cons m ms cfg cfgs)
    have "(Some \<circ> ingressSummary \<circ> ixIngress) ` set (m # ms)
        = {Some (ingressSummary (ixIngress m))} \<union> (Some \<circ> ingressSummary \<circ> ixIngress) ` set ms" by simp
    with Un_mono [OF one(3) [OF Cons.hyps(1)] Cons.IH] show ?case by (simp only: list.map concat.simps set_append image_Un)
  qed simp
qed

lemma minions_generated:
  assumes exs: "createMinionExes env vh ms store = Some (ixs, store')" and jwt: "cpJWTKey base = ''''"
  defines "isPlus \<equiv> kcIsNginxPlus (keFlags env)"
  shows "\<exists>ys. mapOpt (\<lambda>m. generateNginxCfg m [] True base isPlus resolver static wildcard) (map (preparedMinion master) ixs) = Some ys
    \<and> list_all2 (minionGenerated (\<lambda>m. ingressCtx m [] True base isPlus resolver static wildcard)) (map (preparedMinion master) ixs) (map fst ys)"
proof -
  let ?ctx = "\<lambda>m. ingressCtx m [] True base isPlus resolver static wildcard"
  let ?gen = "\<lambda>m. generateNginxCfg m [] True base isPlus resolver static wildcard"
  have "\<exists>y. ?gen m = Some y \<and> minionGenerated ?ctx m (fst y)" if m: "m \<in> set (map (preparedMinion master) ixs)" for m
  proof -
    obtain ix where ix: "ix \<in> set ixs" "m = preparedMinion master ix" using m by auto
    from createMinionExes_parts [OF exs ix(1)] obtain ing vmp store2 store3
      where "createIngressEx env ing vh vmp store2 = Some (ix, store3)" by blast
    from minion_ready [OF this jwt] have "readyContext (?ctx m)" unfolding ix(2) isPlus_def .
    from generateNginxCfg_locations [OF refl this] obtain cfg ws where "?gen m = Some (cfg, ws)" "minionGenerated ?ctx m cfg"
      by (elim exE conjE) (rule that, assumption, simp add: minionGenerated_def)
    then show ?thesis by (intro exI [of _ "(cfg, ws)"]) simp
  qed
  with mapOpt_list_all2 [of "map (preparedMinion master) ixs" ?gen "\<lambda>m y. minionGenerated ?ctx m (fst y)"]
  show ?thesis unfolding list_all2_map2 by blast
qed

lemma master_generated:
  assumes ex: "createIngressEx env (icIngress ic) (icValidHosts ic) None store = Some (ix, store')" and jwt: "cpJWTKey base = ''''"
    and rule: "isRules (ingSpec (icIngress ic)) = [r]" and host: "gtrue (icValidHosts ic) (irHost r)"
  shows "\<exists>cfg ws s. generateNginxCfg (preparedMaster ix) ap False base (kcIsNginxPlus (keFlags env)) resolver static wildcard = Some (cfg, ws)
    \<and> incServers cfg = [s] \<and> s1Name s = irHost r"
proof -
  note parts = createIngressEx_parts [OF ex]
  have "readyContext (ingressCtx (preparedMaster ix) ap False base (kcIsNginxPlus (keFlags env)) resolver static wildcard)"
    by (rule readyContext_ingressCtx)
      (use parts jwt JWTKey_not_filtered in \<open>auto simp: preparedMaster_fields preparedMaster_annotations\<close>)
  from generateNginxCfg_locations [OF refl this] obtain cfg ws
    where gen: "generateNginxCfg (preparedMaster ix) ap False base (kcIsNginxPlus (keFlags env)) resolver static wildcard = Some (cfg, ws)"
      and names: "map s1Name (incServers cfg) = map irHost (filter (usedRule (preparedMaster ix)) (isRules (ingSpec (ixIngress (preparedMaster ix)))))"
    by (elim exE conjE) (rule that)
  have "map s1Name (incServers cfg) = [irHost r]"
    unfolding names using rule host parts by (simp add: preparedMaster_fields usedRule_def)
  with gen show ?thesis by (auto simp: map_eq_Cons_conv)
qed

text \<open>
  C10: For every master with one rule, of a valid host, and its minions a configuration is generated: it
  has one server, for the host, whose locations are those of the minions, in their order; each of
  them names its minion and has a declared upstream. (The master is left without paths of its own,
  the minions without default backends.)
\<close>

theorem mergeable_configuration_generated:
  assumes "createMergeableIngresses env ic store = Some (mi, store')" and "cpJWTKey base = ''''"
    and "isRules (ingSpec (icIngress ic)) = [r]" and "gtrue (icValidHosts ic) (irHost r)"
  shows "\<exists>cfg ws mi'. generateNginxCfgForMergeableIngresses mi ap base (kcIsNginxPlus (keFlags env)) resolver static wildcard = Some (cfg, ws, mi')
    \<and> miMinions mi' = map (preparedMinion (preparedMaster (miMaster mi))) (miMinions mi)
    \<and> (\<exists>s. incServers cfg = [s] \<and> s1Name s = irHost r
        \<and> map locationInfo (s1Locations s)
            = concat (map (\<lambda>m. ingressInfos (ingressCtx m [] True base (kcIsNginxPlus (keFlags env)) resolver static wildcard)) (miMinions mi'))
        \<and> l1Upstream ` set (s1Locations s) \<subseteq> set (incUpstreams cfg)
        \<and> l1MinionIngress ` set (s1Locations s) \<subseteq> (Some \<circ> ingressSummary \<circ> ixIngress) ` set (miMinions mi'))"
proof -
  let ?plus = "kcIsNginxPlus (keFlags env)"
  define master where "master = preparedMaster (miMaster mi)"
  define minions where "minions = map (preparedMinion master) (miMinions mi)"
  obtain store1 where exm: "createIngressEx env (icIngress ic) (icValidHosts ic) None store = Some (miMaster mi, store1)"
    and exs: "createMinionExes env (icValidHosts ic) (icMinions ic) store1 = Some (miMinions mi, store')"
    using assms(1) by (auto simp: createMergeableIngresses_def split: Option.bind_splits)
  obtain mcfg mws ms where mgen: "generateNginxCfg master ap False base ?plus resolver static wildcard = Some (mcfg, mws)"
    and ms: "incServers mcfg = [ms]" "s1Name ms = irHost r"
    using master_generated [OF exm assms(2-4)] unfolding master_def by blast
  obtain ys where ys: "mapOpt (\<lambda>m. generateNginxCfg m [] True base ?plus resolver static wildcard) minions = Some ys"
    and finished: "list_all2 (minionGenerated (\<lambda>m. ingressCtx m [] True base ?plus resolver static wildcard)) minions (map fst ys)"
    using minions_generated [OF exs assms(2)] unfolding minions_def by blast
  define st where "st = fold addMinionConfig (map fst ys)
      \<lparr>msLocations = [], msHealthChecks = [], msRedirects = s1JWTRedirectLocations ms, msUpstreams = incUpstreams mcfg\<rparr>"
  have st: "msLocations st = concat (map minionLocations (map fst ys))"
    "msUpstreams st = incUpstreams mcfg @ concat (map incUpstreams (map fst ys))"
    by (simp_all only: st_def addMinionConfigs) (simp_all add: minionLocations_def [abs_def])
  define s where "s = ms\<lparr>s1HealthChecks := msHealthChecks st, s1Locations := msLocations st, s1JWTRedirectLocations := msRedirects st\<rparr>"
  obtain cfg ws where gen: "generateNginxCfgForMergeableIngresses mi ap base ?plus resolver static wildcard
      = Some (cfg, ws, \<lparr>miMaster = master, miMinions = minions\<rparr>)" and cfg: "incServers cfg = [s]" "incUpstreams cfg = msUpstreams st"
    unfolding generateNginxCfgForMergeableIngresses_def Let_def master_def [symmetric] minions_def [symmetric]
    by (simp add: mgen ms(1) ys st_def s_def)
  have s: "s1Name s = irHost r" "s1Locations s = concat (map minionLocations (map fst ys))" by (simp_all add: s_def ms(2) st)
  show ?thesis
    by (intro exI [of _ cfg] exI [of _ ws] exI [of _ "\<lparr>miMaster = master, miMinions = minions\<rparr>"] exI [of _ s] conjI)
      (use gen cfg s minions_merged [OF finished] st(2) in \<open>auto simp: master_def minions_def o_def\<close>)
qed



definition shopMaster :: IngressConfiguration where
  "shopMaster =
     \<lparr>icIngress = shopIngress [], icIsMaster = True,
      icMinions = [\<lparr>mcIngress = shopIngress [shopPath ''/'' ''svc'' 180], mcValidPaths = [(''/'', True)]\<rparr>],
      icValidHosts = [(''shop'', True)], icWarnings = [], icChildWarnings = []\<rparr>"

lemma shop_createIngressEx: "\<exists>ix. createIngressEx shopEnvironment (shopIngress ps) vh vmp emptyStore = Some (ix, emptyStore)"
  by (simp add: createIngressEx_def addIngressSecrets_def shopIngress_def shopEnvironment_def sampleEnvironment_def sampleFlags_def
      sampleMeta_def Let_def)

lemma shopMaster_created:
  "\<exists>mi m. createMergeableIngresses shopEnvironment shopMaster emptyStore = Some (mi, emptyStore) \<and> miMinions mi = [m]
    \<and> ixIngress m = shopIngress [shopPath ''/'' ''svc'' 180] \<and> ixValidHosts m = [(''shop'', True)] \<and> ixValidMinionPaths m = [(''/'', True)]"
proof -
  obtain ix where ix: "createIngressEx shopEnvironment (shopIngress []) [(''shop'', True)] None emptyStore = Some (ix, emptyStore)"
    using shop_createIngressEx by blast
  obtain m where m: "createIngressEx shopEnvironment (shopIngress [shopPath ''/'' ''svc'' 180]) [(''shop'', True)] (Some [(''/'', True)]) emptyStore
      = Some (m, emptyStore)"
    using shop_createIngressEx by blast
  show ?thesis using createIngressEx_parts [OF m]
    by (intro exI [of _ "\<lparr>miMaster = ix, miMinions = [m]\<rparr>"] exI [of _ m]) (simp add: createMergeableIngresses_def shopMaster_def ix m)
qed

theorem mergeable_configuration_generated_witness:
  "\<exists>mi cfg ws mi' s l. createMergeableIngresses shopEnvironment shopMaster emptyStore = Some (mi, emptyStore)
    \<and> generateNginxCfgForMergeableIngresses mi [] NewDefaultConfigParams (kcIsNginxPlus (keFlags shopEnvironment)) False sampleStatic False
        = Some (cfg, ws, mi')
    \<and> incServers cfg = [s] \<and> s1Name s = ''shop'' \<and> s1Locations s = [l] \<and> l1Path l = ''/'' \<and> l1ServiceName l = ''svc''"
proof -
  obtain mi m where mi: "createMergeableIngresses shopEnvironment shopMaster emptyStore = Some (mi, emptyStore)" "miMinions mi = [m]"
    and m: "ixIngress m = shopIngress [shopPath ''/'' ''svc'' 180]" "ixValidHosts m = [(''shop'', True)]" "ixValidMinionPaths m = [(''/'', True)]"
    using shopMaster_created by blast
  have jwt: "cpJWTKey NewDefaultConfigParams = ''''" by (simp add: NewDefaultConfigParams_def)
  have rule: "isRules (ingSpec (icIngress shopMaster)) = [\<lparr>irHost = ''shop'', irHTTP = Some \<lparr>hrPaths = []\<rparr>\<rparr>]"
    and host: "gtrue (icValidHosts shopMaster) (irHost \<lparr>irHost = ''shop'', irHTTP = Some \<lparr>hrPaths = []\<rparr>\<rparr>)"
    by (simp_all add: shopMaster_def shopIngress_def gtrue_def)
  let ?plus = "kcIsNginxPlus (keFlags shopEnvironment)"
  let ?m = "preparedMinion (preparedMaster (miMaster mi)) m"
  let ?c = "ingressCtx ?m [] True NewDefaultConfigParams ?plus False sampleStatic False"
  have c: "gcIngEx ?c = ?m" "gcIsMinion ?c" by (simp_all add: ingressCtx_def Let_def)
  have "ingressInfos c = [(''/'', ''svc'', ''n-shop-shop-svc-180'')]" if "gcIngEx c = ?m" "gcIsMinion c" for c
    using that by (simp add: ingressInfos_def usedRule_def preparedMinion_def withAnnotations_def m shopIngress_def gtrue_def ruleInfos_def rulePaths_def
        usedPath_def shopPath_def pathInfo_def backendInfo_def generateIngressPath_def pathOrDefault_def ingressUpstreamName_def sampleMeta_def
        defaultInfos_def intOrStringText_def shop_texts Let_def)
  then have "ingressInfos ?c = [(''/'', ''svc'', ''n-shop-shop-svc-180'')]" using c by blast
  with mergeable_configuration_generated [OF mi(1) jwt rule host, of "[]" False sampleStatic False] mi obtain cfg ws mi' s
    where "generateNginxCfgForMergeableIngresses mi [] NewDefaultConfigParams ?plus False sampleStatic False = Some (cfg, ws, mi')"
      "incServers cfg = [s]" "s1Name s = ''shop''" "map locationInfo (s1Locations s) = [(''/'', ''svc'', ''n-shop-shop-svc-180'')]"
    by auto
  with mi(1) show ?thesis by (auto simp: map_eq_Cons_conv locationInfo_def)
qed

section \<open>TLS\<close>

text \<open>The certificate of an entry: of its secret, without an error and of the right type, or the wildcard one.\<close>

definition validCertificate :: "SecretReference gomap \<Rightarrow> bool \<Rightarrow> string \<Rightarrow> string \<Rightarrow> bool" where
  "validCertificate refs wildcard secretName f =
     (if secretName = '''' then wildcard \<and> f = pemFileNameForWildcardTLSSecret
      else \<exists>ref. gget refs secretName = Some ref \<and> srError ref = None \<and> refType ref \<in> {'''', SecretTypeTLS} \<and> f = srPath ref)"

text \<open>
  C14: TLS of a host is never silently dropped: a server has TLS exactly where an entry lists its host; its
  certificate is that of a secret without an error and of the right type, or the wildcard one, without
  a warning, or else the placeholder, with a warning and with ciphers that no client can agree on. It is
  not generated only where a named secret has not been looked up.
\<close>

theorem tls_never_dropped:
  "case addSSLConfig (ruleServer c host) host tls refs wildcard of
     None \<Rightarrow> (\<exists>s. tlsSecretFor host tls = Some s \<and> s \<noteq> '''' \<and> gget refs s = None)
   | Some (server, warnings) \<Rightarrow>
       s1SSL server = (\<exists>t\<in>set tls. host \<in> set (itHosts t)) \<and> s1SSLCertificateKey server = s1SSLCertificate server
       \<and> s1SSLCiphers server = (if s1SSLCertificate server = pemFileNameForMissingTLSSecret then ''NULL'' else '''')
       \<and> (if \<not> s1SSL server then warnings = [] \<and> s1SSLCertificate server = ''''
          else if warnings \<noteq> [] then s1SSLCertificate server = pemFileNameForMissingTLSSecret
          else (\<exists>t\<in>set tls. host \<in> set (itHosts t) \<and> validCertificate refs wildcard (itSecretName t) (s1SSLCertificate server)))"
proof (cases "tlsSecretFor host tls")
  case None
  moreover have "\<not> (\<exists>t\<in>set tls. host \<in> set (itHosts t))"
  proof -
    have "fold (\<lambda>tls acc. if host \<in> set (itHosts tls) then Some (itSecretName tls) else acc) ts acc = None
        \<Longrightarrow> acc = None \<and> \<not> (\<exists>t\<in>set ts. host \<in> set (itHosts t))" for acc ts
    proof (induction ts arbitrary: acc)
      case (Cons t ts)
      from Cons.IH [OF Cons.prems [unfolded fold_simps o_apply]] show ?case by (simp split: if_split_asm)
    qed simp
    from this [OF None [unfolded tlsSecretFor_def]] show ?thesis by blast
  qed
  ultimately show ?thesis by (simp add: addSSLConfig_def ruleServer_def pemFileNameForMissingTLSSecret_def Let_def)
next
  case (Some s)
  from tlsSecretFor_in [OF Some] obtain t where t: "t \<in> set tls" "host \<in> set (itHosts t)" "itSecretName t = s" by blast
  then have listed: "\<exists>t\<in>set tls. host \<in> set (itHosts t)" by blast
  show ?thesis
  proof (cases "sslFile host s refs wildcard")
    case None
    then have "s \<noteq> '''' \<and> gget refs s = None" by (auto simp: sslFile_def split: if_split_asm option.split_asm)
    moreover have "addSSLConfig (ruleServer c host) host tls refs wildcard = None" using None Some by (simp add: addSSLConfig_def)
    ultimately show ?thesis using Some by simp
  next
    case (Some r)
    obtain f ws where r: "r = (f, ws)" by (cases r)
    have pem: "ws \<noteq> [] \<Longrightarrow> f = pemFileNameForMissingTLSSecret" "ws = [] \<Longrightarrow> validCertificate refs wildcard s f"
      using Some unfolding r sslFile_def validCertificate_def by (auto split: if_splits option.splits)
    have "addSSLConfig (ruleServer c host) host tls refs wildcard = Some ((ruleServer c host)\<lparr>s1SSL := True, s1SSLCertificate := f,
        s1SSLCertificateKey := f, s1SSLCiphers := (if f = pemFileNameForMissingTLSSecret then ''NULL'' else '''')\<rparr>, ws)"
      using Some \<open>tlsSecretFor host tls = Some s\<close> by (simp add: addSSLConfig_def r ruleServer_def Let_def)
    moreover have "\<exists>t\<in>set tls. host \<in> set (itHosts t) \<and> validCertificate refs wildcard (itSecretName t) f" if "ws = []"
      using pem(2) [OF that] t by blast
    ultimately show ?thesis using listed pem(1) by simp
  qed
qed

end
