(* ===== verification/Nginx_Manager.thy ===== *)
theory Nginx_Manager
  imports Secrets VS_Upstreams
begin

text \<open>
  The local NGINX manager (internal/nginx/manager.go, verify.go): the files it keeps under the
  configuration path, the version of the configuration with its file, reloads, and the calls of
  the NGINX Plus API. The file system and the processes are the program's environment: a write
  that fails ends the process (glog.Fatalf), so a write here succeeds; what the reload command, the
  polls of the version endpoint and the API answer are arguments, functions of the version of
  the configuration and of the calls made so far, so that every reload and call may get an answer
  of its own.
\<close>

section \<open>State\<close>

record plusCall =
  pcUpstream :: string
  pcServers :: "string list"
  pcConfig :: "ServerConfig option"

record LocalManager =
  lmConfPath :: string
  lmBinaryFilename :: string
  lmMainConf :: "string option"
  lmConfigs :: files
  lmStreamConfigs :: files
  lmPassthroughHosts :: "string option"
  lmSecretFiles :: files
  lmAppProtectFiles :: files
  lmDHParam :: "string option"
  lmTracerConfig :: "string option"
  lmVersionFile :: "string option"
  lmConfigVersion :: int
  lmOpenTracing :: bool
  lmPlusAttempts :: nat
  lmPlusCalls :: "plusCall list"

record nginxWorld =
  nwShell :: "string \<Rightarrow> int \<Rightarrow> string option"
  nwVersionPolls :: "int \<Rightarrow> (string + int) list"
  nwVersionCheck :: "int \<Rightarrow> nat \<Rightarrow> string option"
  nwUpdateHTTPServers :: "plusCall list \<Rightarrow> string option"
  nwUpdateStreamServers :: "plusCall list \<Rightarrow> string option"
  nwWriteDHParam :: "string \<Rightarrow> string option"
  nwWriteTracerConfig :: "string \<Rightarrow> string option"

definition NewLocalManager :: "string \<Rightarrow> string \<Rightarrow> LocalManager" where
  "NewLocalManager confPath binaryFilename =
     \<lparr>lmConfPath = confPath, lmBinaryFilename = binaryFilename, lmMainConf = None, lmConfigs = [], lmStreamConfigs = [],
      lmPassthroughHosts = None, lmSecretFiles = [], lmAppProtectFiles = [], lmDHParam = None, lmTracerConfig = None,
      lmVersionFile = None, lmConfigVersion = 0, lmOpenTracing = False, lmPlusAttempts = 0, lmPlusCalls = []\<rparr>"

section \<open>Paths\<close>

definition confdPath :: "LocalManager \<Rightarrow> string" where
  "confdPath lm = lmConfPath lm @ ''/conf.d''"

definition streamConfdPath :: "LocalManager \<Rightarrow> string" where
  "streamConfdPath lm = lmConfPath lm @ ''/stream-conf.d''"

definition secretsPath :: "LocalManager \<Rightarrow> string" where
  "secretsPath lm = lmConfPath lm @ ''/secrets''"

definition dhparamFilename :: "LocalManager \<Rightarrow> string" where
  "dhparamFilename lm = lmConfPath lm @ ''/secrets/dhparam.pem''"

definition getFilenameForConfig :: "LocalManager \<Rightarrow> string \<Rightarrow> string" where
  "getFilenameForConfig lm name = confdPath lm @ ''/'' @ name @ ''.conf''"

definition getFilenameForStreamConfig :: "LocalManager \<Rightarrow> string \<Rightarrow> string" where
  "getFilenameForStreamConfig lm name = streamConfdPath lm @ ''/'' @ name @ ''.conf''"

section \<open>Files\<close>

definition CreateMainConfig :: "string \<Rightarrow> LocalManager \<Rightarrow> LocalManager" where
  "CreateMainConfig content lm = lm\<lparr>lmMainConf := Some content\<rparr>"

definition CreateConfig :: "string \<Rightarrow> string \<Rightarrow> LocalManager \<Rightarrow> LocalManager" where
  "CreateConfig name content lm = lm\<lparr>lmConfigs := gput (getFilenameForConfig lm name) content (lmConfigs lm)\<rparr>"

definition DeleteConfig :: "string \<Rightarrow> LocalManager \<Rightarrow> LocalManager" where
  "DeleteConfig name lm = lm\<lparr>lmConfigs := gdel (getFilenameForConfig lm name) (lmConfigs lm)\<rparr>"

definition CreateStreamConfig :: "string \<Rightarrow> string \<Rightarrow> LocalManager \<Rightarrow> LocalManager" where
  "CreateStreamConfig name content lm =
     lm\<lparr>lmStreamConfigs := gput (getFilenameForStreamConfig lm name) content (lmStreamConfigs lm)\<rparr>"

definition DeleteStreamConfig :: "string \<Rightarrow> LocalManager \<Rightarrow> LocalManager" where
  "DeleteStreamConfig name lm = lm\<lparr>lmStreamConfigs := gdel (getFilenameForStreamConfig lm name) (lmStreamConfigs lm)\<rparr>"

definition CreateTLSPassthroughHostsConfig :: "string \<Rightarrow> LocalManager \<Rightarrow> LocalManager" where
  "CreateTLSPassthroughHostsConfig content lm = lm\<lparr>lmPassthroughHosts := Some content\<rparr>"

definition lmCreateSecret :: "string \<Rightarrow> string \<Rightarrow> LocalManager \<Rightarrow> string \<times> LocalManager" where
  "lmCreateSecret name content lm =
     (let (filename, fs) = CreateSecret (secretsPath lm) name content (lmSecretFiles lm)
      in (filename, lm\<lparr>lmSecretFiles := fs\<rparr>))"

definition lmDeleteSecret :: "string \<Rightarrow> LocalManager \<Rightarrow> LocalManager" where
  "lmDeleteSecret name lm = lm\<lparr>lmSecretFiles := removeSecretFile (secretsPath lm) name (lmSecretFiles lm)\<rparr>"

definition lmGetFilenameForSecret :: "string \<Rightarrow> LocalManager \<Rightarrow> string" where
  "lmGetFilenameForSecret name lm = GetFilenameForSecret (secretsPath lm) name"

definition CreateDHParam :: "nginxWorld \<Rightarrow> string \<Rightarrow> LocalManager \<Rightarrow> string \<times> string option \<times> LocalManager" where
  "CreateDHParam w content lm =
     (let filename = dhparamFilename lm in
      case nwWriteDHParam w content of
        Some err \<Rightarrow> (filename, Some (''Failed to write dhparam file from '' @ filename @ '': '' @ err), lm)
      | None \<Rightarrow> (filename, None, lm\<lparr>lmDHParam := Some content\<rparr>))"

definition CreateAppProtectResourceFile :: "string \<Rightarrow> string \<Rightarrow> LocalManager \<Rightarrow> LocalManager" where
  "CreateAppProtectResourceFile name content lm = lm\<lparr>lmAppProtectFiles := gput name content (lmAppProtectFiles lm)\<rparr>"

definition DeleteAppProtectResourceFile :: "string \<Rightarrow> LocalManager \<Rightarrow> LocalManager" where
  "DeleteAppProtectResourceFile name lm = lm\<lparr>lmAppProtectFiles := gdel name (lmAppProtectFiles lm)\<rparr>"

text \<open>The files of a folder are those whose names are its name, with its slash, and a base name.\<close>

definition inFolder :: "string \<Rightarrow> string \<Rightarrow> bool" where
  "inFolder folder name \<longleftrightarrow> hasPrefix name folder \<and> CHR ''/'' \<notin> set (drop (length folder) name)"

definition ClearAppProtectFolder :: "string \<Rightarrow> LocalManager \<Rightarrow> LocalManager" where
  "ClearAppProtectFolder folder lm =
     lm\<lparr>lmAppProtectFiles := filter (\<lambda>(name, _). \<not> inFolder folder name) (lmAppProtectFiles lm)\<rparr>"

definition CreateOpenTracingTracerConfig :: "nginxWorld \<Rightarrow> string \<Rightarrow> LocalManager \<Rightarrow> string option \<times> LocalManager" where
  "CreateOpenTracingTracerConfig w content lm =
     (case nwWriteTracerConfig w content of
        Some err \<Rightarrow> (Some (''Failed to write config file: '' @ err), lm)
      | None \<Rightarrow> (None, lm\<lparr>lmTracerConfig := Some content\<rparr>))"

definition SetOpenTracing :: "bool \<Rightarrow> LocalManager \<Rightarrow> LocalManager" where
  "SetOpenTracing openTracing lm = lm\<lparr>lmOpenTracing := openTracing\<rparr>"

section \<open>The version of the configuration (verify.go)\<close>

definition versionNewline :: string where "versionNewline = [CHR 0x0A]"
definition versionTab :: string where "versionTab = [CHR 0x09]"

definition GenerateVersionConfig :: "int \<Rightarrow> bool \<Rightarrow> string" where
  "GenerateVersionConfig configVersion openTracing =
     ''server {'' @ versionNewline
     @ ''    listen unix:/var/lib/nginx/nginx-config-version.sock;'' @ versionNewline
     @ versionTab @ ''access_log off;'' @ versionNewline
     @ versionTab @ versionNewline
     @ versionTab @ (if openTracing then versionNewline @ versionTab @ ''opentracing off;'' @ versionNewline @ versionTab else '''') @ versionNewline
     @ versionNewline
     @ ''    location /configVersion {'' @ versionNewline
     @ ''        return 200 '' @ itoa configVersion @ '';'' @ versionNewline
     @ ''    }'' @ versionNewline @ ''}'' @ versionNewline
     @ ''map $http_x_expected_config_version $config_version_mismatch {'' @ versionNewline
     @ versionTab @ [CHR 0x22] @ itoa configVersion @ [CHR 0x22, CHR '' '', CHR 0x22, CHR 0x22] @ '';'' @ versionNewline
     @ versionTab @ ''default '' @ [CHR 0x22] @ ''mismatch'' @ [CHR 0x22] @ '';'' @ versionNewline @ ''}''"

definition UpdateConfigVersionFile :: "bool \<Rightarrow> LocalManager \<Rightarrow> LocalManager" where
  "UpdateConfigVersionFile openTracing lm = lm\<lparr>lmVersionFile := Some (GenerateVersionConfig (lmConfigVersion lm) openTracing)\<rparr>"

text \<open>The polls made before the deadline, in order: an answer is an error or a version.\<close>

fun WaitForCorrectVersion :: "int \<Rightarrow> (string + int) list \<Rightarrow> string option" where
  "WaitForCorrectVersion expectedVersion [] = Some (''could not get expected version: '' @ itoa expectedVersion)"
| "WaitForCorrectVersion expectedVersion (Inl _ # polls) = WaitForCorrectVersion expectedVersion polls"
| "WaitForCorrectVersion expectedVersion (Inr version # polls) =
     (if version = expectedVersion then None else WaitForCorrectVersion expectedVersion polls)"

definition Reload :: "nginxWorld \<Rightarrow> LocalManager \<Rightarrow> string option \<times> LocalManager" where
  "Reload w lm =
     (let lm' = UpdateConfigVersionFile (lmOpenTracing lm) (lm\<lparr>lmConfigVersion := lmConfigVersion lm + 1\<rparr>)
      in case nwShell w (lmBinaryFilename lm @ '' -s reload'') (lmConfigVersion lm') of
           Some err \<Rightarrow> (Some (''nginx reload failed: '' @ err), lm')
         | None \<Rightarrow>
             (case WaitForCorrectVersion (lmConfigVersion lm') (nwVersionPolls w (lmConfigVersion lm')) of
                Some err \<Rightarrow> (Some (''could not get newest config version: '' @ err), lm')
              | None \<Rightarrow> (None, lm')))"

section \<open>NGINX Plus\<close>

definition UpdateServersInPlus :: "nginxWorld \<Rightarrow> string \<Rightarrow> string list \<Rightarrow> ServerConfig \<Rightarrow> LocalManager \<Rightarrow> string option \<times> LocalManager" where
  "UpdateServersInPlus w upstream servers config lm =
     (let lm1 = lm\<lparr>lmPlusAttempts := lmPlusAttempts lm + 1\<rparr> in
      case nwVersionCheck w (lmConfigVersion lm) (lmPlusAttempts lm) of
        Some err \<Rightarrow> (Some (''error verifying config version: '' @ err), lm1)
      | None \<Rightarrow>
          (let calls = lmPlusCalls lm @ [\<lparr>pcUpstream = upstream, pcServers = servers, pcConfig = Some config\<rparr>];
               lm' = lm1\<lparr>lmPlusCalls := calls\<rparr>
           in case nwUpdateHTTPServers w calls of
                Some err \<Rightarrow> (Some (''error updating servers of '' @ upstream @ '' upstream: '' @ err), lm')
              | None \<Rightarrow> (None, lm')))"

definition UpdateStreamServersInPlus :: "nginxWorld \<Rightarrow> string \<Rightarrow> string list \<Rightarrow> LocalManager \<Rightarrow> string option \<times> LocalManager" where
  "UpdateStreamServersInPlus w upstream servers lm =
     (let lm1 = lm\<lparr>lmPlusAttempts := lmPlusAttempts lm + 1\<rparr> in
      case nwVersionCheck w (lmConfigVersion lm) (lmPlusAttempts lm) of
        Some err \<Rightarrow> (Some (''error verifying config version: '' @ err), lm1)
      | None \<Rightarrow>
          (let calls = lmPlusCalls lm @ [\<lparr>pcUpstream = upstream, pcServers = servers, pcConfig = None\<rparr>];
               lm' = lm1\<lparr>lmPlusCalls := calls\<rparr>
           in case nwUpdateStreamServers w calls of
                Some err \<Rightarrow> (Some (''error updating stream servers of '' @ upstream @ '' upstream: '' @ err), lm')
              | None \<Rightarrow> (None, lm')))"

end
