(* ===== verification/Metric_Labels.thy ===== *)
theory Metric_Labels
  imports TS_Config Ingress_Config_Types
begin

text \<open>
  The labels of metrics: the collector of latencies (internal/metrics/collectors/latency.go), the
  labels of the NGINX Plus collector (vendored, behind the interface LabelUpdater), and the index of
  labels that the Configurator keeps per resource, with its updates and deletions
  (internal/configs/configurator.go). The mutexes and the numbers observed are left out: a
  histogram is here the list of the label values it is published with.
\<close>

section \<open>Label maps\<close>

definition updateLabels :: "string list gomap \<Rightarrow> string list gomap \<Rightarrow> string list gomap" where
  "updateLabels newLabels labels = fold (\<lambda>(k, v). gput k v) newLabels labels"

definition deleteLabels :: "string list \<Rightarrow> string list gomap \<Rightarrow> string list gomap" where
  "deleteLabels names labels = fold gdel names labels"

record LabelUpdater =
  luUpstreamServerLabels :: "string list gomap"
  luUpstreamServerPeerLabels :: "string list gomap"
  luServerZoneLabels :: "string list gomap"
  luStreamUpstreamServerLabels :: "string list gomap"
  luStreamUpstreamServerPeerLabels :: "string list gomap"
  luStreamServerZoneLabels :: "string list gomap"

section \<open>Latencies\<close>

record LatencyCollector =
  lcUpstreamServerLabelNames :: "string list"
  lcUpstreamServerPeerLabelNames :: "string list"
  lcUpstreamServerLabels :: "string list gomap"
  lcUpstreamServerPeerLabels :: "string list gomap"
  lcMetricsPublished :: "string list gomap"
  lcHistograms :: "string list list"

record latencyMetric =
  lmeUpstream :: string
  lmeServer :: string
  lmeCode :: string

definition NewLatencyMetricsCollector :: "string list \<Rightarrow> string list \<Rightarrow> LatencyCollector" where
  "NewLatencyMetricsCollector upstreamServerLabelNames upstreamServerPeerLabelNames =
     \<lparr>lcUpstreamServerLabelNames = upstreamServerLabelNames, lcUpstreamServerPeerLabelNames = upstreamServerPeerLabelNames,
      lcUpstreamServerLabels = [], lcUpstreamServerPeerLabels = [], lcMetricsPublished = [], lcHistograms = []\<rparr>"

definition createLatencyLabelNames :: "string list \<Rightarrow> string list \<Rightarrow> string list" where
  "createLatencyLabelNames upstreamServerLabelNames upstreamServerPeerLabelNames =
     [''upstream'', ''server'', ''code''] @ upstreamServerLabelNames @ upstreamServerPeerLabelNames"

text \<open>The last of the parts between commas, without leading spaces; of one part all of it.\<close>

definition parseMultipartResponse :: "string \<Rightarrow> string" where
  "parseMultipartResponse input =
     (let parts = splitOn (CHR '','') input
      in if length parts > 1 then dropWhile (\<lambda>c. c = CHR '' '') (last parts) else input)"

definition labelsOf :: "string list gomap \<Rightarrow> string \<Rightarrow> string list" where
  "labelsOf labels k = (case gget labels k of None \<Rightarrow> [] | Some vs \<Rightarrow> vs)"

text \<open>The error names are those of the upstream and the server.\<close>

definition createLatencyLabelValues :: "LatencyCollector \<Rightarrow> latencyMetric \<Rightarrow> string + string list" where
  "createLatencyLabelValues l lm =
     (let upstreamValues = labelsOf (lcUpstreamServerLabels l) (lmeUpstream lm);
          peerValues = labelsOf (lcUpstreamServerPeerLabels l) (lmeUpstream lm @ ''/'' @ lmeServer lm)
      in if length (lcUpstreamServerLabelNames l) \<noteq> length upstreamValues
         then Inl (''wrong number of labels for upstream '' @ lmeUpstream lm)
         else if length (lcUpstreamServerPeerLabelNames l) \<noteq> length peerValues
         then Inl (''wrong number of labels for upstream peer '' @ lmeServer lm)
         else Inr ([lmeUpstream lm, lmeServer lm, lmeCode lm] @ upstreamValues @ peerValues))"

definition updateMetricsPublished :: "string \<Rightarrow> string \<Rightarrow> string list \<Rightarrow> LatencyCollector \<Rightarrow> LatencyCollector" where
  "updateMetricsPublished upstreamName server labelValues l =
     (let key = upstreamName @ ''/'' @ server;
          joined = joinStr ''+'' labelValues
      in l\<lparr>lcMetricsPublished := gput key (List.insert joined (labelsOf (lcMetricsPublished l) key)) (lcMetricsPublished l)\<rparr>)"

text \<open>A parsed message records a latency, where its labels are known.\<close>

definition recordMetric :: "latencyMetric \<Rightarrow> LatencyCollector \<Rightarrow> LatencyCollector" where
  "recordMetric lm l =
     (case createLatencyLabelValues l lm of
        Inl _ \<Rightarrow> l
      | Inr labelValues \<Rightarrow>
          updateMetricsPublished (lmeUpstream lm) (lmeServer lm) labelValues
            (l\<lparr>lcHistograms := List.insert labelValues (lcHistograms l)\<rparr>))"

definition listAndDeleteMetricsPublished :: "string \<Rightarrow> LatencyCollector \<Rightarrow> string list list \<times> LatencyCollector" where
  "listAndDeleteMetricsPublished key l =
     (map (splitOn (CHR ''+'')) (labelsOf (lcMetricsPublished l) key),
      l\<lparr>lcMetricsPublished := gdel key (lcMetricsPublished l)\<rparr>)"

definition deletePeerMetrics :: "string \<Rightarrow> LatencyCollector \<Rightarrow> LatencyCollector" where
  "deletePeerMetrics name l =
     (case listAndDeleteMetricsPublished name l of
        (published, l') \<Rightarrow> l'\<lparr>lcHistograms := filter (\<lambda>vs. vs \<notin> set published) (lcHistograms l')\<rparr>)"

definition DeleteMetrics :: "string list \<Rightarrow> LatencyCollector \<Rightarrow> LatencyCollector" where
  "DeleteMetrics names l = fold deletePeerMetrics names l"

section \<open>The index\<close>

record metricLabelsIndex =
  mlIngressUpstreams :: "string list gomap"
  mlVirtualServerUpstreams :: "string list gomap"
  mlTransportServerUpstreams :: "string list gomap"
  mlIngressServerZones :: "string list gomap"
  mlVirtualServerServerZones :: "string list gomap"
  mlTransportServerServerZones :: "string list gomap"
  mlIngressUpstreamPeers :: "string list gomap"
  mlVirtualServerUpstreamPeers :: "string list gomap"
  mlTransportServerUpstreamPeers :: "string list gomap"

definition newMetricLabelsIndex :: metricLabelsIndex where
  "newMetricLabelsIndex =
     \<lparr>mlIngressUpstreams = [], mlVirtualServerUpstreams = [], mlTransportServerUpstreams = [],
      mlIngressServerZones = [], mlVirtualServerServerZones = [], mlTransportServerServerZones = [],
      mlIngressUpstreamPeers = [], mlVirtualServerUpstreamPeers = [], mlTransportServerUpstreamPeers = []\<rparr>"

text \<open>Without latency metrics the collector is a fake one, whose operations do nothing.\<close>

record metricState =
  meLabels :: LabelUpdater
  meLatency :: "LatencyCollector option"
  meIndex :: metricLabelsIndex

definition findRemovedKeys :: "string list \<Rightarrow> string list \<Rightarrow> string list" where
  "findRemovedKeys currentKeys newKeys = filter (\<lambda>name. name \<notin> set newKeys) currentKeys"

definition onLatency :: "(LatencyCollector \<Rightarrow> LatencyCollector) \<Rightarrow> metricState \<Rightarrow> metricState" where
  "onLatency f m = m\<lparr>meLatency := map_option f (meLatency m)\<rparr>"

text \<open>The labels of upstreams and of their peers, in both collectors, when a resource is updated or deleted.\<close>

definition refreshLatency ::
    "string list gomap \<Rightarrow> string list gomap \<Rightarrow> string list \<Rightarrow> string list \<Rightarrow> metricState \<Rightarrow> metricState" where
  "refreshLatency upstreamLabels peerLabels removedUpstreams removedPeers =
     onLatency (\<lambda>l. DeleteMetrics removedPeers
       (l\<lparr>lcUpstreamServerLabels := deleteLabels removedUpstreams (updateLabels upstreamLabels (lcUpstreamServerLabels l)),
          lcUpstreamServerPeerLabels := deleteLabels removedPeers (updateLabels peerLabels (lcUpstreamServerPeerLabels l))\<rparr>))"

definition refreshUpstreamLabels ::
    "string list gomap \<Rightarrow> string list gomap \<Rightarrow> string list \<Rightarrow> string list \<Rightarrow> metricState \<Rightarrow> metricState" where
  "refreshUpstreamLabels upstreamLabels peerLabels removedUpstreams removedPeers m =
     m\<lparr>meLabels := (meLabels m)
        \<lparr>luUpstreamServerLabels := deleteLabels removedUpstreams (updateLabels upstreamLabels (luUpstreamServerLabels (meLabels m))),
         luUpstreamServerPeerLabels := deleteLabels removedPeers (updateLabels peerLabels (luUpstreamServerPeerLabels (meLabels m)))\<rparr>\<rparr>"

definition refreshZoneLabels :: "string list gomap \<Rightarrow> string list \<Rightarrow> metricState \<Rightarrow> metricState" where
  "refreshZoneLabels zoneLabels removedZones m =
     m\<lparr>meLabels := (meLabels m)
        \<lparr>luServerZoneLabels := deleteLabels removedZones (updateLabels zoneLabels (luServerZoneLabels (meLabels m)))\<rparr>\<rparr>"

definition refreshStreamLabels ::
    "string list gomap \<Rightarrow> string list gomap \<Rightarrow> string list gomap \<Rightarrow> string list \<Rightarrow> string list \<Rightarrow> string list
       \<Rightarrow> metricState \<Rightarrow> metricState" where
  "refreshStreamLabels upstreamLabels peerLabels zoneLabels removedUpstreams removedPeers removedZones m =
     m\<lparr>meLabels := (meLabels m)
        \<lparr>luStreamUpstreamServerLabels := deleteLabels removedUpstreams (updateLabels upstreamLabels (luStreamUpstreamServerLabels (meLabels m))),
         luStreamUpstreamServerPeerLabels := deleteLabels removedPeers (updateLabels peerLabels (luStreamUpstreamServerPeerLabels (meLabels m))),
         luStreamServerZoneLabels := deleteLabels removedZones (updateLabels zoneLabels (luStreamServerZoneLabels (meLabels m)))\<rparr>\<rparr>"

definition upstreamLabelValues :: "UpstreamLabels \<Rightarrow> string list" where
  "upstreamLabelValues l = [ulService l, ulResourceType l, ulResourceName l, ulResourceNamespace l]"

definition podLabelValues :: "bool \<Rightarrow> PodInfo gomap \<Rightarrow> string \<Rightarrow> string list" where
  "podLabelValues mesh podsByIP address =
     (let (name, ownerType, ownerName) =
        (case gget podsByIP address of
           None \<Rightarrow> ('''', '''', '''')
         | Some p \<Rightarrow> (piName p, moOwnerType (piMeshPodOwner p), moOwnerName (piMeshPodOwner p)))
      in name # (if mesh then [ownerType @ ''/'' @ ownerName] else []))"

section \<open>Ingresses\<close>

definition ingressPeers :: "Upstream1 list \<Rightarrow> (string \<times> string) list" where
  "ingressPeers upstreams =
     concat (map (\<lambda>u. map (\<lambda>s. let address = us1Address s @ '':'' @ us1Port s in (u1Name u @ ''/'' @ address, address)) (u1UpstreamServers u)) upstreams)"

definition ingressUpstreamLabels :: "Upstream1 list \<Rightarrow> string list gomap" where
  "ingressUpstreamLabels upstreams =
     map (\<lambda>u. (u1Name u, [ul1Service (u1UpstreamLabels u), ul1ResourceType (u1UpstreamLabels u),
        ul1ResourceName (u1UpstreamLabels u), ul1ResourceNamespace (u1UpstreamLabels u)])) upstreams"

definition updateIngressMetricsLabels :: "bool \<Rightarrow> bool \<Rightarrow> IngressEx \<Rightarrow> Upstream1 list \<Rightarrow> metricState \<Rightarrow> metricState" where
  "updateIngressMetricsLabels isPlus mesh ingEx upstreams m =
     (let ing = ixIngress ingEx; key = omNamespace (ingMeta ing) @ ''/'' @ omName (ingMeta ing);
          labels = ingressUpstreamLabels upstreams;
          peers = ingressPeers upstreams;
          peerLabels = map (\<lambda>(k, address). (k, podLabelValues mesh (ixPodsByIP ingEx) address)) peers;
          index = meIndex m;
          removedUpstreams = findRemovedKeys (labelsOf (mlIngressUpstreams index) key) (map fst labels);
          removedPeers = findRemovedKeys (labelsOf (mlIngressUpstreamPeers index) key) (map fst peers);
          m1 = refreshLatency labels peerLabels removedUpstreams removedPeers
                 (m\<lparr>meIndex := index\<lparr>mlIngressUpstreams := gput key (map fst labels) (mlIngressUpstreams index),
                                     mlIngressUpstreamPeers := gput key (map fst peers) (mlIngressUpstreamPeers index)\<rparr>\<rparr>)
      in if isPlus then
           (let m2 = refreshUpstreamLabels labels peerLabels removedUpstreams removedPeers m1;
                zones = map irHost (isRules (ingSpec ing));
                zoneLabels = map (\<lambda>host. (host, [''ingress'', omName (ingMeta ing), omNamespace (ingMeta ing)])) zones;
                removedZones = findRemovedKeys (labelsOf (mlIngressServerZones index) key) zones
            in refreshZoneLabels zoneLabels removedZones
                 (m2\<lparr>meIndex := (meIndex m2)\<lparr>mlIngressServerZones := gput key zones (mlIngressServerZones (meIndex m2))\<rparr>\<rparr>))
         else m1)"

definition deleteIngressMetricsLabels :: "bool \<Rightarrow> string \<Rightarrow> metricState \<Rightarrow> metricState" where
  "deleteIngressMetricsLabels isPlus key m =
     (let index = meIndex m;
          upstreams = labelsOf (mlIngressUpstreams index) key;
          peers = labelsOf (mlIngressUpstreamPeers index) key;
          m1 = refreshLatency [] [] upstreams peers m;
          m2 = (if isPlus then refreshZoneLabels [] (labelsOf (mlIngressServerZones index) key) (refreshUpstreamLabels [] [] upstreams peers m1)
                else m1)
      in m2\<lparr>meIndex := index\<lparr>mlIngressUpstreams := gdel key (mlIngressUpstreams index),
                              mlIngressServerZones := gdel key (mlIngressServerZones index),
                              mlIngressUpstreamPeers := gdel key (mlIngressUpstreamPeers index)\<rparr>\<rparr>)"

section \<open>VirtualServers\<close>

definition virtualServerPeers :: "Upstream2 list \<Rightarrow> (string \<times> string) list" where
  "virtualServerPeers upstreams =
     concat (map (\<lambda>u. map (\<lambda>s. (u2Name u @ ''/'' @ usAddress s, usAddress s)) (u2Servers u)) upstreams)"

definition updateVirtualServerMetricsLabels :: "bool \<Rightarrow> bool \<Rightarrow> VirtualServerEx \<Rightarrow> Upstream2 list \<Rightarrow> metricState \<Rightarrow> metricState" where
  "updateVirtualServerMetricsLabels isPlus mesh vsEx upstreams m =
     (let vs = vxVirtualServer vsEx; key = omNamespace (vsMeta vs) @ ''/'' @ omName (vsMeta vs);
          labels = map (\<lambda>u. (u2Name u, upstreamLabelValues (u2UpstreamLabels u))) upstreams;
          peers = virtualServerPeers upstreams;
          peerLabels = map (\<lambda>(k, address). (k, podLabelValues mesh (vxPodsByIP vsEx) address)) peers;
          index = meIndex m;
          removedPeers = findRemovedKeys (labelsOf (mlVirtualServerUpstreamPeers index) key) (map fst peers);
          removedUpstreams = findRemovedKeys (labelsOf (mlVirtualServerUpstreams index) key) (map fst labels);
          m1 = refreshLatency labels peerLabels removedUpstreams removedPeers
                 (m\<lparr>meIndex := index\<lparr>mlVirtualServerUpstreams := gput key (map fst labels) (mlVirtualServerUpstreams index),
                                     mlVirtualServerUpstreamPeers := gput key (map fst peers) (mlVirtualServerUpstreamPeers index)\<rparr>\<rparr>)
      in if isPlus then
           (let m2 = refreshUpstreamLabels labels peerLabels removedUpstreams removedPeers m1;
                host = vssHost (vsSpec vs);
                removedZones = findRemovedKeys (labelsOf (mlVirtualServerServerZones index) key) [host]
            in refreshZoneLabels [(host, [''virtualserver'', omName (vsMeta vs), omNamespace (vsMeta vs)])] removedZones
                 (m2\<lparr>meIndex := (meIndex m2)\<lparr>mlVirtualServerServerZones := gput key [host] (mlVirtualServerServerZones (meIndex m2))\<rparr>\<rparr>))
         else m1)"

definition deleteVirtualServerMetricsLabels :: "bool \<Rightarrow> string \<Rightarrow> metricState \<Rightarrow> metricState" where
  "deleteVirtualServerMetricsLabels isPlus key m =
     (let index = meIndex m;
          upstreams = labelsOf (mlVirtualServerUpstreams index) key;
          peers = labelsOf (mlVirtualServerUpstreamPeers index) key;
          m1 = refreshLatency [] [] upstreams peers m;
          m2 = (if isPlus then refreshZoneLabels [] (labelsOf (mlVirtualServerServerZones index) key) (refreshUpstreamLabels [] [] upstreams peers m1)
                else m1)
      in m2\<lparr>meIndex := index\<lparr>mlVirtualServerUpstreams := gdel key (mlVirtualServerUpstreams index),
                              mlVirtualServerServerZones := gdel key (mlVirtualServerServerZones index),
                              mlVirtualServerUpstreamPeers := gdel key (mlVirtualServerUpstreamPeers index)\<rparr>\<rparr>)"

section \<open>TransportServers\<close>

definition transportServerPeers :: "StreamUpstream list \<Rightarrow> (string \<times> string) list" where
  "transportServerPeers upstreams =
     concat (map (\<lambda>u. map (\<lambda>s. (suName u @ ''/'' @ ssvAddress s, ssvAddress s)) (suServers u)) upstreams)"

definition updateTransportServerMetricsLabels :: "TransportServerEx \<Rightarrow> StreamUpstream list \<Rightarrow> metricState \<Rightarrow> metricState" where
  "updateTransportServerMetricsLabels tsEx upstreams m =
     (let ts = txTransportServer tsEx; key = omNamespace (tsMeta ts) @ ''/'' @ omName (tsMeta ts);
          labels = map (\<lambda>u. (suName u, upstreamLabelValues (suUpstreamLabels u))) upstreams;
          peers = transportServerPeers upstreams;
          peerLabels = map (\<lambda>(k, address). (k, [case gget (txPodsByIP tsEx) address of None \<Rightarrow> '''' | Some pod \<Rightarrow> pod])) peers;
          index = meIndex m;
          removedPeers = findRemovedKeys (labelsOf (mlTransportServerUpstreamPeers index) key) (map fst peers);
          removedUpstreams = findRemovedKeys (labelsOf (mlTransportServerUpstreams index) key) (map fst labels);
          zone = (if tssHost (tsSpec ts) \<noteq> '''' then tssHost (tsSpec ts) else tslName (tssListener (tsSpec ts)));
          removedZones = findRemovedKeys (labelsOf (mlTransportServerServerZones index) key) [zone]
      in refreshStreamLabels labels peerLabels [(zone, [''transportserver'', omName (tsMeta ts), omNamespace (tsMeta ts)])]
           removedUpstreams removedPeers removedZones
           (m\<lparr>meIndex := index\<lparr>mlTransportServerUpstreamPeers := gput key (map fst peers) (mlTransportServerUpstreamPeers index),
                               mlTransportServerUpstreams := gput key (map fst labels) (mlTransportServerUpstreams index),
                               mlTransportServerServerZones := gput key [zone] (mlTransportServerServerZones index)\<rparr>\<rparr>))"

definition deleteTransportServerMetricsLabels :: "string \<Rightarrow> metricState \<Rightarrow> metricState" where
  "deleteTransportServerMetricsLabels key m =
     (let index = meIndex m
      in refreshStreamLabels [] [] [] (labelsOf (mlTransportServerUpstreams index) key)
           (labelsOf (mlTransportServerUpstreamPeers index) key) (labelsOf (mlTransportServerServerZones index) key)
           (m\<lparr>meIndex := index\<lparr>mlTransportServerUpstreams := gdel key (mlTransportServerUpstreams index),
                               mlTransportServerServerZones := gdel key (mlTransportServerServerZones index),
                               mlTransportServerUpstreamPeers := gdel key (mlTransportServerUpstreamPeers index)\<rparr>\<rparr>))"


end
