(* ===== verification/Configurator.thy ===== *)
theory Configurator
  imports Nginx_Manager Metric_Labels Ingress_Config Config_Parsing VS_Config
begin

text \<open>
  The Configurator (internal/configs/configurator.go): its state, the generation and the writing of
  the configuration of every resource, deletions, updates of endpoints, of the ConfigMap, of
  App Protect resources and of special secrets. Each operation returns warnings, an error or none, and
  the new state, and None where the code panics. The templates and the encoding to JSON are
  arguments; the template of the hosts of TLS passthrough is part of the code and written out.
\<close>

section \<open>State\<close>

record templates =
  teParse :: "string \<Rightarrow> string option"
  teMain :: "string option \<Rightarrow> MainConfig \<Rightarrow> string + string"
  teIngress :: "string option \<Rightarrow> IngressNginxConfig \<Rightarrow> string + string"
  teVirtualServer :: "string option \<Rightarrow> VirtualServerConfig \<Rightarrow> string + string"
  teTransportServer :: "TransportServerConfig \<Rightarrow> string + string"
  teMarshal :: "json gomap option \<Rightarrow> string"

record configuratorEnv =
  ceWorld :: nginxWorld
  ceTemplates :: templates

record tlsPassthroughPair =
  tpHost :: string
  tpUnixSocket :: string

record Configurator =
  cnManager :: LocalManager
  cnStatic :: StaticConfigParams
  cnCfgParams :: ConfigParams
  cnGlobalCfgParams :: GlobalConfigParams
  cnMainTemplate :: "string option"
  cnIngressTemplate :: "string option"
  cnVirtualServerTemplate :: "string option"
  cnIngresses :: "IngressEx gomap"
  cnMinions :: "bool gomap gomap"
  cnVirtualServers :: "VirtualServerEx gomap"
  cnPairs :: "tlsPassthroughPair gomap"
  cnIsWildcardEnabled :: bool
  cnIsPlus :: bool
  cnIsPrometheusEnabled :: bool
  cnIsLatencyMetricsEnabled :: bool
  cnMetrics :: metricState
  cnPathWrites :: "string gomap"

text \<open>
  The last field is not one of the code: it lists the paths that the Configurator writes into
  references to secrets, which it shares with the store of secrets.
\<close>

definition NewConfigurator ::
    "LocalManager \<Rightarrow> StaticConfigParams \<Rightarrow> ConfigParams \<Rightarrow> GlobalConfigParams \<Rightarrow> bool \<Rightarrow> bool \<Rightarrow> LabelUpdater
       \<Rightarrow> bool \<Rightarrow> LatencyCollector option \<Rightarrow> bool \<Rightarrow> Configurator" where
  "NewConfigurator manager static config globalParams isPlus isWildcardEnabled labels isPrometheusEnabled latency isLatencyMetricsEnabled =
     \<lparr>cnManager = manager, cnStatic = static, cnCfgParams = config, cnGlobalCfgParams = globalParams,
      cnMainTemplate = None, cnIngressTemplate = None, cnVirtualServerTemplate = None,
      cnIngresses = [], cnMinions = [], cnVirtualServers = [], cnPairs = [],
      cnIsWildcardEnabled = isWildcardEnabled, cnIsPlus = isPlus, cnIsPrometheusEnabled = isPrometheusEnabled,
      cnIsLatencyMetricsEnabled = isLatencyMetricsEnabled,
      cnMetrics = \<lparr>meLabels = labels, meLatency = latency, meIndex = newMetricLabelsIndex\<rparr>,
      cnPathWrites = []\<rparr>"

definition onManager :: "(LocalManager \<Rightarrow> LocalManager) \<Rightarrow> Configurator \<Rightarrow> Configurator" where
  "onManager f cnf = cnf\<lparr>cnManager := f (cnManager cnf)\<rparr>"

definition onMetrics :: "bool \<Rightarrow> (metricState \<Rightarrow> metricState) \<Rightarrow> Configurator \<Rightarrow> Configurator" where
  "onMetrics enabled f cnf = (if enabled then cnf\<lparr>cnMetrics := f (cnMetrics cnf)\<rparr> else cnf)"

definition httpMetrics :: "Configurator \<Rightarrow> bool" where
  "httpMetrics cnf \<longleftrightarrow> (cnIsPlus cnf \<and> cnIsPrometheusEnabled cnf) \<or> cnIsLatencyMetricsEnabled cnf"

section \<open>Results\<close>

datatype warnedObject = WarnedIngress ObjectMeta | WarnedOwner runtimeOwner

type_synonym cnfWarnings = "(warnedObject \<times> string list) list"
type_synonym cnfResult = "(cnfWarnings \<times> string option \<times> Configurator) option"

definition warningsAdd :: "cnfWarnings \<Rightarrow> cnfWarnings \<Rightarrow> cnfWarnings" where
  "warningsAdd warnings w = fold (\<lambda>(k, v). AList.update k v) warnings w"

definition ingressWarnings :: "(Ingress \<times> string list) list \<Rightarrow> cnfWarnings" where
  "ingressWarnings ws = map (\<lambda>(ing, msgs). (WarnedIngress (ingMeta ing), msgs)) (filter (\<lambda>(_, msgs). msgs \<noteq> []) ws)"

definition ownerWarnings :: "Warnings \<Rightarrow> cnfWarnings" where
  "ownerWarnings ws = map (\<lambda>(owner, msgs). (WarnedOwner owner, msgs)) ws"

definition andThen :: "cnfResult \<Rightarrow> (cnfWarnings \<Rightarrow> Configurator \<Rightarrow> cnfResult) \<Rightarrow> cnfResult" where
  "andThen r f = (case r of None \<Rightarrow> None | Some (ws, Some err, cnf) \<Rightarrow> Some (ws, Some err, cnf) | Some (ws, None, cnf) \<Rightarrow> f ws cnf)"

text \<open>The loop over resources: their warnings are added up, the first error ends it.\<close>

fun addEach ::
    "('x \<Rightarrow> Configurator \<Rightarrow> cnfResult) \<Rightarrow> ('x \<Rightarrow> string \<Rightarrow> string) \<Rightarrow> 'x list \<Rightarrow> cnfWarnings \<Rightarrow> Configurator \<Rightarrow> cnfResult" where
  "addEach f message [] ws cnf = Some (ws, None, cnf)"
| "addEach f message (x # xs) ws cnf =
     (case f x cnf of
        None \<Rightarrow> None
      | Some (_, Some err, cnf') \<Rightarrow> Some (ws, Some (message x err), cnf')
      | Some (w, None, cnf') \<Rightarrow> addEach f message xs (warningsAdd w ws) cnf')"

text \<open>An operation for one resource, and a reload where it succeeds.\<close>

definition cnfReload :: "configuratorEnv \<Rightarrow> string \<Rightarrow> Configurator \<Rightarrow> string option \<times> Configurator" where
  "cnfReload env message cnf =
     (case Reload (ceWorld env) (cnManager cnf) of
        (err, manager) \<Rightarrow> (map_option (\<lambda>e. message @ '': '' @ e) err, cnf\<lparr>cnManager := manager\<rparr>))"

definition reloadAfter :: "configuratorEnv \<Rightarrow> string \<Rightarrow> cnfWarnings \<Rightarrow> Configurator \<Rightarrow> cnfResult" where
  "reloadAfter env message ws cnf = (case cnfReload env message cnf of (err, cnf') \<Rightarrow> Some (ws, err, cnf'))"

definition withMessage :: "string \<Rightarrow> cnfResult \<Rightarrow> cnfResult" where
  "withMessage message r = map_option (\<lambda>(ws, err, cnf). (ws, map_option (\<lambda>e. message @ '': '' @ e) err, cnf)) r"

definition nsName :: "ObjectMeta \<Rightarrow> string" where
  "nsName m = omNamespace m @ ''/'' @ omName m"

section \<open>Names of files\<close>

definition getFileNameForVirtualServer :: "VirtualServer \<Rightarrow> string" where
  "getFileNameForVirtualServer vs = ''vs_'' @ omNamespace (vsMeta vs) @ ''_'' @ omName (vsMeta vs)"

definition getFileNameForTransportServer :: "TransportServer \<Rightarrow> string" where
  "getFileNameForTransportServer ts = ''ts_'' @ omNamespace (tsMeta ts) @ ''_'' @ omName (tsMeta ts)"

definition getFileNameForVirtualServerFromKey :: "string \<Rightarrow> string" where
  "getFileNameForVirtualServerFromKey key = ''vs_'' @ replaceChar (CHR ''/'') (CHR ''_'') key"

definition getFileNameForTransportServerFromKey :: "string \<Rightarrow> string" where
  "getFileNameForTransportServerFromKey key = ''ts_'' @ replaceChar (CHR ''/'') (CHR ''_'') key"

section \<open>App Protect resources\<close>

definition appProtectPolicyFolder :: string where "appProtectPolicyFolder = ''/etc/nginx/waf/nac-policies/''"
definition appProtectLogConfFolder :: string where "appProtectLogConfFolder = ''/etc/nginx/waf/nac-logconfs/''"
definition appProtectUserSigFolder :: string where "appProtectUserSigFolder = ''/etc/nginx/waf/nac-usersigs/''"
definition appProtectUserSigIndex :: string where "appProtectUserSigIndex = ''/etc/nginx/waf/nac-usersigs/index.conf''"

definition appProtectPolicyFileNameFromUnstruct :: "unstructured \<Rightarrow> string" where
  "appProtectPolicyFileNameFromUnstruct u = appProtectPolicyFolder @ usGetNamespace u @ ''_'' @ usGetName u"

definition appProtectLogConfFileNameFromUnstruct :: "unstructured \<Rightarrow> string" where
  "appProtectLogConfFileNameFromUnstruct u = appProtectLogConfFolder @ usGetNamespace u @ ''_'' @ usGetName u"

definition appProtectUserSigFileNameFromUnstruct :: "unstructured \<Rightarrow> string" where
  "appProtectUserSigFileNameFromUnstruct u = appProtectUserSigFolder @ usGetNamespace u @ ''_'' @ usGetName u"

definition generateApResourceFileContent :: "configuratorEnv \<Rightarrow> unstructured \<Rightarrow> string" where
  "generateApResourceFileContent env u =
     teMarshal (ceTemplates env) (case NestedMap u [''spec''] of Inr (Some spec) \<Rightarrow> Some spec | _ \<Rightarrow> None)"

definition updateApResources :: "configuratorEnv \<Rightarrow> IngressEx \<Rightarrow> LocalManager \<Rightarrow> string gomap \<times> LocalManager" where
  "updateApResources env ingEx lm =
     (let (res1, lm1) =
            (case ixAppProtectPolicy ingEx of
               None \<Rightarrow> ([], lm)
             | Some policy \<Rightarrow>
                 (let name = appProtectPolicyFileNameFromUnstruct policy
                  in (gput appProtectPolicyKey name [],
                      CreateAppProtectResourceFile name (generateApResourceFileContent env policy) lm)))
      in case ixAppProtectLogConf ingEx of
           None \<Rightarrow> (res1, lm1)
         | Some logConf \<Rightarrow>
             (let name = appProtectLogConfFileNameFromUnstruct logConf
              in (gput appProtectLogConfKey (name @ '' '' @ ixAppProtectLogDst ingEx) res1,
                  CreateAppProtectResourceFile name (generateApResourceFileContent env logConf) lm1)))"

definition updateApResourcesForVs :: "configuratorEnv \<Rightarrow> VirtualServerEx \<Rightarrow> LocalManager \<Rightarrow> string gomap \<times> LocalManager" where
  "updateApResourcesForVs env vsEx lm =
     (let store = (\<lambda>fileName (key, u) (res, m).
            (gput key (fileName u) res, CreateAppProtectResourceFile (fileName u) (generateApResourceFileContent env u) m))
      in fold (store appProtectLogConfFileNameFromUnstruct) (vxLogConfRefs vsEx)
           (fold (store appProtectPolicyFileNameFromUnstruct) (vxApPolRefs vsEx) ([], lm)))"

section \<open>Ingresses\<close>

definition cnfResolver :: "Configurator \<Rightarrow> bool" where
  "cnfResolver cnf = (cpResolverAddresses (cnCfgParams cnf) \<noteq> [])"

text \<open>
  The path of the secret of the annotation is set whether or not its file exists. The reference is
  that of the store, where the store has one. Without a reference the code dereferences nil.
\<close>

definition setJWTPath :: "LocalManager \<Rightarrow> IngressEx \<Rightarrow> IngressEx option" where
  "setJWTPath lm ingEx =
     (let m = ingMeta (ixIngress ingEx) in
      case gget (omAnnotations m) JWTKeyAnnotation of
        None \<Rightarrow> Some ingEx
      | Some jwtKey \<Rightarrow>
          map_option (\<lambda>ref. ingEx\<lparr>ixSecretRefs :=
              gput jwtKey (ref\<lparr>srPath := lmGetFilenameForSecret (omNamespace m @ ''-'' @ jwtKey) lm\<rparr>) (ixSecretRefs ingEx)\<rparr>)
            (gget (ixSecretRefs ingEx) jwtKey))"

definition pathWrites :: "LocalManager \<Rightarrow> IngressEx list \<Rightarrow> string gomap" where
  "pathWrites lm ixs =
     concat (map (\<lambda>ix. let m = ingMeta (ixIngress ix) in
       case gget (omAnnotations m) JWTKeyAnnotation of
         None \<Rightarrow> []
       | Some jwtKey \<Rightarrow> [(omNamespace m @ ''/'' @ jwtKey, lmGetFilenameForSecret (omNamespace m @ ''-'' @ jwtKey) lm)]) ixs)"

definition addOrUpdateIngress :: "configuratorEnv \<Rightarrow> IngressEx \<Rightarrow> Configurator \<Rightarrow> cnfResult" where
  "addOrUpdateIngress env ingEx0 cnf0 =
     (let (apResources, manager) = updateApResources env ingEx0 (cnManager cnf0);
          cnf = cnf0\<lparr>cnManager := manager, cnPathWrites := cnPathWrites cnf0 @ pathWrites manager [ingEx0]\<rparr>
      in case setJWTPath manager ingEx0 of
           None \<Rightarrow> None
         | Some ingEx \<Rightarrow>
             (case generateNginxCfg ingEx apResources False (cnCfgParams cnf) (cnIsPlus cnf) (cnfResolver cnf)
                     (cnStatic cnf) (cnIsWildcardEnabled cnf) of
                None \<Rightarrow> None
              | Some (nginxCfg, msgs) \<Rightarrow>
                  (let warnings = ingressWarnings [(ixIngress ingEx, msgs)];
                       name = objectMetaToFileName (ingMeta (ixIngress ingEx))
                   in case teIngress (ceTemplates env) (cnIngressTemplate cnf) nginxCfg of
                        Inl err \<Rightarrow> Some (warnings, Some (''Error generating Ingress Config '' @ name @ '': '' @ err), cnf)
                      | Inr content \<Rightarrow>
                          Some (warnings, None,
                            onMetrics (httpMetrics cnf)
                              (updateIngressMetricsLabels (cnIsPlus cnf) (stNginxServiceMesh (cnStatic cnf)) ingEx (incUpstreams nginxCfg))
                              ((onManager (CreateConfig name content) cnf)
                                 \<lparr>cnIngresses := gput name ingEx (cnIngresses cnf)\<rparr>)))))"

definition minionSet :: "IngressEx list \<Rightarrow> bool gomap" where
  "minionSet minions = fold (\<lambda>m. gput (objectMetaToFileName (ingMeta (ixIngress m))) True) minions []"

definition setJWTPaths :: "LocalManager \<Rightarrow> MergeableIngresses \<Rightarrow> MergeableIngresses option" where
  "setJWTPaths lm mi =
     (case setJWTPath lm (miMaster mi) of
        None \<Rightarrow> None
      | Some master \<Rightarrow> map_option (\<lambda>minions. \<lparr>miMaster = master, miMinions = minions\<rparr>) (mapOpt (setJWTPath lm) (miMinions mi)))"

definition addOrUpdateMergeableIngress :: "configuratorEnv \<Rightarrow> MergeableIngresses \<Rightarrow> Configurator \<Rightarrow> cnfResult" where
  "addOrUpdateMergeableIngress env mi0 cnf0 =
     (let (apResources, manager) = updateApResources env (miMaster mi0) (cnManager cnf0);
          cnf = cnf0\<lparr>cnManager := manager, cnPathWrites := cnPathWrites cnf0 @ pathWrites manager (miMaster mi0 # miMinions mi0)\<rparr>
      in case setJWTPaths manager mi0 of
           None \<Rightarrow> None
         | Some mi1 \<Rightarrow>
             (case generateNginxCfgForMergeableIngresses mi1 apResources (cnCfgParams cnf) (cnIsPlus cnf) (cnfResolver cnf)
                     (cnStatic cnf) (cnIsWildcardEnabled cnf) of
                None \<Rightarrow> None
              | Some (nginxCfg, msgs, mi) \<Rightarrow>
                  (let warnings = ingressWarnings msgs;
                       name = objectMetaToFileName (ingMeta (ixIngress (miMaster mi)))
                   in case teIngress (ceTemplates env) (cnIngressTemplate cnf) nginxCfg of
                        Inl err \<Rightarrow> Some (warnings, Some (''Error generating Ingress Config '' @ name @ '': '' @ err), cnf)
                      | Inr content \<Rightarrow>
                          Some (warnings, None,
                            onMetrics (httpMetrics cnf)
                              (updateIngressMetricsLabels (cnIsPlus cnf) (stNginxServiceMesh (cnStatic cnf)) (miMaster mi) (incUpstreams nginxCfg))
                              ((onManager (CreateConfig name content) cnf)
                                 \<lparr>cnIngresses := gput name (miMaster mi) (cnIngresses cnf),
                                  cnMinions := gput name (minionSet (miMinions mi)) (cnMinions cnf)\<rparr>)))))"

definition cnfAddOrUpdateIngress :: "configuratorEnv \<Rightarrow> IngressEx \<Rightarrow> Configurator \<Rightarrow> cnfResult" where
  "cnfAddOrUpdateIngress env ingEx cnf =
     (let key = nsName (ingMeta (ixIngress ingEx)) in
      andThen (withMessage (''Error adding or updating ingress '' @ key) (addOrUpdateIngress env ingEx cnf))
        (reloadAfter env (''Error reloading NGINX for '' @ key)))"

definition cnfAddOrUpdateMergeableIngress :: "configuratorEnv \<Rightarrow> MergeableIngresses \<Rightarrow> Configurator \<Rightarrow> cnfResult" where
  "cnfAddOrUpdateMergeableIngress env mi cnf =
     (let key = nsName (ingMeta (ixIngress (miMaster mi))) in
      andThen (withMessage (''Error when adding or updating ingress '' @ key) (addOrUpdateMergeableIngress env mi cnf))
        (reloadAfter env (''Error reloading NGINX for '' @ key)))"

section \<open>VirtualServers\<close>

definition addOrUpdateVirtualServer :: "configuratorEnv \<Rightarrow> VirtualServerEx \<Rightarrow> Configurator \<Rightarrow> cnfResult" where
  "addOrUpdateVirtualServer env vsEx cnf0 =
     (let (apResources, manager) = updateApResourcesForVs env vsEx (cnManager cnf0);
          cnf = cnf0\<lparr>cnManager := manager\<rparr>;
          name = getFileNameForVirtualServer (vxVirtualServer vsEx);
          vsc = newVirtualServerConfigurator (cnCfgParams cnf) (cnIsPlus cnf) (cnfResolver cnf) (cnStatic cnf)
      in case GenerateVirtualServerConfig vsEx apResources vsc of
           None \<Rightarrow> None
         | Some (vsCfg, ws, _) \<Rightarrow>
             (case teVirtualServer (ceTemplates env) (cnVirtualServerTemplate cnf) vsCfg of
                Inl err \<Rightarrow> Some (ownerWarnings ws, Some (''Error generating VirtualServer config: '' @ name @ '': '' @ err), cnf)
              | Inr content \<Rightarrow>
                  Some (ownerWarnings ws, None,
                    onMetrics (httpMetrics cnf)
                      (updateVirtualServerMetricsLabels (cnIsPlus cnf) (stNginxServiceMesh (cnStatic cnf)) vsEx (vcUpstreams vsCfg))
                      ((onManager (CreateConfig name content) cnf)
                         \<lparr>cnVirtualServers := gput name vsEx (cnVirtualServers cnf)\<rparr>))))"

definition cnfAddOrUpdateVirtualServer :: "configuratorEnv \<Rightarrow> VirtualServerEx \<Rightarrow> Configurator \<Rightarrow> cnfResult" where
  "cnfAddOrUpdateVirtualServer env vsEx cnf =
     (let key = nsName (vsMeta (vxVirtualServer vsEx)) in
      andThen (withMessage (''Error adding or updating VirtualServer '' @ key) (addOrUpdateVirtualServer env vsEx cnf))
        (reloadAfter env (''Error reloading NGINX for VirtualServer '' @ key)))"

definition cnfAddOrUpdateVirtualServers :: "configuratorEnv \<Rightarrow> VirtualServerEx list \<Rightarrow> Configurator \<Rightarrow> cnfResult" where
  "cnfAddOrUpdateVirtualServers env vsExes cnf =
     andThen (addEach (addOrUpdateVirtualServer env) (\<lambda>_ err. err) vsExes [] cnf)
       (reloadAfter env ''Error when reloading NGINX when updating Policy'')"

definition GetVirtualServerRoutesForVirtualServer :: "string \<Rightarrow> Configurator \<Rightarrow> VirtualServerRoute list" where
  "GetVirtualServerRoutesForVirtualServer key cnf =
     (case gget (cnVirtualServers cnf) (getFileNameForVirtualServerFromKey key) of
        None \<Rightarrow> [] | Some vsEx \<Rightarrow> vxVirtualServerRoutes vsEx)"

section \<open>TransportServers\<close>

text \<open>
  The hosts of TLS passthrough: of two TransportServers with the same host the map keeps one (in the
  code an arbitrary one, here the last). The template lists the entries by their hosts.
\<close>

definition generateTLSPassthroughHostsConfig :: "tlsPassthroughPair gomap \<Rightarrow> string gomap" where
  "generateTLSPassthroughHostsConfig pairs = fold (\<lambda>(_, p). gput (tpHost p) (tpUnixSocket p)) pairs []"

definition ExecuteTLSPassthroughHostsTemplate :: "string gomap \<Rightarrow> string" where
  "ExecuteTLSPassthroughHostsTemplate cfg =
     ''# mapping between TLS Passthrough hosts and unix sockets'' @ versionNewline
     @ concat (map (\<lambda>h. versionNewline @ h @ '' '' @ (case gget cfg h of None \<Rightarrow> '''' | Some u \<Rightarrow> u) @ '';'' @ versionNewline) (sortedKeys cfg))
     @ versionNewline"

definition updateTLSPassthroughHostsConfig :: "Configurator \<Rightarrow> Configurator" where
  "updateTLSPassthroughHostsConfig cnf =
     onManager (CreateTLSPassthroughHostsConfig
       (ExecuteTLSPassthroughHostsTemplate (generateTLSPassthroughHostsConfig (cnPairs cnf)))) cnf"

definition addOrUpdateTransportServer :: "configuratorEnv \<Rightarrow> TransportServerEx \<Rightarrow> Configurator \<Rightarrow> cnfResult" where
  "addOrUpdateTransportServer env tsEx cnf =
     (let ts = txTransportServer tsEx; name = getFileNameForTransportServer ts in
      case generateTransportServerConfig tsEx (txListenerPort tsEx) (cnIsPlus cnf) of
        None \<Rightarrow> None
      | Some tsCfg \<Rightarrow>
          (case teTransportServer (ceTemplates env) tsCfg of
             Inl err \<Rightarrow> Some ([], Some (''Error generating TransportServer config '' @ name @ '': '' @ err), cnf)
           | Inr content \<Rightarrow>
               (let cnf1 = onManager (CreateStreamConfig name content)
                             (onMetrics (cnIsPlus cnf \<and> cnIsPrometheusEnabled cnf)
                               (updateTransportServerMetricsLabels tsEx (tcUpstreams tsCfg)) cnf)
                in Some ([], None,
                     if tssHost (tsSpec ts) \<noteq> ''''
                     then updateTLSPassthroughHostsConfig
                            (cnf1\<lparr>cnPairs := gput (nsName (tsMeta ts))
                               \<lparr>tpHost = tssHost (tsSpec ts), tpUnixSocket = generateUnixSocket tsEx\<rparr> (cnPairs cnf1)\<rparr>)
                     else cnf1))))"

definition cnfAddOrUpdateTransportServer :: "configuratorEnv \<Rightarrow> TransportServerEx \<Rightarrow> Configurator \<Rightarrow> cnfResult" where
  "cnfAddOrUpdateTransportServer env tsEx cnf =
     (let key = nsName (tsMeta (txTransportServer tsEx)) in
      andThen (withMessage (''Error adding or updating TransportServer '' @ key) (addOrUpdateTransportServer env tsEx cnf))
        (reloadAfter env (''Error reloading NGINX for TransportServer '' @ key)))"

section \<open>All resources\<close>

definition ingressMessage :: "IngressEx \<Rightarrow> string \<Rightarrow> string" where
  "ingressMessage ingEx err = ''Error adding or updating ingress '' @ nsName (ingMeta (ixIngress ingEx)) @ '': '' @ err"

definition mergeableMessage :: "MergeableIngresses \<Rightarrow> string \<Rightarrow> string" where
  "mergeableMessage mi err = ''Error adding or updating mergeableIngress '' @ nsName (ingMeta (ixIngress (miMaster mi))) @ '': '' @ err"

definition virtualServerMessage :: "VirtualServerEx \<Rightarrow> string \<Rightarrow> string" where
  "virtualServerMessage vsEx err = ''Error adding or updating VirtualServer '' @ nsName (vsMeta (vxVirtualServer vsEx)) @ '': '' @ err"

definition transportServerMessage :: "TransportServerEx \<Rightarrow> string \<Rightarrow> string" where
  "transportServerMessage tsEx err = ''Error adding or updating TransportServer '' @ nsName (tsMeta (txTransportServer tsEx)) @ '': '' @ err"

record ExtendedResources =
  erIngressExes :: "IngressEx list"
  erMergeableIngresses :: "MergeableIngresses list"
  erVirtualServerExes :: "VirtualServerEx list"
  erTransportServerExes :: "TransportServerEx list"

text \<open>The loops over Ingresses, masters and VirtualServers that several operations share.\<close>

definition addHTTPResources ::
    "configuratorEnv \<Rightarrow> IngressEx list \<Rightarrow> MergeableIngresses list \<Rightarrow> VirtualServerEx list \<Rightarrow> Configurator \<Rightarrow> cnfResult" where
  "addHTTPResources env ingExes mergeables vsExes cnf =
     andThen (addEach (addOrUpdateIngress env) ingressMessage ingExes [] cnf) (\<lambda>ws1 cnf1.
       andThen (addEach (addOrUpdateMergeableIngress env) mergeableMessage mergeables ws1 cnf1) (\<lambda>ws2 cnf2.
         addEach (addOrUpdateVirtualServer env) virtualServerMessage vsExes ws2 cnf2))"

definition AddOrUpdateResources :: "configuratorEnv \<Rightarrow> ExtendedResources \<Rightarrow> Configurator \<Rightarrow> cnfResult" where
  "AddOrUpdateResources env resources cnf =
     andThen (addHTTPResources env (erIngressExes resources) (erMergeableIngresses resources) (erVirtualServerExes resources) cnf)
       (\<lambda>ws1 cnf1. andThen (addEach (addOrUpdateTransportServer env) transportServerMessage (erTransportServerExes resources) ws1 cnf1)
         (reloadAfter env ''Error when reloading NGINX when updating resources''))"

section \<open>Deletion\<close>

definition cnfDeleteIngress :: "configuratorEnv \<Rightarrow> string \<Rightarrow> Configurator \<Rightarrow> string option \<times> Configurator" where
  "cnfDeleteIngress env key cnf =
     (let name = keyToFileName key;
          cnf1 = (onManager (DeleteConfig name) cnf)\<lparr>cnIngresses := gdel name (cnIngresses cnf), cnMinions := gdel name (cnMinions cnf)\<rparr>
      in cnfReload env (''Error when removing ingress '' @ key)
           (onMetrics (httpMetrics cnf) (deleteIngressMetricsLabels (cnIsPlus cnf) key) cnf1))"

definition cnfDeleteVirtualServer :: "configuratorEnv \<Rightarrow> string \<Rightarrow> Configurator \<Rightarrow> string option \<times> Configurator" where
  "cnfDeleteVirtualServer env key cnf =
     (let name = getFileNameForVirtualServerFromKey key;
          cnf1 = (onManager (DeleteConfig name) cnf)\<lparr>cnVirtualServers := gdel name (cnVirtualServers cnf)\<rparr>
      in cnfReload env (''Error when removing VirtualServer '' @ key)
           (onMetrics (httpMetrics cnf) (deleteVirtualServerMetricsLabels (cnIsPlus cnf) key) cnf1))"

definition deleteTransportServer :: "string \<Rightarrow> Configurator \<Rightarrow> Configurator" where
  "deleteTransportServer key cnf =
     (let cnf1 = onManager (DeleteStreamConfig (getFileNameForTransportServerFromKey key)) cnf
      in if ghas (cnPairs cnf1) key then updateTLSPassthroughHostsConfig (cnf1\<lparr>cnPairs := gdel key (cnPairs cnf1)\<rparr>) else cnf1)"

definition cnfDeleteTransportServer :: "configuratorEnv \<Rightarrow> string \<Rightarrow> Configurator \<Rightarrow> string option \<times> Configurator" where
  "cnfDeleteTransportServer env key cnf =
     cnfReload env (''Error when removing TransportServer '' @ key)
       (deleteTransportServer key
         (onMetrics (cnIsPlus cnf \<and> cnIsPrometheusEnabled cnf) (deleteTransportServerMetricsLabels key) cnf))"

definition UpdateTransportServers :: "configuratorEnv \<Rightarrow> TransportServerEx list \<Rightarrow> string list \<Rightarrow> Configurator \<Rightarrow> cnfResult" where
  "UpdateTransportServers env updatedTSExes deletedKeys cnf =
     andThen (addEach (addOrUpdateTransportServer env) transportServerMessage updatedTSExes [] cnf)
       (\<lambda>ws cnf1. reloadAfter env ''Error when updating TransportServers'' ws (fold deleteTransportServer deletedKeys cnf1))"


section \<open>Endpoints\<close>

text \<open>The calls of the NGINX Plus API for one resource: the first that fails ends them.\<close>

fun plusUpdates :: "('x \<Rightarrow> LocalManager \<Rightarrow> string option \<times> LocalManager) \<Rightarrow> 'x list \<Rightarrow> LocalManager \<Rightarrow> string option \<times> LocalManager" where
  "plusUpdates call [] lm = (None, lm)"
| "plusUpdates call (x # xs) lm =
     (case call x lm of (Some err, lm') \<Rightarrow> (Some err, lm') | (None, lm') \<Rightarrow> plusUpdates call xs lm')"

definition endpointsError :: "string \<Rightarrow> string option \<times> LocalManager \<Rightarrow> string option \<times> LocalManager" where
  "endpointsError name r = (case r of (err, lm) \<Rightarrow> (map_option (\<lambda>e. ''Couldn'' @ [CHR 0x27] @ ''t update the endpoints for '' @ name @ '': '' @ e) err, lm))"

definition updatePlusEndpointsForVirtualServer :: "configuratorEnv \<Rightarrow> VirtualServerEx \<Rightarrow> Configurator \<Rightarrow> string option \<times> Configurator" where
  "updatePlusEndpointsForVirtualServer env vsEx cnf =
     (case plusUpdates (\<lambda>upstream lm. endpointsError (u2Name upstream)
              (UpdateServersInPlus (ceWorld env) (u2Name upstream) (createEndpointsFromUpstream upstream)
                (createUpstreamServersConfigForPlus upstream) lm))
            (createUpstreamsForPlus vsEx (cnCfgParams cnf) (cnStatic cnf)) (cnManager cnf) of
        (err, lm) \<Rightarrow> (err, cnf\<lparr>cnManager := lm\<rparr>))"

definition updatePlusEndpointsForTransportServer :: "configuratorEnv \<Rightarrow> TransportServerEx \<Rightarrow> Configurator \<Rightarrow> string option \<times> Configurator" where
  "updatePlusEndpointsForTransportServer env tsEx cnf =
     (let ts = txTransportServer tsEx; namer = newUpstreamNamerForTransportServer ts in
      case plusUpdates (\<lambda>u lm.
              let key = GenerateEndpointsKey (omNamespace (tsMeta ts)) (tuService u) [] (word_of_int (tuPort u));
                  endpoints = (case gget (txEndpoints tsEx) key of None \<Rightarrow> [] | Some es \<Rightarrow> es)
              in endpointsError (tuName u)
                   (UpdateStreamServersInPlus (ceWorld env) (GetNameForUpstream namer (tuName u)) endpoints lm))
            (tssUpstreams (tsSpec ts)) (cnManager cnf) of
        (err, lm) \<Rightarrow> (err, cnf\<lparr>cnManager := lm\<rparr>))"

text \<open>The backends of an Ingress whose endpoints are updated: those known, and not of external services.\<close>

definition plusBackends :: "IngressEx \<Rightarrow> (string \<times> IngressBackend) list" where
  "plusBackends ingEx =
     (let ing = ixIngress ingEx;
          backends = (case isBackend (ingSpec ing) of None \<Rightarrow> [] | Some b \<Rightarrow> [('''', b)])
            @ concat (map (\<lambda>rule. case irHTTP rule of
                  None \<Rightarrow> []
                | Some http \<Rightarrow> map (\<lambda>path. (irHost rule, hpBackend path)) (hrPaths http)) (isRules (ingSpec ing)))
      in filter (\<lambda>(_, b). ghas (ixEndpoints ingEx) (backendKey b) \<and> \<not> ghas (ixExternalNameSvcs ingEx) (ibServiceName b)) backends)"

definition plusServerConfig :: "IngressEx \<Rightarrow> Configurator \<Rightarrow> ServerConfig" where
  "plusServerConfig ingEx cnf =
     (let ingCfg = parseAnnotations ingEx (cnCfgParams cnf) (cnIsPlus cnf) (stMainAppProtectLoadModule (cnStatic cnf))
                     (stEnableInternalRoutes (cnStatic cnf))
      in \<lparr>scfMaxFails = cpMaxFails ingCfg, scfMaxConns = cpMaxConns ingCfg, scfFailTimeout = cpFailTimeout ingCfg,
          scfSlowStart = cpSlowStart ingCfg\<rparr>)"

definition updatePlusEndpoints :: "configuratorEnv \<Rightarrow> IngressEx \<Rightarrow> Configurator \<Rightarrow> string option \<times> Configurator" where
  "updatePlusEndpoints env ingEx cnf =
     (let cfg = plusServerConfig ingEx cnf in
      case plusUpdates (\<lambda>(host, b) lm.
              let name = ingressUpstreamName (ixIngress ingEx) host b;
                  endpoints = (case gget (ixEndpoints ingEx) (backendKey b) of None \<Rightarrow> [] | Some es \<Rightarrow> es)
              in endpointsError name (UpdateServersInPlus (ceWorld env) name endpoints cfg lm))
            (plusBackends ingEx) (cnManager cnf) of
        (err, lm) \<Rightarrow> (err, cnf\<lparr>cnManager := lm\<rparr>))"

text \<open>
  The update of endpoints: the configuration of each resource is written, with NGINX Plus its servers are
  updated by the API, and NGINX is reloaded where it is not NGINX Plus or an API call fails.
\<close>

fun updateEach ::
    "('x \<Rightarrow> Configurator \<Rightarrow> cnfResult) \<Rightarrow> ('x \<Rightarrow> string \<Rightarrow> string) \<Rightarrow> ('x \<Rightarrow> Configurator \<Rightarrow> bool \<times> Configurator)
       \<Rightarrow> 'x list \<Rightarrow> bool \<Rightarrow> Configurator \<Rightarrow> (string option \<times> bool \<times> Configurator) option" where
  "updateEach add message plusUpdate [] reloadPlus cnf = Some (None, reloadPlus, cnf)"
| "updateEach add message plusUpdate (x # xs) reloadPlus cnf =
     (case add x cnf of
        None \<Rightarrow> None
      | Some (_, Some err, cnf') \<Rightarrow> Some (Some (message x err), reloadPlus, cnf')
      | Some (_, None, cnf') \<Rightarrow>
          (if cnIsPlus cnf' then
             (case plusUpdate x cnf' of (failed, cnf'') \<Rightarrow> updateEach add message plusUpdate xs (reloadPlus \<or> failed) cnf'')
           else updateEach add message plusUpdate xs reloadPlus cnf'))"

definition finishEndpoints ::
    "configuratorEnv \<Rightarrow> string \<Rightarrow> (string option \<times> bool \<times> Configurator) option \<Rightarrow> (string option \<times> Configurator) option" where
  "finishEndpoints env message r =
     (case r of
        None \<Rightarrow> None
      | Some (Some err, _, cnf) \<Rightarrow> Some (Some err, cnf)
      | Some (None, reloadPlus, cnf) \<Rightarrow>
          Some (if cnIsPlus cnf \<and> \<not> reloadPlus then (None, cnf) else cnfReload env message cnf))"

definition failedUpdate :: "string option \<times> Configurator \<Rightarrow> bool \<times> Configurator" where
  "failedUpdate r = (case r of (err, cnf) \<Rightarrow> (err \<noteq> None, cnf))"

definition UpdateEndpoints :: "configuratorEnv \<Rightarrow> IngressEx list \<Rightarrow> Configurator \<Rightarrow> (string option \<times> Configurator) option" where
  "UpdateEndpoints env ingExes cnf =
     finishEndpoints env ''Error reloading NGINX when updating endpoints''
       (updateEach (addOrUpdateIngress env) ingressMessage (\<lambda>ix c. failedUpdate (updatePlusEndpoints env ix c)) ingExes False cnf)"

text \<open>
  The minions are those that the generator leaves in the object: without default backends and merged.
  The message of a failed reload also prints the pointers to the objects, which are left out.
\<close>

fun updateMinions :: "configuratorEnv \<Rightarrow> IngressEx list \<Rightarrow> bool \<Rightarrow> Configurator \<Rightarrow> bool \<times> Configurator" where
  "updateMinions env [] failed cnf = (failed, cnf)"
| "updateMinions env (m # ms) failed cnf =
     (case updatePlusEndpoints env m cnf of (err, cnf') \<Rightarrow> updateMinions env ms (failed \<or> err \<noteq> None) cnf')"

definition generatedMinions :: "MergeableIngresses \<Rightarrow> IngressEx list" where
  "generatedMinions mi = map (preparedMinion (preparedMaster (miMaster mi))) (miMinions mi)"

definition UpdateEndpointsMergeableIngress ::
    "configuratorEnv \<Rightarrow> MergeableIngresses list \<Rightarrow> Configurator \<Rightarrow> (string option \<times> Configurator) option" where
  "UpdateEndpointsMergeableIngress env mergeables cnf =
     finishEndpoints env ''Error reloading NGINX when updating endpoints''
       (updateEach (addOrUpdateMergeableIngress env) mergeableMessage (\<lambda>mi. updateMinions env (generatedMinions mi) False)
          mergeables False cnf)"

definition UpdateEndpointsForVirtualServers ::
    "configuratorEnv \<Rightarrow> VirtualServerEx list \<Rightarrow> Configurator \<Rightarrow> (string option \<times> Configurator) option" where
  "UpdateEndpointsForVirtualServers env vsExes cnf =
     finishEndpoints env ''Error reloading NGINX when updating endpoints''
       (updateEach (addOrUpdateVirtualServer env) virtualServerMessage
          (\<lambda>vsEx c. failedUpdate (updatePlusEndpointsForVirtualServer env vsEx c)) vsExes False cnf)"

definition UpdateEndpointsForTransportServers ::
    "configuratorEnv \<Rightarrow> TransportServerEx list \<Rightarrow> Configurator \<Rightarrow> (string option \<times> Configurator) option" where
  "UpdateEndpointsForTransportServers env tsExes cnf =
     finishEndpoints env ''Error reloading NGINX when updating endpoints''
       (updateEach (addOrUpdateTransportServer env) transportServerMessage
          (\<lambda>tsEx c. failedUpdate (updatePlusEndpointsForTransportServer env tsEx c)) tsExes False cnf)"

section \<open>The ConfigMap\<close>

text \<open>An update of a template that does not parse is an error and leaves the template as it was.\<close>

definition updateTemplate :: "configuratorEnv \<Rightarrow> string \<Rightarrow> string option \<Rightarrow> string option \<Rightarrow> string option \<times> string option" where
  "updateTemplate env message new old =
     (case new of
        None \<Rightarrow> (None, old)
      | Some t \<Rightarrow> (case teParse (ceTemplates env) t of Some err \<Rightarrow> (Some (message @ '': '' @ err), old) | None \<Rightarrow> (None, Some t)))"

definition updateDHParam :: "configuratorEnv \<Rightarrow> Configurator \<Rightarrow> string option \<times> Configurator" where
  "updateDHParam env cnf =
     (case cpMainServerSSLDHParamFileContent (cnCfgParams cnf) of
        None \<Rightarrow> (None, cnf)
      | Some content \<Rightarrow>
          (case CreateDHParam (ceWorld env) content (cnManager cnf) of
             (_, Some err, lm) \<Rightarrow> (Some (''Error when updating dhparams: '' @ err), cnf\<lparr>cnManager := lm\<rparr>)
           | (fileName, None, lm) \<Rightarrow>
               (None, cnf\<lparr>cnManager := lm, cnCfgParams := (cnCfgParams cnf)\<lparr>cpMainServerSSLDHParam := fileName\<rparr>\<rparr>)))"

definition updateTemplates :: "configuratorEnv \<Rightarrow> Configurator \<Rightarrow> string option \<times> Configurator" where
  "updateTemplates env cnf =
     (let cfg = cnCfgParams cnf in
      case updateTemplate env ''Error when parsing the main template'' (cpMainTemplate cfg) (cnMainTemplate cnf) of
        (Some err, _) \<Rightarrow> (Some err, cnf)
      | (None, mainT) \<Rightarrow>
          (let cnf1 = cnf\<lparr>cnMainTemplate := mainT\<rparr> in
           case updateTemplate env ''Error when parsing the ingress template'' (cpIngressTemplate cfg) (cnIngressTemplate cnf1) of
             (Some err, _) \<Rightarrow> (Some err, cnf1)
           | (None, ingT) \<Rightarrow>
               (let cnf2 = cnf1\<lparr>cnIngressTemplate := ingT\<rparr> in
                case updateTemplate env ''Error when parsing the VirtualServer template'' (cpVirtualServerTemplate cfg) (cnVirtualServerTemplate cnf2) of
                  (Some err, _) \<Rightarrow> (Some err, cnf2)
                | (None, vsT) \<Rightarrow> (None, cnf2\<lparr>cnVirtualServerTemplate := vsT\<rparr>))))"

definition writeMainConfig :: "configuratorEnv \<Rightarrow> Configurator \<Rightarrow> string option \<times> Configurator" where
  "writeMainConfig env cnf =
     (case teMain (ceTemplates env) (cnMainTemplate cnf) (GenerateNginxMainConfig (cnStatic cnf) (cnCfgParams cnf)) of
        Inl err \<Rightarrow> (Some err, cnf)
      | Inr content \<Rightarrow> (None, onManager (CreateMainConfig content) cnf))"

definition writeTracerConfig :: "configuratorEnv \<Rightarrow> MainConfig \<Rightarrow> Configurator \<Rightarrow> string option \<times> Configurator" where
  "writeTracerConfig env mainCfg cnf =
     (if mcOpenTracingLoadModule mainCfg then
        (case CreateOpenTracingTracerConfig (ceWorld env) (mcOpenTracingTracerConfig mainCfg) (cnManager cnf) of
           (err, lm) \<Rightarrow> (map_option (\<lambda>e. ''Error when updating OpenTracing tracer config: '' @ e) err, cnf\<lparr>cnManager := lm\<rparr>))
      else (None, cnf))"

definition errResult :: "string option \<times> Configurator \<Rightarrow> cnfWarnings \<Rightarrow> cnfResult" where
  "errResult r ws = (case r of (err, cnf) \<Rightarrow> Some (ws, err, cnf))"

definition UpdateConfig ::
    "configuratorEnv \<Rightarrow> ConfigParams \<Rightarrow> IngressEx list \<Rightarrow> MergeableIngresses list \<Rightarrow> VirtualServerEx list \<Rightarrow> Configurator \<Rightarrow> cnfResult" where
  "UpdateConfig env cfgParams ingExes mergeables vsExes cnf0 =
     andThen (errResult (updateDHParam env (cnf0\<lparr>cnCfgParams := cfgParams\<rparr>)) []) (\<lambda>_ cnf1.
     andThen (errResult (updateTemplates env cnf1) []) (\<lambda>_ cnf2.
     (let mainCfg = GenerateNginxMainConfig (cnStatic cnf2) (cnCfgParams cnf2) in
      case writeMainConfig env cnf2 of
        (Some _, cnf3) \<Rightarrow> Some ([], Some ''Error when writing main Config'', cnf3)
      | (None, cnf3) \<Rightarrow>
          andThen (addEach (addOrUpdateIngress env) (\<lambda>_ err. err) ingExes [] cnf3) (\<lambda>ws4 cnf4.
          andThen (addEach (addOrUpdateMergeableIngress env) (\<lambda>_ err. err) mergeables ws4 cnf4) (\<lambda>ws5 cnf5.
          andThen (addEach (addOrUpdateVirtualServer env) (\<lambda>_ err. err) vsExes ws5 cnf5) (\<lambda>ws6 cnf6.
          andThen (errResult (writeTracerConfig env mainCfg cnf6) ws6) (\<lambda>ws7 cnf7.
            reloadAfter env ''Error when updating config from ConfigMap'' ws7
              (onManager (SetOpenTracing (mcOpenTracingLoadModule mainCfg)) cnf7)))))))) "

definition AddInternalRouteConfig :: "configuratorEnv \<Rightarrow> string \<Rightarrow> Configurator \<Rightarrow> string option \<times> Configurator" where
  "AddInternalRouteConfig env podName cnf =
     (case writeMainConfig env (cnf\<lparr>cnStatic := (cnStatic cnf)\<lparr>stEnableInternalRoutes := True, stPodName := podName\<rparr>\<rparr>) of
        (Some err, cnf1) \<Rightarrow> (Some (''Error when writing main Config: '' @ err), cnf1)
      | (None, cnf1) \<Rightarrow> cnfReload env ''Error when reloading nginx'' cnf1)"

definition cnfAddOrUpdateDHParam :: "configuratorEnv \<Rightarrow> string \<Rightarrow> Configurator \<Rightarrow> string \<times> string option \<times> Configurator" where
  "cnfAddOrUpdateDHParam env content cnf =
     (case CreateDHParam (ceWorld env) content (cnManager cnf) of (fileName, err, lm) \<Rightarrow> (fileName, err, cnf\<lparr>cnManager := lm\<rparr>))"


section \<open>App Protect operations\<close>

definition AddOrUpdateAppProtectResource ::
    "configuratorEnv \<Rightarrow> string \<Rightarrow> IngressEx list \<Rightarrow> MergeableIngresses list \<Rightarrow> VirtualServerEx list \<Rightarrow> Configurator \<Rightarrow> cnfResult" where
  "AddOrUpdateAppProtectResource env kind ingExes mergeables vsExes cnf =
     andThen (addHTTPResources env ingExes mergeables vsExes cnf)
       (reloadAfter env (''Error when reloading NGINX when updating '' @ kind))"

text \<open>Only the first slash of the key is replaced; the file is deleted only where something used it.\<close>

definition replaceFirstSlash :: "string \<Rightarrow> string" where
  "replaceFirstSlash key =
     (case splitOnN (CHR ''/'') 2 key of [a, b] \<Rightarrow> a @ ''_'' @ b | _ \<Rightarrow> key)"

definition deleteApFile ::
    "string \<Rightarrow> string \<Rightarrow> IngressEx list \<Rightarrow> MergeableIngresses list \<Rightarrow> VirtualServerEx list \<Rightarrow> Configurator \<Rightarrow> Configurator" where
  "deleteApFile folder key ingExes mergeables vsExes cnf =
     (if ingExes \<noteq> [] \<or> mergeables \<noteq> [] \<or> vsExes \<noteq> []
      then onManager (DeleteAppProtectResourceFile (folder @ replaceFirstSlash key)) cnf
      else cnf)"

definition DeleteAppProtectPolicy ::
    "configuratorEnv \<Rightarrow> string \<Rightarrow> IngressEx list \<Rightarrow> MergeableIngresses list \<Rightarrow> VirtualServerEx list \<Rightarrow> Configurator \<Rightarrow> cnfResult" where
  "DeleteAppProtectPolicy env polNamespaceName ingExes mergeables vsExes cnf =
     andThen (addHTTPResources env ingExes mergeables vsExes
                (deleteApFile appProtectPolicyFolder polNamespaceName ingExes mergeables vsExes cnf))
       (reloadAfter env ''Error when reloading NGINX when removing App Protect Policy'')"

definition DeleteAppProtectLogConf ::
    "configuratorEnv \<Rightarrow> string \<Rightarrow> IngressEx list \<Rightarrow> MergeableIngresses list \<Rightarrow> VirtualServerEx list \<Rightarrow> Configurator \<Rightarrow> cnfResult" where
  "DeleteAppProtectLogConf env logConfNamespaceName ingExes mergeables vsExes cnf =
     andThen (addHTTPResources env ingExes mergeables vsExes
                (deleteApFile appProtectLogConfFolder logConfNamespaceName ingExes mergeables vsExes cnf))
       (reloadAfter env ''Error when reloading NGINX when removing App Protect Log Configuration'')"

text \<open>The user signatures are written anew, with an index of them; the error of the reload is returned bare.\<close>

definition writeUserSigs :: "configuratorEnv \<Rightarrow> unstructured list \<Rightarrow> LocalManager \<Rightarrow> LocalManager" where
  "writeUserSigs env userSigs lm =
     CreateAppProtectResourceFile appProtectUserSigIndex
       (concat (map (\<lambda>sig. ''app_protect_user_defined_signatures '' @ appProtectUserSigFileNameFromUnstruct sig @ '';'' @ versionNewline) userSigs))
       (fold (\<lambda>sig. CreateAppProtectResourceFile (appProtectUserSigFileNameFromUnstruct sig) (generateApResourceFileContent env sig)) userSigs
         (ClearAppProtectFolder appProtectUserSigFolder lm))"

definition RefreshAppProtectUserSigs ::
    "configuratorEnv \<Rightarrow> unstructured list \<Rightarrow> string list \<Rightarrow> IngressEx list \<Rightarrow> MergeableIngresses list \<Rightarrow> VirtualServerEx list
       \<Rightarrow> Configurator \<Rightarrow> cnfResult" where
  "RefreshAppProtectUserSigs env userSigs delPols ingExes mergeables vsExes cnf =
     andThen (addHTTPResources env ingExes mergeables vsExes cnf)
       (\<lambda>ws cnf1. let cnf2 = onManager (\<lambda>lm. writeUserSigs env userSigs (fold DeleteAppProtectResourceFile delPols lm)) cnf1
                  in case Reload (ceWorld env) (cnManager cnf2) of (err, lm) \<Rightarrow> Some (ws, err, cnf2\<lparr>cnManager := lm\<rparr>))"

section \<open>Secrets\<close>

definition cnfSecretFiles :: "LocalManager \<Rightarrow> files SecretFileManager" where
  "cnfSecretFiles lm = configuratorFiles (secretsPath lm)"

definition AddOrUpdateSpecialTLSSecrets :: "configuratorEnv \<Rightarrow> Secret \<Rightarrow> string list \<Rightarrow> Configurator \<Rightarrow> string option \<times> Configurator" where
  "AddOrUpdateSpecialTLSSecrets env secret secretNames cnf =
     cnfReload env ''Error when reloading NGINX when updating the special Secrets''
       (onManager (fold (\<lambda>name lm. snd (lmCreateSecret name (GenerateCertAndKeyFileContent secret) lm)) secretNames) cnf)"

text \<open>The contents of the SPIFFE files: the PEM encodings of the key and of the certificates, or the error of encoding the key.\<close>

definition AddOrUpdateSpiffeCerts ::
    "configuratorEnv \<Rightarrow> string + string \<Rightarrow> string \<Rightarrow> string \<Rightarrow> Configurator \<Rightarrow> string option \<times> Configurator" where
  "AddOrUpdateSpiffeCerts env key certificates trustBundle cnf =
     (case key of
        Inl err \<Rightarrow> (Some (''error when marshaling private key: '' @ err), cnf)
      | Inr keyPem \<Rightarrow>
          cnfReload env ''error when reloading NGINX when updating the SPIFFE Certs''
            (onManager (fold (\<lambda>(name, content) lm. snd (lmCreateSecret name content lm))
               [(''spiffe_key.pem'', keyPem), (''spiffe_cert.pem'', certificates), (''spiffe_rootca.pem'', trustBundle)]) cnf))"

section \<open>Queries\<close>

definition HasIngress :: "Ingress \<Rightarrow> Configurator \<Rightarrow> bool" where
  "HasIngress ing cnf = ghas (cnIngresses cnf) (objectMetaToFileName (ingMeta ing))"

definition HasMinion :: "Ingress \<Rightarrow> Ingress \<Rightarrow> Configurator \<Rightarrow> bool" where
  "HasMinion master minion cnf =
     (case gget (cnMinions cnf) (objectMetaToFileName (ingMeta master)) of
        None \<Rightarrow> False
      | Some ms \<Rightarrow> gtrue ms (objectMetaToFileName (ingMeta minion)))"

definition countedAsMaster :: "IngressEx \<Rightarrow> bool" where
  "countedAsMaster ix = (gget (omAnnotations (ingMeta (ixIngress ix))) ''nginx.org/mergeable-ingress-type'' = Some ''master'')"

definition GetIngressCounts :: "Configurator \<Rightarrow> nat gomap" where
  "GetIngressCounts cnf =
     [(''master'', length (filter (\<lambda>(_, ix). countedAsMaster ix) (cnIngresses cnf))),
      (''regular'', length (filter (\<lambda>(_, ix). \<not> countedAsMaster ix) (cnIngresses cnf))),
      (''minion'', sum_list (map (\<lambda>(_, ms). length ms) (cnMinions cnf)))]"

definition GetVirtualServerCounts :: "Configurator \<Rightarrow> nat \<times> nat" where
  "GetVirtualServerCounts cnf =
     (length (cnVirtualServers cnf), sum_list (map (\<lambda>(_, vsEx). length (vxVirtualServerRoutes vsEx)) (cnVirtualServers cnf)))"


end
