(* ===== verification/Status.thy ===== *)
theory Status
  imports Controller_Resources
begin

text \<open>
  The reports of statuses (\<open>internal/k8s/status.go\<close>): where the address of the controller comes
  from (the ConfigMap, its service or an IngressLink), and what is written into the statuses of the
  objects. The calls of the API are a list of writes; the answers of the API are parameters, which
  may depend on all the writes so far. The caches give the status of the object they hold for a
  key. A status of an Ingress is a slice, which may be nil: an optional list. Log messages are left
  out.
\<close>

section \<open>Statuses\<close>

record LoadBalancerIngress =
  lbIP :: string
  lbHostname :: string

record ExternalEndpoint =
  eeIP :: string
  eePorts :: string

record VirtualServerStatus =
  vsuState :: string
  vsuReason :: string
  vsuMessage :: string
  vsuExternalEndpoints :: "ExternalEndpoint list"

record VirtualServerRouteStatus =
  vruState :: string
  vruReason :: string
  vruMessage :: string
  vruReferencedBy :: string
  vruExternalEndpoints :: "ExternalEndpoint list"

record TransportServerStatus =
  tsuState :: string
  tsuReason :: string
  tsuMessage :: string

record PolicyStatus =
  pouState :: string
  pouReason :: string
  pouMessage :: string

text \<open>A service with the fields that only statuses are taken from.\<close>

record externalService = Service +
  svcExternalIPs :: "string list"
  svcLoadBalancer :: "LoadBalancerIngress list"

datatype statusWrite =
    WriteIngress string "LoadBalancerIngress list option"
  | WriteVirtualServer string VirtualServerStatus
  | WriteVirtualServerRoute string VirtualServerRouteStatus
  | WriteTransportServer string TransportServerStatus
  | WritePolicy string PolicyStatus

record statusUpdater =
  suExternalStatusAddress :: string
  suExternalServiceAddresses :: "string list"
  suExternalServicePorts :: string
  suBigIPAddress :: string
  suBigIPPorts :: string
  suExternalEndpoints :: "ExternalEndpoint list"
  suStatus :: "LoadBalancerIngress list option"

definition newStatusUpdater :: statusUpdater where
  "newStatusUpdater =
     \<lparr>suExternalStatusAddress = '''', suExternalServiceAddresses = [], suExternalServicePorts = '''', suBigIPAddress = '''',
      suBigIPPorts = '''', suExternalEndpoints = [], suStatus = None\<rparr>"

section \<open>Addresses\<close>

definition saveStatus :: "(string \<Rightarrow> bool) \<Rightarrow> string list \<Rightarrow> statusUpdater \<Rightarrow> statusUpdater" where
  "saveStatus isIP ips su =
     su\<lparr>suStatus := Some (map (\<lambda>ip. if isIP ip then \<lparr>lbIP = ip, lbHostname = ''''\<rparr> else \<lparr>lbIP = '''', lbHostname = ip\<rparr>) ips)\<rparr>"

fun isRequiredPort :: "IntOrString \<Rightarrow> bool" where
  "isRequiredPort (IntVal n) \<longleftrightarrow> n \<in> {80, 443}"
| "isRequiredPort (StrVal s) \<longleftrightarrow> s \<in> {''http'', ''https''}"

definition getExternalServicePorts :: "externalService option \<Rightarrow> string" where
  "getExternalServicePorts svc =
     (case svc of
        None \<Rightarrow> ''''
      | Some s \<Rightarrow> ''['' @ joinStr '','' (map (itoa \<circ> svpPort) (filter (isRequiredPort \<circ> svpTargetPort) (svcPorts s))) @ '']'')"

definition getExternalServiceAddress :: "externalService option \<Rightarrow> string list" where
  "getExternalServiceAddress svc =
     (case svc of
        None \<Rightarrow> []
      | Some s \<Rightarrow>
          (if svcType s = ''ExternalName'' then [svcExternalName s]
           else map (\<lambda>lb. if lbIP lb = '''' then lbHostname lb else lbIP lb) (svcLoadBalancer s) @ svcExternalIPs s))"

definition generateExternalEndpointsFromStatus :: "statusUpdater \<Rightarrow> LoadBalancerIngress list option \<Rightarrow> ExternalEndpoint list" where
  "generateExternalEndpointsFromStatus su status =
     map (\<lambda>lb. \<lparr>eeIP = lbIP lb, eePorts = (if suBigIPPorts su \<noteq> '''' then suBigIPPorts su else suExternalServicePorts su)\<rparr>) (sliceOf status)"

text \<open>The status of some addresses, and the endpoints made from it.\<close>

definition saveAddresses :: "(string \<Rightarrow> bool) \<Rightarrow> string list \<Rightarrow> statusUpdater \<Rightarrow> statusUpdater" where
  "saveAddresses isIP ips su =
     (let su1 = saveStatus isIP ips su in su1\<lparr>suExternalEndpoints := generateExternalEndpointsFromStatus su1 (suStatus su1)\<rparr>)"

definition SaveStatusFromExternalStatus :: "(string \<Rightarrow> bool) \<Rightarrow> string \<Rightarrow> statusUpdater \<Rightarrow> statusUpdater" where
  "SaveStatusFromExternalStatus isIP externalStatusAddress su =
     (let su1 = su\<lparr>suExternalStatusAddress := externalStatusAddress\<rparr> in
      if externalStatusAddress = '''' \<and> suExternalServiceAddresses su1 \<noteq> []
      then saveAddresses isIP (suExternalServiceAddresses su1) su1
      else if externalStatusAddress = '''' \<and> suBigIPAddress su1 \<noteq> ''''
      then saveAddresses isIP [suBigIPAddress su1] su1
      else saveAddresses isIP [suExternalStatusAddress su1] su1)"

definition SaveStatusFromExternalService :: "(string \<Rightarrow> bool) \<Rightarrow> externalService option \<Rightarrow> statusUpdater \<Rightarrow> statusUpdater" where
  "SaveStatusFromExternalService isIP svc su =
     (let ips = getExternalServiceAddress svc;
          su1 = su\<lparr>suExternalServiceAddresses := ips, suExternalServicePorts := getExternalServicePorts svc\<rparr>
      in if suExternalStatusAddress su1 \<noteq> '''' then su1 else saveAddresses isIP ips su1)"

definition ClearStatusFromExternalService :: "(string \<Rightarrow> bool) \<Rightarrow> statusUpdater \<Rightarrow> statusUpdater" where
  "ClearStatusFromExternalService isIP su = SaveStatusFromExternalService isIP None su"

definition SaveStatusFromIngressLink :: "(string \<Rightarrow> bool) \<Rightarrow> string \<Rightarrow> statusUpdater \<Rightarrow> statusUpdater" where
  "SaveStatusFromIngressLink isIP ip su =
     (let su1 = su\<lparr>suBigIPAddress := ip, suBigIPPorts := ''[80,443]''\<rparr>
      in if suExternalStatusAddress su1 \<noteq> '''' then su1 else saveAddresses isIP [suBigIPAddress su1] su1)"

definition ClearStatusFromIngressLink :: "(string \<Rightarrow> bool) \<Rightarrow> statusUpdater \<Rightarrow> statusUpdater" where
  "ClearStatusFromIngressLink isIP su =
     (let su1 = su\<lparr>suBigIPAddress := '''', suBigIPPorts := ''''\<rparr>
      in if suExternalStatusAddress su1 \<noteq> '''' then su1 else saveAddresses isIP [] su1)"

section \<open>Writes\<close>

text \<open>
  The cluster: the statuses in the caches by key, and in the API, where an update that failed is
  repeated on a fresh object; the answer to the last of the writes, given all of them.
\<close>

record statusCluster =
  scIngress :: "string \<Rightarrow> string + LoadBalancerIngress list option option"
  scVirtualServer :: "string \<Rightarrow> string + VirtualServerStatus option"
  scVirtualServerRoute :: "string \<Rightarrow> string + VirtualServerRouteStatus option"
  scTransportServer :: "string \<Rightarrow> string + TransportServerStatus option"
  scPolicy :: "string \<Rightarrow> string + PolicyStatus option"
  scApiIngress :: "string \<Rightarrow> string + LoadBalancerIngress list option"
  scGetFails :: "statusWrite \<Rightarrow> string option"
  scUpdate :: "statusWrite list \<Rightarrow> string option"

text \<open>The key of an object in a cache.\<close>

definition keyFunc :: "ObjectMeta \<Rightarrow> string" where
  "keyFunc m = (if omNamespace m = '''' then omName m else omNamespace m @ ''/'' @ omName m)"

definition sendWrite :: "statusCluster \<Rightarrow> statusWrite \<Rightarrow> statusWrite list \<Rightarrow> string option \<times> statusWrite list" where
  "sendWrite sc wr log = (let log' = log @ [wr] in (scUpdate sc log', log'))"

text \<open>A failed update is repeated once, on a fresh object, with the same status.\<close>

definition writeWithRetry :: "statusCluster \<Rightarrow> statusWrite \<Rightarrow> statusWrite list \<Rightarrow> string option \<times> statusWrite list" where
  "writeWithRetry sc wr log =
     (case sendWrite sc wr log of
        (None, log1) \<Rightarrow> (None, log1)
      | (Some _, log1) \<Rightarrow>
          (case scGetFails sc wr of
             Some err \<Rightarrow> (Some err, log1)
           | None \<Rightarrow> sendWrite sc wr log1))"

definition retryStatusUpdate ::
    "statusCluster \<Rightarrow> string \<Rightarrow> LoadBalancerIngress list option \<Rightarrow> statusWrite list \<Rightarrow> string option \<times> statusWrite list" where
  "retryStatusUpdate sc key status log =
     (case scApiIngress sc key of
        Inl err \<Rightarrow> (Some err, log)
      | Inr current \<Rightarrow> (if status \<noteq> current then sendWrite sc (WriteIngress key status) log else (None, log)))"

definition updateIngressWithStatus ::
    "statusCluster \<Rightarrow> Ingress \<Rightarrow> LoadBalancerIngress list option \<Rightarrow> statusWrite list \<Rightarrow> string option \<times> statusWrite list" where
  "updateIngressWithStatus sc ing status log =
     (let key = keyFunc (ingMeta ing) in
      case scIngress sc key of
        Inl err \<Rightarrow> (Some err, log)
      | Inr None \<Rightarrow> (None, log)
      | Inr (Some current) \<Rightarrow>
          (if current = status then (None, log)
           else case sendWrite sc (WriteIngress key status) log of
               (None, log1) \<Rightarrow> (None, log1)
             | (Some _, log1) \<Rightarrow> retryStatusUpdate sc key status log1))"

definition ClearIngressStatus :: "statusCluster \<Rightarrow> Ingress \<Rightarrow> statusWrite list \<Rightarrow> string option \<times> statusWrite list" where
  "ClearIngressStatus sc ing log = updateIngressWithStatus sc ing (Some []) log"

text \<open>The status is nil before the first address is saved.\<close>

definition UpdateIngressStatus :: "statusCluster \<Rightarrow> statusUpdater \<Rightarrow> Ingress \<Rightarrow> statusWrite list \<Rightarrow> string option \<times> statusWrite list" where
  "UpdateIngressStatus sc su ing log = updateIngressWithStatus sc ing (suStatus su) log"

text \<open>Every element is updated; one failure is reported for all.\<close>

fun updateAll :: "('x \<Rightarrow> statusWrite list \<Rightarrow> string option \<times> statusWrite list) \<Rightarrow> 'x list \<Rightarrow> statusWrite list \<Rightarrow> bool \<times> statusWrite list" where
  "updateAll f [] log = (False, log)"
| "updateAll f (x # xs) log =
     (case f x log of (err, log1) \<Rightarrow> (case updateAll f xs log1 of (failed, log2) \<Rightarrow> (err \<noteq> None \<or> failed, log2)))"

definition failedAs :: "string \<Rightarrow> bool \<times> statusWrite list \<Rightarrow> string option \<times> statusWrite list" where
  "failedAs message r = (case r of (failed, log) \<Rightarrow> (if failed then Some message else None, log))"

definition BulkUpdateIngressStatus ::
    "statusCluster \<Rightarrow> statusUpdater \<Rightarrow> Ingress list \<Rightarrow> statusWrite list \<Rightarrow> string option \<times> statusWrite list" where
  "BulkUpdateIngressStatus sc su ings log =
     failedAs ''not all Ingresses updated'' (updateAll (\<lambda>ing. updateIngressWithStatus sc ing (suStatus su)) ings log)"

section \<open>Custom resources\<close>

definition hasVsStatusChanged :: "VirtualServerStatus \<Rightarrow> string \<Rightarrow> string \<Rightarrow> string \<Rightarrow> bool" where
  "hasVsStatusChanged st state reason message \<longleftrightarrow> vsuState st \<noteq> state \<or> vsuReason st \<noteq> reason \<or> vsuMessage st \<noteq> message"

definition hasTsStatusChanged :: "TransportServerStatus \<Rightarrow> string \<Rightarrow> string \<Rightarrow> string \<Rightarrow> bool" where
  "hasTsStatusChanged st state reason message \<longleftrightarrow> tsuState st \<noteq> state \<or> tsuReason st \<noteq> reason \<or> tsuMessage st \<noteq> message"

definition hasVsrStatusChanged :: "VirtualServerRouteStatus \<Rightarrow> string \<Rightarrow> string \<Rightarrow> string \<Rightarrow> string \<Rightarrow> bool" where
  "hasVsrStatusChanged st state reason message referencedBy \<longleftrightarrow>
     vruState st \<noteq> state \<or> vruReason st \<noteq> reason \<or> vruMessage st \<noteq> message
     \<or> referencedBy \<noteq> '''' \<and> vruReferencedBy st \<noteq> referencedBy"

definition hasPolicyStatusChanged :: "PolicyStatus \<Rightarrow> string \<Rightarrow> string \<Rightarrow> string \<Rightarrow> bool" where
  "hasPolicyStatusChanged st state reason message \<longleftrightarrow> pouState st \<noteq> state \<or> pouReason st \<noteq> reason \<or> pouMessage st \<noteq> message"

text \<open>
  The shape of an update: the object of the cache, a new status for it (none where nothing
  changed), the write.
\<close>

definition updateCached ::
    "statusCluster \<Rightarrow> string + 'st option \<Rightarrow> ('st \<Rightarrow> statusWrite option) \<Rightarrow> statusWrite list \<Rightarrow> string option \<times> statusWrite list" where
  "updateCached sc cached change log =
     (case cached of
        Inl err \<Rightarrow> (Some err, log)
      | Inr None \<Rightarrow> (None, log)
      | Inr (Some st) \<Rightarrow> (case change st of None \<Rightarrow> (None, log) | Some wr \<Rightarrow> writeWithRetry sc wr log))"

definition UpdateTransportServerStatus ::
    "statusCluster \<Rightarrow> TransportServer \<Rightarrow> string \<Rightarrow> string \<Rightarrow> string \<Rightarrow> statusWrite list \<Rightarrow> string option \<times> statusWrite list" where
  "UpdateTransportServerStatus sc ts state reason message log =
     (let key = keyFunc (tsMeta ts) in
      updateCached sc (scTransportServer sc key)
        (\<lambda>st. if hasTsStatusChanged st state reason message
              then Some (WriteTransportServer key (st\<lparr>tsuState := state, tsuReason := reason, tsuMessage := message\<rparr>)) else None) log)"

definition UpdateVirtualServerStatus ::
    "statusCluster \<Rightarrow> statusUpdater \<Rightarrow> VirtualServer \<Rightarrow> string \<Rightarrow> string \<Rightarrow> string \<Rightarrow> statusWrite list \<Rightarrow> string option \<times> statusWrite list" where
  "UpdateVirtualServerStatus sc su vs state reason message log =
     (let key = keyFunc (vsMeta vs) in
      updateCached sc (scVirtualServer sc key)
        (\<lambda>st. if hasVsStatusChanged st state reason message
              then Some (WriteVirtualServer key (st\<lparr>vsuState := state, vsuReason := reason, vsuMessage := message,
                     vsuExternalEndpoints := suExternalEndpoints su\<rparr>)) else None) log)"

definition UpdateVirtualServerRouteStatusWithReferencedBy ::
    "statusCluster \<Rightarrow> statusUpdater \<Rightarrow> VirtualServerRoute \<Rightarrow> string \<Rightarrow> string \<Rightarrow> string \<Rightarrow> VirtualServer list
       \<Rightarrow> statusWrite list \<Rightarrow> string option \<times> statusWrite list" where
  "UpdateVirtualServerRouteStatusWithReferencedBy sc su vsr state reason message referencedBy log =
     (let key = keyFunc (vsrMeta vsr);
          referencedByString = (case referencedBy of [] \<Rightarrow> '''' | vs # _ \<Rightarrow> omNamespace (vsMeta vs) @ ''/'' @ omName (vsMeta vs))
      in updateCached sc (scVirtualServerRoute sc key)
           (\<lambda>st. Some (WriteVirtualServerRoute key (st\<lparr>vruState := state, vruReason := reason, vruMessage := message,
                     vruReferencedBy := referencedByString, vruExternalEndpoints := suExternalEndpoints su\<rparr>))) log)"

definition UpdateVirtualServerRouteStatus ::
    "statusCluster \<Rightarrow> statusUpdater \<Rightarrow> VirtualServerRoute \<Rightarrow> string \<Rightarrow> string \<Rightarrow> string \<Rightarrow> statusWrite list \<Rightarrow> string option \<times> statusWrite list" where
  "UpdateVirtualServerRouteStatus sc su vsr state reason message log =
     (let key = keyFunc (vsrMeta vsr) in
      updateCached sc (scVirtualServerRoute sc key)
        (\<lambda>st. if hasVsrStatusChanged st state reason message ''''
              then Some (WriteVirtualServerRoute key (st\<lparr>vruState := state, vruReason := reason, vruMessage := message,
                     vruExternalEndpoints := suExternalEndpoints su\<rparr>)) else None) log)"

text \<open>
  The policy of the cache is written without a copy: it keeps the new status whether or not the
  write succeeds. The last component is the status it has afterwards.
\<close>

definition UpdatePolicyStatus ::
    "statusCluster \<Rightarrow> Policy \<Rightarrow> string \<Rightarrow> string \<Rightarrow> string \<Rightarrow> statusWrite list
       \<Rightarrow> string option \<times> statusWrite list \<times> PolicyStatus option" where
  "UpdatePolicyStatus sc pol state reason message log =
     (let key = keyFunc (polMeta pol);
          changed = (\<lambda>st. st\<lparr>pouState := state, pouReason := reason, pouMessage := message\<rparr>);
          (err, log') = updateCached sc (scPolicy sc key)
            (\<lambda>st. if hasPolicyStatusChanged st state reason message then Some (WritePolicy key (changed st)) else None) log
      in (err, log', case scPolicy sc key of
            Inr (Some st) \<Rightarrow> Some (if hasPolicyStatusChanged st state reason message then changed st else st)
          | _ \<Rightarrow> None))"

section \<open>External endpoints\<close>

definition updateVirtualServerExternalEndpoints ::
    "statusCluster \<Rightarrow> statusUpdater \<Rightarrow> VirtualServer \<Rightarrow> statusWrite list \<Rightarrow> string option \<times> statusWrite list" where
  "updateVirtualServerExternalEndpoints sc su vs log =
     (let key = keyFunc (vsMeta vs) in
      updateCached sc (scVirtualServer sc key)
        (\<lambda>st. Some (WriteVirtualServer key (st\<lparr>vsuExternalEndpoints := suExternalEndpoints su\<rparr>))) log)"

definition updateVirtualServerRouteExternalEndpoints ::
    "statusCluster \<Rightarrow> statusUpdater \<Rightarrow> VirtualServerRoute \<Rightarrow> statusWrite list \<Rightarrow> string option \<times> statusWrite list" where
  "updateVirtualServerRouteExternalEndpoints sc su vsr log =
     (let key = keyFunc (vsrMeta vsr) in
      updateCached sc (scVirtualServerRoute sc key)
        (\<lambda>st. Some (WriteVirtualServerRoute key (st\<lparr>vruExternalEndpoints := suExternalEndpoints su\<rparr>))) log)"

definition UpdateExternalEndpointsForResource ::
    "statusCluster \<Rightarrow> statusUpdater \<Rightarrow> Resource \<Rightarrow> statusWrite list \<Rightarrow> string option \<times> statusWrite list" where
  "UpdateExternalEndpointsForResource sc su r log =
     (case r of
        IngressRes ic \<Rightarrow> BulkUpdateIngressStatus sc su (icIngress ic # map mcIngress (icMinions ic)) log
      | VirtualServerRes vsc \<Rightarrow>
          (case updateVirtualServerExternalEndpoints sc su (vscVirtualServer vsc) log of
             (err, log1) \<Rightarrow>
               (case updateAll (updateVirtualServerRouteExternalEndpoints sc su) (vscVirtualServerRoutes vsc) log1 of
                  (failed, log2) \<Rightarrow> failedAs ''not all Resources updated'' (err \<noteq> None \<or> failed, log2)))
      | TransportServerRes _ \<Rightarrow> (None, log))"

definition UpdateExternalEndpointsForResources ::
    "statusCluster \<Rightarrow> statusUpdater \<Rightarrow> Resource list \<Rightarrow> statusWrite list \<Rightarrow> string option \<times> statusWrite list" where
  "UpdateExternalEndpointsForResources sc su resources log =
     failedAs ''not all Resources updated'' (updateAll (UpdateExternalEndpointsForResource sc su) resources log)"

end
