(* ===== verification/Controller_Sync.thy ===== *)
theory Controller_Sync
  imports Configurator Configuration Status
begin

text \<open>
  The synchronisation of the controller (internal/k8s/controller.go): each task reads an object from
  a cache, updates the configuration, and hands the changes to the Configurator; events and
  statuses report the outcome. The caches, the leader election and the clock are arguments of each
  step; the events and statuses that the code sends to the Kubernetes API are kept in a list.
  The queue, the informers and the log are left out, and a message that the code passes as a format
  is taken as it is.
\<close>

section \<open>State\<close>

datatype reportedObject =
    ReportedObject RuntimeObject
  | ReportedPolicy Policy
  | ReportedSecret Secret
  | ReportedAppProtect unstructured
  | ReportedConfigMap string
  | ReportedGlobalConfiguration GlobalConfiguration

datatype report =
    EventReport reportedObject string string string
  | IngressStatusReport "Ingress list"
  | IngressStatusCleared Ingress
  | VirtualServerStatusReport VirtualServer string string string
  | VirtualServerRouteStatusReport VirtualServerRoute string string string "VirtualServer list"
  | VirtualServerRouteStatusKept VirtualServerRoute string string string
  | TransportServerStatusReport TransportServer string string string
  | PolicyStatusReport Policy string string string
  | ExternalEndpointsReport "Resource list"

record controllerWorld =
  cwFlags :: controllerFlags
  cwListers :: listers
  cwNet :: NetLib
  cwCrypto :: CryptoLib
  cwTime :: time_parser
  cwCnf :: configuratorEnv
  cwReportIngressStatus :: bool
  cwIsLeaderElectionEnabled :: bool
  cwIsLeader :: bool
  cwAreCustomResourcesEnabled :: bool
  cwIngressByKey :: "string \<Rightarrow> string + Ingress option"
  cwVirtualServerByKey :: "string \<Rightarrow> string + VirtualServer option"
  cwVirtualServerRouteByKey :: "string \<Rightarrow> string + VirtualServerRoute option"
  cwTransportServerByKey :: "string \<Rightarrow> string + TransportServer option"
  cwGlobalConfigurationByKey :: "string \<Rightarrow> string + GlobalConfiguration option"
  cwPolicyByKey :: "string \<Rightarrow> string + Policy option"
  cwEndpointsByKey :: "string \<Rightarrow> string + (string \<times> string) option"
  cwSecretByKey :: "string \<Rightarrow> string + Secret option"
  cwConfigMapByKey :: "string \<Rightarrow> string + ConfigMap option"
  cwAppProtectPolicyByKey :: "string \<Rightarrow> string + unstructured option"
  cwAppProtectLogConfByKey :: "string \<Rightarrow> string + unstructured option"
  cwAppProtectUserSigByKey :: "string \<Rightarrow> string + unstructured option"
  cwServiceByKey :: "string \<Rightarrow> string + externalService option"
  cwIngressLinkByKey :: "string \<Rightarrow> string + unstructured option"
  cwExternalService :: "string \<times> string"

record Controller =
  ctConfiguration :: Configuration
  ctConfigurator :: Configurator
  ctSecrets :: "SecretReference gomap"
  ctAppProtect :: APConfiguration
  ctStatus :: statusUpdater
  ctReports :: "report list"

definition addReports :: "report list \<Rightarrow> Controller \<Rightarrow> Controller" where
  "addReports rs c = c\<lparr>ctReports := ctReports c @ rs\<rparr>"

definition onStatus :: "(statusUpdater \<Rightarrow> statusUpdater) \<Rightarrow> Controller \<Rightarrow> Controller" where
  "onStatus f c = c\<lparr>ctStatus := f (ctStatus c)\<rparr>"

text \<open>
  The store of secrets writes into the directory of the manager. After each call of the
  Configurator the paths that it wrote into shared references are those of the store.
\<close>

definition storeOf :: "Controller \<Rightarrow> files LocalSecretStore" where
  "storeOf c = \<lparr>ssSecrets = ctSecrets c, ssFiles = lmSecretFiles (cnManager (ctConfigurator c))\<rparr>"

definition withStore :: "files LocalSecretStore \<Rightarrow> Controller \<Rightarrow> Controller" where
  "withStore store c =
     c\<lparr>ctSecrets := ssSecrets store,
       ctConfigurator := onManager (\<lambda>lm. lm\<lparr>lmSecretFiles := ssFiles store\<rparr>) (ctConfigurator c)\<rparr>"

definition writePath :: "string \<times> string \<Rightarrow> SecretReference gomap \<Rightarrow> SecretReference gomap" where
  "writePath kp refs =
     (case kp of (key, path) \<Rightarrow> case gget refs key of None \<Rightarrow> refs | Some ref \<Rightarrow> gput key (ref\<lparr>srPath := path\<rparr>) refs)"

definition withConfigurator :: "Configurator \<Rightarrow> Controller \<Rightarrow> Controller" where
  "withConfigurator cnf c =
     c\<lparr>ctConfigurator := cnf\<lparr>cnPathWrites := []\<rparr>, ctSecrets := fold writePath (cnPathWrites cnf) (ctSecrets c)\<rparr>"

definition envOf :: "controllerWorld \<Rightarrow> Controller \<Rightarrow> files controllerEnv" where
  "envOf w c =
     \<lparr>keFlags = cwFlags w, keListers = cwListers w, keNet = cwNet w, keAppProtect = ctAppProtect c,
      keSecretManager = cnfSecretFiles (cnManager (ctConfigurator c))\<rparr>"

definition exists :: "string + 'a option \<Rightarrow> bool" where
  "exists r = (case r of Inr (Some _) \<Rightarrow> True | _ \<Rightarrow> False)"

section \<open>Events and statuses\<close>

definition EventTypeNormal :: string where "EventTypeNormal = ''Normal''"
definition EventTypeWarning :: string where "EventTypeWarning = ''Warning''"
definition StateValid :: string where "StateValid = ''Valid''"
definition StateWarning :: string where "StateWarning = ''Warning''"
definition StateInvalid :: string where "StateInvalid = ''Invalid''"

definition reportStatusEnabled :: "controllerWorld \<Rightarrow> bool" where
  "reportStatusEnabled w \<longleftrightarrow> cwReportIngressStatus w \<and> (cwIsLeaderElectionEnabled w \<longrightarrow> cwIsLeader w)"

definition reportCustomResourceStatusEnabled :: "controllerWorld \<Rightarrow> bool" where
  "reportCustomResourceStatusEnabled w \<longleftrightarrow> (cwIsLeaderElectionEnabled w \<longrightarrow> cwIsLeader w)"

definition formatWarningMessages :: "string list \<Rightarrow> string" where
  "formatWarningMessages w = joinStr ''; '' w"

record outcomeText =
  otType :: string
  otTitle :: string
  otState :: string
  otMessage :: string

definition outcomeAdded :: outcomeText where
  "outcomeAdded = \<lparr>otType = EventTypeNormal, otTitle = ''AddedOrUpdated'', otState = StateValid, otMessage = ''''\<rparr>"

definition warned :: "string \<Rightarrow> outcomeText" where
  "warned msg = \<lparr>otType = EventTypeWarning, otTitle = ''AddedOrUpdatedWithWarning'', otState = StateWarning, otMessage = msg\<rparr>"

definition failed :: "string option \<Rightarrow> outcomeText \<Rightarrow> outcomeText" where
  "failed err t =
     (case err of
        None \<Rightarrow> t
      | Some e \<Rightarrow> \<lparr>otType = EventTypeWarning, otTitle = ''AddedOrUpdatedWithError'', otState = StateInvalid,
                   otMessage = otMessage t @ ''; but was not applied: '' @ e\<rparr>)"

text \<open>The warnings of the configuration, then those of the generator, then the error.\<close>

definition addedOutcome :: "string list \<Rightarrow> string list option \<Rightarrow> string option \<Rightarrow> outcomeText" where
  "addedOutcome configWarnings generated err =
     (let t0 = (if configWarnings \<noteq> [] then warned (''with warning(s): '' @ formatWarningMessages configWarnings) else outcomeAdded);
          t1 = (case generated of
                  None \<Rightarrow> t0
                | Some msgs \<Rightarrow> warned (otMessage t0 @ ''; with warning(s): '' @ formatWarningMessages msgs))
      in failed err t1)"

definition routeOutcome :: "string list option \<Rightarrow> string option \<Rightarrow> outcomeText" where
  "routeOutcome generated err =
     failed err (case generated of None \<Rightarrow> outcomeAdded | Some msgs \<Rightarrow> warned (''with warning(s): '' @ formatWarningMessages msgs))"

definition configurationMessage :: "ObjectMeta \<Rightarrow> outcomeText \<Rightarrow> string" where
  "configurationMessage m t = ''Configuration for '' @ nsName m @ '' was added or updated '' @ otMessage t"

definition objectEvent :: "RuntimeObject \<Rightarrow> ObjectMeta \<Rightarrow> outcomeText \<Rightarrow> report" where
  "objectEvent obj m t = EventReport (ReportedObject obj) (otType t) (otTitle t) (configurationMessage m t)"

definition updateRegularIngressStatusAndEvents ::
    "controllerWorld \<Rightarrow> IngressConfiguration \<Rightarrow> cnfWarnings \<Rightarrow> string option \<Rightarrow> Controller \<Rightarrow> Controller" where
  "updateRegularIngressStatusAndEvents w ic warnings err =
     (let ing = icIngress ic;
          t = addedOutcome (icWarnings ic) (map_of warnings (WarnedIngress (ingMeta ing))) err
      in addReports (objectEvent (IngressObj ing) (ingMeta ing) t
           # (if reportStatusEnabled w then [IngressStatusReport [ing]] else [])))"

definition updateMergeableIngressStatusAndEvents ::
    "controllerWorld \<Rightarrow> IngressConfiguration \<Rightarrow> cnfWarnings \<Rightarrow> string option \<Rightarrow> Controller \<Rightarrow> Controller" where
  "updateMergeableIngressStatusAndEvents w ic warnings err =
     (let ing = icIngress ic;
          t = addedOutcome (icWarnings ic) (map_of warnings (WarnedIngress (ingMeta ing))) err;
          minions = map mcIngress (icMinions ic);
          minionEvents = map (\<lambda>m.
            let childWarnings = labelsOf (icChildWarnings ic) (getResourceKey (ingMeta m))
            in objectEvent (IngressObj m) (ingMeta m)
                 (addedOutcome childWarnings (map_of warnings (WarnedIngress (ingMeta m))) err)) minions
      in addReports (objectEvent (IngressObj ing) (ingMeta ing) t # minionEvents
           @ (if reportStatusEnabled w then [IngressStatusReport (ing # minions)] else [])))"

definition updateTransportServerStatusAndEvents ::
    "controllerWorld \<Rightarrow> TransportServerConfiguration \<Rightarrow> string option \<Rightarrow> Controller \<Rightarrow> Controller" where
  "updateTransportServerStatusAndEvents w tsc err =
     (let ts = tscTransportServer tsc; t = addedOutcome (tscWarnings tsc) None err
      in addReports (objectEvent (TransportServerObj ts) (tsMeta ts) t
           # (if reportCustomResourceStatusEnabled w
              then [TransportServerStatusReport ts (otState t) (otTitle t) (configurationMessage (tsMeta ts) t)] else [])))"

definition updateVirtualServerStatusAndEvents ::
    "controllerWorld \<Rightarrow> VirtualServerConfiguration \<Rightarrow> cnfWarnings \<Rightarrow> string option \<Rightarrow> Controller \<Rightarrow> Controller" where
  "updateVirtualServerStatusAndEvents w vsc warnings err =
     (let vs = vscVirtualServer vsc;
          t = addedOutcome (vscWarnings vsc) (map_of warnings (WarnedOwner (VirtualServerOwner (vsMeta vs)))) err;
          status = reportCustomResourceStatusEnabled w;
          routeReports = concat (map (\<lambda>vsr.
            let rt = routeOutcome (map_of warnings (WarnedOwner (VirtualServerRouteOwner (vsrMeta vsr)))) err
            in objectEvent (VirtualServerRouteObj vsr) (vsrMeta vsr) rt
                 # (if status then [VirtualServerRouteStatusReport vsr (otState rt) (otTitle rt) (configurationMessage (vsrMeta vsr) rt) [vs]]
                    else [])) (vscVirtualServerRoutes vsc))
      in addReports (objectEvent (VirtualServerObj vs) (vsMeta vs) t
           # (if status then [VirtualServerStatusReport vs (otState t) (otTitle t) (configurationMessage (vsMeta vs) t)] else [])
           @ routeReports))"

definition updateResourceStatusAndEvents ::
    "controllerWorld \<Rightarrow> cnfWarnings \<Rightarrow> string option \<Rightarrow> Resource \<Rightarrow> Controller \<Rightarrow> Controller" where
  "updateResourceStatusAndEvents w warnings err r =
     (case r of
        VirtualServerRes vsc \<Rightarrow> updateVirtualServerStatusAndEvents w vsc warnings err
      | IngressRes ic \<Rightarrow>
          (if icIsMaster ic then updateMergeableIngressStatusAndEvents w ic warnings err
           else updateRegularIngressStatusAndEvents w ic warnings err)
      | TransportServerRes tsc \<Rightarrow> updateTransportServerStatusAndEvents w tsc err)"

definition updateResourcesStatusAndEvents ::
    "controllerWorld \<Rightarrow> Resource list \<Rightarrow> cnfWarnings \<Rightarrow> string option \<Rightarrow> Controller \<Rightarrow> Controller" where
  "updateResourcesStatusAndEvents w resources warnings err = fold (updateResourceStatusAndEvents w warnings err) resources"

text \<open>
  A deleted resource is reported where it became invalid or lost its hosts; otherwise its class
  changed, and another controller takes care of it.
\<close>

definition rejectedOutcome :: "string \<Rightarrow> string list \<Rightarrow> string option \<Rightarrow> outcomeText option" where
  "rejectedOutcome changeError configWarnings deleteErr =
     (let t = (if changeError \<noteq> '''' then Some (StateInvalid, ''with error: '' @ changeError)
               else if configWarnings \<noteq> [] then Some (StateWarning, ''with warning(s): '' @ formatWarningMessages configWarnings)
               else None)
      in map_option (\<lambda>(state, msg).
           case deleteErr of
             None \<Rightarrow> \<lparr>otType = EventTypeWarning, otTitle = ''Rejected'', otState = state, otMessage = msg\<rparr>
           | Some e \<Rightarrow> \<lparr>otType = EventTypeWarning, otTitle = ''RejectedWithError'', otState = StateInvalid,
                        otMessage = msg @ ''; but was not applied: '' @ e\<rparr>) t)"

definition updateTransportServerStatusAndEventsOnDelete ::
    "controllerWorld \<Rightarrow> TransportServerConfiguration \<Rightarrow> string \<Rightarrow> string option \<Rightarrow> Controller \<Rightarrow> Controller" where
  "updateTransportServerStatusAndEventsOnDelete w tsc changeError deleteErr =
     (case rejectedOutcome changeError (tscWarnings tsc) deleteErr of
        None \<Rightarrow> id
      | Some t \<Rightarrow>
          (let ts = tscTransportServer tsc;
               msg = ''TransportServer '' @ getResourceKey (tsMeta ts) @ '' was rejected '' @ otMessage t
           in addReports (EventReport (ReportedObject (TransportServerObj ts)) (otType t) (otTitle t) msg
                # (if reportCustomResourceStatusEnabled w then [TransportServerStatusReport ts (otState t) (otTitle t) msg] else []))))"

definition UpdateVirtualServerStatusAndEventsOnDelete ::
    "controllerWorld \<Rightarrow> VirtualServerConfiguration \<Rightarrow> string \<Rightarrow> string option \<Rightarrow> Controller \<Rightarrow> Controller" where
  "UpdateVirtualServerStatusAndEventsOnDelete w vsc changeError deleteErr =
     (case rejectedOutcome changeError (vscWarnings vsc) deleteErr of
        None \<Rightarrow> id
      | Some t \<Rightarrow>
          (let vs = vscVirtualServer vsc;
               msg = ''VirtualServer '' @ getResourceKey (vsMeta vs) @ '' was rejected '' @ otMessage t
           in addReports (EventReport (ReportedObject (VirtualServerObj vs)) (otType t) (otTitle t) msg
                # (if reportCustomResourceStatusEnabled w then [VirtualServerStatusReport vs (otState t) (otTitle t) msg] else []))))"

definition UpdateIngressStatusAndEventsOnDelete ::
    "controllerWorld \<Rightarrow> IngressConfiguration \<Rightarrow> string \<Rightarrow> string option \<Rightarrow> Controller \<Rightarrow> Controller" where
  "UpdateIngressStatusAndEventsOnDelete w ic changeError deleteErr =
     (case rejectedOutcome changeError (icWarnings ic) deleteErr of
        None \<Rightarrow> id
      | Some t \<Rightarrow>
          (let ing = icIngress ic
           in addReports (EventReport (ReportedObject (IngressObj ing)) (otType t) (otTitle t)
                  (getResourceKey (ingMeta ing) @ '' was rejected: '' @ otMessage t)
                # (if reportStatusEnabled w then [IngressStatusCleared ing] else []))))"

section \<open>Changes\<close>

definition processAddOrUpdate :: "controllerWorld \<Rightarrow> Resource \<Rightarrow> Controller \<Rightarrow> Controller option" where
  "processAddOrUpdate w r c =
     (case r of
        VirtualServerRes vsc \<Rightarrow>
          do {
            (vsEx, store) \<leftarrow> createVirtualServerEx (envOf w c) (vscVirtualServer vsc) (vscVirtualServerRoutes vsc) (storeOf c);
            let c1 = withStore store c;
            (warnings, err, cnf) \<leftarrow> cnfAddOrUpdateVirtualServer (cwCnf w) vsEx (ctConfigurator c1);
            Some (updateVirtualServerStatusAndEvents w vsc warnings err (withConfigurator cnf c1))
          }
      | IngressRes ic \<Rightarrow>
          (if icIsMaster ic then
             do {
               (mi, store) \<leftarrow> createMergeableIngresses (envOf w c) ic (storeOf c);
               let c1 = withStore store c;
               (warnings, err, cnf) \<leftarrow> cnfAddOrUpdateMergeableIngress (cwCnf w) mi (ctConfigurator c1);
               Some (updateMergeableIngressStatusAndEvents w ic warnings err (withConfigurator cnf c1))
             }
           else
             do {
               (ix, store) \<leftarrow> createIngressEx (envOf w c) (icIngress ic) (icValidHosts ic) None (storeOf c);
               let c1 = withStore store c;
               (warnings, err, cnf) \<leftarrow> cnfAddOrUpdateIngress (cwCnf w) ix (ctConfigurator c1);
               Some (updateRegularIngressStatusAndEvents w ic warnings err (withConfigurator cnf c1))
             })
      | TransportServerRes tsc \<Rightarrow>
          do {
            let tsEx = createTransportServerEx (envOf w c) (tscTransportServer tsc) (tscListenerPort tsc);
            (warnings, err, cnf) \<leftarrow> cnfAddOrUpdateTransportServer (cwCnf w) tsEx (ctConfigurator c);
            Some (updateTransportServerStatusAndEvents w tsc err (withConfigurator cnf c))
          })"

definition processDelete :: "controllerWorld \<Rightarrow> Resource \<Rightarrow> string \<Rightarrow> Controller \<Rightarrow> Controller" where
  "processDelete w r changeError c =
     (let key = getResourceKey (GetObjectMeta r) in
      case r of
        VirtualServerRes vsc \<Rightarrow>
          (case cnfDeleteVirtualServer (cwCnf w) key (ctConfigurator c) of
             (err, cnf) \<Rightarrow> (if exists (cwVirtualServerByKey w key)
                            then UpdateVirtualServerStatusAndEventsOnDelete w vsc changeError err else id) (withConfigurator cnf c))
      | IngressRes ic \<Rightarrow>
          (case cnfDeleteIngress (cwCnf w) key (ctConfigurator c) of
             (err, cnf) \<Rightarrow> (if exists (cwIngressByKey w key)
                            then UpdateIngressStatusAndEventsOnDelete w ic changeError err else id) (withConfigurator cnf c))
      | TransportServerRes tsc \<Rightarrow>
          (case cnfDeleteTransportServer (cwCnf w) key (ctConfigurator c) of
             (err, cnf) \<Rightarrow> (if exists (cwTransportServerByKey w key)
                            then updateTransportServerStatusAndEventsOnDelete w tsc changeError err else id) (withConfigurator cnf c)))"

definition processChange :: "controllerWorld \<Rightarrow> ResourceChange \<Rightarrow> Controller \<Rightarrow> Controller option" where
  "processChange w ch c =
     (case rcOp ch of
        AddOrUpdate \<Rightarrow> processAddOrUpdate w (rcResource ch) c
      | Delete \<Rightarrow> Some (processDelete w (rcResource ch) (rcError ch) c))"

definition processChanges :: "controllerWorld \<Rightarrow> ResourceChange list \<Rightarrow> Controller \<Rightarrow> Controller option" where
  "processChanges w changes c = foldOpt (processChange w) changes c"

definition processProblem :: "controllerWorld \<Rightarrow> ConfigurationProblem \<Rightarrow> report list" where
  "processProblem w p =
     (let state = (if cpIsError p then StateInvalid else StateWarning) in
      EventReport (ReportedObject (cpObject p)) EventTypeWarning (cpReason p) (cpMessage p)
        # (if reportCustomResourceStatusEnabled w then
             (case cpObject p of
                IngressObj ing \<Rightarrow> [IngressStatusCleared ing]
              | VirtualServerObj vs \<Rightarrow> [VirtualServerStatusReport vs state (cpReason p) (cpMessage p)]
              | TransportServerObj ts \<Rightarrow> [TransportServerStatusReport ts state (cpReason p) (cpMessage p)]
              | VirtualServerRouteObj vsr \<Rightarrow> [VirtualServerRouteStatusReport vsr state (cpReason p) (cpMessage p) []])
           else []))"

definition processProblems :: "controllerWorld \<Rightarrow> ConfigurationProblem list \<Rightarrow> Controller \<Rightarrow> Controller" where
  "processProblems w problems = addReports (concat (map (processProblem w) problems))"

text \<open>What a task does with the outcome of the configuration.\<close>

definition processOutcome :: "controllerWorld \<Rightarrow> outcome \<Rightarrow> Controller \<Rightarrow> Controller option" where
  "processOutcome w r c =
     (case r of
        None \<Rightarrow> None
      | Some (cfg, changes, problems) \<Rightarrow>
          map_option (processProblems w problems) (processChanges w changes (c\<lparr>ctConfiguration := cfg\<rparr>)))"

section \<open>Tasks\<close>

text \<open>A failed read of the cache puts the task back into the queue and leaves the state as it is.\<close>

definition syncIngress :: "controllerWorld \<Rightarrow> string \<Rightarrow> Controller \<Rightarrow> Controller option" where
  "syncIngress w key c =
     (case cwIngressByKey w key of
        Inl _ \<Rightarrow> Some c
      | Inr None \<Rightarrow> processOutcome w (DeleteIngress key (ctConfiguration c)) c
      | Inr (Some ing) \<Rightarrow> processOutcome w (AddOrUpdateIngress ing (ctConfiguration c)) c)"

definition syncVirtualServer :: "controllerWorld \<Rightarrow> string \<Rightarrow> Controller \<Rightarrow> Controller option" where
  "syncVirtualServer w key c =
     (case cwVirtualServerByKey w key of
        Inl _ \<Rightarrow> Some c
      | Inr None \<Rightarrow> processOutcome w (DeleteVirtualServer key (ctConfiguration c)) c
      | Inr (Some vs) \<Rightarrow> processOutcome w (AddOrUpdateVirtualServer vs (ctConfiguration c)) c)"

definition syncVirtualServerRoute :: "controllerWorld \<Rightarrow> string \<Rightarrow> Controller \<Rightarrow> Controller option" where
  "syncVirtualServerRoute w key c =
     (case cwVirtualServerRouteByKey w key of
        Inl _ \<Rightarrow> Some c
      | Inr None \<Rightarrow> processOutcome w (DeleteVirtualServerRoute key (ctConfiguration c)) c
      | Inr (Some vsr) \<Rightarrow> processOutcome w (AddOrUpdateVirtualServerRoute vsr (ctConfiguration c)) c)"

definition syncTransportServer :: "controllerWorld \<Rightarrow> string \<Rightarrow> Controller \<Rightarrow> Controller option" where
  "syncTransportServer w key c =
     (case cwTransportServerByKey w key of
        Inl _ \<Rightarrow> Some c
      | Inr None \<Rightarrow> processOutcome w (DeleteTransportServer key (ctConfiguration c)) c
      | Inr (Some ts) \<Rightarrow> processOutcome w (AddOrUpdateTransportServer ts (ctConfiguration c)) c)"

section \<open>The GlobalConfiguration\<close>

text \<open>Its changes concern TransportServers only, and are applied with one reload.\<close>

fun globalChanges :: "ResourceChange list \<Rightarrow> (TransportServerConfiguration list \<times> string list) option" where
  "globalChanges [] = Some ([], [])"
| "globalChanges (ch # chs) =
     (case rcResource ch of
        TransportServerRes tsc \<Rightarrow>
          map_option (\<lambda>(updated, deleted).
              if rcOp ch = AddOrUpdate then (tsc # updated, deleted)
              else (updated, getResourceKey (tsMeta (tscTransportServer tsc)) # deleted)) (globalChanges chs)
      | _ \<Rightarrow> None)"

definition processChangesFromGlobalConfiguration ::
    "controllerWorld \<Rightarrow> ResourceChange list \<Rightarrow> Controller \<Rightarrow> (string option \<times> Controller) option" where
  "processChangesFromGlobalConfiguration w changes c =
     do {
       (updated, deletedKeys) \<leftarrow> globalChanges changes;
       let updatedTSExes = map (\<lambda>tsc. createTransportServerEx (envOf w c) (tscTransportServer tsc) (tscListenerPort tsc)) updated;
       (_, err, cnf) \<leftarrow> UpdateTransportServers (cwCnf w) updatedTSExes deletedKeys (ctConfigurator c);
       Some (err, updateResourcesStatusAndEvents w (map TransportServerRes updated) [] err (withConfigurator cnf c))
     }"

definition globalConfigurationEvent :: "GlobalConfiguration \<Rightarrow> string \<Rightarrow> string option \<Rightarrow> string option \<Rightarrow> report" where
  "globalConfigurationEvent gc key validationErr updateErr =
     (let (title, type0, message) =
            (case validationErr of
               None \<Rightarrow> (''Updated'', EventTypeNormal, ''GlobalConfiguration '' @ key @ '' was added or updated'')
             | Some e \<Rightarrow> (''Rejected'', EventTypeWarning, ''GlobalConfiguration '' @ key @ '' is invalid and was rejected: '' @ e))
      in case updateErr of
           None \<Rightarrow> EventReport (ReportedGlobalConfiguration gc) type0 title message
         | Some e \<Rightarrow> EventReport (ReportedGlobalConfiguration gc) EventTypeWarning (title @ ''WithError'') (message @ ''; with reload error: '' @ e))"

definition processGlobalOutcome ::
    "controllerWorld \<Rightarrow> outcome \<Rightarrow> (string option \<Rightarrow> report list) \<Rightarrow> Controller \<Rightarrow> Controller option" where
  "processGlobalOutcome w r event c =
     (case r of
        None \<Rightarrow> None
      | Some (cfg, changes, problems) \<Rightarrow>
          map_option (\<lambda>(updateErr, c1). processProblems w problems (addReports (event updateErr) c1))
            (processChangesFromGlobalConfiguration w changes (c\<lparr>ctConfiguration := cfg\<rparr>)))"

definition syncGlobalConfiguration :: "controllerWorld \<Rightarrow> string \<Rightarrow> Controller \<Rightarrow> Controller option" where
  "syncGlobalConfiguration w key c =
     (case cwGlobalConfigurationByKey w key of
        Inl _ \<Rightarrow> Some c
      | Inr None \<Rightarrow> processGlobalOutcome w (DeleteGlobalConfiguration (ctConfiguration c)) (\<lambda>_. []) c
      | Inr (Some gc) \<Rightarrow>
          (case AddOrUpdateGlobalConfiguration gc (ctConfiguration c) of
             (r, validationErr) \<Rightarrow> processGlobalOutcome w r (\<lambda>updateErr. [globalConfigurationEvent gc key validationErr updateErr]) c))"

section \<open>Extended resources\<close>

definition noExtendedResources :: ExtendedResources where
  "noExtendedResources = \<lparr>erIngressExes = [], erMergeableIngresses = [], erVirtualServerExes = [], erTransportServerExes = []\<rparr>"

definition extendResource :: "controllerWorld \<Rightarrow> Resource \<Rightarrow> ExtendedResources \<times> Controller \<Rightarrow> (ExtendedResources \<times> Controller) option" where
  "extendResource w r acc =
     (case acc of (er, c) \<Rightarrow>
        case r of
          VirtualServerRes vsc \<Rightarrow>
            map_option (\<lambda>(vsEx, store). (er\<lparr>erVirtualServerExes := erVirtualServerExes er @ [vsEx]\<rparr>, withStore store c))
              (createVirtualServerEx (envOf w c) (vscVirtualServer vsc) (vscVirtualServerRoutes vsc) (storeOf c))
        | IngressRes ic \<Rightarrow>
            (if icIsMaster ic
             then map_option (\<lambda>(mi, store). (er\<lparr>erMergeableIngresses := erMergeableIngresses er @ [mi]\<rparr>, withStore store c))
                    (createMergeableIngresses (envOf w c) ic (storeOf c))
             else map_option (\<lambda>(ix, store). (er\<lparr>erIngressExes := erIngressExes er @ [ix]\<rparr>, withStore store c))
                    (createIngressEx (envOf w c) (icIngress ic) (icValidHosts ic) None (storeOf c)))
        | TransportServerRes tsc \<Rightarrow>
            Some (er\<lparr>erTransportServerExes := erTransportServerExes er
                     @ [createTransportServerEx (envOf w c) (tscTransportServer tsc) (tscListenerPort tsc)]\<rparr>, c))"

definition createExtendedResources :: "controllerWorld \<Rightarrow> Resource list \<Rightarrow> Controller \<Rightarrow> (ExtendedResources \<times> Controller) option" where
  "createExtendedResources w resources c = foldOpt (extendResource w) resources (noExtendedResources, c)"

text \<open>Resources are extended, handed to an operation of the Configurator, and reported.\<close>

definition updateWith ::
    "controllerWorld \<Rightarrow> (ExtendedResources \<Rightarrow> Configurator \<Rightarrow> cnfResult) \<Rightarrow> (string option \<Rightarrow> report list) \<Rightarrow> Resource list
       \<Rightarrow> Controller \<Rightarrow> Controller option" where
  "updateWith w update event resources c =
     do {
       (er, c1) \<leftarrow> createExtendedResources w resources c;
       (warnings, err, cnf) \<leftarrow> update er (ctConfigurator c1);
       Some (updateResourcesStatusAndEvents w resources warnings err (addReports (event err) (withConfigurator cnf c1)))
     }"

section \<open>Policies, services and endpoints\<close>

definition ParseNamespaceName :: "string \<Rightarrow> (string \<times> string) option" where
  "ParseNamespaceName key = (case splitOn (CHR ''/'') key of [ns, name] \<Rightarrow> Some (ns, name) | _ \<Rightarrow> None)"

text \<open>Where the error is ignored both parts are empty.\<close>

definition keyParts :: "string \<Rightarrow> string \<times> string" where
  "keyParts key = (case ParseNamespaceName key of None \<Rightarrow> ('''', '''') | Some p \<Rightarrow> p)"

definition reportPolicy :: "controllerWorld \<Rightarrow> Policy \<Rightarrow> Controller \<Rightarrow> Controller option" where
  "reportPolicy w pol c =
     map_option (\<lambda>err.
       (let (type0, title, state, msg) =
              (case err of
                 Some e \<Rightarrow> (EventTypeWarning, ''Rejected'', StateInvalid,
                            ''Policy '' @ nsName (polMeta pol) @ '' is invalid and was rejected: '' @ e)
               | None \<Rightarrow> (EventTypeNormal, ''AddedOrUpdated'', StateValid,
                          ''Policy '' @ nsName (polMeta pol) @ '' was added or updated''))
        in addReports (EventReport (ReportedPolicy pol) type0 title msg
             # (if reportCustomResourceStatusEnabled w then [PolicyStatusReport pol state title msg] else [])) c))
       (controllerValidatePolicy (envOf w c) pol)"

definition syncPolicy :: "controllerWorld \<Rightarrow> string \<Rightarrow> Controller \<Rightarrow> Controller option" where
  "syncPolicy w key c =
     (case cwPolicyByKey w key of
        Inl _ \<Rightarrow> Some c
      | Inr found \<Rightarrow>
          do {
            c1 \<leftarrow> (case found of None \<Rightarrow> Some c | Some pol \<Rightarrow> reportPolicy w pol c);
            let resources = (case keyParts key of (ns, name) \<Rightarrow> FindResourcesForPolicy (ctConfiguration c1) ns name);
            (er, c2) \<leftarrow> createExtendedResources w resources c1;
            (if erVirtualServerExes er = [] then Some c2
             else do {
               (warnings, err, cnf) \<leftarrow> cnfAddOrUpdateVirtualServers (cwCnf w) (erVirtualServerExes er) (ctConfigurator c2);
               Some (updateResourcesStatusAndEvents w resources warnings err (withConfigurator cnf c2))
             })
          })"

text \<open>The statuses that show the address of the controller, when that address changed.\<close>

definition IsExternalServiceKeyForStatus :: "controllerWorld \<Rightarrow> string \<Rightarrow> bool" where
  "IsExternalServiceKeyForStatus w key \<longleftrightarrow> key = fst (cwExternalService w) @ ''/'' @ snd (cwExternalService w)"

definition reportExternalEndpoints :: "controllerWorld \<Rightarrow> Controller \<Rightarrow> Controller" where
  "reportExternalEndpoints w c =
     (let resources = (\<lambda>flt. GetResourcesWithFilter (ctConfiguration c) flt) in
      addReports
        ((if reportStatusEnabled w then [ExternalEndpointsReport (resources \<lparr>rfIngresses = True, rfVirtualServers = False\<rparr>)] else [])
         @ (if cwAreCustomResourcesEnabled w \<and> reportCustomResourceStatusEnabled w
            then [ExternalEndpointsReport (resources \<lparr>rfIngresses = False, rfVirtualServers = True\<rparr>)] else [])) c)"

definition syncService :: "controllerWorld \<Rightarrow> string \<Rightarrow> Controller \<Rightarrow> Controller option" where
  "syncService w key c =
     (case cwServiceByKey w key of
        Inl _ \<Rightarrow> Some c
      | Inr svc \<Rightarrow>
          (let c1 = (if IsExternalServiceKeyForStatus w key
                     then reportExternalEndpoints w (onStatus (SaveStatusFromExternalService (nlIsIP (cwNet w)) svc) c) else c);
               resources = (case keyParts key of (ns, name) \<Rightarrow> FindResourcesForService (ctConfiguration c1) ns name)
           in if resources = [] then Some c1
              else updateWith w (AddOrUpdateResources (cwCnf w)) (\<lambda>_. []) resources c1))"

definition syncIngressLink :: "controllerWorld \<Rightarrow> string \<Rightarrow> Controller \<Rightarrow> Controller" where
  "syncIngressLink w key c =
     (case cwIngressLinkByKey w key of
        Inl _ \<Rightarrow> c
      | Inr link \<Rightarrow>
          (let address = (case link of
                 None \<Rightarrow> None
               | Some obj \<Rightarrow> (case NestedString obj [''spec'', ''virtualServerAddress''] of
                     Inr (Some ip) \<Rightarrow> (if ip = '''' then None else Some ip) | _ \<Rightarrow> None))
           in reportExternalEndpoints w
                (onStatus (case address of
                     None \<Rightarrow> ClearStatusFromIngressLink (nlIsIP (cwNet w))
                   | Some ip \<Rightarrow> SaveStatusFromIngressLink (nlIsIP (cwNet w)) ip) c)))"

text \<open>The errors are only logged: no event and no status is sent.\<close>

definition updateIf ::
    "bool \<Rightarrow> ('x list \<Rightarrow> Configurator \<Rightarrow> (string option \<times> Configurator) option) \<Rightarrow> 'x list \<Rightarrow> Controller \<Rightarrow> Controller option" where
  "updateIf enabled update xs c =
     (if enabled \<and> xs \<noteq> [] then map_option (\<lambda>(_, cnf). withConfigurator cnf c) (update xs (ctConfigurator c)) else Some c)"

definition syncEndpoints :: "controllerWorld \<Rightarrow> string \<Rightarrow> Controller \<Rightarrow> Controller option" where
  "syncEndpoints w key c =
     (case cwEndpointsByKey w key of
        Inl _ \<Rightarrow> Some c
      | Inr None \<Rightarrow> Some c
      | Inr (Some (ns, name)) \<Rightarrow>
          do {
            (er, c1) \<leftarrow> createExtendedResources w (FindResourcesForEndpoints (ctConfiguration c) ns name) c;
            c2 \<leftarrow> updateIf True (UpdateEndpoints (cwCnf w)) (erIngressExes er) c1;
            c3 \<leftarrow> updateIf True (UpdateEndpointsMergeableIngress (cwCnf w)) (erMergeableIngresses er) c2;
            c4 \<leftarrow> updateIf (cwAreCustomResourcesEnabled w) (UpdateEndpointsForVirtualServers (cwCnf w)) (erVirtualServerExes er) c3;
            updateIf (cwAreCustomResourcesEnabled w) (UpdateEndpointsForTransportServers (cwCnf w)) (erTransportServerExes er) c4
          })"

section \<open>The ConfigMap\<close>

definition configMapEvent :: "string \<Rightarrow> cnfWarnings \<Rightarrow> string option \<Rightarrow> report" where
  "configMapEvent key warnings err =
     (let text0 = ''Configuration from '' @ key @ '' was updated '' in
      case err of
        Some e \<Rightarrow> EventReport (ReportedConfigMap key) EventTypeWarning ''UpdatedWithError'' (text0 @ ''but was not applied: '' @ e)
      | None \<Rightarrow> EventReport (ReportedConfigMap key) EventTypeNormal ''Updated''
          (text0 @ (if warnings \<noteq> [] then ''with warnings. Please check the logs'' else '''')))"

definition syncConfigMap :: "controllerWorld \<Rightarrow> string \<Rightarrow> Controller \<Rightarrow> Controller option" where
  "syncConfigMap w key c =
     (case cwConfigMapByKey w key of
        Inl _ \<Rightarrow> Some c
      | Inr found \<Rightarrow>
          do {
            let cfgParams = (case found of
                  None \<Rightarrow> NewDefaultConfigParams
                | Some cfgm \<Rightarrow> ParseConfigMap cfgm (kcIsNginxPlus (cwFlags w)) (kcAppProtectEnabled (cwFlags w)));
            let c0 = (case found of
                  None \<Rightarrow> c
                | Some cfgm \<Rightarrow> onStatus (SaveStatusFromExternalStatus (nlIsIP (cwNet w))
                    (case gget (cmData cfgm) ''external-status-address'' of None \<Rightarrow> '''' | Some a \<Rightarrow> a)) c);
            let resources = GetResources (ctConfiguration c0);
            (er, c1) \<leftarrow> createExtendedResources w resources c0;
            (warnings, err, cnf) \<leftarrow> UpdateConfig (cwCnf w) cfgParams (erIngressExes er) (erMergeableIngresses er)
                                     (erVirtualServerExes er) (ctConfigurator c1);
            let c2 = withConfigurator cnf c1;
            Some (updateResourcesStatusAndEvents w resources warnings err
              (if found \<noteq> None then addReports [configMapEvent key warnings err] c2 else c2))
          })"

section \<open>Secrets\<close>

fun uniqueResources :: "string list \<Rightarrow> Resource list \<Rightarrow> Resource list" where
  "uniqueResources encountered [] = []"
| "uniqueResources encountered (r # rs) =
     (if GetKeyWithKind r \<in> set encountered then uniqueResources encountered rs
      else r # uniqueResources (GetKeyWithKind r # encountered) rs)"

definition removeDuplicateResources :: "Resource list \<Rightarrow> Resource list" where
  "removeDuplicateResources rs = uniqueResources [] rs"

definition isSpecialSecret :: "controllerWorld \<Rightarrow> string \<Rightarrow> bool" where
  "isSpecialSecret w key \<longleftrightarrow> key = kcDefaultServerSecret (cwFlags w) \<or> key = kcWildcardTLSSecret (cwFlags w)"

definition handleRegularSecretDeletion :: "controllerWorld \<Rightarrow> Resource list \<Rightarrow> Controller \<Rightarrow> Controller option" where
  "handleRegularSecretDeletion w resources c = updateWith w (AddOrUpdateResources (cwCnf w)) (\<lambda>_. []) resources c"

definition handleSecretUpdate :: "controllerWorld \<Rightarrow> Secret \<Rightarrow> Resource list \<Rightarrow> Controller \<Rightarrow> Controller option" where
  "handleSecretUpdate w secret resources c =
     updateWith w (AddOrUpdateResources (cwCnf w))
       (\<lambda>err. case err of
          None \<Rightarrow> []
        | Some e \<Rightarrow> [EventReport (ReportedSecret secret) EventTypeWarning ''UpdatedWithError''
                      (nsName (secMeta secret) @ '' was updated, but not applied: '' @ e)]) resources c"

definition handleSpecialSecretUpdate :: "controllerWorld \<Rightarrow> Secret \<Rightarrow> Controller \<Rightarrow> Controller" where
  "handleSpecialSecretUpdate w secret c =
     (let key = nsName (secMeta secret);
          event = (\<lambda>type0 title msg. addReports [EventReport (ReportedSecret secret) type0 title (''the special Secret '' @ key @ msg)]) in
      case ValidateTLSSecret (cwCrypto w) secret of
        Some e \<Rightarrow> event EventTypeWarning ''Rejected'' ('' was rejected, using the previous version: '' @ e) c
      | None \<Rightarrow>
          (let names = (if key = kcDefaultServerSecret (cwFlags w) then [''default''] else [])
                 @ (if key = kcWildcardTLSSecret (cwFlags w) then [''wildcard''] else [])
           in case AddOrUpdateSpecialTLSSecrets (cwCnf w) secret names (ctConfigurator c) of
                (Some e, cnf) \<Rightarrow> event EventTypeWarning ''UpdatedWithError'' ('' was updated, but not applied: '' @ e) (withConfigurator cnf c)
              | (None, cnf) \<Rightarrow> event EventTypeNormal ''Updated'' '' was updated'' (withConfigurator cnf c)))"

definition resourcesOfPolicies :: "Configuration \<Rightarrow> Policy list \<Rightarrow> Resource list" where
  "resourcesOfPolicies cfg pols = concat (map (\<lambda>pol. FindResourcesForPolicy cfg (omNamespace (polMeta pol)) (omName (polMeta pol))) pols)"

definition resourcesForSecret :: "controllerWorld \<Rightarrow> string \<Rightarrow> string \<Rightarrow> Controller \<Rightarrow> Resource list option" where
  "resourcesForSecret w namespace name c =
     (let resources = FindResourcesForSecret (ctConfiguration c) namespace name
      in if cwAreCustomResourcesEnabled w
         then map_option (\<lambda>pols. removeDuplicateResources (resources @ resourcesOfPolicies (ctConfiguration c) pols))
                (getPoliciesForSecret (envOf w c) namespace name)
         else Some resources)"

definition onStore :: "(files SecretFileManager \<Rightarrow> files LocalSecretStore \<Rightarrow> files LocalSecretStore) \<Rightarrow> Controller \<Rightarrow> Controller" where
  "onStore f c = withStore (f (cnfSecretFiles (cnManager (ctConfigurator c))) (storeOf c)) c"

definition syncSecret :: "controllerWorld \<Rightarrow> string \<Rightarrow> Controller \<Rightarrow> Controller option" where
  "syncSecret w key c =
     (case (cwSecretByKey w key, ParseNamespaceName key) of
        (Inl _, _) \<Rightarrow> Some c
      | (_, None) \<Rightarrow> Some c
      | (Inr found, Some (namespace, name)) \<Rightarrow>
          do {
            resources \<leftarrow> resourcesForSecret w namespace name c;
            (case found of
               None \<Rightarrow>
                 (let c1 = onStore (\<lambda>manager. DeleteSecret manager key) c
                  in if resources \<noteq> [] then handleRegularSecretDeletion w resources c1 else Some c1)
             | Some secret \<Rightarrow>
                 (let c1 = onStore (\<lambda>manager. AddOrUpdateSecret (cwCrypto w) manager secret) c;
                      c2 = (if isSpecialSecret w key then handleSpecialSecretUpdate w secret c1 else c1)
                  in if resources \<noteq> [] then handleSecretUpdate w secret resources c2 else Some c2))
          })"

section \<open>App Protect\<close>

definition resourcesForApPolicy :: "controllerWorld \<Rightarrow> string \<Rightarrow> string \<Rightarrow> Controller \<Rightarrow> Resource list option" where
  "resourcesForApPolicy w namespace name c =
     map_option (\<lambda>pols. FindResourcesForAppProtectPolicyAnnotation (ctConfiguration c) namespace name
         @ resourcesOfPolicies (ctConfiguration c) (getWAFPoliciesForAppProtectPolicy pols (namespace @ ''/'' @ name)))
       (getAllPolicies (envOf w c))"

definition resourcesForApLogConf :: "controllerWorld \<Rightarrow> string \<Rightarrow> string \<Rightarrow> Controller \<Rightarrow> Resource list option" where
  "resourcesForApLogConf w namespace name c =
     map_option (\<lambda>pols. FindResourcesForAppProtectLogConfAnnotation (ctConfiguration c) namespace name
         @ resourcesOfPolicies (ctConfiguration c) (getWAFPoliciesForAppProtectLogConf pols (namespace @ ''/'' @ name)))
       (getAllPolicies (envOf w c))"

type_synonym httpUpdate = "IngressEx list \<Rightarrow> MergeableIngresses list \<Rightarrow> VirtualServerEx list \<Rightarrow> Configurator \<Rightarrow> cnfResult"

definition onHTTPResources :: "httpUpdate \<Rightarrow> ExtendedResources \<Rightarrow> Configurator \<Rightarrow> cnfResult" where
  "onHTTPResources update er = update (erIngressExes er) (erMergeableIngresses er) (erVirtualServerExes er)"

definition apUpdated :: "controllerWorld \<Rightarrow> unstructured \<Rightarrow> string \<Rightarrow> Resource list \<Rightarrow> Controller \<Rightarrow> Controller option" where
  "apUpdated w obj kind resources c =
     map_option (addReports [EventReport (ReportedAppProtect obj) EventTypeNormal ''AddedOrUpdated''
         (kind @ '' '' @ usGetNamespace obj @ ''/'' @ usGetName obj @ '' was added or updated'')])
       (updateWith w (onHTTPResources (AddOrUpdateAppProtectResource (cwCnf w) (getNestedString obj [''kind'']))) (\<lambda>_. []) resources c)"

definition processAppProtectChange :: "controllerWorld \<Rightarrow> APChange \<Rightarrow> Controller \<Rightarrow> Controller option" where
  "processAppProtectChange w ch c =
     (case apcResource ch of
        APPolicyRes policy \<Rightarrow>
          (let obj = pxObj policy; namespace = usGetNamespace obj; name = usGetName obj in
           do {
             resources \<leftarrow> resourcesForApPolicy w namespace name c;
             (case apcOp ch of
                APAddOrUpdate \<Rightarrow> apUpdated w obj ''AppProtectPolicy'' resources c
              | APDelete \<Rightarrow>
                  updateWith w (onHTTPResources (DeleteAppProtectPolicy (cwCnf w) (namespace @ ''/'' @ name))) (\<lambda>_. []) resources c)
           })
      | APLogConfRes logConf \<Rightarrow>
          (let obj = lxObj logConf; namespace = usGetNamespace obj; name = usGetName obj in
           do {
             resources \<leftarrow> resourcesForApLogConf w namespace name c;
             (case apcOp ch of
                APAddOrUpdate \<Rightarrow> apUpdated w obj ''AppProtectLogConfig'' resources c
              | APDelete \<Rightarrow>
                  updateWith w (onHTTPResources (DeleteAppProtectLogConf (cwCnf w) (namespace @ ''/'' @ name))) (\<lambda>_. []) resources c)
           })
      | APUserSigRes _ \<Rightarrow> Some c)"

definition processAppProtectProblems :: "APProblem list \<Rightarrow> Controller \<Rightarrow> Controller" where
  "processAppProtectProblems problems =
     addReports (map (\<lambda>p. EventReport (ReportedAppProtect (appObject p)) EventTypeWarning (appReason p) (appMessage p)) problems)"

definition processAppProtectOutcome ::
    "controllerWorld \<Rightarrow> APConfiguration \<times> APChange list \<times> APProblem list \<Rightarrow> Controller \<Rightarrow> Controller option" where
  "processAppProtectOutcome w r c =
     (case r of (cfg, changes, problems) \<Rightarrow>
        map_option (processAppProtectProblems problems)
          (foldOpt (processAppProtectChange w) changes (c\<lparr>ctAppProtect := cfg\<rparr>)))"

definition syncAppProtectLogConf :: "controllerWorld \<Rightarrow> string \<Rightarrow> Controller \<Rightarrow> Controller option" where
  "syncAppProtectLogConf w key c =
     (case cwAppProtectLogConfByKey w key of
        Inl _ \<Rightarrow> Some c
      | Inr None \<Rightarrow> processAppProtectOutcome w (DeleteLogConf key (ctAppProtect c)) c
      | Inr (Some obj) \<Rightarrow> processAppProtectOutcome w (AddOrUpdateLogConf obj (ctAppProtect c)) c)"

definition syncAppProtectPolicy :: "controllerWorld \<Rightarrow> string \<Rightarrow> Controller \<Rightarrow> Controller option" where
  "syncAppProtectPolicy w key c =
     (case cwAppProtectPolicyByKey w key of
        Inl _ \<Rightarrow> Some c
      | Inr None \<Rightarrow> processAppProtectOutcome w (DeletePolicy key (ctAppProtect c)) c
      | Inr (Some obj) \<Rightarrow>
          (case AddOrUpdatePolicy (cwTime w) obj (ctAppProtect c) of
             None \<Rightarrow> None
           | Some r \<Rightarrow> processAppProtectOutcome w r c))"

text \<open>
  What the change of a policy by user signatures concerns: its resources, extended. The keys of
  the policies to delete are listed where something uses them.
\<close>

record policyUses =
  puExtended :: ExtendedResources
  puResources :: "Resource list"
  puDeleted :: "string list"

definition addUses :: "controllerWorld \<Rightarrow> bool \<Rightarrow> unstructured \<Rightarrow> policyUses \<times> Controller \<Rightarrow> (policyUses \<times> Controller) option" where
  "addUses w deletion obj acc =
     (case acc of (pu, c) \<Rightarrow>
        do {
          resources \<leftarrow> resourcesForApPolicy w (usGetNamespace obj) (usGetName obj) c;
          (er, c1) \<leftarrow> createExtendedResources w resources c;
          let old = puExtended pu;
          let all = old\<lparr>erIngressExes := erIngressExes old @ erIngressExes er,
                        erMergeableIngresses := erMergeableIngresses old @ erMergeableIngresses er,
                        erVirtualServerExes := erVirtualServerExes old @ erVirtualServerExes er\<rparr>;
          let used = (erIngressExes er \<noteq> [] \<or> erMergeableIngresses er \<noteq> [] \<or> erVirtualServerExes er \<noteq> []);
          Some (\<lparr>puExtended = all, puResources = puResources pu @ resources,
                 puDeleted = puDeleted pu @ (if deletion \<and> used then [GetNsName obj] else [])\<rparr>, c1)
        })"

definition processAppProtectUserSigChange :: "controllerWorld \<Rightarrow> UserSigChange \<Rightarrow> Controller \<Rightarrow> Controller option" where
  "processAppProtectUserSigChange w change c =
     do {
       acc1 \<leftarrow> foldOpt (addUses w False) (uscPolicyAddsOrUpdates change)
                (\<lparr>puExtended = noExtendedResources, puResources = [], puDeleted = []\<rparr>, c);
       (pu, c2) \<leftarrow> foldOpt (addUses w True) (uscPolicyDeletions change) acc1;
       (warnings, err, cnf) \<leftarrow> onHTTPResources (RefreshAppProtectUserSigs (cwCnf w) (uscUserSigs change) (puDeleted pu)) (puExtended pu)
                                (ctConfigurator c2);
       Some (updateResourcesStatusAndEvents w (puResources pu) warnings err (withConfigurator cnf c2))
     }"

definition processUserSigOutcome ::
    "controllerWorld \<Rightarrow> APConfiguration \<times> UserSigChange \<times> APProblem list \<Rightarrow> Controller \<Rightarrow> Controller option" where
  "processUserSigOutcome w r c =
     (case r of (cfg, change, problems) \<Rightarrow>
        map_option (processAppProtectProblems problems) (processAppProtectUserSigChange w change (c\<lparr>ctAppProtect := cfg\<rparr>)))"

definition syncAppProtectUserSig :: "controllerWorld \<Rightarrow> string \<Rightarrow> Controller \<Rightarrow> Controller option" where
  "syncAppProtectUserSig w key c =
     (case cwAppProtectUserSigByKey w key of
        Inl _ \<Rightarrow> Some c
      | Inr None \<Rightarrow> processUserSigOutcome w (DeleteUserSig (cwTime w) key (ctAppProtect c)) c
      | Inr (Some obj) \<Rightarrow> processUserSigOutcome w (AddOrUpdateUserSig (cwTime w) obj (ctAppProtect c)) c)"

section \<open>Statuses from events\<close>

definition getStatusFromEventTitle :: "string \<Rightarrow> string" where
  "getStatusFromEventTitle title =
     (if title \<in> {''AddedOrUpdatedWithError'', ''Rejected'', ''NoVirtualServersFound'', ''Missing Secret'', ''UpdatedWithError''}
      then StateInvalid
      else if title \<in> {''AddedOrUpdatedWithWarning'', ''UpdatedWithWarning''} then StateWarning
      else if title \<in> {''AddedOrUpdated'', ''Updated''} then StateValid
      else '''')"

record clusterEvent =
  evReason :: string
  evMessage :: string
  evCreated :: int

text \<open>
  The event that a restarted controller takes the status from. The time it compares with is never
  set, so every event created after the zero time (here 0) counts as later: the last of the list wins.
\<close>

definition latestEvent :: "clusterEvent list \<Rightarrow> clusterEvent" where
  "latestEvent events =
     fold (\<lambda>event latest. if evCreated event > 0 then event else latest) events \<lparr>evReason = '''', evMessage = '''', evCreated = 0\<rparr>"

definition statusFromEvents :: "clusterEvent list \<Rightarrow> (string \<times> string \<times> string) option" where
  "statusFromEvents events =
     (if events = [] then None
      else let e = latestEvent events in Some (getStatusFromEventTitle (evReason e), evReason e, evMessage e))"

text \<open>
  The statuses of the objects of the right class; the first failure to list events ends the loop.
\<close>

fun virtualServerStatuses ::
    "controllerWorld \<Rightarrow> (ObjectMeta \<Rightarrow> string + clusterEvent list) \<Rightarrow> VirtualServer list \<Rightarrow> report list \<times> string list" where
  "virtualServerStatuses w events [] = ([], [])"
| "virtualServerStatuses w events (vs # vss) =
     (if \<not> HasCorrectIngressClass (cwFlags w) (ClassVirtualServer vs) then virtualServerStatuses w events vss
      else case events (vsMeta vs) of
          Inl err \<Rightarrow> ([], [''error trying to get events for VirtualServer '' @ nsName (vsMeta vs) @ '': '' @ err])
        | Inr evs \<Rightarrow>
            (case (statusFromEvents evs, virtualServerStatuses w events vss) of
               (None, r) \<Rightarrow> r
             | (Some (state, reason, msg), rs, errs) \<Rightarrow> (VirtualServerStatusReport vs state reason msg # rs, errs)))"

fun virtualServerRouteStatuses ::
    "controllerWorld \<Rightarrow> (ObjectMeta \<Rightarrow> string + clusterEvent list) \<Rightarrow> VirtualServerRoute list \<Rightarrow> report list \<times> string list" where
  "virtualServerRouteStatuses w events [] = ([], [])"
| "virtualServerRouteStatuses w events (vsr # vsrs) =
     (if \<not> HasCorrectIngressClass (cwFlags w) (ClassVirtualServerRoute vsr) then virtualServerRouteStatuses w events vsrs
      else case events (vsrMeta vsr) of
          Inl err \<Rightarrow> ([], [''error trying to get events for VirtualServerRoute '' @ nsName (vsrMeta vsr) @ '': '' @ err])
        | Inr evs \<Rightarrow>
            (case (statusFromEvents evs, virtualServerRouteStatuses w events vsrs) of
               (None, r) \<Rightarrow> r
             | (Some (state, reason, msg), rs, errs) \<Rightarrow> (VirtualServerRouteStatusKept vsr state reason msg # rs, errs)))"

fun transportServerStatuses ::
    "(ObjectMeta \<Rightarrow> string + clusterEvent list) \<Rightarrow> TransportServer list \<Rightarrow> report list \<times> string list" where
  "transportServerStatuses events [] = ([], [])"
| "transportServerStatuses events (ts # tss) =
     (case events (tsMeta ts) of
        Inl err \<Rightarrow> ([], [''error trying to get events for TransportServer '' @ nsName (tsMeta ts) @ '': '' @ err])
      | Inr evs \<Rightarrow>
          (case (statusFromEvents evs, transportServerStatuses events tss) of
             (None, r) \<Rightarrow> r
           | (Some (state, reason, msg), rs, errs) \<Rightarrow> (TransportServerStatusReport ts state reason msg # rs, errs)))"

definition policyStatus :: "controllerWorld \<Rightarrow> Policy \<Rightarrow> Controller \<Rightarrow> report option" where
  "policyStatus w pol c =
     map_option (\<lambda>err. case err of
         Some e \<Rightarrow> PolicyStatusReport pol StateInvalid ''Rejected'' (''Policy '' @ nsName (polMeta pol) @ '' is invalid and was rejected: '' @ e)
       | None \<Rightarrow> PolicyStatusReport pol StateValid ''AddedOrUpdated'' (''Policy '' @ nsName (polMeta pol) @ '' was added or updated''))
       (controllerValidatePolicy (envOf w c) pol)"

definition updatePoliciesStatus :: "controllerWorld \<Rightarrow> Policy list \<Rightarrow> Controller \<Rightarrow> report list option" where
  "updatePoliciesStatus w pols c = mapOpt (\<lambda>pol. policyStatus w pol c) pols"

section \<open>SPIFFE\<close>

definition syncSVIDRotation :: "controllerWorld \<Rightarrow> string + string \<Rightarrow> string \<Rightarrow> string \<Rightarrow> Controller \<Rightarrow> Controller" where
  "syncSVIDRotation w key certificates trustBundle c =
     withConfigurator (snd (AddOrUpdateSpiffeCerts (cwCnf w) key certificates trustBundle (ctConfigurator c))) c"

section \<open>The queue\<close>

text \<open>
  A task is a kind of resource and a key. The gauges that some tasks set afterwards, and the flag
  that tells whether the queue was once empty, are left out.
\<close>

datatype kind =
    KindIngress | KindEndpoints | KindConfigMap | KindSecret | KindService | KindVirtualserver | KindVirtualServerRoute
  | KindGlobalConfiguration | KindTransportserver | KindPolicy | KindAppProtectPolicy | KindAppProtectLogConf
  | KindAppProtectUserSig | KindIngressLink

record task =
  tkKind :: kind
  tkKey :: string

definition sync :: "controllerWorld \<Rightarrow> task \<Rightarrow> Controller \<Rightarrow> Controller option" where
  "sync w t =
     (case tkKind t of
        KindIngress \<Rightarrow> syncIngress w (tkKey t)
      | KindEndpoints \<Rightarrow> syncEndpoints w (tkKey t)
      | KindConfigMap \<Rightarrow> syncConfigMap w (tkKey t)
      | KindSecret \<Rightarrow> syncSecret w (tkKey t)
      | KindService \<Rightarrow> syncService w (tkKey t)
      | KindVirtualserver \<Rightarrow> syncVirtualServer w (tkKey t)
      | KindVirtualServerRoute \<Rightarrow> syncVirtualServerRoute w (tkKey t)
      | KindGlobalConfiguration \<Rightarrow> syncGlobalConfiguration w (tkKey t)
      | KindTransportserver \<Rightarrow> syncTransportServer w (tkKey t)
      | KindPolicy \<Rightarrow> syncPolicy w (tkKey t)
      | KindAppProtectPolicy \<Rightarrow> syncAppProtectPolicy w (tkKey t)
      | KindAppProtectLogConf \<Rightarrow> syncAppProtectLogConf w (tkKey t)
      | KindAppProtectUserSig \<Rightarrow> syncAppProtectUserSig w (tkKey t)
      | KindIngressLink \<Rightarrow> Some \<circ> syncIngressLink w (tkKey t))"

text \<open>Tasks one after the other, each in the state that the caches then have.\<close>

definition syncTasks :: "(controllerWorld \<times> task) list \<Rightarrow> Controller \<Rightarrow> Controller option" where
  "syncTasks tasks c = foldOpt (\<lambda>(w, t). sync w t) tasks c"

section \<open>Reports\<close>

text \<open>What a report makes the status updater write; events go to the API as they are.\<close>

definition writeReport :: "statusCluster \<Rightarrow> statusUpdater \<Rightarrow> report \<Rightarrow> statusWrite list \<Rightarrow> statusWrite list" where
  "writeReport sc su r log =
     (case r of
        EventReport _ _ _ _ \<Rightarrow> log
      | IngressStatusReport ings \<Rightarrow> snd (BulkUpdateIngressStatus sc su ings log)
      | IngressStatusCleared ing \<Rightarrow> snd (ClearIngressStatus sc ing log)
      | VirtualServerStatusReport vs state reason msg \<Rightarrow> snd (UpdateVirtualServerStatus sc su vs state reason msg log)
      | VirtualServerRouteStatusReport vsr state reason msg refs \<Rightarrow>
          snd (UpdateVirtualServerRouteStatusWithReferencedBy sc su vsr state reason msg refs log)
      | VirtualServerRouteStatusKept vsr state reason msg \<Rightarrow> snd (UpdateVirtualServerRouteStatus sc su vsr state reason msg log)
      | TransportServerStatusReport ts state reason msg \<Rightarrow> snd (UpdateTransportServerStatus sc ts state reason msg log)
      | PolicyStatusReport pol state reason msg \<Rightarrow> fst (snd (UpdatePolicyStatus sc pol state reason msg log))
      | ExternalEndpointsReport resources \<Rightarrow> snd (UpdateExternalEndpointsForResources sc su resources log))"

end
