(* ===== verification/Sync_Changes.thy ===== *)
theory Sync_Changes
  imports Configuration_Properties
begin

text \<open>
  What the controller relies on when it processes the changes of the configuration: every stored object
  is valid, and a change that adds or updates a resource carries the current holder of a host or
  of a listener. Both hold in all reachable states.
\<close>

section \<open>Valid objects\<close>

definition validObjects :: "Configuration \<Rightarrow> bool" where
  "validObjects c =
     ((\<forall>k ing. gget (cIngresses c) k = Some ing \<longrightarrow>
          validateIngress ing (cIsPlus c) (cAppProtectEnabled c) (cInternalRoutesEnabled c) = [])
      \<and> (\<forall>k vs. gget (cVirtualServers c) k = Some vs \<longrightarrow> ValidateVirtualServer (cVirtualServerValidator c) vs = None)
      \<and> (\<forall>k ts. gget (cTransportServers c) k = Some ts \<longrightarrow> ValidateTransportServer (cTransportServerValidator c) ts = None))"

definition objectsOf where
  "objectsOf c = (cIngresses c, cVirtualServers c, cTransportServers c)"

lemma validObjects_same: "objectsOf c = objectsOf c' \<Longrightarrow> settingsOf c = settingsOf c' \<Longrightarrow> validObjects c = validObjects c'"
  by (simp add: validObjects_def objectsOf_def settingsOf_def)

lemma rebuildHosts_objects: "rebuildHosts c = Some (c', ch, pr) \<Longrightarrow> objectsOf c' = objectsOf c"
  by (auto simp: rebuildHosts_def objectsOf_def Let_def split: option.splits)

lemma rebuildListeners_objects: "rebuildListeners c = Some (c', ch, pr) \<Longrightarrow> objectsOf c' = objectsOf c"
  by (auto simp: rebuildListeners_def objectsOf_def Let_def split: option.splits)

lemma rebuildForTransportServer_objects: "rebuildForTransportServer c = Some (c', ch, pr) \<Longrightarrow> objectsOf c' = objectsOf c"
  by (auto simp: rebuildForTransportServer_def dest!: rebuildHosts_objects rebuildListeners_objects split: option.splits if_splits)

lemma valid_storeIngress: "validObjects c \<Longrightarrow> validObjects (storeIngress ing c)"
  by (auto simp: validObjects_def storeIngress_def ingressError_def ToAggregate_def split: if_splits list.splits)

lemma valid_storeVirtualServer: "validObjects c \<Longrightarrow> validObjects (storeVirtualServer vs c)"
  by (auto simp: validObjects_def storeVirtualServer_def virtualServerError_def split: if_splits)

lemma valid_storeTransportServer: "validObjects c \<Longrightarrow> validObjects (storeTransportServer ts c)"
  by (auto simp: validObjects_def storeTransportServer_def transportServerError_def split: if_splits)

section \<open>Changes of holders\<close>

definition holder :: "Configuration \<Rightarrow> Resource \<Rightarrow> bool" where
  "holder c r = ((\<exists>h. gget (cHosts c) h = Some r) \<or> (\<exists>l. gget (asResources (cListeners c)) l = Some r))"

definition updatesHeld :: "Configuration \<Rightarrow> ResourceChange list \<Rightarrow> bool" where
  "updatesHeld c changes = (\<forall>x\<in>set changes. rcOp x = AddOrUpdate \<longrightarrow> holder c (rcResource x))"

lemma rebuildHosts_held:
  assumes wf: "wfObjects c" and reb: "rebuildHosts c = Some (c', ch, pr)" and x: "x \<in> set ch" "rcOp x = AddOrUpdate"
  shows "\<exists>h. gget (cHosts c') h = Some (rcResource x)"
proof -
  obtain res where rb: "rebuiltHosts c c' res ch pr" using rebuildHosts_total [OF wf] reb by auto
  have tab: "hostTable c (cHosts c') res" using rebuiltHostsD [OF rb] by (rule conjunct2)
  obtain cs where cs: "changesOf (cHosts c) (cHosts c') cs" "ch = referToLatest res cs"
    using rb unfolding rebuiltHosts_def by (elim conjE exE) (rule that)
  obtain y where y: "y \<in> set cs" "x = latestChange res y" using x(1) by (auto simp: cs(2) referToLatest_map)
  have "rcResource y \<in> hostUpdates (cHosts c) (cHosts c')"
    using cs(1) y(1) by (rule changesOf_cases) (use x(2) y(2) in auto)
  then obtain h where h: "gget (cHosts c') h = Some (rcResource y)" by (auto simp: hostUpdates_def)
  have "x = y" unfolding y(2) latestChange_def using table_latest [OF tab h] by (simp add: changeKey_def)
  with h show ?thesis by blast
qed

lemma rebuildListeners_held:
  assumes keyed: "keyedBy tsMeta (cTransportServers c)" and plain: "plainServers c"
    and reb: "rebuildListeners c = Some (c', ch, pr)" and x: "x \<in> set ch" "rcOp x = AddOrUpdate"
  shows "\<exists>l. gget (asResources (cListeners c')) l = Some (rcResource x)"
proof -
  have rb: "rebuiltListeners c c' ch pr" using rebuildListeners_total [OF keyed] reb by auto
  obtain cs configs where cs: "changesOf (asResources (cListeners c)) (asResources (cListeners c')) cs"
      "ch = referToLatestTSConfigs configs cs" "gkeys configs \<subseteq> gkeys (cTransportServers c)"
    using rb unfolding rebuiltListeners_def by (elim conjE exE) (rule that)
  have "ch = cs" using cs(2) referToLatestTSConfigs_never [OF keyed plain cs(3)] by simp
  then have "rcResource x \<in> hostUpdates (asResources (cListeners c)) (asResources (cListeners c'))"
    using cs(1) x by (metis changesOf_cases Operation.distinct(1))
  then show ?thesis unfolding hostUpdates_def by blast
qed

definition heldOutcome :: "outcome \<Rightarrow> bool" where
  "heldOutcome r = (\<forall>c ch pr. r = Some (c, ch, pr) \<longrightarrow> updatesHeld c ch)"

lemma heldOutcome_hosts: "wfObjects c \<Longrightarrow> heldOutcome (rebuildHosts c)"
  unfolding heldOutcome_def updatesHeld_def holder_def by (blast dest: rebuildHosts_held)

lemma heldOutcome_listeners: "wfObjects c \<Longrightarrow> plainServers c \<Longrightarrow> heldOutcome (rebuildListeners c)"
  unfolding heldOutcome_def updatesHeld_def holder_def wfObjects_def by (blast dest: rebuildListeners_held)

lemma heldOutcome_transport:
  assumes wf: "wfObjects c" and plain: "plainServers c"
  shows "heldOutcome (rebuildForTransportServer c)"
  unfolding heldOutcome_def
proof (intro allI impI)
  fix c' ch pr assume out: "rebuildForTransportServer c = Some (c', ch, pr)"
  obtain c1 ch1 pr1 where l: "rebuildListeners c = Some (c1, ch1, pr1)"
    using out by (auto simp: rebuildForTransportServer_def split: option.splits)
  have held1: "updatesHeld c1 ch1" using heldOutcome_listeners [OF assms] l unfolding heldOutcome_def by blast
  show "updatesHeld c' ch"
  proof (cases "cIsTLSPassthroughEnabled c1")
    case False
    then show ?thesis using out l held1 by (simp add: rebuildForTransportServer_def)
  next
    case True
    obtain c2 ch2 pr2 where h: "rebuildHosts c1 = Some (c2, ch2, pr2)" "c' = c2" "ch = ch1 @ ch2"
      using out l True by (auto simp: rebuildForTransportServer_def)
    have "c1 = c\<lparr>cListeners := cListeners c1, cListenerProblems := cListenerProblems c1\<rparr>"
      using rebuildListeners_total [of c] wf l rebuiltListenersD by (fastforce simp: wfObjects_def)
    then obtain L P where c1: "c1 = c\<lparr>cListeners := L, cListenerProblems := P\<rparr>" by blast
    have wf1: "wfObjects c1" using wf by (simp add: c1 wfObjects_def)
    have "updatesHeld c2 ch2" using heldOutcome_hosts [OF wf1] h(1) unfolding heldOutcome_def by blast
    moreover have "cListeners c2 = cListeners c1" using h(1) by (auto simp: rebuildHosts_def Let_def split: option.splits)
    then have "updatesHeld c2 ch1"
      using rebuildListeners_held [OF _ plain l] wf unfolding updatesHeld_def holder_def wfObjects_def by metis
    ultimately show ?thesis by (auto simp: h(2,3) updatesHeld_def)
  qed
qed

lemma setChangeError_held: "setChangeError k e cs = Some cs' \<Longrightarrow> updatesHeld c cs \<Longrightarrow> updatesHeld c cs'"
  by (induction cs arbitrary: cs') (auto simp: updatesHeld_def split: if_splits)

lemma heldOutcome_report: "heldOutcome r \<Longrightarrow> heldOutcome (reportError e k p r)"
  by (auto simp: heldOutcome_def reportError_def dest: setChangeError_held split: option.splits)

lemma heldOutcome_Nil [simp]: "heldOutcome (Some (c, [], pr))"
  by (simp add: heldOutcome_def updatesHeld_def)

section \<open>Events\<close>

text \<open>Every event changes the stored objects and then rebuilds a table: what holds of all such outcomes holds of the event.\<close>

definition nextObjects :: "Configuration \<Rightarrow> Configuration \<Rightarrow> bool" where
  "nextObjects c c1 = (wfObjects c1 \<and> plainServers c1 \<and> sameTables c c1)"

lemma nextObjects_events:
  assumes "inStep c"
  shows "nextObjects c (c\<lparr>cIngresses := gdel key (cIngresses c)\<rparr>)" "nextObjects c (c\<lparr>cVirtualServers := gdel key (cVirtualServers c)\<rparr>)"
    "nextObjects c (c\<lparr>cVirtualServerRoutes := gdel key (cVirtualServerRoutes c)\<rparr>)"
    "nextObjects c (c\<lparr>cTransportServers := gdel key (cTransportServers c)\<rparr>)" "nextObjects c (c\<lparr>cGlobalConfiguration := g\<rparr>)"
    "nextObjects c (storeIngress ing c)" "nextObjects c (storeVirtualServer vs c)" "nextObjects c (storeVirtualServerRoute vsr c)"
    "plainMeta (tsMeta ts) \<Longrightarrow> nextObjects c (storeTransportServer ts c)"
proof -
  note wf = inStepD(1) [OF assms] and plain = inStepD(2) [OF assms]
  show "nextObjects c (c\<lparr>cIngresses := gdel key (cIngresses c)\<rparr>)" "nextObjects c (c\<lparr>cVirtualServers := gdel key (cVirtualServers c)\<rparr>)"
    "nextObjects c (c\<lparr>cVirtualServerRoutes := gdel key (cVirtualServerRoutes c)\<rparr>)"
    "nextObjects c (c\<lparr>cTransportServers := gdel key (cTransportServers c)\<rparr>)" "nextObjects c (c\<lparr>cGlobalConfiguration := g\<rparr>)"
    using wf plain by (auto simp: nextObjects_def wfObjects_def plainServers_def sameTables_def keyedBy_gdel split: if_splits)
  show "nextObjects c (storeIngress ing c)" "nextObjects c (storeVirtualServer vs c)" "nextObjects c (storeVirtualServerRoute vsr c)"
    using wf_storeIngress [OF wf] wf_storeVirtualServer [OF wf] wf_storeVirtualServerRoute [OF wf] plain
    by (simp_all add: nextObjects_def plainServers_def sameTables_def storeIngress_def storeVirtualServer_def storeVirtualServerRoute_def)
  show "nextObjects c (storeTransportServer ts c)" if "plainMeta (tsMeta ts)"
    using wf_storeTransportServer [OF wf] plain_storeTransportServer [OF plain that]
    by (simp add: nextObjects_def sameTables_def storeTransportServer_def)
qed

lemma handleEvent_rule:
  assumes step: "inStep c" and plain: "plainEvent ev"
    and rebuilds: "\<And>c1. nextObjects c c1 \<Longrightarrow> P (rebuildHosts c1)" "\<And>c1. nextObjects c c1 \<Longrightarrow> P (rebuildListeners c1)"
      "\<And>c1. nextObjects c c1 \<Longrightarrow> P (rebuildForTransportServer c1)"
    and report: "\<And>e k p r. P r \<Longrightarrow> P (reportError e k p r)" and idle: "P (Some (c, [], []))"
    and problem: "\<And>r q. P r \<Longrightarrow> P (map_option (\<lambda>(c', ch, pr). (c', ch, pr @ [q])) r)"
  shows "P (handleEvent ev c)"
  using plain
  by (cases ev) (simp_all add: AddOrUpdateIngress_def DeleteIngress_def AddOrUpdateVirtualServer_def DeleteVirtualServer_def
      AddOrUpdateVirtualServerRoute_def DeleteVirtualServerRoute_def AddOrUpdateGlobalConfiguration_def DeleteGlobalConfiguration_def
      AddOrUpdateTransportServer_def DeleteTransportServer_def Let_def report idle problem rebuilds nextObjects_events [OF step]
      split: option.split)

lemma handleEvent_held:
  assumes "inStep c" and "plainEvent ev"
  shows "heldOutcome (handleEvent ev c)"
  using assms
proof (rule handleEvent_rule)
  show "heldOutcome (map_option (\<lambda>(c', ch, pr). (c', ch, pr @ [q])) r)" if "heldOutcome r" for r q
    using that by (auto simp: heldOutcome_def)
qed (simp_all add: nextObjects_def heldOutcome_hosts heldOutcome_listeners heldOutcome_transport heldOutcome_report)

text \<open>An operation is a change of the stored objects and a rebuild, which leaves them alone.\<close>

definition keepsValid :: "Configuration \<Rightarrow> outcome \<Rightarrow> bool" where
  "keepsValid c r = (\<forall>c' ch pr. r = Some (c', ch, pr) \<longrightarrow> validObjects c')"

lemma keepsValid_rebuild:
  assumes "validObjects c1"
  shows "keepsValid c (rebuildHosts c1)" "keepsValid c (rebuildListeners c1)" "keepsValid c (rebuildForTransportServer c1)"
  using assms validObjects_same rebuildHosts_objects rebuildHosts_settings rebuildListeners_objects rebuildListeners_settings
    rebuildForTransportServer_objects rebuildForTransportServer_settings
  unfolding keepsValid_def by metis+

lemma keepsValid_report: "keepsValid c r \<Longrightarrow> keepsValid c (reportError e k p r)"
  unfolding keepsValid_def by (auto dest!: reportError_state)

lemma keepsValid_same: "validObjects c \<Longrightarrow> keepsValid c (Some (c, [], pr))"
  by (simp add: keepsValid_def)

lemma valid_deleted:
  assumes "validObjects c"
  shows "validObjects (c\<lparr>cIngresses := gdel key (cIngresses c)\<rparr>)" "validObjects (c\<lparr>cVirtualServers := gdel key (cVirtualServers c)\<rparr>)"
    "validObjects (c\<lparr>cVirtualServerRoutes := r\<rparr>)" "validObjects (c\<lparr>cGlobalConfiguration := g\<rparr>)"
    "validObjects (c\<lparr>cTransportServers := gdel key (cTransportServers c)\<rparr>)"
  using assms by (auto simp: validObjects_def split: if_splits)

lemma valid_storeVirtualServerRoute: "validObjects c \<Longrightarrow> validObjects (storeVirtualServerRoute vsr c)"
  by (simp add: storeVirtualServerRoute_def valid_deleted)

lemma handleEvent_valid:
  assumes "validObjects c"
  shows "keepsValid c (handleEvent ev c)"
proof (cases ev)
  case (VirtualServerRouteUpdated vsr)
  have "keepsValid c (rebuildHosts (storeVirtualServerRoute vsr c))"
    by (rule keepsValid_rebuild) (rule valid_storeVirtualServerRoute [OF assms])
  then show ?thesis
    by (auto simp: VirtualServerRouteUpdated AddOrUpdateVirtualServerRoute_def keepsValid_def split: option.splits)
qed (use assms in \<open>auto simp: AddOrUpdateIngress_def DeleteIngress_def AddOrUpdateVirtualServer_def DeleteVirtualServer_def
    DeleteVirtualServerRoute_def AddOrUpdateGlobalConfiguration_def DeleteGlobalConfiguration_def AddOrUpdateTransportServer_def
    DeleteTransportServer_def Let_def intro!: keepsValid_report keepsValid_rebuild keepsValid_same valid_deleted valid_storeIngress
    valid_storeVirtualServer valid_storeTransportServer\<close>)

section \<open>Holders are well made\<close>

definition ingressesIn :: "MinionConfiguration gomap \<Rightarrow> Ingress set" where
  "ingressesIn ms = mcIngress ` snd ` set ms"

abbreviation minionsOf :: "minionBuild \<Rightarrow> Ingress set" where
  "minionsOf b \<equiv> ingressesIn (mbMinions b)"

lemma gput_snd: "(k', v') \<in> set (gput k v m) \<Longrightarrow> v' = v \<or> (k', v') \<in> set m"
  by (induction m) (auto simp: gput_def split: if_splits)

lemma ingressesIn_gput: "ingressesIn (gput k mc ms) \<subseteq> insert (mcIngress mc) (ingressesIn ms)"
  by (force simp: ingressesIn_def dest: gput_snd)

lemma ingressesIn_found: "gget ms key = Some mc \<Longrightarrow> mcIngress mc \<in> ingressesIn ms"
  by (force simp: ingressesIn_def dest: map_of_SomeD)

lemma setValidPath_ingresses: "ingressesIn (setValidPath key p b ms) \<subseteq> ingressesIn ms"
proof (cases "gget ms key")
  case (Some mc)
  then show ?thesis
    using ingressesIn_found [OF Some] ingressesIn_gput [of key "mc\<lparr>mcValidPaths := gput p b (mcValidPaths mc)\<rparr>" ms]
    by (auto simp: setValidPath_def)
qed (simp add: setValidPath_def)

lemma claimPath_minions: "claimPath k p b = Some b' \<Longrightarrow> minionsOf b' \<subseteq> minionsOf b"
  using setValidPath_ingresses [of k p True "mbMinions b"] setValidPath_ingresses [of _ p False "setValidPath k p True (mbMinions b)"]
  unfolding claimPath_def by (force split: option.splits if_splits)

lemma foldOpt_claimPath: "foldOpt (claimPath k) ps b = Some b' \<Longrightarrow> minionsOf b' \<subseteq> minionsOf b"
proof (induction ps arbitrary: b)
  case (Cons p ps)
  then obtain b1 where "claimPath k p b = Some b1" "foldOpt (claimPath k) ps b1 = Some b'" by (auto split: option.splits)
  then show ?case using claimPath_minions Cons.IH by blast
qed simp

lemma addMinion_minions:
  assumes "addMinion host (k, ing) b = Some b'"
  shows "minionsOf b' \<subseteq> insert ing (minionsOf b)"
proof (cases "b' = b")
  case False
  then obtain ps where "foldOpt (claimPath k) ps (b\<lparr>mbMinions := gput k (NewMinionConfiguration ing) (mbMinions b)\<rparr>) = Some b'"
    using assms by (auto simp: addMinion_def split: if_splits list.splits option.splits)
  from foldOpt_claimPath [OF this] show ?thesis
    using ingressesIn_gput [of k "NewMinionConfiguration ing" "mbMinions b"] by (auto simp: NewMinionConfiguration_def)
qed auto

lemma foldOpt_addMinion: "foldOpt (addMinion host) es b = Some b' \<Longrightarrow> minionsOf b' \<subseteq> snd ` set es \<union> minionsOf b"
proof (induction es arbitrary: b)
  case (Cons e es)
  then obtain b1 where b1: "addMinion host e b = Some b1" "foldOpt (addMinion host) es b1 = Some b'" by (auto split: option.splits)
  have "minionsOf b1 \<subseteq> insert (snd e) (minionsOf b)" using addMinion_minions [of host "fst e" "snd e" b b1] b1(1) by simp
  with Cons.IH [OF b1(2)] show ?case by auto
qed simp

lemma buildMinionConfigs_minions:
  assumes "buildMinionConfigs ingresses host = Some (minions, ws)" and "m \<in> set minions"
  shows "mcIngress m \<in> snd ` set ingresses"
proof -
  obtain b where b: "foldOpt (addMinion host) (sortedEntries ingresses) \<lparr>mbMinions = [], mbChildWarnings = [], mbPaths = []\<rparr> = Some b"
    "minions = map snd (mbMinions b)"
    using assms(1) by (auto simp: buildMinionConfigs_def)
  have "mcIngress m \<in> minionsOf b" using assms(2) by (auto simp: b(2) ingressesIn_def)
  with foldOpt_addMinion [OF b(1)] show ?thesis by (auto simp: ingressesIn_def)
qed

lemma collectRoutes_valid:
  assumes "\<forall>vsr\<in>set vsrs. \<exists>path. ValidateVirtualServerRouteForVirtualServer (cVirtualServerValidator c) vsr (vssHost (vsSpec vs)) path = None"
  shows "\<forall>vsr\<in>set (fst (collectRoutes c vs rs vsrs ws)).
    \<exists>path. ValidateVirtualServerRouteForVirtualServer (cVirtualServerValidator c) vsr (vssHost (vsSpec vs)) path = None"
  using assms
proof (induction rs arbitrary: vsrs ws)
  case (Cons r rs)
  show ?case
  proof (cases "rtRoute r = []")
    case True
    then show ?thesis using Cons.IH [OF Cons.prems] by (simp add: Let_def)
  next
    case False
    show ?thesis
    proof (cases "gget (cVirtualServerRoutes c) (routeKey (omNamespace (vsMeta vs)) (rtRoute r))")
      case None
      then show ?thesis using Cons.IH [OF Cons.prems] False by (simp add: Let_def)
    next
      case (Some vsr)
      note step = False Some
      show ?thesis
      proof (cases "ValidateVirtualServerRouteForVirtualServer (cVirtualServerValidator c) vsr (vssHost (vsSpec vs)) (rtPath r)")
        case None
        have "\<forall>v\<in>set (vsrs @ [vsr]). \<exists>path. ValidateVirtualServerRouteForVirtualServer (cVirtualServerValidator c) v (vssHost (vsSpec vs)) path = None"
          using Cons.prems None by auto
        from Cons.IH [OF this] show ?thesis using step None by (simp add: Let_def)
      next
        case (Some e)
        then show ?thesis using Cons.IH [OF Cons.prems] step by (simp add: Let_def)
      qed
    qed
  qed
qed simp

definition validIngress :: "Configuration \<Rightarrow> Ingress \<Rightarrow> bool" where
  "validIngress c ing = (validateIngress ing (cIsPlus c) (cAppProtectEnabled c) (cInternalRoutesEnabled c) = []
     \<and> ing \<in> snd ` set (cIngresses c))"

text \<open>What the extension and the generation of a resource need of it.\<close>

fun wellMade :: "Configuration \<Rightarrow> Resource \<Rightarrow> bool" where
  "wellMade c (IngressRes ic) =
     (validIngress c (icIngress ic) \<and> (\<forall>m\<in>set (icMinions ic). validIngress c (mcIngress m))
      \<and> (icIsMaster ic \<longrightarrow> (\<exists>rule. isRules (ingSpec (icIngress ic)) = [rule] \<and> gget (icValidHosts ic) (irHost rule) = Some True)))"
| "wellMade c (VirtualServerRes vsc) =
     (ValidateVirtualServer (cVirtualServerValidator c) (vscVirtualServer vsc) = None
      \<and> (\<forall>vsr\<in>set (vscVirtualServerRoutes vsc). \<exists>path.
            ValidateVirtualServerRouteForVirtualServer (cVirtualServerValidator c) vsr (vssHost (vsSpec (vscVirtualServer vsc))) path = None))"
| "wellMade c (TransportServerRes tsc) = (ValidateTransportServer (cTransportServerValidator c) (tscTransportServer tsc) = None)"

lemma stored_valid:
  assumes "wfObjects c" and "validObjects c"
  shows "(k, ing) \<in> set (cIngresses c) \<Longrightarrow> validIngress c ing"
    and "(k, vs) \<in> set (cVirtualServers c) \<Longrightarrow> ValidateVirtualServer (cVirtualServerValidator c) vs = None"
    and "(k, ts) \<in> set (cTransportServers c) \<Longrightarrow> ValidateTransportServer (cTransportServerValidator c) ts = None"
proof -
  have "wf_gomap (cIngresses c)" "wf_gomap (cVirtualServers c)" "wf_gomap (cTransportServers c)"
    using assms(1) by (auto simp: wfObjects_def keyedBy_def)
  note entry = this [THEN wf_gomap_in_set]
  show "validIngress c ing" if stored: "(k, ing) \<in> set (cIngresses c)"
  proof -
    have "gget (cIngresses c) k = Some ing" using entry(1) stored by blast
    then have "validateIngress ing (cIsPlus c) (cAppProtectEnabled c) (cInternalRoutesEnabled c) = []"
      using assms(2) unfolding validObjects_def by blast
    moreover have "ing \<in> snd ` set (cIngresses c)" using stored by (rule rev_image_eqI) simp
    ultimately show ?thesis unfolding validIngress_def by blast
  qed
  show "(k, vs) \<in> set (cVirtualServers c) \<Longrightarrow> ValidateVirtualServer (cVirtualServerValidator c) vs = None"
    using assms(2) entry(2) unfolding validObjects_def by blast
  show "(k, ts) \<in> set (cTransportServers c) \<Longrightarrow> ValidateTransportServer (cTransportServerValidator c) ts = None"
    using assms(2) entry(3) unfolding validObjects_def by blast
qed

lemma newIngressResource_minions:
  assumes "newIngressResource c ing = Some ic" and "m \<in> set (icMinions ic)"
  shows "mcIngress m \<in> snd ` set (cIngresses c)"
proof (cases "isMaster ing")
  case True
  then obtain rule rest minions ws where "isRules (ingSpec ing) = rule # rest"
    "buildMinionConfigs (cIngresses c) (irHost rule) = Some (minions, ws)" "icMinions ic = minions"
    using assms(1) by (auto simp: newIngressResource_def NewMasterIngressConfiguration_def split: list.splits)
  then show ?thesis using assms(2) buildMinionConfigs_minions by simp
next
  case False
  then show ?thesis using assms by (auto simp: newIngressResource_def NewRegularIngressConfiguration_def)
qed

lemma host_wellMade:
  assumes step: "inStep c" and valid: "validObjects c" and h: "gget (cHosts c) h = Some r"
  shows "wellMade c r"
proof -
  note wf = inStepD(1) [OF step]
  obtain res where tab: "hostTable c (cHosts c) res" using inStepD(3) [OF step] by (auto simp: hostsInStep_def)
  have r: "plainResource r \<in> resourcesOf c" by (rule hostTableD(5) [OF tab]) (rule table_latest [OF tab h])
  show ?thesis
  proof (cases r)
    case (IngressRes ic)
    obtain k ing ic0 where ing: "(k, ing) \<in> set (cIngresses c)" "newIngressResource c ing = Some ic0"
      "noWarnings (IngressRes ic0) = plainResource r"
      using r unfolding IngressRes
      by (auto simp: resourcesOf_def ingressResources_def virtualServerResource_def passthroughResources_def split: if_splits option.splits)
    note v = stored_valid(1) [OF wf valid]
    have same: "icIngress ic = icIngress ic0" "icIsMaster ic = icIsMaster ic0" "icMinions ic = icMinions ic0"
      using ing(3) unfolding IngressRes by (simp_all, (metis IngressConfiguration.ext_inject IngressConfiguration.surjective IngressConfiguration.update_convs)+)
    have "okIngress ing" using v [OF ing(1)] validateIngress_ok unfolding validIngress_def by blast
    then have parts: "icIngress ic0 = ing" "icIsMaster ic0 = isMaster ing" using newIngressResource_total [OF wf] ing(2) by force+
    have "gget (icValidHosts ic) h = Some True" "h \<in> set (ingressHosts ing)"
      using coherentD(1) [OF hostTableD(3) [OF tab] h] hostTableD(7) [OF tab h] by (simp_all add: IngressRes same(1) parts(1))
    moreover have "\<exists>rule. isRules (ingSpec ing) = [rule]" if "isMaster ing" using \<open>okIngress ing\<close> that by (auto simp: okIngress_def)
    moreover have "validIngress c (mcIngress m)" if "m \<in> set (icMinions ic)" for m
    proof -
      have "mcIngress m \<in> snd ` set (cIngresses c)" using newIngressResource_minions [OF ing(2)] that unfolding same(3) by blast
      then have "\<exists>k'. (k', mcIngress m) \<in> set (cIngresses c)" by force
      then show ?thesis by (elim exE) (rule v)
    qed
    ultimately show ?thesis
      using v [OF ing(1)] by (auto simp: IngressRes same parts ingressHosts_def)
  next
    case (VirtualServerRes vsc)
    obtain k vs where vs: "(k, vs) \<in> set (cVirtualServers c)" "noWarnings (virtualServerResource c vs) = plainResource r"
      using r unfolding VirtualServerRes
      by (auto simp: resourcesOf_def ingressResources_def passthroughResources_def split: if_splits option.splits)
    have "vscVirtualServer vsc = vs" "vscVirtualServerRoutes vsc = fst (buildVirtualServerRoutes c vs)"
      using vs(2) unfolding VirtualServerRes virtualServerResource_def NewVirtualServerConfiguration_def
      by (cases vsc; simp)+
    then show ?thesis
      using stored_valid(2) [OF wf valid vs(1)] collectRoutes_valid [of "[]" c vs "vssRoutes (vsSpec vs)" "[]"]
      by (simp add: VirtualServerRes buildVirtualServerRoutes_def)
  next
    case (TransportServerRes tsc)
    obtain k ts where ts: "(k, ts) \<in> set (cTransportServers c)" "TransportServerRes (NewTransportServerConfiguration ts) = plainResource r"
      using r unfolding TransportServerRes
      by (auto simp: resourcesOf_def ingressResources_def virtualServerResource_def passthroughResources_def split: if_splits option.splits)
    have "tscTransportServer tsc = ts" using ts(2) unfolding TransportServerRes NewTransportServerConfiguration_def by (cases tsc) simp
    then show ?thesis using stored_valid(3) [OF wf valid ts(1)] by (simp add: TransportServerRes)
  qed
qed

lemma holder_wellMade:
  assumes step: "inStep c" and valid: "validObjects c" and "holder c r"
  shows "wellMade c r"
  using assms(3) unfolding holder_def
proof (elim disjE exE)
  fix h assume "gget (cHosts c) h = Some r"
  then show ?thesis by (rule host_wellMade [OF step valid])
next
  fix l assume "gget (asResources (cListeners c)) l = Some r"
  then obtain tsc where tsc: "gget (cListeners c) l = Some tsc" "r = TransportServerRes tsc" by auto
  have "listenerTable c (cListeners c)" using inStepD(4) [OF step] by (simp add: listenersInStep_def)
  from listenerTableD(3) [OF this tsc(1)] have "tscTransportServer tsc \<in> snd ` set (cTransportServers c)" by (simp add: wants_def)
  then show ?thesis using stored_valid(3) [OF inStepD(1) [OF step] valid] by (auto simp: tsc(2))
qed

section \<open>Keys of changes\<close>

text \<open>A change has the key of a resource that held something before or holds something afterwards.\<close>

definition mentionsHolders :: "Configuration \<Rightarrow> outcome \<Rightarrow> bool" where
  "mentionsHolders c r =
     (\<forall>c' ch pr. r = Some (c', ch, pr) \<longrightarrow> (\<forall>x\<in>set ch. \<exists>r. (holder c r \<or> holder c' r) \<and> changeKey x = GetKeyWithKind r))"

lemma rebuildHosts_mentions:
  assumes wf: "wfObjects c1" and same: "sameTables c c1"
  shows "mentionsHolders c (rebuildHosts c1)"
  unfolding mentionsHolders_def
proof (intro allI impI ballI)
  fix c' ch pr x assume reb: "rebuildHosts c1 = Some (c', ch, pr)" and x: "x \<in> set ch"
  obtain res where rb: "rebuiltHosts c1 c' res ch pr" using rebuildHosts_total [OF wf] reb by auto
  have tab: "hostTable c1 (cHosts c') res" using rebuiltHostsD [OF rb] by (rule conjunct2)
  obtain cs where cs: "changesOf (cHosts c1) (cHosts c') cs" "ch = referToLatest res cs"
    using rb unfolding rebuiltHosts_def by (elim conjE exE) (rule that)
  obtain y where y: "y \<in> set cs" "x = latestChange res y" using x by (auto simp: cs(2) referToLatest_map)
  have "changeKey x = changeKey y" unfolding y(2) by (rule latestChange_key [OF hostTableD(4) [OF tab]])
  with changesOf_resource [OF cs(1) y(1)] same show "\<exists>r. (holder c r \<or> holder c' r) \<and> changeKey x = GetKeyWithKind r"
    unfolding holder_def sameTables_def by metis
qed

lemma rebuildListeners_mentions:
  assumes wf: "wfObjects c1" and plain: "plainServers c1" and same: "sameTables c c1"
    and reb: "rebuildListeners c1 = Some (c', ch, pr)" and x: "x \<in> set ch"
  shows "\<exists>l r. (gget (asResources (cListeners c)) l = Some r \<or> gget (asResources (cListeners c')) l = Some r) \<and> changeKey x = GetKeyWithKind r"
proof -
  have keyed: "keyedBy tsMeta (cTransportServers c1)" using wf by (simp add: wfObjects_def)
  have rb: "rebuiltListeners c1 c' ch pr" using rebuildListeners_total [OF keyed] reb by auto
  obtain cs configs where cs: "changesOf (asResources (cListeners c1)) (asResources (cListeners c')) cs"
      "ch = referToLatestTSConfigs configs cs" "gkeys configs \<subseteq> gkeys (cTransportServers c1)"
    using rb unfolding rebuiltListeners_def by (elim conjE exE) (rule that)
  have "ch = cs" using cs(2) referToLatestTSConfigs_never [OF keyed plain cs(3)] by simp
  then show ?thesis using changesOf_resource [OF cs(1)] x same unfolding sameTables_def by metis
qed

lemma rebuildListeners_mentions_holders:
  "wfObjects c1 \<Longrightarrow> plainServers c1 \<Longrightarrow> sameTables c c1 \<Longrightarrow> mentionsHolders c (rebuildListeners c1)"
  unfolding mentionsHolders_def holder_def by (blast dest: rebuildListeners_mentions)

text \<open>A change of the listeners concerns a TransportServer.\<close>

lemma rebuildListeners_transport:
  assumes "wfObjects c1" and "plainServers c1" and "rebuildListeners c1 = Some (c', ch, pr)" and "x \<in> set ch"
  shows "\<exists>tsc. rcResource x = TransportServerRes tsc"
proof -
  have "sameTables c1 c1" by (simp add: sameTables_def)
  from rebuildListeners_mentions [OF assms(1,2) this assms(3,4)]
  obtain tsc where "changeKey x = GetKeyWithKind (TransportServerRes tsc)" by fastforce
  then have "resourceKind (rcResource x) = transportServerKind" unfolding changeKey_def GetKeyWithKind_eq_iff by simp
  then show ?thesis by (cases "rcResource x") (simp_all add: kind_defs)
qed

lemma rebuildForTransportServer_mentions:
  assumes wf: "wfObjects c1" and plain: "plainServers c1" and same: "sameTables c c1"
  shows "mentionsHolders c (rebuildForTransportServer c1)"
  unfolding mentionsHolders_def
proof (intro allI impI ballI)
  fix c' ch pr x assume out: "rebuildForTransportServer c1 = Some (c', ch, pr)" and x: "x \<in> set ch"
  obtain c2 ch2 pr2 where l: "rebuildListeners c1 = Some (c2, ch2, pr2)"
    using out by (auto simp: rebuildForTransportServer_def split: option.splits)
  note listeners = rebuildListeners_mentions [OF assms l]
  have "c2 = c1\<lparr>cListeners := cListeners c2, cListenerProblems := cListenerProblems c2\<rparr>"
    using rebuildListeners_total [of c1] wf l rebuiltListenersD by (fastforce simp: wfObjects_def)
  then obtain L P where c2: "c2 = c1\<lparr>cListeners := L, cListenerProblems := P\<rparr>" by blast
  show "\<exists>r. (holder c r \<or> holder c' r) \<and> changeKey x = GetKeyWithKind r"
  proof (cases "cIsTLSPassthroughEnabled c2")
    case False
    then have "c' = c2" "ch = ch2" using out by (simp_all add: rebuildForTransportServer_def l)
    then show ?thesis using listeners [of x] x unfolding holder_def by blast
  next
    case True
    obtain ch3 pr3 where h: "rebuildHosts c2 = Some (c', ch3, pr3)" "ch = ch2 @ ch3"
      using out True by (auto simp: rebuildForTransportServer_def l)
    have lis: "cListeners c' = cListeners c2" using h(1) by (auto simp: rebuildHosts_def Let_def split: option.splits)
    show ?thesis
    proof (cases "x \<in> set ch2")
      case True
      from listeners [OF this] show ?thesis unfolding holder_def lis by blast
    next
      case False
      have "wfObjects c2" using wf by (simp add: c2 wfObjects_def)
      moreover have "sameTables c2 c2" by (simp add: sameTables_def)
      ultimately have "\<exists>r. (holder c2 r \<or> holder c' r) \<and> changeKey x = GetKeyWithKind r"
        using rebuildHosts_mentions [of c2 c2] h x False unfolding mentionsHolders_def by auto
      moreover have "cHosts c2 = cHosts c" using same by (simp add: c2 sameTables_def)
      ultimately show ?thesis using lis unfolding holder_def by metis
    qed
  qed
qed

lemma setChangeError_keys: "setChangeError k e cs = Some cs' \<Longrightarrow> x \<in> set cs' \<Longrightarrow> changeKey x \<in> changeKey ` set cs"
  by (induction cs arbitrary: cs') (auto simp: changeKey_def split: if_splits)

lemma mentionsHolders_report: "mentionsHolders c r \<Longrightarrow> mentionsHolders c (reportError e k p r)"
  unfolding mentionsHolders_def reportError_def by (fastforce dest: setChangeError_keys split: option.splits)

lemma mentionsHolders_Nil [simp]: "mentionsHolders c (Some (c', [], pr))"
  by (simp add: mentionsHolders_def)

lemma handleEvent_mentions:
  assumes "inStep c" and "plainEvent ev"
  shows "mentionsHolders c (handleEvent ev c)"
  using assms
proof (rule handleEvent_rule)
  show "mentionsHolders c (map_option (\<lambda>(c', ch, pr). (c', ch, pr @ [q])) r)" if "mentionsHolders c r" for r q
    using that by (auto simp: mentionsHolders_def)
qed (simp_all add: nextObjects_def rebuildHosts_mentions rebuildListeners_mentions_holders rebuildForTransportServer_mentions
    mentionsHolders_report)

text \<open>The objects after an event: those of the event, stored or deleted.\<close>

definition storedAfter :: "event \<Rightarrow> Configuration \<Rightarrow> Configuration" where
  "storedAfter ev c =
     (case ev of
        IngressUpdated ing \<Rightarrow> storeIngress ing c
      | IngressRemoved key \<Rightarrow> c\<lparr>cIngresses := gdel key (cIngresses c)\<rparr>
      | VirtualServerUpdated vs \<Rightarrow> storeVirtualServer vs c
      | VirtualServerRemoved key \<Rightarrow> c\<lparr>cVirtualServers := gdel key (cVirtualServers c)\<rparr>
      | TransportServerUpdated ts \<Rightarrow> storeTransportServer ts c
      | TransportServerRemoved key \<Rightarrow> c\<lparr>cTransportServers := gdel key (cTransportServers c)\<rparr>
      | _ \<Rightarrow> c)"

lemma gdel_absent: "\<not> ghas m k \<Longrightarrow> gdel k m = m"
  by (simp add: gdel_def ghas_iff gkeys_def delete_id)

lemma handleEvent_objects:
  assumes "handleEvent ev c = Some (c', ch, pr)"
  shows "objectsOf c' = objectsOf (storedAfter ev c)"
proof -
  note rebuilt = rebuildHosts_objects rebuildListeners_objects rebuildForTransportServer_objects
  have "objectsOf (c\<lparr>cVirtualServerRoutes := m\<rparr>) = objectsOf c" "objectsOf (c\<lparr>cGlobalConfiguration := g\<rparr>) = objectsOf c" for m g
    by (simp_all add: objectsOf_def)
  then show ?thesis
    using assms
    by (cases ev) (auto simp: storedAfter_def AddOrUpdateIngress_def DeleteIngress_def AddOrUpdateVirtualServer_def DeleteVirtualServer_def
        AddOrUpdateVirtualServerRoute_def storeVirtualServerRoute_def DeleteVirtualServerRoute_def AddOrUpdateGlobalConfiguration_def
        DeleteGlobalConfiguration_def AddOrUpdateTransportServer_def DeleteTransportServer_def Let_def gdel_absent
        dest!: reportError_state dest: rebuilt split: option.splits if_splits)
qed

end
