(* ===== verification/Configurator_Properties.thy ===== *)
theory Configurator_Properties
  imports Configurator Ingress_Config_Properties Controller_Properties TS_Config_Properties Config_Parsing_Properties
begin

text \<open>
  Every operation of the Configurator returns, for resources as the controller extends them, and
  writes into the directory of the HTTP configuration the files of these resources only. What the
  kinds of resources share is a locale: an operation that writes one resource.
\<close>

section \<open>The directory of the HTTP configuration\<close>

text \<open>The names, without directory and suffix, of the files it has.\<close>

definition confNames :: "Configurator \<Rightarrow> string set" where
  "confNames cnf = {name. ghas (lmConfigs (cnManager cnf)) (getFilenameForConfig (cnManager cnf) name)}"

lemma getFilenameForConfig_inject [simp]: "getFilenameForConfig lm a = getFilenameForConfig lm b \<longleftrightarrow> a = b"
  by (simp add: getFilenameForConfig_def)

definition grew :: "string set \<Rightarrow> Configurator \<Rightarrow> Configurator \<Rightarrow> bool" where
  "grew N cnf cnf' =
     (cnIsPlus cnf' = cnIsPlus cnf \<and> (cpJWTKey (cnCfgParams cnf) = '''' \<longrightarrow> cpJWTKey (cnCfgParams cnf') = '''')
      \<and> confNames cnf \<subseteq> confNames cnf' \<and> confNames cnf' \<subseteq> confNames cnf \<union> N)"

lemma grew_refl [simp]: "grew N cnf cnf"
  by (simp add: grew_def)

lemma grew_trans: "grew N a b \<Longrightarrow> grew M b c \<Longrightarrow> N \<subseteq> K \<Longrightarrow> M \<subseteq> K \<Longrightarrow> grew K a c"
  unfolding grew_def by blast

lemma grew_same_dir:
  assumes "cnIsPlus cnf' = cnIsPlus cnf" and "cpJWTKey (cnCfgParams cnf') = cpJWTKey (cnCfgParams cnf)"
    and "lmConfigs (cnManager cnf') = lmConfigs (cnManager cnf)" and "lmConfPath (cnManager cnf') = lmConfPath (cnManager cnf)"
  shows "grew N cnf cnf'"
  using assms by (simp add: grew_def confNames_def getFilenameForConfig_def confdPath_def)

text \<open>The results of the operations.\<close>

definition returns :: "string set \<Rightarrow> Configurator \<Rightarrow> cnfResult \<Rightarrow> bool" where
  "returns N cnf r = (\<exists>ws err cnf'. r = Some (ws, err, cnf') \<and> grew N cnf cnf')"

lemma returns_Some [simp]: "returns N cnf (Some (ws, err, cnf')) = grew N cnf cnf'"
  by (simp add: returns_def)

lemma returns_andThen:
  assumes "returns N cnf r" and "\<And>ws cnf'. grew N cnf cnf' \<Longrightarrow> returns N cnf (f ws cnf')"
  shows "returns N cnf (andThen r f)"
proof -
  obtain ws err cnf' where "r = Some (ws, err, cnf')" "grew N cnf cnf'" using assms(1) unfolding returns_def by blast
  then show ?thesis using assms(2) by (cases err) (simp_all add: andThen_def)
qed

lemma returns_withMessage: "returns N cnf r \<Longrightarrow> returns N cnf (withMessage m r)"
  by (auto simp: returns_def withMessage_def)

lemma returns_after: "grew N a b \<Longrightarrow> returns N b r \<Longrightarrow> returns N a r"
  unfolding returns_def by (blast intro: grew_trans)

lemma Reload_files:
  "Reload w lm = (err, lm') \<Longrightarrow> lmConfigs lm' = lmConfigs lm \<and> lmConfPath lm' = lmConfPath lm \<and> lmSecretFiles lm' = lmSecretFiles lm"
  by (auto simp: Reload_def UpdateConfigVersionFile_def Let_def split: option.splits)

lemma cnfReload_grew: "cnfReload env m cnf = (err, cnf') \<Longrightarrow> grew N cnf cnf'"
  by (auto simp: cnfReload_def split: prod.splits intro!: grew_same_dir dest: Reload_files)

lemma returns_reloadAfter: "grew N cnf cnf1 \<Longrightarrow> returns N cnf (reloadAfter env m ws cnf1)"
  by (cases "cnfReload env m cnf1") (auto simp: reloadAfter_def intro: grew_trans dest: cnfReload_grew [of _ _ _ _ _ N])

section \<open>Operations that write one resource\<close>

text \<open>The templates of the directory print every configuration.\<close>

definition templatesWork :: "configuratorEnv \<Rightarrow> bool" where
  "templatesWork env =
     ((\<forall>t cfg. \<exists>content. teIngress (ceTemplates env) t cfg = Inr content)
      \<and> (\<forall>t cfg. \<exists>content. teVirtualServer (ceTemplates env) t cfg = Inr content))"

lemma not_templatesWork:
  "teIngress (ceTemplates env) t cfg = Inl e \<Longrightarrow> \<not> templatesWork env"
  "teVirtualServer (ceTemplates env) t' cfg' = Inl e \<Longrightarrow> \<not> templatesWork env"
  unfolding templatesWork_def by (metis Inl_Inr_False)+

locale resource_writer =
  fixes good :: "'x \<Rightarrow> bool" and add :: "'x \<Rightarrow> Configurator \<Rightarrow> cnfResult" and names :: "'x \<Rightarrow> string set"
    and works :: bool
  assumes writes: "cpJWTKey (cnCfgParams cnf) = '''' \<Longrightarrow> good x \<Longrightarrow>
    \<exists>ws err cnf'. add x cnf = Some (ws, err, cnf') \<and> grew (names x) cnf cnf' \<and> (works \<longrightarrow> confNames cnf' = confNames cnf \<union> names x)"
begin

lemma add_returns: "cpJWTKey (cnCfgParams cnf) = '''' \<Longrightarrow> good x \<Longrightarrow> names x \<subseteq> N \<Longrightarrow> returns N cnf (add x cnf)"
  using writes [of cnf x] unfolding returns_def by (blast intro: grew_trans [OF grew_refl])

lemma addEach_returns:
  assumes "cpJWTKey (cnCfgParams cnf) = ''''" and "\<forall>x\<in>set xs. good x" and "(\<Union>x\<in>set xs. names x) \<subseteq> N"
  shows "returns N cnf (addEach add message xs ws cnf)"
  using assms
proof (induction xs arbitrary: ws cnf)
  case (Cons x xs)
  then obtain ws1 err cnf1 where one: "add x cnf = Some (ws1, err, cnf1)" "grew (names x) cnf cnf1" using writes [of cnf x] by auto
  have g: "grew N cnf cnf1" using one(2) Cons.prems(3) by (auto intro: grew_trans [OF grew_refl])
  have "cpJWTKey (cnCfgParams cnf1) = ''''" using one(2) Cons.prems(1) by (simp add: grew_def)
  then have "returns N cnf1 (addEach add message xs (warningsAdd ws1 ws) cnf1)" using Cons by auto
  then show ?case using one(1) g returns_after [OF g] by (cases err) simp_all
qed simp

text \<open>The exported operation: one resource and a reload.\<close>

lemma add_and_reload:
  assumes "cpJWTKey (cnCfgParams cnf) = ''''" and "good x"
  shows "\<exists>ws err cnf'. andThen (withMessage m (add x cnf)) (reloadAfter env m') = Some (ws, err, cnf') \<and> grew (names x) cnf cnf'
    \<and> (works \<longrightarrow> confNames cnf' = confNames cnf \<union> names x)"
proof -
  obtain ws err cnf1 where one: "add x cnf = Some (ws, err, cnf1)" "grew (names x) cnf cnf1"
    "works \<longrightarrow> confNames cnf1 = confNames cnf \<union> names x"
    using writes [OF assms] by blast
  obtain err2 cnf2 where rel: "cnfReload env m' cnf1 = (err2, cnf2)" by fastforce
  note g = cnfReload_grew [OF rel, of "{}"]
  have "grew (names x) cnf cnf2" using grew_trans [OF one(2) g] by blast
  moreover have "confNames cnf2 = confNames cnf1" using g by (auto simp: grew_def)
  ultimately show ?thesis using one rel by (cases err) (auto simp: andThen_def withMessage_def reloadAfter_def)
qed

lemma updateEach_returns:
  assumes "cpJWTKey (cnCfgParams cnf) = ''''" and "\<forall>x\<in>set xs. good x" and "(\<Union>x\<in>set xs. names x) \<subseteq> N"
    and plus: "\<And>x c. grew {} c (snd (plusUpdate x c))"
  shows "\<exists>err rp cnf'. updateEach add message plusUpdate xs reloadPlus cnf = Some (err, rp, cnf') \<and> grew N cnf cnf'"
  using assms(1-3)
proof (induction xs arbitrary: reloadPlus cnf)
  case (Cons x xs)
  then obtain ws1 err cnf1 where one: "add x cnf = Some (ws1, err, cnf1)" "grew (names x) cnf cnf1" using writes [of cnf x] by auto
  have g: "grew N cnf cnf1" using one(2) Cons.prems(3) by (auto intro: grew_trans [OF grew_refl])
  obtain fl cnf2 where p: "plusUpdate x cnf1 = (fl, cnf2)" by fastforce
  have g2: "grew N cnf cnf2" using grew_trans [OF g plus [of cnf1 x]] by (simp add: p)
  show ?case
  proof (cases err)
    case (Some e)
    then show ?thesis using one(1) g by simp
  next
    case None
    have rest: "\<exists>err rp cnf'. updateEach add message plusUpdate xs r c = Some (err, rp, cnf') \<and> grew N cnf cnf'" if "grew N cnf c" for r c
    proof -
      have "cpJWTKey (cnCfgParams c) = ''''" using that Cons.prems(1) by (simp add: grew_def)
      with Cons.IH [of c r] Cons.prems obtain err rp cnf' where
        "updateEach add message plusUpdate xs r c = Some (err, rp, cnf')" "grew N c cnf'" by auto
      then show ?thesis using grew_trans [OF that, of N cnf' N] by auto
    qed
    show ?thesis using rest [OF g] rest [OF g2] by (simp add: one(1) None p)
  qed
qed simp

end


section \<open>Ingresses\<close>

text \<open>What the generator needs of an extended Ingress.\<close>

definition generableIngress :: "IngressEx \<Rightarrow> bool" where
  "generableIngress ix =
     (usableEx ix \<and> itSecretName ` set (isTLS (ingSpec (ixIngress ix))) \<subseteq> gkeys (ixSecretRefs ix)
      \<and> (\<forall>k. gget (omAnnotations (ingMeta (ixIngress ix))) JWTKeyAnnotation = Some k \<longrightarrow> k \<in> gkeys (ixSecretRefs ix)))"

definition ingressFile :: "Ingress \<Rightarrow> string" where
  "ingressFile ing = objectMetaToFileName (ingMeta ing)"

lemma updateApResources_dir:
  "updateApResources env ix lm = (res, lm') \<Longrightarrow> lmConfigs lm' = lmConfigs lm \<and> lmConfPath lm' = lmConfPath lm"
  by (auto simp: updateApResources_def CreateAppProtectResourceFile_def Let_def split: option.splits prod.splits)

lemma setJWTPath_generable:
  assumes "generableIngress ix"
  shows "\<exists>ix'. setJWTPath lm ix = Some ix' \<and> generableIngress ix' \<and> ixIngress ix' = ixIngress ix \<and> ixValidHosts ix' = ixValidHosts ix"
proof (cases "gget (omAnnotations (ingMeta (ixIngress ix))) JWTKeyAnnotation")
  case None
  then show ?thesis using assms by (simp add: setJWTPath_def)
next
  case (Some k)
  then have k: "k \<in> gkeys (ixSecretRefs ix)" using assms by (simp add: generableIngress_def)
  then obtain ref where ref: "gget (ixSecretRefs ix) k = Some ref" by (auto dest: in_keys_gget)
  show ?thesis
    using assms k by (auto simp: setJWTPath_def Some ref generableIngress_def usableEx_def Let_def)
qed

lemma generable_ready:
  assumes "generableIngress ix" and "cpJWTKey base = ''''"
  shows "readyContext (ingressCtx ix ap minion base isPlus resolver static wildcard)"
  by (rule readyContext_ingressCtx) (use assms in \<open>auto simp: generableIngress_def\<close>)

lemma generable_generated:
  assumes "generableIngress ix" and "cpJWTKey base = ''''"
  shows "\<exists>cfg ws. generateNginxCfg ix ap minion base isPlus resolver static wildcard = Some (cfg, ws)
    \<and> map s1Name (incServers cfg) = map irHost (filter (usedRule ix) (isRules (ingSpec (ixIngress ix))))"
  using generateNginxCfg_locations [OF refl generable_ready [OF assms]] by blast

text \<open>A file written: the names of the directory grow by its name.\<close>

lemma confNames_create:
  assumes "lmConfigs (cnManager cnf') = gput (getFilenameForConfig lm name) content (lmConfigs lm)"
    and "lmConfPath (cnManager cnf') = lmConfPath lm" and "lmConfigs lm = lmConfigs (cnManager cnf)"
    and "lmConfPath lm = lmConfPath (cnManager cnf)"
  shows "confNames cnf' = confNames cnf \<union> {name}"
  using assms by (auto simp: confNames_def ghas_iff getFilenameForConfig_def confdPath_def)

lemma grew_create:
  assumes "cnIsPlus cnf' = cnIsPlus cnf" and "cnCfgParams cnf' = cnCfgParams cnf" and "confNames cnf' = confNames cnf \<union> {name}"
  shows "grew {name} cnf cnf'"
  using assms by (auto simp: grew_def)

lemma onMetrics_fields [simp]:
  "cnManager (onMetrics b f cnf) = cnManager cnf" "cnIsPlus (onMetrics b f cnf) = cnIsPlus cnf" "cnCfgParams (onMetrics b f cnf) = cnCfgParams cnf"
  by (simp_all add: onMetrics_def)

lemma addOrUpdateIngress_writes:
  assumes jwt: "cpJWTKey (cnCfgParams cnf) = ''''" and good: "generableIngress ix"
  defines "names \<equiv> {ingressFile (ixIngress ix)}"
  shows "\<exists>ws err cnf'. addOrUpdateIngress env ix cnf = Some (ws, err, cnf') \<and> grew names cnf cnf'
    \<and> (templatesWork env \<longrightarrow> confNames cnf' = confNames cnf \<union> names)"
proof -
  obtain ap lm where ap: "updateApResources env ix (cnManager cnf) = (ap, lm)" by fastforce
  note dir = updateApResources_dir [OF ap]
  obtain ix' where ix': "setJWTPath lm ix = Some ix'" "generableIngress ix'" "ixIngress ix' = ixIngress ix"
    using setJWTPath_generable [OF good] by blast
  obtain cfg ws where gen: "generateNginxCfg ix' ap False (cnCfgParams cnf) (cnIsPlus cnf) (cnfResolver cnf) (cnStatic cnf) (cnIsWildcardEnabled cnf) = Some (cfg, ws)"
    using generable_generated [OF ix'(2) jwt] by blast
  let ?cnf = "cnf\<lparr>cnManager := lm, cnPathWrites := cnPathWrites cnf @ pathWrites lm [ix]\<rparr>"
  have res: "cnfResolver ?cnf = cnfResolver cnf" by (simp add: cnfResolver_def)
  note unf = addOrUpdateIngress_def Let_def ap prod.case ix'(1) option.case
  show ?thesis
  proof (cases "teIngress (ceTemplates env) (cnIngressTemplate cnf) cfg")
    case (Inl e)
    have "grew names cnf ?cnf" using dir by (intro grew_same_dir) simp_all
    then show ?thesis using Inl not_templatesWork by (auto simp add: unf gen res)
  next
    case (Inr content)
    define cnf' where "cnf' = onMetrics (httpMetrics ?cnf)
        (updateIngressMetricsLabels (cnIsPlus cnf) (stNginxServiceMesh (cnStatic cnf)) ix' (incUpstreams cfg))
        ((onManager (CreateConfig (ingressFile (ixIngress ix)) content) ?cnf)
           \<lparr>cnIngresses := gput (ingressFile (ixIngress ix)) ix' (cnIngresses cnf)\<rparr>)"
    have eq: "\<exists>ws. addOrUpdateIngress env ix cnf = Some (ws, None, cnf')"
      by (simp add: unf gen res Inr cnf'_def ix'(3) ingressFile_def)
    have names: "confNames cnf' = confNames cnf \<union> names"
      unfolding names_def by (rule confNames_create [where lm = lm]) (use dir in \<open>simp_all add: cnf'_def onManager_def CreateConfig_def\<close>)
    have "grew names cnf cnf'"
      unfolding names_def by (rule grew_create) (use names in \<open>simp_all add: cnf'_def onManager_def names_def\<close>)
    with eq names show ?thesis by blast
  qed
qed

interpretation ingress_writer: resource_writer generableIngress "addOrUpdateIngress env" "\<lambda>ix. {ingressFile (ixIngress ix)}"
    "templatesWork env" for env
  by unfold_locales (rule addOrUpdateIngress_writes)


section \<open>Masters\<close>

definition generableMergeable :: "MergeableIngresses \<Rightarrow> bool" where
  "generableMergeable mi =
     (generableIngress (miMaster mi) \<and> (\<forall>m\<in>set (miMinions mi). generableIngress m)
      \<and> (\<exists>r. isRules (ingSpec (ixIngress (miMaster mi))) = [r] \<and> gtrue (ixValidHosts (miMaster mi)) (irHost r)))"

lemma setJWTPaths_generable:
  assumes "generableMergeable mi"
  shows "\<exists>mi'. setJWTPaths lm mi = Some mi' \<and> generableMergeable mi' \<and> ixIngress (miMaster mi') = ixIngress (miMaster mi)"
proof -
  obtain master where master: "setJWTPath lm (miMaster mi) = Some master" "generableIngress master"
    "ixIngress master = ixIngress (miMaster mi)" "ixValidHosts master = ixValidHosts (miMaster mi)"
    using assms setJWTPath_generable unfolding generableMergeable_def by blast
  have "\<forall>m\<in>set (miMinions mi). \<exists>m'. setJWTPath lm m = Some m' \<and> generableIngress m'"
    using assms setJWTPath_generable unfolding generableMergeable_def by blast
  from mapOpt_list_all2 [OF this] obtain minions where minions: "mapOpt (setJWTPath lm) (miMinions mi) = Some minions"
    "list_all2 (\<lambda>_. generableIngress) (miMinions mi) minions" by blast
  have "\<forall>m\<in>set minions. generableIngress m" using minions(2) by (auto simp: list_all2_conv_all_nth in_set_conv_nth)
  with master minions(1) assms show ?thesis by (simp add: setJWTPaths_def generableMergeable_def)
qed

lemma preparedMaster_generable: "generableIngress ix \<Longrightarrow> generableIngress (preparedMaster ix)"
  using JWTKey_not_filtered by (simp add: generableIngress_def preparedMaster_fields preparedMaster_annotations)

lemma preparedMinion_generable: "generableIngress ix \<Longrightarrow> generableIngress (preparedMinion master ix)"
  using JWTKey_not_filtered
  by (simp add: generableIngress_def preparedMinion_fields preparedMinion_annotations split: option.splits)

lemma mergeable_generated:
  assumes good: "generableMergeable mi" and jwt: "cpJWTKey base = ''''"
  shows "\<exists>cfg ws mi'. generateNginxCfgForMergeableIngresses mi ap base isPlus resolver static wildcard = Some (cfg, ws, mi')
    \<and> ingMeta (ixIngress (miMaster mi')) = (ingMeta (ixIngress (preparedMaster (miMaster mi))))"
proof -
  define master where "master = preparedMaster (miMaster mi)"
  define minions where "minions = map (preparedMinion master) (miMinions mi)"
  let ?gen = "\<lambda>m. generateNginxCfg m [] True base isPlus resolver static wildcard"
  have gm: "generableIngress master" using good preparedMaster_generable by (simp add: generableMergeable_def master_def)
  obtain mcfg mws where m: "generateNginxCfg master ap False base isPlus resolver static wildcard = Some (mcfg, mws)"
    "map s1Name (incServers mcfg) = map irHost (filter (usedRule master) (isRules (ingSpec (ixIngress master))))"
    using generable_generated [OF gm jwt] by blast
  obtain r where "isRules (ingSpec (ixIngress (miMaster mi))) = [r]" "gtrue (ixValidHosts (miMaster mi)) (irHost r)"
    using good by (auto simp: generableMergeable_def)
  then have "map s1Name (incServers mcfg) = [irHost r]"
    unfolding m(2) by (simp add: master_def preparedMaster_fields usedRule_def)
  then obtain s where s: "incServers mcfg = [s]" by (auto simp: map_eq_Cons_conv)
  have "\<forall>x\<in>set minions. \<exists>y. ?gen x = Some y \<and> True"
  proof
    fix x assume "x \<in> set minions"
    then have "generableIngress x" using good preparedMinion_generable by (auto simp: minions_def generableMergeable_def)
    from generable_generated [OF this jwt] show "\<exists>y. ?gen x = Some y \<and> True" by blast
  qed
  from mapOpt_list_all2 [OF this] obtain ys where ys: "mapOpt ?gen minions = Some ys" by blast
  show ?thesis
    unfolding generateNginxCfgForMergeableIngresses_def Let_def master_def [symmetric] minions_def [symmetric]
    by (simp add: m(1) s ys)
qed

lemma preparedMaster_file: "ingressFile (ixIngress (preparedMaster ix)) = ingressFile (ixIngress ix)"
  by (simp add: ingressFile_def objectMetaToFileName_def preparedMaster_def withAnnotations_def Let_def)

lemma addOrUpdateMergeableIngress_writes:
  assumes jwt: "cpJWTKey (cnCfgParams cnf) = ''''" and good: "generableMergeable mi"
  defines "names \<equiv> {ingressFile (ixIngress (miMaster mi))}"
  shows "\<exists>ws err cnf'. addOrUpdateMergeableIngress env mi cnf = Some (ws, err, cnf') \<and> grew names cnf cnf'
    \<and> (templatesWork env \<longrightarrow> confNames cnf' = confNames cnf \<union> names)"
proof -
  obtain ap lm where ap: "updateApResources env (miMaster mi) (cnManager cnf) = (ap, lm)" by fastforce
  note dir = updateApResources_dir [OF ap]
  obtain mi1 where mi1: "setJWTPaths lm mi = Some mi1" "generableMergeable mi1" "ixIngress (miMaster mi1) = ixIngress (miMaster mi)"
    using setJWTPaths_generable [OF good] by blast
  obtain cfg msgs mi' where gen: "generateNginxCfgForMergeableIngresses mi1 ap (cnCfgParams cnf) (cnIsPlus cnf) (cnfResolver cnf) (cnStatic cnf)
      (cnIsWildcardEnabled cnf) = Some (cfg, msgs, mi')"
    and meta: "ingMeta (ixIngress (miMaster mi')) = ingMeta (ixIngress (preparedMaster (miMaster mi1)))"
    using mergeable_generated [OF mi1(2) jwt] by blast
  have name: "objectMetaToFileName (ingMeta (ixIngress (miMaster mi'))) = ingressFile (ixIngress (miMaster mi))"
    using preparedMaster_file [of "miMaster mi1"] by (simp add: meta mi1(3) ingressFile_def)
  let ?cnf = "cnf\<lparr>cnManager := lm, cnPathWrites := cnPathWrites cnf @ pathWrites lm (miMaster mi # miMinions mi)\<rparr>"
  have res: "cnfResolver ?cnf = cnfResolver cnf" by (simp add: cnfResolver_def)
  note unf = addOrUpdateMergeableIngress_def Let_def ap prod.case mi1(1) option.case
  show ?thesis
  proof (cases "teIngress (ceTemplates env) (cnIngressTemplate cnf) cfg")
    case (Inl e)
    have "grew names cnf ?cnf" using dir by (intro grew_same_dir) simp_all
    then show ?thesis using Inl not_templatesWork by (auto simp add: unf gen res)
  next
    case (Inr content)
    define cnf' where "cnf' = onMetrics (httpMetrics ?cnf)
        (updateIngressMetricsLabels (cnIsPlus cnf) (stNginxServiceMesh (cnStatic cnf)) (miMaster mi') (incUpstreams cfg))
        ((onManager (CreateConfig (ingressFile (ixIngress (miMaster mi))) content) ?cnf)
           \<lparr>cnIngresses := gput (ingressFile (ixIngress (miMaster mi))) (miMaster mi') (cnIngresses cnf),
            cnMinions := gput (ingressFile (ixIngress (miMaster mi))) (minionSet (miMinions mi')) (cnMinions cnf)\<rparr>)"
    have eq: "\<exists>ws. addOrUpdateMergeableIngress env mi cnf = Some (ws, None, cnf')"
      by (simp add: unf gen res Inr cnf'_def name)
    have names: "confNames cnf' = confNames cnf \<union> names"
      unfolding names_def by (rule confNames_create [where lm = lm]) (use dir in \<open>simp_all add: cnf'_def onManager_def CreateConfig_def\<close>)
    have "grew names cnf cnf'"
      unfolding names_def by (rule grew_create) (use names in \<open>simp_all add: cnf'_def onManager_def names_def\<close>)
    with eq names show ?thesis by blast
  qed
qed

interpretation mergeable_writer: resource_writer generableMergeable "addOrUpdateMergeableIngress env"
    "\<lambda>mi. {ingressFile (ixIngress (miMaster mi))}" "templatesWork env" for env
  by unfold_locales (rule addOrUpdateMergeableIngress_writes)


section \<open>VirtualServers and TransportServers\<close>

definition generableVirtualServer :: "VirtualServerEx \<Rightarrow> bool" where
  "generableVirtualServer vsEx = ((\<exists>vsv. acceptedEx vsv vsEx) \<and> readyEx vsEx)"

lemma updateApResourcesForVs_dir:
  assumes "updateApResourcesForVs env vsEx lm = (res, lm')"
  shows "lmConfigs lm' = lmConfigs lm \<and> lmConfPath lm' = lmConfPath lm"
proof -
  have *: "lmConfigs (snd (fold (\<lambda>(key, u) (res, m). (gput key (fileName u) res,
        CreateAppProtectResourceFile (fileName u) (generateApResourceFileContent env u) m)) xs st)) = lmConfigs (snd st)
    \<and> lmConfPath (snd (fold (\<lambda>(key, u) (res, m). (gput key (fileName u) res,
        CreateAppProtectResourceFile (fileName u) (generateApResourceFileContent env u) m)) xs st)) = lmConfPath (snd st)"
    for fileName and xs :: "unstructured gomap" and st :: "string gomap \<times> LocalManager"
    by (induction xs arbitrary: st) (auto simp: CreateAppProtectResourceFile_def split: prod.splits)
  have "lm' = snd (updateApResourcesForVs env vsEx lm)" by (simp add: assms)
  then show ?thesis by (simp only: updateApResourcesForVs_def Let_def * snd_conv simp_thms)
qed

lemma addOrUpdateVirtualServer_writes:
  assumes good: "generableVirtualServer vsEx"
  defines "names \<equiv> {getFileNameForVirtualServer (vxVirtualServer vsEx)}"
  shows "\<exists>ws err cnf'. addOrUpdateVirtualServer env vsEx cnf = Some (ws, err, cnf') \<and> grew names cnf cnf'
    \<and> (templatesWork env \<longrightarrow> confNames cnf' = confNames cnf \<union> names)"
proof -
  obtain ap lm where ap: "updateApResourcesForVs env vsEx (cnManager cnf) = (ap, lm)" by fastforce
  note dir = updateApResourcesForVs_dir [OF ap]
  let ?vsc = "newVirtualServerConfigurator (cnCfgParams cnf) (cnIsPlus cnf) (cnfResolver cnf) (cnStatic cnf)"
  obtain cfg ws vsc where gen: "GenerateVirtualServerConfig vsEx ap ?vsc = Some (cfg, ws, vsc)"
    using good GenerateVirtualServerConfig_total unfolding generableVirtualServer_def by blast
  let ?cnf = "cnf\<lparr>cnManager := lm\<rparr>" and ?name = "getFileNameForVirtualServer (vxVirtualServer vsEx)"
  have res: "cnfResolver ?cnf = cnfResolver cnf" by (simp add: cnfResolver_def)
  note unf = addOrUpdateVirtualServer_def Let_def ap prod.case option.case
  show ?thesis
  proof (cases "teVirtualServer (ceTemplates env) (cnVirtualServerTemplate cnf) cfg")
    case (Inl e)
    have "grew names cnf ?cnf" using dir by (intro grew_same_dir) simp_all
    then show ?thesis using Inl not_templatesWork by (auto simp add: unf gen res)
  next
    case (Inr content)
    define cnf' where "cnf' = onMetrics (httpMetrics ?cnf)
        (updateVirtualServerMetricsLabels (cnIsPlus cnf) (stNginxServiceMesh (cnStatic cnf)) vsEx (vcUpstreams cfg))
        ((onManager (CreateConfig ?name content) ?cnf)\<lparr>cnVirtualServers := gput ?name vsEx (cnVirtualServers cnf)\<rparr>)"
    have eq: "\<exists>ws. addOrUpdateVirtualServer env vsEx cnf = Some (ws, None, cnf')"
      by (simp add: unf gen res Inr cnf'_def)
    have names: "confNames cnf' = confNames cnf \<union> names"
      unfolding names_def by (rule confNames_create [where lm = lm]) (use dir in \<open>simp_all add: cnf'_def onManager_def CreateConfig_def\<close>)
    have "grew names cnf cnf'"
      unfolding names_def by (rule grew_create) (use names in \<open>simp_all add: cnf'_def onManager_def names_def\<close>)
    with eq names show ?thesis by blast
  qed
qed

interpretation virtual_server_writer: resource_writer generableVirtualServer "addOrUpdateVirtualServer env"
    "\<lambda>vsEx. {getFileNameForVirtualServer (vxVirtualServer vsEx)}" "templatesWork env" for env
  by unfold_locales (rule addOrUpdateVirtualServer_writes)

text \<open>A TransportServer is written into the directory of streams.\<close>

definition generableTransportServer :: "TransportServerEx \<Rightarrow> bool" where
  "generableTransportServer tsEx = (tssAction (tsSpec (txTransportServer tsEx)) \<noteq> None)"

lemma updateTLSPassthroughHostsConfig_fields [simp]:
  "cnIsPlus (updateTLSPassthroughHostsConfig cnf) = cnIsPlus cnf"
  "cnCfgParams (updateTLSPassthroughHostsConfig cnf) = cnCfgParams cnf"
  "lmConfigs (cnManager (updateTLSPassthroughHostsConfig cnf)) = lmConfigs (cnManager cnf)"
  "lmConfPath (cnManager (updateTLSPassthroughHostsConfig cnf)) = lmConfPath (cnManager cnf)"
  by (simp_all add: updateTLSPassthroughHostsConfig_def onManager_def CreateTLSPassthroughHostsConfig_def)

lemma grew_nothing: "grew {} cnf cnf' \<Longrightarrow> grew N cnf cnf' \<and> confNames cnf' = confNames cnf"
  by (auto simp: grew_def)

lemma addOrUpdateTransportServer_writes:
  assumes good: "generableTransportServer tsEx"
  shows "\<exists>ws err cnf'. addOrUpdateTransportServer env tsEx cnf = Some (ws, err, cnf') \<and> grew {} cnf cnf'
    \<and> (templatesWork env \<longrightarrow> confNames cnf' = confNames cnf \<union> {})"
proof -
  obtain cfg where gen: "generateTransportServerConfig tsEx (txListenerPort tsEx) (cnIsPlus cnf) = Some cfg"
    using good by (auto simp: generableTransportServer_def generateTransportServerConfig_def Let_def)
  have "\<exists>ws err cnf'. addOrUpdateTransportServer env tsEx cnf = Some (ws, err, cnf') \<and> grew {} cnf cnf'"
    by (cases "teTransportServer (ceTemplates env) cfg")
      (auto simp: addOrUpdateTransportServer_def gen Let_def onManager_def CreateStreamConfig_def intro!: grew_same_dir)
  then show ?thesis using grew_nothing by blast
qed

interpretation transport_server_writer: resource_writer generableTransportServer "addOrUpdateTransportServer env" "\<lambda>_. {}"
    "templatesWork env" for env
  by unfold_locales (rule addOrUpdateTransportServer_writes)


section \<open>Deletion\<close>

definition shrank :: "string set \<Rightarrow> Configurator \<Rightarrow> Configurator \<Rightarrow> bool" where
  "shrank N cnf cnf' =
     (cnIsPlus cnf' = cnIsPlus cnf \<and> cpJWTKey (cnCfgParams cnf') = cpJWTKey (cnCfgParams cnf) \<and> confNames cnf' = confNames cnf - N)"

lemma cnfReload_shrank:
  assumes "cnfReload env m cnf1 = (err, cnf')" and "cnIsPlus cnf1 = cnIsPlus cnf" and "cnCfgParams cnf1 = cnCfgParams cnf"
    and "confNames cnf1 = confNames cnf - N"
  shows "shrank N cnf cnf'"
proof -
  have "cnIsPlus cnf' = cnIsPlus cnf1 \<and> cnCfgParams cnf' = cnCfgParams cnf1 \<and> confNames cnf' = confNames cnf1"
    using assms(1) by (auto simp: cnfReload_def confNames_def getFilenameForConfig_def confdPath_def split: prod.splits dest!: Reload_files)
  with assms(2-4) show ?thesis by (simp add: shrank_def)
qed

lemma confNames_delete:
  assumes "cnManager cnf1 = DeleteConfig name (cnManager cnf)"
  shows "confNames cnf1 = confNames cnf - {name}"
  using assms by (auto simp: confNames_def DeleteConfig_def ghas_iff getFilenameForConfig_def confdPath_def)

lemma cnfDeleteIngress_shrank:
  assumes "cnfDeleteIngress env key cnf = (err, cnf')"
  shows "shrank {keyToFileName key} cnf cnf'"
  by (rule cnfReload_shrank [OF assms [unfolded cnfDeleteIngress_def Let_def]]) (simp_all add: onManager_def confNames_delete)

lemma cnfDeleteVirtualServer_shrank:
  assumes "cnfDeleteVirtualServer env key cnf = (err, cnf')"
  shows "shrank {getFileNameForVirtualServerFromKey key} cnf cnf'"
  by (rule cnfReload_shrank [OF assms [unfolded cnfDeleteVirtualServer_def Let_def]]) (simp_all add: onManager_def confNames_delete)

lemma deleteTransportServer_grew: "grew N cnf (deleteTransportServer key cnf)"
  by (rule grew_same_dir) (simp_all add: deleteTransportServer_def onManager_def DeleteStreamConfig_def Let_def)

lemma cnfDeleteTransportServer_grew:
  assumes "cnfDeleteTransportServer env key cnf = (err, cnf')"
  shows "grew {} cnf cnf'"
proof -
  have "grew {} cnf (onMetrics b f cnf)" for b f by (rule grew_same_dir) simp_all
  from grew_trans [OF grew_trans [OF this deleteTransportServer_grew] cnfReload_grew [OF assms [unfolded cnfDeleteTransportServer_def]]]
  show ?thesis by blast
qed

section \<open>Many resources\<close>

definition generable :: "IngressEx list \<Rightarrow> MergeableIngresses list \<Rightarrow> VirtualServerEx list \<Rightarrow> TransportServerEx list \<Rightarrow> bool" where
  "generable ixs mis vxs txs =
     ((\<forall>x\<in>set ixs. generableIngress x) \<and> (\<forall>x\<in>set mis. generableMergeable x) \<and> (\<forall>x\<in>set vxs. generableVirtualServer x)
      \<and> (\<forall>x\<in>set txs. generableTransportServer x))"

definition filesOf :: "IngressEx list \<Rightarrow> MergeableIngresses list \<Rightarrow> VirtualServerEx list \<Rightarrow> string set" where
  "filesOf ixs mis vxs =
     (ingressFile \<circ> ixIngress) ` set ixs \<union> (ingressFile \<circ> ixIngress \<circ> miMaster) ` set mis
     \<union> (getFileNameForVirtualServer \<circ> vxVirtualServer) ` set vxs"

lemma grew_jwt: "grew N a b \<Longrightarrow> cpJWTKey (cnCfgParams a) = '''' \<Longrightarrow> cpJWTKey (cnCfgParams b) = ''''"
  by (simp add: grew_def)

lemma eachIngress_returns:
  "cpJWTKey (cnCfgParams cnf) = '''' \<Longrightarrow> \<forall>x\<in>set xs. generableIngress x \<Longrightarrow> (ingressFile \<circ> ixIngress) ` set xs \<subseteq> N
     \<Longrightarrow> returns N cnf (addEach (addOrUpdateIngress env) m xs ws cnf)"
  by (rule ingress_writer.addEach_returns) auto

lemma eachMergeable_returns:
  "cpJWTKey (cnCfgParams cnf) = '''' \<Longrightarrow> \<forall>x\<in>set xs. generableMergeable x \<Longrightarrow> (ingressFile \<circ> ixIngress \<circ> miMaster) ` set xs \<subseteq> N
     \<Longrightarrow> returns N cnf (addEach (addOrUpdateMergeableIngress env) m xs ws cnf)"
  by (rule mergeable_writer.addEach_returns) auto

lemma eachVirtualServer_returns:
  "cpJWTKey (cnCfgParams cnf) = '''' \<Longrightarrow> \<forall>x\<in>set xs. generableVirtualServer x
     \<Longrightarrow> (getFileNameForVirtualServer \<circ> vxVirtualServer) ` set xs \<subseteq> N
     \<Longrightarrow> returns N cnf (addEach (addOrUpdateVirtualServer env) m xs ws cnf)"
  by (rule virtual_server_writer.addEach_returns) auto

lemma eachTransportServer_returns:
  "cpJWTKey (cnCfgParams cnf) = '''' \<Longrightarrow> \<forall>x\<in>set xs. generableTransportServer x
     \<Longrightarrow> returns N cnf (addEach (addOrUpdateTransportServer env) m xs ws cnf)"
  by (rule transport_server_writer.addEach_returns) auto

lemma addHTTPResources_returns:
  assumes "generable ixs mis vxs txs" and "cpJWTKey (cnCfgParams cnf) = ''''" and "filesOf ixs mis vxs \<subseteq> N"
  shows "returns N cnf (addHTTPResources env ixs mis vxs cnf)"
proof -
  note parts = assms(1) [unfolded generable_def] assms(3) [unfolded filesOf_def]
  note jwt = grew_jwt [OF _ assms(2)]
  show ?thesis unfolding addHTTPResources_def
  proof (intro returns_andThen)
    show "returns N cnf (addEach (addOrUpdateIngress env) ingressMessage ixs [] cnf)"
      by (rule eachIngress_returns) (use parts assms(2) in auto)
    fix ws1 cnf1 assume g1: "grew N cnf cnf1"
    show "returns N cnf (addEach (addOrUpdateMergeableIngress env) mergeableMessage mis ws1 cnf1)"
      by (rule returns_after [OF g1], rule eachMergeable_returns) (use parts jwt [OF g1] in auto)
    fix ws2 cnf2 assume g2: "grew N cnf cnf2"
    show "returns N cnf (addEach (addOrUpdateVirtualServer env) virtualServerMessage vxs ws2 cnf2)"
      by (rule returns_after [OF g2], rule eachVirtualServer_returns) (use parts jwt [OF g2] in auto)
  qed
qed

lemma AddOrUpdateResources_returns:
  assumes "generable (erIngressExes er) (erMergeableIngresses er) (erVirtualServerExes er) (erTransportServerExes er)"
    and "cpJWTKey (cnCfgParams cnf) = ''''" and "filesOf (erIngressExes er) (erMergeableIngresses er) (erVirtualServerExes er) \<subseteq> N"
  shows "returns N cnf (AddOrUpdateResources env er cnf)"
  unfolding AddOrUpdateResources_def
proof (intro returns_andThen)
  show "returns N cnf (addHTTPResources env (erIngressExes er) (erMergeableIngresses er) (erVirtualServerExes er) cnf)"
    by (rule addHTTPResources_returns [OF assms])
  fix ws1 cnf1 assume g1: "grew N cnf cnf1"
  show "returns N cnf (addEach (addOrUpdateTransportServer env) transportServerMessage (erTransportServerExes er) ws1 cnf1)"
    by (rule returns_after [OF g1], rule eachTransportServer_returns) (use assms grew_jwt [OF g1] in \<open>auto simp: generable_def\<close>)
  fix ws2 cnf2 assume "grew N cnf cnf2"
  then show "returns N cnf (reloadAfter env ''Error when reloading NGINX when updating resources'' ws2 cnf2)" by (rule returns_reloadAfter)
qed


lemma cnfAddOrUpdateVirtualServers_returns:
  assumes "\<forall>x\<in>set vxs. generableVirtualServer x" and "cpJWTKey (cnCfgParams cnf) = ''''" and "filesOf [] [] vxs \<subseteq> N"
  shows "returns N cnf (cnfAddOrUpdateVirtualServers env vxs cnf)"
  unfolding cnfAddOrUpdateVirtualServers_def
  by (rule returns_andThen, rule eachVirtualServer_returns) (use assms in \<open>auto simp: filesOf_def intro: returns_reloadAfter\<close>)

lemma fold_deleteTransportServer_grew: "grew N cnf (fold deleteTransportServer keys cnf)"
proof (induction keys arbitrary: cnf)
  case (Cons key keys)
  show ?case using grew_trans [OF deleteTransportServer_grew Cons.IH] by auto
qed simp

lemma UpdateTransportServers_returns:
  assumes "\<forall>x\<in>set txs. generableTransportServer x" and "cpJWTKey (cnCfgParams cnf) = ''''"
  shows "returns N cnf (UpdateTransportServers env txs keys cnf)"
  unfolding UpdateTransportServers_def
  by (rule returns_andThen, rule eachTransportServer_returns)
    (use assms in \<open>auto intro: returns_reloadAfter grew_trans [OF _ fold_deleteTransportServer_grew]\<close>)

section \<open>Endpoints\<close>

lemma plusUpdates_dir:
  assumes "\<And>x lm. lmConfigs (snd (call x lm)) = lmConfigs lm \<and> lmConfPath (snd (call x lm)) = lmConfPath lm"
  shows "lmConfigs (snd (plusUpdates call xs lm)) = lmConfigs lm \<and> lmConfPath (snd (plusUpdates call xs lm)) = lmConfPath lm"
proof (induction xs arbitrary: lm)
  case (Cons x xs)
  then show ?case using assms [of x lm] by (auto split: prod.splits option.splits)
qed simp

lemma UpdateServersInPlus_dir:
  "lmConfigs (snd (endpointsError name (UpdateServersInPlus w u servers config lm))) = lmConfigs lm
   \<and> lmConfPath (snd (endpointsError name (UpdateServersInPlus w u servers config lm))) = lmConfPath lm"
  "lmConfigs (snd (endpointsError name (UpdateStreamServersInPlus w u servers lm))) = lmConfigs lm
   \<and> lmConfPath (snd (endpointsError name (UpdateStreamServersInPlus w u servers lm))) = lmConfPath lm"
  by (auto simp: endpointsError_def UpdateServersInPlus_def UpdateStreamServersInPlus_def Let_def split: option.splits prod.splits)

lemma plus_grew:
  assumes "\<And>x lm. lmConfigs (snd (call x lm)) = lmConfigs lm \<and> lmConfPath (snd (call x lm)) = lmConfPath lm"
  shows "grew N cnf (snd (case plusUpdates call xs (cnManager cnf) of (err, lm) \<Rightarrow> (err, cnf\<lparr>cnManager := lm\<rparr>)))"
  using plusUpdates_dir [where call = call and xs = xs and lm = "cnManager cnf", OF assms] by (auto intro!: grew_same_dir split: prod.splits)

lemma updatePlus_grew:
  "grew N cnf (snd (updatePlusEndpoints env ix cnf))"
  "grew N cnf (snd (updatePlusEndpointsForVirtualServer env vsEx cnf))"
  "grew N cnf (snd (updatePlusEndpointsForTransportServer env tsEx cnf))"
  unfolding updatePlusEndpoints_def updatePlusEndpointsForVirtualServer_def updatePlusEndpointsForTransportServer_def Let_def
  by (rule plus_grew; auto simp: UpdateServersInPlus_dir split: prod.splits)+

lemma failedUpdate_snd: "snd (failedUpdate r) = snd r"
  by (simp add: failedUpdate_def split: prod.splits)

lemma updateMinions_grew: "grew N cnf (snd (updateMinions env ms failed cnf))"
proof (induction ms arbitrary: failed cnf)
  case (Cons m ms)
  obtain err cnf1 where u: "updatePlusEndpoints env m cnf = (err, cnf1)" by fastforce
  have "grew N cnf cnf1" using updatePlus_grew(1) [of N cnf env m] by (simp add: u)
  from grew_trans [OF this Cons.IH] show ?case by (simp add: u)
qed simp

lemma finishEndpoints_grew:
  assumes "\<exists>err rp cnf'. r = Some (err, rp, cnf') \<and> grew N cnf cnf'"
  shows "\<exists>err cnf'. finishEndpoints env m r = Some (err, cnf') \<and> grew N cnf cnf'"
proof -
  obtain err rp cnf1 where r: "r = Some (err, rp, cnf1)" and g: "grew N cnf cnf1" using assms by blast
  obtain err2 cnf2 where rel: "cnfReload env m cnf1 = (err2, cnf2)" by fastforce
  have "grew N cnf cnf2" using grew_trans [OF g cnfReload_grew [OF rel, of N]] by blast
  with g rel show ?thesis by (cases err) (auto simp: r finishEndpoints_def)
qed

lemma updateEndpoints_return:
  assumes jwt: "cpJWTKey (cnCfgParams cnf) = ''''"
  shows "\<forall>x\<in>set ixs. generableIngress x \<Longrightarrow> filesOf ixs [] [] \<subseteq> N
      \<Longrightarrow> \<exists>err cnf'. UpdateEndpoints env ixs cnf = Some (err, cnf') \<and> grew N cnf cnf'"
    and "\<forall>x\<in>set mis. generableMergeable x \<Longrightarrow> filesOf [] mis [] \<subseteq> N
      \<Longrightarrow> \<exists>err cnf'. UpdateEndpointsMergeableIngress env mis cnf = Some (err, cnf') \<and> grew N cnf cnf'"
    and "\<forall>x\<in>set vxs. generableVirtualServer x \<Longrightarrow> filesOf [] [] vxs \<subseteq> N
      \<Longrightarrow> \<exists>err cnf'. UpdateEndpointsForVirtualServers env vxs cnf = Some (err, cnf') \<and> grew N cnf cnf'"
    and "\<forall>x\<in>set txs. generableTransportServer x
      \<Longrightarrow> \<exists>err cnf'. UpdateEndpointsForTransportServers env txs cnf = Some (err, cnf') \<and> grew N cnf cnf'"
  unfolding UpdateEndpoints_def UpdateEndpointsMergeableIngress_def UpdateEndpointsForVirtualServers_def
    UpdateEndpointsForTransportServers_def
  by (rule finishEndpoints_grew,
      rule ingress_writer.updateEach_returns mergeable_writer.updateEach_returns virtual_server_writer.updateEach_returns
        transport_server_writer.updateEach_returns;
      use jwt in \<open>auto simp: filesOf_def failedUpdate_snd intro: updatePlus_grew updateMinions_grew\<close>)+


section \<open>The ConfigMap\<close>

lemma updateDHParam_grew: "grew N cnf (snd (updateDHParam env cnf))"
  by (auto simp: updateDHParam_def CreateDHParam_def Let_def intro!: grew_same_dir split: option.splits prod.splits if_splits)

lemma updateTemplates_grew: "grew N cnf (snd (updateTemplates env cnf))"
  by (auto simp: updateTemplates_def Let_def intro!: grew_same_dir split: option.splits prod.splits)

lemma writeMainConfig_grew: "grew N cnf (snd (writeMainConfig env cnf))"
  by (auto simp: writeMainConfig_def onManager_def CreateMainConfig_def intro!: grew_same_dir split: sum.splits)

lemma writeTracerConfig_grew: "grew N cnf (snd (writeTracerConfig env mainCfg cnf))"
  by (auto simp: writeTracerConfig_def CreateOpenTracingTracerConfig_def intro!: grew_same_dir split: option.splits prod.splits)

lemma errResult_returns: "grew N cnf (snd r) \<Longrightarrow> returns N cnf (errResult r ws)"
  by (cases r) (simp add: errResult_def)

text \<open>The part after the main file: every resource again, the tracer file, then the reload.\<close>

lemma writeResources_returns:
  assumes good: "generable ixs mis vxs []" and jwt: "cpJWTKey (cnCfgParams cnf) = ''''" and files: "filesOf ixs mis vxs \<subseteq> N"
  shows "returns N cnf
     (andThen (addEach (addOrUpdateIngress env) (\<lambda>_ err. err) ixs [] cnf) (\<lambda>ws4 cnf4.
      andThen (addEach (addOrUpdateMergeableIngress env) (\<lambda>_ err. err) mis ws4 cnf4) (\<lambda>ws5 cnf5.
      andThen (addEach (addOrUpdateVirtualServer env) (\<lambda>_ err. err) vxs ws5 cnf5) (\<lambda>ws6 cnf6.
      andThen (errResult (writeTracerConfig env mainCfg cnf6) ws6) (\<lambda>ws7 cnf7.
        reloadAfter env m ws7 (onManager (SetOpenTracing load) cnf7))))))"
proof (intro returns_andThen)
  show "returns N cnf (addEach (addOrUpdateIngress env) (\<lambda>_ err. err) ixs [] cnf)"
    using good files jwt by (intro eachIngress_returns) (auto simp: generable_def filesOf_def)
  fix ws4 cnf4 assume g4: "grew N cnf cnf4"
  show "returns N cnf (addEach (addOrUpdateMergeableIngress env) (\<lambda>_ err. err) mis ws4 cnf4)"
    using good files by (intro returns_after [OF g4] eachMergeable_returns grew_jwt [OF g4 jwt]) (auto simp: generable_def filesOf_def)
  fix ws5 cnf5 assume g5: "grew N cnf cnf5"
  show "returns N cnf (addEach (addOrUpdateVirtualServer env) (\<lambda>_ err. err) vxs ws5 cnf5)"
    using good files by (intro returns_after [OF g5] eachVirtualServer_returns grew_jwt [OF g5 jwt]) (auto simp: generable_def filesOf_def)
  fix ws6 cnf6 assume g6: "grew N cnf cnf6"
  show "returns N cnf (errResult (writeTracerConfig env mainCfg cnf6) ws6)"
    by (rule returns_after [OF g6 errResult_returns [OF writeTracerConfig_grew]])
  fix ws7 cnf7 assume g7: "grew N cnf cnf7"
  have "grew N cnf7 (onManager (SetOpenTracing load) cnf7)" by (rule grew_same_dir) (simp_all add: onManager_def SetOpenTracing_def)
  from returns_after [OF g7 returns_reloadAfter [OF this]]
  show "returns N cnf (reloadAfter env m ws7 (onManager (SetOpenTracing load) cnf7))" .
qed

lemma UpdateConfig_returns:
  assumes good: "generable ixs mis vxs []" and jwt: "cpJWTKey cfgParams = ''''" and files: "filesOf ixs mis vxs \<subseteq> N"
  shows "returns N cnf (UpdateConfig env cfgParams ixs mis vxs cnf)"
proof -
  define cnf0 where "cnf0 = cnf\<lparr>cnCfgParams := cfgParams\<rparr>"
  have g0: "grew N cnf cnf0" using jwt by (auto simp: grew_def cnf0_def confNames_def)
  have jwt0: "cpJWTKey (cnCfgParams cnf0) = ''''" using jwt by (simp add: cnf0_def)
  have "returns N cnf0 (UpdateConfig env cfgParams ixs mis vxs cnf)"
    unfolding UpdateConfig_def Let_def cnf0_def [symmetric]
  proof (intro returns_andThen)
    show "returns N cnf0 (errResult (updateDHParam env cnf0) [])" by (rule errResult_returns [OF updateDHParam_grew])
    fix ws1 cnf1 assume g1: "grew N cnf0 cnf1"
    show "returns N cnf0 (errResult (updateTemplates env cnf1) [])"
      by (rule returns_after [OF g1 errResult_returns [OF updateTemplates_grew]])
    fix ws2 cnf2 assume g2: "grew N cnf0 cnf2"
    obtain err cnf3 where main: "writeMainConfig env cnf2 = (err, cnf3)" by fastforce
    have g3: "grew N cnf2 cnf3" using writeMainConfig_grew [of N cnf2 env] main by simp
    let ?mc = "GenerateNginxMainConfig (cnStatic cnf2) (cnCfgParams cnf2)"
    have each: "returns N cnf0 r" if "err = None" "returns N cnf3 r" for r using that by (blast intro: returns_after g2 g3)
    show "returns N cnf0 (case writeMainConfig env cnf2 of
        (None, cnf3) \<Rightarrow> andThen (addEach (addOrUpdateIngress env) (\<lambda>_ err. err) ixs [] cnf3) (\<lambda>ws4 cnf4.
          andThen (addEach (addOrUpdateMergeableIngress env) (\<lambda>_ err. err) mis ws4 cnf4) (\<lambda>ws5 cnf5.
          andThen (addEach (addOrUpdateVirtualServer env) (\<lambda>_ err. err) vxs ws5 cnf5) (\<lambda>ws6 cnf6.
          andThen (errResult (writeTracerConfig env ?mc cnf6) ws6) (\<lambda>ws7 cnf7.
            reloadAfter env ''Error when updating config from ConfigMap'' ws7
              (onManager (SetOpenTracing (mcOpenTracingLoadModule ?mc)) cnf7)))))
      | (Some x, cnf3) \<Rightarrow> Some ([], Some ''Error when writing main Config'', cnf3))"
      using writeResources_returns [OF good grew_jwt [OF g3 grew_jwt [OF g2 jwt0]] files] each
        returns_after [OF g2, of "Some ([], Some ''Error when writing main Config'', cnf3)"] g3
      by (cases err) (simp_all add: main)
  qed
  then show ?thesis by (rule returns_after [OF g0])
qed

section \<open>Operations for App Protect and special secrets\<close>

lemma appProtectFiles_dir [simp]:
  "lmConfigs (CreateAppProtectResourceFile name content lm) = lmConfigs lm" "lmConfPath (CreateAppProtectResourceFile name content lm) = lmConfPath lm"
  "lmConfigs (DeleteAppProtectResourceFile name lm) = lmConfigs lm" "lmConfPath (DeleteAppProtectResourceFile name lm) = lmConfPath lm"
  "lmConfigs (ClearAppProtectFolder name lm) = lmConfigs lm" "lmConfPath (ClearAppProtectFolder name lm) = lmConfPath lm"
  by (simp_all add: CreateAppProtectResourceFile_def DeleteAppProtectResourceFile_def ClearAppProtectFolder_def)

lemma fold_dir:
  assumes "\<And>x lm. lmConfigs (f x lm) = lmConfigs lm \<and> lmConfPath (f x lm) = lmConfPath lm"
  shows "lmConfigs (fold f xs lm) = lmConfigs lm \<and> lmConfPath (fold f xs lm) = lmConfPath lm"
  by (induction xs arbitrary: lm) (simp_all add: assms)

lemma onManager_grew:
  assumes "lmConfigs (f (cnManager cnf)) = lmConfigs (cnManager cnf) \<and> lmConfPath (f (cnManager cnf)) = lmConfPath (cnManager cnf)"
  shows "grew N cnf (onManager f cnf)"
  using assms by (intro grew_same_dir) (simp_all add: onManager_def)

lemma writeUserSigs_dir:
  "lmConfigs (writeUserSigs env sigs lm) = lmConfigs lm \<and> lmConfPath (writeUserSigs env sigs lm) = lmConfPath lm"
  using fold_dir [of "\<lambda>sig. CreateAppProtectResourceFile (appProtectUserSigFileNameFromUnstruct sig) (generateApResourceFileContent env sig)"]
  by (simp add: writeUserSigs_def)

lemma deleteApFile_grew: "grew N cnf (deleteApFile folder key ixs mis vxs cnf)"
  by (auto simp: deleteApFile_def intro!: onManager_grew)

lemma appProtect_return:
  assumes "generable ixs mis vxs txs" and "cpJWTKey (cnCfgParams cnf) = ''''" and "filesOf ixs mis vxs \<subseteq> N"
  shows "returns N cnf (AddOrUpdateAppProtectResource env kind ixs mis vxs cnf)"
    and "returns N cnf (DeleteAppProtectPolicy env key ixs mis vxs cnf)"
    and "returns N cnf (DeleteAppProtectLogConf env key ixs mis vxs cnf)"
    and "returns N cnf (RefreshAppProtectUserSigs env sigs delPols ixs mis vxs cnf)"
proof -
  have add: "returns N cnf (addHTTPResources env ixs mis vxs c)" if "grew N cnf c" for c
    by (rule returns_after [OF that addHTTPResources_returns [OF assms(1) grew_jwt [OF that assms(2)] assms(3)]])
  show "returns N cnf (AddOrUpdateAppProtectResource env kind ixs mis vxs cnf)"
    unfolding AddOrUpdateAppProtectResource_def by (intro returns_andThen add returns_reloadAfter) simp
  show "returns N cnf (DeleteAppProtectPolicy env key ixs mis vxs cnf)"
    unfolding DeleteAppProtectPolicy_def by (intro returns_andThen add returns_reloadAfter deleteApFile_grew)
  show "returns N cnf (DeleteAppProtectLogConf env key ixs mis vxs cnf)"
    unfolding DeleteAppProtectLogConf_def by (intro returns_andThen add returns_reloadAfter deleteApFile_grew)
  show "returns N cnf (RefreshAppProtectUserSigs env sigs delPols ixs mis vxs cnf)"
    unfolding RefreshAppProtectUserSigs_def Let_def
  proof (intro returns_andThen add)
    fix ws cnf1 assume g: "grew N cnf cnf1"
    let ?f = "\<lambda>lm. writeUserSigs env sigs (fold DeleteAppProtectResourceFile delPols lm)"
    have "grew N cnf1 (onManager ?f cnf1)"
      by (rule onManager_grew) (use writeUserSigs_dir fold_dir [of DeleteAppProtectResourceFile delPols] in simp)
    moreover obtain err lm where rel: "Reload (ceWorld env) (cnManager (onManager ?f cnf1)) = (err, lm)" by fastforce
    moreover have "grew N (onManager ?f cnf1) ((onManager ?f cnf1)\<lparr>cnManager := lm\<rparr>)"
      using Reload_files [OF rel] by (intro grew_same_dir) simp_all
    ultimately show "returns N cnf (case Reload (ceWorld env) (cnManager (onManager ?f cnf1)) of
        (err, lm) \<Rightarrow> Some (ws, err, (onManager ?f cnf1)\<lparr>cnManager := lm\<rparr>))"
      using g by (auto intro: grew_trans)
  qed simp
qed

lemma AddOrUpdateSpecialTLSSecrets_grew:
  assumes "AddOrUpdateSpecialTLSSecrets env secret names cnf = (err, cnf')"
  shows "grew N cnf cnf'"
proof -
  let ?f = "\<lambda>name lm. snd (lmCreateSecret name (GenerateCertAndKeyFileContent secret) lm)"
  have "grew N cnf (onManager (fold ?f names) cnf)"
    by (rule onManager_grew, rule fold_dir) (simp add: lmCreateSecret_def Let_def split: prod.split)
  from grew_trans [OF this cnfReload_grew [OF assms [unfolded AddOrUpdateSpecialTLSSecrets_def], of N]] show ?thesis by blast
qed


end
