(* ===== verification/Controller_Sync_Properties.thy ===== *)
theory Controller_Sync_Properties
  imports Controller_Sync Sync_Changes Configurator_Properties
begin

text \<open>
  The controller as a whole, task by task. The tasks compose all components: each keeps the
  invariant of the Configuration, extends only holders, and hands the Configurator only what it can
  generate; the tasks that do not change the Configuration complete and write files of holders only.
  \<open>Controller_Runs\<close> adds the tasks that do, and the runs.
\<close>

section \<open>Objects the code can read\<close>

text \<open>
  The three places where an object of the cluster can make the code panic: a log destination
  that names a server without a port, and signature requirements of the wrong JSON types.
\<close>

definition readableDestination :: "string \<Rightarrow> bool" where
  "readableDestination dst =
     (\<not> searchString logDstEx dst \<or> dst = ''stderr'' \<or> searchString logDstFileEx dst
      \<or> (case splitOn (CHR '':'') dst of _ # server # _ # _ \<Rightarrow> CHR ''='' \<in> set server | _ \<Rightarrow> False))"

lemma readable_destination_checked:
  assumes "readableDestination dst"
  shows "ValidateAppProtectLogDestination isIP dst \<noteq> None"
proof (cases "\<not> searchString logDstEx dst \<or> dst = ''stderr'' \<or> searchString logDstFileEx dst")
  case True
  then show ?thesis by (auto simp: ValidateAppProtectLogDestination_def)
next
  case False
  then obtain a server p rest where chunks: "splitOn (CHR '':'') dst = a # server # p # rest" "CHR ''='' \<in> set server"
    using assms unfolding readableDestination_def by (auto split: list.splits)
  obtain x y zs where "splitOn (CHR ''='') server = x # y # zs" using splitOn_two [OF chunks(2)] by blast
  with chunks False show ?thesis
    by (simp add: ValidateAppProtectLogDestination_def Let_def nthOpt_def)
qed

definition readablePolicy :: "Policy \<Rightarrow> bool" where
  "readablePolicy pol =
     (\<forall>waf sl. psWAF (polSpec pol) = Some waf \<longrightarrow> wfSecurityLog waf = Some sl \<longrightarrow> readableDestination (slLogDest sl))"

lemma runBlocks_total: "None \<notin> set bs \<Longrightarrow> runBlocks bs \<noteq> None"
proof (induction bs)
  case (Cons b bs)
  then obtain errs stop n where "b = Some (errs, stop, n)" by (cases b) auto
  with Cons show ?case by (cases stop) auto
qed simp

lemma readable_policy_checked:
  assumes "readablePolicy pol"
  shows "ValidatePolicy net pol isPlus preview appProtect \<noteq> None"
proof -
  have "validateLogConf net logConf (slLogDest sl) p \<noteq> None"
    if "psWAF (polSpec pol) = Some waf" "wfSecurityLog waf = Some sl" for waf sl p logConf
    using assms that readable_destination_checked [of "slLogDest sl" "nlIsIP net"]
    by (auto simp: readablePolicy_def validateLogConf_def)
  then have "validateWAF net waf p \<noteq> None" if "psWAF (polSpec pol) = Some waf" for waf p
    using that by (auto simp: validateWAF_def split: option.split)
  then have "psWAF (polSpec pol) \<noteq> None \<longrightarrow> validateWAF net (the (psWAF (polSpec pol))) p \<noteq> None" for p by auto
  then have "None \<notin> set (policyBlocks net (polSpec pol) p isPlus preview appProtect)" for p
    unfolding policyBlocks_def by (simp add: Let_def absentBlock_def option.case_eq_if)
  from runBlocks_total [OF this] obtain errs stop n
    where "runBlocks (policyBlocks net (polSpec pol) (newPath ''spec'') isPlus preview appProtect) = Some (errs, stop, n)"
    by (metis option.exhaust prod_cases3)
  then show ?thesis by (simp add: ValidatePolicy_def validatePolicySpec_def)
qed

definition readableIngress :: "Ingress \<Rightarrow> bool" where
  "readableIngress ing =
     (\<forall>dst. gget (omAnnotations (ingMeta ing)) AppProtectLogConfDstAnnotation = Some dst \<longrightarrow> readableDestination dst)"

definition textOrMissing :: "json gomap \<Rightarrow> string \<Rightarrow> bool" where
  "textOrMissing obj key = (case gget obj key of None \<Rightarrow> True | Some (JStr _) \<Rightarrow> True | _ \<Rightarrow> False)"

definition readableRequirement :: "json \<Rightarrow> bool" where
  "readableRequirement req =
     (case req of JObj obj \<Rightarrow> \<forall>key\<in>{''tag'', ''minRevisionDatetime'', ''maxRevisionDatetime''}. textOrMissing obj key | _ \<Rightarrow> False)"

definition readableAppProtectPolicy :: "unstructured \<Rightarrow> bool" where
  "readableAppProtectPolicy obj =
     (\<forall>reqs. NestedSlice obj [''spec'', ''policy'', ''signature-requirements''] = Inr (Some reqs) \<longrightarrow> (\<forall>r\<in>set reqs. readableRequirement r))"

lemma revTime_readable: "textOrMissing obj key \<Longrightarrow> revTime timeParse msg obj key \<noteq> None"
  by (auto simp: textOrMissing_def revTime_def split: option.splits json.splits)

lemma buildRevTimes_readable:
  assumes "readableRequirement (JObj obj)"
  shows "buildRevTimes timeParse obj \<noteq> None"
proof -
  have "revTime timeParse msg obj key \<noteq> None" if "key \<in> {''minRevisionDatetime'', ''maxRevisionDatetime''}" for msg key
    using assms that by (intro revTime_readable) (auto simp: readableRequirement_def)
  then obtain least greatest
    where "revTime timeParse ''Error Parsing time from minRevisionDatetime '' obj ''minRevisionDatetime'' = Some least"
      and "revTime timeParse ''Error Parsing time from maxRevisionDatetime  '' obj ''maxRevisionDatetime'' = Some greatest"
    by (metis insertCI option.exhaust)
  then show ?thesis by (simp add: buildRevTimes_def split: sum.split)
qed

lemma signatureReqs_readable: "\<forall>r\<in>set reqs. readableRequirement r \<Longrightarrow> signatureReqs timeParse reqs \<noteq> None"
proof (induction reqs)
  case (Cons r reqs)
  then obtain obj where r: "r = JObj obj" by (cases r) (simp_all add: readableRequirement_def)
  have "buildRevTimes timeParse obj \<noteq> None" using Cons.prems buildRevTimes_readable by (simp add: r)
  moreover have "textOrMissing obj ''tag''" using Cons.prems by (simp add: r readableRequirement_def)
  moreover have "signatureReqs timeParse reqs \<noteq> None" using Cons by simp
  ultimately show ?case by (auto simp: r textOrMissing_def split: option.splits sum.splits json.splits)
qed simp

lemma readable_app_protect_policy_read:
  assumes "readableAppProtectPolicy obj"
  shows "createAppProtectPolicyEx timeParse obj \<noteq> None"
proof -
  have "signatureReqs timeParse reqs \<noteq> None"
    if "NestedSlice obj [''spec'', ''policy'', ''signature-requirements''] = Inr (Some reqs)" for reqs
    using assms that signatureReqs_readable unfolding readableAppProtectPolicy_def by blast
  then show ?thesis by (auto simp: createAppProtectPolicyEx_def split: option.splits sum.splits)
qed

section \<open>Extension\<close>

text \<open>A secret can always be taken, and the store stays sound.\<close>

lemma takeSecret_sound:
  assumes "soundStore (snd st)"
  shows "\<exists>ref st'. takeSecret manager key name st = Some (ref, st') \<and> soundStore (snd st')"
proof -
  obtain ref s' where "GetSecret manager key (snd st) = Some (ref, s')" "soundStore s'"
    using GetSecret_ok [OF assms, of manager key] by blast
  then show ?thesis by (cases st) (simp add: takeSecret_def)
qed

lemma takeSecrets_sound:
  "soundStore (snd st) \<Longrightarrow> \<exists>st'. foldOpt (\<lambda>t s. map_option snd (takeSecret manager (key t) (name t) s)) ts st = Some st' \<and> soundStore (snd st')"
proof (induction ts arbitrary: st)
  case (Cons t ts)
  then obtain ref st1 where "takeSecret manager (key t) (name t) st = Some (ref, st1)" "soundStore (snd st1)"
    using takeSecret_sound by blast
  with Cons.IH [of st1] show ?case by simp
qed simp

lemma addIngressSecrets_sound:
  assumes "soundStore (snd st)"
  shows "\<exists>st'. addIngressSecrets env ing st = Some st' \<and> soundStore (snd st')"
proof -
  let ?get = "\<lambda>name. takeSecret (keSecretManager env) (omNamespace (ingMeta ing) @ ''/'' @ name) name"
  obtain st1 where st1: "foldOpt (\<lambda>tls s. map_option snd (?get (itSecretName tls) s)) (isTLS (ingSpec ing)) st = Some st1" "soundStore (snd st1)"
    using takeSecrets_sound [OF assms, of "keSecretManager env" "\<lambda>tls. omNamespace (ingMeta ing) @ ''/'' @ itSecretName tls" itSecretName] by blast
  have "\<exists>st'. map_option snd (?get k st1) = Some st' \<and> soundStore (snd st')" for k
    using takeSecret_sound [OF st1(2), of "keSecretManager env" _ k] by fastforce
  then show ?thesis using st1 by (cases st1) (auto simp: addIngressSecrets_def Let_def split: option.split)
qed

lemma createIngressEx_total:
  assumes "soundStore store" and "readableIngress ing"
  shows "\<exists>ix store'. createIngressEx env ing vh vmp store = Some (ix, store') \<and> soundStore store'"
proof -
  obtain refs store' where refs: "addIngressSecrets env ing ([], store) = Some (refs, store')" "soundStore store'"
    using addIngressSecrets_sound [of "([], store)" env ing] assms(1) by auto
  have "getAppProtectLogConfAndDst env ing \<noteq> None"
  proof (cases "gget (omAnnotations (ingMeta ing)) AppProtectLogConfDstAnnotation")
    case (Some dst)
    then have "readableDestination dst" using assms(2) by (simp add: readableIngress_def)
    from readable_destination_checked [OF this, of "nlIsIP (keNet env)"] show ?thesis
      by (auto simp: getAppProtectLogConfAndDst_def Let_def Some split: option.split)
  qed (simp add: getAppProtectLogConfAndDst_def Let_def)
  then have "addAppProtectLogConf env ing ix \<noteq> None" for ix by (simp add: addAppProtectLogConf_def)
  then obtain ix1 where "(if kcIsNginxPlus (keFlags env) \<and> kcAppProtectEnabled (keFlags env)
      then addAppProtectLogConf env ing (addAppProtectPolicy env ing \<lparr>ixIngress = ing, ixEndpoints = [], ixHealthChecks = [],
        ixExternalNameSvcs = [], ixPodsByIP = [], ixValidHosts = vh, ixValidMinionPaths = (case vmp of None \<Rightarrow> [] | Some ps \<Rightarrow> ps),
        ixAppProtectPolicy = None, ixAppProtectLogConf = None, ixAppProtectLogDst = '''', ixSecretRefs = refs\<rparr>)
      else Some \<lparr>ixIngress = ing, ixEndpoints = [], ixHealthChecks = [],
        ixExternalNameSvcs = [], ixPodsByIP = [], ixValidHosts = vh, ixValidMinionPaths = (case vmp of None \<Rightarrow> [] | Some ps \<Rightarrow> ps),
        ixAppProtectPolicy = None, ixAppProtectLogConf = None, ixAppProtectLogDst = '''', ixSecretRefs = refs\<rparr>) = Some ix1"
    by fastforce
  then show ?thesis using refs by (simp add: createIngressEx_def Let_def)
qed

text \<open>An Ingress that the validator accepted names no key of JWT without NGINX Plus.\<close>

lemma accepted_jwt_needs_plus:
  assumes "validateIngress ing isPlus ap ir = []" and "gget (omAnnotations (ingMeta ing)) JWTKeyAnnotation = Some k"
  shows "isPlus"
proof -
  have "gget annotationValidations JWTKeyAnnotation = Some [validatePlusOnlyAnnotation]"
    by (simp add: annotationValidations_def JWTKeyAnnotation_def)
  from accepted_annotation [OF assms this] show ?thesis by (simp add: plus_check annotationContext_def)
qed

lemma createIngressEx_generable:
  assumes "createIngressEx env ing vh vmp store = Some (ix, store')"
    and "validateIngress ing (kcIsNginxPlus (keFlags env)) ap ir = []"
  shows "generableIngress ix"
  using createIngressEx_parts [OF assms(1)] accepted_jwt_needs_plus [OF assms(2)] by (auto simp: generableIngress_def)

text \<open>What the controller needs of a resource to extend it, whatever the cluster has.\<close>

definition acceptedIngress :: "bool \<Rightarrow> Ingress \<Rightarrow> bool" where
  "acceptedIngress isPlus ing = ((\<exists>ap ir. validateIngress ing isPlus ap ir = []) \<and> readableIngress ing)"

lemma createIngressEx_ready:
  assumes "soundStore store" and "acceptedIngress (kcIsNginxPlus (keFlags env)) ing"
  shows "\<exists>ix store'. createIngressEx env ing vh vmp store = Some (ix, store') \<and> soundStore store' \<and> generableIngress ix
    \<and> ixIngress ix = ing \<and> ixValidHosts ix = vh"
proof -
  obtain ix store' where ex: "createIngressEx env ing vh vmp store = Some (ix, store')" "soundStore store'"
    using createIngressEx_total [OF assms(1)] assms(2) unfolding acceptedIngress_def by blast
  then show ?thesis
    using createIngressEx_parts [OF ex(1)] createIngressEx_generable [OF ex(1)] assms(2) unfolding acceptedIngress_def by blast
qed

lemma createMinionExes_ready:
  assumes "soundStore store" and "\<forall>m\<in>set ms. acceptedIngress (kcIsNginxPlus (keFlags env)) (mcIngress m)"
  shows "\<exists>ixs store'. createMinionExes env vh ms store = Some (ixs, store') \<and> soundStore store' \<and> (\<forall>ix\<in>set ixs. generableIngress ix)"
  using assms
proof (induction ms arbitrary: store)
  case (Cons m ms)
  then obtain ix store1 where one: "createIngressEx env (mcIngress m) vh (Some (mcValidPaths m)) store = Some (ix, store1)"
      "soundStore store1" "generableIngress ix"
    using createIngressEx_ready [of store env "mcIngress m" vh "Some (mcValidPaths m)"] by auto
  obtain ixs store2 where rest: "createMinionExes env vh ms store1 = Some (ixs, store2)" "soundStore store2" "\<forall>ix\<in>set ixs. generableIngress ix"
    using Cons.IH [OF one(2)] Cons.prems(2) by auto
  show ?case using one rest by simp
qed simp

lemma createMergeableIngresses_ready:
  assumes "soundStore store" and "acceptedIngress (kcIsNginxPlus (keFlags env)) (icIngress ic)"
    and "\<forall>m\<in>set (icMinions ic). acceptedIngress (kcIsNginxPlus (keFlags env)) (mcIngress m)"
    and "isRules (ingSpec (icIngress ic)) = [rule]" and "gget (icValidHosts ic) (irHost rule) = Some True"
  shows "\<exists>mi store'. createMergeableIngresses env ic store = Some (mi, store') \<and> soundStore store' \<and> generableMergeable mi
    \<and> ixIngress (miMaster mi) = icIngress ic"
proof -
  obtain master store1 where master: "createIngressEx env (icIngress ic) (icValidHosts ic) None store = Some (master, store1)"
      "soundStore store1" "generableIngress master" "ixIngress master = icIngress ic" "ixValidHosts master = icValidHosts ic"
    using createIngressEx_ready [OF assms(1,2)] by blast
  obtain minions store2 where minions: "createMinionExes env (icValidHosts ic) (icMinions ic) store1 = Some (minions, store2)"
      "soundStore store2" "\<forall>ix\<in>set minions. generableIngress ix"
    using createMinionExes_ready [OF master(2) assms(3)] by blast
  then show ?thesis using master assms(4,5) by (simp add: createMergeableIngresses_def generableMergeable_def gtrue_def)
qed


section \<open>States and worlds\<close>

text \<open>
  What the caches may hold at a task: any objects at all, as long as they are readable, policies are
  under their own keys, and TransportServers have names of Kubernetes. The flags of the
  command line never change.
\<close>

definition goodWorld :: "controllerFlags \<Rightarrow> controllerWorld \<Rightarrow> bool" where
  "goodWorld fl w =
     (cwFlags w = fl \<and> policiesKeyed (cwListers w)
      \<and> (\<forall>key p. lsPolicyByKey (cwListers w) key = Inr (Some p) \<longrightarrow> readablePolicy p)
      \<and> (\<forall>p\<in>set (lsPolicies (cwListers w)). readablePolicy p)
      \<and> (\<forall>key p. cwPolicyByKey w key = Inr (Some p) \<longrightarrow> readablePolicy p)
      \<and> (\<forall>key ing. cwIngressByKey w key = Inr (Some ing) \<longrightarrow> readableIngress ing)
      \<and> (\<forall>key ts. cwTransportServerByKey w key = Inr (Some ts) \<longrightarrow> plainMeta (tsMeta ts))
      \<and> (\<forall>key obj. cwAppProtectPolicyByKey w key = Inr (Some obj) \<longrightarrow> readableAppProtectPolicy obj))"

definition soundConfiguration :: "controllerFlags \<Rightarrow> Configuration \<Rightarrow> bool" where
  "soundConfiguration fl cfg =
     (inStep cfg \<and> validObjects cfg \<and> cIsPlus cfg = kcIsNginxPlus fl \<and> (\<forall>k ing. (k, ing) \<in> set (cIngresses cfg) \<longrightarrow> readableIngress ing))"

definition soundRest :: "Controller \<Rightarrow> bool" where
  "soundRest c = (soundStore (storeOf c) \<and> cpJWTKey (cnCfgParams (ctConfigurator c)) = '''')"

definition running :: "controllerFlags \<Rightarrow> Controller \<Rightarrow> bool" where
  "running fl c = (soundConfiguration fl (ctConfiguration c) \<and> soundRest c)"

lemma holder_accepted:
  assumes "soundConfiguration fl cfg" and "holder cfg r"
  shows "(case r of
      IngressRes ic \<Rightarrow> acceptedIngress (kcIsNginxPlus fl) (icIngress ic)
        \<and> (\<forall>m\<in>set (icMinions ic). acceptedIngress (kcIsNginxPlus fl) (mcIngress m))
        \<and> (icIsMaster ic \<longrightarrow> (\<exists>rule. isRules (ingSpec (icIngress ic)) = [rule] \<and> gget (icValidHosts ic) (irHost rule) = Some True))
    | VirtualServerRes vsc \<Rightarrow> ValidateVirtualServer (cVirtualServerValidator cfg) (vscVirtualServer vsc) = None
        \<and> (\<forall>vsr\<in>set (vscVirtualServerRoutes vsc). \<exists>path.
              ValidateVirtualServerRouteForVirtualServer (cVirtualServerValidator cfg) vsr (vssHost (vsSpec (vscVirtualServer vsc))) path = None)
    | TransportServerRes tsc \<Rightarrow> ValidateTransportServer (cTransportServerValidator cfg) (tscTransportServer tsc) = None)"
proof -
  have made: "wellMade cfg r" using holder_wellMade assms unfolding soundConfiguration_def by blast
  have "acceptedIngress (kcIsNginxPlus fl) ing" if "validIngress cfg ing" for ing
    using assms(1) that unfolding soundConfiguration_def validIngress_def acceptedIngress_def by fastforce
  with made show ?thesis by (cases r) simp_all
qed

section \<open>Steps that leave the Configuration alone\<close>

text \<open>The files with names from \<open>N\<close> may be written.\<close>

definition proceeds :: "string set \<Rightarrow> Controller \<Rightarrow> Controller \<Rightarrow> bool" where
  "proceeds N c c' =
     (ctConfiguration c' = ctConfiguration c \<and> (soundRest c \<longrightarrow> soundRest c') \<and> grew N (ctConfigurator c) (ctConfigurator c'))"

lemma proceeds_refl [simp]: "proceeds N c c"
  by (simp add: proceeds_def)

lemma proceeds_trans: "proceeds N a b \<Longrightarrow> proceeds N b c \<Longrightarrow> proceeds N a c"
  unfolding proceeds_def by (auto intro: grew_trans)

lemma proceeds_mono: "proceeds M a b \<Longrightarrow> M \<subseteq> N \<Longrightarrow> proceeds N a b"
  unfolding proceeds_def using grew_trans [OF grew_refl [of M]] by blast

lemma proceeds_running: "proceeds N c c' \<Longrightarrow> running fl c \<Longrightarrow> running fl c'"
  by (simp add: proceeds_def running_def)

lemma addReports_fields [simp]:
  "ctConfiguration (addReports rs c) = ctConfiguration c" "ctConfigurator (addReports rs c) = ctConfigurator c"
  "soundRest (addReports rs c) = soundRest c" "addReports [] c = c" "addReports qs (addReports rs c) = addReports (rs @ qs) c"
  by (simp_all add: addReports_def soundRest_def storeOf_def)

lemma onStatus_fields [simp]:
  "ctConfiguration (onStatus f c) = ctConfiguration c" "ctConfigurator (onStatus f c) = ctConfigurator c"
  "soundRest (onStatus f c) = soundRest c"
  by (simp_all add: onStatus_def soundRest_def storeOf_def)

lemma proceeds_reports [simp]:
  "proceeds N c (addReports rs c') = proceeds N c c'" "proceeds N c (onStatus f c') = proceeds N c c'"
  by (simp_all add: proceeds_def)

lemma writePath_sound:
  assumes "\<forall>k ref. gget refs k = Some ref \<longrightarrow> srSecret ref \<noteq> None"
  shows "\<forall>k ref. gget (fold writePath ps refs) k = Some ref \<longrightarrow> srSecret ref \<noteq> None"
  using assms
proof (induction ps arbitrary: refs)
  case (Cons p ps)
  have "\<forall>k ref. gget (writePath p refs) k = Some ref \<longrightarrow> srSecret ref \<noteq> None"
    using Cons.prems by (auto simp: writePath_def split: prod.splits option.splits if_splits)
  from Cons.IH [OF this] show ?case by simp
qed simp

lemma withConfigurator_proceeds:
  assumes "grew N (ctConfigurator c) cnf"
  shows "proceeds N c (withConfigurator cnf c)"
proof -
  have "grew {} cnf (cnf\<lparr>cnPathWrites := []\<rparr>)" by (rule grew_same_dir) simp_all
  from grew_trans [OF assms this] have g: "grew N (ctConfigurator c) (cnf\<lparr>cnPathWrites := []\<rparr>)" by blast
  have "soundRest (withConfigurator cnf c)" if "soundRest c"
    using that writePath_sound [of "ctSecrets c" "cnPathWrites cnf"] grew_jwt [OF assms]
    by (simp add: soundRest_def soundStore_def storeOf_def withConfigurator_def)
  with g show ?thesis by (simp add: proceeds_def withConfigurator_def)
qed

lemma withStore_proceeds: "soundStore store \<Longrightarrow> proceeds N c (withStore store c)"
  by (simp add: proceeds_def soundRest_def soundStore_def storeOf_def withStore_def onManager_def)
    (rule grew_same_dir, simp_all)

lemma statuses_are_reports:
  "\<exists>rs. updateResourcesStatusAndEvents w resources warnings err c = addReports rs c"
  "\<exists>rs. updateVirtualServerStatusAndEvents w vsc warnings err c = addReports rs c"
  "\<exists>rs. updateMergeableIngressStatusAndEvents w ic warnings err c = addReports rs c"
  "\<exists>rs. updateRegularIngressStatusAndEvents w ic warnings err c = addReports rs c"
  "\<exists>rs. updateTransportServerStatusAndEvents w tsc err c = addReports rs c"
proof -
  have one: "\<exists>rs. updateResourceStatusAndEvents w warnings err r c = addReports rs c" for r c
    unfolding updateResourceStatusAndEvents_def updateMergeableIngressStatusAndEvents_def updateRegularIngressStatusAndEvents_def
      updateVirtualServerStatusAndEvents_def updateTransportServerStatusAndEvents_def Let_def
    by (cases r) auto
  show "\<exists>rs. updateResourcesStatusAndEvents w resources warnings err c = addReports rs c"
    unfolding updateResourcesStatusAndEvents_def
  proof (induction resources arbitrary: c)
    case Nil
    show ?case by (rule exI [of _ "[]"]) simp
  next
    case (Cons r resources)
    obtain qs where "updateResourceStatusAndEvents w warnings err r c = addReports qs c" using one by blast
    moreover obtain rs where "fold (updateResourceStatusAndEvents w warnings err) resources (addReports qs c) = addReports rs (addReports qs c)"
      using Cons.IH by blast
    ultimately show ?case by auto
  qed
qed (auto simp: updateMergeableIngressStatusAndEvents_def updateRegularIngressStatusAndEvents_def updateVirtualServerStatusAndEvents_def
    updateTransportServerStatusAndEvents_def Let_def)

lemma proceeds_statuses [simp]:
  "proceeds N c (updateResourcesStatusAndEvents w resources warnings err c') = proceeds N c c'"
  "proceeds N c (updateVirtualServerStatusAndEvents w vsc warnings err c') = proceeds N c c'"
  "proceeds N c (updateMergeableIngressStatusAndEvents w ic warnings err c') = proceeds N c c'"
  "proceeds N c (updateRegularIngressStatusAndEvents w ic warnings err c') = proceeds N c c'"
  "proceeds N c (updateTransportServerStatusAndEvents w tsc err c') = proceeds N c c'"
  using statuses_are_reports proceeds_reports(1) by metis+


section \<open>Extended resources\<close>

fun resourceFile :: "Resource \<Rightarrow> string set" where
  "resourceFile (IngressRes ic) = {ingressFile (icIngress ic)}"
| "resourceFile (VirtualServerRes vsc) = {getFileNameForVirtualServer (vscVirtualServer vsc)}"
| "resourceFile (TransportServerRes tsc) = {}"

definition heldFiles :: "Configuration \<Rightarrow> string set" where
  "heldFiles cfg = (\<Union>r\<in>{r. holder cfg r}. resourceFile r)"

definition generableResources :: "ExtendedResources \<Rightarrow> bool" where
  "generableResources er = generable (erIngressExes er) (erMergeableIngresses er) (erVirtualServerExes er) (erTransportServerExes er)"

definition extendedFiles :: "ExtendedResources \<Rightarrow> string set" where
  "extendedFiles er = filesOf (erIngressExes er) (erMergeableIngresses er) (erVirtualServerExes er)"

lemma envOf_fields [simp]: "keFlags (envOf w c) = cwFlags w" "keListers (envOf w c) = cwListers w"
  by (simp_all add: envOf_def)

lemma goodWorld_policies:
  assumes "goodWorld fl w"
  shows "policiesKeyed (keListers (envOf w c))" "policiesCheckable (envOf w c)"
  using assms readable_policy_checked by (simp_all add: goodWorld_def policiesCheckable_def controllerValidatePolicy_def envOf_def)

lemma extended_virtual_server:
  assumes "soundConfiguration fl cfg" and "goodWorld fl w" and "soundRest c" and "holder cfg (VirtualServerRes vsc)"
  shows "\<exists>vsEx store. createVirtualServerEx (envOf w c) (vscVirtualServer vsc) (vscVirtualServerRoutes vsc) (storeOf c) = Some (vsEx, store)
    \<and> soundStore store \<and> generableVirtualServer vsEx \<and> vxVirtualServer vsEx = vscVirtualServer vsc"
proof -
  have "soundStore (storeOf c)" using assms(3) by (simp add: soundRest_def)
  from createVirtualServerEx_ready [OF goodWorld_policies [OF assms(2)] this]
  obtain vsEx store where ex: "createVirtualServerEx (envOf w c) (vscVirtualServer vsc) (vscVirtualServerRoutes vsc) (storeOf c) = Some (vsEx, store)"
    "vxVirtualServer vsEx = vscVirtualServer vsc" "vxVirtualServerRoutes vsEx = vscVirtualServerRoutes vsc" "readyEx vsEx" "soundStore store"
    by blast
  have "acceptedEx (cVirtualServerValidator cfg) vsEx" using holder_accepted [OF assms(1,4)] ex(2,3) by (simp add: acceptedEx_def)
  then show ?thesis using ex unfolding generableVirtualServer_def by blast
qed

lemma extended_ingress:
  assumes "soundConfiguration fl cfg" and "goodWorld fl w" and "soundRest c" and "holder cfg (IngressRes ic)"
  shows "\<exists>ix store. createIngressEx (envOf w c) (icIngress ic) (icValidHosts ic) None (storeOf c) = Some (ix, store)
    \<and> soundStore store \<and> generableIngress ix \<and> ixIngress ix = icIngress ic"
    and "icIsMaster ic \<Longrightarrow> \<exists>mi store. createMergeableIngresses (envOf w c) ic (storeOf c) = Some (mi, store)
    \<and> soundStore store \<and> generableMergeable mi \<and> ixIngress (miMaster mi) = icIngress ic"
proof -
  have store: "soundStore (storeOf c)" using assms(3) by (simp add: soundRest_def)
  have fl: "kcIsNginxPlus (keFlags (envOf w c)) = kcIsNginxPlus fl" using assms(2) by (simp add: goodWorld_def)
  note accepted = holder_accepted [OF assms(1,4), unfolded fl [symmetric], simplified]
  show "\<exists>ix store. createIngressEx (envOf w c) (icIngress ic) (icValidHosts ic) None (storeOf c) = Some (ix, store)
    \<and> soundStore store \<and> generableIngress ix \<and> ixIngress ix = icIngress ic"
    using createIngressEx_ready [OF store, of "envOf w c" "icIngress ic" "icValidHosts ic" None] accepted by auto
  show "\<exists>mi store. createMergeableIngresses (envOf w c) ic (storeOf c) = Some (mi, store)
    \<and> soundStore store \<and> generableMergeable mi \<and> ixIngress (miMaster mi) = icIngress ic" if "icIsMaster ic"
    using createMergeableIngresses_ready [OF store, of "envOf w c" ic] accepted that by auto
qed

lemma extended_transport_server:
  assumes "soundConfiguration fl cfg" and "holder cfg (TransportServerRes tsc)"
  shows "generableTransportServer (createTransportServerEx env (tscTransportServer tsc) port)"
proof -
  have "tssAction (tsSpec (tscTransportServer tsc)) \<noteq> None"
    using accepted_transport_server_parts [of "cTransportServerValidator cfg" "tscTransportServer tsc"] holder_accepted [OF assms] by auto
  then show ?thesis by (simp add: generableTransportServer_def createTransportServerEx_def split: prod.split)
qed

text \<open>Resources that hold something are extended without a panic, and can be generated.\<close>

lemma extendResource_ok:
  assumes run: "running fl c" and world: "goodWorld fl w" and held: "holder (ctConfiguration c) r" and good: "generableResources er"
  shows "\<exists>er' c'. extendResource w r (er, c) = Some (er', c') \<and> proceeds {} c c' \<and> generableResources er'
    \<and> extendedFiles er' = extendedFiles er \<union> resourceFile r"
proof -
  have cfg: "soundConfiguration fl (ctConfiguration c)" and rest: "soundRest c" using run by (simp_all add: running_def)
  note parts = generableResources_def extendedFiles_def generable_def filesOf_def
  show ?thesis
  proof (cases r)
    case (IngressRes ic)
    note ex = extended_ingress [OF cfg world rest held [unfolded IngressRes]]
    show ?thesis
    proof (cases "icIsMaster ic")
      case True
      then obtain mi store where "createMergeableIngresses (envOf w c) ic (storeOf c) = Some (mi, store)" "soundStore store"
        "generableMergeable mi" "ixIngress (miMaster mi) = icIngress ic" using ex(2) by blast
      then show ?thesis using True good withStore_proceeds [of store "{}" c]
        by (auto simp: extendResource_def IngressRes parts)
    next
      case False
      obtain ix store where "createIngressEx (envOf w c) (icIngress ic) (icValidHosts ic) None (storeOf c) = Some (ix, store)" "soundStore store"
        "generableIngress ix" "ixIngress ix = icIngress ic" using ex(1) by blast
      then show ?thesis using False good withStore_proceeds [of store "{}" c]
        by (auto simp: extendResource_def IngressRes parts)
    qed
  next
    case (VirtualServerRes vsc)
    obtain vsEx store where "createVirtualServerEx (envOf w c) (vscVirtualServer vsc) (vscVirtualServerRoutes vsc) (storeOf c) = Some (vsEx, store)"
      "soundStore store" "generableVirtualServer vsEx" "vxVirtualServer vsEx = vscVirtualServer vsc"
      using extended_virtual_server [OF cfg world rest held [unfolded VirtualServerRes]] by blast
    then show ?thesis using good withStore_proceeds [of store "{}" c]
      by (auto simp: extendResource_def VirtualServerRes parts)
  next
    case (TransportServerRes tsc)
    then show ?thesis using good extended_transport_server [OF cfg] held by (auto simp: extendResource_def parts)
  qed
qed

lemma createExtendedResources_ok:
  assumes run: "running fl c" and world: "goodWorld fl w" and held: "\<forall>r\<in>set resources. holder (ctConfiguration c) r"
  shows "\<exists>er c'. createExtendedResources w resources c = Some (er, c') \<and> proceeds {} c c' \<and> generableResources er
    \<and> extendedFiles er \<subseteq> heldFiles (ctConfiguration c)"
proof -
  have "\<exists>er' c'. foldOpt (extendResource w) resources (er, c) = Some (er', c') \<and> proceeds {} c c' \<and> generableResources er'
    \<and> extendedFiles er' = extendedFiles er \<union> (\<Union>r\<in>set resources. resourceFile r)" if "generableResources er" for er
    using run held that
  proof (induction resources arbitrary: er c)
    case (Cons r rs)
    obtain er1 c1 where one: "extendResource w r (er, c) = Some (er1, c1)" "proceeds {} c c1" "generableResources er1"
        "extendedFiles er1 = extendedFiles er \<union> resourceFile r"
      using extendResource_ok [OF Cons.prems(1) world, of r er] Cons.prems by auto
    have "ctConfiguration c1 = ctConfiguration c" using one(2) by (simp add: proceeds_def)
    with Cons.IH [OF proceeds_running [OF one(2) Cons.prems(1)] _ one(3)] Cons.prems(2) one show ?case
      by (auto intro: proceeds_trans)
  qed simp
  moreover have "generableResources noExtendedResources" "extendedFiles noExtendedResources = {}"
    by (simp_all add: generableResources_def generable_def extendedFiles_def filesOf_def noExtendedResources_def)
  moreover have "(\<Union>r\<in>set resources. resourceFile r) \<subseteq> heldFiles (ctConfiguration c)" using held by (auto simp: heldFiles_def)
  ultimately show ?thesis unfolding createExtendedResources_def by fastforce
qed


section \<open>Tasks that leave the Configuration alone\<close>

text \<open>The resources that the queries of the Configuration find are holders.\<close>

lemma tables_wf:
  assumes "soundConfiguration fl cfg"
  shows "wf_gomap (cHosts cfg)" "wf_gomap (cListeners cfg)"
proof -
  have step: "inStep cfg" using assms by (simp add: soundConfiguration_def)
  then obtain res where "hostTable cfg (cHosts cfg) res" by (auto simp: inStep_def hostsInStep_def)
  then show "wf_gomap (cHosts cfg)" by (rule hostTableD(1))
  show "wf_gomap (cListeners cfg)" using step listenerTableD(1) by (auto simp: inStep_def listenersInStep_def)
qed



lemma found_hold:
  assumes "soundConfiguration fl cfg" and "r \<in> set (findResourcesForResourceReference cfg ns name checker)"
  shows "holder cfg r"
proof -
  note entry = tables_wf [OF assms(1), THEN wf_gomap_in_set]
  from assms(2) consider h where "(h, r) \<in> set (cHosts cfg)" | l tsc where "(l, tsc) \<in> set (cListeners cfg)" "r = TransportServerRes tsc"
    by (auto simp: findResourcesForResourceReference_def)
  then show ?thesis using entry by cases (auto simp: holder_def)
qed

lemma filtered_hold:
  assumes "soundConfiguration fl cfg" and "r \<in> set (GetResourcesWithFilter cfg flt)"
  shows "holder cfg r"
proof -
  have "snd ` set (fold (\<lambda>(h, r) rs. if passesFilter flt r then gput (GetKeyWithKind r) r rs else rs) es acc) \<subseteq> snd ` set es \<union> snd ` set acc"
    for es and acc :: "Resource gomap"
  proof (induction es arbitrary: acc)
    case (Cons e es)
    have "snd ` set (gput (GetKeyWithKind (snd e)) (snd e) acc) \<subseteq> insert (snd e) (snd ` set acc)" by (force dest: gput_snd)
    with Cons.IH [of acc] Cons.IH [of "gput (GetKeyWithKind (snd e)) (snd e) acc"] show ?case
      by (cases e) (simp, blast)
  qed simp
  then have "r \<in> snd ` set (cHosts cfg)" using assms(2) by (fastforce simp: GetResourcesWithFilter_def)
  then show ?thesis using wf_gomap_in_set [OF tables_wf(1) [OF assms(1)]] by (force simp: holder_def)
qed



definition completes :: "Controller \<Rightarrow> Controller option \<Rightarrow> bool" where
  "completes c r = (\<exists>c'. r = Some c' \<and> proceeds (heldFiles (ctConfiguration c)) c c')"

lemma completes_Some [simp]: "completes c (Some c') = proceeds (heldFiles (ctConfiguration c)) c c'"
  by (simp add: completes_def)

lemma completes_after: "proceeds (heldFiles (ctConfiguration c)) c c1 \<Longrightarrow> completes c1 r \<Longrightarrow> completes c r"
  unfolding completes_def proceeds_def by (auto intro: grew_trans)

lemma completes_map: "completes c r \<Longrightarrow> (\<And>c'. \<exists>rs. f c' = addReports rs c') \<Longrightarrow> completes c (map_option f r)"
  unfolding completes_def by (metis option.map(2) proceeds_reports(1))

text \<open>An operation of the Configurator that the tasks may call.\<close>

definition goodUpdate :: "(ExtendedResources \<Rightarrow> Configurator \<Rightarrow> cnfResult) \<Rightarrow> bool" where
  "goodUpdate update =
     (\<forall>er cnf N. generableResources er \<longrightarrow> cpJWTKey (cnCfgParams cnf) = '''' \<longrightarrow> extendedFiles er \<subseteq> N \<longrightarrow> returns N cnf (update er cnf))"

lemma updateWith_completes:
  assumes run: "running fl c" and world: "goodWorld fl w" and held: "\<forall>r\<in>set resources. holder (ctConfiguration c) r"
    and update: "goodUpdate update"
  shows "completes c (updateWith w update event resources c)"
proof -
  let ?N = "heldFiles (ctConfiguration c)"
  obtain er c1 where er: "createExtendedResources w resources c = Some (er, c1)" "proceeds {} c c1" "generableResources er"
      "extendedFiles er \<subseteq> ?N" using createExtendedResources_ok [OF run world held] by blast
  have "cpJWTKey (cnCfgParams (ctConfigurator c1)) = ''''" using proceeds_running [OF er(2) run] by (simp add: running_def soundRest_def)
  then obtain warnings err cnf where cnf: "update er (ctConfigurator c1) = Some (warnings, err, cnf)" "grew ?N (ctConfigurator c1) cnf"
    using update er(3,4) unfolding goodUpdate_def returns_def by blast
  have "proceeds ?N c c1" by (rule proceeds_mono [OF er(2)]) simp
  from proceeds_trans [OF this withConfigurator_proceeds [OF cnf(2)]] show ?thesis
    by (simp add: updateWith_def er(1) cnf(1))
qed

lemma AddOrUpdateResources_good: "goodUpdate (AddOrUpdateResources env)"
  unfolding goodUpdate_def generableResources_def extendedFiles_def by (blast intro: AddOrUpdateResources_returns)

lemma onHTTPResources_good:
  assumes "\<And>ixs mis vxs txs cnf N. generable ixs mis vxs txs \<Longrightarrow> cpJWTKey (cnCfgParams cnf) = '''' \<Longrightarrow> filesOf ixs mis vxs \<subseteq> N
    \<Longrightarrow> returns N cnf (update ixs mis vxs cnf)"
  shows "goodUpdate (onHTTPResources update)"
  unfolding goodUpdate_def generableResources_def extendedFiles_def onHTTPResources_def using assms by blast


text \<open>Tasks that hand every affected resource to the Configurator again.\<close>

lemma reportExternalEndpoints_reports: "\<exists>rs. reportExternalEndpoints w c = addReports rs c"
  unfolding reportExternalEndpoints_def Let_def by blast

lemma reportExternalEndpoints_proceeds [simp]: "proceeds N c (reportExternalEndpoints w c') = proceeds N c c'"
  using reportExternalEndpoints_reports [of w c'] by auto

lemma syncService_completes:
  assumes run: "running fl c" and world: "goodWorld fl w"
  shows "completes c (syncService w key c)"
proof (cases "cwServiceByKey w key")
  case (Inr svc)
  define c1 where "c1 = (if IsExternalServiceKeyForStatus w key
    then reportExternalEndpoints w (onStatus (SaveStatusFromExternalService (nlIsIP (cwNet w)) svc) c) else c)"
  define resources where "resources = (case keyParts key of (ns, name) \<Rightarrow> FindResourcesForService (ctConfiguration c1) ns name)"
  have c1: "proceeds N c c1" for N by (simp add: c1_def)
  have run1: "running fl c1" by (rule proceeds_running [OF c1 run])
  have "\<forall>r\<in>set resources. holder (ctConfiguration c1) r"
    using found_hold run1 unfolding running_def resources_def FindResourcesForService_def by (auto split: prod.splits)
  from completes_after [OF c1 updateWith_completes [OF run1 world this AddOrUpdateResources_good]] c1
  show ?thesis unfolding syncService_def Inr sum.case c1_def [symmetric] resources_def [symmetric] Let_def by simp
qed (simp add: syncService_def)

lemma syncIngressLink_completes: "completes c (Some (syncIngressLink w key c))"
  by (auto simp: syncIngressLink_def Let_def split: sum.split)

lemma policy_checked: "readablePolicy pol \<Longrightarrow> \<exists>err. controllerValidatePolicy env pol = Some err"
  using readable_policy_checked by (fastforce simp: controllerValidatePolicy_def)

lemma syncPolicy_completes:
  assumes run: "running fl c" and world: "goodWorld fl w"
  shows "completes c (syncPolicy w key c)"
proof (cases "cwPolicyByKey w key")
  case (Inr found)
  have "\<exists>rs. (case found of None \<Rightarrow> Some c | Some pol \<Rightarrow> reportPolicy w pol c) = Some (addReports rs c)"
  proof (cases found)
    case None
    then show ?thesis by (auto intro: exI [of _ "[]"])
  next
    case (Some pol)
    then have "readablePolicy pol" using world Inr by (simp add: goodWorld_def)
    then obtain err where "controllerValidatePolicy (envOf w c) pol = Some err" using policy_checked by blast
    then show ?thesis by (cases err) (auto simp: reportPolicy_def Let_def Some)
  qed
  then obtain rs where c1: "(case found of None \<Rightarrow> Some c | Some pol \<Rightarrow> reportPolicy w pol c) = Some (addReports rs c)" by blast
  let ?c1 = "addReports rs c" and ?N = "heldFiles (ctConfiguration c)"
  define resources where "resources = (case keyParts key of (ns, name) \<Rightarrow> FindResourcesForPolicy (ctConfiguration c) ns name)"
  have run1: "running fl ?c1" using run by (simp add: running_def)
  have "\<forall>r\<in>set resources. holder (ctConfiguration ?c1) r"
    using found_hold run1 unfolding running_def resources_def FindResourcesForPolicy_def by (auto split: prod.splits)
  from createExtendedResources_ok [OF run1 world this] obtain er c2
    where er: "createExtendedResources w resources ?c1 = Some (er, c2)" "proceeds {} ?c1 c2" "generableResources er" "extendedFiles er \<subseteq> ?N"
    by auto
  have c2: "proceeds ?N c c2" using er(2) by (auto simp: proceeds_def intro: grew_trans)
  have "cpJWTKey (cnCfgParams (ctConfigurator c2)) = ''''" using proceeds_running [OF c2 run] by (simp add: running_def soundRest_def)
  moreover have "\<forall>x\<in>set (erVirtualServerExes er). generableVirtualServer x" "filesOf [] [] (erVirtualServerExes er) \<subseteq> ?N"
    using er(3,4) by (auto simp: generableResources_def generable_def extendedFiles_def filesOf_def)
  ultimately obtain warnings err cnf where cnf: "cnfAddOrUpdateVirtualServers (cwCnf w) (erVirtualServerExes er) (ctConfigurator c2) = Some (warnings, err, cnf)"
    "grew ?N (ctConfigurator c2) cnf" using cnfAddOrUpdateVirtualServers_returns unfolding returns_def by blast
  show ?thesis
    using c2 proceeds_trans [OF c2 withConfigurator_proceeds [OF cnf(2)]]
    by (simp add: syncPolicy_def Inr c1 Let_def resources_def [symmetric] er(1) cnf(1))
qed (simp add: syncPolicy_def)


lemma completes_bind:
  assumes "completes c r" and "\<And>c'. proceeds (heldFiles (ctConfiguration c)) c c' \<Longrightarrow> completes c (f c')"
  shows "completes c (Option.bind r f)"
  using assms unfolding completes_def by fastforce

lemma updateIf_completes:
  assumes c1: "proceeds (heldFiles (ctConfiguration c)) c c1"
    and update: "\<exists>err cnf'. update xs (ctConfigurator c1) = Some (err, cnf') \<and> grew (heldFiles (ctConfiguration c)) (ctConfigurator c1) cnf'"
  shows "completes c (updateIf enabled update xs c1)"
proof -
  obtain err cnf' where "update xs (ctConfigurator c1) = Some (err, cnf')" "grew (heldFiles (ctConfiguration c)) (ctConfigurator c1) cnf'"
    using update by blast
  then show ?thesis using c1 proceeds_trans [OF c1 withConfigurator_proceeds] by (simp add: updateIf_def)
qed

lemma syncEndpoints_completes:
  assumes run: "running fl c" and world: "goodWorld fl w"
  shows "completes c (syncEndpoints w key c)"
proof (cases "cwEndpointsByKey w key")
  case (Inr found)
  show ?thesis
  proof (cases found)
    case (Some p)
    then obtain ns name where p: "found = Some (ns, name)" by (cases p) blast
    let ?N = "heldFiles (ctConfiguration c)"
    have "\<forall>r\<in>set (FindResourcesForEndpoints (ctConfiguration c) ns name). holder (ctConfiguration c) r"
      using found_hold run unfolding running_def FindResourcesForEndpoints_def by blast
    from createExtendedResources_ok [OF run world this] obtain er c1
      where er: "createExtendedResources w (FindResourcesForEndpoints (ctConfiguration c) ns name) c = Some (er, c1)"
        "proceeds {} c c1" "generableResources er" "extendedFiles er \<subseteq> ?N" by blast
    note good = er(3) [unfolded generableResources_def generable_def] er(4) [unfolded extendedFiles_def filesOf_def]
    have jwt: "cpJWTKey (cnCfgParams (ctConfigurator c')) = ''''" if "proceeds ?N c c'" for c'
      using proceeds_running [OF that run] by (simp add: running_def soundRest_def)
    have "completes c (do {
        c2 \<leftarrow> updateIf True (UpdateEndpoints (cwCnf w)) (erIngressExes er) c1;
        c3 \<leftarrow> updateIf True (UpdateEndpointsMergeableIngress (cwCnf w)) (erMergeableIngresses er) c2;
        c4 \<leftarrow> updateIf (cwAreCustomResourcesEnabled w) (UpdateEndpointsForVirtualServers (cwCnf w)) (erVirtualServerExes er) c3;
        updateIf (cwAreCustomResourcesEnabled w) (UpdateEndpointsForTransportServers (cwCnf w)) (erTransportServerExes er) c4 })"
    proof (intro completes_bind)
      have "proceeds ?N c c1" by (rule proceeds_mono [OF er(2)]) simp
      then show "completes c (updateIf True (UpdateEndpoints (cwCnf w)) (erIngressExes er) c1)"
        by (intro updateIf_completes updateEndpoints_return(1) jwt) (use good in \<open>auto simp: filesOf_def\<close>)
      fix c2 assume "proceeds ?N c c2"
      then show "completes c (updateIf True (UpdateEndpointsMergeableIngress (cwCnf w)) (erMergeableIngresses er) c2)"
        by (intro updateIf_completes updateEndpoints_return(2) jwt) (use good in \<open>auto simp: filesOf_def\<close>)
      fix c3 assume "proceeds ?N c c3"
      then show "completes c (updateIf (cwAreCustomResourcesEnabled w) (UpdateEndpointsForVirtualServers (cwCnf w)) (erVirtualServerExes er) c3)"
        by (intro updateIf_completes updateEndpoints_return(3) jwt) (use good in \<open>auto simp: filesOf_def\<close>)
      fix c4 assume "proceeds ?N c c4"
      then show "completes c (updateIf (cwAreCustomResourcesEnabled w) (UpdateEndpointsForTransportServers (cwCnf w)) (erTransportServerExes er) c4)"
        by (intro updateIf_completes updateEndpoints_return(4) jwt) (use good in auto)
    qed
    then show ?thesis by (simp add: syncEndpoints_def Inr p er(1))
  qed (simp add: syncEndpoints_def Inr)
qed (simp add: syncEndpoints_def)

text \<open>No ConfigMap sets the key of JWT.\<close>

lemma configMap_jwt: "cpJWTKey (ParseConfigMap cfgm isPlus ap) = ''''"
proof -
  let ?ctx = "configMapObject cfgm" and ?m = "cmData cfgm"
  have "list_all (keeps cpJWTKey) (configMapProxySteps ?ctx isPlus ?m)" by (simp add: configMapProxySteps_def keeps_intros)
  moreover have "list_all (keeps cpJWTKey) (configMapServerSteps ?ctx ?m)" by (simp add: configMapServerSteps_def keeps_intros)
  moreover have "list_all (keeps cpJWTKey) (configMapWorkerSteps ?ctx ?m)"
    by (simp add: configMapWorkerSteps_def keeps_intros split: prod.split)
  moreover have "list_all (keeps cpJWTKey) (configMapResolverSteps ?ctx isPlus ?m)"
    by (simp add: configMapResolverSteps_def keeps_intros keeps_plain)
  moreover have "list_all (keeps cpJWTKey) (configMapAppProtectSteps ?m)" by (simp add: configMapAppProtectSteps_def keeps_intros Let_def)
  ultimately have "cpJWTKey (ParseConfigMap cfgm isPlus ap) = cpJWTKey NewDefaultConfigParams"
    unfolding ParseConfigMap_def Let_def by (intro keeps_runSteps) simp
  then show ?thesis by (simp add: NewDefaultConfigParams_def)
qed

lemma syncConfigMap_completes:
  assumes run: "running fl c" and world: "goodWorld fl w"
  shows "completes c (syncConfigMap w key c)"
proof (cases "cwConfigMapByKey w key")
  case (Inr found)
  let ?N = "heldFiles (ctConfiguration c)"
  define params where "params = (case found of None \<Rightarrow> NewDefaultConfigParams
    | Some cfgm \<Rightarrow> ParseConfigMap cfgm (kcIsNginxPlus (cwFlags w)) (kcAppProtectEnabled (cwFlags w)))"
  define c0 where "c0 = (case found of None \<Rightarrow> c
    | Some cfgm \<Rightarrow> onStatus (SaveStatusFromExternalStatus (nlIsIP (cwNet w))
        (case gget (cmData cfgm) ''external-status-address'' of None \<Rightarrow> '''' | Some a \<Rightarrow> a)) c)"
  have c0: "proceeds ?N c c0" "ctConfiguration c0 = ctConfiguration c" by (simp_all add: c0_def split: option.split)
  have run0: "running fl c0" by (rule proceeds_running [OF c0(1) run])
  have "\<forall>r\<in>set (GetResources (ctConfiguration c0)). holder (ctConfiguration c0) r"
    using filtered_hold run0 unfolding running_def GetResources_def by blast
  from createExtendedResources_ok [OF run0 world this] obtain er c1
    where er: "createExtendedResources w (GetResources (ctConfiguration c0)) c0 = Some (er, c1)" "proceeds {} c0 c1"
      "generableResources er" "extendedFiles er \<subseteq> ?N" unfolding c0(2) by blast
  have c1: "proceeds ?N c c1" by (rule proceeds_trans [OF c0(1) proceeds_mono [OF er(2)]]) simp
  have jwt: "cpJWTKey params = ''''" by (simp add: params_def configMap_jwt NewDefaultConfigParams_def split: option.split)
  have "generable (erIngressExes er) (erMergeableIngresses er) (erVirtualServerExes er) []"
    using er(3) by (simp add: generableResources_def generable_def)
  from UpdateConfig_returns [OF this jwt er(4) [unfolded extendedFiles_def]] obtain warnings err cnf
    where cnf: "UpdateConfig (cwCnf w) params (erIngressExes er) (erMergeableIngresses er) (erVirtualServerExes er) (ctConfigurator c1)
      = Some (warnings, err, cnf)" "grew ?N (ctConfigurator c1) cnf" unfolding returns_def by blast
  show ?thesis
    unfolding syncConfigMap_def Inr sum.case Let_def params_def [symmetric] c0_def [symmetric]
    using proceeds_trans [OF c1 withConfigurator_proceeds [OF cnf(2)]] by (simp add: er(1) cnf(1))
qed (simp add: syncConfigMap_def)


section \<open>Secrets and App Protect\<close>

lemma validPolicies_total: "\<forall>p\<in>set pols. readablePolicy p \<Longrightarrow> \<exists>valid. validPolicies env pols = Some valid"
proof (induction pols)
  case (Cons p pols)
  obtain err where "controllerValidatePolicy env p = Some err" using policy_checked Cons.prems by fastforce
  with Cons show ?case by auto
qed simp

lemma getAllPolicies_total: "goodWorld fl w \<Longrightarrow> \<exists>pols. getAllPolicies (envOf w c) = Some pols"
  by (simp add: goodWorld_def getAllPolicies_def validPolicies_total)

lemma uniqueResources_subset: "set (uniqueResources seen rs) \<subseteq> set rs"
  by (induction rs arbitrary: seen) auto

lemma resourcesOfPolicies_hold: "soundConfiguration fl cfg \<Longrightarrow> r \<in> set (resourcesOfPolicies cfg pols) \<Longrightarrow> holder cfg r"
  using found_hold by (auto simp: resourcesOfPolicies_def FindResourcesForPolicy_def)

definition findsHolders :: "Configuration \<Rightarrow> Resource list option \<Rightarrow> bool" where
  "findsHolders cfg r = (\<exists>resources. r = Some resources \<and> (\<forall>x\<in>set resources. holder cfg x))"

lemma affected_resources:
  assumes run: "running fl c" and world: "goodWorld fl w"
  shows "findsHolders (ctConfiguration c) (resourcesForSecret w ns name c)"
    and "findsHolders (ctConfiguration c) (resourcesForApPolicy w ns name c)"
    and "findsHolders (ctConfiguration c) (resourcesForApLogConf w ns name c)"
proof -
  have cfg: "soundConfiguration fl (ctConfiguration c)" using run by (simp add: running_def)
  note found = found_hold [OF cfg] resourcesOfPolicies_hold [OF cfg]
  obtain pols where pols: "getAllPolicies (envOf w c) = Some pols" using getAllPolicies_total [OF world] by blast
  show "findsHolders (ctConfiguration c) (resourcesForSecret w ns name c)"
    unfolding findsHolders_def resourcesForSecret_def getPoliciesForSecret_def Let_def FindResourcesForSecret_def removeDuplicateResources_def
    using pols found uniqueResources_subset by (fastforce split: if_splits)
  show "findsHolders (ctConfiguration c) (resourcesForApPolicy w ns name c)"
    unfolding findsHolders_def resourcesForApPolicy_def FindResourcesForAppProtectPolicyAnnotation_def using pols found by auto
  show "findsHolders (ctConfiguration c) (resourcesForApLogConf w ns name c)"
    unfolding findsHolders_def resourcesForApLogConf_def FindResourcesForAppProtectLogConfAnnotation_def using pols found by auto
qed

lemma onStore_proceeds:
  assumes "\<And>manager store. soundStore store \<Longrightarrow> soundStore (f manager store)" and "soundRest c"
  shows "proceeds N c (onStore f c)"
  unfolding onStore_def using assms by (intro withStore_proceeds) (simp add: soundRest_def)

lemma handleSpecialSecretUpdate_proceeds: "proceeds N c (handleSpecialSecretUpdate w secret c)"
proof -
  have "proceeds N c (withConfigurator cnf c)" if "AddOrUpdateSpecialTLSSecrets env secret names (ctConfigurator c) = (err, cnf)" for env names err cnf
    by (rule withConfigurator_proceeds [OF AddOrUpdateSpecialTLSSecrets_grew [OF that]])
  then show ?thesis
    by (auto simp: handleSpecialSecretUpdate_def Let_def split: option.split prod.split)
qed

lemma syncSecret_completes:
  assumes run: "running fl c" and world: "goodWorld fl w"
  shows "completes c (syncSecret w key c)"
proof (cases "cwSecretByKey w key")
  case (Inr found)
  show ?thesis
  proof (cases "ParseNamespaceName key")
    case (Some p)
    then obtain ns name where p: "ParseNamespaceName key = Some (ns, name)" by (cases p) blast
    obtain resources where res: "resourcesForSecret w ns name c = Some resources" "\<forall>r\<in>set resources. holder (ctConfiguration c) r"
      using affected_resources(1) [OF run world] unfolding findsHolders_def by blast
    have rest: "soundRest c" using run by (simp add: running_def)
    have again: "completes c (updateWith w (AddOrUpdateResources (cwCnf w)) event resources c1)"
      if "proceeds (heldFiles (ctConfiguration c)) c c1" for c1 event
    proof -
      have "ctConfiguration c1 = ctConfiguration c" using that by (simp add: proceeds_def)
      then show ?thesis
        using updateWith_completes [OF proceeds_running [OF that run] world _ AddOrUpdateResources_good] res(2)
        by (intro completes_after [OF that]) simp
    qed
    show ?thesis
    proof (cases found)
      case None
      have "proceeds N c (onStore (\<lambda>manager. DeleteSecret manager key) c)" for N
        by (rule onStore_proceeds) (simp_all add: soundStore_operations rest)
      then show ?thesis using again by (simp add: syncSecret_def Inr None p res(1) handleRegularSecretDeletion_def Let_def)
    next
      case (Some secret)
      let ?N = "heldFiles (ctConfiguration c)"
      define c1 where "c1 = onStore (\<lambda>manager. AddOrUpdateSecret (cwCrypto w) manager secret) c"
      define c2 where "c2 = (if isSpecialSecret w key then handleSpecialSecretUpdate w secret c1 else c1)"
      have "proceeds ?N c c1" unfolding c1_def by (rule onStore_proceeds) (simp_all add: soundStore_operations rest)
      with proceeds_trans [OF this handleSpecialSecretUpdate_proceeds] have c2: "proceeds ?N c c2" by (simp add: c2_def)
      have "syncSecret w key c = (if resources \<noteq> [] then handleSecretUpdate w secret resources c2 else Some c2)"
        by (simp add: syncSecret_def Inr Some p res(1) Let_def c2_def c1_def)
      then show ?thesis using again [OF c2] c2 by (simp add: handleSecretUpdate_def)
    qed
  qed (simp add: syncSecret_def Inr)
qed (simp add: syncSecret_def)


lemma apUpdated_completes:
  assumes "completes c (updateWith w (onHTTPResources (AddOrUpdateAppProtectResource (cwCnf w) (getNestedString obj [''kind'']))) (\<lambda>_. []) resources c)"
  shows "completes c (apUpdated w obj kind resources c)"
  unfolding apUpdated_def by (rule completes_map [OF assms]) blast

lemma processAppProtectChange_completes:
  assumes run: "running fl c" and world: "goodWorld fl w"
  shows "completes c (processAppProtectChange w ch c)"
proof -
  note good = onHTTPResources_good [OF appProtect_return(1)] onHTTPResources_good [OF appProtect_return(2)]
    onHTTPResources_good [OF appProtect_return(3)]
  have update: "completes c (updateWith w update (\<lambda>_. []) resources c)"
    if "\<forall>r\<in>set resources. holder (ctConfiguration c) r" "goodUpdate update" for update resources
    by (rule updateWith_completes [OF run world that])
  show ?thesis
  proof (cases "apcResource ch")
    case (APPolicyRes policy)
    let ?obj = "pxObj policy"
    obtain resources where "resourcesForApPolicy w (usGetNamespace ?obj) (usGetName ?obj) c = Some resources"
      "\<forall>r\<in>set resources. holder (ctConfiguration c) r"
      using affected_resources(2) [OF run world] unfolding findsHolders_def by blast
    then show ?thesis
      using apUpdated_completes [OF update [OF _ good(1)]] update [OF _ good(2)]
      by (simp add: processAppProtectChange_def APPolicyRes Let_def split: APOperation.split)
  next
    case (APLogConfRes logConf)
    let ?obj = "lxObj logConf"
    obtain resources where "resourcesForApLogConf w (usGetNamespace ?obj) (usGetName ?obj) c = Some resources"
      "\<forall>r\<in>set resources. holder (ctConfiguration c) r"
      using affected_resources(3) [OF run world] unfolding findsHolders_def by blast
    then show ?thesis
      using apUpdated_completes [OF update [OF _ good(1)]] update [OF _ good(3)]
      by (simp add: processAppProtectChange_def APLogConfRes Let_def split: APOperation.split)
  qed (simp add: processAppProtectChange_def)
qed

lemma foldOpt_completes:
  assumes "running fl c" and "\<And>x c. running fl c \<Longrightarrow> completes c (f x c)"
  shows "completes c (foldOpt f xs c)"
  using assms(1)
proof (induction xs arbitrary: c)
  case (Cons x xs)
  obtain c1 where c1: "f x c = Some c1" "proceeds (heldFiles (ctConfiguration c)) c c1"
    using assms(2) [OF Cons.prems, of x] unfolding completes_def by blast
  from completes_after [OF c1(2) Cons.IH [OF proceeds_running [OF c1(2) Cons.prems]]] show ?case by (simp add: c1(1))
qed simp

lemma changed_app_protect:
  "proceeds N c (c\<lparr>ctAppProtect := cfg\<rparr>)" "running fl c \<Longrightarrow> running fl (c\<lparr>ctAppProtect := cfg\<rparr>)"
  by (simp_all add: proceeds_def running_def soundRest_def storeOf_def)

lemma processAppProtectOutcome_completes:
  assumes run: "running fl c" and world: "goodWorld fl w"
  shows "completes c (processAppProtectOutcome w r c)"
proof -
  obtain cfg changes problems where r: "r = (cfg, changes, problems)" by (cases r)
  have "completes c (foldOpt (processAppProtectChange w) changes (c\<lparr>ctAppProtect := cfg\<rparr>))"
    by (rule completes_after [OF changed_app_protect(1) foldOpt_completes [OF changed_app_protect(2) [OF run]
          processAppProtectChange_completes [OF _ world]]])
  then show ?thesis
    unfolding processAppProtectOutcome_def r prod.case processAppProtectProblems_def by (rule completes_map) blast
qed

lemma syncAppProtect_complete:
  assumes run: "running fl c" and world: "goodWorld fl w"
  shows "completes c (syncAppProtectPolicy w key c)" "completes c (syncAppProtectLogConf w key c)"
proof -
  have "\<exists>r. AddOrUpdatePolicy (cwTime w) obj (ctAppProtect c) = Some r" if "cwAppProtectPolicyByKey w key = Inr (Some obj)" for obj
  proof -
    have "readableAppProtectPolicy obj" using world that unfolding goodWorld_def by blast
    then obtain pol err where "createAppProtectPolicyEx (cwTime w) obj = Some (pol, err)"
      using readable_app_protect_policy_read by (metis option.exhaust surj_pair)
    then show ?thesis by (cases err) (simp_all add: AddOrUpdatePolicy_def Let_def)
  qed
  moreover note processAppProtectOutcome_completes [OF run world]
  ultimately show "completes c (syncAppProtectPolicy w key c)"
    unfolding syncAppProtectPolicy_def
    by (cases "cwAppProtectPolicyByKey w key"; cases "projr (cwAppProtectPolicyByKey w key)")
      (simp_all only: sum.case sum.sel option.case completes_Some proceeds_refl, metis option.case(2))
  show "completes c (syncAppProtectLogConf w key c)"
    unfolding syncAppProtectLogConf_def
    by (cases "cwAppProtectLogConfByKey w key"; cases "projr (cwAppProtectLogConfByKey w key)")
      (simp_all only: sum.case sum.sel option.case completes_Some proceeds_refl processAppProtectOutcome_completes [OF run world])
qed

text \<open>The policies that user signatures change: their resources are extended one policy after the other.\<close>

lemma addUses_ok:
  assumes run: "running fl c" and world: "goodWorld fl w" and good: "generableResources (puExtended pu)"
    and files: "extendedFiles (puExtended pu) \<subseteq> heldFiles (ctConfiguration c)"
  shows "\<exists>pu' c'. addUses w deletion obj (pu, c) = Some (pu', c') \<and> proceeds (heldFiles (ctConfiguration c)) c c'
    \<and> generableResources (puExtended pu') \<and> extendedFiles (puExtended pu') \<subseteq> heldFiles (ctConfiguration c)"
proof -
  obtain resources where res: "resourcesForApPolicy w (usGetNamespace obj) (usGetName obj) c = Some resources"
    "\<forall>r\<in>set resources. holder (ctConfiguration c) r"
    using affected_resources(2) [OF run world] unfolding findsHolders_def by blast
  from createExtendedResources_ok [OF run world res(2)] obtain er c1
    where er: "createExtendedResources w resources c = Some (er, c1)" "proceeds {} c c1" "generableResources er"
      "extendedFiles er \<subseteq> heldFiles (ctConfiguration c)" by blast
  have "proceeds (heldFiles (ctConfiguration c)) c c1" by (rule proceeds_mono [OF er(2)]) simp
  then show ?thesis
    using good files er(3,4)
    by (auto simp: addUses_def res(1) er(1) Let_def generableResources_def generable_def extendedFiles_def filesOf_def)
qed

lemma addAllUses_ok:
  assumes "running fl c" and "goodWorld fl w" and "generableResources (puExtended pu)"
    and "extendedFiles (puExtended pu) \<subseteq> heldFiles (ctConfiguration c)"
  shows "\<exists>pu' c'. foldOpt (addUses w deletion) objs (pu, c) = Some (pu', c') \<and> proceeds (heldFiles (ctConfiguration c)) c c'
    \<and> generableResources (puExtended pu') \<and> extendedFiles (puExtended pu') \<subseteq> heldFiles (ctConfiguration c)"
  using assms
proof (induction objs arbitrary: pu c)
  case (Cons obj objs)
  obtain pu1 c1 where one: "addUses w deletion obj (pu, c) = Some (pu1, c1)" "proceeds (heldFiles (ctConfiguration c)) c c1"
    "generableResources (puExtended pu1)" "extendedFiles (puExtended pu1) \<subseteq> heldFiles (ctConfiguration c)"
    using addUses_ok [OF Cons.prems] by blast
  have same: "ctConfiguration c1 = ctConfiguration c" using one(2) by (simp add: proceeds_def)
  from Cons.IH [OF proceeds_running [OF one(2) Cons.prems(1)] Cons.prems(2) one(3)] one(2,4) show ?case
    unfolding same by (auto simp: one(1) intro: proceeds_trans)
qed simp

lemma processAppProtectUserSigChange_completes:
  assumes run: "running fl c" and world: "goodWorld fl w"
  shows "completes c (processAppProtectUserSigChange w change c)"
proof -
  let ?N = "heldFiles (ctConfiguration c)"
  have "generableResources noExtendedResources" "extendedFiles noExtendedResources \<subseteq> ?N"
    by (simp_all add: generableResources_def generable_def extendedFiles_def filesOf_def noExtendedResources_def)
  then obtain pu1 c1 where one: "foldOpt (addUses w False) (uscPolicyAddsOrUpdates change)
      (\<lparr>puExtended = noExtendedResources, puResources = [], puDeleted = []\<rparr>, c) = Some (pu1, c1)" "proceeds ?N c c1"
      "generableResources (puExtended pu1)" "extendedFiles (puExtended pu1) \<subseteq> ?N"
    using addAllUses_ok [OF run world, of "\<lparr>puExtended = noExtendedResources, puResources = [], puDeleted = []\<rparr>" False
        "uscPolicyAddsOrUpdates change"] by auto
  have same: "ctConfiguration c1 = ctConfiguration c" using one(2) by (simp add: proceeds_def)
  from addAllUses_ok [OF proceeds_running [OF one(2) run] world one(3), unfolded same, OF one(4)]
  obtain pu2 c2 where two: "foldOpt (addUses w True) (uscPolicyDeletions change) (pu1, c1) = Some (pu2, c2)" "proceeds ?N c1 c2"
      "generableResources (puExtended pu2)" "extendedFiles (puExtended pu2) \<subseteq> ?N" by blast
  have c2: "proceeds ?N c c2" by (rule proceeds_trans [OF one(2) two(2)])
  have "cpJWTKey (cnCfgParams (ctConfigurator c2)) = ''''" using proceeds_running [OF c2 run] by (simp add: running_def soundRest_def)
  moreover have "goodUpdate (onHTTPResources (RefreshAppProtectUserSigs (cwCnf w) sigs pols))" for sigs pols
    by (rule onHTTPResources_good [OF appProtect_return(4)])
  ultimately obtain warnings err cnf where cnf: "onHTTPResources (RefreshAppProtectUserSigs (cwCnf w) (uscUserSigs change) (puDeleted pu2))
      (puExtended pu2) (ctConfigurator c2) = Some (warnings, err, cnf)" "grew ?N (ctConfigurator c2) cnf"
    using two(3,4) unfolding goodUpdate_def returns_def by blast
  show ?thesis
    using proceeds_trans [OF c2 withConfigurator_proceeds [OF cnf(2)]]
    by (simp add: processAppProtectUserSigChange_def one(1) two(1) cnf(1))
qed

lemma syncAppProtectUserSig_completes:
  assumes run: "running fl c" and world: "goodWorld fl w"
  shows "completes c (syncAppProtectUserSig w key c)"
proof -
  have "completes c (processUserSigOutcome w r c)" for r
  proof -
    obtain cfg change problems where r: "r = (cfg, change, problems)" by (cases r)
    have "completes c (processAppProtectUserSigChange w change (c\<lparr>ctAppProtect := cfg\<rparr>))"
      by (rule completes_after [OF changed_app_protect(1) processAppProtectUserSigChange_completes [OF changed_app_protect(2) [OF run] world]])
    then show ?thesis
      unfolding processUserSigOutcome_def r prod.case processAppProtectProblems_def by (rule completes_map) blast
  qed
  then show ?thesis
    unfolding syncAppProtectUserSig_def
    by (cases "cwAppProtectUserSigByKey w key"; cases "projr (cwAppProtectUserSigByKey w key)")
      (simp_all only: sum.case sum.sel option.case completes_Some proceeds_refl)
qed


end
