(* ===== verification/Controller_Runs.thy ===== *)
theory Controller_Runs
  imports Controller_Sync_Properties Secrets_Properties
begin

text \<open>
  The controller at work: the changes of the Configuration applied to the Configurator, the states
  that the tasks of the queue lead to (\<open>runs\<close>), and what holds in all of them: no task panics, and the
  files of \<open>conf.d\<close> are those of the holders of hosts.
\<close>

section \<open>File names and keys\<close>

text \<open>The name that a deletion computes from the key of a resource.\<close>

fun deletedFile :: "Resource \<Rightarrow> string set" where
  "deletedFile (IngressRes ic) = {keyToFileName (getResourceKey (ingMeta (icIngress ic)))}"
| "deletedFile (VirtualServerRes vsc) = {getFileNameForVirtualServerFromKey (getResourceKey (vsMeta (vscVirtualServer vsc)))}"
| "deletedFile (TransportServerRes tsc) = {}"

text \<open>
  Names of Kubernetes have neither slashes nor underscores; a namespace of an Ingress without
  a dash makes the name of its file unambiguous.
\<close>

definition virtualServerKeys :: "string set" where
  "virtualServerKeys = {ns @ ''/'' @ name |ns name. CHR ''/'' \<notin> set ns \<and> CHR ''_'' \<notin> set ns \<and> CHR ''/'' \<notin> set name}"

definition ingressKeys :: "string set" where
  "ingressKeys = {ns @ ''/'' @ name |ns name. CHR ''/'' \<notin> set ns \<and> CHR ''-'' \<notin> set ns \<and> CHR ''_'' \<notin> set ns \<and> CHR ''/'' \<notin> set name}"

fun plainResourceKey :: "Resource \<Rightarrow> bool" where
  "plainResourceKey (IngressRes ic) = (getResourceKey (ingMeta (icIngress ic)) \<in> ingressKeys)"
| "plainResourceKey (VirtualServerRes vsc) = (getResourceKey (vsMeta (vscVirtualServer vsc)) \<in> virtualServerKeys)"
| "plainResourceKey (TransportServerRes tsc) = True"

lemma ingressKeys_plain: "ingressKeys \<subseteq> plainKeys"
  by (auto simp: ingressKeys_def plainKeys_def)

lemma one_slash:
  assumes "getResourceKey m = ns @ ''/'' @ name" and "CHR ''/'' \<notin> set ns" and "CHR ''/'' \<notin> set name"
  shows "CHR ''/'' \<notin> set (omNamespace m) \<and> CHR ''/'' \<notin> set (omName m)"
proof -
  have "length (filter ((=) (CHR ''/'')) (ns @ ''/'' @ name)) = 1" using assms(2,3) by (simp add: notin_set_filter)
  then have "length (filter ((=) (CHR ''/'')) (omNamespace m @ ''/'' @ omName m)) = 1"
    using assms(1) by (simp only: getResourceKey_def)
  then show ?thesis by (auto simp: filter_empty_conv)
qed

lemma virtual_server_file_name:
  "CHR ''/'' \<notin> set ns \<Longrightarrow> CHR ''/'' \<notin> set name \<Longrightarrow> getFileNameForVirtualServerFromKey (ns @ ''/'' @ name) = ''vs_'' @ ns @ ''_'' @ name"
  using replaceChar_append [of "CHR ''/''" "CHR ''_''" "''/''" name] replaceChar_id [of "CHR ''/''" name]
  by (simp add: getFileNameForVirtualServerFromKey_def replaceChar_append replaceChar_id) (simp add: replaceChar_def)

lemma written_as_deleted:
  assumes "plainResourceKey r"
  shows "resourceFile r = deletedFile r"
proof (cases r)
  case (IngressRes ic)
  then show ?thesis using assms meta_file_name ingressKeys_plain by (auto simp: ingressFile_def)
next
  case (VirtualServerRes vsc)
  let ?m = "vsMeta (vscVirtualServer vsc)"
  have "CHR ''/'' \<notin> set (omNamespace ?m)" "CHR ''/'' \<notin> set (omName ?m)"
    using assms one_slash [of ?m] by (auto simp: VirtualServerRes virtualServerKeys_def)
  then show ?thesis
    using virtual_server_file_name by (simp add: VirtualServerRes getFileNameForVirtualServer_def getResourceKey_def)
qed simp

lemma deletedFile_key: "GetKeyWithKind r = GetKeyWithKind r' \<Longrightarrow> deletedFile r = deletedFile r'"
  unfolding GetKeyWithKind_eq_iff by (cases r; cases r') (auto simp: kind_defs)

lemma plainResourceKey_key: "GetKeyWithKind r = GetKeyWithKind r' \<Longrightarrow> plainResourceKey r = plainResourceKey r'"
  unfolding GetKeyWithKind_eq_iff by (cases r; cases r') (auto simp: kind_defs)

text \<open>No two plain keys give the same file.\<close>

lemma inj_virtualServerKeys: "inj_on getFileNameForVirtualServerFromKey virtualServerKeys"
proof (rule inj_onI)
  fix k k' assume "k \<in> virtualServerKeys" "k' \<in> virtualServerKeys"
    and eq: "getFileNameForVirtualServerFromKey k = getFileNameForVirtualServerFromKey k'"
  then obtain a b a' b' where k: "k = a @ ''/'' @ b" "CHR ''/'' \<notin> set a" "CHR ''_'' \<notin> set a" "CHR ''/'' \<notin> set b"
    and k': "k' = a' @ ''/'' @ b'" "CHR ''/'' \<notin> set a'" "CHR ''_'' \<notin> set a'" "CHR ''/'' \<notin> set b'"
    unfolding virtualServerKeys_def by blast
  have same: "a @ CHR ''_'' # b = a' @ CHR ''_'' # b'"
    using eq virtual_server_file_name [OF k(2,4)] virtual_server_file_name [OF k'(2,4)] k(1) k'(1) by simp
  have "takeWhile (\<lambda>c. c \<noteq> CHR ''_'') (a @ CHR ''_'' # b) = a"
    "takeWhile (\<lambda>c. c \<noteq> CHR ''_'') (a' @ CHR ''_'' # b') = a'"
    using k(3) k'(3) by (auto simp: takeWhile_append)
  then have "a = a'" using same by simp
  then show "k = k'" using same k(1) k'(1) by simp
qed

lemma ingress_file_is_no_virtual_server_file:
  assumes "k \<in> ingressKeys" and "k' \<in> virtualServerKeys"
  shows "keyToFileName k \<noteq> getFileNameForVirtualServerFromKey k'"
proof
  assume eq: "keyToFileName k = getFileNameForVirtualServerFromKey k'"
  obtain a b where k: "k = a @ ''/'' @ b" "CHR ''/'' \<notin> set a" "CHR ''-'' \<notin> set a" "CHR ''_'' \<notin> set a" "CHR ''/'' \<notin> set b"
    using assms(1) unfolding ingressKeys_def by blast
  obtain a' b' where k': "k' = a' @ ''/'' @ b'" "CHR ''/'' \<notin> set a'" "CHR ''/'' \<notin> set b'"
    using assms(2) unfolding virtualServerKeys_def by blast
  have "a @ ''-'' @ b = ''vs_'' @ a' @ ''_'' @ b'"
    using eq plain_file_name [OF k(2,5)] virtual_server_file_name [OF k'(2,3)] by (simp only: k(1) k'(1))
  then show False using k(3,4) by (cases a; cases "tl a"; cases "tl (tl a)") auto
qed

lemma deletedFile_inject:
  assumes "plainResourceKey r" and "plainResourceKey r'" and "f \<in> deletedFile r" and "f \<in> deletedFile r'"
  shows "GetKeyWithKind r = GetKeyWithKind r'"
proof -
  note inject = inj_onD [OF inj_virtualServerKeys] inj_onD [OF inj_plainKeys _ subsetD [OF ingressKeys_plain] subsetD [OF ingressKeys_plain]]
  note apart = ingress_file_is_no_virtual_server_file
  show ?thesis using assms by (cases r; cases r') (auto dest: inject apart)
qed

section \<open>The consumer of the changes, and the directory\<close>

definition fileAfter :: "ResourceChange \<Rightarrow> string set \<Rightarrow> string set" where
  "fileAfter ch names = (case rcOp ch of AddOrUpdate \<Rightarrow> names \<union> resourceFile (rcResource ch) | Delete \<Rightarrow> names - deletedFile (rcResource ch))"

definition tableFiles :: "Resource gomap \<Rightarrow> string set" where
  "tableFiles files = (\<Union>r\<in>{r. \<exists>k. gget files k = Some r}. resourceFile r)"

definition plainTable :: "Resource gomap \<Rightarrow> bool" where
  "plainTable files = (\<forall>k r. gget files k = Some r \<longrightarrow> k = GetKeyWithKind r \<and> plainResourceKey r)"

lemma in_tableFiles: "f \<in> tableFiles files \<longleftrightarrow> (\<exists>k r. gget files k = Some r \<and> f \<in> resourceFile r)"
  by (auto simp: tableFiles_def)

lemma applyChange_plain: "plainTable files \<Longrightarrow> plainResourceKey (rcResource ch) \<Longrightarrow> plainTable (applyChange ch files)"
  by (auto simp: plainTable_def gget_applyChange changeEffect_def changeKey_def split: if_splits)

lemma applyChange_files:
  assumes plain: "plainTable files" and key: "plainResourceKey (rcResource ch)"
  shows "tableFiles (applyChange ch files) = fileAfter ch (tableFiles files)"
proof -
  let ?r = "rcResource ch"
  have same: "resourceFile r = deletedFile ?r" if "gget files (changeKey ch) = Some r" for r
    using plain that written_as_deleted deletedFile_key unfolding plainTable_def changeKey_def by metis
  have other: "f \<notin> deletedFile ?r" if "gget files k = Some r" "k \<noteq> changeKey ch" "f \<in> resourceFile r" for k r f
    using plain that deletedFile_inject [OF key, of r f] written_as_deleted unfolding plainTable_def changeKey_def by metis
  show ?thesis
  proof (cases "rcOp ch")
    case Delete
    then have effect: "gget (applyChange ch files) k = (if k = changeKey ch then None else gget files k)" for k
      by (simp add: gget_applyChange changeEffect_def)
    have "f \<in> tableFiles (applyChange ch files) \<longleftrightarrow> f \<in> tableFiles files \<and> f \<notin> deletedFile ?r" for f
    proof
      assume "f \<in> tableFiles (applyChange ch files)"
      then obtain k r where "gget files k = Some r" "k \<noteq> changeKey ch" "f \<in> resourceFile r"
        unfolding in_tableFiles effect by (metis option.distinct(1))
      then show "f \<in> tableFiles files \<and> f \<notin> deletedFile ?r" using other in_tableFiles by blast
    next
      assume f: "f \<in> tableFiles files \<and> f \<notin> deletedFile ?r"
      then obtain k r where r: "gget files k = Some r" "f \<in> resourceFile r" using in_tableFiles by blast
      then have "k \<noteq> changeKey ch" using same f by blast
      then have "gget (applyChange ch files) k = Some r" using r(1) by (simp add: effect)
      then show "f \<in> tableFiles (applyChange ch files)" using r(2) in_tableFiles by blast
    qed
    then show ?thesis unfolding fileAfter_def Delete Operation.case by blast
  next
    case AddOrUpdate
    then have effect: "gget (applyChange ch files) k = (if k = changeKey ch then Some ?r else gget files k)" for k
      by (simp add: gget_applyChange changeEffect_def)
    have "f \<in> tableFiles (applyChange ch files) \<longleftrightarrow> f \<in> tableFiles files \<or> f \<in> resourceFile ?r" for f
    proof
      assume "f \<in> tableFiles (applyChange ch files)"
      then obtain k r where "gget (applyChange ch files) k = Some r" "f \<in> resourceFile r" using in_tableFiles by blast
      then show "f \<in> tableFiles files \<or> f \<in> resourceFile ?r"
        unfolding in_tableFiles effect by (cases "k = changeKey ch") auto
    next
      assume f: "f \<in> tableFiles files \<or> f \<in> resourceFile ?r"
      show "f \<in> tableFiles (applyChange ch files)"
      proof (cases "f \<in> resourceFile ?r")
        case True
        have "gget (applyChange ch files) (changeKey ch) = Some ?r" by (simp add: effect)
        with True show ?thesis using in_tableFiles by blast
      next
        case False
        then obtain k r where r: "gget files k = Some r" "f \<in> resourceFile r" using f in_tableFiles by blast
        then have "k \<noteq> changeKey ch" using same False written_as_deleted [OF key] by blast
        then have "gget (applyChange ch files) k = Some r" using r(1) by (simp add: effect)
        then show ?thesis using r(2) in_tableFiles by blast
      qed
    qed
    then show ?thesis unfolding fileAfter_def AddOrUpdate Operation.case by blast
  qed
qed

lemma applyChanges_files:
  assumes "plainTable files" and "\<forall>ch\<in>set changes. plainResourceKey (rcResource ch)"
  shows "plainTable (applyChanges changes files) \<and> tableFiles (applyChanges changes files) = fold fileAfter changes (tableFiles files)"
  using assms
proof (induction changes arbitrary: files)
  case (Cons ch changes)
  have "plainTable (applyChange ch files)" "tableFiles (applyChange ch files) = fileAfter ch (tableFiles files)"
    using Cons.prems applyChange_plain applyChange_files by simp_all
  with Cons.IH [of "applyChange ch files"] Cons.prems show ?case by (simp add: applyChanges_def)
qed (simp add: applyChanges_def)

lemma IsEqual_file: "IsEqual r r' \<Longrightarrow> resourceFile r = resourceFile r'"
  by (cases r; cases r') (auto simp: IsEqual_print metaPrint_def annotatedPrint_def ingressFile_def objectMetaToFileName_def
      getFileNameForVirtualServer_def)

lemma right_files_are_held:
  assumes right: "filesRight cfg files" and plain: "plainTable files"
  shows "tableFiles files = heldFiles cfg"
proof -
  have hosts: "reflectsOn (\<lambda>k. \<not> isTransportKey k) files (cHosts cfg)" using right by (simp add: filesRight_def)
  have transport: "resourceFile r = {}" if "isTransportKey (GetKeyWithKind r)" for r
    using that unfolding transport_key by (cases r) (simp_all add: kind_defs)
  have listened: "resourceFile r = {}" if "gget (asResources (cListeners cfg)) l = Some r" for l r using that by auto
  have forth: "f \<in> heldFiles cfg" if "gget files k = Some r" "f \<in> resourceFile r" for f k r
  proof -
    have k: "k = GetKeyWithKind r" "\<not> isTransportKey k" using plain that transport unfolding plainTable_def by auto
    from hosts have "\<exists>h r'. gget (cHosts cfg) h = Some r' \<and> GetKeyWithKind r' = k"
      using k(2) that(1) unfolding reflectsOn_def by metis
    then obtain h r' where h: "gget (cHosts cfg) h = Some r'" "GetKeyWithKind r' = k" by blast
    then obtain r'' where "gget files k = Some r''" "IsEqual r'' r'" using hosts k(2) unfolding reflectsOn_def by metis
    then have "resourceFile r' = resourceFile r" using that(1) IsEqual_file [of r'' r'] by simp
    with h(1) that(2) show ?thesis by (auto simp: heldFiles_def holder_def)
  qed
  have onto: "f \<in> tableFiles files" if "holder cfg r" "f \<in> resourceFile r" for f r
  proof -
    have k: "\<not> isTransportKey (GetKeyWithKind r)" using transport that(2) by blast
    have "\<exists>h. gget (cHosts cfg) h = Some r" using that listened unfolding holder_def by blast
    then obtain h where "gget (cHosts cfg) h = Some r" by blast
    then obtain r' where r': "gget files (GetKeyWithKind r) = Some r'" "IsEqual r' r" using hosts k unfolding reflectsOn_def by metis
    then show ?thesis using that(2) IsEqual_file [OF r'(2)] by (auto simp: in_tableFiles)
  qed
  show ?thesis using forth onto by (auto simp: in_tableFiles heldFiles_def)
qed


section \<open>One change\<close>

definition applied :: "controllerWorld \<Rightarrow> (string set \<Rightarrow> string set) \<Rightarrow> Controller \<Rightarrow> Controller \<Rightarrow> bool" where
  "applied w f c c' =
     (ctConfiguration c' = ctConfiguration c \<and> (soundRest c \<longrightarrow> soundRest c')
      \<and> (templatesWork (cwCnf w) \<longrightarrow> confNames (ctConfigurator c') = f (confNames (ctConfigurator c))))"

lemma applied_reports [simp]:
  "applied w f c (addReports rs c') = applied w f c c'"
  "applied w f c (updateVirtualServerStatusAndEvents w' vsc warnings err c') = applied w f c c'"
  "applied w f c (updateMergeableIngressStatusAndEvents w' ic warnings err c') = applied w f c c'"
  "applied w f c (updateRegularIngressStatusAndEvents w' ic warnings err c') = applied w f c c'"
  "applied w f c (updateTransportServerStatusAndEvents w' tsc err c') = applied w f c c'"
  "applied w f c (updateResourcesStatusAndEvents w' resources warnings err c') = applied w f c c'"
proof -
  show reports: "applied w f c (addReports rs c') = applied w f c c'" for rs c' by (simp add: applied_def)
  show "applied w f c (updateVirtualServerStatusAndEvents w' vsc warnings err c') = applied w f c c'"
    "applied w f c (updateMergeableIngressStatusAndEvents w' ic warnings err c') = applied w f c c'"
    "applied w f c (updateRegularIngressStatusAndEvents w' ic warnings err c') = applied w f c c'"
    "applied w f c (updateTransportServerStatusAndEvents w' tsc err c') = applied w f c c'"
    "applied w f c (updateResourcesStatusAndEvents w' resources warnings err c') = applied w f c c'"
    using statuses_are_reports reports by metis+
qed

lemma withStore_names [simp]:
  "confNames (ctConfigurator (withStore store c)) = confNames (ctConfigurator c)"
  "cpJWTKey (cnCfgParams (ctConfigurator (withStore store c))) = cpJWTKey (cnCfgParams (ctConfigurator c))"
  "ctConfiguration (withStore store c) = ctConfiguration c"
  by (simp_all add: withStore_def onManager_def confNames_def getFilenameForConfig_def confdPath_def)

lemma withConfigurator_names [simp]: "confNames (ctConfigurator (withConfigurator cnf c)) = confNames cnf"
  by (simp add: withConfigurator_def confNames_def)

lemma withConfigurator_sound:
  assumes "soundRest c" and "cpJWTKey (cnCfgParams cnf) = ''''"
  shows "soundRest (withConfigurator cnf c)"
  using assms writePath_sound [of "ctSecrets c" "cnPathWrites cnf"]
  by (simp add: soundRest_def soundStore_def storeOf_def withConfigurator_def)

lemma applied_withConfigurator:
  assumes "cpJWTKey (cnCfgParams (ctConfigurator c)) = '''' \<Longrightarrow> cpJWTKey (cnCfgParams cnf) = ''''"
    and "templatesWork (cwCnf w) \<Longrightarrow> confNames cnf = f (confNames (ctConfigurator c))"
  shows "applied w f c (withConfigurator cnf c)"
proof -
  have "soundRest (withConfigurator cnf c)" if "soundRest c"
    using that assms(1) withConfigurator_sound by (simp add: soundRest_def)
  moreover have "ctConfiguration (withConfigurator cnf c) = ctConfiguration c" by (simp add: withConfigurator_def)
  ultimately show ?thesis using assms(2) by (simp add: applied_def)
qed

lemma applied_withStore: "soundStore store \<Longrightarrow> applied w f (withStore store c) c' \<Longrightarrow> applied w f c c'"
  using withStore_proceeds [of store "{}" c] by (simp add: applied_def proceeds_def)

text \<open>What the operations of the Configurator that write one resource return.\<close>

definition writesFile :: "controllerWorld \<Rightarrow> string set \<Rightarrow> Configurator \<Rightarrow> cnfResult \<Rightarrow> bool" where
  "writesFile w names cnf r =
     (\<exists>ws err cnf'. r = Some (ws, err, cnf') \<and> grew names cnf cnf' \<and> (templatesWork (cwCnf w) \<longrightarrow> confNames cnf' = confNames cnf \<union> names))"

lemma writers:
  assumes "cpJWTKey (cnCfgParams cnf) = ''''"
  shows "generableIngress ix \<Longrightarrow> writesFile w {ingressFile (ixIngress ix)} cnf (cnfAddOrUpdateIngress (cwCnf w) ix cnf)"
    and "generableMergeable mi \<Longrightarrow> writesFile w {ingressFile (ixIngress (miMaster mi))} cnf (cnfAddOrUpdateMergeableIngress (cwCnf w) mi cnf)"
    and "generableVirtualServer vx \<Longrightarrow> writesFile w {getFileNameForVirtualServer (vxVirtualServer vx)} cnf (cnfAddOrUpdateVirtualServer (cwCnf w) vx cnf)"
    and "generableTransportServer tx \<Longrightarrow> writesFile w {} cnf (cnfAddOrUpdateTransportServer (cwCnf w) tx cnf)"
proof -
  note ops = writesFile_def cnfAddOrUpdateIngress_def cnfAddOrUpdateMergeableIngress_def cnfAddOrUpdateVirtualServer_def
    cnfAddOrUpdateTransportServer_def Let_def
  show "generableIngress ix \<Longrightarrow> writesFile w {ingressFile (ixIngress ix)} cnf (cnfAddOrUpdateIngress (cwCnf w) ix cnf)"
    unfolding ops by (rule ingress_writer.add_and_reload [OF assms])
  show "generableMergeable mi \<Longrightarrow> writesFile w {ingressFile (ixIngress (miMaster mi))} cnf (cnfAddOrUpdateMergeableIngress (cwCnf w) mi cnf)"
    unfolding ops by (rule mergeable_writer.add_and_reload [OF assms])
  show "generableVirtualServer vx \<Longrightarrow> writesFile w {getFileNameForVirtualServer (vxVirtualServer vx)} cnf (cnfAddOrUpdateVirtualServer (cwCnf w) vx cnf)"
    unfolding ops by (rule virtual_server_writer.add_and_reload [OF assms])
  show "generableTransportServer tx \<Longrightarrow> writesFile w {} cnf (cnfAddOrUpdateTransportServer (cwCnf w) tx cnf)"
    unfolding ops by (rule transport_server_writer.add_and_reload [OF assms])
qed

lemma writesFileE:
  assumes "writesFile w names (ctConfigurator c) r"
  obtains ws err cnf where "r = Some (ws, err, cnf)" "applied w (\<lambda>files. files \<union> names) c (withConfigurator cnf c)"
  using assms applied_withConfigurator unfolding writesFile_def grew_def by metis


lemma processAddOrUpdate_applied:
  assumes run: "running fl c" and world: "goodWorld fl w" and held: "holder (ctConfiguration c) r"
  shows "\<exists>c'. processAddOrUpdate w r c = Some c' \<and> applied w (\<lambda>files. files \<union> resourceFile r) c c'"
proof -
  have cfg: "soundConfiguration fl (ctConfiguration c)" and rest: "soundRest c" using run by (simp_all add: running_def)
  have jwt: "cpJWTKey (cnCfgParams (ctConfigurator c)) = ''''" using rest by (simp add: soundRest_def)
  then have store_jwt: "cpJWTKey (cnCfgParams (ctConfigurator (withStore store c))) = ''''" for store by simp
  show ?thesis
  proof (cases r)
    case (IngressRes ic)
    note ex = extended_ingress [OF cfg world rest held [unfolded IngressRes]]
    show ?thesis
    proof (cases "icIsMaster ic")
      case True
      then obtain mi store where mi: "createMergeableIngresses (envOf w c) ic (storeOf c) = Some (mi, store)" "soundStore store"
        "generableMergeable mi" "ixIngress (miMaster mi) = icIngress ic" using ex(2) by blast
      from writesFileE [OF writers(2) [OF store_jwt mi(3)]] obtain ws err cnf
        where "cnfAddOrUpdateMergeableIngress (cwCnf w) mi (ctConfigurator (withStore store c)) = Some (ws, err, cnf)"
          "applied w (\<lambda>files. files \<union> {ingressFile (icIngress ic)}) (withStore store c) (withConfigurator cnf (withStore store c))"
        unfolding mi(4) by blast
      then show ?thesis using True mi(1) applied_withStore [OF mi(2)] by (simp add: processAddOrUpdate_def IngressRes Let_def)
    next
      case False
      obtain ix store where ix: "createIngressEx (envOf w c) (icIngress ic) (icValidHosts ic) None (storeOf c) = Some (ix, store)"
        "soundStore store" "generableIngress ix" "ixIngress ix = icIngress ic" using ex(1) by blast
      from writesFileE [OF writers(1) [OF store_jwt ix(3)]] obtain ws err cnf
        where "cnfAddOrUpdateIngress (cwCnf w) ix (ctConfigurator (withStore store c)) = Some (ws, err, cnf)"
          "applied w (\<lambda>files. files \<union> {ingressFile (icIngress ic)}) (withStore store c) (withConfigurator cnf (withStore store c))"
        unfolding ix(4) by blast
      then show ?thesis using False ix(1) applied_withStore [OF ix(2)] by (simp add: processAddOrUpdate_def IngressRes Let_def)
    qed
  next
    case (VirtualServerRes vsc)
    obtain vx store where vx: "createVirtualServerEx (envOf w c) (vscVirtualServer vsc) (vscVirtualServerRoutes vsc) (storeOf c) = Some (vx, store)"
      "soundStore store" "generableVirtualServer vx" "vxVirtualServer vx = vscVirtualServer vsc"
      using extended_virtual_server [OF cfg world rest held [unfolded VirtualServerRes]] by blast
    from writesFileE [OF writers(3) [OF store_jwt vx(3)]] obtain ws err cnf
      where "cnfAddOrUpdateVirtualServer (cwCnf w) vx (ctConfigurator (withStore store c)) = Some (ws, err, cnf)"
        "applied w (\<lambda>files. files \<union> {getFileNameForVirtualServer (vscVirtualServer vsc)}) (withStore store c) (withConfigurator cnf (withStore store c))"
      unfolding vx(4) by blast
    then show ?thesis using vx(1) applied_withStore [OF vx(2)] by (simp add: processAddOrUpdate_def VirtualServerRes Let_def)
  next
    case (TransportServerRes tsc)
    let ?tx = "createTransportServerEx (envOf w c) (tscTransportServer tsc) (tscListenerPort tsc)"
    have "generableTransportServer ?tx" using extended_transport_server [OF cfg] held by (simp add: TransportServerRes)
    from writesFileE [OF writers(4) [OF jwt this]] obtain ws err cnf
      where "cnfAddOrUpdateTransportServer (cwCnf w) ?tx (ctConfigurator c) = Some (ws, err, cnf)"
        "applied w (\<lambda>files. files \<union> {}) c (withConfigurator cnf c)" by blast
    then show ?thesis by (simp add: processAddOrUpdate_def TransportServerRes)
  qed
qed

lemma onDelete_reports:
  "\<exists>rs. UpdateVirtualServerStatusAndEventsOnDelete w vsc e err c = addReports rs c"
  "\<exists>rs. UpdateIngressStatusAndEventsOnDelete w ic e err c = addReports rs c"
  "\<exists>rs. updateTransportServerStatusAndEventsOnDelete w tsc e err c = addReports rs c"
  unfolding UpdateVirtualServerStatusAndEventsOnDelete_def UpdateIngressStatusAndEventsOnDelete_def
    updateTransportServerStatusAndEventsOnDelete_def Let_def
  by (auto intro: exI [of _ "[]"] split: option.split)

lemma applied_onDelete [simp]:
  "applied w f c (UpdateVirtualServerStatusAndEventsOnDelete w' vsc e err c') = applied w f c c'"
  "applied w f c (UpdateIngressStatusAndEventsOnDelete w' ic e err c') = applied w f c c'"
  "applied w f c (updateTransportServerStatusAndEventsOnDelete w' tsc e err c') = applied w f c c'"
  using onDelete_reports applied_reports(1) by metis+

lemma applied_deletion:
  assumes "shrank N (ctConfigurator c) cnf"
  shows "applied w (\<lambda>files. files - N) c (withConfigurator cnf c)"
  using assms by (intro applied_withConfigurator) (simp_all add: shrank_def)

lemma processDelete_applied: "applied w (\<lambda>files. files - deletedFile r) c (processDelete w r e c)"
proof (cases r)
  case (IngressRes ic)
  then show ?thesis using applied_deletion [OF cnfDeleteIngress_shrank]
    by (auto simp: processDelete_def Let_def split: prod.split)
next
  case (VirtualServerRes vsc)
  then show ?thesis using applied_deletion [OF cnfDeleteVirtualServer_shrank]
    by (auto simp: processDelete_def Let_def split: prod.split)
next
  case (TransportServerRes tsc)
  have "applied w (\<lambda>files. files - {}) c (withConfigurator cnf c)"
    if "cnfDeleteTransportServer (cwCnf w) key (ctConfigurator c) = (err, cnf)" for key err cnf
    using cnfDeleteTransportServer_grew [OF that] by (intro applied_withConfigurator) (auto simp: grew_def)
  then show ?thesis by (auto simp: processDelete_def Let_def TransportServerRes split: prod.split)
qed

lemma processChange_applied:
  assumes "running fl c" and "goodWorld fl w" and "rcOp ch = AddOrUpdate \<longrightarrow> holder (ctConfiguration c) (rcResource ch)"
  shows "\<exists>c'. processChange w ch c = Some c' \<and> applied w (fileAfter ch) c c'"
proof (cases "rcOp ch")
  case Delete
  then have "fileAfter ch = (\<lambda>files. files - deletedFile (rcResource ch))" by (simp add: fileAfter_def fun_eq_iff)
  then show ?thesis using processDelete_applied by (simp add: processChange_def Delete)
next
  case AddOrUpdate
  then have "fileAfter ch = (\<lambda>files. files \<union> resourceFile (rcResource ch))" by (simp add: fileAfter_def fun_eq_iff)
  then show ?thesis using processAddOrUpdate_applied [OF assms(1,2)] assms(3) by (simp add: processChange_def AddOrUpdate)
qed

lemma applied_running: "applied w f c c' \<Longrightarrow> running fl c \<Longrightarrow> running fl c'"
  by (simp add: applied_def running_def)

lemma processChanges_applied:
  assumes "running fl c" and "goodWorld fl w" and "updatesHeld (ctConfiguration c) changes"
  shows "\<exists>c'. processChanges w changes c = Some c' \<and> applied w (fold fileAfter changes) c c'"
  using assms(1,3) unfolding processChanges_def
proof (induction changes arbitrary: c)
  case Nil
  then show ?case by (simp add: applied_def)
next
  case (Cons ch changes)
  obtain c1 where c1: "processChange w ch c = Some c1" "applied w (fileAfter ch) c c1"
    using processChange_applied [OF Cons.prems(1) assms(2)] Cons.prems(2) by (auto simp: updatesHeld_def)
  have "updatesHeld (ctConfiguration c1) changes" using c1(2) Cons.prems(2) by (simp add: applied_def updatesHeld_def)
  with Cons.IH [OF applied_running [OF c1(2) Cons.prems(1)]] obtain c2
    where "foldOpt (processChange w) changes c1 = Some c2" "applied w (fold fileAfter changes) c1 c2" by blast
  with c1 show ?case by (auto simp: applied_def)
qed


section \<open>Events of the queue\<close>

text \<open>The events that the caches of a world can lead to.\<close>

fun eventFrom :: "controllerWorld \<Rightarrow> event \<Rightarrow> bool" where
  "eventFrom w (IngressUpdated ing) = (\<exists>key. cwIngressByKey w key = Inr (Some ing))"
| "eventFrom w (VirtualServerUpdated vs) = (\<exists>key. cwVirtualServerByKey w key = Inr (Some vs))"
| "eventFrom w (TransportServerUpdated ts) = (\<exists>key. cwTransportServerByKey w key = Inr (Some ts))"
| "eventFrom w _ = True"

lemma eventFrom_plain: "goodWorld fl w \<Longrightarrow> eventFrom w ev \<Longrightarrow> plainEvent ev"
  by (cases ev) (auto simp: goodWorld_def)

lemma stored_entries:
  "(k, v) \<in> set (gdel k0 m) \<Longrightarrow> (k, v) \<in> set m" "(k, v) \<in> set (gput k0 v0 m) \<Longrightarrow> v = v0 \<or> (k, v) \<in> set m"
  by (auto simp: gdel_def AList.delete_eq dest: gput_snd)

lemma handleEvent_sound:
  assumes cfg: "soundConfiguration fl cfg" and world: "goodWorld fl w" and ev: "eventFrom w ev"
    and out: "handleEvent ev cfg = Some (cfg', changes, problems)"
  shows "soundConfiguration fl cfg' \<and> stepsTo cfg changes cfg' \<and> updatesHeld cfg' changes"
proof -
  have step: "inStep cfg" and valid: "validObjects cfg" using cfg by (simp_all add: soundConfiguration_def)
  note plain = eventFrom_plain [OF world ev]
  have steps: "stepsTo cfg changes cfg'" using handleEvent_step [OF step plain] out by (simp add: staysInStep_def)
  have "validObjects cfg'" using handleEvent_valid [OF valid, of ev] out by (auto simp: keepsValid_def)
  moreover have "cIsPlus cfg' = kcIsNginxPlus fl" using handleEvent_settings [OF out] cfg by (simp add: settingsOf_def soundConfiguration_def)
  moreover have "readableIngress ing" if "(k, ing) \<in> set (cIngresses cfg')" for k ing
  proof -
    have "cIngresses cfg' = cIngresses (storedAfter ev cfg)" using handleEvent_objects [OF out] by (simp add: objectsOf_def)
    then have "(k, ing) \<in> set (cIngresses cfg) \<or> ev = IngressUpdated ing"
      using that by (cases ev) (auto simp: storedAfter_def storeIngress_def storeVirtualServer_def storeTransportServer_def
          dest: stored_entries split: if_splits)
    then show ?thesis using cfg world ev by (auto simp: soundConfiguration_def goodWorld_def)
  qed
  moreover have "updatesHeld cfg' changes" using handleEvent_held [OF step plain] out by (auto simp: heldOutcome_def)
  ultimately show ?thesis using steps by (simp add: soundConfiguration_def stepsTo_def)
qed

definition handled :: "controllerWorld \<Rightarrow> event \<Rightarrow> Controller \<Rightarrow> Controller \<Rightarrow> bool" where
  "handled w ev c c' =
     (\<exists>changes problems. handleEvent ev (ctConfiguration c) = Some (ctConfiguration c', changes, problems) \<and> soundRest c'
        \<and> (templatesWork (cwCnf w) \<longrightarrow> confNames (ctConfigurator c') = fold fileAfter changes (confNames (ctConfigurator c))))"

lemma handled_reports [simp]: "handled w ev c (addReports rs c') = handled w ev c c'"
  by (simp add: handled_def)

lemma event_outcome:
  assumes run: "running fl c" and world: "goodWorld fl w" and ev: "eventFrom w ev"
  obtains cfg changes problems where "handleEvent ev (ctConfiguration c) = Some (cfg, changes, problems)"
    "running fl (c\<lparr>ctConfiguration := cfg\<rparr>)" "updatesHeld cfg changes"
proof -
  have cfg: "soundConfiguration fl (ctConfiguration c)" using run by (simp add: running_def)
  then have "inStep (ctConfiguration c)" by (simp add: soundConfiguration_def)
  from handleEvent_step [OF this eventFrom_plain [OF world ev]]
  obtain cfg' changes problems where out: "handleEvent ev (ctConfiguration c) = Some (cfg', changes, problems)"
    unfolding staysInStep_def by blast
  from handleEvent_sound [OF cfg world ev out] run show ?thesis
    by (intro that [OF out]) (simp_all add: running_def soundRest_def storeOf_def)
qed

lemma handledI:
  assumes "handleEvent ev (ctConfiguration c) = Some (cfg, changes, problems)" and "running fl (c\<lparr>ctConfiguration := cfg\<rparr>)"
    and "applied w (fold fileAfter changes) (c\<lparr>ctConfiguration := cfg\<rparr>) c'"
  shows "handled w ev c c'"
  using assms by (simp add: handled_def applied_def running_def)

lemma processOutcome_handled:
  assumes run: "running fl c" and world: "goodWorld fl w" and ev: "eventFrom w ev"
  shows "\<exists>c'. processOutcome w (handleEvent ev (ctConfiguration c)) c = Some c' \<and> handled w ev c c'"
proof -
  obtain cfg changes problems where out: "handleEvent ev (ctConfiguration c) = Some (cfg, changes, problems)"
    "running fl (c\<lparr>ctConfiguration := cfg\<rparr>)" "updatesHeld cfg changes" by (rule event_outcome [OF assms])
  then obtain c' where "processChanges w changes (c\<lparr>ctConfiguration := cfg\<rparr>) = Some c'"
    "applied w (fold fileAfter changes) (c\<lparr>ctConfiguration := cfg\<rparr>) c'"
    using processChanges_applied [OF out(2) world] by auto
  then show ?thesis using handledI [OF out(1,2)] by (simp add: processOutcome_def out(1) processProblems_def)
qed

text \<open>The changes of a GlobalConfiguration concern TransportServers, which have no file in the directory.\<close>

lemma transport_changes_files:
  "\<forall>ch\<in>set changes. \<exists>tsc. rcResource ch = TransportServerRes tsc \<Longrightarrow> fold fileAfter changes names = names"
  by (induction changes arbitrary: names) (auto simp: fileAfter_def split: Operation.split)

lemma globalChanges_total:
  assumes "\<forall>ch\<in>set changes. \<exists>tsc. rcResource ch = TransportServerRes tsc"
  shows "\<exists>updated deleted. globalChanges changes = Some (updated, deleted)
    \<and> (\<forall>tsc\<in>set updated. \<exists>ch\<in>set changes. rcOp ch = AddOrUpdate \<and> rcResource ch = TransportServerRes tsc)"
  using assms
proof (induction changes)
  case (Cons ch changes)
  then obtain updated deleted where rest: "globalChanges changes = Some (updated, deleted)"
    "\<forall>tsc\<in>set updated. \<exists>ch\<in>set changes. rcOp ch = AddOrUpdate \<and> rcResource ch = TransportServerRes tsc" by auto
  obtain tsc where tsc: "rcResource ch = TransportServerRes tsc" using Cons.prems by auto
  show ?case using rest tsc by (cases "rcOp ch") auto
qed simp

lemma processGlobal_applied:
  assumes run: "running fl c" and held: "updatesHeld (ctConfiguration c) changes"
    and transport: "\<forall>ch\<in>set changes. \<exists>tsc. rcResource ch = TransportServerRes tsc"
  shows "\<exists>err c'. processChangesFromGlobalConfiguration w changes c = Some (err, c') \<and> applied w (fold fileAfter changes) c c'"
proof -
  obtain updated deleted where gc: "globalChanges changes = Some (updated, deleted)"
    "\<forall>tsc\<in>set updated. \<exists>ch\<in>set changes. rcOp ch = AddOrUpdate \<and> rcResource ch = TransportServerRes tsc"
    using globalChanges_total [OF transport] by blast
  let ?txs = "map (\<lambda>tsc. createTransportServerEx (envOf w c) (tscTransportServer tsc) (tscListenerPort tsc)) updated"
  have cfg: "soundConfiguration fl (ctConfiguration c)" and jwt: "cpJWTKey (cnCfgParams (ctConfigurator c)) = ''''"
    using run by (simp_all add: running_def soundRest_def)
  have "holder (ctConfiguration c) (TransportServerRes tsc)" if "tsc \<in> set updated" for tsc
    using gc(2) that held unfolding updatesHeld_def by metis
  then have "\<forall>x\<in>set ?txs. generableTransportServer x" using extended_transport_server [OF cfg] by auto
  from UpdateTransportServers_returns [OF this jwt] obtain ws err cnf
    where cnf: "UpdateTransportServers (cwCnf w) ?txs deleted (ctConfigurator c) = Some (ws, err, cnf)" "grew {} (ctConfigurator c) cnf"
    unfolding returns_def by blast
  have "applied w (\<lambda>names. names) c (withConfigurator cnf c)"
    using cnf(2) by (intro applied_withConfigurator) (auto simp: grew_def)
  moreover have "fold fileAfter changes = (\<lambda>names. names)" using transport_changes_files [OF transport] by (intro ext)
  ultimately show ?thesis using gc(1) cnf(1) by (simp add: processChangesFromGlobalConfiguration_def Let_def)
qed

lemma global_changes_transport:
  assumes "inStep c" and "handleEvent ev c = Some (c', changes, problems)"
    and "ev = GlobalConfigurationRemoved \<or> (\<exists>gc. ev = GlobalConfigurationUpdated gc)"
  shows "\<forall>ch\<in>set changes. \<exists>tsc. rcResource ch = TransportServerRes tsc"
proof -
  obtain g where "rebuildListeners (c\<lparr>cGlobalConfiguration := g\<rparr>) = Some (c', changes, problems)"
    using assms(2,3) by (auto simp: AddOrUpdateGlobalConfiguration_def DeleteGlobalConfiguration_def Let_def split: option.splits)
  then show ?thesis using rebuildListeners_transport nextObjects_events(5) [OF assms(1)] unfolding nextObjects_def by blast
qed

lemma processGlobalOutcome_handled:
  assumes run: "running fl c" and world: "goodWorld fl w"
    and ev: "ev = GlobalConfigurationRemoved \<or> (\<exists>gc. ev = GlobalConfigurationUpdated gc)"
  shows "\<exists>c'. processGlobalOutcome w (handleEvent ev (ctConfiguration c)) event c = Some c' \<and> handled w ev c c'"
proof -
  have "eventFrom w ev" using ev by auto
  from event_outcome [OF run world this] obtain cfg changes problems
    where out: "handleEvent ev (ctConfiguration c) = Some (cfg, changes, problems)"
      "running fl (c\<lparr>ctConfiguration := cfg\<rparr>)" "updatesHeld cfg changes" by blast
  have "inStep (ctConfiguration c)" using run by (simp add: running_def soundConfiguration_def)
  note transport = global_changes_transport [OF this out(1) ev]
  have "updatesHeld (ctConfiguration (c\<lparr>ctConfiguration := cfg\<rparr>)) changes" using out(3) by simp
  from processGlobal_applied [OF out(2) this transport]
  obtain err c' where "processChangesFromGlobalConfiguration w changes (c\<lparr>ctConfiguration := cfg\<rparr>) = Some (err, c')"
    "applied w (fold fileAfter changes) (c\<lparr>ctConfiguration := cfg\<rparr>) c'" by blast
  then show ?thesis using handledI [OF out(1,2)] by (simp add: processGlobalOutcome_def out(1) processProblems_def)
qed


section \<open>Tasks\<close>

text \<open>
  A task either leaves the Configuration alone, and rewrites files of holders, or is an event of
  the Configuration whose changes it applies one after the other.
\<close>

definition worked :: "controllerWorld \<Rightarrow> Controller \<Rightarrow> Controller \<Rightarrow> bool" where
  "worked w c c' = (proceeds (heldFiles (ctConfiguration c)) c c' \<or> (\<exists>ev. eventFrom w ev \<and> handled w ev c c'))"

lemma completes_worked: "completes c r \<Longrightarrow> \<exists>c'. r = Some c' \<and> worked w c c'"
  by (auto simp: completes_def worked_def)

lemma handled_worked: "eventFrom w ev \<Longrightarrow> \<exists>c'. r = Some c' \<and> handled w ev c c' \<Longrightarrow> \<exists>c'. r = Some c' \<and> worked w c c'"
  by (auto simp: worked_def)

lemma idle_worked: "\<exists>c'. Some c = Some c' \<and> worked w c c'"
  by (simp add: worked_def)

lemma event_tasks_work:
  assumes run: "running fl c" and world: "goodWorld fl w"
  shows "\<exists>c'. syncIngress w key c = Some c' \<and> worked w c c'" "\<exists>c'. syncVirtualServer w key c = Some c' \<and> worked w c c'"
    "\<exists>c'. syncVirtualServerRoute w key c = Some c' \<and> worked w c c'" "\<exists>c'. syncTransportServer w key c = Some c' \<and> worked w c c'"
    "\<exists>c'. syncGlobalConfiguration w key c = Some c' \<and> worked w c c'"
proof -
  have event: "\<exists>c'. processOutcome w (handleEvent ev (ctConfiguration c)) c = Some c' \<and> worked w c c'" if "eventFrom w ev" for ev
    by (rule handled_worked [OF that processOutcome_handled [OF run world that]])
  have global: "\<exists>c'. processGlobalOutcome w (handleEvent ev (ctConfiguration c)) report c = Some c' \<and> worked w c c'"
    if "ev = GlobalConfigurationRemoved \<or> (\<exists>gc. ev = GlobalConfigurationUpdated gc)" for ev report
    by (rule handled_worked [OF _ processGlobalOutcome_handled [OF run world that]]) (use that in auto)
  show "\<exists>c'. syncIngress w key c = Some c' \<and> worked w c c'"
    using event [of "IngressRemoved key"] event [of "IngressUpdated ing" for ing] idle_worked [of c w]
    by (auto simp: syncIngress_def split: sum.split option.split)
  show "\<exists>c'. syncVirtualServer w key c = Some c' \<and> worked w c c'"
    using event [of "VirtualServerRemoved key"] event [of "VirtualServerUpdated vs" for vs] idle_worked [of c w]
    by (auto simp: syncVirtualServer_def split: sum.split option.split)
  show "\<exists>c'. syncVirtualServerRoute w key c = Some c' \<and> worked w c c'"
    using event [of "VirtualServerRouteRemoved key"] event [of "VirtualServerRouteUpdated vsr" for vsr] idle_worked [of c w]
    by (auto simp: syncVirtualServerRoute_def split: sum.split option.split)
  show "\<exists>c'. syncTransportServer w key c = Some c' \<and> worked w c c'"
    using event [of "TransportServerRemoved key"] event [of "TransportServerUpdated ts" for ts] idle_worked [of c w]
    by (auto simp: syncTransportServer_def split: sum.split option.split)
  show "\<exists>c'. syncGlobalConfiguration w key c = Some c' \<and> worked w c c'"
    using global [of GlobalConfigurationRemoved] global [of "GlobalConfigurationUpdated gc" for gc] idle_worked [of c w]
    by (auto simp: syncGlobalConfiguration_def case_prod_beta split: sum.split option.split)
qed

lemma sync_works:
  assumes "running fl c" and "goodWorld fl w"
  shows "\<exists>c'. sync w t c = Some c' \<and> worked w c c'"
  using event_tasks_work [OF assms] completes_worked [OF syncEndpoints_completes [OF assms]]
    completes_worked [OF syncConfigMap_completes [OF assms]] completes_worked [OF syncSecret_completes [OF assms]]
    completes_worked [OF syncService_completes [OF assms]] completes_worked [OF syncPolicy_completes [OF assms]]
    completes_worked [OF syncAppProtect_complete(1) [OF assms]] completes_worked [OF syncAppProtect_complete(2) [OF assms]]
    completes_worked [OF syncAppProtectUserSig_completes [OF assms]] completes_worked [OF syncIngressLink_completes]
  by (simp add: sync_def split: kind.split)

lemma worked_running:
  assumes run: "running fl c" and world: "goodWorld fl w" and work: "worked w c c'"
  shows "running fl c'"
  using work unfolding worked_def
proof (elim disjE exE conjE)
  fix ev assume ev: "eventFrom w ev" and "handled w ev c c'"
  then obtain changes problems where "handleEvent ev (ctConfiguration c) = Some (ctConfiguration c', changes, problems)" "soundRest c'"
    by (auto simp: handled_def)
  then show ?thesis using handleEvent_sound [OF _ world ev] run by (auto simp: running_def)
qed (rule proceeds_running [OF _ run])

section \<open>The directory follows the holders\<close>

definition plainObjects :: "Configuration \<Rightarrow> bool" where
  "plainObjects cfg = (gkeys (cIngresses cfg) \<subseteq> ingressKeys \<and> gkeys (cVirtualServers cfg) \<subseteq> virtualServerKeys)"

lemma holder_plain:
  assumes step: "inStep cfg" and plain: "plainObjects cfg" and held: "holder cfg r"
  shows "plainResourceKey r"
proof (cases "\<exists>h. gget (cHosts cfg) h = Some r")
  case True
  then obtain h where h: "gget (cHosts cfg) h = Some r" by blast
  obtain res where tab: "hostTable cfg (cHosts cfg) res" using inStepD(3) [OF step] by (auto simp: hostsInStep_def)
  have "plainResource r \<in> resourcesOf cfg" by (rule hostTableD(5) [OF tab table_latest [OF tab h]])
  from resource_stored [OF inStepD(1) [OF step] this] plain show ?thesis
    by (cases r) (auto simp: plainObjects_def ghas_iff kind_defs)
next
  case False
  then show ?thesis using held by (auto simp: holder_def)
qed

fun plainNames :: "event \<Rightarrow> bool" where
  "plainNames (IngressUpdated ing) = (getResourceKey (ingMeta ing) \<in> ingressKeys)"
| "plainNames (VirtualServerUpdated vs) = (getResourceKey (vsMeta vs) \<in> virtualServerKeys)"
| "plainNames _ = True"

lemma handleEvent_plainObjects:
  assumes plain: "plainObjects cfg" and names: "plainNames ev" and out: "handleEvent ev cfg = Some (cfg', changes, problems)"
  shows "plainObjects cfg'"
proof -
  have "plainObjects (storedAfter ev cfg)"
    using plain names by (cases ev) (auto simp: storedAfter_def plainObjects_def storeIngress_def storeVirtualServer_def storeTransportServer_def)
  moreover have "cIngresses cfg' = cIngresses (storedAfter ev cfg)" "cVirtualServers cfg' = cVirtualServers (storedAfter ev cfg)"
    using handleEvent_objects [OF out] by (simp_all add: objectsOf_def)
  ultimately show ?thesis by (simp add: plainObjects_def)
qed

definition followed :: "Controller \<Rightarrow> bool" where
  "followed c =
     (plainObjects (ctConfiguration c)
      \<and> (\<exists>files. filesRight (ctConfiguration c) files \<and> plainTable files \<and> confNames (ctConfigurator c) = tableFiles files))"

lemma followed_held: "followed c \<Longrightarrow> confNames (ctConfigurator c) = heldFiles (ctConfiguration c)"
  unfolding followed_def using right_files_are_held by metis

lemma handled_followed:
  assumes run: "running fl c" and world: "goodWorld fl w" and ev: "eventFrom w ev" and names: "plainNames ev"
    and templates: "templatesWork (cwCnf w)" and work: "handled w ev c c'" and follows: "followed c"
  shows "followed c'"
proof -
  let ?cfg = "ctConfiguration c" and ?cfg' = "ctConfiguration c'"
  obtain changes problems where out: "handleEvent ev ?cfg = Some (?cfg', changes, problems)"
    "confNames (ctConfigurator c') = fold fileAfter changes (confNames (ctConfigurator c))"
    using work templates by (auto simp: handled_def)
  obtain files where files: "filesRight ?cfg files" "plainTable files" "confNames (ctConfigurator c) = tableFiles files"
    and plain: "plainObjects ?cfg" using follows by (auto simp: followed_def)
  have cfg: "soundConfiguration fl ?cfg" using run by (simp add: running_def)
  then have step: "inStep ?cfg" by (simp add: soundConfiguration_def)
  have steps: "inStep ?cfg'" "carriesFiles ?cfg changes ?cfg'"
    using handleEvent_sound [OF cfg world ev out(1)] by (simp_all add: stepsTo_def)
  have plain': "plainObjects ?cfg'" by (rule handleEvent_plainObjects [OF plain names out(1)])
  have "plainResourceKey (rcResource ch)" if ch: "ch \<in> set changes" for ch
  proof -
    obtain r where "holder ?cfg r \<or> holder ?cfg' r" "changeKey ch = GetKeyWithKind r"
      using handleEvent_mentions [OF step eventFrom_plain [OF world ev]] out(1) ch unfolding mentionsHolders_def by metis
    then show ?thesis
      using holder_plain [OF step plain] holder_plain [OF steps(1) plain'] plainResourceKey_key [of "rcResource ch" r]
      unfolding changeKey_def by metis
  qed
  then have "plainTable (applyChanges changes files)" "tableFiles (applyChanges changes files) = fold fileAfter changes (tableFiles files)"
    using applyChanges_files [OF files(2)] by simp_all
  moreover have "filesRight ?cfg' (applyChanges changes files)" using steps(2) files(1) by (simp add: carriesFiles_def)
  ultimately show ?thesis using plain' files(3) out(2) unfolding followed_def by metis
qed

lemma proceeds_followed:
  assumes "proceeds (heldFiles (ctConfiguration c)) c c'" and "followed c"
  shows "followed c'"
proof -
  have "confNames (ctConfigurator c') = confNames (ctConfigurator c)" "ctConfiguration c' = ctConfiguration c"
    using assms(1) followed_held [OF assms(2)] by (auto simp: proceeds_def grew_def)
  with assms(2) show ?thesis by (simp add: followed_def)
qed


section \<open>Runs of the controller\<close>

definition classObjectOf :: "RuntimeObject \<Rightarrow> classObject" where
  "classObjectOf obj =
     (case obj of
        IngressObj ing \<Rightarrow> ClassIngress ing
      | VirtualServerObj vs \<Rightarrow> ClassVirtualServer vs
      | VirtualServerRouteObj vsr \<Rightarrow> ClassVirtualServerRoute vsr
      | TransportServerObj ts \<Rightarrow> ClassTransportServer ts)"

text \<open>The start: an empty configuration and an empty store of secrets, over a Configurator.\<close>

definition NewLoadBalancerController ::
    "controllerFlags \<Rightarrow> bool \<Rightarrow> VirtualServerValidator \<Rightarrow> GlobalConfigurationValidator \<Rightarrow> TransportServerValidator \<Rightarrow> bool
       \<Rightarrow> Configurator \<Rightarrow> Controller" where
  "NewLoadBalancerController fl internalRoutesEnabled vsv gcv tsv isTLSPassthroughEnabled configurator =
     \<lparr>ctConfiguration = NewConfiguration (\<lambda>obj. HasCorrectIngressClass fl (classObjectOf obj)) (kcIsNginxPlus fl) (kcAppProtectEnabled fl)
        internalRoutesEnabled vsv gcv tsv isTLSPassthroughEnabled,
      ctConfigurator = configurator, ctSecrets = [], ctAppProtect = newConfigurationImpl, ctStatus = newStatusUpdater,
      ctReports = []\<rparr>"

text \<open>
  A run: tasks of the queue, each in a world of its own, and rotations of the SPIFFE certificates.
  The one map that the code ranges over in no particular order may be reordered at any time.
\<close>

inductive runs :: "(controllerWorld \<Rightarrow> bool) \<Rightarrow> Controller \<Rightarrow> Controller \<Rightarrow> bool" for W :: "controllerWorld \<Rightarrow> bool" and c0 :: Controller where
  runs_start: "runs W c0 c0"
| runs_task: "runs W c0 c \<Longrightarrow> W w \<Longrightarrow> sync w t c = Some c' \<Longrightarrow> runs W c0 c'"
| runs_rotation: "runs W c0 c \<Longrightarrow> W w \<Longrightarrow> runs W c0 (syncSVIDRotation w key certificates trustBundle c)"
| runs_reorder: "runs W c0 c \<Longrightarrow> mset ts = mset (cTransportServers (ctConfiguration c))
    \<Longrightarrow> runs W c0 (c\<lparr>ctConfiguration := (ctConfiguration c)\<lparr>cTransportServers := ts\<rparr>\<rparr>)"

lemma start_running:
  assumes "cpJWTKey (cnCfgParams cnf) = ''''"
  shows "running fl (NewLoadBalancerController fl ir vsv gcv tsv tls cnf)"
proof -
  let ?cfg = "ctConfiguration (NewLoadBalancerController fl ir vsv gcv tsv tls cnf)"
  have "inStep ?cfg" unfolding NewLoadBalancerController_def Controller.select_convs by (rule start_inStep [OF refl])
  moreover have "validObjects ?cfg" "cIsPlus ?cfg = kcIsNginxPlus fl" "cIngresses ?cfg = []"
    by (simp_all add: NewLoadBalancerController_def NewConfiguration_def validObjects_def)
  ultimately show ?thesis
    using assms by (simp add: running_def soundConfiguration_def soundRest_def soundStore_def storeOf_def NewLoadBalancerController_def)
qed

lemma AddOrUpdateSpiffeCerts_grew:
  assumes "AddOrUpdateSpiffeCerts env key certificates trustBundle cnf = (err, cnf')"
  shows "grew N cnf cnf'"
proof (cases key)
  case (Inr keyPem)
  let ?f = "\<lambda>(name, content) lm. snd (lmCreateSecret name content lm)"
  have "grew N cnf (onManager (fold ?f files) cnf)" for files
    by (rule onManager_grew, rule fold_dir) (simp add: lmCreateSecret_def Let_def split: prod.split)
  note secrets = this
  show ?thesis
    using assms grew_trans [OF secrets cnfReload_grew] unfolding AddOrUpdateSpiffeCerts_def Inr sum.case by blast
qed (use assms in \<open>simp add: AddOrUpdateSpiffeCerts_def\<close>)

lemma rotation_proceeds: "proceeds N c (syncSVIDRotation w key certificates trustBundle c)"
  unfolding syncSVIDRotation_def by (rule withConfigurator_proceeds) (metis AddOrUpdateSpiffeCerts_grew prod.collapse)

lemma reorder_running:
  assumes run: "running fl c" and ts: "mset ts = mset (cTransportServers (ctConfiguration c))"
  shows "running fl (c\<lparr>ctConfiguration := (ctConfiguration c)\<lparr>cTransportServers := ts\<rparr>\<rparr>)"
proof -
  let ?cfg = "ctConfiguration c"
  have cfg: "soundConfiguration fl ?cfg" using run by (simp add: running_def)
  then have step: "inStep ?cfg" and valid: "validObjects ?cfg" by (simp_all add: soundConfiguration_def)
  have "wf_gomap (cTransportServers ?cfg)" using inStepD(5) [OF step] by (simp add: keyedBy_def)
  note same = reorder_lookup(2) [OF this ts]
  have "validObjects (?cfg\<lparr>cTransportServers := ts\<rparr>)" using valid by (simp add: validObjects_def same)
  with reorder_step [OF step ts] cfg run show ?thesis
    by (simp add: running_def soundConfiguration_def soundRest_def storeOf_def)
qed


definition plainWorld :: "controllerWorld \<Rightarrow> bool" where
  "plainWorld w =
     ((\<forall>key ing. cwIngressByKey w key = Inr (Some ing) \<longrightarrow> getResourceKey (ingMeta ing) \<in> ingressKeys)
      \<and> (\<forall>key vs. cwVirtualServerByKey w key = Inr (Some vs) \<longrightarrow> getResourceKey (vsMeta vs) \<in> virtualServerKeys))"

lemma worked_followed:
  assumes run: "running fl c" and world: "goodWorld fl w" and plain: "plainWorld w" and templates: "templatesWork (cwCnf w)"
    and work: "worked w c c'" and follows: "followed c"
  shows "followed c'"
  using work unfolding worked_def
proof (elim disjE exE conjE)
  fix ev assume ev: "eventFrom w ev" and handled: "handled w ev c c'"
  have "plainNames ev" using plain ev by (cases ev) (auto simp: plainWorld_def)
  from handled_followed [OF run world ev this templates handled follows] show ?thesis .
qed (rule proceeds_followed [OF _ follows])

lemma runs_followed:
  assumes "runs (\<lambda>w. goodWorld fl w \<and> plainWorld w \<and> templatesWork (cwCnf w)) c0 c" and "running fl c0" and "followed c0"
  shows "running fl c \<and> followed c"
  using assms
proof (induction rule: runs.induct)
  case (runs_task c w t c')
  then obtain c'' where "sync w t c = Some c''" "worked w c c''" using sync_works [of fl c w t] by blast
  with runs_task show ?case using worked_running worked_followed by auto
next
  case (runs_rotation c w key certificates trustBundle)
  then show ?case using proceeds_running [OF rotation_proceeds] proceeds_followed [OF rotation_proceeds] by blast
next
  case (runs_reorder c ts)
  then have "followed c" by simp
  then have "followed (c\<lparr>ctConfiguration := (ctConfiguration c)\<lparr>cTransportServers := ts\<rparr>\<rparr>)"
    by (simp add: followed_def plainObjects_def filesRight_def)
  with runs_reorder reorder_running show ?case by blast
qed simp

lemma start_followed:
  assumes "confNames cnf = {}"
  shows "followed (NewLoadBalancerController fl ir vsv gcv tsv tls cnf)"
proof -
  have "filesRight (ctConfiguration (NewLoadBalancerController fl ir vsv gcv tsv tls cnf)) []"
    unfolding NewLoadBalancerController_def Controller.select_convs by (rule start_filesRight [OF refl])
  moreover have "plainTable []" "tableFiles [] = {}" by (simp_all add: plainTable_def tableFiles_def)
  ultimately show ?thesis
    using assms by (auto simp: followed_def plainObjects_def NewLoadBalancerController_def NewConfiguration_def)
qed


section \<open>A sample cluster\<close>

definition ossFlags :: controllerFlags where
  "ossFlags = sampleFlags\<lparr>kcIsNginxPlus := False\<rparr>"

definition sampleTemplates :: templates where
  "sampleTemplates =
     \<lparr>teParse = (\<lambda>_. None), teMain = (\<lambda>_ _. Inr ''main''), teIngress = (\<lambda>_ _. Inr ''ingress''),
      teVirtualServer = (\<lambda>_ _. Inr ''virtual server''), teTransportServer = (\<lambda>_. Inr ''transport server''), teMarshal = (\<lambda>_. '''')\<rparr>"

definition sampleNginx :: nginxWorld where
  "sampleNginx =
     \<lparr>nwShell = (\<lambda>_ _. None), nwVersionPolls = (\<lambda>v. [Inr v]), nwVersionCheck = (\<lambda>_ _. None), nwUpdateHTTPServers = (\<lambda>_. None),
      nwUpdateStreamServers = (\<lambda>_. None), nwWriteDHParam = (\<lambda>_. None), nwWriteTracerConfig = (\<lambda>_. None)\<rparr>"

text \<open>The cache has one Ingress, \<open>n/a\<close>.\<close>

definition sampleWorld :: controllerWorld where
  "sampleWorld =
     \<lparr>cwFlags = ossFlags,
      cwListers = \<lparr>lsServiceByKey = (\<lambda>_. Inr None), lsPodByKey = (\<lambda>_. Inr None), lsPods = (\<lambda>_ _. Inr []), lsEndpoints = [],
        lsPolicyByKey = (\<lambda>_. Inr None), lsPolicies = []\<rparr>,
      cwNet = sampleNet, cwCrypto = sampleLib, cwTime = (\<lambda>_. Inl ''no time''),
      cwCnf = \<lparr>ceWorld = sampleNginx, ceTemplates = sampleTemplates\<rparr>,
      cwReportIngressStatus = True, cwIsLeaderElectionEnabled = False, cwIsLeader = False, cwAreCustomResourcesEnabled = True,
      cwIngressByKey = (\<lambda>key. Inr (if key = ''n/a'' then Some olderIngress else None)),
      cwVirtualServerByKey = (\<lambda>_. Inr None), cwVirtualServerRouteByKey = (\<lambda>_. Inr None), cwTransportServerByKey = (\<lambda>_. Inr None),
      cwGlobalConfigurationByKey = (\<lambda>_. Inr None), cwPolicyByKey = (\<lambda>_. Inr None), cwEndpointsByKey = (\<lambda>_. Inr None),
      cwSecretByKey = (\<lambda>_. Inr None), cwConfigMapByKey = (\<lambda>_. Inr None), cwAppProtectPolicyByKey = (\<lambda>_. Inr None),
      cwAppProtectLogConfByKey = (\<lambda>_. Inr None), cwAppProtectUserSigByKey = (\<lambda>_. Inr None), cwServiceByKey = (\<lambda>_. Inr None),
      cwIngressLinkByKey = (\<lambda>_. Inr None), cwExternalService = (''n'', ''lb'')\<rparr>"

definition sampleConfigurator :: Configurator where
  "sampleConfigurator =
     NewConfigurator (NewLocalManager ''/etc/nginx'' ''nginx'') sampleStatic NewDefaultConfigParams NewDefaultGlobalConfigParams False False
       \<lparr>luUpstreamServerLabels = [], luUpstreamServerPeerLabels = [], luServerZoneLabels = [], luStreamUpstreamServerLabels = [],
        luStreamUpstreamServerPeerLabels = [], luStreamServerZoneLabels = []\<rparr> False None False"

definition sampleController :: Controller where
  "sampleController =
     NewLoadBalancerController ossFlags False \<lparr>vvIsPlus = False, vvRegexpCompile = (\<lambda>_. None)\<rparr> \<lparr>gvForbiddenListenerPorts = []\<rparr>
       \<lparr>tvTlsPassthrough = False, tvSnippetsEnabled = False\<rparr> False sampleConfigurator"

definition sampleTask :: task where
  "sampleTask = \<lparr>tkKind = KindIngress, tkKey = ''n/a''\<rparr>"

lemma olderIngress_meta: "ingMeta olderIngress = sampleMeta ''n'' ''a'' ''u'' 1 []"
  by (simp add: olderIngress_def sampleIngress_def)

lemma sampleWorld_good: "goodWorld ossFlags sampleWorld" "plainWorld sampleWorld" "templatesWork (cwCnf sampleWorld)"
proof -
  have "''n/a'' \<in> ingressKeys"
    unfolding ingressKeys_def by (intro CollectI exI [of _ "''n''"] exI [of _ "''a''"]) simp
  moreover have "readableIngress olderIngress" by (simp add: readableIngress_def olderIngress_meta sampleMeta_def)
  ultimately show "goodWorld ossFlags sampleWorld" "plainWorld sampleWorld"
    by (simp_all add: goodWorld_def plainWorld_def sampleWorld_def policiesKeyed_def olderIngress_meta sampleMeta_def getResourceKey_def
        split: if_splits)
qed (simp add: templatesWork_def sampleWorld_def sampleTemplates_def)

lemma sampleConfigurator_fields: "cpJWTKey (cnCfgParams sampleConfigurator) = ''''" "confNames sampleConfigurator = {}"
  by (simp_all add: sampleConfigurator_def NewConfigurator_def NewDefaultConfigParams_def confNames_def NewLocalManager_def ghas_def)

lemma sample_outcome:
  "(case gget (cHosts (fst (the (AddOrUpdateIngress olderIngress (ctConfiguration sampleController))))) ''x'' of
      Some (IngressRes ic) \<Rightarrow> ingressFile (icIngress ic) = ''n-a'' | _ \<Rightarrow> False)"
  by code_simp

section \<open>Properties\<close>



text \<open>
  C38: The directory of NGINX follows the configuration: after every run of the controller that starts
  with an empty conf.d, the files of conf.d are exactly those of the Ingresses and
  VirtualServers that hold a host, whatever the tasks and their order, and also after tasks that fail
  to reload NGINX. The templates have to work, the objects to be readable (the hypothesis goodWorld), and the keys to
  give unambiguous file names: no slashes in names, no slashes or underscores in namespaces, no dashes
  in the namespaces of Ingresses (with them, Ingresses of two tenants share a file).
\<close>

theorem directory_follows_holders:
  assumes "runs (\<lambda>w. goodWorld fl w \<and> plainWorld w \<and> templatesWork (cwCnf w)) (NewLoadBalancerController fl ir vsv gcv tsv tls cnf) c"
    and "cpJWTKey (cnCfgParams cnf) = ''''" and "confNames cnf = {}"
  shows "confNames (ctConfigurator c) = heldFiles (ctConfiguration c)"
  using runs_followed [OF assms(1) start_running [OF assms(2)] start_followed [OF assms(3)]] followed_held by blast

theorem directory_follows_holders_witness:
  "\<exists>c. sync sampleWorld sampleTask sampleController = Some c \<and> confNames (ctConfigurator c) = heldFiles (ctConfiguration c)
     \<and> ''n-a'' \<in> confNames (ctConfigurator c)"
proof -
  note start = runs_start [of "\<lambda>w. goodWorld ossFlags w \<and> plainWorld w \<and> templatesWork (cwCnf w)" sampleController]
  have run: "running ossFlags sampleController"
    unfolding sampleController_def by (rule start_running [OF sampleConfigurator_fields(1)])
  have "cwIngressByKey sampleWorld ''n/a'' = Inr (Some olderIngress)" by (simp add: sampleWorld_def)
  then have ev: "eventFrom sampleWorld (IngressUpdated olderIngress)"
    and sync: "sync sampleWorld sampleTask sampleController
      = processOutcome sampleWorld (handleEvent (IngressUpdated olderIngress) (ctConfiguration sampleController)) sampleController"
    by (auto simp: sync_def sampleTask_def syncIngress_def)
  obtain c where c: "sync sampleWorld sampleTask sampleController = Some c" "handled sampleWorld (IngressUpdated olderIngress) sampleController c"
    using processOutcome_handled [OF run sampleWorld_good(1) ev] unfolding sync by blast
  have same: "confNames (ctConfigurator c) = heldFiles (ctConfiguration c)"
    using directory_follows_holders [OF runs_task [OF start _ c(1), unfolded sampleController_def] sampleConfigurator_fields]
      sampleWorld_good by blast
  have "ctConfiguration c = fst (the (AddOrUpdateIngress olderIngress (ctConfiguration sampleController)))"
    using c(2) by (auto simp: handled_def)
  with sample_outcome obtain ic where "gget (cHosts (ctConfiguration c)) ''x'' = Some (IngressRes ic)" "ingressFile (icIngress ic) = ''n-a''"
    by (auto split: option.splits Resource.splits)
  then have "''n-a'' \<in> heldFiles (ctConfiguration c)" by (auto simp: heldFiles_def holder_def intro!: exI [of _ "IngressRes ic"])
  with c(1) same show ?thesis by blast
qed

end
