(* ===== verification/Spec2Isabelle.thy ===== *)
theory Spec2Isabelle
  imports Configuration_Properties VirtualServer_Properties Parsing_Properties Validation_Properties App_Protect_Properties Policy_Properties Secrets_Properties VS_Matches
    TS_Config_Properties Ingress_Config_Properties Controller_Runs
begin

text \<open>
  The NGINX Ingress Controller (\<open>src/nginx/kic-1.11.1\<close>), modelled from its Go sources. The paths
  below are relative to that directory. The rest of the repository is scripts, charts and
  manifests that install clusters around it.

  \<^bold>\<open>The program.\<close> The controller watches a Kubernetes cluster and keeps NGINX configured. An
  event puts a task, a kind of resource and a key, on a queue; one worker takes the tasks one by
  one (\<open>internal/k8s/controller.go\<close>, \<open>sync\<close>). A task reads the object from a cache, validates it
  (\<open>internal/k8s/validation.go\<close>, \<open>pkg/apis/configuration/validation\<close>) and stores it in the
  Configuration (\<open>internal/k8s/configuration.go\<close>), which decides who holds which host, path or
  listener and answers with changes and problems. For every change the controller collects what
  the resource refers to (policies, secrets, endpoints) and hands this extended resource to the
  Configurator (\<open>internal/configs\<close>), which generates the data of a configuration, prints it with a
  template, has the NGINX manager (\<open>internal/nginx\<close>) write the file, and reloads. Outcomes become
  events and statuses (\<open>internal/k8s/status.go\<close>).

  \<^bold>\<open>Theories.\<close>

  \<^item> The language and its library: \<open>Go_Prelude\<close> (strings, maps, sets, slices, sorting, the shared
    lemmas and collections), \<open>Go_Strconv\<close>, \<open>Go_Regex\<close> (regular expressions of the sources with a
    leftmost-first matcher), \<open>Field_Errors\<close> (the vendored error lists and name validators).
  \<^item> The objects: \<open>Api_Types\<close> (Ingress, VirtualServer, VirtualServerRoute, TransportServer,
    GlobalConfiguration; policies are in \<open>Policy_Validation\<close>), \<open>Cluster\<close> (core objects and the caches).
  \<^item> Validation: \<open>Parsing_Helpers\<close> (\<open>internal/configs/parsing_helpers.go\<close>), \<open>Validation_Common\<close>,
    \<open>VirtualServer_Validation\<close>, \<open>TransportServer_Validation\<close>, \<open>Policy_Validation\<close>
    (\<open>pkg/apis/configuration/validation\<close>), \<open>Ingress_Validation\<close> (\<open>internal/k8s/validation.go\<close>). The
    theories \<open>Parsing_Properties\<close>, \<open>Validation_Properties\<close>, \<open>VirtualServer_Properties\<close> and
    \<open>Policy_Properties\<close> show which languages the parsers accept and that printing is inverse to
    parsing, what acceptance means, and that accepted texts stay within their quotes in the templates.
  \<^item> The Configuration: \<open>Resources\<close> (the resources and the order that settles contests, a locale
    \<open>contest\<close>), \<open>Config_Changes\<close>, \<open>Config_Hosts\<close>, \<open>Config_Listeners\<close>, \<open>Reference_Checkers\<close>,
    \<open>Configuration\<close> (the operations). Events and runs, the reachable states and their invariant are
    in \<open>Configuration_Lemmas\<close>; \<open>Configuration_Properties\<close> has the theorems: no operation panics, every host
    and listener is held by a claimant no other beats, the outcome does not depend on the order of
    events, rejections are reported, and a consumer that follows the changes has the files of the
    holders. \<open>Sync_Changes\<close> adds that what a change carries is the current holder and valid.
  \<^item> App Protect: \<open>App_Protect\<close> and \<open>App_Protect_Properties\<close> (\<open>internal/k8s/appprotect\<close>).
  \<^item> Secrets: \<open>Secrets\<close> and \<open>Secrets_Properties\<close> (\<open>internal/k8s/secrets\<close>); the locale \<open>secret_files\<close>
    is the interface \<open>SecretFileManager\<close>.
  \<^item> Parameters: \<open>Config_Params\<close>, \<open>Config_Parsing\<close> and \<open>Config_Parsing_Properties\<close>
    (\<open>internal/configs/config_params.go\<close>, \<open>configmaps.go\<close>, \<open>annotations.go\<close>).
  \<^item> The generator of VirtualServers (\<open>internal/configs/virtualserver.go\<close>): \<open>VS_Config_Types\<close>,
    \<open>VS_Policies\<close>, \<open>VS_Upstreams\<close>, \<open>VS_Locations\<close>, \<open>VS_Routing\<close>, \<open>VS_Config\<close>. \<open>VS_Build\<close> has the
    rule by which an invariant of the parts a route adds is an invariant of the whole; with it
    \<open>VS_Config_Properties\<close> shows that names are defined and distinct and that requests go to declared
    upstreams; \<open>VS_Total\<close> when the generator returns, \<open>VS_Matches\<close> what the generated maps compute.
  \<^item> The generators of Ingresses and TransportServers: \<open>Ingress_Config_Types\<close>, \<open>Ingress_Config\<close>,
    \<open>Ingress_Config_Properties\<close> (\<open>internal/configs/ingress.go\<close>), \<open>TS_Config\<close>,
    \<open>TS_Config_Properties\<close> (\<open>internal/configs/transportserver.go\<close>).
  \<^item> The Configurator: \<open>Nginx_Manager\<close> (\<open>internal/nginx/manager.go\<close>, \<open>verify.go\<close>), \<open>Metric_Labels\<close>
    (\<open>internal/metrics/collectors/latency.go\<close>), \<open>Configurator\<close> (\<open>internal/configs/configurator.go\<close>).
    \<open>Configurator_Properties\<close>: every operation returns for the resources the controller builds and
    touches only the files of its arguments. The locale \<open>resource_writer\<close>, an operation that
    writes one resource, is interpreted on the four kinds of resources.
  \<^item> The controller: \<open>Controller_Resources\<close> (the extended resources), \<open>Controller_Properties\<close> (what is
    collected is what the generators read), \<open>Status\<close>, and \<open>Controller_Sync\<close>, which composes all
    of the above into the tasks of the queue and their dispatch. \<open>Controller_Sync_Properties\<close> has the
    invariant of the whole state and shows of each task that it keeps it and returns;
    \<open>Controller_Runs\<close> has the start, the step relation \<open>runs\<close> of tasks in worlds that may change in
    between, and the theorems about all runs: no task panics, and the files of \<open>conf.d\<close> are those of
    the resources that hold a host. The objects in the caches are arbitrary but for the
    predicate \<open>goodWorld\<close>, which excludes the few that crash the code.

  \<^bold>\<open>Conventions.\<close> A struct is a record, an interface with known implementations a datatype, a pointer
  that may be nil and a nil slice an option, an error the left of a sum or an optional text. A Go
  map is an association list with distinct keys; where the code ranges over a map, the model takes the
  order of the list, and theorems hold for every order. A panic (a nil dereference, an index out of
  range) is None, so a theorem that an operation gives Some says that it does not panic. Integers
  keep their width where the code can overflow it. Loops are structural recursions or folds over
  the slices of the code, so everything terminates without fuel; the few that do not follow the structure
  of their data have the length of the remaining text as measure.

  \<^bold>\<open>Where the model and the code differ in ways that no theorem depends on.\<close>
  \<open>compareObjectMetasWithAnnotations\<close> takes a nil and an empty map of annotations for equal, which
  \<open>reflect.DeepEqual\<close> tells apart: the code may report one change more. \<open>validateSplits\<close> adds
  the weights as unbounded integers; the code adds them as \<open>int\<close>, but a weight outside 0 to 100 is an error
  already. Writing to a nil map panics in \<open>mergeMasterAnnotationsIntoMinion\<close>, which a minion cannot have: it
  is one by its annotation. Where two TransportServers share a host, \<open>generateTLSPassthroughHostsConfig\<close>
  keeps whichever Go visits last; the model visits the list in order.

  \<^bold>\<open>Where the code and its documentation differ.\<close> With equal timestamps the greatest UID wins a host
  or a listener (\<open>chooseObjectMetaWinner\<close>); \<open>docs-web\<close> promises the smallest. Keys that a theorem
  excludes (namespaces with dashes for the files of secrets and Ingresses, colliding names of upstreams and
  keys of endpoints, IPv6 addresses of pods) are those where the code does mix up files or
  endpoints; they are shown to fail by lemmas next to the theorems, or by the manifest's findings.

  \<^bold>\<open>Parameters.\<close> What is not under \<open>src\<close>, or is I/O, is an argument of the definitions: the
  compilation of users' regular expressions, the parsers of times, addresses, CIDRs and URLs, the
  certificate and PEM libraries, the caches of client-go (\<open>listers\<close>, \<open>controllerWorld\<close>), the
  templates and the JSON encoder (\<open>configuratorEnv\<close>), the answers of the shell and of the API of
  NGINX Plus (\<open>nginxWorld\<close>), the answers of the Kubernetes API (\<open>statusCluster\<close>). They are arbitrary
  functions unless a theorem says otherwise. \<open>VS_Matches\<close> states the documented rules of NGINX
  for \<open>map\<close> as hypotheses.

  \<^bold>\<open>Not modelled.\<close> The template files and what NGINX makes of them; starting and quitting the
  processes of NGINX; informers, event handlers, gauges and goroutines of the queue; leader
  election and the SPIFFE socket; the syslog and HTTP listeners of the metrics; command-line flags
  and \<open>main\<close>; generated code (deep copies, clients, listers); log messages.
\<close>

end
